(* ===== verification/Z3_Prelude.thy ===== *)
theory Z3_Prelude
  imports Main "HOL-Library.Word"
begin

text \<open>
  Shared vocabulary of the development: the fact collections the component theories fill and
  use, machine-integer types, and generic lemmas on lists, sums of weights and words that
  several components need.
\<close>

named_theorems rw_simps \<open>unfolding facts of the Boolean rewriter\<close>
named_theorems gate_simps \<open>what the gates of a bit-blaster configuration compute\<close>
named_theorems dval_simps \<open>values of digit arrays\<close>
named_theorems bq_simps \<open>values of binary rationals\<close>

type_synonym u32 = "32 word"
type_synonym u64 = "64 word"
type_synonym u8 = "8 word"
type_synonym u16 = "16 word"

subsection \<open>Lists\<close>

lemma sum_list_filter_le:
  fixes f :: "'a \<Rightarrow> nat"
  shows "sum_list (map f (filter P xs)) \<le> sum_list (map f xs)"
  by (induction xs) auto

lemma sum_list_pos_if_mem:
  fixes f :: "'a \<Rightarrow> nat"
  assumes "x \<in> set xs" and "0 < f x"
  shows "0 < sum_list (map f xs)"
  using assms by (induction xs) auto

lemma member_le_sum_list_nat:
  fixes f :: "'a \<Rightarrow> nat"
  shows "x \<in> set xs \<Longrightarrow> f x \<le> sum_list (map f xs)"
  by (induction xs) auto

end
