(* ===== verification/Z3_Expr.thy ===== *)
theory Z3_Expr
  imports Z3_Prelude
begin

text \<open>
  The fragment of the term language of \<^verbatim>\<open>ast/ast.h\<close> that the Boolean rewriter and the
  bit-blaster see: applications of the basic family (\<^verbatim>\<open>true\<close>, \<^verbatim>\<open>not\<close>, \<^verbatim>\<open>and\<close>, ...), the two
  extended gates of the bit-vector family, interpreted constants of a theory, and opaque
  terms.  Terms are hash-consed in the code, so pointer equality there is structural equality
  here.  Sorts, well-sortedness and the evaluation of a term in an interpretation are the
  specification against which the rewriter is verified.
\<close>

subsection \<open>Sorts and terms\<close>

datatype srt = BoolS | TheoryS nat

datatype expr =
    TrueE
  | FalseE
  | NotE expr
  | AndE "expr list"
  | OrE "expr list"
  | EqE expr expr
  | IteE expr expr expr
  | DistinctE "expr list"
  | ImpliesE expr expr
  | XorE expr expr
  | Xor3E expr expr expr
  | CarryE expr expr expr
  | ValueE nat nat \<comment> \<open>unique value \<open>n\<close> of theory sort \<open>s\<close>\<close>
  | TermE srt nat \<comment> \<open>any other term, by its sort and identity\<close>

fun sort_of :: "expr \<Rightarrow> srt" where
  "sort_of (IteE c t e) = sort_of t"
| "sort_of (ValueE s n) = TheoryS s"
| "sort_of (TermE s n) = s"
| "sort_of e = BoolS"

definition is_bool :: "expr \<Rightarrow> bool" where
  "is_bool e \<longleftrightarrow> sort_of e = BoolS"

text \<open>Well-sorted terms: what \<^verbatim>\<open>ast_manager::mk_app\<close> accepts.\<close>

fun wt :: "expr \<Rightarrow> bool" where
  "wt (NotE a) \<longleftrightarrow> wt a \<and> is_bool a"
| "wt (AndE xs) \<longleftrightarrow> (\<forall>x \<in> set xs. wt x \<and> is_bool x)"
| "wt (OrE xs) \<longleftrightarrow> (\<forall>x \<in> set xs. wt x \<and> is_bool x)"
| "wt (EqE a b) \<longleftrightarrow> wt a \<and> wt b \<and> sort_of a = sort_of b"
| "wt (IteE c t e) \<longleftrightarrow> wt c \<and> is_bool c \<and> wt t \<and> wt e \<and> sort_of t = sort_of e"
| "wt (DistinctE xs) \<longleftrightarrow> (\<forall>x \<in> set xs. wt x \<and> sort_of x = sort_of (hd xs))"
| "wt (ImpliesE a b) \<longleftrightarrow> wt a \<and> is_bool a \<and> wt b \<and> is_bool b"
| "wt (XorE a b) \<longleftrightarrow> wt a \<and> is_bool a \<and> wt b \<and> is_bool b"
| "wt (Xor3E a b c) \<longleftrightarrow> wt a \<and> is_bool a \<and> wt b \<and> is_bool b \<and> wt c \<and> is_bool c"
| "wt (CarryE a b c) \<longleftrightarrow> wt a \<and> is_bool a \<and> wt b \<and> is_bool b \<and> wt c \<and> is_bool c"
| "wt e \<longleftrightarrow> True"

subsection \<open>Recognisers\<close>

fun is_true :: "expr \<Rightarrow> bool" where
  "is_true TrueE = True"
| "is_true e = False"

fun is_false :: "expr \<Rightarrow> bool" where
  "is_false FalseE = True"
| "is_false e = False"

fun is_not :: "expr \<Rightarrow> bool" where
  "is_not (NotE a) = True"
| "is_not e = False"

fun is_and :: "expr \<Rightarrow> bool" where
  "is_and (AndE xs) = True"
| "is_and e = False"

fun is_or :: "expr \<Rightarrow> bool" where
  "is_or (OrE xs) = True"
| "is_or e = False"

fun is_ite :: "expr \<Rightarrow> bool" where
  "is_ite (IteE c t e) = True"
| "is_ite e = False"

text \<open>\<^verbatim>\<open>to_app(e)->get_arg(i)\<close> of the applications the rewriter takes apart.\<close>

fun get_args :: "expr \<Rightarrow> expr list" where
  "get_args (NotE a) = [a]"
| "get_args (AndE xs) = xs"
| "get_args (OrE xs) = xs"
| "get_args (EqE a b) = [a, b]"
| "get_args (IteE c t e) = [c, t, e]"
| "get_args (DistinctE xs) = xs"
| "get_args (ImpliesE a b) = [a, b]"
| "get_args (XorE a b) = [a, b]"
| "get_args (Xor3E a b c) = [a, b, c]"
| "get_args (CarryE a b c) = [a, b, c]"
| "get_args e = []"

definition get_arg0 :: "expr \<Rightarrow> expr" where
  "get_arg0 e = (case get_args e of [] \<Rightarrow> e | a # _ \<Rightarrow> a)"

definition is_complement_core :: "expr \<Rightarrow> expr \<Rightarrow> bool" where
  "is_complement_core n1 n2 \<longleftrightarrow>
     (is_true n1 \<and> is_false n2) \<or> (is_not n1 \<and> get_arg0 n1 = n2)"

definition is_complement :: "expr \<Rightarrow> expr \<Rightarrow> bool" where
  "is_complement n1 n2 \<longleftrightarrow> is_complement_core n1 n2 \<or> is_complement_core n2 n1"

fun is_value :: "expr \<Rightarrow> bool" where
  "is_value TrueE = True"
| "is_value FalseE = True"
| "is_value (ValueE s n) = True"
| "is_value e = False"

definition is_unique_value :: "expr \<Rightarrow> bool" where
  "is_unique_value e = is_value e"

definition are_equal :: "expr \<Rightarrow> expr \<Rightarrow> bool" where
  "are_equal a b \<longleftrightarrow> a = b"

definition are_distinct :: "expr \<Rightarrow> expr \<Rightarrow> bool" where
  "are_distinct a b \<longleftrightarrow> a \<noteq> b \<and> is_unique_value a \<and> is_unique_value b"

subsection \<open>Evaluation\<close>

datatype val = BoolV bool | ThV nat nat

fun tv :: "val \<Rightarrow> bool" where
  "tv (BoolV b) = b"
| "tv (ThV s n) = False"

type_synonym interp = "srt \<Rightarrow> nat \<Rightarrow> val"

fun val_sort :: "val \<Rightarrow> srt" where
  "val_sort (BoolV b) = BoolS"
| "val_sort (ThV s n) = TheoryS s"

definition interp_ok :: "interp \<Rightarrow> bool" where
  "interp_ok I \<longleftrightarrow> (\<forall>s n. val_sort (I s n) = s)"

fun eval :: "interp \<Rightarrow> expr \<Rightarrow> val" where
  "eval I TrueE = BoolV True"
| "eval I FalseE = BoolV False"
| "eval I (NotE a) = BoolV (\<not> tv (eval I a))"
| "eval I (AndE xs) = BoolV (\<forall>x \<in> set xs. tv (eval I x))"
| "eval I (OrE xs) = BoolV (\<exists>x \<in> set xs. tv (eval I x))"
| "eval I (EqE a b) = BoolV (eval I a = eval I b)"
| "eval I (IteE c t e) = (if tv (eval I c) then eval I t else eval I e)"
| "eval I (DistinctE xs) = BoolV (distinct (map (eval I) xs))"
| "eval I (ImpliesE a b) = BoolV (tv (eval I a) \<longrightarrow> tv (eval I b))"
| "eval I (XorE a b) = BoolV (tv (eval I a) \<noteq> tv (eval I b))"
| "eval I (Xor3E a b c) = BoolV ((tv (eval I a) \<noteq> tv (eval I b)) \<noteq> tv (eval I c))"
| "eval I (CarryE a b c) =
     BoolV (tv (eval I a) \<and> tv (eval I b) \<or> tv (eval I a) \<and> tv (eval I c)
            \<or> tv (eval I b) \<and> tv (eval I c))"
| "eval I (ValueE s n) = ThV s n"
| "eval I (TermE s n) = I s n"

abbreviation holds :: "interp \<Rightarrow> expr \<Rightarrow> bool" where
  "holds I e \<equiv> tv (eval I e)"

text \<open>\<open>rw_equiv e r\<close>: \<open>r\<close> is a well-sorted term of the sort of \<open>e\<close> with the value of \<open>e\<close> in
  every interpretation.\<close>

definition rw_equiv :: "expr \<Rightarrow> expr \<Rightarrow> bool" where
  "rw_equiv e r \<longleftrightarrow> wt r \<and> sort_of r = sort_of e \<and> (\<forall>I. interp_ok I \<longrightarrow> eval I r = eval I e)"

subsection \<open>Facts about evaluation\<close>

lemma is_bool_simps [simp]:
  "is_bool TrueE" "is_bool FalseE" "is_bool (NotE a)" "is_bool (AndE xs)" "is_bool (OrE xs)"
  "is_bool (EqE a b)" "is_bool (DistinctE xs)" "is_bool (ImpliesE a b)" "is_bool (XorE a b)"
  "is_bool (Xor3E a b c)" "is_bool (CarryE a b c)" "\<not> is_bool (ValueE s n)"
  "is_bool (TermE u n) \<longleftrightarrow> u = BoolS"
  "is_bool (IteE c t e) \<longleftrightarrow> is_bool t"
  by (auto simp: is_bool_def)

lemma eval_sort: "interp_ok I \<Longrightarrow> wt e \<Longrightarrow> val_sort (eval I e) = sort_of e"
  by (induction I e rule: eval.induct) (auto simp: interp_ok_def is_bool_def)

lemma eval_bool:
  assumes "interp_ok I" "wt e" "is_bool e"
  shows "eval I e = BoolV (holds I e)"
  using eval_sort [OF assms(1,2)] assms(3) by (cases "eval I e") (auto simp: is_bool_def)

lemma eval_bool_eq:
  assumes "interp_ok I" "wt a" "is_bool a" "wt b" "is_bool b"
  shows "eval I a = eval I b \<longleftrightarrow> (holds I a \<longleftrightarrow> holds I b)"
proof -
  obtain x y where "eval I a = BoolV x" "eval I b = BoolV y"
    using eval_bool [OF assms(1-3)] eval_bool [OF assms(1,4,5)] by blast
  then show ?thesis by simp
qed

lemma BoolV_eq_eval:
  assumes "interp_ok I" "wt e" "is_bool e"
  shows "BoolV x = eval I e \<longleftrightarrow> x = holds I e" and "eval I e = BoolV x \<longleftrightarrow> x = holds I e"
proof -
  obtain y where "eval I e = BoolV y"
    using eval_bool [OF assms] by blast
  then show "BoolV x = eval I e \<longleftrightarrow> x = holds I e" and "eval I e = BoolV x \<longleftrightarrow> x = holds I e"
    by auto
qed

lemma holds_EqE_bool:
  assumes "interp_ok I" "wt a" "is_bool a" "wt b" "is_bool b"
  shows "holds I (EqE a b) \<longleftrightarrow> (holds I a \<longleftrightarrow> holds I b)"
  using eval_bool_eq [OF assms] by simp

lemma is_true_iff [simp]: "is_true e \<longleftrightarrow> e = TrueE"
  by (cases e) auto

lemma is_false_iff [simp]: "is_false e \<longleftrightarrow> e = FalseE"
  by (cases e) auto

lemma is_not_iff: "is_not e \<longleftrightarrow> (\<exists>a. e = NotE a)"
  by (cases e) auto

lemma is_and_iff: "is_and e \<longleftrightarrow> (\<exists>xs. e = AndE xs)"
  by (cases e) auto

lemma is_or_iff: "is_or e \<longleftrightarrow> (\<exists>xs. e = OrE xs)"
  by (cases e) auto

lemma is_ite_iff: "is_ite e \<longleftrightarrow> (\<exists>c t f. e = IteE c t f)"
  by (cases e) auto

lemma get_arg0_NotE [simp]: "get_arg0 (NotE a) = a"
  by (simp add: get_arg0_def)

lemma is_value_iff: "is_value e \<longleftrightarrow> e = TrueE \<or> e = FalseE \<or> (\<exists>s n. e = ValueE s n)"
  by (cases e) auto

lemma are_distinct_eval: "are_distinct a b \<Longrightarrow> eval I a \<noteq> eval I b"
  by (auto simp: are_distinct_def is_unique_value_def is_value_iff)

lemma is_complement_core_eval:
  "is_complement_core a b \<Longrightarrow> holds I a = (\<not> holds I b)"
  by (auto simp: is_complement_core_def is_not_iff)

lemma is_complement_eval: "is_complement a b \<Longrightarrow> holds I a = (\<not> holds I b)"
  by (auto simp: is_complement_def dest: is_complement_core_eval)

lemma rw_equiv_refl [simp]: "wt e \<Longrightarrow> rw_equiv e e"
  by (simp add: rw_equiv_def)

lemma rw_equiv_trans: "rw_equiv a b \<Longrightarrow> rw_equiv b c \<Longrightarrow> rw_equiv a c"
  by (simp add: rw_equiv_def)

lemma rw_equivD:
  assumes "rw_equiv e r"
  shows "wt r" and "sort_of r = sort_of e" and "is_bool r = is_bool e"
    and "interp_ok I \<Longrightarrow> eval I r = eval I e"
  using assms by (auto simp: rw_equiv_def is_bool_def)

lemma rw_equiv_boolI:
  assumes "wt r" "is_bool r" "wt e" "is_bool e" "\<And>I. interp_ok I \<Longrightarrow> holds I r = holds I e"
  shows "rw_equiv e r"
  using assms(1-4) eval_bool_eq [OF _ assms(1-4)] assms(5)
  by (auto simp: rw_equiv_def is_bool_def)

end
