(* ===== verification/Bool_Rewriter.thy ===== *)
theory Bool_Rewriter
  imports Z3_Expr
begin

text \<open>
  The Boolean rewriter, \<^verbatim>\<open>ast/rewriter/bool_rewriter.{h,cpp}\<close>: one definition per method, with
  the options of \<^verbatim>\<open>bool_rewriter\<close> and its cost counter as a record that the methods thread.
  The property of every method is total correctness: on well-sorted arguments it returns, and
  what it returns is a well-sorted term with the value of the application it was asked to build.
\<close>

subsection \<open>State and results\<close>

record bool_rewriter =
  m_flat :: bool
  m_local_ctx :: bool
  m_elim_and :: bool
  m_blast_distinct :: bool
  m_blast_distinct_threshold :: u32
  m_ite_extra_rules :: bool
  m_local_ctx_limit :: u32
  m_local_ctx_cost :: u32
  m_elim_ite :: bool

text \<open>The defaults of \<^verbatim>\<open>bool_rewriter_params.pyg\<close>, as the constructor installs them.\<close>

definition mk_bool_rewriter :: bool_rewriter where
  "mk_bool_rewriter =
     \<lparr>m_flat = True, m_local_ctx = False, m_elim_and = False, m_blast_distinct = False,
      m_blast_distinct_threshold = - 1, m_ite_extra_rules = False,
      m_local_ctx_limit = - 1, m_local_ctx_cost = 0, m_elim_ite = True\<rparr>"

text \<open>\<^verbatim>\<open>br_status\<close> together with the \<^verbatim>\<open>result\<close> reference it qualifies.\<close>

datatype br_result =
    BR_FAILED
  | BR_DONE expr
  | BR_REWRITE1 expr
  | BR_REWRITE2 expr
  | BR_REWRITE3 expr
  | BR_REWRITE_FULL expr

fun result_or :: "br_result \<Rightarrow> expr \<Rightarrow> expr" where
  "result_or BR_FAILED d = d"
| "result_or (BR_DONE r) d = r"
| "result_or (BR_REWRITE1 r) d = r"
| "result_or (BR_REWRITE2 r) d = r"
| "result_or (BR_REWRITE3 r) d = r"
| "result_or (BR_REWRITE_FULL r) d = r"

definition add_cost :: "nat \<Rightarrow> bool_rewriter \<Rightarrow> bool_rewriter" where
  "add_cost n rw = rw\<lparr>m_local_ctx_cost := m_local_ctx_cost rw + of_nat n\<rparr>"

text \<open>Weight of a term: the termination measure of the rewriter; negations are free.\<close>

fun weight :: "expr \<Rightarrow> nat" where
  "weight (NotE a) = weight a"
| "weight (AndE xs) = 1 + sum_list (map weight xs)"
| "weight (OrE xs) = 1 + sum_list (map weight xs)"
| "weight (EqE a b) = 1 + weight a + weight b"
| "weight (IteE c t e) = 3 + weight c + weight t + weight e"
| "weight e = 1"

lemma weight_pos [simp]: "0 < weight e"
  by (induction e) auto

lemma weight_ge_1 [simp]: "Suc 0 \<le> weight e"
  using weight_pos [of e] by linarith

lemma weight_value [simp]: "is_value e \<Longrightarrow> weight e = 1"
  by (cases e) auto

subsection \<open>Equality, negation\<close>

text \<open>\<^verbatim>\<open>m().is_ite(t, cond2, t2, e2) && m().is_value(t2) && m().is_value(e2)\<close>\<close>

fun is_value_ite :: "expr \<Rightarrow> bool" where
  "is_value_ite (IteE c t e) \<longleftrightarrow> is_value t \<and> is_value e"
| "is_value_ite e \<longleftrightarrow> False"

text \<open>The \<^verbatim>\<open>VERIFY\<close>s of the two nested calls are proved below (\<open>try_ite_value_value_ite\<close>); their
  failing branch is never taken.\<close>

fun try_ite_value :: "expr \<Rightarrow> expr \<Rightarrow> br_result" where
  "try_ite_value (IteE cond t e) val =
     (if are_distinct val e then BR_REWRITE2 (AndE [EqE t val, cond])
      else if are_distinct val t then BR_REWRITE2 (AndE [EqE e val, NotE cond])
      else if are_equal val t then
        (if are_equal val e then BR_DONE TrueE
         else BR_REWRITE2 (OrE [EqE e val, cond]))
      else if are_equal val e then BR_REWRITE2 (OrE [EqE t val, NotE cond])
      else if is_value_ite t then
        (let r = try_ite_value t val in
         if r = BR_FAILED then BR_FAILED
         else BR_REWRITE2 (IteE cond (result_or r t) (EqE e val)))
      else if is_value_ite e then
        (let r = try_ite_value e val in
         if r = BR_FAILED then BR_FAILED
         else BR_REWRITE2 (IteE cond (EqE t val) (result_or r e)))
      else BR_FAILED)"
| "try_ite_value e val = BR_FAILED"

definition eq_extra_rules :: "bool_rewriter \<Rightarrow> expr \<Rightarrow> expr \<Rightarrow> br_result" where
  "eq_extra_rules rw lhs rhs =
     (if m_ite_extra_rules rw then
        (if is_ite lhs \<and> is_value rhs then try_ite_value lhs rhs
         else if is_ite rhs \<and> is_value lhs then try_ite_value rhs lhs
         else BR_FAILED)
      else BR_FAILED)"

text \<open>The test for \<^verbatim>\<open>(iff (iff a b) (iff (not a) b))\<close>.\<close>

fun iff_iff_complement :: "expr \<Rightarrow> expr \<Rightarrow> bool" where
  "iff_iff_complement (EqE la lb) (EqE ra rb) \<longleftrightarrow>
     (la = ra \<and> (rb = NotE lb \<or> lb = NotE rb)) \<or>
     (lb = rb \<and> (ra = NotE la \<or> la = NotE ra))"
| "iff_iff_complement l r \<longleftrightarrow> False"

function mk_not_core :: "bool_rewriter \<Rightarrow> expr \<Rightarrow> br_result"
  and mk_eq_core :: "bool_rewriter \<Rightarrow> expr \<Rightarrow> expr \<Rightarrow> br_result" where
  "mk_not_core rw t =
     (case t of
        NotE a \<Rightarrow> BR_DONE a
      | TrueE \<Rightarrow> BR_DONE FalseE
      | FalseE \<Rightarrow> BR_DONE TrueE
      | EqE a b \<Rightarrow>
          (if is_bool a then
             (let tmp = result_or (mk_not_core rw a) (NotE a)
              in BR_DONE (result_or (mk_eq_core rw tmp b) (EqE tmp b)))
           else BR_FAILED)
      | _ \<Rightarrow> BR_FAILED)"
| "mk_eq_core rw lhs0 rhs0 =
     (if are_equal lhs0 rhs0 then BR_DONE TrueE
      else if are_distinct lhs0 rhs0 then BR_DONE FalseE
      else if eq_extra_rules rw lhs0 rhs0 \<noteq> BR_FAILED then eq_extra_rules rw lhs0 rhs0
      else if is_bool lhs0 then
        (let unfolded = is_not lhs0 \<and> is_not rhs0;
             lhs = (if unfolded then get_arg0 lhs0 else lhs0);
             rhs = (if unfolded then get_arg0 rhs0 else rhs0)
         in if is_true lhs then BR_DONE rhs
            else if is_false lhs then BR_DONE (result_or (mk_not_core rw rhs) (NotE rhs))
            else if is_true rhs then BR_DONE lhs
            else if is_false rhs then BR_DONE (result_or (mk_not_core rw lhs) (NotE lhs))
            else if is_complement lhs rhs then BR_DONE FalseE
            else if unfolded then BR_DONE (EqE lhs rhs)
            else if iff_iff_complement lhs rhs then BR_DONE FalseE
            else BR_FAILED)
      else BR_FAILED)"
  by pat_completeness auto

text \<open>The recursion is nested: the negation of \<open>EqE a b\<close> builds an equality with the rewritten
  negation of \<open>a\<close>.  It ends because neither method makes a term heavier.\<close>

lemma try_ite_value_value_ite:
  assumes "is_value_ite t" "is_value v"
  shows "try_ite_value t v \<noteq> BR_FAILED"
  using assms
  by (cases t) (auto simp: are_distinct_def are_equal_def is_unique_value_def)

lemma try_ite_value_weight_value_ite:
  assumes "is_value v" "is_value_ite t"
  shows "weight (result_or (try_ite_value t v) d) < weight t"
  using assms
  by (cases t) (auto simp: are_distinct_def are_equal_def is_unique_value_def)

lemma try_ite_value_weight:
  assumes "is_value v" "try_ite_value (IteE c t e) v \<noteq> BR_FAILED"
  shows "weight (result_or (try_ite_value (IteE c t e) v) d) < 1 + weight (IteE c t e) + weight v"
proof -
  show ?thesis
    using assms try_ite_value_weight_value_ite [OF assms(1), of t t]
      try_ite_value_weight_value_ite [OF assms(1), of e e]
    by (auto simp: Let_def split: if_splits)
qed

lemma eq_extra_rules_weight:
  assumes "eq_extra_rules rw l r \<noteq> BR_FAILED"
  shows "weight (result_or (eq_extra_rules rw l r) d) < 1 + weight l + weight r"
proof -
  have "weight (result_or (try_ite_value x v) d) < 1 + weight x + weight v"
    if "is_value v" "is_ite x" "try_ite_value x v \<noteq> BR_FAILED" for x v
    using that try_ite_value_weight by (auto simp: is_ite_iff)
  then show ?thesis
    using assms unfolding eq_extra_rules_def by (force split: if_splits)
qed

lemma weight_get_arg0 [simp]: "is_not e \<Longrightarrow> weight (get_arg0 e) = weight e"
  by (auto simp: is_not_iff)

lemma mk_not_eq_weight_dom:
  "mk_not_core_mk_eq_core_dom (Inl (rw, t)) \<Longrightarrow>
     weight (result_or (mk_not_core rw t) (NotE t)) \<le> weight t"
  "mk_not_core_mk_eq_core_dom (Inr (rw, l, r)) \<Longrightarrow>
     weight (result_or (mk_eq_core rw l r) (EqE l r)) \<le> 1 + weight l + weight r"
proof (induction rw t and rw l r rule: mk_not_core_mk_eq_core.pinduct)
  case (1 rw t)
  show ?case
  proof (cases "\<exists>a b. t = EqE a b \<and> is_bool a")
    case True
    then obtain a b where t: "t = EqE a b" "is_bool a" by blast
    let ?tmp = "result_or (mk_not_core rw a) (NotE a)"
    have "weight ?tmp \<le> weight a" using "1.IH"(1) [OF t] .
    moreover have "weight (result_or (mk_eq_core rw ?tmp b) (EqE ?tmp b)) \<le> 1 + weight ?tmp + weight b"
      using "1.IH"(2) [OF t refl] .
    ultimately show ?thesis
      using mk_not_core.psimps [OF "1.hyps"] t(2) unfolding t(1) by (simp add: Let_def)
  next
    case False
    then show ?thesis
      using mk_not_core.psimps [OF "1.hyps"] by (cases t) auto
  qed
next
  case (2 rw l r)
  define u where "u \<longleftrightarrow> is_not l \<and> is_not r"
  define l' where "l' = (if u then get_arg0 l else l)"
  define r' where "r' = (if u then get_arg0 r else r)"
  have w: "weight l' = weight l" "weight r' = weight r" by (auto simp: l'_def r'_def u_def)
  consider "are_equal l r \<or> are_distinct l r"
    | "\<not> are_equal l r" "\<not> are_distinct l r" "eq_extra_rules rw l r \<noteq> BR_FAILED"
    | "\<not> are_equal l r" "\<not> are_distinct l r" "\<not> eq_extra_rules rw l r \<noteq> BR_FAILED" "is_bool l"
    | "\<not> are_equal l r" "\<not> are_distinct l r" "\<not> eq_extra_rules rw l r \<noteq> BR_FAILED" "\<not> is_bool l"
    by blast
  then show ?case
  proof cases
    case 1
    then show ?thesis by (auto simp: mk_eq_core.psimps [OF "2.hyps"])
  next
    case 2
    then show ?thesis
      using eq_extra_rules_weight [of rw l r "EqE l r"]
      by (simp add: mk_eq_core.psimps [OF "2.hyps"])
  next
    case 3
    note IH = "2.IH"(1) [OF 3 refl refl refl, folded u_def, folded l'_def r'_def]
      "2.IH"(2) [OF 3 refl refl refl, folded u_def, folded l'_def r'_def]
    have "mk_eq_core rw l r =
      (if is_true l' then BR_DONE r'
       else if is_false l' then BR_DONE (result_or (mk_not_core rw r') (NotE r'))
       else if is_true r' then BR_DONE l'
       else if is_false r' then BR_DONE (result_or (mk_not_core rw l') (NotE l'))
       else if is_complement l' r' then BR_DONE FalseE
       else if u then BR_DONE (EqE l' r')
       else if iff_iff_complement l' r' then BR_DONE FalseE
       else BR_FAILED)"
      using 3 unfolding mk_eq_core.psimps [OF "2.hyps"] Let_def
      by (simp only: if_False if_True u_def [symmetric] l'_def [symmetric] r'_def [symmetric]
          not_not simp_thms)
    then show ?thesis
      using IH w weight_pos [of l'] weight_pos [of r'] by (auto simp del: weight_pos)
  next
    case 4
    then show ?thesis by (simp add: mk_eq_core.psimps [OF "2.hyps"])
  qed
qed

lemma mk_not_core_mk_eq_core_total: "All mk_not_core_mk_eq_core_dom"
proof (rule "mk_not_core_mk_eq_core.termination" [of "measure (\<lambda>x. case x of
    Inl (rw, t) \<Rightarrow> weight t | Inr (rw, l, r) \<Rightarrow> weight l + weight r)"], goal_cases)
  case (3 rw t a b tmp)
  then have "weight tmp \<le> weight a"
    using mk_not_eq_weight_dom(1) by simp
  with 3 show ?case by simp
next
  case (4 rw l r u l' r')
  from 4(5,6,7) have "weight l' = weight l" "weight r' = weight r" by auto
  then show ?case using weight_pos [of l] by simp
next
  case (5 rw l r u l' r')
  from 5(5,6,7) have "weight l' = weight l" "weight r' = weight r" by auto
  then show ?case using weight_pos [of r] by simp
qed auto

termination mk_not_core
  by (rule mk_not_core_mk_eq_core_total)

declare mk_not_core.simps [simp del] mk_eq_core.simps [simp del]

definition mk_not :: "bool_rewriter \<Rightarrow> expr \<Rightarrow> expr" where
  "mk_not rw t = result_or (mk_not_core rw t) (NotE t)"

definition mk_eq :: "bool_rewriter \<Rightarrow> expr \<Rightarrow> expr \<Rightarrow> expr" where
  "mk_eq rw lhs rhs = result_or (mk_eq_core rw lhs rhs) (EqE lhs rhs)"

definition mk_iff :: "bool_rewriter \<Rightarrow> expr \<Rightarrow> expr \<Rightarrow> expr" where
  "mk_iff rw lhs rhs = mk_eq rw lhs rhs"

definition mk_xor :: "bool_rewriter \<Rightarrow> expr \<Rightarrow> expr \<Rightarrow> expr" where
  "mk_xor rw lhs rhs = (let tmp = mk_not rw lhs in mk_eq rw tmp rhs)"

lemma mk_not_weight: "weight (mk_not rw t) \<le> weight t"
  unfolding mk_not_def
  using mk_not_eq_weight_dom(1) mk_not_core_mk_eq_core_total by blast

lemma mk_eq_weight: "weight (mk_eq rw l r) \<le> 1 + weight l + weight r"
  unfolding mk_eq_def
  using mk_not_eq_weight_dom(2) mk_not_core_mk_eq_core_total by blast

lemma mk_not_cases:
  "mk_not rw t =
     (case t of
        NotE a \<Rightarrow> a
      | TrueE \<Rightarrow> FalseE
      | FalseE \<Rightarrow> TrueE
      | EqE a b \<Rightarrow> if is_bool a then mk_eq rw (mk_not rw a) b else NotE t
      | _ \<Rightarrow> NotE t)"
  unfolding mk_not_def mk_eq_def
  by (subst mk_not_core.simps) (simp add: Let_def split: expr.split)

text \<open>The Boolean part of \<open>mk_eq_core\<close>, with the negations of both sides already removed.\<close>

lemma mk_eq_core_bool:
  assumes "\<not> are_equal l r" "\<not> are_distinct l r" "eq_extra_rules rw l r = BR_FAILED" "is_bool l"
    and u: "u \<longleftrightarrow> is_not l \<and> is_not r"
    and l': "l' = (if u then get_arg0 l else l)" and r': "r' = (if u then get_arg0 r else r)"
  shows "mk_eq_core rw l r =
      (if is_true l' then BR_DONE r'
       else if is_false l' then BR_DONE (mk_not rw r')
       else if is_true r' then BR_DONE l'
       else if is_false r' then BR_DONE (mk_not rw l')
       else if is_complement l' r' then BR_DONE FalseE
       else if u then BR_DONE (EqE l' r')
       else if iff_iff_complement l' r' then BR_DONE FalseE
       else BR_FAILED)"
  using assms(1-4) unfolding mk_eq_core.simps [of rw l r] Let_def mk_not_def
  by (simp only: if_False if_True u [symmetric] l' [symmetric] r' [symmetric] not_not simp_thms)

lemma mk_eq_weight_const:
  assumes "l \<in> {TrueE, FalseE} \<or> r \<in> {TrueE, FalseE}" "is_bool l"
  shows "weight (mk_eq rw l r) < 1 + weight l + weight r"
proof -
  consider "are_equal l r \<or> are_distinct l r"
    | "\<not> are_equal l r" "\<not> are_distinct l r" "eq_extra_rules rw l r \<noteq> BR_FAILED"
    | "\<not> are_equal l r" "\<not> are_distinct l r" "eq_extra_rules rw l r = BR_FAILED"
    by blast
  then show ?thesis
  proof cases
    case 1
    then show ?thesis by (auto simp: mk_eq_def mk_eq_core.simps [of rw l r])
  next
    case 2
    then show ?thesis
      using eq_extra_rules_weight [of rw l r "EqE l r"]
      by (simp add: mk_eq_def mk_eq_core.simps [of rw l r])
  next
    case 3
    have "\<not> (is_not l \<and> is_not r)" using assms(1) by auto
    with 3 have "mk_eq rw l r = (if is_true l then r else if is_false l then mk_not rw r
        else if is_true r then l else mk_not rw l)"
      using mk_eq_core_bool [OF 3 assms(2) refl refl refl] assms(1) by (auto simp: mk_eq_def)
    then show ?thesis
      using mk_not_weight [of rw l] mk_not_weight [of rw r] by (auto simp: le_imp_less_Suc)
  qed
qed

subsection \<open>Correctness of equality and negation\<close>

lemma result_or_default: "r \<noteq> BR_FAILED \<Longrightarrow> result_or r d = result_or r d'"
  by (cases r) auto

lemma rw_equiv_EqI:
  assumes "wt r" "is_bool r" "\<And>I. interp_ok I \<Longrightarrow> eval I r = eval I (EqE a b)"
  shows "rw_equiv (EqE a b) r"
  using assms by (auto simp: rw_equiv_def is_bool_def)

lemma try_ite_value_sound:
  assumes "wt x" "wt v" "sort_of x = sort_of v" "is_value v"
  shows "rw_equiv (EqE x v) (result_or (try_ite_value x v) (EqE x v))"
  using assms
proof (induction x v rule: try_ite_value.induct)
  case (1 cond t e v)
  have wts: "wt cond" "is_bool cond" "wt t" "wt e" "sort_of t = sort_of v" "sort_of e = sort_of v"
    using "1.prems" by auto
  consider (de) "are_distinct v e" | (dt) "\<not> are_distinct v e" "are_distinct v t"
    | (eqs) "\<not> are_distinct v e" "\<not> are_distinct v t" "v = t \<or> v = e"
    | (ti) "\<not> are_distinct v e" "\<not> are_distinct v t" "\<not> are_equal v t" "\<not> are_equal v e" "is_value_ite t"
    | (ei) "\<not> are_distinct v e" "\<not> are_distinct v t" "\<not> are_equal v t" "\<not> are_equal v e" "\<not> is_value_ite t" "is_value_ite e"
    | (no) "\<not> are_distinct v e" "\<not> are_distinct v t" "\<not> are_equal v t" "\<not> are_equal v e" "\<not> is_value_ite t" "\<not> is_value_ite e"
    by (auto simp: are_equal_def)
  then show ?case
  proof cases
    case de
    then show ?thesis
      using wts "1.prems" are_distinct_eval [OF de, THEN not_sym] by (auto intro!: rw_equiv_EqI)
  next
    case dt
    then show ?thesis
      using wts "1.prems" are_distinct_eval [OF dt(2), THEN not_sym] by (auto intro!: rw_equiv_EqI)
  next
    case eqs
    then show ?thesis
      using wts "1.prems" by (auto simp: are_equal_def intro!: rw_equiv_EqI)
  next
    case ti
    let ?r = "try_ite_value t v"
    have ne: "?r \<noteq> BR_FAILED" using ti(5) "1.prems"(4) by (rule try_ite_value_value_ite)
    have "rw_equiv (EqE t v) (result_or ?r t)"
      using "1.IH"(1) [OF ti] wts "1.prems" result_or_default [OF ne] by metis
    then show ?thesis
      using wts "1.prems" ti ne by (auto simp: rw_equiv_def is_bool_def intro!: rw_equiv_EqI)
  next
    case ei
    let ?r = "try_ite_value e v"
    have ne: "?r \<noteq> BR_FAILED" using ei(6) "1.prems"(4) by (rule try_ite_value_value_ite)
    have "rw_equiv (EqE e v) (result_or ?r e)"
      using "1.IH"(2) [OF ei] wts "1.prems" result_or_default [OF ne] by metis
    then show ?thesis
      using wts "1.prems" ei ne by (auto simp: rw_equiv_def is_bool_def intro!: rw_equiv_EqI)
  next
    case no
    then show ?thesis using "1.prems" by (simp add: rw_equiv_def)
  qed
qed (auto simp: rw_equiv_def)

lemma eq_extra_rules_sound:
  assumes "wt l" "wt r" "sort_of l = sort_of r"
  shows "rw_equiv (EqE l r) (result_or (eq_extra_rules rw l r) (EqE l r))"
proof -
  have swap: "rw_equiv (EqE l r) x" if "rw_equiv (EqE r l) x" for x
    using that by (auto simp: rw_equiv_def)
  have flip: "rw_equiv (EqE l r) (result_or (try_ite_value r l) (EqE l r))" if "is_value l"
    using try_ite_value_sound [OF assms(2,1) assms(3) [symmetric] that]
      result_or_default [of "try_ite_value r l" "EqE r l" "EqE l r"] assms swap
    by (cases "try_ite_value r l = BR_FAILED") auto
  show ?thesis
    using try_ite_value_sound [OF assms] flip assms by (auto simp: eq_extra_rules_def)
qed

lemma iff_iff_complement_eval:
  assumes "iff_iff_complement l r" "wt l" "wt r" "interp_ok I"
  shows "holds I l \<noteq> holds I r"
proof -
  obtain la lb ra rb where lr: "l = EqE la lb" "r = EqE ra rb"
    using assms(1) by (cases "(l, r)" rule: iff_iff_complement.cases) auto
  have b: "is_bool la" "is_bool lb" "is_bool ra" "is_bool rb"
    using assms(1-3) lr by (auto simp: is_bool_def)
  have "holds I l = (holds I la = holds I lb)" "holds I r = (holds I ra = holds I rb)"
    using assms(2-4) b lr by (simp_all add: eval_bool_eq)
  then show ?thesis using assms(1) unfolding lr iff_iff_complement.simps
    by (elim disjE conjE) (simp_all del: eval.simps(6), blast)
qed

lemma mk_not_mk_eq_sound:
  "wt t \<Longrightarrow> is_bool t \<Longrightarrow> rw_equiv (NotE t) (mk_not rw t)"
  "wt l \<Longrightarrow> wt r \<Longrightarrow> sort_of l = sort_of r \<Longrightarrow> rw_equiv (EqE l r) (mk_eq rw l r)"
proof (induction rw t and rw l r rule: mk_not_core_mk_eq_core.induct)
  case (1 rw t)
  show ?case
  proof (cases "\<exists>a b. t = EqE a b \<and> is_bool a")
    case True
    then obtain a b where t: "t = EqE a b" "is_bool a" by blast
    have wts: "wt a" "wt b" "is_bool b" using "1.prems" t by (auto simp: is_bool_def)
    have IH1: "rw_equiv (NotE a) (mk_not rw a)" using "1.IH"(1) [OF t] wts t by simp
    have IH2: "rw_equiv (EqE (mk_not rw a) b) (mk_eq rw (mk_not rw a) b)"
      using "1.IH"(2) [OF t refl] rw_equivD [OF IH1] wts
      by (simp add: mk_not_def [symmetric] is_bool_def)
    have "holds I (mk_eq rw (mk_not rw a) b) = (\<not> holds I t)" if "interp_ok I" for I
      using rw_equivD [OF IH1] rw_equivD [OF IH2] that wts t
      by (simp add: eval_bool_eq BoolV_eq_eval) blast
    moreover have "mk_not rw t = mk_eq rw (mk_not rw a) b"
      using t by (subst mk_not_cases) simp
    ultimately show ?thesis
      using rw_equivD [OF IH2] "1.prems" by (intro rw_equiv_boolI) auto
  next
    case False
    then show ?thesis
      using "1.prems" by (subst mk_not_cases) (cases t; auto intro!: rw_equiv_boolI)
  qed
next
  case (2 rw l r)
  define u where "u \<longleftrightarrow> is_not l \<and> is_not r"
  define l' where "l' = (if u then get_arg0 l else l)"
  define r' where "r' = (if u then get_arg0 r else r)"
  consider "l = r" | "are_distinct l r" "l \<noteq> r"
    | "\<not> are_equal l r" "\<not> are_distinct l r" "eq_extra_rules rw l r \<noteq> BR_FAILED"
    | "\<not> are_equal l r" "\<not> are_distinct l r" "\<not> eq_extra_rules rw l r \<noteq> BR_FAILED" "is_bool l"
    | "\<not> are_equal l r" "\<not> are_distinct l r" "\<not> eq_extra_rules rw l r \<noteq> BR_FAILED" "\<not> is_bool l"
    by (auto simp: are_equal_def)
  then show ?case
  proof cases
    case 1
    then show ?thesis
      by (auto simp: mk_eq_def mk_eq_core.simps [of rw r r] are_equal_def intro!: rw_equiv_EqI)
  next
    case 2
    then show ?thesis
      using are_distinct_eval [OF 2(1)]
      by (auto simp: mk_eq_def mk_eq_core.simps [of rw l r] are_equal_def intro!: rw_equiv_EqI)
  next
    case 3
    then show ?thesis
      using eq_extra_rules_sound [OF "2.prems"] by (simp add: mk_eq_def mk_eq_core.simps [of rw l r])
  next
    case 4
    have wts: "wt l'" "is_bool l'" "wt r'" "is_bool r'" "sort_of l' = BoolS" "sort_of r' = BoolS"
      using "2.prems" 4(4) by (auto simp: l'_def r'_def u_def is_not_iff is_bool_def)
    have eq: "rw_equiv (EqE l r) x" if "rw_equiv (EqE l' r') x" for x
      using that "2.prems" 4(4) rw_equivD [OF that]
      by (intro rw_equiv_boolI) (auto simp: l'_def r'_def u_def is_not_iff eval_bool_eq is_bool_def)
    note IH = "2.IH"(1) [OF 4 refl refl refl, folded u_def, folded l'_def r'_def]
      "2.IH"(2) [OF 4 refl refl refl, folded u_def, folded l'_def r'_def]
    have core: "mk_eq rw l r =
      (if is_true l' then r' else if is_false l' then mk_not rw r'
       else if is_true r' then l' else if is_false r' then mk_not rw l'
       else if is_complement l' r' then FalseE else if u then EqE l' r'
       else if iff_iff_complement l' r' then FalseE else EqE l r)"
      using mk_eq_core_bool [OF 4(1,2) 4(3) [simplified] 4(4) u_def l'_def r'_def]
      by (simp add: mk_eq_def)
    have "rw_equiv (EqE l' r') (mk_eq rw l r)"
      if not_r: "is_false l' \<Longrightarrow> \<not> is_true l' \<Longrightarrow> rw_equiv (NotE r') (mk_not rw r')"
        and not_l: "\<not> is_true l' \<Longrightarrow> \<not> is_false l' \<Longrightarrow> \<not> is_true r' \<Longrightarrow> is_false r' \<Longrightarrow>
          rw_equiv (NotE l') (mk_not rw l')"
    proof -
      consider (lt) "l' = TrueE" | (lf) "l' = FalseE" | (rt) "l' \<noteq> TrueE" "l' \<noteq> FalseE" "r' = TrueE"
        | (rf) "l' \<noteq> TrueE" "l' \<noteq> FalseE" "r' = FalseE"
        | (o) "l' \<noteq> TrueE" "l' \<noteq> FalseE" "r' \<noteq> TrueE" "r' \<noteq> FalseE"
        by blast
      then show ?thesis
      proof cases
        case lf
        with not_r core wts rw_equivD [OF not_r] show ?thesis
          by (auto intro!: rw_equiv_boolI simp: BoolV_eq_eval)
      next
        case rf
        with not_l core wts rw_equivD [OF not_l] show ?thesis
          by (auto intro!: rw_equiv_boolI simp: BoolV_eq_eval)
      next
        case o
        have "\<not> u \<Longrightarrow> l = l' \<and> r = r'" by (simp add: l'_def r'_def)
        with o core wts is_complement_eval [of l' r'] iff_iff_complement_eval [of l' r'] show ?thesis
          by (auto intro!: rw_equiv_boolI simp: eval_bool_eq)
      qed (use core wts in \<open>auto intro!: rw_equiv_boolI simp: BoolV_eq_eval\<close>)
    qed
    then show ?thesis using IH wts by (intro eq) simp
  next
    case 5
    then show ?thesis
      using "2.prems" by (simp add: mk_eq_def mk_eq_core.simps [of rw l r])
  qed
qed

lemmas mk_not_sound = mk_not_mk_eq_sound(1)
lemmas mk_eq_sound = mk_not_mk_eq_sound(2)

subsection \<open>Conjunctions\<close>

text \<open>The loop of \<^verbatim>\<open>mk_nflat_and_core\<close>: \<open>s\<close> records a simplification, \<open>buffer\<close> the kept arguments,
  \<open>neg\<close> and \<open>pos\<close> the two sets of marks; \<open>None\<close> is its early return with \<^verbatim>\<open>false\<close>.\<close>

fun nflat_and_loop ::
    "expr list \<Rightarrow> bool \<Rightarrow> expr list \<Rightarrow> expr list \<Rightarrow> expr list \<Rightarrow> (bool \<times> expr list) option" where
  "nflat_and_loop [] s buffer neg pos = Some (s, buffer)"
| "nflat_and_loop (arg # args) s buffer neg pos =
     (if is_true arg then nflat_and_loop args True buffer neg pos
      else if is_false arg then None
      else if is_not arg then
        (let atom = get_arg0 arg
         in if atom \<in> set neg then nflat_and_loop args True buffer neg pos
            else if atom \<in> set pos then None
            else nflat_and_loop args s (buffer @ [arg]) (atom # neg) pos)
      else
        (if arg \<in> set pos then nflat_and_loop args True buffer neg pos
         else if arg \<in> set neg then None
         else nflat_and_loop args s (buffer @ [arg]) neg (arg # pos)))"

definition mk_nflat_and_core :: "expr list \<Rightarrow> br_result" where
  "mk_nflat_and_core args =
     (case nflat_and_loop args False [] [] [] of
        None \<Rightarrow> BR_DONE FalseE
      | Some (s, buffer) \<Rightarrow>
          (case buffer of
             [] \<Rightarrow> BR_DONE TrueE
           | [a] \<Rightarrow> BR_DONE a
           | _ \<Rightarrow> if s then BR_DONE (AndE buffer) else BR_FAILED))"

text \<open>Arguments of nested applications of the same operator are spliced in, one level deep.\<close>

definition flatten :: "(expr \<Rightarrow> bool) \<Rightarrow> expr list \<Rightarrow> expr list" where
  "flatten is_op args =
     takeWhile (Not \<circ> is_op) args @
     concat (map (\<lambda>arg. if is_op arg then get_args arg else [arg]) (dropWhile (Not \<circ> is_op) args))"

definition mk_flat_and_core :: "expr list \<Rightarrow> br_result" where
  "mk_flat_and_core args =
     (if list_ex is_and args then
        (let flat_args = flatten is_and args
         in BR_DONE (result_or (mk_nflat_and_core flat_args) (AndE flat_args)))
      else mk_nflat_and_core args)"

subsection \<open>Local context simplification\<close>

definition mk_or_app :: "expr list \<Rightarrow> expr" where
  "mk_or_app args = (case args of [] \<Rightarrow> FalseE | [a] \<Rightarrow> a | _ \<Rightarrow> OrE args)"

text \<open>The loop of \<^verbatim>\<open>simp_nested_not_or\<close>; \<open>None\<close> is its early return with \<^verbatim>\<open>false\<close>.\<close>

fun simp_nested_not_or_loop ::
    "expr list \<Rightarrow> expr list \<Rightarrow> expr list \<Rightarrow> bool \<Rightarrow> expr list \<Rightarrow> (bool \<times> expr list) option" where
  "simp_nested_not_or_loop [] neg pos simp new_args = Some (simp, new_args)"
| "simp_nested_not_or_loop (arg # args) neg pos simp new_args =
     (if arg \<in> set neg then None
      else if arg \<in> set pos then simp_nested_not_or_loop args neg pos True new_args
      else if is_not arg \<and> get_arg0 arg \<in> set neg then
        simp_nested_not_or_loop args neg pos True new_args
      else if is_not arg \<and> get_arg0 arg \<in> set pos then None
      else simp_nested_not_or_loop args neg pos simp (new_args @ [arg]))"

text \<open>The result is the simplified argument, if any, and the charged rewriter.\<close>

definition simp_nested_not_or ::
    "bool_rewriter \<Rightarrow> expr list \<Rightarrow> expr list \<Rightarrow> expr list \<Rightarrow> expr option \<times> bool_rewriter" where
  "simp_nested_not_or rw args neg pos =
     (let rw' = add_cost (length args) rw
      in case simp_nested_not_or_loop args neg pos False [] of
           None \<Rightarrow> (Some FalseE, rw')
         | Some (simp, new_args) \<Rightarrow>
             if simp then
               (case new_args of
                  [] \<Rightarrow> (Some TrueE, rw')
                | [a] \<Rightarrow> (Some (mk_not rw a), rw')
                | _ \<Rightarrow> (Some (NotE (OrE new_args)), rw'))
             else (None, rw'))"

text \<open>The simplified argument, and whether it was modified.\<close>

definition simp_arg :: "expr \<Rightarrow> expr list \<Rightarrow> expr list \<Rightarrow> expr \<times> bool" where
  "simp_arg arg neg pos =
     (if is_not arg then
        (let atom = get_arg0 arg
         in if atom \<in> set neg then (FalseE, True)
            else if atom \<in> set pos then (TrueE, True)
            else (arg, False))
      else if arg \<in> set neg then (TrueE, True)
      else if arg \<in> set pos then (FalseE, True)
      else (arg, False))"

definition mk_nested_ite :: "bool_rewriter \<Rightarrow> expr \<Rightarrow> expr \<Rightarrow> expr \<Rightarrow> expr" where
  "mk_nested_ite rw c t e =
     (if is_true c then t
      else if is_false c then e
      else if t = e then t
      else if is_bool t \<and> is_true t then (if is_false e then c else OrE [c, e])
      else if is_bool t \<and> is_false t then
        (if is_true e then mk_not rw c else NotE (OrE [c, mk_not rw e]))
      else if is_bool t \<and> is_true e then OrE [mk_not rw c, t]
      else if is_bool t \<and> (is_false e \<or> c = e) then NotE (OrE [mk_not rw c, mk_not rw t])
      else if is_bool t \<and> c = t then OrE [c, e]
      else if is_bool t \<and> is_complement_core t e then mk_eq rw c t
      else if is_bool t \<and> is_complement_core e t then mk_eq rw c t
      else IteE c t e)"

definition simp_nested_eq_ite ::
    "bool_rewriter \<Rightarrow> expr \<Rightarrow> expr list \<Rightarrow> expr list \<Rightarrow> expr option \<times> bool_rewriter" where
  "simp_nested_eq_ite rw t0 neg pos =
     (let is_neg = is_not t0;
          rw' = add_cost 3 rw;
          t = (if is_neg then get_arg0 t0 else t0);
          signed = (\<lambda>r. if is_neg then mk_not rw r else r)
      in case t of
           EqE a b \<Rightarrow>
             (let (new_lhs, m1) = simp_arg a neg pos;
                  (new_rhs, m2) = simp_arg b neg pos
              in if \<not> (m1 \<or> m2) then (None, rw')
                 else (Some (signed (mk_eq rw new_lhs new_rhs)), rw'))
         | IteE c u e \<Rightarrow>
             (let (new_c, m1) = simp_arg c neg pos;
                  (new_t, m2) = simp_arg u neg pos;
                  (new_e, m3) = simp_arg e neg pos
              in if \<not> (m1 \<or> m2 \<or> m3) then (None, rw')
                 else (Some (signed (mk_nested_ite rw new_c new_t new_e)), rw'))
         | _ \<Rightarrow> (None, rw'))"

text \<open>What a pass of \<^verbatim>\<open>local_ctx_simp\<close> over the arguments accumulates.\<close>

record ctx =
  new_args :: "expr list"
  neg_lits :: "expr list"
  pos_lits :: "expr list"
  modified :: bool
  simplified :: bool
  ctx_rw :: bool_rewriter

definition push_new_arg :: "expr \<Rightarrow> ctx \<Rightarrow> ctx" where
  "push_new_arg arg c =
     (if is_not arg then
        (if get_arg0 arg \<in> set (neg_lits c) then c
         else c\<lparr>neg_lits := get_arg0 arg # neg_lits c, new_args := new_args c @ [arg]\<rparr>)
      else
        (if arg \<in> set (pos_lits c) then c
         else c\<lparr>pos_lits := arg # pos_lits c, new_args := new_args c @ [arg]\<rparr>))"

text \<open>The macro \<^verbatim>\<open>PROCESS_ARG\<close>: first the nested disjunction below a negation, then the
  equality or if-then-else; \<open>Inl\<close> is its return of \<^verbatim>\<open>true\<close> from the enclosing method.\<close>

definition simp_step1 :: "expr \<Rightarrow> ctx \<Rightarrow> expr \<times> ctx" where
  "simp_step1 arg c =
     (if is_not arg \<and> is_or (get_arg0 arg) then
        (case simp_nested_not_or (ctx_rw c) (get_args (get_arg0 arg)) (neg_lits c) (pos_lits c) of
           (Some new_arg, rw') \<Rightarrow>
             (new_arg, c\<lparr>ctx_rw := rw', modified := True, simplified := True\<rparr>)
         | (None, rw') \<Rightarrow> (arg, c\<lparr>ctx_rw := rw'\<rparr>))
      else (arg, c))"

definition simp_step2 :: "expr \<Rightarrow> ctx \<Rightarrow> expr \<times> ctx" where
  "simp_step2 arg c =
     (case simp_nested_eq_ite (ctx_rw c) arg (neg_lits c) (pos_lits c) of
        (Some new_arg, rw') \<Rightarrow>
          (new_arg, c\<lparr>ctx_rw := rw', modified := True, simplified := True\<rparr>)
      | (None, rw') \<Rightarrow> (arg, c\<lparr>ctx_rw := rw'\<rparr>))"

definition process_arg :: "expr \<Rightarrow> ctx \<Rightarrow> (expr \<times> bool_rewriter) + ctx" where
  "process_arg arg0 c0 =
     (let (arg1, c1) = simp_step1 arg0 c0;
          (arg, c) = simp_step2 arg1 c1
      in if is_false arg then Inr c
         else if is_true arg then Inl (arg, ctx_rw c)
         else if m_flat (ctx_rw c) \<and> is_or arg then Inr (fold push_new_arg (get_args arg) c)
         else Inr (push_new_arg arg c))"

fun process_args :: "expr list \<Rightarrow> ctx \<Rightarrow> (expr \<times> bool_rewriter) + ctx" where
  "process_args [] c = Inr c"
| "process_args (arg # args) c =
     (case process_arg arg c of Inl r \<Rightarrow> Inl r | Inr c' \<Rightarrow> process_args args c')"

text \<open>The \<^verbatim>\<open>while (true)\<close> of \<^verbatim>\<open>local_ctx_simp\<close>.  The outer option is divergence: \<open>None\<close> would mean
  that the loop runs forever, which \<open>local_ctx_loop_total\<close> excludes for well-sorted arguments.
  The inner option is the method's Boolean result with its \<^verbatim>\<open>result\<close>.\<close>

partial_function (option) local_ctx_loop ::
    "bool \<Rightarrow> bool \<Rightarrow> bool \<Rightarrow> bool_rewriter \<Rightarrow> expr list \<Rightarrow> (expr option \<times> bool_rewriter) option" where
  "local_ctx_loop forward md simp rw args =
     (let c0 = \<lparr>new_args = [], neg_lits = [], pos_lits = [], modified = md, simplified = simp,
                ctx_rw = add_cost (2 * length args) rw\<rparr>
      in case process_args (if forward then args else rev args) c0 of
           Inl (r, rw') \<Rightarrow> Some (Some r, rw')
         | Inr c \<Rightarrow>
             if forward then
               local_ctx_loop False (modified c) (simplified c) (ctx_rw c) (new_args c)
             else if \<not> modified c then
               Some (if simplified c then Some (mk_or_app args) else None, ctx_rw c)
             else local_ctx_loop True False (simplified c) (ctx_rw c) (rev (new_args c)))"

declare local_ctx_loop.simps [code]

definition local_ctx_simp ::
    "bool_rewriter \<Rightarrow> expr list \<Rightarrow> (expr option \<times> bool_rewriter) option" where
  "local_ctx_simp rw args = local_ctx_loop True False False rw args"

subsection \<open>Disjunctions\<close>

text \<open>The methods below may run \<^verbatim>\<open>local_ctx_simp\<close>; they return the charged rewriter, and the
  option around their result is the divergence of that loop.\<close>

type_synonym 'a rw_result = "('a \<times> bool_rewriter) option"

fun nflat_or_loop ::
    "expr list \<Rightarrow> bool \<Rightarrow> expr list \<Rightarrow> expr list \<Rightarrow> expr list \<Rightarrow> (bool \<times> expr list) option" where
  "nflat_or_loop [] s buffer neg pos = Some (s, buffer)"
| "nflat_or_loop (arg # args) s buffer neg pos =
     (if is_true arg then None
      else if is_false arg then nflat_or_loop args True buffer neg pos
      else if is_not arg then
        (let atom = get_arg0 arg
         in if atom \<in> set neg then nflat_or_loop args True buffer neg pos
            else if atom \<in> set pos then None
            else nflat_or_loop args s (buffer @ [arg]) (atom # neg) pos)
      else
        (if arg \<in> set pos then nflat_or_loop args True buffer neg pos
         else if arg \<in> set neg then None
         else nflat_or_loop args s (buffer @ [arg]) neg (arg # pos)))"

definition mk_nflat_or_core :: "bool_rewriter \<Rightarrow> expr list \<Rightarrow> br_result rw_result" where
  "mk_nflat_or_core rw args =
     (case nflat_or_loop args False [] [] [] of
        None \<Rightarrow> Some (BR_DONE TrueE, rw)
      | Some (s, buffer) \<Rightarrow>
          (case buffer of
             [] \<Rightarrow> Some (BR_DONE FalseE, rw)
           | [a] \<Rightarrow> Some (BR_DONE a, rw)
           | _ \<Rightarrow>
               (let failed = (if s then BR_DONE (OrE buffer) else BR_FAILED)
                in if m_local_ctx rw \<and> m_local_ctx_cost rw \<le> m_local_ctx_limit rw then
                     (case local_ctx_simp rw buffer of
                        None \<Rightarrow> None
                      | Some (Some r, rw') \<Rightarrow> Some (BR_DONE r, rw')
                      | Some (None, rw') \<Rightarrow> Some (failed, rw'))
                   else Some (failed, rw))))"

definition mk_flat_or_core :: "bool_rewriter \<Rightarrow> expr list \<Rightarrow> br_result rw_result" where
  "mk_flat_or_core rw args =
     (if list_ex is_or args then
        (let flat_args = flatten is_or args
         in map_option (\<lambda>(r, rw'). (BR_DONE (result_or r (OrE flat_args)), rw'))
              (mk_nflat_or_core rw flat_args))
      else mk_nflat_or_core rw args)"

definition mk_or_core :: "bool_rewriter \<Rightarrow> expr list \<Rightarrow> br_result rw_result" where
  "mk_or_core rw args = (if m_flat rw then mk_flat_or_core rw args else mk_nflat_or_core rw args)"

definition mk_or :: "bool_rewriter \<Rightarrow> expr list \<Rightarrow> expr rw_result" where
  "mk_or rw args = map_option (\<lambda>(r, rw'). (result_or r (OrE args), rw')) (mk_or_core rw args)"

definition mk_and_as_or :: "bool_rewriter \<Rightarrow> expr list \<Rightarrow> expr rw_result" where
  "mk_and_as_or rw args =
     map_option (\<lambda>(r, rw'). (mk_not rw r, rw')) (mk_or rw (map (mk_not rw) args))"

definition mk_and_core :: "bool_rewriter \<Rightarrow> expr list \<Rightarrow> br_result rw_result" where
  "mk_and_core rw args =
     (if m_elim_and rw then map_option (\<lambda>(r, rw'). (BR_DONE r, rw')) (mk_and_as_or rw args)
      else if m_flat rw then Some (mk_flat_and_core args, rw)
      else Some (mk_nflat_and_core args, rw))"

definition mk_and :: "bool_rewriter \<Rightarrow> expr list \<Rightarrow> expr rw_result" where
  "mk_and rw args = map_option (\<lambda>(r, rw'). (result_or r (AndE args), rw')) (mk_and_core rw args)"

definition mk_implies :: "bool_rewriter \<Rightarrow> expr \<Rightarrow> expr \<Rightarrow> expr rw_result" where
  "mk_implies rw lhs rhs = (let tmp = mk_not rw lhs in mk_or rw [tmp, rhs])"

definition mk_nand :: "bool_rewriter \<Rightarrow> expr list \<Rightarrow> expr rw_result" where
  "mk_nand rw args = map_option (\<lambda>(tmp, rw'). (mk_not rw tmp, rw')) (mk_and rw args)"

definition mk_nor :: "bool_rewriter \<Rightarrow> expr list \<Rightarrow> expr rw_result" where
  "mk_nor rw args = map_option (\<lambda>(tmp, rw'). (mk_not rw tmp, rw')) (mk_or rw args)"

subsection \<open>Distinct\<close>

text \<open>The loop over the arguments: \<open>None\<close> when one repeats, else whether all are values.\<close>

fun distinct_loop :: "expr list \<Rightarrow> expr list \<Rightarrow> bool \<Rightarrow> bool option" where
  "distinct_loop [] visited all_value = Some all_value"
| "distinct_loop (arg # args) visited all_value =
     (if arg \<in> set visited then None
      else distinct_loop args (arg # visited) (all_value \<and> is_unique_value arg))"

fun diseqs :: "expr list \<Rightarrow> expr list" where
  "diseqs [] = []"
| "diseqs (a # args) = map (\<lambda>b. NotE (EqE a b)) args @ diseqs args"

definition mk_distinct_core :: "bool_rewriter \<Rightarrow> expr list \<Rightarrow> br_result" where
  "mk_distinct_core rw args =
     (if length args \<le> 1 then BR_DONE TrueE
      else if length args = 2 then BR_REWRITE2 (NotE (EqE (args ! 0) (args ! 1)))
      else case distinct_loop args [] True of
        None \<Rightarrow> BR_DONE FalseE
      | Some all_value \<Rightarrow>
          if all_value then BR_DONE TrueE
          else if is_bool (args ! 0) then BR_DONE FalseE
          else if m_blast_distinct rw \<and> length args < unat (m_blast_distinct_threshold rw) then
            BR_REWRITE3 (AndE (diseqs args))
          else BR_FAILED)"

definition mk_distinct :: "bool_rewriter \<Rightarrow> expr list \<Rightarrow> expr" where
  "mk_distinct rw args = result_or (mk_distinct_core rw args) (DistinctE args)"

subsection \<open>If-then-else\<close>

text \<open>The three opening normalisations: negated condition, and a branch that tests the
  condition again.  The result is the new triple and the flag \<open>s\<close>.\<close>

definition ite_normalise :: "expr \<Rightarrow> expr \<Rightarrow> expr \<Rightarrow> bool \<times> expr \<times> expr \<times> expr" where
  "ite_normalise c0 t0 e0 =
     (let s0 = is_not c0;
          c = (if s0 then get_arg0 c0 else c0);
          t1 = (if s0 then e0 else t0);
          e1 = (if s0 then t0 else e0);
          (s1, t) = (case t1 of IteE c' u v \<Rightarrow> if c' = c then (True, u) else (s0, t1) | _ \<Rightarrow> (s0, t1));
          (s, e) = (case e1 of IteE c' u v \<Rightarrow> if c' = c then (True, v) else (s1, e1) | _ \<Rightarrow> (s1, e1))
      in (s, c, t, e))"

definition br_done :: "expr rw_result \<Rightarrow> br_result rw_result" where
  "br_done m = map_option (\<lambda>(r, rw'). (BR_DONE r, rw')) m"

text \<open>The rules for Boolean branches; \<open>None\<close> when none applies.\<close>

definition ite_bool_rules ::
    "bool_rewriter \<Rightarrow> expr \<Rightarrow> expr \<Rightarrow> expr \<Rightarrow> br_result rw_result option" where
  "ite_bool_rules rw c t e =
     (if is_true t \<and> is_false e then Some (Some (BR_DONE c, rw))
      else if is_true t \<and> m_elim_ite rw then Some (br_done (mk_or rw [c, e]))
      else if is_false t \<and> is_true e then Some (Some (BR_DONE (mk_not rw c), rw))
      else if is_false t \<and> m_elim_ite rw then Some (br_done (mk_and rw [mk_not rw c, e]))
      else if is_true e \<and> m_elim_ite rw then Some (br_done (mk_or rw [mk_not rw c, t]))
      else if is_false e \<and> m_elim_ite rw then Some (br_done (mk_and rw [c, t]))
      else if c = e \<and> m_elim_ite rw then Some (br_done (mk_and rw [c, t]))
      else if c = t \<and> m_elim_ite rw then Some (br_done (mk_or rw [c, e]))
      else if is_complement_core t e \<and> m_elim_ite rw then Some (Some (BR_DONE (mk_eq rw c t), rw))
      else if is_complement_core e t \<and> m_elim_ite rw then Some (Some (BR_DONE (mk_eq rw c t), rw))
      else None)"

definition rewrite1_ite ::
    "expr \<Rightarrow> expr \<Rightarrow> expr rw_result \<Rightarrow> br_result rw_result" where
  "rewrite1_ite t e m = map_option (\<lambda>(new_c, rw'). (BR_REWRITE1 (IteE new_c t e), rw')) m"

text \<open>\<^verbatim>\<open>(or (and c1 c2) (and (not c1) c3))\<close>, built with the rewriter, in the code's order.\<close>

definition merge_cond :: "bool_rewriter \<Rightarrow> expr \<Rightarrow> expr \<Rightarrow> expr \<Rightarrow> expr rw_result" where
  "merge_cond rw c c2 c3 =
     (case mk_and rw [c, c2] of
        None \<Rightarrow> None
      | Some (and1, rw1) \<Rightarrow>
          (case mk_and rw1 [mk_not rw1 c, c3] of
             None \<Rightarrow> None
           | Some (and2, rw2) \<Rightarrow> mk_or rw2 [and1, and2]))"

fun ite_then_rules ::
    "bool_rewriter \<Rightarrow> expr \<Rightarrow> expr \<Rightarrow> expr \<Rightarrow> br_result rw_result option" where
  "ite_then_rules rw c (IteE c2 t1 t2) e =
     (if e = t1 then Some (rewrite1_ite t2 e (mk_and rw [c, mk_not rw c2]))
      else if e = t2 then Some (rewrite1_ite t1 e (mk_and rw [c, c2]))
      else (case e of
              IteE c3 e1 e2 \<Rightarrow>
                if t1 = e1 \<and> t2 = e2 then Some (rewrite1_ite t1 t2 (merge_cond rw c c2 c3))
                else if t1 = e2 \<and> t2 = e1 then
                  Some (rewrite1_ite t1 t2 (merge_cond rw c c2 (mk_not rw c3)))
                else None
            | _ \<Rightarrow> None))"
| "ite_then_rules rw c t e = None"

fun ite_else_rules ::
    "bool_rewriter \<Rightarrow> expr \<Rightarrow> expr \<Rightarrow> expr \<Rightarrow> br_result rw_result option" where
  "ite_else_rules rw c t (IteE c2 e1 e2) =
     (if t = e1 then Some (rewrite1_ite t e2 (mk_or rw [c, c2]))
      else if t = e2 then Some (rewrite1_ite t e1 (mk_or rw [c, mk_not rw c2]))
      else None)"
| "ite_else_rules rw c t e = None"

definition mk_ite_core :: "bool_rewriter \<Rightarrow> expr \<Rightarrow> expr \<Rightarrow> expr \<Rightarrow> br_result rw_result" where
  "mk_ite_core rw c0 t0 e0 =
     (let (s, c, t, e) = ite_normalise c0 t0 e0;
          extra = m_ite_extra_rules rw \<and> m_elim_ite rw
      in if is_true c then Some (BR_DONE t, rw)
         else if is_false c then Some (BR_DONE e, rw)
         else if t = e then Some (BR_DONE t, rw)
         else case (if is_bool t then ite_bool_rules rw c t e else None) of
           Some r \<Rightarrow> r
         | None \<Rightarrow>
             (case (if extra then ite_then_rules rw c t e else None) of
                Some r \<Rightarrow> r
              | None \<Rightarrow>
                  (case (if extra then ite_else_rules rw c t e else None) of
                     Some r \<Rightarrow> r
                   | None \<Rightarrow> Some (if s then BR_DONE (IteE c t e) else BR_FAILED, rw))))"

definition mk_ite :: "bool_rewriter \<Rightarrow> expr \<Rightarrow> expr \<Rightarrow> expr \<Rightarrow> expr rw_result" where
  "mk_ite rw c t e = map_option (\<lambda>(r, rw'). (result_or r (IteE c t e), rw')) (mk_ite_core rw c t e)"

subsection \<open>Dispatch\<close>

datatype basic_op_kind =
    OP_TRUE | OP_FALSE | OP_EQ | OP_DISTINCT | OP_ITE | OP_AND | OP_OR | OP_XOR | OP_NOT | OP_IMPLIES

text \<open>\<^verbatim>\<open>m().mk_app(f, num_args, args)\<close> for the basic family; \<open>None\<close> is an application with the
  wrong number of arguments, which the manager refuses.\<close>

fun mk_basic_app :: "basic_op_kind \<Rightarrow> expr list \<Rightarrow> expr option" where
  "mk_basic_app OP_TRUE [] = Some TrueE"
| "mk_basic_app OP_FALSE [] = Some FalseE"
| "mk_basic_app OP_EQ [a, b] = Some (EqE a b)"
| "mk_basic_app OP_DISTINCT args = Some (DistinctE args)"
| "mk_basic_app OP_ITE [c, t, e] = Some (IteE c t e)"
| "mk_basic_app OP_AND args = Some (AndE args)"
| "mk_basic_app OP_OR args = Some (OrE args)"
| "mk_basic_app OP_XOR [a] = Some a"
| "mk_basic_app OP_XOR [a, b] = Some (XorE a b)"
| "mk_basic_app OP_NOT [a] = Some (NotE a)"
| "mk_basic_app OP_IMPLIES [a, b] = Some (ImpliesE a b)"
| "mk_basic_app k args = None"

text \<open>The last equation covers the operators without rules, the empty \<^verbatim>\<open>xor\<close>, and the argument
  counts that the assertions of the code exclude.\<close>

fun mk_app_core :: "bool_rewriter \<Rightarrow> basic_op_kind \<Rightarrow> expr list \<Rightarrow> br_result rw_result" where
  "mk_app_core rw OP_EQ [a, b] = Some (mk_eq_core rw a b, rw)"
| "mk_app_core rw OP_DISTINCT args = Some (mk_distinct_core rw args, rw)"
| "mk_app_core rw OP_AND args = mk_and_core rw args"
| "mk_app_core rw OP_OR args = mk_or_core rw args"
| "mk_app_core rw OP_NOT [a] = Some (mk_not_core rw a, rw)"
| "mk_app_core rw OP_ITE [c, t, e] = mk_ite_core rw c t e"
| "mk_app_core rw OP_IMPLIES [a, b] = br_done (mk_implies rw a b)"
| "mk_app_core rw OP_XOR [a] = Some (BR_DONE a, rw)"
| "mk_app_core rw OP_XOR [a, b] = Some (BR_DONE (mk_xor rw a b), rw)"
| "mk_app_core rw k args = Some (BR_FAILED, rw)"

definition mk_app :: "bool_rewriter \<Rightarrow> basic_op_kind \<Rightarrow> expr list \<Rightarrow> expr option rw_result" where
  "mk_app rw f args =
     map_option (\<lambda>(r, rw'). (if r = BR_FAILED then mk_basic_app f args else Some (result_or r TrueE), rw'))
       (mk_app_core rw f args)"

end
