(* ===== verification/Bool_Rewriter_Ctx.thy ===== *)
theory Bool_Rewriter_Ctx
  imports Bool_Rewriter
begin

text \<open>Conjunctions without context, and the contextual simplification of \<^verbatim>\<open>bool_rewriter.cpp\<close>
  (\<open>local_ctx_simp\<close> and the methods it calls): the invariant of one pass over the arguments, that
  the loop of passes ends for every cost limit, and that its result is equivalent to the
  disjunction it was given.\<close>

subsection \<open>Correctness of conjunctions\<close>

definition marks_ok :: "expr list \<Rightarrow> expr list \<Rightarrow> expr list \<Rightarrow> bool" where
  "marks_ok buffer neg pos \<longleftrightarrow> (\<forall>n \<in> set neg. NotE n \<in> set buffer) \<and> set pos \<subseteq> set buffer"

lemma marks_ok_Nil [simp]: "marks_ok [] [] []"
  by (simp add: marks_ok_def)

lemma marks_ok_push_neg: "marks_ok buffer neg pos \<Longrightarrow> marks_ok (buffer @ [NotE a]) (a # neg) pos"
  by (auto simp: marks_ok_def)

lemma marks_ok_push_pos: "marks_ok buffer neg pos \<Longrightarrow> marks_ok (buffer @ [a]) neg (a # pos)"
  by (auto simp: marks_ok_def)

lemma marks_okD:
  "marks_ok buffer neg pos \<Longrightarrow> n \<in> set neg \<Longrightarrow> NotE n \<in> set buffer"
  "marks_ok buffer neg pos \<Longrightarrow> p \<in> set pos \<Longrightarrow> p \<in> set buffer"
  by (auto simp: marks_ok_def)

text \<open>The three ways a round of the loop goes on, for either polarity of the argument.\<close>

lemma nflat_and_loop_Cons:
  assumes "marks_ok buffer neg pos"
  obtains (drop) "nflat_and_loop (arg # args) s buffer neg pos = nflat_and_loop args True buffer neg pos"
      "arg = TrueE \<or> arg \<in> set buffer"
  | (stop) "nflat_and_loop (arg # args) s buffer neg pos = None"
      "arg = FalseE \<or> NotE arg \<in> set buffer \<or> (\<exists>a. arg = NotE a \<and> a \<in> set buffer)"
  | (push) neg' pos' where
      "nflat_and_loop (arg # args) s buffer neg pos = nflat_and_loop args s (buffer @ [arg]) neg' pos'"
      "marks_ok (buffer @ [arg]) neg' pos'"
proof (cases "is_not arg")
  case True
  then obtain a where a: "arg = NotE a" by (auto simp: is_not_iff)
  show thesis
    using marks_okD [OF assms] marks_ok_push_neg [OF assms, of a] drop stop push a
    by (cases "a \<in> set neg"; cases "a \<in> set pos") (auto simp: Let_def)
next
  case False
  then show thesis
    using marks_okD [OF assms] marks_ok_push_pos [OF assms, of arg] drop stop push
    by (cases "is_true arg"; cases "is_false arg"; cases "arg \<in> set neg"; cases "arg \<in> set pos") auto
qed

lemma nflat_and_loop_Some:
  assumes "nflat_and_loop args s buffer neg pos = Some (s', buffer')" "marks_ok buffer neg pos"
  shows "set buffer' \<subseteq> set buffer \<union> set args"
    and "(\<forall>x \<in> set buffer'. holds I x) \<longleftrightarrow> (\<forall>x \<in> set buffer \<union> set args. holds I x)"
    and "\<not> s' \<Longrightarrow> \<not> s \<and> buffer' = buffer @ args"
  using assms
proof (induction args arbitrary: s buffer neg pos)
  case (Cons arg args)
  {
    case 1
    then show ?case
      using Cons.IH(1) by (cases rule: nflat_and_loop_Cons [OF 1(2), of arg args s]) fastforce+
  next
    case 2
    then show ?case
      using Cons.IH(2) by (cases rule: nflat_and_loop_Cons [OF 2(2), of arg args s]) fastforce+
  next
    case 3
    then show ?case
      using Cons.IH(3) by (cases rule: nflat_and_loop_Cons [OF 3(3), of arg args s]) fastforce+
  }
qed auto

lemma nflat_and_loop_None:
  assumes "nflat_and_loop args s buffer neg pos = None" "marks_ok buffer neg pos"
  shows "\<exists>x \<in> set buffer \<union> set args. \<not> holds I x"
  using assms
proof (induction args arbitrary: s buffer neg pos)
  case (Cons arg args)
  show ?case
  proof (cases rule: nflat_and_loop_Cons [OF Cons.prems(2), of arg args s])
    case 1
    then show ?thesis using Cons.IH [of True buffer neg pos] Cons.prems by auto
  next
    case 2
    then show ?thesis by (elim disjE exE conjE) force+
  next
    case (3 neg' pos')
    then show ?thesis using Cons.IH [of s "buffer @ [arg]" neg' pos'] Cons.prems by auto
  qed
qed auto

text \<open>The same three ways for disjunctions, with the constants exchanged.\<close>

lemma nflat_or_loop_Cons:
  assumes "marks_ok buffer neg pos"
  obtains (drop) "nflat_or_loop (arg # args) s buffer neg pos = nflat_or_loop args True buffer neg pos"
      "arg = FalseE \<or> arg \<in> set buffer"
  | (stop) "nflat_or_loop (arg # args) s buffer neg pos = None"
      "arg = TrueE \<or> NotE arg \<in> set buffer \<or> (\<exists>a. arg = NotE a \<and> a \<in> set buffer)"
  | (push) neg' pos' where
      "nflat_or_loop (arg # args) s buffer neg pos = nflat_or_loop args s (buffer @ [arg]) neg' pos'"
      "marks_ok (buffer @ [arg]) neg' pos'"
proof (cases "is_not arg")
  case True
  then obtain a where a: "arg = NotE a" by (auto simp: is_not_iff)
  show thesis
    using marks_okD [OF assms] marks_ok_push_neg [OF assms, of a] drop stop push a
    by (cases "a \<in> set neg"; cases "a \<in> set pos") (auto simp: Let_def)
next
  case False
  then show thesis
    using marks_okD [OF assms] marks_ok_push_pos [OF assms, of arg] drop stop push
    by (cases "is_true arg"; cases "is_false arg"; cases "arg \<in> set neg"; cases "arg \<in> set pos") auto
qed

lemma nflat_or_loop_Some:
  assumes "nflat_or_loop args s buffer neg pos = Some (s', buffer')" "marks_ok buffer neg pos"
  shows "set buffer' \<subseteq> set buffer \<union> set args"
    and "(\<exists>x \<in> set buffer'. holds I x) \<longleftrightarrow> (\<exists>x \<in> set buffer \<union> set args. holds I x)"
    and "\<not> s' \<Longrightarrow> \<not> s \<and> buffer' = buffer @ args"
  using assms
proof (induction args arbitrary: s buffer neg pos)
  case (Cons arg args)
  {
    case 1
    then show ?case
      using Cons.IH(1) by (cases rule: nflat_or_loop_Cons [OF 1(2), of arg args s]) fastforce+
  next
    case 2
    then show ?case
      using Cons.IH(2) by (cases rule: nflat_or_loop_Cons [OF 2(2), of arg args s]) fastforce+
  next
    case 3
    then show ?case
      using Cons.IH(3) by (cases rule: nflat_or_loop_Cons [OF 3(3), of arg args s]) fastforce+
  }
qed auto

lemma nflat_or_loop_None:
  assumes "nflat_or_loop args s buffer neg pos = None" "marks_ok buffer neg pos"
  shows "\<exists>x \<in> set buffer \<union> set args. holds I x"
  using assms
proof (induction args arbitrary: s buffer neg pos)
  case (Cons arg args)
  show ?case
  proof (cases rule: nflat_or_loop_Cons [OF Cons.prems(2), of arg args s])
    case 1
    then show ?thesis using Cons.IH [of True buffer neg pos] Cons.prems by auto
  next
    case 2
    then show ?thesis by (elim disjE exE conjE) force+
  next
    case (3 neg' pos')
    then show ?thesis using Cons.IH [of s "buffer @ [arg]" neg' pos'] Cons.prems by auto
  qed
qed auto


lemma holds_and_app:
  "holds I (case b of [] \<Rightarrow> TrueE | [a] \<Rightarrow> a | _ \<Rightarrow> AndE b) \<longleftrightarrow> (\<forall>x \<in> set b. holds I x)"
  by (auto split: list.splits)

lemma holds_mk_or_app [simp]: "holds I (mk_or_app b) \<longleftrightarrow> (\<exists>x \<in> set b. holds I x)"
  by (auto simp: mk_or_app_def split: list.splits)

lemma wt_mk_or_app [simp]:
  "\<forall>x \<in> set b. wt x \<and> is_bool x \<Longrightarrow> wt (mk_or_app b) \<and> is_bool (mk_or_app b)"
  by (auto simp: mk_or_app_def split: list.splits)

lemma mk_nflat_and_core_sound:
  assumes "\<forall>x \<in> set args. wt x \<and> is_bool x"
  shows "rw_equiv (AndE args) (result_or (mk_nflat_and_core args) (AndE args))"
proof (cases "nflat_and_loop args False [] [] []")
  case None
  then show ?thesis
    using nflat_and_loop_None [OF None marks_ok_Nil] assms
    by (intro rw_equiv_boolI) (auto simp: mk_nflat_and_core_def)
next
  case (Some r)
  obtain s' buffer' where r: "r = (s', buffer')" by force
  note L = nflat_and_loop_Some [OF Some [unfolded r] marks_ok_Nil]
  have b: "\<forall>x \<in> set buffer'. wt x \<and> is_bool x" using L(1) assms by auto
  have "result_or (mk_nflat_and_core args) (AndE args) =
      (case buffer' of [] \<Rightarrow> TrueE | [a] \<Rightarrow> a | _ \<Rightarrow> AndE buffer')"
    using L(3) Some r by (auto simp: mk_nflat_and_core_def split: list.splits)
  moreover have "rw_equiv (AndE args) \<dots>"
  proof (rule rw_equiv_boolI)
    show "holds I (case buffer' of [] \<Rightarrow> TrueE | [a] \<Rightarrow> a | _ \<Rightarrow> AndE buffer') = holds I (AndE args)" for I
      using L(2) [of I] by (simp add: holds_and_app)
  qed (use b assms in \<open>auto split: list.splits\<close>)
  ultimately show ?thesis by simp
qed

lemma set_flatten:
  "set (flatten P args) = (\<Union>x \<in> set args. if P x then set (get_args x) else {x})"
proof -
  have "set (takeWhile (Not \<circ> P) args) = (\<Union>x \<in> set (takeWhile (Not \<circ> P) args). if P x then set (get_args x) else {x})"
    by (auto dest: set_takeWhileD)
  moreover have "set args = set (takeWhile (Not \<circ> P) args) \<union> set (dropWhile (Not \<circ> P) args)"
    by (metis set_append takeWhile_dropWhile_id)
  ultimately show ?thesis
    unfolding flatten_def by (simp only: set_append set_concat set_map UN_Un image_image if_distrib set_simps)
qed

lemma flatten_and_wt:
  "\<forall>x \<in> set args. wt x \<and> is_bool x \<Longrightarrow> \<forall>x \<in> set (flatten is_and args). wt x \<and> is_bool x"
  by (auto simp: set_flatten is_and_iff split: if_splits)

lemma flatten_or_wt:
  "\<forall>x \<in> set args. wt x \<and> is_bool x \<Longrightarrow> \<forall>x \<in> set (flatten is_or args). wt x \<and> is_bool x"
  by (auto simp: set_flatten is_or_iff split: if_splits)

lemma flatten_and_holds:
  "(\<forall>x \<in> set (flatten is_and args). holds I x) \<longleftrightarrow> (\<forall>x \<in> set args. holds I x)"
proof -
  have "(\<forall>y \<in> (if is_and x then set (get_args x) else {x}). holds I y) = holds I x" for x
    by (cases x) auto
  then show ?thesis by (simp only: set_flatten ball_UN bex_UN)
qed

lemma flatten_or_holds:
  "(\<exists>x \<in> set (flatten is_or args). holds I x) \<longleftrightarrow> (\<exists>x \<in> set args. holds I x)"
proof -
  have "(\<exists>y \<in> (if is_or x then set (get_args x) else {x}). holds I y) = holds I x" for x
    by (cases x) auto
  then show ?thesis by (simp only: set_flatten ball_UN bex_UN)
qed

lemma mk_flat_and_core_sound:
  assumes "\<forall>x \<in> set args. wt x \<and> is_bool x"
  shows "rw_equiv (AndE args) (result_or (mk_flat_and_core args) (AndE args))"
proof (cases "list_ex is_and args")
  case True
  have "rw_equiv (AndE args) (AndE (flatten is_and args))"
    using assms flatten_and_wt [OF assms] flatten_and_holds by (intro rw_equiv_boolI) auto
  then show ?thesis
    using True mk_nflat_and_core_sound [OF flatten_and_wt [OF assms]]
    by (auto simp: mk_flat_and_core_def Let_def intro: rw_equiv_trans)
next
  case False
  then show ?thesis
    using mk_nflat_and_core_sound [OF assms] by (simp add: mk_flat_and_core_def)
qed

text \<open>\<open>in_ctx I neg pos\<close>: the interpretation makes every marked literal of the disjunction false.\<close>

definition in_ctx :: "interp \<Rightarrow> expr list \<Rightarrow> expr list \<Rightarrow> bool" where
  "in_ctx I neg pos \<longleftrightarrow> (\<forall>n \<in> set neg. holds I n) \<and> (\<forall>p \<in> set pos. \<not> holds I p)"

definition boolean :: "expr \<Rightarrow> bool" where
  "boolean e \<longleftrightarrow> wt e \<and> is_bool e"

lemma boolean_simps [simp]:
  "boolean TrueE" "boolean FalseE" "boolean (NotE a) \<longleftrightarrow> boolean a"
  "boolean (AndE xs) \<longleftrightarrow> (\<forall>x \<in> set xs. boolean x)" "boolean (OrE xs) \<longleftrightarrow> (\<forall>x \<in> set xs. boolean x)"
  by (auto simp: boolean_def)

lemma boolean_mk_not:
  assumes "boolean a"
  shows "boolean (mk_not rw a)" and "interp_ok I \<Longrightarrow> holds I (mk_not rw a) = (\<not> holds I a)"
  using mk_not_sound [of a rw, THEN rw_equivD(1)] mk_not_sound [of a rw, THEN rw_equivD(3)]
    mk_not_sound [of a rw, THEN rw_equivD(4)] assms by (auto simp: boolean_def)

lemma boolean_mk_eq:
  assumes "boolean a" "boolean b"
  shows "boolean (mk_eq rw a b)" and "interp_ok I \<Longrightarrow> holds I (mk_eq rw a b) = (holds I a = holds I b)"
  using mk_eq_sound [of a b rw, THEN rw_equivD(1)] mk_eq_sound [of a b rw, THEN rw_equivD(3)]
    mk_eq_sound [of a b rw, THEN rw_equivD(4)] assms
  by (auto simp: boolean_def is_bool_def eval_bool_eq)

subsection \<open>Nested disjunctions\<close>

definition ctx_drops :: "expr \<Rightarrow> expr list \<Rightarrow> expr list \<Rightarrow> bool" where
  "ctx_drops arg neg pos \<longleftrightarrow> arg \<in> set pos \<or> (is_not arg \<and> get_arg0 arg \<in> set neg)"

definition ctx_stops :: "expr \<Rightarrow> expr list \<Rightarrow> expr list \<Rightarrow> bool" where
  "ctx_stops arg neg pos \<longleftrightarrow> arg \<in> set neg \<or> (is_not arg \<and> get_arg0 arg \<in> set pos \<and> \<not> ctx_drops arg neg pos)"

lemma simp_nested_not_or_loop_Cons:
  "simp_nested_not_or_loop (arg # args) neg pos simp new =
     (if ctx_stops arg neg pos then None
      else if ctx_drops arg neg pos then simp_nested_not_or_loop args neg pos True new
      else simp_nested_not_or_loop args neg pos simp (new @ [arg]))"
  by (auto simp: ctx_stops_def ctx_drops_def)

lemma ctx_drops_false: "ctx_drops arg neg pos \<Longrightarrow> in_ctx I neg pos \<Longrightarrow> \<not> holds I arg"
  by (auto simp: ctx_drops_def in_ctx_def is_not_iff)

lemma ctx_stops_true: "ctx_stops arg neg pos \<Longrightarrow> in_ctx I neg pos \<Longrightarrow> holds I arg"
  by (auto simp: ctx_stops_def in_ctx_def is_not_iff)

lemma simp_nested_not_or_loop_Some:
  assumes "simp_nested_not_or_loop args neg pos s new = Some (s', new')"
  shows "\<exists>kept. new' = new @ kept \<and> set kept \<subseteq> set args
      \<and> sum_list (map weight kept) \<le> sum_list (map weight args)
      \<and> (\<not> s \<longrightarrow> s' \<longrightarrow> sum_list (map weight kept) < sum_list (map weight args))
      \<and> (\<forall>I. in_ctx I neg pos \<longrightarrow> (\<exists>x \<in> set kept. holds I x) = (\<exists>x \<in> set args. holds I x))"
  using assms
proof (induction args arbitrary: s new)
  case (Cons arg args)
  have ns: "\<not> ctx_stops arg neg pos"
    using Cons.prems by (auto simp: simp_nested_not_or_loop_Cons simp del: simp_nested_not_or_loop.simps)
  show ?case
  proof (cases "ctx_drops arg neg pos")
    case True
    then have "simp_nested_not_or_loop args neg pos True new = Some (s', new')"
      using Cons.prems ns by (simp add: simp_nested_not_or_loop_Cons del: simp_nested_not_or_loop.simps)
    from Cons.IH [OF this] obtain kept where k: "new' = new @ kept" "set kept \<subseteq> set args"
      "sum_list (map weight kept) \<le> sum_list (map weight args)"
      "\<forall>I. in_ctx I neg pos \<longrightarrow> (\<exists>x \<in> set kept. holds I x) = (\<exists>x \<in> set args. holds I x)"
      by blast
    have "sum_list (map weight kept) < sum_list (map weight (arg # args))"
      using k(3) weight_pos [of arg] by (simp del: weight_pos)
    with k ctx_drops_false [OF True] show ?thesis by (intro exI [of _ kept]) auto
  next
    case False
    then have "simp_nested_not_or_loop args neg pos s (new @ [arg]) = Some (s', new')"
      using Cons.prems ns by (simp add: simp_nested_not_or_loop_Cons del: simp_nested_not_or_loop.simps)
    from Cons.IH [OF this] obtain kept where k: "new' = (new @ [arg]) @ kept" "set kept \<subseteq> set args"
      "sum_list (map weight kept) \<le> sum_list (map weight args)"
      "\<not> s \<longrightarrow> s' \<longrightarrow> sum_list (map weight kept) < sum_list (map weight args)"
      "\<forall>I. in_ctx I neg pos \<longrightarrow> (\<exists>x \<in> set kept. holds I x) = (\<exists>x \<in> set args. holds I x)"
      by blast
    then show ?thesis by (intro exI [of _ "arg # kept"]) auto
  qed
qed auto

lemma simp_nested_not_or_loop_None:
  assumes "simp_nested_not_or_loop args neg pos s new = None"
  shows "\<exists>x \<in> set args. \<forall>I. in_ctx I neg pos \<longrightarrow> holds I x"
  using assms
proof (induction args arbitrary: s new)
  case (Cons arg args)
  then show ?case
    using ctx_stops_true [of arg neg pos]
    by (auto simp: simp_nested_not_or_loop_Cons simp del: simp_nested_not_or_loop.simps split: if_splits)
qed auto

lemma simp_nested_not_or_sound:
  assumes "simp_nested_not_or rw args neg pos = (Some r, rw')" "\<forall>x \<in> set args. boolean x"
  shows "boolean r \<and> weight r < weight (NotE (OrE args))
    \<and> (\<forall>I. interp_ok I \<longrightarrow> in_ctx I neg pos \<longrightarrow> holds I r = holds I (NotE (OrE args)))"
proof (cases "simp_nested_not_or_loop args neg pos False []")
  case None
  then obtain x where x: "x \<in> set args" "\<forall>I. in_ctx I neg pos \<longrightarrow> holds I x"
    using simp_nested_not_or_loop_None by blast
  have "r = FalseE" using None assms(1) by (simp add: simp_nested_not_or_def Let_def)
  then show ?thesis
    using x sum_list_pos_if_mem [OF x(1), of weight] by auto
next
  case (Some p)
  obtain s' new' where p: "p = (s', new')" by force
  from simp_nested_not_or_loop_Some [OF Some [unfolded p]]
  have k: "set new' \<subseteq> set args" "s' \<Longrightarrow> sum_list (map weight new') < sum_list (map weight args)"
    "\<And>I. in_ctx I neg pos \<Longrightarrow> (\<exists>x \<in> set new'. holds I x) = (\<exists>x \<in> set args. holds I x)"
    by auto
  have s': "s'" using assms(1) Some p by (simp add: simp_nested_not_or_def Let_def split: if_splits)
  have b: "\<forall>x \<in> set new'. boolean x" using k(1) assms(2) by auto
  consider "new' = []" | a where "new' = [a]" | a b l where "new' = a # b # l"
    by (metis list.exhaust)
  then show ?thesis
  proof cases
    case 1
    then have "r = TrueE" using assms(1) Some p s' by (simp add: simp_nested_not_or_def Let_def)
    then show ?thesis using k s' 1 by auto
  next
    case 2
    then have "r = mk_not rw a" using assms(1) Some p s' by (simp add: simp_nested_not_or_def Let_def)
    then show ?thesis
      using k s' 2 b boolean_mk_not [of a] mk_not_weight [of rw a] by auto
  next
    case 3
    then have "r = NotE (OrE new')" using assms(1) Some p s' by (simp add: simp_nested_not_or_def Let_def)
    then show ?thesis
      using k(2,3) s' b by (auto simp del: ex_simps)
  qed
qed

subsection \<open>Nested equalities and if-then-elses\<close>

lemma mk_nested_ite_sound:
  assumes "wt (IteE c t e)"
  shows "rw_equiv (IteE c t e) (mk_nested_ite rw c t e)"
proof (cases "is_bool t")
  case True
  then have b: "boolean c" "boolean t" "boolean e"
    using assms by (auto simp: boolean_def is_bool_def)
  have bi: "boolean (IteE c t e)" using True assms by (simp add: boolean_def)
  have "boolean (mk_nested_ite rw c t e)"
    using b bi True by (simp add: mk_nested_ite_def boolean_mk_not boolean_mk_eq)
  moreover have "holds I (mk_nested_ite rw c t e) = holds I (IteE c t e)" if "interp_ok I" for I
    using b that True is_complement_core_eval [of t e I] is_complement_core_eval [of e t I]
    by (simp add: mk_nested_ite_def boolean_mk_not boolean_mk_eq)
  ultimately show ?thesis
    using bi by (intro rw_equiv_boolI) (auto simp: boolean_def)
next
  case False
  then have "mk_nested_ite rw c t e = (if is_true c then t else if is_false c then e else if t = e then t else IteE c t e)"
    by (simp add: mk_nested_ite_def)
  then show ?thesis using assms by (simp add: rw_equiv_def)
qed

lemma mk_nested_ite_weight:
  assumes "wt (IteE c t e)" "c \<in> {TrueE, FalseE} \<or> t \<in> {TrueE, FalseE} \<or> e \<in> {TrueE, FalseE}"
  shows "weight (mk_nested_ite rw c t e) < weight (IteE c t e)"
proof -
  have b: "is_bool t" if "\<not> is_true c" "\<not> is_false c"
    using assms that by (auto simp: is_bool_def)
  note W = mk_not_weight [of rw c] mk_not_weight [of rw t] mk_not_weight [of rw e] mk_eq_weight [of rw c t]
  consider (c) "c \<in> {TrueE, FalseE}" | (te) "c \<notin> {TrueE, FalseE}" "t = e"
    | (t) "c \<notin> {TrueE, FalseE}" "t \<noteq> e" "t \<in> {TrueE, FalseE}"
    | (e) "c \<notin> {TrueE, FalseE}" "t \<noteq> e" "t \<notin> {TrueE, FalseE}" "e \<in> {TrueE, FalseE}"
    using assms(2) by blast
  then show ?thesis
  proof cases
    case c
    then show ?thesis by (auto simp: mk_nested_ite_def)
  next
    case te
    then show ?thesis by (simp add: mk_nested_ite_def)
  next
    case t
    then show ?thesis using W by (auto simp: mk_nested_ite_def)
  next
    case e
    then show ?thesis using W b by (auto simp: mk_nested_ite_def)
  qed
qed

lemma simp_arg_sound:
  assumes "simp_arg arg neg pos = (r, md)" "\<forall>x \<in> set neg \<union> set pos. boolean x"
  shows "md \<Longrightarrow> r \<in> {TrueE, FalseE} \<and> boolean arg" and "\<not> md \<Longrightarrow> r = arg"
    and "in_ctx I neg pos \<Longrightarrow> holds I r = holds I arg"
    and "weight r \<le> weight arg"
  using assms by (auto simp: simp_arg_def Let_def is_not_iff in_ctx_def split: if_splits)

lemma simp_arg_wt:
  assumes "simp_arg arg neg pos = (r, md)" "\<forall>x \<in> set neg \<union> set pos. boolean x" "wt arg"
  shows "wt r" and "sort_of r = sort_of arg"
    and "interp_ok I \<Longrightarrow> in_ctx I neg pos \<Longrightarrow> eval I r = eval I arg"
proof -
  have "wt r \<and> sort_of r = sort_of arg \<and> (interp_ok I \<longrightarrow> in_ctx I neg pos \<longrightarrow> eval I r = eval I arg)"
  proof (cases md)
    case True
    then have r: "r = TrueE \<or> r = FalseE" "boolean arg" using simp_arg_sound(1) [OF assms(1,2)] by auto
    then show ?thesis
      using simp_arg_sound(3) [OF assms(1,2), of I] eval_bool_eq [of I r arg] by (auto simp: boolean_def is_bool_def)
  next
    case False
    then show ?thesis using simp_arg_sound(2) [OF assms(1,2)] assms(3) by simp
  qed
  then show "wt r" and "sort_of r = sort_of arg"
    and "interp_ok I \<Longrightarrow> in_ctx I neg pos \<Longrightarrow> eval I r = eval I arg" by auto
qed

text \<open>The two shapes that \<open>simp_nested_eq_ite\<close> simplifies, below their possible negation.\<close>

lemma simp_nested_eq:
  assumes "simp_arg a neg pos = (a', m1)" "simp_arg b neg pos = (b', m2)" "m1 \<or> m2"
    and marks: "\<forall>x \<in> set neg \<union> set pos. boolean x" and "wt (EqE a b)"
  shows "boolean (mk_eq rw a' b')" and "weight (mk_eq rw a' b') < weight (EqE a b)"
    and "interp_ok I \<Longrightarrow> in_ctx I neg pos \<Longrightarrow> holds I (mk_eq rw a' b') = holds I (EqE a b)"
proof -
  note A = simp_arg_sound [OF assms(1) marks] and B = simp_arg_sound [OF assms(2) marks]
  have w: "wt a" "wt b" "sort_of a = sort_of b" using assms(5) by auto
  note TA = simp_arg_wt [OF assms(1) marks w(1)] and TB = simp_arg_wt [OF assms(2) marks w(2)]
  have const: "a' \<in> {TrueE, FalseE} \<or> b' \<in> {TrueE, FalseE}" using A(1) B(1) assms(3) by auto
  then have bl: "is_bool a'" "is_bool b'" using TA(2) TB(2) w(3) by (auto simp: is_bool_def)
  then show "boolean (mk_eq rw a' b')" using TA TB by (intro boolean_mk_eq(1)) (auto simp: boolean_def)
  show "weight (mk_eq rw a' b') < weight (EqE a b)"
    using mk_eq_weight_const [OF const bl(1), of rw] A(4) B(4) by simp
  show "holds I (mk_eq rw a' b') = holds I (EqE a b)" if "interp_ok I" "in_ctx I neg pos"
    using rw_equivD(4) [OF mk_eq_sound [of a' b'] that(1)] TA TB w that by simp
qed

lemma simp_nested_ite:
  assumes "simp_arg c neg pos = (c', m1)" "simp_arg t neg pos = (t', m2)" "simp_arg e neg pos = (e', m3)"
    and "m1 \<or> m2 \<or> m3"
    and marks: "\<forall>x \<in> set neg \<union> set pos. boolean x" and "boolean (IteE c t e)"
  shows "boolean (mk_nested_ite rw c' t' e')" and "weight (mk_nested_ite rw c' t' e') < weight (IteE c t e)"
    and "interp_ok I \<Longrightarrow> in_ctx I neg pos \<Longrightarrow> holds I (mk_nested_ite rw c' t' e') = holds I (IteE c t e)"
proof -
  note C = simp_arg_sound [OF assms(1) marks] and T = simp_arg_sound [OF assms(2) marks]
    and E = simp_arg_sound [OF assms(3) marks]
  have w: "wt c" "wt t" "wt e" "is_bool c" "is_bool t" "sort_of t = sort_of e"
    using assms(6) by (auto simp: boolean_def)
  note TC = simp_arg_wt [OF assms(1) marks w(1)] and TT = simp_arg_wt [OF assms(2) marks w(2)]
    and TE = simp_arg_wt [OF assms(3) marks w(3)]
  have const: "c' \<in> {TrueE, FalseE} \<or> t' \<in> {TrueE, FalseE} \<or> e' \<in> {TrueE, FalseE}"
    using C(1) T(1) E(1) assms(4) by auto
  have wt': "wt (IteE c' t' e')" "is_bool t'"
    using TC TT TE w by (auto simp: is_bool_def)
  note S = mk_nested_ite_sound [OF wt'(1), of rw]
  show "boolean (mk_nested_ite rw c' t' e')"
    using rw_equivD(1,3) [OF S] wt' by (simp add: boolean_def)
  show "weight (mk_nested_ite rw c' t' e') < weight (IteE c t e)"
    using mk_nested_ite_weight [OF wt'(1) const, of rw] C(4) T(4) E(4) by simp
  show "holds I (mk_nested_ite rw c' t' e') = holds I (IteE c t e)" if "interp_ok I" "in_ctx I neg pos"
    using rw_equivD(4) [OF S that(1)] TC TT TE that by simp
qed

lemma simp_nested_eq_ite_sound:
  assumes "simp_nested_eq_ite rw t0 neg pos = (Some r, rw')" "boolean t0"
    and marks: "\<forall>x \<in> set neg \<union> set pos. boolean x"
  shows "boolean r \<and> weight r < weight t0
    \<and> (\<forall>I. interp_ok I \<longrightarrow> in_ctx I neg pos \<longrightarrow> holds I r = holds I t0)"
proof -
  define t where "t = (if is_not t0 then get_arg0 t0 else t0)"
  have t: "boolean t" "weight t = weight t0" "holds I t0 = (if is_not t0 then \<not> holds I t else holds I t)" for I
    using assms(2) by (auto simp: t_def is_not_iff)
  have "\<exists>r0. r = (if is_not t0 then mk_not rw r0 else r0) \<and> boolean r0 \<and> weight r0 < weight t
      \<and> (\<forall>I. interp_ok I \<longrightarrow> in_ctx I neg pos \<longrightarrow> holds I r0 = holds I t)"
  proof (cases t)
    case (EqE a b)
    obtain a' m1 b' m2 where s: "simp_arg a neg pos = (a', m1)" "simp_arg b neg pos = (b', m2)"
      by (metis surj_pair)
    have "m1 \<or> m2" and r: "r = (if is_not t0 then mk_not rw (mk_eq rw a' b') else mk_eq rw a' b')"
      using assms(1) EqE s by (auto simp: simp_nested_eq_ite_def Let_def t_def split: if_splits)
    then show ?thesis
      using simp_nested_eq [OF s _ marks, where rw = rw] t(1) EqE unfolding boolean_def by metis
  next
    case (IteE c u e)
    obtain c' m1 u' m2 e' m3 where s: "simp_arg c neg pos = (c', m1)" "simp_arg u neg pos = (u', m2)"
      "simp_arg e neg pos = (e', m3)"
      by (metis surj_pair)
    have "m1 \<or> m2 \<or> m3" and r: "r = (if is_not t0 then mk_not rw (mk_nested_ite rw c' u' e') else mk_nested_ite rw c' u' e')"
      using assms(1) IteE s by (auto simp: simp_nested_eq_ite_def Let_def t_def split: if_splits)
    then show ?thesis
      using simp_nested_ite [OF s _ marks, where rw = rw] t(1) IteE by metis
  qed (use assms(1) in \<open>auto simp: simp_nested_eq_ite_def Let_def t_def split: if_splits\<close>)
  then obtain r0 where r0: "r = (if is_not t0 then mk_not rw r0 else r0)" "boolean r0" "weight r0 < weight t"
    "\<forall>I. interp_ok I \<longrightarrow> in_ctx I neg pos \<longrightarrow> holds I r0 = holds I t" by blast
  then show ?thesis
    using t boolean_mk_not [OF r0(2)] mk_not_weight [of rw r0] by auto
qed

subsection \<open>The passes of local context simplification\<close>

definition ctx_ok :: "ctx \<Rightarrow> bool" where
  "ctx_ok c \<longleftrightarrow> marks_ok (new_args c) (neg_lits c) (pos_lits c) \<and> (\<forall>x \<in> set (new_args c). boolean x)"

abbreviation disj :: "interp \<Rightarrow> expr list \<Rightarrow> bool" where
  "disj I xs \<equiv> \<exists>x \<in> set xs. holds I x"

abbreviation weights :: "expr list \<Rightarrow> nat" where
  "weights xs \<equiv> sum_list (map weight xs)"

lemma ctx_ok_marks:
  assumes "ctx_ok c"
  shows "\<forall>x \<in> set (neg_lits c) \<union> set (pos_lits c). boolean x"
  using assms by (fastforce simp: ctx_ok_def marks_ok_def)

lemma ctx_ok_in_ctx:
  assumes "ctx_ok c" "\<not> disj I (new_args c)"
  shows "in_ctx I (neg_lits c) (pos_lits c)"
  using assms by (fastforce simp: ctx_ok_def marks_ok_def in_ctx_def)

text \<open>One simplification step: the argument keeps its value wherever the arguments already
  kept are false, and it becomes lighter when the step sets \<open>modified\<close>.\<close>

definition step_ok :: "expr \<Rightarrow> ctx \<Rightarrow> expr \<Rightarrow> ctx \<Rightarrow> bool" where
  "step_ok arg c arg' c' \<longleftrightarrow>
     new_args c' = new_args c \<and> neg_lits c' = neg_lits c \<and> pos_lits c' = pos_lits c \<and> boolean arg'
     \<and> weight arg' \<le> weight arg \<and> (modified c' \<longrightarrow> modified c \<or> weight arg' < weight arg)
     \<and> (\<forall>I. interp_ok I \<longrightarrow> in_ctx I (neg_lits c) (pos_lits c) \<longrightarrow> holds I arg' = holds I arg)"

lemma simp_step1_ok:
  assumes "simp_step1 arg c = (arg', c')" "ctx_ok c" "boolean arg"
  shows "step_ok arg c arg' c'"
proof (cases "is_not arg \<and> is_or (get_arg0 arg)")
  case True
  then obtain xs where arg: "arg = NotE (OrE xs)" by (auto simp: is_not_iff is_or_iff)
  obtain o' rw' where o: "simp_nested_not_or (ctx_rw c) xs (neg_lits c) (pos_lits c) = (o', rw')" by force
  show ?thesis
  proof (cases o')
    case None
    then show ?thesis using assms o arg by (auto simp: simp_step1_def step_ok_def)
  next
    case (Some r)
    have "\<forall>x \<in> set xs. boolean x" using assms(3) arg by simp
    from simp_nested_not_or_sound [OF o [unfolded Some] this] show ?thesis
      using assms(1) o arg Some by (auto simp: simp_step1_def step_ok_def)
  qed
next
  case False
  then show ?thesis using assms by (auto simp: simp_step1_def step_ok_def)
qed

lemma simp_step2_ok:
  assumes "simp_step2 arg c = (arg', c')" "ctx_ok c" "boolean arg"
  shows "step_ok arg c arg' c'"
proof -
  obtain o' rw' where o: "simp_nested_eq_ite (ctx_rw c) arg (neg_lits c) (pos_lits c) = (o', rw')" by force
  show ?thesis
  proof (cases o')
    case None
    then show ?thesis using assms o by (auto simp: simp_step2_def step_ok_def)
  next
    case (Some r)
    from simp_nested_eq_ite_sound [OF o [unfolded Some] assms(3) ctx_ok_marks [OF assms(2)]] show ?thesis
      using assms(1) o Some by (auto simp: simp_step2_def step_ok_def)
  qed
qed

lemma step_ok_trans:
  assumes "step_ok a c a1 c1" "step_ok a1 c1 a2 c2"
  shows "step_ok a c a2 c2"
  using assms unfolding step_ok_def by (metis le_trans less_le_trans le_less_trans)

lemma step_ok_ctx_ok: "step_ok a c a' c' \<Longrightarrow> ctx_ok c \<Longrightarrow> ctx_ok c'"
  by (simp add: step_ok_def ctx_ok_def)

text \<open>Pushing an argument: it joins the disjunction unless it is already there.\<close>

lemma push_new_arg_ok:
  assumes "ctx_ok c" "boolean a"
  shows "ctx_ok (push_new_arg a c)" "disj I (new_args (push_new_arg a c)) \<longleftrightarrow> disj I (new_args c) \<or> holds I a"
    "weights (new_args (push_new_arg a c)) \<le> weights (new_args c) + weight a"
    "modified (push_new_arg a c) = modified c"
  using assms marks_okD [of "new_args c" "neg_lits c" "pos_lits c"]
    marks_ok_push_neg [of "new_args c" "neg_lits c" "pos_lits c"]
    marks_ok_push_pos [of "new_args c" "neg_lits c" "pos_lits c"]
  by (auto simp: push_new_arg_def ctx_ok_def is_not_iff)

lemma fold_push_new_arg_ok:
  assumes "ctx_ok c" "\<forall>x \<in> set xs. boolean x"
  shows "ctx_ok (fold push_new_arg xs c)
    \<and> (\<forall>I. disj I (new_args (fold push_new_arg xs c)) \<longleftrightarrow> disj I (new_args c) \<or> disj I xs)
    \<and> weights (new_args (fold push_new_arg xs c)) \<le> weights (new_args c) + weights xs
    \<and> modified (fold push_new_arg xs c) = modified c"
  using assms
proof (induction xs arbitrary: c)
  case (Cons a xs)
  have b: "boolean a" "\<forall>x \<in> set xs. boolean x" using Cons.prems(2) by auto
  note P = push_new_arg_ok [OF Cons.prems(1) b(1)]
  from Cons.IH [OF P(1) b(2)] P(2-4) show ?case by simp
qed auto

text \<open>What a pass owes for the arguments it was given: \<open>owes\<close> compares the disjunction and
  the weight before and after.\<close>

definition pass_ok :: "expr list \<Rightarrow> ctx \<Rightarrow> ctx \<Rightarrow> bool" where
  "pass_ok args c c' \<longleftrightarrow> ctx_ok c'
     \<and> (\<forall>I. interp_ok I \<longrightarrow> disj I (new_args c') = (disj I (new_args c) \<or> disj I args))
     \<and> weights (new_args c') \<le> weights (new_args c) + weights args
     \<and> (modified c' \<longrightarrow> modified c \<or> weights (new_args c') < weights (new_args c) + weights args)"

lemma process_arg_ok:
  assumes "ctx_ok c" "boolean arg"
  shows "process_arg arg c = Inr c' \<Longrightarrow> pass_ok [arg] c c'"
    and "process_arg arg c = Inl (r, rw') \<Longrightarrow> r = TrueE \<and> (\<forall>I. interp_ok I \<longrightarrow> disj I (new_args c) \<or> holds I arg)"
proof -
  obtain a1 c1 a2 c2 where s: "simp_step1 arg c = (a1, c1)" "simp_step2 a1 c1 = (a2, c2)"
    by (metis surj_pair)
  have s1: "step_ok arg c a1 c1" using simp_step1_ok [OF s(1) assms] .
  have "step_ok a1 c1 a2 c2"
    using simp_step2_ok [OF s(2) step_ok_ctx_ok [OF s1 assms(1)]] s1 by (simp add: step_ok_def)
  with s1 have st: "step_ok arg c a2 c2" by (rule step_ok_trans)
  have c2: "ctx_ok c2" "new_args c2 = new_args c" "boolean a2"
    using step_ok_ctx_ok [OF st assms(1)] st by (auto simp: step_ok_def)
  have same: "disj I (new_args c) \<or> holds I a2 \<longleftrightarrow> disj I (new_args c) \<or> holds I arg" if "interp_ok I" for I
    using st ctx_ok_in_ctx [OF assms(1), of I] that by (auto simp: step_ok_def)
  have pa: "process_arg arg c = (if is_false a2 then Inr c2 else if is_true a2 then Inl (a2, ctx_rw c2)
      else if m_flat (ctx_rw c2) \<and> is_or a2 then Inr (fold push_new_arg (get_args a2) c2)
      else Inr (push_new_arg a2 c2))"
    by (simp add: process_arg_def s)
  show "r = TrueE \<and> (\<forall>I. interp_ok I \<longrightarrow> disj I (new_args c) \<or> holds I arg)" if "process_arg arg c = Inl (r, rw')"
    using that same unfolding pa by (auto split: if_splits)
  have w: "weight a2 \<le> weight arg" "modified c2 \<longrightarrow> modified c \<or> weight a2 < weight arg"
    using st by (auto simp: step_ok_def)
  show "pass_ok [arg] c c'" if eq: "process_arg arg c = Inr c'"
  proof -
    consider (f) "a2 = FalseE" "c' = c2"
      | (o) xs where "a2 = OrE xs" "c' = fold push_new_arg xs c2"
      | (p) "c' = push_new_arg a2 c2"
      using eq unfolding pa by (auto simp: is_or_iff split: if_splits)
    then show ?thesis
    proof cases
      case f
      then show ?thesis using same c2 w weight_pos [of arg] by (auto simp: pass_ok_def simp del: weight_pos)
    next
      case o
      have "\<forall>x \<in> set xs. boolean x" using c2(3) o by simp
      from fold_push_new_arg_ok [OF c2(1) this] same c2(2) w o show ?thesis
        by (auto simp: pass_ok_def)
    next
      case p
      then show ?thesis
        using push_new_arg_ok [OF c2(1,3)] same c2(2) w by (auto simp: pass_ok_def)
    qed
  qed
qed

lemma process_args_ok:
  assumes "ctx_ok c" "\<forall>x \<in> set args. boolean x"
  shows "process_args args c = Inr c' \<Longrightarrow> pass_ok args c c'"
    and "process_args args c = Inl (r, rw') \<Longrightarrow>
      r = TrueE \<and> (\<forall>I. interp_ok I \<longrightarrow> disj I (new_args c) \<or> disj I args)"
  using assms
proof (induction args arbitrary: c)
  case (Cons a args)
  {
    case 1
    then obtain c1 where c1: "process_arg a c = Inr c1" "process_args args c1 = Inr c'"
      by (auto split: sum.splits)
    have P: "pass_ok [a] c c1" using process_arg_ok(1) [OF 1(2) _ c1(1)] 1(3) by simp
    then have "pass_ok args c1 c'" using Cons.IH(1) [OF c1(2)] 1(3) by (simp add: pass_ok_def)
    with P show ?case unfolding pass_ok_def by (intro conjI) (simp | auto)+
  next
    case 2
    show ?case
    proof (cases "process_arg a c")
      case (Inl p)
      then show ?thesis using 2 process_arg_ok(2) [of c a "fst p" "snd p"] by auto
    next
      case (Inr c1)
      have P: "pass_ok [a] c c1" using process_arg_ok(1) [OF 2(2) _ Inr] 2(3) by simp
      then show ?thesis using Cons.IH(2) [of c1] 2 Inr by (auto simp: pass_ok_def)
    qed
  }
qed (auto simp: pass_ok_def)

text \<open>Total correctness of the loop.  The measure: every round that changes something makes the
  disjunction lighter, and a round that changes nothing is followed by at most one more.\<close>

definition ctx_measure :: "bool \<Rightarrow> bool \<Rightarrow> expr list \<Rightarrow> nat" where
  "ctx_measure forward md args = 4 * weights args + (if md then 2 else 0) + (if forward then 1 else 0)"

lemma local_ctx_loop_total:
  assumes "\<forall>x \<in> set args. boolean x" "forward \<longrightarrow> \<not> md"
  shows "\<exists>res rw'. local_ctx_loop forward md simp rw args = Some (res, rw')
    \<and> (\<forall>r. res = Some r \<longrightarrow> boolean r \<and> (\<forall>I. interp_ok I \<longrightarrow> holds I r = disj I args))"
  using assms
proof (induction "ctx_measure forward md args" arbitrary: forward md simp rw args rule: less_induct)
  case less
  let ?c0 = "\<lparr>new_args = [], neg_lits = [], pos_lits = [], modified = md, simplified = simp,
    ctx_rw = add_cost (2 * length args) rw\<rparr>"
  let ?in = "if forward then args else rev args"
  have c0: "ctx_ok ?c0" by (simp add: ctx_ok_def)
  have b: "\<forall>x \<in> set ?in. boolean x" using less.prems by simp
  have in_args: "weights ?in = weights args" "set ?in = set args"
    by (simp_all add: rev_map [symmetric] sum_list_rev)
  note P = process_args_ok [OF c0 b]
  show ?case
  proof (cases "process_args ?in ?c0")
    case (Inl p)
    then obtain rw1 where "p = (TrueE, rw1)" "\<And>I. interp_ok I \<Longrightarrow> disj I args"
      using P(2) [of "fst p" "snd p"] by (cases p; cases forward) auto
    then show ?thesis using Inl by (auto simp: local_ctx_loop.simps [of forward])
  next
    case (Inr c)
    have po: "ctx_ok c" "\<And>I. interp_ok I \<Longrightarrow> disj I (new_args c) = disj I args"
      "weights (new_args c) \<le> weights args" "modified c \<Longrightarrow> \<not> md \<Longrightarrow> weights (new_args c) < weights args"
      using P(1) [OF Inr] in_args by (auto simp: pass_ok_def)
    have bn: "\<forall>x \<in> set (new_args c). boolean x" using po(1) by (simp add: ctx_ok_def)
    consider (fw) "forward" | (stop) "\<not> forward" "\<not> modified c" | (bw) "\<not> forward" "modified c" by blast
    then show ?thesis
    proof cases
      case fw
      have "ctx_measure False (modified c) (new_args c) < ctx_measure forward md args"
        using po(3,4) fw less.prems(2) by (auto simp: ctx_measure_def)
      from less.hyps [OF this bn] show ?thesis
        using fw Inr po(2) by (auto simp: local_ctx_loop.simps [of True md simp rw args])
    next
      case stop
      then show ?thesis
        using Inr less.prems(1) wt_mk_or_app [of args]
        by (auto simp: local_ctx_loop.simps [of False md simp rw args] boolean_def)
    next
      case bw
      have "ctx_measure True False (rev (new_args c)) < ctx_measure forward md args"
        using po(3,4) bw by (auto simp: ctx_measure_def rev_map [symmetric] sum_list_rev)
      from less.hyps [OF this] bn show ?thesis
        using bw Inr po(2) by (auto simp: local_ctx_loop.simps [of False md simp rw args])
    qed
  qed
qed

lemma local_ctx_simp_total:
  assumes "\<forall>x \<in> set args. boolean x"
  shows "\<exists>res rw'. local_ctx_simp rw args = Some (res, rw')
    \<and> (\<forall>r. res = Some r \<longrightarrow> rw_equiv (OrE args) r)"
proof -
  from local_ctx_loop_total [OF assms, of True False False rw]
  obtain res rw' where "local_ctx_simp rw args = Some (res, rw')"
    "\<forall>r. res = Some r \<longrightarrow> boolean r \<and> (\<forall>I. interp_ok I \<longrightarrow> holds I r = disj I args)"
    by (auto simp: local_ctx_simp_def)
  moreover have "boolean (OrE args)" using assms by simp
  ultimately show ?thesis
    by (auto simp: boolean_def intro!: rw_equiv_boolI)
qed

end
