(* ===== verification/Bool_Rewriter_Correct.thy ===== *)
theory Bool_Rewriter_Correct
  imports Bool_Rewriter_Ctx
begin

text \<open>Total correctness of the public methods of \<^verbatim>\<open>bool_rewriter\<close>: each returns, and its result
  has the sort and the value of the term it was asked for.\<close>

subsection \<open>Correctness of the methods that may simplify in context\<close>

text \<open>\<open>rw_returns e m\<close>: the method returns, and its result is equivalent to \<open>e\<close>; \<open>br_returns\<close> is
  the same for the methods that report a status, with \<open>e\<close> itself for \<open>BR_FAILED\<close>.\<close>

definition rw_returns :: "expr \<Rightarrow> expr rw_result \<Rightarrow> bool" where
  "rw_returns e m \<longleftrightarrow> (\<exists>r rw'. m = Some (r, rw') \<and> rw_equiv e r)"

definition br_returns :: "expr \<Rightarrow> br_result rw_result \<Rightarrow> bool" where
  "br_returns e m \<longleftrightarrow> (\<exists>r rw'. m = Some (r, rw') \<and> rw_equiv e (result_or r e))"

lemma rw_returnsE:
  assumes "rw_returns e m"
  obtains r rw' where "m = Some (r, rw')" "rw_equiv e r"
  using assms by (auto simp: rw_returns_def)

lemma rw_returns_equiv: "rw_returns e m \<Longrightarrow> rw_equiv e' e \<Longrightarrow> rw_returns e' m"
  by (auto simp: rw_returns_def intro: rw_equiv_trans)

lemma br_returns_done: "rw_returns e m \<Longrightarrow> br_returns e (br_done m)"
  by (auto simp: rw_returns_def br_returns_def br_done_def)

lemma br_returns_result_or:
  "br_returns e m \<Longrightarrow> rw_returns e (map_option (\<lambda>(r, rw'). (result_or r e, rw')) m)"
  by (auto simp: rw_returns_def br_returns_def)

lemma boolean_all: "(\<forall>x \<in> set args. wt x \<and> is_bool x) \<longleftrightarrow> (\<forall>x \<in> set args. boolean x)"
  by (simp add: boolean_def)

lemma mk_nflat_or_core_sound:
  assumes "\<forall>x \<in> set args. boolean x"
  shows "br_returns (OrE args) (mk_nflat_or_core rw args)"
proof (cases "nflat_or_loop args False [] [] []")
  case None
  then show ?thesis
    using nflat_or_loop_None [OF None marks_ok_Nil] assms
    by (auto simp: br_returns_def mk_nflat_or_core_def boolean_def intro!: rw_equiv_boolI)
next
  case (Some p)
  obtain s' buffer' where p: "p = (s', buffer')" by force
  note L = nflat_or_loop_Some [OF Some [unfolded p] marks_ok_Nil]
  have b: "\<forall>x \<in> set buffer'. boolean x" using L(1) assms by auto
  have eq: "rw_equiv (OrE args) (mk_or_app buffer')" "rw_equiv (OrE args) (OrE buffer')"
    using L(2) b assms by (auto simp: boolean_def mk_or_app_def intro!: rw_equiv_boolI split: list.splits)
  show ?thesis
  proof (cases "length buffer' \<le> 1")
    case True
    then show ?thesis
      using Some p eq(1) by (cases buffer') (auto simp: br_returns_def mk_nflat_or_core_def mk_or_app_def)
  next
    case False
    let ?failed = "if s' then BR_DONE (OrE buffer') else BR_FAILED"
    have failed: "rw_equiv (OrE args) (result_or ?failed (OrE args))"
      using eq(2) L(3) assms by (auto simp: boolean_def)
    obtain x y zs where bl: "buffer' = x # y # zs" using False by (cases buffer'; cases "tl buffer'") auto
    obtain res rw' where lc: "local_ctx_simp rw buffer' = Some (res, rw')" "\<And>r. res = Some r \<Longrightarrow> rw_equiv (OrE buffer') r"
      using local_ctx_simp_total [OF b, of rw] by blast
    have "mk_nflat_or_core rw args =
      (if m_local_ctx rw \<and> m_local_ctx_cost rw \<le> m_local_ctx_limit rw
       then Some (case res of Some r \<Rightarrow> BR_DONE r | None \<Rightarrow> ?failed, rw')
       else Some (?failed, rw))"
      using Some p lc(1) unfolding bl by (auto simp: mk_nflat_or_core_def Let_def split: option.splits)
    then show ?thesis
      using failed lc(2) eq(2) by (auto simp: br_returns_def intro: rw_equiv_trans split: option.splits if_splits)
  qed
qed

lemma flatten_or_equiv:
  assumes "\<forall>x \<in> set args. boolean x"
  shows "rw_equiv (OrE args) (OrE (flatten is_or args))" "\<forall>x \<in> set (flatten is_or args). boolean x"
  using assms flatten_or_wt [of args] flatten_or_holds by (auto simp: boolean_def intro!: rw_equiv_boolI)

lemma mk_or_core_sound:
  assumes "\<forall>x \<in> set args. boolean x"
  shows "br_returns (OrE args) (mk_or_core rw args)"
proof (cases "m_flat rw \<and> list_ex is_or args")
  case True
  note F = flatten_or_equiv [OF assms]
  from mk_nflat_or_core_sound [OF F(2), of rw] obtain r rw' where
    "mk_nflat_or_core rw (flatten is_or args) = Some (r, rw')" "rw_equiv (OrE (flatten is_or args)) (result_or r (OrE (flatten is_or args)))"
    by (auto simp: br_returns_def)
  then show ?thesis
    using True rw_equiv_trans [OF F(1)] by (auto simp: br_returns_def mk_or_core_def mk_flat_or_core_def Let_def)
next
  case False
  then show ?thesis
    using mk_nflat_or_core_sound [OF assms, of rw] by (auto simp: mk_or_core_def mk_flat_or_core_def)
qed

lemma mk_or_sound: "\<forall>x \<in> set args. boolean x \<Longrightarrow> rw_returns (OrE args) (mk_or rw args)"
  unfolding mk_or_def by (intro br_returns_result_or mk_or_core_sound)

lemma mk_and_as_or_sound:
  assumes "\<forall>x \<in> set args. boolean x"
  shows "rw_returns (AndE args) (mk_and_as_or rw args)"
proof -
  let ?ns = "map (mk_not rw) args"
  have b: "\<forall>x \<in> set ?ns. boolean x" using assms by (auto intro: boolean_mk_not)
  from mk_or_sound [OF b, of rw] obtain r rw' where r: "mk_or rw ?ns = Some (r, rw')" "rw_equiv (OrE ?ns) r"
    by (rule rw_returnsE)
  have br: "boolean r" using rw_equivD(1,3) [OF r(2)] by (simp add: boolean_def)
  have "holds I (mk_not rw r) = holds I (AndE args)" if "interp_ok I" for I
    using boolean_mk_not(2) [OF br that, of rw] rw_equivD(4) [OF r(2) that]
      assms boolean_mk_not(2) [OF _ that] by auto
  then have "rw_equiv (AndE args) (mk_not rw r)"
    using boolean_mk_not(1) [OF br, of rw] assms by (auto simp: boolean_def intro!: rw_equiv_boolI)
  then show ?thesis using r(1) by (simp add: rw_returns_def mk_and_as_or_def)
qed

lemma mk_and_core_sound:
  assumes "\<forall>x \<in> set args. boolean x"
  shows "br_returns (AndE args) (mk_and_core rw args)"
  using mk_and_as_or_sound [OF assms, of rw] mk_flat_and_core_sound [of args] mk_nflat_and_core_sound [of args] assms
  by (auto simp: mk_and_core_def br_returns_def rw_returns_def boolean_all)

lemma mk_and_sound: "\<forall>x \<in> set args. boolean x \<Longrightarrow> rw_returns (AndE args) (mk_and rw args)"
  unfolding mk_and_def by (intro br_returns_result_or mk_and_core_sound)

lemma rw_returns_mk_not:
  assumes "rw_returns e m" "boolean e"
  shows "rw_returns (NotE e) (map_option (\<lambda>(r, rw'). (mk_not rw r, rw')) m)"
proof -
  obtain r rw' where r: "m = Some (r, rw')" "rw_equiv e r" using assms(1) by (rule rw_returnsE)
  then have "boolean r" using rw_equivD(1,3) [OF r(2)] assms(2) by (simp add: boolean_def)
  then have "rw_equiv (NotE e) (mk_not rw r)"
    using mk_not_sound [of r rw] r(2) by (auto simp: boolean_def rw_equiv_def)
  then show ?thesis using r(1) by (simp add: rw_returns_def)
qed

lemma mk_nand_sound: "\<forall>x \<in> set args. boolean x \<Longrightarrow> rw_returns (NotE (AndE args)) (mk_nand rw args)"
  unfolding mk_nand_def by (rule rw_returns_mk_not) (simp_all add: mk_and_sound)

lemma mk_nor_sound: "\<forall>x \<in> set args. boolean x \<Longrightarrow> rw_returns (NotE (OrE args)) (mk_nor rw args)"
  unfolding mk_nor_def by (rule rw_returns_mk_not) (simp_all add: mk_or_sound)

lemma mk_implies_sound:
  assumes "boolean a" "boolean b"
  shows "rw_returns (ImpliesE a b) (mk_implies rw a b)"
proof -
  have "rw_returns (OrE [mk_not rw a, b]) (mk_implies rw a b)"
    unfolding mk_implies_def Let_def using assms by (intro mk_or_sound) (auto intro: boolean_mk_not)
  moreover have "rw_equiv (ImpliesE a b) (OrE [mk_not rw a, b])"
    using assms boolean_mk_not [OF assms(1), where rw = rw] by (auto simp: boolean_def intro!: rw_equiv_boolI)
  ultimately show ?thesis by (rule rw_returns_equiv)
qed

lemma mk_xor_sound:
  assumes "boolean a" "boolean b"
  shows "rw_equiv (XorE a b) (mk_xor rw a b)"
  using assms boolean_mk_not [OF assms(1), where rw = rw] boolean_mk_eq [of "mk_not rw a" b, where rw = rw]
  by (auto simp: mk_xor_def boolean_def intro!: rw_equiv_boolI)


lemma ite_bool_rules_sound:
  assumes "ite_bool_rules rw c t e = Some m" "boolean c" "boolean t" "boolean e"
  shows "br_returns (IteE c t e) m"
proof -
  have w: "wt (IteE c t e)" "is_bool (IteE c t e)"
    using assms(2-4) by (auto simp: boolean_def is_bool_def)
  have via: "br_returns (IteE c t e) (br_done m')" if "rw_returns x m'" "wt x" "is_bool x"
      "\<And>I. interp_ok I \<Longrightarrow> holds I x = holds I (IteE c t e)" for x m'
    using that w by (intro br_returns_done rw_returns_equiv [OF that(1)] rw_equiv_boolI) auto
  have now: "br_returns (IteE c t e) (Some (BR_DONE x, rw))" if "boolean x"
      "\<And>I. interp_ok I \<Longrightarrow> holds I x = holds I (IteE c t e)" for x
    using that w by (auto simp: br_returns_def boolean_def intro!: rw_equiv_boolI)
  note N = boolean_mk_not [OF assms(2), where rw = rw]
  note Q = boolean_mk_eq [OF assms(2,3), where rw = rw]
  have two: "wt (OrE [x, y])" "is_bool (OrE [x, y])" "wt (AndE [x, y])" "is_bool (AndE [x, y])"
      "\<forall>z \<in> set [x, y]. boolean z" if "boolean x" "boolean y" for x y
    using that by (auto simp: boolean_def)
  have or2: "rw_returns (OrE [x, y]) (mk_or rw [x, y])" and and2: "rw_returns (AndE [x, y]) (mk_and rw [x, y])"
    if "boolean x" "boolean y" for x y
    using that by (auto intro: mk_or_sound mk_and_sound)
  consider (tt) "t = TrueE" "e = FalseE" "m = Some (BR_DONE c, rw)"
    | (t) "t = TrueE" "m = br_done (mk_or rw [c, e])"
    | (ff) "t = FalseE" "e = TrueE" "m = Some (BR_DONE (mk_not rw c), rw)"
    | (f) "t = FalseE" "m = br_done (mk_and rw [mk_not rw c, e])"
    | (et) "e = TrueE" "m = br_done (mk_or rw [mk_not rw c, t])"
    | (ef) "e = FalseE \<or> c = e" "m = br_done (mk_and rw [c, t])"
    | (ct) "c = t" "m = br_done (mk_or rw [c, e])"
    | (cm) "is_complement_core t e \<or> is_complement_core e t" "m = Some (BR_DONE (mk_eq rw c t), rw)"
    using assms(1) by (auto simp: ite_bool_rules_def split: if_splits)
  then show ?thesis
  proof cases
    case cm
    then show ?thesis
      using now [OF Q(1)] Q(2) is_complement_core_eval [of t e] is_complement_core_eval [of e t] by auto
  next
    case tt
    then show ?thesis using now [OF assms(2)] by simp
  next
    case t
    then show ?thesis using via [OF or2 [OF assms(2,4)]] assms by (simp add: boolean_def)
  next
    case ff
    then show ?thesis using now [OF N(1)] N(2) by simp
  next
    case f
    then show ?thesis using via [OF and2 [OF N(1) assms(4)]] N assms by (simp add: boolean_def)
  next
    case et
    then show ?thesis using via [OF or2 [OF N(1) assms(3)]] N assms by (simp add: boolean_def)
  next
    case ef
    then show ?thesis using via [OF and2 [OF assms(2,3)]] assms by (auto simp: boolean_def)
  next
    case ct
    then show ?thesis using via [OF or2 [OF assms(2,4)]] assms by (simp add: boolean_def)
  qed
qed

text \<open>The rules for nested if-then-elses replace the condition.\<close>

lemma rewrite1_ite_sound:
  assumes "rw_returns x m" "wt e0" "boolean x" "wt t" "wt e" "sort_of t = sort_of e0" "sort_of e = sort_of e0"
    and "\<And>I. interp_ok I \<Longrightarrow> eval I e0 = (if holds I x then eval I t else eval I e)"
  shows "br_returns e0 (rewrite1_ite t e m)"
proof -
  obtain r rw' where r: "m = Some (r, rw')" "rw_equiv x r" using assms(1) by (rule rw_returnsE)
  have "rw_equiv e0 (IteE r t e)"
    using r(2) assms(2-) by (auto simp: rw_equiv_def boolean_def is_bool_def)
  then show ?thesis using r(1) by (simp add: br_returns_def rewrite1_ite_def)
qed

lemma merge_cond_sound:
  assumes "boolean c" "boolean c2" "boolean c3"
  shows "rw_returns (OrE [AndE [c, c2], AndE [NotE c, c3]]) (merge_cond rw c c2 c3)"
proof -
  from mk_and_sound [of "[c, c2]" rw] assms obtain a1 rw1 where
    a1: "mk_and rw [c, c2] = Some (a1, rw1)" "rw_equiv (AndE [c, c2]) a1" by (auto elim: rw_returnsE)
  note N = boolean_mk_not [OF assms(1), where rw = rw1]
  from mk_and_sound [of "[mk_not rw1 c, c3]" rw1] assms N obtain a2 rw2 where
    a2: "mk_and rw1 [mk_not rw1 c, c3] = Some (a2, rw2)" "rw_equiv (AndE [mk_not rw1 c, c3]) a2"
    by (auto elim: rw_returnsE)
  have b: "boolean a1" "boolean a2" using a1(2) a2(2) by (auto simp: rw_equiv_def boolean_def is_bool_def)
  have "rw_returns (OrE [a1, a2]) (merge_cond rw c c2 c3)"
    using mk_or_sound [of "[a1, a2]" rw2] b a1(1) a2(1) by (simp add: merge_cond_def)
  moreover have "rw_equiv (OrE [AndE [c, c2], AndE [NotE c, c3]]) (OrE [a1, a2])"
    using b assms N rw_equivD(4) [OF a1(2)] rw_equivD(4) [OF a2(2)]
    by (intro rw_equiv_boolI) (auto simp: boolean_def)
  ultimately show ?thesis by (rule rw_returns_equiv)
qed

lemma ite_normalise_equiv:
  assumes "ite_normalise c0 t0 e0 = (s, c, t, e)" "wt (IteE c0 t0 e0)"
  shows "rw_equiv (IteE c0 t0 e0) (IteE c t e)" and "\<not> s \<Longrightarrow> c = c0 \<and> t = t0 \<and> e = e0"
proof -
  define t1 e1 where te1: "t1 = (if is_not c0 then e0 else t0)" "e1 = (if is_not c0 then t0 else e0)"
  have c: "c = (if is_not c0 then get_arg0 c0 else c0)"
    using assms(1) by (auto simp: ite_normalise_def Let_def split: prod.splits)
  have n: "rw_equiv (IteE c0 t0 e0) (IteE c t1 e1)"
    using assms(2) by (auto simp: c te1 rw_equiv_def is_not_iff)
  have t: "t = t1 \<or> (\<exists>u v. t1 = IteE c u v \<and> t = u)" and e: "e = e1 \<or> (\<exists>u v. e1 = IteE c u v \<and> e = v)"
    and s: "\<not> s \<Longrightarrow> \<not> is_not c0 \<and> t = t1 \<and> e = e1"
    using assms(1) unfolding ite_normalise_def Let_def te1 [symmetric] c [symmetric]
    by (auto split: prod.splits expr.splits if_splits)
  show "rw_equiv (IteE c0 t0 e0) (IteE c t e)"
    using n t e by (auto simp: rw_equiv_def)
  show "c = c0 \<and> t = t0 \<and> e = e0" if "\<not> s"
    using s [OF that] c te1 by simp
qed

lemma ite_then_rules_cases:
  assumes "ite_then_rules rw c (IteE c2 t1 t2) e = Some m"
  obtains (a) "e = t1" "m = rewrite1_ite t2 t1 (mk_and rw [c, mk_not rw c2])"
    | (b) "e = t2" "m = rewrite1_ite t1 t2 (mk_and rw [c, c2])"
    | (s) c3 where "e = IteE c3 t1 t2" "m = rewrite1_ite t1 t2 (merge_cond rw c c2 c3)"
    | (x) c3 where "e = IteE c3 t2 t1" "m = rewrite1_ite t1 t2 (merge_cond rw c c2 (mk_not rw c3))"
proof (cases "e = t1")
  case True
  then show ?thesis using assms that(1) by simp
next
  case F1: False
  show ?thesis
  proof (cases "e = t2")
    case True
    then show ?thesis using assms F1 that(2) by simp
  next
    case F2: False
    obtain c3 e1 e2 where e: "e = IteE c3 e1 e2" using assms F1 F2 by (cases e) simp_all
    consider (s) "t1 = e1 \<and> t2 = e2" | (x) "\<not> (t1 = e1 \<and> t2 = e2)" "t1 = e2 \<and> t2 = e1"
      | (n) "\<not> (t1 = e1 \<and> t2 = e2)" "\<not> (t1 = e2 \<and> t2 = e1)" by blast
    then show ?thesis
    proof cases
      case s
      with assms F1 F2 e have "m = rewrite1_ite t1 t2 (merge_cond rw c c2 c3)" by simp
      then show ?thesis using that(3) s e by blast
    next
      case x
      have "m = rewrite1_ite t1 t2 (merge_cond rw c c2 (mk_not rw c3))"
        using assms F1 F2 x unfolding e ite_then_rules.simps expr.case by simp
      then show ?thesis using that(4) x(2) e by blast
    next
      case n
      have False using assms F1 F2 n unfolding e ite_then_rules.simps expr.case
        by (simp only: if_False option.distinct)
      then show ?thesis ..
    qed
  qed
qed

lemma ite_then_rules_sound:
  assumes "ite_then_rules rw c t e = Some m" "wt (IteE c t e)"
  shows "br_returns (IteE c t e) m"
proof -
  obtain c2 t1 t2 where t: "t = IteE c2 t1 t2"
    using assms(1) by (cases t) simp_all
  have w: "boolean c" "boolean c2"
    using assms(2) t by (simp_all add: boolean_def)
  note N = boolean_mk_not [OF w(2), where rw = rw]
  from assms(1) [unfolded t] show ?thesis
  proof (cases rule: ite_then_rules_cases)
    case a
    have "boolean (AndE [c, mk_not rw c2])" using w N by (simp add: boolean_def)
    then show ?thesis unfolding a(2)
      by (rule rewrite1_ite_sound [OF mk_and_sound, rotated 2]) (use assms(2) in \<open>simp_all add: t a(1) w(1,2) N\<close>)
  next
    case b
    have "boolean (AndE [c, c2])" using w by (simp add: boolean_def)
    then show ?thesis unfolding b(2)
      by (rule rewrite1_ite_sound [OF mk_and_sound, rotated 2]) (use assms(2) in \<open>simp_all add: t b(1) w(1,2)\<close>)
  next
    case (s c3)
    have c3: "boolean c3" using assms(2) s by (simp add: boolean_def)
    have "boolean (OrE [AndE [c, c2], AndE [NotE c, c3]])" using w c3 by (simp add: boolean_def)
    then show ?thesis unfolding s(2)
      by (rule rewrite1_ite_sound [OF merge_cond_sound [OF w(1,2) c3], rotated 1])
        (use assms(2) in \<open>simp_all add: t s(1)\<close>)
  next
    case (x c3)
    have c3: "boolean c3" and q: "wt t1" "wt t2" "sort_of t1 = sort_of t2"
      using assms(2) unfolding t x(1) wt.simps sort_of.simps boolean_def by blast+
    note N3 = boolean_mk_not [OF c3, where rw = rw]
    have "boolean (OrE [AndE [c, c2], AndE [NotE c, mk_not rw c3]])" using w N3 by (simp add: boolean_def)
    then show ?thesis unfolding x(2)
      by (rule rewrite1_ite_sound [OF merge_cond_sound [OF w(1,2) N3(1)], rotated 1])
        (use w c3 q in \<open>simp_all add: t x(1) N3 boolean_def\<close>)
  qed
qed

lemma ite_else_rules_cases:
  assumes "ite_else_rules rw c t (IteE c2 e1 e2) = Some m"
  obtains (a) "t = e1" "m = rewrite1_ite e1 e2 (mk_or rw [c, c2])"
    | (b) "t = e2" "m = rewrite1_ite e2 e1 (mk_or rw [c, mk_not rw c2])"
proof (cases "t = e1")
  case True
  then show ?thesis using assms that(1) by simp
next
  case False
  then show ?thesis using assms that(2) by (cases "t = e2") simp_all
qed

lemma ite_else_rules_sound:
  assumes "ite_else_rules rw c t e = Some m" "wt (IteE c t e)"
  shows "br_returns (IteE c t e) m"
proof -
  obtain c2 e1 e2 where e: "e = IteE c2 e1 e2"
    using assms(1) by (cases e) simp_all
  have w: "boolean c" "boolean c2"
    using assms(2) e by (simp_all add: boolean_def)
  note N = boolean_mk_not [OF w(2), where rw = rw]
  from assms(1) [unfolded e] show ?thesis
  proof (cases rule: ite_else_rules_cases)
    case a
    have "boolean (OrE [c, c2])" using w by (simp add: boolean_def)
    then show ?thesis unfolding a(2)
      by (rule rewrite1_ite_sound [OF mk_or_sound, rotated 2]) (use assms(2) in \<open>simp_all add: e a(1) w(1,2)\<close>)
  next
    case b
    have q: "wt e1" "wt e2" "sort_of e1 = sort_of e2"
      using assms(2) unfolding e b(1) wt.simps sort_of.simps by blast+
    have "boolean (OrE [c, mk_not rw c2])" using w N by (simp add: boolean_def)
    then show ?thesis unfolding b(2)
      by (rule rewrite1_ite_sound [OF mk_or_sound, rotated 2]) (use q w N in \<open>simp_all add: e b(1) boolean_def\<close>)
  qed
qed

text \<open>A result that is not \<open>BR_FAILED\<close> carries over along an equivalence of the inputs.\<close>

definition not_failed :: "br_result rw_result \<Rightarrow> bool" where
  "not_failed m \<longleftrightarrow> (\<forall>r rw'. m = Some (r, rw') \<longrightarrow> r \<noteq> BR_FAILED)"

lemma not_failed_simps [simp]:
  "not_failed (br_done m')" "not_failed (rewrite1_ite t e m')" "not_failed (Some (BR_DONE x, rw))"
  by (auto simp: not_failed_def br_done_def rewrite1_ite_def)

lemma br_returns_equiv:
  assumes "rw_equiv e0 e" "br_returns e m" "not_failed m"
  shows "br_returns e0 m"
proof -
  obtain r rw' where r: "m = Some (r, rw')" "rw_equiv e (result_or r e)"
    using assms(2) by (auto simp: br_returns_def)
  have "result_or r e0 = result_or r e"
    using assms(3) r(1) result_or_default [of r e0 e] by (simp add: not_failed_def)
  then show ?thesis using r rw_equiv_trans [OF assms(1) r(2)] by (simp add: br_returns_def)
qed

lemma ite_rules_not_failed:
  "ite_bool_rules rw c t e = Some m \<Longrightarrow> not_failed m"
  "ite_then_rules rw c t e = Some m \<Longrightarrow> not_failed m"
  "ite_else_rules rw c t e = Some m \<Longrightarrow> not_failed m"
proof -
  show "not_failed m" if "ite_bool_rules rw c t e = Some m"
  proof -
    have "case ite_bool_rules rw c t e of None \<Rightarrow> True | Some m \<Rightarrow> not_failed m"
      by (simp add: ite_bool_rules_def)
    then show ?thesis by (simp add: that)
  qed
  show "not_failed m" if a: "ite_then_rules rw c t e = Some m"
  proof -
    obtain c2 t1 t2 where t: "t = IteE c2 t1 t2" using a by (cases t) simp_all
    from a [unfolded t] show ?thesis by (cases rule: ite_then_rules_cases) simp_all
  qed
  show "not_failed m" if a: "ite_else_rules rw c t e = Some m"
  proof -
    obtain c2 t1 t2 where e: "e = IteE c2 t1 t2" using a by (cases e) simp_all
    from a [unfolded e] show ?thesis by (cases rule: ite_else_rules_cases) simp_all
  qed
qed

lemma mk_ite_core_sound:
  assumes "wt (IteE c0 t0 e0)"
  shows "br_returns (IteE c0 t0 e0) (mk_ite_core rw c0 t0 e0)"
proof -
  obtain s c t e where n: "ite_normalise c0 t0 e0 = (s, c, t, e)" by (metis prod_cases4)
  note E = ite_normalise_equiv [OF n assms]
  have w: "wt (IteE c t e)" using E(1) by (simp add: rw_equiv_def)
  have now: "br_returns (IteE c0 t0 e0) (Some (BR_DONE x, rw))" if "rw_equiv (IteE c t e) x" for x
    using rw_equiv_trans [OF E(1) that] by (simp add: br_returns_def)
  have via: "br_returns (IteE c0 t0 e0) m" if "br_returns (IteE c t e) m" "not_failed m" for m
    by (rule br_returns_equiv [OF E(1) that])
  let ?b = "if is_bool t then ite_bool_rules rw c t e else None"
  let ?x = "m_ite_extra_rules rw \<and> m_elim_ite rw"
  let ?t = "if ?x then ite_then_rules rw c t e else None"
  let ?e = "if ?x then ite_else_rules rw c t e else None"
  consider (c1) "is_true c" | (c0) "is_false c" | (te) "t = e" "\<not> is_true c" "\<not> is_false c"
    | (go) "\<not> is_true c" "\<not> is_false c" "t \<noteq> e" by blast
  then show ?thesis
  proof cases
    case c1
    then show ?thesis using w now [of t] by (simp add: mk_ite_core_def n is_true_iff rw_equiv_def)
  next
    case c0
    then show ?thesis using w now [of e] by (simp add: mk_ite_core_def n is_false_iff rw_equiv_def)
  next
    case te
    then show ?thesis using w now [of t] by (simp add: mk_ite_core_def n rw_equiv_def)
  next
    case go
    then have m: "mk_ite_core rw c0 t0 e0 =
      (case ?b of Some r \<Rightarrow> r | None \<Rightarrow> (case ?t of Some r \<Rightarrow> r | None \<Rightarrow>
        (case ?e of Some r \<Rightarrow> r | None \<Rightarrow> Some (if s then BR_DONE (IteE c t e) else BR_FAILED, rw))))"
      unfolding mk_ite_core_def n Let_def prod.case by (simp only: if_False)
    have b: "br_returns (IteE c0 t0 e0) r" if "?b = Some r" for r
    proof -
      have r: "is_bool t" "ite_bool_rules rw c t e = Some r" using that by (simp_all split: if_splits)
      then show ?thesis using via [OF ite_bool_rules_sound [OF r(2)] ite_rules_not_failed(1) [OF r(2)]] w
        by (simp add: boolean_def is_bool_def)
    qed
    have t: "br_returns (IteE c0 t0 e0) r" if "?t = Some r" for r
    proof -
      have r: "ite_then_rules rw c t e = Some r" using that by (simp split: if_splits)
      show ?thesis by (rule via [OF ite_then_rules_sound [OF r w] ite_rules_not_failed(2) [OF r]])
    qed
    have e: "br_returns (IteE c0 t0 e0) r" if "?e = Some r" for r
    proof -
      have r: "ite_else_rules rw c t e = Some r" using that by (simp split: if_splits)
      show ?thesis by (rule via [OF ite_else_rules_sound [OF r w] ite_rules_not_failed(3) [OF r]])
    qed
    have f: "br_returns (IteE c0 t0 e0) (Some (if s then BR_DONE (IteE c t e) else BR_FAILED, rw))"
      using E(1) assms by (simp add: br_returns_def rw_equiv_def) (metis)
    show ?thesis unfolding m using b t e f by (auto split: option.split)
  qed
qed

lemma mk_ite_sound:
  assumes "wt (IteE c t e)"
  shows "rw_returns (IteE c t e) (mk_ite rw c t e)"
  unfolding mk_ite_def by (rule br_returns_result_or [OF mk_ite_core_sound [OF assms]])

subsection \<open>Correctness of distinct\<close>

lemma distinct_loop_None: "distinct_loop args visited b = None \<longleftrightarrow> \<not> (distinct args \<and> set args \<inter> set visited = {})"
  by (induction args visited b rule: distinct_loop.induct) auto

lemma distinct_loop_Some: "distinct_loop args visited b = Some a \<Longrightarrow> a = (b \<and> list_all is_unique_value args)"
  by (induction args visited b rule: distinct_loop.induct) (auto split: if_splits)

lemma diseqs_holds: "(\<forall>x \<in> set (diseqs args). holds I x) \<longleftrightarrow> distinct (map (eval I) args)"
  by (induction args) (auto simp: ball_Un image_iff)

lemma diseqs_boolean:
  assumes "\<forall>x \<in> set args. wt x \<and> sort_of x = s"
  shows "\<forall>x \<in> set (diseqs args). boolean x"
  using assms by (induction args) (auto simp: boolean_def)

lemma unique_values_distinct:
  assumes "distinct args" "list_all is_unique_value args"
  shows "distinct (map (eval I) args)"
proof -
  have "x = y" if "x \<in> set args" "y \<in> set args" "eval I x = eval I y" for x y
    using are_distinct_eval [of x y I] that assms(2) by (auto simp: are_distinct_def list_all_iff)
  then show ?thesis using assms(1) by (simp add: distinct_map inj_on_def)
qed

text \<open>Three Booleans cannot be pairwise different.\<close>

lemma booleans_not_distinct:
  assumes "\<forall>x \<in> set args. wt x \<and> is_bool x" "2 < length args" "interp_ok I"
  shows "\<not> distinct (map (eval I) args)"
proof
  assume "distinct (map (eval I) args)"
  then have "card (eval I ` set args) = length args"
    using distinct_card [of "map (eval I) args"] by simp
  moreover have "eval I x \<in> {BoolV True, BoolV False}" if "x \<in> set args" for x
    using that assms(1) eval_bool [OF assms(3), of x] by (cases "eval I x") auto
  then have "eval I ` set args \<subseteq> {BoolV True, BoolV False}" by blast
  then have "card (eval I ` set args) \<le> card {BoolV True, BoolV False}"
    by (intro card_mono) auto
  ultimately show False using assms(2) by simp
qed

lemma mk_distinct_core_sound:
  assumes "wt (DistinctE args)"
  shows "rw_equiv (DistinctE args) (result_or (mk_distinct_core rw args) (DistinctE args))"
proof -
  have w: "\<forall>x \<in> set args. wt x \<and> sort_of x = sort_of (hd args)" using assms by simp
  consider (le1) "length args \<le> 1" | (two) a b where "args = [a, b]" | (many) "2 < length args"
    by (cases args; cases "tl args"; cases "tl (tl args)") auto
  then show ?thesis
  proof cases
    case le1
    then have "args = [] \<or> (\<exists>a. args = [a])" by (cases args) auto
    then have "mk_distinct_core rw args = BR_DONE TrueE" "\<And>I. distinct (map (eval I) args)"
      by (auto simp: mk_distinct_core_def)
    then show ?thesis by (simp add: rw_equiv_def)
  next
    case two
    then show ?thesis using w by (auto simp: mk_distinct_core_def rw_equiv_def)
  next
    case many
    note m = mk_distinct_core_def [of rw args]
    have hd: "args ! 0 = hd args" using many by (cases args) auto
    show ?thesis
    proof (cases "distinct_loop args [] True")
      case None
      then have "\<not> distinct args" by (simp add: distinct_loop_None)
      then have "\<not> distinct (map (eval I) args)" for I by (auto simp: distinct_map)
      moreover have "mk_distinct_core rw args = BR_DONE FalseE" using many None by (simp add: m)
      ultimately show ?thesis by (simp add: rw_equiv_def)
    next
      case (Some a)
      have d: "distinct args"
        using Some distinct_loop_None [of args "[]" True] by simp
      note a = distinct_loop_Some [OF Some]
      consider (v) a | (bl) "\<not> a" "is_bool (args ! 0)"
        | (bd) "\<not> a" "\<not> is_bool (args ! 0)" "m_blast_distinct rw \<and> length args < unat (m_blast_distinct_threshold rw)"
        | (no) "\<not> a" "\<not> is_bool (args ! 0)" "\<not> (m_blast_distinct rw \<and> length args < unat (m_blast_distinct_threshold rw))"
        by blast
      then show ?thesis
      proof cases
        case v
        then have "mk_distinct_core rw args = BR_DONE TrueE" using many Some by (simp add: m)
        moreover have "distinct (map (eval I) args)" for I
          using unique_values_distinct [OF d] a v by simp
        ultimately show ?thesis by (simp add: rw_equiv_def)
      next
        case bl
        then have "mk_distinct_core rw args = BR_DONE FalseE" using many Some by (simp add: m)
        moreover have "\<forall>x \<in> set args. wt x \<and> is_bool x" using w bl(2) hd by (simp add: is_bool_def)
        then have "\<not> distinct (map (eval I) args)" if "interp_ok I" for I
          using booleans_not_distinct [OF _ many that] by blast
        ultimately show ?thesis by (simp add: rw_equiv_def)
      next
        case bd
        then have "mk_distinct_core rw args = BR_REWRITE3 (AndE (diseqs args))"
          using many Some by (simp add: m)
        then show ?thesis using diseqs_boolean [OF w] diseqs_holds [of args]
          by (auto simp: rw_equiv_def boolean_def)
      next
        case no
        then have "mk_distinct_core rw args = BR_FAILED" using many Some by (simp only: m) simp
        then show ?thesis using assms by simp
      qed
    qed
  qed
qed

subsection \<open>Correctness of the dispatch\<close>

lemma br_returns_pure: "rw_equiv e (result_or r e) \<Longrightarrow> br_returns e (Some (r, rw))"
  by (simp add: br_returns_def)

lemma mk_app_core_sound:
  assumes "mk_basic_app f args = Some e" "wt e"
  shows "br_returns e (mk_app_core rw f args)"
  using assms
proof (induction f args rule: mk_basic_app.induct)
  case (3 a b)
  then show ?case using mk_eq_sound [of a b rw] by (auto simp: mk_eq_def intro!: br_returns_pure)
next
  case (4 args)
  then show ?case using mk_distinct_core_sound [of args rw] by (auto intro!: br_returns_pure)
next
  case (5 c t e)
  then show ?case using mk_ite_core_sound [of c t _ rw] by auto
next
  case (6 args)
  then show ?case using mk_and_core_sound [of args rw] by (auto simp: boolean_def)
next
  case (7 args)
  then show ?case using mk_or_core_sound [of args rw] by (auto simp: boolean_def)
next
  case (9 a b)
  then show ?case using mk_xor_sound [of a b rw] by (auto simp: boolean_def intro!: br_returns_pure)
next
  case (10 a)
  then show ?case using mk_not_sound [of a rw] by (auto simp: mk_not_def intro!: br_returns_pure)
next
  case (11 a b)
  then show ?case using br_returns_done [OF mk_implies_sound [of a b rw]] by (auto simp: boolean_def)
qed (auto intro!: br_returns_pure)

subsection \<open>The state of the rewriter\<close>

text \<open>Without contextual simplification the methods leave the rewriter as it was.\<close>

lemma mk_or_pure: "\<not> m_local_ctx rw \<Longrightarrow> \<exists>r. mk_or rw args = Some (r, rw)"
  by (auto simp: mk_or_def mk_or_core_def mk_flat_or_core_def mk_nflat_or_core_def Let_def
      split: option.split list.split)

lemma mk_and_pure: "\<not> m_local_ctx rw \<Longrightarrow> \<exists>r. mk_and rw args = Some (r, rw)"
  using mk_or_pure [of rw "map (mk_not rw) args"]
  by (auto simp: mk_and_def mk_and_core_def mk_and_as_or_def)

definition keeps :: "bool_rewriter \<Rightarrow> 'a rw_result \<Rightarrow> bool" where
  "keeps rw m \<longleftrightarrow> (\<exists>r. m = Some (r, rw))"

lemma keeps_simps [simp]:
  "keeps rw (Some (r, rw))" "keeps rw (br_done m) = keeps rw m" "keeps rw (rewrite1_ite t e m') = keeps rw m'"
  by (auto simp: keeps_def br_done_def rewrite1_ite_def)

lemma keeps_mk_or_and:
  assumes "\<not> m_local_ctx rw"
  shows "keeps rw (mk_or rw args)" "keeps rw (mk_and rw args)"
  using mk_or_pure [OF assms] mk_and_pure [OF assms] by (simp_all add: keeps_def)

lemma keeps_merge_cond:
  assumes "\<not> m_local_ctx rw"
  shows "keeps rw (merge_cond rw c c2 c3)"
proof -
  obtain r1 where r1: "mk_and rw [c, c2] = Some (r1, rw)" using mk_and_pure [OF assms] by blast
  obtain r2 where r2: "mk_and rw [mk_not rw c, c3] = Some (r2, rw)" using mk_and_pure [OF assms] by blast
  show ?thesis using keeps_mk_or_and(1) [OF assms] by (simp add: merge_cond_def r1 r2)
qed

lemma keeps_ite_rules:
  assumes "\<not> m_local_ctx rw"
  shows "ite_bool_rules rw c t e = Some m \<Longrightarrow> keeps rw m"
    "ite_then_rules rw c t e = Some m \<Longrightarrow> keeps rw m"
    "ite_else_rules rw c t e = Some m \<Longrightarrow> keeps rw m"
proof -
  show "keeps rw m" if "ite_bool_rules rw c t e = Some m"
  proof -
    have "case ite_bool_rules rw c t e of None \<Rightarrow> True | Some m \<Rightarrow> keeps rw m"
      by (simp add: ite_bool_rules_def keeps_mk_or_and [OF assms])
    then show ?thesis by (simp add: that)
  qed
  show "keeps rw m" if a: "ite_then_rules rw c t e = Some m"
  proof -
    obtain c2 t1 t2 where t: "t = IteE c2 t1 t2" using a by (cases t) simp_all
    from a [unfolded t] show ?thesis
      by (cases rule: ite_then_rules_cases) (simp_all add: keeps_mk_or_and [OF assms] keeps_merge_cond [OF assms])
  qed
  show "keeps rw m" if a: "ite_else_rules rw c t e = Some m"
  proof -
    obtain c2 t1 t2 where e: "e = IteE c2 t1 t2" using a by (cases e) simp_all
    from a [unfolded e] show ?thesis
      by (cases rule: ite_else_rules_cases) (simp_all add: keeps_mk_or_and [OF assms])
  qed
qed

lemma keeps_option_case:
  "(\<And>r. b = Some r \<Longrightarrow> keeps rw r) \<Longrightarrow> keeps rw d \<Longrightarrow> keeps rw (case b of Some r \<Rightarrow> r | None \<Rightarrow> d)"
  by (cases b) auto

lemma keeps_if: "keeps rw a \<Longrightarrow> keeps rw d \<Longrightarrow> keeps rw (if b then a else d)"
  by simp

lemma mk_ite_pure:
  assumes "\<not> m_local_ctx rw"
  shows "\<exists>r. mk_ite rw c0 t0 e0 = Some (r, rw)"
proof -
  obtain s c t e where n: "ite_normalise c0 t0 e0 = (s, c, t, e)" by (metis prod_cases4)
  note K = keeps_ite_rules [OF assms, of c t e]
  have "keeps rw (mk_ite_core rw c0 t0 e0)"
    unfolding mk_ite_core_def n Let_def prod.case
    by (intro keeps_if keeps_option_case keeps_simps(1))
      (use K in \<open>simp_all split: if_splits\<close>)
  then show ?thesis by (auto simp: mk_ite_def keeps_def)
qed

subsection \<open>The rewriter as a whole\<close>

text \<open>C1: The dispatch \<^verbatim>\<open>mk_app\<close> over \<^verbatim>\<open>mk_app_core\<close> is total and sound.  For every operator of the
  basic family, every option setting and every cost limit, rewriting a well-sorted application
  returns (the contextual simplification loop ends), and the returned term is well sorted, has the
  sort of the application and its value in every interpretation.\<close>

theorem mk_app_correct:
  assumes "mk_basic_app f args = Some e" "wt e"
  shows "\<exists>r rw'. mk_app rw f args = Some (Some r, rw') \<and> rw_equiv e r"
proof -
  obtain r rw' where r: "mk_app_core rw f args = Some (r, rw')" "rw_equiv e (result_or r e)"
    using mk_app_core_sound [OF assms, where rw = rw] by (auto simp: br_returns_def)
  show ?thesis
    using r assms result_or_default [of r e TrueE] by (cases "r = BR_FAILED") (auto simp: mk_app_def)
qed

text \<open>A rewriter with the contextual simplification and \<^verbatim>\<open>elim_and\<close> switched on, for the examples.\<close>

definition rw_ctx_example :: bool_rewriter where
  "rw_ctx_example = mk_bool_rewriter\<lparr>m_local_ctx := True, m_elim_and := True\<rparr>"

text \<open>\<^verbatim>\<open>(and p (or (not p) q))\<close> becomes \<^verbatim>\<open>(not (or (not p) (not q)))\<close>.\<close>

lemma mk_app_example:
  "mk_app rw_ctx_example OP_AND [TermE BoolS 0, OrE [NotE (TermE BoolS 0), TermE BoolS 2]] =
     Some (Some (NotE (OrE [NotE (TermE BoolS 0), NotE (TermE BoolS 2)])),
           rw_ctx_example\<lparr>m_local_ctx_cost := 42\<rparr>)"
  by code_simp

theorem mk_app_correct_witness:
  "rw_equiv (AndE [TermE BoolS 0, OrE [NotE (TermE BoolS 0), TermE BoolS 2]])
     (NotE (OrE [NotE (TermE BoolS 0), NotE (TermE BoolS 2)]))"
  using mk_app_correct [of OP_AND "[TermE BoolS 0, OrE [NotE (TermE BoolS 0), TermE BoolS 2]]"
      "AndE [TermE BoolS 0, OrE [NotE (TermE BoolS 0), TermE BoolS 2]]" rw_ctx_example]
  by (simp add: mk_app_example)

text \<open>C2: The \<^verbatim>\<open>while (true)\<close> loop of \<^verbatim>\<open>local_ctx_simp\<close> ends on every list of well-sorted Booleans,
  whatever the flags, and when the method reports a simplification its result is a well-sorted
  Boolean equivalent to the disjunction of the arguments.\<close>

theorem local_ctx_simp_correct:
  assumes "list_all (\<lambda>x. wt x \<and> is_bool x) args"
  shows "\<exists>res rw'. local_ctx_simp rw args = Some (res, rw') \<and>
    (case res of None \<Rightarrow> True | Some r \<Rightarrow> rw_equiv (OrE args) r)"
proof -
  have "\<forall>x \<in> set args. boolean x" using assms by (simp add: list_all_iff boolean_def)
  then show ?thesis using local_ctx_simp_total [of args rw] by (auto split: option.split)
qed

lemma local_ctx_simp_example:
  "local_ctx_simp mk_bool_rewriter
     [TermE BoolS 0, NotE (OrE [TermE BoolS 0, NotE (TermE BoolS 2)])] =
     Some (Some (OrE [TermE BoolS 0, TermE BoolS 2]), mk_bool_rewriter\<lparr>m_local_ctx_cost := 42\<rparr>)"
  by code_simp

theorem local_ctx_simp_correct_witness:
  "rw_equiv (OrE [TermE BoolS 0, NotE (OrE [TermE BoolS 0, NotE (TermE BoolS 2)])])
     (OrE [TermE BoolS 0, TermE BoolS 2])"
  using local_ctx_simp_correct [of "[TermE BoolS 0, NotE (OrE [TermE BoolS 0, NotE (TermE BoolS 2)])]"
      mk_bool_rewriter]
  by (simp add: local_ctx_simp_example)

text \<open>Without contextual simplification (\<^verbatim>\<open>local_ctx\<close> off, as by default and as the bit-blaster
  configures its rewriter) \<^verbatim>\<open>mk_or\<close>, \<^verbatim>\<open>mk_and\<close> and \<^verbatim>\<open>mk_ite\<close> return and leave the state of the
  rewriter as it was, so that they may be used as functions of their arguments.\<close>

theorem rewriter_state_unchanged:
  assumes "\<not> m_local_ctx rw"
  shows "(\<exists>r. mk_or rw args = Some (r, rw)) \<and> (\<exists>r. mk_and rw args = Some (r, rw)) \<and>
    (\<exists>r. mk_ite rw c t e = Some (r, rw))"
  using mk_or_pure [OF assms] mk_and_pure [OF assms] mk_ite_pure [OF assms] by blast

theorem rewriter_state_unchanged_witness:
  "\<not> m_local_ctx mk_bool_rewriter \<and> (\<exists>r. mk_or mk_bool_rewriter [TermE BoolS 0] = Some (r, mk_bool_rewriter))"
  using rewriter_state_unchanged [of mk_bool_rewriter "[TermE BoolS 0]"] by (simp add: mk_bool_rewriter_def)

text \<open>C33: The derived constructors \<^verbatim>\<open>mk_implies\<close>, \<^verbatim>\<open>mk_nand\<close>, \<^verbatim>\<open>mk_nor\<close> and \<^verbatim>\<open>mk_xor\<close> return terms
  equivalent to the implication, the negated conjunction, the negated disjunction and the exclusive
  or of their arguments.\<close>

theorem derived_connectives_correct:
  assumes "wt a" "is_bool a" "wt b" "is_bool b" "list_all (\<lambda>x. wt x \<and> is_bool x) args"
  shows "(\<exists>r rw'. mk_implies rw a b = Some (r, rw') \<and> rw_equiv (ImpliesE a b) r) \<and>
    (\<exists>r rw'. mk_nand rw args = Some (r, rw') \<and> rw_equiv (NotE (AndE args)) r) \<and>
    (\<exists>r rw'. mk_nor rw args = Some (r, rw') \<and> rw_equiv (NotE (OrE args)) r) \<and>
    rw_equiv (XorE a b) (mk_xor rw a b)"
proof -
  have b: "boolean a" "boolean b" "\<forall>x \<in> set args. boolean x"
    using assms by (simp_all add: list_all_iff boolean_def)
  show ?thesis
    using mk_implies_sound [OF b(1,2)] mk_nand_sound [OF b(3)] mk_nor_sound [OF b(3)] mk_xor_sound [OF b(1,2)]
    by (simp add: rw_returns_def)
qed

theorem derived_connectives_correct_witness:
  "rw_equiv (XorE (TermE BoolS 0) TrueE) (NotE (TermE BoolS 0)) \<and>
   (\<exists>r rw'. mk_nor mk_bool_rewriter [FalseE, TermE BoolS 0] = Some (r, rw') \<and>
     rw_equiv (NotE (OrE [FalseE, TermE BoolS 0])) r)"
proof -
  have "mk_xor mk_bool_rewriter (TermE BoolS 0) TrueE = NotE (TermE BoolS 0)" by code_simp
  then show ?thesis
    using derived_connectives_correct [of "TermE BoolS 0" TrueE "[FalseE, TermE BoolS 0]" mk_bool_rewriter]
    by simp
qed

text \<open>\<^verbatim>\<open>mk_not\<close> and \<^verbatim>\<open>mk_eq\<close> do not grow terms: the result of a negation weighs at most as
  much as its argument, that of an equality less than an application on the same arguments plus
  one (negations are free; this is the measure on which the mutual recursion of the two ends).\<close>

theorem mk_not_mk_eq_bounded:
  "weight (mk_not rw a) \<le> weight a \<and> weight (mk_eq rw a b) \<le> 1 + weight a + weight b"
  using mk_not_weight [of rw a] mk_eq_weight [of rw a b] by simp

end
