(* ===== verification/Bit_Value.thy ===== *)
theory Bit_Value
  imports Z3_Prelude
begin

text \<open>
  The number that a list of bits stands for, least significant bit first, unsigned and in two's
  complement.  These are the specifications of the circuits and of the fixed-width vectors.
\<close>

primrec bval :: "bool list \<Rightarrow> nat" where
  "bval [] = 0"
| "bval (b # bs) = of_bool b + 2 * bval bs"

lemma bval_append: "bval (xs @ ys) = bval xs + 2 ^ length xs * bval ys"
  by (induction xs) (auto simp: algebra_simps)

lemma bval_less: "bval xs < 2 ^ length xs"
  by (induction xs) auto

lemma bval_le: "bval xs \<le> 2 ^ length xs - 1"
  using bval_less [of xs] by simp

lemma bval_replicate_False [simp]: "bval (replicate n False) = 0"
  by (induction n) auto

lemma bval_replicate_True: "bval (replicate n True) + 1 = 2 ^ n"
  by (induction n) auto

lemma bval_map_Not: "bval (map Not xs) + bval xs + 1 = 2 ^ length xs"
  by (induction xs) auto

lemma bval_eq_0_iff: "bval xs = 0 \<longleftrightarrow> True \<notin> set xs"
  by (induction xs) auto

lemma bval_take: "bval (take n xs) = bval xs mod 2 ^ n"
proof (cases "n \<le> length xs")
  case True
  have "bval xs = bval (take n xs) + 2 ^ n * bval (drop n xs)"
    using bval_append [of "take n xs" "drop n xs"] True by simp
  moreover have "bval (take n xs) < 2 ^ n"
    using bval_less [of "take n xs"] True by simp
  ultimately show ?thesis by simp
next
  case False
  then have "bval xs < 2 ^ n"
    using bval_less [of xs] by (meson less_le_trans nle_le one_le_numeral power_increasing)
  with False show ?thesis by simp
qed

lemma bval_drop: "bval (drop n xs) = bval xs div 2 ^ n"
proof (cases "n \<le> length xs")
  case True
  have "bval xs = bval (take n xs) + 2 ^ n * bval (drop n xs)"
    using bval_append [of "take n xs" "drop n xs"] True by simp
  moreover have "bval (take n xs) < 2 ^ n"
    using bval_less [of "take n xs"] True by simp
  ultimately show ?thesis by simp
next
  case False
  then have "bval xs < 2 ^ n"
    using bval_less [of xs] by (meson less_le_trans nle_le one_le_numeral power_increasing)
  with False show ?thesis by simp
qed

lemma nth_bval: "i < length xs \<Longrightarrow> xs ! i \<longleftrightarrow> odd (bval xs div 2 ^ i)"
proof (induction xs arbitrary: i)
  case (Cons x xs)
  then show ?case
  proof (cases i)
    case (Suc j)
    have "bval (x # xs) div 2 ^ i = bval xs div 2 ^ j"
      by (simp add: Suc div_mult2_eq)
    then show ?thesis using Cons Suc by simp
  qed simp
qed simp

lemma bval_inject: "length xs = length ys \<Longrightarrow> bval xs = bval ys \<longleftrightarrow> xs = ys"
proof
  assume "length xs = length ys" "bval xs = bval ys"
  then have "xs ! i = ys ! i" if "i < length xs" for i
    using nth_bval [of i xs] nth_bval [of i ys] that by simp
  with \<open>length xs = length ys\<close> show "xs = ys" by (rule nth_equalityI)
qed simp

lemma bval_last: "xs \<noteq> [] \<Longrightarrow> last xs \<longleftrightarrow> 2 ^ (length xs - 1) \<le> bval xs"
proof (induction xs rule: rev_induct)
  case (snoc x xs)
  then show ?case using bval_less [of xs] by (cases x) (auto simp: bval_append)
qed simp

lemma bval_sum: "bval xs = (\<Sum>i<length xs. of_bool (xs ! i) * 2 ^ i)"
proof (induction xs)
  case (Cons x xs)
  have "(\<Sum>i<length xs. of_bool (xs ! i) * 2 ^ Suc i :: nat) = 2 * (\<Sum>i<length xs. of_bool (xs ! i) * 2 ^ i)"
    by (simp only: sum_distrib_left power_Suc mult.left_commute)
  then show ?case
    using Cons by (simp only: bval.simps length_Cons sum.lessThan_Suc_shift nth_Cons_0 nth_Cons_Suc) simp
qed simp

text \<open>One bit of a ripple of carries.\<close>

lemma mod_bit_step: "(of_bool b + 2 * w) mod 2 ^ Suc n = of_bool b + 2 * (w mod 2 ^ n)" for w :: nat
  by (cases b) (simp_all add: mod_mult2_eq mult_mod_right flip: mult_mod_right)

subsection \<open>Two's complement\<close>

definition sval :: "bool list \<Rightarrow> int" where
  "sval xs = int (bval xs) - (if last xs then 2 ^ length xs else 0)"

lemma sval_mod: "sval xs mod 2 ^ length xs = int (bval xs)"
  using bval_less [of xs] by (simp add: sval_def)

lemma sval_bounds:
  assumes "xs \<noteq> []"
  shows "- (2 ^ (length xs - 1)) \<le> sval xs" "sval xs < 2 ^ (length xs - 1)"
proof -
  have e: "(2::int) ^ length xs = 2 * 2 ^ (length xs - 1)"
    using assms by (cases xs) auto
  have l: "last xs \<longleftrightarrow> (2::int) ^ (length xs - 1) \<le> int (bval xs)"
    unfolding bval_last [OF assms] by (metis of_nat_le_iff of_nat_numeral of_nat_power)
  have u: "int (bval xs) < 2 ^ length xs"
    using bval_less [of xs] by (metis of_nat_less_iff of_nat_numeral of_nat_power)
  show "- (2 ^ (length xs - 1)) \<le> sval xs" "sval xs < 2 ^ (length xs - 1)"
    using l u unfolding sval_def e by auto
qed

end
