(* ===== verification/Bit_Blaster.thy ===== *)
theory Bit_Blaster
  imports Bool_Rewriter
begin

text \<open>
  The bit-blaster: the gates of \<^verbatim>\<open>ast/rewriter/bit_blaster/bit_blaster.{h,cpp}\<close> and the circuits of
  \<^verbatim>\<open>bit_blaster_tpl_def.h\<close>.  The template parameter \<^verbatim>\<open>Cfg\<close> is the record \<open>gates\<close>; an array of
  \<^verbatim>\<open>sz\<close> bits is a list of terms, least significant bit first.  A loop of the code over bit
  positions is a recursion over those lists, with the carries as arguments.  \<^verbatim>\<open>checkpoint\<close>, which
  aborts when memory or time run out, is not modelled.
\<close>

subsection \<open>Gates\<close>

record gates =
  g_xor :: "expr \<Rightarrow> expr \<Rightarrow> expr"
  g_xor3 :: "expr \<Rightarrow> expr \<Rightarrow> expr \<Rightarrow> expr"
  g_carry :: "expr \<Rightarrow> expr \<Rightarrow> expr \<Rightarrow> expr"
  g_iff :: "expr \<Rightarrow> expr \<Rightarrow> expr"
  g_and :: "expr list \<Rightarrow> expr"
  g_or :: "expr list \<Rightarrow> expr"
  g_not :: "expr \<Rightarrow> expr"
  g_ite :: "expr \<Rightarrow> expr \<Rightarrow> expr \<Rightarrow> expr"
  g_nand :: "expr \<Rightarrow> expr \<Rightarrow> expr"
  g_nor :: "expr \<Rightarrow> expr \<Rightarrow> expr"
  m_use_wtm :: bool
  m_use_bcm :: bool

text \<open>The gates of \<^verbatim>\<open>bit_blaster_cfg\<close> are methods of a Boolean rewriter whose contextual
  simplification is off, as in \<^verbatim>\<open>bit_blaster::bit_blaster\<close>; it then keeps its state
  (\<open>rewriter_state_unchanged\<close>), and a gate is a function of its inputs.  The second argument is
  the plain application, which is never needed because the methods return.\<close>

definition rw_value :: "expr rw_result \<Rightarrow> expr \<Rightarrow> expr" where
  "rw_value m d = (case m of None \<Rightarrow> d | Some (r, rw') \<Rightarrow> r)"

definition cfg_and :: "bool_rewriter \<Rightarrow> expr list \<Rightarrow> expr" where
  "cfg_and rw args = rw_value (mk_and rw args) (AndE args)"

definition cfg_or :: "bool_rewriter \<Rightarrow> expr list \<Rightarrow> expr" where
  "cfg_or rw args = rw_value (mk_or rw args) (OrE args)"

definition cfg_ite :: "bool_rewriter \<Rightarrow> expr \<Rightarrow> expr \<Rightarrow> expr \<Rightarrow> expr" where
  "cfg_ite rw c t e = rw_value (mk_ite rw c t e) (IteE c t e)"

definition cfg_nand :: "bool_rewriter \<Rightarrow> expr \<Rightarrow> expr \<Rightarrow> expr" where
  "cfg_nand rw a b = rw_value (mk_nand rw [a, b]) (NotE (AndE [a, b]))"

definition cfg_nor :: "bool_rewriter \<Rightarrow> expr \<Rightarrow> expr \<Rightarrow> expr" where
  "cfg_nor rw a b = rw_value (mk_nor rw [a, b]) (NotE (OrE [a, b]))"

text \<open>\<^verbatim>\<open>sort_args\<close> orders the inputs by the identifiers that the manager gave to the nodes; \<open>ast_id\<close>
  is that assignment.\<close>

definition sort_args :: "(expr \<Rightarrow> nat) \<Rightarrow> expr \<Rightarrow> expr \<Rightarrow> expr \<Rightarrow> expr \<times> expr \<times> expr" where
  "sort_args ast_id l1 l2 l3 =
     (let args = sort_key ast_id [l1, l2, l3] in (args ! 0, args ! 1, args ! 2))"

definition mk_xor3 ::
    "bool_rewriter \<Rightarrow> (expr \<Rightarrow> nat) \<Rightarrow> bool \<Rightarrow> expr \<Rightarrow> expr \<Rightarrow> expr \<Rightarrow> expr" where
  "mk_xor3 rw ast_id ext_gates a b c =
     (let (l1, l2, l3) = sort_args ast_id a b c
      in if ext_gates then
           (if l1 = l2 then l3
            else if l1 = l3 then l2
            else if l2 = l3 then l1
            else if is_complement l1 l2 then mk_not rw l3
            else if is_complement l1 l3 then mk_not rw l2
            else if is_complement l2 l3 then mk_not rw l1
            else if is_true l1 then mk_iff rw l2 l3
            else if is_false l1 then mk_xor rw l2 l3
            else if is_true l2 then mk_iff rw l1 l3
            else if is_false l2 then mk_xor rw l1 l3
            else if is_true l3 then mk_iff rw l1 l2
            else if is_false l3 then mk_xor rw l1 l2
            else Xor3E l1 l2 l3)
         else (let t = mk_xor rw l1 l2 in mk_xor rw t l3))"

definition mk_carry ::
    "bool_rewriter \<Rightarrow> (expr \<Rightarrow> nat) \<Rightarrow> bool \<Rightarrow> expr \<Rightarrow> expr \<Rightarrow> expr \<Rightarrow> expr" where
  "mk_carry rw ast_id ext_gates a b c =
     (let (l1, l2, l3) = sort_args ast_id a b c
      in if ext_gates then
           (if (is_false l1 \<and> is_false l2) \<or> (is_false l1 \<and> is_false l3) \<or> (is_false l2 \<and> is_false l3)
            then FalseE
            else if (is_true l1 \<and> is_true l2) \<or> (is_true l1 \<and> is_true l3) \<or> (is_true l2 \<and> is_true l3)
            then TrueE
            else if l1 = l2 \<and> l1 = l3 then l1
            else if is_false l1 then cfg_and rw [l2, l3]
            else if is_false l2 then cfg_and rw [l1, l3]
            else if is_false l3 then cfg_and rw [l1, l2]
            else if is_true l1 then cfg_or rw [l2, l3]
            else if is_true l2 then cfg_or rw [l1, l3]
            else if is_true l3 then cfg_or rw [l1, l2]
            else if is_complement l1 l2 then l3
            else if is_complement l1 l3 then l2
            else if is_complement l2 l3 then l1
            else CarryE l1 l2 l3)
         else
           (let t1 = cfg_and rw [l1, l2];
                t2 = cfg_and rw [l1, l3];
                t3 = cfg_and rw [l2, l3]
            in cfg_or rw [t1, t2, t3]))"

definition bit_blaster_cfg ::
    "bool_rewriter \<Rightarrow> (expr \<Rightarrow> nat) \<Rightarrow> bool \<Rightarrow> bool \<Rightarrow> bool \<Rightarrow> gates" where
  "bit_blaster_cfg rw ast_id ext_gates use_wtm use_bcm =
     \<lparr>g_xor = mk_xor rw, g_xor3 = mk_xor3 rw ast_id ext_gates, g_carry = mk_carry rw ast_id ext_gates,
      g_iff = mk_iff rw, g_and = cfg_and rw, g_or = cfg_or rw, g_not = mk_not rw, g_ite = cfg_ite rw,
      g_nand = cfg_nand rw, g_nor = cfg_nor rw, m_use_wtm = use_wtm, m_use_bcm = use_bcm\<rparr>"

subsection \<open>Numerals\<close>

definition is_bool_const :: "expr \<Rightarrow> bool" where
  "is_bool_const e \<longleftrightarrow> is_true e \<or> is_false e"

fun is_numeral_loop :: "expr list \<Rightarrow> nat \<Rightarrow> nat \<Rightarrow> nat option" where
  "is_numeral_loop [] i r = Some r"
| "is_numeral_loop (b # bits) i r =
     (if is_true b then is_numeral_loop bits (Suc i) (r + 2 ^ i)
      else if is_false b then is_numeral_loop bits (Suc i) r
      else None)"

text \<open>\<open>None\<close> is the result \<^verbatim>\<open>false\<close>, otherwise the number is stored in \<^verbatim>\<open>r\<close>.\<close>

definition is_numeral :: "expr list \<Rightarrow> nat option" where
  "is_numeral bits = is_numeral_loop bits 0 0"

definition is_minus_one :: "expr list \<Rightarrow> bool" where
  "is_minus_one bits \<longleftrightarrow> list_all is_true bits"

definition mk_bit :: "bool \<Rightarrow> expr" where
  "mk_bit b = (if b then TrueE else FalseE)"

text \<open>Blocks of 32 bits while more than 32 remain, then bit by bit.\<close>

function num2bits_loop :: "nat \<Rightarrow> nat \<Rightarrow> nat \<Rightarrow> expr list" where
  "num2bits_loop sz i aux =
     (if i < sz then
        (if i + 32 < sz then
           (let u = aux mod 2 ^ 32
            in map (\<lambda>j. mk_bit (odd (u div 2 ^ j))) [0..<32] @ num2bits_loop sz (i + 32) (aux div 2 ^ 32))
         else mk_bit (aux mod 2 \<noteq> 0) # num2bits_loop sz (i + 1) (aux div 2))
      else [])"
  by pat_completeness auto
termination num2bits_loop
  by (relation "measure (\<lambda>(sz, i, aux). sz - i)") auto

declare num2bits_loop.simps [simp del]

definition num2bits :: "nat \<Rightarrow> nat \<Rightarrow> expr list" where
  "num2bits v sz = num2bits_loop sz 0 v"

subsection \<open>Addition, negation, subtraction\<close>

definition mk_half_adder :: "gates \<Rightarrow> expr \<Rightarrow> expr \<Rightarrow> expr \<times> expr" where
  "mk_half_adder G a b = (g_xor G a b, g_and G [a, b])"

definition mk_full_adder :: "gates \<Rightarrow> expr \<Rightarrow> expr \<Rightarrow> expr \<Rightarrow> expr \<times> expr" where
  "mk_full_adder G a b cin = (g_xor3 G a b cin, g_carry G a b cin)"

text \<open>The most significant bit needs no carry out.\<close>

fun neg_loop :: "gates \<Rightarrow> expr list \<Rightarrow> expr \<Rightarrow> expr list" where
  "neg_loop G [] cin = []"
| "neg_loop G [a] cin = [g_xor G (g_not G a) cin]"
| "neg_loop G (a # a_bits) cin =
     (let (out, cout) = mk_half_adder G (g_not G a) cin in out # neg_loop G a_bits cout)"

definition mk_neg :: "gates \<Rightarrow> expr list \<Rightarrow> expr list" where
  "mk_neg G a_bits = neg_loop G a_bits TrueE"

fun adder_loop :: "gates \<Rightarrow> expr list \<Rightarrow> expr list \<Rightarrow> expr \<Rightarrow> expr list" where
  "adder_loop G [a] (b # b_bits) cin = [g_xor3 G a b cin]"
| "adder_loop G (a # a_bits) (b # b_bits) cin =
     (let (out, cout) = mk_full_adder G a b cin in out # adder_loop G a_bits b_bits cout)"
| "adder_loop G a_bits b_bits cin = []"

definition mk_adder :: "gates \<Rightarrow> expr list \<Rightarrow> expr list \<Rightarrow> expr list" where
  "mk_adder G a_bits b_bits = adder_loop G a_bits b_bits FalseE"

fun subtracter_loop :: "gates \<Rightarrow> expr list \<Rightarrow> expr list \<Rightarrow> expr \<Rightarrow> expr list \<times> expr" where
  "subtracter_loop G (a # a_bits) (b # b_bits) cin =
     (let (out, cout) = mk_full_adder G a (g_not G b) cin;
          (outs, c) = subtracter_loop G a_bits b_bits cout
      in (out # outs, c))"
| "subtracter_loop G a_bits b_bits cin = ([], cin)"

definition mk_subtracter :: "gates \<Rightarrow> expr list \<Rightarrow> expr list \<Rightarrow> expr list \<times> expr" where
  "mk_subtracter G a_bits b_bits = subtracter_loop G a_bits b_bits TrueE"

fun mk_multiplexer :: "gates \<Rightarrow> expr \<Rightarrow> expr list \<Rightarrow> expr list \<Rightarrow> expr list" where
  "mk_multiplexer G c (t # t_bits) (e # e_bits) = g_ite G c t e # mk_multiplexer G c t_bits e_bits"
| "mk_multiplexer G c t_bits e_bits = []"

definition mk_abs :: "gates \<Rightarrow> expr list \<Rightarrow> expr list" where
  "mk_abs G a_bits =
     (let a_msb = last a_bits
      in if is_false a_msb then a_bits
         else if is_true a_msb then mk_neg G a_bits
         else mk_multiplexer G a_msb (mk_neg G a_bits) a_bits)"

subsection \<open>Multiplication\<close>

fun mk_carry_save_adder ::
    "gates \<Rightarrow> expr list \<Rightarrow> expr list \<Rightarrow> expr list \<Rightarrow> expr list \<times> expr list" where
  "mk_carry_save_adder G (a # as) (b # bs) (c # cs) =
     (let (sums, carries) = mk_carry_save_adder G as bs cs
      in (g_xor3 G a b c # sums, g_carry G a b c # carries))"
| "mk_carry_save_adder G as bs cs = ([], [])"

text \<open>The case splits of \<^verbatim>\<open>mk_const_case_multiplier\<close>: the bits of \<^verbatim>\<open>a\<close>, then those of \<^verbatim>\<open>b\<close>, that are
  not constants are replaced by both constants; \<open>k\<close> is the position, counted through \<^verbatim>\<open>a\<close> and then
  \<^verbatim>\<open>b\<close>.\<close>

function case_multiplier :: "nat \<Rightarrow> nat \<Rightarrow> expr list \<Rightarrow> expr list \<Rightarrow> expr list" where
  "case_multiplier sz k a_bits b_bits =
     (if k < 2 * sz then
        (let x = (if k < sz then a_bits ! k else b_bits ! (k - sz));
             branch = (\<lambda>v. if k < sz then case_multiplier sz (k + 1) (a_bits[k := v]) b_bits
                           else case_multiplier sz (k + 1) a_bits (b_bits[k - sz := v]))
         in if is_bool_const x then case_multiplier sz (k + 1) a_bits b_bits
            else map2 (IteE x) (branch TrueE) (branch FalseE))
      else (case (is_numeral a_bits, is_numeral b_bits) of
              (Some n_a, Some n_b) \<Rightarrow> num2bits (n_a * n_b) sz
            | _ \<Rightarrow> []))"
  by pat_completeness auto
termination case_multiplier
  by (relation "measure (\<lambda>(sz, k, a, b). 2 * sz - k)") auto

declare case_multiplier.simps [simp del]

text \<open>The counting loop, in 32-bit arithmetic: it stops when the case splits would exceed the size
  of the circuit.\<close>

fun case_size_loop :: "u32 \<Rightarrow> (expr \<times> expr) list \<Rightarrow> u32 \<Rightarrow> u32" where
  "case_size_loop circuit_size [] case_size = case_size"
| "case_size_loop circuit_size ((a, b) # bits) case_size =
     (if case_size < circuit_size then
        (let c1 = (if is_bool_const a then case_size else case_size * 2);
             c2 = (if is_bool_const b then c1 else c1 * 2)
         in case_size_loop circuit_size bits c2)
      else case_size)"

text \<open>The method computes the product and returns \<^verbatim>\<open>false\<close>, on both of its paths; the second component
  is what it leaves in \<^verbatim>\<open>out_bits\<close>.\<close>

definition mk_const_case_multiplier :: "expr list \<Rightarrow> expr list \<Rightarrow> bool \<times> expr list" where
  "mk_const_case_multiplier a_bits b_bits =
     (let sz = length a_bits;
          circuit_size = of_nat sz * of_nat sz * 5 :: u32;
          case_size = case_size_loop circuit_size (zip a_bits b_bits) 1
      in if case_size \<ge> circuit_size then (False, [])
         else (False, case_multiplier sz 0 a_bits b_bits))"

text \<open>Booth's recoding of the constant \<^verbatim>\<open>a\<close>: a run of ones from bit \<open>i\<close> to bit \<open>j - 1\<close> subtracts
  \<^verbatim>\<open>b\<close> at \<open>i\<close> and adds it at \<open>j\<close>.\<close>

fun booth_loop ::
    "gates \<Rightarrow> expr list \<Rightarrow> expr list \<Rightarrow> expr list \<Rightarrow> nat \<Rightarrow> bool \<Rightarrow> expr list \<Rightarrow> expr list" where
  "booth_loop G b_bits minus_b_bits [] i lst out_bits = out_bits"
| "booth_loop G b_bits minus_b_bits (a # a_bits) i lst out_bits =
     (let now = is_true a;
          add = (\<lambda>bs. take i out_bits @ mk_adder G (drop i out_bits) (take (length out_bits - i) bs));
          out' = (if now \<and> \<not> lst then add minus_b_bits
                  else if \<not> now \<and> lst then add b_bits
                  else out_bits)
      in booth_loop G b_bits minus_b_bits a_bits (i + 1) now out')"

definition mk_const_multiplier :: "gates \<Rightarrow> expr list \<Rightarrow> expr list \<Rightarrow> expr list option" where
  "mk_const_multiplier G a_bits b_bits =
     (case is_numeral a_bits of
        None \<Rightarrow> None
      | Some n_a \<Rightarrow>
          (case mk_const_case_multiplier a_bits b_bits of
             (True, out_bits) \<Rightarrow> Some out_bits
           | (False, _) \<Rightarrow>
               if \<not> m_use_bcm G then None
               else Some (booth_loop G b_bits (mk_neg G b_bits) a_bits 0 False
                            (replicate (length a_bits) FalseE))))"

text \<open>One column of the array multiplier: the products still to be added at this position, the
  running sum, and the carries of the previous column.\<close>

fun mult_column :: "gates \<Rightarrow> expr list \<Rightarrow> expr \<Rightarrow> expr list \<Rightarrow> expr \<times> expr list" where
  "mult_column G (i3 # terms) out (cin # cins) =
     (let (out1, cout) = mk_full_adder G i3 out cin;
          (out2, couts) = mult_column G terms out1 cins
      in (out2, cout # couts))"
| "mult_column G terms out cins = (out, [])"

fun mult_last_column :: "gates \<Rightarrow> expr list \<Rightarrow> expr \<Rightarrow> expr list \<Rightarrow> expr" where
  "mult_last_column G (i3 # terms) out (cin # cins) = mult_last_column G terms (g_xor3 G i3 out cin) cins"
| "mult_last_column G terms out cins = out"

definition mult_product :: "gates \<Rightarrow> expr list \<Rightarrow> expr list \<Rightarrow> nat \<Rightarrow> nat \<Rightarrow> expr" where
  "mult_product G a_bits b_bits i j = g_and G [a_bits ! j, b_bits ! (i - j)]"

text \<open>The loop over the columns \<open>i\<close>, \<open>n\<close> of which remain.\<close>

fun mult_columns :: "gates \<Rightarrow> expr list \<Rightarrow> expr list \<Rightarrow> nat \<Rightarrow> nat \<Rightarrow> expr list \<Rightarrow> expr list" where
  "mult_columns G a_bits b_bits i 0 cins = []"
| "mult_columns G a_bits b_bits i (Suc n) cins =
     (let i1 = mult_product G a_bits b_bits i 0;
          i2 = mult_product G a_bits b_bits i 1;
          terms = map (mult_product G a_bits b_bits i) [2..<i + 1]
      in if 0 < n then
           (let (out, cout) = mk_half_adder G i1 i2;
                (out', couts) = mult_column G terms out cins
            in out' # mult_columns G a_bits b_bits (i + 1) n (cout # couts))
         else [mult_last_column G terms (g_xor G i1 i2) cins])"

definition array_multiplier :: "gates \<Rightarrow> expr list \<Rightarrow> expr list \<Rightarrow> expr list" where
  "array_multiplier G a_bits b_bits =
     g_and G [a_bits ! 0, b_bits ! 0] # mult_columns G a_bits b_bits 1 (length a_bits - 1) []"

text \<open>One pass of the Wallace tree: every three summands become a sum and a carry vector, one or two
  left over are kept.\<close>

definition wtm_step :: "gates \<Rightarrow> expr list \<Rightarrow> expr list \<Rightarrow> expr list \<Rightarrow> expr list list" where
  "wtm_step G pp1 pp2 pp3 =
     (let (sum_bits, carry_bits) = mk_carry_save_adder G pp1 pp2 pp3
      in [sum_bits, butlast (FalseE # carry_bits)])"

fun wtm_round :: "gates \<Rightarrow> expr list list \<Rightarrow> expr list list" where
  "wtm_round G (pp1 # pp2 # pp3 # pps) = wtm_step G pp1 pp2 pp3 @ wtm_round G pps"
| "wtm_round G pps = pps"

lemma length_wtm_step [simp]: "length (wtm_step G pp1 pp2 pp3) = 2"
  by (simp add: wtm_step_def split: prod.split)

lemma length_wtm_round: "length (wtm_round G pps) \<le> length pps"
  by (induction G pps rule: wtm_round.induct) simp_all

lemma length_wtm_round_less:
  assumes "3 \<le> length pps"
  shows "length (wtm_round G pps) < length pps"
proof -
  obtain pp1 pp2 pp3 pps' where "pps = pp1 # pp2 # pp3 # pps'"
    using assms by (auto simp: numeral_3_eq_3 Suc_le_length_iff)
  then show ?thesis
    using length_wtm_round [of G pps'] by simp
qed

text \<open>\<^verbatim>\<open>while (pps.size() != 2)\<close>: the loop starts with at least two summands.\<close>

function wtm_loop :: "gates \<Rightarrow> expr list list \<Rightarrow> expr list list" where
  "wtm_loop G pps = (if length pps \<le> 2 then pps else wtm_loop G (wtm_round G pps))"
  by pat_completeness auto
termination wtm_loop
  by (relation "measure (\<lambda>(G, pps). length pps)") (auto intro!: length_wtm_round_less)

declare wtm_loop.simps [simp del]

definition partial_product :: "gates \<Rightarrow> expr list \<Rightarrow> expr list \<Rightarrow> nat \<Rightarrow> expr list" where
  "partial_product G a_bits b_bits i =
     replicate i FalseE @ map (\<lambda>a. g_and G [a, b_bits ! i]) (take (length a_bits - i) a_bits)"

definition wallace_multiplier :: "gates \<Rightarrow> expr list \<Rightarrow> expr list \<Rightarrow> expr list" where
  "wallace_multiplier G a_bits b_bits =
     (if length a_bits = 1 then [g_and G [a_bits ! 0, b_bits ! 0]]
      else (let pps = wtm_loop G (map (partial_product G a_bits b_bits) [0..<length a_bits])
            in mk_adder G (pps ! 0) (pps ! 1)))"

text \<open>\<^verbatim>\<open>n_b\<close> is set by the first test only when \<^verbatim>\<open>a\<close> is a numeral; it then holds the numeral that
  is swapped into \<^verbatim>\<open>b\<close>.\<close>

definition mk_multiplier :: "gates \<Rightarrow> expr list \<Rightarrow> expr list \<Rightarrow> expr list" where
  "mk_multiplier G a0 b0 =
     (let n_b = is_numeral a0;
          (a_bits, b_bits) = (if n_b \<noteq> None then (b0, a0) else (a0, b0))
      in if is_minus_one b_bits then mk_neg G a_bits
         else (case is_numeral a_bits of
             Some n_a \<Rightarrow> num2bits (n_a * (case n_b of Some n \<Rightarrow> n | None \<Rightarrow> 0)) (length a_bits)
           | None \<Rightarrow>
               (case mk_const_multiplier G a_bits b_bits of
                  Some out_bits \<Rightarrow> out_bits
                | None \<Rightarrow>
                    (case mk_const_multiplier G b_bits a_bits of
                       Some out_bits \<Rightarrow> out_bits
                     | None \<Rightarrow>
                         if \<not> m_use_wtm G then array_multiplier G a_bits b_bits
                         else wallace_multiplier G a_bits b_bits))))"

subsection \<open>Overflow of multiplication\<close>

text \<open>The loop of \<^verbatim>\<open>mk_umul_no_overflow\<close>, over the pairs \<^verbatim>\<open>(a_bits[sz-i], b_bits[i])\<close>.\<close>

fun umul_ovf_loop :: "gates \<Rightarrow> (expr \<times> expr) list \<Rightarrow> expr \<Rightarrow> expr \<Rightarrow> expr" where
  "umul_ovf_loop G [] ovf v = v"
| "umul_ovf_loop G ((a, b) # bits) ovf v =
     (let ovf' = g_or G [ovf, a];
          tmp = g_and G [ovf', b]
      in umul_ovf_loop G bits ovf' (g_or G [tmp, v]))"

definition mk_umul_no_overflow :: "gates \<Rightarrow> expr list \<Rightarrow> expr list \<Rightarrow> expr" where
  "mk_umul_no_overflow G a_bits b_bits =
     (let sz = length a_bits;
          mult_cout = mk_multiplier G (a_bits @ [FalseE]) (b_bits @ [FalseE]);
          overflow1 = mult_cout ! sz;
          overflow2 = umul_ovf_loop G (zip (rev (tl a_bits)) (tl b_bits)) FalseE FalseE;
          overflow = g_or G [overflow1, overflow2]
      in g_not G overflow)"

text \<open>The loop of \<^verbatim>\<open>mk_smul_no_overflow_core\<close>, over the pairs \<^verbatim>\<open>(a_bits[sz-1-i], b_bits[i])\<close>.\<close>

fun smul_ovf_loop :: "gates \<Rightarrow> expr \<Rightarrow> expr \<Rightarrow> (expr \<times> expr) list \<Rightarrow> expr \<Rightarrow> expr \<Rightarrow> expr" where
  "smul_ovf_loop G a_msb b_msb [] a_acc v = v"
| "smul_ovf_loop G a_msb b_msb ((a_bit, b_bit) # bits) a_acc v =
     (let b = g_xor G b_msb b_bit;
          a = g_xor G a_msb a_bit;
          a_acc' = g_or G [a, a_acc];
          tmp = g_and G [a_acc', b]
      in smul_ovf_loop G a_msb b_msb bits a_acc' (g_or G [tmp, v]))"

definition mk_smul_no_overflow_core :: "gates \<Rightarrow> expr list \<Rightarrow> expr list \<Rightarrow> bool \<Rightarrow> expr" where
  "mk_smul_no_overflow_core G a_bits b_bits is_overflow =
     (let sz = length a_bits;
          a_msb = a_bits ! (sz - 1);
          b_msb = b_bits ! (sz - 1);
          mult_cout = mk_multiplier G (a_bits @ [a_msb]) (b_bits @ [b_msb]);
          overflow1 = g_xor G (mult_cout ! sz) (mult_cout ! (sz - 1));
          pairs = map (\<lambda>i. (a_bits ! (sz - 1 - i), b_bits ! i)) [1..<sz - 1];
          overflow2 = smul_ovf_loop G a_msb b_msb pairs FalseE FalseE;
          overflow = g_or G [overflow1, overflow2];
          sign = (if is_overflow then g_iff G a_msb b_msb else g_xor G a_msb b_msb)
      in g_not G (g_and G [sign, overflow]))"

definition mk_smul_no_overflow :: "gates \<Rightarrow> expr list \<Rightarrow> expr list \<Rightarrow> expr" where
  "mk_smul_no_overflow G a_bits b_bits = mk_smul_no_overflow_core G a_bits b_bits True"

definition mk_smul_no_underflow :: "gates \<Rightarrow> expr list \<Rightarrow> expr list \<Rightarrow> expr" where
  "mk_smul_no_underflow G a_bits b_bits = mk_smul_no_overflow_core G a_bits b_bits False"

subsection \<open>Division\<close>

text \<open>The stages of the restoring division: \<open>a_rest\<close> are the bits of the dividend still to be
  shifted in, high ones first, \<open>p\<close> the residual, \<open>q_bits\<close> the quotient bits found so far.\<close>

fun udiv_loop :: "gates \<Rightarrow> expr list \<Rightarrow> expr list \<Rightarrow> expr list \<Rightarrow> expr list \<Rightarrow> expr list \<times> expr list" where
  "udiv_loop G b_bits [] p q_bits =
     (let (t, q) = mk_subtracter G p b_bits
      in (q # q_bits, mk_multiplexer G q t p))"
| "udiv_loop G b_bits (a # a_rest) p q_bits =
     (let (t, q) = mk_subtracter G p b_bits
      in udiv_loop G b_bits a_rest (a # butlast (mk_multiplexer G q t p)) (q # q_bits))"

definition mk_udiv_urem :: "gates \<Rightarrow> expr list \<Rightarrow> expr list \<Rightarrow> expr list \<times> expr list" where
  "mk_udiv_urem G a_bits b_bits =
     udiv_loop G b_bits (tl (rev a_bits)) (last a_bits # replicate (length a_bits - 1) FalseE) []"

definition mk_udiv :: "gates \<Rightarrow> expr list \<Rightarrow> expr list \<Rightarrow> expr list" where
  "mk_udiv G a_bits b_bits = fst (mk_udiv_urem G a_bits b_bits)"

definition mk_urem :: "gates \<Rightarrow> expr list \<Rightarrow> expr list \<Rightarrow> expr list" where
  "mk_urem G a_bits b_bits = snd (mk_udiv_urem G a_bits b_bits)"

definition mk_sign_extend :: "expr list \<Rightarrow> nat \<Rightarrow> expr list" where
  "mk_sign_extend a_bits n = a_bits @ replicate n (last a_bits)"

definition mk_zero_extend :: "expr list \<Rightarrow> nat \<Rightarrow> expr list" where
  "mk_zero_extend a_bits n = a_bits @ replicate n FalseE"

definition mk_sdiv :: "gates \<Rightarrow> expr list \<Rightarrow> expr list \<Rightarrow> expr list" where
  "mk_sdiv G a_bits b_bits =
     (let a_msb = last a_bits;
          b_msb = last b_bits
      in if is_false a_msb \<and> is_false b_msb then mk_udiv G a_bits b_bits
         else if is_false a_msb \<and> is_true b_msb then
           mk_neg G (mk_udiv G a_bits (mk_neg G b_bits))
         else if is_true a_msb \<and> is_false b_msb then
           mk_neg G (mk_udiv G (mk_neg G a_bits) b_bits)
         else if is_true a_msb \<and> is_true b_msb then
           mk_udiv G (mk_neg G a_bits) (mk_neg G b_bits)
         else
           (let udiv_bits = mk_udiv G (mk_abs G a_bits) (mk_abs G b_bits);
                neg_udiv_bits = mk_neg G udiv_bits;
                c = g_iff G a_msb b_msb
            in mk_multiplexer G c udiv_bits neg_udiv_bits))"

text \<open>\<^verbatim>\<open>rational::is_power_of_two\<close>, with the exponent.\<close>

fun power_of_two_exp :: "nat \<Rightarrow> nat option" where
  "power_of_two_exp n =
     (if n = 0 then None
      else if n = 1 then Some 0
      else if even n then map_option Suc (power_of_two_exp (n div 2))
      else None)"

declare power_of_two_exp.simps [simp del]

definition mk_srem :: "gates \<Rightarrow> expr list \<Rightarrow> expr list \<Rightarrow> expr list" where
  "mk_srem G a_bits b_bits =
     (let a_msb = last a_bits;
          b_msb = last b_bits;
          sz = length a_bits
      in if is_false a_msb \<and> is_false b_msb then mk_urem G a_bits b_bits
         else if is_false a_msb \<and> is_true b_msb then mk_urem G a_bits (mk_neg G b_bits)
         else if is_true a_msb \<and> is_false b_msb then
           mk_neg G (mk_urem G (mk_neg G a_bits) b_bits)
         else if is_true a_msb \<and> is_true b_msb then
           mk_neg G (mk_urem G (mk_neg G a_bits) (mk_neg G b_bits))
         else
           (let abs_a_bits = mk_abs G a_bits;
                abs_b_bits = mk_abs G b_bits;
                urem_bits =
                  (case Option.bind (is_numeral abs_b_bits) power_of_two_exp of
                     Some shift \<Rightarrow> mk_zero_extend (take shift abs_a_bits) (sz - shift)
                   | None \<Rightarrow> mk_urem G abs_a_bits abs_b_bits);
                neg_urem_bits = mk_neg G urem_bits
            in mk_multiplexer G a_msb neg_urem_bits urem_bits))"

subsection \<open>Comparisons\<close>

fun bb_iffs :: "gates \<Rightarrow> expr list \<Rightarrow> expr list \<Rightarrow> expr list" where
  "bb_iffs G (a # a_bits) (b # b_bits) = g_iff G a b # bb_iffs G a_bits b_bits"
| "bb_iffs G a_bits b_bits = []"

definition bb_mk_eq :: "gates \<Rightarrow> expr list \<Rightarrow> expr list \<Rightarrow> expr" where
  "bb_mk_eq G a_bits b_bits = g_and G (bb_iffs G a_bits b_bits)"

definition mk_smod :: "gates \<Rightarrow> expr list \<Rightarrow> expr list \<Rightarrow> expr list" where
  "mk_smod G a_bits b_bits =
     (let a_msb = last a_bits;
          b_msb = last b_bits;
          abs_a_bits = mk_abs G a_bits;
          abs_b_bits = mk_abs G b_bits;
          u_bits = mk_urem G abs_a_bits abs_b_bits;
          neg_u_bits = mk_neg G u_bits;
          neg_u_add_b = mk_adder G neg_u_bits b_bits;
          u_add_b = mk_adder G u_bits b_bits;
          zero = num2bits 0 (length a_bits);
          u_eq_0 = bb_mk_eq G u_bits zero;
          ite1 = mk_multiplexer G b_msb neg_u_bits neg_u_add_b;
          ite2 = mk_multiplexer G b_msb u_add_b u_bits;
          body = mk_multiplexer G a_msb ite1 ite2
      in mk_multiplexer G u_eq_0 u_bits body)"

fun le_loop :: "gates \<Rightarrow> expr list \<Rightarrow> expr list \<Rightarrow> expr \<Rightarrow> expr" where
  "le_loop G (a # a_bits) (b # b_bits) out =
     (let not_a = g_not G a;
          i1 = g_and G [not_a, b];
          i2 = g_and G [not_a, out];
          i3 = g_and G [b, out]
      in le_loop G a_bits b_bits (g_or G [i1, i2, i3]))"
| "le_loop G a_bits b_bits out = out"

text \<open>Bit 0, the loop over the bits from 1, and, for the signed comparison, the sign bits.\<close>

definition mk_le :: "gates \<Rightarrow> bool \<Rightarrow> expr list \<Rightarrow> expr list \<Rightarrow> expr" where
  "mk_le G Signed a_bits b_bits =
     (let sz = length a_bits;
          out0 = g_or G [g_not G (a_bits ! 0), b_bits ! 0];
          hi = (if Signed then sz - 1 else sz);
          out = le_loop G (drop 1 (take hi a_bits)) (drop 1 (take hi b_bits)) out0
      in if Signed then
           (let not_b = g_not G (b_bits ! (sz - 1));
                a = a_bits ! (sz - 1);
                i1 = g_and G [not_b, a];
                i2 = g_and G [not_b, out];
                i3 = g_and G [a, out]
            in g_or G [i1, i2, i3])
         else out)"

definition mk_sle :: "gates \<Rightarrow> expr list \<Rightarrow> expr list \<Rightarrow> expr" where
  "mk_sle G a_bits b_bits = mk_le G True a_bits b_bits"

definition mk_ule :: "gates \<Rightarrow> expr list \<Rightarrow> expr list \<Rightarrow> expr" where
  "mk_ule G a_bits b_bits = mk_le G False a_bits b_bits"

subsection \<open>Rotations and shifts\<close>

definition mk_rotate_left :: "expr list \<Rightarrow> nat \<Rightarrow> expr list" where
  "mk_rotate_left a_bits n0 =
     (let sz = length a_bits; n = n0 mod sz in drop (sz - n) a_bits @ take (sz - n) a_bits)"

definition mk_rotate_right :: "expr list \<Rightarrow> nat \<Rightarrow> expr list" where
  "mk_rotate_right a_bits n0 =
     (let sz = length a_bits; n = n0 mod sz in mk_rotate_left a_bits (sz - n))"

fun is_eq_loop :: "gates \<Rightarrow> expr list \<Rightarrow> nat \<Rightarrow> expr list" where
  "is_eq_loop G [] n = []"
| "is_eq_loop G (a # a_bits) n =
     (if n mod 2 = 0 then g_not G a else a) # is_eq_loop G a_bits (n div 2)"

definition mk_is_eq :: "gates \<Rightarrow> expr list \<Rightarrow> nat \<Rightarrow> expr" where
  "mk_is_eq G a_bits n = g_and G (is_eq_loop G a_bits n)"

definition mk_eqs :: "gates \<Rightarrow> expr list \<Rightarrow> expr list" where
  "mk_eqs G a_bits = map (mk_is_eq G a_bits) [0..<length a_bits]"

text \<open>The barrel shifters: stage \<open>i\<close> shifts by \<open>2 ^ i\<close> when bit \<open>i\<close> of the amount is set; \<open>fill j\<close>
  says what comes into position \<open>j\<close>.\<close>

function shift_loop ::
    "gates \<Rightarrow> (nat \<Rightarrow> nat \<Rightarrow> expr list \<Rightarrow> expr) \<Rightarrow> expr list \<Rightarrow> nat \<Rightarrow> expr list \<Rightarrow> nat \<times> expr list" where
  "shift_loop G fill b_bits i out_bits =
     (let sz = length b_bits; shift_i = 2 ^ i
      in if i < sz \<and> shift_i < sz then
           shift_loop G fill b_bits (i + 1)
             (map (\<lambda>j. g_ite G (b_bits ! i) (fill shift_i j out_bits) (out_bits ! j)) [0..<sz])
         else (i, out_bits))"
  by pat_completeness auto
termination shift_loop
  by (relation "measure (\<lambda>(G, fill, b_bits, i, out_bits). length b_bits - i)") auto

declare shift_loop.simps [simp del]

definition barrel_shift ::
    "gates \<Rightarrow> (nat \<Rightarrow> nat \<Rightarrow> expr list \<Rightarrow> expr) \<Rightarrow> expr \<Rightarrow> expr list \<Rightarrow> expr list \<Rightarrow> expr list" where
  "barrel_shift G fill large_bit a_bits b_bits =
     (let (i, out_bits) = shift_loop G fill b_bits 0 a_bits;
          is_large = foldl (\<lambda>acc b. g_or G [acc, b]) FalseE (drop i b_bits)
      in map (g_ite G is_large large_bit) out_bits)"

definition mk_shl :: "gates \<Rightarrow> expr list \<Rightarrow> expr list \<Rightarrow> expr list" where
  "mk_shl G a_bits b_bits =
     (let sz = length a_bits
      in case is_numeral b_bits of
           Some k \<Rightarrow> (let n = min k sz in replicate n FalseE @ take (sz - n) a_bits)
         | None \<Rightarrow>
             barrel_shift G (\<lambda>shift_i j out_bits. if shift_i \<le> j then out_bits ! (j - shift_i) else FalseE)
               FalseE a_bits b_bits)"

definition mk_lshr :: "gates \<Rightarrow> expr list \<Rightarrow> expr list \<Rightarrow> expr list" where
  "mk_lshr G a_bits b_bits =
     (let sz = length a_bits
      in case is_numeral b_bits of
           Some k \<Rightarrow> (let n = min k sz in drop n a_bits @ replicate n FalseE)
         | None \<Rightarrow>
             barrel_shift G (\<lambda>shift_i j out_bits. if shift_i + j < sz then out_bits ! (j + shift_i) else FalseE)
               FalseE a_bits b_bits)"

definition mk_ashr :: "gates \<Rightarrow> expr list \<Rightarrow> expr list \<Rightarrow> expr list" where
  "mk_ashr G a_bits b_bits =
     (let sz = length a_bits; a_msb = a_bits ! (sz - 1)
      in case is_numeral b_bits of
           Some k \<Rightarrow> (let n = min k sz in drop n a_bits @ replicate n a_msb)
         | None \<Rightarrow>
             barrel_shift G (\<lambda>shift_i j out_bits. if shift_i + j < sz then out_bits ! (j + shift_i) else a_msb)
               a_msb a_bits b_bits)"

text \<open>The source of bit \<open>i\<close> after a rotation by \<open>j\<close>.\<close>

definition rotate_src :: "bool \<Rightarrow> nat \<Rightarrow> nat \<Rightarrow> nat \<Rightarrow> nat" where
  "rotate_src left sz i j = (if left then sz + i - j else i + j) mod sz"

definition mk_ext_rotate_left_right :: "gates \<Rightarrow> bool \<Rightarrow> expr list \<Rightarrow> expr list \<Rightarrow> expr list" where
  "mk_ext_rotate_left_right G left a_bits b_bits =
     (let sz = length a_bits;
          circuit =
            (let sz_bits = num2bits sz sz;
                 masked_b_bits = mk_urem G b_bits sz_bits;
                 eqs = mk_eqs G masked_b_bits
             in map (\<lambda>i. foldl (\<lambda>out j. g_ite G (eqs ! j) (a_bits ! rotate_src left sz i j) out)
                          (a_bits ! i) [1..<sz]) [0..<sz])
      in case is_numeral b_bits of
           Some k \<Rightarrow>
             if k < 2 ^ 32 then (if left then mk_rotate_left a_bits k else mk_rotate_right a_bits k)
             else circuit
         | None \<Rightarrow> circuit)"

definition mk_ext_rotate_left :: "gates \<Rightarrow> expr list \<Rightarrow> expr list \<Rightarrow> expr list" where
  "mk_ext_rotate_left G a_bits b_bits = mk_ext_rotate_left_right G True a_bits b_bits"

definition mk_ext_rotate_right :: "gates \<Rightarrow> expr list \<Rightarrow> expr list \<Rightarrow> expr list" where
  "mk_ext_rotate_right G a_bits b_bits = mk_ext_rotate_left_right G False a_bits b_bits"

subsection \<open>Bitwise operations\<close>

definition bb_mk_not :: "gates \<Rightarrow> expr list \<Rightarrow> expr list" where
  "bb_mk_not G a_bits = map (g_not G) a_bits"

text \<open>The macro \<^verbatim>\<open>MK_BINARY\<close>.\<close>

fun mk_binary :: "(expr \<Rightarrow> expr \<Rightarrow> expr) \<Rightarrow> expr list \<Rightarrow> expr list \<Rightarrow> expr list" where
  "mk_binary OP (a # a_bits) (b # b_bits) = OP a b # mk_binary OP a_bits b_bits"
| "mk_binary OP a_bits b_bits = []"

definition bb_mk_and :: "gates \<Rightarrow> expr list \<Rightarrow> expr list \<Rightarrow> expr list" where
  "bb_mk_and G = mk_binary (\<lambda>a b. g_and G [a, b])"

definition bb_mk_or :: "gates \<Rightarrow> expr list \<Rightarrow> expr list \<Rightarrow> expr list" where
  "bb_mk_or G = mk_binary (\<lambda>a b. g_or G [a, b])"

definition bb_mk_xor :: "gates \<Rightarrow> expr list \<Rightarrow> expr list \<Rightarrow> expr list" where
  "bb_mk_xor G = mk_binary (g_xor G)"

definition bb_mk_xnor :: "gates \<Rightarrow> expr list \<Rightarrow> expr list \<Rightarrow> expr list" where
  "bb_mk_xnor G = mk_binary (g_iff G)"

definition bb_mk_nand :: "gates \<Rightarrow> expr list \<Rightarrow> expr list \<Rightarrow> expr list" where
  "bb_mk_nand G = mk_binary (g_nand G)"

definition bb_mk_nor :: "gates \<Rightarrow> expr list \<Rightarrow> expr list \<Rightarrow> expr list" where
  "bb_mk_nor G = mk_binary (g_nor G)"

definition mk_redand :: "gates \<Rightarrow> expr list \<Rightarrow> expr list" where
  "mk_redand G a_bits = [g_and G a_bits]"

definition mk_redor :: "gates \<Rightarrow> expr list \<Rightarrow> expr list" where
  "mk_redor G a_bits = [g_or G a_bits]"

definition mk_comp :: "gates \<Rightarrow> expr list \<Rightarrow> expr list \<Rightarrow> expr list" where
  "mk_comp G a_bits b_bits = [bb_mk_eq G a_bits b_bits]"

end
