(* ===== verification/Bit_Blaster_Arith.thy ===== *)
theory Bit_Blaster_Arith
  imports Bool_Rewriter_Correct Bit_Value Bit_Blaster
begin

text \<open>The contract between the bit-blaster and its gates, as a locale, and what the adders, the dividers,
  the signed operations and the comparisons of \<^verbatim>\<open>bit_blaster_tpl_def.h\<close> compute for every
  set of gates that meets it: the number that the output bits stand for, in terms of those of the
  inputs, in every interpretation of the input bits.\<close>

subsection \<open>What the circuits need from the gates\<close>

abbreviation bits_ok :: "expr list \<Rightarrow> bool" where
  "bits_ok bs \<equiv> list_all boolean bs"

definition bv :: "interp \<Rightarrow> expr list \<Rightarrow> nat" where
  "bv I bs = bval (map (holds I) bs)"

lemma bv_simps [simp]:
  "bv I [] = 0" "bv I (b # bs) = of_bool (holds I b) + 2 * bv I bs"
  by (simp_all add: bv_def)

lemma bv_less: "bv I bs < 2 ^ length bs"
  using bval_less [of "map (holds I) bs"] by (simp add: bv_def)

lemma bv_append: "bv I (xs @ ys) = bv I xs + 2 ^ length xs * bv I ys"
  by (simp add: bv_def bval_append)

lemma bv_replicate_False [simp]: "bv I (replicate n FalseE) = 0"
  by (simp add: bv_def)

lemma bv_take: "bv I (take n bs) = bv I bs mod 2 ^ n"
  by (simp add: bv_def bval_take flip: take_map)

lemma bv_drop: "bv I (drop n bs) = bv I bs div 2 ^ n"
  by (simp add: bv_def bval_drop flip: drop_map)

locale bb_gates =
  fixes G :: gates
  assumes boolean_xor [simp]: "boolean a \<Longrightarrow> boolean b \<Longrightarrow> boolean (g_xor G a b)"
    and holds_xor [simp]: "boolean a \<Longrightarrow> boolean b \<Longrightarrow> interp_ok I \<Longrightarrow>
      holds I (g_xor G a b) \<longleftrightarrow> holds I a \<noteq> holds I b"
    and boolean_xor3 [simp]: "boolean a \<Longrightarrow> boolean b \<Longrightarrow> boolean c \<Longrightarrow> boolean (g_xor3 G a b c)"
    and holds_xor3 [simp]: "boolean a \<Longrightarrow> boolean b \<Longrightarrow> boolean c \<Longrightarrow> interp_ok I \<Longrightarrow>
      holds I (g_xor3 G a b c) \<longleftrightarrow> (holds I a \<noteq> holds I b) \<noteq> holds I c"
    and boolean_carry [simp]: "boolean a \<Longrightarrow> boolean b \<Longrightarrow> boolean c \<Longrightarrow> boolean (g_carry G a b c)"
    and holds_carry [simp]: "boolean a \<Longrightarrow> boolean b \<Longrightarrow> boolean c \<Longrightarrow> interp_ok I \<Longrightarrow>
      holds I (g_carry G a b c) \<longleftrightarrow>
        holds I a \<and> holds I b \<or> holds I a \<and> holds I c \<or> holds I b \<and> holds I c"
    and boolean_iff [simp]: "boolean a \<Longrightarrow> boolean b \<Longrightarrow> boolean (g_iff G a b)"
    and holds_iff [simp]: "boolean a \<Longrightarrow> boolean b \<Longrightarrow> interp_ok I \<Longrightarrow>
      holds I (g_iff G a b) \<longleftrightarrow> holds I a = holds I b"
    and boolean_and [simp]: "bits_ok bs \<Longrightarrow> boolean (g_and G bs)"
    and holds_and [simp]: "bits_ok bs \<Longrightarrow> interp_ok I \<Longrightarrow>
      holds I (g_and G bs) \<longleftrightarrow> (\<forall>b \<in> set bs. holds I b)"
    and boolean_or [simp]: "bits_ok bs \<Longrightarrow> boolean (g_or G bs)"
    and holds_or [simp]: "bits_ok bs \<Longrightarrow> interp_ok I \<Longrightarrow>
      holds I (g_or G bs) \<longleftrightarrow> (\<exists>b \<in> set bs. holds I b)"
    and boolean_not [simp]: "boolean a \<Longrightarrow> boolean (g_not G a)"
    and holds_not [simp]: "boolean a \<Longrightarrow> interp_ok I \<Longrightarrow> holds I (g_not G a) \<longleftrightarrow> \<not> holds I a"
    and boolean_ite [simp]: "boolean c \<Longrightarrow> boolean a \<Longrightarrow> boolean b \<Longrightarrow> boolean (g_ite G c a b)"
    and holds_ite [simp]: "boolean c \<Longrightarrow> boolean a \<Longrightarrow> boolean b \<Longrightarrow> interp_ok I \<Longrightarrow>
      holds I (g_ite G c a b) \<longleftrightarrow> (if holds I c then holds I a else holds I b)"
    and boolean_nand [simp]: "boolean a \<Longrightarrow> boolean b \<Longrightarrow> boolean (g_nand G a b)"
    and holds_nand [simp]: "boolean a \<Longrightarrow> boolean b \<Longrightarrow> interp_ok I \<Longrightarrow>
      holds I (g_nand G a b) \<longleftrightarrow> \<not> (holds I a \<and> holds I b)"
    and boolean_nor [simp]: "boolean a \<Longrightarrow> boolean b \<Longrightarrow> boolean (g_nor G a b)"
    and holds_nor [simp]: "boolean a \<Longrightarrow> boolean b \<Longrightarrow> interp_ok I \<Longrightarrow>
      holds I (g_nor G a b) \<longleftrightarrow> \<not> (holds I a \<or> holds I b)"
begin

subsection \<open>Adders\<close>

lemma neg_loop_ok [simp]:
  "length (neg_loop G as c) = length as"
  "bits_ok as \<Longrightarrow> boolean c \<Longrightarrow> bits_ok (neg_loop G as c)"
proof (induction as arbitrary: c)
  case (Cons a as)
  case 1 show ?case using Cons.IH(1) by (cases as) (simp_all add: mk_half_adder_def)
  case 2 then show ?case using Cons.IH(2) by (cases as) (simp_all add: mk_half_adder_def)
qed simp_all

lemma bv_neg_loop:
  assumes "bits_ok as" "boolean c" "interp_ok I"
  shows "bv I (neg_loop G as c) =
    (bval (map (\<lambda>a. \<not> holds I a) as) + of_bool (holds I c)) mod 2 ^ length as"
  using assms(1,2)
proof (induction as arbitrary: c)
  case (Cons a as)
  let ?V = "bval (map (\<lambda>a. \<not> holds I a) as)" and ?c = "g_and G [g_not G a, c]"
  let ?o = "g_xor G (g_not G a) c"
  have b: "boolean a" "boolean c" "bits_ok as" using Cons.prems by simp_all
  have sum: "bval (map (\<lambda>a. \<not> holds I a) (a # as)) + of_bool (holds I c) =
    of_bool (holds I ?o) + 2 * (?V + of_bool (holds I ?c))"
    using b assms(3) by simp
  show ?case
  proof (cases "as = []")
    case True
    then show ?thesis using b assms(3) by simp
  next
    case False
    then have "neg_loop G (a # as) c = ?o # neg_loop G as ?c"
      by (cases as) (simp_all add: mk_half_adder_def)
    then show ?thesis
      using Cons.IH [of ?c] b unfolding sum length_Cons mod_bit_step by simp
  qed
qed simp

lemma mk_neg_ok [simp]: "length (mk_neg G as) = length as" "bits_ok as \<Longrightarrow> bits_ok (mk_neg G as)"
  by (simp_all add: mk_neg_def)

lemma bv_mk_neg:
  assumes "bits_ok as" "interp_ok I"
  shows "bv I (mk_neg G as) = (2 ^ length as - bv I as) mod 2 ^ length as"
proof -
  have "bval (map (\<lambda>a. \<not> holds I a) as) + bv I as + 1 = 2 ^ length as"
    using bval_map_Not [of "map (holds I) as"] by (simp add: bv_def comp_def)
  then have "2 ^ length as - bv I as = bval (map (\<lambda>a. \<not> holds I a) as) + 1" by linarith
  then show ?thesis using assms by (simp add: mk_neg_def bv_neg_loop)
qed

lemma adder_loop_ok [simp]:
  assumes "length bs = length as"
  shows "length (adder_loop G as bs c) = length as"
    "bits_ok as \<Longrightarrow> bits_ok bs \<Longrightarrow> boolean c \<Longrightarrow> bits_ok (adder_loop G as bs c)"
  using assms
proof (induction bs as arbitrary: c rule: list_induct2)
  case (Cons b bs a as)
  case 1 show ?case using Cons.IH(1) by (cases as) (simp_all add: mk_full_adder_def)
  case 2 then show ?case using Cons.IH(2) by (cases as) (simp_all add: mk_full_adder_def)
qed simp_all

lemma bv_adder_loop:
  assumes "length bs = length as" "bits_ok as" "bits_ok bs" "boolean c" "interp_ok I"
  shows "bv I (adder_loop G as bs c) = (bv I as + bv I bs + of_bool (holds I c)) mod 2 ^ length as"
  using assms(1-4)
proof (induction bs as arbitrary: c rule: list_induct2)
  case (Cons b bs a as)
  let ?V = "bv I as + bv I bs" and ?c = "g_carry G a b c" and ?o = "g_xor3 G a b c"
  have w: "boolean a" "boolean b" "boolean c" "bits_ok as" "bits_ok bs" using Cons.prems by simp_all
  have sum: "bv I (a # as) + bv I (b # bs) + of_bool (holds I c) =
    of_bool (holds I ?o) + 2 * (?V + of_bool (holds I ?c))"
    using w assms(5) by simp
  show ?case
  proof (cases "as = []")
    case True
    then show ?thesis using w assms(5) Cons.hyps by simp
  next
    case False
    then have "adder_loop G (a # as) (b # bs) c = ?o # adder_loop G as bs ?c"
      by (cases as) (simp_all add: mk_full_adder_def)
    then show ?thesis
      using Cons.IH [of ?c] w unfolding sum length_Cons mod_bit_step by simp
  qed
qed simp

lemma mk_adder_ok [simp]:
  assumes "length bs = length as"
  shows "length (mk_adder G as bs) = length as"
    "bits_ok as \<Longrightarrow> bits_ok bs \<Longrightarrow> bits_ok (mk_adder G as bs)"
  using assms by (simp_all add: mk_adder_def)

lemma bv_mk_adder:
  assumes "bits_ok as" "bits_ok bs" "interp_ok I" "length bs = length as"
  shows "bv I (mk_adder G as bs) = (bv I as + bv I bs) mod 2 ^ length as"
  using assms by (simp add: mk_adder_def bv_adder_loop)

lemma subtracter_loop_ok:
  assumes "length bs = length as"
  shows "length (fst (subtracter_loop G as bs c)) = length as"
    "bits_ok as \<Longrightarrow> bits_ok bs \<Longrightarrow> boolean c \<Longrightarrow>
      bits_ok (fst (subtracter_loop G as bs c)) \<and> boolean (snd (subtracter_loop G as bs c))"
  using assms
proof (induction bs as arbitrary: c rule: list_induct2)
  case (Cons b bs a as)
  case 1 show ?case using Cons.IH(1) by (simp add: mk_full_adder_def split: prod.split) (metis fst_conv)
  case 2 then show ?case using Cons.IH(2) [of "g_carry G a (g_not G b) c"]
    by (auto simp: mk_full_adder_def split: prod.split)
qed simp_all

lemma bv_subtracter_loop:
  assumes "length bs = length as" "bits_ok as" "bits_ok bs" "boolean c" "interp_ok I"
    "subtracter_loop G as bs c = (outs, cout)"
  shows "bv I outs + 2 ^ length as * of_bool (holds I cout) + bv I bs + 1 =
    bv I as + 2 ^ length as + of_bool (holds I c)"
  using assms(1-4,6)
proof (induction bs as arbitrary: c outs rule: list_induct2)
  case (Cons b bs a as)
  let ?o = "g_xor3 G a (g_not G b) c" and ?c = "g_carry G a (g_not G b) c"
  have w: "boolean a" "boolean b" "boolean c" "bits_ok as" "bits_ok bs" using Cons.prems by simp_all
  obtain outs' where o: "subtracter_loop G as bs ?c = (outs', cout)" "outs = ?o # outs'"
    using Cons.prems(4) by (simp add: mk_full_adder_def split: prod.splits)
  have "bv I outs' + 2 ^ length as * of_bool (holds I cout) + bv I bs + 1 =
      bv I as + 2 ^ length as + of_bool (holds I ?c)"
    using Cons.IH [OF w(4,5) _ o(1)] w by simp
  moreover have "of_bool (holds I ?o) + 2 * of_bool (holds I ?c) + of_bool (holds I b) =
      of_bool (holds I a) + 1 + (of_bool (holds I c) :: nat)"
    using w assms(5) by simp
  ultimately show ?case by (simp add: o(2) algebra_simps)
qed simp

lemma mk_subtracter_ok:
  assumes "mk_subtracter G as bs = (t, q)" "length bs = length as" "bits_ok as" "bits_ok bs"
  shows "length t = length as" "bits_ok t" "boolean q"
  using subtracter_loop_ok [of bs as TrueE] assms by (simp_all add: mk_subtracter_def)

lemma bv_mk_subtracter:
  assumes "mk_subtracter G as bs = (t, q)" "length bs = length as" "bits_ok as" "bits_ok bs" "interp_ok I"
  shows "holds I q \<longleftrightarrow> bv I bs \<le> bv I as"
    "bv I t = (2 ^ length as + bv I as - bv I bs) mod 2 ^ length as"
proof -
  have e: "bv I t + 2 ^ length as * of_bool (holds I q) + bv I bs = bv I as + 2 ^ length as"
    using bv_subtracter_loop [of bs as TrueE I t q] assms by (simp add: mk_subtracter_def)
  have l: "bv I t < 2 ^ length as" "bv I as < 2 ^ length as" "bv I bs < 2 ^ length as"
    using bv_less [of I t] bv_less [of I as] bv_less [of I bs] mk_subtracter_ok(1) [OF assms(1-4)] assms(2)
    by simp_all
  show "holds I q \<longleftrightarrow> bv I bs \<le> bv I as"
    using e l by (cases "holds I q") auto
  have "2 ^ length as + bv I as - bv I bs = bv I t + 2 ^ length as * of_bool (holds I q)"
    using e l by simp
  then show "bv I t = (2 ^ length as + bv I as - bv I bs) mod 2 ^ length as"
    using l by simp
qed

lemma mk_multiplexer_ok [simp]:
  assumes "length es = length ts"
  shows "length (mk_multiplexer G c ts es) = length ts"
    "boolean c \<Longrightarrow> bits_ok ts \<Longrightarrow> bits_ok es \<Longrightarrow> bits_ok (mk_multiplexer G c ts es)"
  using assms by (induction es ts rule: list_induct2) simp_all

lemma bv_mk_multiplexer [simp]:
  assumes "length es = length ts" "boolean c" "bits_ok ts" "bits_ok es" "interp_ok I"
  shows "bv I (mk_multiplexer G c ts es) = (if holds I c then bv I ts else bv I es)"
  using assms by (induction es ts rule: list_induct2) simp_all


subsection \<open>Division\<close>

text \<open>One stage: the residual is reduced by the divisor if it fits.\<close>

lemma udiv_stage:
  assumes "mk_subtracter G p bs = (t, q)" "length bs = length p" "bits_ok p" "bits_ok bs" "interp_ok I"
  shows "holds I q \<longleftrightarrow> bv I bs \<le> bv I p" "boolean q" "bits_ok (mk_multiplexer G q t p)"
    "length (mk_multiplexer G q t p) = length p"
    "bv I (mk_multiplexer G q t p) = (if bv I bs \<le> bv I p then bv I p - bv I bs else bv I p)"
proof -
  note s = mk_subtracter_ok [OF assms(1-4)] and v = bv_mk_subtracter [OF assms]
  show "holds I q \<longleftrightarrow> bv I bs \<le> bv I p" "boolean q" "bits_ok (mk_multiplexer G q t p)"
    "length (mk_multiplexer G q t p) = length p"
    using s v(1) assms(3) by simp_all
  have "bv I t = bv I p - bv I bs" if "bv I bs \<le> bv I p"
  proof -
    have e: "2 ^ length p + bv I p - bv I bs = (bv I p - bv I bs) + 2 ^ length p"
      using that by simp
    have "bv I p - bv I bs < 2 ^ length p"
      using bv_less [of I p] by simp
    then show ?thesis using v(2) unfolding e by simp
  qed
  then show "bv I (mk_multiplexer G q t p) = (if bv I bs \<le> bv I p then bv I p - bv I bs else bv I p)"
    using s v(1) assms by simp
qed

text \<open>The value of the dividend seen so far and still to come is \<open>P * 2 ^ k\<close> plus the remaining
  bits.  A zero divisor always fits: the quotient bits are all true and nothing is subtracted.\<close>

lemma udiv_loop_spec:
  fixes I bs
  defines "B \<equiv> bv I bs"
  assumes "interp_ok I" "bits_ok bs"
    and "length p = length bs" "length as < length p" "bits_ok as" "bits_ok p"
    and "bv I p < 2 ^ (length p - length as)" "B = 0 \<or> bv I p < 2 * B"
    and "N = bv I p * 2 ^ length as + bv I (rev as)"
  shows "\<exists>new r. udiv_loop G bs as p qs = (new @ qs, r) \<and> length new = Suc (length as) \<and> bits_ok new \<and>
    length r = length p \<and> bits_ok r \<and>
    bv I new = (if B = 0 then 2 ^ Suc (length as) - 1 else N div B) \<and>
    bv I r = (if B = 0 then N else N mod B)"
  using assms(4-)
proof (induction as arbitrary: p qs N)
  case Nil
  obtain t q where t: "mk_subtracter G p bs = (t, q)" by fastforce
  note s = udiv_stage [OF t _ Nil.prems(4) assms(3,2), folded B_def, OF Nil.prems(1) [symmetric]]
  let ?m = "mk_multiplexer G q t p"
  have "N div B = 1 \<and> N mod B = N - B" if "B \<le> N" "N < 2 * B"
    using that by (simp add: le_div_geq le_mod_geq)
  then have "bv I [q] = (if B = 0 then 2 ^ 1 - 1 else N div B)" "bv I ?m = (if B = 0 then N else N mod B)"
    using s(1,5) Nil.prems(6,7) by auto
  then show ?case using t s(2,3,4) by (intro exI [of _ "[q]"] exI [of _ ?m]) simp
next
  case (Cons a as)
  obtain t q where t: "mk_subtracter G p bs = (t, q)" by fastforce
  note s = udiv_stage [OF t _ Cons.prems(4) assms(3,2), folded B_def, OF Cons.prems(1) [symmetric]]
  let ?m = "mk_multiplexer G q t p" and ?k = "length as"
  let ?p = "a # butlast ?m"
  let ?q = "of_bool (holds I q) :: nat"
  have P1: "bv I p = bv I ?m + ?q * B" using s(1,5) by auto
  have "bv I ?m \<le> bv I p" using s(5) by simp
  also have "bv I p < 2 ^ (length p - Suc ?k)" using Cons.prems(5) by simp
  finally have m: "bv I ?m < 2 ^ (length p - Suc ?k)" .
  have "bv I (butlast ?m) = bv I ?m mod 2 ^ (length p - 1)"
    by (simp add: butlast_conv_take s(4) bv_take)
  moreover have "(2::nat) ^ (length p - Suc ?k) \<le> 2 ^ (length p - 1)"
    by (rule power_increasing) simp_all
  then have "bv I ?m mod 2 ^ (length p - 1) = bv I ?m" using m by (intro mod_less) linarith
  ultimately have p: "bv I ?p = of_bool (holds I a) + 2 * bv I ?m" by simp
  have len: "length ?p = length p" using Cons.prems(2) s(4) by simp
  define N' where "N' = bv I ?p * 2 ^ ?k + bv I (rev as)"
  have N: "N = N' + ?q * 2 ^ Suc ?k * B"
    unfolding N'_def p Cons.prems(7) using P1 by (simp add: bv_append algebra_simps)
  have "bits_ok ?p" using s(3) Cons.prems(3) by (auto simp: list_all_iff dest: in_set_butlastD)
  moreover have "bv I ?p < 2 ^ (length ?p - ?k)"
  proof -
    have "2 * 2 ^ (length p - Suc ?k) = (2::nat) ^ (length p - ?k)"
      using Cons.prems(2) by (simp flip: power_Suc add: Suc_diff_Suc)
    then show ?thesis using m unfolding p len by (cases "holds I a") auto
  qed
  moreover have "B = 0 \<or> bv I ?p < 2 * B"
    using Cons.prems(6) s(5) unfolding p by (auto split: if_splits)
  ultimately obtain new r where IH: "udiv_loop G bs as ?p (q # qs) = (new @ q # qs, r)" "length new = Suc ?k"
      "bits_ok new" "length r = length p" "bits_ok r"
      "bv I new = (if B = 0 then 2 ^ Suc ?k - 1 else N' div B)" "bv I r = (if B = 0 then N' else N' mod B)"
    using Cons.IH [OF _ _ _ _ _ _ N'_def, of "q # qs"] Cons.prems(1-3) len by auto
  have "bv I (new @ [q]) = (if B = 0 then 2 ^ Suc (length (a # as)) - 1 else N div B)"
  proof (cases "B = 0")
    case True
    have "(1::nat) \<le> 2 ^ Suc ?k" by (rule one_le_power) simp
    then show ?thesis using IH(2,6) s(1) True by (simp add: bv_append)
  next
    case False
    then show ?thesis using IH(2,6) N by (simp add: bv_append)
  qed
  moreover have "bv I r = (if B = 0 then N else N mod B)"
    using IH(7) N by simp
  ultimately show ?case
    using IH s(2) t by (intro exI [of _ "new @ [q]"] exI [of _ r]) simp
qed

lemma mk_udiv_urem_spec:
  assumes "interp_ok I" "as \<noteq> []" "length bs = length as" "bits_ok as" "bits_ok bs"
  shows "length (mk_udiv G as bs) = length as" "bits_ok (mk_udiv G as bs)"
    "length (mk_urem G as bs) = length as" "bits_ok (mk_urem G as bs)"
    "bv I (mk_udiv G as bs) = (if bv I bs = 0 then 2 ^ length as - 1 else bv I as div bv I bs)"
    "bv I (mk_urem G as bs) = (if bv I bs = 0 then bv I as else bv I as mod bv I bs)"
proof -
  let ?p = "last as # replicate (length as - 1) FalseE"
  have as: "rev (tl (rev as)) = butlast as" by (metis butlast_rev rev_rev_ident)
  have N: "bv I as = bv I ?p * 2 ^ length (tl (rev as)) + bv I (rev (tl (rev as)))"
    using bv_append [of I "butlast as" "[last as]"] assms(2) unfolding as by simp
  have "(2::nat) \<le> 2 ^ (length ?p - length (tl (rev as)))"
    using assms(2) by (cases as) (simp_all add: Suc_diff_le)
  then have b: "bv I ?p < 2 ^ (length ?p - length (tl (rev as)))" by simp
  have ok: "bits_ok ?p" "bits_ok (tl (rev as))"
    using assms(2,4) list.set_sel(2) [of "rev as"] by (auto simp: list_all_iff)
  have l: "Suc (length (tl (rev as))) = length as" using assms(2) by simp
  have d: "bv I bs = 0 \<or> bv I ?p < 2 * bv I bs" by (cases "holds I (last as)") auto
  obtain q r where r: "mk_udiv_urem G as bs = (q, r)" "length q = length as" "bits_ok q"
      "length r = length as" "bits_ok r"
      "bv I q = (if bv I bs = 0 then 2 ^ length as - 1 else bv I as div bv I bs)"
      "bv I r = (if bv I bs = 0 then bv I as else bv I as mod bv I bs)"
    using udiv_loop_spec [OF assms(1,5) _ _ ok(2,1) b d N, of "[]"] assms(2,3) unfolding l
    by (auto simp: mk_udiv_urem_def)
  show "length (mk_udiv G as bs) = length as" "bits_ok (mk_udiv G as bs)"
    "length (mk_urem G as bs) = length as" "bits_ok (mk_urem G as bs)"
    "bv I (mk_udiv G as bs) = (if bv I bs = 0 then 2 ^ length as - 1 else bv I as div bv I bs)"
    "bv I (mk_urem G as bs) = (if bv I bs = 0 then bv I as else bv I as mod bv I bs)"
    using r by (simp_all add: mk_udiv_def mk_urem_def)
qed

end

subsection \<open>Numerals\<close>

lemma boolean_mk_bit [simp]: "boolean (mk_bit b)" "holds I (mk_bit b) = b"
  by (simp_all add: mk_bit_def boolean_def)

lemma is_numeral_loop_Some:
  "is_numeral_loop bits i r = Some n \<Longrightarrow> n = r + 2 ^ i * bv I bits \<and> list_all is_bool_const bits"
  by (induction bits i r rule: is_numeral_loop.induct)
    (auto simp: is_bool_const_def algebra_simps split: if_splits)

lemma is_numeral_Some: "is_numeral bits = Some n \<Longrightarrow> bv I bits = n"
  using is_numeral_loop_Some [of bits 0 0 n I] by (simp add: is_numeral_def)

lemma is_numeral_consts: "is_numeral bits = Some n \<Longrightarrow> list_all is_bool_const bits"
  using is_numeral_loop_Some [of bits 0 0 n] by (simp add: is_numeral_def)

lemma is_minus_one_bv: "is_minus_one bits \<Longrightarrow> bv I bits + 1 = 2 ^ length bits"
  by (induction bits) (auto simp: is_minus_one_def)

lemma of_bool_odd_div: "of_bool (odd u) + 2 * (u div 2) = u" for u :: nat
  by (cases "odd u") simp_all

lemma bval_digits: "bval (map (\<lambda>j. odd (u div 2 ^ j)) [0..<n]) = u mod 2 ^ n"
proof (induction n arbitrary: u)
  case (Suc n)
  have "bval (map (\<lambda>j. odd (u div 2 ^ j)) [0..<Suc n]) =
      of_bool (odd u) + 2 * bval (map (\<lambda>j. odd (u div 2 ^ Suc j)) [0..<n])"
    by (simp only: upt_conv_Cons [of 0 "Suc n"] zero_less_Suc list.map bval.simps map_Suc_upt [symmetric] map_map
        comp_def) simp
  also have "\<dots> = of_bool (odd u) + 2 * (u div 2 mod 2 ^ n)"
    using Suc [of "u div 2"] by (simp add: div_mult2_eq)
  also have "\<dots> = u mod 2 ^ Suc n"
    using mod_bit_step [of "odd u" "u div 2" n] unfolding of_bool_odd_div by simp
  finally show ?case .
qed simp

lemma num2bits_loop_spec:
  "length (num2bits_loop sz i v) = sz - i \<and> bits_ok (num2bits_loop sz i v) \<and>
   bv I (num2bits_loop sz i v) = v mod 2 ^ (sz - i)"
proof (induction sz i v rule: num2bits_loop.induct)
  case (1 sz i v)
  consider (no) "\<not> i < sz" | (block) "i < sz" "i + 32 < sz" | (bit) "i < sz" "\<not> i + 32 < sz" by blast
  then show ?case
  proof cases
    case no
    then show ?thesis by (simp add: num2bits_loop.simps)
  next
    case block
    let ?u = "v mod 2 ^ 32"
    let ?d = "map (\<lambda>j. mk_bit (odd (?u div 2 ^ j))) [0..<32]"
    have n: "num2bits_loop sz i v = ?d @ num2bits_loop sz (i + 32) (v div 2 ^ 32)"
      using block by (simp add: num2bits_loop.simps [of sz i v])
    have d: "bv I ?d = ?u"
      using bval_digits [of ?u 32] by (simp add: bv_def comp_def)
    have e: "(2::nat) ^ (sz - i) = 2 ^ 32 * 2 ^ (sz - (i + 32))"
      unfolding power_add [symmetric] using block by (intro arg_cong [of _ _ "\<lambda>k. 2 ^ k"]) simp
    have "v mod 2 ^ (sz - i) = ?u + 2 ^ 32 * (v div 2 ^ 32 mod 2 ^ (sz - (i + 32)))"
      by (simp only: e mod_mult2_eq add.commute)
    then show ?thesis
      using 1(1) [OF block refl] block d unfolding n by (auto simp: bv_append list_all_iff)
  next
    case bit
    have n: "num2bits_loop sz i v = mk_bit (v mod 2 \<noteq> 0) # num2bits_loop sz (i + 1) (v div 2)"
      using bit by (simp add: num2bits_loop.simps [of sz i v])
    have "v mod 2 ^ (sz - i) = of_bool (odd v) + 2 * (v div 2 mod 2 ^ (sz - (i + 1)))"
      using mod_bit_step [of "odd v" "v div 2" "sz - (i + 1)"] bit
      unfolding of_bool_odd_div by (simp add: Suc_diff_Suc)
    then show ?thesis
      using 1(2) [OF bit] bit unfolding n by (simp add: odd_iff_mod_2_eq_one)
  qed
qed

lemma num2bits_spec [simp]:
  "length (num2bits v sz) = sz" "bits_ok (num2bits v sz)" "bv I (num2bits v sz) = v mod 2 ^ sz"
  using num2bits_loop_spec [of sz 0 v I] num2bits_loop_spec [of sz 0 v] by (simp_all add: num2bits_def)

lemma power_of_two_exp_Some: "power_of_two_exp n = Some k \<Longrightarrow> n = 2 ^ k"
proof (induction n arbitrary: k rule: power_of_two_exp.induct)
  case (1 n)
  then show ?case by (subst (asm) power_of_two_exp.simps) (auto split: if_splits)
qed

subsection \<open>Signed values\<close>

definition sv :: "interp \<Rightarrow> expr list \<Rightarrow> int" where
  "sv I bs = sval (map (holds I) bs)"

lemma sv_eq: "bs \<noteq> [] \<Longrightarrow> sv I bs = int (bv I bs) - (if holds I (last bs) then 2 ^ length bs else 0)"
  by (simp add: sv_def sval_def bv_def last_map)

lemma bv_last: "bs \<noteq> [] \<Longrightarrow> holds I (last bs) \<longleftrightarrow> 2 ^ (length bs - 1) \<le> bv I bs"
  using bval_last [of "map (holds I) bs"] by (simp add: bv_def last_map)

lemma sv_neg_iff: "bs \<noteq> [] \<Longrightarrow> sv I bs < 0 \<longleftrightarrow> holds I (last bs)"
  using bv_less [of I bs] by (auto simp: sv_eq)

lemma sv_mod: "sv I bs mod 2 ^ length bs = int (bv I bs)"
  using sval_mod [of "map (holds I) bs"] by (simp add: sv_def bv_def)

lemma sv_bounds:
  "bs \<noteq> [] \<Longrightarrow> - (2 ^ (length bs - 1)) \<le> sv I bs" "bs \<noteq> [] \<Longrightarrow> sv I bs < 2 ^ (length bs - 1)"
  using sval_bounds [of "map (holds I) bs"] by (simp_all add: sv_def)

lemma sv_eq_0_iff: "bs \<noteq> [] \<Longrightarrow> sv I bs = 0 \<longleftrightarrow> bv I bs = 0"
  using sv_eq [of bs I] bv_less [of I bs] bv_last [of bs I]
  by (auto intro: less_le_trans [of 0 "2 ^ (length bs - Suc 0)"])


lemma sv_abs:
  assumes "bs \<noteq> []"
  shows "\<bar>sv I bs\<bar> = (if holds I (last bs) then 2 ^ length bs - int (bv I bs) else int (bv I bs))"
    "\<bar>sv I bs\<bar> < 2 ^ length bs"
proof -
  have l: "int (bv I bs) < 2 ^ length bs"
    using bv_less [of I bs] by (metis of_nat_less_iff of_nat_numeral of_nat_power)
  show "\<bar>sv I bs\<bar> = (if holds I (last bs) then 2 ^ length bs - int (bv I bs) else int (bv I bs))"
    using l by (simp add: sv_eq [OF assms])
  have "(0::int) < 2 ^ (length bs - 1)" by simp
  moreover have "holds I (last bs) \<Longrightarrow> (2::int) ^ (length bs - 1) \<le> int (bv I bs)"
    unfolding bv_last [OF assms] by (metis of_nat_le_iff of_nat_numeral of_nat_power)
  ultimately have "holds I (last bs) \<Longrightarrow> 0 < int (bv I bs)" by linarith
  then show "\<bar>sv I bs\<bar> < 2 ^ length bs"
    using l sv_eq [OF assms, of I] by (auto split: if_splits)
qed

text \<open>The negation and the sum, in integers modulo \<open>2 ^ n\<close>.\<close>

context bb_gates
begin

lemma int_mk_neg:
  assumes "bits_ok as" "interp_ok I"
  shows "int (bv I (mk_neg G as)) = (- int (bv I as)) mod 2 ^ length as"
proof -
  have "int ((2 ^ length as - bv I as) mod 2 ^ length as) = (2 ^ length as - int (bv I as)) mod 2 ^ length as"
    using bv_less [of I as] by (simp add: of_nat_mod of_nat_diff)
  then show ?thesis using bv_mk_neg [OF assms] by (simp add: mod_diff_left_eq [symmetric])
qed

lemma int_mk_adder:
  assumes "bits_ok as" "bits_ok bs" "interp_ok I" "length bs = length as"
  shows "int (bv I (mk_adder G as bs)) = (int (bv I as) + int (bv I bs)) mod 2 ^ length as"
  using bv_mk_adder [OF assms] by (simp add: of_nat_mod)

lemma boolean_last: "as \<noteq> [] \<Longrightarrow> bits_ok as \<Longrightarrow> boolean (last as)"
  by (simp add: list_all_iff)

lemma mk_abs_ok [simp]:
  assumes "as \<noteq> []"
  shows "length (mk_abs G as) = length as" "bits_ok as \<Longrightarrow> bits_ok (mk_abs G as)"
  using assms boolean_last [OF assms] by (simp_all add: mk_abs_def Let_def)

lemma int_mk_abs:
  assumes "as \<noteq> []" "bits_ok as" "interp_ok I"
  shows "int (bv I (mk_abs G as)) = \<bar>sv I as\<bar>"
proof -
  have "int (bv I (mk_abs G as)) =
      (if holds I (last as) then int (bv I (mk_neg G as)) else int (bv I as))"
    using boolean_last [OF assms(1,2)] assms by (simp add: mk_abs_def Let_def)
  moreover have "(- int (bv I as)) mod 2 ^ length as = \<bar>sv I as\<bar>" if "holds I (last as)"
  proof -
    have "\<bar>sv I as\<bar> = 2 ^ length as - int (bv I as)" using sv_abs(1) [OF assms(1), of I] that by simp
    moreover have "\<bar>sv I as\<bar> mod 2 ^ length as = \<bar>sv I as\<bar>" using sv_abs(2) [OF assms(1), of I] by simp
    ultimately show ?thesis by (metis minus_mod_self2 diff_0 mod_diff_left_eq mod_self)
  qed
  ultimately show ?thesis
    using int_mk_neg [OF assms(2,3)] sv_abs(1) [OF assms(1), of I] by simp
qed


subsection \<open>Signed division\<close>

lemma int_mk_udiv_abs:
  assumes "interp_ok I" "as \<noteq> []" "length bs = length as" "bits_ok as" "bits_ok bs"
  shows "int (bv I (mk_udiv G (mk_abs G as) (mk_abs G bs))) =
      (if sv I bs = 0 then 2 ^ length as - 1 else \<bar>sv I as\<bar> div \<bar>sv I bs\<bar>)"
    "int (bv I (mk_urem G (mk_abs G as) (mk_abs G bs))) = \<bar>sv I as\<bar> mod \<bar>sv I bs\<bar>"
    "length (mk_udiv G (mk_abs G as) (mk_abs G bs)) = length as" "bits_ok (mk_udiv G (mk_abs G as) (mk_abs G bs))"
    "length (mk_urem G (mk_abs G as) (mk_abs G bs)) = length as" "bits_ok (mk_urem G (mk_abs G as) (mk_abs G bs))"
proof -
  have n: "bs \<noteq> []" "mk_abs G as \<noteq> []" "length (mk_abs G bs) = length (mk_abs G as)"
    using assms(2,3) mk_abs_ok(1) [of as] mk_abs_ok(1) [of bs] by fastforce+
  note A = int_mk_abs [OF assms(2,4,1)] and B = int_mk_abs [OF n(1) assms(5,1)]
  note D = mk_udiv_urem_spec [OF assms(1) n(2,3) mk_abs_ok(2) [OF assms(2,4)] mk_abs_ok(2) [OF n(1) assms(5)]]
  have z: "bv I (mk_abs G bs) = 0 \<longleftrightarrow> sv I bs = 0" using B by (metis abs_eq_0 of_nat_eq_0_iff)
  show "int (bv I (mk_udiv G (mk_abs G as) (mk_abs G bs))) =
      (if sv I bs = 0 then 2 ^ length as - 1 else \<bar>sv I as\<bar> div \<bar>sv I bs\<bar>)"
    "int (bv I (mk_urem G (mk_abs G as) (mk_abs G bs))) = \<bar>sv I as\<bar> mod \<bar>sv I bs\<bar>"
    using D(5,6) A B z assms(2) by (auto simp: of_nat_diff zdiv_int zmod_int)
  show "length (mk_udiv G (mk_abs G as) (mk_abs G bs)) = length as" "bits_ok (mk_udiv G (mk_abs G as) (mk_abs G bs))"
    "length (mk_urem G (mk_abs G as) (mk_abs G bs)) = length as" "bits_ok (mk_urem G (mk_abs G as) (mk_abs G bs))"
    using D(1-4) assms(2) by simp_all
qed

lemma int_mod_self: "int (bv I as) mod 2 ^ length as = int (bv I as)"
  using bv_less [of I as] by (simp flip: of_nat_mod)

lemma mk_abs_const:
  "last as = FalseE \<Longrightarrow> mk_abs G as = as" "last as = TrueE \<Longrightarrow> mk_abs G as = mk_neg G as"
  by (simp_all add: mk_abs_def)

lemma mk_sdiv_spec:
  assumes "interp_ok I" "as \<noteq> []" "length bs = length as" "bits_ok as" "bits_ok bs"
  shows "int (bv I (mk_sdiv G as bs)) =
      (let x = sv I as; y = sv I bs; q = (if y = 0 then 2 ^ length as - 1 else \<bar>x\<bar> div \<bar>y\<bar>)
       in (if x < 0 \<longleftrightarrow> y < 0 then q else - q) mod 2 ^ length as)"
    "length (mk_sdiv G as bs) = length as" "bits_ok (mk_sdiv G as bs)"
proof -
  let ?U = "mk_udiv G (mk_abs G as) (mk_abs G bs)"
  note U = int_mk_udiv_abs [OF assms]
  have n: "bs \<noteq> []" using assms(2,3) by auto
  note l = boolean_last [OF assms(2,4)] boolean_last [OF n assms(5)]
  have m: "mk_sdiv G as bs \<in> {?U, mk_neg G ?U, mk_multiplexer G (g_iff G (last as) (last bs)) ?U (mk_neg G ?U)}"
    "bv I (mk_sdiv G as bs) = (if holds I (last as) = holds I (last bs) then bv I ?U else bv I (mk_neg G ?U))"
    using l U assms(1) by (auto simp: mk_sdiv_def Let_def mk_abs_const)
  show "length (mk_sdiv G as bs) = length as" "bits_ok (mk_sdiv G as bs)"
    using m(1) l U by auto
  have "int (bv I ?U) mod 2 ^ length as = int (bv I ?U)"
    using int_mod_self [of I ?U] U(3) by simp
  then have "int (bv I (mk_sdiv G as bs)) =
      (if holds I (last as) = holds I (last bs) then int (bv I ?U) else - int (bv I ?U)) mod 2 ^ length as"
    using m(2) int_mk_neg [OF U(4) assms(1)] U(3) by simp
  then show "int (bv I (mk_sdiv G as bs)) =
      (let x = sv I as; y = sv I bs; q = (if y = 0 then 2 ^ length as - 1 else \<bar>x\<bar> div \<bar>y\<bar>)
       in (if x < 0 \<longleftrightarrow> y < 0 then q else - q) mod 2 ^ length as)"
    unfolding Let_def sv_neg_iff [OF assms(2)] sv_neg_iff [OF n] U(1) .
qed

lemma mk_zero_extend_ok: "bits_ok as \<Longrightarrow> bits_ok (mk_zero_extend as n)"
  by (auto simp: mk_zero_extend_def list_all_iff)

lemma mk_srem_spec:
  assumes "interp_ok I" "as \<noteq> []" "length bs = length as" "bits_ok as" "bits_ok bs"
  shows "int (bv I (mk_srem G as bs)) =
      (let x = sv I as; r = \<bar>x\<bar> mod \<bar>sv I bs\<bar> in (if x < 0 then - r else r) mod 2 ^ length as)"
    "length (mk_srem G as bs) = length as" "bits_ok (mk_srem G as bs)"
proof -
  let ?a = "mk_abs G as" and ?b = "mk_abs G bs"
  let ?R = "mk_urem G ?a ?b"
  have n: "bs \<noteq> []" using assms(2,3) by auto
  note U = int_mk_udiv_abs [OF assms]
  note l = boolean_last [OF assms(2,4)] boolean_last [OF n assms(5)]
  define R where "R = (case Option.bind (is_numeral ?b) power_of_two_exp of
     Some shift \<Rightarrow> mk_zero_extend (take shift ?a) (length as - shift) | None \<Rightarrow> ?R)"
  have R: "length R = length as \<and> bits_ok R \<and> bv I R = bv I ?R"
  proof (cases "Option.bind (is_numeral ?b) power_of_two_exp")
    case None
    then show ?thesis using U by (simp add: R_def)
  next
    case (Some shift)
    then obtain k where k: "is_numeral ?b = Some k" "power_of_two_exp k = Some shift" by (auto simp: bind_eq_Some_conv)
    then have e: "bv I ?b = 2 ^ shift" using is_numeral_Some power_of_two_exp_Some by metis
    have "(2::nat) ^ shift < 2 ^ length as" using bv_less [of I ?b] e assms(3) n by simp
    then have s: "shift < length as" by (rule power_less_imp_less_exp [rotated]) simp
    have "int (bv I (take shift ?a)) = \<bar>sv I as\<bar> mod 2 ^ shift"
      using int_mk_abs [OF assms(2,4,1)] by (simp add: bv_take of_nat_mod)
    moreover have "\<bar>sv I bs\<bar> = 2 ^ shift"
      using int_mk_abs [OF n assms(5,1)] e by (metis of_nat_numeral of_nat_power)
    ultimately have "bv I (take shift ?a) = bv I ?R" using U(2) by simp
    moreover have "bits_ok (take shift ?a)"
      using mk_abs_ok(2) [OF assms(2,4)] by (auto simp: list_all_iff dest: in_set_takeD)
    ultimately show ?thesis
      using Some s assms(2) mk_zero_extend_ok by (simp add: R_def mk_zero_extend_def bv_append list_all_iff)
  qed
  have m: "mk_srem G as bs \<in> {?R, mk_neg G ?R, mk_multiplexer G (last as) (mk_neg G R) R}"
    "bv I (mk_srem G as bs) = (if holds I (last as) then bv I (mk_neg G ?R) else bv I ?R)"
    using l U R assms(1) by (auto simp: mk_srem_def Let_def mk_abs_const bv_mk_neg R_def [symmetric])
  show "length (mk_srem G as bs) = length as" "bits_ok (mk_srem G as bs)"
    using m(1) l U R by auto
  have "int (bv I ?R) mod 2 ^ length as = int (bv I ?R)"
    using int_mod_self [of I ?R] U(5) by simp
  then have "int (bv I (mk_srem G as bs)) =
      (if holds I (last as) then - int (bv I ?R) else int (bv I ?R)) mod 2 ^ length as"
    using m(2) int_mk_neg [OF U(6) assms(1)] U(5) by simp
  then show "int (bv I (mk_srem G as bs)) =
      (let x = sv I as; r = \<bar>x\<bar> mod \<bar>sv I bs\<bar> in (if x < 0 then - r else r) mod 2 ^ length as)"
    unfolding Let_def sv_neg_iff [OF assms(2)] U(2) .
qed

end

text \<open>The four sign cases of \<^verbatim>\<open>bvsmod\<close> are the modulus whose sign follows the divisor.\<close>

lemma smod_cases:
  fixes x y :: int
  defines "u \<equiv> \<bar>x\<bar> mod \<bar>y\<bar>"
  shows "x mod y = (if u = 0 then 0
     else if x < 0 then (if y < 0 then - u else - u + y)
     else (if y < 0 then u + y else u))"
proof -
  have np: "x mod y = (if x mod - y = 0 then 0 else x mod - y + y)"
    using zmod_zminus2_eq_if [of x "- y"] by (simp only: minus_minus diff_minus_eq_add)
  have pn: "x mod y = (if - x mod y = 0 then 0 else - (- x mod y) + y)"
    using zmod_zminus1_eq_if [of "- x" y] by (simp only: minus_minus) simp
  have nn: "x mod y = - (- x mod - y)"
    by simp
  consider "0 \<le> x" "0 \<le> y" | "0 \<le> x" "y < 0" | "x < 0" "0 \<le> y" | "x < 0" "y < 0" by linarith
  then show ?thesis
  proof cases
    case 1 then show ?thesis by (simp add: u_def)
  next
    case 2
    then have "x mod - y = u" by (simp only: u_def abs_of_nonneg abs_of_neg)
    then show ?thesis using np 2 by (auto simp only: not_less [symmetric] if_True if_False split: if_splits)
  next
    case 3
    then have "- x mod y = u" by (simp only: u_def abs_of_nonneg abs_of_neg)
    then show ?thesis using pn 3 by (auto simp only: not_less [symmetric] if_True if_False split: if_splits)
  next
    case 4
    then have "- x mod - y = u" by (simp only: u_def abs_of_nonneg abs_of_neg)
    then show ?thesis using nn 4 by (auto simp only: if_True neg_equal_0_iff_equal split: if_splits)
  qed
qed

lemma sv_butlast:
  assumes "bs \<noteq> []"
  shows "sv I bs = int (bv I (butlast bs)) - (if holds I (last bs) then 2 ^ (length bs - 1) else 0)"
proof -
  have "bv I bs = bv I (butlast bs) + 2 ^ (length bs - 1) * of_bool (holds I (last bs))"
    using bv_append [of I "butlast bs" "[last bs]"] assms by simp
  moreover have "(2::int) ^ length bs = 2 * 2 ^ (length bs - 1)"
    using assms by (cases bs) simp_all
  ultimately show ?thesis by (simp add: sv_eq [OF assms])
qed

context bb_gates
begin

subsection \<open>Comparisons\<close>

lemma bb_iffs_spec:
  assumes "length bs = length as" "bits_ok as" "bits_ok bs" "interp_ok I"
  shows "bits_ok (bb_iffs G as bs)"
    "(\<forall>x \<in> set (bb_iffs G as bs). holds I x) \<longleftrightarrow> map (holds I) as = map (holds I) bs"
  using assms(1-3) by (induction bs as rule: list_induct2) (auto simp: assms(4))

lemma bb_mk_eq_spec:
  assumes "length bs = length as" "bits_ok as" "bits_ok bs" "interp_ok I"
  shows "boolean (bb_mk_eq G as bs)" "holds I (bb_mk_eq G as bs) \<longleftrightarrow> bv I as = bv I bs"
  using bb_iffs_spec [OF assms] assms(1,4) bval_inject [of "map (holds I) as" "map (holds I) bs"]
  by (simp_all add: bb_mk_eq_def bv_def)

lemma mk_smod_spec:
  assumes "interp_ok I" "as \<noteq> []" "length bs = length as" "bits_ok as" "bits_ok bs"
  shows "int (bv I (mk_smod G as bs)) = (sv I as mod sv I bs) mod 2 ^ length as"
    "length (mk_smod G as bs) = length as" "bits_ok (mk_smod G as bs)"
proof -
  let ?u = "mk_urem G (mk_abs G as) (mk_abs G bs)" and ?n = "2 ^ length as :: int"
  let ?nu = "mk_neg G ?u"
  let ?e = "bb_mk_eq G ?u (num2bits 0 (length as))"
  let ?i1 = "mk_multiplexer G (last bs) ?nu (mk_adder G ?nu bs)"
  let ?i2 = "mk_multiplexer G (last bs) (mk_adder G ?u bs) ?u"
  have n: "bs \<noteq> []" using assms(2,3) by auto
  note U = int_mk_udiv_abs [OF assms]
  note l = boolean_last [OF assms(2,4)] boolean_last [OF n assms(5)]
  have e: "boolean ?e" "holds I ?e \<longleftrightarrow> bv I ?u = 0"
    using bb_mk_eq_spec [of "num2bits 0 (length as)" ?u I] U assms(1) by simp_all
  have s: "mk_smod G as bs = mk_multiplexer G ?e ?u (mk_multiplexer G (last as) ?i1 ?i2)"
    by (simp add: mk_smod_def Let_def)
  show "length (mk_smod G as bs) = length as" "bits_ok (mk_smod G as bs)"
    unfolding s using U l e assms(3,5) by simp_all
  define u where "u = int (bv I ?u)"
  have m: "u mod ?n = u" using int_mod_self [of I ?u] U(5) by (simp add: u_def)
  have nu: "int (bv I ?nu) = (- u) mod ?n" using int_mk_neg [OF U(6) assms(1)] U(5) by (simp add: u_def)
  have y: "int (bv I bs) = sv I bs mod ?n" using sv_mod [of I bs] assms(3) by simp
  have A: "int (bv I (mk_adder G ?nu bs)) = (- u + sv I bs) mod ?n"
    "int (bv I (mk_adder G ?u bs)) = (u + sv I bs) mod ?n"
    using int_mk_adder [of ?nu bs I] int_mk_adder [of ?u bs I] U assms(1,3,5)
    by (simp_all add: nu y u_def [symmetric] mod_simps)
  have S: "bv I (mk_smod G as bs) = (if bv I ?u = 0 then bv I ?u
     else if holds I (last as) then (if holds I (last bs) then bv I ?nu else bv I (mk_adder G ?nu bs))
     else (if holds I (last bs) then bv I (mk_adder G ?u bs) else bv I ?u))"
    unfolding s using U(5,6) l e assms(1,3,5) by simp
  have Z: "bv I ?u = 0 \<longleftrightarrow> u = 0" by (simp add: u_def)
  have "int (bv I (mk_smod G as bs)) = (if u = 0 then 0
     else if holds I (last as) then (if holds I (last bs) then - u else - u + sv I bs)
     else (if holds I (last bs) then u + sv I bs else u)) mod ?n"
    unfolding S Z if_distrib [of int] A nu u_def [symmetric] by (auto simp: m)
  then show "int (bv I (mk_smod G as bs)) = (sv I as mod sv I bs) mod 2 ^ length as"
    unfolding smod_cases [of "sv I as" "sv I bs"] sv_neg_iff [OF assms(2)] sv_neg_iff [OF n] u_def U(2) .
qed

lemma le_loop_spec:
  assumes "length bs = length as" "bits_ok as" "bits_ok bs" "boolean out" "interp_ok I"
  shows "boolean (le_loop G as bs out)"
    "holds I (le_loop G as bs out) \<longleftrightarrow> bv I as < bv I bs \<or> bv I as = bv I bs \<and> holds I out"
proof -
  have "boolean (le_loop G as bs out) \<and>
    (holds I (le_loop G as bs out) \<longleftrightarrow> bv I as < bv I bs \<or> bv I as = bv I bs \<and> holds I out)"
    using assms(1-4)
  proof (induction bs as arbitrary: out rule: list_induct2)
    case (Cons b bs a as)
    let ?out = "g_or G [g_and G [g_not G a, b], g_and G [g_not G a, out], g_and G [b, out]]"
    have w: "boolean a" "boolean b" "boolean out" "bits_ok as" "bits_ok bs" using Cons.prems by simp_all
    have "boolean ?out" "holds I ?out \<longleftrightarrow>
        \<not> holds I a \<and> holds I b \<or> (\<not> holds I a \<or> holds I b) \<and> holds I out"
      using w assms(5) by auto
    then show ?case
      using Cons.IH [OF w(4,5), of ?out] by (cases "holds I a"; cases "holds I b") (auto simp: Let_def)
  qed simp
  then show "boolean (le_loop G as bs out)"
    "holds I (le_loop G as bs out) \<longleftrightarrow> bv I as < bv I bs \<or> bv I as = bv I bs \<and> holds I out"
    by blast+
qed

text \<open>The bits from 1 on, started with the comparison of bit 0.\<close>

lemma le_prefix:
  assumes "length bs = length as" "as \<noteq> []" "bits_ok as" "bits_ok bs" "interp_ok I"
  shows "boolean (le_loop G (drop 1 as) (drop 1 bs) (g_or G [g_not G (as ! 0), bs ! 0]))"
    "holds I (le_loop G (drop 1 as) (drop 1 bs) (g_or G [g_not G (as ! 0), bs ! 0])) \<longleftrightarrow> bv I as \<le> bv I bs"
proof -
  obtain a as' b bs' where ab: "as = a # as'" "bs = b # bs'" "length bs' = length as'"
    using assms(1,2) by (cases as; cases bs) auto
  have w: "boolean a" "boolean b" "bits_ok as'" "bits_ok bs'" using assms(3,4) by (simp_all add: ab)
  have o: "boolean (g_or G [g_not G a, b])" "holds I (g_or G [g_not G a, b]) \<longleftrightarrow> (holds I a \<longrightarrow> holds I b)"
    using w assms(5) by auto
  note L = le_loop_spec [OF ab(3) w(3,4) o(1) assms(5)]
  show "boolean (le_loop G (drop 1 as) (drop 1 bs) (g_or G [g_not G (as ! 0), bs ! 0]))"
    using L(1) by (simp add: ab)
  have "bv I as' < bv I bs' \<or> bv I as' = bv I bs' \<and> (holds I a \<longrightarrow> holds I b) \<longleftrightarrow> bv I as \<le> bv I bs"
    by (cases "holds I a"; cases "holds I b") (auto simp: ab)
  then show "holds I (le_loop G (drop 1 as) (drop 1 bs) (g_or G [g_not G (as ! 0), bs ! 0])) \<longleftrightarrow> bv I as \<le> bv I bs"
    using L(2) o(2) by (simp add: ab)
qed

lemma mk_ule_spec:
  assumes "length bs = length as" "as \<noteq> []" "bits_ok as" "bits_ok bs" "interp_ok I"
  shows "boolean (mk_ule G as bs)" "holds I (mk_ule G as bs) \<longleftrightarrow> bv I as \<le> bv I bs"
proof -
  have "mk_ule G as bs = le_loop G (drop 1 as) (drop 1 bs) (g_or G [g_not G (as ! 0), bs ! 0])"
    using assms(1) by (simp add: mk_ule_def mk_le_def)
  then show "boolean (mk_ule G as bs)" "holds I (mk_ule G as bs) \<longleftrightarrow> bv I as \<le> bv I bs"
    using le_prefix [OF assms] by simp_all
qed

lemma mk_sle_spec:
  assumes "length bs = length as" "as \<noteq> []" "bits_ok as" "bits_ok bs" "interp_ok I"
  shows "boolean (mk_sle G as bs)" "holds I (mk_sle G as bs) \<longleftrightarrow> sv I as \<le> sv I bs"
proof -
  have n: "bs \<noteq> []" using assms(1,2) by auto
  let ?o0 = "g_or G [g_not G (as ! 0), bs ! 0]"
  let ?o = "le_loop G (drop 1 (butlast as)) (drop 1 (butlast bs)) ?o0"
  have a: "as = butlast as @ [last as]" "bs = butlast bs @ [last bs]" using assms(2) n by simp_all
  have w: "boolean (last as)" "boolean (last bs)" "bits_ok (butlast as)" "bits_ok (butlast bs)"
    "boolean (as ! 0)" "boolean (bs ! 0)"
    using assms(2-4) n by (auto simp: list_all_iff dest: in_set_butlastD)
  have m: "mk_sle G as bs = g_or G [g_and G [g_not G (last bs), last as],
      g_and G [g_not G (last bs), ?o], g_and G [last as, ?o]]"
    using assms(1,2) n by (simp add: mk_sle_def mk_le_def Let_def butlast_conv_take last_conv_nth)
  have o: "boolean ?o \<and> (holds I (last as) = holds I (last bs) \<longrightarrow>
      (holds I ?o \<longleftrightarrow> bv I (butlast as) \<le> bv I (butlast bs)))"
  proof (cases "length as = 1")
    case True
    then obtain a b where "as = [a]" "bs = [b]" using assms(1) by (auto simp: length_Suc_conv)
    then show ?thesis using w assms(5) by auto
  next
    case False
    then obtain a a' as' b b' bs' where "as = a # a' # as'" "bs = b # b' # bs'"
      using assms(1,2) by (cases as; cases "tl as"; cases bs; cases "tl bs") auto
    then have b: "butlast as \<noteq> []" "butlast as ! 0 = as ! 0" "butlast bs ! 0 = bs ! 0"
      "length (butlast bs) = length (butlast as)"
      using assms(1) by auto
    show ?thesis using le_prefix [OF b(4,1) w(3,4) assms(5)] b(2,3) by simp
  qed
  show "boolean (mk_sle G as bs)" unfolding m using w o by simp
  have v: "sv I as = int (bv I (butlast as)) - (if holds I (last as) then 2 ^ (length as - 1) else 0)"
    "sv I bs = int (bv I (butlast bs)) - (if holds I (last bs) then 2 ^ (length as - 1) else 0)"
    using sv_butlast [OF assms(2), of I] sv_butlast [OF n, of I] assms(1) by simp_all
  have "int (bv I (butlast as)) < 2 ^ (length as - 1)" "int (bv I (butlast bs)) < 2 ^ (length as - 1)"
    using bv_less [of I "butlast as"] bv_less [of I "butlast bs"] assms(1)
    by (metis length_butlast of_nat_less_iff of_nat_numeral of_nat_power)+
  then have "sv I as \<le> sv I bs \<longleftrightarrow> holds I (last as) \<and> \<not> holds I (last bs) \<or>
      holds I (last as) = holds I (last bs) \<and> int (bv I (butlast as)) \<le> int (bv I (butlast bs))"
    unfolding v by (cases "holds I (last as)"; cases "holds I (last bs)"; simp only: if_True if_False simp_thms; linarith)
  then show "holds I (mk_sle G as bs) \<longleftrightarrow> sv I as \<le> sv I bs"
    unfolding m using w o assms(5) by auto
qed

end

end
