(* ===== verification/Bit_Blaster_Shift.thy ===== *)
theory Bit_Blaster_Shift
  imports Bit_Blaster_Arith
begin

text \<open>The shifters and rotations of \<^verbatim>\<open>bit_blaster_tpl_def.h\<close>: constant amounts, barrel shifters
  and the selection over all rotations.\<close>

subsection \<open>Shifted lists\<close>

lemma bval_shl:
  assumes "length X = length A" "\<And>j. j < length A \<Longrightarrow> X ! j \<longleftrightarrow> s \<le> j \<and> A ! (j - s)"
  shows "bval X = bval A * 2 ^ s mod 2 ^ length A"
proof (cases "s \<le> length A")
  case True
  have "X = replicate s False @ take (length A - s) A"
    using assms True by (intro nth_equalityI) (auto simp: nth_append)
  then have "bval X = 2 ^ s * (bval A mod 2 ^ (length A - s))"
    by (simp add: bval_append bval_take)
  also have "\<dots> = (2 ^ s * bval A) mod (2 ^ s * 2 ^ (length A - s))"
    by (simp only: mult_mod_right)
  finally show ?thesis using True by (simp add: mult.commute flip: power_add)
next
  case False
  have "X = replicate (length A) False"
    using assms False by (intro nth_equalityI) auto
  moreover have "(2::nat) ^ length A dvd 2 ^ s"
    using False by (intro le_imp_power_dvd) simp
  ultimately show ?thesis by simp
qed

lemma bval_lshr:
  assumes "length X = length A" "\<And>j. j < length A \<Longrightarrow> X ! j \<longleftrightarrow> j + s < length A \<and> A ! (j + s)"
  shows "bval X = bval A div 2 ^ s"
proof -
  have "X ! j = (drop s A @ replicate (min s (length A)) False) ! j" if "j < length X" for j
  proof (cases "j < length A - s")
    case True
    then show ?thesis using assms that by (simp add: nth_append add.commute less_diff_conv)
  next
    case False
    moreover have "j - (length A - s) < min s (length A)" using False that assms(1) by linarith
    moreover have "\<not> j + s < length A" using False by linarith
    ultimately show ?thesis using assms that by (simp add: nth_append)
  qed
  then have "X = drop s A @ replicate (min s (length A)) False"
    using assms(1) by (intro nth_equalityI) auto
  then show ?thesis by (simp add: bval_append bval_drop)
qed

lemma sval_append_last:
  assumes "Y \<noteq> []"
  shows "sval (Y @ replicate n (last Y)) = sval Y"
proof (induction n)
  case (Suc n)
  let ?Z = "Y @ replicate n (last Y)"
  have l: "last ?Z = last Y" using assms by (cases n) (simp_all add: last_append)
  have "sval (?Z @ [last ?Z]) = sval ?Z"
    using assms by (simp add: sval_def bval_append power_add algebra_simps)
  then show ?case using Suc l by (simp add: replicate_append_same [symmetric])
qed simp

lemma sval_drop:
  assumes "s < length A"
  shows "sval (drop s A) = sval A div 2 ^ s"
proof -
  have e: "(2::int) ^ length A = 2 ^ (length A - s) * 2 ^ s"
    using assms by (simp flip: power_add)
  have "(int (bval A) - 2 ^ (length A - s) * 2 ^ s) div 2 ^ s = int (bval A) div 2 ^ s - 2 ^ (length A - s)"
    using div_mult_self1 [of "2 ^ s" "int (bval A)" "- (2 ^ (length A - s))"] by (simp add: mult.commute)
  then show ?thesis
    using assms by (simp add: sval_def bval_drop zdiv_int e)
qed

lemma int_bval_replicate_True: "int (bval (replicate n True)) = 2 ^ n - 1"
  by (induction n) simp_all

lemma sval_ashr:
  assumes "length X = length A" "A \<noteq> []"
    "\<And>j. j < length A \<Longrightarrow> X ! j \<longleftrightarrow> (if j + s < length A then A ! (j + s) else last A)"
  shows "sval X = sval A div 2 ^ s"
proof (cases "s < length A")
  case True
  have "X = drop s A @ replicate s (last (drop s A))"
    using assms True by (intro nth_equalityI) (auto simp: nth_append add.commute)
  then show ?thesis using sval_append_last [of "drop s A" s] True sval_drop [OF True] by simp
next
  case False
  have "X = replicate (length A) (last A)"
    using assms False by (intro nth_equalityI) auto
  then have "sval X = (if last A then - 1 else 0)"
    using assms(2) int_bval_replicate_True [of "length A"] by (cases "last A") (auto simp: sval_def)
  also have "\<dots> = sval A div 2 ^ s"
  proof -
    have p: "(2::int) ^ (length A - 1) \<le> 2 ^ s" using False by (intro power_increasing) simp_all
    note b = sval_bounds [OF assms(2)]
    have l: "last A \<longleftrightarrow> sval A < 0" using bval_less [of A] by (auto simp: sval_def)
    show ?thesis
    proof (cases "last A")
      case True
      then have "sval A div 2 ^ s = - 1"
        using l b(1) p by (intro int_div_pos_eq [of _ _ _ "sval A + 2 ^ s"]; linarith)
      then show ?thesis using True by simp
    next
      case False
      then have "sval A div 2 ^ s = 0" using l b(2) p by (intro div_pos_pos_trivial; linarith)
      then show ?thesis using False by simp
    qed
  qed
  finally show ?thesis .
qed

context bb_gates
begin

subsection \<open>Barrel shifters\<close>

text \<open>\<open>f s j\<close> is what bit \<open>j\<close> has to be after a shift by \<open>s\<close>.\<close>

lemma shift_loop_spec:
  assumes "bits_ok bs" "interp_ok I"
    and fill: "\<And>d s out. length out = length bs \<Longrightarrow> bits_ok out \<Longrightarrow>
        (\<forall>j < length bs. holds I (out ! j) = f s j) \<Longrightarrow>
        (\<forall>j < length bs. boolean (fill d j out) \<and> holds I (fill d j out) = f (s + d) j)"
    and "shift_loop G fill bs i out = (i', out')"
    and "length out = length bs" "bits_ok out" "i \<le> length bs"
      "\<forall>j < length bs. holds I (out ! j) = f (bv I bs mod 2 ^ i) j"
  shows "length out' = length bs \<and> bits_ok out' \<and> i' \<le> length bs \<and> length bs \<le> 2 ^ i' \<and>
    (\<forall>j < length bs. holds I (out' ! j) = f (bv I bs mod 2 ^ i') j)"
  using assms(4-)
proof (induction "length bs - i" arbitrary: i out rule: less_induct)
  case less
  show ?case
  proof (cases "i < length bs \<and> 2 ^ i < length bs")
    case False
    then have "i' = i" "out' = out"
      using less.prems(1) by (auto simp: shift_loop.simps [of G fill bs i out])
    moreover have "length bs \<le> 2 ^ i"
      using False less.prems(4) less_exp [of i] by (auto simp: le_less)
    ultimately show ?thesis using less.prems by simp
  next
    case True
    let ?s = "bv I bs mod 2 ^ i"
    let ?out = "map (\<lambda>j. g_ite G (bs ! i) (fill (2 ^ i) j out) (out ! j)) [0..<length bs]"
    have F: "\<forall>j < length bs. boolean (fill (2 ^ i) j out) \<and> holds I (fill (2 ^ i) j out) = f (?s + 2 ^ i) j"
      using fill [OF less.prems(2,3,5)] .
    have O: "\<forall>j < length bs. boolean (out ! j)" "boolean (bs ! i)"
      using less.prems(2,3) assms(1) True by (auto simp: list_all_iff)
    have "bv I bs mod 2 ^ Suc i = ?s + 2 ^ i * of_bool (holds I (bs ! i))"
      using True nth_bval [of i "map (holds I) bs"]
      by (simp add: bv_def power_Suc2 mod_mult2_eq mod_2_eq_odd del: power_Suc)
    then have "\<forall>j < length bs. holds I (?out ! j) = f (bv I bs mod 2 ^ Suc i) j"
      using F O less.prems(5) assms(2) by auto
    moreover have "bits_ok ?out" using F O by (simp add: list_all_iff)
    moreover have "shift_loop G fill bs (Suc i) ?out = (i', out')"
      using less.prems(1) True by (simp add: shift_loop.simps [of G fill bs i out])
    moreover have "length bs - Suc i < length bs - i" using True by linarith
    ultimately show ?thesis using less.hyps [of "Suc i" ?out] True by simp
  qed
qed

lemma barrel_shift_spec:
  assumes "bits_ok as" "bits_ok bs" "interp_ok I" "length bs = length as" "boolean large"
    and fill: "\<And>d s out. length out = length bs \<Longrightarrow> bits_ok out \<Longrightarrow>
        (\<forall>j < length bs. holds I (out ! j) = f s j) \<Longrightarrow>
        (\<forall>j < length bs. boolean (fill d j out) \<and> holds I (fill d j out) = f (s + d) j)"
    and f0: "\<And>j. j < length as \<Longrightarrow> holds I (as ! j) = f 0 j"
    and fl: "\<And>s j. length as \<le> s \<Longrightarrow> j < length as \<Longrightarrow> holds I large = f s j"
  shows "length (barrel_shift G fill large as bs) = length as" "bits_ok (barrel_shift G fill large as bs)"
    "\<And>j. j < length as \<Longrightarrow> holds I (barrel_shift G fill large as bs ! j) = f (bv I bs) j"
proof -
  obtain i out where l: "shift_loop G fill bs 0 as = (i, out)" by fastforce
  have P: "\<forall>j < length bs. holds I (as ! j) = f (bv I bs mod 2 ^ 0) j"
    using f0 assms(4) by simp
  have S: "length out = length bs" "bits_ok out" "length bs \<le> 2 ^ i"
      "\<forall>j < length bs. holds I (out ! j) = f (bv I bs mod 2 ^ i) j"
    using shift_loop_spec [where f = f, OF assms(2,3) fill l assms(4) [symmetric] assms(1) le0 P]
    by blast+
  define lg where "lg = foldl (\<lambda>acc b. g_or G [acc, b]) FalseE (drop i bs)"
  have or: "boolean (foldl (\<lambda>acc b. g_or G [acc, b]) acc xs) \<and>
      (holds I (foldl (\<lambda>acc b. g_or G [acc, b]) acc xs) \<longleftrightarrow> holds I acc \<or> (\<exists>x \<in> set xs. holds I x))"
    if "boolean acc" "bits_ok xs" for acc xs
    using that
  proof (induction xs arbitrary: acc)
    case (Cons x xs)
    then show ?case using Cons.IH [of "g_or G [acc, x]"] assms(3) by auto
  qed simp
  have "bits_ok (drop i bs)" using assms(2) by (auto simp: list_all_iff dest: in_set_dropD)
  then have L: "boolean lg" "holds I lg \<longleftrightarrow> (\<exists>x \<in> set (drop i bs). holds I x)"
    using or [of FalseE "drop i bs"] by (simp_all add: lg_def)
  have "(\<exists>x \<in> set (drop i bs). holds I x) \<longleftrightarrow> bv I (drop i bs) \<noteq> 0"
    by (auto simp: bv_def bval_eq_0_iff image_iff)
  then have large: "holds I lg \<longleftrightarrow> 2 ^ i \<le> bv I bs"
    using L(2) by (simp add: bv_drop div_eq_0_iff not_less)
  have b: "barrel_shift G fill large as bs = map (g_ite G lg large) out"
    by (simp add: barrel_shift_def l lg_def)
  show "length (barrel_shift G fill large as bs) = length as" "bits_ok (barrel_shift G fill large as bs)"
    using S(1,2) L(1) assms(4,5) by (simp_all add: b list_all_iff)
  show "holds I (barrel_shift G fill large as bs ! j) = f (bv I bs) j" if j: "j < length as" for j
  proof -
    have "boolean (out ! j)" using S(1,2) j assms(4) by (simp add: list_all_iff)
    then have "holds I (barrel_shift G fill large as bs ! j) =
        (if holds I lg then holds I large else holds I (out ! j))"
      using S(1) j L(1) assms(3-5) by (simp add: b)
    moreover have "length as \<le> bv I bs" if "holds I lg"
      using that large S(3) assms(4) by linarith
    moreover have "holds I (out ! j) = f (bv I bs) j" if "\<not> holds I lg"
      using that large S(4) j assms(4) by simp
    ultimately show ?thesis using fl [of "bv I bs" j] j by simp
  qed
qed

end

lemma bits_ok_take: "bits_ok as \<Longrightarrow> bits_ok (take n as)"
  by (meson in_set_takeD list_all_iff)

lemma bits_ok_drop: "bits_ok as \<Longrightarrow> bits_ok (drop n as)"
  by (meson in_set_dropD list_all_iff)

lemma bits_ok_replicate: "boolean a \<Longrightarrow> bits_ok (replicate n a)"
  by (simp add: list_all_iff)

lemma boolean_FalseE: "boolean FalseE"
  by simp

lemma bit_cancel: "of_bool x + 2 * p = of_bool y + 2 * q \<longleftrightarrow> x = y \<and> p = q" for p q :: nat
  by ((cases x; cases y); simp; presburger)

context bb_gates
begin

lemma mk_shl_spec:
  assumes "length bs = length as" "bits_ok as" "bits_ok bs" "interp_ok I"
  shows "length (mk_shl G as bs) = length as" "bits_ok (mk_shl G as bs)"
    "bv I (mk_shl G as bs) = bv I as * 2 ^ bv I bs mod 2 ^ length as"
proof -
  let ?f = "\<lambda>s j. s \<le> j \<and> holds I (as ! (j - s))"
  let ?fill = "\<lambda>shift_i j out. if shift_i \<le> j then out ! (j - shift_i) else FalseE"
  have f0: "holds I (as ! j) = ?f 0 j" if "j < length as" for j
    using that by simp
  have fl: "holds I FalseE = ?f s j" if "length as \<le> s" "j < length as" for s j
    using that by simp
  have fill: "\<forall>j<length bs. boolean (?fill d j out) \<and> holds I (?fill d j out) = ?f (s + d) j"
    if "length out = length bs" "bits_ok out" "\<forall>j<length bs. holds I (out ! j) = ?f s j" for d s out
    using that by (auto simp: list_all_iff add.commute le_diff_conv2)
  let ?B = "barrel_shift G ?fill FalseE as bs"
  have B: "length ?B = length as" "bits_ok ?B" "\<forall>j < length as. holds I (?B ! j) = ?f (bv I bs) j"
    using barrel_shift_spec [where f = ?f and fill = ?fill, OF assms(2,3,4,1) boolean_FalseE fill f0 fl] by blast+
  have "length (mk_shl G as bs) = length as \<and> bits_ok (mk_shl G as bs) \<and>
    (\<forall>j < length as. holds I (mk_shl G as bs ! j) = ?f (bv I bs) j)"
  proof (cases "is_numeral bs")
    case None
    then have "mk_shl G as bs = barrel_shift G ?fill FalseE as bs"
      by (simp add: mk_shl_def)
    then show ?thesis using B by (simp only: simp_thms)
  next
    case (Some k)
    then have m: "mk_shl G as bs = replicate (min k (length as)) FalseE @ take (length as - min k (length as)) as"
      "bv I bs = k" using is_numeral_Some by (simp_all add: mk_shl_def Let_def)
    have "holds I ((replicate (min k (length as)) FalseE @ take (length as - min k (length as)) as) ! j) = ?f k j"
      if j: "j < length as" for j
    proof (cases "k \<le> j")
      case True
      then have "min k (length as) = k" using j by simp
      then show ?thesis using True j by (simp add: nth_append)
    next
      case False
      then have "j < min k (length as)" using j by simp
      then show ?thesis using False by (simp add: nth_append)
    qed
    then show ?thesis unfolding m using assms(2) by (simp add: bits_ok_take bits_ok_replicate)
  qed
  then show "length (mk_shl G as bs) = length as" "bits_ok (mk_shl G as bs)"
    "bv I (mk_shl G as bs) = bv I as * 2 ^ bv I bs mod 2 ^ length as"
    using bval_shl [of "map (holds I) (mk_shl G as bs)" "map (holds I) as" "bv I bs"]
    by (simp_all add: bv_def)
qed

lemma mk_lshr_spec:
  assumes "length bs = length as" "bits_ok as" "bits_ok bs" "interp_ok I"
  shows "length (mk_lshr G as bs) = length as" "bits_ok (mk_lshr G as bs)"
    "bv I (mk_lshr G as bs) = bv I as div 2 ^ bv I bs"
proof -
  let ?f = "\<lambda>s j. j + s < length as \<and> holds I (as ! (j + s))"
  let ?fill = "\<lambda>shift_i j out. if shift_i + j < length as then out ! (j + shift_i) else FalseE"
  have f0: "holds I (as ! j) = ?f 0 j" if "j < length as" for j
    using that by simp
  have fl: "holds I FalseE = ?f s j" if "length as \<le> s" "j < length as" for s j
    using that by simp
  have fill: "\<forall>j<length bs. boolean (?fill d j out) \<and> holds I (?fill d j out) = ?f (s + d) j"
    if "length out = length bs" "bits_ok out" "\<forall>j<length bs. holds I (out ! j) = ?f s j" for d s out
    using that assms(1) by (auto simp: list_all_iff ac_simps)
  let ?B = "barrel_shift G ?fill FalseE as bs"
  have B: "length ?B = length as" "bits_ok ?B" "\<forall>j < length as. holds I (?B ! j) = ?f (bv I bs) j"
    using barrel_shift_spec [where f = ?f and fill = ?fill, OF assms(2,3,4,1) boolean_FalseE fill f0 fl] by blast+
  have "length (mk_lshr G as bs) = length as \<and> bits_ok (mk_lshr G as bs) \<and>
    (\<forall>j < length as. holds I (mk_lshr G as bs ! j) = ?f (bv I bs) j)"
  proof (cases "is_numeral bs")
    case None
    then have "mk_lshr G as bs = barrel_shift G ?fill FalseE as bs"
      by (simp add: mk_lshr_def)
    then show ?thesis using B by (simp only: simp_thms)
  next
    case (Some k)
    then have m: "mk_lshr G as bs = drop (min k (length as)) as @ replicate (min k (length as)) FalseE"
      "bv I bs = k" using is_numeral_Some by (simp_all add: mk_lshr_def Let_def)
    have "holds I ((drop (min k (length as)) as @ replicate (min k (length as)) FalseE) ! j) = ?f k j"
      if j: "j < length as" for j
    proof (cases "j + k < length as")
      case True
      then have "min k (length as) = k" "j < length as - k" by simp_all
      then show ?thesis using True by (simp add: nth_append add.commute)
    next
      case False
      then have "\<not> j < length as - min k (length as)" "j - (length as - min k (length as)) < min k (length as)"
        using j by linarith+
      then show ?thesis using False by (simp add: nth_append)
    qed
    then show ?thesis unfolding m using assms(2) by (simp add: bits_ok_drop bits_ok_replicate)
  qed
  then show "length (mk_lshr G as bs) = length as" "bits_ok (mk_lshr G as bs)"
    "bv I (mk_lshr G as bs) = bv I as div 2 ^ bv I bs"
    using bval_lshr [of "map (holds I) (mk_lshr G as bs)" "map (holds I) as" "bv I bs"]
    by (simp_all add: bv_def conj_commute cong: conj_cong)
qed

lemma mk_ashr_spec:
  assumes "length bs = length as" "as \<noteq> []" "bits_ok as" "bits_ok bs" "interp_ok I"
  shows "length (mk_ashr G as bs) = length as" "bits_ok (mk_ashr G as bs)"
    "sv I (mk_ashr G as bs) = sv I as div 2 ^ bv I bs"
proof -
  let ?m = "as ! (length as - 1)"
  let ?f = "\<lambda>s j. if j + s < length as then holds I (as ! (j + s)) else holds I ?m"
  let ?fill = "\<lambda>shift_i j out. if shift_i + j < length as then out ! (j + shift_i) else ?m"
  have bm: "boolean ?m" using assms(2,3) by (simp add: list_all_iff)
  have f0: "holds I (as ! j) = ?f 0 j" if "j < length as" for j
    using that by simp
  have fl: "holds I ?m = ?f s j" if "length as \<le> s" "j < length as" for s j
    using that by simp
  have fill: "\<forall>j<length bs. boolean (?fill d j out) \<and> holds I (?fill d j out) = ?f (s + d) j"
    if "length out = length bs" "bits_ok out" "\<forall>j<length bs. holds I (out ! j) = ?f s j" for d s out
    using that assms(1) bm by (auto simp: list_all_iff ac_simps)
  let ?B = "barrel_shift G ?fill ?m as bs"
  have B: "length ?B = length as" "bits_ok ?B" "\<forall>j < length as. holds I (?B ! j) = ?f (bv I bs) j"
    using barrel_shift_spec [where f = ?f and fill = ?fill, OF assms(3,4,5,1) bm fill f0 fl] by blast+
  have "length (mk_ashr G as bs) = length as \<and> bits_ok (mk_ashr G as bs) \<and>
    (\<forall>j < length as. holds I (mk_ashr G as bs ! j) = ?f (bv I bs) j)"
  proof (cases "is_numeral bs")
    case None
    then have "mk_ashr G as bs = barrel_shift G ?fill ?m as bs"
      by (simp only: mk_ashr_def Let_def option.case)
    then show ?thesis using B by (simp only: simp_thms)
  next
    case (Some k)
    then have m: "mk_ashr G as bs = drop (min k (length as)) as @ replicate (min k (length as)) ?m"
      "bv I bs = k" using is_numeral_Some by (simp_all add: mk_ashr_def Let_def)
    have "holds I ((drop (min k (length as)) as @ replicate (min k (length as)) ?m) ! j) = ?f k j"
      if j: "j < length as" for j
    proof (cases "j + k < length as")
      case True
      then have "min k (length as) = k" "j < length as - k" by simp_all
      then show ?thesis using True by (simp add: nth_append add.commute)
    next
      case False
      then have "\<not> j < length as - min k (length as)" "j - (length as - min k (length as)) < min k (length as)"
        using j by linarith+
      then show ?thesis using False by (simp add: nth_append)
    qed
    then show ?thesis unfolding m using assms(3) bm by (simp add: bits_ok_drop bits_ok_replicate)
  qed
  then show "length (mk_ashr G as bs) = length as" "bits_ok (mk_ashr G as bs)"
    "sv I (mk_ashr G as bs) = sv I as div 2 ^ bv I bs"
    using sval_ashr [of "map (holds I) (mk_ashr G as bs)" "map (holds I) as" "bv I bs"] assms(2)
    by (simp_all add: sv_def last_map last_conv_nth)
qed

subsection \<open>Rotations\<close>

lemma is_eq_loop_spec:
  assumes "bits_ok as" "interp_ok I"
  shows "bits_ok (is_eq_loop G as n)"
    "(\<forall>x \<in> set (is_eq_loop G as n). holds I x) \<longleftrightarrow> bv I as = n mod 2 ^ length as"
proof -
  have "bits_ok (is_eq_loop G as n) \<and>
    ((\<forall>x \<in> set (is_eq_loop G as n). holds I x) \<longleftrightarrow> bv I as = n mod 2 ^ length as)"
    using assms(1)
  proof (induction as arbitrary: n)
    case (Cons a as)
    have "n mod 2 ^ length (a # as) = of_bool (odd n) + 2 * (n div 2 mod 2 ^ length as)"
      using mod_bit_step [of "odd n" "n div 2" "length as"] unfolding of_bool_odd_div by simp
    then have "bv I (a # as) = n mod 2 ^ length (a # as) \<longleftrightarrow>
        holds I a = odd n \<and> bv I as = n div 2 mod 2 ^ length as"
      using bit_cancel [of "holds I a" "bv I as" "odd n" "n div 2 mod 2 ^ length as"] by simp
    then show ?case using Cons.IH [of "n div 2"] Cons.prems assms(2)
      by (cases "odd n") (auto simp: even_iff_mod_2_eq_zero)
  qed simp
  then show "bits_ok (is_eq_loop G as n)"
    "(\<forall>x \<in> set (is_eq_loop G as n). holds I x) \<longleftrightarrow> bv I as = n mod 2 ^ length as" by blast+
qed

lemma mk_is_eq_spec:
  assumes "bits_ok as" "interp_ok I"
  shows "boolean (mk_is_eq G as n)" "holds I (mk_is_eq G as n) \<longleftrightarrow> bv I as = n mod 2 ^ length as"
  using is_eq_loop_spec [OF assms] assms(2) by (simp_all add: mk_is_eq_def)

end

lemma nth_mk_rotate_left:
  assumes "i < length as"
  shows "mk_rotate_left as n ! i = as ! ((length as + i - n mod length as) mod length as)"
proof -
  define m where "m = n mod length as"
  have m: "m < length as" using assms unfolding m_def by (intro mod_less_divisor) linarith
  have r: "mk_rotate_left as n = drop (length as - m) as @ take (length as - m) as"
    by (simp add: mk_rotate_left_def m_def Let_def)
  have "mk_rotate_left as n ! i = as ! ((length as + i - m) mod length as)"
  proof (cases "i < m")
    case True
    then have "(length as + i - m) mod length as = length as - m + i" using m by simp
    then show ?thesis using True m by (simp add: r nth_append)
  next
    case False
    then have "length as + i - m = (i - m) + length as" using m by simp
    then have "(length as + i - m) mod length as = i - m" using assms by (simp only: mod_add_self2) simp
    then show ?thesis using False m assms by (simp add: r nth_append)
  qed
  then show ?thesis by (simp add: m_def)
qed

lemma nth_mk_rotate_right:
  assumes "i < length as"
  shows "mk_rotate_right as n ! i = as ! ((i + n mod length as) mod length as)"
proof (cases "n mod length as = 0")
  case True
  then show ?thesis using assms by (simp add: mk_rotate_right_def Let_def nth_mk_rotate_left)
next
  case False
  have l: "n mod length as < length as" using assms by (intro mod_less_divisor) linarith
  then have "(length as - n mod length as) mod length as = length as - n mod length as" using False by simp
  then show ?thesis using assms l by (simp add: mk_rotate_right_def Let_def nth_mk_rotate_left)
qed


lemma rotate_src_mod:
  assumes "i < sz" "j < sz"
  shows "rotate_src left sz i j < sz"
  using assms by (simp add: rotate_src_def)

lemma nth_rotation:
  assumes "i < length as"
  shows "(if left then mk_rotate_left as n else mk_rotate_right as n) ! i =
    as ! rotate_src left (length as) i (n mod length as)"
  using assms by (simp add: rotate_src_def nth_mk_rotate_left nth_mk_rotate_right)

context bb_gates
begin

text \<open>The selection of one source bit among all rotations.\<close>

lemma foldl_select:
  assumes "boolean x0" "\<forall>j \<in> set js. boolean (e j) \<and> boolean (x j) \<and> (holds I (e j) \<longleftrightarrow> k = j)"
    "distinct js" "interp_ok I"
  shows "boolean (foldl (\<lambda>out j. g_ite G (e j) (x j) out) x0 js)"
    "holds I (foldl (\<lambda>out j. g_ite G (e j) (x j) out) x0 js) = holds I (if k \<in> set js then x k else x0)"
proof -
  have "boolean (foldl (\<lambda>out j. g_ite G (e j) (x j) out) x0 js) \<and>
    holds I (foldl (\<lambda>out j. g_ite G (e j) (x j) out) x0 js) = holds I (if k \<in> set js then x k else x0)"
    using assms(1-3)
  proof (induction js rule: rev_induct)
    case (snoc j js)
    then show ?case using assms(4) by auto
  qed simp
  then show "boolean (foldl (\<lambda>out j. g_ite G (e j) (x j) out) x0 js)"
    "holds I (foldl (\<lambda>out j. g_ite G (e j) (x j) out) x0 js) = holds I (if k \<in> set js then x k else x0)"
    by blast+
qed

lemma mk_ext_rotate_spec:
  assumes "length bs = length as" "as \<noteq> []" "bits_ok as" "bits_ok bs" "interp_ok I"
  shows "length (mk_ext_rotate_left_right G left as bs) = length as"
    "bits_ok (mk_ext_rotate_left_right G left as bs)"
    "map (holds I) (mk_ext_rotate_left_right G left as bs) =
      map (holds I) (if left then mk_rotate_left as (bv I bs) else mk_rotate_right as (bv I bs))"
proof -
  let ?sz = "length as"
  let ?e = "mk_eqs G (mk_urem G bs (num2bits ?sz ?sz))"
  let ?bit = "\<lambda>i. foldl (\<lambda>out j. g_ite G (?e ! j) (as ! rotate_src left ?sz i j) out) (as ! i) [1..<?sz]"
  let ?c = "map ?bit [0..<?sz]"
  let ?r = "if left then mk_rotate_left as (bv I bs) else mk_rotate_right as (bv I bs)"
  let ?k = "bv I bs mod ?sz"
  have n: "bs \<noteq> []" and pos: "0 < ?sz" using assms(1,2) by auto
  have len: "length ?r = ?sz" by (simp add: mk_rotate_left_def mk_rotate_right_def Let_def)
  have "?sz mod 2 ^ ?sz = ?sz" by simp
  then have u: "length (mk_urem G bs (num2bits ?sz ?sz)) = ?sz" "bits_ok (mk_urem G bs (num2bits ?sz ?sz))"
      "bv I (mk_urem G bs (num2bits ?sz ?sz)) = ?k"
    using mk_udiv_urem_spec(3,4,6) [OF assms(5) n, of "num2bits ?sz ?sz"] assms(1,4) pos by simp_all
  have e: "boolean (?e ! j)" "holds I (?e ! j) \<longleftrightarrow> ?k = j" if "j < ?sz" for j
  proof -
    have "j mod 2 ^ ?sz = j" using that less_exp [of ?sz] by (intro mod_less) linarith
    then show "boolean (?e ! j)" "holds I (?e ! j) \<longleftrightarrow> ?k = j"
      using mk_is_eq_spec [OF u(2) assms(5), of j] u that by (simp_all add: mk_eqs_def)
  qed
  have bs: "boolean (as ! i)" if "i < ?sz" for i using that assms(3) by (simp add: list_all_iff)
  have c: "boolean (?bit i)" "holds I (?bit i) = holds I (?r ! i)" if i: "i < ?sz" for i
  proof -
    have J: "\<forall>j \<in> set [1..<?sz]. boolean (?e ! j) \<and> boolean (as ! rotate_src left ?sz i j) \<and> (holds I (?e ! j) \<longleftrightarrow> ?k = j)"
      using e bs rotate_src_mod [OF i] by auto
    note F = foldl_select [OF bs [OF i] J _ assms(5)]
    show "boolean (?bit i)" using F(1) by simp
    have k: "?k < ?sz" using pos by simp
    have "rotate_src left ?sz i 0 = i" using i by (simp add: rotate_src_def)
    then have "(if ?k \<in> set [1..<?sz] then as ! rotate_src left ?sz i ?k else as ! i) = ?r ! i"
      unfolding nth_rotation [OF i] using k by (cases "?k = 0") auto
    then show "holds I (?bit i) = holds I (?r ! i)" using F(2) by simp
  qed
  have "mk_ext_rotate_left_right G left as bs \<in> {?r, ?c}"
    using is_numeral_Some [of bs _ I]
    by (cases "is_numeral bs"; cases "bv I bs < 2 ^ 32") (simp_all add: mk_ext_rotate_left_right_def Let_def)
  then consider (r) "mk_ext_rotate_left_right G left as bs = ?r" | (c) "mk_ext_rotate_left_right G left as bs = ?c"
    by blast
  then have "length (mk_ext_rotate_left_right G left as bs) = ?sz \<and>
    bits_ok (mk_ext_rotate_left_right G left as bs) \<and> map (holds I) (mk_ext_rotate_left_right G left as bs) = map (holds I) ?r"
  proof cases
    case r
    have "bits_ok ?r"
      using assms(3) by (simp add: mk_rotate_left_def mk_rotate_right_def Let_def bits_ok_take bits_ok_drop)
    then show ?thesis using r len by simp
  next
    case c': c
    have "map (holds I) ?c = map (holds I) ?r" using c(2) len by (intro nth_equalityI) simp_all
    moreover have "bits_ok ?c" using c(1) by (simp add: list_all_iff)
    ultimately show ?thesis using c' by simp
  qed
  then show "length (mk_ext_rotate_left_right G left as bs) = length as"
    "bits_ok (mk_ext_rotate_left_right G left as bs)"
    "map (holds I) (mk_ext_rotate_left_right G left as bs) = map (holds I) ?r" by blast+
qed

subsection \<open>Bitwise operations\<close>

lemma mk_binary_spec:
  assumes "length bs = length as" "bits_ok as" "bits_ok bs"
    "\<And>a b. boolean a \<Longrightarrow> boolean b \<Longrightarrow> boolean (OP a b) \<and> holds I (OP a b) = f (holds I a) (holds I b)"
  shows "length (mk_binary OP as bs) = length as" "bits_ok (mk_binary OP as bs)"
    "map (holds I) (mk_binary OP as bs) = map2 f (map (holds I) as) (map (holds I) bs)"
  using assms(1-3) by (induction bs as rule: list_induct2) (simp_all add: assms(4))

end

end
