(* ===== verification/Bit_Blaster_Mult.thy ===== *)
theory Bit_Blaster_Mult
  imports Bit_Blaster_Shift
begin

text \<open>The multipliers of \<^verbatim>\<open>bit_blaster_tpl_def.h\<close>: the array multiplier, the Wallace tree, Booth's
  recoding for a constant factor, and the detection of unsigned overflow.\<close>

subsection \<open>Convolution\<close>

definition column :: "(nat \<Rightarrow> nat) \<Rightarrow> (nat \<Rightarrow> nat) \<Rightarrow> nat \<Rightarrow> nat" where
  "column a b k = (\<Sum>j\<le>k. a j * b (k - j))"

lemma product_mod_columns:
  "(\<Sum>i<n. a i * 2 ^ i) * (\<Sum>j<n. b j * 2 ^ j) mod 2 ^ n = (\<Sum>k<n. column a b k * 2 ^ k) mod (2 ^ n :: nat)"
proof -
  let ?f = "\<lambda>i j. a i * b j * 2 ^ (i + j)"
  let ?T = "{(i, j). i + j < n}" and ?S = "{..<n} \<times> {..<n}"
  have T: "?T \<subseteq> ?S" by auto
  have "(\<Sum>i<n. a i * 2 ^ i) * (\<Sum>j<n. b j * 2 ^ j) = (\<Sum>(i, j) \<in> ?S. ?f i j)"
    by (simp add: sum_product sum.cartesian_product power_add ac_simps)
  also have "\<dots> = (\<Sum>(i, j) \<in> ?S - ?T. ?f i j) + (\<Sum>(i, j) \<in> ?T. ?f i j)"
    using T by (intro sum.subset_diff) auto
  also have "(\<Sum>(i, j) \<in> ?T. ?f i j) = (\<Sum>k<n. \<Sum>i\<le>k. ?f i (k - i))"
    by (rule sum.triangle_reindex)
  also have "\<dots> = (\<Sum>k<n. column a b k * 2 ^ k)"
    by (simp add: column_def sum_distrib_right)
  finally have e: "(\<Sum>i<n. a i * 2 ^ i) * (\<Sum>j<n. b j * 2 ^ j) =
      (\<Sum>(i, j) \<in> ?S - ?T. ?f i j) + (\<Sum>k<n. column a b k * 2 ^ k)" .
  have "2 ^ n dvd ?f i j" if "\<not> i + j < n" for i j
    using that by (intro dvd_mult le_imp_power_dvd) simp
  then have "2 ^ n dvd (\<Sum>(i, j) \<in> ?S - ?T. ?f i j)" by (intro dvd_sum) auto
  then show ?thesis unfolding e by (simp add: mod_add_left_eq [symmetric] dvd_eq_mod_eq_0)
qed

definition hbit :: "interp \<Rightarrow> expr list \<Rightarrow> nat \<Rightarrow> nat" where
  "hbit I bs i = of_bool (holds I (bs ! i))"

lemma bv_hbit: "bv I bs = (\<Sum>i<length bs. hbit I bs i * 2 ^ i)"
  by (simp add: bv_def bval_sum hbit_def)

definition cnt :: "interp \<Rightarrow> expr list \<Rightarrow> nat" where
  "cnt I bs = (\<Sum>b\<leftarrow>bs. of_bool (holds I b))"

lemma cnt_simps [simp]: "cnt I [] = 0" "cnt I (b # bs) = of_bool (holds I b) + cnt I bs"
  by (simp_all add: cnt_def)

context bb_gates
begin

subsection \<open>Array multiplier\<close>

lemma mult_column_spec:
  assumes "length cins = length ts" "bits_ok ts" "bits_ok cins" "boolean out" "interp_ok I"
    "mult_column G ts out cins = (out', couts)"
  shows "length couts = length ts \<and> bits_ok couts \<and> boolean out' \<and>
    of_bool (holds I out') + 2 * cnt I couts = of_bool (holds I out) + cnt I ts + cnt I cins"
  using assms(1-4,6)
proof (induction cins ts arbitrary: out couts rule: list_induct2)
  case (Cons c cins t ts)
  let ?o = "g_xor3 G t out c" and ?c = "g_carry G t out c"
  have w: "boolean t" "boolean c" "boolean out" "bits_ok ts" "bits_ok cins" using Cons.prems by simp_all
  obtain cs where r: "mult_column G ts ?o cins = (out', cs)" "couts = ?c # cs"
    using Cons.prems(4) by (auto simp: mk_full_adder_def split: prod.splits)
  have "of_bool (holds I ?o) + 2 * of_bool (holds I ?c) = of_bool (holds I t) + of_bool (holds I out) + (of_bool (holds I c) :: nat)"
    using w assms(5) by auto
  moreover have "length cs = length ts \<and> bits_ok cs \<and> boolean out' \<and>
      of_bool (holds I out') + 2 * cnt I cs = of_bool (holds I ?o) + cnt I ts + cnt I cins"
    using Cons.IH [OF w(4,5) _ r(1)] w by simp
  moreover have "boolean ?c" using w by simp
  ultimately show ?case by (simp add: r(2))
qed simp

lemma mult_last_column_spec:
  assumes "length cins = length ts" "bits_ok ts" "bits_ok cins" "boolean out" "interp_ok I"
  shows "boolean (mult_last_column G ts out cins) \<and>
    of_bool (holds I (mult_last_column G ts out cins)) = (of_bool (holds I out) + cnt I ts + cnt I cins) mod 2"
  using assms(1-4)
proof (induction cins ts arbitrary: out rule: list_induct2)
  case (Cons c cins t ts)
  let ?o = "g_xor3 G t out c"
  have w: "boolean t" "boolean c" "boolean out" "bits_ok ts" "bits_ok cins" using Cons.prems by simp_all
  have "of_bool (holds I ?o) mod 2 =
      (of_bool (holds I t) + of_bool (holds I out) + of_bool (holds I c)) mod (2::nat)"
    using w assms(5) by auto
  then have "(of_bool (holds I ?o) + cnt I ts + cnt I cins) mod 2 =
      (of_bool (holds I t) + of_bool (holds I out) + of_bool (holds I c) + cnt I ts + cnt I cins) mod 2"
    by (metis mod_add_left_eq)
  then show ?case using Cons.IH [OF w(4,5), of ?o] w by (simp add: ac_simps)
qed simp

lemma mult_product_spec:
  assumes "j \<le> i" "i < length as" "length bs = length as" "bits_ok as" "bits_ok bs" "interp_ok I"
  shows "boolean (mult_product G as bs i j)"
    "of_bool (holds I (mult_product G as bs i j)) = hbit I as j * hbit I bs (i - j)"
proof -
  have "boolean (as ! j)" "boolean (bs ! (i - j))" using assms by (simp_all add: list_all_iff)
  then show "boolean (mult_product G as bs i j)"
    "of_bool (holds I (mult_product G as bs i j)) = hbit I as j * hbit I bs (i - j)"
    using assms(6) by (simp_all add: mult_product_def hbit_def)
qed

lemma column_terms:
  assumes "1 \<le> i" "i < length as" "length bs = length as" "bits_ok as" "bits_ok bs" "interp_ok I"
  shows "bits_ok (map (mult_product G as bs i) [2..<i + 1])"
    "of_bool (holds I (mult_product G as bs i 0)) + of_bool (holds I (mult_product G as bs i 1)) +
      cnt I (map (mult_product G as bs i) [2..<i + 1]) = column (hbit I as) (hbit I bs) i"
proof -
  note P = mult_product_spec [OF _ assms(2-)]
  show "bits_ok (map (mult_product G as bs i) [2..<i + 1])" using P(1) by (auto simp: list_all_iff)
  let ?t = "\<lambda>j. hbit I as j * hbit I bs (i - j)"
  have "cnt I (map (mult_product G as bs i) [2..<i + 1]) = (\<Sum>j\<leftarrow>[2..<i + 1]. ?t j)"
    unfolding cnt_def map_map comp_def by (intro arg_cong [of _ _ sum_list] map_cong refl P(2)) auto
  also have "\<dots> = (\<Sum>j = 2..<i + 1. ?t j)" by (simp add: interv_sum_list_conv_sum_set_nat)
  finally have c: "cnt I (map (mult_product G as bs i) [2..<i + 1]) = (\<Sum>j = 2..<i + 1. ?t j)" .
  have "{..i} = insert 0 (insert 1 {2..<i + 1})" using assms(1) by auto
  then have "column (hbit I as) (hbit I bs) i = ?t 0 + (?t 1 + (\<Sum>j = 2..<i + 1. ?t j))"
    by (simp add: column_def)
  then show "of_bool (holds I (mult_product G as bs i 0)) + of_bool (holds I (mult_product G as bs i 1)) +
      cnt I (map (mult_product G as bs i) [2..<i + 1]) = column (hbit I as) (hbit I bs) i"
    using P(2) [of 0] P(2) [of 1] assms(1) c by simp
qed

lemma mult_columns_spec:
  assumes "1 \<le> i" "i + n = length as" "length bs = length as" "bits_ok as" "bits_ok bs" "interp_ok I"
    "length cins = i - 1" "bits_ok cins"
  shows "length (mult_columns G as bs i n cins) = n \<and> bits_ok (mult_columns G as bs i n cins) \<and>
    bv I (mult_columns G as bs i n cins) =
      ((\<Sum>k<n. column (hbit I as) (hbit I bs) (i + k) * 2 ^ k) + cnt I cins) mod 2 ^ n"
  using assms(1,2,7,8)
proof (induction n arbitrary: i cins)
  case (Suc n)
  let ?C = "column (hbit I as) (hbit I bs)"
  let ?p = "mult_product G as bs i"
  let ?ts = "map ?p [2..<i + 1]"
  have i: "i < length as" using Suc.prems(2) by simp
  note T = column_terms [OF Suc.prems(1) i assms(3-6)]
  note P = mult_product_spec(1) [OF _ i assms(3-6)]
  have p: "boolean (?p 0)" "boolean (?p 1)" using P Suc.prems(1) by simp_all
  have len: "length cins = length ?ts" using Suc.prems(1,3) by (simp del: upt_Suc)
  show ?case
  proof (cases "n = 0")
    case True
    let ?x = "g_xor G (?p 0) (?p 1)"
    have x: "boolean ?x" using p by simp
    have "of_bool (holds I ?x) mod 2 = (of_bool (holds I (?p 0)) + of_bool (holds I (?p 1))) mod (2::nat)"
      using p assms(6) by auto
    then have "(of_bool (holds I ?x) + cnt I ?ts + cnt I cins) mod 2 = (?C i + cnt I cins) mod 2"
      unfolding T(2) [symmetric] by (metis mod_add_left_eq)
    then show ?thesis
      using mult_last_column_spec [OF len T(1) Suc.prems(4) x assms(6)] True by (simp add: Let_def)
  next
    case False
    let ?x = "g_xor G (?p 0) (?p 1)" and ?c = "g_and G [?p 0, ?p 1]"
    obtain out couts where r: "mult_column G ?ts ?x cins = (out, couts)" by fastforce
    have x: "boolean ?x" "boolean ?c" using p by simp_all
    have m: "mult_columns G as bs i (Suc n) cins = out # mult_columns G as bs (i + 1) n (?c # couts)"
      using False r by (simp add: Let_def mk_half_adder_def)
    note M = mult_column_spec [OF len T(1) Suc.prems(4) x(1) assms(6) r]
    have "of_bool (holds I ?x) + 2 * of_bool (holds I ?c) = of_bool (holds I (?p 0)) + (of_bool (holds I (?p 1)) :: nat)"
      using p assms(6) by auto
    then have o: "?C i + cnt I cins = of_bool (holds I out) + 2 * cnt I (?c # couts)"
      using M unfolding T(2) [symmetric] by simp
    have "length couts = i - 1" using M len Suc.prems(3) by simp
    then have IH: "length (mult_columns G as bs (i + 1) n (?c # couts)) = n"
        "bits_ok (mult_columns G as bs (i + 1) n (?c # couts))"
        "bv I (mult_columns G as bs (i + 1) n (?c # couts)) =
          ((\<Sum>k<n. ?C (i + 1 + k) * 2 ^ k) + cnt I (?c # couts)) mod 2 ^ n"
      using Suc.IH [of "i + 1" "?c # couts"] Suc.prems(1,2) M x by simp_all
    have "(\<Sum>k<Suc n. ?C (i + k) * 2 ^ k) + cnt I cins =
        of_bool (holds I out) + 2 * ((\<Sum>k<n. ?C (i + 1 + k) * 2 ^ k) + cnt I (?c # couts))"
      using o by (simp add: sum.lessThan_Suc_shift sum_distrib_left algebra_simps del: sum.lessThan_Suc cnt_simps)
    then have "bv I (mult_columns G as bs i (Suc n) cins) =
        ((\<Sum>k<Suc n. ?C (i + k) * 2 ^ k) + cnt I cins) mod 2 ^ Suc n"
      unfolding m bv_simps IH(3) by (simp only: mod_bit_step)
    then show ?thesis using IH(1,2) M unfolding m by simp
  qed
qed simp

lemma array_multiplier_spec:
  assumes "as \<noteq> []" "length bs = length as" "bits_ok as" "bits_ok bs" "interp_ok I"
  shows "length (array_multiplier G as bs) = length as" "bits_ok (array_multiplier G as bs)"
    "bv I (array_multiplier G as bs) = bv I as * bv I bs mod 2 ^ length as"
proof -
  let ?C = "column (hbit I as) (hbit I bs)"
  let ?h = "g_and G [as ! 0, bs ! 0]" and ?t = "mult_columns G as bs 1 (length as - 1) []"
  have b: "boolean (as ! 0)" "boolean (bs ! 0)" using assms(1-4) by (auto simp: list_all_iff)
  note M = mult_columns_spec [of 1 "length as - 1" as bs I "[]"]
  have l: "Suc (length as - 1) = length as" using assms(1) by (cases as) simp_all
  have "of_bool (holds I ?h) = ?C 0" using b assms(5) by (auto simp: column_def hbit_def)
  then have "of_bool (holds I ?h) + 2 * (\<Sum>k<length as - 1. ?C (1 + k) * 2 ^ k) = (\<Sum>k<Suc (length as - 1). ?C k * 2 ^ k)"
    by (simp add: sum.lessThan_Suc_shift sum_distrib_left algebra_simps del: sum.lessThan_Suc)
  then have "bv I (array_multiplier G as bs) = (\<Sum>k<length as. ?C k * 2 ^ k) mod 2 ^ length as"
    using M mod_bit_step [of "holds I ?h" "\<Sum>k<length as - 1. ?C (1 + k) * 2 ^ k" "length as - 1"] assms l
    by (simp add: array_multiplier_def)
  then show "bv I (array_multiplier G as bs) = bv I as * bv I bs mod 2 ^ length as"
    using product_mod_columns [of "hbit I as" "length as" "hbit I bs"] assms(2) by (simp add: bv_hbit)
  show "length (array_multiplier G as bs) = length as" "bits_ok (array_multiplier G as bs)"
    using M b assms l by (simp_all add: array_multiplier_def)
qed

end

abbreviation pps_ok :: "nat \<Rightarrow> expr list list \<Rightarrow> bool" where
  "pps_ok n pps \<equiv> list_all (\<lambda>pp. length pp = n \<and> bits_ok pp) pps"

context bb_gates
begin

subsection \<open>Wallace tree\<close>

lemma mk_carry_save_adder_spec:
  assumes "length bs = length as" "length cs = length as" "bits_ok as" "bits_ok bs" "bits_ok cs" "interp_ok I"
    "mk_carry_save_adder G as bs cs = (s, c)"
  shows "length s = length as" "length c = length as" "bits_ok s" "bits_ok c"
    "bv I s + 2 * bv I c = bv I as + bv I bs + bv I cs"
proof -
  have "length s = length as \<and> length c = length as \<and> bits_ok s \<and> bits_ok c \<and>
    bv I s + 2 * bv I c = bv I as + bv I bs + bv I cs"
    using assms(1-5,7)
  proof (induction as arbitrary: bs cs s c)
    case (Cons a as)
    obtain b bs' d cs' where bc: "bs = b # bs'" "cs = d # cs'" using Cons.prems(1,2) by (cases bs; cases cs) auto
    obtain s' c' where r: "mk_carry_save_adder G as bs' cs' = (s', c')" by fastforce
    have w: "boolean a" "boolean b" "boolean d" using Cons.prems bc by simp_all
    have sc: "s = g_xor3 G a b d # s'" "c = g_carry G a b d # c'" using Cons.prems(6) r by (simp_all add: bc)
    have "of_bool (holds I (g_xor3 G a b d)) + 2 * of_bool (holds I (g_carry G a b d)) =
      of_bool (holds I a) + of_bool (holds I b) + (of_bool (holds I d) :: nat)" using w assms(6) by auto
    moreover have "length s' = length as \<and> length c' = length as \<and> bits_ok s' \<and> bits_ok c' \<and>
        bv I s' + 2 * bv I c' = bv I as + bv I bs' + bv I cs'"
      using Cons.IH [OF _ _ _ _ _ r] Cons.prems bc by simp
    ultimately show ?case using w by (simp add: sc bc)
  qed simp
  then show "length s = length as" "length c = length as" "bits_ok s" "bits_ok c"
    "bv I s + 2 * bv I c = bv I as + bv I bs + bv I cs" by blast+
qed

lemma wtm_step_spec:
  assumes "pps_ok n [p1, p2, p3]" "interp_ok I"
  shows "pps_ok n (wtm_step G p1 p2 p3)"
    "(\<Sum>pp\<leftarrow>wtm_step G p1 p2 p3. bv I pp) mod 2 ^ n = (bv I p1 + bv I p2 + bv I p3) mod 2 ^ n"
proof -
  obtain s c where r: "mk_carry_save_adder G p1 p2 p3 = (s, c)" by fastforce
  have S: "length s = n" "length c = n" "bits_ok s" "bits_ok c" "bv I s + 2 * bv I c = bv I p1 + bv I p2 + bv I p3"
    using mk_carry_save_adder_spec [OF _ _ _ _ _ assms(2) r] assms(1) by simp_all
  let ?c = "butlast (FalseE # c)"
  have w: "wtm_step G p1 p2 p3 = [s, ?c]" by (simp only: wtm_step_def r prod.case Let_def)
  have "?c = take n (FalseE # c)" using S(2) by (simp add: butlast_conv_take)
  then have c: "length ?c = n" "bits_ok ?c" "bv I ?c = (2 * bv I c) mod 2 ^ n"
    using S(2,4) bits_ok_take [of "FalseE # c" n] bv_take [of I n "FalseE # c"] by simp_all
  show "pps_ok n (wtm_step G p1 p2 p3)" unfolding w using S c by simp
  have "(\<Sum>pp\<leftarrow>wtm_step G p1 p2 p3. bv I pp) = bv I s + bv I ?c" unfolding w by simp
  then show "(\<Sum>pp\<leftarrow>wtm_step G p1 p2 p3. bv I pp) mod 2 ^ n = (bv I p1 + bv I p2 + bv I p3) mod 2 ^ n"
    unfolding c(3) S(5) [symmetric] by (simp add: mod_simps)
qed

lemma wtm_round_spec:
  assumes "interp_ok I" "pps_ok n pps"
  shows "pps_ok n (wtm_round G pps)"
    "(\<Sum>pp\<leftarrow>wtm_round G pps. bv I pp) mod 2 ^ n = (\<Sum>pp\<leftarrow>pps. bv I pp) mod 2 ^ n"
    "2 \<le> length pps \<Longrightarrow> 2 \<le> length (wtm_round G pps)"
proof -
  have "pps_ok n (wtm_round G pps) \<and>
    (\<Sum>pp\<leftarrow>wtm_round G pps. bv I pp) mod 2 ^ n = (\<Sum>pp\<leftarrow>pps. bv I pp) mod 2 ^ n \<and>
    (2 \<le> length pps \<longrightarrow> 2 \<le> length (wtm_round G pps))"
    using assms(2)
  proof (induction "length pps" arbitrary: pps rule: less_induct)
    case less
    show ?case
    proof (cases "3 \<le> length pps")
      case True
      then obtain p1 p2 p3 rest where p: "pps = p1 # p2 # p3 # rest"
        by (auto simp: numeral_3_eq_3 Suc_le_length_iff)
      let ?s = "wtm_step G p1 p2 p3"
      have S: "pps_ok n ?s" "(\<Sum>pp\<leftarrow>?s. bv I pp) mod 2 ^ n = (bv I p1 + bv I p2 + bv I p3) mod 2 ^ n"
        using wtm_step_spec [of n p1 p2 p3 I] less.prems assms(1) by (simp_all add: p)
      have R: "pps_ok n (wtm_round G rest)"
        "(\<Sum>pp\<leftarrow>wtm_round G rest. bv I pp) mod 2 ^ n = (\<Sum>pp\<leftarrow>rest. bv I pp) mod 2 ^ n"
        using less.hyps [of rest] less.prems by (simp_all add: p)
      have "((\<Sum>pp\<leftarrow>?s. bv I pp) + (\<Sum>pp\<leftarrow>wtm_round G rest. bv I pp)) mod 2 ^ n =
          ((bv I p1 + bv I p2 + bv I p3) + (\<Sum>pp\<leftarrow>rest. bv I pp)) mod 2 ^ n"
        by (rule mod_add_cong [OF S(2) R(2)])
      then show ?thesis using S(1) R(1) by (simp add: p add.assoc)
    next
      case False
      then have "wtm_round G pps = pps"
        by (cases pps; cases "tl pps"; cases "tl (tl pps)") auto
      then show ?thesis using less.prems by simp
    qed
  qed
  then show "pps_ok n (wtm_round G pps)"
    "(\<Sum>pp\<leftarrow>wtm_round G pps. bv I pp) mod 2 ^ n = (\<Sum>pp\<leftarrow>pps. bv I pp) mod 2 ^ n"
    "2 \<le> length pps \<Longrightarrow> 2 \<le> length (wtm_round G pps)" by blast+
qed

lemma wtm_loop_spec:
  assumes "interp_ok I" "pps_ok n pps" "2 \<le> length pps"
  shows "length (wtm_loop G pps) = 2" "pps_ok n (wtm_loop G pps)"
    "(\<Sum>pp\<leftarrow>wtm_loop G pps. bv I pp) mod 2 ^ n = (\<Sum>pp\<leftarrow>pps. bv I pp) mod 2 ^ n"
proof -
  have "length (wtm_loop G pps) = 2 \<and> pps_ok n (wtm_loop G pps) \<and>
    (\<Sum>pp\<leftarrow>wtm_loop G pps. bv I pp) mod 2 ^ n = (\<Sum>pp\<leftarrow>pps. bv I pp) mod 2 ^ n"
    using assms(2,3)
  proof (induction "length pps" arbitrary: pps rule: less_induct)
    case less
    show ?case
    proof (cases "length pps \<le> 2")
      case True
      then show ?thesis using less.prems by (simp add: wtm_loop.simps [of G pps])
    next
      case False
      note R = wtm_round_spec [OF assms(1) less.prems(1)]
      have "length (wtm_round G pps) < length pps" using False by (intro length_wtm_round_less) simp
      then show ?thesis
        using less.hyps [OF _ R(1) R(3)] less.prems(2) R(2) False by (simp add: wtm_loop.simps [of G pps])
    qed
  qed
  then show "length (wtm_loop G pps) = 2" "pps_ok n (wtm_loop G pps)"
    "(\<Sum>pp\<leftarrow>wtm_loop G pps. bv I pp) mod 2 ^ n = (\<Sum>pp\<leftarrow>pps. bv I pp) mod 2 ^ n" by blast+
qed

lemma bv_map_and:
  assumes "bits_ok as" "boolean b" "interp_ok I"
  shows "bits_ok (map (\<lambda>a. g_and G [a, b]) as)"
    "bv I (map (\<lambda>a. g_and G [a, b]) as) = bv I as * of_bool (holds I b)"
  using assms by (induction as) auto

lemma partial_product_spec:
  assumes "i < length as" "length bs = length as" "bits_ok as" "bits_ok bs" "interp_ok I"
  shows "length (partial_product G as bs i) = length as" "bits_ok (partial_product G as bs i)"
    "bv I (partial_product G as bs i) = (bv I as * hbit I bs i * 2 ^ i) mod 2 ^ length as"
proof -
  have b: "boolean (bs ! i)" using assms by (simp add: list_all_iff)
  have t: "bits_ok (take (length as - i) as)" using assms(3) by (rule bits_ok_take)
  note M = bv_map_and [OF t b assms(5)]
  show "length (partial_product G as bs i) = length as" "bits_ok (partial_product G as bs i)"
    using assms(1) M(1) by (simp_all add: partial_product_def bits_ok_replicate)
  have "(2::nat) ^ length as = 2 ^ i * 2 ^ (length as - i)"
    using assms(1) by (simp flip: power_add)
  then have "(bv I as * 2 ^ i) mod 2 ^ length as = 2 ^ i * (bv I as mod 2 ^ (length as - i))"
    using mult_mod_right [of "2 ^ i" "bv I as" "2 ^ (length as - i)"] by (simp only: mult.commute [of "bv I as"])
  then show "bv I (partial_product G as bs i) = (bv I as * hbit I bs i * 2 ^ i) mod 2 ^ length as"
    using M(2) assms(1) by (simp add: partial_product_def bv_append bv_take hbit_def)
qed

lemma wallace_multiplier_spec:
  assumes "as \<noteq> []" "length bs = length as" "bits_ok as" "bits_ok bs" "interp_ok I"
  shows "length (wallace_multiplier G as bs) = length as \<and> bits_ok (wallace_multiplier G as bs) \<and>
    bv I (wallace_multiplier G as bs) = bv I as * bv I bs mod 2 ^ length as"
proof (cases "length as = 1")
  case True
  then obtain a b where ab: "as = [a]" "bs = [b]" using assms(2) by (auto simp: length_Suc_conv)
  then show ?thesis using assms by (auto simp: wallace_multiplier_def)
next
  case False
  let ?n = "length as"
  let ?pps = "map (partial_product G as bs) [0..<?n]"
  note P = partial_product_spec [OF _ assms(2-)]
  have ok: "pps_ok ?n ?pps" using P(1,2) by (simp add: list_all_iff)
  have l: "2 \<le> length ?pps" using False assms(1) by (cases as; cases "tl as") auto
  note W = wtm_loop_spec [OF assms(5) ok l]
  obtain p q where pq: "wtm_loop G ?pps = [p, q]"
    using W(1) by (auto simp: numeral_2_eq_2 length_Suc_conv)
  have w: "length p = ?n" "bits_ok p" "length q = ?n" "bits_ok q" using W(2) pq by simp_all
  have "wallace_multiplier G as bs = mk_adder G p q" using False pq by (simp add: wallace_multiplier_def)
  moreover have "bv I (mk_adder G p q) = (bv I p + bv I q) mod 2 ^ ?n"
    using bv_mk_adder [of p q I] w assms(5) by simp
  moreover have "(bv I p + bv I q) mod 2 ^ ?n = (\<Sum>i\<leftarrow>[0..<?n]. bv I (partial_product G as bs i)) mod 2 ^ ?n"
    using W(3) pq by (simp add: comp_def)
  moreover have "(\<Sum>i\<leftarrow>[0..<?n]. bv I (partial_product G as bs i)) =
      (\<Sum>i<?n. (bv I as * hbit I bs i * 2 ^ i) mod 2 ^ ?n)"
    using P(3) by (simp add: interv_sum_list_conv_sum_set_nat atLeast0LessThan)
  moreover have "(\<Sum>i<?n. (bv I as * hbit I bs i * 2 ^ i) mod 2 ^ ?n) mod 2 ^ ?n = bv I as * bv I bs mod 2 ^ ?n"
    unfolding mod_sum_eq bv_hbit [of I bs] assms(2) by (simp add: sum_distrib_left mult.assoc)
  ultimately show ?thesis using w by simp
qed

end

lemma mod_add_mult_eq: "(x + k * (y mod m)) mod m = (x + k * y) mod m" for m :: int
  by (metis mod_add_right_eq mod_mult_right_eq)

context bb_gates
begin

subsection \<open>Booth recoding\<close>

text \<open>Adding \<open>bs\<close> at position \<open>i\<close>.\<close>

lemma add_at_spec:
  fixes out bs i
  defines "r \<equiv> take i out @ mk_adder G (drop i out) (take (length out - i) bs)"
  assumes "i \<le> length out" "length bs = length out" "bits_ok out" "bits_ok bs" "interp_ok I"
  shows "length r = length out" "bits_ok r" "bv I r = (bv I out + 2 ^ i * bv I bs) mod 2 ^ length out"
proof -
  let ?n = "length out"
  have l: "length (take (?n - i) bs) = length (drop i out)" using assms(2,3) by simp
  note A = mk_adder_ok [OF l] bv_mk_adder [OF bits_ok_drop [OF assms(4)] bits_ok_take [OF assms(5)] assms(6) l]
  show "length r = length out" using A(1) assms(2) by (simp add: r_def)
  show "bits_ok r" using A(2) assms(4,5) by (simp add: r_def bits_ok_take bits_ok_drop)
  have e: "(2::nat) ^ ?n = 2 ^ i * 2 ^ (?n - i)" using assms(2) by (simp flip: power_add)
  have t: "bv I out mod 2 ^ i < 2 ^ i" by simp
  have "bv I r = bv I out mod 2 ^ i + 2 ^ i * ((bv I out div 2 ^ i + bv I bs) mod 2 ^ (?n - i))"
    using A(3) assms(2) by (simp add: r_def bv_append bv_take bv_drop mod_simps)
  also have "\<dots> = (bv I out mod 2 ^ i + 2 ^ i * (bv I out div 2 ^ i + bv I bs)) mod (2 ^ i * 2 ^ (?n - i))"
    by (simp add: mod_mult2_eq)
  also have "bv I out mod 2 ^ i + 2 ^ i * (bv I out div 2 ^ i + bv I bs) = bv I out + 2 ^ i * bv I bs"
    by (simp add: algebra_simps)
  finally show "bv I r = (bv I out + 2 ^ i * bv I bs) mod 2 ^ length out" unfolding e .
qed

lemma booth_loop_spec:
  assumes "interp_ok I" "bits_ok bs" "list_all is_bool_const as"
    and "i + length as = length bs" "length out = length bs" "bits_ok out"
    and "int (bv I out) = (int (bv I bs) * (A - of_bool lst * 2 ^ i)) mod 2 ^ length bs"
  shows "length (booth_loop G bs (mk_neg G bs) as i lst out) = length bs \<and>
    bits_ok (booth_loop G bs (mk_neg G bs) as i lst out) \<and>
    int (bv I (booth_loop G bs (mk_neg G bs) as i lst out)) =
      (int (bv I bs) * (A + 2 ^ i * int (bv I as))) mod 2 ^ length bs"
  using assms(3-)
proof (induction as arbitrary: i lst out A)
  case Nil
  have "(int (bv I bs) * (A - of_bool lst * 2 ^ length bs)) mod 2 ^ length bs = (int (bv I bs) * A) mod 2 ^ length bs"
    by (cases lst) (simp_all add: right_diff_distrib mod_diff_right_eq [symmetric])
  then show ?case using Nil by simp
next
  case (Cons a as)
  let ?n = "length bs" and ?B = "int (bv I bs)"
  define now where "now = is_true a"
  define add where "add = (\<lambda>bs. take i out @ mk_adder G (drop i out) (take (length out - i) bs))"
  define out' where "out' = (if now \<and> \<not> lst then add (mk_neg G bs) else if \<not> now \<and> lst then add bs else out)"
  have a: "holds I a = now" using Cons.prems(1) by (auto simp: now_def is_bool_const_def)
  have i: "i \<le> length out" using Cons.prems(2,3) by simp
  have len: "length (mk_neg G bs) = length out" "length bs = length out" using Cons.prems(3) by simp_all
  have N: "length (add (mk_neg G bs)) = length out" "bits_ok (add (mk_neg G bs))"
      "bv I (add (mk_neg G bs)) = (bv I out + 2 ^ i * bv I (mk_neg G bs)) mod 2 ^ length out"
    unfolding add_def by (rule add_at_spec [OF i len(1) Cons.prems(4) mk_neg_ok(2) [OF assms(2)] assms(1)])+
  have P: "length (add bs) = length out" "bits_ok (add bs)"
      "bv I (add bs) = (bv I out + 2 ^ i * bv I bs) mod 2 ^ length out"
    unfolding add_def by (rule add_at_spec [OF i len(2) Cons.prems(4) assms(2) assms(1)])+
  have out': "length out' = ?n" "bits_ok out'" using N(1,2) P(1,2) Cons.prems(3,4) by (auto simp: out'_def)
  have "int (bv I (add (mk_neg G bs))) = (int (bv I out) + 2 ^ i * (- ?B)) mod 2 ^ ?n"
    unfolding N(3) using int_mk_neg [OF assms(2,1)] Cons.prems(3)
      mod_add_mult_eq [of "int (bv I out)" "2 ^ i" "- ?B" "2 ^ ?n"] by (simp add: of_nat_mod)
  moreover have "int (bv I (add bs)) = (int (bv I out) + 2 ^ i * ?B) mod 2 ^ ?n"
    unfolding P(3) using Cons.prems(3) by (simp add: of_nat_mod)
  moreover have "int (bv I out) mod 2 ^ ?n = int (bv I out)"
    using int_mod_self [of I out] Cons.prems(3) by simp
  ultimately have "int (bv I out') = (int (bv I out) + 2 ^ i * ?B * (of_bool lst - of_bool now)) mod 2 ^ ?n"
    by (cases now; cases lst) (simp_all add: out'_def)
  also have "\<dots> = (?B * (A - of_bool lst * 2 ^ i) + 2 ^ i * ?B * (of_bool lst - of_bool now)) mod 2 ^ ?n"
    unfolding Cons.prems(5) by (simp add: mod_simps)
  also have "?B * (A - of_bool lst * 2 ^ i) + 2 ^ i * ?B * (of_bool lst - of_bool now) =
      ?B * ((A + of_bool now * 2 ^ i) - of_bool now * 2 ^ Suc i)"
    by (simp add: algebra_simps)
  finally have v: "int (bv I out') = (?B * ((A + of_bool now * 2 ^ i) - of_bool now * 2 ^ Suc i)) mod 2 ^ ?n" .
  have b: "booth_loop G bs (mk_neg G bs) (a # as) i lst out = booth_loop G bs (mk_neg G bs) as (Suc i) now out'"
    by (simp add: now_def out'_def add_def Let_def)
  have e: "A + of_bool now * 2 ^ i + 2 ^ Suc i * int (bv I as) = A + 2 ^ i * int (bv I (a # as))"
    by (simp add: a algebra_simps)
  show ?case
    using Cons.IH [of "Suc i" out' "A + of_bool now * 2 ^ i" now] Cons.prems(1,2) out' v unfolding b e by simp
qed

lemma mk_const_multiplier_spec:
  assumes "as \<noteq> []" "length bs = length as" "bits_ok as" "bits_ok bs" "interp_ok I"
    "mk_const_multiplier G as bs = Some out"
  shows "length out = length as \<and> bits_ok out \<and> bv I out = bv I as * bv I bs mod 2 ^ length as"
proof -
  obtain n where n: "is_numeral as = Some n" and
    o: "out = booth_loop G bs (mk_neg G bs) as 0 False (replicate (length as) FalseE)"
    using assms(6) by (auto simp: mk_const_multiplier_def mk_const_case_multiplier_def Let_def
        split: option.splits if_splits)
  have "length out = length bs \<and> bits_ok out \<and>
      int (bv I out) = (int (bv I bs) * (0 + 2 ^ 0 * int (bv I as))) mod 2 ^ length bs"
    unfolding o using is_numeral_consts [OF n] assms(2)
    by (intro booth_loop_spec [OF assms(5,4)]) (simp_all add: bits_ok_replicate)
  then have "length out = length as" "bits_ok out" "int (bv I out) = int (bv I as * bv I bs mod 2 ^ length as)"
    using assms(2) by (simp_all add: mult.commute of_nat_mod)
  then show ?thesis by (metis of_nat_eq_iff)
qed

subsection \<open>The multiplier\<close>

lemma mk_neg_mult:
  assumes "is_minus_one b" "length b = length a" "bits_ok a" "interp_ok I"
  shows "bv I (mk_neg G a) = bv I a * bv I b mod 2 ^ length a"
proof -
  have "bv I b + 1 = 2 ^ length a" using is_minus_one_bv [OF assms(1), of I] assms(2) by simp
  then have "int (bv I b) = 2 ^ length a - 1"
    by (metis add_diff_cancel_right' of_nat_1 of_nat_add of_nat_numeral of_nat_power)
  then have "int (bv I a * bv I b mod 2 ^ length a) = (int (bv I a) * (2 ^ length a - 1)) mod 2 ^ length a"
    by (simp add: of_nat_mod)
  also have "\<dots> = (- int (bv I a)) mod 2 ^ length a"
    by (simp add: right_diff_distrib mod_diff_left_eq [symmetric])
  also have "\<dots> = int (bv I (mk_neg G a))" using int_mk_neg [OF assms(3,4)] by simp
  finally show ?thesis by simp
qed

text \<open>All ways to multiply give the product; the last two \<^verbatim>\<open>mk_const_multiplier\<close> calls differ only
  in the order of the factors.\<close>

lemma mk_multiplier_spec:
  assumes "as \<noteq> []" "length bs = length as" "bits_ok as" "bits_ok bs" "interp_ok I"
  shows "length (mk_multiplier G as bs) = length as \<and> bits_ok (mk_multiplier G as bs) \<and>
    bv I (mk_multiplier G as bs) = bv I as * bv I bs mod 2 ^ length as"
proof -
  define p where "p = (if is_numeral as \<noteq> None then (bs, as) else (as, bs))"
  obtain a b where ab: "p = (a, b)" by fastforce
  have w: "a \<noteq> []" "length a = length as" "length b = length as" "bits_ok a" "bits_ok b" "b \<noteq> []"
    and prod: "bv I a * bv I b = bv I as * bv I bs"
    using ab assms by (cases "is_numeral as"; simp add: p_def mult.commute; fastforce)+
  have m: "mk_multiplier G as bs = (if is_minus_one b then mk_neg G a
         else case is_numeral a of
             Some n_a \<Rightarrow> num2bits (n_a * (case is_numeral as of Some n \<Rightarrow> n | None \<Rightarrow> 0)) (length a)
           | None \<Rightarrow> case mk_const_multiplier G a b of Some out \<Rightarrow> out
           | None \<Rightarrow> case mk_const_multiplier G b a of Some out \<Rightarrow> out
           | None \<Rightarrow> if \<not> m_use_wtm G then array_multiplier G a b else wallace_multiplier G a b)"
    unfolding mk_multiplier_def Let_def p_def [symmetric] ab prod.case ..
  let ?ok = "\<lambda>r. length r = length as \<and> bits_ok r \<and> bv I r = bv I as * bv I bs mod 2 ^ length as"
  have neg: "?ok (mk_neg G a)" if "is_minus_one b"
    using mk_neg_mult [OF that _ w(4) assms(5)] w prod by simp
  have num: "?ok (num2bits (n_a * (case is_numeral as of Some n \<Rightarrow> n | None \<Rightarrow> 0)) (length a))"
    if s: "is_numeral a = Some n_a" for n_a
  proof -
    obtain n where n: "is_numeral as = Some n" "a = bs" using s ab by (cases "is_numeral as") (auto simp: p_def)
    then show ?thesis using s is_numeral_Some [of bs n_a I] is_numeral_Some [of as n I] w(2)
      by (simp add: mult.commute)
  qed
  have prod': "bv I b * bv I a = bv I as * bv I bs" using prod by (simp only: mult.commute)
  have c1: "?ok out" if "mk_const_multiplier G a b = Some out" for out
    using mk_const_multiplier_spec [OF w(1) _ w(4,5) assms(5) that] w(2,3) prod by simp
  have c2: "?ok out" if "mk_const_multiplier G b a = Some out" for out
    using mk_const_multiplier_spec [OF w(6) _ w(5,4) assms(5) that] w(2,3) prod' by simp
  have arr: "?ok (array_multiplier G a b)" "?ok (wallace_multiplier G a b)"
    using array_multiplier_spec [OF w(1) _ w(4,5) assms(5)] wallace_multiplier_spec [OF w(1) _ w(4,5) assms(5)] w(2,3) prod
    by simp_all
  show ?thesis
  proof (cases "is_minus_one b")
    case True
    then show ?thesis unfolding m using neg by simp
  next
    case F: False
    show ?thesis
    proof (cases "is_numeral a")
      case (Some n)
      then show ?thesis using num [OF Some] F w(2) unfolding m by simp
    next
      case N: None
      show ?thesis
      proof (cases "mk_const_multiplier G a b")
        case (Some out)
        then show ?thesis using c1 [OF Some] F N unfolding m by simp
      next
        case N1: None
        show ?thesis
        proof (cases "mk_const_multiplier G b a")
          case (Some out)
          then show ?thesis using c2 [OF Some] F N N1 unfolding m by simp
        next
          case None
          have "mk_multiplier G as bs \<in> {array_multiplier G a b, wallace_multiplier G a b}"
            unfolding m using F N N1 None by simp
          then show ?thesis using arr by (elim insertE emptyE) simp_all
        qed
      qed
    qed
  qed
qed

subsection \<open>Overflow of unsigned multiplication\<close>

lemma umul_ovf_loop_spec:
  assumes "\<forall>(a, b) \<in> set ps. boolean a \<and> boolean b" "boolean ovf" "boolean v" "interp_ok I"
  shows "boolean (umul_ovf_loop G ps ovf v) \<and> (holds I (umul_ovf_loop G ps ovf v) \<longleftrightarrow>
    holds I v \<or> (\<exists>i < length ps. holds I (snd (ps ! i)) \<and> (holds I ovf \<or> (\<exists>k < Suc i. holds I (fst (ps ! k))))))"
  using assms(1-3)
proof (induction ps arbitrary: ovf v)
  case (Cons p ps)
  obtain a b where p: "p = (a, b)" by fastforce
  let ?o = "g_or G [ovf, a]" and ?v = "g_or G [g_and G [g_or G [ovf, a], b], v]"
  have w: "boolean a" "boolean b" "boolean ovf" "boolean v" using Cons.prems by (auto simp: p)
  have o: "boolean ?o" "boolean ?v" "holds I ?o \<longleftrightarrow> holds I ovf \<or> holds I a"
      "holds I ?v \<longleftrightarrow> holds I v \<or> holds I b \<and> (holds I ovf \<or> holds I a)"
    using w assms(4) by auto
  have ex: "(\<exists>i < length (p # ps). holds I (snd ((p # ps) ! i)) \<and> (holds I ovf \<or> (\<exists>k < Suc i. holds I (fst ((p # ps) ! k))))) \<longleftrightarrow>
    holds I b \<and> (holds I ovf \<or> holds I a) \<or>
    (\<exists>i < length ps. holds I (snd (ps ! i)) \<and> (holds I ?o \<or> (\<exists>k < Suc i. holds I (fst (ps ! k)))))"
    unfolding o(3) by (simp only: p length_Cons Ex_less_Suc2 nth_Cons_0 nth_Cons_Suc fst_conv snd_conv not_less_zero simp_thms) blast
  show ?case using Cons.IH [of ?o ?v] Cons.prems(1) o unfolding ex by (simp add: p Let_def)
qed simp

end

text \<open>Two numbers without a pair of bits of weight \<open>2 ^ n\<close> or more multiply to less than
  \<open>2 ^ (n + 1)\<close>.\<close>

lemma high_pairs_iff:
  "(\<exists>i < n - 1. B ! Suc i \<and> (\<exists>k \<le> i. A ! (n - 1 - k))) \<longleftrightarrow>
   (\<exists>p q. p < n \<and> q < n \<and> A ! p \<and> B ! q \<and> n \<le> p + q)" for n :: nat
proof
  assume "\<exists>p q. p < n \<and> q < n \<and> A ! p \<and> B ! q \<and> n \<le> p + q"
  then obtain p q where "p < n" "q < n" "A ! p" "B ! q" "n \<le> p + q" by blast
  then have "q - 1 < n - 1 \<and> B ! Suc (q - 1) \<and> n - 1 - p \<le> q - 1 \<and> A ! (n - 1 - (n - 1 - p))" by auto
  then show "\<exists>i < n - 1. B ! Suc i \<and> (\<exists>k \<le> i. A ! (n - 1 - k))" by blast
next
  assume "\<exists>i < n - 1. B ! Suc i \<and> (\<exists>k \<le> i. A ! (n - 1 - k))"
  then obtain i k where "i < n - 1" "B ! Suc i" "k \<le> i" "A ! (n - 1 - k)" by blast
  then have "n - 1 - k < n \<and> Suc i < n \<and> A ! (n - 1 - k) \<and> B ! Suc i \<and> n \<le> n - 1 - k + Suc i" by linarith
  then show "\<exists>p q. p < n \<and> q < n \<and> A ! p \<and> B ! q \<and> n \<le> p + q" by blast
qed

lemma ex_bounded_cong:
  fixes m :: nat
  assumes "\<And>i. i < m \<Longrightarrow> P i = P' i" "\<And>i. i < m \<Longrightarrow> Q i = Q' i"
  shows "(\<exists>i < m. P i \<and> (\<exists>k < Suc i. Q k)) \<longleftrightarrow> (\<exists>i < m. P' i \<and> (\<exists>k \<le> i. Q' k))"
proof -
  show ?thesis using assms by (intro ex_cong1 conj_cong refl) (simp_all add: less_Suc_eq_le)
qed

lemma in_set_tlD: "x \<in> set (tl xs) \<Longrightarrow> x \<in> set xs"
  by (cases xs) auto

lemma high_bits_mult:
  assumes "p < length A" "q < length B" "A ! p" "B ! q" "n \<le> p + q"
  shows "2 ^ n \<le> bval A * bval B"
proof -
  have "2 ^ p \<le> bval A" "2 ^ q \<le> bval B"
    using assms nth_bval [of p A] nth_bval [of q B] by (metis div_less even_zero not_le)+
  then have "2 ^ p * 2 ^ q \<le> bval A * bval B" by (rule mult_le_mono)
  moreover have "(2::nat) ^ n \<le> 2 ^ p * 2 ^ q" using assms(5) by (simp flip: power_add)
  ultimately show ?thesis by linarith
qed

lemma top_bit:
  assumes "bval A \<noteq> 0"
  shows "\<exists>p < length A. A ! p \<and> bval A < 2 ^ Suc p"
  using assms
proof (induction A rule: rev_induct)
  case (snoc x A)
  show ?case
  proof (cases x)
    case True
    then show ?thesis using bval_less [of "A @ [x]"] by (intro exI [of _ "length A"]) simp
  next
    case False
    then obtain p where "p < length A" "A ! p" "bval A < 2 ^ Suc p" using snoc by (auto simp: bval_append)
    then show ?thesis using False by (intro exI [of _ p]) (simp add: nth_append bval_append)
  qed
qed simp

lemma low_bits_mult:
  assumes "\<And>p q. p < length A \<Longrightarrow> q < length B \<Longrightarrow> A ! p \<Longrightarrow> B ! q \<Longrightarrow> p + q < n"
  shows "bval A * bval B < 2 ^ Suc n"
proof (cases "bval A = 0 \<or> bval B = 0")
  case False
  then obtain p q where pq: "p < length A" "A ! p" "bval A < 2 ^ Suc p" "q < length B" "B ! q" "bval B < 2 ^ Suc q"
    using top_bit [of A] top_bit [of B] by auto
  then have "bval A * bval B < 2 ^ Suc p * 2 ^ Suc q" by (intro mult_strict_mono) auto
  also have "\<dots> = 2 ^ Suc (Suc (p + q))" by (simp add: power_add)
  also have "\<dots> \<le> (2::nat) ^ Suc n" using assms [OF pq(1,4,2,5)] by (intro power_increasing) simp_all
  finally show ?thesis .
qed auto

context bb_gates
begin

lemma mk_umul_no_overflow_spec:
  assumes "as \<noteq> []" "length bs = length as" "bits_ok as" "bits_ok bs" "interp_ok I"
  shows "boolean (mk_umul_no_overflow G as bs)"
    "holds I (mk_umul_no_overflow G as bs) \<longleftrightarrow> bv I as * bv I bs < 2 ^ length as"
proof -
  let ?n = "length as" and ?A = "map (holds I) as" and ?B = "map (holds I) bs"
  let ?m = "mk_multiplier G (as @ [FalseE]) (bs @ [FalseE])"
  let ?ps = "zip (rev (tl as)) (tl bs)"
  let ?v = "umul_ovf_loop G ?ps FalseE FalseE"
  have M: "length ?m = Suc ?n" "bits_ok ?m" "bv I ?m = bv I as * bv I bs mod 2 ^ Suc ?n"
    using mk_multiplier_spec [of "as @ [FalseE]" "bs @ [FalseE]" I] assms by (simp_all add: bv_append)
  have o1: "boolean (?m ! ?n)" using M(1,2) by (simp add: list_all_iff)
  have h1: "holds I (?m ! ?n) \<longleftrightarrow> odd (bv I as * bv I bs mod 2 ^ Suc ?n div 2 ^ ?n)"
    using nth_bval [of ?n "map (holds I) ?m"] M(1,3) by (simp add: bv_def)
  have "\<forall>(a, b) \<in> set ?ps. boolean a \<and> boolean b"
    using assms(3,4) set_zip_leftD [of _ _ "rev (tl as)" "tl bs"] set_zip_rightD [of _ _ "rev (tl as)" "tl bs"]
      in_set_tlD [of _ as] in_set_tlD [of _ bs] unfolding list_all_iff by fastforce
  note V = umul_ovf_loop_spec [OF this boolean_FalseE boolean_FalseE assms(5)]
  have "holds I ?v \<longleftrightarrow> (\<exists>i < ?n - 1. ?B ! Suc i \<and> (\<exists>k \<le> i. ?A ! (?n - 1 - k)))"
  proof -
    have "?ps ! i = (as ! (?n - 1 - i), bs ! Suc i)" if "i < ?n - 1" for i
      using that assms(1,2) by (simp add: rev_nth nth_tl Suc_diff_Suc)
    then have E: "holds I (snd (?ps ! i)) = ?B ! Suc i" "holds I (fst (?ps ! i)) = ?A ! (?n - 1 - i)" if "i < ?n - 1" for i
      using that assms(1,2) by simp_all
    have "length ?ps = ?n - 1" using assms(1,2) by simp
    then have "holds I ?v \<longleftrightarrow> (\<exists>i < ?n - 1. holds I (snd (?ps ! i)) \<and> (\<exists>k < Suc i. holds I (fst (?ps ! k))))"
      using V by simp
    also have "\<dots> \<longleftrightarrow> (\<exists>i < ?n - 1. ?B ! Suc i \<and> (\<exists>k \<le> i. ?A ! (?n - 1 - k)))"
      by (intro ex_bounded_cong E) simp_all
    finally show ?thesis .
  qed
  also have "\<dots> \<longleftrightarrow> (\<exists>p q. p < ?n \<and> q < ?n \<and> ?A ! p \<and> ?B ! q \<and> ?n \<le> p + q)"
    by (rule high_pairs_iff)
  finally have v: "holds I ?v \<longleftrightarrow> (\<exists>p q. p < ?n \<and> q < ?n \<and> ?A ! p \<and> ?B ! q \<and> ?n \<le> p + q)" .
  have u: "mk_umul_no_overflow G as bs = g_not G (g_or G [?m ! ?n, ?v])"
    by (simp add: mk_umul_no_overflow_def Let_def)
  show "boolean (mk_umul_no_overflow G as bs)" unfolding u using o1 V by simp
  have H: "holds I (mk_umul_no_overflow G as bs) \<longleftrightarrow> \<not> holds I (?m ! ?n) \<and> \<not> holds I ?v"
    unfolding u using o1 V assms(5) by simp
  show "holds I (mk_umul_no_overflow G as bs) \<longleftrightarrow> bv I as * bv I bs < 2 ^ length as"
  proof (cases "holds I ?v")
    case True
    then have "2 ^ ?n \<le> bv I as * bv I bs"
      unfolding v bv_def using high_bits_mult [of _ ?A _ ?B ?n] assms(2) by auto
    then show ?thesis using H True by simp
  next
    case False
    then have l: "bv I as * bv I bs < 2 ^ Suc ?n"
      unfolding v bv_def using low_bits_mult [of ?A ?B ?n] assms(2) by (auto simp: not_le)
    let ?x = "bv I as * bv I bs"
    have x: "?x div 2 ^ ?n = of_bool (2 ^ ?n \<le> ?x)"
    proof (cases "2 ^ ?n \<le> ?x")
      case True
      then show ?thesis using l by (simp add: le_div_geq)
    qed simp
    have "holds I (?m ! ?n) \<longleftrightarrow> 2 ^ ?n \<le> ?x" unfolding h1 using l x by simp
    then show ?thesis using H False by auto
  qed
qed

end

subsection \<open>Overflow of signed multiplication\<close>

text \<open>The bits that differ from the sign bit give the magnitude, off by one for negative numbers.\<close>

definition magn :: "bool list \<Rightarrow> bool list" where
  "magn X = map (\<lambda>b. b \<noteq> last X) (butlast X)"

lemma magn_nth: "i < length X - 1 \<Longrightarrow> magn X ! i = (X ! i \<noteq> last X)"
  by (simp add: magn_def nth_butlast)

lemma bval_magn:
  assumes "X \<noteq> []"
  shows "int (bval (magn X)) = (if sval X < 0 then - sval X - 1 else sval X)"
proof -
  let ?Y = "butlast X"
  have "sval X = sval (?Y @ [last X])" using assms by simp
  then have v: "sval X = int (bval ?Y) - (if last X then 2 ^ length ?Y else 0)"
    by (auto simp: sval_def bval_append)
  have b: "int (bval ?Y) < 2 ^ length ?Y"
    using bval_less [of ?Y] by (metis of_nat_less_iff of_nat_numeral of_nat_power)
  show ?thesis
  proof (cases "last X")
    case True
    have "bval (map Not ?Y) + bval ?Y + 1 = 2 ^ length ?Y" by (rule bval_map_Not)
    then have "int (bval (map Not ?Y)) + int (bval ?Y) + 1 = 2 ^ length ?Y"
      by (metis of_nat_1 of_nat_add of_nat_numeral of_nat_power)
    moreover have "magn X = map Not ?Y" using True by (simp add: magn_def)
    ultimately show ?thesis using v b True by simp
  next
    case False
    then have "magn X = ?Y" by (simp add: magn_def)
    then show ?thesis using v b False by simp
  qed
qed

lemma high_magn:
  assumes "X \<noteq> []" "Y \<noteq> []" "p < length (magn X)" "q < length (magn Y)" "magn X ! p" "magn Y ! q" "n \<le> p + q"
  shows "2 ^ n \<le> sval X * sval Y \<or> sval X * sval Y < - (2 ^ n)"
proof -
  let ?a = "int (bval (magn X))" and ?b = "int (bval (magn Y))"
  have "(2::nat) ^ n \<le> bval (magn X) * bval (magn Y)" by (rule high_bits_mult [OF assms(3-7)])
  then have le: "2 ^ n \<le> ?a * ?b" by (metis of_nat_le_iff of_nat_mult of_nat_numeral of_nat_power)
  moreover have "(0::int) < 2 ^ n" by simp
  ultimately have "0 < ?a * ?b" by linarith
  then have pos: "0 < ?a" "0 < ?b" by (simp_all add: zero_less_mult_iff)
  have x: "?a = (if sval X < 0 then - sval X - 1 else sval X)" "?b = (if sval Y < 0 then - sval Y - 1 else sval Y)"
    using bval_magn assms(1,2) by blast+
  consider (pp) "sval X = ?a" "sval Y = ?b" | (pn) "sval X = ?a" "sval Y = - ?b - 1"
    | (np) "sval X = - ?a - 1" "sval Y = ?b" | (nn) "sval X = - ?a - 1" "sval Y = - ?b - 1"
    using x by (auto split: if_splits)
  then show ?thesis
  proof cases
    case pp
    then show ?thesis using le by simp
  next
    case pn
    have "sval X * sval Y = - (?a * ?b) - ?a" by (simp only: pn) (simp add: algebra_simps)
    then show ?thesis using le pos by linarith
  next
    case np
    have "sval X * sval Y = - (?a * ?b) - ?b" by (simp only: np) (simp add: algebra_simps)
    then show ?thesis using le pos by linarith
  next
    case nn
    have "sval X * sval Y = ?a * ?b + ?a + ?b + 1" by (simp only: nn) (simp add: algebra_simps)
    then show ?thesis using le pos by linarith
  qed
qed

lemma low_magn:
  assumes "X \<noteq> []" "length Y = length X"
    "\<And>p q. p < length (magn X) \<Longrightarrow> q < length (magn Y) \<Longrightarrow> magn X ! p \<Longrightarrow> magn Y ! q \<Longrightarrow> p + q < length X - 1"
  shows "\<bar>sval X * sval Y\<bar> \<le> 2 ^ length X"
proof -
  let ?n = "length X"
  have Y: "Y \<noteq> []" using assms(1,2) by auto
  have half: "(2::int) ^ (?n - 1) \<le> 2 ^ ?n" by (intro power_increasing) simp_all
  have small: "\<bar>sval X\<bar> \<le> 2 ^ (?n - 1)" "\<bar>sval Y\<bar> \<le> 2 ^ (?n - 1)"
    using sval_bounds [OF assms(1)] sval_bounds [OF Y] assms(2) by auto
  have a: "\<bar>sval X\<bar> \<le> int (bval (magn X)) + 1" "\<bar>sval Y\<bar> \<le> int (bval (magn Y)) + 1"
    using bval_magn [OF assms(1)] bval_magn [OF Y] by auto
  show ?thesis
  proof (cases "bval (magn X) = 0 \<or> bval (magn Y) = 0")
    case True
    then have "\<bar>sval X\<bar> * \<bar>sval Y\<bar> \<le> 2 ^ (?n - 1)"
      using a small mult_mono [of "\<bar>sval X\<bar>" 1 "\<bar>sval Y\<bar>" "2 ^ (?n - 1)"]
        mult_mono [of "\<bar>sval X\<bar>" "2 ^ (?n - 1)" "\<bar>sval Y\<bar>" 1] by auto
    then show ?thesis using half unfolding abs_mult by linarith
  next
    case False
    then obtain p q where pq: "p < length (magn X)" "magn X ! p" "bval (magn X) < 2 ^ Suc p"
        "q < length (magn Y)" "magn Y ! q" "bval (magn Y) < 2 ^ Suc q"
      using top_bit by metis
    then have "int (bval (magn X)) + 1 \<le> 2 ^ Suc p" "int (bval (magn Y)) + 1 \<le> 2 ^ Suc q"
      by (metis Suc_eq_plus1 Suc_leI of_nat_1 of_nat_add of_nat_le_iff of_nat_numeral of_nat_power)+
    then have "\<bar>sval X\<bar> * \<bar>sval Y\<bar> \<le> 2 ^ Suc p * 2 ^ Suc q" using a by (intro mult_mono) auto
    also have "\<dots> = 2 ^ Suc (Suc (p + q))" by (simp add: power_add)
    also have "\<dots> \<le> (2::int) ^ ?n" using assms(3) [OF pq(1,4,2,5)] by (intro power_increasing) simp_all
    finally show ?thesis by (simp add: abs_mult)
  qed
qed

text \<open>The two top bits of a product that fits, or just does not fit, into \<open>n + 1\<close> bits.\<close>

lemma top_two_bits:
  fixes z :: int
  assumes "\<bar>z\<bar> \<le> 2 * h" "0 < h" "w = z mod (4 * h)"
  shows "((2 * h \<le> w) \<noteq> odd (w div h)) \<longleftrightarrow> h \<le> z \<or> z < - h"
proof (cases "0 \<le> z")
  case True
  then have w: "w = z" using assms by simp
  consider "z < h" | "h \<le> z" "z < 2 * h" | "z = 2 * h" using assms(1) True by linarith
  then show ?thesis
  proof cases
    case 1
    then have "z div h = 0" using True by simp
    then show ?thesis using 1 w True assms(2) by auto
  next
    case 2
    then have "z div h = 1" by (intro int_div_pos_eq [of _ _ _ "z - h"]) auto
    then show ?thesis using 2 w by auto
  next
    case 3
    then show ?thesis using w assms(2) by auto
  qed
next
  case False
  have "z mod (4 * h) = (z + 4 * h) mod (4 * h)" by simp
  also have "\<dots> = z + 4 * h" using assms(1,2) False by (intro mod_pos_pos_trivial) auto
  finally have w: "w = z + 4 * h" using assms(3) by simp
  consider "- h \<le> z" | "z < - h" "- 2 * h \<le> z" using assms(1) False by linarith
  then show ?thesis
  proof cases
    case 1
    then have "w div h = 3" using False w assms(2) by (intro int_div_pos_eq [of _ _ _ "z + h"]) auto
    then have "odd (w div h)" by simp
    then show ?thesis using 1 w False assms(2) by auto
  next
    case 2
    then have "w div h = 2" using w assms(2) by (intro int_div_pos_eq [of _ _ _ "z + 2 * h"]) auto
    then have "even (w div h)" by simp
    then show ?thesis using 2 w assms(2) by auto
  qed
qed


context bb_gates
begin

lemma smul_ovf_loop_spec:
  assumes "\<forall>(a, b) \<in> set ps. boolean a \<and> boolean b" "boolean am" "boolean bm" "boolean acc" "boolean v" "interp_ok I"
  shows "boolean (smul_ovf_loop G am bm ps acc v) \<and> (holds I (smul_ovf_loop G am bm ps acc v) \<longleftrightarrow>
    holds I v \<or> (\<exists>i < length ps. (holds I (snd (ps ! i)) \<noteq> holds I bm) \<and>
      (holds I acc \<or> (\<exists>k < Suc i. holds I (fst (ps ! k)) \<noteq> holds I am))))"
  using assms(1,4,5)
proof (induction ps arbitrary: acc v)
  case (Cons p ps)
  obtain a b where p: "p = (a, b)" by fastforce
  let ?o = "g_or G [g_xor G am a, acc]"
  let ?v = "g_or G [g_and G [g_or G [g_xor G am a, acc], g_xor G bm b], v]"
  have w: "boolean a" "boolean b" "boolean acc" "boolean v" using Cons.prems by (auto simp: p)
  have o: "boolean ?o" "boolean ?v" "holds I ?o \<longleftrightarrow> holds I acc \<or> holds I a \<noteq> holds I am"
      "holds I ?v \<longleftrightarrow> holds I v \<or> (holds I b \<noteq> holds I bm) \<and> (holds I acc \<or> holds I a \<noteq> holds I am)"
    using w assms by auto
  have ex: "(\<exists>i < length (p # ps). (holds I (snd ((p # ps) ! i)) \<noteq> holds I bm) \<and>
      (holds I acc \<or> (\<exists>k < Suc i. holds I (fst ((p # ps) ! k)) \<noteq> holds I am))) \<longleftrightarrow>
    (holds I b \<noteq> holds I bm) \<and> (holds I acc \<or> holds I a \<noteq> holds I am) \<or>
    (\<exists>i < length ps. (holds I (snd (ps ! i)) \<noteq> holds I bm) \<and>
      (holds I ?o \<or> (\<exists>k < Suc i. holds I (fst (ps ! k)) \<noteq> holds I am)))"
    unfolding o(3) by (simp only: p length_Cons Ex_less_Suc2 nth_Cons_0 nth_Cons_Suc fst_conv snd_conv not_less_zero simp_thms) blast
  show ?case using Cons.IH [of ?o ?v] Cons.prems(1) o unfolding ex by (simp add: p Let_def)
qed simp

lemma smul_overflow2_spec:
  assumes "as \<noteq> []" "length bs = length as" "bits_ok as" "bits_ok bs" "interp_ok I"
  defines "n \<equiv> length as"
  defines "v \<equiv> smul_ovf_loop G (as ! (n - 1)) (bs ! (n - 1)) (map (\<lambda>i. (as ! (n - 1 - i), bs ! i)) [1..<n - 1]) FalseE FalseE"
  shows "boolean v" "holds I v \<longleftrightarrow> (\<exists>p q. p < n - 1 \<and> q < n - 1 \<and>
    magn (map (holds I) as) ! p \<and> magn (map (holds I) bs) ! q \<and> n - 1 \<le> p + q)"
proof -
  let ?A = "magn (map (holds I) as)" and ?B = "magn (map (holds I) bs)"
  let ?ps = "map (\<lambda>i. (as ! (n - 1 - i), bs ! i)) [1..<n - 1]"
  have n: "0 < n" using assms(1) by (simp add: n_def)
  have ok: "boolean (as ! i)" "boolean (bs ! i)" if "i < n" for i
    using that assms(2-4) by (simp_all add: list_all_length n_def)
  have "\<forall>(a, b) \<in> set ?ps. boolean a \<and> boolean b" using ok by auto
  note V = smul_ovf_loop_spec [OF this ok(1) ok(2) boolean_FalseE boolean_FalseE assms(5), of "n - 1" "n - 1", folded v_def]
  show "boolean v" using V n by simp
  have l: "holds I (as ! (n - 1)) = last (map (holds I) as)" "holds I (bs ! (n - 1)) = last (map (holds I) bs)"
    using assms(1,2) last_conv_nth [of as] last_conv_nth [of bs] last_map [of as] last_map [of bs] by (fastforce simp: n_def)+
  have E: "(holds I (snd (?ps ! i)) \<noteq> holds I (bs ! (n - 1))) = ?B ! Suc i"
      "(holds I (fst (?ps ! i)) \<noteq> holds I (as ! (n - 1))) = ?A ! (n - 1 - 1 - i)" if "i < n - 1 - 1" for i
  proof -
    have "Suc i < length (map (holds I) bs) - 1" "n - 1 - 1 - i < length (map (holds I) as) - 1"
      using that assms(2) by (simp_all add: n_def)
    then show "(holds I (snd (?ps ! i)) \<noteq> holds I (bs ! (n - 1))) = ?B ! Suc i"
        "(holds I (fst (?ps ! i)) \<noteq> holds I (as ! (n - 1))) = ?A ! (n - 1 - 1 - i)"
      unfolding l using that assms(2) by (simp_all add: magn_nth n_def)
  qed
  have "holds I v \<longleftrightarrow> (\<exists>i < n - 1 - 1. (holds I (snd (?ps ! i)) \<noteq> holds I (bs ! (n - 1))) \<and>
      (\<exists>k < Suc i. holds I (fst (?ps ! k)) \<noteq> holds I (as ! (n - 1))))"
    using V n by simp
  also have "\<dots> \<longleftrightarrow> (\<exists>i < n - 1 - 1. ?B ! Suc i \<and> (\<exists>k \<le> i. ?A ! (n - 1 - 1 - k)))"
    by (intro ex_bounded_cong E)
  finally show "holds I v \<longleftrightarrow> (\<exists>p q. p < n - 1 \<and> q < n - 1 \<and> ?A ! p \<and> ?B ! q \<and> n - 1 \<le> p + q)"
    unfolding high_pairs_iff .
qed


lemma smul_overflow_spec:
  fixes I :: interp
  assumes "as \<noteq> []" "length bs = length as" "bits_ok as" "bits_ok bs" "interp_ok I"
  defines "n \<equiv> length as" and "z \<equiv> sv I as * sv I bs"
  defines "m \<equiv> mk_multiplier G (as @ [as ! (n - 1)]) (bs @ [bs ! (n - 1)])"
  defines "v \<equiv> smul_ovf_loop G (as ! (n - 1)) (bs ! (n - 1)) (map (\<lambda>i. (as ! (n - 1 - i), bs ! i)) [1..<n - 1]) FalseE FalseE"
  shows "length m = Suc n" "bits_ok m"
    "holds I (m ! n) \<noteq> holds I (m ! (n - 1)) \<or> holds I v \<longleftrightarrow> 2 ^ (n - 1) \<le> z \<or> z < - (2 ^ (n - 1))"
proof -
  let ?A = "map (holds I) as" and ?B = "map (holds I) bs" and ?h = "(2::int) ^ (n - 1)"
  have ne: "bs \<noteq> []" "?A \<noteq> []" "?B \<noteq> []" using assms(1,2) by auto
  have l: "as ! (n - 1) = last as" "bs ! (n - 1) = last bs"
    using assms(1,2) ne(1) by (simp_all add: n_def last_conv_nth)
  have ok: "boolean (last as)" "boolean (last bs)" using assms(1,3,4) ne(1) by (auto simp: list_all_iff)
  have M: "length m = Suc n" "bits_ok m" "bv I m = bv I (as @ [last as]) * bv I (bs @ [last bs]) mod 2 ^ Suc n"
    using mk_multiplier_spec [of "as @ [last as]" "bs @ [last bs]" I] assms(2-5) ok unfolding m_def l by (simp_all add: n_def)
  show "length m = Suc n" "bits_ok m" by (fact M)+
  have s: "sv I (as @ [last as]) = sv I as" "sv I (bs @ [last bs]) = sv I bs"
    using sval_append_last [OF ne(2), of 1] sval_append_last [OF ne(3), of 1] assms(1) ne(1) by (simp_all add: sv_def last_map)
  have "int (bv I m) = int (bv I (as @ [last as])) * int (bv I (bs @ [last bs])) mod 2 ^ Suc n"
    unfolding M(3) by (simp only: zmod_int of_nat_mult of_nat_power of_nat_numeral)
  also have "\<dots> = (sv I as mod 2 ^ Suc n) * (sv I bs mod 2 ^ Suc n) mod 2 ^ Suc n"
    using sv_mod [of I "as @ [last as]"] sv_mod [of I "bs @ [last bs]"] unfolding s by (simp only: length_append n_def assms(2)) simp
  also have "\<dots> = z mod (4 * ?h)"
    unfolding z_def mod_mult_eq using assms(1) by (cases n) (simp_all add: n_def)
  finally have w: "int (bv I m) = z mod (4 * ?h)" .
  have b: "holds I (m ! n) \<longleftrightarrow> 2 * ?h \<le> int (bv I m)" "holds I (m ! (n - 1)) \<longleftrightarrow> odd (int (bv I m) div ?h)"
  proof -
    have "m \<noteq> []" using M(1) by auto
    then have "last m = m ! n" "m \<noteq> []" using M(1) by (simp_all add: last_conv_nth)
    then have "holds I (m ! n) \<longleftrightarrow> 2 ^ n \<le> bv I m" using bv_last [of m I] M(1) by simp
    also have "\<dots> \<longleftrightarrow> int (2 ^ n) \<le> int (bv I m)" by (simp only: of_nat_le_iff)
    also have "int (2 ^ n) = 2 * ?h" using assms(1) by (cases n) (simp_all add: n_def)
    finally show "holds I (m ! n) \<longleftrightarrow> 2 * ?h \<le> int (bv I m)" .
    have "holds I (m ! (n - 1)) \<longleftrightarrow> odd (bv I m div 2 ^ (n - 1))"
      using nth_bval [of "n - 1" "map (holds I) m"] M(1) by (simp add: bv_def)
    also have "\<dots> \<longleftrightarrow> odd (int (bv I m div 2 ^ (n - 1)))" by (simp only: even_of_nat)
    finally show "holds I (m ! (n - 1)) \<longleftrightarrow> odd (int (bv I m) div ?h)" by (simp only: zdiv_int of_nat_power of_nat_numeral)
  qed
  note v = smul_overflow2_spec(2) [OF assms(1-5), folded n_def, folded v_def]
  have len: "length (magn ?A) = n - 1" "length (magn ?B) = n - 1" using assms(2) by (simp_all add: magn_def n_def)
  show "holds I (m ! n) \<noteq> holds I (m ! (n - 1)) \<or> holds I v \<longleftrightarrow> 2 ^ (n - 1) \<le> z \<or> z < - (2 ^ (n - 1))"
  proof (cases "holds I v")
    case True
    then obtain p q where "p < n - 1" "q < n - 1" "magn ?A ! p" "magn ?B ! q" "n - 1 \<le> p + q" unfolding v by blast
    then show ?thesis using high_magn [OF ne(2,3), of p q "n - 1"] True by (simp add: len z_def sv_def)
  next
    case False
    then have "\<bar>sval ?A * sval ?B\<bar> \<le> 2 ^ length ?A"
      using assms(2) v by (intro low_magn [OF ne(2)]) (auto simp: len n_def not_le)
    then have "\<bar>z\<bar> \<le> 2 * ?h" using assms(1) by (cases n) (simp_all add: z_def sv_def n_def)
    from top_two_bits [OF this _ w] show ?thesis using False unfolding b by simp
  qed
qed

lemma mk_smul_no_overflow_core_spec:
  assumes "as \<noteq> []" "length bs = length as" "bits_ok as" "bits_ok bs" "interp_ok I"
  shows "boolean (mk_smul_no_overflow G as bs)" "boolean (mk_smul_no_underflow G as bs)"
    "holds I (mk_smul_no_overflow G as bs) \<longleftrightarrow> sv I as * sv I bs < 2 ^ (length as - 1)"
    "holds I (mk_smul_no_underflow G as bs) \<longleftrightarrow> - (2 ^ (length as - 1)) \<le> sv I as * sv I bs"
proof -
  let ?n = "length as" and ?z = "sv I as * sv I bs"
  let ?a = "as ! (?n - 1)" and ?b = "bs ! (?n - 1)"
  let ?m = "mk_multiplier G (as @ [?a]) (bs @ [?b])"
  let ?v = "smul_ovf_loop G ?a ?b (map (\<lambda>i. (as ! (?n - 1 - i), bs ! i)) [1..<?n - 1]) FalseE FalseE"
  note S = smul_overflow_spec [OF assms] and V = smul_overflow2_spec(1) [OF assms]
  have ne: "bs \<noteq> []" using assms(1,2) by auto
  have ok: "boolean ?a" "boolean ?b" "boolean (?m ! ?n)" "boolean (?m ! (?n - 1))"
    using assms(1-4) S(1,2) by (simp_all add: list_all_length)
  have sg: "holds I ?a \<longleftrightarrow> sv I as < 0" "holds I ?b \<longleftrightarrow> sv I bs < 0"
    using sv_neg_iff [OF assms(1)] sv_neg_iff [OF ne] assms(1,2) ne by (simp_all add: last_conv_nth)
  show "boolean (mk_smul_no_overflow G as bs)" "boolean (mk_smul_no_underflow G as bs)"
    using ok V by (simp_all add: mk_smul_no_overflow_def mk_smul_no_underflow_def mk_smul_no_overflow_core_def Let_def)
  let ?ovf = "holds I (?m ! ?n) \<noteq> holds I (?m ! (?n - 1)) \<or> holds I ?v"
  have "holds I (mk_smul_no_overflow G as bs) \<longleftrightarrow> \<not> ((sv I as < 0) = (sv I bs < 0) \<and> ?ovf)"
    using ok V assms(5) sg by (simp add: mk_smul_no_overflow_def mk_smul_no_overflow_core_def Let_def)
  moreover have "holds I (mk_smul_no_underflow G as bs) \<longleftrightarrow> \<not> ((sv I as < 0) \<noteq> (sv I bs < 0) \<and> ?ovf)"
    using ok V assms(5) sg by (simp add: mk_smul_no_underflow_def mk_smul_no_overflow_core_def Let_def)
  moreover have "(sv I as < 0) = (sv I bs < 0) \<Longrightarrow> 0 \<le> ?z" "(sv I as < 0) \<noteq> (sv I bs < 0) \<Longrightarrow> ?z \<le> 0"
    by (simp_all add: zero_le_mult_iff mult_le_0_iff not_less) linarith+
  moreover have "(0::int) < 2 ^ (?n - 1)" by simp
  ultimately show "holds I (mk_smul_no_overflow G as bs) \<longleftrightarrow> ?z < 2 ^ (?n - 1)"
      "holds I (mk_smul_no_underflow G as bs) \<longleftrightarrow> - (2 ^ (?n - 1)) \<le> ?z"
    unfolding S(3) by linarith+
qed

end

end
