(* ===== verification/Bit_Blaster_Correct.thy ===== *)
theory Bit_Blaster_Correct
  imports Bit_Blaster_Mult
begin

text \<open>The gates that \<^verbatim>\<open>bit_blaster_cfg\<close> builds with the Boolean rewriter meet the contract, for every
  option of the rewriter, with and without the extended gates; the properties of the
  bit-blaster follow by interpretation.\<close>

subsection \<open>The gates of the bit-blaster\<close>

lemma boolean_rw_equiv: "rw_equiv e r \<Longrightarrow> boolean e \<Longrightarrow> boolean r"
  by (simp add: boolean_def rw_equivD)

lemma rw_value_sound:
  assumes "rw_returns e m" "boolean e"
  shows "boolean (rw_value m d)" "interp_ok I \<Longrightarrow> holds I (rw_value m d) = holds I e"
  using assms rw_equivD(4) boolean_rw_equiv by (auto simp: rw_returns_def rw_value_def)

lemma boolean_app:
  "bits_ok args \<Longrightarrow> boolean (AndE args)" "bits_ok args \<Longrightarrow> boolean (OrE args)"
  "boolean e \<Longrightarrow> boolean (NotE e)" "boolean c \<Longrightarrow> boolean t \<Longrightarrow> boolean e \<Longrightarrow> boolean (IteE c t e)"
  "boolean a \<Longrightarrow> boolean b \<Longrightarrow> boolean (XorE a b)"
  "boolean a \<Longrightarrow> boolean b \<Longrightarrow> boolean c \<Longrightarrow> boolean (Xor3E a b c)"
  "boolean a \<Longrightarrow> boolean b \<Longrightarrow> boolean c \<Longrightarrow> boolean (CarryE a b c)"
  by (simp_all add: boolean_def list_all_iff is_bool_def)

lemma cfg_and_sound:
  assumes "bits_ok args"
  shows "boolean (cfg_and rw args)" "interp_ok I \<Longrightarrow> holds I (cfg_and rw args) = (\<forall>x \<in> set args. holds I x)"
  using rw_value_sound [OF mk_and_sound boolean_app(1) [OF assms], where d = "AndE args"] assms
  by (simp_all add: cfg_and_def list_all_iff)

lemma cfg_or_sound:
  assumes "bits_ok args"
  shows "boolean (cfg_or rw args)" "interp_ok I \<Longrightarrow> holds I (cfg_or rw args) = (\<exists>x \<in> set args. holds I x)"
  using rw_value_sound [OF mk_or_sound boolean_app(2) [OF assms], where d = "OrE args"] assms
  by (simp_all add: cfg_or_def list_all_iff)

lemma cfg_ite_sound:
  assumes "boolean c" "boolean t" "boolean e"
  shows "boolean (cfg_ite rw c t e)"
    "interp_ok I \<Longrightarrow> holds I (cfg_ite rw c t e) = (if holds I c then holds I t else holds I e)"
proof -
  have b: "boolean (IteE c t e)" by (rule boolean_app(4) [OF assms])
  then have "wt (IteE c t e)" by (simp only: boolean_def)
  note R = rw_value_sound [OF mk_ite_sound [OF this] b, where d = "IteE c t e"]
  show "boolean (cfg_ite rw c t e)" using R(1) by (simp add: cfg_ite_def)
  show "interp_ok I \<Longrightarrow> holds I (cfg_ite rw c t e) = (if holds I c then holds I t else holds I e)"
    using R(2) by (simp add: cfg_ite_def)
qed

lemma cfg_nand_nor_sound:
  assumes "boolean a" "boolean b"
  shows "boolean (cfg_nand rw a b)" "interp_ok I \<Longrightarrow> holds I (cfg_nand rw a b) \<longleftrightarrow> \<not> (holds I a \<and> holds I b)"
    "boolean (cfg_nor rw a b)" "interp_ok I \<Longrightarrow> holds I (cfg_nor rw a b) \<longleftrightarrow> \<not> (holds I a \<or> holds I b)"
proof -
  have "boolean (NotE (AndE [a, b]))" "boolean (NotE (OrE [a, b]))" "\<forall>x \<in> set [a, b]. boolean x"
    using assms by (simp_all add: boolean_app)
  note R = rw_value_sound [OF mk_nand_sound [OF this(3)] this(1)] rw_value_sound [OF mk_nor_sound [OF this(3)] this(2)]
  show "boolean (cfg_nand rw a b)" "interp_ok I \<Longrightarrow> holds I (cfg_nand rw a b) \<longleftrightarrow> \<not> (holds I a \<and> holds I b)"
    "boolean (cfg_nor rw a b)" "interp_ok I \<Longrightarrow> holds I (cfg_nor rw a b) \<longleftrightarrow> \<not> (holds I a \<or> holds I b)"
    using R by (simp_all add: cfg_nand_def cfg_nor_def)
qed

lemma mk_xor_gate:
  assumes "boolean a" "boolean b"
  shows "boolean (mk_xor rw a b)" "interp_ok I \<Longrightarrow> holds I (mk_xor rw a b) \<longleftrightarrow> holds I a \<noteq> holds I b"
  using mk_xor_sound [OF assms, of rw] boolean_rw_equiv boolean_app(5) [OF assms] rw_equivD(4) by auto

lemma mk_iff_gate:
  assumes "boolean a" "boolean b"
  shows "boolean (mk_iff rw a b)" "interp_ok I \<Longrightarrow> holds I (mk_iff rw a b) \<longleftrightarrow> holds I a = holds I b"
  using boolean_mk_eq [OF assms, where rw = rw] by (simp_all add: mk_iff_def)

text \<open>Both gates are symmetric, so the order chosen by \<^verbatim>\<open>sort_args\<close> does not matter.\<close>

lemma sort_args_cases:
  assumes "sort_args ast_id a b c = (l1, l2, l3)"
  shows "(l1, l2, l3) \<in> {(a, b, c), (a, c, b), (b, a, c), (b, c, a), (c, a, b), (c, b, a)}"
  using assms by (auto simp: sort_args_def Let_def split: if_splits)

lemma sort_args_sem:
  assumes "sort_args ast_id a b c = (l1, l2, l3)" "boolean a" "boolean b" "boolean c"
  shows "boolean l1" "boolean l2" "boolean l3"
    "((holds I a \<noteq> holds I b) \<noteq> holds I c) \<longleftrightarrow> ((holds I l1 \<noteq> holds I l2) \<noteq> holds I l3)"
    "(holds I a \<and> holds I b \<or> holds I a \<and> holds I c \<or> holds I b \<and> holds I c) \<longleftrightarrow>
      (holds I l1 \<and> holds I l2 \<or> holds I l1 \<and> holds I l3 \<or> holds I l2 \<and> holds I l3)"
  using sort_args_cases [OF assms(1)] assms(2-4) by auto

text \<open>\<open>gate_ok f r\<close>: the term \<open>r\<close> is a Boolean that computes \<open>f\<close>.\<close>

definition gate_ok :: "(interp \<Rightarrow> bool) \<Rightarrow> expr \<Rightarrow> bool" where
  "gate_ok f r \<longleftrightarrow> boolean r \<and> (\<forall>I. interp_ok I \<longrightarrow> holds I r = f I)"

lemma gate_ok_if: "(b \<Longrightarrow> gate_ok f x) \<Longrightarrow> (\<not> b \<Longrightarrow> gate_ok f y) \<Longrightarrow> gate_ok f (if b then x else y)"
  by simp

lemma mk_xor3_gate:
  assumes "boolean l1" "boolean l2" "boolean l3" and s: "sort_args ast_id a b c = (l1, l2, l3)"
  shows "gate_ok (\<lambda>I. (holds I l1 \<noteq> holds I l2) \<noteq> holds I l3) (mk_xor3 rw ast_id ext a b c)"
proof -
  let ?f = "\<lambda>I. (holds I l1 \<noteq> holds I l2) \<noteq> holds I l3"
  note N = boolean_mk_not [OF assms(1), where rw = rw] boolean_mk_not [OF assms(2), where rw = rw]
    boolean_mk_not [OF assms(3), where rw = rw]
  note X = mk_xor_gate [where rw = rw] mk_iff_gate [where rw = rw]
  note K = is_complement_eval [of l1 l2] is_complement_eval [of l1 l3] is_complement_eval [of l2 l3]
  have same: "l1 = l2 \<Longrightarrow> gate_ok ?f l3" "l1 = l3 \<Longrightarrow> gate_ok ?f l2" "l2 = l3 \<Longrightarrow> gate_ok ?f l1"
    using assms(1-3) by (auto simp: gate_ok_def)
  have comp: "is_complement l1 l2 \<Longrightarrow> gate_ok ?f (mk_not rw l3)" "is_complement l1 l3 \<Longrightarrow> gate_ok ?f (mk_not rw l2)"
    "is_complement l2 l3 \<Longrightarrow> gate_ok ?f (mk_not rw l1)" using N K by (auto simp: gate_ok_def)
  have const: "is_true l1 \<Longrightarrow> gate_ok ?f (mk_iff rw l2 l3)" "is_false l1 \<Longrightarrow> gate_ok ?f (mk_xor rw l2 l3)"
    "is_true l2 \<Longrightarrow> gate_ok ?f (mk_iff rw l1 l3)" "is_false l2 \<Longrightarrow> gate_ok ?f (mk_xor rw l1 l3)"
    "is_true l3 \<Longrightarrow> gate_ok ?f (mk_iff rw l1 l2)" "is_false l3 \<Longrightarrow> gate_ok ?f (mk_xor rw l1 l2)"
    using X assms(1-3) by (auto simp: gate_ok_def)
  have plain: "gate_ok ?f (Xor3E l1 l2 l3)" "gate_ok ?f (mk_xor rw (mk_xor rw l1 l2) l3)"
    using assms(1-3) X boolean_app(6) [OF assms(1-3)] by (auto simp: gate_ok_def)
  show ?thesis
    unfolding mk_xor3_def s Let_def prod.case by (intro gate_ok_if; (rule same comp const plain; assumption))
qed

lemma mk_carry_gate:
  assumes "boolean l1" "boolean l2" "boolean l3" and s: "sort_args ast_id a b c = (l1, l2, l3)"
  shows "gate_ok (\<lambda>I. holds I l1 \<and> holds I l2 \<or> holds I l1 \<and> holds I l3 \<or> holds I l2 \<and> holds I l3)
    (mk_carry rw ast_id ext a b c)"
proof -
  let ?f = "\<lambda>I. holds I l1 \<and> holds I l2 \<or> holds I l1 \<and> holds I l3 \<or> holds I l2 \<and> holds I l3"
  have two: "bits_ok [l1, l2]" "bits_ok [l1, l3]" "bits_ok [l2, l3]" using assms(1-3) by simp_all
  note A = cfg_and_sound [OF two(1), where rw = rw] cfg_and_sound [OF two(2), where rw = rw]
    cfg_and_sound [OF two(3), where rw = rw]
  note O = cfg_or_sound [OF two(1), where rw = rw] cfg_or_sound [OF two(2), where rw = rw]
    cfg_or_sound [OF two(3), where rw = rw]
  note K = is_complement_eval [of l1 l2] is_complement_eval [of l1 l3] is_complement_eval [of l2 l3]
  have ff: "(is_false l1 \<and> is_false l2) \<or> (is_false l1 \<and> is_false l3) \<or> (is_false l2 \<and> is_false l3) \<Longrightarrow> gate_ok ?f FalseE"
    and tt: "(is_true l1 \<and> is_true l2) \<or> (is_true l1 \<and> is_true l3) \<or> (is_true l2 \<and> is_true l3) \<Longrightarrow> gate_ok ?f TrueE"
    and same: "l1 = l2 \<and> l1 = l3 \<Longrightarrow> gate_ok ?f l1"
    using assms(1) by (auto simp: gate_ok_def)
  have const: "is_false l1 \<Longrightarrow> gate_ok ?f (cfg_and rw [l2, l3])" "is_false l2 \<Longrightarrow> gate_ok ?f (cfg_and rw [l1, l3])"
    "is_false l3 \<Longrightarrow> gate_ok ?f (cfg_and rw [l1, l2])" "is_true l1 \<Longrightarrow> gate_ok ?f (cfg_or rw [l2, l3])"
    "is_true l2 \<Longrightarrow> gate_ok ?f (cfg_or rw [l1, l3])" "is_true l3 \<Longrightarrow> gate_ok ?f (cfg_or rw [l1, l2])"
    using A O by (auto simp: gate_ok_def)
  have comp: "is_complement l1 l2 \<Longrightarrow> gate_ok ?f l3" "is_complement l1 l3 \<Longrightarrow> gate_ok ?f l2"
    "is_complement l2 l3 \<Longrightarrow> gate_ok ?f l1" using K assms(1-3) by (auto simp: gate_ok_def)
  have c3: "bits_ok [cfg_and rw [l1, l2], cfg_and rw [l1, l3], cfg_and rw [l2, l3]]" using A by simp
  have plain: "gate_ok ?f (CarryE l1 l2 l3)"
    "gate_ok ?f (cfg_or rw [cfg_and rw [l1, l2], cfg_and rw [l1, l3], cfg_and rw [l2, l3]])"
    using boolean_app(7) [OF assms(1-3)] A cfg_or_sound [OF c3, where rw = rw] by (auto simp: gate_ok_def)
  show ?thesis
    unfolding mk_carry_def s Let_def prod.case by (intro gate_ok_if; (rule ff tt same comp const plain; assumption))
qed

lemma mk_xor3_carry_sound:
  assumes "boolean a" "boolean b" "boolean c"
  shows "boolean (mk_xor3 rw ast_id ext a b c)"
    "interp_ok I \<Longrightarrow> holds I (mk_xor3 rw ast_id ext a b c) \<longleftrightarrow> (holds I a \<noteq> holds I b) \<noteq> holds I c"
    "boolean (mk_carry rw ast_id ext a b c)"
    "interp_ok I \<Longrightarrow> holds I (mk_carry rw ast_id ext a b c) \<longleftrightarrow>
      holds I a \<and> holds I b \<or> holds I a \<and> holds I c \<or> holds I b \<and> holds I c"
proof -
  obtain l1 l2 l3 where s: "sort_args ast_id a b c = (l1, l2, l3)" by (metis prod_cases3)
  note S = sort_args_sem [OF s assms]
  note X = mk_xor3_gate [OF S(1-3) s, of rw ext] and C = mk_carry_gate [OF S(1-3) s, of rw ext]
  show "boolean (mk_xor3 rw ast_id ext a b c)" "boolean (mk_carry rw ast_id ext a b c)"
    using X C by (simp_all add: gate_ok_def)
  show "interp_ok I \<Longrightarrow> holds I (mk_xor3 rw ast_id ext a b c) \<longleftrightarrow> (holds I a \<noteq> holds I b) \<noteq> holds I c"
    unfolding S(4) using X by (simp add: gate_ok_def)
  show "interp_ok I \<Longrightarrow> holds I (mk_carry rw ast_id ext a b c) \<longleftrightarrow>
      holds I a \<and> holds I b \<or> holds I a \<and> holds I c \<or> holds I b \<and> holds I c"
    unfolding S(5) using C by (simp add: gate_ok_def)
qed

interpretation bb: bb_gates "bit_blaster_cfg rw ast_id ext wtm bcm" for rw ast_id ext wtm bcm
  by unfold_locales (simp_all add: bit_blaster_cfg_def mk_xor_gate mk_xor3_carry_sound mk_iff_gate
      cfg_and_sound cfg_or_sound boolean_mk_not cfg_ite_sound cfg_nand_nor_sound)

end
