(* ===== verification/Bit_Blaster_Props.thy ===== *)
theory Bit_Blaster_Props
  imports Bit_Blaster_Correct "HOL-Library.Word"
begin

text \<open>What the circuits of the bit-blaster compute, for the gates of \<^verbatim>\<open>bit_blaster_cfg\<close> and every
  setting of its options: their correspondence with machine words and the properties of each
  group of circuits, error values and boundary cases included.\<close>

unbundle bit_operations_syntax

subsection \<open>Operands\<close>

definition operands_ok :: "interp \<Rightarrow> expr list \<Rightarrow> expr list \<Rightarrow> bool" where
  "operands_ok I as bs \<longleftrightarrow> as \<noteq> [] \<and> length bs = length as \<and> bits_ok as \<and> bits_ok bs \<and> interp_ok I"

lemma operands_okD:
  assumes "operands_ok I as bs"
  shows "as \<noteq> []" "length bs = length as" "bits_ok as" "bits_ok bs" "interp_ok I"
  using assms by (simp_all add: operands_ok_def)

text \<open>Two operands of three bits, which the example interpretation reads as 5 (or \<open>-3\<close>) and 2, and a
  bit-blaster with both options of the multiplier on.\<close>

definition interp_example :: interp where
  "interp_example s n = (case s of BoolS \<Rightarrow> BoolV (even n) | TheoryS t \<Rightarrow> ThV t n)"

definition bits_a :: "expr list" where
  "bits_a = [TermE BoolS 2, TermE BoolS 3, TermE BoolS 4]"

definition bits_b :: "expr list" where
  "bits_b = [TermE BoolS 5, TermE BoolS 6, TermE BoolS 7]"

definition bb_example :: gates where
  "bb_example = bit_blaster_cfg mk_bool_rewriter (\<lambda>e. 0) False True True"

lemma interp_example_ok: "interp_ok interp_example"
  by (simp add: interp_ok_def interp_example_def split: srt.split)

lemma operands_example: "operands_ok interp_example bits_a bits_b"
  by (simp add: operands_ok_def interp_example_ok bits_a_def bits_b_def boolean_def is_bool_def)

lemma values_example:
  "length bits_a = 3" "bv interp_example bits_a = 5" "bv interp_example bits_b = 2"
  "sv interp_example bits_a = - 3" "sv interp_example bits_b = 2"
  by (simp_all add: bits_a_def bits_b_def sv_def sval_def interp_example_def)

subsection \<open>Bit-vectors as machine words\<close>

definition wd :: "interp \<Rightarrow> expr list \<Rightarrow> 'w::len word" where
  "wd I bs = word_of_nat (bv I bs)"

lemma unat_wd: "length bs = LENGTH('w) \<Longrightarrow> unat (wd I bs :: 'w::len word) = bv I bs"
  using bv_less [of I bs] by (simp add: wd_def unat_of_nat take_bit_eq_mod)

lemma bit_wd:
  assumes "length bs = LENGTH('w)" "i < LENGTH('w)"
  shows "bit (wd I bs :: 'w::len word) i \<longleftrightarrow> holds I (bs ! i)"
proof -
  have "bit (wd I bs :: 'w word) i \<longleftrightarrow> bit (unat (wd I bs :: 'w word)) i"
    by (simp add: bit_unsigned_iff)
  also have "\<dots> \<longleftrightarrow> odd (bv I bs div 2 ^ i)"
    by (simp add: unat_wd [OF assms(1)] bit_iff_odd)
  also have "\<dots> \<longleftrightarrow> holds I (bs ! i)"
    using nth_bval [of i "map (holds I) bs"] assms by (simp add: bv_def)
  finally show ?thesis .
qed

lemma wd_eqI:
  assumes "bv I bs mod 2 ^ LENGTH('w) = n mod 2 ^ LENGTH('w)"
  shows "(wd I bs :: 'w::len word) = word_of_nat n"
  using assms by (simp add: wd_def word_of_nat_eq_iff take_bit_eq_mod)

lemma sint_wd:
  assumes "length bs = LENGTH('w)"
  shows "sint (wd I bs :: 'w::len word) = sv I bs"
proof -
  have "bs \<noteq> []" using assms by auto
  have "sint (wd I bs :: 'w word) = signed_take_bit (LENGTH('w) - 1) (int (bv I bs))"
    by (simp add: wd_def signed_of_nat)
  also have "int (bv I bs) = take_bit LENGTH('w) (sv I bs)"
    using sv_mod [of I bs] assms by (simp add: take_bit_eq_mod)
  also have "signed_take_bit (LENGTH('w) - 1) (take_bit LENGTH('w) (sv I bs)) = signed_take_bit (LENGTH('w) - 1) (sv I bs)"
    by (simp add: signed_take_bit_take_bit)
  also have "\<dots> = sv I bs"
    using sv_bounds [OF \<open>bs \<noteq> []\<close>, of I] assms by (intro signed_take_bit_int_eq_self) simp_all
  finally show ?thesis .
qed

lemma wd_sub:
  assumes "length as = LENGTH('w)" "length bs = LENGTH('w)"
    and "bv I t = (2 ^ length as + bv I as - bv I bs) mod 2 ^ length as"
  shows "(wd I t :: 'w::len word) = wd I as - wd I bs"
proof -
  have "(wd I t :: 'w word) = word_of_nat (2 ^ length as + bv I as - bv I bs)"
    using assms by (intro wd_eqI) simp
  also have "\<dots> = word_of_nat (2 ^ length as + bv I as) - word_of_nat (bv I bs)"
    using bv_less [of I bs] assms by (intro of_nat_diff) simp
  also have "word_of_nat (2 ^ length as + bv I as) = (word_of_nat (bv I as) :: 'w word)"
    using assms(1) by simp
  finally show ?thesis by (simp only: wd_def)
qed


lemma mk_binary_wd:
  assumes "length as = LENGTH('w)" "length bs = LENGTH('w)" "length (mk_binary OP as bs) = length as"
    "map (holds I) (mk_binary OP as bs) = map2 f (map (holds I) as) (map (holds I) bs)" "i < LENGTH('w)"
  shows "bit (wd I (mk_binary OP as bs) :: 'w::len word) i \<longleftrightarrow> f (bit (wd I as :: 'w word) i) (bit (wd I bs :: 'w word) i)"
proof -
  have "holds I (mk_binary OP as bs ! i) = map (holds I) (mk_binary OP as bs) ! i" using assms(1,3,5) by simp
  also have "\<dots> = f (holds I (as ! i)) (holds I (bs ! i))" unfolding assms(4) using assms(1,2,5) by simp
  finally have "holds I (mk_binary OP as bs ! i) = f (holds I (as ! i)) (holds I (bs ! i))" .
  then show ?thesis using assms(1-3,5) by (simp add: bit_wd)
qed


context bb_gates
begin

lemma words_arith:
  assumes "operands_ok I as bs" "length as = LENGTH('w::len)"
  shows "wd I (mk_neg G as) = (- wd I as :: 'w word)" "wd I (mk_adder G as bs) = (wd I as + wd I bs :: 'w word)"
    "wd I (fst (mk_subtracter G as bs)) = (wd I as - wd I bs :: 'w word)"
    "wd I (mk_multiplier G as bs) = (wd I as * wd I bs :: 'w word)"
proof -
  note A = operands_okD [OF assms(1)]
  have l: "length bs = LENGTH('w)" using A(2) assms(2) by simp
  have "(wd I (mk_neg G as) :: 'w word) = wd I (replicate (length as) FalseE) - wd I as"
    using bv_mk_neg [OF A(3,5)] assms(2) by (intro wd_sub) simp_all
  then show "wd I (mk_neg G as) = (- wd I as :: 'w word)" by (simp add: wd_def)
  show "wd I (mk_adder G as bs) = (wd I as + wd I bs :: 'w word)"
    using bv_mk_adder [OF A(3,4,5,2)] assms(2) wd_eqI [of I "mk_adder G as bs" "bv I as + bv I bs", where ?'w = 'w]
    by (simp add: wd_def)
  show "wd I (mk_multiplier G as bs) = (wd I as * wd I bs :: 'w word)"
    using mk_multiplier_spec [OF A] assms(2) wd_eqI [of I "mk_multiplier G as bs" "bv I as * bv I bs", where ?'w = 'w]
    by (simp add: wd_def)
  show "wd I (fst (mk_subtracter G as bs)) = (wd I as - wd I bs :: 'w word)"
    using bv_mk_subtracter(2) [OF _ A(2-5)] assms(2) l by (intro wd_sub) (auto simp: prod_eq_iff)
qed

lemma words_bitwise:
  assumes "operands_ok I as bs" "length as = LENGTH('w::len)"
  shows "wd I (bb_mk_and G as bs) = (wd I as AND wd I bs :: 'w word)"
    "wd I (bb_mk_or G as bs) = (wd I as OR wd I bs :: 'w word)"
    "wd I (bb_mk_xor G as bs) = (wd I as XOR wd I bs :: 'w word)"
    "wd I (bb_mk_not G as) = (NOT (wd I as) :: 'w word)"
proof -
  note A = operands_okD [OF assms(1)]
  have l: "length bs = LENGTH('w)" using A(2) assms(2) by simp
  note B = mk_binary_wd [OF assms(2) l]
  note a = mk_binary_spec [OF A(2-4), where OP = "\<lambda>a b. g_and G [a, b]" and I = I and f = "(\<and>)"]
    and o = mk_binary_spec [OF A(2-4), where OP = "\<lambda>a b. g_or G [a, b]" and I = I and f = "(\<or>)"]
    and x = mk_binary_spec [OF A(2-4), where OP = "g_xor G" and I = I and f = "(\<noteq>)"]
  show "wd I (bb_mk_and G as bs) = (wd I as AND wd I bs :: 'w word)"
    using B [OF a(1) a(3)] A(5) by (intro bit_word_eqI) (simp add: bb_mk_and_def bit_and_iff)
  show "wd I (bb_mk_or G as bs) = (wd I as OR wd I bs :: 'w word)"
    using B [OF o(1) o(3)] A(5) by (intro bit_word_eqI) (simp add: bb_mk_or_def bit_or_iff)
  show "wd I (bb_mk_xor G as bs) = (wd I as XOR wd I bs :: 'w word)"
    using B [OF x(1) x(3)] A(5) by (intro bit_word_eqI) (simp add: bb_mk_xor_def bit_xor_iff)
  have "boolean (as ! i)" if "i < LENGTH('w)" for i using A(3) that assms(2) by (simp add: list_all_length)
  then show "wd I (bb_mk_not G as) = (NOT (wd I as) :: 'w word)"
    using assms(2) A(5) by (intro bit_word_eqI) (simp add: bb_mk_not_def bit_not_iff bit_wd possible_bit_word)
qed

lemma words_shift:
  assumes "operands_ok I as bs" "length as = LENGTH('w::len)"
  shows "wd I (mk_shl G as bs) = (push_bit (bv I bs) (wd I as) :: 'w word)"
    "wd I (mk_lshr G as bs) = (drop_bit (bv I bs) (wd I as) :: 'w word)"
    "wd I (mk_ashr G as bs) = (signed_drop_bit (bv I bs) (wd I as) :: 'w word)"
proof -
  note A = operands_okD [OF assms(1)]
  note S = mk_shl_spec [OF A(2-5)] and L = mk_lshr_spec [OF A(2-5)] and R = mk_ashr_spec [OF A(2,1,3-5)]
  show "wd I (mk_shl G as bs) = (push_bit (bv I bs) (wd I as) :: 'w word)"
    using S(3) assms(2) wd_eqI [of I "mk_shl G as bs" "bv I as * 2 ^ bv I bs", where ?'w = 'w]
    by (simp add: wd_def push_bit_eq_mult)
  show "wd I (mk_lshr G as bs) = (drop_bit (bv I bs) (wd I as) :: 'w word)"
    using L(1,3) assms(2) by (simp add: word_unat_eq_iff unat_drop_bit_eq unat_wd drop_bit_eq_div [where ?'a = nat])
  show "wd I (mk_ashr G as bs) = (signed_drop_bit (bv I bs) (wd I as) :: 'w word)"
    using R(1,3) assms(2) sint_signed_drop_bit_eq [of "bv I bs" "wd I as :: 'w word"]
    by (intro signed_word_eqI [where ?'a = int]) (simp add: sint_wd drop_bit_eq_div)
qed

lemma words_compare:
  assumes "operands_ok I as bs" "length as = LENGTH('w::len)"
  shows "holds I (mk_ule G as bs) = ((wd I as :: 'w word) \<le> wd I bs)" "holds I (mk_sle G as bs) = ((wd I as :: 'w word) \<le>s wd I bs)"
    "(wd I bs :: 'w word) \<noteq> 0 \<Longrightarrow> wd I (mk_udiv G as bs) = (wd I as div wd I bs :: 'w word)"
    "(wd I bs :: 'w word) \<noteq> 0 \<Longrightarrow> wd I (mk_urem G as bs) = (wd I as mod wd I bs :: 'w word)"
proof -
  note A = operands_okD [OF assms(1)]
  have l: "length bs = LENGTH('w)" using A(2) assms(2) by simp
  show "holds I (mk_ule G as bs) = ((wd I as :: 'w word) \<le> wd I bs)" "holds I (mk_sle G as bs) = ((wd I as :: 'w word) \<le>s wd I bs)"
    using mk_ule_spec [OF A(2,1,3-5)] mk_sle_spec [OF A(2,1,3-5)] assms(2) l
    by (simp_all add: word_le_nat_alt unat_wd word_sle_eq sint_wd)
  note D = mk_udiv_urem_spec [OF A(5,1-4)]
  assume "(wd I bs :: 'w word) \<noteq> 0"
  then have "bv I bs \<noteq> 0" unfolding wd_def by (intro notI) simp
  then show "wd I (mk_udiv G as bs) = (wd I as div wd I bs :: 'w word)" "wd I (mk_urem G as bs) = (wd I as mod wd I bs :: 'w word)"
    using D assms(2) l by (simp_all add: word_unat_eq_iff unat_div unat_mod unat_wd)
qed

end


subsection \<open>Properties of the bit-blaster\<close>

text \<open>C6: Read as machine words of the same width, the circuits of the bit-blaster are the operations of
  the word: negation, addition, subtraction, multiplication, the bitwise operations, the shifts,
  division and remainder (of a divisor that is not zero) and the unsigned and signed comparison.\<close>

theorem bit_blaster_refines_words:
  assumes "operands_ok I as bs" "length as = LENGTH('w::len)"
    "G = bit_blaster_cfg rw ast_id ext wtm bcm" "x = (wd I as :: 'w word)" "y = (wd I bs :: 'w word)"
  shows "wd I (mk_neg G as) = - x \<and> wd I (mk_adder G as bs) = x + y \<and>
    wd I (fst (mk_subtracter G as bs)) = x - y \<and> wd I (mk_multiplier G as bs) = x * y \<and>
    wd I (bb_mk_and G as bs) = x AND y \<and> wd I (bb_mk_or G as bs) = x OR y \<and>
    wd I (bb_mk_xor G as bs) = x XOR y \<and> wd I (bb_mk_not G as) = NOT x \<and>
    wd I (mk_shl G as bs) = push_bit (unat y) x \<and> wd I (mk_lshr G as bs) = drop_bit (unat y) x \<and>
    wd I (mk_ashr G as bs) = signed_drop_bit (unat y) x \<and>
    (y \<noteq> 0 \<longrightarrow> wd I (mk_udiv G as bs) = x div y \<and> wd I (mk_urem G as bs) = x mod y) \<and>
    holds I (mk_ule G as bs) = (x \<le> y) \<and> holds I (mk_sle G as bs) = (x \<le>s y)"
proof -
  have "unat y = bv I bs" using operands_okD(2) [OF assms(1)] assms(2,5) by (simp add: unat_wd)
  then show ?thesis
    unfolding assms(3-5)
    using bb.words_arith [OF assms(1,2)] bb.words_bitwise [OF assms(1,2)] bb.words_shift [OF assms(1,2)]
      bb.words_compare [OF assms(1,2)] by auto
qed

theorem bit_blaster_refines_words_witness:
  "wd interp_example (mk_multiplier bb_example bits_a bits_b) = (2 :: 3 word) \<and>
   holds interp_example (mk_sle bb_example bits_a bits_b)"
proof -
  have "wd interp_example bits_a = (5 :: 3 word)" "wd interp_example bits_b = (2 :: 3 word)"
    by (simp_all add: wd_def values_example)
  then show ?thesis
    using bit_blaster_refines_words [OF operands_example _ bb_example_def refl refl, where ?'w = 3]
    by (simp add: values_example)
qed

text \<open>C7: Each of the multipliers, the array of adders, the Wallace tree and the Booth recoding of a
  constant operand, whichever \<^verbatim>\<open>mk_multiplier\<close> chooses by its options and inputs, outputs as many
  bits as its operands have, and these stand for the product modulo a power of two.\<close>

theorem multipliers_correct:
  assumes "operands_ok I as bs" "G = bit_blaster_cfg rw ast_id ext wtm bcm"
    "out \<in> {mk_multiplier G as bs, array_multiplier G as bs, wallace_multiplier G as bs} \<or>
     mk_const_multiplier G as bs = Some out"
  shows "length out = length as \<and> list_all boolean out \<and> bv I out = bv I as * bv I bs mod 2 ^ length as"
proof -
  note A = operands_okD [OF assms(1)]
  show ?thesis
    using assms(3) bb.mk_multiplier_spec [OF A] bb.array_multiplier_spec [OF A] bb.wallace_multiplier_spec [OF A]
      bb.mk_const_multiplier_spec [OF A]
    unfolding assms(2) by auto
qed

theorem multipliers_correct_witness:
  "bv interp_example (wallace_multiplier bb_example bits_a bits_b) = 2 \<and>
   bv interp_example (array_multiplier bb_example bits_a bits_b) = 2"
  using multipliers_correct [OF operands_example bb_example_def, of "wallace_multiplier bb_example bits_a bits_b"]
    multipliers_correct [OF operands_example bb_example_def, of "array_multiplier bb_example bits_a bits_b"]
  by (simp add: values_example)



text \<open>C10: The divider is total: the quotient and the remainder are those of the unsigned numbers, and for
  a divisor of zero the quotient is all ones and the remainder the dividend.\<close>

theorem udiv_urem_correct:
  assumes "operands_ok I as bs" "G = bit_blaster_cfg rw ast_id ext wtm bcm"
  shows "length (mk_udiv G as bs) = length as \<and> length (mk_urem G as bs) = length as \<and>
    bv I (mk_udiv G as bs) = (if bv I bs = 0 then 2 ^ length as - 1 else bv I as div bv I bs) \<and>
    bv I (mk_urem G as bs) = (if bv I bs = 0 then bv I as else bv I as mod bv I bs)"
  unfolding assms(2) using bb.mk_udiv_urem_spec [OF operands_okD(5,1-4) [OF assms(1)]]
  by simp

theorem udiv_urem_correct_witness:
  "bv interp_example (mk_udiv bb_example bits_a bits_b) = 2 \<and> bv interp_example (mk_urem bb_example bits_a bits_b) = Suc 0"
  using udiv_urem_correct [OF operands_example bb_example_def] by (simp add: values_example)

text \<open>C9: Signed division rounds towards zero, the signed remainder has the sign of the dividend and the
  signed modulus that of the divisor, all modulo a power of two; also for a divisor of zero and
  for the division of the least number by \<open>-1\<close>.\<close>

theorem signed_division_correct:
  assumes "operands_ok I as bs" "G = bit_blaster_cfg rw ast_id ext wtm bcm" "x = sv I as" "y = sv I bs"
  shows "int (bv I (mk_sdiv G as bs)) =
      (let q = (if y = 0 then 2 ^ length as - 1 else \<bar>x\<bar> div \<bar>y\<bar>) in (if x < 0 \<longleftrightarrow> y < 0 then q else - q)) mod 2 ^ length as \<and>
    int (bv I (mk_srem G as bs)) = (let r = \<bar>x\<bar> mod \<bar>y\<bar> in if x < 0 then - r else r) mod 2 ^ length as \<and>
    int (bv I (mk_smod G as bs)) = x mod y mod 2 ^ length as"
proof -
  note A = operands_okD [OF assms(1)]
  show ?thesis
    unfolding assms(2-4) using bb.mk_sdiv_spec(1) [OF A(5,1-4)] bb.mk_srem_spec(1) [OF A(5,1-4)] bb.mk_smod_spec(1) [OF A(5,1-4)]
    by (simp only: Let_def)
qed

theorem signed_division_correct_witness:
  "int (bv interp_example (mk_sdiv bb_example bits_a bits_b)) = 7 \<and> int (bv interp_example (mk_srem bb_example bits_a bits_b)) = 7 \<and>
   int (bv interp_example (mk_smod bb_example bits_a bits_b)) = 1"
  using signed_division_correct [OF operands_example bb_example_def refl refl] by (simp add: values_example)




text \<open>C13: The rotation by a variable amount, built from a remainder, a decoder and a chain of
  multiplexers, has bit by bit the value of the rotation by the number that the amount stands for.\<close>

theorem ext_rotate_refines_rotate:
  assumes "operands_ok I as bs" "G = bit_blaster_cfg rw ast_id ext wtm bcm"
  shows "map (holds I) (mk_ext_rotate_left G as bs) = map (holds I) (mk_rotate_left as (bv I bs)) \<and>
    map (holds I) (mk_ext_rotate_right G as bs) = map (holds I) (mk_rotate_right as (bv I bs))"
proof -
  note A = operands_okD [OF assms(1)]
  show ?thesis
    unfolding assms(2) mk_ext_rotate_left_def mk_ext_rotate_right_def
    using bb.mk_ext_rotate_spec(3) [OF A(2,1,3-5), of _ _ _ _ _ True] bb.mk_ext_rotate_spec(3) [OF A(2,1,3-5), of _ _ _ _ _ False]
    by simp
qed

theorem ext_rotate_refines_rotate_witness:
  "map (holds interp_example) (mk_ext_rotate_left bb_example bits_a bits_b) = [False, True, True]"
  using ext_rotate_refines_rotate [OF operands_example bb_example_def]
  by (simp add: values_example bits_a_def mk_rotate_left_def interp_example_def)

text \<open>C15: The comparators output a Boolean that holds exactly when the unsigned, respectively the signed,
  number of the first operand is at most that of the second, respectively when the two are equal.\<close>

theorem comparators_correct:
  assumes "operands_ok I as bs" "G = bit_blaster_cfg rw ast_id ext wtm bcm"
  shows "(holds I (mk_ule G as bs) \<longleftrightarrow> bv I as \<le> bv I bs) \<and> (holds I (mk_sle G as bs) \<longleftrightarrow> sv I as \<le> sv I bs) \<and>
    (holds I (bb_mk_eq G as bs) \<longleftrightarrow> bv I as = bv I bs) \<and> (holds I (mk_is_eq G as n) \<longleftrightarrow> bv I as = n mod 2 ^ length as)"
proof -
  note A = operands_okD [OF assms(1)]
  show ?thesis
    unfolding assms(2) using bb.mk_ule_spec(2) [OF A(2,1,3-5)] bb.mk_sle_spec(2) [OF A(2,1,3-5)]
      bb.bb_mk_eq_spec(2) [OF A(2-5)] bb.mk_is_eq_spec(2) [OF A(3,5)] by simp
qed

theorem comparators_correct_witness:
  "\<not> holds interp_example (mk_ule bb_example bits_a bits_b) \<and> holds interp_example (mk_sle bb_example bits_a bits_b) \<and>
   \<not> holds interp_example (bb_mk_eq bb_example bits_a bits_b) \<and> holds interp_example (mk_is_eq bb_example bits_a 5)"
  using comparators_correct [OF operands_example bb_example_def, of 5] by (simp add: values_example)

text \<open>C11: The overflow predicates hold exactly when the product of the unsigned, respectively signed,
  numbers fits: no unsigned overflow, no signed overflow and no signed underflow.\<close>

theorem multiplication_overflow_correct:
  assumes "operands_ok I as bs" "G = bit_blaster_cfg rw ast_id ext wtm bcm"
  shows "(holds I (mk_umul_no_overflow G as bs) \<longleftrightarrow> bv I as * bv I bs < 2 ^ length as) \<and>
    (holds I (mk_smul_no_overflow G as bs) \<longleftrightarrow> sv I as * sv I bs < 2 ^ (length as - 1)) \<and>
    (holds I (mk_smul_no_underflow G as bs) \<longleftrightarrow> - (2 ^ (length as - 1)) \<le> sv I as * sv I bs)"
proof -
  note A = operands_okD [OF assms(1)]
  show ?thesis
    unfolding assms(2) using bb.mk_umul_no_overflow_spec(2) [OF A] bb.mk_smul_no_overflow_core_spec(3,4) [OF A] by simp
qed

theorem multiplication_overflow_correct_witness:
  "\<not> holds interp_example (mk_umul_no_overflow bb_example bits_a bits_b) \<and>
   holds interp_example (mk_smul_no_overflow bb_example bits_a bits_b) \<and>
   \<not> holds interp_example (mk_smul_no_underflow bb_example bits_a bits_b)"
  using multiplication_overflow_correct [OF operands_example bb_example_def] by (simp add: values_example)

lemma num2bits_loop_consts: "list_all is_bool_const (num2bits_loop sz i v)"
proof (induction sz i v rule: num2bits_loop.induct)
  case (1 sz i v)
  have "is_bool_const (mk_bit b)" for b by (simp add: mk_bit_def is_bool_const_def)
  then show ?case using 1 by (subst num2bits_loop.simps) (auto simp: Let_def list_all_iff)
qed

lemma is_numeral_loop_None: "is_numeral_loop bits i r = None \<longleftrightarrow> \<not> list_all is_bool_const bits"
  by (induction bits i r rule: is_numeral_loop.induct) (auto simp: is_bool_const_def)

lemma consts_mk_bit: "list_all is_bool_const bits \<Longrightarrow> bits = map mk_bit (map (holds I) bits)"
  by (induction bits) (auto simp: is_bool_const_def mk_bit_def)

lemma consts_eqI:
  assumes "list_all is_bool_const xs" "list_all is_bool_const ys" "length xs = length ys" "bv I xs = bv I ys"
  shows "xs = ys"
proof -
  have "map (holds I) xs = map (holds I) ys"
    using assms(3,4) bval_inject [of "map (holds I) xs" "map (holds I) ys"] by (simp add: bv_def)
  then show ?thesis using consts_mk_bit [OF assms(1), of I] consts_mk_bit [OF assms(2), of I] by metis
qed

text \<open>C17: Writing a numeral as constant bits and recognising constant bits as a numeral are inverse to
  each other: \<^verbatim>\<open>is_numeral\<close> reads back what \<^verbatim>\<open>num2bits\<close> wrote, modulo the width, and \<^verbatim>\<open>num2bits\<close>
  rebuilds every list of constants that \<^verbatim>\<open>is_numeral\<close> accepts.\<close>

theorem num2bits_is_numeral_roundtrip:
  "is_numeral (num2bits v sz) = Some (v mod 2 ^ sz) \<and>
   (case is_numeral bits of Some n \<Rightarrow> num2bits n (length bits) = bits | None \<Rightarrow> \<not> list_all is_bool_const bits)"
proof
  have c: "list_all is_bool_const (num2bits u n)" for u n by (simp add: num2bits_def num2bits_loop_consts)
  then obtain k where k: "is_numeral (num2bits v sz) = Some k"
    using is_numeral_loop_None [of "num2bits v sz" 0 0] by (auto simp: is_numeral_def)
  then show "is_numeral (num2bits v sz) = Some (v mod 2 ^ sz)"
    using is_numeral_Some [OF k, of interp_example] by simp
  show "case is_numeral bits of Some n \<Rightarrow> num2bits n (length bits) = bits | None \<Rightarrow> \<not> list_all is_bool_const bits"
  proof (cases "is_numeral bits")
    case None
    then show ?thesis using is_numeral_loop_None [of bits 0 0] by (simp add: is_numeral_def)
  next
    case (Some n)
    then have "n < 2 ^ length bits" using is_numeral_Some [OF Some, of interp_example] bv_less [of interp_example bits] by simp
    then have "num2bits n (length bits) = bits"
      using is_numeral_Some [OF Some] is_numeral_consts [OF Some] c by (intro consts_eqI [where I = interp_example]) simp_all
    then show ?thesis using Some by simp
  qed
qed

text \<open>The gates that the circuits are made of: the exclusive or and the majority of three inputs,
  with all the simplifications for equal, complementary and constant inputs and for every order
  of the node identifiers, with and without the extended gates.\<close>

theorem adder_gates_correct:
  assumes "boolean a" "boolean b" "boolean c" "interp_ok I"
  shows "boolean (mk_xor3 rw ast_id ext a b c) \<and> boolean (mk_carry rw ast_id ext a b c) \<and>
    of_bool (holds I (mk_xor3 rw ast_id ext a b c)) + 2 * of_bool (holds I (mk_carry rw ast_id ext a b c)) =
    (of_bool (holds I a) + of_bool (holds I b) + of_bool (holds I c) :: nat)"
  using mk_xor3_carry_sound [OF assms(1-3)] assms(4) by auto

theorem adder_gates_correct_witness:
  "holds interp_example (mk_carry mk_bool_rewriter (\<lambda>e. 0) True (TermE BoolS 2) (TermE BoolS 3) (TermE BoolS 4))"
  using adder_gates_correct [of "TermE BoolS 2" "TermE BoolS 3" "TermE BoolS 4" interp_example mk_bool_rewriter "\<lambda>e. 0" True]
  by (cases "holds interp_example (mk_carry mk_bool_rewriter (\<lambda>e. 0) True (TermE BoolS 2) (TermE BoolS 3) (TermE BoolS 4))";
      cases "holds interp_example (mk_xor3 mk_bool_rewriter (\<lambda>e. 0) True (TermE BoolS 2) (TermE BoolS 3) (TermE BoolS 4))")
    (simp_all add: interp_example_ok boolean_def is_bool_def, simp_all add: interp_example_def)

end
