(* ===== verification/Math_Extras.thy ===== *)
theory Math_Extras
  imports Z3_Prelude
begin

text \<open>The bit-twiddling functions of \<^verbatim>\<open>capstone/MathExtras.h\<close>, in their portable branches (the others
  call compiler builtins), and what they compute.  A shift by the width of the type or more is
  undefined in C; here it gives zero, and no theorem depends on it.\<close>

unbundle bit_operations_syntax

subsection \<open>Halves, masks and powers of two\<close>

definition Hi_32 :: "u64 \<Rightarrow> u32" where
  "Hi_32 Value = ucast (drop_bit 32 Value)"

definition Lo_32 :: "u64 \<Rightarrow> u32" where
  "Lo_32 Value = ucast Value"

definition isUIntN :: "nat \<Rightarrow> u64 \<Rightarrow> bool" where
  "isUIntN N x \<longleftrightarrow> x = x AND drop_bit (64 - N) (NOT 0)"

definition isMask_32 :: "u32 \<Rightarrow> bool" where
  "isMask_32 Value \<longleftrightarrow> Value \<noteq> 0 \<and> (Value + 1) AND Value = 0"

definition isMask_64 :: "u64 \<Rightarrow> bool" where
  "isMask_64 Value \<longleftrightarrow> Value \<noteq> 0 \<and> (Value + 1) AND Value = 0"

definition isShiftedMask_32 :: "u32 \<Rightarrow> bool" where
  "isShiftedMask_32 Value = isMask_32 ((Value - 1) OR Value)"

definition isShiftedMask_64 :: "u64 \<Rightarrow> bool" where
  "isShiftedMask_64 Value = isMask_64 ((Value - 1) OR Value)"

definition isPowerOf2_32 :: "u32 \<Rightarrow> bool" where
  "isPowerOf2_32 Value \<longleftrightarrow> Value \<noteq> 0 \<and> Value AND (Value - 1) = 0"

subsection \<open>Counting zeros and ones\<close>

text \<open>The bisection of the portable branch: \<open>Shift\<close> runs through 16, 8, 4, 2, 1.\<close>

fun clz_loop :: "nat \<Rightarrow> 'w::len word \<Rightarrow> u32 \<Rightarrow> u32" where
  "clz_loop Shift Value Count =
     (if Shift = 0 then Count
      else let Tmp = drop_bit Shift Value
           in if Tmp \<noteq> 0 then clz_loop (Shift div 2) Tmp Count
              else clz_loop (Shift div 2) Value (Count OR of_nat Shift))"

declare clz_loop.simps [simp del]

definition CountLeadingZeros_32 :: "u32 \<Rightarrow> u32" where
  "CountLeadingZeros_32 Value = (if Value = 0 then 32 else clz_loop 16 Value 0)"

definition CountLeadingOnes_32 :: "u32 \<Rightarrow> u32" where
  "CountLeadingOnes_32 Value = CountLeadingZeros_32 (NOT Value)"

text \<open>The branch for a \<^verbatim>\<open>long\<close> of 64 bits, and the one that works on the two halves.\<close>

definition CountLeadingZeros_64 :: "u64 \<Rightarrow> u32" where
  "CountLeadingZeros_64 Value = (if Value = 0 then 64 else clz_loop 32 Value 0)"

definition CountLeadingZeros_64_halves :: "u64 \<Rightarrow> u32" where
  "CountLeadingZeros_64_halves Value =
     (let Hi = Hi_32 Value
      in if Hi \<noteq> 0 then CountLeadingZeros_32 Hi else CountLeadingZeros_32 (Lo_32 Value) + 32)"

definition CountLeadingOnes_64 :: "u64 \<Rightarrow> u32" where
  "CountLeadingOnes_64 Value = CountLeadingZeros_64 (NOT Value)"

definition Mod37BitPosition :: "u32 list" where
  "Mod37BitPosition =
    [32, 0, 1, 26, 2, 23, 27, 0, 3, 16, 24, 30, 28, 11, 0, 13,
     4, 7, 17, 0, 25, 22, 31, 15, 29, 10, 12, 6, 0, 21, 14, 9,
     5, 20, 8, 19, 18]"

definition CountTrailingZeros_32 :: "u32 \<Rightarrow> u32" where
  "CountTrailingZeros_32 Value = Mod37BitPosition ! unat (((1 + NOT Value) AND Value) mod 37)"

definition CountTrailingOnes_32 :: "u32 \<Rightarrow> u32" where
  "CountTrailingOnes_32 Value = CountTrailingZeros_32 (NOT Value)"

definition Mod67Position :: "u32 list" where
  "Mod67Position =
    [64, 0, 1, 39, 2, 15, 40, 23, 3, 12, 16, 59, 41, 19, 24, 54,
     4, 64, 13, 10, 17, 62, 60, 28, 42, 30, 20, 51, 25, 44, 55,
     47, 5, 32, 65, 38, 14, 22, 11, 58, 18, 53, 63, 9, 61, 27,
     29, 50, 43, 46, 31, 37, 21, 57, 52, 8, 26, 49, 45, 36, 56,
     7, 48, 35, 6, 34, 33, 0]"

definition CountTrailingZeros_64 :: "u64 \<Rightarrow> u32" where
  "CountTrailingZeros_64 Value = Mod67Position ! unat (((1 + NOT Value) AND Value) mod 67)"

definition CountTrailingOnes_64 :: "u64 \<Rightarrow> u32" where
  "CountTrailingOnes_64 Value = CountTrailingZeros_64 (NOT Value)"

definition CountPopulation_32 :: "u32 \<Rightarrow> u32" where
  "CountPopulation_32 Value =
     (let v = Value - (drop_bit 1 Value AND 0x55555555);
          v = (v AND 0x33333333) + (drop_bit 2 v AND 0x33333333)
      in drop_bit 24 (((v + drop_bit 4 v) AND 0xF0F0F0F) * 0x1010101))"

definition CountPopulation_64 :: "u64 \<Rightarrow> u32" where
  "CountPopulation_64 Value =
     (let v = Value - (drop_bit 1 Value AND 0x5555555555555555);
          v = (v AND 0x3333333333333333) + (drop_bit 2 v AND 0x3333333333333333);
          v = (v + drop_bit 4 v) AND 0x0F0F0F0F0F0F0F0F
      in ucast (drop_bit 56 (v * 0x0101010101010101)))"

definition Log2_32 :: "u32 \<Rightarrow> u32" where
  "Log2_32 Value = 31 - CountLeadingZeros_32 Value"

definition Log2_64 :: "u64 \<Rightarrow> u32" where
  "Log2_64 Value = 63 - CountLeadingZeros_64 Value"

definition Log2_32_Ceil :: "u32 \<Rightarrow> u32" where
  "Log2_32_Ceil Value = 32 - CountLeadingZeros_32 (Value - 1)"

definition Log2_64_Ceil :: "u64 \<Rightarrow> u32" where
  "Log2_64_Ceil Value = 64 - CountLeadingZeros_64 (Value - 1)"

subsection \<open>Arithmetic\<close>

function GreatestCommonDivisor64 :: "u64 \<Rightarrow> u64 \<Rightarrow> u64" where
  "GreatestCommonDivisor64 A B = (if B = 0 then A else GreatestCommonDivisor64 B (A mod B))"
  by pat_completeness auto
termination GreatestCommonDivisor64
  by (relation "measure (\<lambda>(A, B). unat B)") (auto simp: unat_mod word_neq_0_conv word_less_nat_alt)

declare GreatestCommonDivisor64.simps [simp del]

definition MinAlign :: "u64 \<Rightarrow> u64 \<Rightarrow> u64" where
  "MinAlign A B = (A OR B) AND (1 + NOT (A OR B))"

definition NextPowerOf2 :: "u64 \<Rightarrow> u64" where
  "NextPowerOf2 A =
     (let A = A OR drop_bit 1 A; A = A OR drop_bit 2 A; A = A OR drop_bit 4 A;
          A = A OR drop_bit 8 A; A = A OR drop_bit 16 A; A = A OR drop_bit 32 A
      in A + 1)"

definition RoundUpToAlignment :: "u64 \<Rightarrow> u64 \<Rightarrow> u64" where
  "RoundUpToAlignment Value Align = ((Value + Align - 1) div Align) * Align"

definition OffsetToAlignment :: "u64 \<Rightarrow> u64 \<Rightarrow> u64" where
  "OffsetToAlignment Value Align = RoundUpToAlignment Value Align - Value"

definition SignExtend32 :: "u32 \<Rightarrow> nat \<Rightarrow> u32" where
  "SignExtend32 X B = signed_drop_bit (32 - B) (push_bit (32 - B) X)"

definition SignExtend64 :: "u64 \<Rightarrow> nat \<Rightarrow> u64" where
  "SignExtend64 X B = signed_drop_bit (64 - B) (push_bit (64 - B) X)"

definition abs64 :: "u64 \<Rightarrow> u64" where
  "abs64 x = (if x <s 0 then - x else x)"

text \<open>\<^verbatim>\<open>for (i = bits; --i; )\<close>: 31 iterations at most.\<close>

fun countLeadingZeros_loop :: "nat \<Rightarrow> u32 \<Rightarrow> u32 \<Rightarrow> u32" where
  "countLeadingZeros_loop 0 x count = count"
| "countLeadingZeros_loop (Suc i) x count =
     (if x <s 0 then count else countLeadingZeros_loop i (push_bit 1 x) (count + 1))"

definition countLeadingZeros :: "u32 \<Rightarrow> u32" where
  "countLeadingZeros x = countLeadingZeros_loop 31 x 0"

lemma mod37_table: "k < 32 \<Longrightarrow> Mod37BitPosition ! (2 ^ k mod 37) = of_nat k"
proof -
  have "list_all (\<lambda>k. Mod37BitPosition ! (2 ^ k mod 37) = of_nat k) [0..<32]"
    by (simp add: Mod37BitPosition_def upt_rec)
  then show "k < 32 \<Longrightarrow> Mod37BitPosition ! (2 ^ k mod 37) = of_nat k"
    by (simp add: list_all_iff)
qed

lemma mod67_table: "k < 64 \<Longrightarrow> Mod67Position ! (2 ^ k mod 67) = of_nat k"
proof -
  have "list_all (\<lambda>k. Mod67Position ! (2 ^ k mod 67) = of_nat k) [0..<64]"
    by (simp add: Mod67Position_def upt_rec)
  then show "k < 64 \<Longrightarrow> Mod67Position ! (2 ^ k mod 67) = of_nat k"
    by (simp add: list_all_iff)
qed


subsection \<open>The lowest set bit\<close>

definition lowest_bit :: "'w::len word \<Rightarrow> nat \<Rightarrow> bool" where
  "lowest_bit v k \<longleftrightarrow> bit v k \<and> (\<forall>j < k. \<not> bit v j)"

lemma lowest_bit_exists: "v \<noteq> 0 \<Longrightarrow> \<exists>k < LENGTH('w). lowest_bit v k" for v :: "'w::len word"
proof -
  assume "v \<noteq> 0"
  then obtain n where n: "bit v n" by (auto simp: bit_eq_iff)
  let ?k = "LEAST n. bit v n"
  have "bit v ?k" using n by (rule LeastI)
  moreover have "\<not> bit v j" if "j < ?k" for j using not_less_Least [OF that] .
  moreover have "?k < LENGTH('w)" using \<open>bit v ?k\<close> by (rule bit_imp_le_length)
  ultimately show ?thesis unfolding lowest_bit_def by blast
qed

lemma lowest_bit_unique: "lowest_bit v j \<Longrightarrow> lowest_bit v k \<Longrightarrow> j = k"
  unfolding lowest_bit_def by (meson linorder_neqE_nat)

lemma odd_word_and_minus: "odd w \<Longrightarrow> - w AND w = 1" for w :: "'w::len word"
proof -
  assume w: "odd w"
  then have b: "bit w 0" by (simp add: bit_0)
  have one: "bit (1 :: 'w word) n \<longleftrightarrow> n = 0" for n by (simp add: bit_1_iff)
  have "w = (w AND NOT 1) OR 1"
    using b by (intro bit_word_eqI) (auto simp: bit_or_iff bit_and_iff bit_not_iff one)
  moreover have "(w AND NOT 1) OR 1 = (w AND NOT 1) + 1"
    by (intro disjunctive_add [symmetric]) (auto simp: bit_and_iff bit_not_iff one)
  ultimately have "w = (w AND NOT 1) + 1" by (rule trans)
  then have "w - 1 = w AND NOT 1" unfolding diff_eq_eq .
  then have "- w = NOT (w AND NOT 1)" by (simp only: minus_eq_not_minus_1)
  then show "- w AND w = 1"
    using b by (intro bit_word_eqI) (auto simp: bit_or_iff bit_and_iff bit_not_iff one)
qed

lemma lowest_bit_and_minus:
  assumes "lowest_bit v k"
  shows "(1 + NOT v) AND v = 2 ^ k"
proof -
  let ?w = "drop_bit k v"
  have v: "v = push_bit k ?w"
  proof (intro bit_word_eqI)
    fix n
    assume "n < LENGTH('a)"
    then show "bit v n = bit (push_bit k ?w) n" using assms by (cases "k \<le> n") (simp_all add: bit_simps lowest_bit_def)
  qed
  have "odd ?w" using assms by (simp add: lowest_bit_def drop_bit_eq_div bit_iff_odd)
  then have "- ?w AND ?w = 1" by (rule odd_word_and_minus)
  have "1 + NOT v = - v" by (simp add: minus_eq_not_plus_1)
  also have "\<dots> = push_bit k (- ?w)" by (subst v) (simp add: push_bit_minus)
  finally have "(1 + NOT v) AND v = push_bit k (- ?w) AND push_bit k ?w" using v by simp
  also have "\<dots> = push_bit k (- ?w AND ?w)" by (simp only: push_bit_and)
  also have "\<dots> = 2 ^ k" using \<open>- ?w AND ?w = 1\<close> by (simp only: push_bit_of_1)
  finally show ?thesis .
qed

lemma unat_exp: "k < LENGTH('w) \<Longrightarrow> unat (2 ^ k :: 'w::len word) = 2 ^ k"
  using unat_of_nat [of "2 ^ k", where ?'a = 'w] by (simp add: take_bit_eq_mod)

lemma CountTrailingZeros_32_lowest:
  assumes "lowest_bit v k"
  shows "CountTrailingZeros_32 v = of_nat k"
proof -
  have k: "k < 32" using assms bit_imp_le_length [of v k] by (simp add: lowest_bit_def)
  have "unat ((2 :: u32) ^ k) = 2 ^ k" using k by (simp add: unat_exp)
  then show ?thesis
    unfolding CountTrailingZeros_32_def lowest_bit_and_minus [OF assms] using mod37_table [OF k] by (simp add: unat_mod)
qed

lemma CountTrailingZeros_64_lowest:
  assumes "lowest_bit v k"
  shows "CountTrailingZeros_64 v = of_nat k"
proof -
  have k: "k < 64" using assms bit_imp_le_length [of v k] by (simp add: lowest_bit_def)
  have "unat ((2 :: u64) ^ k) = 2 ^ k" using k by (simp add: unat_exp)
  then show ?thesis
    unfolding CountTrailingZeros_64_def lowest_bit_and_minus [OF assms] using mod67_table [OF k] by (simp add: unat_mod)
qed


subsection \<open>Leading zeros\<close>

text \<open>The bisection keeps \<open>V = V\<^sub>0 div 2 ^ (w - c - 2 s)\<close> for the shift \<open>s\<close> to come: the count is a multiple of
  \<open>2 s\<close>, so setting the bit \<open>s\<close> of it adds \<open>s\<close>.\<close>

lemma or_exp_add:
  assumes "2 ^ Suc k dvd c" "k < LENGTH('w)" "c < 2 ^ LENGTH('w)"
  shows "(of_nat c OR of_nat (2 ^ k) :: 'w::len word) = of_nat (c + 2 ^ k)"
proof -
  have nb: "\<not> bit c k"
  proof -
    obtain q where "c = 2 ^ Suc k * q" using assms(1) by (elim dvdE)
    then have "c div 2 ^ k = 2 * q" by simp
    then show ?thesis by (simp add: bit_iff_odd)
  qed
  have "(of_nat c :: 'w word) + of_nat (2 ^ k) = of_nat c OR of_nat (2 ^ k)"
  proof (intro disjunctive_add)
    fix n
    have "bit (of_nat (2 ^ k) :: 'w word) n \<longleftrightarrow> n = k" using assms(2) by (auto simp: bit_exp_iff possible_bit_word)
    moreover have "\<not> bit (of_nat c :: 'w word) k" using nb by (simp add: bit_of_nat_iff)
    ultimately show "\<not> bit (of_nat c :: 'w word) n \<or> \<not> bit (of_nat (2 ^ k) :: 'w word) n" by blast
  qed
  then show ?thesis by simp
qed

lemma unat_drop: "unat (drop_bit n v) = unat v div 2 ^ n"
  by (simp add: unat_drop_bit_eq drop_bit_eq_div [where ?'a = nat])

lemma clz_step:
  fixes V :: "'w::len word"
  assumes "V \<noteq> 0" "unat V < 2 ^ 2 ^ Suc k" "2 ^ Suc k dvd c" "c + 2 ^ Suc k \<le> N" "N < 2 ^ 32" "k < 32"
    "unat V = V0 div 2 ^ (N - c - 2 ^ Suc k)"
  shows "\<exists>V' c'. clz_loop (2 ^ k) V (of_nat c) = clz_loop (2 ^ k div 2) (V' :: 'w word) (of_nat c') \<and>
    V' \<noteq> 0 \<and> unat V' < 2 ^ 2 ^ k \<and> 2 ^ k dvd c' \<and> c' + 2 ^ k \<le> N \<and> unat V' = V0 div 2 ^ (N - c' - 2 ^ k)"
proof (cases "drop_bit (2 ^ k) V = 0")
  case False
  have "unat (drop_bit (2 ^ k) V) = unat V div 2 ^ 2 ^ k" by (simp add: unat_drop)
  moreover have "unat V div 2 ^ 2 ^ k < 2 ^ 2 ^ k"
    using assms(2) by (simp add: less_mult_imp_div_less mult_2 power_add)
  moreover have "unat V div 2 ^ 2 ^ k = V0 div 2 ^ (N - c - 2 ^ k)"
  proof -
    have "N - c - 2 ^ k = N - c - 2 ^ Suc k + 2 ^ k" using assms(4) by simp
    then show ?thesis unfolding assms(7) by (simp only: power_add div_mult2_eq)
  qed
  moreover have "2 ^ k dvd c" using assms(3) by (rule dvd_trans [rotated]) simp
  moreover have "clz_loop (2 ^ k) V (of_nat c) = clz_loop (2 ^ k div 2) (drop_bit (2 ^ k) V) (of_nat c)"
    using False by (subst clz_loop.simps) simp
  ultimately show ?thesis using False assms(4) by (intro exI [of _ "drop_bit (2 ^ k) V"] exI [of _ c]) simp
next
  case True
  have "unat V div 2 ^ 2 ^ k = unat (drop_bit (2 ^ k) V)" by (simp add: unat_drop)
  then have "unat V < 2 ^ 2 ^ k" using True by (simp add: div_eq_0_iff)
  moreover have "clz_loop (2 ^ k) V (of_nat c) = clz_loop (2 ^ k div 2) V (of_nat (c + 2 ^ k))"
    using True or_exp_add [OF assms(3), where ?'w = 32] assms(4-6) by (subst clz_loop.simps) simp
  moreover have "2 ^ k dvd c + 2 ^ k" using assms(3) by (intro dvd_add) (auto intro: dvd_trans [rotated])
  moreover have "N - (c + 2 ^ k) - 2 ^ k = N - c - 2 ^ Suc k" by simp
  ultimately show ?thesis using assms(1,4,7) by (intro exI [of _ V] exI [of _ "c + 2 ^ k"]) simp
qed

lemma clz_loop_spec:
  fixes V :: "'w::len word"
  assumes "V \<noteq> 0" "unat V < 2 ^ 2 ^ Suc k" "2 ^ Suc k dvd c" "c + 2 ^ Suc k \<le> N" "N < 2 ^ 32" "k < 32"
    "unat V = V0 div 2 ^ (N - c - 2 ^ Suc k)"
  shows "\<exists>r. clz_loop (2 ^ k) V (of_nat c) = of_nat r \<and> r < N \<and> 2 ^ (N - 1 - r) \<le> V0 \<and> V0 < 2 ^ (N - r)"
  using assms
proof (induction k arbitrary: V c)
  case 0
  obtain V' :: "'w word" and c' where s: "clz_loop (2 ^ 0) V (of_nat c) = clz_loop (2 ^ 0 div 2) V' (of_nat c')"
      "V' \<noteq> 0" "unat V' < 2 ^ 2 ^ 0" "c' + 2 ^ 0 \<le> N" "unat V' = V0 div 2 ^ (N - c' - 2 ^ 0)"
    using clz_step [OF 0] by blast
  have "unat V' \<noteq> 0" using s(2) by (simp add: unat_eq_0)
  then have one: "V0 div 2 ^ (N - 1 - c') = 1" using s(3,5) by simp
  then have "2 ^ (N - 1 - c') \<le> V0" by (metis div_less nat_le_linear not_less one_neq_zero)
  moreover have "V0 < 2 ^ Suc (N - 1 - c')"
    using one dividend_less_times_div [of "2 ^ (N - 1 - c')" V0] by simp
  moreover have "Suc (N - 1 - c') = N - c'" using s(4) by simp
  ultimately have "2 ^ (N - 1 - c') \<le> V0" "V0 < 2 ^ (N - c')" by (simp_all only:)
  then show ?case using s(1,4) by (intro exI [of _ c']) (simp add: clz_loop.simps [of 0])
next
  case (Suc k)
  obtain V' :: "'w word" and c' where s: "clz_loop (2 ^ Suc k) V (of_nat c) = clz_loop (2 ^ Suc k div 2) V' (of_nat c')"
      "V' \<noteq> 0" "unat V' < 2 ^ 2 ^ Suc k" "2 ^ Suc k dvd c'" "c' + 2 ^ Suc k \<le> N" "unat V' = V0 div 2 ^ (N - c' - 2 ^ Suc k)"
    using clz_step [OF Suc.prems] by blast
  then show ?case using Suc.IH [OF s(2-5) Suc.prems(5) _ s(6)] Suc.prems(6) by simp
qed

lemma CountLeadingZeros_32_spec:
  assumes "v \<noteq> 0"
  shows "\<exists>r. CountLeadingZeros_32 v = of_nat r \<and> r < 32 \<and> 2 ^ (31 - r) \<le> unat v \<and> unat v < 2 ^ (32 - r)"
  using clz_loop_spec [of v 4 0 32 "unat v"] assms unsigned_less [of v, where ?'a = nat] by (simp add: CountLeadingZeros_32_def)

lemma CountLeadingZeros_64_spec:
  assumes "v \<noteq> 0"
  shows "\<exists>r. CountLeadingZeros_64 v = of_nat r \<and> r < 64 \<and> 2 ^ (63 - r) \<le> unat v \<and> unat v < 2 ^ (64 - r)"
  using clz_loop_spec [of v 5 0 64 "unat v"] assms unsigned_less [of v, where ?'a = nat] by (simp add: CountLeadingZeros_64_def)


lemma leading_unique:
  fixes n :: nat
  assumes "2 ^ a \<le> n" "n < 2 ^ Suc a" "2 ^ b \<le> n" "n < 2 ^ Suc b"
  shows "a = b"
proof -
  have "(2::nat) ^ a < 2 ^ Suc b" "(2::nat) ^ b < 2 ^ Suc a" using assms by linarith+
  then have "a < Suc b" "b < Suc a" by (simp_all only: power_strict_increasing_iff one_less_numeral_iff semiring_norm)
  then show ?thesis by simp
qed

lemma CountLeadingZeros_64_halves_eq: "CountLeadingZeros_64_halves v = CountLeadingZeros_64 v"
proof (cases "v = 0")
  case False
  obtain r where r: "CountLeadingZeros_64 v = of_nat r" "r < 64" "2 ^ (63 - r) \<le> unat v" "unat v < 2 ^ (64 - r)"
    using CountLeadingZeros_64_spec [OF False] by blast
  have lo: "unat (Lo_32 v) = unat v mod 2 ^ 32" by (simp add: Lo_32_def unsigned_ucast_eq take_bit_eq_mod)
  have "unat (drop_bit 32 v) < 2 ^ 32"
    using unsigned_less [of v, where ?'a = nat] unfolding unat_drop by (simp add: less_mult_imp_div_less)
  then have hi: "unat (Hi_32 v) = unat v div 2 ^ 32"
    by (simp add: Hi_32_def unsigned_ucast_eq take_bit_eq_mod unat_drop)
  show ?thesis
  proof (cases "Hi_32 v = 0")
    case True
    then have v: "unat v < 2 ^ 32" using hi by (simp add: div_eq_0_iff)
    then have l: "unat (Lo_32 v) = unat v" using lo by simp
    then have "Lo_32 v \<noteq> 0" using False by (metis unat_eq_0)
    then obtain q where q: "CountLeadingZeros_32 (Lo_32 v) = of_nat q" "q < 32" "2 ^ (31 - q) \<le> unat v" "unat v < 2 ^ (32 - q)"
      using CountLeadingZeros_32_spec [of "Lo_32 v"] unfolding l by blast
    have "63 - r = 31 - q"
      using r(2-4) q(2-4) by (intro leading_unique [of _ "unat v"]) (simp_all add: Suc_diff_le [symmetric] del: power_Suc)
    then have "r = q + 32" using r(2) q(2) by linarith
    then show ?thesis using True q(1) r(1) by (simp add: CountLeadingZeros_64_halves_def)
  next
    case nz: False
    obtain q where q: "CountLeadingZeros_32 (Hi_32 v) = of_nat q" "q < 32" "2 ^ (31 - q) \<le> unat v div 2 ^ 32" "unat v div 2 ^ 32 < 2 ^ (32 - q)"
      using CountLeadingZeros_32_spec [OF nz] unfolding hi by blast
    have e: "63 - q = 31 - q + 32" "Suc (63 - q) = 32 - q + 32" using q(2) by simp_all
    have "2 ^ (63 - q) \<le> unat v"
      using q(3) unfolding e(1) power_add by (simp add: less_eq_div_iff_mult_less_eq)
    moreover have "unat v < 2 ^ Suc (63 - q)"
      using q(4) unfolding e(2) power_add by (simp add: div_less_iff_less_mult)
    ultimately have "63 - r = 63 - q"
      using r(2-4) by (intro leading_unique [of _ "unat v"]) (simp_all add: Suc_diff_le [symmetric] del: power_Suc)
    then have "r = q" using r(2) q(2) by linarith
    then show ?thesis using nz q(1) r(1) by (simp add: CountLeadingZeros_64_halves_def)
  qed
qed (simp add: CountLeadingZeros_64_halves_def CountLeadingZeros_64_def CountLeadingZeros_32_def Hi_32_def Lo_32_def)

subsection \<open>Other functions\<close>

lemma sign_extend_bit:
  fixes X :: "'w::len word"
  assumes "0 < B" "B \<le> LENGTH('w)"
  shows "signed_drop_bit (LENGTH('w) - B) (push_bit (LENGTH('w) - B) X) = signed_take_bit (B - 1) X"
proof (intro bit_word_eqI)
  fix n
  assume "n < LENGTH('w)"
  then show "bit (signed_drop_bit (LENGTH('w) - B) (push_bit (LENGTH('w) - B) X)) n = bit (signed_take_bit (B - 1) X) n"
    using assms by (cases "n = B - 1"; cases "n < B")
      (auto simp: bit_signed_drop_bit_iff bit_push_bit_iff bit_signed_take_bit_iff min_def possible_bit_word)
qed

lemma SignExtend_signed_take_bit:
  "0 < B \<Longrightarrow> B \<le> 32 \<Longrightarrow> SignExtend32 X B = signed_take_bit (B - 1) X"
  "0 < B \<Longrightarrow> B \<le> 64 \<Longrightarrow> SignExtend64 Y B = signed_take_bit (B - 1) Y"
  using sign_extend_bit [of B X] sign_extend_bit [of B Y] by (simp_all add: SignExtend32_def SignExtend64_def)

lemma GreatestCommonDivisor64_gcd: "unat (GreatestCommonDivisor64 A B) = gcd (unat A) (unat B)"
proof (induction A B rule: GreatestCommonDivisor64.induct)
  case (1 A B)
  then show ?case by (subst GreatestCommonDivisor64.simps) (auto simp: unat_mod gcd_red_nat [of "unat A"] unat_eq_0)
qed


lemma sint_signed_take_bit:
  fixes X :: "'w::len word"
  assumes "0 < B" "B \<le> LENGTH('w)"
  shows "sint (signed_take_bit (B - 1) X) = signed_take_bit (B - 1) (uint X)"
proof (intro bit_eqI)
  fix n
  show "bit (sint (signed_take_bit (B - 1) X)) n = bit (signed_take_bit (B - 1) (uint X)) n"
    using assms by (auto simp: bit_sint_iff bit_uint_iff bit_signed_take_bit_iff min_def possible_bit_word)
qed

text \<open>Sign extension of the \<open>B\<close> low bits gives the number that these bits stand for in two's
  complement, for every width from 1 up to that of the type.\<close>

theorem sign_extension_correct:
  assumes "0 < B"
  shows "(B \<le> 32 \<longrightarrow> sint (SignExtend32 X B) = signed_take_bit (B - 1) (uint X)) \<and>
    (B \<le> 64 \<longrightarrow> sint (SignExtend64 Y B) = signed_take_bit (B - 1) (uint Y))"
  using assms sint_signed_take_bit [of B X] sint_signed_take_bit [of B Y]
  by (simp add: SignExtend_signed_take_bit)

theorem sign_extension_correct_witness:
  "sint (SignExtend32 0xFFFFFE 24) = - 2"
proof -
  have "sint (SignExtend32 0xFFFFFE 24) = signed_take_bit 23 (uint (0xFFFFFE :: u32))"
    using sign_extension_correct [of 24 "0xFFFFFE"] by simp
  also have "\<dots> = - 2" by code_simp
  finally show ?thesis .
qed

text \<open>C34: The portable branches that count zeros agree with their documentation for every word: the
  trailing zeros, found by a table indexed by the lowest set bit modulo 37 or 67, are the position of
  the lowest set bit; the leading zeros, found by bisection, are the distance of the highest set bit
  from the top; both are the width for zero, and counting on 64 bits by halves gives the same.\<close>

theorem zero_counts_correct:
  "(if v = 0 then CountTrailingZeros_32 v = 32 \<and> CountLeadingZeros_32 v = 32
    else (\<exists>k < 32. CountTrailingZeros_32 v = of_nat k \<and> lowest_bit v k) \<and>
      (\<exists>r < 32. CountLeadingZeros_32 v = of_nat r \<and> 2 ^ (31 - r) \<le> unat v \<and> unat v < 2 ^ (32 - r))) \<and>
   (if w = 0 then CountTrailingZeros_64 w = 64 \<and> CountLeadingZeros_64 w = 64
    else (\<exists>k < 64. CountTrailingZeros_64 w = of_nat k \<and> lowest_bit w k) \<and>
      (\<exists>r < 64. CountLeadingZeros_64 w = of_nat r \<and> 2 ^ (63 - r) \<le> unat w \<and> unat w < 2 ^ (64 - r))) \<and>
   CountLeadingZeros_64_halves w = CountLeadingZeros_64 w"
proof -
  have t: "\<exists>k < 32. CountTrailingZeros_32 v = of_nat k \<and> lowest_bit v k" if "v \<noteq> 0"
    using lowest_bit_exists [OF that] CountTrailingZeros_32_lowest [of v] by auto
  have t': "\<exists>k < 64. CountTrailingZeros_64 w = of_nat k \<and> lowest_bit w k" if "w \<noteq> 0"
    using lowest_bit_exists [OF that] CountTrailingZeros_64_lowest [of w] by auto
  have z: "CountTrailingZeros_32 0 = 32" "CountLeadingZeros_32 0 = 32" "CountTrailingZeros_64 0 = 64" "CountLeadingZeros_64 0 = 64"
    by (simp_all add: CountTrailingZeros_32_def CountTrailingZeros_64_def CountLeadingZeros_32_def
        CountLeadingZeros_64_def Mod37BitPosition_def Mod67Position_def)
  show ?thesis
    using t t' z CountLeadingZeros_32_spec [of v] CountLeadingZeros_64_spec [of w] CountLeadingZeros_64_halves_eq [of w]
    by (auto split: if_splits)
qed

end
