(* ===== verification/ARM_Addressing.thy ===== *)
theory ARM_Addressing
  imports Math_Extras
begin

text \<open>The immediates and addressing modes of \<^verbatim>\<open>capstone/arch/ARM/ARMAddressingModes.h\<close>: how ARM and
  Thumb-2 fit constants into the operand fields of an instruction and how the operands of an
  \<^verbatim>\<open>MCInst\<close> pack an addressing mode.  An \<^verbatim>\<open>int\<close> result that may be \<open>-1\<close> is an option, \<open>None\<close>
  for \<open>-1\<close>; an enumeration is a datatype, and a cast to it is partial.\<close>

unbundle bit_operations_syntax

subsection \<open>Enumerations\<close>

datatype ARM_AM_ShiftOpc = ARM_AM_no_shift | ARM_AM_asr | ARM_AM_lsl | ARM_AM_lsr | ARM_AM_ror | ARM_AM_rrx

datatype ARM_AM_AddrOpc = ARM_AM_sub | ARM_AM_add

datatype ARM_AM_AMSubMode = ARM_AM_bad_am_submode | ARM_AM_ia | ARM_AM_ib | ARM_AM_da | ARM_AM_db

fun ShiftOpc_code :: "ARM_AM_ShiftOpc \<Rightarrow> u32" where
  "ShiftOpc_code ARM_AM_no_shift = 0"
| "ShiftOpc_code ARM_AM_asr = 1"
| "ShiftOpc_code ARM_AM_lsl = 2"
| "ShiftOpc_code ARM_AM_lsr = 3"
| "ShiftOpc_code ARM_AM_ror = 4"
| "ShiftOpc_code ARM_AM_rrx = 5"

definition ShiftOpc_of :: "u32 \<Rightarrow> ARM_AM_ShiftOpc option" where
  "ShiftOpc_of n =
     (if n = 0 then Some ARM_AM_no_shift else if n = 1 then Some ARM_AM_asr
      else if n = 2 then Some ARM_AM_lsl else if n = 3 then Some ARM_AM_lsr
      else if n = 4 then Some ARM_AM_ror else if n = 5 then Some ARM_AM_rrx else None)"

fun AMSubMode_code :: "ARM_AM_AMSubMode \<Rightarrow> u32" where
  "AMSubMode_code ARM_AM_bad_am_submode = 0"
| "AMSubMode_code ARM_AM_ia = 1"
| "AMSubMode_code ARM_AM_ib = 2"
| "AMSubMode_code ARM_AM_da = 3"
| "AMSubMode_code ARM_AM_db = 4"

definition AMSubMode_of :: "u32 \<Rightarrow> ARM_AM_AMSubMode option" where
  "AMSubMode_of n =
     (if n = 0 then Some ARM_AM_bad_am_submode else if n = 1 then Some ARM_AM_ia
      else if n = 2 then Some ARM_AM_ib else if n = 3 then Some ARM_AM_da
      else if n = 4 then Some ARM_AM_db else None)"

fun ARM_AM_getAddrOpcStr :: "ARM_AM_AddrOpc \<Rightarrow> string" where
  "ARM_AM_getAddrOpcStr ARM_AM_sub = ''-''"
| "ARM_AM_getAddrOpcStr ARM_AM_add = ''''"

fun ARM_AM_getShiftOpcStr :: "ARM_AM_ShiftOpc \<Rightarrow> string" where
  "ARM_AM_getShiftOpcStr ARM_AM_no_shift = ''''"
| "ARM_AM_getShiftOpcStr ARM_AM_asr = ''asr''"
| "ARM_AM_getShiftOpcStr ARM_AM_lsl = ''lsl''"
| "ARM_AM_getShiftOpcStr ARM_AM_lsr = ''lsr''"
| "ARM_AM_getShiftOpcStr ARM_AM_ror = ''ror''"
| "ARM_AM_getShiftOpcStr ARM_AM_rrx = ''rrx''"

fun ARM_AM_getShiftOpcEncoding :: "ARM_AM_ShiftOpc \<Rightarrow> u32" where
  "ARM_AM_getShiftOpcEncoding ARM_AM_asr = 2"
| "ARM_AM_getShiftOpcEncoding ARM_AM_lsl = 0"
| "ARM_AM_getShiftOpcEncoding ARM_AM_lsr = 1"
| "ARM_AM_getShiftOpcEncoding ARM_AM_ror = 3"
| "ARM_AM_getShiftOpcEncoding Op = - 1"

fun ARM_AM_getAMSubModeStr :: "ARM_AM_AMSubMode \<Rightarrow> string" where
  "ARM_AM_getAMSubModeStr ARM_AM_bad_am_submode = ''''"
| "ARM_AM_getAMSubModeStr ARM_AM_ia = ''ia''"
| "ARM_AM_getAMSubModeStr ARM_AM_ib = ''ib''"
| "ARM_AM_getAMSubModeStr ARM_AM_da = ''da''"
| "ARM_AM_getAMSubModeStr ARM_AM_db = ''db''"

subsection \<open>Rotations and shifter operands\<close>

definition rotr32 :: "u32 \<Rightarrow> u32 \<Rightarrow> u32" where
  "rotr32 Val Amt = drop_bit (unat Amt) Val OR push_bit (unat ((32 - Amt) AND 31)) Val"

definition rotl32 :: "u32 \<Rightarrow> u32 \<Rightarrow> u32" where
  "rotl32 Val Amt = push_bit (unat Amt) Val OR drop_bit (unat ((32 - Amt) AND 31)) Val"

definition getSORegOpc :: "ARM_AM_ShiftOpc \<Rightarrow> u32 \<Rightarrow> u32" where
  "getSORegOpc ShOp Imm = ShiftOpc_code ShOp OR push_bit 3 Imm"

definition getSORegOffset :: "u32 \<Rightarrow> u32" where
  "getSORegOffset Op = drop_bit 3 Op"

definition ARM_AM_getSORegShOp :: "u32 \<Rightarrow> ARM_AM_ShiftOpc option" where
  "ARM_AM_getSORegShOp Op = ShiftOpc_of (Op AND 7)"

definition getSOImmValImm :: "u32 \<Rightarrow> u32" where
  "getSOImmValImm Imm = Imm AND 0xFF"

definition getSOImmValRot :: "u32 \<Rightarrow> u32" where
  "getSOImmValRot Imm = drop_bit 8 Imm * 2"

definition getSOImmValRotate :: "u32 \<Rightarrow> u32" where
  "getSOImmValRotate Imm =
     (if Imm AND NOT 255 = 0 then 0
      else
        (let TZ = CountTrailingZeros_32 Imm;
             RotAmt = TZ AND NOT 1
         in if rotr32 Imm RotAmt AND NOT 255 = 0 then (32 - RotAmt) AND 31
            else if Imm AND 63 \<noteq> 0 then
              (let TZ2 = CountTrailingZeros_32 (Imm AND NOT 63);
                   RotAmt2 = TZ2 AND NOT 1
               in if rotr32 Imm RotAmt2 AND NOT 255 = 0 then (32 - RotAmt2) AND 31
                  else (32 - RotAmt) AND 31)
            else (32 - RotAmt) AND 31))"

definition getSOImmVal :: "u32 \<Rightarrow> u32 option" where
  "getSOImmVal Arg =
     (if Arg AND NOT 255 = 0 then Some Arg
      else
        (let RotAmt = getSOImmValRotate Arg
         in if rotr32 (NOT 255) RotAmt AND Arg \<noteq> 0 then None
            else Some (rotl32 Arg RotAmt OR push_bit 8 (drop_bit 1 RotAmt))))"

definition isSOImmTwoPartVal :: "u32 \<Rightarrow> bool" where
  "isSOImmTwoPartVal V0 =
     (let V = rotr32 (NOT 255) (getSOImmValRotate V0) AND V0
      in if V = 0 then False
         else let V' = rotr32 (NOT 255) (getSOImmValRotate V) AND V in V' = 0)"

definition getSOImmTwoPartFirst :: "u32 \<Rightarrow> u32" where
  "getSOImmTwoPartFirst V = rotr32 255 (getSOImmValRotate V) AND V"

definition getSOImmTwoPartSecond :: "u32 \<Rightarrow> u32" where
  "getSOImmTwoPartSecond V = rotr32 (NOT 255) (getSOImmValRotate V) AND V"

definition getThumbImmValShift :: "u32 \<Rightarrow> u32" where
  "getThumbImmValShift Imm = (if Imm AND NOT 255 = 0 then 0 else CountTrailingZeros_32 Imm)"

definition isThumbImmShiftedVal :: "u32 \<Rightarrow> bool" where
  "isThumbImmShiftedVal V \<longleftrightarrow> push_bit (unat (getThumbImmValShift V)) (NOT 255) AND V = 0"

definition getThumbImm16ValShift :: "u32 \<Rightarrow> u32" where
  "getThumbImm16ValShift Imm = (if Imm AND NOT 65535 = 0 then 0 else CountTrailingZeros_32 Imm)"

definition isThumbImm16ShiftedVal :: "u32 \<Rightarrow> bool" where
  "isThumbImm16ShiftedVal V \<longleftrightarrow> push_bit (unat (getThumbImm16ValShift V)) (NOT 65535) AND V = 0"

definition getThumbImmNonShiftedVal :: "u32 \<Rightarrow> u32" where
  "getThumbImmNonShiftedVal V = drop_bit (unat (getThumbImmValShift V)) V"

subsection \<open>Modified immediates of Thumb-2\<close>

definition getT2SOImmValSplatVal :: "u32 \<Rightarrow> u32 option" where
  "getT2SOImmValSplatVal V =
     (if V AND 0xffffff00 = 0 then Some V
      else
        (let Vs = (if V AND 0xff = 0 then drop_bit 8 V else V);
             Imm = Vs AND 0xff;
             u = Imm OR push_bit 16 Imm
         in if Vs = u then Some (push_bit 8 (if Vs = V then 1 else 2) OR Imm)
            else if Vs = u OR push_bit 8 u then Some (push_bit 8 3 OR Imm)
            else None))"

definition getT2SOImmValRotateVal :: "u32 \<Rightarrow> u32 option" where
  "getT2SOImmValRotateVal V =
     (let RotAmt = CountLeadingZeros_32 V
      in if RotAmt \<ge> 24 then None
         else if rotr32 0xff000000 RotAmt AND V = V then
           Some ((rotr32 V (24 - RotAmt) AND 0x7f) OR push_bit 7 (RotAmt + 8))
         else None)"

definition getT2SOImmVal :: "u32 \<Rightarrow> u32 option" where
  "getT2SOImmVal Arg =
     (case getT2SOImmValSplatVal Arg of
        Some Splat \<Rightarrow> Some Splat
      | None \<Rightarrow> (case getT2SOImmValRotateVal Arg of Some Rot \<Rightarrow> Some Rot | None \<Rightarrow> None))"

definition getT2SOImmValRotate :: "u32 \<Rightarrow> u32" where
  "getT2SOImmValRotate V =
     (if V AND NOT 255 = 0 then 0
      else let RotAmt = CountTrailingZeros_32 V in (32 - RotAmt) AND 31)"

definition isT2SOImmTwoPartVal :: "u32 \<Rightarrow> bool" where
  "isT2SOImmTwoPartVal Imm =
     (if getT2SOImmValSplatVal Imm \<noteq> None then False
      else
        (let V = rotr32 (NOT 255) (getT2SOImmValRotate Imm) AND Imm
         in if V = 0 then False
            else if getT2SOImmVal V \<noteq> None then True
            else
              (let V = (if getT2SOImmValSplatVal (Imm AND 0xff00ff00) \<noteq> None then Imm AND NOT 0xff00ff00
                        else if getT2SOImmValSplatVal (Imm AND 0x00ff00ff) \<noteq> None then Imm AND NOT 0x00ff00ff
                        else Imm)
               in getT2SOImmVal V \<noteq> None)))"

definition getT2SOImmTwoPartFirst :: "u32 \<Rightarrow> u32" where
  "getT2SOImmTwoPartFirst Imm =
     (let V = rotr32 (NOT 255) (getT2SOImmValRotate Imm) AND Imm
      in if getT2SOImmVal V \<noteq> None then V
         else if getT2SOImmValSplatVal (Imm AND 0xff00ff00) \<noteq> None then Imm AND 0xff00ff00
         else Imm AND 0x00ff00ff)"

definition getT2SOImmTwoPartSecond :: "u32 \<Rightarrow> u32" where
  "getT2SOImmTwoPartSecond Imm = Imm XOR getT2SOImmTwoPartFirst Imm"

subsection \<open>Addressing modes\<close>

definition isSub_bit :: "ARM_AM_AddrOpc \<Rightarrow> u32" where
  "isSub_bit Opc = (if Opc = ARM_AM_sub then 1 else 0)"

definition ARM_AM_getAM2Opc :: "ARM_AM_AddrOpc \<Rightarrow> u32 \<Rightarrow> ARM_AM_ShiftOpc \<Rightarrow> u32 \<Rightarrow> u32" where
  "ARM_AM_getAM2Opc Opc Imm12 SO IdxMode =
     Imm12 OR push_bit 12 (isSub_bit Opc) OR push_bit 13 (ShiftOpc_code SO) OR push_bit 16 IdxMode"

definition getAM2Offset :: "u32 \<Rightarrow> u32" where
  "getAM2Offset AM2Opc = AM2Opc AND (push_bit 12 1 - 1)"

definition getAM2Op :: "u32 \<Rightarrow> ARM_AM_AddrOpc" where
  "getAM2Op AM2Opc = (if drop_bit 12 AM2Opc AND 1 \<noteq> 0 then ARM_AM_sub else ARM_AM_add)"

definition getAM2ShiftOpc :: "u32 \<Rightarrow> ARM_AM_ShiftOpc option" where
  "getAM2ShiftOpc AM2Opc = ShiftOpc_of (drop_bit 13 AM2Opc AND 7)"

definition getAM2IdxMode :: "u32 \<Rightarrow> u32" where
  "getAM2IdxMode AM2Opc = drop_bit 16 AM2Opc"

definition getAM3Opc :: "ARM_AM_AddrOpc \<Rightarrow> 8 word \<Rightarrow> u32 \<Rightarrow> u32" where
  "getAM3Opc Opc Offset IdxMode = push_bit 8 (isSub_bit Opc) OR ucast Offset OR push_bit 9 IdxMode"

definition getAM3Offset :: "u32 \<Rightarrow> 8 word" where
  "getAM3Offset AM3Opc = ucast (AM3Opc AND 0xFF)"

definition getAM3Op :: "u32 \<Rightarrow> ARM_AM_AddrOpc" where
  "getAM3Op AM3Opc = (if drop_bit 8 AM3Opc AND 1 \<noteq> 0 then ARM_AM_sub else ARM_AM_add)"

definition getAM3IdxMode :: "u32 \<Rightarrow> u32" where
  "getAM3IdxMode AM3Opc = drop_bit 9 AM3Opc"

definition getAM4SubMode :: "u32 \<Rightarrow> ARM_AM_AMSubMode option" where
  "getAM4SubMode Mode = AMSubMode_of (Mode AND 0x7)"

definition getAM4ModeImm :: "ARM_AM_AMSubMode \<Rightarrow> u32" where
  "getAM4ModeImm SubMode = AMSubMode_code SubMode"

definition ARM_AM_getAM5Opc :: "ARM_AM_AddrOpc \<Rightarrow> 8 word \<Rightarrow> u32" where
  "ARM_AM_getAM5Opc Opc Offset = push_bit 8 (isSub_bit Opc) OR ucast Offset"

definition ARM_AM_getAM5Offset :: "u32 \<Rightarrow> 8 word" where
  "ARM_AM_getAM5Offset AM5Opc = ucast (AM5Opc AND 0xFF)"

definition ARM_AM_getAM5Op :: "u32 \<Rightarrow> ARM_AM_AddrOpc" where
  "ARM_AM_getAM5Op AM5Opc = (if drop_bit 8 AM5Opc AND 1 \<noteq> 0 then ARM_AM_sub else ARM_AM_add)"

subsection \<open>NEON and floating-point immediates\<close>

definition createNEONModImm :: "u32 \<Rightarrow> u32 \<Rightarrow> u32" where
  "createNEONModImm OpCmode Val = push_bit 8 OpCmode OR Val"

definition getNEONModImmOpCmode :: "u32 \<Rightarrow> u32" where
  "getNEONModImmOpCmode ModImm = drop_bit 8 ModImm AND 0x1f"

definition getNEONModImmVal :: "u32 \<Rightarrow> u32" where
  "getNEONModImmVal ModImm = ModImm AND 0xff"

text \<open>The byte mask of the 64-bit form: byte \<open>i\<close> is \<open>0xff\<close> when bit \<open>i\<close> of the immediate is set.\<close>

definition neon_byte_mask :: "u32 \<Rightarrow> u64" where
  "neon_byte_mask ModImm =
     fold (\<lambda>ByteNum Val. if drop_bit ByteNum ModImm AND 1 \<noteq> 0 then Val OR push_bit (8 * ByteNum) 0xff else Val)
       [0..<8] 0"

text \<open>The value and the number of bits of an element; \<open>None\<close> stands for the unsupported encodings, where
  the code returns 0 and leaves \<^verbatim>\<open>*EltBits\<close> as it was.\<close>

definition ARM_AM_decodeNEONModImm :: "u32 \<Rightarrow> (u64 \<times> nat) option" where
  "ARM_AM_decodeNEONModImm ModImm =
     (let OpCmode = getNEONModImmOpCmode ModImm;
          Imm8 = getNEONModImmVal ModImm
      in if OpCmode = 0xe then Some (ucast Imm8, 8)
         else if OpCmode AND 0xc = 0x8 then
           (let ByteNum = unat (drop_bit 1 (OpCmode AND 0x6)) in Some (push_bit (8 * ByteNum) (ucast Imm8), 16))
         else if OpCmode AND 0x8 = 0 then
           (let ByteNum = unat (drop_bit 1 (OpCmode AND 0x6)) in Some (push_bit (8 * ByteNum) (ucast Imm8), 32))
         else if OpCmode AND 0xe = 0xc then
           (let ByteNum = unat (1 + (OpCmode AND 0x1))
            in Some (ucast (push_bit (8 * ByteNum) Imm8 OR drop_bit (8 * (2 - ByteNum)) 0xffff), 32))
         else if OpCmode = 0x1e then Some (neon_byte_mask ModImm, 64)
         else None)"

text \<open>The bits of the single-precision number that an 8-bit immediate stands for.\<close>

definition getFPImmFloat :: "u32 \<Rightarrow> u32" where
  "getFPImmFloat Imm =
     (let Sign = drop_bit 7 Imm AND 0x1;
          Exp = drop_bit 4 Imm AND 0x7;
          Mantissa = Imm AND 0xf
      in push_bit 31 Sign OR push_bit 30 (if Exp AND 0x4 \<noteq> 0 then 0 else 1)
         OR push_bit 25 (if Exp AND 0x4 \<noteq> 0 then 0x1f else 0)
         OR push_bit 23 (Exp AND 0x3) OR push_bit 19 Mantissa)"

subsection \<open>Rotations\<close>

lemma unat_and_mask: "unat (x AND mask n) = unat x mod 2 ^ n"
  by (simp only: take_bit_eq_mask [symmetric] unsigned_take_bit_eq) (simp add: take_bit_eq_mod)

lemma unat_small: "a < 32 \<Longrightarrow> unat (of_nat a :: u32) = a"
  by (simp add: unat_of_nat take_bit_nat_eq_self)

lemma bit_u32_less: "bit v n \<Longrightarrow> n < 32" for v :: u32
  using bit_imp_le_length [of v n] by simp

lemma rotate_back:
  assumes "a < 32"
  shows "unat ((32 - of_nat a :: u32) AND 31) = (32 - a) mod 32"
proof -
  have "unat (32 - of_nat a :: u32) = 32 - a"
    using assms by (subst unat_sub) (simp_all add: unat_small word_le_nat_alt)
  moreover have "(31 :: u32) = mask 5" by (simp add: mask_eq_exp_minus_1)
  ultimately show ?thesis using unat_and_mask [of "32 - of_nat a :: u32" 5] by simp
qed

lemma rotate_index:
  fixes v :: u32
  assumes "a < 32" "n < 32"
  shows "bit v (a + n) \<or> (32 - a) mod 32 \<le> n \<and> bit v (n - (32 - a) mod 32) \<longleftrightarrow> bit v ((n + a) mod 32)"
proof -
  consider "a = 0" | "0 < a" "n + a < 32" | "32 \<le> n + a" by linarith
  then show ?thesis
  proof cases
    case 3
    then have "(n + a) mod 32 = n + a - 32" "(32 - a) mod 32 = 32 - a" "n - (32 - a) = n + a - 32" "\<not> bit v (a + n)"
      using assms bit_u32_less [of v "a + n"] by (auto simp: mod_if)
    moreover have "32 - a \<le> n" using 3 by simp
    ultimately show ?thesis by simp
  qed (use assms in \<open>auto simp: add.commute\<close>)
qed

lemma rotr32_word_rotr: "a < 32 \<Longrightarrow> rotr32 v (of_nat a) = word_rotr a v"
proof (intro bit_word_eqI)
  fix n
  assume a: "a < 32" and "n < LENGTH(32)"
  then have n: "n < 32" by simp
  show "bit (rotr32 v (of_nat a)) n = bit (word_rotr a v) n"
    using rotate_index [OF a n, of v] n
    by (simp add: rotr32_def rotate_back [OF a] unat_small [OF a] bit_or_iff bit_drop_bit_eq bit_push_bit_iff bit_word_rotr_iff possible_bit_word)
qed

lemma rotl32_rotr32: "0 < a \<Longrightarrow> a < 32 \<Longrightarrow> rotl32 v (of_nat a) = rotr32 v (of_nat (32 - a))"
  using rotate_back [of a] rotate_back [of "32 - a"] unat_small [of "32 - a"]
  by (simp add: rotl32_def rotr32_def unat_small or.commute del: of_nat_diff)

lemma word_rotr_32: "word_rotr 32 v = v" for v :: u32
  by (intro bit_word_eqI) (simp add: bit_word_rotr_iff)

lemma rotl32_word_rotl: "a < 32 \<Longrightarrow> rotl32 v (of_nat a) = word_rotl a v"
  using rotl32_rotr32 [of a v] rotr32_word_rotr [of "32 - a" v] 
  by (cases "a = 0") (simp_all add: rotl32_def word_rotl_eq_word_rotr word_rotr_32 del: of_nat_diff)

lemma bit_not_255: "bit (NOT 255 :: u32) n \<longleftrightarrow> 8 \<le> n \<and> n < 32"
proof -
  have m: "(255 :: u32) = mask 8" by (simp add: mask_eq_exp_minus_1)
  show ?thesis unfolding m bit_not_iff bit_mask_iff by (auto simp: possible_bit_word)
qed

lemma and_not_255: "v AND NOT 255 = 0 \<longleftrightarrow> (\<forall>i. bit v i \<longrightarrow> i < 8)" for v :: u32
proof -
  have "v AND NOT 255 = 0 \<longleftrightarrow> (\<forall>i. \<not> (bit v i \<and> bit (NOT 255 :: u32) i))"
    by (simp only: bit_eq_iff bit_and_iff bit_0_eq bot_fun_def bot_bool_def) simp
  then show ?thesis unfolding bit_not_255 using bit_u32_less [of v] by (auto simp: not_le)
qed

text \<open>Rotated right by \<open>a\<close>, a word fits into eight bits when its bits lie in a window that starts at \<open>a\<close>.\<close>

definition window :: "u32 \<Rightarrow> nat \<Rightarrow> bool" where
  "window v a \<longleftrightarrow> (\<forall>i. bit v i \<longrightarrow> (i + 32 - a) mod 32 < 8)"

lemma window_iff:
  assumes "a < 32"
  shows "rotr32 v (of_nat a) AND NOT 255 = 0 \<longleftrightarrow> window v a"
proof -
  have b: "bit (rotr32 v (of_nat a)) n \<longleftrightarrow> n < 32 \<and> bit v ((n + a) mod 32)" for n
    unfolding rotr32_word_rotr [OF assms] by (auto simp: bit_word_rotr_iff)
  show ?thesis unfolding and_not_255 b window_def
  proof (intro iffI allI impI)
    fix i
    assume h: "\<forall>i. i < 32 \<and> bit v ((i + a) mod 32) \<longrightarrow> i < 8" and i: "bit v i"
    have "((i + 32 - a) mod 32 + a) mod 32 = i"
    proof -
      have "((i + 32 - a) mod 32 + a) mod 32 = (i + 32 - a + a) mod 32" by (simp only: mod_add_left_eq)
      also have "\<dots> = i" using assms bit_u32_less [OF i] by simp
      finally show ?thesis .
    qed
    then show "(i + 32 - a) mod 32 < 8" using h [rule_format, of "(i + 32 - a) mod 32"] i by simp
  next
    fix n
    assume h: "\<forall>i. bit v i \<longrightarrow> (i + 32 - a) mod 32 < 8" and n: "n < 32 \<and> bit v ((n + a) mod 32)"
    have "((n + a) mod 32 + 32 - a) mod 32 = n"
    proof (cases "n + a < 32")
      case False
      then have "n + a - 32 < 32" using assms n by linarith
      then have "(n + a) mod 32 = n + a - 32" using False by (simp add: mod_if)
      then show ?thesis using False n by simp
    qed (use n in simp)
    then show "n < 8" using h n by metis
  qed
qed

subsection \<open>Shifter-operand immediates\<close>

lemma of_nat_and_not_1: "(of_nat k :: u32) AND NOT 1 = of_nat (2 * (k div 2))"
proof (intro bit_word_eqI)
  fix n
  have e: "2 * (k div 2) = push_bit 1 (drop_bit 1 k)" by (simp add: push_bit_eq_mult drop_bit_eq_div)
  have "bit (2 * (k div 2)) n \<longleftrightarrow> n \<noteq> 0 \<and> bit k n"
    unfolding e bit_push_bit_iff bit_drop_bit_eq by (cases n) auto
  moreover assume "n < LENGTH(32)"
  moreover have "bit (NOT 1 :: u32) n \<longleftrightarrow> n < 32 \<and> n \<noteq> 0" by (auto simp: bit_not_iff bit_1_iff possible_bit_word simp del: not_one_eq)
  ultimately show "bit ((of_nat k :: u32) AND NOT 1) n = bit (of_nat (2 * (k div 2)) :: u32) n"
    by (simp only: bit_and_iff bit_of_nat_iff possible_bit_word) auto
qed

lemma rotate_back_of_nat: "r < 32 \<Longrightarrow> (32 - of_nat r :: u32) AND 31 = of_nat ((32 - r) mod 32)"
  unfolding word_unat_eq_iff by (simp only: rotate_back) (simp add: unat_small)

lemma word_rotr_0: "word_rotr 0 v = v" for v :: u32
  by (intro bit_word_eqI) (simp add: bit_word_rotr_iff)

lemma word_rotl_back: "r < 32 \<Longrightarrow> word_rotl ((32 - r) mod 32) v = word_rotr r v" for v :: u32
  by (cases "r = 0") (simp_all add: word_rotl_eq_word_rotr word_rotr_32 word_rotr_0)

lemma rotr32_mask_iff:
  assumes "r < 32"
  shows "rotr32 (NOT 255) (of_nat ((32 - r) mod 32)) AND v = 0 \<longleftrightarrow> window v r"
proof -
  let ?R = "(32 - r) mod 32"
  have "word_rotr ?R (NOT 255) AND v = word_rotr ?R (NOT 255 AND word_rotl ?R v)"
    by (simp only: word_rot_logs word_rot_lr)
  also have "\<dots> = 0 \<longleftrightarrow> NOT 255 AND word_rotl ?R v = 0" by (metis word_rot_rl word_rotx_0)
  also have "\<dots> \<longleftrightarrow> word_rotr r v AND NOT 255 = 0" by (simp only: word_rotl_back [OF assms] and.commute)
  finally show ?thesis unfolding window_iff [OF assms, symmetric] by (simp only: rotr32_word_rotr assms mod_less_divisor zero_less_numeral)
qed

lemma window_lowest:
  assumes "window v w" "even w" "w \<le> 24" "lowest_bit v k"
  shows "window v (2 * (k div 2))"
proof -
  have k: "bit v k" "\<And>j. bit v j \<Longrightarrow> k \<le> j" using assms(4) by (auto simp: lowest_bit_def not_less)
  have in_w: "w \<le> i \<and> i < w + 8" if "bit v i" for i
  proof -
    have "(i + 32 - w) mod 32 < 8" "i < 32" using assms(1) that bit_u32_less [OF that] by (auto simp: window_def)
    then show ?thesis using assms(3) by (cases "w \<le> i") (auto simp: mod_if split: if_splits)
  qed
  have "w \<le> 2 * (k div 2)" using in_w [OF k(1)] assms(2) by presburger
  moreover have "2 * (k div 2) \<le> i" if "bit v i" for i using k(2) [OF that] by presburger
  ultimately show ?thesis unfolding window_def
  proof (intro allI impI)
    fix i
    assume h: "\<And>i. bit v i \<Longrightarrow> 2 * (k div 2) \<le> i" "w \<le> 2 * (k div 2)" and i: "bit v i"
    have "(i + 32 - 2 * (k div 2)) = i - 2 * (k div 2) + 32" using h(1) [OF i] by simp
    then have "(i + 32 - 2 * (k div 2)) mod 32 = i - 2 * (k div 2)"
      using bit_u32_less [OF i] by (simp only: mod_add_self2) simp
    then show "(i + 32 - 2 * (k div 2)) mod 32 < 8" using in_w [OF i] h(2) h(1) [OF i] by linarith
  qed
qed


text \<open>A window that wraps around: the retry ignores the six low bits.\<close>

lemma bit_not_63: "bit (v AND NOT 63) i \<longleftrightarrow> bit v i \<and> 6 \<le> i" for v :: u32
proof -
  have m: "(63 :: u32) = mask 6" by (simp add: mask_eq_exp_minus_1)
  show ?thesis unfolding m bit_and_iff bit_not_iff bit_mask_iff using bit_u32_less [of v i] by (auto simp: possible_bit_word)
qed

lemma and_63_zero: "v AND 63 = 0 \<longleftrightarrow> (\<forall>i. bit v i \<longrightarrow> 6 \<le> i)" for v :: u32
proof -
  have m: "(63 :: u32) = mask 6" by (simp add: mask_eq_exp_minus_1)
  have "v AND 63 = 0 \<longleftrightarrow> (\<forall>i. \<not> bit (v AND mask 6) i)"
    unfolding m by (simp only: bit_eq_iff bit_0_eq bot_fun_def bot_bool_def) (use bit_u32_less in auto)
  then show ?thesis unfolding bit_and_iff bit_mask_iff by (auto simp: possible_bit_word dest: bit_u32_less)
qed

lemma window_wrap_bit:
  assumes "window v w" "24 < w" "w < 32" "even w" "bit v i"
  shows "w \<le> i \<or> i + 25 \<le> w"
proof -
  have i: "(i + 32 - w) mod 32 < 8" "i < 32" using assms(1,5) bit_u32_less [OF assms(5)] by (auto simp: window_def)
  show ?thesis
  proof (cases "w \<le> i")
    case False
    then have "(i + 32 - w) mod 32 = i + 32 - w" by simp
    then show ?thesis using i(1) by linarith
  qed simp
qed

lemma window_wrap:
  assumes "window v w" "24 < w" "w < 32" "even w" "w \<le> r" "r < 32" "\<And>i. bit v i \<Longrightarrow> 6 \<le> i \<Longrightarrow> r \<le> i"
  shows "window v r"
  unfolding window_def
proof (intro allI impI)
  fix i
  assume i: "bit v i"
  have "w < 31" using assms(3,4) by presburger
  consider "6 \<le> i" | "i + 25 \<le> w" using window_wrap_bit [OF assms(1-4) i] assms(2) by linarith
  then show "(i + 32 - r) mod 32 < 8"
  proof cases
    case 1
    then have "r \<le> i" by (rule assms(7) [OF i])
    then have "i + 32 - r = i - r + 32" "i - r < 8" using assms(2,5) bit_u32_less [OF i] by linarith+
    then show ?thesis by (simp only: mod_add_self2)
  next
    case 2
    then have "i + 32 - r < 8" using assms(5) by linarith
    then show ?thesis by simp
  qed
qed


text \<open>\<^verbatim>\<open>getSOImmValRotate\<close> returns an even rotation, and one that works if any does.\<close>

definition encodable :: "u32 \<Rightarrow> bool" where
  "encodable v \<longleftrightarrow> (\<exists>w < 32. even w \<and> window v w)"

lemma ctz_even:
  assumes "lowest_bit v k"
  shows "CountTrailingZeros_32 v AND NOT 1 = of_nat (2 * (k div 2))" "2 * (k div 2) < 32"
  using CountTrailingZeros_32_lowest [OF assms] of_nat_and_not_1 [of k] bit_u32_less [of v k] assms
  by (auto simp: lowest_bit_def)

lemma getSOImmValRotate_eq:
  assumes "v AND NOT 255 \<noteq> 0" "CountTrailingZeros_32 v AND NOT 1 = of_nat r" "r < 32"
  shows "getSOImmValRotate v =
    (if window v r then of_nat ((32 - r) mod 32)
     else if v AND 63 \<noteq> 0 then
       (let q = CountTrailingZeros_32 (v AND NOT 63) AND NOT 1
        in if rotr32 v q AND NOT 255 = 0 then (32 - q) AND 31 else of_nat ((32 - r) mod 32))
     else of_nat ((32 - r) mod 32))"
  by (simp only: getSOImmValRotate_def assms(1,2) if_False Let_def window_iff [OF assms(3)] rotate_back_of_nat [OF assms(3)])

lemma lowest_above_63:
  fixes v :: u32
  assumes "v AND NOT 255 \<noteq> 0"
  shows "\<exists>k. lowest_bit (v AND NOT 63) k"
proof -
  obtain i where i: "bit v i" "8 \<le> i" using assms unfolding and_not_255 by (auto simp: not_less)
  then have "bit (v AND NOT 63) i" unfolding bit_not_63 by simp
  then have "v AND NOT 63 \<noteq> 0" by (metis bit_0_eq bot_apply bot_bool_def)
  then show ?thesis using lowest_bit_exists by blast
qed

lemma window_lowest_wrap:
  assumes "window v w" "even w" "w < 32" "24 < w" "lowest_bit (v AND NOT 63) k"
  shows "window v (2 * (k div 2))"
proof -
  have kb: "bit v k" "6 \<le> k" "\<And>j. bit v j \<Longrightarrow> 6 \<le> j \<Longrightarrow> k \<le> j"
    using assms(5) unfolding lowest_bit_def bit_not_63 by (auto simp: not_less)
  have "w \<le> k" using window_wrap_bit [OF assms(1,4,3,2) kb(1)] kb(2) assms(2,3) by presburger
  then have "w \<le> 2 * (k div 2)" using assms(2) by presburger
  moreover have "2 * (k div 2) < 32" using bit_u32_less [OF kb(1)] by presburger
  moreover have "2 * (k div 2) \<le> j" if "bit v j" "6 \<le> j" for j using kb(3) [OF that] by presburger
  ultimately show ?thesis by (intro window_wrap [OF assms(1,4,3,2)])
qed

lemma encodable_cases:
  assumes "encodable v" "lowest_bit v k" "lowest_bit (v AND NOT 63) k'"
  shows "window v (2 * (k div 2)) \<or> window v (2 * (k' div 2))"
proof -
  obtain w where w: "w < 32" "even w" "window v w" using assms(1) by (auto simp: encodable_def)
  show ?thesis
  proof (cases "w \<le> 24")
    case True
    then show ?thesis using window_lowest [OF w(3,2) _ assms(2)] by blast
  next
    case False
    then show ?thesis using window_lowest_wrap [OF w(3,2,1) _ assms(3)] by simp
  qed
qed

lemma getSOImmValRotate_spec:
  assumes "v AND NOT 255 \<noteq> 0"
  shows "\<exists>r < 32. even r \<and> getSOImmValRotate v = of_nat ((32 - r) mod 32) \<and> (encodable v \<longrightarrow> window v r)"
proof -
  have "v \<noteq> 0" using assms by auto
  then obtain k where k: "lowest_bit v k" using lowest_bit_exists [of v] by blast
  obtain k' where k': "lowest_bit (v AND NOT 63) k'" using lowest_above_63 [OF assms] by blast
  let ?r = "2 * (k div 2)" and ?q = "2 * (k' div 2)"
  note K = ctz_even [OF k] ctz_even [OF k'] and E = getSOImmValRotate_eq [OF assms ctz_even [OF k]]
  have R: "getSOImmValRotate v = of_nat ((32 - (if window v ?r then ?r else if v AND 63 \<noteq> 0 \<and> window v ?q then ?q else ?r)) mod 32)"
    unfolding E Let_def K(3) window_iff [OF K(4)] rotate_back_of_nat [OF K(4)] by simp
  have same: "k = k'" if "v AND 63 = 0"
  proof -
    have "lowest_bit v k'" using k' that unfolding and_63_zero lowest_bit_def bit_not_63 by blast
    then show ?thesis by (rule lowest_bit_unique [OF k])
  qed
  show ?thesis
    using R K(2,4) encodable_cases [OF _ k k'] same
    by (intro exI [of _ "if window v ?r then ?r else if v AND 63 \<noteq> 0 \<and> window v ?q then ?q else ?r"]) auto
qed

lemma and_not_255_less: "v AND NOT 255 = 0 \<longleftrightarrow> v < 256" for v :: u32
proof -
  have "n < 256 \<longleftrightarrow> n = n mod 256" for n :: nat
    using mod_less_divisor [of 256 n] mod_less [of n 256] by linarith
  then have "v < 256 \<longleftrightarrow> unat v = unat (v AND mask 8)"
    unfolding unat_and_mask by (simp add: word_less_nat_alt)
  also have "\<dots> \<longleftrightarrow> v = v AND mask 8" by (simp only: word_unat_eq_iff)
  also have "\<dots> \<longleftrightarrow> (\<forall>i. bit v i \<longrightarrow> i < 8)"
    unfolding bit_eq_iff bit_and_iff bit_mask_iff by (auto simp: possible_bit_word dest: bit_u32_less)
  finally show ?thesis unfolding and_not_255 by simp
qed

lemma double_back: "u < 16 \<Longrightarrow> (32 - 2 * u) mod 32 = 2 * ((16 - u) mod 16)" for u :: nat
  by (cases "u = 0") simp_all

lemma rotr32_back:
  assumes "w < 32"
  shows "rotr32 x (of_nat ((32 - w) mod 32)) = v \<longleftrightarrow> x = word_rotr w v"
proof -
  have "rotr32 x (of_nat ((32 - w) mod 32)) = word_rotr ((32 - w) mod 32) x" by (intro rotr32_word_rotr) simp
  then show ?thesis unfolding word_rotl_back [OF assms, symmetric] by (metis word_rot_lr word_rot_rl)
qed

lemma window_less: "w < 32 \<Longrightarrow> window v w \<longleftrightarrow> word_rotr w v < 256"
  unfolding and_not_255_less [symmetric] by (simp only: window_iff [symmetric] rotr32_word_rotr)

lemma encodable_iff: "encodable v \<longleftrightarrow> (\<exists>imm < 256. \<exists>rot < 16. v = rotr32 imm (of_nat (2 * rot)))"
proof
  assume "encodable v"
  then obtain u where u: "2 * u < 32" "window v (2 * u)" by (auto simp: encodable_def elim: evenE)
  then have "u < 16" by simp
  have "v = rotr32 (word_rotr (2 * u) v) (of_nat (2 * ((16 - u) mod 16)))"
    using rotr32_back [OF u(1), of "word_rotr (2 * u) v" v] unfolding double_back [OF \<open>u < 16\<close>] by simp
  moreover have "word_rotr (2 * u) v < 256" "(16 - u) mod 16 < 16" using u window_less by simp_all
  ultimately show "\<exists>imm < 256. \<exists>rot < 16. v = rotr32 imm (of_nat (2 * rot))" by blast
next
  assume "\<exists>imm < 256. \<exists>rot < 16. v = rotr32 imm (of_nat (2 * rot))"
  then obtain imm rot where h: "imm < 256" "rot < 16" "v = rotr32 imm (of_nat (2 * rot))" by blast
  let ?u = "(16 - rot) mod 16"
  have w: "2 * ?u < 32" by simp
  have "(32 - 2 * ?u) mod 32 = 2 * rot" using h(2) by (cases "rot = 0") simp_all
  then have "imm = word_rotr (2 * ?u) v" using h(3) rotr32_back [OF w, of imm v] by simp
  then have "window v (2 * ?u)" using h(1) window_less [OF w] by simp
  then show "encodable v" using w unfolding encodable_def by (intro exI [of _ "2 * ?u"]) simp
qed

lemma bit_less_exp: "v < 2 ^ k \<Longrightarrow> bit v n \<Longrightarrow> n < k" for v :: u32
proof (rule ccontr)
  assume v: "v < 2 ^ k" "bit v n" "\<not> n < k"
  then have "k < 32" using bit_u32_less [OF v(2)] by linarith
  then have "unat v < 2 ^ k" using v(1) unat_exp [of k, where ?'w = 32] by (simp add: word_less_nat_alt)
  also have "\<dots> \<le> 2 ^ n" using v(3) by (intro power_increasing) simp_all
  finally have "unat v div 2 ^ n = 0" by simp
  moreover have "bit (unat v) n" using v(2) by (simp add: bit_unsigned_iff)
  ultimately show False by (simp add: bit_iff_odd)
qed

lemma bits_less_exp: "(\<And>n. bit v n \<Longrightarrow> n < k) \<Longrightarrow> k < 32 \<Longrightarrow> v < 2 ^ k" for v :: u32
proof -
  assume b: "\<And>n. bit v n \<Longrightarrow> n < k" and k: "k < 32"
  have "v = take_bit k v" using b by (intro bit_word_eqI) (auto simp: bit_take_bit_iff)
  then have "unat v = unat v mod 2 ^ k" using unsigned_take_bit_eq [of k v, where ?'a = nat] by (simp add: take_bit_eq_mod)
  then have "unat v < 2 ^ k" by (metis mod_less_divisor zero_less_numeral zero_less_power)
  then show ?thesis using k unat_exp [of k, where ?'w = 32] by (simp add: word_less_nat_alt)
qed

lemma low_field:
  fixes x y :: u32
  assumes "x < 2 ^ k" "k < 32"
  shows "(x OR push_bit k y) AND mask k = x"
proof (intro bit_word_eqI)
  fix n
  assume "n < LENGTH(32)"
  then show "bit ((x OR push_bit k y) AND mask k) n = bit x n"
    using bit_less_exp [OF assms(1), of n] by (auto simp: bit_and_iff bit_or_iff bit_push_bit_iff bit_mask_iff possible_bit_word)
qed

lemma high_field:
  fixes x y :: u32
  assumes "x < 2 ^ k" "y < 2 ^ (32 - k)" "0 < k" "k < 32"
  shows "drop_bit k (x OR push_bit k y) = y"
proof (intro bit_word_eqI)
  fix n
  assume "n < LENGTH(32)"
  then show "bit (drop_bit k (x OR push_bit k y)) n = bit y n"
    using bit_less_exp [OF assms(1), of "k + n"] bit_less_exp [OF assms(2), of n] assms(4)
    by (auto simp: bit_drop_bit_eq bit_or_iff bit_push_bit_iff possible_bit_word)
qed

lemma fields_less:
  fixes x y :: u32
  assumes "x < 2 ^ k" "y < 2 ^ m" "k + m < 32"
  shows "x OR push_bit k y < 2 ^ (k + m)"
proof (intro bits_less_exp)
  fix n
  assume "bit (x OR push_bit k y) n"
  then show "n < k + m"
    using bit_less_exp [OF assms(1), of n] bit_less_exp [OF assms(2), of "n - k"] by (auto simp: bit_or_iff bit_push_bit_iff)
qed (fact assms(3))

lemma imm_rot_fields:
  assumes "x < 256" "q < 16"
  shows "getSOImmValImm (x OR push_bit 8 q) = x" "getSOImmValRot (x OR push_bit 8 q) = q * 2" "x OR push_bit 8 q < 4096"
proof -
  have a: "x < 2 ^ 8" "q < 2 ^ 4" using assms by simp_all
  then have "q < 2 ^ (32 - 8)" by (simp add: word_less_nat_alt)
  have "(0xFF :: u32) = mask 8" by (simp add: mask_eq_exp_minus_1)
  then show "getSOImmValImm (x OR push_bit 8 q) = x" using low_field [OF a(1)] by (simp add: getSOImmValImm_def)
  show "getSOImmValRot (x OR push_bit 8 q) = q * 2"
    unfolding getSOImmValRot_def using high_field [OF a(1) \<open>q < 2 ^ (32 - 8)\<close>] by simp
  show "x OR push_bit 8 q < 4096" using fields_less [OF a] by simp
qed

lemma getSOImmVal_spec:
  "(case getSOImmVal v of
      Some e \<Rightarrow> e < 4096 \<and> rotr32 (getSOImmValImm e) (getSOImmValRot e) = v
    | None \<Rightarrow> \<not> encodable v)"
proof (cases "v AND NOT 255 = 0")
  case True
  have v: "v < 256" using True unfolding and_not_255_less .
  then have "v < 4096" by (auto intro: less_trans)
  moreover have "rotr32 (getSOImmValImm v) (getSOImmValRot v) = v"
    using imm_rot_fields(1,2) [of v 0] v rotr32_word_rotr [of 0 v] by (simp add: word_rotr_0)
  moreover have "getSOImmVal v = Some v" using True by (simp only: getSOImmVal_def simp_thms if_True)
  ultimately show ?thesis by simp
next
  case False
  obtain r where r: "r < 32" "even r" "getSOImmValRotate v = of_nat ((32 - r) mod 32)" "encodable v \<longrightarrow> window v r"
    using getSOImmValRotate_spec [OF False] by blast
  obtain u where u: "r = 2 * u" "u < 16" using r(1,2) by (auto elim: evenE)
  let ?q = "(16 - u) mod 16"
  have R: "getSOImmValRotate v = of_nat (2 * ?q)" unfolding r(3) u(1) double_back [OF u(2)] ..
  have E: "getSOImmVal v = (if window v r then Some (rotl32 v (of_nat (2 * ?q)) OR push_bit 8 (of_nat ?q)) else None)"
  proof -
    have "unat (of_nat (2 * ?q) :: u32) = 2 * ?q" "unat (of_nat ?q :: u32) = ?q" by (intro unat_small; simp)+
    then have "drop_bit 1 (of_nat (2 * ?q) :: u32) = of_nat ?q" unfolding word_unat_eq_iff unat_drop by simp
    moreover have "rotr32 (NOT 255) (of_nat (2 * ?q)) AND v = 0 \<longleftrightarrow> window v r"
      using rotr32_mask_iff [OF r(1), of v] unfolding u(1) double_back [OF u(2)] .
    ultimately show ?thesis unfolding getSOImmVal_def Let_def R using False by (simp only: if_False simp_thms) simp
  qed
  show ?thesis
  proof (cases "window v r")
    case True
    let ?x = "rotl32 v (of_nat (2 * ?q))"
    have x: "?x = word_rotr r v" using word_rotl_back [OF r(1), of v] rotl32_word_rotl [of "2 * ?q" v]
      unfolding u(1) double_back [OF u(2)] by simp
    have "?x < 256" using True window_less [OF r(1)] x by simp
    moreover have "(of_nat ?q :: u32) < 16" by (simp add: word_less_nat_alt unat_small)
    ultimately have F: "getSOImmValImm (?x OR push_bit 8 (of_nat ?q)) = ?x"
        "getSOImmValRot (?x OR push_bit 8 (of_nat ?q)) = of_nat ?q * 2" "?x OR push_bit 8 (of_nat ?q) < 4096"
      by (rule imm_rot_fields)+
    have "rotr32 ?x (of_nat ?q * 2) = v"
      using rotr32_back [OF r(1), of ?x v] x unfolding u(1) double_back [OF u(2)] by (simp add: mult.commute)
    then show ?thesis using E True F by simp
  qed (use E r(4) in simp)
qed


text \<open>C30: The encoder of ARM immediates is sound and complete: when it returns an encoding, that fits the 12-bit
  field and the processor's rotation of its 8 low bits gives back the constant; when it returns
  \<open>-1\<close>, no 8-bit value rotated by an even amount equals the constant.\<close>

theorem getSOImmVal_sound_complete:
  "case getSOImmVal v of
     Some e \<Rightarrow> e < 4096 \<and> rotr32 (getSOImmValImm e) (getSOImmValRot e) = v
   | None \<Rightarrow> \<not> (\<exists>imm < 256. \<exists>rot < 16. v = rotr32 imm (of_nat (2 * rot)))"
  using getSOImmVal_spec [of v] unfolding encodable_iff .

subsection \<open>Packed addressing modes\<close>

lemma ShiftOpc_roundtrip [simp]: "ShiftOpc_of (ShiftOpc_code SO) = Some SO" "ShiftOpc_code SO < 2 ^ 3"
  by (cases SO; simp add: ShiftOpc_of_def)+

lemma isSub_bit_less [simp]: "isSub_bit Opc < 2 ^ 1"
  by (simp add: isSub_bit_def)

lemma isSub_bit_and_1 [simp]: "isSub_bit Opc AND 1 = isSub_bit Opc"
  by (simp add: isSub_bit_def)

lemma AM2_nest:
  "ARM_AM_getAM2Opc Opc Imm12 SO IdxMode =
   Imm12 OR push_bit 12 (isSub_bit Opc OR push_bit 1 (ShiftOpc_code SO OR push_bit 3 IdxMode))"
proof -
  have "push_bit 12 (push_bit 1 x) = push_bit 13 x" "push_bit 13 (push_bit 3 x) = push_bit 16 x" for x :: u32
    using push_bit_push_bit [of 12 1 x] push_bit_push_bit [of 13 3 x] by simp_all
  then show ?thesis by (simp only: ARM_AM_getAM2Opc_def push_bit_or or.assoc)
qed


lemma AM2_fields:
  assumes "Imm12 < 2 ^ 12" "IdxMode < 2 ^ 16"
  shows "getAM2Offset (ARM_AM_getAM2Opc Opc Imm12 SO IdxMode) = Imm12"
    "getAM2Op (ARM_AM_getAM2Opc Opc Imm12 SO IdxMode) = Opc"
    "getAM2ShiftOpc (ARM_AM_getAM2Opc Opc Imm12 SO IdxMode) = Some SO"
    "getAM2IdxMode (ARM_AM_getAM2Opc Opc Imm12 SO IdxMode) = IdxMode"
proof -
  let ?c = "ShiftOpc_code SO OR push_bit 3 IdxMode"
  let ?b = "isSub_bit Opc OR push_bit 1 ?c" and ?a = "ARM_AM_getAM2Opc Opc Imm12 SO IdxMode"
  have c: "?c < 2 ^ 19" "?b < 2 ^ 20"
  proof -
    have "?c < 2 ^ (3 + 16)" by (rule fields_less [OF ShiftOpc_roundtrip(2) assms(2)]) simp
    then show "?c < 2 ^ 19" by (simp only: numeral_plus_numeral add_num_simps)
    then have "?b < 2 ^ (1 + 19)" by (intro fields_less isSub_bit_less) simp_all
    then show "?b < 2 ^ 20" by (simp only: one_plus_numeral add_num_simps)
  qed
  have d12: "drop_bit 12 ?a = ?b" unfolding AM2_nest by (rule high_field [OF assms(1)]) (use c(2) in simp_all)
  have d13: "drop_bit 1 ?b = ?c"
  proof -
    have "?c < 2 ^ (32 - 1)" using c(1) by (rule less_trans) simp
    then show ?thesis by (rule high_field [OF isSub_bit_less]) simp_all
  qed
  have d16: "drop_bit 3 ?c = IdxMode"
  proof -
    have "IdxMode < 2 ^ (32 - 3)" using assms(2) by (rule less_trans) simp
    then show ?thesis by (rule high_field [OF ShiftOpc_roundtrip(2)]) simp_all
  qed
  show "getAM2Offset ?a = Imm12"
  proof -
    have m: "push_bit 12 1 - 1 = (mask 12 :: u32)" by (simp add: mask_eq_exp_minus_1 push_bit_eq_mult)
    show ?thesis unfolding getAM2Offset_def AM2_nest m by (rule low_field [OF assms(1)]) simp
  qed
  show "getAM2Op ?a = Opc"
  proof -
    have m: "(1 :: u32) = mask 1" by (simp add: mask_eq_exp_minus_1)
    have "?b AND mask 1 = isSub_bit Opc" by (rule low_field [OF isSub_bit_less]) simp
    then have "drop_bit 12 ?a AND 1 = isSub_bit Opc" unfolding d12 m [symmetric] .
    then show ?thesis by (cases Opc) (simp_all add: getAM2Op_def isSub_bit_def)
  qed
  have d: "drop_bit 13 ?a = ?c" "drop_bit 16 ?a = IdxMode"
  proof -
    have "drop_bit 13 ?a = drop_bit 1 (drop_bit 12 ?a)" "drop_bit 16 ?a = drop_bit 3 (drop_bit 1 (drop_bit 12 ?a))"
      by (simp_all only: drop_bit_drop_bit) simp_all
    then show "drop_bit 13 ?a = ?c" "drop_bit 16 ?a = IdxMode" by (simp_all only: d12 d13 d16)
  qed
  show "getAM2ShiftOpc ?a = Some SO"
  proof -
    have m: "(7 :: u32) = mask 3" by (simp add: mask_eq_exp_minus_1)
    have "?c AND mask 3 = ShiftOpc_code SO" by (rule low_field [OF ShiftOpc_roundtrip(2)]) simp
    then show ?thesis unfolding getAM2ShiftOpc_def d m by (simp only: ShiftOpc_roundtrip(1))
  qed
  show "getAM2IdxMode ?a = IdxMode" unfolding getAM2IdxMode_def by (rule d)
qed


lemma Offset_less: "ucast (Offset :: 8 word) < (2 ^ 8 :: u32)"
  using unsigned_less [of Offset, where ?'a = nat] by (simp add: word_less_nat_alt unsigned_ucast_eq take_bit_nat_eq_self)

lemma Offset_back: "ucast (ucast (Offset :: 8 word) :: u32) = Offset"
  by (intro bit_word_eqI) (simp add: bit_unsigned_iff possible_bit_word)

lemma sign_bit_cases: "P (if isSub_bit Opc \<noteq> 0 then ARM_AM_sub else ARM_AM_add) = P Opc"
  by (cases Opc) (simp_all add: isSub_bit_def)

lemma AM3_fields:
  assumes "IdxMode < 2 ^ 23"
  shows "getAM3Offset (getAM3Opc Opc Offset IdxMode) = Offset" "getAM3Op (getAM3Opc Opc Offset IdxMode) = Opc"
    "getAM3IdxMode (getAM3Opc Opc Offset IdxMode) = IdxMode"
proof -
  let ?b = "isSub_bit Opc OR push_bit 1 IdxMode" and ?a = "getAM3Opc Opc Offset IdxMode"
  have "push_bit 8 (push_bit 1 x) = push_bit 9 x" for x :: u32 using push_bit_push_bit [of 8 1 x] by simp
  then have a: "?a = ucast Offset OR push_bit 8 ?b"
    by (simp only: getAM3Opc_def push_bit_or) (simp only: or.assoc or.left_commute)
  have "?b < 2 ^ (1 + 23)" by (rule fields_less [OF isSub_bit_less assms]) simp
  then have "drop_bit 8 ?a = ?b" unfolding a by (intro high_field [OF Offset_less]) simp_all
  moreover have b: "drop_bit 1 ?b = IdxMode"
  proof -
    have "IdxMode < 2 ^ (32 - 1)" using assms by (rule less_trans) simp
    then show ?thesis by (rule high_field [OF isSub_bit_less]) simp_all
  qed
  moreover have "drop_bit 9 ?a = drop_bit 1 (drop_bit 8 ?a)" by (simp only: drop_bit_drop_bit) simp
  ultimately have d: "drop_bit 8 ?a = ?b" "drop_bit 9 ?a = IdxMode" by (simp_all only:)
  show "getAM3IdxMode ?a = IdxMode" unfolding getAM3IdxMode_def by (rule d)
  have m: "(1 :: u32) = mask 1" "(0xFF :: u32) = mask 8" by (simp_all add: mask_eq_exp_minus_1)
  have "?b AND 1 = isSub_bit Opc" unfolding m(1) by (rule low_field [OF isSub_bit_less]) simp
  then show "getAM3Op ?a = Opc" unfolding getAM3Op_def d by (simp only: sign_bit_cases [where P = "\<lambda>x. x = Opc"])
  have "?a AND mask 8 = ucast Offset" unfolding a by (rule low_field [OF Offset_less]) simp
  then show "getAM3Offset ?a = Offset" unfolding getAM3Offset_def m by (simp only: Offset_back)
qed


lemma AM5_eq_AM3: "ARM_AM_getAM5Opc Opc Offset = getAM3Opc Opc Offset 0" "ARM_AM_getAM5Offset = getAM3Offset" "ARM_AM_getAM5Op = getAM3Op"
  by (simp_all add: ARM_AM_getAM5Opc_def getAM3Opc_def ARM_AM_getAM5Offset_def getAM3Offset_def ARM_AM_getAM5Op_def getAM3Op_def fun_eq_iff)

lemma SOReg_fields:
  assumes "Imm < 2 ^ 29"
  shows "getSORegOffset (getSORegOpc ShOp Imm) = Imm" "ARM_AM_getSORegShOp (getSORegOpc ShOp Imm) = Some ShOp"
proof -
  have "Imm < 2 ^ (32 - 3)" using assms by simp
  then show "getSORegOffset (getSORegOpc ShOp Imm) = Imm"
    unfolding getSORegOffset_def getSORegOpc_def by (rule high_field [OF ShiftOpc_roundtrip(2)]) simp_all
  have m: "(7 :: u32) = mask 3" by (simp add: mask_eq_exp_minus_1)
  have "getSORegOpc ShOp Imm AND mask 3 = ShiftOpc_code ShOp"
    unfolding getSORegOpc_def by (rule low_field [OF ShiftOpc_roundtrip(2)]) simp
  then show "ARM_AM_getSORegShOp (getSORegOpc ShOp Imm) = Some ShOp"
    unfolding ARM_AM_getSORegShOp_def m by (simp only: ShiftOpc_roundtrip(1))
qed

text \<open>C31: Packing an addressing mode into the immediate operand of an instruction loses nothing: each field of
  the modes 2, 3 and 5, of the shifted register operand and of the load/store-multiple mode reads
  back as it was packed, when offsets and index modes are in their ranges.\<close>

theorem addressing_modes_roundtrip:
  assumes "Imm12 < 2 ^ 12" "IdxMode < 2 ^ 16" "Imm < 2 ^ 29"
    "a2 = ARM_AM_getAM2Opc Opc Imm12 SO IdxMode" "a3 = getAM3Opc Opc Offset IdxMode" "a5 = ARM_AM_getAM5Opc Opc Offset"
  shows "getAM2Offset a2 = Imm12 \<and> getAM2Op a2 = Opc \<and> getAM2ShiftOpc a2 = Some SO \<and> getAM2IdxMode a2 = IdxMode \<and>
    getAM3Offset a3 = Offset \<and> getAM3Op a3 = Opc \<and> getAM3IdxMode a3 = IdxMode \<and>
    ARM_AM_getAM5Offset a5 = Offset \<and> ARM_AM_getAM5Op a5 = Opc \<and>
    getSORegOffset (getSORegOpc SO Imm) = Imm \<and> ARM_AM_getSORegShOp (getSORegOpc SO Imm) = Some SO \<and>
    getAM4SubMode (getAM4ModeImm mode) = Some mode"
proof -
  have "IdxMode < 2 ^ 23" using assms(2) by (rule less_trans) simp
  moreover have "getAM4SubMode (getAM4ModeImm mode) = Some mode"
    by (cases mode) (simp_all add: getAM4SubMode_def getAM4ModeImm_def AMSubMode_of_def)
  ultimately show ?thesis
    unfolding assms(4-6) AM5_eq_AM3 using AM2_fields [OF assms(1,2)] AM3_fields SOReg_fields [OF assms(3)] by simp
qed

theorem addressing_modes_roundtrip_witness:
  "getAM2Offset (ARM_AM_getAM2Opc ARM_AM_sub 0x123 ARM_AM_ror 2) = 0x123 \<and>
   getAM2ShiftOpc (ARM_AM_getAM2Opc ARM_AM_sub 0x123 ARM_AM_ror 2) = Some ARM_AM_ror"
  using addressing_modes_roundtrip [of "0x123" 2 5 _ ARM_AM_sub ARM_AM_ror, OF _ _ _ refl refl refl] by simp

end
