(* ===== verification/MC_Inst.thy ===== *)
theory MC_Inst
  imports ARM_Addressing
begin

text \<open>The instruction that a Capstone decoder fills in (\<^verbatim>\<open>MCInst.c\<close>, \<^verbatim>\<open>MCInst.h\<close>), the status it
  returns (\<^verbatim>\<open>MCDisassembler.h\<close>) and the idiom \<^verbatim>\<open>if (!Check(&S, ...)) return Fail\<close> by which decoders are
  composed.  The array of 48 operand slots with its counter \<^verbatim>\<open>size\<close> is the list of the operands in use;
  that no decoder exceeds the array is a property of the decoders.  An immediate is a 64-bit word.\<close>

unbundle bit_operations_syntax

subsection \<open>Operands and instructions\<close>

text \<open>The registers of the decoder tables: \<open>ARM_GPRPair i\<close> is the pair of \<open>r2i\<close> and its successor,
  \<open>ARM_DPair i\<close> the pair of \<open>d i\<close> and \<open>d (i+1)\<close>, \<open>ARM_DPairSpaced i\<close> that of \<open>d i\<close> and \<open>d (i+2)\<close>.\<close>

datatype ARM_Reg =
    ARM_NoRegister | ARM_R nat | ARM_SP | ARM_LR | ARM_PC | ARM_CPSR | ARM_APSR_NZCV
  | ARM_S nat | ARM_D nat | ARM_Q nat | ARM_GPRPair nat | ARM_DPair nat | ARM_DPairSpaced nat

datatype MCOperand = kInvalid | kRegister ARM_Reg | kImmediate u64

record MCInst =
  OpcodePub :: nat
  has_imm :: bool
  op1_size :: "8 word"
  Opcode :: nat
  Operands :: "MCOperand list"
  writeback :: bool

definition MCInst_Init :: "MCInst \<Rightarrow> MCInst" where
  "MCInst_Init inst = inst\<lparr>OpcodePub := 0, Operands := [], has_imm := False, op1_size := 0, writeback := False\<rparr>"

definition MCInst_clear :: "MCInst \<Rightarrow> MCInst" where
  "MCInst_clear inst = inst\<lparr>Operands := []\<rparr>"

text \<open>Shifts the operands from \<open>index\<close> up; callers pass an \<open>index\<close> that is at most the size.\<close>

definition MCInst_insert0 :: "MCInst \<Rightarrow> nat \<Rightarrow> MCOperand \<Rightarrow> MCInst" where
  "MCInst_insert0 inst index Op = inst\<lparr>Operands := take index (Operands inst) @ Op # drop index (Operands inst)\<rparr>"

definition MCInst_setOpcode :: "MCInst \<Rightarrow> nat \<Rightarrow> MCInst" where
  "MCInst_setOpcode inst Op = inst\<lparr>Opcode := Op\<rparr>"

definition MCInst_setOpcodePub :: "MCInst \<Rightarrow> nat \<Rightarrow> MCInst" where
  "MCInst_setOpcodePub inst Op = inst\<lparr>OpcodePub := Op\<rparr>"

definition MCInst_getOpcode :: "MCInst \<Rightarrow> nat" where
  "MCInst_getOpcode inst = Opcode inst"

definition MCInst_getOpcodePub :: "MCInst \<Rightarrow> nat" where
  "MCInst_getOpcodePub inst = OpcodePub inst"

text \<open>A slot that is not in use reads as \<open>kInvalid\<close>.\<close>

definition MCInst_getOperand :: "MCInst \<Rightarrow> nat \<Rightarrow> MCOperand" where
  "MCInst_getOperand inst i = (if i < length (Operands inst) then Operands inst ! i else kInvalid)"

definition MCInst_getNumOperands :: "MCInst \<Rightarrow> nat" where
  "MCInst_getNumOperands inst = length (Operands inst)"

definition MCInst_addOperand2 :: "MCInst \<Rightarrow> MCOperand \<Rightarrow> MCInst" where
  "MCInst_addOperand2 inst Op = inst\<lparr>Operands := Operands inst @ [Op]\<rparr>"

fun MCOperand_isValid :: "MCOperand \<Rightarrow> bool" where
  "MCOperand_isValid op \<longleftrightarrow> op \<noteq> kInvalid"

fun MCOperand_isReg :: "MCOperand \<Rightarrow> bool" where
  "MCOperand_isReg (kRegister r) = True"
| "MCOperand_isReg op = False"

fun MCOperand_isImm :: "MCOperand \<Rightarrow> bool" where
  "MCOperand_isImm (kImmediate v) = True"
| "MCOperand_isImm op = False"

text \<open>The accessors of the union are used on an operand of their kind.\<close>

fun MCOperand_getReg :: "MCOperand \<Rightarrow> ARM_Reg" where
  "MCOperand_getReg (kRegister r) = r"
| "MCOperand_getReg op = ARM_NoRegister"

fun MCOperand_setReg :: "MCOperand \<Rightarrow> ARM_Reg \<Rightarrow> MCOperand" where
  "MCOperand_setReg (kRegister r) Reg = kRegister Reg"
| "MCOperand_setReg op Reg = op"

fun MCOperand_getImm :: "MCOperand \<Rightarrow> u64" where
  "MCOperand_getImm (kImmediate v) = v"
| "MCOperand_getImm op = 0"

fun MCOperand_setImm :: "MCOperand \<Rightarrow> u64 \<Rightarrow> MCOperand" where
  "MCOperand_setImm (kImmediate v) Val = kImmediate Val"
| "MCOperand_setImm op Val = op"

text \<open>In the C code \<^verbatim>\<open>CreateReg1\<close> and \<^verbatim>\<open>CreateImm1\<close> build the operand in the last slot of the array and return
  a pointer to it.\<close>

definition MCOperand_CreateReg1 :: "ARM_Reg \<Rightarrow> MCOperand" where
  "MCOperand_CreateReg1 Reg = kRegister Reg"

definition MCOperand_CreateImm1 :: "u64 \<Rightarrow> MCOperand" where
  "MCOperand_CreateImm1 Val = kImmediate Val"

definition MCOperand_CreateReg0 :: "MCInst \<Rightarrow> ARM_Reg \<Rightarrow> MCInst" where
  "MCOperand_CreateReg0 mcInst Reg = mcInst\<lparr>Operands := Operands mcInst @ [kRegister Reg]\<rparr>"

definition MCOperand_CreateImm0 :: "MCInst \<Rightarrow> u64 \<Rightarrow> MCInst" where
  "MCOperand_CreateImm0 mcInst Val = mcInst\<lparr>Operands := Operands mcInst @ [kImmediate Val]\<rparr>"

text \<open>The length of the array, and the slot that \<^verbatim>\<open>CreateReg1\<close> and \<^verbatim>\<open>CreateImm1\<close> write.\<close>

definition MCINST_OPERANDS :: nat where
  "MCINST_OPERANDS = 48"

definition MCINST_CACHE :: nat where
  "MCINST_CACHE = MCINST_OPERANDS - 1"

subsection \<open>Decode status\<close>

datatype DecodeStatus = MCDisassembler_Fail | MCDisassembler_SoftFail | MCDisassembler_Success

type_synonym decode = "DecodeStatus \<times> MCInst"

text \<open>The new value of \<^verbatim>\<open>*Out\<close> and the result.\<close>

fun Check :: "DecodeStatus \<Rightarrow> DecodeStatus \<Rightarrow> DecodeStatus \<times> bool" where
  "Check Out MCDisassembler_Success = (Out, True)"
| "Check Out MCDisassembler_SoftFail = (MCDisassembler_SoftFail, True)"
| "Check Out MCDisassembler_Fail = (MCDisassembler_Fail, False)"

text \<open>\<^verbatim>\<open>if (!Check(&S, d)) return MCDisassembler_Fail; k\<close>\<close>

definition check_then :: "DecodeStatus \<Rightarrow> decode \<Rightarrow> (DecodeStatus \<Rightarrow> MCInst \<Rightarrow> decode) \<Rightarrow> decode" where
  "check_then S d k =
     (let (S', ok) = Check S (fst d) in if ok then k S' (snd d) else (MCDisassembler_Fail, snd d))"

text \<open>\<^verbatim>\<open>Check(&S, d); return S;\<close>\<close>

definition check_return :: "DecodeStatus \<Rightarrow> decode \<Rightarrow> decode" where
  "check_return S d = (fst (Check S (fst d)), snd d)"

text \<open>\<^verbatim>\<open>if (!Check(&S, d)) return MCDisassembler_Fail; return S;\<close>\<close>

definition check_last :: "DecodeStatus \<Rightarrow> decode \<Rightarrow> decode" where
  "check_last S d = check_then S d Pair"

text \<open>\<^verbatim>\<open>if (c) S = MCDisassembler_SoftFail;\<close>\<close>

definition soft_if :: "bool \<Rightarrow> DecodeStatus \<Rightarrow> DecodeStatus" where
  "soft_if c S = (if c then MCDisassembler_SoftFail else S)"

text \<open>A step that some opcodes take: \<^verbatim>\<open>case ...: if (!Check(&S, d)) return Fail; break; default: break;\<close>\<close>

definition check_if :: "bool \<Rightarrow> DecodeStatus \<Rightarrow> (MCInst \<Rightarrow> decode) \<Rightarrow> MCInst \<Rightarrow> (DecodeStatus \<Rightarrow> MCInst \<Rightarrow> decode) \<Rightarrow> decode" where
  "check_if c S d Inst k = (if c then check_then S (d Inst) k else k S Inst)"

text \<open>The values of the enumeration give it a linear order.\<close>

fun DecodeStatus_code :: "DecodeStatus \<Rightarrow> nat" where
  "DecodeStatus_code MCDisassembler_Fail = 0"
| "DecodeStatus_code MCDisassembler_SoftFail = 1"
| "DecodeStatus_code MCDisassembler_Success = 3"

instantiation DecodeStatus :: linorder
begin

definition less_eq_DecodeStatus :: "DecodeStatus \<Rightarrow> DecodeStatus \<Rightarrow> bool" where
  "less_eq_DecodeStatus a b \<longleftrightarrow> DecodeStatus_code a \<le> DecodeStatus_code b"

definition less_DecodeStatus :: "DecodeStatus \<Rightarrow> DecodeStatus \<Rightarrow> bool" where
  "less_DecodeStatus a b \<longleftrightarrow> DecodeStatus_code a < DecodeStatus_code b"

instance
proof
  fix x y :: DecodeStatus
  show "x \<le> y \<Longrightarrow> y \<le> x \<Longrightarrow> x = y"
    by (cases x; cases y) (simp_all add: less_eq_DecodeStatus_def)
qed (auto simp: less_eq_DecodeStatus_def less_DecodeStatus_def)

end

lemmas status_order = less_eq_DecodeStatus_def less_DecodeStatus_def

text \<open>In the order of the enumeration, \<^verbatim>\<open>Check\<close> keeps the worst status.\<close>

lemma Check_min: "Out \<noteq> MCDisassembler_Fail \<Longrightarrow> Check Out In = (min Out In, In \<noteq> MCDisassembler_Fail)"
  by (cases Out; cases In) (simp_all add: min_def status_order)

subsection \<open>Decoders that append operands\<close>

text \<open>A decoder that appends at most \<open>n\<close> operands keeps those that are there, so it may follow others, and
  the sum of the bounds of the decoders of an instruction bounds its operands.\<close>

definition appends :: "nat \<Rightarrow> MCInst \<Rightarrow> decode \<Rightarrow> bool" where
  "appends n inst d \<longleftrightarrow> (\<exists>ops. length ops \<le> n \<and> Operands (snd d) = Operands inst @ ops)"

definition extends :: "nat \<Rightarrow> MCInst \<Rightarrow> MCInst \<Rightarrow> bool" where
  "extends n base inst \<longleftrightarrow> (\<exists>ops. length ops \<le> n \<and> Operands inst = Operands base @ ops)"

lemma appends_iff_extends: "appends n base d \<longleftrightarrow> extends n base (snd d)"
  by (simp add: appends_def extends_def)

lemma extends_refl: "extends 0 base base"
  by (simp add: extends_def)

lemma extends_mono: "extends m base inst \<Longrightarrow> m \<le> n \<Longrightarrow> extends n base inst"
  by (auto simp: extends_def)

lemma extends_trans: "extends m a b \<Longrightarrow> extends n b c \<Longrightarrow> extends (m + n) a c"
  by (force simp: extends_def)

lemma extends_Reg0: "extends n base inst \<Longrightarrow> extends (Suc n) base (MCOperand_CreateReg0 inst r)"
  by (force simp: extends_def MCOperand_CreateReg0_def)

lemma extends_Imm0: "extends n base inst \<Longrightarrow> extends (Suc n) base (MCOperand_CreateImm0 inst v)"
  by (force simp: extends_def MCOperand_CreateImm0_def)

lemma extends_setOpcode: "extends n base inst \<Longrightarrow> extends n base (MCInst_setOpcode inst opc)"
  by (simp add: extends_def MCInst_setOpcode_def)

lemma extends_writeback: "extends n base inst \<Longrightarrow> extends n base (inst\<lparr>writeback := b\<rparr>)"
  by (simp add: extends_def)

lemma extends_if: "extends m base a \<Longrightarrow> extends n base b \<Longrightarrow> extends (max m n) base (if c then a else b)"
  by (simp add: extends_mono)

lemma appends_leaf: "extends m base inst \<Longrightarrow> m \<le> n \<Longrightarrow> appends n base (S, inst)"
  by (simp add: appends_iff_extends extends_mono)

lemma appends_if: "(c \<Longrightarrow> appends n base a) \<Longrightarrow> (\<not> c \<Longrightarrow> appends n base b) \<Longrightarrow> appends n base (if c then a else b)"
  by simp

lemma appends_option: "(x = None \<Longrightarrow> appends n base a) \<Longrightarrow> (\<And>y. x = Some y \<Longrightarrow> appends n base (b y)) \<Longrightarrow>
   appends n base (case x of None \<Rightarrow> a | Some y \<Rightarrow> b y)"
  by (cases x) simp_all

lemma appends_call: "appends m inst d \<Longrightarrow> extends k base inst \<Longrightarrow> k + m \<le> n \<Longrightarrow> appends n base d"
  unfolding appends_iff_extends by (blast intro: extends_mono extends_trans)

lemma appends_check_then:
  assumes "appends m inst d" "extends k base inst" "k + m \<le> n"
    "\<And>S' inst'. extends (k + m) base inst' \<Longrightarrow> appends n base (kont S' inst')"
  shows "appends n base (check_then S d kont)"
proof -
  have e: "extends (k + m) base (snd d)"
    using assms(1,2) unfolding appends_iff_extends by (blast intro: extends_trans)
  then have "appends n base (MCDisassembler_Fail, snd d)"
    using assms(3) by (rule appends_leaf)
  then show ?thesis
    using assms(4) [OF e] by (simp add: check_then_def split: prod.split)
qed

lemma appends_check_if:
  assumes "c \<Longrightarrow> appends m inst (d inst)" "extends k base inst" "c \<Longrightarrow> k + m \<le> n"
    "\<And>S' inst'. extends (k + m) base inst' \<Longrightarrow> appends n base (kont S' inst')"
  shows "appends n base (check_if c S d inst kont)"
proof (cases c)
  case True
  then show ?thesis
    unfolding check_if_def using appends_check_then [OF assms(1,2,3,4)] by simp
next
  case False
  then show ?thesis
    unfolding check_if_def using assms(4) [OF extends_mono [OF assms(2)]] by simp
qed

lemma appends_check_last: "appends m inst d \<Longrightarrow> extends k base inst \<Longrightarrow> k + m \<le> n \<Longrightarrow> appends n base (check_last S d)"
  unfolding check_last_def by (rule appends_check_then) (auto intro: appends_leaf)

lemma appends_check_return: "appends m inst d \<Longrightarrow> extends k base inst \<Longrightarrow> k + m \<le> n \<Longrightarrow> appends n base (check_return S d)"
  using appends_call by (fastforce simp: check_return_def appends_def)

lemmas appends_rules = appends_if appends_option appends_leaf appends_check_then appends_check_if appends_check_last appends_check_return
  extends_refl extends_Reg0 extends_Imm0 extends_setOpcode extends_writeback extends_if

text \<open>The bounds of the decoders that others call.\<close>

named_theorems appends_decoder

lemma check_then_Success: "fst d = MCDisassembler_Success \<Longrightarrow> check_then S d k = k S (snd d)"
  by (simp add: check_then_def)

subsection \<open>The contract of a decoder\<close>

text \<open>What the code that composes decoders relies on: a decoder leaves the operands that are there and
  appends at most \<open>bound\<close> new ones.\<close>

locale operand_decoder =
  fixes dec :: "MCInst \<Rightarrow> 'a \<Rightarrow> decode"
    and bound :: nat
  assumes appends: "appends bound inst (dec inst v)"
begin

lemma keeps_operands: "take (length (Operands inst)) (Operands (snd (dec inst v))) = Operands inst"
  using appends [of inst v] by (auto simp: appends_def)

lemma size_bound: "length (Operands (snd (dec inst v))) \<le> length (Operands inst) + bound"
  using appends [of inst v] by (auto simp: appends_def)

lemma within_array:
  "length (Operands inst) + bound \<le> MCINST_CACHE \<Longrightarrow> length (Operands (snd (dec inst v))) \<le> MCINST_CACHE"
  using size_bound [of inst v] by simp

end

text \<open>Two decoders in sequence, as the generated code calls them, are a decoder again.\<close>

definition decode_both ::
    "(MCInst \<Rightarrow> 'a \<Rightarrow> decode) \<Rightarrow> (MCInst \<Rightarrow> 'b \<Rightarrow> decode) \<Rightarrow> DecodeStatus \<Rightarrow> MCInst \<Rightarrow> 'a \<times> 'b \<Rightarrow> decode" where
  "decode_both dec1 dec2 S inst vw = check_then S (dec1 inst (fst vw)) (\<lambda>S inst. check_last S (dec2 inst (snd vw)))"

locale decoder_sequence = d1: operand_decoder dec1 bound1 + d2: operand_decoder dec2 bound2
  for dec1 :: "MCInst \<Rightarrow> 'a \<Rightarrow> decode" and bound1 :: nat and dec2 :: "MCInst \<Rightarrow> 'b \<Rightarrow> decode" and bound2 :: nat
begin

lemma appends_both: "appends (bound1 + bound2) inst (decode_both dec1 dec2 S inst vw)"
  unfolding decode_both_def
  by (rule appends_check_then [OF d1.appends extends_refl], simp, rule appends_check_last [OF d2.appends], assumption, simp)

end

sublocale decoder_sequence \<subseteq> sequence: operand_decoder "decode_both dec1 dec2 S" "bound1 + bound2"
  by unfold_locales (rule appends_both)

end
