(* ===== verification/ARM_Opcodes.thy ===== *)
theory ARM_Opcodes
  imports MC_Inst
begin

text \<open>The numbers of the instructions that the ARM decoders name, as in the enumeration of
  \<^verbatim>\<open>capstone/arch/ARM/ARMGenInstrInfo.inc\<close>.\<close>

abbreviation (input) ARM_BLX_pred :: nat where
  "ARM_BLX_pred \<equiv> 58"

abbreviation (input) ARM_BLXi :: nat where
  "ARM_BLXi \<equiv> 59"

abbreviation (input) ARM_CPS1p :: nat where
  "ARM_CPS1p \<equiv> 86"

abbreviation (input) ARM_CPS2p :: nat where
  "ARM_CPS2p \<equiv> 87"

abbreviation (input) ARM_CPS3p :: nat where
  "ARM_CPS3p \<equiv> 88"

abbreviation (input) ARM_HINT :: nat where
  "ARM_HINT \<equiv> 111"

abbreviation (input) ARM_LDAEXD :: nat where
  "ARM_LDAEXD \<equiv> 123"

abbreviation (input) ARM_LDC2L_OFFSET :: nat where
  "ARM_LDC2L_OFFSET \<equiv> 126"

abbreviation (input) ARM_LDC2L_POST :: nat where
  "ARM_LDC2L_POST \<equiv> 128"

abbreviation (input) ARM_LDC2L_PRE :: nat where
  "ARM_LDC2L_PRE \<equiv> 129"

abbreviation (input) ARM_LDC2_OFFSET :: nat where
  "ARM_LDC2_OFFSET \<equiv> 130"

abbreviation (input) ARM_LDC2_POST :: nat where
  "ARM_LDC2_POST \<equiv> 132"

abbreviation (input) ARM_LDC2_PRE :: nat where
  "ARM_LDC2_PRE \<equiv> 133"

abbreviation (input) ARM_LDCL_OFFSET :: nat where
  "ARM_LDCL_OFFSET \<equiv> 134"

abbreviation (input) ARM_LDCL_OPTION :: nat where
  "ARM_LDCL_OPTION \<equiv> 135"

abbreviation (input) ARM_LDCL_POST :: nat where
  "ARM_LDCL_POST \<equiv> 136"

abbreviation (input) ARM_LDCL_PRE :: nat where
  "ARM_LDCL_PRE \<equiv> 137"

abbreviation (input) ARM_LDC_OFFSET :: nat where
  "ARM_LDC_OFFSET \<equiv> 138"

abbreviation (input) ARM_LDC_OPTION :: nat where
  "ARM_LDC_OPTION \<equiv> 139"

abbreviation (input) ARM_LDC_POST :: nat where
  "ARM_LDC_POST \<equiv> 140"

abbreviation (input) ARM_LDC_PRE :: nat where
  "ARM_LDC_PRE \<equiv> 141"

abbreviation (input) ARM_LDMDA :: nat where
  "ARM_LDMDA \<equiv> 142"

abbreviation (input) ARM_LDMDA_UPD :: nat where
  "ARM_LDMDA_UPD \<equiv> 143"

abbreviation (input) ARM_LDMDB :: nat where
  "ARM_LDMDB \<equiv> 144"

abbreviation (input) ARM_LDMDB_UPD :: nat where
  "ARM_LDMDB_UPD \<equiv> 145"

abbreviation (input) ARM_LDMIA :: nat where
  "ARM_LDMIA \<equiv> 146"

abbreviation (input) ARM_LDMIA_UPD :: nat where
  "ARM_LDMIA_UPD \<equiv> 148"

abbreviation (input) ARM_LDMIB :: nat where
  "ARM_LDMIB \<equiv> 149"

abbreviation (input) ARM_LDMIB_UPD :: nat where
  "ARM_LDMIB_UPD \<equiv> 150"

abbreviation (input) ARM_LDRBT_POST :: nat where
  "ARM_LDRBT_POST \<equiv> 151"

abbreviation (input) ARM_LDRBT_POST_IMM :: nat where
  "ARM_LDRBT_POST_IMM \<equiv> 152"

abbreviation (input) ARM_LDRBT_POST_REG :: nat where
  "ARM_LDRBT_POST_REG \<equiv> 153"

abbreviation (input) ARM_LDRB_POST_IMM :: nat where
  "ARM_LDRB_POST_IMM \<equiv> 154"

abbreviation (input) ARM_LDRB_POST_REG :: nat where
  "ARM_LDRB_POST_REG \<equiv> 155"

abbreviation (input) ARM_LDRD :: nat where
  "ARM_LDRD \<equiv> 160"

abbreviation (input) ARM_LDRD_POST :: nat where
  "ARM_LDRD_POST \<equiv> 161"

abbreviation (input) ARM_LDRD_PRE :: nat where
  "ARM_LDRD_PRE \<equiv> 162"

abbreviation (input) ARM_LDREXD :: nat where
  "ARM_LDREXD \<equiv> 165"

abbreviation (input) ARM_LDRH :: nat where
  "ARM_LDRH \<equiv> 167"

abbreviation (input) ARM_LDRHTr :: nat where
  "ARM_LDRHTr \<equiv> 169"

abbreviation (input) ARM_LDRH_POST :: nat where
  "ARM_LDRH_POST \<equiv> 170"

abbreviation (input) ARM_LDRH_PRE :: nat where
  "ARM_LDRH_PRE \<equiv> 171"

abbreviation (input) ARM_LDRSB :: nat where
  "ARM_LDRSB \<equiv> 175"

abbreviation (input) ARM_LDRSBTr :: nat where
  "ARM_LDRSBTr \<equiv> 177"

abbreviation (input) ARM_LDRSB_POST :: nat where
  "ARM_LDRSB_POST \<equiv> 178"

abbreviation (input) ARM_LDRSB_PRE :: nat where
  "ARM_LDRSB_PRE \<equiv> 179"

abbreviation (input) ARM_LDRSH :: nat where
  "ARM_LDRSH \<equiv> 180"

abbreviation (input) ARM_LDRSH_POST :: nat where
  "ARM_LDRSH_POST \<equiv> 183"

abbreviation (input) ARM_LDRSH_PRE :: nat where
  "ARM_LDRSH_PRE \<equiv> 184"

abbreviation (input) ARM_LDRT_POST_IMM :: nat where
  "ARM_LDRT_POST_IMM \<equiv> 186"

abbreviation (input) ARM_LDRT_POST_REG :: nat where
  "ARM_LDRT_POST_REG \<equiv> 187"

abbreviation (input) ARM_LDR_POST_IMM :: nat where
  "ARM_LDR_POST_IMM \<equiv> 188"

abbreviation (input) ARM_LDR_POST_REG :: nat where
  "ARM_LDR_POST_REG \<equiv> 189"

abbreviation (input) ARM_MOVPCLR :: nat where
  "ARM_MOVPCLR \<equiv> 214"

abbreviation (input) ARM_MOVTi16 :: nat where
  "ARM_MOVTi16 \<equiv> 216"

abbreviation (input) ARM_MOVsi :: nat where
  "ARM_MOVsi \<equiv> 226"

abbreviation (input) ARM_MOVsr :: nat where
  "ARM_MOVsr \<equiv> 227"

abbreviation (input) ARM_PLDWi12 :: nat where
  "ARM_PLDWi12 \<equiv> 260"

abbreviation (input) ARM_PLDWrs :: nat where
  "ARM_PLDWrs \<equiv> 261"

abbreviation (input) ARM_PLDi12 :: nat where
  "ARM_PLDi12 \<equiv> 262"

abbreviation (input) ARM_PLDrs :: nat where
  "ARM_PLDrs \<equiv> 263"

abbreviation (input) ARM_PLIi12 :: nat where
  "ARM_PLIi12 \<equiv> 264"

abbreviation (input) ARM_PLIrs :: nat where
  "ARM_PLIrs \<equiv> 265"

abbreviation (input) ARM_RFEDA :: nat where
  "ARM_RFEDA \<equiv> 280"

abbreviation (input) ARM_RFEDA_UPD :: nat where
  "ARM_RFEDA_UPD \<equiv> 281"

abbreviation (input) ARM_RFEDB :: nat where
  "ARM_RFEDB \<equiv> 282"

abbreviation (input) ARM_RFEDB_UPD :: nat where
  "ARM_RFEDB_UPD \<equiv> 283"

abbreviation (input) ARM_RFEIA :: nat where
  "ARM_RFEIA \<equiv> 284"

abbreviation (input) ARM_RFEIA_UPD :: nat where
  "ARM_RFEIA_UPD \<equiv> 285"

abbreviation (input) ARM_RFEIB :: nat where
  "ARM_RFEIB \<equiv> 286"

abbreviation (input) ARM_RFEIB_UPD :: nat where
  "ARM_RFEIB_UPD \<equiv> 287"

abbreviation (input) ARM_SRSDA :: nat where
  "ARM_SRSDA \<equiv> 369"

abbreviation (input) ARM_SRSDA_UPD :: nat where
  "ARM_SRSDA_UPD \<equiv> 370"

abbreviation (input) ARM_SRSDB :: nat where
  "ARM_SRSDB \<equiv> 371"

abbreviation (input) ARM_SRSDB_UPD :: nat where
  "ARM_SRSDB_UPD \<equiv> 372"

abbreviation (input) ARM_SRSIA :: nat where
  "ARM_SRSIA \<equiv> 373"

abbreviation (input) ARM_SRSIA_UPD :: nat where
  "ARM_SRSIA_UPD \<equiv> 374"

abbreviation (input) ARM_SRSIB :: nat where
  "ARM_SRSIB \<equiv> 375"

abbreviation (input) ARM_SRSIB_UPD :: nat where
  "ARM_SRSIB_UPD \<equiv> 376"

abbreviation (input) ARM_STC2L_OFFSET :: nat where
  "ARM_STC2L_OFFSET \<equiv> 382"

abbreviation (input) ARM_STC2L_POST :: nat where
  "ARM_STC2L_POST \<equiv> 384"

abbreviation (input) ARM_STC2L_PRE :: nat where
  "ARM_STC2L_PRE \<equiv> 385"

abbreviation (input) ARM_STC2_OFFSET :: nat where
  "ARM_STC2_OFFSET \<equiv> 386"

abbreviation (input) ARM_STC2_POST :: nat where
  "ARM_STC2_POST \<equiv> 388"

abbreviation (input) ARM_STC2_PRE :: nat where
  "ARM_STC2_PRE \<equiv> 389"

abbreviation (input) ARM_STCL_OFFSET :: nat where
  "ARM_STCL_OFFSET \<equiv> 390"

abbreviation (input) ARM_STCL_OPTION :: nat where
  "ARM_STCL_OPTION \<equiv> 391"

abbreviation (input) ARM_STCL_POST :: nat where
  "ARM_STCL_POST \<equiv> 392"

abbreviation (input) ARM_STCL_PRE :: nat where
  "ARM_STCL_PRE \<equiv> 393"

abbreviation (input) ARM_STC_OFFSET :: nat where
  "ARM_STC_OFFSET \<equiv> 394"

abbreviation (input) ARM_STC_OPTION :: nat where
  "ARM_STC_OPTION \<equiv> 395"

abbreviation (input) ARM_STC_POST :: nat where
  "ARM_STC_POST \<equiv> 396"

abbreviation (input) ARM_STC_PRE :: nat where
  "ARM_STC_PRE \<equiv> 397"

abbreviation (input) ARM_STLEXD :: nat where
  "ARM_STLEXD \<equiv> 402"

abbreviation (input) ARM_STMDA :: nat where
  "ARM_STMDA \<equiv> 405"

abbreviation (input) ARM_STMDA_UPD :: nat where
  "ARM_STMDA_UPD \<equiv> 406"

abbreviation (input) ARM_STMDB :: nat where
  "ARM_STMDB \<equiv> 407"

abbreviation (input) ARM_STMDB_UPD :: nat where
  "ARM_STMDB_UPD \<equiv> 408"

abbreviation (input) ARM_STMIA :: nat where
  "ARM_STMIA \<equiv> 409"

abbreviation (input) ARM_STMIA_UPD :: nat where
  "ARM_STMIA_UPD \<equiv> 410"

abbreviation (input) ARM_STMIB :: nat where
  "ARM_STMIB \<equiv> 411"

abbreviation (input) ARM_STMIB_UPD :: nat where
  "ARM_STMIB_UPD \<equiv> 412"

abbreviation (input) ARM_STRBT_POST :: nat where
  "ARM_STRBT_POST \<equiv> 413"

abbreviation (input) ARM_STRBT_POST_IMM :: nat where
  "ARM_STRBT_POST_IMM \<equiv> 414"

abbreviation (input) ARM_STRBT_POST_REG :: nat where
  "ARM_STRBT_POST_REG \<equiv> 415"

abbreviation (input) ARM_STRB_POST_IMM :: nat where
  "ARM_STRB_POST_IMM \<equiv> 416"

abbreviation (input) ARM_STRB_POST_REG :: nat where
  "ARM_STRB_POST_REG \<equiv> 417"

abbreviation (input) ARM_STRD :: nat where
  "ARM_STRD \<equiv> 424"

abbreviation (input) ARM_STRD_POST :: nat where
  "ARM_STRD_POST \<equiv> 425"

abbreviation (input) ARM_STRD_PRE :: nat where
  "ARM_STRD_PRE \<equiv> 426"

abbreviation (input) ARM_STREXD :: nat where
  "ARM_STREXD \<equiv> 429"

abbreviation (input) ARM_STRH :: nat where
  "ARM_STRH \<equiv> 431"

abbreviation (input) ARM_STRH_POST :: nat where
  "ARM_STRH_POST \<equiv> 434"

abbreviation (input) ARM_STRH_PRE :: nat where
  "ARM_STRH_PRE \<equiv> 435"

abbreviation (input) ARM_STRT_POST_IMM :: nat where
  "ARM_STRT_POST_IMM \<equiv> 438"

abbreviation (input) ARM_STRT_POST_REG :: nat where
  "ARM_STRT_POST_REG \<equiv> 439"

abbreviation (input) ARM_STR_POST_IMM :: nat where
  "ARM_STR_POST_IMM \<equiv> 440"

abbreviation (input) ARM_STR_POST_REG :: nat where
  "ARM_STR_POST_REG \<equiv> 441"

abbreviation (input) ARM_STR_PRE_IMM :: nat where
  "ARM_STR_PRE_IMM \<equiv> 442"

abbreviation (input) ARM_VBICiv2i32 :: nat where
  "ARM_VBICiv2i32 \<equiv> 599"

abbreviation (input) ARM_VBICiv4i16 :: nat where
  "ARM_VBICiv4i16 \<equiv> 600"

abbreviation (input) ARM_VBICiv4i32 :: nat where
  "ARM_VBICiv4i32 \<equiv> 601"

abbreviation (input) ARM_VBICiv8i16 :: nat where
  "ARM_VBICiv8i16 \<equiv> 602"

abbreviation (input) ARM_VLD1DUPq16 :: nat where
  "ARM_VLD1DUPq16 \<equiv> 841"

abbreviation (input) ARM_VLD1DUPq16wb_fixed :: nat where
  "ARM_VLD1DUPq16wb_fixed \<equiv> 842"

abbreviation (input) ARM_VLD1DUPq16wb_register :: nat where
  "ARM_VLD1DUPq16wb_register \<equiv> 843"

abbreviation (input) ARM_VLD1DUPq32 :: nat where
  "ARM_VLD1DUPq32 \<equiv> 844"

abbreviation (input) ARM_VLD1DUPq32wb_fixed :: nat where
  "ARM_VLD1DUPq32wb_fixed \<equiv> 845"

abbreviation (input) ARM_VLD1DUPq32wb_register :: nat where
  "ARM_VLD1DUPq32wb_register \<equiv> 846"

abbreviation (input) ARM_VLD1DUPq8 :: nat where
  "ARM_VLD1DUPq8 \<equiv> 847"

abbreviation (input) ARM_VLD1DUPq8wb_fixed :: nat where
  "ARM_VLD1DUPq8wb_fixed \<equiv> 848"

abbreviation (input) ARM_VLD1DUPq8wb_register :: nat where
  "ARM_VLD1DUPq8wb_register \<equiv> 849"

abbreviation (input) ARM_VLD1d16Qwb_fixed :: nat where
  "ARM_VLD1d16Qwb_fixed \<equiv> 873"

abbreviation (input) ARM_VLD1d16Qwb_register :: nat where
  "ARM_VLD1d16Qwb_register \<equiv> 874"

abbreviation (input) ARM_VLD1d16Twb_fixed :: nat where
  "ARM_VLD1d16Twb_fixed \<equiv> 876"

abbreviation (input) ARM_VLD1d16Twb_register :: nat where
  "ARM_VLD1d16Twb_register \<equiv> 877"

abbreviation (input) ARM_VLD1d16wb_fixed :: nat where
  "ARM_VLD1d16wb_fixed \<equiv> 878"

abbreviation (input) ARM_VLD1d16wb_register :: nat where
  "ARM_VLD1d16wb_register \<equiv> 879"

abbreviation (input) ARM_VLD1d32Qwb_fixed :: nat where
  "ARM_VLD1d32Qwb_fixed \<equiv> 882"

abbreviation (input) ARM_VLD1d32Qwb_register :: nat where
  "ARM_VLD1d32Qwb_register \<equiv> 883"

abbreviation (input) ARM_VLD1d32Twb_fixed :: nat where
  "ARM_VLD1d32Twb_fixed \<equiv> 885"

abbreviation (input) ARM_VLD1d32Twb_register :: nat where
  "ARM_VLD1d32Twb_register \<equiv> 886"

abbreviation (input) ARM_VLD1d32wb_fixed :: nat where
  "ARM_VLD1d32wb_fixed \<equiv> 887"

abbreviation (input) ARM_VLD1d32wb_register :: nat where
  "ARM_VLD1d32wb_register \<equiv> 888"

abbreviation (input) ARM_VLD1d64Qwb_fixed :: nat where
  "ARM_VLD1d64Qwb_fixed \<equiv> 894"

abbreviation (input) ARM_VLD1d64Qwb_register :: nat where
  "ARM_VLD1d64Qwb_register \<equiv> 895"

abbreviation (input) ARM_VLD1d64Twb_fixed :: nat where
  "ARM_VLD1d64Twb_fixed \<equiv> 900"

abbreviation (input) ARM_VLD1d64Twb_register :: nat where
  "ARM_VLD1d64Twb_register \<equiv> 901"

abbreviation (input) ARM_VLD1d64wb_fixed :: nat where
  "ARM_VLD1d64wb_fixed \<equiv> 902"

abbreviation (input) ARM_VLD1d64wb_register :: nat where
  "ARM_VLD1d64wb_register \<equiv> 903"

abbreviation (input) ARM_VLD1d8Qwb_fixed :: nat where
  "ARM_VLD1d8Qwb_fixed \<equiv> 906"

abbreviation (input) ARM_VLD1d8Qwb_register :: nat where
  "ARM_VLD1d8Qwb_register \<equiv> 907"

abbreviation (input) ARM_VLD1d8Twb_fixed :: nat where
  "ARM_VLD1d8Twb_fixed \<equiv> 909"

abbreviation (input) ARM_VLD1d8Twb_register :: nat where
  "ARM_VLD1d8Twb_register \<equiv> 910"

abbreviation (input) ARM_VLD1d8wb_fixed :: nat where
  "ARM_VLD1d8wb_fixed \<equiv> 911"

abbreviation (input) ARM_VLD1d8wb_register :: nat where
  "ARM_VLD1d8wb_register \<equiv> 912"

abbreviation (input) ARM_VLD1q16 :: nat where
  "ARM_VLD1q16 \<equiv> 913"

abbreviation (input) ARM_VLD1q16wb_fixed :: nat where
  "ARM_VLD1q16wb_fixed \<equiv> 914"

abbreviation (input) ARM_VLD1q16wb_register :: nat where
  "ARM_VLD1q16wb_register \<equiv> 915"

abbreviation (input) ARM_VLD1q32 :: nat where
  "ARM_VLD1q32 \<equiv> 916"

abbreviation (input) ARM_VLD1q32wb_fixed :: nat where
  "ARM_VLD1q32wb_fixed \<equiv> 917"

abbreviation (input) ARM_VLD1q32wb_register :: nat where
  "ARM_VLD1q32wb_register \<equiv> 918"

abbreviation (input) ARM_VLD1q64 :: nat where
  "ARM_VLD1q64 \<equiv> 919"

abbreviation (input) ARM_VLD1q64wb_fixed :: nat where
  "ARM_VLD1q64wb_fixed \<equiv> 920"

abbreviation (input) ARM_VLD1q64wb_register :: nat where
  "ARM_VLD1q64wb_register \<equiv> 921"

abbreviation (input) ARM_VLD1q8 :: nat where
  "ARM_VLD1q8 \<equiv> 922"

abbreviation (input) ARM_VLD1q8wb_fixed :: nat where
  "ARM_VLD1q8wb_fixed \<equiv> 923"

abbreviation (input) ARM_VLD1q8wb_register :: nat where
  "ARM_VLD1q8wb_register \<equiv> 924"

abbreviation (input) ARM_VLD2DUPd16 :: nat where
  "ARM_VLD2DUPd16 \<equiv> 925"

abbreviation (input) ARM_VLD2DUPd16wb_fixed :: nat where
  "ARM_VLD2DUPd16wb_fixed \<equiv> 926"

abbreviation (input) ARM_VLD2DUPd16wb_register :: nat where
  "ARM_VLD2DUPd16wb_register \<equiv> 927"

abbreviation (input) ARM_VLD2DUPd16x2 :: nat where
  "ARM_VLD2DUPd16x2 \<equiv> 928"

abbreviation (input) ARM_VLD2DUPd16x2wb_fixed :: nat where
  "ARM_VLD2DUPd16x2wb_fixed \<equiv> 929"

abbreviation (input) ARM_VLD2DUPd16x2wb_register :: nat where
  "ARM_VLD2DUPd16x2wb_register \<equiv> 930"

abbreviation (input) ARM_VLD2DUPd32 :: nat where
  "ARM_VLD2DUPd32 \<equiv> 931"

abbreviation (input) ARM_VLD2DUPd32wb_fixed :: nat where
  "ARM_VLD2DUPd32wb_fixed \<equiv> 932"

abbreviation (input) ARM_VLD2DUPd32wb_register :: nat where
  "ARM_VLD2DUPd32wb_register \<equiv> 933"

abbreviation (input) ARM_VLD2DUPd32x2 :: nat where
  "ARM_VLD2DUPd32x2 \<equiv> 934"

abbreviation (input) ARM_VLD2DUPd32x2wb_fixed :: nat where
  "ARM_VLD2DUPd32x2wb_fixed \<equiv> 935"

abbreviation (input) ARM_VLD2DUPd32x2wb_register :: nat where
  "ARM_VLD2DUPd32x2wb_register \<equiv> 936"

abbreviation (input) ARM_VLD2DUPd8 :: nat where
  "ARM_VLD2DUPd8 \<equiv> 937"

abbreviation (input) ARM_VLD2DUPd8wb_fixed :: nat where
  "ARM_VLD2DUPd8wb_fixed \<equiv> 938"

abbreviation (input) ARM_VLD2DUPd8wb_register :: nat where
  "ARM_VLD2DUPd8wb_register \<equiv> 939"

abbreviation (input) ARM_VLD2DUPd8x2 :: nat where
  "ARM_VLD2DUPd8x2 \<equiv> 940"

abbreviation (input) ARM_VLD2DUPd8x2wb_fixed :: nat where
  "ARM_VLD2DUPd8x2wb_fixed \<equiv> 941"

abbreviation (input) ARM_VLD2DUPd8x2wb_register :: nat where
  "ARM_VLD2DUPd8x2wb_register \<equiv> 942"

abbreviation (input) ARM_VLD2b16 :: nat where
  "ARM_VLD2b16 \<equiv> 978"

abbreviation (input) ARM_VLD2b16wb_fixed :: nat where
  "ARM_VLD2b16wb_fixed \<equiv> 979"

abbreviation (input) ARM_VLD2b16wb_register :: nat where
  "ARM_VLD2b16wb_register \<equiv> 980"

abbreviation (input) ARM_VLD2b32 :: nat where
  "ARM_VLD2b32 \<equiv> 981"

abbreviation (input) ARM_VLD2b32wb_fixed :: nat where
  "ARM_VLD2b32wb_fixed \<equiv> 982"

abbreviation (input) ARM_VLD2b32wb_register :: nat where
  "ARM_VLD2b32wb_register \<equiv> 983"

abbreviation (input) ARM_VLD2b8 :: nat where
  "ARM_VLD2b8 \<equiv> 984"

abbreviation (input) ARM_VLD2b8wb_fixed :: nat where
  "ARM_VLD2b8wb_fixed \<equiv> 985"

abbreviation (input) ARM_VLD2b8wb_register :: nat where
  "ARM_VLD2b8wb_register \<equiv> 986"

abbreviation (input) ARM_VLD2d16 :: nat where
  "ARM_VLD2d16 \<equiv> 987"

abbreviation (input) ARM_VLD2d16wb_fixed :: nat where
  "ARM_VLD2d16wb_fixed \<equiv> 988"

abbreviation (input) ARM_VLD2d16wb_register :: nat where
  "ARM_VLD2d16wb_register \<equiv> 989"

abbreviation (input) ARM_VLD2d32 :: nat where
  "ARM_VLD2d32 \<equiv> 990"

abbreviation (input) ARM_VLD2d32wb_fixed :: nat where
  "ARM_VLD2d32wb_fixed \<equiv> 991"

abbreviation (input) ARM_VLD2d32wb_register :: nat where
  "ARM_VLD2d32wb_register \<equiv> 992"

abbreviation (input) ARM_VLD2d8 :: nat where
  "ARM_VLD2d8 \<equiv> 993"

abbreviation (input) ARM_VLD2d8wb_fixed :: nat where
  "ARM_VLD2d8wb_fixed \<equiv> 994"

abbreviation (input) ARM_VLD2d8wb_register :: nat where
  "ARM_VLD2d8wb_register \<equiv> 995"

abbreviation (input) ARM_VLD2q16wb_fixed :: nat where
  "ARM_VLD2q16wb_fixed \<equiv> 1000"

abbreviation (input) ARM_VLD2q16wb_register :: nat where
  "ARM_VLD2q16wb_register \<equiv> 1001"

abbreviation (input) ARM_VLD2q32wb_fixed :: nat where
  "ARM_VLD2q32wb_fixed \<equiv> 1006"

abbreviation (input) ARM_VLD2q32wb_register :: nat where
  "ARM_VLD2q32wb_register \<equiv> 1007"

abbreviation (input) ARM_VLD2q8wb_fixed :: nat where
  "ARM_VLD2q8wb_fixed \<equiv> 1012"

abbreviation (input) ARM_VLD2q8wb_register :: nat where
  "ARM_VLD2q8wb_register \<equiv> 1013"

abbreviation (input) ARM_VLD3d16 :: nat where
  "ARM_VLD3d16 \<equiv> 1085"

abbreviation (input) ARM_VLD3d16_UPD :: nat where
  "ARM_VLD3d16_UPD \<equiv> 1088"

abbreviation (input) ARM_VLD3d32 :: nat where
  "ARM_VLD3d32 \<equiv> 1089"

abbreviation (input) ARM_VLD3d32_UPD :: nat where
  "ARM_VLD3d32_UPD \<equiv> 1092"

abbreviation (input) ARM_VLD3d8 :: nat where
  "ARM_VLD3d8 \<equiv> 1093"

abbreviation (input) ARM_VLD3d8_UPD :: nat where
  "ARM_VLD3d8_UPD \<equiv> 1096"

abbreviation (input) ARM_VLD3q16 :: nat where
  "ARM_VLD3q16 \<equiv> 1106"

abbreviation (input) ARM_VLD3q16_UPD :: nat where
  "ARM_VLD3q16_UPD \<equiv> 1108"

abbreviation (input) ARM_VLD3q32 :: nat where
  "ARM_VLD3q32 \<equiv> 1111"

abbreviation (input) ARM_VLD3q32_UPD :: nat where
  "ARM_VLD3q32_UPD \<equiv> 1113"

abbreviation (input) ARM_VLD3q8 :: nat where
  "ARM_VLD3q8 \<equiv> 1116"

abbreviation (input) ARM_VLD3q8_UPD :: nat where
  "ARM_VLD3q8_UPD \<equiv> 1118"

abbreviation (input) ARM_VLD4d16 :: nat where
  "ARM_VLD4d16 \<equiv> 1201"

abbreviation (input) ARM_VLD4d16_UPD :: nat where
  "ARM_VLD4d16_UPD \<equiv> 1204"

abbreviation (input) ARM_VLD4d32 :: nat where
  "ARM_VLD4d32 \<equiv> 1205"

abbreviation (input) ARM_VLD4d32_UPD :: nat where
  "ARM_VLD4d32_UPD \<equiv> 1208"

abbreviation (input) ARM_VLD4d8 :: nat where
  "ARM_VLD4d8 \<equiv> 1209"

abbreviation (input) ARM_VLD4d8_UPD :: nat where
  "ARM_VLD4d8_UPD \<equiv> 1212"

abbreviation (input) ARM_VLD4q16 :: nat where
  "ARM_VLD4q16 \<equiv> 1222"

abbreviation (input) ARM_VLD4q16_UPD :: nat where
  "ARM_VLD4q16_UPD \<equiv> 1224"

abbreviation (input) ARM_VLD4q32 :: nat where
  "ARM_VLD4q32 \<equiv> 1227"

abbreviation (input) ARM_VLD4q32_UPD :: nat where
  "ARM_VLD4q32_UPD \<equiv> 1229"

abbreviation (input) ARM_VLD4q8 :: nat where
  "ARM_VLD4q8 \<equiv> 1232"

abbreviation (input) ARM_VLD4q8_UPD :: nat where
  "ARM_VLD4q8_UPD \<equiv> 1234"

abbreviation (input) ARM_VLDMDIA_UPD :: nat where
  "ARM_VLDMDIA_UPD \<equiv> 1248"

abbreviation (input) ARM_VLDMSIA_UPD :: nat where
  "ARM_VLDMSIA_UPD \<equiv> 1252"

abbreviation (input) ARM_VMOVv2f32 :: nat where
  "ARM_VMOVv2f32 \<equiv> 1366"

abbreviation (input) ARM_VMOVv4f32 :: nat where
  "ARM_VMOVv4f32 \<equiv> 1369"

abbreviation (input) ARM_VORRiv2i32 :: nat where
  "ARM_VORRiv2i32 \<equiv> 1442"

abbreviation (input) ARM_VORRiv4i16 :: nat where
  "ARM_VORRiv4i16 \<equiv> 1443"

abbreviation (input) ARM_VORRiv4i32 :: nat where
  "ARM_VORRiv4i32 \<equiv> 1444"

abbreviation (input) ARM_VORRiv8i16 :: nat where
  "ARM_VORRiv8i16 \<equiv> 1445"

abbreviation (input) ARM_VST1d16Qwb_fixed :: nat where
  "ARM_VST1d16Qwb_fixed \<equiv> 1889"

abbreviation (input) ARM_VST1d16Qwb_register :: nat where
  "ARM_VST1d16Qwb_register \<equiv> 1890"

abbreviation (input) ARM_VST1d16Twb_fixed :: nat where
  "ARM_VST1d16Twb_fixed \<equiv> 1892"

abbreviation (input) ARM_VST1d16Twb_register :: nat where
  "ARM_VST1d16Twb_register \<equiv> 1893"

abbreviation (input) ARM_VST1d16wb_fixed :: nat where
  "ARM_VST1d16wb_fixed \<equiv> 1894"

abbreviation (input) ARM_VST1d16wb_register :: nat where
  "ARM_VST1d16wb_register \<equiv> 1895"

abbreviation (input) ARM_VST1d32Qwb_fixed :: nat where
  "ARM_VST1d32Qwb_fixed \<equiv> 1898"

abbreviation (input) ARM_VST1d32Qwb_register :: nat where
  "ARM_VST1d32Qwb_register \<equiv> 1899"

abbreviation (input) ARM_VST1d32Twb_fixed :: nat where
  "ARM_VST1d32Twb_fixed \<equiv> 1901"

abbreviation (input) ARM_VST1d32Twb_register :: nat where
  "ARM_VST1d32Twb_register \<equiv> 1902"

abbreviation (input) ARM_VST1d32wb_fixed :: nat where
  "ARM_VST1d32wb_fixed \<equiv> 1903"

abbreviation (input) ARM_VST1d32wb_register :: nat where
  "ARM_VST1d32wb_register \<equiv> 1904"

abbreviation (input) ARM_VST1d64Qwb_fixed :: nat where
  "ARM_VST1d64Qwb_fixed \<equiv> 1910"

abbreviation (input) ARM_VST1d64Qwb_register :: nat where
  "ARM_VST1d64Qwb_register \<equiv> 1911"

abbreviation (input) ARM_VST1d64Twb_fixed :: nat where
  "ARM_VST1d64Twb_fixed \<equiv> 1916"

abbreviation (input) ARM_VST1d64Twb_register :: nat where
  "ARM_VST1d64Twb_register \<equiv> 1917"

abbreviation (input) ARM_VST1d64wb_fixed :: nat where
  "ARM_VST1d64wb_fixed \<equiv> 1918"

abbreviation (input) ARM_VST1d64wb_register :: nat where
  "ARM_VST1d64wb_register \<equiv> 1919"

abbreviation (input) ARM_VST1d8Qwb_fixed :: nat where
  "ARM_VST1d8Qwb_fixed \<equiv> 1922"

abbreviation (input) ARM_VST1d8Qwb_register :: nat where
  "ARM_VST1d8Qwb_register \<equiv> 1923"

abbreviation (input) ARM_VST1d8Twb_fixed :: nat where
  "ARM_VST1d8Twb_fixed \<equiv> 1925"

abbreviation (input) ARM_VST1d8Twb_register :: nat where
  "ARM_VST1d8Twb_register \<equiv> 1926"

abbreviation (input) ARM_VST1d8wb_fixed :: nat where
  "ARM_VST1d8wb_fixed \<equiv> 1927"

abbreviation (input) ARM_VST1d8wb_register :: nat where
  "ARM_VST1d8wb_register \<equiv> 1928"

abbreviation (input) ARM_VST1q16 :: nat where
  "ARM_VST1q16 \<equiv> 1929"

abbreviation (input) ARM_VST1q16wb_fixed :: nat where
  "ARM_VST1q16wb_fixed \<equiv> 1930"

abbreviation (input) ARM_VST1q16wb_register :: nat where
  "ARM_VST1q16wb_register \<equiv> 1931"

abbreviation (input) ARM_VST1q32 :: nat where
  "ARM_VST1q32 \<equiv> 1932"

abbreviation (input) ARM_VST1q32wb_fixed :: nat where
  "ARM_VST1q32wb_fixed \<equiv> 1933"

abbreviation (input) ARM_VST1q32wb_register :: nat where
  "ARM_VST1q32wb_register \<equiv> 1934"

abbreviation (input) ARM_VST1q64 :: nat where
  "ARM_VST1q64 \<equiv> 1935"

abbreviation (input) ARM_VST1q64wb_fixed :: nat where
  "ARM_VST1q64wb_fixed \<equiv> 1936"

abbreviation (input) ARM_VST1q64wb_register :: nat where
  "ARM_VST1q64wb_register \<equiv> 1937"

abbreviation (input) ARM_VST1q8 :: nat where
  "ARM_VST1q8 \<equiv> 1938"

abbreviation (input) ARM_VST1q8wb_fixed :: nat where
  "ARM_VST1q8wb_fixed \<equiv> 1939"

abbreviation (input) ARM_VST1q8wb_register :: nat where
  "ARM_VST1q8wb_register \<equiv> 1940"

abbreviation (input) ARM_VST2b16 :: nat where
  "ARM_VST2b16 \<equiv> 1976"

abbreviation (input) ARM_VST2b16wb_fixed :: nat where
  "ARM_VST2b16wb_fixed \<equiv> 1977"

abbreviation (input) ARM_VST2b16wb_register :: nat where
  "ARM_VST2b16wb_register \<equiv> 1978"

abbreviation (input) ARM_VST2b32 :: nat where
  "ARM_VST2b32 \<equiv> 1979"

abbreviation (input) ARM_VST2b32wb_fixed :: nat where
  "ARM_VST2b32wb_fixed \<equiv> 1980"

abbreviation (input) ARM_VST2b32wb_register :: nat where
  "ARM_VST2b32wb_register \<equiv> 1981"

abbreviation (input) ARM_VST2b8 :: nat where
  "ARM_VST2b8 \<equiv> 1982"

abbreviation (input) ARM_VST2b8wb_fixed :: nat where
  "ARM_VST2b8wb_fixed \<equiv> 1983"

abbreviation (input) ARM_VST2b8wb_register :: nat where
  "ARM_VST2b8wb_register \<equiv> 1984"

abbreviation (input) ARM_VST2d16 :: nat where
  "ARM_VST2d16 \<equiv> 1985"

abbreviation (input) ARM_VST2d16wb_fixed :: nat where
  "ARM_VST2d16wb_fixed \<equiv> 1986"

abbreviation (input) ARM_VST2d16wb_register :: nat where
  "ARM_VST2d16wb_register \<equiv> 1987"

abbreviation (input) ARM_VST2d32 :: nat where
  "ARM_VST2d32 \<equiv> 1988"

abbreviation (input) ARM_VST2d32wb_fixed :: nat where
  "ARM_VST2d32wb_fixed \<equiv> 1989"

abbreviation (input) ARM_VST2d32wb_register :: nat where
  "ARM_VST2d32wb_register \<equiv> 1990"

abbreviation (input) ARM_VST2d8 :: nat where
  "ARM_VST2d8 \<equiv> 1991"

abbreviation (input) ARM_VST2d8wb_fixed :: nat where
  "ARM_VST2d8wb_fixed \<equiv> 1992"

abbreviation (input) ARM_VST2d8wb_register :: nat where
  "ARM_VST2d8wb_register \<equiv> 1993"

abbreviation (input) ARM_VST2q16wb_fixed :: nat where
  "ARM_VST2q16wb_fixed \<equiv> 1998"

abbreviation (input) ARM_VST2q16wb_register :: nat where
  "ARM_VST2q16wb_register \<equiv> 1999"

abbreviation (input) ARM_VST2q32wb_fixed :: nat where
  "ARM_VST2q32wb_fixed \<equiv> 2004"

abbreviation (input) ARM_VST2q32wb_register :: nat where
  "ARM_VST2q32wb_register \<equiv> 2005"

abbreviation (input) ARM_VST2q8wb_fixed :: nat where
  "ARM_VST2q8wb_fixed \<equiv> 2010"

abbreviation (input) ARM_VST2q8wb_register :: nat where
  "ARM_VST2q8wb_register \<equiv> 2011"

abbreviation (input) ARM_VST3d16 :: nat where
  "ARM_VST3d16 \<equiv> 2047"

abbreviation (input) ARM_VST3d16_UPD :: nat where
  "ARM_VST3d16_UPD \<equiv> 2050"

abbreviation (input) ARM_VST3d32 :: nat where
  "ARM_VST3d32 \<equiv> 2051"

abbreviation (input) ARM_VST3d32_UPD :: nat where
  "ARM_VST3d32_UPD \<equiv> 2054"

abbreviation (input) ARM_VST3d8 :: nat where
  "ARM_VST3d8 \<equiv> 2055"

abbreviation (input) ARM_VST3d8_UPD :: nat where
  "ARM_VST3d8_UPD \<equiv> 2058"

abbreviation (input) ARM_VST3q16 :: nat where
  "ARM_VST3q16 \<equiv> 2068"

abbreviation (input) ARM_VST3q16_UPD :: nat where
  "ARM_VST3q16_UPD \<equiv> 2070"

abbreviation (input) ARM_VST3q32 :: nat where
  "ARM_VST3q32 \<equiv> 2073"

abbreviation (input) ARM_VST3q32_UPD :: nat where
  "ARM_VST3q32_UPD \<equiv> 2075"

abbreviation (input) ARM_VST3q8 :: nat where
  "ARM_VST3q8 \<equiv> 2078"

abbreviation (input) ARM_VST3q8_UPD :: nat where
  "ARM_VST3q8_UPD \<equiv> 2080"

abbreviation (input) ARM_VST4d16 :: nat where
  "ARM_VST4d16 \<equiv> 2127"

abbreviation (input) ARM_VST4d16_UPD :: nat where
  "ARM_VST4d16_UPD \<equiv> 2130"

abbreviation (input) ARM_VST4d32 :: nat where
  "ARM_VST4d32 \<equiv> 2131"

abbreviation (input) ARM_VST4d32_UPD :: nat where
  "ARM_VST4d32_UPD \<equiv> 2134"

abbreviation (input) ARM_VST4d8 :: nat where
  "ARM_VST4d8 \<equiv> 2135"

abbreviation (input) ARM_VST4d8_UPD :: nat where
  "ARM_VST4d8_UPD \<equiv> 2138"

abbreviation (input) ARM_VST4q16 :: nat where
  "ARM_VST4q16 \<equiv> 2148"

abbreviation (input) ARM_VST4q16_UPD :: nat where
  "ARM_VST4q16_UPD \<equiv> 2150"

abbreviation (input) ARM_VST4q32 :: nat where
  "ARM_VST4q32 \<equiv> 2153"

abbreviation (input) ARM_VST4q32_UPD :: nat where
  "ARM_VST4q32_UPD \<equiv> 2155"

abbreviation (input) ARM_VST4q8 :: nat where
  "ARM_VST4q8 \<equiv> 2158"

abbreviation (input) ARM_VST4q8_UPD :: nat where
  "ARM_VST4q8_UPD \<equiv> 2160"

abbreviation (input) ARM_VSTMDDB_UPD :: nat where
  "ARM_VSTMDDB_UPD \<equiv> 2172"

abbreviation (input) ARM_VSTMSDB_UPD :: nat where
  "ARM_VSTMSDB_UPD \<equiv> 2176"

abbreviation (input) ARM_VTBL2 :: nat where
  "ARM_VTBL2 \<equiv> 2211"

abbreviation (input) ARM_VTBX2 :: nat where
  "ARM_VTBX2 \<equiv> 2217"

abbreviation (input) ARM_t2B :: nat where
  "ARM_t2B \<equiv> 2300"

abbreviation (input) ARM_t2Bcc :: nat where
  "ARM_t2Bcc \<equiv> 2308"

abbreviation (input) ARM_t2CPS1p :: nat where
  "ARM_t2CPS1p \<equiv> 2319"

abbreviation (input) ARM_t2CPS2p :: nat where
  "ARM_t2CPS2p \<equiv> 2320"

abbreviation (input) ARM_t2CPS3p :: nat where
  "ARM_t2CPS3p \<equiv> 2321"

abbreviation (input) ARM_t2DMB :: nat where
  "ARM_t2DMB \<equiv> 2332"

abbreviation (input) ARM_t2DSB :: nat where
  "ARM_t2DSB \<equiv> 2333"

abbreviation (input) ARM_t2HINT :: nat where
  "ARM_t2HINT \<equiv> 2337"

abbreviation (input) ARM_t2ISB :: nat where
  "ARM_t2ISB \<equiv> 2338"

abbreviation (input) ARM_t2IT :: nat where
  "ARM_t2IT \<equiv> 2339"

abbreviation (input) ARM_t2LDC2L_OFFSET :: nat where
  "ARM_t2LDC2L_OFFSET \<equiv> 2349"

abbreviation (input) ARM_t2LDC2L_POST :: nat where
  "ARM_t2LDC2L_POST \<equiv> 2351"

abbreviation (input) ARM_t2LDC2L_PRE :: nat where
  "ARM_t2LDC2L_PRE \<equiv> 2352"

abbreviation (input) ARM_t2LDC2_OFFSET :: nat where
  "ARM_t2LDC2_OFFSET \<equiv> 2353"

abbreviation (input) ARM_t2LDC2_POST :: nat where
  "ARM_t2LDC2_POST \<equiv> 2355"

abbreviation (input) ARM_t2LDC2_PRE :: nat where
  "ARM_t2LDC2_PRE \<equiv> 2356"

abbreviation (input) ARM_t2LDCL_OFFSET :: nat where
  "ARM_t2LDCL_OFFSET \<equiv> 2357"

abbreviation (input) ARM_t2LDCL_OPTION :: nat where
  "ARM_t2LDCL_OPTION \<equiv> 2358"

abbreviation (input) ARM_t2LDCL_POST :: nat where
  "ARM_t2LDCL_POST \<equiv> 2359"

abbreviation (input) ARM_t2LDCL_PRE :: nat where
  "ARM_t2LDCL_PRE \<equiv> 2360"

abbreviation (input) ARM_t2LDC_OFFSET :: nat where
  "ARM_t2LDC_OFFSET \<equiv> 2361"

abbreviation (input) ARM_t2LDC_OPTION :: nat where
  "ARM_t2LDC_OPTION \<equiv> 2362"

abbreviation (input) ARM_t2LDC_POST :: nat where
  "ARM_t2LDC_POST \<equiv> 2363"

abbreviation (input) ARM_t2LDC_PRE :: nat where
  "ARM_t2LDC_PRE \<equiv> 2364"

abbreviation (input) ARM_t2LDMDB_UPD :: nat where
  "ARM_t2LDMDB_UPD \<equiv> 2366"

abbreviation (input) ARM_t2LDMIA_UPD :: nat where
  "ARM_t2LDMIA_UPD \<equiv> 2369"

abbreviation (input) ARM_t2LDRBT :: nat where
  "ARM_t2LDRBT \<equiv> 2370"

abbreviation (input) ARM_t2LDRB_POST :: nat where
  "ARM_t2LDRB_POST \<equiv> 2371"

abbreviation (input) ARM_t2LDRB_PRE :: nat where
  "ARM_t2LDRB_PRE \<equiv> 2372"

abbreviation (input) ARM_t2LDRBi12 :: nat where
  "ARM_t2LDRBi12 \<equiv> 2373"

abbreviation (input) ARM_t2LDRBi8 :: nat where
  "ARM_t2LDRBi8 \<equiv> 2374"

abbreviation (input) ARM_t2LDRBpci :: nat where
  "ARM_t2LDRBpci \<equiv> 2375"

abbreviation (input) ARM_t2LDRBs :: nat where
  "ARM_t2LDRBs \<equiv> 2377"

abbreviation (input) ARM_t2LDRD_POST :: nat where
  "ARM_t2LDRD_POST \<equiv> 2378"

abbreviation (input) ARM_t2LDRD_PRE :: nat where
  "ARM_t2LDRD_PRE \<equiv> 2379"

abbreviation (input) ARM_t2LDRHT :: nat where
  "ARM_t2LDRHT \<equiv> 2385"

abbreviation (input) ARM_t2LDRH_POST :: nat where
  "ARM_t2LDRH_POST \<equiv> 2386"

abbreviation (input) ARM_t2LDRH_PRE :: nat where
  "ARM_t2LDRH_PRE \<equiv> 2387"

abbreviation (input) ARM_t2LDRHi12 :: nat where
  "ARM_t2LDRHi12 \<equiv> 2388"

abbreviation (input) ARM_t2LDRHi8 :: nat where
  "ARM_t2LDRHi8 \<equiv> 2389"

abbreviation (input) ARM_t2LDRHpci :: nat where
  "ARM_t2LDRHpci \<equiv> 2390"

abbreviation (input) ARM_t2LDRHs :: nat where
  "ARM_t2LDRHs \<equiv> 2392"

abbreviation (input) ARM_t2LDRSBT :: nat where
  "ARM_t2LDRSBT \<equiv> 2393"

abbreviation (input) ARM_t2LDRSB_POST :: nat where
  "ARM_t2LDRSB_POST \<equiv> 2394"

abbreviation (input) ARM_t2LDRSB_PRE :: nat where
  "ARM_t2LDRSB_PRE \<equiv> 2395"

abbreviation (input) ARM_t2LDRSBi12 :: nat where
  "ARM_t2LDRSBi12 \<equiv> 2396"

abbreviation (input) ARM_t2LDRSBi8 :: nat where
  "ARM_t2LDRSBi8 \<equiv> 2397"

abbreviation (input) ARM_t2LDRSBpci :: nat where
  "ARM_t2LDRSBpci \<equiv> 2398"

abbreviation (input) ARM_t2LDRSBs :: nat where
  "ARM_t2LDRSBs \<equiv> 2400"

abbreviation (input) ARM_t2LDRSHT :: nat where
  "ARM_t2LDRSHT \<equiv> 2401"

abbreviation (input) ARM_t2LDRSH_POST :: nat where
  "ARM_t2LDRSH_POST \<equiv> 2402"

abbreviation (input) ARM_t2LDRSH_PRE :: nat where
  "ARM_t2LDRSH_PRE \<equiv> 2403"

abbreviation (input) ARM_t2LDRSHi12 :: nat where
  "ARM_t2LDRSHi12 \<equiv> 2404"

abbreviation (input) ARM_t2LDRSHi8 :: nat where
  "ARM_t2LDRSHi8 \<equiv> 2405"

abbreviation (input) ARM_t2LDRSHpci :: nat where
  "ARM_t2LDRSHpci \<equiv> 2406"

abbreviation (input) ARM_t2LDRSHs :: nat where
  "ARM_t2LDRSHs \<equiv> 2408"

abbreviation (input) ARM_t2LDRT :: nat where
  "ARM_t2LDRT \<equiv> 2409"

abbreviation (input) ARM_t2LDR_POST :: nat where
  "ARM_t2LDR_POST \<equiv> 2410"

abbreviation (input) ARM_t2LDR_PRE :: nat where
  "ARM_t2LDR_PRE \<equiv> 2411"

abbreviation (input) ARM_t2LDRi12 :: nat where
  "ARM_t2LDRi12 \<equiv> 2412"

abbreviation (input) ARM_t2LDRi8 :: nat where
  "ARM_t2LDRi8 \<equiv> 2413"

abbreviation (input) ARM_t2LDRpci :: nat where
  "ARM_t2LDRpci \<equiv> 2414"

abbreviation (input) ARM_t2LDRs :: nat where
  "ARM_t2LDRs \<equiv> 2417"

abbreviation (input) ARM_t2MOVTi16 :: nat where
  "ARM_t2MOVTi16 \<equiv> 2440"

abbreviation (input) ARM_t2MRS_M :: nat where
  "ARM_t2MRS_M \<equiv> 2457"

abbreviation (input) ARM_t2MSR_M :: nat where
  "ARM_t2MSR_M \<equiv> 2460"

abbreviation (input) ARM_t2PLDWi12 :: nat where
  "ARM_t2PLDWi12 \<equiv> 2474"

abbreviation (input) ARM_t2PLDWi8 :: nat where
  "ARM_t2PLDWi8 \<equiv> 2475"

abbreviation (input) ARM_t2PLDWs :: nat where
  "ARM_t2PLDWs \<equiv> 2476"

abbreviation (input) ARM_t2PLDi12 :: nat where
  "ARM_t2PLDi12 \<equiv> 2477"

abbreviation (input) ARM_t2PLDi8 :: nat where
  "ARM_t2PLDi8 \<equiv> 2478"

abbreviation (input) ARM_t2PLDpci :: nat where
  "ARM_t2PLDpci \<equiv> 2479"

abbreviation (input) ARM_t2PLDs :: nat where
  "ARM_t2PLDs \<equiv> 2480"

abbreviation (input) ARM_t2PLIi12 :: nat where
  "ARM_t2PLIi12 \<equiv> 2481"

abbreviation (input) ARM_t2PLIi8 :: nat where
  "ARM_t2PLIi8 \<equiv> 2482"

abbreviation (input) ARM_t2PLIpci :: nat where
  "ARM_t2PLIpci \<equiv> 2483"

abbreviation (input) ARM_t2PLIs :: nat where
  "ARM_t2PLIs \<equiv> 2484"

abbreviation (input) ARM_t2STC2L_OFFSET :: nat where
  "ARM_t2STC2L_OFFSET \<equiv> 2572"

abbreviation (input) ARM_t2STC2L_POST :: nat where
  "ARM_t2STC2L_POST \<equiv> 2574"

abbreviation (input) ARM_t2STC2L_PRE :: nat where
  "ARM_t2STC2L_PRE \<equiv> 2575"

abbreviation (input) ARM_t2STC2_OFFSET :: nat where
  "ARM_t2STC2_OFFSET \<equiv> 2576"

abbreviation (input) ARM_t2STC2_POST :: nat where
  "ARM_t2STC2_POST \<equiv> 2578"

abbreviation (input) ARM_t2STC2_PRE :: nat where
  "ARM_t2STC2_PRE \<equiv> 2579"

abbreviation (input) ARM_t2STCL_OFFSET :: nat where
  "ARM_t2STCL_OFFSET \<equiv> 2580"

abbreviation (input) ARM_t2STCL_OPTION :: nat where
  "ARM_t2STCL_OPTION \<equiv> 2581"

abbreviation (input) ARM_t2STCL_POST :: nat where
  "ARM_t2STCL_POST \<equiv> 2582"

abbreviation (input) ARM_t2STCL_PRE :: nat where
  "ARM_t2STCL_PRE \<equiv> 2583"

abbreviation (input) ARM_t2STC_OFFSET :: nat where
  "ARM_t2STC_OFFSET \<equiv> 2584"

abbreviation (input) ARM_t2STC_OPTION :: nat where
  "ARM_t2STC_OPTION \<equiv> 2585"

abbreviation (input) ARM_t2STC_POST :: nat where
  "ARM_t2STC_POST \<equiv> 2586"

abbreviation (input) ARM_t2STC_PRE :: nat where
  "ARM_t2STC_PRE \<equiv> 2587"

abbreviation (input) ARM_t2STMDB_UPD :: nat where
  "ARM_t2STMDB_UPD \<equiv> 2596"

abbreviation (input) ARM_t2STMIA_UPD :: nat where
  "ARM_t2STMIA_UPD \<equiv> 2598"

abbreviation (input) ARM_t2STRBT :: nat where
  "ARM_t2STRBT \<equiv> 2599"

abbreviation (input) ARM_t2STRB_POST :: nat where
  "ARM_t2STRB_POST \<equiv> 2600"

abbreviation (input) ARM_t2STRB_PRE :: nat where
  "ARM_t2STRB_PRE \<equiv> 2601"

abbreviation (input) ARM_t2STRBi12 :: nat where
  "ARM_t2STRBi12 \<equiv> 2603"

abbreviation (input) ARM_t2STRBi8 :: nat where
  "ARM_t2STRBi8 \<equiv> 2604"

abbreviation (input) ARM_t2STRBs :: nat where
  "ARM_t2STRBs \<equiv> 2605"

abbreviation (input) ARM_t2STRD_POST :: nat where
  "ARM_t2STRD_POST \<equiv> 2606"

abbreviation (input) ARM_t2STRD_PRE :: nat where
  "ARM_t2STRD_PRE \<equiv> 2607"

abbreviation (input) ARM_t2STRHT :: nat where
  "ARM_t2STRHT \<equiv> 2613"

abbreviation (input) ARM_t2STRH_POST :: nat where
  "ARM_t2STRH_POST \<equiv> 2614"

abbreviation (input) ARM_t2STRH_PRE :: nat where
  "ARM_t2STRH_PRE \<equiv> 2615"

abbreviation (input) ARM_t2STRHi12 :: nat where
  "ARM_t2STRHi12 \<equiv> 2617"

abbreviation (input) ARM_t2STRHi8 :: nat where
  "ARM_t2STRHi8 \<equiv> 2618"

abbreviation (input) ARM_t2STRHs :: nat where
  "ARM_t2STRHs \<equiv> 2619"

abbreviation (input) ARM_t2STRT :: nat where
  "ARM_t2STRT \<equiv> 2620"

abbreviation (input) ARM_t2STR_POST :: nat where
  "ARM_t2STR_POST \<equiv> 2621"

abbreviation (input) ARM_t2STR_PRE :: nat where
  "ARM_t2STR_PRE \<equiv> 2622"

abbreviation (input) ARM_t2STRi12 :: nat where
  "ARM_t2STRi12 \<equiv> 2624"

abbreviation (input) ARM_t2STRi8 :: nat where
  "ARM_t2STRi8 \<equiv> 2625"

abbreviation (input) ARM_t2STRs :: nat where
  "ARM_t2STRs \<equiv> 2626"

abbreviation (input) ARM_t2TBB :: nat where
  "ARM_t2TBB \<equiv> 2641"

abbreviation (input) ARM_t2TBH :: nat where
  "ARM_t2TBH \<equiv> 2643"

abbreviation (input) ARM_tADDrSP :: nat where
  "ARM_tADDrSP \<equiv> 2689"

abbreviation (input) ARM_tADDrSPi :: nat where
  "ARM_tADDrSPi \<equiv> 2690"

abbreviation (input) ARM_tADDspr :: nat where
  "ARM_tADDspr \<equiv> 2693"

abbreviation (input) ARM_tADR :: nat where
  "ARM_tADR \<equiv> 2696"

abbreviation (input) ARM_tB :: nat where
  "ARM_tB \<equiv> 2700"

abbreviation (input) ARM_tBcc :: nat where
  "ARM_tBcc \<equiv> 2712"

abbreviation (input) ARM_tCBNZ :: nat where
  "ARM_tCBNZ \<equiv> 2714"

abbreviation (input) ARM_tCBZ :: nat where
  "ARM_tCBZ \<equiv> 2715"

abbreviation (input) ARM_tCPS :: nat where
  "ARM_tCPS \<equiv> 2720"

abbreviation (input) ARM_tHINT :: nat where
  "ARM_tHINT \<equiv> 2722"

abbreviation (input) ARM_tLDMIA :: nat where
  "ARM_tLDMIA \<equiv> 2726"

abbreviation (input) ARM_tMOVSr :: nat where
  "ARM_tMOVSr \<equiv> 2748"

abbreviation (input) ARM_tSETEND :: nat where
  "ARM_tSETEND \<equiv> 2764"

end
