(* ===== verification/ARM_Decode.thy ===== *)
theory ARM_Decode
  imports ARM_Opcodes
begin

text \<open>Operand decoders of \<^verbatim>\<open>capstone/arch/ARM/ARMDisassembler.c\<close> for the ARM encodings, in the order of
  the source.  A decoder takes the instruction under construction and a field of the encoding and returns
  a status with the extended instruction; the arguments \<^verbatim>\<open>Address\<close> and \<^verbatim>\<open>Decoder\<close>, which none of them
  reads, are left out.\<close>

unbundle bit_operations_syntax

subsection \<open>Fields of an encoding\<close>

definition fieldFromInstruction_4 :: "u32 \<Rightarrow> nat \<Rightarrow> nat \<Rightarrow> u32" where
  "fieldFromInstruction_4 insn startBit numBits =
     (let fieldMask = (if numBits = 32 then - 1 else push_bit startBit (push_bit numBits 1 - 1))
      in drop_bit startBit (insn AND fieldMask))"

text \<open>A field that lies inside the word is the number that its bits stand for.\<close>

lemma fieldFromInstruction_4_take_bit:
  assumes "s + n \<le> 32"
  shows "fieldFromInstruction_4 insn s n = take_bit n (drop_bit s insn)"
proof (cases "n = 32")
  case True
  then show ?thesis
    using assms by (simp add: fieldFromInstruction_4_def take_bit_word_beyond_length_eq)
next
  case False
  have "push_bit n 1 - 1 = (mask n :: u32)" by (simp add: mask_eq_exp_minus_1 push_bit_eq_mult)
  then have "fieldFromInstruction_4 insn s n = drop_bit s (insn AND push_bit s (mask n))"
    using False by (simp add: fieldFromInstruction_4_def)
  also have "\<dots> = take_bit n (drop_bit s insn)"
    using assms by (intro bit_word_eqI) (auto simp: bit_simps)
  finally show ?thesis .
qed

lemma field_less: 
  assumes "s + n \<le> 32" "n < 32"
  shows "unat (fieldFromInstruction_4 insn s n) < 2 ^ n"
proof -
  have "unat (fieldFromInstruction_4 insn s n) = take_bit n (unat (drop_bit s insn))"
    by (simp add: fieldFromInstruction_4_take_bit [OF assms(1)] unsigned_take_bit_eq)
  then show ?thesis by simp
qed

definition ARMCC_AL :: u32 where
  "ARMCC_AL = 14"

definition DecodePredicateOperand :: "MCInst \<Rightarrow> u32 \<Rightarrow> decode" where
  "DecodePredicateOperand Inst Val =
     (if Val = 0xF then (MCDisassembler_Fail, Inst)
      else if MCInst_getOpcode Inst = ARM_tBcc \<and> Val = 0xE then (MCDisassembler_Fail, Inst)
      else
        (let Inst = MCOperand_CreateImm0 Inst (ucast Val)
         in if Val = ARMCC_AL then (MCDisassembler_Success, MCOperand_CreateReg0 Inst ARM_NoRegister)
            else (MCDisassembler_Success, MCOperand_CreateReg0 Inst ARM_CPSR)))"

subsection \<open>Register classes\<close>

definition GPRDecoderTable :: "ARM_Reg list" where
  "GPRDecoderTable = map ARM_R [0..<13] @ [ARM_SP, ARM_LR, ARM_PC]"

definition DecodeGPRRegisterClass :: "MCInst \<Rightarrow> u32 \<Rightarrow> decode" where
  "DecodeGPRRegisterClass Inst RegNo =
     (if RegNo > 15 then (MCDisassembler_Fail, Inst)
      else (MCDisassembler_Success, MCOperand_CreateReg0 Inst (GPRDecoderTable ! unat RegNo)))"

definition DecodeGPRnopcRegisterClass :: "MCInst \<Rightarrow> u32 \<Rightarrow> decode" where
  "DecodeGPRnopcRegisterClass Inst RegNo =
     (let S = (if RegNo = 15 then MCDisassembler_SoftFail else MCDisassembler_Success)
      in check_return S (DecodeGPRRegisterClass Inst RegNo))"

definition DecodeGPRwithAPSRRegisterClass :: "MCInst \<Rightarrow> u32 \<Rightarrow> decode" where
  "DecodeGPRwithAPSRRegisterClass Inst RegNo =
     (if RegNo = 15 then (MCDisassembler_Success, MCOperand_CreateReg0 Inst ARM_APSR_NZCV)
      else check_return MCDisassembler_Success (DecodeGPRRegisterClass Inst RegNo))"

definition DecodetGPRRegisterClass :: "MCInst \<Rightarrow> u32 \<Rightarrow> decode" where
  "DecodetGPRRegisterClass Inst RegNo =
     (if RegNo > 7 then (MCDisassembler_Fail, Inst) else DecodeGPRRegisterClass Inst RegNo)"

definition GPRPairDecoderTable :: "ARM_Reg list" where
  "GPRPairDecoderTable = map ARM_GPRPair [0..<7]"

definition DecodeGPRPairRegisterClass :: "MCInst \<Rightarrow> u32 \<Rightarrow> decode" where
  "DecodeGPRPairRegisterClass Inst RegNo =
     (if RegNo > 13 then (MCDisassembler_Fail, Inst)
      else
        (let S = (if RegNo AND 1 \<noteq> 0 \<or> RegNo = 0xe then MCDisassembler_SoftFail else MCDisassembler_Success)
         in (S, MCOperand_CreateReg0 Inst (GPRPairDecoderTable ! unat (RegNo div 2)))))"

definition DecodetcGPRRegisterClass :: "MCInst \<Rightarrow> u32 \<Rightarrow> decode" where
  "DecodetcGPRRegisterClass Inst RegNo =
     (if RegNo = 0 then (MCDisassembler_Success, MCOperand_CreateReg0 Inst (ARM_R 0))
      else if RegNo = 1 then (MCDisassembler_Success, MCOperand_CreateReg0 Inst (ARM_R 1))
      else if RegNo = 2 then (MCDisassembler_Success, MCOperand_CreateReg0 Inst (ARM_R 2))
      else if RegNo = 3 then (MCDisassembler_Success, MCOperand_CreateReg0 Inst (ARM_R 3))
      else if RegNo = 9 then (MCDisassembler_Success, MCOperand_CreateReg0 Inst (ARM_R 9))
      else if RegNo = 12 then (MCDisassembler_Success, MCOperand_CreateReg0 Inst (ARM_R 12))
      else (MCDisassembler_Fail, Inst))"

definition DecoderGPRRegisterClass :: "MCInst \<Rightarrow> u32 \<Rightarrow> decode" where
  "DecoderGPRRegisterClass Inst RegNo =
     (let S = (if RegNo = 13 \<or> RegNo = 15 then MCDisassembler_SoftFail else MCDisassembler_Success)
      in check_return S (DecodeGPRRegisterClass Inst RegNo))"

definition SPRDecoderTable :: "ARM_Reg list" where
  "SPRDecoderTable = map ARM_S [0..<32]"

definition DecodeSPRRegisterClass :: "MCInst \<Rightarrow> u32 \<Rightarrow> decode" where
  "DecodeSPRRegisterClass Inst RegNo =
     (if RegNo > 31 then (MCDisassembler_Fail, Inst)
      else (MCDisassembler_Success, MCOperand_CreateReg0 Inst (SPRDecoderTable ! unat RegNo)))"

definition DPRDecoderTable :: "ARM_Reg list" where
  "DPRDecoderTable = map ARM_D [0..<32]"

definition DecodeDPRRegisterClass :: "MCInst \<Rightarrow> u32 \<Rightarrow> decode" where
  "DecodeDPRRegisterClass Inst RegNo =
     (if RegNo > 31 then (MCDisassembler_Fail, Inst)
      else (MCDisassembler_Success, MCOperand_CreateReg0 Inst (DPRDecoderTable ! unat RegNo)))"

definition DecodeDPR_8RegisterClass :: "MCInst \<Rightarrow> u32 \<Rightarrow> decode" where
  "DecodeDPR_8RegisterClass Inst RegNo =
     (if RegNo > 7 then (MCDisassembler_Fail, Inst) else DecodeDPRRegisterClass Inst RegNo)"

definition DecodeDPR_VFP2RegisterClass :: "MCInst \<Rightarrow> u32 \<Rightarrow> decode" where
  "DecodeDPR_VFP2RegisterClass Inst RegNo =
     (if RegNo > 15 then (MCDisassembler_Fail, Inst) else DecodeDPRRegisterClass Inst RegNo)"

definition QPRDecoderTable :: "ARM_Reg list" where
  "QPRDecoderTable = map ARM_Q [0..<16]"

definition DecodeQPRRegisterClass :: "MCInst \<Rightarrow> u32 \<Rightarrow> decode" where
  "DecodeQPRRegisterClass Inst RegNo =
     (if RegNo > 31 \<or> RegNo AND 1 \<noteq> 0 then (MCDisassembler_Fail, Inst)
      else (MCDisassembler_Success, MCOperand_CreateReg0 Inst (QPRDecoderTable ! unat (drop_bit 1 RegNo))))"

definition DPairDecoderTable :: "ARM_Reg list" where
  "DPairDecoderTable = map (\<lambda>i. if even i then ARM_Q (i div 2) else ARM_DPair i) [0..<31]"

definition DecodeDPairRegisterClass :: "MCInst \<Rightarrow> u32 \<Rightarrow> decode" where
  "DecodeDPairRegisterClass Inst RegNo =
     (if RegNo > 30 then (MCDisassembler_Fail, Inst)
      else (MCDisassembler_Success, MCOperand_CreateReg0 Inst (DPairDecoderTable ! unat RegNo)))"

definition DPairSpacedDecoderTable :: "ARM_Reg list" where
  "DPairSpacedDecoderTable = map ARM_DPairSpaced [0..<30]"

definition DecodeDPairSpacedRegisterClass :: "MCInst \<Rightarrow> u32 \<Rightarrow> decode" where
  "DecodeDPairSpacedRegisterClass Inst RegNo =
     (if RegNo > 29 then (MCDisassembler_Fail, Inst)
      else (MCDisassembler_Success, MCOperand_CreateReg0 Inst (DPairSpacedDecoderTable ! unat RegNo)))"

definition DecodeCCOutOperand :: "MCInst \<Rightarrow> u32 \<Rightarrow> decode" where
  "DecodeCCOutOperand Inst Val =
     (if Val \<noteq> 0 then (MCDisassembler_Success, MCOperand_CreateReg0 Inst ARM_CPSR)
      else (MCDisassembler_Success, MCOperand_CreateReg0 Inst ARM_NoRegister))"

subsection \<open>Shifter operands and register lists\<close>

definition DecodeSOImmOperand :: "MCInst \<Rightarrow> u32 \<Rightarrow> decode" where
  "DecodeSOImmOperand Inst Val =
     (let imm = Val AND 0xFF;
          rot = drop_bit 7 (Val AND 0xF00);
          rot_imm = drop_bit (unat rot) imm OR push_bit (unat ((32 - rot) AND 0x1F)) imm
      in (MCDisassembler_Success, MCOperand_CreateImm0 Inst (ucast rot_imm)))"

text \<open>The \<^verbatim>\<open>switch\<close> over the two-bit type of a shift.\<close>

definition shift_of_type :: "u32 \<Rightarrow> ARM_AM_ShiftOpc" where
  "shift_of_type type =
     (if type = 0 then ARM_AM_lsl else if type = 1 then ARM_AM_lsr
      else if type = 2 then ARM_AM_asr else if type = 3 then ARM_AM_ror else ARM_AM_lsl)"

definition DecodeSORegImmOperand :: "MCInst \<Rightarrow> u32 \<Rightarrow> decode" where
  "DecodeSORegImmOperand Inst Val =
     (let Rm = fieldFromInstruction_4 Val 0 4;
          type = fieldFromInstruction_4 Val 5 2;
          imm = fieldFromInstruction_4 Val 7 5
      in check_then MCDisassembler_Success (DecodeGPRRegisterClass Inst Rm) (\<lambda>S Inst.
           let Shift = shift_of_type type;
               Shift = (if Shift = ARM_AM_ror \<and> imm = 0 then ARM_AM_rrx else Shift);
               Op = ShiftOpc_code Shift OR push_bit 3 imm
           in (S, MCOperand_CreateImm0 Inst (ucast Op))))"

definition DecodeSORegRegOperand :: "MCInst \<Rightarrow> u32 \<Rightarrow> decode" where
  "DecodeSORegRegOperand Inst Val =
     (let Rm = fieldFromInstruction_4 Val 0 4;
          type = fieldFromInstruction_4 Val 5 2;
          Rs = fieldFromInstruction_4 Val 8 4
      in check_then MCDisassembler_Success (DecodeGPRnopcRegisterClass Inst Rm) (\<lambda>S Inst.
         check_then S (DecodeGPRnopcRegisterClass Inst Rs) (\<lambda>S Inst.
           (S, MCOperand_CreateImm0 Inst (ucast (ShiftOpc_code (shift_of_type type)))))))"

text \<open>The loop over the bits of a register list; \<open>k\<close> is the code after it.\<close>

fun reg_list_loop ::
    "bool \<Rightarrow> ARM_Reg \<Rightarrow> u32 \<Rightarrow> nat list \<Rightarrow> (DecodeStatus \<Rightarrow> MCInst \<Rightarrow> decode) \<Rightarrow> DecodeStatus \<Rightarrow> MCInst \<Rightarrow> decode" where
  "reg_list_loop NeedDisjointWriteback WritebackReg Val [] k S Inst = k S Inst"
| "reg_list_loop NeedDisjointWriteback WritebackReg Val (i # is) k S Inst =
     (if Val AND push_bit i 1 \<noteq> 0 then
        check_then S (DecodeGPRRegisterClass Inst (of_nat i)) (\<lambda>S Inst.
          let S = (if NeedDisjointWriteback \<and> WritebackReg = MCOperand_getReg (last (Operands Inst))
                   then fst (Check S MCDisassembler_SoftFail) else S)
          in reg_list_loop NeedDisjointWriteback WritebackReg Val is k S Inst)
      else reg_list_loop NeedDisjointWriteback WritebackReg Val is k S Inst)"

definition writeback_list_ops :: "nat list" where
  "writeback_list_ops =
     [ARM_LDMIA_UPD, ARM_LDMDB_UPD, ARM_LDMIB_UPD, ARM_LDMDA_UPD,
      ARM_t2LDMIA_UPD, ARM_t2LDMDB_UPD, ARM_t2STMIA_UPD, ARM_t2STMDB_UPD]"

definition DecodeRegListOperand :: "MCInst \<Rightarrow> u32 \<Rightarrow> decode" where
  "DecodeRegListOperand Inst Val =
     (let opcode = MCInst_getOpcode Inst;
          NeedDisjointWriteback = (opcode \<in> set writeback_list_ops);
          WritebackReg = (if NeedDisjointWriteback then MCOperand_getReg (MCInst_getOperand Inst 0) else ARM_NoRegister)
      in if Val = 0 then (MCDisassembler_Fail, Inst)
         else
           reg_list_loop NeedDisjointWriteback WritebackReg Val [0..<16] (\<lambda>S Inst.
             if opcode = ARM_t2LDMIA_UPD \<and> WritebackReg = ARM_SP
                \<and> (Val AND push_bit 13 1 \<noteq> 0 \<or> Val AND push_bit 15 1 \<noteq> 0 \<and> Val AND push_bit 14 1 \<noteq> 0)
             then (MCDisassembler_Fail, Inst)
             else (S, Inst)) MCDisassembler_Success Inst)"

text \<open>The loops that decode the registers after the first, \<^verbatim>\<open>++Vd\<close> in each round.\<close>

fun spr_list_loop :: "nat \<Rightarrow> u32 \<Rightarrow> DecodeStatus \<Rightarrow> MCInst \<Rightarrow> decode" where
  "spr_list_loop 0 Vd S Inst = (S, Inst)"
| "spr_list_loop (Suc n) Vd S Inst =
     check_then S (DecodeSPRRegisterClass Inst (Vd + 1)) (spr_list_loop n (Vd + 1))"

definition DecodeSPRRegListOperand :: "MCInst \<Rightarrow> u32 \<Rightarrow> decode" where
  "DecodeSPRRegListOperand Inst Val =
     (let Vd = fieldFromInstruction_4 Val 8 5;
          regs = fieldFromInstruction_4 Val 0 8;
          unpredictable = (regs = 0 \<or> Vd + regs > 32);
          S = (if unpredictable then MCDisassembler_SoftFail else MCDisassembler_Success);
          regs = (if unpredictable then max 1 (if Vd + regs > 32 then 32 - Vd else regs) else regs)
      in check_then S (DecodeSPRRegisterClass Inst Vd) (spr_list_loop (unat (regs - 1)) Vd))"

fun dpr_list_loop :: "nat \<Rightarrow> u32 \<Rightarrow> DecodeStatus \<Rightarrow> MCInst \<Rightarrow> decode" where
  "dpr_list_loop 0 Vd S Inst = (S, Inst)"
| "dpr_list_loop (Suc n) Vd S Inst =
     check_then S (DecodeDPRRegisterClass Inst (Vd + 1)) (dpr_list_loop n (Vd + 1))"

definition DecodeDPRRegListOperand :: "MCInst \<Rightarrow> u32 \<Rightarrow> decode" where
  "DecodeDPRRegListOperand Inst Val =
     (let Vd = fieldFromInstruction_4 Val 8 5;
          regs = fieldFromInstruction_4 Val 1 7;
          unpredictable = (regs = 0 \<or> regs > 16 \<or> Vd + regs > 32);
          S = (if unpredictable then MCDisassembler_SoftFail else MCDisassembler_Success);
          regs = (if unpredictable then min 16 (max 1 (if Vd + regs > 32 then 32 - Vd else regs)) else regs)
      in check_then S (DecodeDPRRegisterClass Inst Vd) (dpr_list_loop (unat (regs - 1)) Vd))"

definition DecodeBitfieldMaskOperand :: "MCInst \<Rightarrow> u32 \<Rightarrow> decode" where
  "DecodeBitfieldMaskOperand Inst Val =
     (let msb = fieldFromInstruction_4 Val 5 5;
          lsb = fieldFromInstruction_4 Val 0 5;
          S = (if lsb > msb then MCDisassembler_SoftFail else MCDisassembler_Success);
          lsb = (if lsb > msb then msb else lsb);
          msb_mask = (if msb \<noteq> 31 then push_bit (unat (msb + 1)) 1 - 1 else 0xFFFFFFFF);
          lsb_mask = push_bit (unat lsb) 1 - 1
      in (S, MCOperand_CreateImm0 Inst (ucast (NOT (msb_mask XOR lsb_mask) :: u32))))"

subsection \<open>Coprocessor and load/store instructions\<close>

definition cop_vfp_ops :: "nat list" where
  "cop_vfp_ops =
     [ARM_LDC_OFFSET, ARM_LDC_PRE, ARM_LDC_POST, ARM_LDC_OPTION, ARM_LDCL_OFFSET, ARM_LDCL_PRE, ARM_LDCL_POST,
      ARM_LDCL_OPTION, ARM_STC_OFFSET, ARM_STC_PRE, ARM_STC_POST, ARM_STC_OPTION, ARM_STCL_OFFSET, ARM_STCL_PRE,
      ARM_STCL_POST, ARM_STCL_OPTION, ARM_t2LDC_OFFSET, ARM_t2LDC_PRE, ARM_t2LDC_POST, ARM_t2LDC_OPTION,
      ARM_t2LDCL_OFFSET, ARM_t2LDCL_PRE, ARM_t2LDCL_POST, ARM_t2LDCL_OPTION, ARM_t2STC_OFFSET, ARM_t2STC_PRE,
      ARM_t2STC_POST, ARM_t2STC_OPTION, ARM_t2STCL_OFFSET, ARM_t2STCL_PRE, ARM_t2STCL_POST, ARM_t2STCL_OPTION]"

definition cop_offset_ops :: "nat list" where
  "cop_offset_ops =
     [ARM_t2LDC2_OFFSET, ARM_t2LDC2L_OFFSET, ARM_t2LDC2_PRE, ARM_t2LDC2L_PRE, ARM_t2STC2_OFFSET, ARM_t2STC2L_OFFSET,
      ARM_t2STC2_PRE, ARM_t2STC2L_PRE, ARM_LDC2_OFFSET, ARM_LDC2L_OFFSET, ARM_LDC2_PRE, ARM_LDC2L_PRE,
      ARM_STC2_OFFSET, ARM_STC2L_OFFSET, ARM_STC2_PRE, ARM_STC2L_PRE, ARM_t2LDC_OFFSET, ARM_t2LDCL_OFFSET,
      ARM_t2LDC_PRE, ARM_t2LDCL_PRE, ARM_t2STC_OFFSET, ARM_t2STCL_OFFSET, ARM_t2STC_PRE, ARM_t2STCL_PRE,
      ARM_LDC_OFFSET, ARM_LDCL_OFFSET, ARM_LDC_PRE, ARM_LDCL_PRE, ARM_STC_OFFSET, ARM_STCL_OFFSET, ARM_STC_PRE,
      ARM_STCL_PRE]"

definition cop_post_ops :: "nat list" where
  "cop_post_ops =
     [ARM_t2LDC2_POST, ARM_t2LDC2L_POST, ARM_t2STC2_POST, ARM_t2STC2L_POST, ARM_LDC2_POST, ARM_LDC2L_POST,
      ARM_STC2_POST, ARM_STC2L_POST, ARM_t2LDC_POST, ARM_t2LDCL_POST, ARM_t2STC_POST, ARM_t2STCL_POST,
      ARM_LDC_POST, ARM_LDCL_POST, ARM_STC_POST, ARM_STCL_POST]"

definition cop_predicated_ops :: "nat list" where
  "cop_predicated_ops =
     [ARM_LDC_OFFSET, ARM_LDC_PRE, ARM_LDC_POST, ARM_LDC_OPTION, ARM_LDCL_OFFSET, ARM_LDCL_PRE, ARM_LDCL_POST,
      ARM_LDCL_OPTION, ARM_STC_OFFSET, ARM_STC_PRE, ARM_STC_POST, ARM_STC_OPTION, ARM_STCL_OFFSET, ARM_STCL_PRE,
      ARM_STCL_POST, ARM_STCL_OPTION]"

definition DecodeCopMemInstruction :: "MCInst \<Rightarrow> u32 \<Rightarrow> decode" where
  "DecodeCopMemInstruction Inst Insn =
     (let pred = fieldFromInstruction_4 Insn 28 4;
          CRd = fieldFromInstruction_4 Insn 12 4;
          coproc = fieldFromInstruction_4 Insn 8 4;
          imm = fieldFromInstruction_4 Insn 0 8;
          Rn = fieldFromInstruction_4 Insn 16 4;
          U = fieldFromInstruction_4 Insn 23 1;
          op = MCInst_getOpcode Inst
      in if op \<in> set cop_vfp_ops \<and> (coproc = 0xA \<or> coproc = 0xB) then (MCDisassembler_Fail, Inst)
         else
           (let Inst = MCOperand_CreateImm0 Inst (ucast coproc);
                Inst = MCOperand_CreateImm0 Inst (ucast CRd)
            in check_then MCDisassembler_Success (DecodeGPRRegisterClass Inst Rn) (\<lambda>S Inst.
                 let imm = (if op \<in> set cop_offset_ops
                            then ARM_AM_getAM5Opc (if U \<noteq> 0 then ARM_AM_add else ARM_AM_sub) (ucast imm)
                            else if op \<in> set cop_post_ops then imm OR push_bit 8 U
                            else imm);
                     Inst = MCOperand_CreateImm0 Inst (ucast imm)
                 in if op \<in> set cop_predicated_ops
                    then check_last S (DecodePredicateOperand Inst pred)
                    else (S, Inst))))"

definition ARMII_IndexModePre :: u32 where
  "ARMII_IndexModePre = 1"

definition ARMII_IndexModePost :: u32 where
  "ARMII_IndexModePost = 2"

definition post_store_ops :: "nat list" where
  "post_store_ops =
     [ARM_STR_POST_IMM, ARM_STR_POST_REG, ARM_STRB_POST_IMM, ARM_STRB_POST_REG, ARM_STRT_POST_REG,
      ARM_STRT_POST_IMM, ARM_STRBT_POST_REG, ARM_STRBT_POST_IMM]"

definition post_load_ops :: "nat list" where
  "post_load_ops =
     [ARM_LDR_POST_IMM, ARM_LDR_POST_REG, ARM_LDRB_POST_IMM, ARM_LDRB_POST_REG, ARM_LDRBT_POST_REG,
      ARM_LDRBT_POST_IMM, ARM_LDRT_POST_REG, ARM_LDRT_POST_IMM]"

definition DecodeAddrMode2IdxInstruction :: "MCInst \<Rightarrow> u32 \<Rightarrow> decode" where
  "DecodeAddrMode2IdxInstruction Inst Insn =
     (let Rn = fieldFromInstruction_4 Insn 16 4;
          Rt = fieldFromInstruction_4 Insn 12 4;
          Rm = fieldFromInstruction_4 Insn 0 4;
          imm = fieldFromInstruction_4 Insn 0 12;
          pred = fieldFromInstruction_4 Insn 28 4;
          reg = fieldFromInstruction_4 Insn 25 1;
          P = fieldFromInstruction_4 Insn 24 1;
          W = fieldFromInstruction_4 Insn 21 1;
          op = MCInst_getOpcode Inst
      in check_if (op \<in> set post_store_ops) MCDisassembler_Success (\<lambda>i. DecodeGPRRegisterClass i Rn) Inst (\<lambda>S Inst.
         check_then S (DecodeGPRRegisterClass Inst Rt) (\<lambda>S Inst.
         check_if (op \<in> set post_load_ops) S (\<lambda>i. DecodeGPRRegisterClass i Rn) Inst (\<lambda>S Inst.
         check_then S (DecodeGPRRegisterClass Inst Rn) (\<lambda>S Inst.
           let Op = (if fieldFromInstruction_4 Insn 23 1 = 0 then ARM_AM_sub else ARM_AM_add);
               wb = (P = 0 \<or> W = 1);
               idx_mode = (if P \<noteq> 0 \<and> wb then ARMII_IndexModePre else if P = 0 \<and> wb then ARMII_IndexModePost else 0);
               S = (if wb \<and> (Rn = 15 \<or> Rn = Rt) then MCDisassembler_SoftFail else S)
           in if reg \<noteq> 0 then
                check_then S (DecodeGPRnopcRegisterClass Inst Rm) (\<lambda>S Inst.
                  let Opc = shift_of_type (fieldFromInstruction_4 Insn 5 2);
                      amt = fieldFromInstruction_4 Insn 7 5;
                      Opc = (if Opc = ARM_AM_ror \<and> amt = 0 then ARM_AM_rrx else Opc);
                      imm = ARM_AM_getAM2Opc Op amt Opc idx_mode;
                      Inst = MCOperand_CreateImm0 Inst (ucast imm)
                  in check_last S (DecodePredicateOperand Inst pred))
              else
                (let Inst = MCOperand_CreateReg0 Inst ARM_NoRegister;
                     tmp = ARM_AM_getAM2Opc Op imm ARM_AM_lsl idx_mode;
                     Inst = MCOperand_CreateImm0 Inst (ucast tmp)
                 in check_last S (DecodePredicateOperand Inst pred)))))))"

definition DecodeSORegMemOperand :: "MCInst \<Rightarrow> u32 \<Rightarrow> decode" where
  "DecodeSORegMemOperand Inst Val =
     (let Rn = fieldFromInstruction_4 Val 13 4;
          Rm = fieldFromInstruction_4 Val 0 4;
          type = fieldFromInstruction_4 Val 5 2;
          imm = fieldFromInstruction_4 Val 7 5;
          U = fieldFromInstruction_4 Val 12 1;
          ShOp = shift_of_type type;
          ShOp = (if ShOp = ARM_AM_ror \<and> imm = 0 then ARM_AM_rrx else ShOp)
      in check_then MCDisassembler_Success (DecodeGPRRegisterClass Inst Rn) (\<lambda>S Inst.
         check_then S (DecodeGPRRegisterClass Inst Rm) (\<lambda>S Inst.
           let shift = ARM_AM_getAM2Opc (if U \<noteq> 0 then ARM_AM_add else ARM_AM_sub) imm ShOp 0
           in (S, MCOperand_CreateImm0 Inst (ucast shift)))))"

end
