(* ===== verification/ARM_Decode_Insn.thy ===== *)
theory ARM_Decode_Insn
  imports ARM_Decode
begin

text \<open>Decoders of whole ARM instructions and of their memory operands
  (\<^verbatim>\<open>capstone/arch/ARM/ARMDisassembler.c\<close>, from \<^verbatim>\<open>DecodeAddrMode3Instruction\<close> to
  \<^verbatim>\<open>DecodeAddrMode6Operand\<close>).\<close>

unbundle bit_operations_syntax

subsection \<open>Addressing mode 3\<close>

definition strd_ops :: "nat list" where
  "strd_ops = [ARM_STRD, ARM_STRD_PRE, ARM_STRD_POST]"

definition ldrd_ops :: "nat list" where
  "ldrd_ops = [ARM_LDRD, ARM_LDRD_PRE, ARM_LDRD_POST]"

definition strh_ops :: "nat list" where
  "strh_ops = [ARM_STRH, ARM_STRH_PRE, ARM_STRH_POST]"

definition ldrh_ops :: "nat list" where
  "ldrh_ops = [ARM_LDRH, ARM_LDRH_PRE, ARM_LDRH_POST]"

definition ldrs_ops :: "nat list" where
  "ldrs_ops = [ARM_LDRSH, ARM_LDRSH_PRE, ARM_LDRSH_POST, ARM_LDRSB, ARM_LDRSB_PRE, ARM_LDRSB_POST]"

text \<open>The two \<^verbatim>\<open>switch\<close> statements that mark the unpredictable encodings.\<close>

definition addrmode3_status ::
    "nat \<Rightarrow> u32 \<Rightarrow> u32 \<Rightarrow> u32 \<Rightarrow> u32 \<Rightarrow> u32 \<Rightarrow> u32 \<Rightarrow> u32 \<Rightarrow> DecodeStatus" where
  "addrmode3_status op Rt Rn Rm type imm W P =
     (let Rt2 = Rt + 1;
          wb = (W = 1 \<or> P = 0);
          S = soft_if ((op \<in> set strd_ops \<or> op \<in> set ldrd_ops) \<and> Rt AND 1 \<noteq> 0) MCDisassembler_Success
      in if op \<in> set strd_ops then
           (let S = soft_if (P = 0 \<and> W = 1) S;
                S = soft_if (wb \<and> (Rn = 15 \<or> Rn = Rt \<or> Rn = Rt2)) S;
                S = soft_if (type \<noteq> 0 \<and> Rm = 15) S;
                S = soft_if (Rt2 = 15) S
            in soft_if (type = 0 \<and> imm \<noteq> 0) S)
         else if op \<in> set strh_ops then
           (let S = soft_if (Rt = 15) S;
                S = soft_if (wb \<and> (Rn = 15 \<or> Rn = Rt)) S
            in soft_if (type = 0 \<and> Rm = 15) S)
         else if op \<in> set ldrd_ops then
           (if type \<noteq> 0 \<and> Rn = 15 then soft_if (Rt2 = 15) S
            else
              (let S = soft_if (P = 0 \<and> W = 1) S;
                   S = soft_if (type = 0 \<and> (Rt2 = 15 \<or> Rm = 15 \<or> Rm = Rt \<or> Rm = Rt2)) S;
                   S = soft_if (type = 0 \<and> wb \<and> Rn = 15) S
               in soft_if (wb \<and> (Rn = Rt \<or> Rn = Rt2)) S))
         else if op \<in> set ldrh_ops then
           (if type \<noteq> 0 \<and> Rn = 15 then soft_if (Rt = 15) S
            else
              (let S = soft_if (Rt = 15) S;
                   S = soft_if (type = 0 \<and> Rm = 15) S
               in soft_if (type = 0 \<and> wb \<and> (Rn = 15 \<or> Rn = Rt)) S))
         else if op \<in> set ldrs_ops then
           (if type \<noteq> 0 \<and> Rn = 15 then soft_if (Rt = 15) S
            else
              (let S = soft_if (type \<noteq> 0 \<and> (Rt = 15 \<or> wb \<and> Rn = Rt)) S;
                   S = soft_if (type = 0 \<and> (Rt = 15 \<or> Rm = 15)) S
               in soft_if (type = 0 \<and> wb \<and> (Rn = 15 \<or> Rn = Rt)) S))
         else S)"

definition DecodeAddrMode3Instruction :: "MCInst \<Rightarrow> u32 \<Rightarrow> decode" where
  "DecodeAddrMode3Instruction Inst Insn =
     (let Rt = fieldFromInstruction_4 Insn 12 4;
          Rn = fieldFromInstruction_4 Insn 16 4;
          Rm = fieldFromInstruction_4 Insn 0 4;
          type = fieldFromInstruction_4 Insn 22 1;
          imm = fieldFromInstruction_4 Insn 8 4;
          U = push_bit 8 (NOT (fieldFromInstruction_4 Insn 23 1) AND 1);
          pred = fieldFromInstruction_4 Insn 28 4;
          W = fieldFromInstruction_4 Insn 21 1;
          P = fieldFromInstruction_4 Insn 24 1;
          wb = (W = 1 \<or> P = 0);
          op = MCInst_getOpcode Inst;
          S = addrmode3_status op Rt Rn Rm type imm W P;
          U = (if wb then U OR push_bit 9 (if P \<noteq> 0 then ARMII_IndexModePre else ARMII_IndexModePost) else U);
          Inst = (if wb then Inst\<lparr>writeback := True\<rparr> else Inst)
      in check_if (wb \<and> op \<in> set (strd_ops @ strh_ops)) S (\<lambda>i. DecodeGPRRegisterClass i Rn) Inst (\<lambda>S Inst.
         check_then S (DecodeGPRRegisterClass Inst Rt) (\<lambda>S Inst.
         check_if (op \<in> set (strd_ops @ ldrd_ops)) S (\<lambda>i. DecodeGPRRegisterClass i (Rt + 1)) Inst (\<lambda>S Inst.
         check_if (wb \<and> op \<in> set (ldrd_ops @ ldrh_ops @ ldrs_ops @ [ARM_LDRHTr, ARM_LDRSBTr])) S
           (\<lambda>i. DecodeGPRRegisterClass i Rn) Inst (\<lambda>S Inst.
         check_then S (DecodeGPRRegisterClass Inst Rn) (\<lambda>S Inst.
           if type \<noteq> 0 then
             (let Inst = MCOperand_CreateReg0 Inst ARM_NoRegister;
                  Inst = MCOperand_CreateImm0 Inst (ucast (U OR push_bit 4 imm OR Rm))
              in check_last S (DecodePredicateOperand Inst pred))
           else
             check_then S (DecodeGPRRegisterClass Inst Rm) (\<lambda>S Inst.
               let Inst = MCOperand_CreateImm0 Inst (ucast U)
               in check_last S (DecodePredicateOperand Inst pred))))))))"

subsection \<open>Return from exception, saturating and multiple-register instructions\<close>

definition rfe_mode :: "u32 \<Rightarrow> u32" where
  "rfe_mode mode =
     (if mode = 0 then AMSubMode_code ARM_AM_da else if mode = 1 then AMSubMode_code ARM_AM_ia
      else if mode = 2 then AMSubMode_code ARM_AM_db else if mode = 3 then AMSubMode_code ARM_AM_ib else mode)"

definition DecodeRFEInstruction :: "MCInst \<Rightarrow> u32 \<Rightarrow> decode" where
  "DecodeRFEInstruction Inst Insn =
     (let Rn = fieldFromInstruction_4 Insn 16 4;
          mode = rfe_mode (fieldFromInstruction_4 Insn 23 2);
          Inst = MCOperand_CreateImm0 Inst (ucast mode)
      in check_last MCDisassembler_Success (DecodeGPRRegisterClass Inst Rn))"

definition DecodeCPSInstruction :: "MCInst \<Rightarrow> u32 \<Rightarrow> decode" where
  "DecodeCPSInstruction Inst Insn =
     (let imod = fieldFromInstruction_4 Insn 18 2;
          M = fieldFromInstruction_4 Insn 17 1;
          iflags = fieldFromInstruction_4 Insn 6 3;
          mode = fieldFromInstruction_4 Insn 0 5
      in if fieldFromInstruction_4 Insn 5 1 \<noteq> 0 \<or> fieldFromInstruction_4 Insn 16 1 \<noteq> 0
            \<or> fieldFromInstruction_4 Insn 20 8 \<noteq> 0x10
         then (MCDisassembler_Fail, Inst)
         else if imod = 1 then (MCDisassembler_Fail, Inst)
         else if imod \<noteq> 0 \<and> M \<noteq> 0 then
           (let Inst = MCInst_setOpcode Inst ARM_CPS3p;
                Inst = MCOperand_CreateImm0 Inst (ucast imod);
                Inst = MCOperand_CreateImm0 Inst (ucast iflags)
            in (MCDisassembler_Success, MCOperand_CreateImm0 Inst (ucast mode)))
         else if imod \<noteq> 0 \<and> M = 0 then
           (let Inst = MCInst_setOpcode Inst ARM_CPS2p;
                Inst = MCOperand_CreateImm0 Inst (ucast imod)
            in (soft_if (mode \<noteq> 0) MCDisassembler_Success, MCOperand_CreateImm0 Inst (ucast iflags)))
         else if imod = 0 \<and> M \<noteq> 0 then
           (let Inst = MCInst_setOpcode Inst ARM_CPS1p
            in (soft_if (iflags \<noteq> 0) MCDisassembler_Success, MCOperand_CreateImm0 Inst (ucast mode)))
         else
           (let Inst = MCInst_setOpcode Inst ARM_CPS1p
            in (MCDisassembler_SoftFail, MCOperand_CreateImm0 Inst (ucast mode))))"

definition DecodeQADDInstruction :: "MCInst \<Rightarrow> u32 \<Rightarrow> decode" where
  "DecodeQADDInstruction Inst Insn =
     (let Rd = fieldFromInstruction_4 Insn 12 4;
          Rm = fieldFromInstruction_4 Insn 0 4;
          Rn = fieldFromInstruction_4 Insn 16 4;
          pred = fieldFromInstruction_4 Insn 28 4
      in if pred = 0xF then DecodeCPSInstruction Inst Insn
         else
           check_then MCDisassembler_Success (DecodeGPRnopcRegisterClass Inst Rd) (\<lambda>S Inst.
           check_then S (DecodeGPRnopcRegisterClass Inst Rm) (\<lambda>S Inst.
           check_then S (DecodeGPRnopcRegisterClass Inst Rn) (\<lambda>S Inst.
           check_last S (DecodePredicateOperand Inst pred)))))"

text \<open>The instruction that a load or store multiple with the predicate \<^verbatim>\<open>0xF\<close> is.\<close>

definition rfe_srs_opcodes :: "(nat \<times> nat) list" where
  "rfe_srs_opcodes =
     [(ARM_LDMDA, ARM_RFEDA), (ARM_LDMDA_UPD, ARM_RFEDA_UPD), (ARM_LDMDB, ARM_RFEDB), (ARM_LDMDB_UPD, ARM_RFEDB_UPD),
      (ARM_LDMIA, ARM_RFEIA), (ARM_LDMIA_UPD, ARM_RFEIA_UPD), (ARM_LDMIB, ARM_RFEIB), (ARM_LDMIB_UPD, ARM_RFEIB_UPD),
      (ARM_STMDA, ARM_SRSDA), (ARM_STMDA_UPD, ARM_SRSDA_UPD), (ARM_STMDB, ARM_SRSDB), (ARM_STMDB_UPD, ARM_SRSDB_UPD),
      (ARM_STMIA, ARM_SRSIA), (ARM_STMIA_UPD, ARM_SRSIA_UPD), (ARM_STMIB, ARM_SRSIB), (ARM_STMIB_UPD, ARM_SRSIB_UPD)]"

definition DecodeMemMultipleWritebackInstruction :: "MCInst \<Rightarrow> u32 \<Rightarrow> decode" where
  "DecodeMemMultipleWritebackInstruction Inst Insn =
     (let Rn = fieldFromInstruction_4 Insn 16 4;
          pred = fieldFromInstruction_4 Insn 28 4;
          reglist = fieldFromInstruction_4 Insn 0 16
      in if pred = 0xF then
           (case map_of rfe_srs_opcodes (MCInst_getOpcode Inst) of
              None \<Rightarrow> (MCDisassembler_Fail, Inst)
            | Some opc \<Rightarrow>
                (let Inst = MCInst_setOpcode Inst opc
                 in if fieldFromInstruction_4 Insn 20 1 = 0 then
                      (if \<not> (fieldFromInstruction_4 Insn 22 1 = 1 \<and> fieldFromInstruction_4 Insn 20 1 = 0)
                       then (MCDisassembler_Fail, Inst)
                       else (MCDisassembler_Success, MCOperand_CreateImm0 Inst (ucast (fieldFromInstruction_4 Insn 0 4))))
                    else DecodeRFEInstruction Inst Insn))
         else
           check_then MCDisassembler_Success (DecodeGPRRegisterClass Inst Rn) (\<lambda>S Inst.
           check_then S (DecodeGPRRegisterClass Inst Rn) (\<lambda>S Inst.
           check_then S (DecodePredicateOperand Inst pred) (\<lambda>S Inst.
           check_last S (DecodeRegListOperand Inst reglist)))))"

definition DecodeT2CPSInstruction :: "MCInst \<Rightarrow> u32 \<Rightarrow> decode" where
  "DecodeT2CPSInstruction Inst Insn =
     (let imod = fieldFromInstruction_4 Insn 9 2;
          M = fieldFromInstruction_4 Insn 8 1;
          iflags = fieldFromInstruction_4 Insn 5 3;
          mode = fieldFromInstruction_4 Insn 0 5
      in if imod = 1 then (MCDisassembler_Fail, Inst)
         else if imod \<noteq> 0 \<and> M \<noteq> 0 then
           (let Inst = MCInst_setOpcode Inst ARM_t2CPS3p;
                Inst = MCOperand_CreateImm0 Inst (ucast imod);
                Inst = MCOperand_CreateImm0 Inst (ucast iflags)
            in (MCDisassembler_Success, MCOperand_CreateImm0 Inst (ucast mode)))
         else if imod \<noteq> 0 \<and> M = 0 then
           (let Inst = MCInst_setOpcode Inst ARM_t2CPS2p;
                Inst = MCOperand_CreateImm0 Inst (ucast imod)
            in (soft_if (mode \<noteq> 0) MCDisassembler_Success, MCOperand_CreateImm0 Inst (ucast iflags)))
         else if imod = 0 \<and> M \<noteq> 0 then
           (let Inst = MCInst_setOpcode Inst ARM_t2CPS1p
            in (soft_if (iflags \<noteq> 0) MCDisassembler_Success, MCOperand_CreateImm0 Inst (ucast mode)))
         else
           (let imm = fieldFromInstruction_4 Insn 0 8
            in if imm > 4 then (MCDisassembler_Fail, Inst)
               else (MCDisassembler_Success, MCOperand_CreateImm0 (MCInst_setOpcode Inst ARM_t2HINT) (ucast imm))))"

subsection \<open>Wide moves, multiply-accumulate and memory operands\<close>

definition DecodeT2MOVTWInstruction :: "MCInst \<Rightarrow> u32 \<Rightarrow> decode" where
  "DecodeT2MOVTWInstruction Inst Insn =
     (let Rd = fieldFromInstruction_4 Insn 8 4;
          imm = fieldFromInstruction_4 Insn 0 8 OR push_bit 8 (fieldFromInstruction_4 Insn 12 3)
                OR push_bit 12 (fieldFromInstruction_4 Insn 16 4) OR push_bit 11 (fieldFromInstruction_4 Insn 26 1)
      in check_if (MCInst_getOpcode Inst = ARM_t2MOVTi16) MCDisassembler_Success (\<lambda>i. DecoderGPRRegisterClass i Rd) Inst (\<lambda>S Inst.
         check_then S (DecoderGPRRegisterClass Inst Rd) (\<lambda>S Inst.
           (S, MCOperand_CreateImm0 Inst (ucast imm)))))"

definition DecodeArmMOVTWInstruction :: "MCInst \<Rightarrow> u32 \<Rightarrow> decode" where
  "DecodeArmMOVTWInstruction Inst Insn =
     (let Rd = fieldFromInstruction_4 Insn 12 4;
          pred = fieldFromInstruction_4 Insn 28 4;
          imm = fieldFromInstruction_4 Insn 0 12 OR push_bit 12 (fieldFromInstruction_4 Insn 16 4)
      in check_if (MCInst_getOpcode Inst = ARM_MOVTi16) MCDisassembler_Success (\<lambda>i. DecodeGPRnopcRegisterClass i Rd) Inst (\<lambda>S Inst.
         check_then S (DecodeGPRnopcRegisterClass Inst Rd) (\<lambda>S Inst.
           let Inst = MCOperand_CreateImm0 Inst (ucast imm)
           in check_last S (DecodePredicateOperand Inst pred))))"

definition DecodeSMLAInstruction :: "MCInst \<Rightarrow> u32 \<Rightarrow> decode" where
  "DecodeSMLAInstruction Inst Insn =
     (let Rd = fieldFromInstruction_4 Insn 16 4;
          Rn = fieldFromInstruction_4 Insn 0 4;
          Rm = fieldFromInstruction_4 Insn 8 4;
          Ra = fieldFromInstruction_4 Insn 12 4;
          pred = fieldFromInstruction_4 Insn 28 4
      in if pred = 0xF then DecodeCPSInstruction Inst Insn
         else
           check_then MCDisassembler_Success (DecodeGPRnopcRegisterClass Inst Rd) (\<lambda>S Inst.
           check_then S (DecodeGPRnopcRegisterClass Inst Rn) (\<lambda>S Inst.
           check_then S (DecodeGPRnopcRegisterClass Inst Rm) (\<lambda>S Inst.
           check_then S (DecodeGPRnopcRegisterClass Inst Ra) (\<lambda>S Inst.
           check_last S (DecodePredicateOperand Inst pred))))))"

text \<open>\<open>0x80000000\<close> is \<^verbatim>\<open>INT32_MIN\<close>, which stands for the offset \<^verbatim>\<open>#-0\<close>.\<close>

definition DecodeAddrModeImm12Operand :: "MCInst \<Rightarrow> u32 \<Rightarrow> decode" where
  "DecodeAddrModeImm12Operand Inst Val =
     (let add = fieldFromInstruction_4 Val 12 1;
          imm = fieldFromInstruction_4 Val 0 12;
          Rn = fieldFromInstruction_4 Val 13 4
      in check_then MCDisassembler_Success (DecodeGPRRegisterClass Inst Rn) (\<lambda>S Inst.
           let imm = (if add = 0 then imm * - 1 else imm);
               imm = (if imm = 0 \<and> add = 0 then 0x80000000 else imm)
           in (S, MCOperand_CreateImm0 Inst (ucast imm))))"

definition DecodeAddrMode5Operand :: "MCInst \<Rightarrow> u32 \<Rightarrow> decode" where
  "DecodeAddrMode5Operand Inst Val =
     (let Rn = fieldFromInstruction_4 Val 9 4;
          U = fieldFromInstruction_4 Val 8 1;
          imm = fieldFromInstruction_4 Val 0 8
      in check_then MCDisassembler_Success (DecodeGPRRegisterClass Inst Rn) (\<lambda>S Inst.
           (S, MCOperand_CreateImm0 Inst
                 (ucast (ARM_AM_getAM5Opc (if U \<noteq> 0 then ARM_AM_add else ARM_AM_sub) (ucast imm))))))"

definition DecodeAddrMode7Operand :: "MCInst \<Rightarrow> u32 \<Rightarrow> decode" where
  "DecodeAddrMode7Operand Inst Val = DecodeGPRRegisterClass Inst Val"

definition DecodeAddrMode6Operand :: "MCInst \<Rightarrow> u32 \<Rightarrow> decode" where
  "DecodeAddrMode6Operand Inst Val =
     (let Rm = fieldFromInstruction_4 Val 0 4;
          align = fieldFromInstruction_4 Val 4 2
      in check_then MCDisassembler_Success (DecodeGPRRegisterClass Inst Rm) (\<lambda>S Inst.
           (S, MCOperand_CreateImm0 Inst (if align = 0 then 0 else push_bit (unat align) 4))))"

subsection \<open>Branches\<close>

text \<open>The result of \<^verbatim>\<open>SignExtend32\<close> is a signed \<^verbatim>\<open>int32_t\<close>, which the conversion to the 64-bit immediate extends.\<close>

definition DecodeT2BInstruction :: "MCInst \<Rightarrow> u32 \<Rightarrow> decode" where
  "DecodeT2BInstruction Inst Insn =
     (let S = fieldFromInstruction_4 Insn 26 1;
          J1 = fieldFromInstruction_4 Insn 13 1;
          J2 = fieldFromInstruction_4 Insn 11 1;
          I1 = (if J1 XOR S = 0 then 1 else 0);
          I2 = (if J2 XOR S = 0 then 1 else 0);
          imm10 = fieldFromInstruction_4 Insn 16 10;
          imm11 = fieldFromInstruction_4 Insn 0 11;
          tmp = push_bit 23 S OR push_bit 22 I1 OR push_bit 21 I2 OR push_bit 11 imm10 OR imm11;
          imm32 = SignExtend32 (push_bit 1 tmp) 25
      in (MCDisassembler_Success, MCOperand_CreateImm0 Inst (scast imm32)))"

definition DecodeBranchImmInstruction :: "MCInst \<Rightarrow> u32 \<Rightarrow> decode" where
  "DecodeBranchImmInstruction Inst Insn =
     (let pred = fieldFromInstruction_4 Insn 28 4;
          imm = push_bit 2 (fieldFromInstruction_4 Insn 0 24)
      in if pred = 0xF then
           (let Inst = MCInst_setOpcode Inst ARM_BLXi;
                imm = imm OR push_bit 1 (fieldFromInstruction_4 Insn 24 1)
            in (MCDisassembler_Success, MCOperand_CreateImm0 Inst (scast (SignExtend32 imm 26))))
         else
           (let Inst = MCOperand_CreateImm0 Inst (scast (SignExtend32 imm 26))
            in check_last MCDisassembler_Success (DecodePredicateOperand Inst pred)))"

end
