(* ===== verification/ARM_Decode_Thumb.thy ===== *)
theory ARM_Decode_Thumb
  imports ARM_Decode_Insn
begin

text \<open>Decoders of the Thumb and Thumb-2 encodings and of the instructions that both instruction sets share
  (\<^verbatim>\<open>capstone/arch/ARM/ARMDisassembler.c\<close>, from \<^verbatim>\<open>DecodeThumbAddSpecialReg\<close> on, the NEON decoders
  excepted).  Immediates that the source computes in \<^verbatim>\<open>unsigned\<close> are extended by zeros to the 64-bit
  operand, those it computes in \<^verbatim>\<open>int\<close> by their sign.\<close>

unbundle bit_operations_syntax

definition fieldFromInstruction_2 :: "16 word \<Rightarrow> nat \<Rightarrow> nat \<Rightarrow> 16 word" where
  "fieldFromInstruction_2 insn startBit numBits =
     (let fieldMask = (if numBits = 16 then - 1 else push_bit startBit (push_bit numBits 1 - 1))
      in drop_bit startBit (insn AND fieldMask))"

definition INT32_MIN :: u32 where
  "INT32_MIN = 0x80000000"

subsection \<open>Thumb operands\<close>

definition DecodeThumbAddSpecialReg :: "MCInst \<Rightarrow> 16 word \<Rightarrow> decode" where
  "DecodeThumbAddSpecialReg Inst Insn =
     (let dst = ucast (fieldFromInstruction_2 Insn 8 3);
          imm = fieldFromInstruction_2 Insn 0 8
      in check_then MCDisassembler_Success (DecodetGPRRegisterClass Inst dst) (\<lambda>S Inst.
           if MCInst_getOpcode Inst = ARM_tADR then (S, MCOperand_CreateImm0 Inst (ucast imm))
           else if MCInst_getOpcode Inst = ARM_tADDrSPi then
             (S, MCOperand_CreateImm0 (MCOperand_CreateReg0 Inst ARM_SP) (ucast imm))
           else (MCDisassembler_Fail, Inst)))"

definition DecodeThumbBROperand :: "MCInst \<Rightarrow> u32 \<Rightarrow> decode" where
  "DecodeThumbBROperand Inst Val =
     (MCDisassembler_Success, MCOperand_CreateImm0 Inst (scast (SignExtend32 (push_bit 1 Val) 12)))"

definition DecodeT2BROperand :: "MCInst \<Rightarrow> u32 \<Rightarrow> decode" where
  "DecodeT2BROperand Inst Val =
     (MCDisassembler_Success, MCOperand_CreateImm0 Inst (scast (SignExtend32 Val 21)))"

definition DecodeThumbCmpBROperand :: "MCInst \<Rightarrow> u32 \<Rightarrow> decode" where
  "DecodeThumbCmpBROperand Inst Val =
     (MCDisassembler_Success, MCOperand_CreateImm0 Inst (ucast (push_bit 1 Val)))"

definition DecodeThumbAddrModeRR :: "MCInst \<Rightarrow> u32 \<Rightarrow> decode" where
  "DecodeThumbAddrModeRR Inst Val =
     (let Rn = fieldFromInstruction_4 Val 0 3;
          Rm = fieldFromInstruction_4 Val 3 3
      in check_then MCDisassembler_Success (DecodetGPRRegisterClass Inst Rn) (\<lambda>S Inst.
         check_last S (DecodetGPRRegisterClass Inst Rm)))"

definition DecodeThumbAddrModeIS :: "MCInst \<Rightarrow> u32 \<Rightarrow> decode" where
  "DecodeThumbAddrModeIS Inst Val =
     (let Rn = fieldFromInstruction_4 Val 0 3;
          imm = fieldFromInstruction_4 Val 3 5
      in check_then MCDisassembler_Success (DecodetGPRRegisterClass Inst Rn) (\<lambda>S Inst.
           (S, MCOperand_CreateImm0 Inst (ucast imm))))"

definition DecodeThumbAddrModePC :: "MCInst \<Rightarrow> u32 \<Rightarrow> decode" where
  "DecodeThumbAddrModePC Inst Val =
     (MCDisassembler_Success, MCOperand_CreateImm0 Inst (ucast (push_bit 2 Val)))"

definition DecodeThumbAddrModeSP :: "MCInst \<Rightarrow> u32 \<Rightarrow> decode" where
  "DecodeThumbAddrModeSP Inst Val =
     (MCDisassembler_Success, MCOperand_CreateImm0 (MCOperand_CreateReg0 Inst ARM_SP) (ucast Val))"

subsection \<open>Thumb-2 loads and stores\<close>

definition DecodeT2AddrModeSOReg :: "MCInst \<Rightarrow> u32 \<Rightarrow> decode" where
  "DecodeT2AddrModeSOReg Inst Val =
     (let Rn = fieldFromInstruction_4 Val 6 4;
          Rm = fieldFromInstruction_4 Val 2 4;
          imm = fieldFromInstruction_4 Val 0 2
      in if MCInst_getOpcode Inst \<in> set [ARM_t2STRHs, ARM_t2STRBs, ARM_t2STRs] \<and> Rn = 15
         then (MCDisassembler_Fail, Inst)
         else
           check_then MCDisassembler_Success (DecodeGPRRegisterClass Inst Rn) (\<lambda>S Inst.
           check_then S (DecoderGPRRegisterClass Inst Rm) (\<lambda>S Inst.
             (S, MCOperand_CreateImm0 Inst (ucast imm)))))"

definition DecodeT2LoadLabel :: "MCInst \<Rightarrow> u32 \<Rightarrow> decode" where
  "DecodeT2LoadLabel Inst Insn =
     (let Rt = fieldFromInstruction_4 Insn 12 4;
          U = fieldFromInstruction_4 Insn 23 1;
          imm = fieldFromInstruction_4 Insn 0 12;
          op = MCInst_getOpcode Inst
      in if Rt = 15 \<and> op = ARM_t2LDRSHpci then (MCDisassembler_Fail, Inst)
         else
           (let Inst = (if Rt = 15 \<and> op \<in> set [ARM_t2LDRBpci, ARM_t2LDRHpci] then MCInst_setOpcode Inst ARM_t2PLDpci
                        else if Rt = 15 \<and> op = ARM_t2LDRSBpci then MCInst_setOpcode Inst ARM_t2PLIpci
                        else Inst)
            in check_if (MCInst_getOpcode Inst \<notin> set [ARM_t2PLDpci, ARM_t2PLIpci]) MCDisassembler_Success
                 (\<lambda>i. DecodeGPRRegisterClass i Rt) Inst (\<lambda>S Inst.
                 let imm = (if U = 0 then if imm = 0 then INT32_MIN else - imm else imm)
                 in (S, MCOperand_CreateImm0 Inst (scast imm)))))"

text \<open>The opcode of the load from a label that replaces a load with base register \<^verbatim>\<open>PC\<close>.\<close>

definition t2_shift_labels :: "(nat \<times> nat) list" where
  "t2_shift_labels =
     [(ARM_t2LDRBs, ARM_t2LDRBpci), (ARM_t2LDRHs, ARM_t2LDRHpci), (ARM_t2LDRSHs, ARM_t2LDRSHpci),
      (ARM_t2LDRSBs, ARM_t2LDRSBpci), (ARM_t2LDRs, ARM_t2LDRpci), (ARM_t2PLDs, ARM_t2PLDpci), (ARM_t2PLIs, ARM_t2PLIpci)]"

definition t2_imm8_labels :: "(nat \<times> nat) list" where
  "t2_imm8_labels =
     [(ARM_t2LDRi8, ARM_t2LDRpci), (ARM_t2LDRBi8, ARM_t2LDRBpci), (ARM_t2LDRSBi8, ARM_t2LDRSBpci),
      (ARM_t2LDRHi8, ARM_t2LDRHpci), (ARM_t2LDRSHi8, ARM_t2LDRSHpci), (ARM_t2PLDi8, ARM_t2PLDpci), (ARM_t2PLIi8, ARM_t2PLIpci)]"

definition t2_imm12_labels :: "(nat \<times> nat) list" where
  "t2_imm12_labels =
     [(ARM_t2LDRi12, ARM_t2LDRpci), (ARM_t2LDRHi12, ARM_t2LDRHpci), (ARM_t2LDRSHi12, ARM_t2LDRSHpci),
      (ARM_t2LDRBi12, ARM_t2LDRBpci), (ARM_t2LDRSBi12, ARM_t2LDRSBpci), (ARM_t2PLDi12, ARM_t2PLDpci),
      (ARM_t2PLIi12, ARM_t2PLIpci)]"

definition t2_unpriv_labels :: "(nat \<times> nat) list" where
  "t2_unpriv_labels =
     [(ARM_t2LDRT, ARM_t2LDRpci), (ARM_t2LDRBT, ARM_t2LDRBpci), (ARM_t2LDRHT, ARM_t2LDRHpci),
      (ARM_t2LDRSBT, ARM_t2LDRSBpci), (ARM_t2LDRSHT, ARM_t2LDRSHpci)]"

text \<open>\<^verbatim>\<open>switch (opcode) { case ...: MCInst_setOpcode(...); break; default: return Fail; } return DecodeT2LoadLabel(...)\<close>\<close>

definition t2_load_label_via :: "(nat \<times> nat) list \<Rightarrow> MCInst \<Rightarrow> u32 \<Rightarrow> decode" where
  "t2_load_label_via tab Inst Insn =
     (case map_of tab (MCInst_getOpcode Inst) of
        None \<Rightarrow> (MCDisassembler_Fail, Inst)
      | Some opc \<Rightarrow> DecodeT2LoadLabel (MCInst_setOpcode Inst opc) Insn)"

definition DecodeT2LoadShift :: "MCInst \<Rightarrow> u32 \<Rightarrow> decode" where
  "DecodeT2LoadShift Inst Insn =
     (let Rt = fieldFromInstruction_4 Insn 12 4;
          Rn = fieldFromInstruction_4 Insn 16 4;
          op = MCInst_getOpcode Inst
      in if Rn = 15 then t2_load_label_via t2_shift_labels Inst Insn
         else if Rt = 15 \<and> op = ARM_t2LDRSHs then (MCDisassembler_Fail, Inst)
         else
           (let Inst = (if Rt = 15 \<and> op = ARM_t2LDRHs then MCInst_setOpcode Inst ARM_t2PLDWs else Inst)
            in check_if (MCInst_getOpcode Inst \<notin> set [ARM_t2PLDs, ARM_t2PLDWs, ARM_t2PLIs]) MCDisassembler_Success
                 (\<lambda>i. DecodeGPRRegisterClass i Rt) Inst (\<lambda>S Inst.
                 let addrmode = fieldFromInstruction_4 Insn 4 2 OR push_bit 2 (fieldFromInstruction_4 Insn 0 4)
                                OR push_bit 6 (fieldFromInstruction_4 Insn 16 4)
                 in check_last S (DecodeT2AddrModeSOReg Inst addrmode))))"

definition DecodeT2Imm8S4 :: "MCInst \<Rightarrow> u32 \<Rightarrow> decode" where
  "DecodeT2Imm8S4 Inst Val =
     (if Val = 0 then (MCDisassembler_Success, MCOperand_CreateImm0 Inst (scast INT32_MIN))
      else
        (let imm = Val AND 0xFF;
             imm = (if Val AND 0x100 = 0 then imm * - 1 else imm)
         in (MCDisassembler_Success, MCOperand_CreateImm0 Inst (scast (imm * 4)))))"

definition DecodeT2AddrModeImm8s4 :: "MCInst \<Rightarrow> u32 \<Rightarrow> decode" where
  "DecodeT2AddrModeImm8s4 Inst Val =
     (let Rn = fieldFromInstruction_4 Val 9 4;
          imm = fieldFromInstruction_4 Val 0 9
      in check_then MCDisassembler_Success (DecodeGPRRegisterClass Inst Rn) (\<lambda>S Inst.
         check_last S (DecodeT2Imm8S4 Inst imm)))"

definition DecodeT2AddrModeImm0_1020s4 :: "MCInst \<Rightarrow> u32 \<Rightarrow> decode" where
  "DecodeT2AddrModeImm0_1020s4 Inst Val =
     (let Rn = fieldFromInstruction_4 Val 8 4;
          imm = fieldFromInstruction_4 Val 0 8
      in check_then MCDisassembler_Success (DecodeGPRnopcRegisterClass Inst Rn) (\<lambda>S Inst.
           (S, MCOperand_CreateImm0 Inst (ucast imm))))"

definition DecodeT2Imm8 :: "MCInst \<Rightarrow> u32 \<Rightarrow> decode" where
  "DecodeT2Imm8 Inst Val =
     (let imm = Val AND 0xFF;
          imm = (if Val = 0 then INT32_MIN else if Val AND 0x100 = 0 then imm * - 1 else imm)
      in (MCDisassembler_Success, MCOperand_CreateImm0 Inst (scast imm)))"

definition DecodeT2AddrModeImm8 :: "MCInst \<Rightarrow> u32 \<Rightarrow> decode" where
  "DecodeT2AddrModeImm8 Inst Val =
     (let Rn = fieldFromInstruction_4 Val 9 4;
          imm = fieldFromInstruction_4 Val 0 9;
          op = MCInst_getOpcode Inst
      in if op \<in> set [ARM_t2STRT, ARM_t2STRBT, ARM_t2STRHT, ARM_t2STRi8, ARM_t2STRHi8, ARM_t2STRBi8] \<and> Rn = 15
         then (MCDisassembler_Fail, Inst)
         else
           (let imm = (if op \<in> set [ARM_t2LDRT, ARM_t2LDRBT, ARM_t2LDRHT, ARM_t2LDRSBT, ARM_t2LDRSHT, ARM_t2STRT,
                                     ARM_t2STRBT, ARM_t2STRHT]
                       then imm OR 0x100 else imm)
            in check_then MCDisassembler_Success (DecodeGPRRegisterClass Inst Rn) (\<lambda>S Inst.
               check_last S (DecodeT2Imm8 Inst imm))))"

definition DecodeT2LoadImm8 :: "MCInst \<Rightarrow> u32 \<Rightarrow> decode" where
  "DecodeT2LoadImm8 Inst Insn =
     (let Rn = fieldFromInstruction_4 Insn 16 4;
          Rt = fieldFromInstruction_4 Insn 12 4;
          U = fieldFromInstruction_4 Insn 9 1;
          imm = fieldFromInstruction_4 Insn 0 8 OR push_bit 8 U OR push_bit 9 Rn;
          op = MCInst_getOpcode Inst
      in if Rn = 15 then t2_load_label_via t2_imm8_labels Inst Insn
         else if Rt = 15 \<and> op = ARM_t2LDRSHi8 then (MCDisassembler_Fail, Inst)
         else
           check_if (op \<notin> set [ARM_t2PLDi8, ARM_t2PLIi8, ARM_t2PLDWi8]) MCDisassembler_Success
             (\<lambda>i. DecodeGPRRegisterClass i Rt) Inst (\<lambda>S Inst.
             check_last S (DecodeT2AddrModeImm8 Inst imm)))"

definition DecodeT2AddrModeImm12 :: "MCInst \<Rightarrow> u32 \<Rightarrow> decode" where
  "DecodeT2AddrModeImm12 Inst Val =
     (let Rn = fieldFromInstruction_4 Val 13 4;
          imm = fieldFromInstruction_4 Val 0 12
      in if MCInst_getOpcode Inst \<in> set [ARM_t2STRi12, ARM_t2STRBi12, ARM_t2STRHi12] \<and> Rn = 15
         then (MCDisassembler_Fail, Inst)
         else
           check_then MCDisassembler_Success (DecodeGPRRegisterClass Inst Rn) (\<lambda>S Inst.
             (S, MCOperand_CreateImm0 Inst (ucast imm))))"

definition DecodeT2LoadImm12 :: "MCInst \<Rightarrow> u32 \<Rightarrow> decode" where
  "DecodeT2LoadImm12 Inst Insn =
     (let Rn = fieldFromInstruction_4 Insn 16 4;
          Rt = fieldFromInstruction_4 Insn 12 4;
          imm = fieldFromInstruction_4 Insn 0 12 OR push_bit 13 Rn;
          op = MCInst_getOpcode Inst
      in if Rn = 15 then t2_load_label_via t2_imm12_labels Inst Insn
         else if Rt = 15 \<and> op = ARM_t2LDRSHi12 then (MCDisassembler_Fail, Inst)
         else
           (let Inst = (if Rt = 15 \<and> op = ARM_t2LDRHi12 then MCInst_setOpcode Inst ARM_t2PLDi12 else Inst)
            in check_if (MCInst_getOpcode Inst \<notin> set [ARM_t2PLDi12, ARM_t2PLDWi12, ARM_t2PLIi12]) MCDisassembler_Success
                 (\<lambda>i. DecodeGPRRegisterClass i Rt) Inst (\<lambda>S Inst.
                 check_last S (DecodeT2AddrModeImm12 Inst imm))))"

definition DecodeT2LoadT :: "MCInst \<Rightarrow> u32 \<Rightarrow> decode" where
  "DecodeT2LoadT Inst Insn =
     (let Rn = fieldFromInstruction_4 Insn 16 4;
          Rt = fieldFromInstruction_4 Insn 12 4;
          imm = fieldFromInstruction_4 Insn 0 8 OR push_bit 9 Rn
      in if Rn = 15 then t2_load_label_via t2_unpriv_labels Inst Insn
         else
           check_then MCDisassembler_Success (DecoderGPRRegisterClass Inst Rt) (\<lambda>S Inst.
           check_last S (DecodeT2AddrModeImm8 Inst imm)))"

definition t2_indexed_labels :: "u32 \<Rightarrow> (nat \<times> nat) list" where
  "t2_indexed_labels Rt =
     [(ARM_t2LDR_PRE, ARM_t2LDRpci), (ARM_t2LDR_POST, ARM_t2LDRpci), (ARM_t2LDRB_PRE, ARM_t2LDRBpci),
      (ARM_t2LDRB_POST, ARM_t2LDRBpci), (ARM_t2LDRH_PRE, ARM_t2LDRHpci), (ARM_t2LDRH_POST, ARM_t2LDRHpci),
      (ARM_t2LDRSB_PRE, if Rt = 15 then ARM_t2PLIpci else ARM_t2LDRSBpci),
      (ARM_t2LDRSB_POST, if Rt = 15 then ARM_t2PLIpci else ARM_t2LDRSBpci),
      (ARM_t2LDRSH_PRE, ARM_t2LDRSHpci), (ARM_t2LDRSH_POST, ARM_t2LDRSHpci)]"

definition DecodeT2LdStPre :: "MCInst \<Rightarrow> u32 \<Rightarrow> decode" where
  "DecodeT2LdStPre Inst Insn =
     (let Rt = fieldFromInstruction_4 Insn 12 4;
          Rn = fieldFromInstruction_4 Insn 16 4;
          addr = fieldFromInstruction_4 Insn 0 8 OR push_bit 8 (fieldFromInstruction_4 Insn 9 1) OR push_bit 9 Rn;
          load = fieldFromInstruction_4 Insn 20 1
      in if Rn = 15 then t2_load_label_via (t2_indexed_labels Rt) Inst Insn
         else
           check_if (load = 0) MCDisassembler_Success (\<lambda>i. DecodeGPRRegisterClass i Rn) Inst (\<lambda>S Inst.
           check_then S (DecodeGPRRegisterClass Inst Rt) (\<lambda>S Inst.
           check_if (load \<noteq> 0) S (\<lambda>i. DecodeGPRRegisterClass i Rn) Inst (\<lambda>S Inst.
           check_last S (DecodeT2AddrModeImm8 Inst addr)))))"

subsection \<open>Stack pointer, processor state and branches\<close>

definition DecodeThumbAddSPImm :: "MCInst \<Rightarrow> 16 word \<Rightarrow> decode" where
  "DecodeThumbAddSPImm Inst Insn =
     (let imm = fieldFromInstruction_2 Insn 0 7;
          Inst = MCOperand_CreateReg0 Inst ARM_SP;
          Inst = MCOperand_CreateReg0 Inst ARM_SP
      in (MCDisassembler_Success, MCOperand_CreateImm0 Inst (ucast imm)))"

definition DecodeThumbAddSPReg :: "MCInst \<Rightarrow> 16 word \<Rightarrow> decode" where
  "DecodeThumbAddSPReg Inst Insn =
     (if MCInst_getOpcode Inst = ARM_tADDrSP then
        (let Rdm = ucast (fieldFromInstruction_2 Insn 0 3) OR push_bit 3 (ucast (fieldFromInstruction_2 Insn 7 1))
         in check_then MCDisassembler_Success (DecodeGPRRegisterClass Inst Rdm) (\<lambda>S Inst.
              let Inst = MCOperand_CreateReg0 Inst ARM_SP
              in check_last S (DecodeGPRRegisterClass Inst Rdm)))
      else if MCInst_getOpcode Inst = ARM_tADDspr then
        (let Rm = ucast (fieldFromInstruction_2 Insn 3 4);
             Inst = MCOperand_CreateReg0 Inst ARM_SP;
             Inst = MCOperand_CreateReg0 Inst ARM_SP
         in check_last MCDisassembler_Success (DecodeGPRRegisterClass Inst Rm))
      else (MCDisassembler_Success, Inst))"

definition DecodeThumbCPS :: "MCInst \<Rightarrow> 16 word \<Rightarrow> decode" where
  "DecodeThumbCPS Inst Insn =
     (let imod = fieldFromInstruction_2 Insn 4 1 OR 0x2;
          flags = fieldFromInstruction_2 Insn 0 3
      in (MCDisassembler_Success, MCOperand_CreateImm0 (MCOperand_CreateImm0 Inst (ucast imod)) (ucast flags)))"

definition DecodePostIdxReg :: "MCInst \<Rightarrow> u32 \<Rightarrow> decode" where
  "DecodePostIdxReg Inst Insn =
     (let Rm = fieldFromInstruction_4 Insn 0 4;
          add = fieldFromInstruction_4 Insn 4 1
      in check_then MCDisassembler_Success (DecodeGPRnopcRegisterClass Inst Rm) (\<lambda>S Inst.
           (S, MCOperand_CreateImm0 Inst (ucast add))))"

text \<open>The bits \<^verbatim>\<open>J1\<close> and \<^verbatim>\<open>J2\<close> of a long branch replaced by \<^verbatim>\<open>I = NOT(J EOR S)\<close>, which
  \<^verbatim>\<open>DecodeThumbBLXOffset\<close> and \<^verbatim>\<open>DecodeThumbBLTargetOperand\<close> do in the same words.\<close>

definition bl_offset :: "u32 \<Rightarrow> u32" where
  "bl_offset Val =
     (let S = drop_bit 23 Val AND 1;
          J1 = drop_bit 22 Val AND 1;
          J2 = drop_bit 21 Val AND 1;
          I1 = (if J1 XOR S = 0 then 1 else 0);
          I2 = (if J2 XOR S = 0 then 1 else 0);
          tmp = (Val AND NOT 0x600000) OR push_bit 22 I1 OR push_bit 21 I2
      in SignExtend32 (push_bit 1 tmp) 25)"

definition DecodeThumbBLXOffset :: "MCInst \<Rightarrow> u32 \<Rightarrow> decode" where
  "DecodeThumbBLXOffset Inst Val = (MCDisassembler_Success, MCOperand_CreateImm0 Inst (scast (bl_offset Val)))"

definition DecodeCoprocessor :: "MCInst \<Rightarrow> u32 \<Rightarrow> decode" where
  "DecodeCoprocessor Inst Val =
     (if Val = 0xA \<or> Val = 0xB then (MCDisassembler_Fail, Inst)
      else (MCDisassembler_Success, MCOperand_CreateImm0 Inst (ucast Val)))"

text \<open>The number of \<^verbatim>\<open>ARM_SP\<close> in the enumeration of the registers.\<close>

definition ARM_SP_number :: u32 where
  "ARM_SP_number = 12"

definition DecodeThumbTableBranch :: "MCInst \<Rightarrow> u32 \<Rightarrow> decode" where
  "DecodeThumbTableBranch Inst Insn =
     (let Rn = fieldFromInstruction_4 Insn 16 4;
          Rm = fieldFromInstruction_4 Insn 0 4
      in check_then (soft_if (Rn = ARM_SP_number) MCDisassembler_Success) (DecodeGPRRegisterClass Inst Rn) (\<lambda>S Inst.
         check_last S (DecoderGPRRegisterClass Inst Rm)))"

definition DecodeMemBarrierOption :: "MCInst \<Rightarrow> u32 \<Rightarrow> decode" where
  "DecodeMemBarrierOption Inst Val =
     (if Val AND NOT 0xf \<noteq> 0 then (MCDisassembler_Fail, Inst)
      else (MCDisassembler_Success, MCOperand_CreateImm0 Inst (ucast Val)))"

definition DecodeInstSyncBarrierOption :: "MCInst \<Rightarrow> u32 \<Rightarrow> decode" where
  "DecodeInstSyncBarrierOption Inst Val =
     (if Val AND NOT 0xf \<noteq> 0 then (MCDisassembler_Fail, Inst)
      else (MCDisassembler_Success, MCOperand_CreateImm0 Inst (ucast Val)))"

definition t2_barriers :: "(u32 \<times> nat) list" where
  "t2_barriers = [(0xf3bf8f4, ARM_t2DSB), (0xf3bf8f5, ARM_t2DMB), (0xf3bf8f6, ARM_t2ISB)]"

definition DecodeThumb2BCCInstruction :: "MCInst \<Rightarrow> u32 \<Rightarrow> decode" where
  "DecodeThumb2BCCInstruction Inst Insn =
     (let pred = fieldFromInstruction_4 Insn 22 4
      in if pred = 0xE \<or> pred = 0xF then
           (case map_of t2_barriers (fieldFromInstruction_4 Insn 4 28) of
              None \<Rightarrow> (MCDisassembler_Fail, Inst)
            | Some opc \<Rightarrow> DecodeMemBarrierOption (MCInst_setOpcode Inst opc) (fieldFromInstruction_4 Insn 0 4))
         else
           (let brtarget = push_bit 1 (fieldFromInstruction_4 Insn 0 11) OR push_bit 19 (fieldFromInstruction_4 Insn 11 1)
                           OR push_bit 18 (fieldFromInstruction_4 Insn 13 1) OR push_bit 12 (fieldFromInstruction_4 Insn 16 6)
                           OR push_bit 20 (fieldFromInstruction_4 Insn 26 1)
            in check_then MCDisassembler_Success (DecodeT2BROperand Inst brtarget) (\<lambda>S Inst.
               check_last S (DecodePredicateOperand Inst pred))))"

text \<open>The two-bit field \<^verbatim>\<open>byte\<close> always meets one of the four cases of its \<^verbatim>\<open>switch\<close>.\<close>

definition t2_so_imm :: "u32 \<Rightarrow> u32" where
  "t2_so_imm Val =
     (let ctrl = fieldFromInstruction_4 Val 10 2
      in if ctrl = 0 then
           (let byte = fieldFromInstruction_4 Val 8 2;
                imm = fieldFromInstruction_4 Val 0 8
            in if byte = 0 then imm
               else if byte = 1 then push_bit 16 imm OR imm
               else if byte = 2 then push_bit 24 imm OR push_bit 8 imm
               else push_bit 24 imm OR push_bit 16 imm OR push_bit 8 imm OR imm)
         else
           (let unrot = fieldFromInstruction_4 Val 0 7 OR 0x80;
                rot = fieldFromInstruction_4 Val 7 5
            in drop_bit (unat rot) unrot OR push_bit (unat ((32 - rot) AND 31)) unrot))"

definition DecodeT2SOImm :: "MCInst \<Rightarrow> u32 \<Rightarrow> decode" where
  "DecodeT2SOImm Inst Val = (MCDisassembler_Success, MCOperand_CreateImm0 Inst (ucast (t2_so_imm Val)))"

definition DecodeThumbBCCTargetOperand :: "MCInst \<Rightarrow> u32 \<Rightarrow> decode" where
  "DecodeThumbBCCTargetOperand Inst Val =
     (MCDisassembler_Success, MCOperand_CreateImm0 Inst (scast (SignExtend32 (push_bit 1 Val) 9)))"

definition DecodeThumbBLTargetOperand :: "MCInst \<Rightarrow> u32 \<Rightarrow> decode" where
  "DecodeThumbBLTargetOperand Inst Val = (MCDisassembler_Success, MCOperand_CreateImm0 Inst (scast (bl_offset Val)))"

end
