(* ===== verification/ARM_Decode_Misc.thy ===== *)
theory ARM_Decode_Misc
  imports ARM_Decode_Thumb
begin

text \<open>Feature bits of a mode, special registers, register pairs, pre-indexed loads and stores, the IT
  instruction and the remaining integer decoders (\<^verbatim>\<open>capstone/arch/ARM/ARMDisassembler.c\<close>).\<close>

unbundle bit_operations_syntax

subsection \<open>Modes and features\<close>

definition CS_MODE_THUMB :: u32 where "CS_MODE_THUMB = push_bit 4 1"
definition CS_MODE_MCLASS :: u32 where "CS_MODE_MCLASS = push_bit 5 1"
definition CS_MODE_V8 :: u32 where "CS_MODE_V8 = push_bit 6 1"

definition ARM_FeatureDSPThumb2 :: u64 where "ARM_FeatureDSPThumb2 = push_bit 9 1"
definition ARM_FeatureMClass :: u64 where "ARM_FeatureMClass = push_bit 16 1"
definition ARM_FeatureThumb2 :: u64 where "ARM_FeatureThumb2 = push_bit 27 1"
definition ARM_FeatureVFPOnlySP :: u64 where "ARM_FeatureVFPOnlySP = push_bit 32 1"
definition ARM_HasV7Ops :: u64 where "ARM_HasV7Ops = push_bit 42 1"
definition ARM_HasV8Ops :: u64 where "ARM_HasV8Ops = push_bit 43 1"
definition ARM_ModeThumb :: u64 where "ARM_ModeThumb = push_bit 44 1"

definition ARM_getFeatureBits :: "u32 \<Rightarrow> u64" where
  "ARM_getFeatureBits mode =
     (let Bits = - 1;
          Bits = Bits AND NOT ARM_FeatureVFPOnlySP;
          Bits = (if mode AND CS_MODE_V8 = 0 then Bits AND NOT ARM_HasV8Ops else Bits);
          Bits = (if mode AND CS_MODE_MCLASS = 0 then Bits AND NOT ARM_FeatureMClass else Bits)
      in if mode AND CS_MODE_THUMB \<noteq> 0 then Bits
         else Bits AND NOT ARM_ModeThumb AND NOT ARM_FeatureThumb2)"

text \<open>The argument \<open>mode\<close> is \<^verbatim>\<open>Inst->csh->mode\<close>.\<close>

definition DecodeMSRMask :: "u32 \<Rightarrow> MCInst \<Rightarrow> u32 \<Rightarrow> decode" where
  "DecodeMSRMask mode Inst Val =
     (let FeatureBits = ARM_getFeatureBits mode;
          ok = (MCDisassembler_Success, MCOperand_CreateImm0 Inst (ucast Val));
          fail = (MCDisassembler_Fail, Inst)
      in if FeatureBits AND ARM_FeatureMClass \<noteq> 0 then
           (let ValLow = Val AND 0xff
            in if ValLow \<in> set [17, 18, 19] \<and> FeatureBits AND ARM_HasV7Ops = 0 then fail
               else if ValLow \<notin> set [0, 1, 2, 3, 5, 6, 7, 8, 9, 16, 20, 17, 18, 19] then fail
               else if FeatureBits AND ARM_HasV7Ops \<noteq> 0 \<and> MCInst_getOpcode Inst = ARM_t2MSR_M then
                 (let Mask = drop_bit 10 Val AND 3
                  in if Mask = 0 \<or> Mask \<noteq> 2 \<and> ValLow > 3 \<or> FeatureBits AND ARM_FeatureDSPThumb2 = 0 \<and> Mask = 1
                     then fail else ok)
               else ok)
         else if Val = 0 then fail
         else ok)"

subsection \<open>Register pairs and pre-indexed loads and stores\<close>

definition DecodeDoubleRegLoad :: "MCInst \<Rightarrow> u32 \<Rightarrow> decode" where
  "DecodeDoubleRegLoad Inst Insn =
     (let Rt = fieldFromInstruction_4 Insn 12 4;
          Rn = fieldFromInstruction_4 Insn 16 4;
          pred = fieldFromInstruction_4 Insn 28 4
      in check_then (soft_if (Rn = 0xF) MCDisassembler_Success) (DecodeGPRPairRegisterClass Inst Rt) (\<lambda>S Inst.
         check_then S (DecodeGPRRegisterClass Inst Rn) (\<lambda>S Inst.
         check_last S (DecodePredicateOperand Inst pred))))"

definition DecodeDoubleRegStore :: "MCInst \<Rightarrow> u32 \<Rightarrow> decode" where
  "DecodeDoubleRegStore Inst Insn =
     (let Rd = fieldFromInstruction_4 Insn 12 4;
          Rt = fieldFromInstruction_4 Insn 0 4;
          Rn = fieldFromInstruction_4 Insn 16 4;
          pred = fieldFromInstruction_4 Insn 28 4
      in check_then MCDisassembler_Success (DecodeGPRnopcRegisterClass Inst Rd) (\<lambda>S Inst.
           let S = soft_if (Rn = 0xF \<or> Rd = Rn \<or> Rd = Rt \<or> Rd = Rt + 1) S
           in check_then S (DecodeGPRPairRegisterClass Inst Rt) (\<lambda>S Inst.
              check_then S (DecodeGPRRegisterClass Inst Rn) (\<lambda>S Inst.
              check_last S (DecodePredicateOperand Inst pred)))))"

text \<open>The operand of the address of the four pre-indexed decoders: \<^verbatim>\<open>Rn:U:imm12\<close>.\<close>

definition pre_index_imm :: "u32 \<Rightarrow> u32" where
  "pre_index_imm Insn =
     fieldFromInstruction_4 Insn 0 12 OR push_bit 13 (fieldFromInstruction_4 Insn 16 4)
     OR push_bit 12 (fieldFromInstruction_4 Insn 23 1)"

definition DecodeLDRPreImm :: "MCInst \<Rightarrow> u32 \<Rightarrow> decode" where
  "DecodeLDRPreImm Inst Insn =
     (let Rn = fieldFromInstruction_4 Insn 16 4;
          Rt = fieldFromInstruction_4 Insn 12 4;
          imm = pre_index_imm Insn;
          pred = fieldFromInstruction_4 Insn 28 4
      in check_then (soft_if (Rn = 0xF \<or> Rn = Rt) MCDisassembler_Success) (DecodeGPRRegisterClass Inst Rt) (\<lambda>S Inst.
         check_then S (DecodeGPRRegisterClass Inst Rn) (\<lambda>S Inst.
         check_then S (DecodeAddrModeImm12Operand Inst imm) (\<lambda>S Inst.
         check_last S (DecodePredicateOperand Inst pred)))))"

definition DecodeLDRPreReg :: "MCInst \<Rightarrow> u32 \<Rightarrow> decode" where
  "DecodeLDRPreReg Inst Insn =
     (let Rn = fieldFromInstruction_4 Insn 16 4;
          Rt = fieldFromInstruction_4 Insn 12 4;
          imm = pre_index_imm Insn;
          pred = fieldFromInstruction_4 Insn 28 4;
          Rm = fieldFromInstruction_4 Insn 0 4;
          S = soft_if (Rm = 0xF) (soft_if (Rn = 0xF \<or> Rn = Rt) MCDisassembler_Success)
      in check_then S (DecodeGPRRegisterClass Inst Rt) (\<lambda>S Inst.
         check_then S (DecodeGPRRegisterClass Inst Rn) (\<lambda>S Inst.
         check_then S (DecodeSORegMemOperand Inst imm) (\<lambda>S Inst.
         check_last S (DecodePredicateOperand Inst pred)))))"

definition DecodeSTRPreImm :: "MCInst \<Rightarrow> u32 \<Rightarrow> decode" where
  "DecodeSTRPreImm Inst Insn =
     (let Rn = fieldFromInstruction_4 Insn 16 4;
          Rt = fieldFromInstruction_4 Insn 12 4;
          imm = pre_index_imm Insn;
          pred = fieldFromInstruction_4 Insn 28 4
      in check_then (soft_if (Rn = 0xF \<or> Rn = Rt) MCDisassembler_Success) (DecodeGPRRegisterClass Inst Rn) (\<lambda>S Inst.
         check_then S (DecodeGPRRegisterClass Inst Rt) (\<lambda>S Inst.
         check_then S (DecodeAddrModeImm12Operand Inst imm) (\<lambda>S Inst.
         check_last S (DecodePredicateOperand Inst pred)))))"

definition DecodeSTRPreReg :: "MCInst \<Rightarrow> u32 \<Rightarrow> decode" where
  "DecodeSTRPreReg Inst Insn =
     (let Rn = fieldFromInstruction_4 Insn 16 4;
          Rt = fieldFromInstruction_4 Insn 12 4;
          imm = pre_index_imm Insn;
          pred = fieldFromInstruction_4 Insn 28 4
      in check_then (soft_if (Rn = 0xF \<or> Rn = Rt) MCDisassembler_Success) (DecodeGPRRegisterClass Inst Rn) (\<lambda>S Inst.
         check_then S (DecodeGPRRegisterClass Inst Rt) (\<lambda>S Inst.
         check_then S (DecodeSORegMemOperand Inst imm) (\<lambda>S Inst.
         check_last S (DecodePredicateOperand Inst pred)))))"

subsection \<open>Moves between register files and the IT instruction\<close>

definition DecodeVMOVSRR :: "MCInst \<Rightarrow> u32 \<Rightarrow> decode" where
  "DecodeVMOVSRR Inst Insn =
     (let Rt = fieldFromInstruction_4 Insn 12 4;
          Rt2 = fieldFromInstruction_4 Insn 16 4;
          Rm = fieldFromInstruction_4 Insn 5 1 OR push_bit 1 (fieldFromInstruction_4 Insn 0 4);
          pred = fieldFromInstruction_4 Insn 28 4;
          S = soft_if (Rt = 0xF \<or> Rt2 = 0xF \<or> Rm = 0x1F) MCDisassembler_Success
      in check_then S (DecodeSPRRegisterClass Inst Rm) (\<lambda>S Inst.
         check_then S (DecodeSPRRegisterClass Inst (Rm + 1)) (\<lambda>S Inst.
         check_then S (DecodeGPRRegisterClass Inst Rt) (\<lambda>S Inst.
         check_then S (DecodeGPRRegisterClass Inst Rt2) (\<lambda>S Inst.
         check_last S (DecodePredicateOperand Inst pred))))))"

definition DecodeVMOVRRS :: "MCInst \<Rightarrow> u32 \<Rightarrow> decode" where
  "DecodeVMOVRRS Inst Insn =
     (let Rt = fieldFromInstruction_4 Insn 12 4;
          Rt2 = fieldFromInstruction_4 Insn 16 4;
          Rm = fieldFromInstruction_4 Insn 5 1 OR push_bit 1 (fieldFromInstruction_4 Insn 0 4);
          pred = fieldFromInstruction_4 Insn 28 4;
          S = soft_if (Rt = 0xF \<or> Rt2 = 0xF \<or> Rm = 0x1F) MCDisassembler_Success
      in check_then S (DecodeGPRRegisterClass Inst Rt) (\<lambda>S Inst.
         check_then S (DecodeGPRRegisterClass Inst Rt2) (\<lambda>S Inst.
         check_then S (DecodeSPRRegisterClass Inst Rm) (\<lambda>S Inst.
         check_then S (DecodeSPRRegisterClass Inst (Rm + 1)) (\<lambda>S Inst.
         check_last S (DecodePredicateOperand Inst pred))))))"

definition DecodeIT :: "MCInst \<Rightarrow> u32 \<Rightarrow> decode" where
  "DecodeIT Inst Insn =
     (let pred = fieldFromInstruction_4 Insn 4 4;
          mask = fieldFromInstruction_4 Insn 0 4;
          S = soft_if (pred = 0xF) MCDisassembler_Success;
          pred = (if pred = 0xF then 0xE else pred)
      in if mask = 0 then (MCDisassembler_Fail, Inst)
         else (S, MCOperand_CreateImm0 (MCOperand_CreateImm0 Inst (ucast pred)) (ucast mask)))"

subsection \<open>Remaining instructions\<close>

definition DecodeT2LDRDPreInstruction :: "MCInst \<Rightarrow> u32 \<Rightarrow> decode" where
  "DecodeT2LDRDPreInstruction Inst Insn =
     (let Rt = fieldFromInstruction_4 Insn 12 4;
          Rt2 = fieldFromInstruction_4 Insn 8 4;
          Rn = fieldFromInstruction_4 Insn 16 4;
          W = fieldFromInstruction_4 Insn 21 1;
          U = fieldFromInstruction_4 Insn 23 1;
          P = fieldFromInstruction_4 Insn 24 1;
          wb = (W = 1 \<or> P = 0);
          addr = fieldFromInstruction_4 Insn 0 8 OR (push_bit 8 U OR push_bit 9 Rn);
          S = soft_if (wb \<and> (Rn = Rt \<or> Rn = Rt2)) MCDisassembler_Success;
          S = soft_if (Rt = Rt2) S
      in check_then S (DecoderGPRRegisterClass Inst Rt) (\<lambda>S Inst.
         check_then S (DecoderGPRRegisterClass Inst Rt2) (\<lambda>S Inst.
         check_then S (DecoderGPRRegisterClass Inst Rn) (\<lambda>S Inst.
         check_last S (DecodeT2AddrModeImm8s4 Inst addr)))))"

definition DecodeT2STRDPreInstruction :: "MCInst \<Rightarrow> u32 \<Rightarrow> decode" where
  "DecodeT2STRDPreInstruction Inst Insn =
     (let Rt = fieldFromInstruction_4 Insn 12 4;
          Rt2 = fieldFromInstruction_4 Insn 8 4;
          Rn = fieldFromInstruction_4 Insn 16 4;
          W = fieldFromInstruction_4 Insn 21 1;
          U = fieldFromInstruction_4 Insn 23 1;
          P = fieldFromInstruction_4 Insn 24 1;
          wb = (W = 1 \<or> P = 0);
          addr = fieldFromInstruction_4 Insn 0 8 OR (push_bit 8 U OR push_bit 9 Rn);
          S = soft_if (wb \<and> (Rn = Rt \<or> Rn = Rt2)) MCDisassembler_Success
      in check_then S (DecoderGPRRegisterClass Inst Rn) (\<lambda>S Inst.
         check_then S (DecoderGPRRegisterClass Inst Rt) (\<lambda>S Inst.
         check_then S (DecoderGPRRegisterClass Inst Rt2) (\<lambda>S Inst.
         check_last S (DecodeT2AddrModeImm8s4 Inst addr)))))"

definition DecodeT2Adr :: "MCInst \<Rightarrow> u32 \<Rightarrow> decode" where
  "DecodeT2Adr Inst Insn =
     (let sign1 = fieldFromInstruction_4 Insn 21 1;
          sign2 = fieldFromInstruction_4 Insn 23 1
      in if sign1 \<noteq> sign2 then (MCDisassembler_Fail, Inst)
         else
           (let Val = fieldFromInstruction_4 Insn 0 8 OR push_bit 8 (fieldFromInstruction_4 Insn 12 3)
                      OR push_bit 11 (fieldFromInstruction_4 Insn 26 1) OR push_bit 12 sign1
            in (MCDisassembler_Success, MCOperand_CreateImm0 Inst (scast (SignExtend32 Val 13)))))"

definition DecodeT2ShifterImmOperand :: "MCInst \<Rightarrow> u32 \<Rightarrow> decode" where
  "DecodeT2ShifterImmOperand Inst Val =
     (soft_if (Val = 0x20) MCDisassembler_Success, MCOperand_CreateImm0 Inst (ucast Val))"

definition DecodeSwap :: "MCInst \<Rightarrow> u32 \<Rightarrow> decode" where
  "DecodeSwap Inst Insn =
     (let Rt = fieldFromInstruction_4 Insn 12 4;
          Rt2 = fieldFromInstruction_4 Insn 0 4;
          Rn = fieldFromInstruction_4 Insn 16 4;
          pred = fieldFromInstruction_4 Insn 28 4
      in if pred = 0xF then DecodeCPSInstruction Inst Insn
         else
           check_then (soft_if (Rt = Rn \<or> Rn = Rt2) MCDisassembler_Success) (DecodeGPRnopcRegisterClass Inst Rt) (\<lambda>S Inst.
           check_then S (DecodeGPRnopcRegisterClass Inst Rt2) (\<lambda>S Inst.
           check_then S (DecodeGPRnopcRegisterClass Inst Rn) (\<lambda>S Inst.
           check_last S (DecodePredicateOperand Inst pred)))))"

definition DecodeLDR :: "MCInst \<Rightarrow> u32 \<Rightarrow> decode" where
  "DecodeLDR Inst Val =
     (let Rn = fieldFromInstruction_4 Val 16 4;
          Rt = fieldFromInstruction_4 Val 12 4;
          Rm = fieldFromInstruction_4 Val 0 4 OR push_bit 4 (fieldFromInstruction_4 Val 23 1);
          Cond = fieldFromInstruction_4 Val 28 4;
          S = soft_if (fieldFromInstruction_4 Val 8 4 \<noteq> 0 \<or> Rn = Rt) MCDisassembler_Success
      in check_then S (DecodeGPRnopcRegisterClass Inst Rt) (\<lambda>S Inst.
         check_then S (DecodeGPRnopcRegisterClass Inst Rn) (\<lambda>S Inst.
         check_then S (DecodeAddrMode7Operand Inst Rn) (\<lambda>S Inst.
         check_then S (DecodePostIdxReg Inst Rm) (\<lambda>S Inst.
         check_last S (DecodePredicateOperand Inst Cond))))))"

definition DecodeMRRC2 :: "MCInst \<Rightarrow> u32 \<Rightarrow> decode" where
  "DecodeMRRC2 Inst Val =
     (let CRm = fieldFromInstruction_4 Val 0 4;
          opc1 = fieldFromInstruction_4 Val 4 4;
          cop = fieldFromInstruction_4 Val 8 4;
          Rt = fieldFromInstruction_4 Val 12 4;
          Rt2 = fieldFromInstruction_4 Val 16 4
      in if cop AND NOT 0x1 = 0xa then (MCDisassembler_Fail, Inst)
         else
           (let Inst = MCOperand_CreateImm0 Inst (ucast cop);
                Inst = MCOperand_CreateImm0 Inst (ucast opc1)
            in check_then (soft_if (Rt = Rt2) MCDisassembler_Success) (DecodeGPRnopcRegisterClass Inst Rt) (\<lambda>S Inst.
               check_then S (DecodeGPRnopcRegisterClass Inst Rt2) (\<lambda>S Inst.
                 (S, MCOperand_CreateImm0 Inst (ucast CRm))))))"

end
