(* ===== verification/ARM_Decode_Neon.thy ===== *)
theory ARM_Decode_Neon
  imports ARM_Decode_Misc
begin

text \<open>Decoders of the NEON instructions (\<^verbatim>\<open>capstone/arch/ARM/ARMDisassembler.c\<close>): structure loads and
  stores of whole vectors, of all lanes and of one lane, modified immediates, table look-up, shifts and
  conversions.  The opcodes of the \<^verbatim>\<open>case\<close> labels of a \<^verbatim>\<open>switch\<close> that share a body are one list.\<close>

unbundle bit_operations_syntax

text \<open>A vector register with its fifth bit apart, \<^verbatim>\<open>R |= field(Insn, b, 1) << 4\<close>.\<close>

definition vreg :: "u32 \<Rightarrow> nat \<Rightarrow> nat \<Rightarrow> u32" where
  "vreg Insn lo hi = fieldFromInstruction_4 Insn lo 4 OR push_bit 4 (fieldFromInstruction_4 Insn hi 1)"

subsection \<open>Loads of whole structures\<close>

definition vld_pair_ops :: "nat list" where
  "vld_pair_ops =
     [ARM_VLD1q16, ARM_VLD1q32, ARM_VLD1q64, ARM_VLD1q8, ARM_VLD1q16wb_fixed, ARM_VLD1q16wb_register,
      ARM_VLD1q32wb_fixed, ARM_VLD1q32wb_register, ARM_VLD1q64wb_fixed, ARM_VLD1q64wb_register,
      ARM_VLD1q8wb_fixed, ARM_VLD1q8wb_register, ARM_VLD2d16, ARM_VLD2d32, ARM_VLD2d8, ARM_VLD2d16wb_fixed,
      ARM_VLD2d16wb_register, ARM_VLD2d32wb_fixed, ARM_VLD2d32wb_register, ARM_VLD2d8wb_fixed,
      ARM_VLD2d8wb_register]"

definition vld_spaced_ops :: "nat list" where
  "vld_spaced_ops =
     [ARM_VLD2b16, ARM_VLD2b32, ARM_VLD2b8, ARM_VLD2b16wb_fixed, ARM_VLD2b16wb_register, ARM_VLD2b32wb_fixed,
      ARM_VLD2b32wb_register, ARM_VLD2b8wb_fixed, ARM_VLD2b8wb_register]"

definition vld_d_ops :: "nat list" where
  "vld_d_ops =
     [ARM_VLD3d8, ARM_VLD3d16, ARM_VLD3d32, ARM_VLD3d8_UPD, ARM_VLD3d16_UPD, ARM_VLD3d32_UPD, ARM_VLD4d8,
      ARM_VLD4d16, ARM_VLD4d32, ARM_VLD4d8_UPD, ARM_VLD4d16_UPD, ARM_VLD4d32_UPD]"

definition vld_q_ops :: "nat list" where
  "vld_q_ops =
     [ARM_VLD3q8, ARM_VLD3q16, ARM_VLD3q32, ARM_VLD3q8_UPD, ARM_VLD3q16_UPD, ARM_VLD3q32_UPD, ARM_VLD4q8,
      ARM_VLD4q16, ARM_VLD4q32, ARM_VLD4q8_UPD, ARM_VLD4q16_UPD, ARM_VLD4q32_UPD]"

definition vld4_d_ops :: "nat list" where
  "vld4_d_ops =
     [ARM_VLD4d8, ARM_VLD4d16, ARM_VLD4d32, ARM_VLD4d8_UPD, ARM_VLD4d16_UPD, ARM_VLD4d32_UPD]"

definition vld4_q_ops :: "nat list" where
  "vld4_q_ops =
     [ARM_VLD4q8, ARM_VLD4q16, ARM_VLD4q32, ARM_VLD4q8_UPD, ARM_VLD4q16_UPD, ARM_VLD4q32_UPD]"

definition vld_wb_ops :: "nat list" where
  "vld_wb_ops =
     [ARM_VLD1d8wb_fixed, ARM_VLD1d16wb_fixed, ARM_VLD1d32wb_fixed, ARM_VLD1d64wb_fixed, ARM_VLD1d8wb_register,
      ARM_VLD1d16wb_register, ARM_VLD1d32wb_register, ARM_VLD1d64wb_register, ARM_VLD1q8wb_fixed,
      ARM_VLD1q16wb_fixed, ARM_VLD1q32wb_fixed, ARM_VLD1q64wb_fixed, ARM_VLD1q8wb_register,
      ARM_VLD1q16wb_register, ARM_VLD1q32wb_register, ARM_VLD1q64wb_register, ARM_VLD1d8Twb_fixed,
      ARM_VLD1d8Twb_register, ARM_VLD1d16Twb_fixed, ARM_VLD1d16Twb_register, ARM_VLD1d32Twb_fixed,
      ARM_VLD1d32Twb_register, ARM_VLD1d64Twb_fixed, ARM_VLD1d64Twb_register, ARM_VLD1d8Qwb_fixed,
      ARM_VLD1d8Qwb_register, ARM_VLD1d16Qwb_fixed, ARM_VLD1d16Qwb_register, ARM_VLD1d32Qwb_fixed,
      ARM_VLD1d32Qwb_register, ARM_VLD1d64Qwb_fixed, ARM_VLD1d64Qwb_register, ARM_VLD2d8wb_fixed,
      ARM_VLD2d16wb_fixed, ARM_VLD2d32wb_fixed, ARM_VLD2q8wb_fixed, ARM_VLD2q16wb_fixed, ARM_VLD2q32wb_fixed,
      ARM_VLD2d8wb_register, ARM_VLD2d16wb_register, ARM_VLD2d32wb_register, ARM_VLD2q8wb_register,
      ARM_VLD2q16wb_register, ARM_VLD2q32wb_register, ARM_VLD2b8wb_fixed, ARM_VLD2b16wb_fixed,
      ARM_VLD2b32wb_fixed, ARM_VLD2b8wb_register, ARM_VLD2b16wb_register, ARM_VLD2b32wb_register]"

definition vld_upd_ops :: "nat list" where
  "vld_upd_ops =
     [ARM_VLD3d8_UPD, ARM_VLD3d16_UPD, ARM_VLD3d32_UPD, ARM_VLD3q8_UPD, ARM_VLD3q16_UPD, ARM_VLD3q32_UPD,
      ARM_VLD4d8_UPD, ARM_VLD4d16_UPD, ARM_VLD4d32_UPD, ARM_VLD4q8_UPD, ARM_VLD4q16_UPD, ARM_VLD4q32_UPD]"

definition vld_offset_ops :: "nat list" where
  "vld_offset_ops =
     [ARM_VLD1d8wb_fixed, ARM_VLD1d16wb_fixed, ARM_VLD1d32wb_fixed, ARM_VLD1d64wb_fixed, ARM_VLD1d8Twb_fixed,
      ARM_VLD1d16Twb_fixed, ARM_VLD1d32Twb_fixed, ARM_VLD1d64Twb_fixed, ARM_VLD1d8Qwb_fixed,
      ARM_VLD1d16Qwb_fixed, ARM_VLD1d32Qwb_fixed, ARM_VLD1d64Qwb_fixed, ARM_VLD1d8wb_register,
      ARM_VLD1d16wb_register, ARM_VLD1d32wb_register, ARM_VLD1d64wb_register, ARM_VLD1q8wb_fixed,
      ARM_VLD1q16wb_fixed, ARM_VLD1q32wb_fixed, ARM_VLD1q64wb_fixed, ARM_VLD1q8wb_register,
      ARM_VLD1q16wb_register, ARM_VLD1q32wb_register, ARM_VLD1q64wb_register]"

definition vld_fixed_ops :: "nat list" where
  "vld_fixed_ops =
     [ARM_VLD2d8wb_fixed, ARM_VLD2d16wb_fixed, ARM_VLD2d32wb_fixed, ARM_VLD2b8wb_fixed, ARM_VLD2b16wb_fixed,
      ARM_VLD2b32wb_fixed, ARM_VLD2q8wb_fixed, ARM_VLD2q16wb_fixed, ARM_VLD2q32wb_fixed]"

text \<open>The last step, the register or the empty slot after the address.\<close>

definition vld_offset :: "nat \<Rightarrow> u32 \<Rightarrow> DecodeStatus \<Rightarrow> MCInst \<Rightarrow> decode" where
  "vld_offset op Rm S Inst =
     (if op \<in> set vld_fixed_ops then (S, Inst)
      else if op \<notin> set vld_offset_ops \<and> Rm = 0xd then (S, MCOperand_CreateReg0 Inst ARM_NoRegister)
      else check_if (Rm \<noteq> 0xD \<and> Rm \<noteq> 0xF) S (\<lambda>i. DecodeGPRRegisterClass i Rm) Inst Pair)"

definition DecodeVLDInstruction :: "MCInst \<Rightarrow> u32 \<Rightarrow> decode" where
  "DecodeVLDInstruction Inst Insn =
     (let Rd = vreg Insn 12 22;
          wb = fieldFromInstruction_4 Insn 16 4;
          Rn = fieldFromInstruction_4 Insn 16 4 OR push_bit 4 (fieldFromInstruction_4 Insn 4 2);
          Rm = fieldFromInstruction_4 Insn 0 4;
          op = MCInst_getOpcode Inst
      in check_then MCDisassembler_Success
           (if op \<in> set vld_pair_ops then DecodeDPairRegisterClass Inst Rd
            else if op \<in> set vld_spaced_ops then DecodeDPairSpacedRegisterClass Inst Rd
            else DecodeDPRRegisterClass Inst Rd) (\<lambda>S Inst.
         check_if (op \<in> set (vld_d_ops @ vld_q_ops)) S
           (\<lambda>i. DecodeDPRRegisterClass i ((Rd + (if op \<in> set vld_d_ops then 1 else 2)) mod 32)) Inst (\<lambda>S Inst.
         check_if (op \<in> set (vld_d_ops @ vld_q_ops)) S
           (\<lambda>i. DecodeDPRRegisterClass i ((Rd + (if op \<in> set vld_d_ops then 2 else 4)) mod 32)) Inst (\<lambda>S Inst.
         check_if (op \<in> set (vld4_d_ops @ vld4_q_ops)) S
           (\<lambda>i. DecodeDPRRegisterClass i ((Rd + (if op \<in> set vld4_d_ops then 3 else 6)) mod 32)) Inst (\<lambda>S Inst.
           let Inst = (if op \<in> set vld_wb_ops then MCOperand_CreateImm0 Inst 0 else Inst)
           in check_if (op \<notin> set vld_wb_ops \<and> op \<in> set vld_upd_ops) S (\<lambda>i. DecodeGPRRegisterClass i wb) Inst (\<lambda>S Inst.
              check_then S (DecodeAddrMode6Operand Inst Rn) (vld_offset op Rm)))))))"

subsection \<open>Stores of whole structures\<close>

definition vst_wb_ops :: "nat list" where
  "vst_wb_ops =
     [ARM_VST1d8wb_fixed, ARM_VST1d16wb_fixed, ARM_VST1d32wb_fixed, ARM_VST1d64wb_fixed, ARM_VST1d8wb_register,
      ARM_VST1d16wb_register, ARM_VST1d32wb_register, ARM_VST1d64wb_register, ARM_VST1q8wb_fixed,
      ARM_VST1q16wb_fixed, ARM_VST1q32wb_fixed, ARM_VST1q64wb_fixed, ARM_VST1q8wb_register,
      ARM_VST1q16wb_register, ARM_VST1q32wb_register, ARM_VST1q64wb_register, ARM_VST1d8Twb_fixed,
      ARM_VST1d16Twb_fixed, ARM_VST1d32Twb_fixed, ARM_VST1d64Twb_fixed, ARM_VST1d8Twb_register,
      ARM_VST1d16Twb_register, ARM_VST1d32Twb_register, ARM_VST1d64Twb_register, ARM_VST1d8Qwb_fixed,
      ARM_VST1d16Qwb_fixed, ARM_VST1d32Qwb_fixed, ARM_VST1d64Qwb_fixed, ARM_VST1d8Qwb_register,
      ARM_VST1d16Qwb_register, ARM_VST1d32Qwb_register, ARM_VST1d64Qwb_register, ARM_VST2d8wb_fixed,
      ARM_VST2d16wb_fixed, ARM_VST2d32wb_fixed, ARM_VST2d8wb_register, ARM_VST2d16wb_register,
      ARM_VST2d32wb_register, ARM_VST2q8wb_fixed, ARM_VST2q16wb_fixed, ARM_VST2q32wb_fixed,
      ARM_VST2q8wb_register, ARM_VST2q16wb_register, ARM_VST2q32wb_register, ARM_VST2b8wb_fixed,
      ARM_VST2b16wb_fixed, ARM_VST2b32wb_fixed, ARM_VST2b8wb_register, ARM_VST2b16wb_register,
      ARM_VST2b32wb_register]"

definition vst_upd_ops :: "nat list" where
  "vst_upd_ops =
     [ARM_VST3d8_UPD, ARM_VST3d16_UPD, ARM_VST3d32_UPD, ARM_VST3q8_UPD, ARM_VST3q16_UPD, ARM_VST3q32_UPD,
      ARM_VST4d8_UPD, ARM_VST4d16_UPD, ARM_VST4d32_UPD, ARM_VST4q8_UPD, ARM_VST4q16_UPD, ARM_VST4q32_UPD]"

definition vst_fixed_ops :: "nat list" where
  "vst_fixed_ops =
     [ARM_VST1d8wb_fixed, ARM_VST1d16wb_fixed, ARM_VST1d32wb_fixed, ARM_VST1d64wb_fixed, ARM_VST1q8wb_fixed,
      ARM_VST1q16wb_fixed, ARM_VST1q32wb_fixed, ARM_VST1q64wb_fixed, ARM_VST1d8Twb_fixed,
      ARM_VST1d16Twb_fixed, ARM_VST1d32Twb_fixed, ARM_VST1d64Twb_fixed, ARM_VST1d8Qwb_fixed,
      ARM_VST1d16Qwb_fixed, ARM_VST1d32Qwb_fixed, ARM_VST1d64Qwb_fixed, ARM_VST2d8wb_fixed,
      ARM_VST2d16wb_fixed, ARM_VST2d32wb_fixed, ARM_VST2q8wb_fixed, ARM_VST2q16wb_fixed, ARM_VST2q32wb_fixed,
      ARM_VST2b8wb_fixed, ARM_VST2b16wb_fixed, ARM_VST2b32wb_fixed]"

definition vst_pair_ops :: "nat list" where
  "vst_pair_ops =
     [ARM_VST1q16, ARM_VST1q32, ARM_VST1q64, ARM_VST1q8, ARM_VST1q16wb_fixed, ARM_VST1q16wb_register,
      ARM_VST1q32wb_fixed, ARM_VST1q32wb_register, ARM_VST1q64wb_fixed, ARM_VST1q64wb_register,
      ARM_VST1q8wb_fixed, ARM_VST1q8wb_register, ARM_VST2d16, ARM_VST2d32, ARM_VST2d8, ARM_VST2d16wb_fixed,
      ARM_VST2d16wb_register, ARM_VST2d32wb_fixed, ARM_VST2d32wb_register, ARM_VST2d8wb_fixed,
      ARM_VST2d8wb_register]"

definition vst_spaced_ops :: "nat list" where
  "vst_spaced_ops =
     [ARM_VST2b16, ARM_VST2b32, ARM_VST2b8, ARM_VST2b16wb_fixed, ARM_VST2b16wb_register, ARM_VST2b32wb_fixed,
      ARM_VST2b32wb_register, ARM_VST2b8wb_fixed, ARM_VST2b8wb_register]"

definition vst_d_ops :: "nat list" where
  "vst_d_ops =
     [ARM_VST3d8, ARM_VST3d16, ARM_VST3d32, ARM_VST3d8_UPD, ARM_VST3d16_UPD, ARM_VST3d32_UPD, ARM_VST4d8,
      ARM_VST4d16, ARM_VST4d32, ARM_VST4d8_UPD, ARM_VST4d16_UPD, ARM_VST4d32_UPD]"

definition vst_q_ops :: "nat list" where
  "vst_q_ops =
     [ARM_VST3q8, ARM_VST3q16, ARM_VST3q32, ARM_VST3q8_UPD, ARM_VST3q16_UPD, ARM_VST3q32_UPD, ARM_VST4q8,
      ARM_VST4q16, ARM_VST4q32, ARM_VST4q8_UPD, ARM_VST4q16_UPD, ARM_VST4q32_UPD]"

definition vst4_d_ops :: "nat list" where
  "vst4_d_ops =
     [ARM_VST4d8, ARM_VST4d16, ARM_VST4d32, ARM_VST4d8_UPD, ARM_VST4d16_UPD, ARM_VST4d32_UPD]"

definition vst4_q_ops :: "nat list" where
  "vst4_q_ops =
     [ARM_VST4q8, ARM_VST4q16, ARM_VST4q32, ARM_VST4q8_UPD, ARM_VST4q16_UPD, ARM_VST4q32_UPD]"

definition vst_registers :: "nat \<Rightarrow> u32 \<Rightarrow> DecodeStatus \<Rightarrow> MCInst \<Rightarrow> decode" where
  "vst_registers op Rd S Inst =
     check_then S
       (if op \<in> set vst_pair_ops then DecodeDPairRegisterClass Inst Rd
        else if op \<in> set vst_spaced_ops then DecodeDPairSpacedRegisterClass Inst Rd
        else DecodeDPRRegisterClass Inst Rd) (\<lambda>S Inst.
     check_if (op \<in> set (vst_d_ops @ vst_q_ops)) S
       (\<lambda>i. DecodeDPRRegisterClass i ((Rd + (if op \<in> set vst_d_ops then 1 else 2)) mod 32)) Inst (\<lambda>S Inst.
     check_if (op \<in> set (vst_d_ops @ vst_q_ops)) S
       (\<lambda>i. DecodeDPRRegisterClass i ((Rd + (if op \<in> set vst_d_ops then 2 else 4)) mod 32)) Inst (\<lambda>S Inst.
     check_if (op \<in> set (vst4_d_ops @ vst4_q_ops)) S
       (\<lambda>i. DecodeDPRRegisterClass i ((Rd + (if op \<in> set vst4_d_ops then 3 else 6)) mod 32)) Inst Pair)))"

definition DecodeVSTInstruction :: "MCInst \<Rightarrow> u32 \<Rightarrow> decode" where
  "DecodeVSTInstruction Inst Insn =
     (let Rd = vreg Insn 12 22;
          wb = fieldFromInstruction_4 Insn 16 4;
          Rn = fieldFromInstruction_4 Insn 16 4 OR push_bit 4 (fieldFromInstruction_4 Insn 4 2);
          Rm = fieldFromInstruction_4 Insn 0 4;
          op = MCInst_getOpcode Inst
      in if op \<in> set vst_wb_ops \<and> Rm = 0xF then (MCDisassembler_Fail, Inst)
         else
           (let Inst = (if op \<in> set vst_wb_ops then MCOperand_CreateImm0 Inst 0 else Inst)
            in check_if (op \<notin> set vst_wb_ops \<and> op \<in> set vst_upd_ops) MCDisassembler_Success
                 (\<lambda>i. DecodeGPRRegisterClass i wb) Inst (\<lambda>S Inst.
               check_then S (DecodeAddrMode6Operand Inst Rn) (\<lambda>S Inst.
                 let Inst = (if op \<notin> set vst_fixed_ops \<and> Rm = 0xD then MCOperand_CreateReg0 Inst ARM_NoRegister else Inst)
                 in check_if (op \<notin> set vst_fixed_ops \<and> Rm \<noteq> 0xD \<and> Rm \<noteq> 0xF) S
                      (\<lambda>i. DecodeGPRRegisterClass i Rm) Inst (vst_registers op Rd)))))"

definition vldst :: "MCInst \<Rightarrow> u32 \<Rightarrow> decode" where
  "vldst Inst Insn =
     (if fieldFromInstruction_4 Insn 21 1 \<noteq> 0 then DecodeVLDInstruction Inst Insn else DecodeVSTInstruction Inst Insn)"

definition DecodeVLDST1Instruction :: "MCInst \<Rightarrow> u32 \<Rightarrow> decode" where
  "DecodeVLDST1Instruction Inst Insn =
     (let type = fieldFromInstruction_4 Insn 8 4;
          align = fieldFromInstruction_4 Insn 4 2
      in if type = 6 \<and> align AND 2 \<noteq> 0 then (MCDisassembler_Fail, Inst)
         else if type = 7 \<and> align AND 2 \<noteq> 0 then (MCDisassembler_Fail, Inst)
         else if type = 10 \<and> align = 3 then (MCDisassembler_Fail, Inst)
         else vldst Inst Insn)"

definition DecodeVLDST2Instruction :: "MCInst \<Rightarrow> u32 \<Rightarrow> decode" where
  "DecodeVLDST2Instruction Inst Insn =
     (let size' = fieldFromInstruction_4 Insn 6 2;
          type = fieldFromInstruction_4 Insn 8 4;
          align = fieldFromInstruction_4 Insn 4 2
      in if size' = 3 then (MCDisassembler_Fail, Inst)
         else if type = 8 \<and> align = 3 then (MCDisassembler_Fail, Inst)
         else if type = 9 \<and> align = 3 then (MCDisassembler_Fail, Inst)
         else vldst Inst Insn)"

definition DecodeVLDST3Instruction :: "MCInst \<Rightarrow> u32 \<Rightarrow> decode" where
  "DecodeVLDST3Instruction Inst Insn =
     (let size' = fieldFromInstruction_4 Insn 6 2;
          align = fieldFromInstruction_4 Insn 4 2
      in if size' = 3 then (MCDisassembler_Fail, Inst)
         else if align AND 2 \<noteq> 0 then (MCDisassembler_Fail, Inst)
         else vldst Inst Insn)"

definition DecodeVLDST4Instruction :: "MCInst \<Rightarrow> u32 \<Rightarrow> decode" where
  "DecodeVLDST4Instruction Inst Insn =
     (let size' = fieldFromInstruction_4 Insn 6 2
      in if size' = 3 then (MCDisassembler_Fail, Inst) else vldst Inst Insn)"

subsection \<open>Loads to all lanes\<close>

text \<open>Consecutive \<^verbatim>\<open>D\<close> registers; \<open>k\<close> is the code after them.\<close>

fun dpr_seq :: "u32 list \<Rightarrow> (DecodeStatus \<Rightarrow> MCInst \<Rightarrow> decode) \<Rightarrow> DecodeStatus \<Rightarrow> MCInst \<Rightarrow> decode" where
  "dpr_seq [] k S Inst = k S Inst"
| "dpr_seq (r # rs) k S Inst = check_then S (DecodeDPRRegisterClass Inst r) (dpr_seq rs k)"

definition vld1dup_pair_ops :: "nat list" where
  "vld1dup_pair_ops =
     [ARM_VLD1DUPq16, ARM_VLD1DUPq32, ARM_VLD1DUPq8, ARM_VLD1DUPq16wb_fixed, ARM_VLD1DUPq16wb_register,
      ARM_VLD1DUPq32wb_fixed, ARM_VLD1DUPq32wb_register, ARM_VLD1DUPq8wb_fixed, ARM_VLD1DUPq8wb_register]"

definition DecodeVLD1DupInstruction :: "MCInst \<Rightarrow> u32 \<Rightarrow> decode" where
  "DecodeVLD1DupInstruction Inst Insn =
     (let Rd = vreg Insn 12 22;
          Rn = fieldFromInstruction_4 Insn 16 4;
          Rm = fieldFromInstruction_4 Insn 0 4;
          align = fieldFromInstruction_4 Insn 4 1;
          size' = fieldFromInstruction_4 Insn 6 2
      in if size' = 0 \<and> align = 1 then (MCDisassembler_Fail, Inst)
         else
           (let align = align * push_bit (unat size') 1
            in check_then MCDisassembler_Success
                 (if MCInst_getOpcode Inst \<in> set vld1dup_pair_ops then DecodeDPairRegisterClass Inst Rd
                  else DecodeDPRRegisterClass Inst Rd) (\<lambda>S Inst.
               check_if (Rm \<noteq> 0xF) S (\<lambda>i. DecodeGPRRegisterClass i Rn) Inst (\<lambda>S Inst.
               check_then S (DecodeGPRRegisterClass Inst Rn) (\<lambda>S Inst.
                 let Inst = MCOperand_CreateImm0 Inst (ucast align)
                 in check_if (Rm \<noteq> 0xD \<and> Rm \<noteq> 0xF) S (\<lambda>i. DecodeGPRRegisterClass i Rm) Inst Pair)))))"

definition vld2dup_pair_ops :: "nat list" where
  "vld2dup_pair_ops =
     [ARM_VLD2DUPd16, ARM_VLD2DUPd32, ARM_VLD2DUPd8, ARM_VLD2DUPd16wb_fixed, ARM_VLD2DUPd16wb_register,
      ARM_VLD2DUPd32wb_fixed, ARM_VLD2DUPd32wb_register, ARM_VLD2DUPd8wb_fixed, ARM_VLD2DUPd8wb_register]"

definition vld2dup_spaced_ops :: "nat list" where
  "vld2dup_spaced_ops =
     [ARM_VLD2DUPd16x2, ARM_VLD2DUPd32x2, ARM_VLD2DUPd8x2, ARM_VLD2DUPd16x2wb_fixed,
      ARM_VLD2DUPd16x2wb_register, ARM_VLD2DUPd32x2wb_fixed, ARM_VLD2DUPd32x2wb_register,
      ARM_VLD2DUPd8x2wb_fixed, ARM_VLD2DUPd8x2wb_register]"

definition DecodeVLD2DupInstruction :: "MCInst \<Rightarrow> u32 \<Rightarrow> decode" where
  "DecodeVLD2DupInstruction Inst Insn =
     (let Rd = vreg Insn 12 22;
          Rn = fieldFromInstruction_4 Insn 16 4;
          Rm = fieldFromInstruction_4 Insn 0 4;
          size' = push_bit (unat (fieldFromInstruction_4 Insn 6 2)) 1;
          align = fieldFromInstruction_4 Insn 4 1 * (2 * size');
          op = MCInst_getOpcode Inst
      in check_then MCDisassembler_Success
           (if op \<in> set vld2dup_pair_ops then DecodeDPairRegisterClass Inst Rd
            else if op \<in> set vld2dup_spaced_ops then DecodeDPairSpacedRegisterClass Inst Rd
            else DecodeDPRRegisterClass Inst Rd) (\<lambda>S Inst.
           let Inst = (if Rm \<noteq> 0xF then MCOperand_CreateImm0 Inst 0 else Inst)
           in check_then S (DecodeGPRRegisterClass Inst Rn) (\<lambda>S Inst.
                let Inst = MCOperand_CreateImm0 Inst (ucast align)
                in check_if (Rm \<noteq> 0xD \<and> Rm \<noteq> 0xF) S (\<lambda>i. DecodeGPRRegisterClass i Rm) Inst Pair)))"

text \<open>The base register, its copy for the writeback, the alignment and the offset register of the
  loads and stores of lanes; \<open>k\<close> is the code after them.\<close>

definition lane_address ::
    "u32 \<Rightarrow> u32 \<Rightarrow> u64 \<Rightarrow> (DecodeStatus \<Rightarrow> MCInst \<Rightarrow> decode) \<Rightarrow> DecodeStatus \<Rightarrow> MCInst \<Rightarrow> decode" where
  "lane_address Rn Rm align k S Inst =
     check_if (Rm \<noteq> 0xF) S (\<lambda>i. DecodeGPRRegisterClass i Rn) Inst (\<lambda>S Inst.
     check_then S (DecodeGPRRegisterClass Inst Rn) (\<lambda>S Inst.
       let Inst = MCOperand_CreateImm0 Inst align;
           Inst = (if Rm = 0xD then MCOperand_CreateReg0 Inst ARM_NoRegister else Inst)
       in check_if (Rm \<noteq> 0xD \<and> Rm \<noteq> 0xF) S (\<lambda>i. DecodeGPRRegisterClass i Rm) Inst k))"

definition DecodeVLD3DupInstruction :: "MCInst \<Rightarrow> u32 \<Rightarrow> decode" where
  "DecodeVLD3DupInstruction Inst Insn =
     (let Rd = vreg Insn 12 22;
          Rn = fieldFromInstruction_4 Insn 16 4;
          Rm = fieldFromInstruction_4 Insn 0 4;
          inc = fieldFromInstruction_4 Insn 5 1 + 1
      in dpr_seq [Rd, (Rd + inc) mod 32, (Rd + 2 * inc) mod 32] (lane_address Rn Rm 0 Pair) MCDisassembler_Success Inst)"

definition vld4dup_align :: "u32 \<Rightarrow> u32 \<Rightarrow> u32 option" where
  "vld4dup_align size' align =
     (if size' = 3 then if align = 0 then None else Some 16
      else if size' = 2 then Some (align * 8)
      else Some (align * (4 * push_bit (unat size') 1)))"

definition DecodeVLD4DupInstruction :: "MCInst \<Rightarrow> u32 \<Rightarrow> decode" where
  "DecodeVLD4DupInstruction Inst Insn =
     (let Rd = vreg Insn 12 22;
          Rn = fieldFromInstruction_4 Insn 16 4;
          Rm = fieldFromInstruction_4 Insn 0 4;
          size' = fieldFromInstruction_4 Insn 6 2;
          inc = fieldFromInstruction_4 Insn 5 1 + 1;
          align = fieldFromInstruction_4 Insn 4 1
      in case vld4dup_align size' align of
           None \<Rightarrow> (MCDisassembler_Fail, Inst)
         | Some align \<Rightarrow>
             dpr_seq [Rd, (Rd + inc) mod 32, (Rd + 2 * inc) mod 32, (Rd + 3 * inc) mod 32]
               (lane_address Rn Rm (ucast align) Pair) MCDisassembler_Success Inst)"

subsection \<open>Immediates, table look-up, shifts and conversions\<close>

definition modimm_d_ops :: "nat list" where
  "modimm_d_ops =
     [ARM_VORRiv4i16, ARM_VORRiv2i32, ARM_VBICiv4i16, ARM_VBICiv2i32]"

definition modimm_q_ops :: "nat list" where
  "modimm_q_ops =
     [ARM_VORRiv8i16, ARM_VORRiv4i32, ARM_VBICiv8i16, ARM_VBICiv4i32]"

definition DecodeNEONModImmInstruction :: "MCInst \<Rightarrow> u32 \<Rightarrow> decode" where
  "DecodeNEONModImmInstruction Inst Insn =
     (let Rd = vreg Insn 12 22;
          imm = fieldFromInstruction_4 Insn 0 4 OR push_bit 4 (fieldFromInstruction_4 Insn 16 3)
                OR push_bit 7 (fieldFromInstruction_4 Insn 24 1) OR push_bit 8 (fieldFromInstruction_4 Insn 8 4)
                OR push_bit 12 (fieldFromInstruction_4 Insn 5 1);
          Q = fieldFromInstruction_4 Insn 6 1;
          op = MCInst_getOpcode Inst
      in check_then MCDisassembler_Success
           (if Q \<noteq> 0 then DecodeQPRRegisterClass Inst Rd else DecodeDPRRegisterClass Inst Rd) (\<lambda>S Inst.
           let Inst = MCOperand_CreateImm0 Inst (ucast imm)
           in if op \<in> set modimm_d_ops then check_last S (DecodeDPRRegisterClass Inst Rd)
              else if op \<in> set modimm_q_ops then check_last S (DecodeQPRRegisterClass Inst Rd)
              else (S, Inst)))"

definition DecodeVSHLMaxInstruction :: "MCInst \<Rightarrow> u32 \<Rightarrow> decode" where
  "DecodeVSHLMaxInstruction Inst Insn =
     (let Rd = vreg Insn 12 22;
          Rm = vreg Insn 0 5;
          size' = fieldFromInstruction_4 Insn 18 2
      in check_then MCDisassembler_Success (DecodeQPRRegisterClass Inst Rd) (\<lambda>S Inst.
         check_then S (DecodeDPRRegisterClass Inst Rm) (\<lambda>S Inst.
           (S, MCOperand_CreateImm0 Inst (push_bit (unat size') 8)))))"

definition DecodeShiftRight8Imm :: "MCInst \<Rightarrow> u32 \<Rightarrow> decode" where
  "DecodeShiftRight8Imm Inst Val = (MCDisassembler_Success, MCOperand_CreateImm0 Inst (ucast (8 - Val)))"

definition DecodeShiftRight16Imm :: "MCInst \<Rightarrow> u32 \<Rightarrow> decode" where
  "DecodeShiftRight16Imm Inst Val = (MCDisassembler_Success, MCOperand_CreateImm0 Inst (ucast (16 - Val)))"

definition DecodeShiftRight32Imm :: "MCInst \<Rightarrow> u32 \<Rightarrow> decode" where
  "DecodeShiftRight32Imm Inst Val = (MCDisassembler_Success, MCOperand_CreateImm0 Inst (ucast (32 - Val)))"

definition DecodeShiftRight64Imm :: "MCInst \<Rightarrow> u32 \<Rightarrow> decode" where
  "DecodeShiftRight64Imm Inst Val = (MCDisassembler_Success, MCOperand_CreateImm0 Inst (ucast (64 - Val)))"

definition DecodeTBLInstruction :: "MCInst \<Rightarrow> u32 \<Rightarrow> decode" where
  "DecodeTBLInstruction Inst Insn =
     (let Rd = vreg Insn 12 22;
          Rn = vreg Insn 16 7;
          Rm = vreg Insn 0 5;
          op = fieldFromInstruction_4 Insn 6 1
      in check_then MCDisassembler_Success (DecodeDPRRegisterClass Inst Rd) (\<lambda>S Inst.
         check_if (op \<noteq> 0) S (\<lambda>i. DecodeDPRRegisterClass i Rd) Inst (\<lambda>S Inst.
         check_then S
           (if MCInst_getOpcode Inst \<in> set [ARM_VTBL2, ARM_VTBX2] then DecodeDPairRegisterClass Inst Rn
            else DecodeDPRRegisterClass Inst Rn) (\<lambda>S Inst.
         check_last S (DecodeDPRRegisterClass Inst Rm)))))"

definition DecodeVCVTD :: "MCInst \<Rightarrow> u32 \<Rightarrow> decode" where
  "DecodeVCVTD Inst Insn =
     (let Vd = vreg Insn 12 22;
          Vm = vreg Insn 0 5;
          imm = fieldFromInstruction_4 Insn 16 6;
          cmode = fieldFromInstruction_4 Insn 8 4;
          op = fieldFromInstruction_4 Insn 5 1
      in if imm AND 0x38 = 0 \<and> cmode = 0xF then
           (if op = 1 then (MCDisassembler_Fail, Inst)
            else DecodeNEONModImmInstruction (MCInst_setOpcode Inst ARM_VMOVv2f32) Insn)
         else if imm AND 0x20 = 0 then (MCDisassembler_Fail, Inst)
         else
           check_then MCDisassembler_Success (DecodeDPRRegisterClass Inst Vd) (\<lambda>S Inst.
           check_then S (DecodeDPRRegisterClass Inst Vm) (\<lambda>S Inst.
             (S, MCOperand_CreateImm0 Inst (ucast (64 - imm))))))"

definition DecodeVCVTQ :: "MCInst \<Rightarrow> u32 \<Rightarrow> decode" where
  "DecodeVCVTQ Inst Insn =
     (let Vd = vreg Insn 12 22;
          Vm = vreg Insn 0 5;
          imm = fieldFromInstruction_4 Insn 16 6;
          cmode = fieldFromInstruction_4 Insn 8 4;
          op = fieldFromInstruction_4 Insn 5 1
      in if imm AND 0x38 = 0 \<and> cmode = 0xF then
           (if op = 1 then (MCDisassembler_Fail, Inst)
            else DecodeNEONModImmInstruction (MCInst_setOpcode Inst ARM_VMOVv4f32) Insn)
         else if imm AND 0x20 = 0 then (MCDisassembler_Fail, Inst)
         else
           check_then MCDisassembler_Success (DecodeQPRRegisterClass Inst Vd) (\<lambda>S Inst.
           check_then S (DecodeQPRRegisterClass Inst Vm) (\<lambda>S Inst.
             (S, MCOperand_CreateImm0 Inst (ucast (64 - imm))))))"

subsection \<open>Loads and stores of one lane\<close>

text \<open>The \<^verbatim>\<open>switch (size)\<close> of the lane decoders: the index, the alignment and the register increment, or
  \<open>None\<close> where it returns \<^verbatim>\<open>MCDisassembler_Fail\<close>.  Load and store decoders have the same text.\<close>

definition lane1 :: "u32 \<Rightarrow> (u32 \<times> u32) option" where
  "lane1 Insn =
     (let size' = fieldFromInstruction_4 Insn 10 2
      in if size' = 0 then
           if fieldFromInstruction_4 Insn 4 1 \<noteq> 0 then None else Some (fieldFromInstruction_4 Insn 5 3, 0)
         else if size' = 1 then
           if fieldFromInstruction_4 Insn 5 1 \<noteq> 0 then None
           else Some (fieldFromInstruction_4 Insn 6 2, if fieldFromInstruction_4 Insn 4 1 \<noteq> 0 then 2 else 0)
         else if size' = 2 then
           if fieldFromInstruction_4 Insn 6 1 \<noteq> 0 then None
           else if fieldFromInstruction_4 Insn 4 2 = 0 then Some (fieldFromInstruction_4 Insn 7 1, 0)
           else if fieldFromInstruction_4 Insn 4 2 = 3 then Some (fieldFromInstruction_4 Insn 7 1, 4)
           else None
         else None)"

definition lane2 :: "u32 \<Rightarrow> (u32 \<times> u32 \<times> u32) option" where
  "lane2 Insn =
     (let size' = fieldFromInstruction_4 Insn 10 2;
          b4 = (fieldFromInstruction_4 Insn 4 1 \<noteq> 0)
      in if size' = 0 then Some (fieldFromInstruction_4 Insn 5 3, if b4 then 2 else 0, 1)
         else if size' = 1 then
           Some (fieldFromInstruction_4 Insn 6 2, if b4 then 4 else 0, if fieldFromInstruction_4 Insn 5 1 \<noteq> 0 then 2 else 1)
         else if size' = 2 then
           if fieldFromInstruction_4 Insn 5 1 \<noteq> 0 then None
           else Some (fieldFromInstruction_4 Insn 7 1, if b4 then 8 else 0, if fieldFromInstruction_4 Insn 6 1 \<noteq> 0 then 2 else 1)
         else None)"

definition lane3 :: "u32 \<Rightarrow> (u32 \<times> u32 \<times> u32) option" where
  "lane3 Insn =
     (let size' = fieldFromInstruction_4 Insn 10 2
      in if size' = 0 then
           if fieldFromInstruction_4 Insn 4 1 \<noteq> 0 then None else Some (fieldFromInstruction_4 Insn 5 3, 0, 1)
         else if size' = 1 then
           if fieldFromInstruction_4 Insn 4 1 \<noteq> 0 then None
           else Some (fieldFromInstruction_4 Insn 6 2, 0, if fieldFromInstruction_4 Insn 5 1 \<noteq> 0 then 2 else 1)
         else if size' = 2 then
           if fieldFromInstruction_4 Insn 4 2 \<noteq> 0 then None
           else Some (fieldFromInstruction_4 Insn 7 1, 0, if fieldFromInstruction_4 Insn 6 1 \<noteq> 0 then 2 else 1)
         else None)"

definition lane4 :: "u32 \<Rightarrow> (u32 \<times> u32 \<times> u32) option" where
  "lane4 Insn =
     (let size' = fieldFromInstruction_4 Insn 10 2;
          b4 = (fieldFromInstruction_4 Insn 4 1 \<noteq> 0);
          b54 = fieldFromInstruction_4 Insn 4 2
      in if size' = 0 then Some (fieldFromInstruction_4 Insn 5 3, if b4 then 4 else 0, 1)
         else if size' = 1 then
           Some (fieldFromInstruction_4 Insn 6 2, if b4 then 8 else 0, if fieldFromInstruction_4 Insn 5 1 \<noteq> 0 then 2 else 1)
         else if size' = 2 then
           if b54 = 3 then None
           else Some (fieldFromInstruction_4 Insn 7 1, if b54 = 0 then 0 else push_bit (unat b54) 4,
                  if fieldFromInstruction_4 Insn 6 1 \<noteq> 0 then 2 else 1)
         else None)"

text \<open>The operands of a lane load: the registers, the address, the registers again as sources, the index;
  a store has no destination registers.\<close>

definition lane_store :: "u32 \<Rightarrow> u32 list \<Rightarrow> u32 \<Rightarrow> u32 \<Rightarrow> DecodeStatus \<Rightarrow> MCInst \<Rightarrow> decode" where
  "lane_store Insn rs align index =
     lane_address (fieldFromInstruction_4 Insn 16 4) (fieldFromInstruction_4 Insn 0 4) (ucast align)
       (dpr_seq rs (\<lambda>S Inst. (S, MCOperand_CreateImm0 Inst (ucast index))))"

definition lane_load :: "u32 \<Rightarrow> u32 list \<Rightarrow> u32 \<Rightarrow> u32 \<Rightarrow> DecodeStatus \<Rightarrow> MCInst \<Rightarrow> decode" where
  "lane_load Insn rs align index = dpr_seq rs (lane_store Insn rs align index)"

definition DecodeVLD1LN :: "MCInst \<Rightarrow> u32 \<Rightarrow> decode" where
  "DecodeVLD1LN Inst Insn =
     (let Rd = vreg Insn 12 22
      in case lane1 Insn of
           None \<Rightarrow> (MCDisassembler_Fail, Inst)
         | Some (index, align) \<Rightarrow> lane_load Insn [Rd] align index MCDisassembler_Success Inst)"

definition DecodeVST1LN :: "MCInst \<Rightarrow> u32 \<Rightarrow> decode" where
  "DecodeVST1LN Inst Insn =
     (let Rd = vreg Insn 12 22
      in case lane1 Insn of
           None \<Rightarrow> (MCDisassembler_Fail, Inst)
         | Some (index, align) \<Rightarrow> lane_store Insn [Rd] align index MCDisassembler_Success Inst)"

definition DecodeVLD2LN :: "MCInst \<Rightarrow> u32 \<Rightarrow> decode" where
  "DecodeVLD2LN Inst Insn =
     (let Rd = vreg Insn 12 22
      in case lane2 Insn of
           None \<Rightarrow> (MCDisassembler_Fail, Inst)
         | Some (index, align, inc) \<Rightarrow> lane_load Insn [Rd, Rd + inc] align index MCDisassembler_Success Inst)"

definition DecodeVST2LN :: "MCInst \<Rightarrow> u32 \<Rightarrow> decode" where
  "DecodeVST2LN Inst Insn =
     (let Rd = vreg Insn 12 22
      in case lane2 Insn of
           None \<Rightarrow> (MCDisassembler_Fail, Inst)
         | Some (index, align, inc) \<Rightarrow> lane_store Insn [Rd, Rd + inc] align index MCDisassembler_Success Inst)"

definition DecodeVLD3LN :: "MCInst \<Rightarrow> u32 \<Rightarrow> decode" where
  "DecodeVLD3LN Inst Insn =
     (let Rd = vreg Insn 12 22
      in case lane3 Insn of
           None \<Rightarrow> (MCDisassembler_Fail, Inst)
         | Some (index, align, inc) \<Rightarrow>
             lane_load Insn [Rd, Rd + inc, Rd + 2 * inc] align index MCDisassembler_Success Inst)"

definition DecodeVST3LN :: "MCInst \<Rightarrow> u32 \<Rightarrow> decode" where
  "DecodeVST3LN Inst Insn =
     (let Rd = vreg Insn 12 22
      in case lane3 Insn of
           None \<Rightarrow> (MCDisassembler_Fail, Inst)
         | Some (index, align, inc) \<Rightarrow>
             lane_store Insn [Rd, Rd + inc, Rd + 2 * inc] align index MCDisassembler_Success Inst)"

definition DecodeVLD4LN :: "MCInst \<Rightarrow> u32 \<Rightarrow> decode" where
  "DecodeVLD4LN Inst Insn =
     (let Rd = vreg Insn 12 22
      in case lane4 Insn of
           None \<Rightarrow> (MCDisassembler_Fail, Inst)
         | Some (index, align, inc) \<Rightarrow>
             lane_load Insn [Rd, Rd + inc, Rd + 2 * inc, Rd + 3 * inc] align index MCDisassembler_Success Inst)"

definition DecodeVST4LN :: "MCInst \<Rightarrow> u32 \<Rightarrow> decode" where
  "DecodeVST4LN Inst Insn =
     (let Rd = vreg Insn 12 22
      in case lane4 Insn of
           None \<Rightarrow> (MCDisassembler_Fail, Inst)
         | Some (index, align, inc) \<Rightarrow>
             lane_store Insn [Rd, Rd + inc, Rd + 2 * inc, Rd + 3 * inc] align index MCDisassembler_Success Inst)"

end
