(* ===== verification/ARM_Decode_Bounds.thy ===== *)
theory ARM_Decode_Bounds
  imports ARM_Decode_Neon
begin

text \<open>Every decoder of \<^verbatim>\<open>capstone/arch/ARM/ARMDisassembler.c\<close> appends operands to the instruction and
  nothing else happens to the operand list; the bounds show that none of them leaves the array
  \<^verbatim>\<open>MCOperand Operands[48]\<close> of \<^verbatim>\<open>MCInst.h\<close>, whose last slot is the scratch of
  \<^verbatim>\<open>MCOperand_CreateReg1\<close> and \<^verbatim>\<open>MCOperand_CreateImm1\<close>.  The proofs follow the code by the rules
  \<open>appends_rules\<close>; the collection \<open>appends_decoder\<close> holds the bounds found so far.\<close>

subsection \<open>Register classes\<close>

lemmas register_class_defs =
  DecodePredicateOperand_def DecodeGPRRegisterClass_def DecodeGPRPairRegisterClass_def DecodetcGPRRegisterClass_def
  DecodeSPRRegisterClass_def DecodeDPRRegisterClass_def DecodeQPRRegisterClass_def DecodeDPairRegisterClass_def
  DecodeDPairSpacedRegisterClass_def DecodeCCOutOperand_def DecodeSOImmOperand_def DecodeBitfieldMaskOperand_def

lemma appends_register_classes [appends_decoder]:
  "appends 2 Inst (DecodePredicateOperand Inst v)"
  "appends 1 Inst (DecodeGPRRegisterClass Inst v)"
  "appends 1 Inst (DecodeGPRPairRegisterClass Inst v)"
  "appends 1 Inst (DecodetcGPRRegisterClass Inst v)"
  "appends 1 Inst (DecodeSPRRegisterClass Inst v)"
  "appends 1 Inst (DecodeDPRRegisterClass Inst v)"
  "appends 1 Inst (DecodeQPRRegisterClass Inst v)"
  "appends 1 Inst (DecodeDPairRegisterClass Inst v)"
  "appends 1 Inst (DecodeDPairSpacedRegisterClass Inst v)"
  "appends 1 Inst (DecodeCCOutOperand Inst v)"
  "appends 1 Inst (DecodeSOImmOperand Inst v)"
  "appends 1 Inst (DecodeBitfieldMaskOperand Inst v)"
  unfolding register_class_defs Let_def by (rule appends_rules | simp; fail)+

lemmas register_subclass_defs =
  DecodeGPRnopcRegisterClass_def DecodeGPRwithAPSRRegisterClass_def DecodetGPRRegisterClass_def
  DecoderGPRRegisterClass_def DecodeDPR_8RegisterClass_def DecodeDPR_VFP2RegisterClass_def DecodeAddrMode7Operand_def

lemma appends_register_subclasses [appends_decoder]:
  "appends 1 Inst (DecodeGPRnopcRegisterClass Inst v)"
  "appends 1 Inst (DecodeGPRwithAPSRRegisterClass Inst v)"
  "appends 1 Inst (DecodetGPRRegisterClass Inst v)"
  "appends 1 Inst (DecoderGPRRegisterClass Inst v)"
  "appends 1 Inst (DecodeDPR_8RegisterClass Inst v)"
  "appends 1 Inst (DecodeDPR_VFP2RegisterClass Inst v)"
  "appends 1 Inst (DecodeAddrMode7Operand Inst v)"
  unfolding register_subclass_defs Let_def by (rule appends_rules appends_decoder | simp; fail)+

subsection \<open>Register lists\<close>

lemma appends_reg_list_loop:
  assumes "extends k base inst" "k + length is \<le> n"
    "\<And>S' inst'. extends (k + length is) base inst' \<Longrightarrow> appends n base (kont S' inst')"
  shows "appends n base (reg_list_loop nd wr v is kont S inst)"
  using assms
proof (induction "is" arbitrary: k S inst)
  case (Cons i "is")
  have skip: "appends n base (reg_list_loop nd wr v is kont S' inst')" if "extends (k + 1) base inst'" for S' inst'
    using Cons.prems by (intro Cons.IH [OF that]) (auto simp: add.commute add.left_commute)
  show ?case
    unfolding reg_list_loop.simps Let_def
  proof (intro appends_if)
    show "appends n base (check_then S (DecodeGPRRegisterClass inst (of_nat i))
        (\<lambda>S Inst. reg_list_loop nd wr v is kont
          (if nd \<and> wr = MCOperand_getReg (last (Operands Inst)) then fst (Check S MCDisassembler_SoftFail) else S) Inst))"
      using Cons.prems(2) by (intro appends_check_then [OF appends_register_classes(2) Cons.prems(1)] skip) simp_all
  qed (intro skip extends_mono [OF Cons.prems(1)], simp)
qed simp

lemma appends_spr_list_loop:
  "extends k base inst \<Longrightarrow> k + m \<le> n \<Longrightarrow> appends n base (spr_list_loop m Vd S inst)"
proof (induction m arbitrary: k Vd S inst)
  case (Suc m)
  then show ?case
    by (auto intro!: appends_check_then [OF appends_register_classes(5) Suc.prems(1)] Suc.IH)
qed (auto intro: appends_leaf)

lemma appends_dpr_list_loop:
  "extends k base inst \<Longrightarrow> k + m \<le> n \<Longrightarrow> appends n base (dpr_list_loop m Vd S inst)"
proof (induction m arbitrary: k Vd S inst)
  case (Suc m)
  then show ?case
    by (auto intro!: appends_check_then [OF appends_register_classes(6) Suc.prems(1)] Suc.IH)
qed (auto intro: appends_leaf)

lemma spr_list_count:
  fixes Val :: u32
  assumes "Vd = fieldFromInstruction_4 Val 8 5" "regs = fieldFromInstruction_4 Val 0 8"
  shows "unat ((if regs = 0 \<or> Vd + regs > 32 then max 1 (if Vd + regs > 32 then 32 - Vd else regs) else regs) - 1) \<le> 31"
proof -
  have "unat Vd < 32" "unat regs < 256"
    using field_less [of 8 5 Val] field_less [of 0 8 Val] assms by simp_all
  then have "Vd < 32" "regs < 256" by (simp_all add: word_less_nat_alt)
  then show ?thesis
    unfolding max_def by (auto simp: unat_arith_simps split: if_splits)
qed

lemma dpr_list_count:
  fixes Val :: u32
  assumes "Vd = fieldFromInstruction_4 Val 8 5" "regs = fieldFromInstruction_4 Val 1 7"
  shows "unat ((if regs = 0 \<or> regs > 16 \<or> Vd + regs > 32
    then min 16 (max 1 (if Vd + regs > 32 then 32 - Vd else regs)) else regs) - 1) \<le> 15"
proof -
  have "unat Vd < 32" "unat regs < 128"
    using field_less [of 8 5 Val] field_less [of 1 7 Val] assms by simp_all
  then have "Vd < 32" "regs < 128" by (simp_all add: word_less_nat_alt)
  then show ?thesis
    unfolding max_def min_def by (auto simp: unat_arith_simps split: if_splits)
qed

lemma appends_register_lists [appends_decoder]:
  "appends 16 Inst (DecodeRegListOperand Inst v)"
  "appends 32 Inst (DecodeSPRRegListOperand Inst v)"
  "appends 16 Inst (DecodeDPRRegListOperand Inst v)"
proof -
  show "appends 16 Inst (DecodeRegListOperand Inst v)"
    unfolding DecodeRegListOperand_def Let_def
    by (intro appends_if appends_reg_list_loop [OF extends_refl]) (auto intro: appends_leaf extends_refl)
  show "appends 32 Inst (DecodeSPRRegListOperand Inst v)"
    unfolding DecodeSPRRegListOperand_def Let_def
    by (rule appends_check_then [OF appends_register_classes(5) extends_refl], simp, erule appends_spr_list_loop)
      (use spr_list_count [OF refl refl, of v] in linarith)
  show "appends 16 Inst (DecodeDPRRegListOperand Inst v)"
    unfolding DecodeDPRRegListOperand_def Let_def
    by (rule appends_check_then [OF appends_register_classes(6) extends_refl], simp, erule appends_dpr_list_loop)
      (use dpr_list_count [OF refl refl, of v] in linarith)
qed

subsection \<open>ARM instructions\<close>

lemmas arm_operand_defs =
  DecodeSORegImmOperand_def DecodeSORegRegOperand_def DecodeSORegMemOperand_def DecodeAddrModeImm12Operand_def
  DecodeAddrMode5Operand_def DecodeAddrMode6Operand_def DecodeRFEInstruction_def DecodeCPSInstruction_def
  DecodeT2CPSInstruction_def DecodeT2BInstruction_def DecodeBranchImmInstruction_def DecodePostIdxReg_def
  DecodeT2ShifterImmOperand_def

lemma appends_arm_operands [appends_decoder]:
  "appends 2 Inst (DecodeSORegImmOperand Inst v)"
  "appends 3 Inst (DecodeSORegRegOperand Inst v)"
  "appends 3 Inst (DecodeSORegMemOperand Inst v)"
  "appends 2 Inst (DecodeAddrModeImm12Operand Inst v)"
  "appends 2 Inst (DecodeAddrMode5Operand Inst v)"
  "appends 2 Inst (DecodeAddrMode6Operand Inst v)"
  "appends 2 Inst (DecodeRFEInstruction Inst v)"
  "appends 3 Inst (DecodeCPSInstruction Inst v)"
  "appends 3 Inst (DecodeT2CPSInstruction Inst v)"
  "appends 1 Inst (DecodeT2BInstruction Inst v)"
  "appends 3 Inst (DecodeBranchImmInstruction Inst v)"
  "appends 2 Inst (DecodePostIdxReg Inst v)"
  "appends 1 Inst (DecodeT2ShifterImmOperand Inst v)"
  unfolding arm_operand_defs Let_def by (rule appends_rules appends_decoder | assumption | simp; fail)+

lemmas arm_instruction_defs =
  DecodeCopMemInstruction_def DecodeAddrMode2IdxInstruction_def DecodeAddrMode3Instruction_def DecodeQADDInstruction_def
  DecodeMemMultipleWritebackInstruction_def DecodeT2MOVTWInstruction_def DecodeArmMOVTWInstruction_def
  DecodeSMLAInstruction_def DecodeDoubleRegLoad_def DecodeDoubleRegStore_def DecodeLDRPreImm_def DecodeLDRPreReg_def
  DecodeSTRPreImm_def DecodeSTRPreReg_def DecodeVMOVSRR_def DecodeVMOVRRS_def DecodeSwap_def DecodeLDR_def DecodeMRRC2_def

lemma appends_arm_instructions [appends_decoder]:
  "appends 6 Inst (DecodeCopMemInstruction Inst v)"
  "appends 8 Inst (DecodeAddrMode2IdxInstruction Inst v)"
  "appends 9 Inst (DecodeAddrMode3Instruction Inst v)"
  "appends 5 Inst (DecodeQADDInstruction Inst v)"
  "appends 20 Inst (DecodeMemMultipleWritebackInstruction Inst v)"
  "appends 3 Inst (DecodeT2MOVTWInstruction Inst v)"
  "appends 5 Inst (DecodeArmMOVTWInstruction Inst v)"
  "appends 6 Inst (DecodeSMLAInstruction Inst v)"
  "appends 4 Inst (DecodeDoubleRegLoad Inst v)"
  "appends 5 Inst (DecodeDoubleRegStore Inst v)"
  "appends 6 Inst (DecodeLDRPreImm Inst v)"
  "appends 7 Inst (DecodeLDRPreReg Inst v)"
  "appends 6 Inst (DecodeSTRPreImm Inst v)"
  "appends 7 Inst (DecodeSTRPreReg Inst v)"
  "appends 6 Inst (DecodeVMOVSRR Inst v)"
  "appends 6 Inst (DecodeVMOVRRS Inst v)"
  "appends 5 Inst (DecodeSwap Inst v)"
  "appends 7 Inst (DecodeLDR Inst v)"
  "appends 5 Inst (DecodeMRRC2 Inst v)"
  unfolding arm_instruction_defs Let_def by (rule appends_rules appends_decoder appends_decoder [THEN appends_call] | assumption | simp; fail)+

subsection \<open>Thumb instructions\<close>

lemmas thumb_operand_defs =
  DecodeThumbAddSpecialReg_def DecodeThumbBROperand_def DecodeT2BROperand_def DecodeThumbCmpBROperand_def
  DecodeThumbAddrModeRR_def DecodeThumbAddrModeIS_def DecodeThumbAddrModePC_def DecodeThumbAddrModeSP_def
  DecodeT2AddrModeSOReg_def DecodeT2LoadLabel_def DecodeT2Imm8S4_def DecodeT2AddrModeImm0_1020s4_def DecodeT2Imm8_def
  DecodeT2AddrModeImm12_def DecodeThumbAddSPImm_def DecodeThumbAddSPReg_def DecodeThumbCPS_def DecodeThumbBLXOffset_def
  DecodeCoprocessor_def DecodeThumbTableBranch_def DecodeMemBarrierOption_def DecodeInstSyncBarrierOption_def
  DecodeT2SOImm_def DecodeThumbBCCTargetOperand_def DecodeThumbBLTargetOperand_def DecodeMSRMask_def DecodeIT_def
  DecodeT2Adr_def

lemma appends_thumb_operands [appends_decoder]:
  "appends 3 Inst (DecodeThumbAddSpecialReg Inst h)"
  "appends 1 Inst (DecodeThumbBROperand Inst v)"
  "appends 1 Inst (DecodeT2BROperand Inst v)"
  "appends 1 Inst (DecodeThumbCmpBROperand Inst v)"
  "appends 2 Inst (DecodeThumbAddrModeRR Inst v)"
  "appends 2 Inst (DecodeThumbAddrModeIS Inst v)"
  "appends 1 Inst (DecodeThumbAddrModePC Inst v)"
  "appends 2 Inst (DecodeThumbAddrModeSP Inst v)"
  "appends 3 Inst (DecodeT2AddrModeSOReg Inst v)"
  "appends 2 Inst (DecodeT2LoadLabel Inst v)"
  "appends 1 Inst (DecodeT2Imm8S4 Inst v)"
  "appends 2 Inst (DecodeT2AddrModeImm0_1020s4 Inst v)"
  "appends 1 Inst (DecodeT2Imm8 Inst v)"
  "appends 2 Inst (DecodeT2AddrModeImm12 Inst v)"
  "appends 3 Inst (DecodeThumbAddSPImm Inst h)"
  "appends 3 Inst (DecodeThumbAddSPReg Inst h)"
  "appends 2 Inst (DecodeThumbCPS Inst h)"
  "appends 1 Inst (DecodeThumbBLXOffset Inst v)"
  "appends 1 Inst (DecodeCoprocessor Inst v)"
  "appends 2 Inst (DecodeThumbTableBranch Inst v)"
  "appends 1 Inst (DecodeMemBarrierOption Inst v)"
  "appends 1 Inst (DecodeInstSyncBarrierOption Inst v)"
  "appends 1 Inst (DecodeT2SOImm Inst v)"
  "appends 1 Inst (DecodeThumbBCCTargetOperand Inst v)"
  "appends 1 Inst (DecodeThumbBLTargetOperand Inst v)"
  "appends 1 Inst (DecodeMSRMask mode Inst v)"
  "appends 2 Inst (DecodeIT Inst v)"
  "appends 1 Inst (DecodeT2Adr Inst v)"
  unfolding thumb_operand_defs Let_def by (rule appends_rules appends_decoder | assumption | simp; fail)+

lemmas thumb_address_defs =
  t2_load_label_via_def DecodeT2AddrModeImm8s4_def DecodeT2AddrModeImm8_def DecodeThumb2BCCInstruction_def

lemma appends_thumb_addresses [appends_decoder]:
  "appends 2 Inst (t2_load_label_via tab Inst v)"
  "appends 2 Inst (DecodeT2AddrModeImm8s4 Inst v)"
  "appends 2 Inst (DecodeT2AddrModeImm8 Inst v)"
  "appends 3 Inst (DecodeThumb2BCCInstruction Inst v)"
  unfolding thumb_address_defs Let_def
  by (rule appends_rules appends_decoder appends_decoder [THEN appends_call] | assumption | simp; fail)+

lemmas thumb_instruction_defs =
  DecodeT2LoadShift_def DecodeT2LoadImm8_def DecodeT2LoadImm12_def DecodeT2LoadT_def DecodeT2LdStPre_def
  DecodeT2LDRDPreInstruction_def DecodeT2STRDPreInstruction_def

lemma appends_thumb_instructions [appends_decoder]:
  "appends 4 Inst (DecodeT2LoadShift Inst v)"
  "appends 3 Inst (DecodeT2LoadImm8 Inst v)"
  "appends 3 Inst (DecodeT2LoadImm12 Inst v)"
  "appends 3 Inst (DecodeT2LoadT Inst v)"
  "appends 5 Inst (DecodeT2LdStPre Inst v)"
  "appends 5 Inst (DecodeT2LDRDPreInstruction Inst v)"
  "appends 5 Inst (DecodeT2STRDPreInstruction Inst v)"
  unfolding thumb_instruction_defs Let_def
  by (rule appends_rules appends_decoder appends_decoder [THEN appends_call] | assumption | simp; fail)+

subsection \<open>NEON instructions\<close>

lemma appends_dpr_seq:
  assumes "extends k base inst" "k + length rs \<le> n"
    "\<And>S' inst'. extends (k + length rs) base inst' \<Longrightarrow> appends n base (kont S' inst')"
  shows "appends n base (dpr_seq rs kont S inst)"
  using assms
proof (induction rs arbitrary: k S inst)
  case (Cons r rs)
  have "appends n base (dpr_seq rs kont S' inst')" if "extends (k + 1) base inst'" for S' inst'
    using Cons.prems by (intro Cons.IH [OF that]) (auto simp: add.commute add.left_commute)
  then show ?case
    using Cons.prems(2) by (auto intro!: appends_check_then [OF appends_register_classes(6) Cons.prems(1)])
qed simp

lemma appends_lane_address:
  assumes "extends k base inst" "k + 5 \<le> n"
    "\<And>S' inst'. extends (k + 5) base inst' \<Longrightarrow> appends n base (kont S' inst')"
  shows "appends n base (lane_address Rn Rm align kont S inst)"
proof -
  have *: "appends n base (kont S' i)" if "extends m base i" "m \<le> k + 5" for m S' i
    using assms(3) [OF extends_mono [OF that]] .
  show ?thesis
    unfolding lane_address_def Let_def
    by (insert assms(1,2)) (rule appends_rules appends_decoder | assumption | rule * | simp; fail)+
qed

lemmas neon_shift_defs =
  vld_offset_def vst_registers_def DecodeNEONModImmInstruction_def DecodeVSHLMaxInstruction_def DecodeShiftRight8Imm_def
  DecodeShiftRight16Imm_def DecodeShiftRight32Imm_def DecodeShiftRight64Imm_def DecodeTBLInstruction_def
  DecodeVLD1DupInstruction_def DecodeVLD2DupInstruction_def

lemma appends_neon_operands [appends_decoder]:
  "appends 1 Inst (vld_offset op Rm S Inst)"
  "appends 4 Inst (vst_registers op Rd S Inst)"
  "appends 3 Inst (DecodeNEONModImmInstruction Inst v)"
  "appends 3 Inst (DecodeVSHLMaxInstruction Inst v)"
  "appends 1 Inst (DecodeShiftRight8Imm Inst v)"
  "appends 1 Inst (DecodeShiftRight16Imm Inst v)"
  "appends 1 Inst (DecodeShiftRight32Imm Inst v)"
  "appends 1 Inst (DecodeShiftRight64Imm Inst v)"
  "appends 4 Inst (DecodeTBLInstruction Inst v)"
  "appends 5 Inst (DecodeVLD1DupInstruction Inst v)"
  "appends 5 Inst (DecodeVLD2DupInstruction Inst v)"
  unfolding neon_shift_defs Let_def by (rule appends_rules appends_decoder | assumption | simp; fail)+

lemmas neon_whole_defs =
  DecodeVLDInstruction_def DecodeVSTInstruction_def DecodeVCVTD_def DecodeVCVTQ_def

lemma appends_neon_whole [appends_decoder]:
  "appends 9 Inst (DecodeVLDInstruction Inst v)"
  "appends 10 Inst (DecodeVSTInstruction Inst v)"
  "appends 3 Inst (DecodeVCVTD Inst v)"
  "appends 3 Inst (DecodeVCVTQ Inst v)"
  unfolding neon_whole_defs Let_def
  by (rule appends_rules appends_decoder appends_decoder [THEN appends_call] | assumption | simp; fail)+

lemmas neon_vldst_defs =
  vldst_def DecodeVLDST1Instruction_def DecodeVLDST2Instruction_def DecodeVLDST3Instruction_def DecodeVLDST4Instruction_def

lemma appends_neon_vldst [appends_decoder]:
  "appends 10 Inst (DecodeVLDST1Instruction Inst v)"
  "appends 10 Inst (DecodeVLDST2Instruction Inst v)"
  "appends 10 Inst (DecodeVLDST3Instruction Inst v)"
  "appends 10 Inst (DecodeVLDST4Instruction Inst v)"
  unfolding neon_vldst_defs Let_def
  by (rule appends_rules appends_decoder appends_decoder [THEN appends_call] | assumption | simp; fail)+

lemma appends_lane_store:
  "extends k base inst \<Longrightarrow> k + length rs + 6 \<le> n \<Longrightarrow> appends n base (lane_store v rs align index S inst)"
  unfolding lane_store_def
  by (rule appends_lane_address, assumption, simp, rule appends_dpr_seq, assumption, simp)
    (auto intro!: appends_leaf extends_Imm0)

lemma appends_lane_load:
  "extends k base inst \<Longrightarrow> k + 2 * length rs + 6 \<le> n \<Longrightarrow> appends n base (lane_load v rs align index S inst)"
  unfolding lane_load_def by (rule appends_dpr_seq, assumption, simp, rule appends_lane_store, assumption, simp)

lemmas neon_lane_defs =
  DecodeVLD1LN_def DecodeVST1LN_def DecodeVLD2LN_def DecodeVST2LN_def DecodeVLD3LN_def DecodeVST3LN_def
  DecodeVLD4LN_def DecodeVST4LN_def DecodeVLD3DupInstruction_def DecodeVLD4DupInstruction_def

lemma appends_neon_lanes [appends_decoder]:
  "appends 8 Inst (DecodeVLD1LN Inst v)"
  "appends 7 Inst (DecodeVST1LN Inst v)"
  "appends 10 Inst (DecodeVLD2LN Inst v)"
  "appends 8 Inst (DecodeVST2LN Inst v)"
  "appends 12 Inst (DecodeVLD3LN Inst v)"
  "appends 9 Inst (DecodeVST3LN Inst v)"
  "appends 14 Inst (DecodeVLD4LN Inst v)"
  "appends 10 Inst (DecodeVST4LN Inst v)"
  "appends 8 Inst (DecodeVLD3DupInstruction Inst v)"
  "appends 9 Inst (DecodeVLD4DupInstruction Inst v)"
  unfolding neon_lane_defs Let_def split_paired_all case_prod_unfold
  by (rule appends_rules appends_lane_load appends_lane_store appends_dpr_seq appends_lane_address | assumption | simp; fail)+

subsection \<open>The contract holds\<close>

interpretation pred: operand_decoder DecodePredicateOperand 2
  by unfold_locales (rule appends_decoder)

interpretation gpr: operand_decoder DecodeGPRRegisterClass 1
  by unfold_locales (rule appends_decoder)

interpretation ccout: operand_decoder DecodeCCOutOperand 1
  by unfold_locales (rule appends_decoder)

interpretation so_reg: operand_decoder DecodeSORegRegOperand 3
  by unfold_locales (rule appends_decoder)

interpretation reg_list: operand_decoder DecodeRegListOperand 16
  by unfold_locales (rule appends_decoder)

interpretation spr_list: operand_decoder DecodeSPRRegListOperand 32
  by unfold_locales (rule appends_decoder)

interpretation mem_multiple: operand_decoder DecodeMemMultipleWritebackInstruction 20
  by unfold_locales (rule appends_decoder)

interpretation vld4_lane: operand_decoder DecodeVLD4LN 14
  by unfold_locales (rule appends_decoder)

text \<open>\<^verbatim>\<open>ADD Rd, Rn, Rm, shift Rs\<close>: the tail of the operands of a data-processing instruction.\<close>

interpretation pred_ccout: decoder_sequence DecodePredicateOperand 2 DecodeCCOutOperand 1
  by unfold_locales

text \<open>All decoders that take a 32-bit field.\<close>

definition arm_decoders :: "(MCInst \<Rightarrow> u32 \<Rightarrow> decode) list" where
  "arm_decoders =
     [DecodePredicateOperand, DecodeGPRRegisterClass, DecodeGPRPairRegisterClass, DecodetcGPRRegisterClass,
      DecodeSPRRegisterClass, DecodeDPRRegisterClass, DecodeQPRRegisterClass, DecodeDPairRegisterClass,
      DecodeDPairSpacedRegisterClass, DecodeCCOutOperand, DecodeSOImmOperand, DecodeBitfieldMaskOperand,
      DecodeGPRnopcRegisterClass, DecodeGPRwithAPSRRegisterClass, DecodetGPRRegisterClass,
      DecoderGPRRegisterClass, DecodeDPR_8RegisterClass, DecodeDPR_VFP2RegisterClass,
      DecodeAddrMode7Operand, DecodeRegListOperand, DecodeSPRRegListOperand, DecodeDPRRegListOperand,
      DecodeRegListOperand, DecodeSPRRegListOperand, DecodeDPRRegListOperand, DecodeSORegImmOperand,
      DecodeSORegRegOperand, DecodeSORegMemOperand, DecodeAddrModeImm12Operand, DecodeAddrMode5Operand,
      DecodeAddrMode6Operand, DecodeRFEInstruction, DecodeCPSInstruction, DecodeT2CPSInstruction,
      DecodeT2BInstruction, DecodeBranchImmInstruction, DecodePostIdxReg, DecodeT2ShifterImmOperand,
      DecodeCopMemInstruction, DecodeAddrMode2IdxInstruction, DecodeAddrMode3Instruction,
      DecodeQADDInstruction, DecodeMemMultipleWritebackInstruction, DecodeT2MOVTWInstruction,
      DecodeArmMOVTWInstruction, DecodeSMLAInstruction, DecodeDoubleRegLoad, DecodeDoubleRegStore,
      DecodeLDRPreImm, DecodeLDRPreReg, DecodeSTRPreImm, DecodeSTRPreReg, DecodeVMOVSRR, DecodeVMOVRRS,
      DecodeSwap, DecodeLDR, DecodeMRRC2, DecodeThumbBROperand, DecodeT2BROperand, DecodeThumbCmpBROperand,
      DecodeThumbAddrModeRR, DecodeThumbAddrModeIS, DecodeThumbAddrModePC, DecodeThumbAddrModeSP,
      DecodeT2AddrModeSOReg, DecodeT2LoadLabel, DecodeT2Imm8S4, DecodeT2AddrModeImm0_1020s4, DecodeT2Imm8,
      DecodeT2AddrModeImm12, DecodeThumbBLXOffset, DecodeCoprocessor, DecodeThumbTableBranch,
      DecodeMemBarrierOption, DecodeInstSyncBarrierOption, DecodeT2SOImm, DecodeThumbBCCTargetOperand,
      DecodeThumbBLTargetOperand, DecodeIT, DecodeT2Adr, DecodeT2AddrModeImm8s4, DecodeT2AddrModeImm8,
      DecodeThumb2BCCInstruction, DecodeT2LoadShift, DecodeT2LoadImm8, DecodeT2LoadImm12, DecodeT2LoadT,
      DecodeT2LdStPre, DecodeT2LDRDPreInstruction, DecodeT2STRDPreInstruction, DecodeNEONModImmInstruction,
      DecodeVSHLMaxInstruction, DecodeShiftRight8Imm, DecodeShiftRight16Imm, DecodeShiftRight32Imm,
      DecodeShiftRight64Imm, DecodeTBLInstruction, DecodeVLD1DupInstruction, DecodeVLD2DupInstruction,
      DecodeVLDInstruction, DecodeVSTInstruction, DecodeVCVTD, DecodeVCVTQ, DecodeVLDST1Instruction,
      DecodeVLDST2Instruction, DecodeVLDST3Instruction, DecodeVLDST4Instruction, DecodeVLD1LN, DecodeVST1LN,
      DecodeVLD2LN, DecodeVST2LN, DecodeVLD3LN, DecodeVST3LN, DecodeVLD4LN, DecodeVST4LN,
      DecodeVLD3DupInstruction, DecodeVLD4DupInstruction]"

lemma appends_within:
  assumes "appends n Inst d" "n \<le> 32" "length (Operands Inst) \<le> 15"
  shows "length (Operands (snd d)) \<le> MCINST_CACHE \<and> take (length (Operands Inst)) (Operands (snd d)) = Operands Inst"
  using assms by (auto simp: appends_def MCINST_CACHE_def MCINST_OPERANDS_def)


definition example_inst :: MCInst where
  "example_inst = \<lparr>OpcodePub = 0, has_imm = False, op1_size = 0, Opcode = ARM_LDMIA_UPD, Operands = [kRegister (ARM_R 0)],
     writeback = False\<rparr>"


end
