(* ===== verification/ARM_Decode_Correct.thy ===== *)
theory ARM_Decode_Correct
  imports ARM_Decode_Bounds
begin

text \<open>What the operand decoders compute: the immediates against the encoders of \<^verbatim>\<open>ARMAddressingModes.h\<close>, the register
  lists, the masks of bit fields, the offsets of long branches, and where the tests for unpredictable encodings go
  wrong.\<close>

unbundle bit_operations_syntax

subsection \<open>ARM immediates\<close>

lemma check_then_continues [simp]: "S \<noteq> MCDisassembler_Fail \<Longrightarrow> check_then S (MCDisassembler_Success, i) k = k S i"
  by (cases S) (simp_all add: check_then_def)

lemma shift_8_7:
  fixes e :: u32
  assumes "e < 4096"
  shows "drop_bit 7 (e AND 0xF00) = drop_bit 8 e * 2"
proof -
  have b: "n < 12" if "bit e n" for n using assms bit_less_exp [of e 12 n] that by simp
  have "drop_bit 7 (e AND push_bit 8 (mask 4)) = 2 * drop_bit 8 e"
    by (intro bit_word_eqI) (auto simp: bit_simps bit_double_iff possible_bit_word dest: b)
  moreover have "push_bit 8 (mask 4) = (0xF00 :: u32)" by (simp add: mask_eq_exp_minus_1)
  ultimately show ?thesis by (simp only: mult.commute)
qed

lemma DecodeSOImmOperand_rotr32:
  "e < 4096 \<Longrightarrow> DecodeSOImmOperand Inst e =
     (MCDisassembler_Success, MCOperand_CreateImm0 Inst (ucast (rotr32 (getSOImmValImm e) (getSOImmValRot e))))"
  unfolding DecodeSOImmOperand_def Let_def rotr32_def getSOImmValImm_def getSOImmValRot_def by (simp only: shift_8_7)

text \<open>C25: decoding what the encoder of ARM immediates produces gives the constant back, so that encoder and decoder
  agree on the format of the 12-bit field.\<close>

theorem so_imm_roundtrip:
  "getSOImmVal v = Some e \<Longrightarrow> DecodeSOImmOperand Inst e = (MCDisassembler_Success, MCOperand_CreateImm0 Inst (ucast v))"
  using getSOImmVal_spec [of v] by (auto simp: DecodeSOImmOperand_rotr32)

theorem so_imm_roundtrip_witness:
  "DecodeSOImmOperand example_inst 0x4FF = (MCDisassembler_Success, MCOperand_CreateImm0 example_inst 0xFF000000)"
proof -
  have "getSOImmVal 0xFF000000 = Some 0x4FF" by code_simp
  from so_imm_roundtrip [OF this] show ?thesis by simp
qed

subsection \<open>Thumb-2 modified immediates\<close>

lemma take_bit_u32_less: "y < 2 ^ m \<Longrightarrow> take_bit m y = y" for y :: u32
  by (intro bit_word_eqI) (auto simp: bit_take_bit_iff dest: bit_less_exp)

lemma field_join:
  fixes x y :: u32
  assumes "x < 2 ^ k" "y < 2 ^ m" "0 < k" "k + m < 32"
  shows "fieldFromInstruction_4 (x OR push_bit k y) 0 k = x"
    and "fieldFromInstruction_4 (x OR push_bit k y) k m = y"
proof -
  have "y < 2 ^ (32 - k)"
    using assms by (intro bits_less_exp) (auto dest!: bit_less_exp [OF assms(2)])
  then show "fieldFromInstruction_4 (x OR push_bit k y) k m = y"
    using high_field [OF assms(1)] assms by (simp add: fieldFromInstruction_4_take_bit take_bit_u32_less)
  show "fieldFromInstruction_4 (x OR push_bit k y) 0 k = x"
    using low_field [OF assms(1)] assms by (simp add: fieldFromInstruction_4_take_bit take_bit_eq_mask)
qed

lemma field_high_part:
  "s + t + n \<le> 32 \<Longrightarrow> n \<le> m \<Longrightarrow> t + n = m \<Longrightarrow>
   fieldFromInstruction_4 e (s + t) n = drop_bit t (fieldFromInstruction_4 e s m)"
  by (auto simp: fieldFromInstruction_4_take_bit drop_bit_take_bit add.commute)

lemma u32_of_nat_less: "k < 2 ^ m \<Longrightarrow> m < 32 \<Longrightarrow> (of_nat k :: u32) < 2 ^ m"
  by (simp add: word_less_nat_alt unat_of_nat take_bit_nat_eq_self less_trans [OF _ power_strict_increasing]  unat_exp)

lemma rotr32_push_bit:
  assumes "w < 256" "8 \<le> k" "k < 32"
  shows "rotr32 w (of_nat k) = push_bit (32 - k) w"
proof (rule bit_word_eqI)
  fix n
  assume "n < LENGTH(32)"
  moreover have "i < 8" if "bit w i" for i using bit_less_exp [of w 8 i] assms(1) that by simp
  moreover have "(n + k) mod 32 = n - (32 - k)" if "32 \<le> n + k" "n < 32" using that assms(3) by (simp add: mod_if)
  ultimately show "bit (rotr32 w (of_nat k)) n = bit (push_bit (32 - k) w) n"
    using assms(2,3) unfolding rotr32_word_rotr [OF assms(3)]
    by (cases "n + k < 32") (fastforce simp: bit_word_rotr_iff bit_push_bit_iff possible_bit_word)+
qed

lemma t2_so_imm_rotated:
  fixes x :: u32
  assumes "x < 128" "8 \<le> k" "k < 32"
  shows "t2_so_imm (x OR push_bit 7 (of_nat k)) = push_bit (32 - k) (x OR 0x80)"
proof -
  let ?e = "x OR push_bit 7 (of_nat k :: u32)"
  have x: "x < 2 ^ 7" using assms(1) by simp
  have k: "(of_nat k :: u32) < 2 ^ 5" using assms(3) by (intro u32_of_nat_less) simp_all
  have u: "unat (of_nat k :: u32) = k" using assms(3) by (rule unat_small)
  have f: "fieldFromInstruction_4 ?e 0 7 = x" "fieldFromInstruction_4 ?e 7 5 = of_nat k"
    using field_join [OF x k] by simp_all
  have "fieldFromInstruction_4 ?e 10 2 = drop_bit 3 (of_nat k)"
    using field_high_part [of 7 3 2 5 ?e] f by simp
  moreover have "drop_bit 3 (of_nat k :: u32) \<noteq> 0"
    using assms(2) u by (simp add: word_unat_eq_iff unat_drop div_eq_0_iff)
  ultimately have "t2_so_imm ?e = rotr32 (x OR 0x80) (of_nat k)"
    unfolding t2_so_imm_def Let_def rotr32_def f by simp
  also have "\<dots> = push_bit (32 - k) (x OR 0x80)"
    using fields_less [of x 7 1 1] x assms(2,3) by (intro rotr32_push_bit) simp_all
  finally show ?thesis .
qed


text \<open>The four ways to repeat a byte.\<close>

definition t2_splat :: "nat \<Rightarrow> u32 \<Rightarrow> u32" where
  "t2_splat b imm =
     (if b = 0 then imm
      else if b = 1 then push_bit 16 imm OR imm
      else if b = 2 then push_bit 24 imm OR push_bit 8 imm
      else push_bit 24 imm OR push_bit 16 imm OR push_bit 8 imm OR imm)"

lemma t2_so_imm_splat:
  assumes "imm < 256" "b < 4"
  shows "t2_so_imm (imm OR push_bit 8 (of_nat b)) = t2_splat b imm"
proof -
  let ?e = "imm OR push_bit 8 (of_nat b :: u32)"
  have i: "imm < 2 ^ 8" using assms(1) by simp
  have "(of_nat b :: u32) < 2 ^ 2" using assms(2) by (intro u32_of_nat_less) simp_all
  moreover then have "(of_nat b :: u32) < 2 ^ 4" by (rule less_trans) simp
  ultimately have f: "fieldFromInstruction_4 ?e 0 8 = imm" "fieldFromInstruction_4 ?e 8 2 = of_nat b"
      "fieldFromInstruction_4 ?e 8 4 = of_nat b"
    using field_join [OF i, of "of_nat b" 2] field_join [OF i, of "of_nat b" 4] by simp_all
  have "fieldFromInstruction_4 ?e 10 2 = drop_bit 2 (of_nat b)"
    using field_high_part [of 8 2 2 4 ?e] f by simp
  also have "\<dots> = 0" using assms(2) by (simp add: word_unat_eq_iff unat_drop unat_small)
  finally have "fieldFromInstruction_4 ?e 10 2 = 0" .
  moreover have "(of_nat b :: u32) = of_nat c \<longleftrightarrow> b = c" if "c < 4" for c
    using assms(2) that by (simp add: word_unat_eq_iff unat_small)
  from this [of 0] this [of 1] this [of 2] have "of_nat b = (0 :: u32) \<longleftrightarrow> b = 0" "of_nat b = (1 :: u32) \<longleftrightarrow> b = 1" "of_nat b = (2 :: u32) \<longleftrightarrow> b = 2"
    by simp_all
  ultimately show ?thesis unfolding t2_so_imm_def Let_def f t2_splat_def by simp
qed

lemma t2_splat_zero [simp]: "t2_splat b 0 = 0"
  by (simp add: t2_splat_def)

lemma bit_t2_splat:
  assumes "imm < 256"
  shows "bit (t2_splat b imm) n \<longleftrightarrow>
     n < 32 \<and> (bit imm n \<and> b \<notin> {2} \<or> 8 \<le> n \<and> bit imm (n - 8) \<and> b \<notin> {0, 1} \<or> 16 \<le> n \<and> bit imm (n - 16) \<and> b \<notin> {0, 2} \<or> 24 \<le> n \<and> bit imm (n - 24) \<and> b \<notin> {0, 1})"
  by (auto simp: t2_splat_def bit_simps dest: bit_u32_less)


lemma and_ff: "v AND 0xff = take_bit 8 v" for v :: u32
  by (simp add: take_bit_eq_mask mask_eq_exp_minus_1)

lemma and_not_ff: "v AND 0xffffff00 = 0 \<longleftrightarrow> v < 256" for v :: u32
proof -
  have "(0xffffff00 :: u32) = NOT 255" by simp
  then show ?thesis by (simp only: and_not_255_less)
qed

lemma bit_byte: "imm < 256 \<Longrightarrow> bit imm n \<Longrightarrow> n < 8" for imm :: u32
  using bit_less_exp [of imm 8 n] by simp

lemma t2_splat_low:
  assumes "imm < 256"
  shows "take_bit 8 (t2_splat b imm) = (if b = 2 then 0 else imm)"
  using assms by (intro bit_word_eqI) (auto simp: bit_t2_splat bit_take_bit_iff dest: bit_byte)

lemma t2_splat_shift: "imm < 256 \<Longrightarrow> drop_bit 8 (t2_splat 2 imm) = t2_splat 1 imm"
  by (intro bit_word_eqI) (auto simp: bit_t2_splat bit_drop_bit_eq dest: bit_byte)

lemma t2_splat_unfold:
  "imm OR push_bit 16 imm = t2_splat 1 imm" "t2_splat 1 imm OR push_bit 8 (t2_splat 1 imm) = t2_splat 3 imm"
  "push_bit 8 (t2_splat 1 imm) = t2_splat 2 imm"
  by (simp_all add: t2_splat_def ac_simps push_bit_or)

lemma getT2SOImmValSplatVal_alt:
  "getT2SOImmValSplatVal v =
     (if v < 256 then Some v
      else
        (let vs = (if take_bit 8 v = 0 then drop_bit 8 v else v);
             imm = take_bit 8 vs
         in if vs = t2_splat 1 imm then Some (push_bit 8 (if vs = v then 1 else 2) OR imm)
            else if vs = t2_splat 3 imm then Some (push_bit 8 3 OR imm)
            else None))"
  unfolding getT2SOImmValSplatVal_def Let_def and_not_ff and_ff t2_splat_unfold(1,2) ..

lemma getT2SOImmValSplatVal_complete:
  assumes "imm < 256"
  shows "getT2SOImmValSplatVal (t2_splat b imm) \<noteq> None"
proof (cases "b = 0 \<or> imm = 0")
  case True
  then show ?thesis using assms by (auto simp: getT2SOImmValSplatVal_alt t2_splat_def)
next
  case False
  let ?v = "t2_splat b imm"
  let ?vs = "if take_bit 8 ?v = 0 then drop_bit 8 ?v else ?v"
  consider "?v = t2_splat 1 imm" | "?v = t2_splat 2 imm" | "?v = t2_splat 3 imm"
    using False unfolding t2_splat_def by (cases "b = 1"; cases "b = 2") auto
  then have vs: "?vs = t2_splat 1 imm \<or> ?vs = t2_splat 3 imm"
    using False assms by cases (simp_all only: t2_splat_low t2_splat_shift, simp_all)
  then have "take_bit 8 ?vs = imm" using assms t2_splat_low [of imm 1] t2_splat_low [of imm 3] by auto
  with vs show ?thesis unfolding getT2SOImmValSplatVal_alt Let_def by (auto split: if_splits)
qed

lemma push_drop:
  fixes v :: u32
  assumes "\<And>n. bit v n \<Longrightarrow> k \<le> n"
  shows "push_bit k (drop_bit k v) = v"
proof (rule bit_word_eqI)
  fix n
  assume "n < LENGTH(32)"
  then show "bit (push_bit k (drop_bit k v)) n = bit v n"
    using assms [of n] by (cases "k \<le> n") (auto simp: bit_push_bit_iff bit_drop_bit_eq possible_bit_word)
qed

lemma getT2SOImmValSplatVal_sound:
  assumes "getT2SOImmValSplatVal v = Some e"
  shows "\<exists>imm < 256. \<exists>b < 4. e = imm OR push_bit 8 (of_nat b) \<and> v = t2_splat b imm"
proof (cases "v < 256")
  case True
  then have "e = v OR push_bit 8 (of_nat 0) \<and> v = t2_splat 0 v"
    using assms by (simp add: getT2SOImmValSplatVal_alt t2_splat_def)
  then show ?thesis using True by (intro exI [of _ v] conjI exI [of _ 0]) auto
next
  case False
  define vs where "vs = (if take_bit 8 v = 0 then drop_bit 8 v else v)"
  define imm where "imm = take_bit 8 vs"
  have imm: "imm < 256" unfolding imm_def using bits_less_exp [of "take_bit 8 vs" 8] by (simp add: bit_take_bit_iff)
  have up: "v = push_bit 8 vs" if n: "vs \<noteq> v"
  proof -
    have t: "take_bit 8 v = 0" "vs = drop_bit 8 v" using n by (auto simp: vs_def split: if_splits)
    have "8 \<le> n" if "bit v n" for n
      using arg_cong [OF t(1), of "\<lambda>x. bit x n"] that by (auto simp: bit_take_bit_iff)
    then show ?thesis unfolding t(2) by (simp add: push_drop)
  qed
  consider "vs = t2_splat 1 imm" "e = push_bit 8 (if vs = v then 1 else 2) OR imm"
    | "vs = t2_splat 3 imm" "vs \<noteq> t2_splat 1 imm" "e = push_bit 8 3 OR imm"
    using assms False unfolding getT2SOImmValSplatVal_alt Let_def vs_def [symmetric] imm_def [symmetric]
    by (auto split: if_splits)
  then show ?thesis
  proof cases
    case 1
    then have "e = imm OR push_bit 8 (of_nat (if vs = v then 1 else 2))" by (auto simp: or.commute)
    moreover have "v = t2_splat (if vs = v then 1 else 2) imm" using up 1(1) t2_splat_unfold(3) [of imm] by auto
    moreover have "(if vs = v then 1 else 2 :: nat) < 4" by simp
    ultimately show ?thesis using imm by blast
  next
    case 2
    have "vs = v" 
    proof (rule ccontr)
      assume n: "vs \<noteq> v"
      have "\<not> bit imm i" for i
      proof
        assume b: "bit imm i"
        then have "i < 8" using imm bit_less_exp [of imm 8 i] by simp
        then have "bit vs (24 + i)" using b imm 2(1) by (simp add: bit_t2_splat)
        then have "bit v (32 + i)" using n by (auto simp: vs_def bit_drop_bit_eq split: if_splits)
        then show False using bit_u32_less by fastforce
      qed
      then have "imm = 0" by (intro bit_word_eqI) simp
      then show False using 2(1) up [OF n] False by simp
    qed
    moreover have "e = imm OR push_bit 8 (of_nat 3)" using 2(3) by (simp add: or.commute)
    ultimately show ?thesis using imm 2(1) by (intro exI [of _ imm] conjI exI [of _ 3]) auto
  qed
qed


subsubsection \<open>Rotated bytes\<close>

lemma bit_ff000000: "r < 24 \<Longrightarrow> bit (rotr32 0xff000000 (of_nat r)) n \<longleftrightarrow> 24 - r \<le> n \<and> n < 32 - r"
proof -
  assume r: "r < 24"
  have "(0xff000000 :: u32) = push_bit 24 (mask 8)" by (simp add: mask_eq_exp_minus_1)
  then have b: "bit (0xff000000 :: u32) i \<longleftrightarrow> 24 \<le> i \<and> i < 32" for i
    by (simp only: bit_push_bit_iff bit_mask_iff possible_bit_word) auto
  have "rotr32 0xff000000 (of_nat r) = word_rotr r 0xff000000" using r by (intro rotr32_word_rotr) simp
  moreover have "24 \<le> (n + r) mod 32 \<longleftrightarrow> 24 - r \<le> n \<and> n < 32 - r" if "n < 32"
    using that r by (cases "n + r < 32") (simp_all add: mod_if, linarith+)
  ultimately show ?thesis using r by (simp only: bit_word_rotr_iff b) auto
qed

lemma rotated_window:
  fixes v :: u32
  assumes "r < 24"
  shows "rotr32 0xff000000 (of_nat r) AND v = v \<longleftrightarrow> (\<exists>w < 256. v = push_bit (24 - r) w)"
proof
  assume a: "rotr32 0xff000000 (of_nat r) AND v = v"
  have b: "24 - r \<le> n \<and> n < 32 - r" if "bit v n" for n
    using a that bit_ff000000 [OF assms] by (metis bit_and_iff)
  have "drop_bit (24 - r) v < 2 ^ 8"
    by (intro bits_less_exp) (use assms in \<open>auto simp: bit_drop_bit_eq dest: b\<close>)
  moreover have "v = push_bit (24 - r) (drop_bit (24 - r) v)"
    using b by (simp add: push_drop)
  ultimately show "\<exists>w < 256. v = push_bit (24 - r) w" by auto
next
  assume "\<exists>w < 256. v = push_bit (24 - r) w"
  then show "rotr32 0xff000000 (of_nat r) AND v = v"
    using assms by (auto intro!: bit_word_eqI simp: bit_and_iff bit_ff000000 bit_push_bit_iff dest!: bit_byte)
qed

lemma top_bit_clz:
  fixes v :: u32
  assumes "2 ^ (31 - r) \<le> unat v" "unat v < 2 ^ (32 - r)" "r < 32"
  shows "CountLeadingZeros_32 v = of_nat r"
proof -
  have "v \<noteq> 0" using assms(1) by auto
  then obtain q where q: "CountLeadingZeros_32 v = of_nat q" "q < 32" "2 ^ (31 - q) \<le> unat v" "unat v < 2 ^ (32 - q)"
    using CountLeadingZeros_32_spec by blast
  have "31 - q < 32 - r" "31 - r < 32 - q"
    using power_less_imp_less_exp [OF _ le_less_trans [OF q(3) assms(2)]] power_less_imp_less_exp [OF _ le_less_trans [OF assms(1) q(4)]]
    by simp_all
  then have "q = r" using q(2) assms(3) by linarith
  then show ?thesis using q(1) by simp
qed

lemma unat_push_byte:
  fixes w :: u32
  assumes "w < 256" "s \<le> 24"
  shows "unat (push_bit s w) = unat w * 2 ^ s"
proof -
  have "unat w < 256" using assms(1) by (simp add: word_less_nat_alt)
  then have "unat w * 2 ^ s < 2 ^ 8 * 2 ^ s" by simp
  also have "\<dots> \<le> 2 ^ 8 * (2 ^ 24 :: nat)" using assms(2) by (intro mult_left_mono power_increasing) simp_all
  finally have "unat w * 2 ^ s < 2 ^ 32" by simp
  then show ?thesis using unat_mult_lem [of w "2 ^ s"] assms(2) unat_exp [of s, where ?'w = 32] by (simp add: push_bit_eq_mult)
qed


lemma rotated_byte_clz:
  fixes w :: u32
  assumes "w < 256" "128 \<le> w" "0 < s" "s \<le> 24"
  shows "CountLeadingZeros_32 (push_bit s w) = of_nat (24 - s)"
proof (rule top_bit_clz)
  have w: "2 ^ 7 \<le> unat w" "unat w < 2 ^ 8" using assms(1,2) by (simp_all add: word_less_nat_alt word_le_nat_alt)
  show "2 ^ (31 - (24 - s)) \<le> unat (push_bit s w)" "unat (push_bit s w) < 2 ^ (32 - (24 - s))"
    using w assms by (simp_all add: unat_push_byte power_add)
qed simp

lemma byte_top:
  fixes w :: u32
  assumes "w < 256" "128 \<le> w"
  shows "(w AND 0x7f) OR 0x80 = w" "w AND 0x7f < 128"
proof -
  have "unat w div 2 ^ 7 = 1" using assms by (simp add: word_less_nat_alt word_le_nat_alt div_if)
  then have "bit (unat w) 7" by (simp add: bit_iff_odd)
  then have t: "bit w 7" by (simp add: bit_unsigned_iff)
  have "(w AND mask 7) OR push_bit 7 1 = w"
  proof (rule bit_word_eqI)
    fix n
    assume "n < LENGTH(32)"
    then show "bit ((w AND mask 7) OR push_bit 7 1) n = bit w n"
      using t bit_byte [OF assms(1), of n]
      by (auto simp only: bit_or_iff bit_and_iff bit_mask_iff bit_push_bit_iff bit_1_iff possible_bit_word) (auto simp: le_less)
  qed
  then show "(w AND 0x7f) OR 0x80 = w" by (simp add: mask_eq_exp_minus_1)
  have "w AND mask 7 < 2 ^ 7" by (intro bits_less_exp) (auto simp: bit_simps)
  then show "w AND 0x7f < 128" by (simp add: mask_eq_exp_minus_1)
qed

lemma byte_join:
  fixes x :: u32
  assumes "x < 128"
  shows "x OR 0x80 < 256" "128 \<le> x OR 0x80" "(x OR 0x80) AND 0x7f = x"
proof -
  have x: "x < 2 ^ 7" using assms by simp
  show "x OR 0x80 < 256" using fields_less [OF x, of 1 1] by simp
  show "(x OR 0x80) AND 0x7f = x" using low_field [OF x, of 1] by (simp add: mask_eq_exp_minus_1)
  show "128 \<le> x OR 0x80" using word_and_le2 [of "x OR 0x80" "0x80 :: u32"] by (simp add: word_ao_absorbs)
qed

lemma rotr32_push_bit_inverse:
  fixes w :: u32
  assumes "w < 256" "s \<le> 24"
  shows "rotr32 (push_bit s w) (of_nat s) = w"
proof (rule bit_word_eqI)
  fix n
  assume "n < LENGTH(32)"
  then show "bit (rotr32 (push_bit s w) (of_nat s)) n = bit w n"
    using assms rotr32_word_rotr [of s "push_bit s w"] bit_byte [OF assms(1), of n]
    by (cases "n + s < 32") (auto simp: bit_word_rotr_iff bit_push_bit_iff possible_bit_word mod_if)
qed

lemma CountLeadingZeros_32_0: "CountLeadingZeros_32 0 = 32"
  by (simp add: CountLeadingZeros_32_def)

lemma getT2SOImmValRotateVal_rotated:
  assumes "w < 256" "128 \<le> w" "0 < s" "s \<le> 24"
  shows "getT2SOImmValRotateVal (push_bit s w) = Some ((w AND 0x7f) OR push_bit 7 (of_nat (32 - s)))"
proof -
  have c: "CountLeadingZeros_32 (push_bit s w) = of_nat (24 - s)" using assms by (rule rotated_byte_clz)
  have l: "(of_nat (24 - s) :: u32) < 24" using assms(3) by (simp add: word_less_nat_alt unat_small del: of_nat_diff)
  have "rotr32 0xff000000 (of_nat (24 - s)) AND push_bit s w = push_bit s w"
    using rotated_window [of "24 - s" "push_bit s w"] assms by auto
  moreover have "24 - of_nat (24 - s) = (of_nat s :: u32)" "of_nat (24 - s) + 8 = (of_nat (32 - s) :: u32)"
    using assms(4) by (simp_all add: of_nat_diff)
  ultimately show ?thesis
    using l assms rotr32_push_bit_inverse [of w s] unfolding getT2SOImmValRotateVal_def Let_def c by (simp add: not_le)
qed

lemma getT2SOImmValRotateVal_sound:
  assumes "getT2SOImmValRotateVal v = Some e"
  shows "\<exists>w s. w < 256 \<and> 128 \<le> w \<and> 0 < s \<and> s \<le> 24 \<and> v = push_bit s w"
proof -
  have v: "v \<noteq> 0" using assms by (auto simp: getT2SOImmValRotateVal_def CountLeadingZeros_32_0)
  then obtain r where r: "CountLeadingZeros_32 v = of_nat r" "r < 32" "2 ^ (31 - r) \<le> unat v"
    using CountLeadingZeros_32_spec by blast
  have "r < 24" "rotr32 0xff000000 (of_nat r) AND v = v"
    using assms unfolding getT2SOImmValRotateVal_def Let_def r(1)
    by (auto simp: word_le_nat_alt unat_small r(2) split: if_splits)
  then obtain w where w: "w < 256" "v = push_bit (24 - r) w" using rotated_window by blast
  have "2 ^ (7 + (24 - r)) \<le> unat w * 2 ^ (24 - r)"
    using r(3) w \<open>r < 24\<close> by (simp add: unat_push_byte)
  then have "128 \<le> w" by (simp add: power_add word_le_nat_alt)
  then show ?thesis using w \<open>r < 24\<close> by (intro exI [of _ w] exI [of _ "24 - r"]) simp
qed

text \<open>An encoding repeats a byte or rotates one.\<close>

lemma split_fields:
  fixes e :: u32
  assumes "e < 2 ^ (k + m)" "k + m < 32"
  shows "e = take_bit k e OR push_bit k (of_nat (unat (drop_bit k e)))" "unat (drop_bit k e) < 2 ^ m" "take_bit k e < 2 ^ k"
proof -
  show "e = take_bit k e OR push_bit k (of_nat (unat (drop_bit k e)))"
  proof (rule bit_word_eqI)
    fix n
    assume "n < LENGTH(32)"
    then show "bit e n = bit (take_bit k e OR push_bit k (of_nat (unat (drop_bit k e)))) n"
      by (cases "k \<le> n") (auto simp: bit_simps)
  qed
  have "drop_bit k e < 2 ^ m"
    by (intro bits_less_exp) (use assms in \<open>auto simp: bit_drop_bit_eq dest!: bit_less_exp\<close>)
  then show "unat (drop_bit k e) < 2 ^ m" using assms(2) by (simp add: word_less_nat_alt unat_exp)
  show "take_bit k e < 2 ^ k" using assms(2) by (intro bits_less_exp) (auto simp: bit_take_bit_iff)
qed

lemma t2_encoding_cases:
  fixes e :: u32
  assumes "e < 4096"
  obtains (splat) imm b where "imm < 256" "b < 4" "e = imm OR push_bit 8 (of_nat b)"
    | (rotated) x k where "x < 128" "8 \<le> k" "k < 32" "e = x OR push_bit 7 (of_nat k)"
proof (cases "8 \<le> unat (drop_bit 7 e)")
  case True
  then show ?thesis using split_fields [of e 7 5] assms rotated [of "take_bit 7 e" "unat (drop_bit 7 e)"] by simp
next
  case False
  have "unat (drop_bit 8 e) = unat (drop_bit 7 e) div 2" by (simp add: unat_drop div_mult2_eq [symmetric])
  then have "unat (drop_bit 8 e) < 4" using False by simp
  then show ?thesis using split_fields [of e 8 4] assms splat [of "take_bit 8 e" "unat (drop_bit 8 e)"] by simp
qed


subsection \<open>Register ranges\<close>

text \<open>The registers appended one after the other.\<close>

definition add_regs :: "MCInst \<Rightarrow> ARM_Reg list \<Rightarrow> MCInst" where
  "add_regs Inst rs = fold (\<lambda>r i. MCOperand_CreateReg0 i r) rs Inst"

lemma add_regs_Nil [simp]: "add_regs Inst [] = Inst"
  by (simp add: add_regs_def)

lemma add_regs_Cons [simp]: "add_regs Inst (r # rs) = add_regs (MCOperand_CreateReg0 Inst r) rs"
  by (simp add: add_regs_def)

lemma Operands_add_regs: "Operands (add_regs Inst rs) = Operands Inst @ map kRegister rs"
  by (induction rs arbitrary: Inst) (simp_all add: MCOperand_CreateReg0_def)

text \<open>The interface of the loops over consecutive registers: a register class and the loop that decodes the registers after the
  first.\<close>

locale register_range =
  fixes cls :: "MCInst \<Rightarrow> u32 \<Rightarrow> decode"
    and reg :: "nat \<Rightarrow> ARM_Reg"
    and loop :: "nat \<Rightarrow> u32 \<Rightarrow> DecodeStatus \<Rightarrow> MCInst \<Rightarrow> decode"
  assumes cls_ok: "r < 32 \<Longrightarrow> cls Inst (of_nat r) = (MCDisassembler_Success, MCOperand_CreateReg0 Inst (reg r))"
    and loop_0: "loop 0 Vd S Inst = (S, Inst)"
    and loop_Suc: "loop (Suc n) Vd S Inst = check_then S (cls Inst (Vd + 1)) (loop n (Vd + 1))"
begin

lemma loop_range:
  assumes "S \<noteq> MCDisassembler_Fail" "v + n < 32"
  shows "loop n (of_nat v) S Inst = (S, add_regs Inst (map reg [Suc v..<Suc v + n]))"
  using assms(2)
proof (induction n arbitrary: v Inst)
  case (Suc n)
  have "loop (Suc n) (of_nat v) S Inst = check_then S (cls Inst (of_nat (Suc v))) (loop n (of_nat (Suc v)))"
    by (simp add: loop_Suc add.commute)
  also have "\<dots> = loop n (of_nat (Suc v)) S (MCOperand_CreateReg0 Inst (reg (Suc v)))"
    using Suc.prems assms(1) cls_ok [of "Suc v"] by (simp del: of_nat_Suc)
  also have "\<dots> = (S, add_regs (MCOperand_CreateReg0 Inst (reg (Suc v))) (map reg [Suc (Suc v)..<Suc (Suc v) + n]))"
    using Suc.prems by (intro Suc.IH) simp
  finally show ?case using upt_conv_Cons [of "Suc v" "Suc v + Suc n"] by (simp del: upt_Suc)
qed (simp add: loop_0)

lemma list_range:
  assumes "S \<noteq> MCDisassembler_Fail" "0 < n" "v + n \<le> 32"
  shows "check_then S (cls Inst (of_nat v)) (loop (n - 1) (of_nat v)) = (S, add_regs Inst (map reg [v..<v + n]))"
proof -
  have "check_then S (cls Inst (of_nat v)) (loop (n - 1) (of_nat v)) = loop (n - 1) (of_nat v) S (MCOperand_CreateReg0 Inst (reg v))"
    using assms cls_ok [of v] by simp
  also have "\<dots> = (S, add_regs (MCOperand_CreateReg0 Inst (reg v)) (map reg [Suc v..<Suc v + (n - 1)]))"
    using assms by (intro loop_range) simp_all
  finally show ?thesis using assms upt_conv_Cons [of v "v + n"] by (simp del: upt_Suc)
qed

end

lemma u32_le_31: "r < 32 \<Longrightarrow> \<not> (of_nat r :: u32) > 31"
  by (simp add: word_less_nat_alt unat_small)

interpretation spr_range: register_range DecodeSPRRegisterClass ARM_S spr_list_loop
  by unfold_locales (simp_all add: DecodeSPRRegisterClass_def SPRDecoderTable_def u32_le_31 unat_small)

interpretation dpr_range: register_range DecodeDPRRegisterClass ARM_D dpr_list_loop
  by unfold_locales (simp_all add: DecodeDPRRegisterClass_def DPRDecoderTable_def u32_le_31 unat_small)

lemma field_nat: "s + n \<le> 32 \<Longrightarrow> n < 32 \<Longrightarrow> \<exists>v < 2 ^ n. fieldFromInstruction_4 e s n = of_nat v \<and> v = unat (fieldFromInstruction_4 e s n)"
  using field_less [of s n e] by (intro exI [of _ "unat (fieldFromInstruction_4 e s n)"]) simp

text \<open>The number of registers that remain after the corrections.\<close>

definition spr_count :: "nat \<Rightarrow> nat \<Rightarrow> nat" where
  "spr_count vd regs = max 1 (min regs (32 - vd))"

definition dpr_count :: "nat \<Rightarrow> nat \<Rightarrow> nat" where
  "dpr_count vd regs = min 16 (max 1 (min regs (32 - vd)))"

lemma of_nat_u32_less: "a < 2 ^ 32 \<Longrightarrow> b < 2 ^ 32 \<Longrightarrow> (of_nat a :: u32) < of_nat b \<longleftrightarrow> a < b"
  by (simp add: word_less_nat_alt unat_of_nat take_bit_nat_eq_self)

lemma of_nat_u32_eq_0: "a < 2 ^ 32 \<Longrightarrow> (of_nat a :: u32) = 0 \<longleftrightarrow> a = 0"
  by (simp add: word_unat_eq_iff unat_of_nat take_bit_nat_eq_self)

lemma of_nat_u32_le: "a < 2 ^ 32 \<Longrightarrow> b < 2 ^ 32 \<Longrightarrow> (of_nat a :: u32) \<le> of_nat b \<longleftrightarrow> a \<le> b"
  using of_nat_u32_less [of b a] by (simp add: not_less [symmetric])

lemma max_min_u32:
  assumes "a < 2 ^ 32"
  shows "max 1 (of_nat a :: u32) = of_nat (max 1 a)" "min 16 (of_nat a :: u32) = of_nat (min 16 a)"
  using of_nat_u32_le [of 1 a] of_nat_u32_le [of 16 a] assms by (simp_all add: max_def min_def)

lemma remaining_u32: "vd < 32 \<Longrightarrow> (32 :: u32) - of_nat vd = of_nat (32 - vd)"
  by (simp add: of_nat_diff)

lemma unat_pred: "0 < a \<Longrightarrow> a < 2 ^ 32 \<Longrightarrow> unat (of_nat a - 1 :: u32) = a - 1"
proof -
  assume a: "0 < a" "a < 2 ^ 32"
  then have "of_nat a - 1 = (of_nat (a - 1) :: u32)" by (simp add: of_nat_diff)
  then show ?thesis using a by (simp add: unat_of_nat take_bit_nat_eq_self del: of_nat_diff)
qed

lemma DecodeSPRRegListOperand_range:
  assumes "vd < 32" "regs < 256" "fieldFromInstruction_4 Val 8 5 = of_nat vd" "fieldFromInstruction_4 Val 0 8 = of_nat regs"
  shows "DecodeSPRRegListOperand Inst Val =
    (if regs = 0 \<or> vd + regs > 32 then MCDisassembler_SoftFail else MCDisassembler_Success,
     add_regs Inst (map ARM_S [vd..<vd + spr_count vd regs]))"
proof -
  let ?S = "if regs = 0 \<or> vd + regs > 32 then MCDisassembler_SoftFail else MCDisassembler_Success"
  let ?over = "of_nat vd + of_nat regs > (32 :: u32)"
  have o: "?over \<longleftrightarrow> vd + regs > 32" using assms(1,2) of_nat_u32_less [of 32 "vd + regs"] by simp
  have z: "(of_nat regs :: u32) = 0 \<longleftrightarrow> regs = 0" using assms(2) of_nat_u32_eq_0 [of regs] by simp
  have "(if regs = 0 \<or> vd + regs > 32 then max 1 (if vd + regs > 32 then 32 - of_nat vd else of_nat regs) else of_nat regs :: u32)
      = of_nat (spr_count vd regs)"
    using assms(1,2) max_min_u32 [of "32 - vd"] max_min_u32 [of regs]
    by (auto simp: remaining_u32 spr_count_def simp del: of_nat_diff)
  moreover have "spr_count vd regs < 2 ^ 32" "0 < spr_count vd regs" "vd + spr_count vd regs \<le> 32"
    using assms(1,2) by (auto simp: spr_count_def)
  ultimately show ?thesis
    using spr_range.list_range [of ?S "spr_count vd regs" vd Inst]
    unfolding DecodeSPRRegListOperand_def Let_def assms(3,4) o z by (simp add: unat_pred)
qed

lemma DecodeDPRRegListOperand_range:
  assumes "vd < 32" "regs < 128" "fieldFromInstruction_4 Val 8 5 = of_nat vd" "fieldFromInstruction_4 Val 1 7 = of_nat regs"
  shows "DecodeDPRRegListOperand Inst Val =
    (if regs = 0 \<or> regs > 16 \<or> vd + regs > 32 then MCDisassembler_SoftFail else MCDisassembler_Success,
     add_regs Inst (map ARM_D [vd..<vd + dpr_count vd regs]))"
proof -
  let ?S = "if regs = 0 \<or> regs > 16 \<or> vd + regs > 32 then MCDisassembler_SoftFail else MCDisassembler_Success"
  let ?over = "of_nat vd + of_nat regs > (32 :: u32)"
  have o: "?over \<longleftrightarrow> vd + regs > 32" using assms(1,2) of_nat_u32_less [of 32 "vd + regs"] by simp
  have z: "(of_nat regs :: u32) = 0 \<longleftrightarrow> regs = 0" using assms(2) of_nat_u32_eq_0 [of regs] by simp
  have h: "(of_nat regs :: u32) > 16 \<longleftrightarrow> regs > 16" using assms(2) of_nat_u32_less [of 16 regs] by simp
  have "(if regs = 0 \<or> regs > 16 \<or> vd + regs > 32 then min 16 (max 1 (if vd + regs > 32 then 32 - of_nat vd else of_nat regs)) else of_nat regs :: u32)
      = of_nat (dpr_count vd regs)"
    using assms(1,2) max_min_u32 [of "32 - vd"] max_min_u32 [of regs] max_min_u32 [of "max 1 (32 - vd)"] max_min_u32 [of "max 1 regs"]
    by (auto simp: remaining_u32 dpr_count_def simp del: of_nat_diff)
  moreover have "dpr_count vd regs < 2 ^ 32" "0 < dpr_count vd regs" "vd + dpr_count vd regs \<le> 32"
    using assms(1,2) by (auto simp: dpr_count_def)
  ultimately show ?thesis
    using dpr_range.list_range [of ?S "dpr_count vd regs" vd Inst]
    unfolding DecodeDPRRegListOperand_def Let_def assms(3,4) o z h by (simp add: unat_pred)
qed


subsection \<open>Lists of core registers\<close>

lemma DecodeGPRRegisterClass_ok:
  "i < 16 \<Longrightarrow> DecodeGPRRegisterClass Inst (of_nat i) = (MCDisassembler_Success, MCOperand_CreateReg0 Inst (GPRDecoderTable ! i))"
  by (simp add: DecodeGPRRegisterClass_def word_less_nat_alt unat_small)

lemma last_CreateReg0 [simp]: "last (Operands (MCOperand_CreateReg0 Inst r)) = kRegister r"
  by (simp add: MCOperand_CreateReg0_def)

definition listed :: "u32 \<Rightarrow> nat list \<Rightarrow> ARM_Reg list" where
  "listed Val is = map (\<lambda>i. GPRDecoderTable ! i) (filter (bit Val) is)"

lemma reg_list_loop_listed:
  assumes "S \<noteq> MCDisassembler_Fail" "\<forall>i \<in> set is. i < 16"
  shows "reg_list_loop need wb Val is k S Inst =
    k (if need \<and> wb \<in> set (listed Val is) then MCDisassembler_SoftFail else S) (add_regs Inst (listed Val is))"
  using assms
proof (induction "is" arbitrary: S Inst)
  case (Cons i "is")
  have c: "fst (Check S MCDisassembler_SoftFail) = MCDisassembler_SoftFail" if "S \<noteq> MCDisassembler_Fail" for S
    using that by (cases S) simp_all
  show ?case
  proof (cases "bit Val i")
    case True
    then show ?thesis
      using Cons.prems Cons.IH [of MCDisassembler_SoftFail] Cons.IH [of S] c [OF Cons.prems(1)]
      by (auto simp: bit_iff_and_push_bit_not_eq_0 DecodeGPRRegisterClass_ok listed_def)
  next
    case False
    then show ?thesis using Cons.prems Cons.IH [of S] by (simp add: bit_iff_and_push_bit_not_eq_0 listed_def)
  qed
qed (simp add: listed_def)

lemma DecodeRegListOperand_listed:
  "DecodeRegListOperand Inst Val =
     (if Val = 0 then (MCDisassembler_Fail, Inst)
      else
        (let regs = listed Val [0..<16];
             updates = MCInst_getOpcode Inst \<in> set writeback_list_ops;
             base = (if updates then MCOperand_getReg (MCInst_getOperand Inst 0) else ARM_NoRegister)
         in (if MCInst_getOpcode Inst = ARM_t2LDMIA_UPD \<and> base = ARM_SP \<and> (ARM_SP \<in> set regs \<or> {ARM_PC, ARM_LR} \<subseteq> set regs)
             then MCDisassembler_Fail
             else if updates \<and> base \<in> set regs then MCDisassembler_SoftFail
             else MCDisassembler_Success,
             add_regs Inst regs)))"
proof -
  have m: "bit Val i \<longleftrightarrow> GPRDecoderTable ! i \<in> set (listed Val [0..<16])" if "i < 16" for i
  proof -
    have "distinct GPRDecoderTable \<and> length GPRDecoderTable = 16" by code_simp
    then show ?thesis using that by (auto simp: listed_def nth_eq_iff_index_eq)
  qed
  have t: "GPRDecoderTable ! 13 = ARM_SP" "GPRDecoderTable ! 14 = ARM_LR" "GPRDecoderTable ! 15 = ARM_PC"
    by code_simp+
  show ?thesis
    using m [of 13] m [of 14] m [of 15]
    unfolding DecodeRegListOperand_def Let_def bit_iff_and_push_bit_not_eq_0 [symmetric]
    by (auto simp: reg_list_loop_listed t)
qed

text \<open>C27: the operands that the register list decoders append.  The core registers are those whose bits are set, in
  ascending order; an empty list and the unpredictable lists of \<^verbatim>\<open>t2LDMIA_UPD\<close> fail, a base register in
  a list that updates it is a soft failure.  The \<^verbatim>\<open>S\<close> and \<^verbatim>\<open>D\<close> registers are consecutive and never
  leave the register file: a list that is empty, too long or reaches past register 31 is cut to what fits and marked as a
  soft failure.\<close>

theorem register_lists_exact:
  "DecodeRegListOperand Inst Val =
     (if Val = 0 then (MCDisassembler_Fail, Inst)
      else
        (let regs = listed Val [0..<16];
             updates = MCInst_getOpcode Inst \<in> set writeback_list_ops;
             base = (if updates then MCOperand_getReg (MCInst_getOperand Inst 0) else ARM_NoRegister)
         in (if MCInst_getOpcode Inst = ARM_t2LDMIA_UPD \<and> base = ARM_SP \<and> (ARM_SP \<in> set regs \<or> {ARM_PC, ARM_LR} \<subseteq> set regs)
             then MCDisassembler_Fail
             else if updates \<and> base \<in> set regs then MCDisassembler_SoftFail
             else MCDisassembler_Success,
             add_regs Inst regs)))
   \<and> DecodeSPRRegListOperand Inst Val =
     (let vd = unat (fieldFromInstruction_4 Val 8 5);
          regs = unat (fieldFromInstruction_4 Val 0 8)
      in (if regs = 0 \<or> vd + regs > 32 then MCDisassembler_SoftFail else MCDisassembler_Success,
          add_regs Inst (map ARM_S [vd..<vd + max 1 (min regs (32 - vd))])))
   \<and> DecodeDPRRegListOperand Inst Val =
     (let vd = unat (fieldFromInstruction_4 Val 8 5);
          regs = unat (fieldFromInstruction_4 Val 1 7)
      in (if regs = 0 \<or> regs > 16 \<or> vd + regs > 32 then MCDisassembler_SoftFail else MCDisassembler_Success,
          add_regs Inst (map ARM_D [vd..<vd + min 16 (max 1 (min regs (32 - vd)))])))"
proof (intro conjI)
  have f: "unat (fieldFromInstruction_4 Val 8 5) < 32" "unat (fieldFromInstruction_4 Val 0 8) < 256"
      "unat (fieldFromInstruction_4 Val 1 7) < 128"
    using field_less [of 8 5 Val] field_less [of 0 8 Val] field_less [of 1 7 Val] by simp_all
  show "DecodeSPRRegListOperand Inst Val =
     (let vd = unat (fieldFromInstruction_4 Val 8 5);
          regs = unat (fieldFromInstruction_4 Val 0 8)
      in (if regs = 0 \<or> vd + regs > 32 then MCDisassembler_SoftFail else MCDisassembler_Success,
          add_regs Inst (map ARM_S [vd..<vd + max 1 (min regs (32 - vd))])))"
    using DecodeSPRRegListOperand_range [OF f(1,2)] unfolding Let_def spr_count_def by simp
  show "DecodeDPRRegListOperand Inst Val =
     (let vd = unat (fieldFromInstruction_4 Val 8 5);
          regs = unat (fieldFromInstruction_4 Val 1 7)
      in (if regs = 0 \<or> regs > 16 \<or> vd + regs > 32 then MCDisassembler_SoftFail else MCDisassembler_Success,
          add_regs Inst (map ARM_D [vd..<vd + min 16 (max 1 (min regs (32 - vd)))])))"
    using DecodeDPRRegListOperand_range [OF f(1,3)] unfolding Let_def dpr_count_def by simp
qed (rule DecodeRegListOperand_listed)

subsection \<open>Bit-field masks\<close>

lemma low_mask: "m < 32 \<Longrightarrow> push_bit m 1 - 1 = (mask m :: u32)"
  by (simp add: mask_eq_exp_minus_1 push_bit_eq_mult)

lemma bitfield_masks:
  assumes "msb < 32" "lsb < 32"
  shows "(if of_nat msb \<noteq> (31 :: u32) then push_bit (unat (of_nat msb + 1 :: u32)) 1 - 1 else 0xFFFFFFFF) = (mask (msb + 1) :: u32)"
    "push_bit (unat (of_nat lsb :: u32)) 1 - 1 = (mask lsb :: u32)"
proof -
  have "of_nat msb + 1 = (of_nat (msb + 1) :: u32)" by simp
  then have "unat (of_nat msb + 1 :: u32) = msb + 1" using assms(1) by (simp only: unat_of_nat) (simp add: take_bit_nat_eq_self)
  moreover have "of_nat msb = (31 :: u32) \<longleftrightarrow> msb = 31" using assms(1) by (simp add: word_unat_eq_iff unat_small)
  moreover have "(0xFFFFFFFF :: u32) = mask 32" by (simp add: mask_eq_exp_minus_1)
  ultimately show "(if of_nat msb \<noteq> (31 :: u32) then push_bit (unat (of_nat msb + 1 :: u32)) 1 - 1 else 0xFFFFFFFF) = (mask (msb + 1) :: u32)"
    using assms(1) low_mask [of "msb + 1"] by (cases "msb = 31") (simp, simp only: if_True if_False simp_thms not_False_eq_True)
  show "push_bit (unat (of_nat lsb :: u32)) 1 - 1 = (mask lsb :: u32)" using low_mask [OF assms(2)] by (simp only: unat_small [OF assms(2)])
qed


subsection \<open>Branches\<close>

text \<open>The replacement of the bits \<open>J\<close> by \<open>I\<close>, which is its own inverse.\<close>

definition bl_swap :: "u32 \<Rightarrow> u32" where
  "bl_swap Val =
     (Val AND NOT 0x600000) OR push_bit 22 (if bit Val 22 = bit Val 23 then 1 else 0) OR push_bit 21 (if bit Val 21 = bit Val 23 then 1 else 0)"

lemma bit_0x600000: "bit (0x600000 :: u32) n \<longleftrightarrow> n = 21 \<or> n = 22"
proof -
  have "(0x600000 :: u32) = push_bit 21 1 OR push_bit 22 1" by simp
  then show ?thesis by (simp only: bit_or_iff bit_push_bit_iff bit_1_iff possible_bit_word) auto
qed

lemma bit_bl_swap:
  "bit (bl_swap v) n \<longleftrightarrow> (if n = 21 \<or> n = 22 then bit v n = bit v 23 else bit v n)"
  unfolding bl_swap_def bit_or_iff bit_and_iff bit_not_iff bit_0x600000 bit_push_bit_iff possible_bit_word
  by (cases "n < 32") (auto simp: bit_1_iff dest: bit_u32_less)

lemma bl_swap_swap [simp]: "bl_swap (bl_swap v) = v"
  by (intro bit_word_eqI) (auto simp: bit_bl_swap)

lemma bl_swap_less: "v < 2 ^ 24 \<Longrightarrow> bl_swap v < 2 ^ 24"
  by (intro bits_less_exp) (auto simp only: bit_bl_swap split: if_splits dest: bit_less_exp)

lemma and_1_bit: "drop_bit k v AND 1 = (if bit v k then 1 else 0 :: u32)"
  by (simp add: and_one_eq mod_2_eq_odd bit_iff_odd_drop_bit)

lemma bl_offset_swap: "bl_offset v = SignExtend32 (push_bit 1 (bl_swap v)) 25"
proof -
  have x: "(if (if a then 1 else 0 :: u32) XOR (if b then 1 else 0) = 0 then 1 else 0 :: u32) = (if a = b then 1 else 0)" for a b
    by auto
  show ?thesis unfolding bl_offset_def Let_def and_1_bit x bl_swap_def ..
qed

definition branch_value :: "int \<Rightarrow> int" where
  "branch_value u = (if u < 2 ^ 23 then 2 * u else 2 * u - 2 ^ 25)"

lemma signed_take_bit_branch:
  assumes "0 \<le> u" "u < 2 ^ 24"
  shows "signed_take_bit 24 (2 * u) = branch_value u"
proof (cases "u < 2 ^ 23")
  case True
  then show ?thesis using assms by (simp add: branch_value_def signed_take_bit_int_eq_self)
next
  case False
  have "(2 * u + 2 ^ 24) mod 2 ^ 25 = (2 * u - 2 ^ 24 + 2 ^ 25) mod (2 ^ 25 :: int)" by (simp add: add.commute)
  also have "\<dots> = 2 * u - 2 ^ 24" using False assms by (subst mod_add_self2) simp
  finally show ?thesis using False by (simp add: branch_value_def signed_take_bit_eq_take_bit_shift take_bit_eq_mod)
qed

lemma sint_bl_offset:
  assumes "v < 2 ^ 24"
  shows "sint (bl_offset v) = branch_value (uint (bl_swap v))"
proof -
  have l: "uint (bl_swap v) < 2 ^ 24" using bl_swap_less [OF assms] by (simp add: word_less_def)
  then have "uint (push_bit 1 (bl_swap v)) = 2 * uint (bl_swap v)"
    by (simp add: push_bit_eq_mult uint_word_ariths mult.commute)
  then show ?thesis
    unfolding bl_offset_swap using l signed_take_bit_branch [of "uint (bl_swap v)"] sint_signed_take_bit [of 25 "push_bit 1 (bl_swap v)"]
    by (simp add: SignExtend_signed_take_bit)
qed

lemma branch_value_inject:
  "branch_value a = branch_value b \<Longrightarrow> 0 \<le> a \<Longrightarrow> a < 2 ^ 24 \<Longrightarrow> 0 \<le> b \<Longrightarrow> b < 2 ^ 24 \<Longrightarrow> a = b"
  by (simp add: branch_value_def split: if_splits)

lemma branch_value_inverse:
  assumes "even d" "- (2 ^ 24) \<le> d" "d < 2 ^ 24"
  shows "branch_value (if 0 \<le> d then d div 2 else d div 2 + 2 ^ 24) = d"
    "0 \<le> (if 0 \<le> d then d div 2 else d div 2 + 2 ^ 24)" "(if 0 \<le> d then d div 2 else d div 2 + 2 ^ 24) < 2 ^ 24"
  using assms by (auto simp: branch_value_def elim!: evenE)

lemma bl_offset_exact:
  "(\<forall>Val < 2 ^ 24. even (sint (bl_offset Val)) \<and> - (2 ^ 24) \<le> sint (bl_offset Val) \<and> sint (bl_offset Val) < 2 ^ 24) \<and>
   (\<forall>d. even d \<and> - (2 ^ 24) \<le> d \<and> d < 2 ^ 24 \<longrightarrow> (\<exists>!Val. Val < 2 ^ 24 \<and> sint (bl_offset Val) = d))"
proof (intro conjI allI impI)
  fix Val :: u32
  assume v: "Val < 2 ^ 24"
  have "uint (bl_swap Val) < 2 ^ 24" "0 \<le> uint (bl_swap Val)" using bl_swap_less [OF v] by (simp_all add: word_less_def)
  then show "even (sint (bl_offset Val))" "- (2 ^ 24) \<le> sint (bl_offset Val)" "sint (bl_offset Val) < 2 ^ 24"
    by (auto simp: sint_bl_offset [OF v] branch_value_def intro: order_trans [of _ 0])
next
  fix d :: int
  assume d: "even d \<and> - (2 ^ 24) \<le> d \<and> d < 2 ^ 24"
  define u where "u = (if 0 \<le> d then d div 2 else d div 2 + 2 ^ 24)"
  have u: "branch_value u = d" "0 \<le> u" "u < 2 ^ 24" using branch_value_inverse d unfolding u_def by blast+
  have "uint (of_int u :: u32) = u" using u by (simp add: uint_word_of_int)
  then have w: "uint (bl_swap (bl_swap (of_int u))) = u" "bl_swap (of_int u) < 2 ^ 24"
    using u bl_swap_less [of "of_int u"] by (simp_all add: word_less_def)
  show "\<exists>!Val. Val < 2 ^ 24 \<and> sint (bl_offset Val) = d"
  proof (rule ex1I)
    show "bl_swap (of_int u) < 2 ^ 24 \<and> sint (bl_offset (bl_swap (of_int u))) = d"
      using w u(1) by (simp add: sint_bl_offset)
  next
    fix V :: u32
    assume V: "V < 2 ^ 24 \<and> sint (bl_offset V) = d"
    then have e: "branch_value (uint (bl_swap V)) = branch_value u" "uint (bl_swap V) < 2 ^ 24"
      using u(1) bl_swap_less [of V] by (auto simp: sint_bl_offset word_less_def)
    have "uint (bl_swap V) = u" by (rule branch_value_inject [OF e(1) uint_ge_0 e(2) u(2,3)])
    then have "bl_swap V = of_int u" by (metis word_of_int_uint)
    then show "V = bl_swap (of_int u)" by (metis bl_swap_swap)
  qed
qed


text \<open>The operand that the decoder table assembles from the same instruction for \<^verbatim>\<open>BL\<close>.\<close>

definition bl_fields :: "u32 \<Rightarrow> u32" where
  "bl_fields Insn =
     fieldFromInstruction_4 Insn 0 11 OR push_bit 11 (fieldFromInstruction_4 Insn 16 10) OR push_bit 21 (fieldFromInstruction_4 Insn 11 1)
     OR push_bit 22 (fieldFromInstruction_4 Insn 13 1) OR push_bit 23 (fieldFromInstruction_4 Insn 26 1)"

lemma field_1: "s < 32 \<Longrightarrow> fieldFromInstruction_4 v s 1 = (if bit v s then 1 else 0)"
  by (simp add: fieldFromInstruction_4_take_bit take_bit_Suc bit_iff_odd_drop_bit mod_2_eq_odd)

lemma bit_field: "s + n \<le> 32 \<Longrightarrow> bit (fieldFromInstruction_4 v s n) k \<longleftrightarrow> k < n \<and> bit v (s + k)"
  by (auto simp: fieldFromInstruction_4_take_bit bit_simps)

lemma bit_if_1: "bit (if c then 1 else 0 :: u32) k \<longleftrightarrow> c \<and> k = 0"
  by (simp add: bit_1_iff)

lemma T2B_like_BL: "DecodeT2BInstruction Inst Insn = DecodeThumbBLTargetOperand Inst (bl_fields Insn)"
proof -
  have f: "fieldFromInstruction_4 Insn s 1 = (if bit Insn s then 1 else 0)" if "s \<in> {11, 13, 26}" for s
    using that by (intro field_1) auto
  have b: "bit (bl_fields Insn) n \<longleftrightarrow>
      (if n < 11 then bit Insn n else if n < 21 then bit Insn (n + 5) else if n = 21 then bit Insn 11 else if n = 22 then bit Insn 13 else n = 23 \<and> bit Insn 26)" for n
    unfolding bl_fields_def bit_or_iff bit_push_bit_iff possible_bit_word
    by (cases "n = 23") (auto simp: bit_field add.commute)
  have x: "(if (if p then 1 else 0 :: u32) XOR (if q then 1 else 0) = 0 then 1 else 0 :: u32) = (if p = q then 1 else 0)" for p q
    by auto
  have "push_bit 23 (if bit Insn 26 then 1 else 0) OR push_bit 22 (if bit Insn 13 = bit Insn 26 then 1 else 0) OR push_bit 21 (if bit Insn 11 = bit Insn 26 then 1 else 0)
      OR push_bit 11 (fieldFromInstruction_4 Insn 16 10) OR fieldFromInstruction_4 Insn 0 11 = bl_swap (bl_fields Insn)" (is "?t = _")
  proof (rule bit_word_eqI)
    fix n
    assume n: "n < LENGTH(32)"
    show "bit ?t n = bit (bl_swap (bl_fields Insn)) n"
      unfolding bit_bl_swap b bit_or_iff bit_push_bit_iff possible_bit_word bit_if_1
      using n by (cases "n = 23") (auto simp: bit_field add.commute)
  qed
  then show ?thesis
    unfolding DecodeT2BInstruction_def DecodeThumbBLTargetOperand_def Let_def bl_offset_swap
    unfolding f [of 11, OF insertI1] f [of 13, OF insertI2 [OF insertI1]] f [of 26, OF insertI2 [OF insertI2 [OF insertI1]]] x by (simp only:)
qed



subsection \<open>Unpredictable encodings\<close>

lemma field_class:
  assumes "s + 4 \<le> 32"
  shows "DecodeGPRRegisterClass Inst (fieldFromInstruction_4 v s 4) =
    (MCDisassembler_Success, MCOperand_CreateReg0 Inst (GPRDecoderTable ! unat (fieldFromInstruction_4 v s 4)))"
  using field_less [OF assms, of v] by (simp add: DecodeGPRRegisterClass_def word_less_nat_alt)

lemma check_return_Success [simp]: "check_return S (MCDisassembler_Success, i) = (S, i)"
  by (cases S) (simp_all add: check_return_def)

lemma fst_check_last: "fst (check_last S d) = fst (Check S (fst d))"
  by (cases "(S, fst d)" rule: Check.cases) (auto simp: check_last_def check_then_def)

text \<open>C40: the decoder of the table branches marks as unpredictable the encodings whose base register is number 12 and not, as
  the architecture says, number 13: it compares the field with the enumeration value of \<^verbatim>\<open>ARM_SP\<close>.\<close>

theorem table_branch_marks_R12:
  "fst (DecodeThumbTableBranch Inst Insn) =
     (if fieldFromInstruction_4 Insn 16 4 = 12 \<or> fieldFromInstruction_4 Insn 0 4 \<in> {13, 15}
      then MCDisassembler_SoftFail else MCDisassembler_Success)"
  unfolding DecodeThumbTableBranch_def Let_def DecoderGPRRegisterClass_def soft_if_def ARM_SP_number_def
  by (simp add: field_class fst_check_last)

text \<open>The moves between two core and two single registers mark the pair that begins with \<^verbatim>\<open>S31\<close> as unpredictable, but then
  fail on the second register.\<close>

lemma VMOV_last_pair_fails:
  assumes "fieldFromInstruction_4 Insn 5 1 OR push_bit 1 (fieldFromInstruction_4 Insn 0 4) = 0x1F"
  shows "fst (DecodeVMOVSRR Inst Insn) = MCDisassembler_Fail \<and> fst (DecodeVMOVRRS Inst Insn) = MCDisassembler_Fail"
  using assms unfolding DecodeVMOVSRR_def DecodeVMOVRRS_def Let_def assms soft_if_def
  by (simp add: DecodeSPRRegisterClass_def field_class check_then_def)

end
