(* ===== verification/CS_Stream.thy ===== *)
theory CS_Stream
  imports MC_Inst
begin

text \<open>The text buffer of the printers (\<^verbatim>\<open>capstone/SStream.c\<close>, \<^verbatim>\<open>SStream.h\<close>).  The buffer is an array of 512 characters
  with the index of the terminating NUL; \<open>None\<close> stands for a write outside the array.  The formatted text that
  \<^verbatim>\<open>SStream_concat\<close> hands to \<^verbatim>\<open>vsnprintf\<close> is its argument; \<open>hex\<close> and \<open>dec\<close> are the conversions \<^verbatim>\<open>%x\<close> and
  \<^verbatim>\<open>%u\<close> of the C library.\<close>

unbundle bit_operations_syntax

subsection \<open>Numbers in text\<close>

definition digit :: "nat \<Rightarrow> char" where
  "digit d = ''0123456789abcdef'' ! d"

function radix :: "nat \<Rightarrow> nat \<Rightarrow> string" where
  "radix b n = (if b < 2 \<or> n < b then [digit n] else radix b (n div b) @ [digit (n mod b)])"
  by pat_completeness auto

termination radix
  by (relation "measure snd") auto

declare radix.simps [simp del]

definition hex :: "'w::len word \<Rightarrow> string" where
  "hex v = radix 16 (unat v)"

definition dec :: "'w::len word \<Rightarrow> string" where
  "dec v = radix 10 (unat v)"

subsection \<open>The stream\<close>

definition NUL :: char where
  "NUL = CHR 0x00"

definition SSTREAM_SIZE :: nat where
  "SSTREAM_SIZE = 512"

record SStream =
  sbuffer :: string
  sindex :: nat

text \<open>Writing the characters of \<open>s\<close> from position \<open>i\<close> on.\<close>

definition write_at :: "string \<Rightarrow> nat \<Rightarrow> string \<Rightarrow> string" where
  "write_at buf i s = take i buf @ s @ drop (i + length s) buf"

definition SStream_Init :: "SStream \<Rightarrow> SStream" where
  "SStream_Init ss = ss\<lparr>sindex := 0, sbuffer := write_at (sbuffer ss) 0 [NUL]\<rparr>"

definition SStream_concat0 :: "SStream \<Rightarrow> string \<Rightarrow> SStream option" where
  "SStream_concat0 ss s =
     (if sindex ss + length s < SSTREAM_SIZE
      then Some (ss\<lparr>sbuffer := write_at (sbuffer ss) (sindex ss) (s @ [NUL]), sindex := sindex ss + length s\<rparr>)
      else None)"

text \<open>What \<^verbatim>\<open>vsnprintf\<close> stores in \<open>n\<close> bytes; it returns the length of the whole text.\<close>

definition vsnprintf :: "nat \<Rightarrow> string \<Rightarrow> string" where
  "vsnprintf n text = (if n = 0 then [] else take (n - 1) text @ [NUL])"

definition SStream_concat :: "SStream \<Rightarrow> string \<Rightarrow> SStream option" where
  "SStream_concat ss text =
     (if sindex ss < SSTREAM_SIZE
      then Some (ss\<lparr>sbuffer := write_at (sbuffer ss) (sindex ss) (vsnprintf (SSTREAM_SIZE - (sindex ss + 1)) text),
                    sindex := sindex ss + length text\<rparr>)
      else None)"

subsection \<open>Printing numbers\<close>

definition HEX_THRESHOLD :: nat where
  "HEX_THRESHOLD = 9"

definition printInt64Bang :: "SStream \<Rightarrow> u64 \<Rightarrow> SStream option" where
  "printInt64Bang ss val =
     (if sint val \<ge> 0 then
        if sint val > int HEX_THRESHOLD then SStream_concat ss (''#0x'' @ hex val) else SStream_concat ss (''#'' @ dec val)
      else if sint val < - int HEX_THRESHOLD then SStream_concat ss (''#-0x'' @ hex (- val))
      else SStream_concat ss (''#-'' @ dec (- val)))"

definition printUInt64Bang :: "SStream \<Rightarrow> u64 \<Rightarrow> SStream option" where
  "printUInt64Bang ss val =
     (if unat val > HEX_THRESHOLD then SStream_concat ss (''#0x'' @ hex val) else SStream_concat ss (''#'' @ dec val))"

definition printInt64 :: "SStream \<Rightarrow> u64 \<Rightarrow> SStream option" where
  "printInt64 ss val =
     (if sint val \<ge> 0 then
        if sint val > int HEX_THRESHOLD then SStream_concat ss (''0x'' @ hex val) else SStream_concat ss (dec val)
      else if sint val < - int HEX_THRESHOLD then SStream_concat ss (''-0x'' @ hex (- val))
      else SStream_concat ss (''-'' @ dec (- val)))"

definition printInt32BangDec :: "SStream \<Rightarrow> u32 \<Rightarrow> SStream option" where
  "printInt32BangDec ss val =
     (if sint val \<ge> 0 then SStream_concat ss (''#'' @ dec val) else SStream_concat ss (''#-'' @ dec (- val)))"

definition printInt32Bang :: "SStream \<Rightarrow> u32 \<Rightarrow> SStream option" where
  "printInt32Bang ss val =
     (if sint val \<ge> 0 then
        if sint val > int HEX_THRESHOLD then SStream_concat ss (''#0x'' @ hex val) else SStream_concat ss (''#'' @ dec val)
      else if sint val < - int HEX_THRESHOLD then SStream_concat ss (''#-0x'' @ hex (- val))
      else SStream_concat ss (''#-'' @ dec (- val)))"

definition printInt32 :: "SStream \<Rightarrow> u32 \<Rightarrow> SStream option" where
  "printInt32 ss val =
     (if sint val \<ge> 0 then
        if sint val > int HEX_THRESHOLD then SStream_concat ss (''0x'' @ hex val) else SStream_concat ss (dec val)
      else if sint val < - int HEX_THRESHOLD then SStream_concat ss (''-0x'' @ hex (- val))
      else SStream_concat ss (''-'' @ dec (- val)))"

definition printUInt32Bang :: "SStream \<Rightarrow> u32 \<Rightarrow> SStream option" where
  "printUInt32Bang ss val =
     (if unat val > HEX_THRESHOLD then SStream_concat ss (''#0x'' @ hex val) else SStream_concat ss (''#'' @ dec val))"

definition printUInt32 :: "SStream \<Rightarrow> u32 \<Rightarrow> SStream option" where
  "printUInt32 ss val =
     (if unat val > HEX_THRESHOLD then SStream_concat ss (''0x'' @ hex val) else SStream_concat ss (dec val))"

subsection \<open>The text of a stream\<close>

text \<open>A stream is well formed when the index is that of the first NUL.\<close>

definition stream_ok :: "SStream \<Rightarrow> bool" where
  "stream_ok ss \<longleftrightarrow> length (sbuffer ss) = SSTREAM_SIZE \<and> sindex ss < SSTREAM_SIZE \<and> sbuffer ss ! sindex ss = NUL
     \<and> NUL \<notin> set (take (sindex ss) (sbuffer ss))"

definition stream_text :: "SStream \<Rightarrow> string" where
  "stream_text ss = takeWhile (\<lambda>c. c \<noteq> NUL) (sbuffer ss)"

lemma length_write_at: "i + length s \<le> length buf \<Longrightarrow> length (write_at buf i s) = length buf"
  by (simp add: write_at_def)

lemma stream_text_index: "stream_ok ss \<Longrightarrow> stream_text ss = take (sindex ss) (sbuffer ss)"
proof -
  assume s: "stream_ok ss"
  have "sbuffer ss = take (sindex ss) (sbuffer ss) @ NUL # drop (Suc (sindex ss)) (sbuffer ss)"
    using s id_take_nth_drop [of "sindex ss" "sbuffer ss"] by (simp add: stream_ok_def)
  then have "stream_text ss = takeWhile (\<lambda>c. c \<noteq> NUL) (take (sindex ss) (sbuffer ss) @ NUL # drop (Suc (sindex ss)) (sbuffer ss))"
    by (simp add: stream_text_def)
  also have "\<dots> = take (sindex ss) (sbuffer ss)"
    using s by (subst takeWhile_append2) (auto simp: stream_ok_def)
  finally show ?thesis .
qed

lemma append_text:
  assumes "stream_ok ss" "sindex ss + length s < SSTREAM_SIZE" "NUL \<notin> set s"
  shows "stream_ok (ss\<lparr>sbuffer := write_at (sbuffer ss) (sindex ss) (s @ [NUL]), sindex := sindex ss + length s\<rparr>)"
    and "stream_text (ss\<lparr>sbuffer := write_at (sbuffer ss) (sindex ss) (s @ [NUL]), sindex := sindex ss + length s\<rparr>) = stream_text ss @ s"
proof -
  let ?ss = "ss\<lparr>sbuffer := write_at (sbuffer ss) (sindex ss) (s @ [NUL]), sindex := sindex ss + length s\<rparr>"
  have l: "length (take (sindex ss) (sbuffer ss)) = sindex ss" using assms(1) by (simp add: stream_ok_def)
  then show ok: "stream_ok ?ss"
    using assms by (auto simp: stream_ok_def write_at_def nth_append)
  show "stream_text ?ss = stream_text ss @ s"
    unfolding stream_text_index [OF ok] stream_text_index [OF assms(1)] using l by (simp add: write_at_def)
qed

lemma SStream_Init_ok: "length (sbuffer ss) = SSTREAM_SIZE \<Longrightarrow> stream_ok (SStream_Init ss) \<and> stream_text (SStream_Init ss) = []"
  by (auto simp: stream_ok_def SStream_Init_def write_at_def stream_text_def SSTREAM_SIZE_def)

lemma SStream_concat0_text:
  assumes "stream_ok ss" "sindex ss + length s < SSTREAM_SIZE" "NUL \<notin> set s"
  shows "\<exists>ss'. SStream_concat0 ss s = Some ss' \<and> stream_ok ss' \<and> stream_text ss' = stream_text ss @ s \<and> sindex ss' = sindex ss + length s"
  using append_text [OF assms] assms(2) by (simp add: SStream_concat0_def)

text \<open>\<^verbatim>\<open>SStream_concat\<close> leaves one byte more unused than it has to.\<close>

lemma SStream_concat_text:
  assumes "stream_ok ss" "sindex ss + length s + 2 \<le> SSTREAM_SIZE" "NUL \<notin> set s"
  shows "\<exists>ss'. SStream_concat ss s = Some ss' \<and> stream_ok ss' \<and> stream_text ss' = stream_text ss @ s \<and> sindex ss' = sindex ss + length s"
proof -
  have "vsnprintf (SSTREAM_SIZE - (sindex ss + 1)) s = s @ [NUL]"
    using assms(2) by (auto simp: vsnprintf_def)
  then show ?thesis using append_text [of ss s] assms by (simp add: SStream_concat_def)
qed

subsection \<open>Reading the numbers back\<close>

definition digit_val :: "char \<Rightarrow> nat" where
  "digit_val c = (let n = of_char c in if n < 58 then n - 48 else n - 87)"

definition read_radix :: "nat \<Rightarrow> string \<Rightarrow> nat" where
  "read_radix b s = foldl (\<lambda>a c. a * b + digit_val c) 0 s"

definition read_number :: "string \<Rightarrow> int" where
  "read_number s =
     (let s = (if take 1 s = ''#'' then drop 1 s else s);
          neg = (take 1 s = ''-'');
          s = (if neg then drop 1 s else s);
          v = (if take 2 s = ''0x'' then read_radix 16 (drop 2 s) else read_radix 10 s)
      in if neg then - int v else int v)"

lemma digit_val_digit: "d < 16 \<Longrightarrow> digit_val (digit d) = d"
proof -
  have "\<forall>d \<in> set [0..<16]. digit_val (digit d) = d" by code_simp
  then show "d < 16 \<Longrightarrow> digit_val (digit d) = d" by simp
qed

lemma digit_chars: "d < 16 \<Longrightarrow> digit d \<in> set ''0123456789abcdef''"
  by (simp only: digit_def) (intro nth_mem, simp)

lemma read_radix_snoc: "read_radix b (s @ [c]) = read_radix b s * b + digit_val c"
  by (simp add: read_radix_def)

lemma mod_digit: "2 \<le> b \<Longrightarrow> b \<le> 16 \<Longrightarrow> n mod b < 16" for b :: nat
  using mod_less_divisor [of b n] by linarith

lemma read_radix_radix: "2 \<le> b \<Longrightarrow> b \<le> 16 \<Longrightarrow> read_radix b (radix b n) = n"
proof (induction b n rule: radix.induct)
  case (1 b n)
  show ?case
  proof (cases "n < b")
    case True
    then show ?thesis using 1(2,3) by (subst radix.simps) (simp add: read_radix_def digit_val_digit)
  next
    case False
    moreover have "n mod b < 16" using 1(2,3) by (rule mod_digit)
    ultimately show ?thesis
      using 1 by (subst radix.simps) (simp add: read_radix_snoc digit_val_digit)
  qed
qed

lemma radix_digits: "2 \<le> b \<Longrightarrow> b \<le> 16 \<Longrightarrow> (\<And>d. d < 16 \<Longrightarrow> digit d \<in> D) \<Longrightarrow> set (radix b n) \<subseteq> D"
proof (induction b n rule: radix.induct)
  case (1 b n)
  have "n mod b < 16" using 1(2,3) by (rule mod_digit)
  then show ?case using 1 by (subst radix.simps) auto
qed

lemma radix_chars: "2 \<le> b \<Longrightarrow> b \<le> 16 \<Longrightarrow> set (radix b n) \<subseteq> set ''0123456789abcdef''"
  by (rule radix_digits [OF _ _ digit_chars])

lemma length_radix:
  assumes "2 \<le> b"
  shows "n < b ^ k \<Longrightarrow> 0 < k \<Longrightarrow> length (radix b n) \<le> k"
proof (induction k arbitrary: n)
  case (Suc k)
  show ?case
  proof (cases "n < b")
    case True
    then show ?thesis by (subst radix.simps) simp
  next
    case False
    then have "0 < k" using Suc.prems(1) by (cases k) simp_all
    moreover have "n div b < b ^ k" using Suc.prems(1) by (simp add: less_mult_imp_div_less mult.commute)
    ultimately show ?thesis using Suc.IH [of "n div b"] False assms by (subst radix.simps) simp
  qed
qed simp

lemma take_digits:
  assumes "2 \<le> b" "b \<le> 16"
  shows "take 1 (radix b n) \<noteq> ''#''" "take 1 (radix b n) \<noteq> ''-''" "take 2 (radix b n) \<noteq> ''0x''" "NUL \<notin> set (radix b n)"
proof -
  have c: "set (take k (radix b n)) \<subseteq> set ''0123456789abcdef''" for k
    using radix_chars [OF assms] set_take_subset by fast
  show "take 1 (radix b n) \<noteq> ''#''" "take 1 (radix b n) \<noteq> ''-''" "take 2 (radix b n) \<noteq> ''0x''"
    using c [of 1] c [of 2] by auto
  show "NUL \<notin> set (radix b n)" using radix_chars [OF assms, of n] by (auto simp: NUL_def)
qed

lemma read_number_forms:
  "read_number (''#0x'' @ radix 16 n) = int n" "read_number (''#-0x'' @ radix 16 n) = - int n"
  "read_number (''0x'' @ radix 16 n) = int n" "read_number (''-0x'' @ radix 16 n) = - int n"
  "read_number (''#'' @ radix 10 n) = int n" "read_number (''#-'' @ radix 10 n) = - int n"
  "read_number (radix 10 n) = int n" "read_number (''-'' @ radix 10 n) = - int n"
  using take_digits [of 10 n] take_digits [of 16 n] by (simp_all add: read_number_def read_radix_radix)

lemma sint_less_exp: "\<bar>sint v\<bar> < 2 ^ LENGTH('w)" for v :: "'w::len word"
proof -
  have "\<bar>sint v\<bar> \<le> 2 ^ (LENGTH('w) - 1)" using sint_ge [of v] sint_lt [of v] by linarith
  also have "\<dots> < 2 ^ LENGTH('w)" by (intro power_strict_increasing) simp_all
  finally show ?thesis .
qed

lemma uint_uminus_negative:
  fixes v :: "'w::len word"
  assumes "sint v < 0"
  shows "uint (- v) = - sint v"
proof -
  have "uint (word_of_int (- sint v) :: 'w word) = (- sint v) mod 2 ^ LENGTH('w)" by (rule uint_word_of_int)
  also have "\<dots> = - sint v" using assms sint_less_exp [of v] by (intro mod_pos_pos_trivial) simp_all
  finally show ?thesis by simp
qed

lemma uint_nonnegative: "0 \<le> sint v \<Longrightarrow> uint v = sint v" for v :: "'w::len word"
  using sint_less_exp [of v] by (simp add: uint_sint take_bit_int_eq_self)

text \<open>A printing function appends a text that stands for the number.\<close>

definition printed :: "SStream \<Rightarrow> SStream option \<Rightarrow> int \<Rightarrow> bool" where
  "printed ss r v \<longleftrightarrow>
     (\<exists>ss' t. r = Some ss' \<and> stream_ok ss' \<and> stream_text ss' = stream_text ss @ t \<and> read_number t = v)"

lemma printed_concat:
  assumes "stream_ok ss" "sindex ss + 26 \<le> SSTREAM_SIZE" "2 \<le> b" "b \<le> 16" "n < b ^ 20" "length p \<le> 4" "NUL \<notin> set p"
    "read_number (p @ radix b n) = v"
  shows "printed ss (SStream_concat ss (p @ radix b n)) v"
proof -
  have "length (p @ radix b n) + 2 \<le> 26" using length_radix [OF assms(3,5)] assms(6) by simp
  moreover have "NUL \<notin> set (p @ radix b n)" using assms(7) take_digits(4) [OF assms(3,4)] by simp
  ultimately show ?thesis
    using SStream_concat_text [of ss "p @ radix b n"] assms(1,2,8) unfolding printed_def by fastforce
qed

lemma printed_forms:
  assumes "stream_ok ss" "sindex ss + 26 \<le> SSTREAM_SIZE" "n < 10 ^ 20"
  shows "printed ss (SStream_concat ss (''#0x'' @ radix 16 n)) (int n)" "printed ss (SStream_concat ss (''#-0x'' @ radix 16 n)) (- int n)"
    "printed ss (SStream_concat ss (''0x'' @ radix 16 n)) (int n)" "printed ss (SStream_concat ss (''-0x'' @ radix 16 n)) (- int n)"
    "printed ss (SStream_concat ss (''#'' @ radix 10 n)) (int n)" "printed ss (SStream_concat ss (''#-'' @ radix 10 n)) (- int n)"
    "printed ss (SStream_concat ss (radix 10 n)) (int n)" "printed ss (SStream_concat ss (''-'' @ radix 10 n)) (- int n)"
proof -
  have "n < 16 ^ 20" using assms(3) by simp
  then show "printed ss (SStream_concat ss (''#0x'' @ radix 16 n)) (int n)" "printed ss (SStream_concat ss (''#-0x'' @ radix 16 n)) (- int n)"
      "printed ss (SStream_concat ss (''0x'' @ radix 16 n)) (int n)" "printed ss (SStream_concat ss (''-0x'' @ radix 16 n)) (- int n)"
    using assms by (intro printed_concat read_number_forms; simp add: NUL_def)+
  show "printed ss (SStream_concat ss (''#'' @ radix 10 n)) (int n)" "printed ss (SStream_concat ss (''#-'' @ radix 10 n)) (- int n)"
      "printed ss (SStream_concat ss (''-'' @ radix 10 n)) (- int n)"
    using assms by (intro printed_concat read_number_forms; simp add: NUL_def)+
  show "printed ss (SStream_concat ss (radix 10 n)) (int n)"
    using printed_concat [OF assms(1,2), of 10 n "[]" "int n"] assms(3) by (simp add: read_number_forms)
qed

lemma printed_signed:
  fixes v :: "'w::len word"
  assumes "stream_ok ss" "sindex ss + 26 \<le> SSTREAM_SIZE" "LENGTH('w) \<le> 64"
  shows "printed ss (if 0 \<le> sint v then if c then SStream_concat ss (''#0x'' @ hex v) else SStream_concat ss (''#'' @ dec v)
       else if d then SStream_concat ss (''#-0x'' @ hex (- v)) else SStream_concat ss (''#-'' @ dec (- v))) (sint v)"
    and "printed ss (if 0 \<le> sint v then if c then SStream_concat ss (''0x'' @ hex v) else SStream_concat ss (dec v)
       else if d then SStream_concat ss (''-0x'' @ hex (- v)) else SStream_concat ss (''-'' @ dec (- v))) (sint v)"
    and "printed ss (if c then SStream_concat ss (''#0x'' @ hex v) else SStream_concat ss (''#'' @ dec v)) (uint v)"
    and "printed ss (if c then SStream_concat ss (''0x'' @ hex v) else SStream_concat ss (dec v)) (uint v)"
proof -
  have b: "unat x < 10 ^ 20" for x :: "'w word"
  proof -
    have "unat x < 2 ^ LENGTH('w)" by (rule unsigned_less)
    also have "\<dots> \<le> 2 ^ 64" using assms(3) by (intro power_increasing) simp_all
    finally show ?thesis by simp
  qed
  note f = printed_forms [OF assms(1,2) b [of v]] printed_forms [OF assms(1,2) b [of "- v"]]
  have p: "sint v = int (unat v)" if "0 \<le> sint v" using that by (simp add: uint_nonnegative)
  have n: "sint v = - int (unat (- v))" if "\<not> 0 \<le> sint v" using that by (simp add: uint_uminus_negative)
  show "printed ss (if 0 \<le> sint v then if c then SStream_concat ss (''#0x'' @ hex v) else SStream_concat ss (''#'' @ dec v)
       else if d then SStream_concat ss (''#-0x'' @ hex (- v)) else SStream_concat ss (''#-'' @ dec (- v))) (sint v)"
    and "printed ss (if 0 \<le> sint v then if c then SStream_concat ss (''0x'' @ hex v) else SStream_concat ss (dec v)
       else if d then SStream_concat ss (''-0x'' @ hex (- v)) else SStream_concat ss (''-'' @ dec (- v))) (sint v)"
    using p n f unfolding hex_def dec_def by (cases "0 \<le> sint v"; simp)+
  show "printed ss (if c then SStream_concat ss (''#0x'' @ hex v) else SStream_concat ss (''#'' @ dec v)) (uint v)"
    and "printed ss (if c then SStream_concat ss (''0x'' @ hex v) else SStream_concat ss (dec v)) (uint v)"
    using f unfolding hex_def dec_def by simp_all
qed


definition empty_stream :: SStream where
  "empty_stream = SStream_Init \<lparr>sbuffer = replicate 512 CHR ''?'', sindex = 0\<rparr>"


end
