(* ===== verification/CS_Mapping.thy ===== *)
theory CS_Mapping
  imports CS_Stream ARM_Opcodes
begin

text \<open>The instruction map of Capstone: the look-up with its cache (\<^verbatim>\<open>capstone/utils.c\<close>), the detail record of the
  public interface and the function that fills it in for ARM (\<^verbatim>\<open>capstone/arch/ARM/ARMMapping.c\<close>).  Memory that
  \<^verbatim>\<open>malloc\<close> returns is a parameter; \<open>None\<close> stands for an access outside an array.\<close>

unbundle bit_operations_syntax

subsection \<open>The instruction map\<close>

record insn_map =
  map_id :: nat
  mapid :: nat
  regs_use :: "u8 list"
  regs_mod :: "u8 list"
  map_groups :: "u8 list"
  branch :: bool
  indirect_branch :: bool

text \<open>The loop over the entries after the first, whose counter has 16 bits: the map has fewer than 65536 entries, since the loop
  does not end on a larger one.  \<open>cache\<close> is the fresh memory, of the size of the greatest number plus one.\<close>

definition make_id2insn :: "insn_map list \<Rightarrow> nat list \<Rightarrow> nat list" where
  "make_id2insn insns cache = fold (\<lambda>i c. c[map_id (insns ! i) := i]) [1..<length insns] cache"

text \<open>The found index and the cache; \<open>fresh\<close> is the memory for the cache.\<close>

definition insn_find :: "insn_map list \<Rightarrow> nat \<Rightarrow> nat list \<Rightarrow> nat list option \<Rightarrow> nat \<times> nat list option" where
  "insn_find insns ident fresh cache =
     (if ident > map_id (insns ! (length insns - 1)) then (0, cache)
      else
        (let c = (case cache of None \<Rightarrow> make_id2insn insns fresh | Some c \<Rightarrow> c)
         in (c ! ident, Some c)))"

record name_map =
  name_id :: nat
  name_of :: "string option"

text \<open>\<open>None\<close> where a null pointer is compared; the number of an entry is converted to a signed one.\<close>

fun name2id :: "name_map list \<Rightarrow> string \<Rightarrow> int option" where
  "name2id [] name = Some (- 1)"
| "name2id (m # ms) name =
     (case name_of m of None \<Rightarrow> None | Some s \<Rightarrow> if s = name then Some (sint (of_nat (name_id m) :: u32)) else name2id ms name)"

fun count_positive :: "u8 list \<Rightarrow> nat option" where
  "count_positive [] = None"
| "count_positive (x # list) = (if x > 0 then map_option Suc (count_positive list) else Some 0)"

subsection \<open>Details of an instruction\<close>

text \<open>An operand as the interface shows it.  The members of the union are four words: \<^verbatim>\<open>reg\<close>, \<^verbatim>\<open>imm\<close>, \<^verbatim>\<open>setend\<close> and \<^verbatim>\<open>mem.base\<close>
  share the first, \<^verbatim>\<open>mem.index\<close>, \<^verbatim>\<open>mem.scale\<close> and \<^verbatim>\<open>mem.disp\<close> are the others, and \<^verbatim>\<open>fp\<close> takes the first two.\<close>

record cs_arm_op =
  vector_index :: u32
  shift_type :: u32
  shift_value :: u32
  opnd_type :: u32
  word0 :: u32
  word1 :: u32
  word2 :: u32
  word3 :: u32
  subtracted :: bool

text \<open>The details, with the member of the union for ARM from \<^verbatim>\<open>usermode\<close> on; \<open>wback\<close> is its \<^verbatim>\<open>writeback\<close> and \<open>arm_cc\<close> its
  \<^verbatim>\<open>cc\<close>.\<close>

record cs_detail =
  regs_read :: "u8 list"
  regs_read_count :: u8
  regs_write :: "u8 list"
  regs_write_count :: u8
  groups :: "u8 list"
  groups_count :: u8
  usermode :: bool
  vector_size :: u32
  vector_data :: u32
  cps_mode :: u32
  cps_flag :: u32
  arm_cc :: u32
  update_flags :: bool
  wback :: bool
  mem_barrier :: u32
  op_count :: u8
  operands :: "cs_arm_op list"

definition ARM_OPERANDS :: nat where "ARM_OPERANDS = 36"

text \<open>The types of the operands in use, as \<^verbatim>\<open>cs_op_count\<close> and \<^verbatim>\<open>cs_op_index\<close> read them.\<close>

definition op_types :: "cs_detail \<Rightarrow> u32 list" where
  "op_types d = map opnd_type (take (unat (op_count d)) (operands d))"

definition ARM_REG_CPSR :: u32 where "ARM_REG_CPSR = 3"
definition ARM_GRP_JUMP :: u8 where "ARM_GRP_JUMP = 1"

fun arr_exist :: "u8 list \<Rightarrow> nat \<Rightarrow> u32 \<Rightarrow> bool" where
  "arr_exist arr 0 ident = False"
| "arr_exist [] (Suc n) ident = False"
| "arr_exist (x # arr) (Suc n) ident = (ucast x = ident \<or> arr_exist arr n ident)"

text \<open>The part of \<^verbatim>\<open>ARM_get_insn_id\<close> that copies the lists of an entry.  \<^verbatim>\<open>cs_reg_write\<close> is called with a handle whose details
  are on and an instruction that has them, so that it looks only at the list of written registers unless the public number
  of the instruction is 0.\<close>

definition fill_detail :: "insn_map \<Rightarrow> nat \<Rightarrow> cs_detail \<Rightarrow> cs_detail option" where
  "fill_detail m ident d =
     (case (count_positive (regs_use m), count_positive (regs_mod m), count_positive (map_groups m)) of
        (Some r, Some w, Some g) \<Rightarrow>
          (let d = d\<lparr>regs_read := regs_use m, regs_read_count := of_nat r, regs_write := regs_mod m,
                     regs_write_count := of_nat w, groups := map_groups m, groups_count := of_nat g\<rparr>;
               d = d\<lparr>update_flags := (ident \<noteq> 0 \<and> arr_exist (regs_write d) (unat (regs_write_count d)) ARM_REG_CPSR)\<rparr>
           in if branch m \<or> indirect_branch m then
                if unat (groups_count d) < length (groups d) then
                  Some (d\<lparr>groups := (groups d)[unat (groups_count d) := ARM_GRP_JUMP], groups_count := groups_count d + 1\<rparr>)
                else None
              else Some d)
      | _ \<Rightarrow> None)"

subsection \<open>The look-up\<close>

text \<open>A map whose numbers increase, as the comment of \<^verbatim>\<open>make_id2insn\<close> asks for in part.\<close>

definition increasing :: "insn_map list \<Rightarrow> bool" where
  "increasing insns \<longleftrightarrow> insns \<noteq> [] \<and> length insns < 65536 \<and> sorted_wrt (<) (map map_id insns)"

lemma increasing_less: "increasing insns \<Longrightarrow> i < j \<Longrightarrow> j < length insns \<Longrightarrow> map_id (insns ! i) < map_id (insns ! j)"
  by (simp add: increasing_def sorted_wrt_map sorted_wrt_iff_nth_less)

lemma increasing_last: "increasing insns \<Longrightarrow> i < length insns \<Longrightarrow> map_id (insns ! i) \<le> map_id (insns ! (length insns - 1))"
proof (cases "i = length insns - 1")
  case False
  moreover assume "increasing insns" "i < length insns"
  ultimately have "i < length insns - 1" "length insns - 1 < length insns" by linarith+
  then show ?thesis using increasing_less [OF \<open>increasing insns\<close>] less_imp_le by blast
qed simp

lemma length_fold_update: "length (fold (\<lambda>i c. c[f i := g i]) is c) = length c"
  by (induction "is" arbitrary: c) simp_all

text \<open>What the loop leaves at a position: the last index that wrote to it, or what was there.\<close>

lemma make_id2insn_nth:
  assumes "increasing insns" "length fresh = map_id (insns ! (length insns - 1)) + 1" "n \<le> length insns"
  shows "(\<forall>i. 1 \<le> i \<and> i < n \<longrightarrow> fold (\<lambda>i c. c[map_id (insns ! i) := i]) [1..<n] fresh ! map_id (insns ! i) = i) \<and>
    (\<forall>ident. (\<forall>i. 1 \<le> i \<and> i < n \<longrightarrow> map_id (insns ! i) \<noteq> ident) \<longrightarrow>
       fold (\<lambda>i c. c[map_id (insns ! i) := i]) [1..<n] fresh ! ident = fresh ! ident)"
  using assms(3)
proof (induction n)
  case (Suc n)
  show ?case
  proof (cases "n = 0")
    case False
    let ?c = "fold (\<lambda>i c. c[map_id (insns ! i) := i]) [1..<n] fresh"
    have s: "fold (\<lambda>i c. c[map_id (insns ! i) := i]) [1..<Suc n] fresh = ?c[map_id (insns ! n) := n]" using False by simp
    have l: "map_id (insns ! n) < length ?c"
      using increasing_last [OF assms(1), of n] Suc.prems assms(2) by (simp add: length_fold_update)
    have d: "map_id (insns ! n) \<noteq> map_id (insns ! i)" if "i < n" for i
      using increasing_less [OF assms(1) that] Suc.prems by simp
    note IH = Suc.IH [OF Suc_leD [OF Suc.prems]]
    show ?thesis unfolding s
    proof (intro conjI allI impI)
      fix i assume "1 \<le> i \<and> i < Suc n"
      then show "?c[map_id (insns ! n) := n] ! map_id (insns ! i) = i"
        using IH d l by (cases "i = n") simp_all
    next
      fix ident assume i: "\<forall>i. 1 \<le> i \<and> i < Suc n \<longrightarrow> map_id (insns ! i) \<noteq> ident"
      then have "map_id (insns ! n) \<noteq> ident" using False by auto
      then show "?c[map_id (insns ! n) := n] ! ident = fresh ! ident" using IH i by simp
    qed
  qed simp
qed simp

lemma insn_find_spec:
  assumes "increasing insns" "length fresh = map_id (insns ! (length insns - 1)) + 1"
  shows "1 \<le> i \<and> i < length insns \<Longrightarrow> fst (insn_find insns (map_id (insns ! i)) fresh None) = i"
    and "ident \<notin> map_id ` set (tl insns) \<Longrightarrow>
      fst (insn_find insns ident fresh None) = (if ident > map_id (insns ! (length insns - 1)) then 0 else fresh ! ident)"
proof -
  note m = make_id2insn_nth [OF assms order_refl]
  show "1 \<le> i \<and> i < length insns \<Longrightarrow> fst (insn_find insns (map_id (insns ! i)) fresh None) = i"
    using m increasing_last [OF assms(1), of i] by (auto simp: insn_find_def make_id2insn_def)
  assume ident: "ident \<notin> map_id ` set (tl insns)"
  have "map_id (insns ! i) \<noteq> ident" if "1 \<le> i \<and> i < length insns" for i
  proof -
    have "insns ! i = tl insns ! (i - 1)" "i - 1 < length (tl insns)" using that by (cases insns; simp)+
    then have "insns ! i \<in> set (tl insns)" by simp
    then show ?thesis using ident by blast
  qed
  then show "fst (insn_find insns ident fresh None) = (if ident > map_id (insns ! (length insns - 1)) then 0 else fresh ! ident)"
    using m by (simp add: insn_find_def make_id2insn_def)
qed

text \<open>C35: the cached look-up returns the index of the entry with the number sought and keeps its cache, so that later look-ups
  agree with the first.  For a number that has no entry it returns 0 when the number is beyond the greatest, but otherwise
  what the memory for the cache happened to hold, although its comment promises 0.\<close>

theorem insn_find_correct:
  assumes "increasing insns" "length fresh = map_id (insns ! (length insns - 1)) + 1"
    and "insn_find insns ident fresh None = (k, cache)"
  shows "(if ident \<in> map_id ` set (tl insns) then 1 \<le> k \<and> k < length insns \<and> map_id (insns ! k) = ident
      else k = (if ident > map_id (insns ! (length insns - 1)) then 0 else fresh ! ident))
    \<and> insn_find insns ident fresh' cache = (case cache of None \<Rightarrow> insn_find insns ident fresh' None | Some c \<Rightarrow> (k, cache))"
proof
  show "if ident \<in> map_id ` set (tl insns) then 1 \<le> k \<and> k < length insns \<and> map_id (insns ! k) = ident
      else k = (if ident > map_id (insns ! (length insns - 1)) then 0 else fresh ! ident)"
  proof (cases "ident \<in> map_id ` set (tl insns)")
    case True
    then obtain j where j: "j < length (tl insns)" "ident = map_id (tl insns ! j)" by (auto simp: in_set_conv_nth)
    then have i: "1 \<le> Suc j \<and> Suc j < length insns" "ident = map_id (insns ! Suc j)" by (auto simp: nth_tl)
    then have "k = Suc j" using insn_find_spec(1) [OF assms(1,2) i(1)] assms(3) by simp
    then show ?thesis using True i by simp
  next
    case False
    then show ?thesis using insn_find_spec(2) [OF assms(1,2) False] assms(3) by simp
  qed
  show "insn_find insns ident fresh' cache = (case cache of None \<Rightarrow> insn_find insns ident fresh' None | Some c \<Rightarrow> (k, cache))"
    using assms(3) by (auto simp: insn_find_def Let_def split: if_splits option.splits)
qed

definition example_map :: "insn_map list" where
  "example_map = map (\<lambda>i. \<lparr>map_id = i, mapid = i, regs_use = [0], regs_mod = [3, 0], map_groups = [0], branch = False, indirect_branch = False\<rparr>) [0, 2, 5]"

lemma example_map_increasing: "increasing example_map" "length (replicate 6 (9 :: nat)) = map_id (example_map ! (length example_map - 1)) + 1"
  by (simp_all add: example_map_def increasing_def)

theorem insn_find_correct_witness:
  "\<exists>k c. insn_find example_map 5 (replicate 6 9) None = (k, c) \<and> map_id (example_map ! k) = 5"
proof -
  obtain k c where e: "insn_find example_map 5 (replicate 6 9) None = (k, c)" by fastforce
  have "5 \<in> map_id ` set (tl example_map)" by (simp add: example_map_def)
  then have "map_id (example_map ! k) = 5" using insn_find_correct [OF example_map_increasing e, of "[]"] by simp
  then show ?thesis using e by blast
qed

end
