(* ===== verification/ARM_ITBlock.thy ===== *)
theory ARM_ITBlock
  imports ARM_Decode_Bounds
begin

text \<open>The state of a Thumb IT block: the stack of conditions of
  \<^verbatim>\<open>capstone/arch/ARM/ARMDisassembler.c\<close> (\<^verbatim>\<open>ITStatus_*\<close>, over the \<^verbatim>\<open>ARM_ITStatus\<close> of
  \<^verbatim>\<open>cs_priv.h\<close>) and its refinement of the register \<^verbatim>\<open>ITSTATE\<close> of the architecture.\<close>

unbundle bit_operations_syntax

subsection \<open>The stack of conditions\<close>

text \<open>\<open>ITStates\<close> is the array of eight bytes, of which the first \<open>IT_size\<close> are in use.\<close>

record ARM_ITStatus =
  ITStates :: "8 word list"
  IT_size :: nat

definition ITStatus_push_back :: "ARM_ITStatus \<Rightarrow> 8 word \<Rightarrow> ARM_ITStatus" where
  "ITStatus_push_back it v =
     (let it = (if IT_size it \<ge> length (ITStates it) then it\<lparr>IT_size := 0\<rparr> else it)
      in it\<lparr>ITStates := (ITStates it)[IT_size it := v], IT_size := IT_size it + 1\<rparr>)"

definition ITStatus_instrInITBlock :: "ARM_ITStatus \<Rightarrow> bool" where
  "ITStatus_instrInITBlock it \<longleftrightarrow> IT_size it > 0"

definition ITStatus_instrLastInITBlock :: "ARM_ITStatus \<Rightarrow> bool" where
  "ITStatus_instrLastInITBlock it \<longleftrightarrow> IT_size it = 1"

definition ITStatus_getITCC :: "ARM_ITStatus \<Rightarrow> u32" where
  "ITStatus_getITCC it =
     (if ITStatus_instrInITBlock it then ucast (ITStates it ! (IT_size it - 1)) else ARMCC_AL)"

text \<open>The size is an \<^verbatim>\<open>unsigned int\<close>, so the decrement of zero wraps around.\<close>

definition ITStatus_advanceITState :: "ARM_ITStatus \<Rightarrow> ARM_ITStatus" where
  "ITStatus_advanceITState it = it\<lparr>IT_size := (if IT_size it = 0 then 2 ^ 32 - 1 else IT_size it - 1)\<rparr>"

definition ITStatus_setITState :: "ARM_ITStatus \<Rightarrow> 8 word \<Rightarrow> 8 word \<Rightarrow> ARM_ITStatus" where
  "ITStatus_setITState it Firstcond Mask =
     (let CondBit0 = Firstcond AND 1;
          NumTZ = unat (CountTrailingZeros_32 (scast Mask));
          CCBits = Firstcond AND 0xf;
          it = fold (\<lambda>Pos it.
                 ITStatus_push_back it (if drop_bit Pos Mask AND 1 = CondBit0 then CCBits else CCBits XOR 1))
                 [NumTZ + 1..<4] it
      in ITStatus_push_back it CCBits)"

subsection \<open>The stack as a list\<close>

definition IT_conds :: "ARM_ITStatus \<Rightarrow> 8 word list" where
  "IT_conds it = rev (take (IT_size it) (ITStates it))"

definition IT_ok :: "ARM_ITStatus \<Rightarrow> bool" where
  "IT_ok it \<longleftrightarrow> length (ITStates it) = 8 \<and> IT_size it \<le> 4"

lemma take_list_update_Suc: "i < length xs \<Longrightarrow> take (Suc i) (xs[i := v]) = take i xs @ [v]"
  by (simp add: take_Suc_conv_app_nth)

lemma push_back_conds:
  "length (ITStates it) = 8 \<Longrightarrow> IT_size it < 8 \<Longrightarrow>
   IT_conds (ITStatus_push_back it v) = v # IT_conds it \<and> length (ITStates (ITStatus_push_back it v)) = 8 \<and>
   IT_size (ITStatus_push_back it v) = IT_size it + 1"
  by (simp add: ITStatus_push_back_def IT_conds_def take_list_update_Suc Let_def)

lemma fold_push_back_conds:
  "length (ITStates it) = 8 \<Longrightarrow> IT_size it + length ps \<le> 8 \<Longrightarrow>
   IT_conds (fold (\<lambda>p it. ITStatus_push_back it (f p)) ps it) = rev (map f ps) @ IT_conds it \<and>
   length (ITStates (fold (\<lambda>p it. ITStatus_push_back it (f p)) ps it)) = 8 \<and>
   IT_size (fold (\<lambda>p it. ITStatus_push_back it (f p)) ps it) = IT_size it + length ps"
  by (induction ps arbitrary: it) (simp_all add: push_back_conds)

text \<open>The condition of the instruction that the bit \<open>Pos\<close> of the mask describes.\<close>

definition it_cond :: "8 word \<Rightarrow> 8 word \<Rightarrow> nat \<Rightarrow> 8 word" where
  "it_cond Firstcond Mask Pos =
     (if drop_bit Pos Mask AND 1 = Firstcond AND 1 then Firstcond AND 0xf else (Firstcond AND 0xf) XOR 1)"

lemma setITState_it_cond:
  "ITStatus_setITState it Firstcond Mask =
     ITStatus_push_back (fold (\<lambda>Pos it. ITStatus_push_back it (it_cond Firstcond Mask Pos))
       [unat (CountTrailingZeros_32 (scast Mask)) + 1..<4] it) (Firstcond AND 0xf)"
  by (simp add: ITStatus_setITState_def it_cond_def Let_def)

text \<open>From an empty block, the conditions of an IT instruction in the order of execution.\<close>

lemma setITState_conds:
  assumes "length (ITStates it) = 8" "IT_size it = 0"
  shows "IT_conds (ITStatus_setITState it Firstcond Mask) =
      (Firstcond AND 0xf) # rev (map (it_cond Firstcond Mask) [unat (CountTrailingZeros_32 (scast Mask)) + 1..<4])"
    and "IT_ok (ITStatus_setITState it Firstcond Mask)"
proof -
  define ps where "ps = [unat (CountTrailingZeros_32 (scast Mask)) + 1..<4]"
  define it' where "it' = fold (\<lambda>Pos it. ITStatus_push_back it (it_cond Firstcond Mask Pos)) ps it"
  have "length ps \<le> 3" by (simp add: ps_def)
  moreover have "IT_conds it = []" using assms(2) by (simp add: IT_conds_def)
  ultimately have f: "IT_conds it' = rev (map (it_cond Firstcond Mask) ps)" "length (ITStates it') = 8" "IT_size it' = length ps"
    using fold_push_back_conds [of it ps "it_cond Firstcond Mask"] assms by (simp_all add: it'_def)
  then have p: "IT_conds (ITStatus_push_back it' (Firstcond AND 0xf)) = (Firstcond AND 0xf) # rev (map (it_cond Firstcond Mask) ps)"
    "IT_ok (ITStatus_push_back it' (Firstcond AND 0xf))"
    using push_back_conds [of it' "Firstcond AND 0xf"] \<open>length ps \<le> 3\<close> by (simp_all add: IT_ok_def)
  have e: "ITStatus_setITState it Firstcond Mask = ITStatus_push_back it' (Firstcond AND 0xf)"
    by (simp add: setITState_it_cond it'_def ps_def)
  show "IT_conds (ITStatus_setITState it Firstcond Mask) = (Firstcond AND 0xf) #
      rev (map (it_cond Firstcond Mask) [unat (CountTrailingZeros_32 (scast Mask)) + 1..<4])"
    using p(1) unfolding e ps_def .
  show "IT_ok (ITStatus_setITState it Firstcond Mask)" using p(2) unfolding e .
qed

lemma getITCC_hd:
  assumes "IT_ok it" "ITStatus_instrInITBlock it"
  shows "ITStatus_getITCC it = ucast (hd (IT_conds it))" "IT_conds (ITStatus_advanceITState it) = tl (IT_conds it)"
    "IT_ok (ITStatus_advanceITState it)"
proof -
  obtain n where n: "IT_size it = Suc n" "n < 8"
    using assms by (cases "IT_size it") (auto simp: ITStatus_instrInITBlock_def IT_ok_def)
  then have c: "IT_conds it = ITStates it ! n # rev (take n (ITStates it))"
    using assms by (simp add: IT_conds_def IT_ok_def take_Suc_conv_app_nth)
  then show "ITStatus_getITCC it = ucast (hd (IT_conds it))"
    using n assms(2) by (simp add: ITStatus_getITCC_def)
  show "IT_conds (ITStatus_advanceITState it) = tl (IT_conds it)"
    unfolding c using n by (simp add: IT_conds_def ITStatus_advanceITState_def)
  show "IT_ok (ITStatus_advanceITState it)"
    using assms(1) n by (simp add: IT_ok_def ITStatus_advanceITState_def)
qed

lemma in_IT_iff: "IT_ok it \<Longrightarrow> ITStatus_instrInITBlock it \<longleftrightarrow> IT_conds it \<noteq> []"
  by (auto simp: IT_ok_def IT_conds_def ITStatus_instrInITBlock_def)

subsection \<open>The register of the architecture\<close>

text \<open>The specification: \<^verbatim>\<open>ITSTATE\<close> is \<^verbatim>\<open>firstcond:mask\<close> after an IT instruction; its upper four bits
  are the condition of the next instruction; it advances by a shift of its lower five bits and is zero
  after the last instruction of the block.\<close>

definition arch_InITBlock :: "8 word \<Rightarrow> bool" where
  "arch_InITBlock s \<longleftrightarrow> s AND 0xf \<noteq> 0"

definition arch_cond :: "8 word \<Rightarrow> 8 word" where
  "arch_cond s = drop_bit 4 s"

definition arch_ITAdvance :: "8 word \<Rightarrow> 8 word" where
  "arch_ITAdvance s = (if s AND 0x7 = 0 then 0 else (s AND 0xE0) OR (push_bit 1 s AND 0x1F))"

text \<open>The conditions of the next instructions; a block has at most four.\<close>

primrec arch_conds :: "nat \<Rightarrow> 8 word \<Rightarrow> 8 word list" where
  "arch_conds 0 s = []"
| "arch_conds (Suc n) s = (if arch_InITBlock s then arch_cond s # arch_conds n (arch_ITAdvance s) else [])"

definition it_matches :: "8 word \<Rightarrow> 8 word \<Rightarrow> bool" where
  "it_matches fc m \<longleftrightarrow>
     (fc AND 0xf) # rev (map (it_cond fc m) [unat (CountTrailingZeros_32 (scast m)) + 1..<4]) =
     arch_conds 4 (push_bit 4 fc OR m)"

lemma it_matches_all: "list_all (\<lambda>fc. list_all (it_matches fc) (map of_nat [1..<16])) (map of_nat [0..<16])"
  by code_simp

lemma it_matches:
  assumes "fc < 16" "m < 16" "m \<noteq> 0"
  shows "it_matches fc m"
proof -
  have "fc \<in> set (map of_nat [0..<16])" using assms(1) by (auto intro!: image_eqI [of _ _ "unat fc"] simp: word_less_nat_alt)
  moreover have "m \<in> set (map of_nat [1..<16])"
    using assms(2,3) by (auto intro!: image_eqI [of _ _ "unat m"] simp: word_less_nat_alt Suc_le_eq unat_gt_0)
  ultimately show ?thesis using it_matches_all by (auto simp: list_all_iff)
qed

text \<open>C18: The stack of conditions implements the IT register of the architecture: after an IT instruction it
  holds, in the order of execution, the conditions that \<^verbatim>\<open>ITSTATE\<close> goes through, at most four; and from
  then on reading the condition and advancing correspond step by step.\<close>

theorem IT_block_refines_ITSTATE:
  assumes "length (ITStates it) = 8" "IT_size it = 0" "Firstcond < 16" "Mask < 16" "Mask \<noteq> 0"
    and "IT_ok st" "IT_conds st = arch_conds (Suc n) s"
  shows "IT_ok (ITStatus_setITState it Firstcond Mask) \<and>
    IT_conds (ITStatus_setITState it Firstcond Mask) = arch_conds 4 (push_bit 4 Firstcond OR Mask) \<and>
    ITStatus_instrInITBlock st = arch_InITBlock s \<and>
    (arch_InITBlock s \<longrightarrow> ITStatus_getITCC st = ucast (arch_cond s) \<and>
      IT_ok (ITStatus_advanceITState st) \<and> IT_conds (ITStatus_advanceITState st) = arch_conds n (arch_ITAdvance s))"
proof (intro conjI impI)
  show "IT_ok (ITStatus_setITState it Firstcond Mask)" by (rule setITState_conds(2) [OF assms(1,2)])
  show "IT_conds (ITStatus_setITState it Firstcond Mask) = arch_conds 4 (push_bit 4 Firstcond OR Mask)"
    using setITState_conds(1) [OF assms(1,2)] it_matches [OF assms(3-5)] by (simp add: it_matches_def)
  show b: "ITStatus_instrInITBlock st = arch_InITBlock s"
    using in_IT_iff [OF assms(6)] assms(7) by simp
  assume a: "arch_InITBlock s"
  show "ITStatus_getITCC st = ucast (arch_cond s)" "IT_ok (ITStatus_advanceITState st)"
    "IT_conds (ITStatus_advanceITState st) = arch_conds n (arch_ITAdvance s)"
    using getITCC_hd [OF assms(6)] a b assms(7) by simp_all
qed

text \<open>\<^verbatim>\<open>ITTE EQ\<close> from an empty block.\<close>

definition empty_block :: ARM_ITStatus where
  "empty_block = \<lparr>ITStates = [0, 0, 0, 0, 0, 0, 0, 0], IT_size = 0\<rparr>"

theorem IT_block_refines_ITSTATE_witness:
  "IT_conds (ITStatus_setITState empty_block 0 6) = arch_conds 4 6 \<and> arch_conds 4 6 = [0, 0, 1]"
proof -
  have s: "IT_ok empty_block" "IT_conds empty_block = arch_conds (Suc 0) 0"
    by (simp_all add: IT_ok_def IT_conds_def empty_block_def arch_InITBlock_def)
  have "IT_conds (ITStatus_setITState empty_block 0 6) = arch_conds 4 (push_bit 4 0 OR 6)"
    using IT_block_refines_ITSTATE [OF _ _ _ _ _ s, of empty_block 0 6] by (simp add: empty_block_def)
  moreover have "arch_conds 4 6 = [0, 0, 1]" by code_simp
  ultimately show ?thesis by simp
qed

end
