(* ===== verification/ARM_Disassembler.thy ===== *)
theory ARM_Disassembler
  imports ARM_ITBlock
begin

text \<open>The ARM and Thumb disassemblers of \<^verbatim>\<open>capstone/arch/ARM/ARMDisassembler.c\<close>: the interpreter of the
  decoder tables (\<^verbatim>\<open>decodeInstruction\<close> of \<^verbatim>\<open>ARMGenDisassemblerTables.inc\<close> with \<^verbatim>\<open>LEB128.h\<close> and
  \<^verbatim>\<open>MCFixedLenDisassembler.h\<close>), the choice of the table, and the passes that add the predicate of the
  IT block and the \<^verbatim>\<open>S\<close> bit to Thumb instructions.  The tables that TableGen generates are
  parameters, the fields of the record \<open>generated\<close>.\<close>

unbundle bit_operations_syntax


subsection \<open>The interpreter of decoder tables\<close>

text \<open>A pointer into a table is the list of the bytes from there to its end, and a read past the end is
  \<open>None\<close>.  The shift of the source is one of \<^verbatim>\<open>int\<close>, converted to \<^verbatim>\<open>uint64_t\<close>.\<close>

fun uleb_loop :: "u8 list \<Rightarrow> nat \<Rightarrow> u64 \<Rightarrow> (u64 \<times> u8 list) option" where
  "uleb_loop [] Shift Value = None"
| "uleb_loop (b # p) Shift Value =
     (let Value = Value + scast (push_bit Shift (ucast (b AND 0x7f)) :: u32)
      in if b \<ge> 128 then uleb_loop p (Shift + 7) Value else Some (Value, p))"

definition decodeULEB128 :: "u8 list \<Rightarrow> (u64 \<times> u8 list) option" where
  "decodeULEB128 p = uleb_loop p 0 0"

lemma uleb_loop_shorter: "uleb_loop p sh v = Some (w, r) \<Longrightarrow> length r < length p"
  by (induction p arbitrary: sh v) (auto simp: Let_def less_Suc_eq split: if_splits)

lemma decodeULEB128_shorter: "decodeULEB128 p = Some (w, r) \<Longrightarrow> length r < length p"
  unfolding decodeULEB128_def by (rule uleb_loop_shorter)

text \<open>\<^verbatim>\<open>NumToSkip = *Ptr++; NumToSkip |= (*Ptr++) << 8;\<close>\<close>

fun read_skip :: "u8 list \<Rightarrow> (nat \<times> u8 list) option" where
  "read_skip (a # b # p) = Some (unat (ucast a OR push_bit 8 (ucast b) :: u32), p)"
| "read_skip p = None"

lemma read_skip_shorter: "read_skip p = Some (n, r) \<Longrightarrow> length r < length p"
  by (cases p rule: read_skip.cases) auto

definition MCD_OPC_ExtractField :: u8 where "MCD_OPC_ExtractField = 1"
definition MCD_OPC_FilterValue :: u8 where "MCD_OPC_FilterValue = 2"
definition MCD_OPC_CheckField :: u8 where "MCD_OPC_CheckField = 3"
definition MCD_OPC_CheckPredicate :: u8 where "MCD_OPC_CheckPredicate = 4"
definition MCD_OPC_Decode :: u8 where "MCD_OPC_Decode = 5"
definition MCD_OPC_SoftFail :: u8 where "MCD_OPC_SoftFail = 6"
definition MCD_OPC_Fail :: u8 where "MCD_OPC_Fail = 7"

text \<open>The loop, for both widths of an instruction: \<open>field\<close> is \<^verbatim>\<open>fieldname\<close>, \<open>decoder\<close> is
  \<^verbatim>\<open>decodeToMCInst\<close>, \<open>check\<close> is \<^verbatim>\<open>checkDecoderPredicate\<close>.\<close>

function decode_loop ::
    "('w::len word \<Rightarrow> nat \<Rightarrow> nat \<Rightarrow> 'w word) \<Rightarrow> (DecodeStatus \<Rightarrow> nat \<Rightarrow> 'w word \<Rightarrow> MCInst \<Rightarrow> decode)
     \<Rightarrow> (nat \<Rightarrow> u64 \<Rightarrow> bool) \<Rightarrow> u64 \<Rightarrow> 'w word \<Rightarrow> MCInst \<Rightarrow> u8 list \<Rightarrow> u32 \<Rightarrow> DecodeStatus \<Rightarrow> decode option" where
  "decode_loop field decoder check Bits insn MI Ptr CurFieldValue S =
     (case Ptr of
        [] \<Rightarrow> None
      | opc # p \<Rightarrow>
          if opc = MCD_OPC_ExtractField then
            (case p of
               Start # Len # p \<Rightarrow>
                 decode_loop field decoder check Bits insn MI p (ucast (field insn (unat Start) (unat Len))) S
             | _ \<Rightarrow> None)
          else if opc = MCD_OPC_FilterValue then
            (case decodeULEB128 p of
               None \<Rightarrow> None
             | Some (v, p) \<Rightarrow>
                 (case read_skip p of
                    None \<Rightarrow> None
                  | Some (NumToSkip, p) \<Rightarrow>
                      let p = (if ucast (ucast v :: 'w word) \<noteq> CurFieldValue then drop NumToSkip p else p)
                      in decode_loop field decoder check Bits insn MI p CurFieldValue S))
          else if opc = MCD_OPC_CheckField then
            (case p of
               Start # Len # p \<Rightarrow>
                 (case decodeULEB128 p of
                    None \<Rightarrow> None
                  | Some (v, p) \<Rightarrow>
                      (case read_skip p of
                         None \<Rightarrow> None
                       | Some (NumToSkip, p) \<Rightarrow>
                           let FieldValue = field insn (unat Start) (unat Len);
                               p = (if (ucast v :: u32) \<noteq> ucast FieldValue then drop NumToSkip p else p)
                           in decode_loop field decoder check Bits insn MI p CurFieldValue S))
             | _ \<Rightarrow> None)
          else if opc = MCD_OPC_CheckPredicate then
            (case decodeULEB128 p of
               None \<Rightarrow> None
             | Some (PIdx, p) \<Rightarrow>
                 (case read_skip p of
                    None \<Rightarrow> None
                  | Some (NumToSkip, p) \<Rightarrow>
                      let p = (if \<not> check (unat (ucast PIdx :: u32)) Bits then drop NumToSkip p else p)
                      in decode_loop field decoder check Bits insn MI p CurFieldValue S))
          else if opc = MCD_OPC_Decode then
            (case decodeULEB128 p of
               None \<Rightarrow> None
             | Some (Opc, p) \<Rightarrow>
                 (case decodeULEB128 p of
                    None \<Rightarrow> None
                  | Some (DecodeIdx, p) \<Rightarrow>
                      let MI = MCInst_setOpcode MI (unat (ucast Opc :: u32))
                      in Some (decoder S (unat (ucast DecodeIdx :: u32)) insn MI)))
          else if opc = MCD_OPC_SoftFail then
            (case decodeULEB128 p of
               None \<Rightarrow> None
             | Some (PositiveMask, p) \<Rightarrow>
                 (case decodeULEB128 p of
                    None \<Rightarrow> None
                  | Some (NegativeMask, p) \<Rightarrow>
                      let Fail = (insn AND ucast PositiveMask \<noteq> 0 \<or> NOT insn AND ucast NegativeMask \<noteq> 0)
                      in decode_loop field decoder check Bits insn MI p CurFieldValue
                           (if Fail then MCDisassembler_SoftFail else S)))
          else Some (MCDisassembler_Fail, MI))"
  by pat_completeness auto

termination decode_loop
  by (relation "measure (\<lambda>(field, decoder, check, Bits, insn, MI, Ptr, cur, S). length Ptr)")
    (auto dest!: decodeULEB128_shorter read_skip_shorter split: if_splits)

declare decode_loop.simps [simp del]

subsection \<open>What TableGen generates\<close>

record MCOperandInfo =
  RegClass :: int
  Flags :: u8

definition MCOI_Predicate :: nat where "MCOI_Predicate = 1"
definition MCOI_OptionalDef :: nat where "MCOI_OptionalDef = 2"
definition ARM_CCRRegClassID :: int where "ARM_CCRRegClassID = 12"

definition MCOperandInfo_isPredicate :: "MCOperandInfo \<Rightarrow> bool" where
  "MCOperandInfo_isPredicate m \<longleftrightarrow> Flags m AND push_bit MCOI_Predicate 1 \<noteq> 0"

definition MCOperandInfo_isOptionalDef :: "MCOperandInfo \<Rightarrow> bool" where
  "MCOperandInfo_isOptionalDef m \<longleftrightarrow> Flags m AND push_bit MCOI_OptionalDef 1 \<noteq> 0"

text \<open>The decoder tables, the operand descriptions \<^verbatim>\<open>ARMInsts[opcode]\<close>, and the functions that call the
  operand decoders and test feature bits.\<close>

record generated =
  DecoderTableARM32 :: "u8 list"
  DecoderTableVFP32 :: "u8 list"
  DecoderTableVFPV832 :: "u8 list"
  DecoderTableNEONData32 :: "u8 list"
  DecoderTableNEONLoadStore32 :: "u8 list"
  DecoderTableNEONDup32 :: "u8 list"
  DecoderTablev8NEON32 :: "u8 list"
  DecoderTablev8Crypto32 :: "u8 list"
  DecoderTableThumb16 :: "u8 list"
  DecoderTableThumbSBit16 :: "u8 list"
  DecoderTableThumb216 :: "u8 list"
  DecoderTableThumb32 :: "u8 list"
  DecoderTableThumb232 :: "u8 list"
  ARMInsts :: "nat \<Rightarrow> MCOperandInfo list"
  checkDecoderPredicate :: "nat \<Rightarrow> u64 \<Rightarrow> bool"
  decodeToMCInst_2 :: "DecodeStatus \<Rightarrow> nat \<Rightarrow> 16 word \<Rightarrow> MCInst \<Rightarrow> decode"
  decodeToMCInst_4 :: "DecodeStatus \<Rightarrow> nat \<Rightarrow> u32 \<Rightarrow> MCInst \<Rightarrow> decode"

definition decodeInstruction_2 :: "generated \<Rightarrow> u8 list \<Rightarrow> MCInst \<Rightarrow> 16 word \<Rightarrow> u32 \<Rightarrow> decode option" where
  "decodeInstruction_2 G DecodeTable MI insn feature =
     decode_loop fieldFromInstruction_2 (decodeToMCInst_2 G) (checkDecoderPredicate G) (ARM_getFeatureBits feature)
       insn MI DecodeTable 0 MCDisassembler_Success"

definition decodeInstruction_4 :: "generated \<Rightarrow> u8 list \<Rightarrow> MCInst \<Rightarrow> u32 \<Rightarrow> u32 \<Rightarrow> decode option" where
  "decodeInstruction_4 G DecodeTable MI insn feature =
     decode_loop fieldFromInstruction_4 (decodeToMCInst_4 G) (checkDecoderPredicate G) (ARM_getFeatureBits feature)
       insn MI DecodeTable 0 MCDisassembler_Success"

subsection \<open>ARM instructions\<close>

record cs_struct =
  cs_mode :: u32
  big_endian :: bool
  ITBlock :: ARM_ITStatus

text \<open>One attempt: on success the code of \<open>ok\<close>, otherwise the next one.\<close>

definition try_table :: "decode option \<Rightarrow> (DecodeStatus \<Rightarrow> MCInst \<Rightarrow> 'r option) \<Rightarrow> (MCInst \<Rightarrow> 'r option) \<Rightarrow> 'r option" where
  "try_table d ok next =
     (case d of
        None \<Rightarrow> None
      | Some (result, MI) \<Rightarrow> if result \<noteq> MCDisassembler_Fail then ok result MI else next MI)"

definition arm_insn :: "bool \<Rightarrow> u8 list \<Rightarrow> u32" where
  "arm_insn be bytes =
     (if be then
        ucast (bytes ! 3) OR push_bit 8 (ucast (bytes ! 2)) OR push_bit 16 (ucast (bytes ! 1)) OR push_bit 24 (ucast (bytes ! 0))
      else
        push_bit 24 (ucast (bytes ! 3)) OR push_bit 16 (ucast (bytes ! 2)) OR push_bit 8 (ucast (bytes ! 1)) OR ucast (bytes ! 0))"

text \<open>The result, the instruction and \<^verbatim>\<open>*Size\<close>.\<close>

type_synonym arm_result = "DecodeStatus \<times> MCInst \<times> nat"

definition fake_predicate :: "DecodeStatus \<Rightarrow> MCInst \<Rightarrow> arm_result option" where
  "fake_predicate result MI =
     (let (S, MI) = DecodePredicateOperand MI 0xE
      in Some (if S = MCDisassembler_Fail then MCDisassembler_Fail else result, MI, 4))"

definition size4 :: "DecodeStatus \<Rightarrow> MCInst \<Rightarrow> arm_result option" where
  "size4 result MI = Some (result, MI, 4)"

definition ARM_getInstruction_impl :: "generated \<Rightarrow> cs_struct \<Rightarrow> MCInst \<Rightarrow> u8 list \<Rightarrow> nat \<Rightarrow> arm_result option" where
  "ARM_getInstruction_impl G ud MI code Size =
     (if length code < 4 then Some (MCDisassembler_Fail, MI, Size)
      else
        (let insn = arm_insn (big_endian ud) code;
             try = (\<lambda>table MI. decodeInstruction_4 G table (MCInst_clear MI) insn (cs_mode ud))
         in try_table (decodeInstruction_4 G (DecoderTableARM32 G) MI insn (cs_mode ud)) size4 (\<lambda>MI.
            try_table (try (DecoderTableVFP32 G) MI) size4 (\<lambda>MI.
            try_table (try (DecoderTableVFPV832 G) MI) size4 (\<lambda>MI.
            try_table (try (DecoderTableNEONData32 G) MI) fake_predicate (\<lambda>MI.
            try_table (try (DecoderTableNEONLoadStore32 G) MI) fake_predicate (\<lambda>MI.
            try_table (try (DecoderTableNEONDup32 G) MI) fake_predicate (\<lambda>MI.
            try_table (try (DecoderTablev8NEON32 G) MI) size4 (\<lambda>MI.
            try_table (try (DecoderTablev8Crypto32 G) MI) size4 (\<lambda>MI.
              Some (MCDisassembler_Fail, MCInst_clear MI, 0)))))))))))"

definition ARM_getInstruction :: "generated \<Rightarrow> cs_struct \<Rightarrow> MCInst \<Rightarrow> u8 list \<Rightarrow> nat \<Rightarrow> (bool \<times> MCInst \<times> nat) option" where
  "ARM_getInstruction G ud MI code Size =
     map_option (\<lambda>(status, MI, Size). (status \<noteq> MCDisassembler_Fail, MI, Size)) (ARM_getInstruction_impl G ud MI code Size)"

subsection \<open>Thumb post-passes\<close>

text \<open>The index at which the loop over the operand descriptions stops.\<close>

fun sbit_slot :: "MCOperandInfo list \<Rightarrow> nat \<Rightarrow> nat list \<Rightarrow> nat" where
  "sbit_slot OpInfo numOps [] = length OpInfo"
| "sbit_slot OpInfo numOps (i # is) =
     (if i = numOps then i
      else if MCOperandInfo_isOptionalDef (OpInfo ! i) \<and> RegClass (OpInfo ! i) = ARM_CCRRegClassID
              \<and> \<not> (i > 0 \<and> MCOperandInfo_isPredicate (OpInfo ! (i - 1)))
           then i
      else sbit_slot OpInfo numOps is)"

definition AddThumb1SBit :: "generated \<Rightarrow> MCInst \<Rightarrow> bool \<Rightarrow> MCInst" where
  "AddThumb1SBit G MI InITBlock =
     (let OpInfo = ARMInsts G (MCInst_getOpcode MI);
          i = sbit_slot OpInfo (MCInst_getNumOperands MI) [0..<length OpInfo]
      in MCInst_insert0 MI i (MCOperand_CreateReg1 (if InITBlock then ARM_NoRegister else ARM_CPSR)))"

fun pred_slot :: "MCOperandInfo list \<Rightarrow> nat \<Rightarrow> nat list \<Rightarrow> nat" where
  "pred_slot OpInfo numOps [] = length OpInfo"
| "pred_slot OpInfo numOps (i # is) =
     (if i = numOps then i else if MCOperandInfo_isPredicate (OpInfo ! i) then i else pred_slot OpInfo numOps is)"

definition no_IT_ops :: "nat list" where
  "no_IT_ops =
     [ARM_tBcc, ARM_t2Bcc, ARM_tCBZ, ARM_tCBNZ, ARM_tCPS, ARM_t2CPS3p, ARM_t2CPS2p, ARM_t2CPS1p, ARM_tMOVSr, ARM_tSETEND]"

definition last_IT_ops :: "nat list" where
  "last_IT_ops = [ARM_tB, ARM_t2B, ARM_t2TBB, ARM_t2TBH]"

definition insert_predicate :: "MCInst \<Rightarrow> nat \<Rightarrow> u32 \<Rightarrow> MCInst" where
  "insert_predicate MI i CC =
     MCInst_insert0 (MCInst_insert0 MI i (MCOperand_CreateImm1 (ucast CC))) (i + 1)
       (MCOperand_CreateReg1 (if CC = ARMCC_AL then ARM_NoRegister else ARM_CPSR))"

definition AddThumbPredicate :: "generated \<Rightarrow> cs_struct \<Rightarrow> MCInst \<Rightarrow> DecodeStatus \<times> cs_struct \<times> MCInst" where
  "AddThumbPredicate G ud MI =
     (let op = MCInst_getOpcode MI;
          it = ITBlock ud
      in if op \<in> set no_IT_ops \<and> \<not> ITStatus_instrInITBlock it then (MCDisassembler_Success, ud, MI)
         else
           (let S = (if op \<in> set no_IT_ops
                       \<or> op \<in> set last_IT_ops \<and> ITStatus_instrInITBlock it \<and> \<not> ITStatus_instrLastInITBlock it
                     then MCDisassembler_SoftFail else MCDisassembler_Success);
                CC = ITStatus_getITCC it;
                CC = (if CC = 0xF then ARMCC_AL else CC);
                ud = (if ITStatus_instrInITBlock it then ud\<lparr>ITBlock := ITStatus_advanceITState it\<rparr> else ud);
                OpInfo = ARMInsts G op;
                i = pred_slot OpInfo (MCInst_getNumOperands MI) [0..<length OpInfo]
            in (S, ud, insert_predicate MI i CC)))"

text \<open>The first description of a predicate, which this loop seeks among all of them.\<close>

fun vfp_pred_slot :: "MCOperandInfo list \<Rightarrow> nat list \<Rightarrow> nat option" where
  "vfp_pred_slot OpInfo [] = None"
| "vfp_pred_slot OpInfo (i # is) = (if MCOperandInfo_isPredicate (OpInfo ! i) then Some i else vfp_pred_slot OpInfo is)"

definition update_operand :: "MCInst \<Rightarrow> nat \<Rightarrow> (MCOperand \<Rightarrow> MCOperand) \<Rightarrow> MCInst" where
  "update_operand MI i f = MI\<lparr>Operands := (Operands MI)[i := f (MCInst_getOperand MI i)]\<rparr>"

definition UpdateThumbVFPPredicate :: "generated \<Rightarrow> cs_struct \<Rightarrow> MCInst \<Rightarrow> cs_struct \<times> MCInst" where
  "UpdateThumbVFPPredicate G ud MI =
     (let CC = ITStatus_getITCC (ITBlock ud);
          ud = (if ITStatus_instrInITBlock (ITBlock ud) then ud\<lparr>ITBlock := ITStatus_advanceITState (ITBlock ud)\<rparr> else ud);
          OpInfo = ARMInsts G (MCInst_getOpcode MI)
      in case vfp_pred_slot OpInfo [0..<length OpInfo] of
           None \<Rightarrow> (ud, MI)
         | Some i \<Rightarrow>
             (let MI = update_operand MI i (\<lambda>op. MCOperand_setImm op (ucast CC))
              in (ud, update_operand MI (i + 1)
                        (\<lambda>op. MCOperand_setReg op (if CC = ARMCC_AL then ARM_NoRegister else ARM_CPSR)))))"

subsection \<open>Thumb instructions\<close>

definition thumb_insn16 :: "bool \<Rightarrow> u8 list \<Rightarrow> 16 word" where
  "thumb_insn16 be bytes =
     (if be then push_bit 8 (ucast (bytes ! 0)) OR ucast (bytes ! 1) else push_bit 8 (ucast (bytes ! 1)) OR ucast (bytes ! 0))"

definition thumb_insn32 :: "bool \<Rightarrow> u8 list \<Rightarrow> u32" where
  "thumb_insn32 be bytes =
     (if be then
        ucast (bytes ! 3) OR push_bit 8 (ucast (bytes ! 2)) OR push_bit 16 (ucast (bytes ! 1)) OR push_bit 24 (ucast (bytes ! 0))
      else
        push_bit 8 (ucast (bytes ! 3)) OR ucast (bytes ! 2) OR push_bit 24 (ucast (bytes ! 1)) OR push_bit 16 (ucast (bytes ! 0)))"

definition neon_ldst_insn :: "u32 \<Rightarrow> u32" where
  "neon_ldst_insn insn32 = (insn32 AND 0xF0FFFFFF) OR 0x04000000"

definition neon_data_insn :: "u32 \<Rightarrow> u32" where
  "neon_data_insn insn32 =
     (let i = insn32 AND 0xF0FFFFFF;
          i = i OR drop_bit 4 (i AND 0x10000000)
      in i OR 0x12000000)"

definition neon_v8_insn :: "u32 \<Rightarrow> u32" where
  "neon_v8_insn insn32 = insn32 AND 0xF3FFFFFF"

text \<open>The result, the state of the handle, the instruction and \<^verbatim>\<open>*Size\<close>.\<close>

type_synonym thumb_result = "DecodeStatus \<times> cs_struct \<times> MCInst \<times> nat"

text \<open>\<^verbatim>\<open>*Size = n; Check(&result, AddThumbPredicate(ud, MI)); return result;\<close>\<close>

definition thumb_done :: "generated \<Rightarrow> cs_struct \<Rightarrow> nat \<Rightarrow> DecodeStatus \<Rightarrow> MCInst \<Rightarrow> thumb_result option" where
  "thumb_done G ud n result MI =
     (let (S, ud, MI) = AddThumbPredicate G ud MI in Some (fst (Check result S), ud, MI, n))"

text \<open>The same for the instructions with an \<^verbatim>\<open>S\<close> bit.\<close>

definition thumb_done_sbit :: "generated \<Rightarrow> cs_struct \<Rightarrow> nat \<Rightarrow> DecodeStatus \<Rightarrow> MCInst \<Rightarrow> thumb_result option" where
  "thumb_done_sbit G ud n result MI =
     (let InITBlock = ITStatus_instrInITBlock (ITBlock ud);
          (S, ud, MI) = AddThumbPredicate G ud MI
      in Some (fst (Check result S), ud, AddThumb1SBit G MI InITBlock, n))"

definition thumb_done_t216 :: "generated \<Rightarrow> cs_struct \<Rightarrow> DecodeStatus \<Rightarrow> MCInst \<Rightarrow> thumb_result option" where
  "thumb_done_t216 G ud result MI =
     (if MCInst_getOpcode MI = ARM_t2IT \<and> ITStatus_instrInITBlock (ITBlock ud)
      then Some (MCDisassembler_SoftFail, ud, MI, 2)
      else
        (let (S, ud, MI) = AddThumbPredicate G ud MI;
             result = fst (Check result S)
         in if MCInst_getOpcode MI = ARM_t2IT then
              (let Firstcond = (ucast (MCOperand_getImm (MCInst_getOperand MI 0)) :: u32);
                   Mask = (ucast (MCOperand_getImm (MCInst_getOperand MI 1)) :: u32)
               in Some (result, ud\<lparr>ITBlock := ITStatus_setITState (ITBlock ud) (ucast Firstcond) (ucast Mask)\<rparr>, MI, 2))
            else Some (result, ud, MI, 2)))"

definition thumb_done_vfp :: "generated \<Rightarrow> cs_struct \<Rightarrow> DecodeStatus \<Rightarrow> MCInst \<Rightarrow> thumb_result option" where
  "thumb_done_vfp G ud result MI = (let (ud, MI) = UpdateThumbVFPPredicate G ud MI in Some (result, ud, MI, 4))"

definition thumb_done_plain :: "cs_struct \<Rightarrow> DecodeStatus \<Rightarrow> MCInst \<Rightarrow> thumb_result option" where
  "thumb_done_plain ud result MI = Some (result, ud, MI, 4)"

text \<open>An attempt that is made under a condition only.\<close>

definition try_if :: "bool \<Rightarrow> decode option \<Rightarrow> (DecodeStatus \<Rightarrow> MCInst \<Rightarrow> 'r option) \<Rightarrow> (MCInst \<Rightarrow> 'r option) \<Rightarrow> MCInst \<Rightarrow> 'r option" where
  "try_if c d ok next MI = (if c then try_table d ok next else next MI)"

text \<open>The attempts on a 32-bit encoding, after the 16-bit ones have failed.\<close>

definition thumb32 :: "generated \<Rightarrow> cs_struct \<Rightarrow> u32 \<Rightarrow> MCInst \<Rightarrow> thumb_result option" where
  "thumb32 G ud insn32 MI =
     (let try = (\<lambda>table insn MI. decodeInstruction_4 G table (MCInst_clear MI) insn (cs_mode ud))
      in try_table (try (DecoderTableThumb32 G) insn32 MI) (thumb_done_sbit G ud 4) (\<lambda>MI.
         try_table (try (DecoderTableThumb232 G) insn32 MI) (thumb_done G ud 4) (\<lambda>MI.
         try_table (try (DecoderTableVFP32 G) insn32 MI) (thumb_done_vfp G ud) (\<lambda>MI.
         try_if (fieldFromInstruction_4 insn32 28 4 = 0xE) (try (DecoderTableVFP32 G) insn32 MI) (thumb_done_vfp G ud) (\<lambda>MI.
         try_table (try (DecoderTableVFPV832 G) insn32 MI) (thumb_done_plain ud) (\<lambda>MI.
         try_if (fieldFromInstruction_4 insn32 28 4 = 0xE) (try (DecoderTableNEONDup32 G) insn32 MI) (thumb_done G ud 4) (\<lambda>MI.
         try_if (fieldFromInstruction_4 insn32 24 8 = 0xF9) (try (DecoderTableNEONLoadStore32 G) (neon_ldst_insn insn32) MI)
           (thumb_done G ud 4) (\<lambda>MI.
         try_if (fieldFromInstruction_4 insn32 24 4 = 0xF) (try (DecoderTableNEONData32 G) (neon_data_insn insn32) MI)
           (thumb_done G ud 4) (\<lambda>MI.
         try_table (try (DecoderTablev8Crypto32 G) (neon_data_insn insn32) MI) (thumb_done_plain ud) (\<lambda>MI.
         try_table (try (DecoderTablev8NEON32 G) (neon_v8_insn insn32) MI) (thumb_done_plain ud) (\<lambda>MI.
           Some (MCDisassembler_Fail, ud, MCInst_clear MI, 0)))) MI) MI) MI)) MI))))"

definition Thumb_getInstruction_impl :: "generated \<Rightarrow> cs_struct \<Rightarrow> MCInst \<Rightarrow> u8 list \<Rightarrow> nat \<Rightarrow> thumb_result option" where
  "Thumb_getInstruction_impl G ud MI code Size =
     (if length code < 2 then Some (MCDisassembler_Fail, ud, MI, Size)
      else
        (let insn16 = thumb_insn16 (big_endian ud) code;
             try = (\<lambda>table MI. decodeInstruction_2 G table (MCInst_clear MI) insn16 (cs_mode ud))
         in try_table (decodeInstruction_2 G (DecoderTableThumb16 G) MI insn16 (cs_mode ud)) (thumb_done G ud 2) (\<lambda>MI.
            try_table (try (DecoderTableThumbSBit16 G) MI) (thumb_done_sbit G ud 2) (\<lambda>MI.
            try_table (try (DecoderTableThumb216 G) MI) (thumb_done_t216 G ud) (\<lambda>MI.
              if length code < 4 then Some (MCDisassembler_Fail, ud, MI, Size)
              else thumb32 G ud (thumb_insn32 (big_endian ud) code) MI)))))"

definition Thumb_getInstruction ::
    "generated \<Rightarrow> cs_struct \<Rightarrow> MCInst \<Rightarrow> u8 list \<Rightarrow> nat \<Rightarrow> (bool \<times> cs_struct \<times> MCInst \<times> nat) option" where
  "Thumb_getInstruction G ud MI code Size =
     map_option (\<lambda>(status, r). (status \<noteq> MCDisassembler_Fail, r)) (Thumb_getInstruction_impl G ud MI code Size)"

end
