(* ===== verification/CS_Engine.thy ===== *)
theory CS_Engine
  imports CS_Mapping ARM_Disassembler
begin

text \<open>The core of Capstone (\<^verbatim>\<open>capstone/cs.c\<close>): the handle, its options, the disassembly of a buffer and of one instruction, and
  the questions about an instruction.  The function pointers that an architecture puts into the handle are the record
  \<open>engine\<close>; what the allocator does is the record \<open>memory\<close>.  \<open>None\<close> stands for an access outside an
  array or through a null pointer, and for a loop that does not end.\<close>

unbundle bit_operations_syntax

subsection \<open>Data\<close>

datatype cs_err =
  CS_ERR_OK | CS_ERR_MEM | CS_ERR_ARCH | CS_ERR_HANDLE | CS_ERR_CSH | CS_ERR_MODE | CS_ERR_OPTION | CS_ERR_DETAIL
| CS_ERR_MEMSETUP | CS_ERR_VERSION | CS_ERR_DIET | CS_ERR_SKIPDATA | CS_ERR_X86_ATT | CS_ERR_X86_INTEL

definition CS_ARCH_ARM :: nat where "CS_ARCH_ARM = 0"
definition CS_ARCH_ARM64 :: nat where "CS_ARCH_ARM64 = 1"
definition CS_ARCH_MIPS :: nat where "CS_ARCH_MIPS = 2"
definition CS_ARCH_X86 :: nat where "CS_ARCH_X86 = 3"
definition CS_ARCH_PPC :: nat where "CS_ARCH_PPC = 4"
definition CS_ARCH_SPARC :: nat where "CS_ARCH_SPARC = 5"
definition CS_ARCH_SYSZ :: nat where "CS_ARCH_SYSZ = 6"
definition CS_ARCH_XCORE :: nat where "CS_ARCH_XCORE = 7"
definition CS_ARCH_MAX :: nat where "CS_ARCH_MAX = 8"
definition CS_ARCH_ALL :: nat where "CS_ARCH_ALL = 0xFFFF"
definition CS_SUPPORT_DIET :: nat where "CS_SUPPORT_DIET = CS_ARCH_ALL + 1"
definition CS_SUPPORT_X86_REDUCE :: nat where "CS_SUPPORT_X86_REDUCE = CS_ARCH_ALL + 2"

definition CS_MODE_BIG_ENDIAN :: u32 where "CS_MODE_BIG_ENDIAN = push_bit 31 1"

definition CS_OPT_OFF :: u32 where "CS_OPT_OFF = 0"
definition CS_OPT_ON :: u32 where "CS_OPT_ON = 3"

record cs_insn =
  iid :: nat
  address :: u64
  isize :: u16
  bytes :: "u8 list"
  mnemonic :: string
  op_str :: string
  idetail :: "cs_detail option"

definition BYTES_SIZE :: nat where "BYTES_SIZE = 16"
definition MNEMONIC_SIZE :: nat where "MNEMONIC_SIZE = 32"
definition OP_STR_SIZE :: nat where "OP_STR_SIZE = 160"

text \<open>The size of the structure with the alignment of a machine of 64 bits.\<close>

definition SIZEOF_CS_INSN :: nat where "SIZEOF_CS_INSN = 240"

definition INSN_CACHE_SIZE :: nat where "INSN_CACHE_SIZE = 32"
definition SKIPDATA_MNEM :: string where "SKIPDATA_MNEM = ''.byte''"

text \<open>The user's function for data gets the buffer and the position in it; what it does with \<^verbatim>\<open>user_data\<close> is part of it.\<close>

type_synonym cs_skipdata_cb = "u8 list \<Rightarrow> nat \<Rightarrow> nat"

record cs_opt_skipdata =
  sk_mnemonic :: "string option"
  sk_callback :: "cs_skipdata_cb option"

text \<open>The disassemblers that the field \<^verbatim>\<open>disasm\<close> can point to in a handle for ARM.\<close>

datatype disassembler = No_disasm | Use_ARM | Use_Thumb

text \<open>The structure that a handle points to.  The fields that the ARM disassembler reads are those of \<open>core\<close>;
  \<open>noregname\<close> tells which of the two tables of register names is in use.\<close>

record handle =
  core :: cs_struct
  arch :: nat
  disasm :: disassembler
  errnum :: cs_err
  detail :: u32
  asm_syntax :: u32
  noregname :: bool
  insn_cache :: "nat list option"
  doing_mem :: bool
  skipdata :: bool
  skipdata_size :: u8
  skipdata_setup :: cs_opt_skipdata

text \<open>The functions that an architecture provides, as the core calls them.  The disassembler gets the bytes, the instruction and
  the structure \<^verbatim>\<open>flat_insn\<close> and returns its success, the handle, both of them and the size.\<close>

record engine =
  e_disasm :: "handle \<Rightarrow> u8 list \<Rightarrow> MCInst \<Rightarrow> cs_insn \<Rightarrow> nat \<Rightarrow> (bool \<times> handle \<times> MCInst \<times> cs_insn \<times> nat) option"
  e_insn_id :: "handle \<Rightarrow> cs_insn \<Rightarrow> nat \<Rightarrow> (handle \<times> cs_insn) option"
  e_printer :: "handle \<Rightarrow> MCInst \<Rightarrow> cs_insn \<Rightarrow> SStream \<Rightarrow> (handle \<times> MCInst \<times> cs_insn \<times> SStream) option"
  e_post_printer :: "(handle \<Rightarrow> cs_insn \<Rightarrow> string \<Rightarrow> MCInst \<Rightarrow> (cs_insn \<times> string) option) option"

text \<open>Whether the allocation with a given number succeeds, and what is in fresh memory.\<close>

record memory =
  alloc :: "nat \<Rightarrow> bool"
  fresh_insn :: "nat \<Rightarrow> cs_insn"
  fresh_detail :: "nat \<Rightarrow> cs_detail"
  fresh_inst :: MCInst
  fresh_stream :: SStream

subsection \<open>Filling in an instruction\<close>

text \<open>The first word of the text, with the separators of prefixes made blanks, and the text from the character that ends it.\<close>

fun split_asm :: "string \<Rightarrow> (string \<times> string) option" where
  "split_asm [] = None"
| "split_asm (ch # sp) =
     (if ch = NUL \<or> ch = CHR '' '' \<or> ch = CHR 0x09 then Some ([], ch # sp)
      else map_option (\<lambda>(mnem, sp). ((if ch = CHR ''|'' then CHR '' '' else ch) # mnem, sp)) (split_asm sp))"

definition strncpy :: "nat \<Rightarrow> string \<Rightarrow> string" where
  "strncpy n s = take n (takeWhile (\<lambda>ch. ch \<noteq> NUL) s @ replicate n NUL)"

definition fill_operands :: "string \<Rightarrow> string \<Rightarrow> string" where
  "fill_operands old sp =
     (if hd sp \<noteq> NUL then
        strncpy (OP_STR_SIZE - 1) (dropWhile (\<lambda>ch. ch = CHR '' '' \<or> ch = CHR 0x09) (tl sp)) @ [NUL]
      else write_at old 0 [NUL])"

definition fill_text :: "cs_insn \<Rightarrow> string \<Rightarrow> cs_insn option" where
  "fill_text insn buffer =
     (case split_asm buffer of
        None \<Rightarrow> None
      | Some (mnem, sp) \<Rightarrow>
          if length mnem < MNEMONIC_SIZE
          then Some (insn\<lparr>mnemonic := write_at (mnemonic insn) 0 (mnem @ [NUL]), op_str := fill_operands (op_str insn) sp\<rparr>)
          else None)"

definition fill_insn :: "engine \<Rightarrow> handle \<Rightarrow> cs_insn \<Rightarrow> string \<Rightarrow> MCInst \<Rightarrow> u8 list \<Rightarrow> cs_insn option" where
  "fill_insn E h insn buffer mci code =
     (let copy_size = min BYTES_SIZE (unat (isize insn));
          insn' = insn\<lparr>bytes := take copy_size (drop (unat (isize insn) - copy_size) code) @ drop copy_size (bytes insn),
                       isize := of_nat copy_size\<rparr>;
          insn' = (if MCInst_getOpcodePub mci \<noteq> 0 then insn'\<lparr>iid := MCInst_getOpcodePub mci\<rparr> else insn')
      in if unat (isize insn) \<le> length code then
           (case e_post_printer E of
              None \<Rightarrow> fill_text insn' buffer
            | Some post \<Rightarrow>
                (case post h insn' buffer mci of None \<Rightarrow> None | Some (insn', buffer) \<Rightarrow> fill_text insn' buffer))
         else None)"

subsection \<open>Data among the instructions\<close>

definition skipdata_size_of :: "handle \<Rightarrow> u8" where
  "skipdata_size_of h =
     (if arch h = CS_ARCH_ARM then (if cs_mode (core h) AND CS_MODE_THUMB \<noteq> 0 then 2 else 4)
      else if arch h \<in> {CS_ARCH_ARM64, CS_ARCH_MIPS, CS_ARCH_PPC, CS_ARCH_SPARC} then 4
      else if arch h = CS_ARCH_SYSZ then 2
      else if arch h = CS_ARCH_X86 then 1
      else if arch h = CS_ARCH_XCORE then 2
      else - 1)"

text \<open>The conversion \<^verbatim>\<open>0x%02x\<close>.\<close>

definition hex02 :: "u8 \<Rightarrow> string" where
  "hex02 b = ''0x'' @ (if unat b < 16 then ''0'' else '''') @ hex b"

fun skipdata_loop :: "string \<Rightarrow> nat \<Rightarrow> nat \<Rightarrow> u8 list \<Rightarrow> string" where
  "skipdata_loop opstr p available [] = opstr"
| "skipdata_loop opstr p available (b # buffer) =
     (let text = '', '' @ hex02 b;
          opstr = write_at opstr p (vsnprintf available text)
      in if length text > available - 1 then opstr
         else skipdata_loop opstr (p + length text) (available - length text) buffer)"

definition skipdata_opstr :: "string \<Rightarrow> u8 list \<Rightarrow> string" where
  "skipdata_opstr opstr buffer =
     (case buffer of
        [] \<Rightarrow> write_at opstr 0 [NUL]
      | b # buffer \<Rightarrow>
          (let text = hex02 b
           in skipdata_loop (write_at opstr 0 (vsnprintf OP_STR_SIZE text)) (length text) (OP_STR_SIZE - length text) buffer))"

text \<open>The copies into the arrays of an instruction; they do not look at the size of \<^verbatim>\<open>bytes\<close>, nor whether there is a
  mnemonic.\<close>

definition data_insn :: "handle \<Rightarrow> cs_insn \<Rightarrow> u64 \<Rightarrow> u8 list \<Rightarrow> nat \<Rightarrow> cs_insn option" where
  "data_insn h insn offset buffer skipdata_bytes =
     (if skipdata_bytes \<le> BYTES_SIZE then
        map_option (\<lambda>mnem.
          insn\<lparr>iid := 0, address := offset, isize := of_nat skipdata_bytes,
               bytes := take skipdata_bytes buffer @ drop skipdata_bytes (bytes insn),
               mnemonic := strncpy (MNEMONIC_SIZE - 1) mnem @ drop (MNEMONIC_SIZE - 1) (mnemonic insn),
               op_str := skipdata_opstr (op_str insn) (take skipdata_bytes buffer)\<rparr>)
          (sk_mnemonic (skipdata_setup h))
      else None)"

subsection \<open>Handles and options\<close>

text \<open>The type of an option with its value, which the code passes as a number or as a pointer.\<close>

datatype cs_opt =
  CS_OPT_INVALID u64 | CS_OPT_SYNTAX u64 | CS_OPT_DETAIL u64 | CS_OPT_MODE u64 | CS_OPT_MEM | CS_OPT_SKIPDATA u64
| CS_OPT_SKIPDATA_SETUP "cs_opt_skipdata option"

text \<open>The entries that the modules of the architectures make in \<^verbatim>\<open>arch_init\<close> and \<^verbatim>\<open>arch_option\<close> (\<^verbatim>\<open>cs_priv.h\<close>); an
  architecture that is not compiled in has none.\<close>

record arch_module =
  arch_init :: "nat \<Rightarrow> (handle \<Rightarrow> cs_err \<times> handle) option"
  arch_option :: "nat \<Rightarrow> handle \<Rightarrow> cs_opt \<Rightarrow> cs_err \<times> handle"

text \<open>The memory that \<^verbatim>\<open>calloc\<close> returns.\<close>

definition zero_handle :: handle where
  "zero_handle =
     \<lparr>core = \<lparr>cs_mode = 0, big_endian = False, ITBlock = \<lparr>ITStates = replicate 8 0, IT_size = 0\<rparr>\<rparr>, arch = 0, disasm = No_disasm,
      errnum = CS_ERR_OK, detail = 0, asm_syntax = 0, noregname = False, insn_cache = None, doing_mem = False, skipdata = False, skipdata_size = 0,
      skipdata_setup = \<lparr>sk_mnemonic = None, sk_callback = None\<rparr>\<rparr>"

text \<open>\<open>ready\<close> tells whether the functions of the allocator are set; the error and \<^verbatim>\<open>*handle\<close>, which is \<open>old\<close> before.\<close>

definition cs_open ::
    "arch_module \<Rightarrow> memory \<Rightarrow> bool \<Rightarrow> nat \<Rightarrow> u32 \<Rightarrow> handle option \<Rightarrow> cs_err \<times> handle option" where
  "cs_open A M ready a mode old =
     (if \<not> ready then (CS_ERR_MEMSETUP, old)
      else if a < CS_ARCH_MAX then
        (case arch_init A a of
           None \<Rightarrow> (CS_ERR_ARCH, None)
         | Some init \<Rightarrow>
             if \<not> alloc M 0 then (CS_ERR_MEM, old)
             else
               (let ud = zero_handle\<lparr>errnum := CS_ERR_OK, arch := a,
                      core := (core zero_handle)\<lparr>cs_mode := mode, big_endian := (mode AND CS_MODE_BIG_ENDIAN \<noteq> 0)\<rparr>,
                      detail := CS_OPT_OFF, skipdata_setup := (skipdata_setup zero_handle)\<lparr>sk_mnemonic := Some SKIPDATA_MNEM\<rparr>\<rparr>;
                    (err, ud) = init ud
                in if err \<noteq> CS_ERR_OK then (err, None) else (CS_ERR_OK, Some ud)))
      else (CS_ERR_ARCH, None))"

definition cs_close :: "handle option \<Rightarrow> cs_err \<times> handle option" where
  "cs_close ud = (case ud of None \<Rightarrow> (CS_ERR_CSH, None) | Some h \<Rightarrow> (CS_ERR_OK, None))"

text \<open>The option \<^verbatim>\<open>CS_OPT_MEM\<close> replaces the functions of the allocator, which are the record \<open>memory\<close> here.\<close>

definition cs_option :: "arch_module \<Rightarrow> handle option \<Rightarrow> cs_opt \<Rightarrow> cs_err \<times> handle option" where
  "cs_option A ud opt =
     (case opt of
        CS_OPT_MEM \<Rightarrow> (CS_ERR_OK, ud)
      | _ \<Rightarrow>
          (case ud of
             None \<Rightarrow> (CS_ERR_CSH, None)
           | Some h \<Rightarrow>
               (case opt of
                  CS_OPT_DETAIL v \<Rightarrow> (CS_ERR_OK, Some (h\<lparr>detail := ucast v\<rparr>))
                | CS_OPT_SKIPDATA v \<Rightarrow>
                    (let h = h\<lparr>skipdata := (v = ucast CS_OPT_ON)\<rparr>
                     in (CS_ERR_OK, Some
                          (if skipdata h \<and> skipdata_size h = 0 then h\<lparr>skipdata_size := skipdata_size_of h\<rparr> else h)))
                | CS_OPT_SKIPDATA_SETUP p \<Rightarrow>
                    (CS_ERR_OK, Some (case p of None \<Rightarrow> h | Some s \<Rightarrow> h\<lparr>skipdata_setup := s\<rparr>))
                | _ \<Rightarrow> (let (err, h) = arch_option A (arch h) h opt in (err, Some h)))))"

definition cs_errno :: "handle option \<Rightarrow> cs_err" where
  "cs_errno ud = (case ud of None \<Rightarrow> CS_ERR_CSH | Some h \<Rightarrow> errnum h)"

fun cs_strerror :: "cs_err \<Rightarrow> string" where
  "cs_strerror CS_ERR_OK = ''OK (CS_ERR_OK)''"
| "cs_strerror CS_ERR_MEM = ''Out of memory (CS_ERR_MEM)''"
| "cs_strerror CS_ERR_ARCH = ''Invalid architecture (CS_ERR_ARCH)''"
| "cs_strerror CS_ERR_HANDLE = ''Invalid handle (CS_ERR_HANDLE)''"
| "cs_strerror CS_ERR_CSH = ''Invalid csh (CS_ERR_CSH)''"
| "cs_strerror CS_ERR_MODE = ''Invalid mode (CS_ERR_MODE)''"
| "cs_strerror CS_ERR_OPTION = ''Invalid option (CS_ERR_OPTION)''"
| "cs_strerror CS_ERR_DETAIL = ''Details are unavailable (CS_ERR_DETAIL)''"
| "cs_strerror CS_ERR_MEMSETUP = ''Dynamic memory management uninitialized (CS_ERR_MEMSETUP)''"
| "cs_strerror CS_ERR_VERSION = ''Different API version between core & binding (CS_ERR_VERSION)''"
| "cs_strerror CS_ERR_DIET = ''Information irrelevant in diet engine (CS_ERR_DIET)''"
| "cs_strerror CS_ERR_SKIPDATA = ''Information irrelevant for '' @ [CHR 0x27] @ ''data'' @ [CHR 0x27] @ '' instruction in SKIPDATA mode (CS_ERR_SKIPDATA)''"
| "cs_strerror _ = ''Unknown error code''"

definition cs_version :: nat where
  "cs_version = push_bit 8 3 + 0"

text \<open>Support of an architecture or a feature, by the set of the architectures that are compiled in; the engine is neither diet nor
  reduced.\<close>

definition cs_support :: "u32 \<Rightarrow> nat \<Rightarrow> bool" where
  "cs_support all_arch query =
     (if query = CS_ARCH_ALL then
        all_arch = push_bit CS_ARCH_ARM 1 OR push_bit CS_ARCH_ARM64 1 OR push_bit CS_ARCH_MIPS 1 OR push_bit CS_ARCH_X86 1
          OR push_bit CS_ARCH_PPC 1 OR push_bit CS_ARCH_SPARC 1 OR push_bit CS_ARCH_SYSZ 1 OR push_bit CS_ARCH_XCORE 1
      else if query < CS_ARCH_MAX then all_arch AND push_bit query 1 \<noteq> 0
      else if query = CS_SUPPORT_DIET then False
      else if query = CS_SUPPORT_X86_REDUCE then False
      else False)"

subsection \<open>Disassembly of a buffer\<close>

text \<open>The body of the loop up to the counters: the handle, the instruction and the number of bytes to go on by, \<open>None\<close> where the
  loop is left.  \<open>size\<close> is the length of the buffer; the size that the disassembler returns is read only after a success.\<close>

definition disasm_one ::
    "engine \<Rightarrow> memory \<Rightarrow> u8 list \<Rightarrow> u64 \<Rightarrow> handle \<Rightarrow> u8 list \<Rightarrow> u64 \<Rightarrow> cs_insn \<Rightarrow> (handle \<times> cs_insn \<times> nat option) option" where
  "disasm_one E M buffer_org offset_org h buffer offset insn =
     (case e_disasm E h buffer (MCInst_Init (fresh_inst M)) (insn\<lparr>address := offset\<rparr>) 0 of
        None \<Rightarrow> None
      | Some (True, h, mci, insn, insn_size) \<Rightarrow>
          (case e_insn_id E h (insn\<lparr>isize := of_nat insn_size\<rparr>) (MCInst_getOpcode mci) of
             None \<Rightarrow> None
           | Some (h, insn) \<Rightarrow>
               (case e_printer E h mci insn (SStream_Init (fresh_stream M)) of
                  None \<Rightarrow> None
                | Some (h, mci, insn, ss) \<Rightarrow>
                    map_option (\<lambda>insn. (h, insn, Some insn_size)) (fill_insn E h insn (sbuffer ss) mci buffer)))
      | Some (False, h, mci, insn, _) \<Rightarrow>
          if \<not> skipdata h \<or> unat (skipdata_size h) > length buffer then Some (h, insn, None)
          else
            (let skip = (\<lambda>skipdata_bytes. map_option (\<lambda>insn. (h, insn\<lparr>idetail := None\<rparr>, Some skipdata_bytes))
                          (data_insn h insn offset buffer skipdata_bytes))
             in case sk_callback (skipdata_setup h) of
                  Some callback \<Rightarrow>
                    (let skipdata_bytes = callback buffer_org (unat (offset - offset_org))
                     in if skipdata_bytes > length buffer then Some (h, insn, None)
                        else if skipdata_bytes = 0 then Some (h, insn, None)
                        else skip skipdata_bytes)
                | None \<Rightarrow> skip (unat (skipdata_size h))))"

text \<open>The variables of the loop: \<open>st_total\<close> are the slots of the memory block, \<open>st_pos\<close> the one that \<^verbatim>\<open>insn_cache\<close> points to,
  and \<open>st_mallocs\<close> counts the allocations.\<close>

record dstate =
  st_handle :: handle
  st_total :: "cs_insn list"
  st_total_size :: nat
  st_pos :: nat
  st_f :: nat
  st_c :: nat
  st_cache_size :: nat
  st_buffer :: "u8 list"
  st_offset :: u64
  st_mallocs :: nat

datatype outcome = Continue dstate | Break dstate | Return handle

text \<open>\<^verbatim>\<open>realloc\<close> to a number of bytes.\<close>

definition resize :: "memory \<Rightarrow> cs_insn list \<Rightarrow> nat \<Rightarrow> cs_insn list" where
  "resize M block n =
     take (n div SIZEOF_CS_INSN) block @ map (fresh_insn M) [length block..<n div SIZEOF_CS_INSN]"

text \<open>The rest of the body, after an instruction or data has been stored: the counters, the growth of the block and the
  step to the next bytes.\<close>

definition disasm_advance :: "memory \<Rightarrow> nat \<Rightarrow> nat \<Rightarrow> dstate \<Rightarrow> outcome option" where
  "disasm_advance M count next_offset st =
     (let st = st\<lparr>st_f := (st_f st + 1) mod 2 ^ 32, st_c := (st_c st + 1) mod 2 ^ 64\<rparr>
      in if count > 0 \<and> st_c st = count then Some (Break st)
         else if next_offset > length (st_buffer st) then None
         else
           (let step = (\<lambda>st. st\<lparr>st_buffer := drop next_offset (st_buffer st), st_offset := st_offset st + of_nat next_offset\<rparr>)
            in if st_f st = st_cache_size st then
                 (let cache_size = st_cache_size st * 8 mod 2 ^ 32 div 5;
                      total_size = (st_total_size st + SIZEOF_CS_INSN * cache_size) mod 2 ^ 64
                  in if \<not> alloc M (st_mallocs st) then Some (Return ((st_handle st)\<lparr>errnum := CS_ERR_MEM\<rparr>))
                     else Some (Continue (step (st\<lparr>st_cache_size := cache_size, st_total_size := total_size,
                            st_total := resize M (st_total st) total_size, st_pos := st_c st, st_f := 0,
                            st_mallocs := st_mallocs st + 1\<rparr>))))
               else Some (Continue (step (st\<lparr>st_pos := st_pos st + 1\<rparr>)))))"

definition disasm_step :: "engine \<Rightarrow> memory \<Rightarrow> u8 list \<Rightarrow> u64 \<Rightarrow> nat \<Rightarrow> dstate \<Rightarrow> outcome option" where
  "disasm_step E M buffer_org offset_org count st =
     (if st_pos st < length (st_total st) then
        (let h = st_handle st;
             on = (detail h \<noteq> 0);
             insn = (st_total st ! st_pos st)\<lparr>idetail :=
               (if on \<and> alloc M (st_mallocs st) then Some (fresh_detail M (st_mallocs st)) else None)\<rparr>;
             st = (if on then st\<lparr>st_mallocs := st_mallocs st + 1\<rparr> else st)
         in case disasm_one E M buffer_org offset_org h (st_buffer st) (st_offset st) insn of
              None \<Rightarrow> None
            | Some (h, insn, next) \<Rightarrow>
                (let st = st\<lparr>st_handle := h, st_total := (st_total st)[st_pos st := insn]\<rparr>
                 in case next of None \<Rightarrow> Some (Break st) | Some next_offset \<Rightarrow> disasm_advance M count next_offset st))
      else None)"

partial_function (option) disasm_loop ::
    "engine \<Rightarrow> memory \<Rightarrow> u8 list \<Rightarrow> u64 \<Rightarrow> nat \<Rightarrow> dstate \<Rightarrow> outcome option" where
  "disasm_loop E M buffer_org offset_org count st =
     (if st_buffer st = [] then Some (Break st)
      else case disasm_step E M buffer_org offset_org count st of
             None \<Rightarrow> None
           | Some (Continue st) \<Rightarrow> disasm_loop E M buffer_org offset_org count st
           | Some r \<Rightarrow> Some r)"

declare disasm_loop.simps [code]

text \<open>After the loop: the unused end of the block is given back.\<close>

definition disasm_finish :: "memory \<Rightarrow> dstate \<Rightarrow> handle \<times> nat \<times> cs_insn list option" where
  "disasm_finish M st =
     (if st_c st = 0 then (st_handle st, 0, None)
      else if st_f st \<noteq> st_cache_size st then
        (if alloc M (st_mallocs st) then
           (st_handle st, st_c st,
            Some (resize M (st_total st) (st_total_size st - (st_cache_size st - st_f st) * SIZEOF_CS_INSN)))
         else ((st_handle st)\<lparr>errnum := CS_ERR_MEM\<rparr>, 0, None))
      else (st_handle st, st_c st, Some (st_total st)))"

text \<open>The handle, the number of instructions and \<^verbatim>\<open>*insn\<close>, which is \<open>out\<close> before.  The handle is not null.\<close>

definition cs_disasm ::
    "engine \<Rightarrow> memory \<Rightarrow> handle \<Rightarrow> u8 list \<Rightarrow> u64 \<Rightarrow> nat \<Rightarrow> cs_insn list option \<Rightarrow> (handle \<times> nat \<times> cs_insn list option) option" where
  "cs_disasm E M h buffer offset count out =
     (let h = h\<lparr>errnum := CS_ERR_OK\<rparr>;
          h = (if arch h = CS_ARCH_ARM then h\<lparr>core := (core h)\<lparr>ITBlock := (ITBlock (core h))\<lparr>IT_size := 0\<rparr>\<rparr>\<rparr> else h);
          cache_size = (if 0 < count \<and> count \<le> INSN_CACHE_SIZE then count else INSN_CACHE_SIZE);
          total_size = SIZEOF_CS_INSN * cache_size
      in if \<not> alloc M 0 then Some (h\<lparr>errnum := CS_ERR_MEM\<rparr>, 0, out)
         else
           (case disasm_loop E M buffer offset count
                   \<lparr>st_handle = h, st_total = resize M [] total_size, st_total_size = total_size, st_pos = 0, st_f = 0, st_c = 0,
                    st_cache_size = cache_size, st_buffer = buffer, st_offset = offset, st_mallocs = 1\<rparr> of
              None \<Rightarrow> None
            | Some (Return h) \<Rightarrow> Some (h, 0, None)
            | Some (Break st) \<Rightarrow> Some (disasm_finish M st)
            | Some (Continue st) \<Rightarrow> None))"

subsection \<open>Disassembly of one instruction\<close>

text \<open>The result, the handle, the bytes and the address to go on with, and the instruction.\<close>

definition cs_disasm_iter ::
    "engine \<Rightarrow> memory \<Rightarrow> handle \<Rightarrow> u8 list \<Rightarrow> u64 \<Rightarrow> cs_insn \<Rightarrow> (bool \<times> handle \<times> u8 list \<times> u64 \<times> cs_insn) option" where
  "cs_disasm_iter E M h code addr insn =
     (case e_disasm E (h\<lparr>errnum := CS_ERR_OK\<rparr>) code (MCInst_Init (fresh_inst M)) (insn\<lparr>address := addr\<rparr>) 0 of
        None \<Rightarrow> None
      | Some (r, h, mci, insn, insn_size) \<Rightarrow>
          if r then
            (case e_insn_id E h (insn\<lparr>isize := of_nat insn_size\<rparr>) (MCInst_getOpcode mci) of
               None \<Rightarrow> None
             | Some (h, insn) \<Rightarrow>
                 (case e_printer E h mci insn (SStream_Init (fresh_stream M)) of
                    None \<Rightarrow> None
                  | Some (h, mci, insn, ss) \<Rightarrow>
                      (case fill_insn E h insn (sbuffer ss) mci code of
                         None \<Rightarrow> None
                       | Some insn \<Rightarrow>
                           if insn_size \<le> length code then Some (True, h, drop insn_size code, addr + of_nat insn_size, insn)
                           else None)))
          else if \<not> skipdata h \<or> unat (skipdata_size h) > length code then Some (False, h, code, addr, insn)
          else
            (case sk_callback (skipdata_setup h) of
               Some callback \<Rightarrow>
                 (let skipdata_bytes = callback code 0
                  in if skipdata_bytes > length code then Some (False, h, code, addr, insn)
                     else if skipdata_bytes = 0 then Some (False, h, code, addr, insn)
                     else map_option (\<lambda>insn. (True, h, drop skipdata_bytes code, addr + of_nat skipdata_bytes, insn))
                            (data_insn h insn addr code skipdata_bytes))
             | None \<Rightarrow>
                 (let skipdata_bytes = unat (skipdata_size h)
                  in map_option (\<lambda>insn. (True, h, drop skipdata_bytes code, addr + of_nat skipdata_bytes, insn))
                       (data_insn h insn addr code skipdata_bytes))))"

text \<open>Memory for one instruction: the handle and the pointer.\<close>

definition cs_malloc :: "memory \<Rightarrow> handle \<Rightarrow> handle \<times> cs_insn option" where
  "cs_malloc M h =
     (if \<not> alloc M 0 then (h\<lparr>errnum := CS_ERR_MEM\<rparr>, None)
      else if detail h \<noteq> 0 then
        if \<not> alloc M 1 then (h\<lparr>errnum := CS_ERR_MEM\<rparr>, None)
        else (h, Some ((fresh_insn M 0)\<lparr>idetail := Some (fresh_detail M 1)\<rparr>))
      else (h, Some ((fresh_insn M 0)\<lparr>idetail := None\<rparr>)))"

subsection \<open>Questions about an instruction\<close>

text \<open>The checks that come first in each of them.\<close>

definition detail_error :: "handle \<Rightarrow> cs_insn \<Rightarrow> cs_err option" where
  "detail_error h insn =
     (if detail h = 0 then Some CS_ERR_DETAIL
      else if iid insn = 0 then Some CS_ERR_SKIPDATA
      else if idetail insn = None then Some CS_ERR_DETAIL
      else None)"

definition ask_detail :: "handle \<Rightarrow> cs_insn \<Rightarrow> (cs_detail \<Rightarrow> u8 list) \<Rightarrow> (cs_detail \<Rightarrow> u8) \<Rightarrow> u32 \<Rightarrow> bool \<times> handle" where
  "ask_detail h insn list count n =
     (case detail_error h insn of
        Some e \<Rightarrow> (False, h\<lparr>errnum := e\<rparr>)
      | None \<Rightarrow> (arr_exist (list (the (idetail insn))) (unat (count (the (idetail insn)))) n, h))"

definition cs_insn_group :: "handle \<Rightarrow> cs_insn \<Rightarrow> u32 \<Rightarrow> bool \<times> handle" where
  "cs_insn_group h insn group_id = ask_detail h insn groups groups_count group_id"

definition cs_reg_read :: "handle \<Rightarrow> cs_insn \<Rightarrow> u32 \<Rightarrow> bool \<times> handle" where
  "cs_reg_read h insn reg_id = ask_detail h insn regs_read regs_read_count reg_id"

definition cs_reg_write :: "handle \<Rightarrow> cs_insn \<Rightarrow> u32 \<Rightarrow> bool \<times> handle" where
  "cs_reg_write h insn reg_id = ask_detail h insn regs_write regs_write_count reg_id"

fun op_count_loop :: "u32 list \<Rightarrow> u32 \<Rightarrow> nat \<Rightarrow> nat" where
  "op_count_loop [] op_type count = count"
| "op_count_loop (t # ts) op_type count = op_count_loop ts op_type (if t = op_type then count + 1 else count)"

definition cs_op_count :: "handle \<Rightarrow> cs_insn \<Rightarrow> u32 \<Rightarrow> int \<times> handle" where
  "cs_op_count h insn op_type =
     (case detail_error h insn of
        Some e \<Rightarrow> (- 1, h\<lparr>errnum := e\<rparr>)
      | None \<Rightarrow>
          if arch h \<ge> CS_ARCH_MAX then (- 1, h\<lparr>errnum := CS_ERR_HANDLE\<rparr>)
          else (int (op_count_loop (op_types (the (idetail insn))) op_type 0), h\<lparr>errnum := CS_ERR_OK\<rparr>))"

text \<open>The counter is compared after every operand, whether or not it has the type.\<close>

fun op_index_loop :: "u32 list \<Rightarrow> u32 \<Rightarrow> nat \<Rightarrow> nat \<Rightarrow> nat \<Rightarrow> int" where
  "op_index_loop [] op_type post i count = - 1"
| "op_index_loop (t # ts) op_type post i count =
     (let count = (if t = op_type then count + 1 else count)
      in if count = post then int i else op_index_loop ts op_type post (i + 1) count)"

definition cs_op_index :: "handle \<Rightarrow> cs_insn \<Rightarrow> u32 \<Rightarrow> nat \<Rightarrow> int \<times> handle" where
  "cs_op_index h insn op_type post =
     (case detail_error h insn of
        Some e \<Rightarrow> (- 1, h\<lparr>errnum := e\<rparr>)
      | None \<Rightarrow>
          if arch h \<ge> CS_ARCH_MAX then (- 1, h\<lparr>errnum := CS_ERR_HANDLE\<rparr>)
          else (op_index_loop (op_types (the (idetail insn))) op_type post 0 0, h\<lparr>errnum := CS_ERR_OK\<rparr>))"

end
