(* ===== verification/ARM_Insns.thy ===== *)
theory ARM_Insns
  imports CS_Mapping
begin

text \<open>The tables of \<^verbatim>\<open>capstone/arch/ARM/ARMMapping.c\<close>: the properties of the 2211 ARM instructions, the names of the public
  instructions, groups and registers, and the relative branches, with the look-ups in them.  The numbers are those of the enumerations of
  \<^verbatim>\<open>ARMGenInstrInfo.inc\<close> and \<^verbatim>\<open>include/arm.h\<close>; the texts give the enumerators of the entries.\<close>

subsection \<open>Instructions\<close>

text \<open>An initialiser fills up the arrays of an entry with zeros.\<close>

definition insn_entry :: "nat \<Rightarrow> nat \<Rightarrow> u8 list \<Rightarrow> u8 list \<Rightarrow> u8 list \<Rightarrow> bool \<Rightarrow> bool \<Rightarrow> insn_map" where
  "insn_entry i m u w g b ib =
     \<lparr>map_id = i, mapid = m, regs_use = u @ replicate (12 - length u) 0, regs_mod = w @ replicate (20 - length w) 0,
      map_groups = g @ replicate (8 - length g) 0, branch = b, indirect_branch = ib\<rparr>"

text \<open>Entries of ADCri, ADCrr, ADCrsi, ADCrsr, ADDri, ADDrr, ADDrsi, ADDrsr, ADR, AESD, AESE, AESIMC, AESMC, ANDri, ANDrr,
  ANDrsi, ANDrsr, BFC, BFI, BICri, BICrr, BICrsi, BICrsr, BKPT.\<close>

definition insns_0 :: "insn_map list" where
  "insns_0 =
    [insn_entry 0 0 [] [] [] False False,
     insn_entry 21 1 [3] [3] [147] False False,
     insn_entry 22 1 [3] [3] [147] False False,
     insn_entry 23 1 [3] [3] [147] False False,
     insn_entry 24 1 [3] [3] [147] False False,
     insn_entry 29 2 [] [] [147] False False,
     insn_entry 30 2 [] [] [147] False False,
     insn_entry 31 2 [] [] [147] False False,
     insn_entry 32 2 [] [] [147] False False,
     insn_entry 35 3 [] [] [147] False False,
     insn_entry 36 4 [] [] [143, 128] False False,
     insn_entry 37 5 [] [] [143, 128] False False,
     insn_entry 38 6 [] [] [143, 128] False False,
     insn_entry 39 7 [] [] [143, 128] False False,
     insn_entry 40 8 [] [] [147] False False,
     insn_entry 41 8 [] [] [147] False False,
     insn_entry 42 8 [] [] [147] False False,
     insn_entry 43 8 [] [] [147] False False,
     insn_entry 49 9 [] [] [147, 141] False False,
     insn_entry 50 10 [] [] [147, 141] False False,
     insn_entry 51 11 [] [] [147] False False,
     insn_entry 52 11 [] [] [147] False False,
     insn_entry 53 11 [] [] [147] False False,
     insn_entry 54 11 [] [] [147] False False,
     insn_entry 55 12 [] [] [147] False False]"

text \<open>Entries of BL, BLX, BLX_pred, BLXi, BL_pred, BX, BXJ, BX_RET, BX_pred, Bcc, CDP, CDP2, CLREX, CLZ, CMNri, CMNzrr,
  CMNzrsi, CMNzrsr, CMPri, CMPrr, CMPrsi, CMPrsr, CPS1p, CPS2p, CPS3p.\<close>

definition insns_1 :: "insn_map list" where
  "insns_1 =
    [insn_entry 56 13 [11] [10] [147] True False,
     insn_entry 57 14 [11] [10] [147, 138] False True,
     insn_entry 58 14 [11] [10] [147, 138] False True,
     insn_entry 59 14 [11] [10] [147, 138] True False,
     insn_entry 60 13 [11] [10] [147] True False,
     insn_entry 66 15 [] [] [1, 147, 137] False True,
     insn_entry 67 16 [] [] [147] False True,
     insn_entry 69 15 [] [] [147, 137] False True,
     insn_entry 70 15 [] [] [147, 137] False True,
     insn_entry 71 17 [] [] [147] True False,
     insn_entry 72 18 [] [] [153] False False,
     insn_entry 73 19 [] [] [153] False False,
     insn_entry 74 20 [] [] [147, 142] False False,
     insn_entry 75 21 [] [] [147, 138] False False,
     insn_entry 76 22 [] [3] [147] False False,
     insn_entry 77 22 [] [3] [147] False False,
     insn_entry 78 22 [] [3] [147] False False,
     insn_entry 79 22 [] [3] [147] False False,
     insn_entry 80 23 [] [3] [147] False False,
     insn_entry 81 23 [] [3] [147] False False,
     insn_entry 82 23 [] [3] [147] False False,
     insn_entry 83 23 [] [3] [147] False False,
     insn_entry 86 24 [] [] [147] False False,
     insn_entry 87 24 [] [] [147] False False,
     insn_entry 88 24 [] [] [147] False False]"

text \<open>Entries of CRC32B, CRC32CB, CRC32CH, CRC32CW, CRC32H, CRC32W, DBG, DMB, DSB, EORri, EORrr, EORrsi, EORrsr, FCONSTD,
  FCONSTS, FLDMXDB_UPD, FLDMXIA, FLDMXIA_UPD, FMSTAT, FSTMXDB_UPD, FSTMXIA, FSTMXIA_UPD, HINT, HLT, ISB.\<close>

definition insns_2 :: "insn_map list" where
  "insns_2 =
    [insn_entry 89 25 [] [] [147, 143, 156] False False,
     insn_entry 90 26 [] [] [147, 143, 156] False False,
     insn_entry 91 27 [] [] [147, 143, 156] False False,
     insn_entry 92 28 [] [] [147, 143, 156] False False,
     insn_entry 93 29 [] [] [147, 143, 156] False False,
     insn_entry 94 30 [] [] [147, 143, 156] False False,
     insn_entry 95 31 [] [] [147, 142] False False,
     insn_entry 96 32 [] [] [147, 129] False False,
     insn_entry 97 33 [] [] [147, 129] False False,
     insn_entry 98 34 [] [] [147] False False,
     insn_entry 99 34 [] [] [147] False False,
     insn_entry 100 34 [] [] [147] False False,
     insn_entry 101 34 [] [] [147] False False,
     insn_entry 102 35 [] [] [145, 157] False False,
     insn_entry 103 35 [] [] [145] False False,
     insn_entry 104 36 [] [] [144] False False,
     insn_entry 105 37 [] [] [144] False False,
     insn_entry 106 37 [] [] [144] False False,
     insn_entry 107 38 [7] [3] [144] False False,
     insn_entry 108 39 [] [] [144] False False,
     insn_entry 109 40 [] [] [144] False False,
     insn_entry 110 40 [] [] [144] False False,
     insn_entry 111 41 [] [] [147, 140] False False,
     insn_entry 112 42 [] [] [147, 143] False False,
     insn_entry 113 43 [] [] [147, 129] False False]"

text \<open>Entries of LDA, LDAB, LDAEX, LDAEXB, LDAEXD, LDAEXH, LDAH, LDC2L_OFFSET, LDC2L_OPTION, LDC2L_POST, LDC2L_PRE,
  LDC2_OFFSET, LDC2_OPTION, LDC2_POST, LDC2_PRE, LDCL_OFFSET, LDCL_OPTION, LDCL_POST, LDCL_PRE, LDC_OFFSET, LDC_OPTION,
  LDC_POST, LDC_PRE, LDMDA, LDMDA_UPD.\<close>

definition insns_3 :: "insn_map list" where
  "insns_3 =
    [insn_entry 119 44 [] [] [147, 143] False False,
     insn_entry 120 45 [] [] [147, 143] False False,
     insn_entry 121 46 [] [] [147, 143] False False,
     insn_entry 122 47 [] [] [147, 143] False False,
     insn_entry 123 48 [] [] [147, 143] False False,
     insn_entry 124 49 [] [] [147, 143] False False,
     insn_entry 125 50 [] [] [147, 143] False False,
     insn_entry 126 51 [] [] [153] False False,
     insn_entry 127 51 [] [] [153] False False,
     insn_entry 128 51 [] [] [153] False False,
     insn_entry 129 51 [] [] [153] False False,
     insn_entry 130 52 [] [] [153] False False,
     insn_entry 131 52 [] [] [153] False False,
     insn_entry 132 52 [] [] [153] False False,
     insn_entry 133 52 [] [] [153] False False,
     insn_entry 134 53 [] [] [147] False False,
     insn_entry 135 53 [] [] [147] False False,
     insn_entry 136 53 [] [] [147] False False,
     insn_entry 137 53 [] [] [147] False False,
     insn_entry 138 54 [] [] [147] False False,
     insn_entry 139 54 [] [] [147] False False,
     insn_entry 140 54 [] [] [147] False False,
     insn_entry 141 54 [] [] [147] False False,
     insn_entry 142 55 [] [] [147] False False,
     insn_entry 143 55 [] [] [147] False False]"

text \<open>Entries of LDMDB, LDMDB_UPD, LDMIA, LDMIA_UPD, LDMIB, LDMIB_UPD, LDRBT_POST_IMM, LDRBT_POST_REG, LDRB_POST_IMM,
  LDRB_POST_REG, LDRB_PRE_IMM, LDRB_PRE_REG, LDRBi12, LDRBrs, LDRD, LDRD_POST, LDRD_PRE, LDREX, LDREXB, LDREXD, LDREXH,
  LDRH, LDRHTi, LDRHTr, LDRH_POST.\<close>

definition insns_4 :: "insn_map list" where
  "insns_4 =
    [insn_entry 144 56 [] [] [147] False False,
     insn_entry 145 56 [] [] [147] False False,
     insn_entry 146 57 [] [] [147] False False,
     insn_entry 148 57 [] [] [147] False False,
     insn_entry 149 58 [] [] [147] False False,
     insn_entry 150 58 [] [] [147] False False,
     insn_entry 152 59 [] [] [147] False False,
     insn_entry 153 59 [] [] [147] False False,
     insn_entry 154 60 [] [] [147] False False,
     insn_entry 155 60 [] [] [147] False False,
     insn_entry 156 60 [] [] [147] False False,
     insn_entry 157 60 [] [] [147] False False,
     insn_entry 158 60 [] [] [147] False False,
     insn_entry 159 60 [] [] [147] False False,
     insn_entry 160 61 [] [] [147, 139] False False,
     insn_entry 161 61 [] [] [147] False False,
     insn_entry 162 61 [] [] [147] False False,
     insn_entry 163 62 [] [] [147] False False,
     insn_entry 164 63 [] [] [147] False False,
     insn_entry 165 64 [] [] [147] False False,
     insn_entry 166 65 [] [] [147] False False,
     insn_entry 167 66 [] [] [147] False False,
     insn_entry 168 67 [] [] [147] False False,
     insn_entry 169 67 [] [] [147] False False,
     insn_entry 170 66 [] [] [147] False False]"

text \<open>Entries of LDRH_PRE, LDRSB, LDRSBTi, LDRSBTr, LDRSB_POST, LDRSB_PRE, LDRSH, LDRSHTi, LDRSHTr, LDRSH_POST, LDRSH_PRE,
  LDRT_POST_IMM, LDRT_POST_REG, LDR_POST_IMM, LDR_POST_REG, LDR_PRE_IMM, LDR_PRE_REG, LDRcp, LDRi12, LDRrs, MCR, MCR2,
  MCRR, MCRR2, MLA.\<close>

definition insns_5 :: "insn_map list" where
  "insns_5 =
    [insn_entry 171 66 [] [] [147] False False,
     insn_entry 175 68 [] [] [147] False False,
     insn_entry 176 69 [] [] [147] False False,
     insn_entry 177 69 [] [] [147] False False,
     insn_entry 178 68 [] [] [147] False False,
     insn_entry 179 68 [] [] [147] False False,
     insn_entry 180 70 [] [] [147] False False,
     insn_entry 181 71 [] [] [147] False False,
     insn_entry 182 71 [] [] [147] False False,
     insn_entry 183 70 [] [] [147] False False,
     insn_entry 184 70 [] [] [147] False False,
     insn_entry 186 72 [] [] [147] False False,
     insn_entry 187 72 [] [] [147] False False,
     insn_entry 188 73 [] [] [147] False False,
     insn_entry 189 73 [] [] [147] False False,
     insn_entry 190 73 [] [] [147] False False,
     insn_entry 191 73 [] [] [147] False False,
     insn_entry 192 73 [] [] [147] False False,
     insn_entry 193 73 [] [] [147] False False,
     insn_entry 194 73 [] [] [147] False False,
     insn_entry 201 74 [] [] [147] False False,
     insn_entry 202 75 [] [] [153] False False,
     insn_entry 203 76 [] [] [147] False False,
     insn_entry 204 77 [] [] [153] False False,
     insn_entry 205 78 [] [] [147, 140, 155] False False]"

text \<open>Entries of MLS, MOVPCLR, MOVTi16, MOVi, MOVi16, MOVr, MOVr_TC, MOVsi, MOVsr, MRC, MRC2, MRRC, MRRC2, MRS, MRSsys, MSR,
  MSRi, MUL, MVNi, MVNr, MVNsi, MVNsr, ORRri, ORRrr, ORRrsi.\<close>

definition insns_6 :: "insn_map list" where
  "insns_6 =
    [insn_entry 207 79 [] [] [147, 141, 155] False False,
     insn_entry 214 80 [] [] [147] False False,
     insn_entry 216 81 [] [] [147, 141] False False,
     insn_entry 220 80 [] [] [147] False False,
     insn_entry 221 82 [] [] [147, 141] False False,
     insn_entry 224 80 [] [] [147] False False,
     insn_entry 225 80 [] [] [147] False False,
     insn_entry 226 80 [] [] [147] False False,
     insn_entry 227 80 [] [] [147] False False,
     insn_entry 230 83 [] [] [147] False False,
     insn_entry 231 84 [] [] [153] False False,
     insn_entry 232 85 [] [] [147] False False,
     insn_entry 233 86 [] [] [153] False False,
     insn_entry 234 87 [] [] [147] False False,
     insn_entry 235 87 [] [] [147] False False,
     insn_entry 236 88 [] [] [147] False False,
     insn_entry 237 88 [] [] [147] False False,
     insn_entry 238 89 [] [] [147, 140] False False,
     insn_entry 241 90 [] [] [147] False False,
     insn_entry 242 90 [] [] [147] False False,
     insn_entry 243 90 [] [] [147] False False,
     insn_entry 244 90 [] [] [147] False False,
     insn_entry 245 91 [] [] [147] False False,
     insn_entry 246 91 [] [] [147] False False,
     insn_entry 247 91 [] [] [147] False False]"

text \<open>Entries of ORRrsr, PKHBT, PKHTB, PLDWi12, PLDWrs, PLDi12, PLDrs, PLIi12, PLIrs, QADD, QADD16, QADD8, QASX, QDADD,
  QDSUB, QSAX, QSUB, QSUB16, QSUB8, RBIT, REV, REV16, REVSH, RFEDA, RFEDA_UPD.\<close>

definition insns_7 :: "insn_map list" where
  "insns_7 =
    [insn_entry 248 91 [] [] [147] False False,
     insn_entry 258 92 [] [] [147, 140] False False,
     insn_entry 259 93 [] [] [147, 140] False False,
     insn_entry 260 94 [] [] [147, 142, 132] False False,
     insn_entry 261 94 [] [] [147, 142, 132] False False,
     insn_entry 262 95 [] [] [147] False False,
     insn_entry 263 95 [] [] [147] False False,
     insn_entry 264 96 [] [] [147, 142] False False,
     insn_entry 265 96 [] [] [147, 142] False False,
     insn_entry 266 97 [] [] [147] False False,
     insn_entry 267 98 [] [] [147] False False,
     insn_entry 268 99 [] [] [147] False False,
     insn_entry 269 100 [] [] [147] False False,
     insn_entry 270 101 [] [] [147] False False,
     insn_entry 271 102 [] [] [147] False False,
     insn_entry 272 103 [] [] [147] False False,
     insn_entry 273 104 [] [] [147] False False,
     insn_entry 274 105 [] [] [147] False False,
     insn_entry 275 106 [] [] [147] False False,
     insn_entry 276 107 [] [] [147, 141] False False,
     insn_entry 277 108 [] [] [147, 140] False False,
     insn_entry 278 109 [] [] [147, 140] False False,
     insn_entry 279 110 [] [] [147, 140] False False,
     insn_entry 280 111 [] [] [147] False False,
     insn_entry 281 111 [] [] [147] False False]"

text \<open>Entries of RFEDB, RFEDB_UPD, RFEIA, RFEIA_UPD, RFEIB, RFEIB_UPD, RSBri, RSBrr, RSBrsi, RSBrsr, RSCri, RSCrr, RSCrsi,
  RSCrsr, SADD16, SADD8, SASX, SBCri, SBCrr, SBCrsi, SBCrsr, SBFX, SDIV, SEL, SETEND.\<close>

definition insns_8 :: "insn_map list" where
  "insns_8 =
    [insn_entry 282 112 [] [] [147] False False,
     insn_entry 283 112 [] [] [147] False False,
     insn_entry 284 113 [] [] [147] False False,
     insn_entry 285 113 [] [] [147] False False,
     insn_entry 286 114 [] [] [147] False False,
     insn_entry 287 114 [] [] [147] False False,
     insn_entry 295 115 [] [] [147] False False,
     insn_entry 296 115 [] [] [147] False False,
     insn_entry 297 115 [] [] [147] False False,
     insn_entry 298 115 [] [] [147] False False,
     insn_entry 299 116 [3] [3] [147] False False,
     insn_entry 300 116 [3] [3] [147] False False,
     insn_entry 301 116 [3] [3] [147] False False,
     insn_entry 302 116 [3] [3] [147] False False,
     insn_entry 303 117 [] [] [147] False False,
     insn_entry 304 118 [] [] [147] False False,
     insn_entry 305 119 [] [] [147] False False,
     insn_entry 306 120 [3] [3] [147] False False,
     insn_entry 307 120 [3] [3] [147] False False,
     insn_entry 308 120 [3] [3] [147] False False,
     insn_entry 309 120 [3] [3] [147] False False,
     insn_entry 310 121 [] [] [147, 141] False False,
     insn_entry 311 122 [] [] [147] False False,
     insn_entry 312 123 [] [] [147, 140] False False,
     insn_entry 313 124 [] [] [147] False False]"

text \<open>Entries of SHA1C, SHA1H, SHA1M, SHA1P, SHA1SU0, SHA1SU1, SHA256H, SHA256H2, SHA256SU0, SHA256SU1, SHADD16, SHADD8,
  SHASX, SHSAX, SHSUB16, SHSUB8, SMC, SMLABB, SMLABT, SMLAD, SMLADX, SMLAL, SMLALBB, SMLALBT, SMLALD.\<close>

definition insns_9 :: "insn_map list" where
  "insns_9 =
    [insn_entry 314 125 [] [] [143, 128] False False,
     insn_entry 315 126 [] [] [143, 128] False False,
     insn_entry 316 127 [] [] [143, 128] False False,
     insn_entry 317 128 [] [] [143, 128] False False,
     insn_entry 318 129 [] [] [143, 128] False False,
     insn_entry 319 130 [] [] [143, 128] False False,
     insn_entry 320 131 [] [] [143, 128] False False,
     insn_entry 321 132 [] [] [143, 128] False False,
     insn_entry 322 133 [] [] [143, 128] False False,
     insn_entry 323 134 [] [] [143, 128] False False,
     insn_entry 324 135 [] [] [147] False False,
     insn_entry 325 136 [] [] [147] False False,
     insn_entry 326 137 [] [] [147] False False,
     insn_entry 327 138 [] [] [147] False False,
     insn_entry 328 139 [] [] [147] False False,
     insn_entry 329 140 [] [] [147] False False,
     insn_entry 330 141 [] [] [147, 136] False False,
     insn_entry 331 142 [] [] [147, 139, 155] False False,
     insn_entry 332 143 [] [] [147, 139, 155] False False,
     insn_entry 333 144 [] [] [147, 140] False False,
     insn_entry 334 145 [] [] [147, 140] False False,
     insn_entry 335 146 [] [] [147, 140] False False,
     insn_entry 336 147 [] [] [147, 139] False False,
     insn_entry 337 148 [] [] [147, 139] False False,
     insn_entry 338 149 [] [] [147, 140] False False]"

text \<open>Entries of SMLALDX, SMLALTB, SMLALTT, SMLATB, SMLATT, SMLAWB, SMLAWT, SMLSD, SMLSDX, SMLSLD, SMLSLDX, SMMLA, SMMLAR,
  SMMLS, SMMLSR, SMMUL, SMMULR, SMUAD, SMUADX, SMULBB, SMULBT, SMULL, SMULTB, SMULTT, SMULWB.\<close>

definition insns_10 :: "insn_map list" where
  "insns_10 =
    [insn_entry 339 150 [] [] [147, 140] False False,
     insn_entry 340 151 [] [] [147, 139] False False,
     insn_entry 341 152 [] [] [147, 139] False False,
     insn_entry 343 153 [] [] [147, 139, 155] False False,
     insn_entry 344 154 [] [] [147, 139, 155] False False,
     insn_entry 345 155 [] [] [147, 139, 155] False False,
     insn_entry 346 156 [] [] [147, 139, 155] False False,
     insn_entry 347 157 [] [] [147, 140] False False,
     insn_entry 348 158 [] [] [147, 140] False False,
     insn_entry 349 159 [] [] [147, 140] False False,
     insn_entry 350 160 [] [] [147, 140] False False,
     insn_entry 351 161 [] [] [147, 140, 155] False False,
     insn_entry 352 162 [] [] [147, 140] False False,
     insn_entry 353 163 [] [] [147, 140, 155] False False,
     insn_entry 354 164 [] [] [147, 140] False False,
     insn_entry 355 165 [] [] [147, 140] False False,
     insn_entry 356 166 [] [] [147, 140] False False,
     insn_entry 357 167 [] [] [147, 140] False False,
     insn_entry 358 168 [] [] [147, 140] False False,
     insn_entry 359 169 [] [] [147, 139] False False,
     insn_entry 360 170 [] [] [147, 139] False False,
     insn_entry 361 171 [] [] [147, 140] False False,
     insn_entry 363 172 [] [] [147, 139] False False,
     insn_entry 364 173 [] [] [147, 139] False False,
     insn_entry 365 174 [] [] [147, 139] False False]"

text \<open>Entries of SMULWT, SMUSD, SMUSDX, SRSDA, SRSDA_UPD, SRSDB, SRSDB_UPD, SRSIA, SRSIA_UPD, SRSIB, SRSIB_UPD, SSAT,
  SSAT16, SSAX, SSUB16, SSUB8, STC2L_OFFSET, STC2L_OPTION, STC2L_POST, STC2L_PRE, STC2_OFFSET, STC2_OPTION, STC2_POST,
  STC2_PRE, STCL_OFFSET.\<close>

definition insns_11 :: "insn_map list" where
  "insns_11 =
    [insn_entry 366 175 [] [] [147, 139] False False,
     insn_entry 367 176 [] [] [147, 140] False False,
     insn_entry 368 177 [] [] [147, 140] False False,
     insn_entry 369 178 [] [] [147] False False,
     insn_entry 370 178 [] [] [147] False False,
     insn_entry 371 179 [] [] [147] False False,
     insn_entry 372 179 [] [] [147] False False,
     insn_entry 373 180 [] [] [147] False False,
     insn_entry 374 180 [] [] [147] False False,
     insn_entry 375 181 [] [] [147] False False,
     insn_entry 376 181 [] [] [147] False False,
     insn_entry 377 182 [] [] [147] False False,
     insn_entry 378 183 [] [] [147] False False,
     insn_entry 379 184 [] [] [147] False False,
     insn_entry 380 185 [] [] [147] False False,
     insn_entry 381 186 [] [] [147] False False,
     insn_entry 382 187 [] [] [153] False False,
     insn_entry 383 187 [] [] [153] False False,
     insn_entry 384 187 [] [] [153] False False,
     insn_entry 385 187 [] [] [153] False False,
     insn_entry 386 188 [] [] [153] False False,
     insn_entry 387 188 [] [] [153] False False,
     insn_entry 388 188 [] [] [153] False False,
     insn_entry 389 188 [] [] [153] False False,
     insn_entry 390 189 [] [] [147] False False]"

text \<open>Entries of STCL_OPTION, STCL_POST, STCL_PRE, STC_OFFSET, STC_OPTION, STC_POST, STC_PRE, STL, STLB, STLEX, STLEXB,
  STLEXD, STLEXH, STLH, STMDA, STMDA_UPD, STMDB, STMDB_UPD, STMIA, STMIA_UPD, STMIB, STMIB_UPD, STRBT_POST_IMM,
  STRBT_POST_REG, STRB_POST_IMM.\<close>

definition insns_12 :: "insn_map list" where
  "insns_12 =
    [insn_entry 391 189 [] [] [147] False False,
     insn_entry 392 189 [] [] [147] False False,
     insn_entry 393 189 [] [] [147] False False,
     insn_entry 394 190 [] [] [147] False False,
     insn_entry 395 190 [] [] [147] False False,
     insn_entry 396 190 [] [] [147] False False,
     insn_entry 397 190 [] [] [147] False False,
     insn_entry 398 191 [] [] [147, 143] False False,
     insn_entry 399 192 [] [] [147, 143] False False,
     insn_entry 400 193 [] [] [147, 143] False False,
     insn_entry 401 194 [] [] [147, 143] False False,
     insn_entry 402 195 [] [] [147, 143] False False,
     insn_entry 403 196 [] [] [147, 143] False False,
     insn_entry 404 197 [] [] [147, 143] False False,
     insn_entry 405 198 [] [] [147] False False,
     insn_entry 406 198 [] [] [147] False False,
     insn_entry 407 199 [] [] [147] False False,
     insn_entry 408 199 [] [] [147] False False,
     insn_entry 409 200 [] [] [147] False False,
     insn_entry 410 200 [] [] [147] False False,
     insn_entry 411 201 [] [] [147] False False,
     insn_entry 412 201 [] [] [147] False False,
     insn_entry 414 202 [] [] [147] False False,
     insn_entry 415 202 [] [] [147] False False,
     insn_entry 416 203 [] [] [147] False False]"

text \<open>Entries of STRB_POST_REG, STRB_PRE_IMM, STRB_PRE_REG, STRBi12, STRBrs, STRD, STRD_POST, STRD_PRE, STREX, STREXB,
  STREXD, STREXH, STRH, STRHTi, STRHTr, STRH_POST, STRH_PRE, STRT_POST_IMM, STRT_POST_REG, STR_POST_IMM, STR_POST_REG,
  STR_PRE_IMM, STR_PRE_REG, STRi12, STRrs.\<close>

definition insns_13 :: "insn_map list" where
  "insns_13 =
    [insn_entry 417 203 [] [] [147] False False,
     insn_entry 418 203 [] [] [147] False False,
     insn_entry 419 203 [] [] [147] False False,
     insn_entry 420 203 [] [] [147] False False,
     insn_entry 423 203 [] [] [147] False False,
     insn_entry 424 204 [] [] [147, 139] False False,
     insn_entry 425 204 [] [] [147] False False,
     insn_entry 426 204 [] [] [147] False False,
     insn_entry 427 205 [] [] [147] False False,
     insn_entry 428 206 [] [] [147] False False,
     insn_entry 429 207 [] [] [147] False False,
     insn_entry 430 208 [] [] [147] False False,
     insn_entry 431 209 [] [] [147] False False,
     insn_entry 432 210 [] [] [147] False False,
     insn_entry 433 210 [] [] [147] False False,
     insn_entry 434 209 [] [] [147] False False,
     insn_entry 435 209 [] [] [147] False False,
     insn_entry 438 211 [] [] [147] False False,
     insn_entry 439 211 [] [] [147] False False,
     insn_entry 440 212 [] [] [147] False False,
     insn_entry 441 212 [] [] [147] False False,
     insn_entry 442 212 [] [] [147] False False,
     insn_entry 443 212 [] [] [147] False False,
     insn_entry 444 212 [] [] [147] False False,
     insn_entry 447 212 [] [] [147] False False]"

text \<open>Entries of SUBri, SUBrr, SUBrsi, SUBrsr, SVC, SWP, SWPB, SXTAB, SXTAB16, SXTAH, SXTB, SXTB16, SXTH, TEQri, TEQrr,
  TEQrsi, TEQrsr, TRAP, TRAPNaCl, TSTri, TSTrr, TSTrsi, TSTrsr, UADD16, UADD8.\<close>

definition insns_14 :: "insn_map list" where
  "insns_14 =
    [insn_entry 453 213 [] [] [147] False False,
     insn_entry 454 213 [] [] [147] False False,
     insn_entry 455 213 [] [] [147] False False,
     insn_entry 456 213 [] [] [147] False False,
     insn_entry 457 214 [12] [] [147] False False,
     insn_entry 458 215 [] [] [153] False False,
     insn_entry 459 216 [] [] [153] False False,
     insn_entry 460 217 [] [] [147, 140] False False,
     insn_entry 461 218 [] [] [147, 140] False False,
     insn_entry 462 219 [] [] [147, 140] False False,
     insn_entry 463 220 [] [] [147, 140] False False,
     insn_entry 464 221 [] [] [147, 140] False False,
     insn_entry 465 222 [] [] [147, 140] False False,
     insn_entry 470 223 [] [3] [147] False False,
     insn_entry 471 223 [] [3] [147] False False,
     insn_entry 472 223 [] [3] [147] False False,
     insn_entry 473 223 [] [3] [147] False False,
     insn_entry 475 224 [] [] [147] False False,
     insn_entry 476 224 [] [] [147] False False,
     insn_entry 477 225 [] [3] [147] False False,
     insn_entry 478 225 [] [3] [147] False False,
     insn_entry 479 225 [] [3] [147] False False,
     insn_entry 480 225 [] [3] [147] False False,
     insn_entry 481 226 [] [] [147] False False,
     insn_entry 482 227 [] [] [147] False False]"

text \<open>Entries of UASX, UBFX, UDF, UDIV, UHADD16, UHADD8, UHASX, UHSAX, UHSUB16, UHSUB8, UMAAL, UMLAL, UMULL, UQADD16,
  UQADD8, UQASX, UQSAX, UQSUB16, UQSUB8, USAD8, USADA8, USAT, USAT16, USAX, USUB16.\<close>

definition insns_15 :: "insn_map list" where
  "insns_15 =
    [insn_entry 483 228 [] [] [147] False False,
     insn_entry 484 229 [] [] [147, 141] False False,
     insn_entry 485 230 [] [] [147] False False,
     insn_entry 486 231 [] [] [147] False False,
     insn_entry 487 232 [] [] [147] False False,
     insn_entry 488 233 [] [] [147] False False,
     insn_entry 489 234 [] [] [147] False False,
     insn_entry 490 235 [] [] [147] False False,
     insn_entry 491 236 [] [] [147] False False,
     insn_entry 492 237 [] [] [147] False False,
     insn_entry 493 238 [] [] [147, 140] False False,
     insn_entry 494 239 [] [] [147, 140] False False,
     insn_entry 496 240 [] [] [147, 140] False False,
     insn_entry 498 241 [] [] [147] False False,
     insn_entry 499 242 [] [] [147] False False,
     insn_entry 500 243 [] [] [147] False False,
     insn_entry 501 244 [] [] [147] False False,
     insn_entry 502 245 [] [] [147] False False,
     insn_entry 503 246 [] [] [147] False False,
     insn_entry 504 247 [] [] [147, 140] False False,
     insn_entry 505 248 [] [] [147, 140] False False,
     insn_entry 506 249 [] [] [147] False False,
     insn_entry 507 250 [] [] [147] False False,
     insn_entry 508 251 [] [] [147] False False,
     insn_entry 509 252 [] [] [147] False False]"

text \<open>Entries of USUB8, UXTAB, UXTAB16, UXTAH, UXTB, UXTB16, UXTH, VABALsv2i64, VABALsv4i32, VABALsv8i16, VABALuv2i64,
  VABALuv4i32, VABALuv8i16, VABAsv16i8, VABAsv2i32, VABAsv4i16, VABAsv4i32, VABAsv8i16, VABAsv8i8, VABAuv16i8,
  VABAuv2i32, VABAuv4i16, VABAuv4i32, VABAuv8i16, VABAuv8i8.\<close>

definition insns_16 :: "insn_map list" where
  "insns_16 =
    [insn_entry 510 253 [] [] [147] False False,
     insn_entry 511 254 [] [] [147, 140] False False,
     insn_entry 512 255 [] [] [147, 140] False False,
     insn_entry 513 256 [] [] [147, 140] False False,
     insn_entry 514 257 [] [] [147, 140] False False,
     insn_entry 515 258 [] [] [147, 140] False False,
     insn_entry 516 259 [] [] [147, 140] False False,
     insn_entry 517 260 [] [] [133] False False,
     insn_entry 518 260 [] [] [133] False False,
     insn_entry 519 260 [] [] [133] False False,
     insn_entry 520 260 [] [] [133] False False,
     insn_entry 521 260 [] [] [133] False False,
     insn_entry 522 260 [] [] [133] False False,
     insn_entry 523 261 [] [] [133] False False,
     insn_entry 524 261 [] [] [133] False False,
     insn_entry 525 261 [] [] [133] False False,
     insn_entry 526 261 [] [] [133] False False,
     insn_entry 527 261 [] [] [133] False False,
     insn_entry 528 261 [] [] [133] False False,
     insn_entry 529 261 [] [] [133] False False,
     insn_entry 530 261 [] [] [133] False False,
     insn_entry 531 261 [] [] [133] False False,
     insn_entry 532 261 [] [] [133] False False,
     insn_entry 533 261 [] [] [133] False False,
     insn_entry 534 261 [] [] [133] False False]"

text \<open>Entries of VABDLsv2i64, VABDLsv4i32, VABDLsv8i16, VABDLuv2i64, VABDLuv4i32, VABDLuv8i16, VABDfd, VABDfq, VABDsv16i8,
  VABDsv2i32, VABDsv4i16, VABDsv4i32, VABDsv8i16, VABDsv8i8, VABDuv16i8, VABDuv2i32, VABDuv4i16, VABDuv4i32, VABDuv8i16,
  VABDuv8i8, VABSD, VABSS, VABSfd, VABSfq, VABSv16i8.\<close>

definition insns_17 :: "insn_map list" where
  "insns_17 =
    [insn_entry 535 262 [] [] [133] False False,
     insn_entry 536 262 [] [] [133] False False,
     insn_entry 537 262 [] [] [133] False False,
     insn_entry 538 262 [] [] [133] False False,
     insn_entry 539 262 [] [] [133] False False,
     insn_entry 540 262 [] [] [133] False False,
     insn_entry 541 263 [] [] [133] False False,
     insn_entry 542 263 [] [] [133] False False,
     insn_entry 543 263 [] [] [133] False False,
     insn_entry 544 263 [] [] [133] False False,
     insn_entry 545 263 [] [] [133] False False,
     insn_entry 546 263 [] [] [133] False False,
     insn_entry 547 263 [] [] [133] False False,
     insn_entry 548 263 [] [] [133] False False,
     insn_entry 549 263 [] [] [133] False False,
     insn_entry 550 263 [] [] [133] False False,
     insn_entry 551 263 [] [] [133] False False,
     insn_entry 552 263 [] [] [133] False False,
     insn_entry 553 263 [] [] [133] False False,
     insn_entry 554 263 [] [] [133] False False,
     insn_entry 555 264 [] [] [144, 157] False False,
     insn_entry 556 264 [] [] [144] False False,
     insn_entry 557 264 [] [] [133] False False,
     insn_entry 558 264 [] [] [133] False False,
     insn_entry 559 264 [] [] [133] False False]"

text \<open>Entries of VABSv2i32, VABSv4i16, VABSv4i32, VABSv8i16, VABSv8i8, VACGEd, VACGEq, VACGTd, VACGTq, VADDD, VADDHNv2i32,
  VADDHNv4i16, VADDHNv8i8, VADDLsv2i64, VADDLsv4i32, VADDLsv8i16, VADDLuv2i64, VADDLuv4i32, VADDLuv8i16, VADDS,
  VADDWsv2i64, VADDWsv4i32, VADDWsv8i16, VADDWuv2i64, VADDWuv4i32.\<close>

definition insns_18 :: "insn_map list" where
  "insns_18 =
    [insn_entry 560 264 [] [] [133] False False,
     insn_entry 561 264 [] [] [133] False False,
     insn_entry 562 264 [] [] [133] False False,
     insn_entry 563 264 [] [] [133] False False,
     insn_entry 564 264 [] [] [133] False False,
     insn_entry 565 265 [] [] [133] False False,
     insn_entry 566 265 [] [] [133] False False,
     insn_entry 567 266 [] [] [133] False False,
     insn_entry 568 266 [] [] [133] False False,
     insn_entry 569 267 [] [] [144, 157] False False,
     insn_entry 570 268 [] [] [133] False False,
     insn_entry 571 268 [] [] [133] False False,
     insn_entry 572 268 [] [] [133] False False,
     insn_entry 573 269 [] [] [133] False False,
     insn_entry 574 269 [] [] [133] False False,
     insn_entry 575 269 [] [] [133] False False,
     insn_entry 576 269 [] [] [133] False False,
     insn_entry 577 269 [] [] [133] False False,
     insn_entry 578 269 [] [] [133] False False,
     insn_entry 579 267 [] [] [144] False False,
     insn_entry 580 270 [] [] [133] False False,
     insn_entry 581 270 [] [] [133] False False,
     insn_entry 582 270 [] [] [133] False False,
     insn_entry 583 270 [] [] [133] False False,
     insn_entry 584 270 [] [] [133] False False]"

text \<open>Entries of VADDWuv8i16, VADDfd, VADDfq, VADDv16i8, VADDv1i64, VADDv2i32, VADDv2i64, VADDv4i16, VADDv4i32, VADDv8i16,
  VADDv8i8, VANDd, VANDq, VBICd, VBICiv2i32, VBICiv4i16, VBICiv4i32, VBICiv8i16, VBICq, VBIFd, VBIFq, VBITd, VBITq,
  VBSLd, VBSLq.\<close>

definition insns_19 :: "insn_map list" where
  "insns_19 =
    [insn_entry 585 270 [] [] [133] False False,
     insn_entry 586 267 [] [] [133] False False,
     insn_entry 587 267 [] [] [133] False False,
     insn_entry 588 267 [] [] [133] False False,
     insn_entry 589 267 [] [] [133] False False,
     insn_entry 590 267 [] [] [133] False False,
     insn_entry 591 267 [] [] [133] False False,
     insn_entry 592 267 [] [] [133] False False,
     insn_entry 593 267 [] [] [133] False False,
     insn_entry 594 267 [] [] [133] False False,
     insn_entry 595 267 [] [] [133] False False,
     insn_entry 596 271 [] [] [133] False False,
     insn_entry 597 271 [] [] [133] False False,
     insn_entry 598 272 [] [] [133] False False,
     insn_entry 599 272 [] [] [133] False False,
     insn_entry 600 272 [] [] [133] False False,
     insn_entry 601 272 [] [] [133] False False,
     insn_entry 602 272 [] [] [133] False False,
     insn_entry 603 272 [] [] [133] False False,
     insn_entry 604 273 [] [] [133] False False,
     insn_entry 605 273 [] [] [133] False False,
     insn_entry 606 274 [] [] [133] False False,
     insn_entry 607 274 [] [] [133] False False,
     insn_entry 608 275 [] [] [133] False False,
     insn_entry 609 275 [] [] [133] False False]"

text \<open>Entries of VCEQfd, VCEQfq, VCEQv16i8, VCEQv2i32, VCEQv4i16, VCEQv4i32, VCEQv8i16, VCEQv8i8, VCEQzv16i8, VCEQzv2f32,
  VCEQzv2i32, VCEQzv4f32, VCEQzv4i16, VCEQzv4i32, VCEQzv8i16, VCEQzv8i8, VCGEfd, VCGEfq, VCGEsv16i8, VCGEsv2i32,
  VCGEsv4i16, VCGEsv4i32, VCGEsv8i16, VCGEsv8i8, VCGEuv16i8.\<close>

definition insns_20 :: "insn_map list" where
  "insns_20 =
    [insn_entry 610 276 [] [] [133] False False,
     insn_entry 611 276 [] [] [133] False False,
     insn_entry 612 276 [] [] [133] False False,
     insn_entry 613 276 [] [] [133] False False,
     insn_entry 614 276 [] [] [133] False False,
     insn_entry 615 276 [] [] [133] False False,
     insn_entry 616 276 [] [] [133] False False,
     insn_entry 617 276 [] [] [133] False False,
     insn_entry 618 276 [] [] [133] False False,
     insn_entry 619 276 [] [] [133] False False,
     insn_entry 620 276 [] [] [133] False False,
     insn_entry 621 276 [] [] [133] False False,
     insn_entry 622 276 [] [] [133] False False,
     insn_entry 623 276 [] [] [133] False False,
     insn_entry 624 276 [] [] [133] False False,
     insn_entry 625 276 [] [] [133] False False,
     insn_entry 626 277 [] [] [133] False False,
     insn_entry 627 277 [] [] [133] False False,
     insn_entry 628 277 [] [] [133] False False,
     insn_entry 629 277 [] [] [133] False False,
     insn_entry 630 277 [] [] [133] False False,
     insn_entry 631 277 [] [] [133] False False,
     insn_entry 632 277 [] [] [133] False False,
     insn_entry 633 277 [] [] [133] False False,
     insn_entry 634 277 [] [] [133] False False]"

text \<open>Entries of VCGEuv2i32, VCGEuv4i16, VCGEuv4i32, VCGEuv8i16, VCGEuv8i8, VCGEzv16i8, VCGEzv2f32, VCGEzv2i32, VCGEzv4f32,
  VCGEzv4i16, VCGEzv4i32, VCGEzv8i16, VCGEzv8i8, VCGTfd, VCGTfq, VCGTsv16i8, VCGTsv2i32, VCGTsv4i16, VCGTsv4i32,
  VCGTsv8i16, VCGTsv8i8, VCGTuv16i8, VCGTuv2i32, VCGTuv4i16, VCGTuv4i32.\<close>

definition insns_21 :: "insn_map list" where
  "insns_21 =
    [insn_entry 635 277 [] [] [133] False False,
     insn_entry 636 277 [] [] [133] False False,
     insn_entry 637 277 [] [] [133] False False,
     insn_entry 638 277 [] [] [133] False False,
     insn_entry 639 277 [] [] [133] False False,
     insn_entry 640 277 [] [] [133] False False,
     insn_entry 641 277 [] [] [133] False False,
     insn_entry 642 277 [] [] [133] False False,
     insn_entry 643 277 [] [] [133] False False,
     insn_entry 644 277 [] [] [133] False False,
     insn_entry 645 277 [] [] [133] False False,
     insn_entry 646 277 [] [] [133] False False,
     insn_entry 647 277 [] [] [133] False False,
     insn_entry 648 278 [] [] [133] False False,
     insn_entry 649 278 [] [] [133] False False,
     insn_entry 650 278 [] [] [133] False False,
     insn_entry 651 278 [] [] [133] False False,
     insn_entry 652 278 [] [] [133] False False,
     insn_entry 653 278 [] [] [133] False False,
     insn_entry 654 278 [] [] [133] False False,
     insn_entry 655 278 [] [] [133] False False,
     insn_entry 656 278 [] [] [133] False False,
     insn_entry 657 278 [] [] [133] False False,
     insn_entry 658 278 [] [] [133] False False,
     insn_entry 659 278 [] [] [133] False False]"

text \<open>Entries of VCGTuv8i16, VCGTuv8i8, VCGTzv16i8, VCGTzv2f32, VCGTzv2i32, VCGTzv4f32, VCGTzv4i16, VCGTzv4i32, VCGTzv8i16,
  VCGTzv8i8, VCLEzv16i8, VCLEzv2f32, VCLEzv2i32, VCLEzv4f32, VCLEzv4i16, VCLEzv4i32, VCLEzv8i16, VCLEzv8i8, VCLSv16i8,
  VCLSv2i32, VCLSv4i16, VCLSv4i32, VCLSv8i16, VCLSv8i8, VCLTzv16i8.\<close>

definition insns_22 :: "insn_map list" where
  "insns_22 =
    [insn_entry 660 278 [] [] [133] False False,
     insn_entry 661 278 [] [] [133] False False,
     insn_entry 662 278 [] [] [133] False False,
     insn_entry 663 278 [] [] [133] False False,
     insn_entry 664 278 [] [] [133] False False,
     insn_entry 665 278 [] [] [133] False False,
     insn_entry 666 278 [] [] [133] False False,
     insn_entry 667 278 [] [] [133] False False,
     insn_entry 668 278 [] [] [133] False False,
     insn_entry 669 278 [] [] [133] False False,
     insn_entry 670 279 [] [] [133] False False,
     insn_entry 671 279 [] [] [133] False False,
     insn_entry 672 279 [] [] [133] False False,
     insn_entry 673 279 [] [] [133] False False,
     insn_entry 674 279 [] [] [133] False False,
     insn_entry 675 279 [] [] [133] False False,
     insn_entry 676 279 [] [] [133] False False,
     insn_entry 677 279 [] [] [133] False False,
     insn_entry 678 280 [] [] [133] False False,
     insn_entry 679 280 [] [] [133] False False,
     insn_entry 680 280 [] [] [133] False False,
     insn_entry 681 280 [] [] [133] False False,
     insn_entry 682 280 [] [] [133] False False,
     insn_entry 683 280 [] [] [133] False False,
     insn_entry 684 281 [] [] [133] False False]"

text \<open>Entries of VCLTzv2f32, VCLTzv2i32, VCLTzv4f32, VCLTzv4i16, VCLTzv4i32, VCLTzv8i16, VCLTzv8i8, VCLZv16i8, VCLZv2i32,
  VCLZv4i16, VCLZv4i32, VCLZv8i16, VCLZv8i8, VCMPD, VCMPED, VCMPES, VCMPEZD, VCMPEZS, VCMPS, VCMPZD, VCMPZS, VCNTd,
  VCNTq, VCVTANSD, VCVTANSQ.\<close>

definition insns_23 :: "insn_map list" where
  "insns_23 =
    [insn_entry 685 281 [] [] [133] False False,
     insn_entry 686 281 [] [] [133] False False,
     insn_entry 687 281 [] [] [133] False False,
     insn_entry 688 281 [] [] [133] False False,
     insn_entry 689 281 [] [] [133] False False,
     insn_entry 690 281 [] [] [133] False False,
     insn_entry 691 281 [] [] [133] False False,
     insn_entry 692 282 [] [] [133] False False,
     insn_entry 693 282 [] [] [133] False False,
     insn_entry 694 282 [] [] [133] False False,
     insn_entry 695 282 [] [] [133] False False,
     insn_entry 696 282 [] [] [133] False False,
     insn_entry 697 282 [] [] [133] False False,
     insn_entry 698 283 [] [7] [144, 157] False False,
     insn_entry 699 284 [] [7] [144, 157] False False,
     insn_entry 700 284 [] [7] [144] False False,
     insn_entry 701 284 [] [7] [144, 157] False False,
     insn_entry 702 284 [] [7] [144] False False,
     insn_entry 703 283 [] [7] [144] False False,
     insn_entry 704 283 [] [7] [144, 157] False False,
     insn_entry 705 283 [] [7] [144] False False,
     insn_entry 706 285 [] [] [133] False False,
     insn_entry 707 285 [] [] [133] False False,
     insn_entry 708 286 [] [] [143, 133] False False,
     insn_entry 709 286 [] [] [143, 133] False False]"

text \<open>Entries of VCVTANUD, VCVTANUQ, VCVTASD, VCVTASS, VCVTAUD, VCVTAUS, VCVTBDH, VCVTBHD, VCVTBHS, VCVTBSH, VCVTDS,
  VCVTMNSD, VCVTMNSQ, VCVTMNUD, VCVTMNUQ, VCVTMSD, VCVTMSS, VCVTMUD, VCVTMUS, VCVTNNSD, VCVTNNSQ, VCVTNNUD, VCVTNNUQ,
  VCVTNSD, VCVTNSS.\<close>

definition insns_24 :: "insn_map list" where
  "insns_24 =
    [insn_entry 710 286 [] [] [143, 133] False False,
     insn_entry 711 286 [] [] [143, 133] False False,
     insn_entry 712 286 [] [] [131, 157] False False,
     insn_entry 713 286 [] [] [131] False False,
     insn_entry 714 286 [] [] [131, 157] False False,
     insn_entry 715 286 [] [] [131] False False,
     insn_entry 716 287 [] [] [131, 157] False False,
     insn_entry 717 287 [] [] [131, 157] False False,
     insn_entry 718 287 [] [] [144] False False,
     insn_entry 719 287 [] [] [144] False False,
     insn_entry 720 288 [] [] [144] False False,
     insn_entry 721 289 [] [] [143, 133] False False,
     insn_entry 722 289 [] [] [143, 133] False False,
     insn_entry 723 289 [] [] [143, 133] False False,
     insn_entry 724 289 [] [] [143, 133] False False,
     insn_entry 725 289 [] [] [131, 157] False False,
     insn_entry 726 289 [] [] [131] False False,
     insn_entry 727 289 [] [] [131, 157] False False,
     insn_entry 728 289 [] [] [131] False False,
     insn_entry 729 290 [] [] [143, 133] False False,
     insn_entry 730 290 [] [] [143, 133] False False,
     insn_entry 731 290 [] [] [143, 133] False False,
     insn_entry 732 290 [] [] [143, 133] False False,
     insn_entry 733 290 [] [] [131, 157] False False,
     insn_entry 734 290 [] [] [131] False False]"

text \<open>Entries of VCVTNUD, VCVTNUS, VCVTPNSD, VCVTPNSQ, VCVTPNUD, VCVTPNUQ, VCVTPSD, VCVTPSS, VCVTPUD, VCVTPUS, VCVTSD,
  VCVTTDH, VCVTTHD, VCVTTHS, VCVTTSH, VCVTf2h, VCVTf2sd, VCVTf2sq, VCVTf2ud, VCVTf2uq, VCVTf2xsd, VCVTf2xsq, VCVTf2xud,
  VCVTf2xuq, VCVTh2f.\<close>

definition insns_25 :: "insn_map list" where
  "insns_25 =
    [insn_entry 735 290 [] [] [131, 157] False False,
     insn_entry 736 290 [] [] [131] False False,
     insn_entry 737 291 [] [] [143, 133] False False,
     insn_entry 738 291 [] [] [143, 133] False False,
     insn_entry 739 291 [] [] [143, 133] False False,
     insn_entry 740 291 [] [] [143, 133] False False,
     insn_entry 741 291 [] [] [131, 157] False False,
     insn_entry 742 291 [] [] [131] False False,
     insn_entry 743 291 [] [] [131, 157] False False,
     insn_entry 744 291 [] [] [131] False False,
     insn_entry 745 288 [] [] [144, 157] False False,
     insn_entry 746 292 [] [] [131, 157] False False,
     insn_entry 747 292 [] [] [131, 157] False False,
     insn_entry 748 292 [] [] [144] False False,
     insn_entry 749 292 [] [] [144] False False,
     insn_entry 750 288 [] [] [133] False False,
     insn_entry 751 288 [] [] [133] False False,
     insn_entry 752 288 [] [] [133] False False,
     insn_entry 753 288 [] [] [133] False False,
     insn_entry 754 288 [] [] [133] False False,
     insn_entry 755 288 [] [] [133] False False,
     insn_entry 756 288 [] [] [133] False False,
     insn_entry 757 288 [] [] [133] False False,
     insn_entry 758 288 [] [] [133] False False,
     insn_entry 759 288 [] [] [133] False False]"

text \<open>Entries of VCVTs2fd, VCVTs2fq, VCVTu2fd, VCVTu2fq, VCVTxs2fd, VCVTxs2fq, VCVTxu2fd, VCVTxu2fq, VDIVD, VDIVS, VDUP16d,
  VDUP16q, VDUP32d, VDUP32q, VDUP8d, VDUP8q, VDUPLN16d, VDUPLN16q, VDUPLN32d, VDUPLN32q, VDUPLN8d, VDUPLN8q, VEORd,
  VEORq, VEXTd16.\<close>

definition insns_26 :: "insn_map list" where
  "insns_26 =
    [insn_entry 760 288 [] [] [133] False False,
     insn_entry 761 288 [] [] [133] False False,
     insn_entry 762 288 [] [] [133] False False,
     insn_entry 763 288 [] [] [133] False False,
     insn_entry 764 288 [] [] [133] False False,
     insn_entry 765 288 [] [] [133] False False,
     insn_entry 766 288 [] [] [133] False False,
     insn_entry 767 288 [] [] [133] False False,
     insn_entry 768 293 [] [] [144, 157] False False,
     insn_entry 769 293 [] [] [144] False False,
     insn_entry 770 294 [] [] [133] False False,
     insn_entry 771 294 [] [] [133] False False,
     insn_entry 772 294 [] [] [133] False False,
     insn_entry 773 294 [] [] [133] False False,
     insn_entry 774 294 [] [] [133] False False,
     insn_entry 775 294 [] [] [133] False False,
     insn_entry 776 294 [] [] [133] False False,
     insn_entry 777 294 [] [] [133] False False,
     insn_entry 778 294 [] [] [133] False False,
     insn_entry 779 294 [] [] [133] False False,
     insn_entry 780 294 [] [] [133] False False,
     insn_entry 781 294 [] [] [133] False False,
     insn_entry 782 295 [] [] [133] False False,
     insn_entry 783 295 [] [] [133] False False,
     insn_entry 784 296 [] [] [133] False False]"

text \<open>Entries of VEXTd32, VEXTd8, VEXTq16, VEXTq32, VEXTq64, VEXTq8, VFMAD, VFMAS, VFMAfd, VFMAfq, VFMSD, VFMSS, VFMSfd,
  VFMSfq, VFNMAD, VFNMAS, VFNMSD, VFNMSS, VGETLNi32, VGETLNs16, VGETLNs8, VGETLNu16, VGETLNu8, VHADDsv16i8, VHADDsv2i32.\<close>

definition insns_27 :: "insn_map list" where
  "insns_27 =
    [insn_entry 785 296 [] [] [133] False False,
     insn_entry 786 296 [] [] [133] False False,
     insn_entry 787 296 [] [] [133] False False,
     insn_entry 788 296 [] [] [133] False False,
     insn_entry 789 296 [] [] [133] False False,
     insn_entry 790 296 [] [] [133] False False,
     insn_entry 791 297 [] [] [146, 157] False False,
     insn_entry 792 297 [] [] [146] False False,
     insn_entry 793 297 [] [] [133, 146] False False,
     insn_entry 794 297 [] [] [133, 146] False False,
     insn_entry 795 298 [] [] [146, 157] False False,
     insn_entry 796 298 [] [] [146] False False,
     insn_entry 797 298 [] [] [133, 146] False False,
     insn_entry 798 298 [] [] [133, 146] False False,
     insn_entry 799 299 [] [] [146, 157] False False,
     insn_entry 800 299 [] [] [146] False False,
     insn_entry 801 300 [] [] [146, 157] False False,
     insn_entry 802 300 [] [] [146] False False,
     insn_entry 803 35 [] [] [133] False False,
     insn_entry 804 35 [] [] [133] False False,
     insn_entry 805 35 [] [] [133] False False,
     insn_entry 806 35 [] [] [133] False False,
     insn_entry 807 35 [] [] [133] False False,
     insn_entry 808 301 [] [] [133] False False,
     insn_entry 809 301 [] [] [133] False False]"

text \<open>Entries of VHADDsv4i16, VHADDsv4i32, VHADDsv8i16, VHADDsv8i8, VHADDuv16i8, VHADDuv2i32, VHADDuv4i16, VHADDuv4i32,
  VHADDuv8i16, VHADDuv8i8, VHSUBsv16i8, VHSUBsv2i32, VHSUBsv4i16, VHSUBsv4i32, VHSUBsv8i16, VHSUBsv8i8, VHSUBuv16i8,
  VHSUBuv2i32, VHSUBuv4i16, VHSUBuv4i32, VHSUBuv8i16, VHSUBuv8i8, VLD1DUPd16, VLD1DUPd16wb_fixed, VLD1DUPd16wb_register.\<close>

definition insns_28 :: "insn_map list" where
  "insns_28 =
    [insn_entry 810 301 [] [] [133] False False,
     insn_entry 811 301 [] [] [133] False False,
     insn_entry 812 301 [] [] [133] False False,
     insn_entry 813 301 [] [] [133] False False,
     insn_entry 814 301 [] [] [133] False False,
     insn_entry 815 301 [] [] [133] False False,
     insn_entry 816 301 [] [] [133] False False,
     insn_entry 817 301 [] [] [133] False False,
     insn_entry 818 301 [] [] [133] False False,
     insn_entry 819 301 [] [] [133] False False,
     insn_entry 820 302 [] [] [133] False False,
     insn_entry 821 302 [] [] [133] False False,
     insn_entry 822 302 [] [] [133] False False,
     insn_entry 823 302 [] [] [133] False False,
     insn_entry 824 302 [] [] [133] False False,
     insn_entry 825 302 [] [] [133] False False,
     insn_entry 826 302 [] [] [133] False False,
     insn_entry 827 302 [] [] [133] False False,
     insn_entry 828 302 [] [] [133] False False,
     insn_entry 829 302 [] [] [133] False False,
     insn_entry 830 302 [] [] [133] False False,
     insn_entry 831 302 [] [] [133] False False,
     insn_entry 832 303 [] [] [133] False False,
     insn_entry 833 303 [] [] [133] False False,
     insn_entry 834 303 [] [] [133] False False]"

text \<open>Entries of VLD1DUPd32, VLD1DUPd32wb_fixed, VLD1DUPd32wb_register, VLD1DUPd8, VLD1DUPd8wb_fixed, VLD1DUPd8wb_register,
  VLD1DUPq16, VLD1DUPq16wb_fixed, VLD1DUPq16wb_register, VLD1DUPq32, VLD1DUPq32wb_fixed, VLD1DUPq32wb_register,
  VLD1DUPq8, VLD1DUPq8wb_fixed, VLD1DUPq8wb_register, VLD1LNd16, VLD1LNd16_UPD, VLD1LNd32, VLD1LNd32_UPD, VLD1LNd8,
  VLD1LNd8_UPD, VLD1d16, VLD1d16Q, VLD1d16Qwb_fixed, VLD1d16Qwb_register.\<close>

definition insns_29 :: "insn_map list" where
  "insns_29 =
    [insn_entry 835 303 [] [] [133] False False,
     insn_entry 836 303 [] [] [133] False False,
     insn_entry 837 303 [] [] [133] False False,
     insn_entry 838 303 [] [] [133] False False,
     insn_entry 839 303 [] [] [133] False False,
     insn_entry 840 303 [] [] [133] False False,
     insn_entry 841 303 [] [] [133] False False,
     insn_entry 842 303 [] [] [133] False False,
     insn_entry 843 303 [] [] [133] False False,
     insn_entry 844 303 [] [] [133] False False,
     insn_entry 845 303 [] [] [133] False False,
     insn_entry 846 303 [] [] [133] False False,
     insn_entry 847 303 [] [] [133] False False,
     insn_entry 848 303 [] [] [133] False False,
     insn_entry 849 303 [] [] [133] False False,
     insn_entry 850 303 [] [] [133] False False,
     insn_entry 851 303 [] [] [133] False False,
     insn_entry 852 303 [] [] [133] False False,
     insn_entry 853 303 [] [] [133] False False,
     insn_entry 854 303 [] [] [133] False False,
     insn_entry 855 303 [] [] [133] False False,
     insn_entry 871 303 [] [] [133] False False,
     insn_entry 872 303 [] [] [133] False False,
     insn_entry 873 303 [] [] [133] False False,
     insn_entry 874 303 [] [] [133] False False]"

text \<open>Entries of VLD1d16T, VLD1d16Twb_fixed, VLD1d16Twb_register, VLD1d16wb_fixed, VLD1d16wb_register, VLD1d32, VLD1d32Q,
  VLD1d32Qwb_fixed, VLD1d32Qwb_register, VLD1d32T, VLD1d32Twb_fixed, VLD1d32Twb_register, VLD1d32wb_fixed,
  VLD1d32wb_register, VLD1d64, VLD1d64Q, VLD1d64Qwb_fixed, VLD1d64Qwb_register, VLD1d64T, VLD1d64Twb_fixed,
  VLD1d64Twb_register, VLD1d64wb_fixed, VLD1d64wb_register, VLD1d8, VLD1d8Q.\<close>

definition insns_30 :: "insn_map list" where
  "insns_30 =
    [insn_entry 875 303 [] [] [133] False False,
     insn_entry 876 303 [] [] [133] False False,
     insn_entry 877 303 [] [] [133] False False,
     insn_entry 878 303 [] [] [133] False False,
     insn_entry 879 303 [] [] [133] False False,
     insn_entry 880 303 [] [] [133] False False,
     insn_entry 881 303 [] [] [133] False False,
     insn_entry 882 303 [] [] [133] False False,
     insn_entry 883 303 [] [] [133] False False,
     insn_entry 884 303 [] [] [133] False False,
     insn_entry 885 303 [] [] [133] False False,
     insn_entry 886 303 [] [] [133] False False,
     insn_entry 887 303 [] [] [133] False False,
     insn_entry 888 303 [] [] [133] False False,
     insn_entry 889 303 [] [] [133] False False,
     insn_entry 890 303 [] [] [133] False False,
     insn_entry 894 303 [] [] [133] False False,
     insn_entry 895 303 [] [] [133] False False,
     insn_entry 896 303 [] [] [133] False False,
     insn_entry 900 303 [] [] [133] False False,
     insn_entry 901 303 [] [] [133] False False,
     insn_entry 902 303 [] [] [133] False False,
     insn_entry 903 303 [] [] [133] False False,
     insn_entry 904 303 [] [] [133] False False,
     insn_entry 905 303 [] [] [133] False False]"

text \<open>Entries of VLD1d8Qwb_fixed, VLD1d8Qwb_register, VLD1d8T, VLD1d8Twb_fixed, VLD1d8Twb_register, VLD1d8wb_fixed,
  VLD1d8wb_register, VLD1q16, VLD1q16wb_fixed, VLD1q16wb_register, VLD1q32, VLD1q32wb_fixed, VLD1q32wb_register,
  VLD1q64, VLD1q64wb_fixed, VLD1q64wb_register, VLD1q8, VLD1q8wb_fixed, VLD1q8wb_register, VLD2DUPd16,
  VLD2DUPd16wb_fixed, VLD2DUPd16wb_register, VLD2DUPd16x2, VLD2DUPd16x2wb_fixed, VLD2DUPd16x2wb_register.\<close>

definition insns_31 :: "insn_map list" where
  "insns_31 =
    [insn_entry 906 303 [] [] [133] False False,
     insn_entry 907 303 [] [] [133] False False,
     insn_entry 908 303 [] [] [133] False False,
     insn_entry 909 303 [] [] [133] False False,
     insn_entry 910 303 [] [] [133] False False,
     insn_entry 911 303 [] [] [133] False False,
     insn_entry 912 303 [] [] [133] False False,
     insn_entry 913 303 [] [] [133] False False,
     insn_entry 914 303 [] [] [133] False False,
     insn_entry 915 303 [] [] [133] False False,
     insn_entry 916 303 [] [] [133] False False,
     insn_entry 917 303 [] [] [133] False False,
     insn_entry 918 303 [] [] [133] False False,
     insn_entry 919 303 [] [] [133] False False,
     insn_entry 920 303 [] [] [133] False False,
     insn_entry 921 303 [] [] [133] False False,
     insn_entry 922 303 [] [] [133] False False,
     insn_entry 923 303 [] [] [133] False False,
     insn_entry 924 303 [] [] [133] False False,
     insn_entry 925 304 [] [] [133] False False,
     insn_entry 926 304 [] [] [133] False False,
     insn_entry 927 304 [] [] [133] False False,
     insn_entry 928 304 [] [] [133] False False,
     insn_entry 929 304 [] [] [133] False False,
     insn_entry 930 304 [] [] [133] False False]"

text \<open>Entries of VLD2DUPd32, VLD2DUPd32wb_fixed, VLD2DUPd32wb_register, VLD2DUPd32x2, VLD2DUPd32x2wb_fixed,
  VLD2DUPd32x2wb_register, VLD2DUPd8, VLD2DUPd8wb_fixed, VLD2DUPd8wb_register, VLD2DUPd8x2, VLD2DUPd8x2wb_fixed,
  VLD2DUPd8x2wb_register, VLD2LNd16, VLD2LNd16_UPD, VLD2LNd32, VLD2LNd32_UPD, VLD2LNd8, VLD2LNd8_UPD, VLD2LNq16,
  VLD2LNq16_UPD, VLD2LNq32, VLD2LNq32_UPD, VLD2b16, VLD2b16wb_fixed, VLD2b16wb_register.\<close>

definition insns_32 :: "insn_map list" where
  "insns_32 =
    [insn_entry 931 304 [] [] [133] False False,
     insn_entry 932 304 [] [] [133] False False,
     insn_entry 933 304 [] [] [133] False False,
     insn_entry 934 304 [] [] [133] False False,
     insn_entry 935 304 [] [] [133] False False,
     insn_entry 936 304 [] [] [133] False False,
     insn_entry 937 304 [] [] [133] False False,
     insn_entry 938 304 [] [] [133] False False,
     insn_entry 939 304 [] [] [133] False False,
     insn_entry 940 304 [] [] [133] False False,
     insn_entry 941 304 [] [] [133] False False,
     insn_entry 942 304 [] [] [133] False False,
     insn_entry 943 304 [] [] [133] False False,
     insn_entry 946 304 [] [] [133] False False,
     insn_entry 947 304 [] [] [133] False False,
     insn_entry 950 304 [] [] [133] False False,
     insn_entry 951 304 [] [] [133] False False,
     insn_entry 954 304 [] [] [133] False False,
     insn_entry 964 304 [] [] [133] False False,
     insn_entry 967 304 [] [] [133] False False,
     insn_entry 968 304 [] [] [133] False False,
     insn_entry 971 304 [] [] [133] False False,
     insn_entry 978 304 [] [] [133] False False,
     insn_entry 979 304 [] [] [133] False False,
     insn_entry 980 304 [] [] [133] False False]"

text \<open>Entries of VLD2b32, VLD2b32wb_fixed, VLD2b32wb_register, VLD2b8, VLD2b8wb_fixed, VLD2b8wb_register, VLD2d16,
  VLD2d16wb_fixed, VLD2d16wb_register, VLD2d32, VLD2d32wb_fixed, VLD2d32wb_register, VLD2d8, VLD2d8wb_fixed,
  VLD2d8wb_register, VLD2q16, VLD2q16wb_fixed, VLD2q16wb_register, VLD2q32, VLD2q32wb_fixed, VLD2q32wb_register, VLD2q8,
  VLD2q8wb_fixed, VLD2q8wb_register, VLD3DUPd16.\<close>

definition insns_33 :: "insn_map list" where
  "insns_33 =
    [insn_entry 981 304 [] [] [133] False False,
     insn_entry 982 304 [] [] [133] False False,
     insn_entry 983 304 [] [] [133] False False,
     insn_entry 984 304 [] [] [133] False False,
     insn_entry 985 304 [] [] [133] False False,
     insn_entry 986 304 [] [] [133] False False,
     insn_entry 987 304 [] [] [133] False False,
     insn_entry 988 304 [] [] [133] False False,
     insn_entry 989 304 [] [] [133] False False,
     insn_entry 990 304 [] [] [133] False False,
     insn_entry 991 304 [] [] [133] False False,
     insn_entry 992 304 [] [] [133] False False,
     insn_entry 993 304 [] [] [133] False False,
     insn_entry 994 304 [] [] [133] False False,
     insn_entry 995 304 [] [] [133] False False,
     insn_entry 996 304 [] [] [133] False False,
     insn_entry 1000 304 [] [] [133] False False,
     insn_entry 1001 304 [] [] [133] False False,
     insn_entry 1002 304 [] [] [133] False False,
     insn_entry 1006 304 [] [] [133] False False,
     insn_entry 1007 304 [] [] [133] False False,
     insn_entry 1008 304 [] [] [133] False False,
     insn_entry 1012 304 [] [] [133] False False,
     insn_entry 1013 304 [] [] [133] False False,
     insn_entry 1014 305 [] [] [133] False False]"

text \<open>Entries of VLD3DUPd16_UPD, VLD3DUPd32, VLD3DUPd32_UPD, VLD3DUPd8, VLD3DUPd8_UPD, VLD3DUPq16, VLD3DUPq16_UPD,
  VLD3DUPq32, VLD3DUPq32_UPD, VLD3DUPq8, VLD3DUPq8_UPD, VLD3LNd16, VLD3LNd16_UPD, VLD3LNd32, VLD3LNd32_UPD, VLD3LNd8,
  VLD3LNd8_UPD, VLD3LNq16, VLD3LNq16_UPD, VLD3LNq32, VLD3LNq32_UPD, VLD3d16, VLD3d16_UPD, VLD3d32, VLD3d32_UPD.\<close>

definition insns_34 :: "insn_map list" where
  "insns_34 =
    [insn_entry 1017 305 [] [] [133] False False,
     insn_entry 1018 305 [] [] [133] False False,
     insn_entry 1021 305 [] [] [133] False False,
     insn_entry 1022 305 [] [] [133] False False,
     insn_entry 1025 305 [] [] [133] False False,
     insn_entry 1035 305 [] [] [133] False False,
     insn_entry 1036 305 [] [] [133] False False,
     insn_entry 1037 305 [] [] [133] False False,
     insn_entry 1038 305 [] [] [133] False False,
     insn_entry 1039 305 [] [] [133] False False,
     insn_entry 1040 305 [] [] [133] False False,
     insn_entry 1050 305 [] [] [133] False False,
     insn_entry 1053 305 [] [] [133] False False,
     insn_entry 1054 305 [] [] [133] False False,
     insn_entry 1057 305 [] [] [133] False False,
     insn_entry 1058 305 [] [] [133] False False,
     insn_entry 1061 305 [] [] [133] False False,
     insn_entry 1071 305 [] [] [133] False False,
     insn_entry 1074 305 [] [] [133] False False,
     insn_entry 1075 305 [] [] [133] False False,
     insn_entry 1078 305 [] [] [133] False False,
     insn_entry 1085 305 [] [] [133] False False,
     insn_entry 1088 305 [] [] [133] False False,
     insn_entry 1089 305 [] [] [133] False False,
     insn_entry 1092 305 [] [] [133] False False]"

text \<open>Entries of VLD3d8, VLD3d8_UPD, VLD3q16, VLD3q16_UPD, VLD3q32, VLD3q32_UPD, VLD3q8, VLD3q8_UPD, VLD4DUPd16,
  VLD4DUPd16_UPD, VLD4DUPd32, VLD4DUPd32_UPD, VLD4DUPd8, VLD4DUPd8_UPD, VLD4DUPq16, VLD4DUPq16_UPD, VLD4DUPq32,
  VLD4DUPq32_UPD, VLD4DUPq8, VLD4DUPq8_UPD, VLD4LNd16, VLD4LNd16_UPD, VLD4LNd32, VLD4LNd32_UPD, VLD4LNd8.\<close>

definition insns_35 :: "insn_map list" where
  "insns_35 =
    [insn_entry 1093 305 [] [] [133] False False,
     insn_entry 1096 305 [] [] [133] False False,
     insn_entry 1106 305 [] [] [133] False False,
     insn_entry 1108 305 [] [] [133] False False,
     insn_entry 1111 305 [] [] [133] False False,
     insn_entry 1113 305 [] [] [133] False False,
     insn_entry 1116 305 [] [] [133] False False,
     insn_entry 1118 305 [] [] [133] False False,
     insn_entry 1130 306 [] [] [133] False False,
     insn_entry 1133 306 [] [] [133] False False,
     insn_entry 1134 306 [] [] [133] False False,
     insn_entry 1137 306 [] [] [133] False False,
     insn_entry 1138 306 [] [] [133] False False,
     insn_entry 1141 306 [] [] [133] False False,
     insn_entry 1151 306 [] [] [133] False False,
     insn_entry 1152 306 [] [] [133] False False,
     insn_entry 1153 306 [] [] [133] False False,
     insn_entry 1154 306 [] [] [133] False False,
     insn_entry 1155 306 [] [] [133] False False,
     insn_entry 1156 306 [] [] [133] False False,
     insn_entry 1166 306 [] [] [133] False False,
     insn_entry 1169 306 [] [] [133] False False,
     insn_entry 1170 306 [] [] [133] False False,
     insn_entry 1173 306 [] [] [133] False False,
     insn_entry 1174 306 [] [] [133] False False]"

text \<open>Entries of VLD4LNd8_UPD, VLD4LNq16, VLD4LNq16_UPD, VLD4LNq32, VLD4LNq32_UPD, VLD4d16, VLD4d16_UPD, VLD4d32,
  VLD4d32_UPD, VLD4d8, VLD4d8_UPD, VLD4q16, VLD4q16_UPD, VLD4q32, VLD4q32_UPD, VLD4q8, VLD4q8_UPD, VLDMDDB_UPD, VLDMDIA,
  VLDMDIA_UPD, VLDMSDB_UPD, VLDMSIA, VLDMSIA_UPD, VLDRD, VLDRS.\<close>

definition insns_36 :: "insn_map list" where
  "insns_36 =
    [insn_entry 1177 306 [] [] [133] False False,
     insn_entry 1187 306 [] [] [133] False False,
     insn_entry 1190 306 [] [] [133] False False,
     insn_entry 1191 306 [] [] [133] False False,
     insn_entry 1194 306 [] [] [133] False False,
     insn_entry 1201 306 [] [] [133] False False,
     insn_entry 1204 306 [] [] [133] False False,
     insn_entry 1205 306 [] [] [133] False False,
     insn_entry 1208 306 [] [] [133] False False,
     insn_entry 1209 306 [] [] [133] False False,
     insn_entry 1212 306 [] [] [133] False False,
     insn_entry 1222 306 [] [] [133] False False,
     insn_entry 1224 306 [] [] [133] False False,
     insn_entry 1227 306 [] [] [133] False False,
     insn_entry 1229 306 [] [] [133] False False,
     insn_entry 1232 306 [] [] [133] False False,
     insn_entry 1234 306 [] [] [133] False False,
     insn_entry 1246 307 [] [] [144] False False,
     insn_entry 1247 308 [] [] [144] False False,
     insn_entry 1248 308 [] [] [144] False False,
     insn_entry 1250 307 [] [] [144] False False,
     insn_entry 1251 308 [] [] [144] False False,
     insn_entry 1252 308 [] [] [144] False False,
     insn_entry 1253 309 [] [] [144] False False,
     insn_entry 1254 309 [] [] [144] False False]"

text \<open>Entries of VMAXNMD, VMAXNMND, VMAXNMNQ, VMAXNMS, VMAXfd, VMAXfq, VMAXsv16i8, VMAXsv2i32, VMAXsv4i16, VMAXsv4i32,
  VMAXsv8i16, VMAXsv8i8, VMAXuv16i8, VMAXuv2i32, VMAXuv4i16, VMAXuv4i32, VMAXuv8i16, VMAXuv8i8, VMINNMD, VMINNMND,
  VMINNMNQ, VMINNMS, VMINfd, VMINfq, VMINsv16i8.\<close>

definition insns_37 :: "insn_map list" where
  "insns_37 =
    [insn_entry 1255 310 [] [] [131, 157] False False,
     insn_entry 1256 310 [] [] [143, 133] False False,
     insn_entry 1257 310 [] [] [143, 133] False False,
     insn_entry 1258 310 [] [] [131] False False,
     insn_entry 1259 311 [] [] [133] False False,
     insn_entry 1260 311 [] [] [133] False False,
     insn_entry 1261 311 [] [] [133] False False,
     insn_entry 1262 311 [] [] [133] False False,
     insn_entry 1263 311 [] [] [133] False False,
     insn_entry 1264 311 [] [] [133] False False,
     insn_entry 1265 311 [] [] [133] False False,
     insn_entry 1266 311 [] [] [133] False False,
     insn_entry 1267 311 [] [] [133] False False,
     insn_entry 1268 311 [] [] [133] False False,
     insn_entry 1269 311 [] [] [133] False False,
     insn_entry 1270 311 [] [] [133] False False,
     insn_entry 1271 311 [] [] [133] False False,
     insn_entry 1272 311 [] [] [133] False False,
     insn_entry 1273 312 [] [] [131, 157] False False,
     insn_entry 1274 312 [] [] [143, 133] False False,
     insn_entry 1275 312 [] [] [143, 133] False False,
     insn_entry 1276 312 [] [] [131] False False,
     insn_entry 1277 313 [] [] [133] False False,
     insn_entry 1278 313 [] [] [133] False False,
     insn_entry 1279 313 [] [] [133] False False]"

text \<open>Entries of VMINsv2i32, VMINsv4i16, VMINsv4i32, VMINsv8i16, VMINsv8i8, VMINuv16i8, VMINuv2i32, VMINuv4i16, VMINuv4i32,
  VMINuv8i16, VMINuv8i8, VMLAD, VMLALslsv2i32, VMLALslsv4i16, VMLALsluv2i32, VMLALsluv4i16, VMLALsv2i64, VMLALsv4i32,
  VMLALsv8i16, VMLALuv2i64, VMLALuv4i32, VMLALuv8i16, VMLAS, VMLAfd, VMLAfq.\<close>

definition insns_38 :: "insn_map list" where
  "insns_38 =
    [insn_entry 1280 313 [] [] [133] False False,
     insn_entry 1281 313 [] [] [133] False False,
     insn_entry 1282 313 [] [] [133] False False,
     insn_entry 1283 313 [] [] [133] False False,
     insn_entry 1284 313 [] [] [133] False False,
     insn_entry 1285 313 [] [] [133] False False,
     insn_entry 1286 313 [] [] [133] False False,
     insn_entry 1287 313 [] [] [133] False False,
     insn_entry 1288 313 [] [] [133] False False,
     insn_entry 1289 313 [] [] [133] False False,
     insn_entry 1290 313 [] [] [133] False False,
     insn_entry 1291 314 [] [] [144, 157, 154] False False,
     insn_entry 1292 315 [] [] [133] False False,
     insn_entry 1293 315 [] [] [133] False False,
     insn_entry 1294 315 [] [] [133] False False,
     insn_entry 1295 315 [] [] [133] False False,
     insn_entry 1296 315 [] [] [133] False False,
     insn_entry 1297 315 [] [] [133] False False,
     insn_entry 1298 315 [] [] [133] False False,
     insn_entry 1299 315 [] [] [133] False False,
     insn_entry 1300 315 [] [] [133] False False,
     insn_entry 1301 315 [] [] [133] False False,
     insn_entry 1302 314 [] [] [144, 154] False False,
     insn_entry 1303 314 [] [] [133, 154] False False,
     insn_entry 1304 314 [] [] [133, 154] False False]"

text \<open>Entries of VMLAslfd, VMLAslfq, VMLAslv2i32, VMLAslv4i16, VMLAslv4i32, VMLAslv8i16, VMLAv16i8, VMLAv2i32, VMLAv4i16,
  VMLAv4i32, VMLAv8i16, VMLAv8i8, VMLSD, VMLSLslsv2i32, VMLSLslsv4i16, VMLSLsluv2i32, VMLSLsluv4i16, VMLSLsv2i64,
  VMLSLsv4i32, VMLSLsv8i16, VMLSLuv2i64, VMLSLuv4i32, VMLSLuv8i16, VMLSS, VMLSfd.\<close>

definition insns_39 :: "insn_map list" where
  "insns_39 =
    [insn_entry 1305 314 [] [] [133, 154] False False,
     insn_entry 1306 314 [] [] [133, 154] False False,
     insn_entry 1307 314 [] [] [133] False False,
     insn_entry 1308 314 [] [] [133] False False,
     insn_entry 1309 314 [] [] [133] False False,
     insn_entry 1310 314 [] [] [133] False False,
     insn_entry 1311 314 [] [] [133] False False,
     insn_entry 1312 314 [] [] [133] False False,
     insn_entry 1313 314 [] [] [133] False False,
     insn_entry 1314 314 [] [] [133] False False,
     insn_entry 1315 314 [] [] [133] False False,
     insn_entry 1316 314 [] [] [133] False False,
     insn_entry 1317 316 [] [] [144, 157, 154] False False,
     insn_entry 1318 317 [] [] [133] False False,
     insn_entry 1319 317 [] [] [133] False False,
     insn_entry 1320 317 [] [] [133] False False,
     insn_entry 1321 317 [] [] [133] False False,
     insn_entry 1322 317 [] [] [133] False False,
     insn_entry 1323 317 [] [] [133] False False,
     insn_entry 1324 317 [] [] [133] False False,
     insn_entry 1325 317 [] [] [133] False False,
     insn_entry 1326 317 [] [] [133] False False,
     insn_entry 1327 317 [] [] [133] False False,
     insn_entry 1328 316 [] [] [144, 154] False False,
     insn_entry 1329 316 [] [] [133, 154] False False]"

text \<open>Entries of VMLSfq, VMLSslfd, VMLSslfq, VMLSslv2i32, VMLSslv4i16, VMLSslv4i32, VMLSslv8i16, VMLSv16i8, VMLSv2i32,
  VMLSv4i16, VMLSv4i32, VMLSv8i16, VMLSv8i8, VMOVD, VMOVDRR, VMOVLsv2i64, VMOVLsv4i32, VMOVLsv8i16, VMOVLuv2i64,
  VMOVLuv4i32, VMOVLuv8i16, VMOVNv2i32, VMOVNv4i16, VMOVNv8i8, VMOVRRD.\<close>

definition insns_40 :: "insn_map list" where
  "insns_40 =
    [insn_entry 1330 316 [] [] [133, 154] False False,
     insn_entry 1331 316 [] [] [133, 154] False False,
     insn_entry 1332 316 [] [] [133, 154] False False,
     insn_entry 1333 316 [] [] [133] False False,
     insn_entry 1334 316 [] [] [133] False False,
     insn_entry 1335 316 [] [] [133] False False,
     insn_entry 1336 316 [] [] [133] False False,
     insn_entry 1337 316 [] [] [133] False False,
     insn_entry 1338 316 [] [] [133] False False,
     insn_entry 1339 316 [] [] [133] False False,
     insn_entry 1340 316 [] [] [133] False False,
     insn_entry 1341 316 [] [] [133] False False,
     insn_entry 1342 316 [] [] [133] False False,
     insn_entry 1343 35 [] [] [144, 157] False False,
     insn_entry 1345 35 [] [] [144] False False,
     insn_entry 1347 318 [] [] [133] False False,
     insn_entry 1348 318 [] [] [133] False False,
     insn_entry 1349 318 [] [] [133] False False,
     insn_entry 1350 318 [] [] [133] False False,
     insn_entry 1351 318 [] [] [133] False False,
     insn_entry 1352 318 [] [] [133] False False,
     insn_entry 1353 319 [] [] [133] False False,
     insn_entry 1354 319 [] [] [133] False False,
     insn_entry 1355 319 [] [] [133] False False,
     insn_entry 1357 35 [] [] [144] False False]"

text \<open>Entries of VMOVRRS, VMOVRS, VMOVS, VMOVSR, VMOVSRR, VMOVv16i8, VMOVv1i64, VMOVv2f32, VMOVv2i32, VMOVv2i64, VMOVv4f32,
  VMOVv4i16, VMOVv4i32, VMOVv8i16, VMOVv8i8, VMRS, VMRS_FPEXC, VMRS_FPINST, VMRS_FPINST2, VMRS_FPSID, VMRS_MVFR0,
  VMRS_MVFR1, VMRS_MVFR2, VMSR, VMSR_FPEXC.\<close>

definition insns_41 :: "insn_map list" where
  "insns_41 =
    [insn_entry 1358 35 [] [] [144] False False,
     insn_entry 1359 35 [] [] [144] False False,
     insn_entry 1360 35 [] [] [144] False False,
     insn_entry 1361 35 [] [] [144] False False,
     insn_entry 1362 35 [] [] [144] False False,
     insn_entry 1364 35 [] [] [133] False False,
     insn_entry 1365 35 [] [] [133] False False,
     insn_entry 1366 35 [] [] [133] False False,
     insn_entry 1367 35 [] [] [133] False False,
     insn_entry 1368 35 [] [] [133] False False,
     insn_entry 1369 35 [] [] [133] False False,
     insn_entry 1370 35 [] [] [133] False False,
     insn_entry 1371 35 [] [] [133] False False,
     insn_entry 1372 35 [] [] [133] False False,
     insn_entry 1373 35 [] [] [133] False False,
     insn_entry 1374 38 [6] [] [144] False False,
     insn_entry 1375 38 [6] [] [144] False False,
     insn_entry 1376 38 [6] [] [144] False False,
     insn_entry 1377 38 [6] [] [144] False False,
     insn_entry 1378 38 [6] [] [144] False False,
     insn_entry 1379 38 [6] [] [144] False False,
     insn_entry 1380 38 [6] [] [144] False False,
     insn_entry 1381 38 [6] [] [131] False False,
     insn_entry 1382 320 [] [6] [144] False False,
     insn_entry 1383 320 [] [6] [144] False False]"

text \<open>Entries of VMSR_FPINST, VMSR_FPINST2, VMSR_FPSID, VMULD, VMULLp64, VMULLp8, VMULLslsv2i32, VMULLslsv4i16,
  VMULLsluv2i32, VMULLsluv4i16, VMULLsv2i64, VMULLsv4i32, VMULLsv8i16, VMULLuv2i64, VMULLuv4i32, VMULLuv8i16, VMULS,
  VMULfd, VMULfq, VMULpd, VMULpq, VMULslfd, VMULslfq, VMULslv2i32, VMULslv4i16.\<close>

definition insns_42 :: "insn_map list" where
  "insns_42 =
    [insn_entry 1384 320 [] [6] [144] False False,
     insn_entry 1385 320 [] [6] [144] False False,
     insn_entry 1386 320 [] [6] [144] False False,
     insn_entry 1387 321 [] [] [144, 157] False False,
     insn_entry 1388 322 [] [] [143, 128] False False,
     insn_entry 1389 322 [] [] [133] False False,
     insn_entry 1390 322 [] [] [133] False False,
     insn_entry 1391 322 [] [] [133] False False,
     insn_entry 1392 322 [] [] [133] False False,
     insn_entry 1393 322 [] [] [133] False False,
     insn_entry 1394 322 [] [] [133] False False,
     insn_entry 1395 322 [] [] [133] False False,
     insn_entry 1396 322 [] [] [133] False False,
     insn_entry 1397 322 [] [] [133] False False,
     insn_entry 1398 322 [] [] [133] False False,
     insn_entry 1399 322 [] [] [133] False False,
     insn_entry 1400 321 [] [] [144] False False,
     insn_entry 1401 321 [] [] [133] False False,
     insn_entry 1402 321 [] [] [133] False False,
     insn_entry 1403 321 [] [] [133] False False,
     insn_entry 1404 321 [] [] [133] False False,
     insn_entry 1405 321 [] [] [133] False False,
     insn_entry 1406 321 [] [] [133] False False,
     insn_entry 1407 321 [] [] [133] False False,
     insn_entry 1408 321 [] [] [133] False False]"

text \<open>Entries of VMULslv4i32, VMULslv8i16, VMULv16i8, VMULv2i32, VMULv4i16, VMULv4i32, VMULv8i16, VMULv8i8, VMVNd, VMVNq,
  VMVNv2i32, VMVNv4i16, VMVNv4i32, VMVNv8i16, VNEGD, VNEGS, VNEGf32q, VNEGfd, VNEGs16d, VNEGs16q, VNEGs32d, VNEGs32q,
  VNEGs8d, VNEGs8q, VNMLAD.\<close>

definition insns_43 :: "insn_map list" where
  "insns_43 =
    [insn_entry 1409 321 [] [] [133] False False,
     insn_entry 1410 321 [] [] [133] False False,
     insn_entry 1411 321 [] [] [133] False False,
     insn_entry 1412 321 [] [] [133] False False,
     insn_entry 1413 321 [] [] [133] False False,
     insn_entry 1414 321 [] [] [133] False False,
     insn_entry 1415 321 [] [] [133] False False,
     insn_entry 1416 321 [] [] [133] False False,
     insn_entry 1417 323 [] [] [133] False False,
     insn_entry 1418 323 [] [] [133] False False,
     insn_entry 1419 323 [] [] [133] False False,
     insn_entry 1420 323 [] [] [133] False False,
     insn_entry 1421 323 [] [] [133] False False,
     insn_entry 1422 323 [] [] [133] False False,
     insn_entry 1423 324 [] [] [144, 157] False False,
     insn_entry 1424 324 [] [] [144] False False,
     insn_entry 1425 324 [] [] [133] False False,
     insn_entry 1426 324 [] [] [133] False False,
     insn_entry 1427 324 [] [] [133] False False,
     insn_entry 1428 324 [] [] [133] False False,
     insn_entry 1429 324 [] [] [133] False False,
     insn_entry 1430 324 [] [] [133] False False,
     insn_entry 1431 324 [] [] [133] False False,
     insn_entry 1432 324 [] [] [133] False False,
     insn_entry 1433 325 [] [] [144, 157, 154] False False]"

text \<open>Entries of VNMLAS, VNMLSD, VNMLSS, VNMULD, VNMULS, VORNd, VORNq, VORRd, VORRiv2i32, VORRiv4i16, VORRiv4i32,
  VORRiv8i16, VORRq, VPADALsv16i8, VPADALsv2i32, VPADALsv4i16, VPADALsv4i32, VPADALsv8i16, VPADALsv8i8, VPADALuv16i8,
  VPADALuv2i32, VPADALuv4i16, VPADALuv4i32, VPADALuv8i16, VPADALuv8i8.\<close>

definition insns_44 :: "insn_map list" where
  "insns_44 =
    [insn_entry 1434 325 [] [] [144, 154] False False,
     insn_entry 1435 326 [] [] [144, 157, 154] False False,
     insn_entry 1436 326 [] [] [144, 154] False False,
     insn_entry 1437 327 [] [] [144, 157] False False,
     insn_entry 1438 327 [] [] [144] False False,
     insn_entry 1439 328 [] [] [133] False False,
     insn_entry 1440 328 [] [] [133] False False,
     insn_entry 1441 329 [] [] [133] False False,
     insn_entry 1442 329 [] [] [133] False False,
     insn_entry 1443 329 [] [] [133] False False,
     insn_entry 1444 329 [] [] [133] False False,
     insn_entry 1445 329 [] [] [133] False False,
     insn_entry 1446 329 [] [] [133] False False,
     insn_entry 1447 330 [] [] [133] False False,
     insn_entry 1448 330 [] [] [133] False False,
     insn_entry 1449 330 [] [] [133] False False,
     insn_entry 1450 330 [] [] [133] False False,
     insn_entry 1451 330 [] [] [133] False False,
     insn_entry 1452 330 [] [] [133] False False,
     insn_entry 1453 330 [] [] [133] False False,
     insn_entry 1454 330 [] [] [133] False False,
     insn_entry 1455 330 [] [] [133] False False,
     insn_entry 1456 330 [] [] [133] False False,
     insn_entry 1457 330 [] [] [133] False False,
     insn_entry 1458 330 [] [] [133] False False]"

text \<open>Entries of VPADDLsv16i8, VPADDLsv2i32, VPADDLsv4i16, VPADDLsv4i32, VPADDLsv8i16, VPADDLsv8i8, VPADDLuv16i8,
  VPADDLuv2i32, VPADDLuv4i16, VPADDLuv4i32, VPADDLuv8i16, VPADDLuv8i8, VPADDf, VPADDi16, VPADDi32, VPADDi8, VPMAXf,
  VPMAXs16, VPMAXs32, VPMAXs8, VPMAXu16, VPMAXu32, VPMAXu8, VPMINf, VPMINs16.\<close>

definition insns_45 :: "insn_map list" where
  "insns_45 =
    [insn_entry 1459 331 [] [] [133] False False,
     insn_entry 1460 331 [] [] [133] False False,
     insn_entry 1461 331 [] [] [133] False False,
     insn_entry 1462 331 [] [] [133] False False,
     insn_entry 1463 331 [] [] [133] False False,
     insn_entry 1464 331 [] [] [133] False False,
     insn_entry 1465 331 [] [] [133] False False,
     insn_entry 1466 331 [] [] [133] False False,
     insn_entry 1467 331 [] [] [133] False False,
     insn_entry 1468 331 [] [] [133] False False,
     insn_entry 1469 331 [] [] [133] False False,
     insn_entry 1470 331 [] [] [133] False False,
     insn_entry 1471 332 [] [] [133] False False,
     insn_entry 1472 332 [] [] [133] False False,
     insn_entry 1473 332 [] [] [133] False False,
     insn_entry 1474 332 [] [] [133] False False,
     insn_entry 1475 333 [] [] [133] False False,
     insn_entry 1476 333 [] [] [133] False False,
     insn_entry 1477 333 [] [] [133] False False,
     insn_entry 1478 333 [] [] [133] False False,
     insn_entry 1479 333 [] [] [133] False False,
     insn_entry 1480 333 [] [] [133] False False,
     insn_entry 1481 333 [] [] [133] False False,
     insn_entry 1482 334 [] [] [133] False False,
     insn_entry 1483 334 [] [] [133] False False]"

text \<open>Entries of VPMINs32, VPMINs8, VPMINu16, VPMINu32, VPMINu8, VQABSv16i8, VQABSv2i32, VQABSv4i16, VQABSv4i32, VQABSv8i16,
  VQABSv8i8, VQADDsv16i8, VQADDsv1i64, VQADDsv2i32, VQADDsv2i64, VQADDsv4i16, VQADDsv4i32, VQADDsv8i16, VQADDsv8i8,
  VQADDuv16i8, VQADDuv1i64, VQADDuv2i32, VQADDuv2i64, VQADDuv4i16, VQADDuv4i32.\<close>

definition insns_46 :: "insn_map list" where
  "insns_46 =
    [insn_entry 1484 334 [] [] [133] False False,
     insn_entry 1485 334 [] [] [133] False False,
     insn_entry 1486 334 [] [] [133] False False,
     insn_entry 1487 334 [] [] [133] False False,
     insn_entry 1488 334 [] [] [133] False False,
     insn_entry 1489 335 [] [] [133] False False,
     insn_entry 1490 335 [] [] [133] False False,
     insn_entry 1491 335 [] [] [133] False False,
     insn_entry 1492 335 [] [] [133] False False,
     insn_entry 1493 335 [] [] [133] False False,
     insn_entry 1494 335 [] [] [133] False False,
     insn_entry 1495 336 [] [] [133] False False,
     insn_entry 1496 336 [] [] [133] False False,
     insn_entry 1497 336 [] [] [133] False False,
     insn_entry 1498 336 [] [] [133] False False,
     insn_entry 1499 336 [] [] [133] False False,
     insn_entry 1500 336 [] [] [133] False False,
     insn_entry 1501 336 [] [] [133] False False,
     insn_entry 1502 336 [] [] [133] False False,
     insn_entry 1503 336 [] [] [133] False False,
     insn_entry 1504 336 [] [] [133] False False,
     insn_entry 1505 336 [] [] [133] False False,
     insn_entry 1506 336 [] [] [133] False False,
     insn_entry 1507 336 [] [] [133] False False,
     insn_entry 1508 336 [] [] [133] False False]"

text \<open>Entries of VQADDuv8i16, VQADDuv8i8, VQDMLALslv2i32, VQDMLALslv4i16, VQDMLALv2i64, VQDMLALv4i32, VQDMLSLslv2i32,
  VQDMLSLslv4i16, VQDMLSLv2i64, VQDMLSLv4i32, VQDMULHslv2i32, VQDMULHslv4i16, VQDMULHslv4i32, VQDMULHslv8i16,
  VQDMULHv2i32, VQDMULHv4i16, VQDMULHv4i32, VQDMULHv8i16, VQDMULLslv2i32, VQDMULLslv4i16, VQDMULLv2i64, VQDMULLv4i32,
  VQMOVNsuv2i32, VQMOVNsuv4i16, VQMOVNsuv8i8.\<close>

definition insns_47 :: "insn_map list" where
  "insns_47 =
    [insn_entry 1509 336 [] [] [133] False False,
     insn_entry 1510 336 [] [] [133] False False,
     insn_entry 1511 337 [] [] [133] False False,
     insn_entry 1512 337 [] [] [133] False False,
     insn_entry 1513 337 [] [] [133] False False,
     insn_entry 1514 337 [] [] [133] False False,
     insn_entry 1515 338 [] [] [133] False False,
     insn_entry 1516 338 [] [] [133] False False,
     insn_entry 1517 338 [] [] [133] False False,
     insn_entry 1518 338 [] [] [133] False False,
     insn_entry 1519 339 [] [] [133] False False,
     insn_entry 1520 339 [] [] [133] False False,
     insn_entry 1521 339 [] [] [133] False False,
     insn_entry 1522 339 [] [] [133] False False,
     insn_entry 1523 339 [] [] [133] False False,
     insn_entry 1524 339 [] [] [133] False False,
     insn_entry 1525 339 [] [] [133] False False,
     insn_entry 1526 339 [] [] [133] False False,
     insn_entry 1527 340 [] [] [133] False False,
     insn_entry 1528 340 [] [] [133] False False,
     insn_entry 1529 340 [] [] [133] False False,
     insn_entry 1530 340 [] [] [133] False False,
     insn_entry 1531 341 [] [] [133] False False,
     insn_entry 1532 341 [] [] [133] False False,
     insn_entry 1533 341 [] [] [133] False False]"

text \<open>Entries of VQMOVNsv2i32, VQMOVNsv4i16, VQMOVNsv8i8, VQMOVNuv2i32, VQMOVNuv4i16, VQMOVNuv8i8, VQNEGv16i8, VQNEGv2i32,
  VQNEGv4i16, VQNEGv4i32, VQNEGv8i16, VQNEGv8i8, VQRDMULHslv2i32, VQRDMULHslv4i16, VQRDMULHslv4i32, VQRDMULHslv8i16,
  VQRDMULHv2i32, VQRDMULHv4i16, VQRDMULHv4i32, VQRDMULHv8i16, VQRSHLsv16i8, VQRSHLsv1i64, VQRSHLsv2i32, VQRSHLsv2i64,
  VQRSHLsv4i16.\<close>

definition insns_48 :: "insn_map list" where
  "insns_48 =
    [insn_entry 1534 342 [] [] [133] False False,
     insn_entry 1535 342 [] [] [133] False False,
     insn_entry 1536 342 [] [] [133] False False,
     insn_entry 1537 342 [] [] [133] False False,
     insn_entry 1538 342 [] [] [133] False False,
     insn_entry 1539 342 [] [] [133] False False,
     insn_entry 1540 343 [] [] [133] False False,
     insn_entry 1541 343 [] [] [133] False False,
     insn_entry 1542 343 [] [] [133] False False,
     insn_entry 1543 343 [] [] [133] False False,
     insn_entry 1544 343 [] [] [133] False False,
     insn_entry 1545 343 [] [] [133] False False,
     insn_entry 1546 344 [] [] [133] False False,
     insn_entry 1547 344 [] [] [133] False False,
     insn_entry 1548 344 [] [] [133] False False,
     insn_entry 1549 344 [] [] [133] False False,
     insn_entry 1550 344 [] [] [133] False False,
     insn_entry 1551 344 [] [] [133] False False,
     insn_entry 1552 344 [] [] [133] False False,
     insn_entry 1553 344 [] [] [133] False False,
     insn_entry 1554 345 [] [] [133] False False,
     insn_entry 1555 345 [] [] [133] False False,
     insn_entry 1556 345 [] [] [133] False False,
     insn_entry 1557 345 [] [] [133] False False,
     insn_entry 1558 345 [] [] [133] False False]"

text \<open>Entries of VQRSHLsv4i32, VQRSHLsv8i16, VQRSHLsv8i8, VQRSHLuv16i8, VQRSHLuv1i64, VQRSHLuv2i32, VQRSHLuv2i64,
  VQRSHLuv4i16, VQRSHLuv4i32, VQRSHLuv8i16, VQRSHLuv8i8, VQRSHRNsv2i32, VQRSHRNsv4i16, VQRSHRNsv8i8, VQRSHRNuv2i32,
  VQRSHRNuv4i16, VQRSHRNuv8i8, VQRSHRUNv2i32, VQRSHRUNv4i16, VQRSHRUNv8i8, VQSHLsiv16i8, VQSHLsiv1i64, VQSHLsiv2i32,
  VQSHLsiv2i64, VQSHLsiv4i16.\<close>

definition insns_49 :: "insn_map list" where
  "insns_49 =
    [insn_entry 1559 345 [] [] [133] False False,
     insn_entry 1560 345 [] [] [133] False False,
     insn_entry 1561 345 [] [] [133] False False,
     insn_entry 1562 345 [] [] [133] False False,
     insn_entry 1563 345 [] [] [133] False False,
     insn_entry 1564 345 [] [] [133] False False,
     insn_entry 1565 345 [] [] [133] False False,
     insn_entry 1566 345 [] [] [133] False False,
     insn_entry 1567 345 [] [] [133] False False,
     insn_entry 1568 345 [] [] [133] False False,
     insn_entry 1569 345 [] [] [133] False False,
     insn_entry 1570 346 [] [] [133] False False,
     insn_entry 1571 346 [] [] [133] False False,
     insn_entry 1572 346 [] [] [133] False False,
     insn_entry 1573 346 [] [] [133] False False,
     insn_entry 1574 346 [] [] [133] False False,
     insn_entry 1575 346 [] [] [133] False False,
     insn_entry 1576 347 [] [] [133] False False,
     insn_entry 1577 347 [] [] [133] False False,
     insn_entry 1578 347 [] [] [133] False False,
     insn_entry 1579 348 [] [] [133] False False,
     insn_entry 1580 348 [] [] [133] False False,
     insn_entry 1581 348 [] [] [133] False False,
     insn_entry 1582 348 [] [] [133] False False,
     insn_entry 1583 348 [] [] [133] False False]"

text \<open>Entries of VQSHLsiv4i32, VQSHLsiv8i16, VQSHLsiv8i8, VQSHLsuv16i8, VQSHLsuv1i64, VQSHLsuv2i32, VQSHLsuv2i64,
  VQSHLsuv4i16, VQSHLsuv4i32, VQSHLsuv8i16, VQSHLsuv8i8, VQSHLsv16i8, VQSHLsv1i64, VQSHLsv2i32, VQSHLsv2i64,
  VQSHLsv4i16, VQSHLsv4i32, VQSHLsv8i16, VQSHLsv8i8, VQSHLuiv16i8, VQSHLuiv1i64, VQSHLuiv2i32, VQSHLuiv2i64,
  VQSHLuiv4i16, VQSHLuiv4i32.\<close>

definition insns_50 :: "insn_map list" where
  "insns_50 =
    [insn_entry 1584 348 [] [] [133] False False,
     insn_entry 1585 348 [] [] [133] False False,
     insn_entry 1586 348 [] [] [133] False False,
     insn_entry 1587 349 [] [] [133] False False,
     insn_entry 1588 349 [] [] [133] False False,
     insn_entry 1589 349 [] [] [133] False False,
     insn_entry 1590 349 [] [] [133] False False,
     insn_entry 1591 349 [] [] [133] False False,
     insn_entry 1592 349 [] [] [133] False False,
     insn_entry 1593 349 [] [] [133] False False,
     insn_entry 1594 349 [] [] [133] False False,
     insn_entry 1595 348 [] [] [133] False False,
     insn_entry 1596 348 [] [] [133] False False,
     insn_entry 1597 348 [] [] [133] False False,
     insn_entry 1598 348 [] [] [133] False False,
     insn_entry 1599 348 [] [] [133] False False,
     insn_entry 1600 348 [] [] [133] False False,
     insn_entry 1601 348 [] [] [133] False False,
     insn_entry 1602 348 [] [] [133] False False,
     insn_entry 1603 348 [] [] [133] False False,
     insn_entry 1604 348 [] [] [133] False False,
     insn_entry 1605 348 [] [] [133] False False,
     insn_entry 1606 348 [] [] [133] False False,
     insn_entry 1607 348 [] [] [133] False False,
     insn_entry 1608 348 [] [] [133] False False]"

text \<open>Entries of VQSHLuiv8i16, VQSHLuiv8i8, VQSHLuv16i8, VQSHLuv1i64, VQSHLuv2i32, VQSHLuv2i64, VQSHLuv4i16, VQSHLuv4i32,
  VQSHLuv8i16, VQSHLuv8i8, VQSHRNsv2i32, VQSHRNsv4i16, VQSHRNsv8i8, VQSHRNuv2i32, VQSHRNuv4i16, VQSHRNuv8i8,
  VQSHRUNv2i32, VQSHRUNv4i16, VQSHRUNv8i8, VQSUBsv16i8, VQSUBsv1i64, VQSUBsv2i32, VQSUBsv2i64, VQSUBsv4i16, VQSUBsv4i32.\<close>

definition insns_51 :: "insn_map list" where
  "insns_51 =
    [insn_entry 1609 348 [] [] [133] False False,
     insn_entry 1610 348 [] [] [133] False False,
     insn_entry 1611 348 [] [] [133] False False,
     insn_entry 1612 348 [] [] [133] False False,
     insn_entry 1613 348 [] [] [133] False False,
     insn_entry 1614 348 [] [] [133] False False,
     insn_entry 1615 348 [] [] [133] False False,
     insn_entry 1616 348 [] [] [133] False False,
     insn_entry 1617 348 [] [] [133] False False,
     insn_entry 1618 348 [] [] [133] False False,
     insn_entry 1619 350 [] [] [133] False False,
     insn_entry 1620 350 [] [] [133] False False,
     insn_entry 1621 350 [] [] [133] False False,
     insn_entry 1622 350 [] [] [133] False False,
     insn_entry 1623 350 [] [] [133] False False,
     insn_entry 1624 350 [] [] [133] False False,
     insn_entry 1625 351 [] [] [133] False False,
     insn_entry 1626 351 [] [] [133] False False,
     insn_entry 1627 351 [] [] [133] False False,
     insn_entry 1628 352 [] [] [133] False False,
     insn_entry 1629 352 [] [] [133] False False,
     insn_entry 1630 352 [] [] [133] False False,
     insn_entry 1631 352 [] [] [133] False False,
     insn_entry 1632 352 [] [] [133] False False,
     insn_entry 1633 352 [] [] [133] False False]"

text \<open>Entries of VQSUBsv8i16, VQSUBsv8i8, VQSUBuv16i8, VQSUBuv1i64, VQSUBuv2i32, VQSUBuv2i64, VQSUBuv4i16, VQSUBuv4i32,
  VQSUBuv8i16, VQSUBuv8i8, VRADDHNv2i32, VRADDHNv4i16, VRADDHNv8i8, VRECPEd, VRECPEfd, VRECPEfq, VRECPEq, VRECPSfd,
  VRECPSfq, VREV16d8, VREV16q8, VREV32d16, VREV32d8, VREV32q16, VREV32q8.\<close>

definition insns_52 :: "insn_map list" where
  "insns_52 =
    [insn_entry 1634 352 [] [] [133] False False,
     insn_entry 1635 352 [] [] [133] False False,
     insn_entry 1636 352 [] [] [133] False False,
     insn_entry 1637 352 [] [] [133] False False,
     insn_entry 1638 352 [] [] [133] False False,
     insn_entry 1639 352 [] [] [133] False False,
     insn_entry 1640 352 [] [] [133] False False,
     insn_entry 1641 352 [] [] [133] False False,
     insn_entry 1642 352 [] [] [133] False False,
     insn_entry 1643 352 [] [] [133] False False,
     insn_entry 1644 353 [] [] [133] False False,
     insn_entry 1645 353 [] [] [133] False False,
     insn_entry 1646 353 [] [] [133] False False,
     insn_entry 1647 354 [] [] [133] False False,
     insn_entry 1648 354 [] [] [133] False False,
     insn_entry 1649 354 [] [] [133] False False,
     insn_entry 1650 354 [] [] [133] False False,
     insn_entry 1651 355 [] [] [133] False False,
     insn_entry 1652 355 [] [] [133] False False,
     insn_entry 1653 356 [] [] [133] False False,
     insn_entry 1654 356 [] [] [133] False False,
     insn_entry 1655 357 [] [] [133] False False,
     insn_entry 1656 357 [] [] [133] False False,
     insn_entry 1657 357 [] [] [133] False False,
     insn_entry 1658 357 [] [] [133] False False]"

text \<open>Entries of VREV64d16, VREV64d32, VREV64d8, VREV64q16, VREV64q32, VREV64q8, VRHADDsv16i8, VRHADDsv2i32, VRHADDsv4i16,
  VRHADDsv4i32, VRHADDsv8i16, VRHADDsv8i8, VRHADDuv16i8, VRHADDuv2i32, VRHADDuv4i16, VRHADDuv4i32, VRHADDuv8i16,
  VRHADDuv8i8, VRINTAD, VRINTAND, VRINTANQ, VRINTAS, VRINTMD, VRINTMND, VRINTMNQ.\<close>

definition insns_53 :: "insn_map list" where
  "insns_53 =
    [insn_entry 1659 358 [] [] [133] False False,
     insn_entry 1660 358 [] [] [133] False False,
     insn_entry 1661 358 [] [] [133] False False,
     insn_entry 1662 358 [] [] [133] False False,
     insn_entry 1663 358 [] [] [133] False False,
     insn_entry 1664 358 [] [] [133] False False,
     insn_entry 1665 359 [] [] [133] False False,
     insn_entry 1666 359 [] [] [133] False False,
     insn_entry 1667 359 [] [] [133] False False,
     insn_entry 1668 359 [] [] [133] False False,
     insn_entry 1669 359 [] [] [133] False False,
     insn_entry 1670 359 [] [] [133] False False,
     insn_entry 1671 359 [] [] [133] False False,
     insn_entry 1672 359 [] [] [133] False False,
     insn_entry 1673 359 [] [] [133] False False,
     insn_entry 1674 359 [] [] [133] False False,
     insn_entry 1675 359 [] [] [133] False False,
     insn_entry 1676 359 [] [] [133] False False,
     insn_entry 1677 360 [] [] [131, 157] False False,
     insn_entry 1678 360 [] [] [143, 133] False False,
     insn_entry 1679 360 [] [] [143, 133] False False,
     insn_entry 1680 360 [] [] [131] False False,
     insn_entry 1681 361 [] [] [131, 157] False False,
     insn_entry 1682 361 [] [] [143, 133] False False,
     insn_entry 1683 361 [] [] [143, 133] False False]"

text \<open>Entries of VRINTMS, VRINTND, VRINTNND, VRINTNNQ, VRINTNS, VRINTPD, VRINTPND, VRINTPNQ, VRINTPS, VRINTRD, VRINTRS,
  VRINTXD, VRINTXND, VRINTXNQ, VRINTXS, VRINTZD, VRINTZND, VRINTZNQ, VRINTZS, VRSHLsv16i8, VRSHLsv1i64, VRSHLsv2i32,
  VRSHLsv2i64, VRSHLsv4i16, VRSHLsv4i32.\<close>

definition insns_54 :: "insn_map list" where
  "insns_54 =
    [insn_entry 1684 361 [] [] [131] False False,
     insn_entry 1685 362 [] [] [131, 157] False False,
     insn_entry 1686 362 [] [] [143, 133] False False,
     insn_entry 1687 362 [] [] [143, 133] False False,
     insn_entry 1688 362 [] [] [131] False False,
     insn_entry 1689 363 [] [] [131, 157] False False,
     insn_entry 1690 363 [] [] [143, 133] False False,
     insn_entry 1691 363 [] [] [143, 133] False False,
     insn_entry 1692 363 [] [] [131] False False,
     insn_entry 1693 364 [] [] [131, 157] False False,
     insn_entry 1694 364 [] [] [131] False False,
     insn_entry 1695 365 [] [] [131, 157] False False,
     insn_entry 1696 365 [] [] [143, 133] False False,
     insn_entry 1697 365 [] [] [143, 133] False False,
     insn_entry 1698 365 [] [] [131] False False,
     insn_entry 1699 366 [] [] [131, 157] False False,
     insn_entry 1700 366 [] [] [143, 133] False False,
     insn_entry 1701 366 [] [] [143, 133] False False,
     insn_entry 1702 366 [] [] [131] False False,
     insn_entry 1703 367 [] [] [133] False False,
     insn_entry 1704 367 [] [] [133] False False,
     insn_entry 1705 367 [] [] [133] False False,
     insn_entry 1706 367 [] [] [133] False False,
     insn_entry 1707 367 [] [] [133] False False,
     insn_entry 1708 367 [] [] [133] False False]"

text \<open>Entries of VRSHLsv8i16, VRSHLsv8i8, VRSHLuv16i8, VRSHLuv1i64, VRSHLuv2i32, VRSHLuv2i64, VRSHLuv4i16, VRSHLuv4i32,
  VRSHLuv8i16, VRSHLuv8i8, VRSHRNv2i32, VRSHRNv4i16, VRSHRNv8i8, VRSHRsv16i8, VRSHRsv1i64, VRSHRsv2i32, VRSHRsv2i64,
  VRSHRsv4i16, VRSHRsv4i32, VRSHRsv8i16, VRSHRsv8i8, VRSHRuv16i8, VRSHRuv1i64, VRSHRuv2i32, VRSHRuv2i64.\<close>

definition insns_55 :: "insn_map list" where
  "insns_55 =
    [insn_entry 1709 367 [] [] [133] False False,
     insn_entry 1710 367 [] [] [133] False False,
     insn_entry 1711 367 [] [] [133] False False,
     insn_entry 1712 367 [] [] [133] False False,
     insn_entry 1713 367 [] [] [133] False False,
     insn_entry 1714 367 [] [] [133] False False,
     insn_entry 1715 367 [] [] [133] False False,
     insn_entry 1716 367 [] [] [133] False False,
     insn_entry 1717 367 [] [] [133] False False,
     insn_entry 1718 367 [] [] [133] False False,
     insn_entry 1719 368 [] [] [133] False False,
     insn_entry 1720 368 [] [] [133] False False,
     insn_entry 1721 368 [] [] [133] False False,
     insn_entry 1722 369 [] [] [133] False False,
     insn_entry 1723 369 [] [] [133] False False,
     insn_entry 1724 369 [] [] [133] False False,
     insn_entry 1725 369 [] [] [133] False False,
     insn_entry 1726 369 [] [] [133] False False,
     insn_entry 1727 369 [] [] [133] False False,
     insn_entry 1728 369 [] [] [133] False False,
     insn_entry 1729 369 [] [] [133] False False,
     insn_entry 1730 369 [] [] [133] False False,
     insn_entry 1731 369 [] [] [133] False False,
     insn_entry 1732 369 [] [] [133] False False,
     insn_entry 1733 369 [] [] [133] False False]"

text \<open>Entries of VRSHRuv4i16, VRSHRuv4i32, VRSHRuv8i16, VRSHRuv8i8, VRSQRTEd, VRSQRTEfd, VRSQRTEfq, VRSQRTEq, VRSQRTSfd,
  VRSQRTSfq, VRSRAsv16i8, VRSRAsv1i64, VRSRAsv2i32, VRSRAsv2i64, VRSRAsv4i16, VRSRAsv4i32, VRSRAsv8i16, VRSRAsv8i8,
  VRSRAuv16i8, VRSRAuv1i64, VRSRAuv2i32, VRSRAuv2i64, VRSRAuv4i16, VRSRAuv4i32, VRSRAuv8i16.\<close>

definition insns_56 :: "insn_map list" where
  "insns_56 =
    [insn_entry 1734 369 [] [] [133] False False,
     insn_entry 1735 369 [] [] [133] False False,
     insn_entry 1736 369 [] [] [133] False False,
     insn_entry 1737 369 [] [] [133] False False,
     insn_entry 1738 370 [] [] [133] False False,
     insn_entry 1739 370 [] [] [133] False False,
     insn_entry 1740 370 [] [] [133] False False,
     insn_entry 1741 370 [] [] [133] False False,
     insn_entry 1742 371 [] [] [133] False False,
     insn_entry 1743 371 [] [] [133] False False,
     insn_entry 1744 372 [] [] [133] False False,
     insn_entry 1745 372 [] [] [133] False False,
     insn_entry 1746 372 [] [] [133] False False,
     insn_entry 1747 372 [] [] [133] False False,
     insn_entry 1748 372 [] [] [133] False False,
     insn_entry 1749 372 [] [] [133] False False,
     insn_entry 1750 372 [] [] [133] False False,
     insn_entry 1751 372 [] [] [133] False False,
     insn_entry 1752 372 [] [] [133] False False,
     insn_entry 1753 372 [] [] [133] False False,
     insn_entry 1754 372 [] [] [133] False False,
     insn_entry 1755 372 [] [] [133] False False,
     insn_entry 1756 372 [] [] [133] False False,
     insn_entry 1757 372 [] [] [133] False False,
     insn_entry 1758 372 [] [] [133] False False]"

text \<open>Entries of VRSRAuv8i8, VRSUBHNv2i32, VRSUBHNv4i16, VRSUBHNv8i8, VSELEQD, VSELEQS, VSELGED, VSELGES, VSELGTD, VSELGTS,
  VSELVSD, VSELVSS, VSETLNi16, VSETLNi32, VSETLNi8, VSHLLi16, VSHLLi32, VSHLLi8, VSHLLsv2i64, VSHLLsv4i32, VSHLLsv8i16,
  VSHLLuv2i64, VSHLLuv4i32, VSHLLuv8i16, VSHLiv16i8.\<close>

definition insns_57 :: "insn_map list" where
  "insns_57 =
    [insn_entry 1759 372 [] [] [133] False False,
     insn_entry 1760 373 [] [] [133] False False,
     insn_entry 1761 373 [] [] [133] False False,
     insn_entry 1762 373 [] [] [133] False False,
     insn_entry 1763 374 [3] [] [131, 157] False False,
     insn_entry 1764 374 [3] [] [131] False False,
     insn_entry 1765 375 [3] [] [131, 157] False False,
     insn_entry 1766 375 [3] [] [131] False False,
     insn_entry 1767 376 [3] [] [131, 157] False False,
     insn_entry 1768 376 [3] [] [131] False False,
     insn_entry 1769 377 [3] [] [131, 157] False False,
     insn_entry 1770 377 [3] [] [131] False False,
     insn_entry 1771 35 [] [] [133] False False,
     insn_entry 1772 35 [] [] [133] False False,
     insn_entry 1773 35 [] [] [133] False False,
     insn_entry 1774 378 [] [] [133] False False,
     insn_entry 1775 378 [] [] [133] False False,
     insn_entry 1776 378 [] [] [133] False False,
     insn_entry 1777 378 [] [] [133] False False,
     insn_entry 1778 378 [] [] [133] False False,
     insn_entry 1779 378 [] [] [133] False False,
     insn_entry 1780 378 [] [] [133] False False,
     insn_entry 1781 378 [] [] [133] False False,
     insn_entry 1782 378 [] [] [133] False False,
     insn_entry 1783 379 [] [] [133] False False]"

text \<open>Entries of VSHLiv1i64, VSHLiv2i32, VSHLiv2i64, VSHLiv4i16, VSHLiv4i32, VSHLiv8i16, VSHLiv8i8, VSHLsv16i8, VSHLsv1i64,
  VSHLsv2i32, VSHLsv2i64, VSHLsv4i16, VSHLsv4i32, VSHLsv8i16, VSHLsv8i8, VSHLuv16i8, VSHLuv1i64, VSHLuv2i32, VSHLuv2i64,
  VSHLuv4i16, VSHLuv4i32, VSHLuv8i16, VSHLuv8i8, VSHRNv2i32, VSHRNv4i16.\<close>

definition insns_58 :: "insn_map list" where
  "insns_58 =
    [insn_entry 1784 379 [] [] [133] False False,
     insn_entry 1785 379 [] [] [133] False False,
     insn_entry 1786 379 [] [] [133] False False,
     insn_entry 1787 379 [] [] [133] False False,
     insn_entry 1788 379 [] [] [133] False False,
     insn_entry 1789 379 [] [] [133] False False,
     insn_entry 1790 379 [] [] [133] False False,
     insn_entry 1791 379 [] [] [133] False False,
     insn_entry 1792 379 [] [] [133] False False,
     insn_entry 1793 379 [] [] [133] False False,
     insn_entry 1794 379 [] [] [133] False False,
     insn_entry 1795 379 [] [] [133] False False,
     insn_entry 1796 379 [] [] [133] False False,
     insn_entry 1797 379 [] [] [133] False False,
     insn_entry 1798 379 [] [] [133] False False,
     insn_entry 1799 379 [] [] [133] False False,
     insn_entry 1800 379 [] [] [133] False False,
     insn_entry 1801 379 [] [] [133] False False,
     insn_entry 1802 379 [] [] [133] False False,
     insn_entry 1803 379 [] [] [133] False False,
     insn_entry 1804 379 [] [] [133] False False,
     insn_entry 1805 379 [] [] [133] False False,
     insn_entry 1806 379 [] [] [133] False False,
     insn_entry 1807 380 [] [] [133] False False,
     insn_entry 1808 380 [] [] [133] False False]"

text \<open>Entries of VSHRNv8i8, VSHRsv16i8, VSHRsv1i64, VSHRsv2i32, VSHRsv2i64, VSHRsv4i16, VSHRsv4i32, VSHRsv8i16, VSHRsv8i8,
  VSHRuv16i8, VSHRuv1i64, VSHRuv2i32, VSHRuv2i64, VSHRuv4i16, VSHRuv4i32, VSHRuv8i16, VSHRuv8i8, VSHTOD, VSHTOS, VSITOD,
  VSITOS, VSLIv16i8, VSLIv1i64, VSLIv2i32, VSLIv2i64.\<close>

definition insns_59 :: "insn_map list" where
  "insns_59 =
    [insn_entry 1809 380 [] [] [133] False False,
     insn_entry 1810 381 [] [] [133] False False,
     insn_entry 1811 381 [] [] [133] False False,
     insn_entry 1812 381 [] [] [133] False False,
     insn_entry 1813 381 [] [] [133] False False,
     insn_entry 1814 381 [] [] [133] False False,
     insn_entry 1815 381 [] [] [133] False False,
     insn_entry 1816 381 [] [] [133] False False,
     insn_entry 1817 381 [] [] [133] False False,
     insn_entry 1818 381 [] [] [133] False False,
     insn_entry 1819 381 [] [] [133] False False,
     insn_entry 1820 381 [] [] [133] False False,
     insn_entry 1821 381 [] [] [133] False False,
     insn_entry 1822 381 [] [] [133] False False,
     insn_entry 1823 381 [] [] [133] False False,
     insn_entry 1824 381 [] [] [133] False False,
     insn_entry 1825 381 [] [] [133] False False,
     insn_entry 1826 288 [] [] [144, 157] False False,
     insn_entry 1827 288 [] [] [144] False False,
     insn_entry 1828 288 [] [] [144, 157] False False,
     insn_entry 1829 288 [] [] [144] False False,
     insn_entry 1830 382 [] [] [133] False False,
     insn_entry 1831 382 [] [] [133] False False,
     insn_entry 1832 382 [] [] [133] False False,
     insn_entry 1833 382 [] [] [133] False False]"

text \<open>Entries of VSLIv4i16, VSLIv4i32, VSLIv8i16, VSLIv8i8, VSLTOD, VSLTOS, VSQRTD, VSQRTS, VSRAsv16i8, VSRAsv1i64,
  VSRAsv2i32, VSRAsv2i64, VSRAsv4i16, VSRAsv4i32, VSRAsv8i16, VSRAsv8i8, VSRAuv16i8, VSRAuv1i64, VSRAuv2i32, VSRAuv2i64,
  VSRAuv4i16, VSRAuv4i32, VSRAuv8i16, VSRAuv8i8, VSRIv16i8.\<close>

definition insns_60 :: "insn_map list" where
  "insns_60 =
    [insn_entry 1834 382 [] [] [133] False False,
     insn_entry 1835 382 [] [] [133] False False,
     insn_entry 1836 382 [] [] [133] False False,
     insn_entry 1837 382 [] [] [133] False False,
     insn_entry 1838 288 [] [] [144, 157] False False,
     insn_entry 1839 288 [] [] [144] False False,
     insn_entry 1840 383 [] [] [144, 157] False False,
     insn_entry 1841 383 [] [] [144] False False,
     insn_entry 1842 384 [] [] [133] False False,
     insn_entry 1843 384 [] [] [133] False False,
     insn_entry 1844 384 [] [] [133] False False,
     insn_entry 1845 384 [] [] [133] False False,
     insn_entry 1846 384 [] [] [133] False False,
     insn_entry 1847 384 [] [] [133] False False,
     insn_entry 1848 384 [] [] [133] False False,
     insn_entry 1849 384 [] [] [133] False False,
     insn_entry 1850 384 [] [] [133] False False,
     insn_entry 1851 384 [] [] [133] False False,
     insn_entry 1852 384 [] [] [133] False False,
     insn_entry 1853 384 [] [] [133] False False,
     insn_entry 1854 384 [] [] [133] False False,
     insn_entry 1855 384 [] [] [133] False False,
     insn_entry 1856 384 [] [] [133] False False,
     insn_entry 1857 384 [] [] [133] False False,
     insn_entry 1858 385 [] [] [133] False False]"

text \<open>Entries of VSRIv1i64, VSRIv2i32, VSRIv2i64, VSRIv4i16, VSRIv4i32, VSRIv8i16, VSRIv8i8, VST1LNd16, VST1LNd16_UPD,
  VST1LNd32, VST1LNd32_UPD, VST1LNd8, VST1LNd8_UPD, VST1d16, VST1d16Q, VST1d16Qwb_fixed, VST1d16Qwb_register, VST1d16T,
  VST1d16Twb_fixed, VST1d16Twb_register, VST1d16wb_fixed, VST1d16wb_register, VST1d32, VST1d32Q, VST1d32Qwb_fixed.\<close>

definition insns_61 :: "insn_map list" where
  "insns_61 =
    [insn_entry 1859 385 [] [] [133] False False,
     insn_entry 1860 385 [] [] [133] False False,
     insn_entry 1861 385 [] [] [133] False False,
     insn_entry 1862 385 [] [] [133] False False,
     insn_entry 1863 385 [] [] [133] False False,
     insn_entry 1864 385 [] [] [133] False False,
     insn_entry 1865 385 [] [] [133] False False,
     insn_entry 1866 386 [] [] [133] False False,
     insn_entry 1867 386 [] [] [133] False False,
     insn_entry 1868 386 [] [] [133] False False,
     insn_entry 1869 386 [] [] [133] False False,
     insn_entry 1870 386 [] [] [133] False False,
     insn_entry 1871 386 [] [] [133] False False,
     insn_entry 1887 386 [] [] [133] False False,
     insn_entry 1888 386 [] [] [133] False False,
     insn_entry 1889 386 [] [] [133] False False,
     insn_entry 1890 386 [] [] [133] False False,
     insn_entry 1891 386 [] [] [133] False False,
     insn_entry 1892 386 [] [] [133] False False,
     insn_entry 1893 386 [] [] [133] False False,
     insn_entry 1894 386 [] [] [133] False False,
     insn_entry 1895 386 [] [] [133] False False,
     insn_entry 1896 386 [] [] [133] False False,
     insn_entry 1897 386 [] [] [133] False False,
     insn_entry 1898 386 [] [] [133] False False]"

text \<open>Entries of VST1d32Qwb_register, VST1d32T, VST1d32Twb_fixed, VST1d32Twb_register, VST1d32wb_fixed, VST1d32wb_register,
  VST1d64, VST1d64Q, VST1d64Qwb_fixed, VST1d64Qwb_register, VST1d64T, VST1d64Twb_fixed, VST1d64Twb_register,
  VST1d64wb_fixed, VST1d64wb_register, VST1d8, VST1d8Q, VST1d8Qwb_fixed, VST1d8Qwb_register, VST1d8T, VST1d8Twb_fixed,
  VST1d8Twb_register, VST1d8wb_fixed, VST1d8wb_register, VST1q16.\<close>

definition insns_62 :: "insn_map list" where
  "insns_62 =
    [insn_entry 1899 386 [] [] [133] False False,
     insn_entry 1900 386 [] [] [133] False False,
     insn_entry 1901 386 [] [] [133] False False,
     insn_entry 1902 386 [] [] [133] False False,
     insn_entry 1903 386 [] [] [133] False False,
     insn_entry 1904 386 [] [] [133] False False,
     insn_entry 1905 386 [] [] [133] False False,
     insn_entry 1906 386 [] [] [133] False False,
     insn_entry 1910 386 [] [] [133] False False,
     insn_entry 1911 386 [] [] [133] False False,
     insn_entry 1912 386 [] [] [133] False False,
     insn_entry 1916 386 [] [] [133] False False,
     insn_entry 1917 386 [] [] [133] False False,
     insn_entry 1918 386 [] [] [133] False False,
     insn_entry 1919 386 [] [] [133] False False,
     insn_entry 1920 386 [] [] [133] False False,
     insn_entry 1921 386 [] [] [133] False False,
     insn_entry 1922 386 [] [] [133] False False,
     insn_entry 1923 386 [] [] [133] False False,
     insn_entry 1924 386 [] [] [133] False False,
     insn_entry 1925 386 [] [] [133] False False,
     insn_entry 1926 386 [] [] [133] False False,
     insn_entry 1927 386 [] [] [133] False False,
     insn_entry 1928 386 [] [] [133] False False,
     insn_entry 1929 386 [] [] [133] False False]"

text \<open>Entries of VST1q16wb_fixed, VST1q16wb_register, VST1q32, VST1q32wb_fixed, VST1q32wb_register, VST1q64,
  VST1q64wb_fixed, VST1q64wb_register, VST1q8, VST1q8wb_fixed, VST1q8wb_register, VST2LNd16, VST2LNd16_UPD, VST2LNd32,
  VST2LNd32_UPD, VST2LNd8, VST2LNd8_UPD, VST2LNq16, VST2LNq16_UPD, VST2LNq32, VST2LNq32_UPD, VST2b16, VST2b16wb_fixed,
  VST2b16wb_register, VST2b32.\<close>

definition insns_63 :: "insn_map list" where
  "insns_63 =
    [insn_entry 1930 386 [] [] [133] False False,
     insn_entry 1931 386 [] [] [133] False False,
     insn_entry 1932 386 [] [] [133] False False,
     insn_entry 1933 386 [] [] [133] False False,
     insn_entry 1934 386 [] [] [133] False False,
     insn_entry 1935 386 [] [] [133] False False,
     insn_entry 1936 386 [] [] [133] False False,
     insn_entry 1937 386 [] [] [133] False False,
     insn_entry 1938 386 [] [] [133] False False,
     insn_entry 1939 386 [] [] [133] False False,
     insn_entry 1940 386 [] [] [133] False False,
     insn_entry 1941 387 [] [] [133] False False,
     insn_entry 1944 387 [] [] [133] False False,
     insn_entry 1945 387 [] [] [133] False False,
     insn_entry 1948 387 [] [] [133] False False,
     insn_entry 1949 387 [] [] [133] False False,
     insn_entry 1952 387 [] [] [133] False False,
     insn_entry 1962 387 [] [] [133] False False,
     insn_entry 1965 387 [] [] [133] False False,
     insn_entry 1966 387 [] [] [133] False False,
     insn_entry 1969 387 [] [] [133] False False,
     insn_entry 1976 387 [] [] [133] False False,
     insn_entry 1977 387 [] [] [133] False False,
     insn_entry 1978 387 [] [] [133] False False,
     insn_entry 1979 387 [] [] [133] False False]"

text \<open>Entries of VST2b32wb_fixed, VST2b32wb_register, VST2b8, VST2b8wb_fixed, VST2b8wb_register, VST2d16, VST2d16wb_fixed,
  VST2d16wb_register, VST2d32, VST2d32wb_fixed, VST2d32wb_register, VST2d8, VST2d8wb_fixed, VST2d8wb_register, VST2q16,
  VST2q16wb_fixed, VST2q16wb_register, VST2q32, VST2q32wb_fixed, VST2q32wb_register, VST2q8, VST2q8wb_fixed,
  VST2q8wb_register, VST3LNd16, VST3LNd16_UPD.\<close>

definition insns_64 :: "insn_map list" where
  "insns_64 =
    [insn_entry 1980 387 [] [] [133] False False,
     insn_entry 1981 387 [] [] [133] False False,
     insn_entry 1982 387 [] [] [133] False False,
     insn_entry 1983 387 [] [] [133] False False,
     insn_entry 1984 387 [] [] [133] False False,
     insn_entry 1985 387 [] [] [133] False False,
     insn_entry 1986 387 [] [] [133] False False,
     insn_entry 1987 387 [] [] [133] False False,
     insn_entry 1988 387 [] [] [133] False False,
     insn_entry 1989 387 [] [] [133] False False,
     insn_entry 1990 387 [] [] [133] False False,
     insn_entry 1991 387 [] [] [133] False False,
     insn_entry 1992 387 [] [] [133] False False,
     insn_entry 1993 387 [] [] [133] False False,
     insn_entry 1994 387 [] [] [133] False False,
     insn_entry 1998 387 [] [] [133] False False,
     insn_entry 1999 387 [] [] [133] False False,
     insn_entry 2000 387 [] [] [133] False False,
     insn_entry 2004 387 [] [] [133] False False,
     insn_entry 2005 387 [] [] [133] False False,
     insn_entry 2006 387 [] [] [133] False False,
     insn_entry 2010 387 [] [] [133] False False,
     insn_entry 2011 387 [] [] [133] False False,
     insn_entry 2012 388 [] [] [133] False False,
     insn_entry 2015 388 [] [] [133] False False]"

text \<open>Entries of VST3LNd32, VST3LNd32_UPD, VST3LNd8, VST3LNd8_UPD, VST3LNq16, VST3LNq16_UPD, VST3LNq32, VST3LNq32_UPD,
  VST3d16, VST3d16_UPD, VST3d32, VST3d32_UPD, VST3d8, VST3d8_UPD, VST3q16, VST3q16_UPD, VST3q32, VST3q32_UPD, VST3q8,
  VST3q8_UPD, VST4LNd16, VST4LNd16_UPD, VST4LNd32, VST4LNd32_UPD, VST4LNd8.\<close>

definition insns_65 :: "insn_map list" where
  "insns_65 =
    [insn_entry 2016 388 [] [] [133] False False,
     insn_entry 2019 388 [] [] [133] False False,
     insn_entry 2020 388 [] [] [133] False False,
     insn_entry 2023 388 [] [] [133] False False,
     insn_entry 2033 388 [] [] [133] False False,
     insn_entry 2036 388 [] [] [133] False False,
     insn_entry 2037 388 [] [] [133] False False,
     insn_entry 2040 388 [] [] [133] False False,
     insn_entry 2047 388 [] [] [133] False False,
     insn_entry 2050 388 [] [] [133] False False,
     insn_entry 2051 388 [] [] [133] False False,
     insn_entry 2054 388 [] [] [133] False False,
     insn_entry 2055 388 [] [] [133] False False,
     insn_entry 2058 388 [] [] [133] False False,
     insn_entry 2068 388 [] [] [133] False False,
     insn_entry 2070 388 [] [] [133] False False,
     insn_entry 2073 388 [] [] [133] False False,
     insn_entry 2075 388 [] [] [133] False False,
     insn_entry 2078 388 [] [] [133] False False,
     insn_entry 2080 388 [] [] [133] False False,
     insn_entry 2092 389 [] [] [133] False False,
     insn_entry 2095 389 [] [] [133] False False,
     insn_entry 2096 389 [] [] [133] False False,
     insn_entry 2099 389 [] [] [133] False False,
     insn_entry 2100 389 [] [] [133] False False]"

text \<open>Entries of VST4LNd8_UPD, VST4LNq16, VST4LNq16_UPD, VST4LNq32, VST4LNq32_UPD, VST4d16, VST4d16_UPD, VST4d32,
  VST4d32_UPD, VST4d8, VST4d8_UPD, VST4q16, VST4q16_UPD, VST4q32, VST4q32_UPD, VST4q8, VST4q8_UPD, VSTMDDB_UPD, VSTMDIA,
  VSTMDIA_UPD, VSTMSDB_UPD, VSTMSIA, VSTMSIA_UPD, VSTRD, VSTRS.\<close>

definition insns_66 :: "insn_map list" where
  "insns_66 =
    [insn_entry 2103 389 [] [] [133] False False,
     insn_entry 2113 389 [] [] [133] False False,
     insn_entry 2116 389 [] [] [133] False False,
     insn_entry 2117 389 [] [] [133] False False,
     insn_entry 2120 389 [] [] [133] False False,
     insn_entry 2127 389 [] [] [133] False False,
     insn_entry 2130 389 [] [] [133] False False,
     insn_entry 2131 389 [] [] [133] False False,
     insn_entry 2134 389 [] [] [133] False False,
     insn_entry 2135 389 [] [] [133] False False,
     insn_entry 2138 389 [] [] [133] False False,
     insn_entry 2148 389 [] [] [133] False False,
     insn_entry 2150 389 [] [] [133] False False,
     insn_entry 2153 389 [] [] [133] False False,
     insn_entry 2155 389 [] [] [133] False False,
     insn_entry 2158 389 [] [] [133] False False,
     insn_entry 2160 389 [] [] [133] False False,
     insn_entry 2172 390 [] [] [144] False False,
     insn_entry 2173 391 [] [] [144] False False,
     insn_entry 2174 391 [] [] [144] False False,
     insn_entry 2176 390 [] [] [144] False False,
     insn_entry 2177 391 [] [] [144] False False,
     insn_entry 2178 391 [] [] [144] False False,
     insn_entry 2179 392 [] [] [144] False False,
     insn_entry 2180 392 [] [] [144] False False]"

text \<open>Entries of VSUBD, VSUBHNv2i32, VSUBHNv4i16, VSUBHNv8i8, VSUBLsv2i64, VSUBLsv4i32, VSUBLsv8i16, VSUBLuv2i64,
  VSUBLuv4i32, VSUBLuv8i16, VSUBS, VSUBWsv2i64, VSUBWsv4i32, VSUBWsv8i16, VSUBWuv2i64, VSUBWuv4i32, VSUBWuv8i16, VSUBfd,
  VSUBfq, VSUBv16i8, VSUBv1i64, VSUBv2i32, VSUBv2i64, VSUBv4i16, VSUBv4i32.\<close>

definition insns_67 :: "insn_map list" where
  "insns_67 =
    [insn_entry 2181 393 [] [] [144, 157] False False,
     insn_entry 2182 394 [] [] [133] False False,
     insn_entry 2183 394 [] [] [133] False False,
     insn_entry 2184 394 [] [] [133] False False,
     insn_entry 2185 395 [] [] [133] False False,
     insn_entry 2186 395 [] [] [133] False False,
     insn_entry 2187 395 [] [] [133] False False,
     insn_entry 2188 395 [] [] [133] False False,
     insn_entry 2189 395 [] [] [133] False False,
     insn_entry 2190 395 [] [] [133] False False,
     insn_entry 2191 393 [] [] [144] False False,
     insn_entry 2192 396 [] [] [133] False False,
     insn_entry 2193 396 [] [] [133] False False,
     insn_entry 2194 396 [] [] [133] False False,
     insn_entry 2195 396 [] [] [133] False False,
     insn_entry 2196 396 [] [] [133] False False,
     insn_entry 2197 396 [] [] [133] False False,
     insn_entry 2198 393 [] [] [133] False False,
     insn_entry 2199 393 [] [] [133] False False,
     insn_entry 2200 393 [] [] [133] False False,
     insn_entry 2201 393 [] [] [133] False False,
     insn_entry 2202 393 [] [] [133] False False,
     insn_entry 2203 393 [] [] [133] False False,
     insn_entry 2204 393 [] [] [133] False False,
     insn_entry 2205 393 [] [] [133] False False]"

text \<open>Entries of VSUBv8i16, VSUBv8i8, VSWPd, VSWPq, VTBL1, VTBL2, VTBL3, VTBL4, VTBX1, VTBX2, VTBX3, VTBX4, VTOSHD, VTOSHS,
  VTOSIRD, VTOSIRS, VTOSIZD, VTOSIZS, VTOSLD, VTOSLS, VTOUHD, VTOUHS, VTOUIRD, VTOUIRS, VTOUIZD.\<close>

definition insns_68 :: "insn_map list" where
  "insns_68 =
    [insn_entry 2206 393 [] [] [133] False False,
     insn_entry 2207 393 [] [] [133] False False,
     insn_entry 2208 397 [] [] [133] False False,
     insn_entry 2209 397 [] [] [133] False False,
     insn_entry 2210 398 [] [] [133] False False,
     insn_entry 2211 398 [] [] [133] False False,
     insn_entry 2212 398 [] [] [133] False False,
     insn_entry 2214 398 [] [] [133] False False,
     insn_entry 2216 399 [] [] [133] False False,
     insn_entry 2217 399 [] [] [133] False False,
     insn_entry 2218 399 [] [] [133] False False,
     insn_entry 2220 399 [] [] [133] False False,
     insn_entry 2222 288 [] [] [144, 157] False False,
     insn_entry 2223 288 [] [] [144] False False,
     insn_entry 2224 400 [6] [] [144, 157] False False,
     insn_entry 2225 400 [6] [] [144] False False,
     insn_entry 2226 288 [] [] [144, 157] False False,
     insn_entry 2227 288 [] [] [144] False False,
     insn_entry 2228 288 [] [] [144, 157] False False,
     insn_entry 2229 288 [] [] [144] False False,
     insn_entry 2230 288 [] [] [144, 157] False False,
     insn_entry 2231 288 [] [] [144] False False,
     insn_entry 2232 400 [6] [] [144, 157] False False,
     insn_entry 2233 400 [6] [] [144] False False,
     insn_entry 2234 288 [] [] [144, 157] False False]"

text \<open>Entries of VTOUIZS, VTOULD, VTOULS, VTRNd16, VTRNd32, VTRNd8, VTRNq16, VTRNq32, VTRNq8, VTSTv16i8, VTSTv2i32,
  VTSTv4i16, VTSTv4i32, VTSTv8i16, VTSTv8i8, VUHTOD, VUHTOS, VUITOD, VUITOS, VULTOD, VULTOS, VUZPd16, VUZPd8, VUZPq16,
  VUZPq32.\<close>

definition insns_69 :: "insn_map list" where
  "insns_69 =
    [insn_entry 2235 288 [] [] [144] False False,
     insn_entry 2236 288 [] [] [144, 157] False False,
     insn_entry 2237 288 [] [] [144] False False,
     insn_entry 2238 401 [] [] [133] False False,
     insn_entry 2239 401 [] [] [133] False False,
     insn_entry 2240 401 [] [] [133] False False,
     insn_entry 2241 401 [] [] [133] False False,
     insn_entry 2242 401 [] [] [133] False False,
     insn_entry 2243 401 [] [] [133] False False,
     insn_entry 2244 402 [] [] [133] False False,
     insn_entry 2245 402 [] [] [133] False False,
     insn_entry 2246 402 [] [] [133] False False,
     insn_entry 2247 402 [] [] [133] False False,
     insn_entry 2248 402 [] [] [133] False False,
     insn_entry 2249 402 [] [] [133] False False,
     insn_entry 2250 288 [] [] [144, 157] False False,
     insn_entry 2251 288 [] [] [144] False False,
     insn_entry 2252 288 [] [] [144, 157] False False,
     insn_entry 2253 288 [] [] [144] False False,
     insn_entry 2254 288 [] [] [144, 157] False False,
     insn_entry 2255 288 [] [] [144] False False,
     insn_entry 2256 403 [] [] [133] False False,
     insn_entry 2257 403 [] [] [133] False False,
     insn_entry 2258 403 [] [] [133] False False,
     insn_entry 2259 403 [] [] [133] False False]"

text \<open>Entries of VUZPq8, VZIPd16, VZIPd8, VZIPq16, VZIPq32, VZIPq8, sysLDMDA, sysLDMDA_UPD, sysLDMDB, sysLDMDB_UPD,
  sysLDMIA, sysLDMIA_UPD, sysLDMIB, sysLDMIB_UPD, sysSTMDA, sysSTMDA_UPD, sysSTMDB, sysSTMDB_UPD, sysSTMIA,
  sysSTMIA_UPD, sysSTMIB, sysSTMIB_UPD, t2ADCri, t2ADCrr, t2ADCrs.\<close>

definition insns_70 :: "insn_map list" where
  "insns_70 =
    [insn_entry 2260 403 [] [] [133] False False,
     insn_entry 2261 404 [] [] [133] False False,
     insn_entry 2262 404 [] [] [133] False False,
     insn_entry 2263 404 [] [] [133] False False,
     insn_entry 2264 404 [] [] [133] False False,
     insn_entry 2265 404 [] [] [133] False False,
     insn_entry 2267 55 [] [] [147] False False,
     insn_entry 2268 55 [] [] [147] False False,
     insn_entry 2269 56 [] [] [147] False False,
     insn_entry 2270 56 [] [] [147] False False,
     insn_entry 2271 57 [] [] [147] False False,
     insn_entry 2272 57 [] [] [147] False False,
     insn_entry 2273 58 [] [] [147] False False,
     insn_entry 2274 58 [] [] [147] False False,
     insn_entry 2275 198 [] [] [147] False False,
     insn_entry 2276 198 [] [] [147] False False,
     insn_entry 2277 199 [] [] [147] False False,
     insn_entry 2278 199 [] [] [147] False False,
     insn_entry 2279 200 [] [] [147] False False,
     insn_entry 2280 200 [] [] [147] False False,
     insn_entry 2281 201 [] [] [147] False False,
     insn_entry 2282 201 [] [] [147] False False,
     insn_entry 2284 1 [3] [3] [152] False False,
     insn_entry 2285 1 [3] [] [152] False False,
     insn_entry 2286 1 [3] [3] [152] False False]"

text \<open>Entries of t2ADDri, t2ADDri12, t2ADDrr, t2ADDrs, t2ADR, t2ANDri, t2ANDrr, t2ANDrs, t2ASRri, t2ASRrr, t2B, t2BFC,
  t2BFI, t2BICri, t2BICrr, t2BICrs, t2BXJ, t2Bcc, t2CDP, t2CDP2, t2CLREX, t2CLZ, t2CMNri, t2CMNzrr, t2CMNzrs.\<close>

definition insns_71 :: "insn_map list" where
  "insns_71 =
    [insn_entry 2290 2 [] [] [152] False False,
     insn_entry 2291 405 [] [] [152] False False,
     insn_entry 2292 2 [] [] [152] False False,
     insn_entry 2293 2 [] [] [152] False False,
     insn_entry 2294 3 [] [] [152] False False,
     insn_entry 2295 8 [] [] [152] False False,
     insn_entry 2296 8 [] [] [152] False False,
     insn_entry 2297 8 [] [] [152] False False,
     insn_entry 2298 406 [] [] [152] False False,
     insn_entry 2299 406 [] [] [152] False False,
     insn_entry 2300 17 [] [] [152] True False,
     insn_entry 2301 9 [] [] [152] False False,
     insn_entry 2302 10 [] [] [152] False False,
     insn_entry 2303 11 [] [] [152] False False,
     insn_entry 2304 11 [] [] [152] False False,
     insn_entry 2305 11 [] [] [152] False False,
     insn_entry 2307 16 [] [] [152, 149, 153] False True,
     insn_entry 2308 17 [] [] [152] True False,
     insn_entry 2309 18 [] [] [152, 153] False False,
     insn_entry 2310 19 [] [] [152, 153] False False,
     insn_entry 2311 20 [] [] [152, 142] False False,
     insn_entry 2312 21 [] [] [152] False False,
     insn_entry 2313 22 [] [3] [152] False False,
     insn_entry 2314 22 [] [3] [152] False False,
     insn_entry 2315 22 [] [3] [152] False False]"

text \<open>Entries of t2CMPri, t2CMPrr, t2CMPrs, t2CPS1p, t2CPS2p, t2CPS3p, t2CRC32B, t2CRC32CB, t2CRC32CH, t2CRC32CW, t2CRC32H,
  t2CRC32W, t2DBG, t2DCPS1, t2DCPS2, t2DCPS3, t2DMB, t2DSB, t2EORri, t2EORrr, t2EORrs, t2HINT, t2ISB, t2IT, t2LDA.\<close>

definition insns_72 :: "insn_map list" where
  "insns_72 =
    [insn_entry 2316 23 [] [3] [152] False False,
     insn_entry 2317 23 [] [3] [152] False False,
     insn_entry 2318 23 [] [3] [152] False False,
     insn_entry 2319 24 [] [] [152] False False,
     insn_entry 2320 24 [] [] [152] False False,
     insn_entry 2321 24 [] [] [152] False False,
     insn_entry 2322 25 [] [] [152, 143, 156] False False,
     insn_entry 2323 26 [] [] [152, 143, 156] False False,
     insn_entry 2324 27 [] [] [152, 143, 156] False False,
     insn_entry 2325 28 [] [] [152, 143, 156] False False,
     insn_entry 2326 29 [] [] [152, 143, 156] False False,
     insn_entry 2327 30 [] [] [152, 143, 156] False False,
     insn_entry 2328 31 [] [] [152] False False,
     insn_entry 2329 407 [] [] [152, 143] False False,
     insn_entry 2330 408 [] [] [152, 143] False False,
     insn_entry 2331 409 [] [] [152, 143] False False,
     insn_entry 2332 32 [] [] [150, 129] False False,
     insn_entry 2333 33 [] [] [150, 129] False False,
     insn_entry 2334 34 [] [] [152] False False,
     insn_entry 2335 34 [] [] [152] False False,
     insn_entry 2336 34 [] [] [152] False False,
     insn_entry 2337 41 [] [] [152] False False,
     insn_entry 2338 43 [] [] [150, 129] False False,
     insn_entry 2339 410 [] [9] [152] False False,
     insn_entry 2342 44 [] [] [150, 143] False False]"

text \<open>Entries of t2LDAB, t2LDAEX, t2LDAEXB, t2LDAEXD, t2LDAEXH, t2LDAH, t2LDC2L_OFFSET, t2LDC2L_OPTION, t2LDC2L_POST,
  t2LDC2L_PRE, t2LDC2_OFFSET, t2LDC2_OPTION, t2LDC2_POST, t2LDC2_PRE, t2LDCL_OFFSET, t2LDCL_OPTION, t2LDCL_POST,
  t2LDCL_PRE, t2LDC_OFFSET, t2LDC_OPTION, t2LDC_POST, t2LDC_PRE, t2LDMDB, t2LDMDB_UPD, t2LDMIA.\<close>

definition insns_73 :: "insn_map list" where
  "insns_73 =
    [insn_entry 2343 45 [] [] [150, 143] False False,
     insn_entry 2344 46 [] [] [150, 143] False False,
     insn_entry 2345 47 [] [] [150, 143] False False,
     insn_entry 2346 48 [] [] [150, 143] False False,
     insn_entry 2347 49 [] [] [150, 143] False False,
     insn_entry 2348 50 [] [] [150, 143] False False,
     insn_entry 2349 51 [] [] [153, 152] False False,
     insn_entry 2350 51 [] [] [153, 152] False False,
     insn_entry 2351 51 [] [] [153, 152] False False,
     insn_entry 2352 51 [] [] [153, 152] False False,
     insn_entry 2353 52 [] [] [153, 152] False False,
     insn_entry 2354 52 [] [] [153, 152] False False,
     insn_entry 2355 52 [] [] [153, 152] False False,
     insn_entry 2356 52 [] [] [153, 152] False False,
     insn_entry 2357 53 [] [] [152] False False,
     insn_entry 2358 53 [] [] [152] False False,
     insn_entry 2359 53 [] [] [152] False False,
     insn_entry 2360 53 [] [] [152] False False,
     insn_entry 2361 54 [] [] [152] False False,
     insn_entry 2362 54 [] [] [152] False False,
     insn_entry 2363 54 [] [] [152] False False,
     insn_entry 2364 54 [] [] [152] False False,
     insn_entry 2365 56 [] [] [152] False False,
     insn_entry 2366 56 [] [] [152] False False,
     insn_entry 2367 57 [] [] [152] False False]"

text \<open>Entries of t2LDMIA_UPD, t2LDRBT, t2LDRB_POST, t2LDRB_PRE, t2LDRBi12, t2LDRBi8, t2LDRBpci, t2LDRBs, t2LDRD_POST,
  t2LDRD_PRE, t2LDRDi8, t2LDREX, t2LDREXB, t2LDREXD, t2LDREXH, t2LDRHT, t2LDRH_POST, t2LDRH_PRE, t2LDRHi12, t2LDRHi8,
  t2LDRHpci, t2LDRHs, t2LDRSBT, t2LDRSB_POST, t2LDRSB_PRE.\<close>

definition insns_74 :: "insn_map list" where
  "insns_74 =
    [insn_entry 2369 57 [] [] [152] False False,
     insn_entry 2370 59 [] [] [152] False False,
     insn_entry 2371 60 [] [] [152] False False,
     insn_entry 2372 60 [] [] [152] False False,
     insn_entry 2373 60 [] [] [152] False False,
     insn_entry 2374 60 [] [] [152] False False,
     insn_entry 2375 60 [] [] [152] False False,
     insn_entry 2377 60 [] [] [152] False False,
     insn_entry 2378 61 [] [] [152] False False,
     insn_entry 2379 61 [] [] [152] False False,
     insn_entry 2380 61 [] [] [152] False False,
     insn_entry 2381 62 [] [] [152] False False,
     insn_entry 2382 63 [] [] [152] False False,
     insn_entry 2383 64 [] [] [152, 149] False False,
     insn_entry 2384 65 [] [] [152] False False,
     insn_entry 2385 67 [] [] [152] False False,
     insn_entry 2386 66 [] [] [152] False False,
     insn_entry 2387 66 [] [] [152] False False,
     insn_entry 2388 66 [] [] [152] False False,
     insn_entry 2389 66 [] [] [152] False False,
     insn_entry 2390 66 [] [] [152] False False,
     insn_entry 2392 66 [] [] [152] False False,
     insn_entry 2393 69 [] [] [152] False False,
     insn_entry 2394 68 [] [] [152] False False,
     insn_entry 2395 68 [] [] [152] False False]"

text \<open>Entries of t2LDRSBi12, t2LDRSBi8, t2LDRSBpci, t2LDRSBs, t2LDRSHT, t2LDRSH_POST, t2LDRSH_PRE, t2LDRSHi12, t2LDRSHi8,
  t2LDRSHpci, t2LDRSHs, t2LDRT, t2LDR_POST, t2LDR_PRE, t2LDRi12, t2LDRi8, t2LDRpci, t2LDRs, t2LSLri, t2LSLrr, t2LSRri,
  t2LSRrr, t2MCR, t2MCR2, t2MCRR.\<close>

definition insns_75 :: "insn_map list" where
  "insns_75 =
    [insn_entry 2396 68 [] [] [152] False False,
     insn_entry 2397 68 [] [] [152] False False,
     insn_entry 2398 68 [] [] [152] False False,
     insn_entry 2400 68 [] [] [152] False False,
     insn_entry 2401 71 [] [] [152] False False,
     insn_entry 2402 70 [] [] [152] False False,
     insn_entry 2403 70 [] [] [152] False False,
     insn_entry 2404 70 [] [] [152] False False,
     insn_entry 2405 70 [] [] [152] False False,
     insn_entry 2406 70 [] [] [152] False False,
     insn_entry 2408 70 [] [] [152] False False,
     insn_entry 2409 72 [] [] [152] False False,
     insn_entry 2410 73 [] [] [152] False False,
     insn_entry 2411 73 [] [] [152] False False,
     insn_entry 2412 73 [] [] [152] False False,
     insn_entry 2413 73 [] [] [152] False False,
     insn_entry 2414 73 [] [] [152] False False,
     insn_entry 2417 73 [] [] [152] False False,
     insn_entry 2420 411 [] [] [152] False False,
     insn_entry 2421 411 [] [] [152] False False,
     insn_entry 2422 412 [] [] [152] False False,
     insn_entry 2423 412 [] [] [152] False False,
     insn_entry 2424 74 [] [] [152] False False,
     insn_entry 2425 75 [] [] [152, 153] False False,
     insn_entry 2426 76 [] [] [152] False False]"

text \<open>Entries of t2MCRR2, t2MLA, t2MLS, t2MOVTi16, t2MOVi, t2MOVi16, t2MOVr, t2MOVsra_flag, t2MOVsrl_flag, t2MRC, t2MRC2,
  t2MRRC, t2MRRC2, t2MRS_AR, t2MRS_M, t2MRSsys_AR, t2MSR_AR, t2MSR_M, t2MUL, t2MVNi, t2MVNr, t2MVNs, t2ORNri, t2ORNrr,
  t2ORNrs.\<close>

definition insns_76 :: "insn_map list" where
  "insns_76 =
    [insn_entry 2427 77 [] [] [152, 153] False False,
     insn_entry 2428 78 [] [] [152, 155] False False,
     insn_entry 2429 79 [] [] [152, 155] False False,
     insn_entry 2440 81 [] [] [152] False False,
     insn_entry 2443 80 [] [] [152] False False,
     insn_entry 2444 82 [] [] [152] False False,
     insn_entry 2447 80 [] [] [152] False False,
     insn_entry 2450 406 [] [3] [152] False False,
     insn_entry 2451 412 [] [3] [152] False False,
     insn_entry 2452 83 [] [] [152] False False,
     insn_entry 2453 84 [] [] [152, 153] False False,
     insn_entry 2454 85 [] [] [152] False False,
     insn_entry 2455 86 [] [] [152, 153] False False,
     insn_entry 2456 87 [] [] [152, 149] False False,
     insn_entry 2457 87 [] [] [150, 148] False False,
     insn_entry 2458 87 [] [] [152, 149] False False,
     insn_entry 2459 88 [] [] [152, 149] False False,
     insn_entry 2460 88 [] [] [150, 148] False False,
     insn_entry 2461 89 [] [] [152] False False,
     insn_entry 2463 90 [] [] [152] False False,
     insn_entry 2464 90 [] [] [152] False False,
     insn_entry 2465 90 [] [] [152] False False,
     insn_entry 2466 415 [] [] [152] False False,
     insn_entry 2467 415 [] [] [152] False False,
     insn_entry 2468 415 [] [] [152] False False]"

text \<open>Entries of t2ORRri, t2ORRrr, t2ORRrs, t2PKHBT, t2PKHTB, t2PLDWi12, t2PLDWi8, t2PLDWs, t2PLDi12, t2PLDi8, t2PLDpci,
  t2PLDs, t2PLIi12, t2PLIi8, t2PLIpci, t2PLIs, t2QADD, t2QADD16, t2QADD8, t2QASX, t2QDADD, t2QDSUB, t2QSAX, t2QSUB,
  t2QSUB16.\<close>

definition insns_77 :: "insn_map list" where
  "insns_77 =
    [insn_entry 2469 91 [] [] [152] False False,
     insn_entry 2470 91 [] [] [152] False False,
     insn_entry 2471 91 [] [] [152] False False,
     insn_entry 2472 92 [] [] [134, 152] False False,
     insn_entry 2473 93 [] [] [134, 152] False False,
     insn_entry 2474 94 [] [] [152, 142, 132] False False,
     insn_entry 2475 94 [] [] [152, 142, 132] False False,
     insn_entry 2476 94 [] [] [152, 142, 132] False False,
     insn_entry 2477 95 [] [] [152] False False,
     insn_entry 2478 95 [] [] [152] False False,
     insn_entry 2479 95 [] [] [152] False False,
     insn_entry 2480 95 [] [] [152] False False,
     insn_entry 2481 96 [] [] [152, 142] False False,
     insn_entry 2482 96 [] [] [152, 142] False False,
     insn_entry 2483 96 [] [] [152, 142] False False,
     insn_entry 2484 96 [] [] [152, 142] False False,
     insn_entry 2485 97 [] [] [152, 135] False False,
     insn_entry 2486 98 [] [] [152, 135] False False,
     insn_entry 2487 99 [] [] [152, 135] False False,
     insn_entry 2488 100 [] [] [152, 135] False False,
     insn_entry 2489 101 [] [] [152, 135] False False,
     insn_entry 2490 102 [] [] [152, 135] False False,
     insn_entry 2491 103 [] [] [152, 135] False False,
     insn_entry 2492 104 [] [] [152, 135] False False,
     insn_entry 2493 105 [] [] [152, 135] False False]"

text \<open>Entries of t2QSUB8, t2RBIT, t2REV, t2REV16, t2REVSH, t2RFEDB, t2RFEDBW, t2RFEIA, t2RFEIAW, t2RORri, t2RORrr, t2RRX,
  t2RSBri, t2RSBrr, t2RSBrs, t2SADD16, t2SADD8, t2SASX, t2SBCri, t2SBCrr, t2SBCrs, t2SBFX, t2SDIV, t2SEL, t2SHADD16.\<close>

definition insns_78 :: "insn_map list" where
  "insns_78 =
    [insn_entry 2494 106 [] [] [152, 135] False False,
     insn_entry 2495 107 [] [] [152] False False,
     insn_entry 2496 108 [] [] [152] False False,
     insn_entry 2497 109 [] [] [152] False False,
     insn_entry 2498 110 [] [] [152] False False,
     insn_entry 2499 112 [] [] [152] False False,
     insn_entry 2500 112 [] [] [152] False False,
     insn_entry 2501 113 [] [] [152] False False,
     insn_entry 2502 113 [] [] [152] False False,
     insn_entry 2503 416 [] [] [152] False False,
     insn_entry 2504 416 [] [] [152] False False,
     insn_entry 2505 417 [3] [] [152] False False,
     insn_entry 2508 115 [] [] [152] False False,
     insn_entry 2509 115 [] [] [152] False False,
     insn_entry 2510 115 [] [] [152] False False,
     insn_entry 2511 117 [] [] [152, 135] False False,
     insn_entry 2512 118 [] [] [152, 135] False False,
     insn_entry 2513 119 [] [] [152, 135] False False,
     insn_entry 2514 120 [3] [3] [152] False False,
     insn_entry 2515 120 [3] [] [152] False False,
     insn_entry 2516 120 [3] [3] [152] False False,
     insn_entry 2517 121 [] [] [152] False False,
     insn_entry 2518 122 [] [] [130, 152] False False,
     insn_entry 2519 123 [] [] [152, 135] False False,
     insn_entry 2520 135 [] [] [152, 135] False False]"

text \<open>Entries of t2SHADD8, t2SHASX, t2SHSAX, t2SHSUB16, t2SHSUB8, t2SMC, t2SMLABB, t2SMLABT, t2SMLAD, t2SMLADX, t2SMLAL,
  t2SMLALBB, t2SMLALBT, t2SMLALD, t2SMLALDX, t2SMLALTB, t2SMLALTT, t2SMLATB, t2SMLATT, t2SMLAWB, t2SMLAWT, t2SMLSD,
  t2SMLSDX, t2SMLSLD, t2SMLSLDX.\<close>

definition insns_79 :: "insn_map list" where
  "insns_79 =
    [insn_entry 2521 136 [] [] [152, 135] False False,
     insn_entry 2522 137 [] [] [152, 135] False False,
     insn_entry 2523 138 [] [] [152, 135] False False,
     insn_entry 2524 139 [] [] [152, 135] False False,
     insn_entry 2525 140 [] [] [152, 135] False False,
     insn_entry 2526 141 [] [] [152, 136] False False,
     insn_entry 2527 142 [] [] [152, 135, 155] False False,
     insn_entry 2528 143 [] [] [152, 135, 155] False False,
     insn_entry 2529 144 [] [] [152, 135] False False,
     insn_entry 2530 145 [] [] [152, 135] False False,
     insn_entry 2531 146 [] [] [152] False False,
     insn_entry 2532 147 [] [] [152, 135] False False,
     insn_entry 2533 148 [] [] [152, 135] False False,
     insn_entry 2534 149 [] [] [152, 135] False False,
     insn_entry 2535 150 [] [] [152, 135] False False,
     insn_entry 2536 151 [] [] [152, 135] False False,
     insn_entry 2537 152 [] [] [152, 135] False False,
     insn_entry 2538 153 [] [] [152, 135, 155] False False,
     insn_entry 2539 154 [] [] [152, 135, 155] False False,
     insn_entry 2540 155 [] [] [152, 135, 155] False False,
     insn_entry 2541 156 [] [] [152, 135, 155] False False,
     insn_entry 2542 157 [] [] [152, 135] False False,
     insn_entry 2543 158 [] [] [152, 135] False False,
     insn_entry 2544 159 [] [] [152, 135] False False,
     insn_entry 2545 160 [] [] [152, 135] False False]"

text \<open>Entries of t2SMMLA, t2SMMLAR, t2SMMLS, t2SMMLSR, t2SMMUL, t2SMMULR, t2SMUAD, t2SMUADX, t2SMULBB, t2SMULBT, t2SMULL,
  t2SMULTB, t2SMULTT, t2SMULWB, t2SMULWT, t2SMUSD, t2SMUSDX, t2SRSDB, t2SRSDB_UPD, t2SRSIA, t2SRSIA_UPD, t2SSAT,
  t2SSAT16, t2SSAX, t2SSUB16.\<close>

definition insns_80 :: "insn_map list" where
  "insns_80 =
    [insn_entry 2546 161 [] [] [152, 135, 155] False False,
     insn_entry 2547 162 [] [] [152, 135] False False,
     insn_entry 2548 163 [] [] [152, 135, 155] False False,
     insn_entry 2549 164 [] [] [152, 135] False False,
     insn_entry 2550 165 [] [] [152, 135] False False,
     insn_entry 2551 166 [] [] [152, 135] False False,
     insn_entry 2552 167 [] [] [152, 135] False False,
     insn_entry 2553 168 [] [] [152, 135] False False,
     insn_entry 2554 169 [] [] [152, 135] False False,
     insn_entry 2555 170 [] [] [152, 135] False False,
     insn_entry 2556 171 [] [] [152] False False,
     insn_entry 2557 172 [] [] [152, 135] False False,
     insn_entry 2558 173 [] [] [152, 135] False False,
     insn_entry 2559 174 [] [] [152, 135] False False,
     insn_entry 2560 175 [] [] [152, 135] False False,
     insn_entry 2561 176 [] [] [152, 135] False False,
     insn_entry 2562 177 [] [] [152, 135] False False,
     insn_entry 2563 179 [] [] [152] False False,
     insn_entry 2564 179 [] [] [152] False False,
     insn_entry 2565 180 [] [] [152] False False,
     insn_entry 2566 180 [] [] [152] False False,
     insn_entry 2567 182 [] [] [152] False False,
     insn_entry 2568 183 [] [] [152, 135] False False,
     insn_entry 2569 184 [] [] [152, 135] False False,
     insn_entry 2570 185 [] [] [152, 135] False False]"

text \<open>Entries of t2SSUB8, t2STC2L_OFFSET, t2STC2L_OPTION, t2STC2L_POST, t2STC2L_PRE, t2STC2_OFFSET, t2STC2_OPTION,
  t2STC2_POST, t2STC2_PRE, t2STCL_OFFSET, t2STCL_OPTION, t2STCL_POST, t2STCL_PRE, t2STC_OFFSET, t2STC_OPTION,
  t2STC_POST, t2STC_PRE, t2STL, t2STLB, t2STLEX, t2STLEXB, t2STLEXD, t2STLEXH, t2STLH, t2STMDB.\<close>

definition insns_81 :: "insn_map list" where
  "insns_81 =
    [insn_entry 2571 186 [] [] [152, 135] False False,
     insn_entry 2572 187 [] [] [153, 152] False False,
     insn_entry 2573 187 [] [] [153, 152] False False,
     insn_entry 2574 187 [] [] [153, 152] False False,
     insn_entry 2575 187 [] [] [153, 152] False False,
     insn_entry 2576 188 [] [] [153, 152] False False,
     insn_entry 2577 188 [] [] [153, 152] False False,
     insn_entry 2578 188 [] [] [153, 152] False False,
     insn_entry 2579 188 [] [] [153, 152] False False,
     insn_entry 2580 189 [] [] [152] False False,
     insn_entry 2581 189 [] [] [152] False False,
     insn_entry 2582 189 [] [] [152] False False,
     insn_entry 2583 189 [] [] [152] False False,
     insn_entry 2584 190 [] [] [152] False False,
     insn_entry 2585 190 [] [] [152] False False,
     insn_entry 2586 190 [] [] [152] False False,
     insn_entry 2587 190 [] [] [152] False False,
     insn_entry 2588 191 [] [] [150, 143] False False,
     insn_entry 2589 192 [] [] [150, 143] False False,
     insn_entry 2590 193 [] [] [150, 143] False False,
     insn_entry 2591 194 [] [] [150, 143] False False,
     insn_entry 2592 195 [] [] [150, 143] False False,
     insn_entry 2593 196 [] [] [150, 143] False False,
     insn_entry 2594 197 [] [] [150, 143] False False,
     insn_entry 2595 199 [] [] [152] False False]"

text \<open>Entries of t2STMDB_UPD, t2STMIA, t2STMIA_UPD, t2STRBT, t2STRB_POST, t2STRB_PRE, t2STRBi12, t2STRBi8, t2STRBs,
  t2STRD_POST, t2STRD_PRE, t2STRDi8, t2STREX, t2STREXB, t2STREXD, t2STREXH, t2STRHT, t2STRH_POST, t2STRH_PRE, t2STRHi12,
  t2STRHi8, t2STRHs, t2STRT, t2STR_POST, t2STR_PRE.\<close>

definition insns_82 :: "insn_map list" where
  "insns_82 =
    [insn_entry 2596 199 [] [] [152] False False,
     insn_entry 2597 200 [] [] [152] False False,
     insn_entry 2598 200 [] [] [152] False False,
     insn_entry 2599 202 [] [] [152] False False,
     insn_entry 2600 203 [] [] [152] False False,
     insn_entry 2601 203 [] [] [152] False False,
     insn_entry 2603 203 [] [] [152] False False,
     insn_entry 2604 203 [] [] [152] False False,
     insn_entry 2605 203 [] [] [152] False False,
     insn_entry 2606 204 [] [] [152] False False,
     insn_entry 2607 204 [] [] [152] False False,
     insn_entry 2608 204 [] [] [152] False False,
     insn_entry 2609 205 [] [] [152] False False,
     insn_entry 2610 206 [] [] [152] False False,
     insn_entry 2611 207 [] [] [152, 149] False False,
     insn_entry 2612 208 [] [] [152] False False,
     insn_entry 2613 210 [] [] [152] False False,
     insn_entry 2614 209 [] [] [152] False False,
     insn_entry 2615 209 [] [] [152] False False,
     insn_entry 2617 209 [] [] [152] False False,
     insn_entry 2618 209 [] [] [152] False False,
     insn_entry 2619 209 [] [] [152] False False,
     insn_entry 2620 211 [] [] [152] False False,
     insn_entry 2621 212 [] [] [152] False False,
     insn_entry 2622 212 [] [] [152] False False]"

text \<open>Entries of t2STRi12, t2STRi8, t2STRs, t2SUBS_PC_LR, t2SUBri, t2SUBri12, t2SUBrr, t2SUBrs, t2SXTAB, t2SXTAB16, t2SXTAH,
  t2SXTB, t2SXTB16, t2SXTH, t2TBB, t2TBH, t2TEQri, t2TEQrr, t2TEQrs, t2TSTri, t2TSTrr, t2TSTrs, t2UADD16, t2UADD8,
  t2UASX.\<close>

definition insns_83 :: "insn_map list" where
  "insns_83 =
    [insn_entry 2624 212 [] [] [152] False False,
     insn_entry 2625 212 [] [] [152] False False,
     insn_entry 2626 212 [] [] [152] False False,
     insn_entry 2627 213 [] [11] [152] False False,
     insn_entry 2631 213 [] [] [152] False False,
     insn_entry 2632 419 [] [] [152] False False,
     insn_entry 2633 213 [] [] [152] False False,
     insn_entry 2634 213 [] [] [152] False False,
     insn_entry 2635 217 [] [] [134, 152] False False,
     insn_entry 2636 218 [] [] [152] False False,
     insn_entry 2637 219 [] [] [134, 152] False False,
     insn_entry 2638 220 [] [] [152] False False,
     insn_entry 2639 221 [] [] [152, 134] False False,
     insn_entry 2640 222 [] [] [152] False False,
     insn_entry 2641 420 [] [] [152] False True,
     insn_entry 2643 421 [] [] [152] False True,
     insn_entry 2645 223 [] [3] [152] False False,
     insn_entry 2646 223 [] [3] [152] False False,
     insn_entry 2647 223 [] [3] [152] False False,
     insn_entry 2648 225 [] [3] [152] False False,
     insn_entry 2649 225 [] [3] [152] False False,
     insn_entry 2650 225 [] [3] [152] False False,
     insn_entry 2651 226 [] [] [152, 135] False False,
     insn_entry 2652 227 [] [] [152, 135] False False,
     insn_entry 2653 228 [] [] [152, 135] False False]"

text \<open>Entries of t2UBFX, t2UDF, t2UDIV, t2UHADD16, t2UHADD8, t2UHASX, t2UHSAX, t2UHSUB16, t2UHSUB8, t2UMAAL, t2UMLAL,
  t2UMULL, t2UQADD16, t2UQADD8, t2UQASX, t2UQSAX, t2UQSUB16, t2UQSUB8, t2USAD8, t2USADA8, t2USAT, t2USAT16, t2USAX,
  t2USUB16, t2USUB8.\<close>

definition insns_84 :: "insn_map list" where
  "insns_84 =
    [insn_entry 2654 229 [] [] [152] False False,
     insn_entry 2655 230 [] [] [152] False False,
     insn_entry 2656 231 [] [] [130, 152] False False,
     insn_entry 2657 232 [] [] [152, 135] False False,
     insn_entry 2658 233 [] [] [152, 135] False False,
     insn_entry 2659 234 [] [] [152, 135] False False,
     insn_entry 2660 235 [] [] [152, 135] False False,
     insn_entry 2661 236 [] [] [152, 135] False False,
     insn_entry 2662 237 [] [] [152, 135] False False,
     insn_entry 2663 238 [] [] [152, 135] False False,
     insn_entry 2664 239 [] [] [152] False False,
     insn_entry 2665 240 [] [] [152] False False,
     insn_entry 2666 241 [] [] [152, 135] False False,
     insn_entry 2667 242 [] [] [152, 135] False False,
     insn_entry 2668 243 [] [] [152, 135] False False,
     insn_entry 2669 244 [] [] [152, 135] False False,
     insn_entry 2670 245 [] [] [152, 135] False False,
     insn_entry 2671 246 [] [] [152, 135] False False,
     insn_entry 2672 247 [] [] [152, 135] False False,
     insn_entry 2673 248 [] [] [152, 135] False False,
     insn_entry 2674 249 [] [] [152] False False,
     insn_entry 2675 250 [] [] [152, 135] False False,
     insn_entry 2676 251 [] [] [152, 135] False False,
     insn_entry 2677 252 [] [] [152, 135] False False,
     insn_entry 2678 253 [] [] [152, 135] False False]"

text \<open>Entries of t2UXTAB, t2UXTAB16, t2UXTAH, t2UXTB, t2UXTB16, t2UXTH, tADC, tADDhirr, tADDi3, tADDi8, tADDrSP, tADDrSPi,
  tADDrr, tADDspi, tADDspr, tADR, tAND, tASRri, tASRrr, tB, tBIC, tBKPT, tBL, tBLXi, tBLXr.\<close>

definition insns_85 :: "insn_map list" where
  "insns_85 =
    [insn_entry 2679 254 [] [] [134, 152] False False,
     insn_entry 2680 255 [] [] [152] False False,
     insn_entry 2681 256 [] [] [134, 152] False False,
     insn_entry 2682 257 [] [] [152] False False,
     insn_entry 2683 258 [] [] [134, 152] False False,
     insn_entry 2684 259 [] [] [152] False False,
     insn_entry 2685 1 [3] [] [150, 151] False False,
     insn_entry 2686 2 [] [] [150, 151] False False,
     insn_entry 2687 2 [] [] [150, 151] False False,
     insn_entry 2688 2 [] [] [150, 151] False False,
     insn_entry 2689 2 [] [] [150, 151] False False,
     insn_entry 2690 2 [] [] [150, 151] False False,
     insn_entry 2691 2 [] [] [150, 151] False False,
     insn_entry 2692 2 [] [] [150, 151] False False,
     insn_entry 2693 2 [] [] [150, 151] False False,
     insn_entry 2696 3 [] [] [150, 151] False False,
     insn_entry 2697 8 [] [] [150, 151] False False,
     insn_entry 2698 406 [] [] [150, 151] False False,
     insn_entry 2699 406 [] [] [150, 151] False False,
     insn_entry 2700 17 [] [] [150, 151] True False,
     insn_entry 2701 11 [] [] [150, 151] False False,
     insn_entry 2702 12 [] [] [150, 151] False False,
     insn_entry 2703 13 [11] [10] [150] True False,
     insn_entry 2704 14 [11] [10] [150, 138, 149] True False,
     insn_entry 2705 14 [11] [10] [150, 138] False True]"

text \<open>Entries of tBX, tBcc, tCBNZ, tCBZ, tCMNz, tCMPhir, tCMPi8, tCMPr, tCPS, tEOR, tHINT, tHLT, tLDMIA, tLDRBi, tLDRBr,
  tLDRHi, tLDRHr, tLDRSB, tLDRSH, tLDRi, tLDRpci, tLDRr, tLDRspi, tLSLri, tLSLrr.\<close>

definition insns_86 :: "insn_map list" where
  "insns_86 =
    [insn_entry 2708 15 [] [] [150] False True,
     insn_entry 2712 17 [] [] [150, 151] True False,
     insn_entry 2714 422 [] [] [152] True False,
     insn_entry 2715 423 [] [] [152] True False,
     insn_entry 2716 22 [] [3] [150, 151] False False,
     insn_entry 2717 23 [] [3] [150, 151] False False,
     insn_entry 2718 23 [] [3] [150, 151] False False,
     insn_entry 2719 23 [] [3] [150, 151] False False,
     insn_entry 2720 24 [] [] [150, 151] False False,
     insn_entry 2721 34 [] [] [150, 151] False False,
     insn_entry 2722 41 [] [] [150, 158] False False,
     insn_entry 2723 42 [] [] [150, 143] False False,
     insn_entry 2726 57 [] [] [150, 151] False False,
     insn_entry 2728 60 [] [] [150, 151] False False,
     insn_entry 2729 60 [] [] [150, 151] False False,
     insn_entry 2730 66 [] [] [150, 151] False False,
     insn_entry 2731 66 [] [] [150, 151] False False,
     insn_entry 2734 68 [] [] [150, 151] False False,
     insn_entry 2735 70 [] [] [150, 151] False False,
     insn_entry 2736 73 [] [] [150, 151] False False,
     insn_entry 2737 73 [] [] [150, 151] False False,
     insn_entry 2739 73 [] [] [150, 151] False False,
     insn_entry 2740 73 [] [] [150, 151] False False,
     insn_entry 2743 411 [] [] [150, 151] False False,
     insn_entry 2744 411 [] [] [150, 151] False False]"

text \<open>Entries of tLSRri, tLSRrr, tMOVSr, tMOVi8, tMOVr, tMUL, tMVN, tORR, tPOP, tPUSH, tREV, tREV16, tREVSH, tROR, tRSB,
  tSBC, tSETEND, tSTMIA_UPD, tSTRBi, tSTRBr, tSTRHi, tSTRHr, tSTRi, tSTRr, tSTRspi.\<close>

definition insns_87 :: "insn_map list" where
  "insns_87 =
    [insn_entry 2745 412 [] [] [150, 151] False False,
     insn_entry 2746 412 [] [] [150, 151] False False,
     insn_entry 2748 80 [] [3] [150, 151] False False,
     insn_entry 2749 80 [] [] [150, 151] False False,
     insn_entry 2750 80 [] [] [150, 151] False False,
     insn_entry 2751 89 [] [] [150, 151] False False,
     insn_entry 2752 90 [] [] [150, 151] False False,
     insn_entry 2753 91 [] [] [150, 151] False False,
     insn_entry 2755 425 [12] [12] [150, 151] False False,
     insn_entry 2757 426 [12] [12] [150, 151] False False,
     insn_entry 2758 108 [] [] [150, 151, 140] False False,
     insn_entry 2759 109 [] [] [150, 151, 140] False False,
     insn_entry 2760 110 [] [] [150, 151, 140] False False,
     insn_entry 2761 416 [] [] [150, 151] False False,
     insn_entry 2762 115 [] [] [150, 151] False False,
     insn_entry 2763 120 [3] [] [150, 151] False False,
     insn_entry 2764 124 [] [] [150, 140, 149] False False,
     insn_entry 2765 200 [] [] [150, 151] False False,
     insn_entry 2766 203 [] [] [150, 151] False False,
     insn_entry 2767 203 [] [] [150, 151] False False,
     insn_entry 2768 209 [] [] [150, 151] False False,
     insn_entry 2769 209 [] [] [150, 151] False False,
     insn_entry 2770 212 [] [] [150, 151] False False,
     insn_entry 2771 212 [] [] [150, 151] False False,
     insn_entry 2772 212 [] [] [150, 151] False False]"

text \<open>Entries of tSUBi3, tSUBi8, tSUBrr, tSUBspi, tSVC, tSXTB, tSXTH, tTRAP, tTST, tUDF, tUXTB, tUXTH.\<close>

definition insns_88 :: "insn_map list" where
  "insns_88 =
    [insn_entry 2773 213 [] [] [150, 151] False False,
     insn_entry 2774 213 [] [] [150, 151] False False,
     insn_entry 2775 213 [] [] [150, 151] False False,
     insn_entry 2776 213 [] [] [150, 151] False False,
     insn_entry 2777 214 [12] [] [150, 151] False False,
     insn_entry 2778 220 [] [] [150, 151, 140] False False,
     insn_entry 2779 222 [] [] [150, 151, 140] False False,
     insn_entry 2784 224 [] [] [150] False False,
     insn_entry 2785 225 [] [3] [150, 151] False False,
     insn_entry 2786 230 [] [] [150] False False,
     insn_entry 2787 257 [] [] [150, 151, 140] False False,
     insn_entry 2788 259 [] [] [150, 151, 140] False False]"

definition insns :: "insn_map list" where
  "insns =
     concat
       [insns_0, insns_1, insns_2, insns_3, insns_4, insns_5, insns_6, insns_7, insns_8, insns_9,
        insns_10, insns_11, insns_12, insns_13, insns_14, insns_15, insns_16, insns_17, insns_18, insns_19,
        insns_20, insns_21, insns_22, insns_23, insns_24, insns_25, insns_26, insns_27, insns_28, insns_29,
        insns_30, insns_31, insns_32, insns_33, insns_34, insns_35, insns_36, insns_37, insns_38, insns_39,
        insns_40, insns_41, insns_42, insns_43, insns_44, insns_45, insns_46, insns_47, insns_48, insns_49,
        insns_50, insns_51, insns_52, insns_53, insns_54, insns_55, insns_56, insns_57, insns_58, insns_59,
        insns_60, insns_61, insns_62, insns_63, insns_64, insns_65, insns_66, insns_67, insns_68, insns_69,
        insns_70, insns_71, insns_72, insns_73, insns_74, insns_75, insns_76, insns_77, insns_78, insns_79,
        insns_80, insns_81, insns_82, insns_83, insns_84, insns_85, insns_86, insns_87, insns_88]"

subsection \<open>Names\<close>

definition name_entry :: "nat \<Rightarrow> string option \<Rightarrow> name_map" where
  "name_entry i s = \<lparr>name_id = i, name_of = s\<rparr>"

definition insn_name_maps_0 :: "name_map list" where
  "insn_name_maps_0 =
    [name_entry 0 (None), name_entry 1 (Some ''adc''), name_entry 2 (Some ''add''), name_entry 3 (Some ''adr''),
     name_entry 4 (Some ''aesd''), name_entry 5 (Some ''aese''), name_entry 6 (Some ''aesimc''), name_entry 7 (Some ''aesmc''),
     name_entry 8 (Some ''and''), name_entry 9 (Some ''bfc''), name_entry 10 (Some ''bfi''), name_entry 11 (Some ''bic''),
     name_entry 12 (Some ''bkpt''), name_entry 13 (Some ''bl''), name_entry 14 (Some ''blx''), name_entry 15 (Some ''bx''),
     name_entry 16 (Some ''bxj''), name_entry 17 (Some ''b''), name_entry 18 (Some ''cdp''), name_entry 19 (Some ''cdp2''),
     name_entry 20 (Some ''clrex''), name_entry 21 (Some ''clz''), name_entry 22 (Some ''cmn''), name_entry 23 (Some ''cmp''),
     name_entry 24 (Some ''cps''), name_entry 25 (Some ''crc32b''), name_entry 26 (Some ''crc32cb''), name_entry 27 (Some ''crc32ch''),
     name_entry 28 (Some ''crc32cw''), name_entry 29 (Some ''crc32h''), name_entry 30 (Some ''crc32w''), name_entry 31 (Some ''dbg''),
     name_entry 32 (Some ''dmb''), name_entry 33 (Some ''dsb''), name_entry 34 (Some ''eor''), name_entry 35 (Some ''vmov''),
     name_entry 36 (Some ''fldmdbx''), name_entry 37 (Some ''fldmiax''), name_entry 38 (Some ''vmrs''), name_entry 39 (Some ''fstmdbx''),
     name_entry 40 (Some ''fstmiax''), name_entry 41 (Some ''hint''), name_entry 42 (Some ''hlt''), name_entry 43 (Some ''isb''),
     name_entry 44 (Some ''lda''), name_entry 45 (Some ''ldab''), name_entry 46 (Some ''ldaex''), name_entry 47 (Some ''ldaexb''),
     name_entry 48 (Some ''ldaexd''), name_entry 49 (Some ''ldaexh''), name_entry 50 (Some ''ldah''), name_entry 51 (Some ''ldc2l''),
     name_entry 52 (Some ''ldc2''), name_entry 53 (Some ''ldcl''), name_entry 54 (Some ''ldc''), name_entry 55 (Some ''ldmda''),
     name_entry 56 (Some ''ldmdb''), name_entry 57 (Some ''ldm''), name_entry 58 (Some ''ldmib''), name_entry 59 (Some ''ldrbt''),
     name_entry 60 (Some ''ldrb''), name_entry 61 (Some ''ldrd''), name_entry 62 (Some ''ldrex''), name_entry 63 (Some ''ldrexb''),
     name_entry 64 (Some ''ldrexd''), name_entry 65 (Some ''ldrexh''), name_entry 66 (Some ''ldrh''), name_entry 67 (Some ''ldrht''),
     name_entry 68 (Some ''ldrsb''), name_entry 69 (Some ''ldrsbt''), name_entry 70 (Some ''ldrsh''), name_entry 71 (Some ''ldrsht''),
     name_entry 72 (Some ''ldrt''), name_entry 73 (Some ''ldr''), name_entry 74 (Some ''mcr''), name_entry 75 (Some ''mcr2''),
     name_entry 76 (Some ''mcrr''), name_entry 77 (Some ''mcrr2''), name_entry 78 (Some ''mla''), name_entry 79 (Some ''mls''),
     name_entry 80 (Some ''mov''), name_entry 81 (Some ''movt''), name_entry 82 (Some ''movw''), name_entry 83 (Some ''mrc''),
     name_entry 84 (Some ''mrc2''), name_entry 85 (Some ''mrrc''), name_entry 86 (Some ''mrrc2''), name_entry 87 (Some ''mrs''),
     name_entry 88 (Some ''msr''), name_entry 89 (Some ''mul''), name_entry 90 (Some ''mvn''), name_entry 91 (Some ''orr''),
     name_entry 92 (Some ''pkhbt''), name_entry 93 (Some ''pkhtb''), name_entry 94 (Some ''pldw''), name_entry 95 (Some ''pld''),
     name_entry 96 (Some ''pli''), name_entry 97 (Some ''qadd''), name_entry 98 (Some ''qadd16''), name_entry 99 (Some ''qadd8''),
     name_entry 100 (Some ''qasx''), name_entry 101 (Some ''qdadd''), name_entry 102 (Some ''qdsub''), name_entry 103 (Some ''qsax''),
     name_entry 104 (Some ''qsub''), name_entry 105 (Some ''qsub16''), name_entry 106 (Some ''qsub8''), name_entry 107 (Some ''rbit''),
     name_entry 108 (Some ''rev''), name_entry 109 (Some ''rev16''), name_entry 110 (Some ''revsh''), name_entry 111 (Some ''rfeda''),
     name_entry 112 (Some ''rfedb''), name_entry 113 (Some ''rfeia''), name_entry 114 (Some ''rfeib''), name_entry 115 (Some ''rsb''),
     name_entry 116 (Some ''rsc''), name_entry 117 (Some ''sadd16''), name_entry 118 (Some ''sadd8''), name_entry 119 (Some ''sasx''),
     name_entry 120 (Some ''sbc''), name_entry 121 (Some ''sbfx''), name_entry 122 (Some ''sdiv''), name_entry 123 (Some ''sel''),
     name_entry 124 (Some ''setend''), name_entry 125 (Some ''sha1c''), name_entry 126 (Some ''sha1h''), name_entry 127 (Some ''sha1m''),
     name_entry 128 (Some ''sha1p''), name_entry 129 (Some ''sha1su0''), name_entry 130 (Some ''sha1su1''), name_entry 131 (Some ''sha256h''),
     name_entry 132 (Some ''sha256h2''), name_entry 133 (Some ''sha256su0''), name_entry 134 (Some ''sha256su1''), name_entry 135 (Some ''shadd16''),
     name_entry 136 (Some ''shadd8''), name_entry 137 (Some ''shasx''), name_entry 138 (Some ''shsax''), name_entry 139 (Some ''shsub16''),
     name_entry 140 (Some ''shsub8''), name_entry 141 (Some ''smc''), name_entry 142 (Some ''smlabb''), name_entry 143 (Some ''smlabt''),
     name_entry 144 (Some ''smlad''), name_entry 145 (Some ''smladx''), name_entry 146 (Some ''smlal''), name_entry 147 (Some ''smlalbb''),
     name_entry 148 (Some ''smlalbt''), name_entry 149 (Some ''smlald'')]"

definition insn_name_maps_1 :: "name_map list" where
  "insn_name_maps_1 =
    [name_entry 150 (Some ''smlaldx''), name_entry 151 (Some ''smlaltb''), name_entry 152 (Some ''smlaltt''), name_entry 153 (Some ''smlatb''),
     name_entry 154 (Some ''smlatt''), name_entry 155 (Some ''smlawb''), name_entry 156 (Some ''smlawt''), name_entry 157 (Some ''smlsd''),
     name_entry 158 (Some ''smlsdx''), name_entry 159 (Some ''smlsld''), name_entry 160 (Some ''smlsldx''), name_entry 161 (Some ''smmla''),
     name_entry 162 (Some ''smmlar''), name_entry 163 (Some ''smmls''), name_entry 164 (Some ''smmlsr''), name_entry 165 (Some ''smmul''),
     name_entry 166 (Some ''smmulr''), name_entry 167 (Some ''smuad''), name_entry 168 (Some ''smuadx''), name_entry 169 (Some ''smulbb''),
     name_entry 170 (Some ''smulbt''), name_entry 171 (Some ''smull''), name_entry 172 (Some ''smultb''), name_entry 173 (Some ''smultt''),
     name_entry 174 (Some ''smulwb''), name_entry 175 (Some ''smulwt''), name_entry 176 (Some ''smusd''), name_entry 177 (Some ''smusdx''),
     name_entry 178 (Some ''srsda''), name_entry 179 (Some ''srsdb''), name_entry 180 (Some ''srsia''), name_entry 181 (Some ''srsib''),
     name_entry 182 (Some ''ssat''), name_entry 183 (Some ''ssat16''), name_entry 184 (Some ''ssax''), name_entry 185 (Some ''ssub16''),
     name_entry 186 (Some ''ssub8''), name_entry 187 (Some ''stc2l''), name_entry 188 (Some ''stc2''), name_entry 189 (Some ''stcl''),
     name_entry 190 (Some ''stc''), name_entry 191 (Some ''stl''), name_entry 192 (Some ''stlb''), name_entry 193 (Some ''stlex''),
     name_entry 194 (Some ''stlexb''), name_entry 195 (Some ''stlexd''), name_entry 196 (Some ''stlexh''), name_entry 197 (Some ''stlh''),
     name_entry 198 (Some ''stmda''), name_entry 199 (Some ''stmdb''), name_entry 200 (Some ''stm''), name_entry 201 (Some ''stmib''),
     name_entry 202 (Some ''strbt''), name_entry 203 (Some ''strb''), name_entry 204 (Some ''strd''), name_entry 205 (Some ''strex''),
     name_entry 206 (Some ''strexb''), name_entry 207 (Some ''strexd''), name_entry 208 (Some ''strexh''), name_entry 209 (Some ''strh''),
     name_entry 210 (Some ''strht''), name_entry 211 (Some ''strt''), name_entry 212 (Some ''str''), name_entry 213 (Some ''sub''),
     name_entry 214 (Some ''svc''), name_entry 215 (Some ''swp''), name_entry 216 (Some ''swpb''), name_entry 217 (Some ''sxtab''),
     name_entry 218 (Some ''sxtab16''), name_entry 219 (Some ''sxtah''), name_entry 220 (Some ''sxtb''), name_entry 221 (Some ''sxtb16''),
     name_entry 222 (Some ''sxth''), name_entry 223 (Some ''teq''), name_entry 224 (Some ''trap''), name_entry 225 (Some ''tst''),
     name_entry 226 (Some ''uadd16''), name_entry 227 (Some ''uadd8''), name_entry 228 (Some ''uasx''), name_entry 229 (Some ''ubfx''),
     name_entry 230 (Some ''udf''), name_entry 231 (Some ''udiv''), name_entry 232 (Some ''uhadd16''), name_entry 233 (Some ''uhadd8''),
     name_entry 234 (Some ''uhasx''), name_entry 235 (Some ''uhsax''), name_entry 236 (Some ''uhsub16''), name_entry 237 (Some ''uhsub8''),
     name_entry 238 (Some ''umaal''), name_entry 239 (Some ''umlal''), name_entry 240 (Some ''umull''), name_entry 241 (Some ''uqadd16''),
     name_entry 242 (Some ''uqadd8''), name_entry 243 (Some ''uqasx''), name_entry 244 (Some ''uqsax''), name_entry 245 (Some ''uqsub16''),
     name_entry 246 (Some ''uqsub8''), name_entry 247 (Some ''usad8''), name_entry 248 (Some ''usada8''), name_entry 249 (Some ''usat''),
     name_entry 250 (Some ''usat16''), name_entry 251 (Some ''usax''), name_entry 252 (Some ''usub16''), name_entry 253 (Some ''usub8''),
     name_entry 254 (Some ''uxtab''), name_entry 255 (Some ''uxtab16''), name_entry 256 (Some ''uxtah''), name_entry 257 (Some ''uxtb''),
     name_entry 258 (Some ''uxtb16''), name_entry 259 (Some ''uxth''), name_entry 260 (Some ''vabal''), name_entry 261 (Some ''vaba''),
     name_entry 262 (Some ''vabdl''), name_entry 263 (Some ''vabd''), name_entry 264 (Some ''vabs''), name_entry 265 (Some ''vacge''),
     name_entry 266 (Some ''vacgt''), name_entry 267 (Some ''vadd''), name_entry 268 (Some ''vaddhn''), name_entry 269 (Some ''vaddl''),
     name_entry 270 (Some ''vaddw''), name_entry 271 (Some ''vand''), name_entry 272 (Some ''vbic''), name_entry 273 (Some ''vbif''),
     name_entry 274 (Some ''vbit''), name_entry 275 (Some ''vbsl''), name_entry 276 (Some ''vceq''), name_entry 277 (Some ''vcge''),
     name_entry 278 (Some ''vcgt''), name_entry 279 (Some ''vcle''), name_entry 280 (Some ''vcls''), name_entry 281 (Some ''vclt''),
     name_entry 282 (Some ''vclz''), name_entry 283 (Some ''vcmp''), name_entry 284 (Some ''vcmpe''), name_entry 285 (Some ''vcnt''),
     name_entry 286 (Some ''vcvta''), name_entry 287 (Some ''vcvtb''), name_entry 288 (Some ''vcvt''), name_entry 289 (Some ''vcvtm''),
     name_entry 290 (Some ''vcvtn''), name_entry 291 (Some ''vcvtp''), name_entry 292 (Some ''vcvtt''), name_entry 293 (Some ''vdiv''),
     name_entry 294 (Some ''vdup''), name_entry 295 (Some ''veor''), name_entry 296 (Some ''vext''), name_entry 297 (Some ''vfma''),
     name_entry 298 (Some ''vfms''), name_entry 299 (Some ''vfnma'')]"

definition insn_name_maps_2 :: "name_map list" where
  "insn_name_maps_2 =
    [name_entry 300 (Some ''vfnms''), name_entry 301 (Some ''vhadd''), name_entry 302 (Some ''vhsub''), name_entry 303 (Some ''vld1''),
     name_entry 304 (Some ''vld2''), name_entry 305 (Some ''vld3''), name_entry 306 (Some ''vld4''), name_entry 307 (Some ''vldmdb''),
     name_entry 308 (Some ''vldmia''), name_entry 309 (Some ''vldr''), name_entry 310 (Some ''vmaxnm''), name_entry 311 (Some ''vmax''),
     name_entry 312 (Some ''vminnm''), name_entry 313 (Some ''vmin''), name_entry 314 (Some ''vmla''), name_entry 315 (Some ''vmlal''),
     name_entry 316 (Some ''vmls''), name_entry 317 (Some ''vmlsl''), name_entry 318 (Some ''vmovl''), name_entry 319 (Some ''vmovn''),
     name_entry 320 (Some ''vmsr''), name_entry 321 (Some ''vmul''), name_entry 322 (Some ''vmull''), name_entry 323 (Some ''vmvn''),
     name_entry 324 (Some ''vneg''), name_entry 325 (Some ''vnmla''), name_entry 326 (Some ''vnmls''), name_entry 327 (Some ''vnmul''),
     name_entry 328 (Some ''vorn''), name_entry 329 (Some ''vorr''), name_entry 330 (Some ''vpadal''), name_entry 331 (Some ''vpaddl''),
     name_entry 332 (Some ''vpadd''), name_entry 333 (Some ''vpmax''), name_entry 334 (Some ''vpmin''), name_entry 335 (Some ''vqabs''),
     name_entry 336 (Some ''vqadd''), name_entry 337 (Some ''vqdmlal''), name_entry 338 (Some ''vqdmlsl''), name_entry 339 (Some ''vqdmulh''),
     name_entry 340 (Some ''vqdmull''), name_entry 341 (Some ''vqmovun''), name_entry 342 (Some ''vqmovn''), name_entry 343 (Some ''vqneg''),
     name_entry 344 (Some ''vqrdmulh''), name_entry 345 (Some ''vqrshl''), name_entry 346 (Some ''vqrshrn''), name_entry 347 (Some ''vqrshrun''),
     name_entry 348 (Some ''vqshl''), name_entry 349 (Some ''vqshlu''), name_entry 350 (Some ''vqshrn''), name_entry 351 (Some ''vqshrun''),
     name_entry 352 (Some ''vqsub''), name_entry 353 (Some ''vraddhn''), name_entry 354 (Some ''vrecpe''), name_entry 355 (Some ''vrecps''),
     name_entry 356 (Some ''vrev16''), name_entry 357 (Some ''vrev32''), name_entry 358 (Some ''vrev64''), name_entry 359 (Some ''vrhadd''),
     name_entry 360 (Some ''vrinta''), name_entry 361 (Some ''vrintm''), name_entry 362 (Some ''vrintn''), name_entry 363 (Some ''vrintp''),
     name_entry 364 (Some ''vrintr''), name_entry 365 (Some ''vrintx''), name_entry 366 (Some ''vrintz''), name_entry 367 (Some ''vrshl''),
     name_entry 368 (Some ''vrshrn''), name_entry 369 (Some ''vrshr''), name_entry 370 (Some ''vrsqrte''), name_entry 371 (Some ''vrsqrts''),
     name_entry 372 (Some ''vrsra''), name_entry 373 (Some ''vrsubhn''), name_entry 374 (Some ''vseleq''), name_entry 375 (Some ''vselge''),
     name_entry 376 (Some ''vselgt''), name_entry 377 (Some ''vselvs''), name_entry 378 (Some ''vshll''), name_entry 379 (Some ''vshl''),
     name_entry 380 (Some ''vshrn''), name_entry 381 (Some ''vshr''), name_entry 382 (Some ''vsli''), name_entry 383 (Some ''vsqrt''),
     name_entry 384 (Some ''vsra''), name_entry 385 (Some ''vsri''), name_entry 386 (Some ''vst1''), name_entry 387 (Some ''vst2''),
     name_entry 388 (Some ''vst3''), name_entry 389 (Some ''vst4''), name_entry 390 (Some ''vstmdb''), name_entry 391 (Some ''vstmia''),
     name_entry 392 (Some ''vstr''), name_entry 393 (Some ''vsub''), name_entry 394 (Some ''vsubhn''), name_entry 395 (Some ''vsubl''),
     name_entry 396 (Some ''vsubw''), name_entry 397 (Some ''vswp''), name_entry 398 (Some ''vtbl''), name_entry 399 (Some ''vtbx''),
     name_entry 400 (Some ''vcvtr''), name_entry 401 (Some ''vtrn''), name_entry 402 (Some ''vtst''), name_entry 403 (Some ''vuzp''),
     name_entry 404 (Some ''vzip''), name_entry 405 (Some ''addw''), name_entry 406 (Some ''asr''), name_entry 407 (Some ''dcps1''),
     name_entry 408 (Some ''dcps2''), name_entry 409 (Some ''dcps3''), name_entry 410 (Some ''it''), name_entry 411 (Some ''lsl''),
     name_entry 412 (Some ''lsr''), name_entry 413 (Some ''asrs''), name_entry 414 (Some ''lsrs''), name_entry 415 (Some ''orn''),
     name_entry 416 (Some ''ror''), name_entry 417 (Some ''rrx''), name_entry 418 (Some ''subs''), name_entry 419 (Some ''subw''),
     name_entry 420 (Some ''tbb''), name_entry 421 (Some ''tbh''), name_entry 422 (Some ''cbnz''), name_entry 423 (Some ''cbz''),
     name_entry 424 (Some ''movs''), name_entry 425 (Some ''pop''), name_entry 426 (Some ''push''), name_entry 427 (Some ''nop''),
     name_entry 428 (Some ''yield''), name_entry 429 (Some ''wfe''), name_entry 430 (Some ''wfi''), name_entry 431 (Some ''sev''),
     name_entry 432 (Some ''sevl''), name_entry 433 (Some ''vpush''), name_entry 434 (Some ''vpop'')]"

definition insn_name_maps :: "name_map list" where
  "insn_name_maps = insn_name_maps_0 @ insn_name_maps_1 @ insn_name_maps_2"

definition group_name_maps :: "name_map list" where
  "group_name_maps =
    [name_entry 0 (None), name_entry 1 (Some ''jump''), name_entry 128 (Some ''crypto''), name_entry 129 (Some ''databarrier''),
     name_entry 130 (Some ''divide''), name_entry 131 (Some ''fparmv8''), name_entry 132 (Some ''multpro''), name_entry 133 (Some ''neon''),
     name_entry 134 (Some ''T2EXTRACTPACK''), name_entry 135 (Some ''THUMB2DSP''), name_entry 136 (Some ''TRUSTZONE''), name_entry 137 (Some ''v4t''),
     name_entry 138 (Some ''v5t''), name_entry 139 (Some ''v5te''), name_entry 140 (Some ''v6''), name_entry 141 (Some ''v6t2''),
     name_entry 142 (Some ''v7''), name_entry 143 (Some ''v8''), name_entry 144 (Some ''vfp2''), name_entry 145 (Some ''vfp3''),
     name_entry 146 (Some ''vfp4''), name_entry 147 (Some ''arm''), name_entry 148 (Some ''mclass''), name_entry 149 (Some ''notmclass''),
     name_entry 150 (Some ''thumb''), name_entry 151 (Some ''thumb1only''), name_entry 152 (Some ''thumb2''), name_entry 153 (Some ''prev8''),
     name_entry 154 (Some ''fpvmlx''), name_entry 155 (Some ''mulops''), name_entry 156 (Some ''crc''), name_entry 157 (Some ''dpvfp''),
     name_entry 158 (Some ''v6m'')]"

definition reg_name_maps :: "name_map list" where
  "reg_name_maps =
    [name_entry 0 (None), name_entry 1 (Some ''apsr''), name_entry 2 (Some ''apsr_nzcv''), name_entry 3 (Some ''cpsr''),
     name_entry 4 (Some ''fpexc''), name_entry 5 (Some ''fpinst''), name_entry 6 (Some ''fpscr''), name_entry 7 (Some ''fpscr_nzcv''),
     name_entry 8 (Some ''fpsid''), name_entry 9 (Some ''itstate''), name_entry 10 (Some ''lr''), name_entry 11 (Some ''pc''),
     name_entry 12 (Some ''sp''), name_entry 13 (Some ''spsr''), name_entry 14 (Some ''d0''), name_entry 15 (Some ''d1''),
     name_entry 16 (Some ''d2''), name_entry 17 (Some ''d3''), name_entry 18 (Some ''d4''), name_entry 19 (Some ''d5''),
     name_entry 20 (Some ''d6''), name_entry 21 (Some ''d7''), name_entry 22 (Some ''d8''), name_entry 23 (Some ''d9''),
     name_entry 24 (Some ''d10''), name_entry 25 (Some ''d11''), name_entry 26 (Some ''d12''), name_entry 27 (Some ''d13''),
     name_entry 28 (Some ''d14''), name_entry 29 (Some ''d15''), name_entry 30 (Some ''d16''), name_entry 31 (Some ''d17''),
     name_entry 32 (Some ''d18''), name_entry 33 (Some ''d19''), name_entry 34 (Some ''d20''), name_entry 35 (Some ''d21''),
     name_entry 36 (Some ''d22''), name_entry 37 (Some ''d23''), name_entry 38 (Some ''d24''), name_entry 39 (Some ''d25''),
     name_entry 40 (Some ''d26''), name_entry 41 (Some ''d27''), name_entry 42 (Some ''d28''), name_entry 43 (Some ''d29''),
     name_entry 44 (Some ''d30''), name_entry 45 (Some ''d31''), name_entry 46 (Some ''fpinst2''), name_entry 47 (Some ''mvfr0''),
     name_entry 48 (Some ''mvfr1''), name_entry 49 (Some ''mvfr2''), name_entry 50 (Some ''q0''), name_entry 51 (Some ''q1''),
     name_entry 52 (Some ''q2''), name_entry 53 (Some ''q3''), name_entry 54 (Some ''q4''), name_entry 55 (Some ''q5''),
     name_entry 56 (Some ''q6''), name_entry 57 (Some ''q7''), name_entry 58 (Some ''q8''), name_entry 59 (Some ''q9''),
     name_entry 60 (Some ''q10''), name_entry 61 (Some ''q11''), name_entry 62 (Some ''q12''), name_entry 63 (Some ''q13''),
     name_entry 64 (Some ''q14''), name_entry 65 (Some ''q15''), name_entry 66 (Some ''r0''), name_entry 67 (Some ''r1''),
     name_entry 68 (Some ''r2''), name_entry 69 (Some ''r3''), name_entry 70 (Some ''r4''), name_entry 71 (Some ''r5''),
     name_entry 72 (Some ''r6''), name_entry 73 (Some ''r7''), name_entry 74 (Some ''r8''), name_entry 75 (Some ''sb''),
     name_entry 76 (Some ''sl''), name_entry 77 (Some ''fp''), name_entry 78 (Some ''ip''), name_entry 79 (Some ''s0''),
     name_entry 80 (Some ''s1''), name_entry 81 (Some ''s2''), name_entry 82 (Some ''s3''), name_entry 83 (Some ''s4''),
     name_entry 84 (Some ''s5''), name_entry 85 (Some ''s6''), name_entry 86 (Some ''s7''), name_entry 87 (Some ''s8''),
     name_entry 88 (Some ''s9''), name_entry 89 (Some ''s10''), name_entry 90 (Some ''s11''), name_entry 91 (Some ''s12''),
     name_entry 92 (Some ''s13''), name_entry 93 (Some ''s14''), name_entry 94 (Some ''s15''), name_entry 95 (Some ''s16''),
     name_entry 96 (Some ''s17''), name_entry 97 (Some ''s18''), name_entry 98 (Some ''s19''), name_entry 99 (Some ''s20''),
     name_entry 100 (Some ''s21''), name_entry 101 (Some ''s22''), name_entry 102 (Some ''s23''), name_entry 103 (Some ''s24''),
     name_entry 104 (Some ''s25''), name_entry 105 (Some ''s26''), name_entry 106 (Some ''s27''), name_entry 107 (Some ''s28''),
     name_entry 108 (Some ''s29''), name_entry 109 (Some ''s30''), name_entry 110 (Some ''s31'')]"

definition reg_name_maps2 :: "name_map list" where
  "reg_name_maps2 =
    [name_entry 0 (None), name_entry 1 (Some ''apsr''), name_entry 2 (Some ''apsr_nzcv''), name_entry 3 (Some ''cpsr''),
     name_entry 4 (Some ''fpexc''), name_entry 5 (Some ''fpinst''), name_entry 6 (Some ''fpscr''), name_entry 7 (Some ''fpscr_nzcv''),
     name_entry 8 (Some ''fpsid''), name_entry 9 (Some ''itstate''), name_entry 10 (Some ''lr''), name_entry 11 (Some ''pc''),
     name_entry 12 (Some ''sp''), name_entry 13 (Some ''spsr''), name_entry 14 (Some ''d0''), name_entry 15 (Some ''d1''),
     name_entry 16 (Some ''d2''), name_entry 17 (Some ''d3''), name_entry 18 (Some ''d4''), name_entry 19 (Some ''d5''),
     name_entry 20 (Some ''d6''), name_entry 21 (Some ''d7''), name_entry 22 (Some ''d8''), name_entry 23 (Some ''d9''),
     name_entry 24 (Some ''d10''), name_entry 25 (Some ''d11''), name_entry 26 (Some ''d12''), name_entry 27 (Some ''d13''),
     name_entry 28 (Some ''d14''), name_entry 29 (Some ''d15''), name_entry 30 (Some ''d16''), name_entry 31 (Some ''d17''),
     name_entry 32 (Some ''d18''), name_entry 33 (Some ''d19''), name_entry 34 (Some ''d20''), name_entry 35 (Some ''d21''),
     name_entry 36 (Some ''d22''), name_entry 37 (Some ''d23''), name_entry 38 (Some ''d24''), name_entry 39 (Some ''d25''),
     name_entry 40 (Some ''d26''), name_entry 41 (Some ''d27''), name_entry 42 (Some ''d28''), name_entry 43 (Some ''d29''),
     name_entry 44 (Some ''d30''), name_entry 45 (Some ''d31''), name_entry 46 (Some ''fpinst2''), name_entry 47 (Some ''mvfr0''),
     name_entry 48 (Some ''mvfr1''), name_entry 49 (Some ''mvfr2''), name_entry 50 (Some ''q0''), name_entry 51 (Some ''q1''),
     name_entry 52 (Some ''q2''), name_entry 53 (Some ''q3''), name_entry 54 (Some ''q4''), name_entry 55 (Some ''q5''),
     name_entry 56 (Some ''q6''), name_entry 57 (Some ''q7''), name_entry 58 (Some ''q8''), name_entry 59 (Some ''q9''),
     name_entry 60 (Some ''q10''), name_entry 61 (Some ''q11''), name_entry 62 (Some ''q12''), name_entry 63 (Some ''q13''),
     name_entry 64 (Some ''q14''), name_entry 65 (Some ''q15''), name_entry 66 (Some ''r0''), name_entry 67 (Some ''r1''),
     name_entry 68 (Some ''r2''), name_entry 69 (Some ''r3''), name_entry 70 (Some ''r4''), name_entry 71 (Some ''r5''),
     name_entry 72 (Some ''r6''), name_entry 73 (Some ''r7''), name_entry 74 (Some ''r8''), name_entry 75 (Some ''r9''),
     name_entry 76 (Some ''r10''), name_entry 77 (Some ''r11''), name_entry 78 (Some ''r12''), name_entry 79 (Some ''s0''),
     name_entry 80 (Some ''s1''), name_entry 81 (Some ''s2''), name_entry 82 (Some ''s3''), name_entry 83 (Some ''s4''),
     name_entry 84 (Some ''s5''), name_entry 85 (Some ''s6''), name_entry 86 (Some ''s7''), name_entry 87 (Some ''s8''),
     name_entry 88 (Some ''s9''), name_entry 89 (Some ''s10''), name_entry 90 (Some ''s11''), name_entry 91 (Some ''s12''),
     name_entry 92 (Some ''s13''), name_entry 93 (Some ''s14''), name_entry 94 (Some ''s15''), name_entry 95 (Some ''s16''),
     name_entry 96 (Some ''s17''), name_entry 97 (Some ''s18''), name_entry 98 (Some ''s19''), name_entry 99 (Some ''s20''),
     name_entry 100 (Some ''s21''), name_entry 101 (Some ''s22''), name_entry 102 (Some ''s23''), name_entry 103 (Some ''s24''),
     name_entry 104 (Some ''s25''), name_entry 105 (Some ''s26''), name_entry 106 (Some ''s27''), name_entry 107 (Some ''s28''),
     name_entry 108 (Some ''s29''), name_entry 109 (Some ''s30''), name_entry 110 (Some ''s31'')]"

definition ARM_REG_ENDING :: nat where "ARM_REG_ENDING = 111"
definition ARM_INS_ENDING :: nat where "ARM_INS_ENDING = 435"
definition ARM_GRP_ENDING :: nat where "ARM_GRP_ENDING = 159"
definition ARM_GRP_CRYPTO :: nat where "ARM_GRP_CRYPTO = 128"

text \<open>The look-ups by number; the entry at a position is the result, whatever its number.\<close>

definition ARM_reg_name :: "nat \<Rightarrow> string option" where
  "ARM_reg_name reg = (if reg \<ge> ARM_REG_ENDING then None else name_of (reg_name_maps ! reg))"

definition ARM_reg_name2 :: "nat \<Rightarrow> string option" where
  "ARM_reg_name2 reg = (if reg \<ge> ARM_REG_ENDING then None else name_of (reg_name_maps2 ! reg))"

definition ARM_insn_name :: "nat \<Rightarrow> string option" where
  "ARM_insn_name ident = (if ident \<ge> ARM_INS_ENDING then None else name_of (insn_name_maps ! ident))"

definition ARM_group_name :: "nat \<Rightarrow> string option" where
  "ARM_group_name ident =
     (if ident \<ge> ARM_GRP_ENDING \<or> ident > unat ARM_GRP_JUMP \<and> ident < ARM_GRP_CRYPTO then None
      else if ident \<ge> 128 then name_of (group_name_maps ! (ident - 128 + 2))
      else name_of (group_name_maps ! ident))"

subsection \<open>Relative branches\<close>

text \<open>BL, BLX_pred, Bcc, t2B, t2Bcc, tB, tBcc, tCBNZ, tCBZ, BL_pred, BLXi, tBL, tBLXi.\<close>

definition insn_rel :: "nat list" where
  "insn_rel = [56, 58, 71, 2300, 2308, 2700, 2712, 2714, 2715, 60, 59, 2703, 2704, 0]"

text \<open>tBLXi.\<close>

definition insn_blx_rel_to_arm :: "nat list" where
  "insn_blx_rel_to_arm = [2704, 0]"

text \<open>A loop over a list that ends with 0; \<open>None\<close> where it has no such end.\<close>

fun zero_list_exists :: "nat list \<Rightarrow> nat \<Rightarrow> bool option" where
  "zero_list_exists [] ident = None"
| "zero_list_exists (x # xs) ident = (if x = 0 then Some False else if ident = x then Some True else zero_list_exists xs ident)"

definition ARM_rel_branch :: "nat \<Rightarrow> bool option" where
  "ARM_rel_branch ident = zero_list_exists insn_rel ident"

definition ARM_blx_to_arm_mode :: "nat \<Rightarrow> bool option" where
  "ARM_blx_to_arm_mode ident = zero_list_exists insn_blx_rel_to_arm ident"

end
