(* ===== verification/ARM_Registers.thy ===== *)
theory ARM_Registers
  imports MC_Inst
begin

text \<open>Registers as numbers, which is what the printer works with: the enumeration and the tables of
  \<^verbatim>\<open>capstone/arch/ARM/ARMGenRegisterInfo.inc\<close>, the two tables of names of \<^verbatim>\<open>ARMGenAsmWriter.inc\<close>, and the look-up of sub-registers
  and super-registers of \<^verbatim>\<open>capstone/MCRegisterInfo.c\<close>.  \<open>None\<close> stands for a read outside a table.\<close>

unbundle bit_operations_syntax

subsection \<open>Numbers and names\<close>

fun reg_no :: "ARM_Reg \<Rightarrow> nat" where
  "reg_no ARM_NoRegister = 0"
| "reg_no ARM_APSR_NZCV = 2"
| "reg_no ARM_CPSR = 3"
| "reg_no ARM_LR = 10"
| "reg_no ARM_PC = 11"
| "reg_no ARM_SP = 12"
| "reg_no (ARM_D i) = 14 + i"
| "reg_no (ARM_Q i) = 50 + i"
| "reg_no (ARM_R i) = 66 + i"
| "reg_no (ARM_S i) = 79 + i"
| "reg_no (ARM_DPairSpaced i) = 111 + i"
| "reg_no (ARM_GPRPair i) = (if i = 6 then 169 else 170 + i)"
| "reg_no (ARM_DPair i) = (if even i then 50 + i div 2 else 260 + i div 2)"

definition ARM_NUM_TARGET_REGS :: nat where "ARM_NUM_TARGET_REGS = 289"

text \<open>The strings that \<^verbatim>\<open>RegAsmOffset\<close> points to, from register 1 on: with the names of the procedure call standard, and with numbers
  only.\<close>

definition RegisterNames_0 :: "string list" where
  "RegisterNames_0 =
     [''apsr'', ''apsr_nzcv'', ''cpsr'', ''fpexc'', ''fpinst'', ''fpscr'', ''fpscr_nzcv'', ''fpsid'', ''itstate'',
      ''lr'', ''pc'', ''sp'', ''spsr'', ''d0'', ''d1'', ''d2'', ''d3'', ''d4'', ''d5'', ''d6'', ''d7'', ''d8'',
      ''d9'', ''d10'', ''d11'', ''d12'', ''d13'', ''d14'', ''d15'', ''d16'', ''d17'', ''d18'', ''d19'', ''d20'',
      ''d21'', ''d22'', ''d23'', ''d24'', ''d25'', ''d26'', ''d27'', ''d28'', ''d29'', ''d30'', ''d31'', ''fpinst2'',
      ''mvfr0'', ''mvfr1'', ''mvfr2'', ''q0'', ''q1'', ''q2'', ''q3'', ''q4'', ''q5'', ''q6'', ''q7'', ''q8'', ''q9'',
      ''q10'', ''q11'', ''q12'', ''q13'', ''q14'', ''q15'', ''r0'', ''r1'', ''r2'', ''r3'', ''r4'', ''r5'', ''r6'',
      ''r7'', ''r8'', ''sb'', ''sl'', ''fp'', ''ip'', ''s0'', ''s1'', ''s2'', ''s3'', ''s4'', ''s5'', ''s6'', ''s7'',
      ''s8'', ''s9'', ''s10'', ''s11'', ''s12'', ''s13'', ''s14'', ''s15'', ''s16'', ''s17'', ''s18'', ''s19'',
      ''s20'', ''s21'']"

definition RegisterNames_1 :: "string list" where
  "RegisterNames_1 =
     [''s22'', ''s23'', ''s24'', ''s25'', ''s26'', ''s27'', ''s28'', ''s29'', ''s30'', ''s31'', ''D0_D2'', ''D1_D3'',
      ''D2_D4'', ''D3_D5'', ''D4_D6'', ''D5_D7'', ''D6_D8'', ''D7_D9'', ''D8_D10'', ''D9_D11'', ''D10_D12'',
      ''D11_D13'', ''D12_D14'', ''D13_D15'', ''D14_D16'', ''D15_D17'', ''D16_D18'', ''D17_D19'', ''D18_D20'',
      ''D19_D21'', ''D20_D22'', ''D21_D23'', ''D22_D24'', ''D23_D25'', ''D24_D26'', ''D25_D27'', ''D26_D28'',
      ''D27_D29'', ''D28_D30'', ''D29_D31'', ''Q0_Q1'', ''Q1_Q2'', ''Q2_Q3'', ''Q3_Q4'', ''Q4_Q5'', ''Q5_Q6'',
      ''Q6_Q7'', ''Q7_Q8'', ''Q8_Q9'', ''Q9_Q10'', ''Q10_Q11'', ''Q11_Q12'', ''Q12_Q13'', ''Q13_Q14'', ''Q14_Q15'',
      ''Q0_Q1_Q2_Q3'', ''Q1_Q2_Q3_Q4'', ''Q2_Q3_Q4_Q5'', ''Q3_Q4_Q5_Q6'', ''Q4_Q5_Q6_Q7'', ''Q5_Q6_Q7_Q8'',
      ''Q6_Q7_Q8_Q9'', ''Q7_Q8_Q9_Q10'', ''Q8_Q9_Q10_Q11'', ''Q9_Q10_Q11_Q12'', ''Q10_Q11_Q12_Q13'',
      ''Q11_Q12_Q13_Q14'', ''Q12_Q13_Q14_Q15'', ''R12_SP'', ''R0_R1'', ''R2_R3'', ''R4_R5'', ''R6_R7'', ''R8_R9'',
      ''R10_R11'', ''D0_D1_D2'', ''D1_D2_D3'', ''D2_D3_D4'', ''D3_D4_D5'', ''D4_D5_D6'', ''D5_D6_D7'', ''D6_D7_D8'',
      ''D7_D8_D9'', ''D8_D9_D10'', ''D9_D10_D11'', ''D10_D11_D12'', ''D11_D12_D13'', ''D12_D13_D14'', ''D13_D14_D15'',
      ''D14_D15_D16'', ''D15_D16_D17'', ''D16_D17_D18'', ''D17_D18_D19'', ''D18_D19_D20'', ''D19_D20_D21'',
      ''D20_D21_D22'', ''D21_D22_D23'', ''D22_D23_D24'', ''D23_D24_D25'', ''D24_D25_D26'']"

definition RegisterNames_2 :: "string list" where
  "RegisterNames_2 =
     [''D25_D26_D27'', ''D26_D27_D28'', ''D27_D28_D29'', ''D28_D29_D30'', ''D29_D30_D31'', ''D0_D2_D4'', ''D1_D3_D5'',
      ''D2_D4_D6'', ''D3_D5_D7'', ''D4_D6_D8'', ''D5_D7_D9'', ''D6_D8_D10'', ''D7_D9_D11'', ''D8_D10_D12'',
      ''D9_D11_D13'', ''D10_D12_D14'', ''D11_D13_D15'', ''D12_D14_D16'', ''D13_D15_D17'', ''D14_D16_D18'',
      ''D15_D17_D19'', ''D16_D18_D20'', ''D17_D19_D21'', ''D18_D20_D22'', ''D19_D21_D23'', ''D20_D22_D24'',
      ''D21_D23_D25'', ''D22_D24_D26'', ''D23_D25_D27'', ''D24_D26_D28'', ''D25_D27_D29'', ''D26_D28_D30'',
      ''D27_D29_D31'', ''D0_D2_D4_D6'', ''D1_D3_D5_D7'', ''D2_D4_D6_D8'', ''D3_D5_D7_D9'', ''D4_D6_D8_D10'',
      ''D5_D7_D9_D11'', ''D6_D8_D10_D12'', ''D7_D9_D11_D13'', ''D8_D10_D12_D14'', ''D9_D11_D13_D15'',
      ''D10_D12_D14_D16'', ''D11_D13_D15_D17'', ''D12_D14_D16_D18'', ''D13_D15_D17_D19'', ''D14_D16_D18_D20'',
      ''D15_D17_D19_D21'', ''D16_D18_D20_D22'', ''D17_D19_D21_D23'', ''D18_D20_D22_D24'', ''D19_D21_D23_D25'',
      ''D20_D22_D24_D26'', ''D21_D23_D25_D27'', ''D22_D24_D26_D28'', ''D23_D25_D27_D29'', ''D24_D26_D28_D30'',
      ''D25_D27_D29_D31'', ''D1_D2'', ''D3_D4'', ''D5_D6'', ''D7_D8'', ''D9_D10'', ''D11_D12'', ''D13_D14'',
      ''D15_D16'', ''D17_D18'', ''D19_D20'', ''D21_D22'', ''D23_D24'', ''D25_D26'', ''D27_D28'', ''D29_D30'',
      ''D1_D2_D3_D4'', ''D3_D4_D5_D6'', ''D5_D6_D7_D8'', ''D7_D8_D9_D10'', ''D9_D10_D11_D12'', ''D11_D12_D13_D14'',
      ''D13_D14_D15_D16'', ''D15_D16_D17_D18'', ''D17_D18_D19_D20'', ''D19_D20_D21_D22'', ''D21_D22_D23_D24'',
      ''D23_D24_D25_D26'', ''D25_D26_D27_D28'', ''D27_D28_D29_D30'']"

definition RegisterNames :: "string list" where
  "RegisterNames =
     concat [RegisterNames_0, RegisterNames_1, RegisterNames_2]"

definition RegisterNames2_0 :: "string list" where
  "RegisterNames2_0 =
     [''apsr'', ''apsr_nzcv'', ''cpsr'', ''fpexc'', ''fpinst'', ''fpscr'', ''fpscr_nzcv'', ''fpsid'', ''itstate'',
      ''lr'', ''pc'', ''sp'', ''spsr'', ''d0'', ''d1'', ''d2'', ''d3'', ''d4'', ''d5'', ''d6'', ''d7'', ''d8'',
      ''d9'', ''d10'', ''d11'', ''d12'', ''d13'', ''d14'', ''d15'', ''d16'', ''d17'', ''d18'', ''d19'', ''d20'',
      ''d21'', ''d22'', ''d23'', ''d24'', ''d25'', ''d26'', ''d27'', ''d28'', ''d29'', ''d30'', ''d31'', ''fpinst2'',
      ''mvfr0'', ''mvfr1'', ''mvfr2'', ''q0'', ''q1'', ''q2'', ''q3'', ''q4'', ''q5'', ''q6'', ''q7'', ''q8'', ''q9'',
      ''q10'', ''q11'', ''q12'', ''q13'', ''q14'', ''q15'', ''r0'', ''r1'', ''r2'', ''r3'', ''r4'', ''r5'', ''r6'',
      ''r7'', ''r8'', ''r9'', ''r10'', ''r11'', ''r12'', ''s0'', ''s1'', ''s2'', ''s3'', ''s4'', ''s5'', ''s6'',
      ''s7'', ''s8'', ''s9'', ''s10'', ''s11'', ''s12'', ''s13'', ''s14'', ''s15'', ''s16'', ''s17'', ''s18'',
      ''s19'', ''s20'', ''s21'']"

definition RegisterNames2_1 :: "string list" where
  "RegisterNames2_1 =
     [''s22'', ''s23'', ''s24'', ''s25'', ''s26'', ''s27'', ''s28'', ''s29'', ''s30'', ''s31'', ''D0_D2'', ''D1_D3'',
      ''D2_D4'', ''D3_D5'', ''D4_D6'', ''D5_D7'', ''D6_D8'', ''D7_D9'', ''D8_D10'', ''D9_D11'', ''D10_D12'',
      ''D11_D13'', ''D12_D14'', ''D13_D15'', ''D14_D16'', ''D15_D17'', ''D16_D18'', ''D17_D19'', ''D18_D20'',
      ''D19_D21'', ''D20_D22'', ''D21_D23'', ''D22_D24'', ''D23_D25'', ''D24_D26'', ''D25_D27'', ''D26_D28'',
      ''D27_D29'', ''D28_D30'', ''D29_D31'', ''Q0_Q1'', ''Q1_Q2'', ''Q2_Q3'', ''Q3_Q4'', ''Q4_Q5'', ''Q5_Q6'',
      ''Q6_Q7'', ''Q7_Q8'', ''Q8_Q9'', ''Q9_Q10'', ''Q10_Q11'', ''Q11_Q12'', ''Q12_Q13'', ''Q13_Q14'', ''Q14_Q15'',
      ''Q0_Q1_Q2_Q3'', ''Q1_Q2_Q3_Q4'', ''Q2_Q3_Q4_Q5'', ''Q3_Q4_Q5_Q6'', ''Q4_Q5_Q6_Q7'', ''Q5_Q6_Q7_Q8'',
      ''Q6_Q7_Q8_Q9'', ''Q7_Q8_Q9_Q10'', ''Q8_Q9_Q10_Q11'', ''Q9_Q10_Q11_Q12'', ''Q10_Q11_Q12_Q13'',
      ''Q11_Q12_Q13_Q14'', ''Q12_Q13_Q14_Q15'', ''R12_SP'', ''R0_R1'', ''R2_R3'', ''R4_R5'', ''R6_R7'', ''R8_R9'',
      ''R10_R11'', ''D0_D1_D2'', ''D1_D2_D3'', ''D2_D3_D4'', ''D3_D4_D5'', ''D4_D5_D6'', ''D5_D6_D7'', ''D6_D7_D8'',
      ''D7_D8_D9'', ''D8_D9_D10'', ''D9_D10_D11'', ''D10_D11_D12'', ''D11_D12_D13'', ''D12_D13_D14'', ''D13_D14_D15'',
      ''D14_D15_D16'', ''D15_D16_D17'', ''D16_D17_D18'', ''D17_D18_D19'', ''D18_D19_D20'', ''D19_D20_D21'',
      ''D20_D21_D22'', ''D21_D22_D23'', ''D22_D23_D24'', ''D23_D24_D25'', ''D24_D25_D26'']"

definition RegisterNames2_2 :: "string list" where
  "RegisterNames2_2 =
     [''D25_D26_D27'', ''D26_D27_D28'', ''D27_D28_D29'', ''D28_D29_D30'', ''D29_D30_D31'', ''D0_D2_D4'', ''D1_D3_D5'',
      ''D2_D4_D6'', ''D3_D5_D7'', ''D4_D6_D8'', ''D5_D7_D9'', ''D6_D8_D10'', ''D7_D9_D11'', ''D8_D10_D12'',
      ''D9_D11_D13'', ''D10_D12_D14'', ''D11_D13_D15'', ''D12_D14_D16'', ''D13_D15_D17'', ''D14_D16_D18'',
      ''D15_D17_D19'', ''D16_D18_D20'', ''D17_D19_D21'', ''D18_D20_D22'', ''D19_D21_D23'', ''D20_D22_D24'',
      ''D21_D23_D25'', ''D22_D24_D26'', ''D23_D25_D27'', ''D24_D26_D28'', ''D25_D27_D29'', ''D26_D28_D30'',
      ''D27_D29_D31'', ''D0_D2_D4_D6'', ''D1_D3_D5_D7'', ''D2_D4_D6_D8'', ''D3_D5_D7_D9'', ''D4_D6_D8_D10'',
      ''D5_D7_D9_D11'', ''D6_D8_D10_D12'', ''D7_D9_D11_D13'', ''D8_D10_D12_D14'', ''D9_D11_D13_D15'',
      ''D10_D12_D14_D16'', ''D11_D13_D15_D17'', ''D12_D14_D16_D18'', ''D13_D15_D17_D19'', ''D14_D16_D18_D20'',
      ''D15_D17_D19_D21'', ''D16_D18_D20_D22'', ''D17_D19_D21_D23'', ''D18_D20_D22_D24'', ''D19_D21_D23_D25'',
      ''D20_D22_D24_D26'', ''D21_D23_D25_D27'', ''D22_D24_D26_D28'', ''D23_D25_D27_D29'', ''D24_D26_D28_D30'',
      ''D25_D27_D29_D31'', ''D1_D2'', ''D3_D4'', ''D5_D6'', ''D7_D8'', ''D9_D10'', ''D11_D12'', ''D13_D14'',
      ''D15_D16'', ''D17_D18'', ''D19_D20'', ''D21_D22'', ''D23_D24'', ''D25_D26'', ''D27_D28'', ''D29_D30'',
      ''D1_D2_D3_D4'', ''D3_D4_D5_D6'', ''D5_D6_D7_D8'', ''D7_D8_D9_D10'', ''D9_D10_D11_D12'', ''D11_D12_D13_D14'',
      ''D13_D14_D15_D16'', ''D15_D16_D17_D18'', ''D17_D18_D19_D20'', ''D19_D20_D21_D22'', ''D21_D22_D23_D24'',
      ''D23_D24_D25_D26'', ''D25_D26_D27_D28'', ''D27_D28_D29_D30'']"

definition RegisterNames2 :: "string list" where
  "RegisterNames2 =
     concat [RegisterNames2_0, RegisterNames2_1, RegisterNames2_2]"

text \<open>The functions index the table with the number minus one.\<close>

definition name_at :: "string list \<Rightarrow> u32 \<Rightarrow> string option" where
  "name_at names RegNo = (if 0 < RegNo \<and> unat RegNo \<le> length names then Some (names ! (unat RegNo - 1)) else None)"

definition getRegisterName :: "u32 \<Rightarrow> string option" where
  "getRegisterName RegNo = name_at RegisterNames RegNo"

definition getRegisterName2 :: "u32 \<Rightarrow> string option" where
  "getRegisterName2 RegNo = name_at RegisterNames2 RegNo"

subsection \<open>Tables\<close>

text \<open>Of a descriptor there are the positions of the lists of sub-registers and super-registers among the differences, and that of the
  indices of the sub-registers; of a class the set of bits.\<close>

definition ARMRegDiffLists_0 :: "u16 list" where
  "ARMRegDiffLists_0 =
     [64924, 1, 1, 1, 1, 1, 1, 1, 1, 1, 1, 1, 1, 1, 1, 1, 0, 32, 1, 1, 1, 1, 1, 1, 1, 1, 1, 1, 1, 1, 1, 0, 36, 1, 1,
      1, 1, 1, 1, 1, 1, 1, 1, 1, 0, 40, 1, 1, 1, 1, 1, 1, 1, 1, 1, 0, 64450, 1, 1, 1, 1, 1, 1, 1, 0, 64984, 1, 1, 1,
      1, 1, 1, 1, 0, 65252, 1, 1, 1, 1, 1, 1, 1, 0, 38, 1, 1, 1, 1, 1, 1, 0, 40, 1, 1, 1, 1, 1, 0, 65196, 1]"

definition ARMRegDiffLists_1 :: "u16 list" where
  "ARMRegDiffLists_1 =
     [1, 1, 1, 1, 0, 40, 1, 1, 1, 1, 0, 42, 1, 1, 1, 1, 0, 42, 1, 1, 1, 0, 64510, 1, 1, 1, 0, 65015, 1, 1, 1, 0,
      65282, 1, 1, 1, 0, 65348, 1, 1, 1, 0, 13, 1, 1, 0, 42, 1, 1, 0, 65388, 1, 1, 0, 137, 65489, 48, 65489, 12, 121,
      65416, 1, 1, 0, 136, 65490, 47, 65490, 12, 121, 65416, 1, 1, 0, 135, 65491, 46, 65491, 12, 121, 65416, 1, 1, 0,
      134, 65492, 45, 65492, 12, 121, 65416, 1, 1, 0, 133, 65493, 44, 65493, 12, 121]"

definition ARMRegDiffLists_2 :: "u16 list" where
  "ARMRegDiffLists_2 =
     [65416, 1, 1, 0, 132, 65494, 43, 65494, 12, 121, 65416, 1, 1, 0, 131, 65495, 42, 65495, 12, 121, 65416, 1, 1, 0,
      130, 65496, 41, 65496, 12, 121, 65416, 1, 1, 0, 129, 65497, 40, 65497, 12, 121, 65416, 1, 1, 0, 128, 65498, 39,
      65498, 12, 121, 65416, 1, 1, 0, 65489, 133, 65416, 1, 1, 0, 65490, 133, 65416, 1, 1, 0, 65491, 133, 65416, 1, 1,
      0, 65492, 133, 65416, 1, 1, 0, 65493, 133, 65416, 1, 1, 0, 65494, 133, 65416, 1, 1, 0, 65495, 133, 65416, 1, 1,
      0, 65496, 133, 65416, 1]"

definition ARMRegDiffLists_3 :: "u16 list" where
  "ARMRegDiffLists_3 =
     [1, 0, 65497, 133, 65416, 1, 1, 0, 65498, 133, 65416, 1, 1, 0, 127, 65499, 38, 65499, 133, 65416, 1, 1, 0, 65080,
      1, 3, 1, 3, 1, 3, 1, 0, 65136, 1, 3, 1, 3, 1, 0, 65326, 1, 3, 1, 0, 13, 1, 0, 14, 1, 0, 65, 1, 0, 65500, 65, 1,
      65471, 66, 1, 0, 65291, 66, 1, 65470, 67, 1, 0, 65439, 65, 1, 65472, 67, 1, 0, 65501, 67, 1, 65469, 68, 1, 0,
      65439, 66, 1, 65471, 68, 1, 0, 65292, 68, 1, 65468, 69, 1, 0, 65439, 67, 1, 65470, 69]"

definition ARMRegDiffLists_4 :: "u16 list" where
  "ARMRegDiffLists_4 =
     [1, 0, 65502, 69, 1, 65467, 70, 1, 0, 65439, 68, 1, 65469, 70, 1, 0, 65293, 70, 1, 65466, 71, 1, 0, 65439, 69, 1,
      65468, 71, 1, 0, 65503, 71, 1, 65465, 72, 1, 0, 65439, 70, 1, 65467, 72, 1, 0, 65294, 72, 1, 65464, 73, 1, 0,
      65439, 71, 1, 65466, 73, 1, 0, 65504, 73, 1, 65463, 74, 1, 0, 65439, 72, 1, 65465, 74, 1, 0, 65295, 74, 1,
      65462, 75, 1, 0, 65439, 73, 1, 65464, 75, 1, 0, 65505, 75, 1, 65461, 76, 1, 0, 65439, 74, 1, 65463, 76, 1, 0]"

definition ARMRegDiffLists_5 :: "u16 list" where
  "ARMRegDiffLists_5 =
     [65296, 76, 1, 65460, 77, 1, 0, 65439, 75, 1, 65462, 77, 1, 0, 65506, 77, 1, 65459, 78, 1, 0, 65439, 76, 1,
      65461, 78, 1, 0, 65297, 78, 1, 65458, 79, 1, 0, 65439, 77, 1, 65460, 79, 1, 0, 65507, 79, 1, 65457, 80, 1, 0,
      65439, 78, 1, 65459, 80, 1, 0, 65045, 1, 0, 65260, 1, 0, 65299, 1, 0, 65300, 1, 0, 65301, 1, 0, 65302, 1, 0,
      65303, 1, 0, 65304, 1, 0, 65305, 1, 0, 65453, 1, 65499, 133, 1, 65416, 1, 0, 138, 65488, 49, 65488, 12, 121,
      65416, 1, 0]"

definition ARMRegDiffLists_6 :: "u16 list" where
  "ARMRegDiffLists_6 =
     [65488, 13, 121, 65416, 1, 0, 65489, 13, 121, 65416, 1, 0, 65490, 13, 121, 65416, 1, 0, 65491, 13, 121, 65416, 1,
      0, 65492, 13, 121, 65416, 1, 0, 65493, 13, 121, 65416, 1, 0, 65494, 13, 121, 65416, 1, 0, 65495, 13, 121, 65416,
      1, 0, 65496, 13, 121, 65416, 1, 0, 65497, 13, 121, 65416, 1, 0, 65498, 13, 121, 65416, 1, 0, 65464, 1, 65488,
      133, 65416, 121, 65416, 1, 0, 65463, 1, 65489, 133, 65416, 121, 65416, 1, 0, 65462, 1, 65490, 133, 65416, 121,
      65416, 1, 0, 65461, 1, 65491, 133, 65416, 121, 65416]"

definition ARMRegDiffLists_7 :: "u16 list" where
  "ARMRegDiffLists_7 =
     [1, 0, 65460, 1, 65492, 133, 65416, 121, 65416, 1, 0, 65459, 1, 65493, 133, 65416, 121, 65416, 1, 0, 65458, 1,
      65494, 133, 65416, 121, 65416, 1, 0, 65457, 1, 65495, 133, 65416, 121, 65416, 1, 0, 65456, 1, 65496, 133, 65416,
      121, 65416, 1, 0, 65455, 1, 65497, 133, 65416, 121, 65416, 1, 0, 65454, 1, 65498, 133, 65416, 121, 65416, 1, 0,
      65488, 133, 65416, 1, 0, 65499, 134, 65416, 1, 0, 126, 65500, 37, 65500, 133, 65417, 1, 0, 65432, 1, 0, 65433,
      1, 0, 65434, 1, 0, 65435, 1, 0, 65436, 1, 0, 65437, 1]"

definition ARMRegDiffLists_8 :: "u16 list" where
  "ARMRegDiffLists_8 =
     [0, 65464, 1, 0, 65508, 1, 0, 65509, 1, 0, 65510, 1, 0, 65511, 1, 0, 65512, 1, 0, 65513, 1, 0, 65514, 1, 0,
      65515, 1, 0, 65520, 1, 0, 65080, 1, 3, 1, 3, 1, 2, 0, 65136, 1, 3, 1, 2, 0, 65326, 1, 2, 0, 65080, 1, 3, 1, 2,
      2, 0, 65136, 1, 2, 2, 0, 65080, 1, 2, 2, 2, 0, 65330, 2, 2, 2, 0, 65080, 1, 3, 2, 2, 0, 65358, 2, 2, 0, 65080,
      1, 3, 1, 3, 2, 0, 65136, 1, 3, 2, 0, 65344, 76, 1, 65461, 78, 1]"

definition ARMRegDiffLists_9 :: "u16 list" where
  "ARMRegDiffLists_9 =
     [65459, 80, 1, 12, 2, 0, 65344, 75, 1, 65462, 77, 1, 65460, 79, 1, 13, 2, 0, 65344, 74, 1, 65463, 76, 1, 65461,
      78, 1, 14, 2, 0, 65344, 73, 1, 65464, 75, 1, 65462, 77, 1, 15, 2, 0, 65344, 72, 1, 65465, 74, 1, 65463, 76, 1,
      16, 2, 0, 65344, 71, 1, 65466, 73, 1, 65464, 75, 1, 17, 2, 0, 65344, 70, 1, 65467, 72, 1, 65465, 74, 1, 18, 2,
      0, 65344, 69, 1, 65468, 71, 1, 65466, 73, 1, 19, 2, 0, 65344, 68, 1, 65469, 70, 1, 65467, 72, 1, 20]"

definition ARMRegDiffLists_10 :: "u16 list" where
  "ARMRegDiffLists_10 =
     [2, 0, 65344, 67, 1, 65470, 69, 1, 65468, 71, 1, 21, 2, 0, 65344, 66, 1, 65471, 68, 1, 65469, 70, 1, 22, 2, 0,
      65344, 65, 1, 65472, 67, 1, 65470, 69, 1, 23, 2, 0, 65344, 2, 2, 93, 2, 0, 65344, 80, 1, 65457, 2, 93, 2, 0,
      65344, 79, 1, 65458, 2, 93, 2, 0, 65344, 78, 1, 65459, 80, 1, 65457, 93, 2, 0, 65344, 77, 1, 65460, 79, 1,
      65458, 93, 2, 0, 65439, 2, 0, 65453, 2, 0, 65080, 1, 3, 1, 3, 1, 3, 0, 65136, 1, 3, 1, 3, 0]"

definition ARMRegDiffLists_11 :: "u16 list" where
  "ARMRegDiffLists_11 =
     [65326, 1, 3, 0, 5, 0, 140, 65486, 13, 0, 14, 0, 126, 65501, 15, 0, 10, 66, 0, 65445, 65514, 1, 22, 65515, 1, 94,
      65, 65472, 65, 69, 0, 65445, 65513, 1, 23, 65514, 1, 94, 65, 65472, 65, 70, 0, 65445, 65512, 1, 24, 65513, 1,
      94, 65, 65472, 65, 71, 0, 65445, 65511, 1, 25, 65512, 1, 94, 65, 65472, 65, 72, 0, 65445, 65510, 1, 26, 65511,
      1, 94, 65, 65472, 65, 73, 0, 65445, 65509, 1, 27, 65510, 1, 94, 65, 65472, 65, 74, 0, 65445, 65508, 1, 28,
      65509, 1, 94, 65, 65472]"

definition ARMRegDiffLists_12 :: "u16 list" where
  "ARMRegDiffLists_12 =
     [65, 75, 0, 65445, 65507, 79, 1, 65457, 80, 1, 65484, 65508, 1, 94, 65, 65472, 65, 76, 0, 65445, 65506, 77, 1,
      65459, 78, 1, 65487, 65507, 79, 1, 65457, 80, 1, 13, 65, 65472, 65, 77, 0, 65445, 65505, 75, 1, 65461, 76, 1,
      65490, 65506, 77, 1, 65459, 78, 1, 15, 65, 65472, 65, 78, 0, 65445, 65504, 73, 1, 65463, 74, 1, 65493, 65505,
      75, 1, 65461, 76, 1, 17, 65, 65472, 65, 79, 0, 65445, 65503, 71, 1, 65465, 72, 1, 65496, 65504, 73, 1, 65463,
      74, 1, 19, 65, 65472, 65, 80, 0, 65445]"

definition ARMRegDiffLists_13 :: "u16 list" where
  "ARMRegDiffLists_13 =
     [65502, 69, 1, 65467, 70, 1, 65499, 65503, 71, 1, 65465, 72, 1, 21, 65, 65472, 65, 81, 0, 65445, 65501, 67, 1,
      65469, 68, 1, 65502, 65502, 69, 1, 65467, 70, 1, 23, 65, 65472, 65, 82, 0, 65445, 65500, 65, 1, 65471, 66, 1,
      65505, 65501, 67, 1, 65469, 68, 1, 25, 65, 65472, 65, 83, 0, 91, 0, 98, 0, 99, 0, 100, 0, 101, 0, 102, 0, 103,
      0, 104, 0, 65374, 1, 1, 20, 75, 135, 0, 65374, 1, 1, 21, 74, 136, 0, 65374, 1, 1, 22, 73, 137, 0, 65374, 1, 1,
      23]"

definition ARMRegDiffLists_14 :: "u16 list" where
  "ARMRegDiffLists_14 =
     [72, 138, 0, 65374, 1, 1, 24, 71, 139, 0, 65374, 1, 1, 25, 70, 140, 0, 65374, 1, 1, 26, 69, 141, 0, 65374, 79, 1,
      65457, 80, 1, 65456, 27, 68, 142, 0, 65374, 77, 1, 65459, 78, 1, 65458, 79, 1, 65484, 67, 143, 0, 65374, 75, 1,
      65461, 76, 1, 65460, 77, 1, 65487, 66, 144, 0, 65374, 73, 1, 65463, 74, 1, 65462, 75, 1, 65490, 65, 145, 0,
      65374, 71, 1, 65465, 72, 1, 65464, 73, 1, 65493, 64, 146, 0, 65374, 69, 1, 65467, 70, 1, 65466, 71, 1, 65496,
      63, 147, 0]"

definition ARMRegDiffLists_15 :: "u16 list" where
  "ARMRegDiffLists_15 =
     [65374, 67, 1, 65469, 68, 1, 65468, 69, 1, 65499, 62, 148, 0, 65374, 65, 1, 65471, 66, 1, 65470, 67, 1, 65502,
      61, 149, 0, 157, 0, 65289, 1, 1, 1, 229, 1, 65400, 65, 65472, 65, 65396, 0, 65288, 1, 1, 1, 230, 1, 65399, 65,
      65472, 65, 65397, 0, 65287, 1, 1, 1, 231, 1, 65398, 65, 65472, 65, 65398, 0, 65286, 1, 1, 1, 232, 1, 65397, 65,
      65472, 65, 65399, 0, 65285, 1, 1, 1, 233, 1, 65396, 65, 65472, 65, 65400, 0, 65284, 1, 1, 1, 234, 1, 65395, 65,
      65472, 65, 65401, 0]"

definition ARMRegDiffLists_16 :: "u16 list" where
  "ARMRegDiffLists_16 =
     [65521, 65445, 65512, 1, 24, 65513, 1, 94, 65, 65472, 65, 71, 65419, 65445, 65514, 1, 22, 65515, 1, 94, 65,
      65472, 65, 69, 65492, 28, 65509, 28, 28, 65386, 65, 30, 65442, 65, 30, 40, 15, 65402, 0, 65521, 65445, 65511, 1,
      25, 65512, 1, 94, 65, 65472, 65, 72, 65419, 65445, 65513, 1, 23, 65514, 1, 94, 65, 65472, 65, 70, 65491, 28,
      65509, 28, 29, 65385, 65, 30, 65442, 65, 30, 41, 15, 65402, 0, 65521, 65445, 65510, 1, 26, 65511, 1, 94, 65,
      65472, 65, 73, 65419, 65445, 65512, 1, 24, 65513, 1, 94, 65, 65472]"

definition ARMRegDiffLists_17 :: "u16 list" where
  "ARMRegDiffLists_17 =
     [65, 71, 65490, 28, 65509, 28, 30, 65384, 65, 30, 65442, 65, 30, 42, 15, 65402, 0, 65521, 65445, 65509, 1, 27,
      65510, 1, 94, 65, 65472, 65, 74, 65419, 65445, 65511, 1, 25, 65512, 1, 94, 65, 65472, 65, 72, 65489, 28, 65509,
      28, 31, 65383, 65, 30, 65442, 65, 30, 43, 15, 65402, 0, 65521, 65445, 65508, 1, 28, 65509, 1, 94, 65, 65472, 65,
      75, 65419, 65445, 65510, 1, 26, 65511, 1, 94, 65, 65472, 65, 73, 65488, 28, 65509, 28, 32, 65382, 65, 30, 65442,
      65, 30, 44, 15, 65402, 0, 65521, 65445, 65507, 79, 1]"

definition ARMRegDiffLists_18 :: "u16 list" where
  "ARMRegDiffLists_18 =
     [65457, 80, 1, 65484, 65508, 1, 94, 65, 65472, 65, 76, 65419, 65445, 65509, 1, 27, 65510, 1, 94, 65, 65472, 65,
      74, 65487, 28, 65509, 28, 33, 65381, 65, 30, 65442, 65, 30, 45, 15, 65402, 0, 65521, 65445, 65506, 77, 1, 65459,
      78, 1, 65487, 65507, 79, 1, 65457, 80, 1, 13, 65, 65472, 65, 77, 65419, 65445, 65508, 1, 28, 65509, 1, 94, 65,
      65472, 65, 75, 65486, 28, 65509, 28, 34, 65380, 65, 30, 65442, 65, 30, 46, 15, 65402, 0, 65521, 65445, 65505,
      75, 1, 65461, 76, 1, 65490, 65506, 77, 1, 65459, 78, 1]"

definition ARMRegDiffLists_19 :: "u16 list" where
  "ARMRegDiffLists_19 =
     [15, 65, 65472, 65, 78, 65419, 65445, 65507, 79, 1, 65457, 80, 1, 65484, 65508, 1, 94, 65, 65472, 65, 76, 65485,
      28, 65509, 28, 35, 65379, 65, 30, 65442, 65, 30, 47, 15, 65402, 0, 65521, 65445, 65504, 73, 1, 65463, 74, 1,
      65493, 65505, 75, 1, 65461, 76, 1, 17, 65, 65472, 65, 79, 65419, 65445, 65506, 77, 1, 65459, 78, 1, 65487,
      65507, 79, 1, 65457, 80, 1, 13, 65, 65472, 65, 77, 65484, 28, 65509, 28, 36, 65378, 65, 30, 65442, 65, 30, 48,
      15, 65402, 0, 65521, 65445, 65503, 71, 1, 65465, 72, 1, 65496]"

definition ARMRegDiffLists_20 :: "u16 list" where
  "ARMRegDiffLists_20 =
     [65504, 73, 1, 65463, 74, 1, 19, 65, 65472, 65, 80, 65419, 65445, 65505, 75, 1, 65461, 76, 1, 65490, 65506, 77,
      1, 65459, 78, 1, 15, 65, 65472, 65, 78, 65483, 28, 65509, 28, 37, 65377, 65, 30, 65442, 65, 30, 49, 15, 65402,
      0, 65521, 65445, 65502, 69, 1, 65467, 70, 1, 65499, 65503, 71, 1, 65465, 72, 1, 21, 65, 65472, 65, 81, 65419,
      65445, 65504, 73, 1, 65463, 74, 1, 65493, 65505, 75, 1, 65461, 76, 1, 17, 65, 65472, 65, 79, 65482, 28, 65509,
      28, 38, 65376, 65, 30, 65442, 65, 30, 50, 15, 65402]"

definition ARMRegDiffLists_21 :: "u16 list" where
  "ARMRegDiffLists_21 =
     [0, 65521, 65445, 65501, 67, 1, 65469, 68, 1, 65502, 65502, 69, 1, 65467, 70, 1, 23, 65, 65472, 65, 82, 65419,
      65445, 65503, 71, 1, 65465, 72, 1, 65496, 65504, 73, 1, 65463, 74, 1, 19, 65, 65472, 65, 80, 65481, 28, 65509,
      28, 39, 65375, 65, 30, 65442, 65, 30, 51, 15, 65402, 0, 65521, 65445, 65500, 65, 1, 65471, 66, 1, 65505, 65501,
      67, 1, 65469, 68, 1, 25, 65, 65472, 65, 83, 65419, 65445, 65502, 69, 1, 65467, 70, 1, 65499, 65503, 71, 1,
      65465, 72, 1, 21, 65, 65472, 65, 81, 65480, 28, 65509, 28]"

definition ARMRegDiffLists_22 :: "u16 list" where
  "ARMRegDiffLists_22 =
     [40, 65374, 65, 30, 65442, 65, 30, 52, 15, 65402, 0, 65283, 80, 1, 65456, 1, 1, 235, 1, 65394, 65, 65472, 65,
      65402, 0, 65282, 78, 1, 65458, 79, 1, 65457, 80, 1, 65456, 236, 1, 65393, 65, 65472, 65, 65403, 0, 65281, 76, 1,
      65460, 77, 1, 65459, 78, 1, 65458, 79, 1, 157, 1, 65392, 65, 65472, 65, 65404, 0, 65280, 74, 1, 65462, 75, 1,
      65461, 76, 1, 65460, 77, 1, 160, 1, 65391, 65, 65472, 65, 65405, 0, 65279, 72, 1, 65464, 73, 1, 65463, 74, 1,
      65462, 75, 1, 163, 1, 65390, 65, 65472]"

definition ARMRegDiffLists_23 :: "u16 list" where
  "ARMRegDiffLists_23 =
     [65, 65406, 0, 65278, 70, 1, 65466, 71, 1, 65465, 72, 1, 65464, 73, 1, 166, 1, 65389, 65, 65472, 65, 65407, 0,
      65277, 68, 1, 65468, 69, 1, 65467, 70, 1, 65466, 71, 1, 169, 1, 65388, 65, 65472, 65, 65408, 0, 65276, 66, 1,
      65470, 67, 1, 65469, 68, 1, 65468, 69, 1, 172, 1, 65387, 65, 65472, 65, 65409, 0, 22, 73, 2, 63, 65488, 120,
      65465, 1, 65487, 75, 26, 65447, 65, 26, 30, 65416, 66, 26, 29, 65416, 0, 21, 74, 2, 63, 65487, 120, 65466, 1,
      65486, 76, 26, 65446, 66, 26, 29, 65416]"

definition ARMRegDiffLists_24 :: "u16 list" where
  "ARMRegDiffLists_24 =
     [0, 65, 65487, 77, 26, 65446, 66, 26, 29, 65416, 0, 22, 73, 2, 134, 65465, 1, 65487, 50, 65487, 75, 26, 31,
      65416, 65, 26, 30, 65416, 0, 21, 74, 135, 65466, 1, 65486, 77, 26, 30, 65416, 0, 65, 65487, 77, 26, 30, 65416,
      0, 139, 65487, 50, 65487, 12, 121, 65416, 0, 65487, 13, 121, 65416, 0, 65465, 1, 65487, 133, 65416, 121, 65416,
      0, 65466, 1, 65486, 133, 65416, 0, 65487, 133, 65416, 0, 65469, 35, 62, 148, 65452, 1, 65500, 66, 28, 40, 65417,
      0, 65470, 35, 62, 148, 65452, 1, 65500, 66, 28, 40]"

definition ARMRegDiffLists_25 :: "u16 list" where
  "ARMRegDiffLists_25 =
     [65417, 0, 65, 65500, 66, 28, 40, 65417, 0, 65452, 1, 65500, 134, 65417, 0, 65316, 74, 1, 65463, 76, 1, 65461,
      78, 1, 65459, 80, 1, 10, 95, 65443, 95, 65443, 0, 65316, 73, 1, 65464, 75, 1, 65462, 77, 1, 65460, 79, 1, 11,
      95, 65443, 95, 65443, 0, 65316, 72, 1, 65465, 74, 1, 65463, 76, 1, 65461, 78, 1, 12, 95, 65443, 95, 65443, 0,
      65316, 71, 1, 65466, 73, 1, 65464, 75, 1, 65462, 77, 1, 13, 95, 65443, 95, 65443, 0, 65316, 70, 1, 65467, 72, 1,
      65465, 74, 1, 65463, 76, 1, 14]"

definition ARMRegDiffLists_26 :: "u16 list" where
  "ARMRegDiffLists_26 =
     [95, 65443, 95, 65443, 0, 65316, 69, 1, 65468, 71, 1, 65466, 73, 1, 65464, 75, 1, 15, 95, 65443, 95, 65443, 0,
      65316, 68, 1, 65469, 70, 1, 65467, 72, 1, 65465, 74, 1, 16, 95, 65443, 95, 65443, 0, 65316, 67, 1, 65470, 69, 1,
      65468, 71, 1, 65466, 73, 1, 17, 95, 65443, 95, 65443, 0, 65316, 66, 1, 65471, 68, 1, 65469, 70, 1, 65467, 72, 1,
      18, 95, 65443, 95, 65443, 0, 65316, 65, 1, 65472, 67, 1, 65470, 69, 1, 65468, 71, 1, 19, 95, 65443, 95, 65443,
      0, 65316, 2, 2, 2, 91]"

definition ARMRegDiffLists_27 :: "u16 list" where
  "ARMRegDiffLists_27 =
     [95, 65443, 95, 65443, 0, 65316, 80, 1, 65457, 2, 2, 91, 95, 65443, 95, 65443, 0, 65316, 79, 1, 65458, 2, 2, 91,
      95, 65443, 95, 65443, 0, 65316, 78, 1, 65459, 80, 1, 65457, 2, 91, 95, 65443, 95, 65443, 0, 65316, 77, 1, 65460,
      79, 1, 65458, 2, 91, 95, 65443, 95, 65443, 0, 65316, 76, 1, 65461, 78, 1, 65459, 80, 1, 65457, 91, 95, 65443,
      95, 65443, 0, 65316, 75, 1, 65462, 77, 1, 65460, 79, 1, 65458, 91, 95, 65443, 95, 65443, 0, 20, 75, 65, 65486,
      78, 26, 65445, 0, 23, 72, 2]"

definition ARMRegDiffLists_28 :: "u16 list" where
  "ARMRegDiffLists_28 =
     [63, 65489, 120, 65464, 1, 65488, 74, 26, 65448, 64, 26, 31, 65416, 65, 26, 30, 65416, 92, 65445, 0, 65, 65488,
      76, 26, 65447, 65, 26, 30, 65416, 92, 65445, 0, 26, 65446, 92, 65445, 0, 23, 72, 2, 135, 65464, 1, 65488, 49,
      65488, 74, 26, 32, 65416, 64, 26, 31, 65416, 65, 26, 65446, 0, 65, 65488, 76, 26, 31, 65416, 65, 26, 65446, 0,
      24, 71, 2, 63, 65490, 120, 65463, 1, 65489, 73, 26, 65449, 63, 26, 32, 65416, 64, 26, 31, 65416, 91, 65446, 0,
      65, 65489, 75, 26, 65448, 64, 26, 31, 65416]"

definition ARMRegDiffLists_29 :: "u16 list" where
  "ARMRegDiffLists_29 =
     [91, 65446, 0, 24, 71, 2, 136, 65463, 1, 65489, 48, 65489, 73, 26, 33, 65416, 63, 26, 32, 65416, 64, 26, 65447,
      91, 65446, 0, 65, 65489, 75, 26, 32, 65416, 64, 26, 65447, 91, 65446, 0, 25, 70, 2, 63, 65491, 120, 65462, 1,
      65490, 72, 26, 65450, 62, 26, 33, 65416, 63, 26, 32, 65416, 90, 65447, 0, 65, 65490, 74, 26, 65449, 63, 26, 32,
      65416, 90, 65447, 0, 25, 70, 2, 137, 65462, 1, 65490, 47, 65490, 72, 26, 34, 65416, 62, 26, 33, 65416, 63, 26,
      65448, 90, 65447, 0, 65, 65490, 74, 26]"

definition ARMRegDiffLists_30 :: "u16 list" where
  "ARMRegDiffLists_30 =
     [33, 65416, 63, 26, 65448, 90, 65447, 0, 26, 69, 2, 63, 65492, 120, 65461, 1, 65491, 71, 26, 65451, 61, 26, 34,
      65416, 62, 26, 33, 65416, 89, 65448, 0, 65, 65491, 73, 26, 65450, 62, 26, 33, 65416, 89, 65448, 0, 26, 69, 2,
      138, 65461, 1, 65491, 46, 65491, 71, 26, 35, 65416, 61, 26, 34, 65416, 62, 26, 65449, 89, 65448, 0, 65, 65491,
      73, 26, 34, 65416, 62, 26, 65449, 89, 65448, 0, 27, 68, 2, 63, 65493, 120, 65460, 1, 65492, 70, 26, 65452, 60,
      26, 35, 65416, 61, 26, 34, 65416, 88, 65449]"

definition ARMRegDiffLists_31 :: "u16 list" where
  "ARMRegDiffLists_31 =
     [0, 65, 65492, 72, 26, 65451, 61, 26, 34, 65416, 88, 65449, 0, 27, 68, 2, 139, 65460, 1, 65492, 45, 65492, 70,
      26, 36, 65416, 60, 26, 35, 65416, 61, 26, 65450, 88, 65449, 0, 65, 65492, 72, 26, 35, 65416, 61, 26, 65450, 88,
      65449, 0, 65455, 28, 67, 2, 63, 65494, 120, 65459, 1, 65493, 69, 26, 65453, 59, 26, 36, 65416, 60, 26, 35,
      65416, 87, 65450, 0, 65456, 28, 67, 2, 63, 65494, 120, 65459, 1, 65493, 69, 26, 65453, 59, 26, 36, 65416, 60,
      26, 35, 65416, 87, 65450, 0, 65, 65493, 71, 26]"

definition ARMRegDiffLists_32 :: "u16 list" where
  "ARMRegDiffLists_32 =
     [65452, 60, 26, 35, 65416, 87, 65450, 0, 28, 67, 2, 140, 65459, 1, 65493, 44, 65493, 69, 26, 37, 65416, 59, 26,
      36, 65416, 60, 26, 65451, 87, 65450, 0, 65, 65493, 71, 26, 36, 65416, 60, 26, 65451, 87, 65450, 0, 65457, 29,
      66, 2, 63, 65495, 120, 65458, 1, 65494, 68, 26, 65454, 58, 26, 37, 65416, 59, 26, 36, 65416, 86, 65451, 0,
      65458, 29, 66, 2, 63, 65495, 120, 65458, 1, 65494, 68, 26, 65454, 58, 26, 37, 65416, 59, 26, 36, 65416, 86,
      65451, 0, 65, 65494, 70, 26, 65453, 59, 26, 36, 65416]"

definition ARMRegDiffLists_33 :: "u16 list" where
  "ARMRegDiffLists_33 =
     [86, 65451, 0, 65456, 29, 66, 2, 141, 65458, 1, 65494, 43, 65494, 68, 26, 38, 65416, 58, 26, 37, 65416, 59, 26,
      65452, 86, 65451, 0, 65457, 29, 66, 2, 141, 65458, 1, 65494, 43, 65494, 68, 26, 38, 65416, 58, 26, 37, 65416,
      59, 26, 65452, 86, 65451, 0, 65, 65494, 70, 26, 37, 65416, 59, 26, 65452, 86, 65451, 0, 65459, 30, 65, 2, 63,
      65496, 120, 65457, 1, 65495, 67, 26, 65455, 57, 26, 38, 65416, 58, 26, 37, 65416, 85, 65452, 0, 65460, 30, 65,
      2, 63, 65496, 120, 65457, 1, 65495, 67, 26, 65455]"

definition ARMRegDiffLists_34 :: "u16 list" where
  "ARMRegDiffLists_34 =
     [57, 26, 38, 65416, 58, 26, 37, 65416, 85, 65452, 0, 65, 65495, 69, 26, 65454, 58, 26, 37, 65416, 85, 65452, 0,
      65458, 30, 65, 2, 142, 65457, 1, 65495, 42, 65495, 67, 26, 39, 65416, 57, 26, 38, 65416, 58, 26, 65453, 85,
      65452, 0, 65459, 30, 65, 2, 142, 65457, 1, 65495, 42, 65495, 67, 26, 39, 65416, 57, 26, 38, 65416, 58, 26,
      65453, 85, 65452, 0, 65, 65495, 69, 26, 38, 65416, 58, 26, 65453, 85, 65452, 0, 65461, 31, 64, 2, 63, 65497,
      120, 65456, 1, 65496, 66, 26, 65456, 56, 26, 39, 65416]"

definition ARMRegDiffLists_35 :: "u16 list" where
  "ARMRegDiffLists_35 =
     [57, 26, 38, 65416, 84, 65453, 0, 65462, 31, 64, 2, 63, 65497, 120, 65456, 1, 65496, 66, 26, 65456, 56, 26, 39,
      65416, 57, 26, 38, 65416, 84, 65453, 0, 65, 65496, 68, 26, 65455, 57, 26, 38, 65416, 84, 65453, 0, 65460, 31,
      64, 2, 143, 65456, 1, 65496, 41, 65496, 66, 26, 40, 65416, 56, 26, 39, 65416, 57, 26, 65454, 84, 65453, 0,
      65461, 31, 64, 2, 143, 65456, 1, 65496, 41, 65496, 66, 26, 40, 65416, 56, 26, 39, 65416, 57, 26, 65454, 84,
      65453, 0, 65, 65496, 68, 26, 39, 65416, 57, 26, 65454]"

definition ARMRegDiffLists_36 :: "u16 list" where
  "ARMRegDiffLists_36 =
     [84, 65453, 0, 65463, 32, 63, 2, 63, 65498, 120, 65455, 1, 65497, 65, 26, 65457, 55, 26, 40, 65416, 56, 26, 39,
      65416, 83, 65454, 0, 65464, 32, 63, 2, 63, 65498, 120, 65455, 1, 65497, 65, 26, 65457, 55, 26, 40, 65416, 56,
      26, 39, 65416, 83, 65454, 0, 65, 65497, 67, 26, 65456, 56, 26, 39, 65416, 83, 65454, 0, 65462, 32, 63, 2, 144,
      65455, 1, 65497, 40, 65497, 65, 26, 41, 65416, 55, 26, 40, 65416, 56, 26, 65455, 83, 65454, 0, 65463, 32, 63, 2,
      144, 65455, 1, 65497, 40, 65497, 65, 26, 41]"

definition ARMRegDiffLists_37 :: "u16 list" where
  "ARMRegDiffLists_37 =
     [65416, 55, 26, 40, 65416, 56, 26, 65455, 83, 65454, 0, 65, 65497, 67, 26, 40, 65416, 56, 26, 65455, 83, 65454,
      0, 65465, 33, 62, 2, 63, 65499, 120, 65454, 1, 65498, 64, 2, 26, 41, 65416, 55, 26, 40, 65416, 82, 65455, 0,
      65466, 33, 62, 2, 63, 65499, 120, 65454, 1, 65498, 64, 2, 26, 41, 65416, 55, 26, 40, 65416, 82, 65455, 0, 65,
      65498, 66, 26, 65457, 55, 26, 40, 65416, 82, 65455, 0, 65464, 33, 62, 2, 145, 65454, 1, 65498, 39, 65498, 64,
      26, 42, 65416, 54, 26, 41, 65416, 55, 26, 65456]"

definition ARMRegDiffLists_38 :: "u16 list" where
  "ARMRegDiffLists_38 =
     [82, 65455, 0, 65465, 33, 62, 2, 145, 65454, 1, 65498, 39, 65498, 64, 26, 42, 65416, 54, 26, 41, 65416, 55, 26,
      65456, 82, 65455, 0, 65, 65498, 66, 26, 41, 65416, 55, 26, 65456, 82, 65455, 0, 65298, 80, 1, 65456, 0, 65467,
      34, 61, 2, 63, 65500, 120, 65453, 1, 65499, 65, 2, 26, 40, 1, 65416, 81, 65456, 0, 65468, 34, 61, 2, 63, 65500,
      120, 65453, 1, 65499, 65, 2, 26, 40, 1, 65416, 81, 65456, 0, 65, 65499, 65, 2, 26, 41, 65416, 81, 65456, 0,
      65466, 34, 61, 2, 146, 65453, 1, 65499]"

definition ARMRegDiffLists_39 :: "u16 list" where
  "ARMRegDiffLists_39 =
     [38, 65499, 63, 2, 26, 41, 1, 65416, 54, 26, 65457, 81, 65456, 0, 65467, 34, 61, 2, 146, 65453, 1, 65499, 38,
      65499, 63, 2, 26, 41, 1, 65416, 54, 26, 65457, 81, 65456, 0, 65, 65499, 65, 26, 42, 65416, 54, 26, 65457, 81,
      65456, 0, 65439, 80, 1, 65457, 0, 28, 65457, 0, 65468, 35, 60, 2, 147, 65452, 1, 65500, 37, 65500, 64, 2, 26,
      41, 65417, 80, 65457, 0, 65469, 35, 60, 2, 147, 65452, 1, 65500, 37, 65500, 64, 2, 26, 41, 65417, 80, 65457, 0,
      65, 65500, 64, 2, 26, 41, 65417, 80]"

definition ARMRegDiffLists_40 :: "u16 list" where
  "ARMRegDiffLists_40 =
     [65457, 0, 26, 65458, 80, 65457, 0, 65439, 79, 1, 65458, 0, 65470, 36, 61, 65, 65501, 65, 28, 65458, 0, 65471,
      36, 61, 65, 65501, 65, 28, 65458, 0, 65374, 1, 1, 229, 65402, 65461, 0, 65374, 1, 1, 230, 65401, 65462, 0,
      65374, 1, 1, 231, 65400, 65463, 0, 65374, 1, 1, 232, 65399, 65464, 0, 65374, 1, 1, 233, 65398, 65465, 0, 65374,
      1, 1, 234, 65397, 65466, 0, 65374, 1, 1, 235, 65396, 65467, 0, 65374, 80, 1, 65456, 1, 236, 65395, 65468, 0,
      65374, 78, 1, 65458, 79, 1, 65457, 80, 1, 156, 65394, 65469]"

definition ARMRegDiffLists_41 :: "u16 list" where
  "ARMRegDiffLists_41 =
     [0, 65374, 76, 1, 65460, 77, 1, 65459, 78, 1, 159, 65393, 65470, 0, 65445, 65470, 0, 65374, 74, 1, 65462, 75, 1,
      65461, 76, 1, 162, 65392, 65471, 0, 65374, 72, 1, 65464, 73, 1, 65463, 74, 1, 165, 65391, 65472, 0, 65374, 70,
      1, 65466, 71, 1, 65465, 72, 1, 168, 65390, 65473, 0, 65374, 68, 1, 65468, 69, 1, 65467, 70, 1, 171, 65389,
      65474, 0, 65374, 66, 1, 65470, 67, 1, 65469, 68, 1, 174, 65388, 65475, 0, 65534, 0, 65535, 0]"

definition ARMRegDiffLists :: "u16 list" where
  "ARMRegDiffLists =
     concat [ARMRegDiffLists_0, ARMRegDiffLists_1, ARMRegDiffLists_2, ARMRegDiffLists_3, ARMRegDiffLists_4,
      ARMRegDiffLists_5, ARMRegDiffLists_6, ARMRegDiffLists_7, ARMRegDiffLists_8, ARMRegDiffLists_9,
      ARMRegDiffLists_10, ARMRegDiffLists_11, ARMRegDiffLists_12, ARMRegDiffLists_13, ARMRegDiffLists_14,
      ARMRegDiffLists_15, ARMRegDiffLists_16, ARMRegDiffLists_17, ARMRegDiffLists_18, ARMRegDiffLists_19,
      ARMRegDiffLists_20, ARMRegDiffLists_21, ARMRegDiffLists_22, ARMRegDiffLists_23, ARMRegDiffLists_24,
      ARMRegDiffLists_25, ARMRegDiffLists_26, ARMRegDiffLists_27, ARMRegDiffLists_28, ARMRegDiffLists_29,
      ARMRegDiffLists_30, ARMRegDiffLists_31, ARMRegDiffLists_32, ARMRegDiffLists_33, ARMRegDiffLists_34,
      ARMRegDiffLists_35, ARMRegDiffLists_36, ARMRegDiffLists_37, ARMRegDiffLists_38, ARMRegDiffLists_39,
      ARMRegDiffLists_40, ARMRegDiffLists_41]"

definition ARMSubRegIdxLists_0 :: "u16 list" where
  "ARMSubRegIdxLists_0 =
     [1, 2, 0, 1, 17, 18, 2, 0, 1, 3, 0, 1, 17, 18, 3, 0, 9, 10, 0, 17, 18, 0, 1, 17, 18, 2, 19, 20, 0, 1, 17, 18, 3,
      21, 22, 0, 1, 2, 3, 13, 33, 37, 0, 1, 17, 18, 2, 3, 13, 33, 37, 0, 1, 17, 18, 2, 19, 20, 3, 13, 33, 37, 0, 1,
      17, 18, 2, 19, 20, 3, 21, 22, 13, 33, 37, 0, 13, 1, 2, 14, 3, 4, 33, 34, 35, 36, 37, 0, 13, 1, 17, 18, 2, 19,
      20, 14, 3, 4, 33, 34]"

definition ARMSubRegIdxLists_1 :: "u16 list" where
  "ARMSubRegIdxLists_1 =
     [35, 36, 37, 0, 1, 2, 3, 4, 13, 14, 33, 34, 35, 36, 37, 0, 1, 17, 18, 2, 3, 4, 13, 14, 33, 34, 35, 36, 37, 0, 1,
      17, 18, 2, 19, 20, 3, 21, 22, 4, 13, 14, 33, 34, 35, 36, 37, 0, 1, 17, 18, 2, 19, 20, 3, 21, 22, 4, 23, 24, 13,
      14, 33, 34, 35, 36, 37, 0, 13, 1, 17, 18, 2, 19, 20, 14, 3, 21, 22, 4, 23, 24, 33, 34, 35, 36, 37, 0, 1, 3, 5,
      33, 43, 0, 1, 17, 18, 3, 5, 33]"

definition ARMSubRegIdxLists_2 :: "u16 list" where
  "ARMSubRegIdxLists_2 =
     [43, 0, 1, 17, 18, 3, 21, 22, 5, 33, 43, 0, 1, 17, 18, 3, 21, 22, 5, 31, 32, 33, 43, 0, 1, 3, 5, 7, 33, 38, 43,
      45, 51, 0, 1, 17, 18, 3, 5, 7, 33, 38, 43, 45, 51, 0, 1, 17, 18, 3, 21, 22, 5, 7, 33, 38, 43, 45, 51, 0, 1, 17,
      18, 3, 21, 22, 5, 31, 32, 7, 33, 38, 43, 45, 51, 0, 1, 17, 18, 3, 21, 22, 5, 31, 32, 7, 27, 28, 33, 38, 43, 45,
      51, 0, 11, 13, 1, 2, 14, 3]"

definition ARMSubRegIdxLists_3 :: "u16 list" where
  "ARMSubRegIdxLists_3 =
     [4, 33, 34, 35, 36, 37, 12, 15, 5, 6, 16, 7, 8, 51, 52, 53, 54, 55, 38, 39, 40, 41, 42, 43, 44, 45, 46, 47, 48,
      49, 50, 56, 0, 11, 13, 1, 17, 18, 2, 19, 20, 14, 3, 4, 33, 34, 35, 36, 37, 12, 15, 5, 6, 16, 7, 8, 51, 52, 53,
      54, 55, 38, 39, 40, 41, 42, 43, 44, 45, 46, 47, 48, 49, 50, 56, 0, 11, 13, 1, 17, 18, 2, 19, 20, 14, 3, 21, 22,
      4, 23, 24, 33, 34, 35, 36, 37, 12, 15, 5, 6]"

definition ARMSubRegIdxLists_4 :: "u16 list" where
  "ARMSubRegIdxLists_4 =
     [16, 7, 8, 51, 52, 53, 54, 55, 38, 39, 40, 41, 42, 43, 44, 45, 46, 47, 48, 49, 50, 56, 0, 11, 13, 1, 17, 18, 2,
      19, 20, 14, 3, 21, 22, 4, 23, 24, 33, 34, 35, 36, 37, 12, 15, 5, 31, 32, 6, 29, 30, 16, 7, 8, 51, 52, 53, 54,
      55, 38, 39, 40, 41, 42, 43, 44, 45, 46, 47, 48, 49, 50, 56, 0, 11, 13, 1, 17, 18, 2, 19, 20, 14, 3, 21, 22, 4,
      23, 24, 33, 34, 35, 36, 37, 12, 15, 5, 31, 32, 6]"

definition ARMSubRegIdxLists_5 :: "u16 list" where
  "ARMSubRegIdxLists_5 =
     [29, 30, 16, 7, 27, 28, 8, 25, 26, 51, 52, 53, 54, 55, 38, 39, 40, 41, 42, 43, 44, 45, 46, 47, 48, 49, 50, 56, 0]"

definition ARMSubRegIdxLists :: "u16 list" where
  "ARMSubRegIdxLists =
     concat [ARMSubRegIdxLists_0, ARMSubRegIdxLists_1, ARMSubRegIdxLists_2, ARMSubRegIdxLists_3, ARMSubRegIdxLists_4,
      ARMSubRegIdxLists_5]"

definition ARMRegDesc_0 :: "(nat \<times> nat \<times> nat) list" where
  "ARMRegDesc_0 =
     [(0, 0, 0), (16, 16, 2), (16, 16, 2), (16, 16, 2), (16, 16, 2), (16, 16, 2), (16, 16, 2), (16, 16, 2),
      (16, 16, 2), (16, 16, 2), (16, 16, 2), (16, 16, 2), (16, 1526, 2), (16, 16, 2), (350, 4013, 19),
      (357, 2479, 19), (364, 3957, 19), (378, 3845, 19), (392, 3893, 19), (406, 3724, 19), (420, 3780, 19),
      (434, 3604, 19), (448, 3664, 19), (462, 3484, 19), (476, 3544, 19), (490, 3364, 19), (504, 3424, 19),
      (518, 3244, 19), (532, 3304, 19), (546, 3149, 19), (16, 3208, 2), (16, 3078, 2), (16, 3113, 2), (16, 3008, 2),
      (16, 3043, 2), (16, 2938, 2), (16, 2973, 2), (16, 2868, 2), (16, 2903, 2), (16, 2797, 2), (16, 2837, 2),
      (16, 2363, 2), (16, 2411, 2), (16, 2384, 2), (16, 2429, 2), (16, 2789, 2), (16, 16, 2), (16, 16, 2),
      (16, 16, 2), (16, 16, 2), (353, 1112, 22), (374, 775, 22), (402, 314, 22), (430, 244, 22), (458, 234, 22),
      (486, 224, 22), (514, 214, 22), (542, 204, 22), (804, 194, 0), (807, 184, 0), (810, 174, 0), (813, 164, 0),
      (816, 154, 0), (819, 591, 0), (822, 2447, 0), (825, 1106, 0), (16, 1373, 2), (16, 1371, 2), (16, 1371, 2),
      (16, 1369, 2), (16, 1369, 2), (16, 1367, 2), (16, 1367, 2), (16, 1365, 2), (16, 1365, 2), (16, 1363, 2),
      (16, 1363, 2), (16, 1361, 2), (16, 1359, 2), (16, 4021, 2), (16, 4012, 2), (16, 2490, 2), (16, 2478, 2),
      (16, 3974, 2), (16, 3956, 2), (16, 3863, 2), (16, 3844, 2), (16, 3914, 2), (16, 3892, 2), (16, 3745, 2),
      (16, 3723, 2), (16, 3803, 2), (16, 3779, 2), (16, 3627, 2), (16, 3603, 2), (16, 3687, 2), (16, 3663, 2),
      (16, 3507, 2), (16, 3483, 2), (16, 3567, 2)]"

definition ARMRegDesc_1 :: "(nat \<times> nat \<times> nat) list" where
  "ARMRegDesc_1 =
     [(16, 3543, 2), (16, 3387, 2), (16, 3363, 2), (16, 3447, 2), (16, 3423, 2), (16, 3267, 2), (16, 3243, 2),
      (16, 3327, 2), (16, 3303, 2), (16, 3172, 2), (16, 3148, 2), (367, 4015, 29), (381, 2502, 29), (395, 3992, 29),
      (409, 3882, 29), (423, 3936, 29), (437, 3767, 29), (451, 3827, 29), (465, 3651, 29), (479, 3711, 29),
      (493, 3531, 29), (507, 3591, 29), (521, 3411, 29), (535, 3471, 29), (549, 3291, 29), (4007, 3351, 11),
      (3948, 3196, 11), (1080, 3231, 8), (1080, 3101, 8), (1080, 3136, 8), (1080, 3031, 8), (1080, 3066, 8),
      (1080, 2961, 8), (1080, 2996, 8), (1080, 2891, 8), (1080, 2926, 8), (1080, 2820, 8), (1080, 2858, 8),
      (1080, 2401, 8), (1080, 2440, 8), (1080, 2791, 8), (1339, 1114, 168), (1319, 347, 168), (1299, 142, 168),
      (1279, 142, 168), (1259, 142, 168), (1239, 142, 168), (1219, 142, 168), (1203, 142, 88), (1191, 142, 76),
      (1179, 142, 76), (1167, 142, 76), (1155, 142, 76), (1143, 142, 76), (1131, 344, 76), (1119, 1108, 76),
      (2156, 16, 474), (2101, 16, 474), (2046, 16, 474), (1991, 16, 474), (1936, 16, 474), (1885, 16, 423),
      (1838, 16, 376), (1795, 16, 333), (1756, 16, 294), (1717, 16, 294), (1678, 16, 294), (1639, 16, 294),
      (1600, 16, 294), (4114, 16, 16), (783, 16, 16), (786, 16, 16), (789, 16, 16), (792, 16, 16), (795, 16, 16),
      (798, 16, 16), (1513, 1113, 63), (4169, 2511, 63), (1500, 778, 63), (4156, 770, 63), (1487, 317, 63),
      (4143, 660, 63), (1474, 308, 63), (4130, 654, 63), (1461, 302, 63), (4117, 648, 63), (1448, 296, 63),
      (4101, 642, 63), (1435, 290, 63), (4088, 636, 63), (1424, 284, 52), (4079, 630, 43), (1417, 278, 36),
      (4072, 624, 36), (1410, 272, 36), (4065, 618, 36), (1403, 266, 36), (4058, 612, 36), (1396, 260, 36),
      (4051, 606, 36)]"

definition ARMRegDesc_2 :: "(nat \<times> nat \<times> nat) list" where
  "ARMRegDesc_2 =
     [(1389, 254, 36), (4044, 600, 36), (1382, 765, 36), (4037, 2455, 36), (1375, 2474, 36), (4030, 1107, 36),
      (1026, 4018, 212), (1014, 3953, 212), (1002, 4002, 212), (990, 3909, 212), (978, 3909, 212), (966, 3798, 212),
      (954, 3798, 212), (942, 3682, 212), (930, 3682, 212), (918, 3562, 212), (906, 3562, 212), (894, 3442, 212),
      (1070, 3442, 202), (1060, 3322, 202), (1052, 3322, 194), (1044, 3226, 194), (1038, 3226, 188),
      (1038, 3131, 188), (1038, 3131, 188), (1038, 3061, 188), (1038, 3061, 188), (1038, 2991, 188),
      (1038, 2991, 188), (1038, 2921, 188), (1038, 2921, 188), (1038, 2832, 188), (1038, 2855, 188),
      (1038, 2794, 188), (2677, 4010, 276), (2659, 3951, 276), (2641, 3951, 276), (2623, 3842, 276),
      (2605, 3842, 276), (2587, 3743, 276), (2569, 3743, 276), (2551, 3625, 276), (2533, 3625, 276),
      (2515, 3505, 276), (2773, 3505, 260), (2757, 3385, 260), (2743, 3385, 246), (2729, 3265, 246),
      (2717, 3265, 234), (2705, 3170, 234), (2695, 3170, 224), (2695, 3099, 224), (2695, 3099, 224),
      (2695, 3029, 224), (2695, 3029, 224), (2695, 2959, 224), (2695, 2959, 224), (2695, 2856, 224),
      (2695, 2856, 224), (2695, 2795, 224), (360, 2509, 22), (388, 583, 22), (416, 756, 22), (444, 747, 22),
      (472, 738, 22), (500, 729, 22), (528, 720, 22), (3839, 711, 3), (562, 702, 0), (565, 693, 0), (568, 684, 0),
      (571, 675, 0), (574, 666, 0), (577, 2460, 0), (580, 2468, 0), (2343, 2488, 148), (2323, 588, 148),
      (2303, 588, 148), (2283, 588, 148), (2263, 588, 148), (2243, 588, 148), (2225, 588, 130), (2211, 588, 116),
      (1588, 588, 104), (1576, 588, 104), (1564, 588, 104), (1552, 588, 104), (1540, 588, 104), (1528, 2382, 104)]"

definition ARMRegDesc :: "(nat \<times> nat \<times> nat) list" where
  "ARMRegDesc =
     concat [ARMRegDesc_0, ARMRegDesc_1, ARMRegDesc_2]"

definition ARMMCRegisterClasses :: "u8 list list" where
  "ARMMCRegisterClasses =
     [[0, 0, 0, 0, 0, 0, 0, 0, 0, 128, 255, 255, 255, 127], [0, 28, 0, 0, 0, 0, 0, 0, 252, 127],
      [4, 20, 0, 0, 0, 0, 0, 0, 252, 127], [0, 0, 0, 0, 0, 0, 0, 0, 0, 128, 255, 127],
      [0, 20, 0, 0, 0, 0, 0, 0, 252, 127], [0, 4, 0, 0, 0, 0, 0, 0, 252, 127], [0, 28, 0, 0, 0, 0, 0, 0, 0, 124],
      [0, 0, 0, 0, 0, 0, 0, 0, 252, 3], [0, 20, 0, 0, 0, 0, 0, 0, 0, 124], [0, 4, 0, 0, 0, 0, 0, 0, 0, 124],
      [0, 0, 0, 0, 0, 0, 0, 0, 60, 64], [0, 0, 0, 0, 0, 0, 0, 0, 60], [8], [0, 16], [0, 0, 0, 0, 0, 0, 0, 0, 0, 64],
      [0, 192, 255, 255, 255, 63], [0, 192, 255, 63], [0, 192, 63],
      [0, 0, 0, 0, 0, 0, 0, 0, 0, 0, 0, 0, 0, 0, 0, 0, 0, 0, 0, 0, 0, 254],
      [0, 0, 0, 0, 0, 0, 0, 0, 0, 0, 0, 0, 0, 0, 0, 0, 0, 0, 0, 0, 0, 252],
      [0, 0, 0, 0, 0, 0, 0, 0, 0, 0, 0, 0, 0, 0, 0, 0, 0, 0, 0, 0, 0, 60],
      [0, 0, 0, 0, 0, 0, 0, 0, 0, 0, 0, 0, 0, 0, 0, 0, 0, 0, 0, 0, 0, 194],
      [0, 0, 0, 0, 0, 0, 0, 0, 0, 0, 0, 0, 0, 0, 0, 0, 0, 0, 0, 0, 0, 14],
      [0, 0, 0, 0, 0, 0, 0, 0, 0, 0, 0, 0, 0, 0, 0, 0, 0, 0, 0, 0, 0, 192],
      [0, 0, 0, 0, 0, 0, 0, 0, 0, 0, 0, 0, 0, 0, 0, 0, 0, 0, 0, 0, 0, 12],
      [0, 0, 0, 0, 0, 0, 0, 0, 0, 0, 0, 0, 0, 0, 0, 0, 0, 0, 0, 0, 0, 2],
      [0, 0, 0, 0, 0, 0, 0, 0, 0, 0, 0, 0, 0, 128, 255, 255, 255, 31],
      [0, 0, 0, 0, 0, 0, 0, 0, 0, 0, 0, 0, 0, 128, 255, 127], [0, 0, 0, 0, 0, 0, 0, 0, 0, 0, 0, 0, 0, 128, 255, 31],
      [0, 0, 0, 0, 0, 0, 0, 0, 0, 0, 0, 0, 0, 128, 127], [0, 0, 0, 0, 0, 0, 0, 0, 0, 0, 0, 0, 0, 128, 31],
      [0, 0, 0, 0, 0, 0, 252, 255, 3, 0, 0, 0, 0, 0, 0, 0, 0, 0, 0, 0, 0, 0, 0, 0, 0, 0, 0, 0, 0, 0, 0, 0, 240, 255, 7],
      [0, 0, 0, 0, 0, 0, 252, 3, 0, 0, 0, 0, 0, 0, 0, 0, 0, 0, 0, 0, 0, 0, 0, 0, 0, 0, 0, 0, 0, 0, 0, 0, 240, 15],
      [0, 0, 0, 0, 0, 0, 252, 255, 3],
      [0, 0, 0, 0, 0, 0, 252, 3, 0, 0, 0, 0, 0, 0, 0, 0, 0, 0, 0, 0, 0, 0, 0, 0, 0, 0, 0, 0, 0, 0, 0, 0, 240, 7],
      [0, 0, 0, 0, 0, 0, 60, 0, 0, 0, 0, 0, 0, 0, 0, 0, 0, 0, 0, 0, 0, 0, 0, 0, 0, 0, 0, 0, 0, 0, 0, 0, 240],
      [0, 0, 0, 0, 0, 0, 252, 3],
      [0, 0, 0, 0, 0, 0, 60, 0, 0, 0, 0, 0, 0, 0, 0, 0, 0, 0, 0, 0, 0, 0, 0, 0, 0, 0, 0, 0, 0, 0, 0, 0, 112],
      [0, 0, 0, 0, 0, 0, 60], [0, 0, 0, 0, 0, 0, 0, 0, 0, 0, 0, 0, 0, 0, 0, 0, 0, 0, 0, 0, 0, 0, 255, 255, 255, 63],
      [0, 0, 0, 0, 0, 0, 0, 0, 0, 0, 0, 0, 0, 0, 0, 0, 0, 0, 0, 0, 0, 0, 0, 0, 0, 192, 255, 255, 255, 3],
      [0, 0, 0, 0, 0, 0, 0, 0, 0, 0, 0, 0, 0, 0, 0, 0, 0, 0, 0, 0, 0, 0, 0, 0, 0, 192, 255, 63],
      [0, 0, 0, 0, 0, 0, 0, 0, 0, 0, 0, 0, 0, 0, 0, 0, 0, 0, 0, 0, 0, 0, 255, 255],
      [0, 0, 0, 0, 0, 0, 0, 0, 0, 0, 0, 0, 0, 0, 0, 0, 0, 0, 0, 0, 0, 0, 170, 170, 170, 42],
      [0, 0, 0, 0, 0, 0, 0, 0, 0, 0, 0, 0, 0, 0, 0, 0, 0, 0, 0, 0, 0, 0, 85, 85, 85, 21],
      [0, 0, 0, 0, 0, 0, 0, 0, 0, 0, 0, 0, 0, 0, 0, 0, 0, 0, 0, 0, 0, 0, 255, 127],
      [0, 0, 0, 0, 0, 0, 0, 0, 0, 0, 0, 0, 0, 0, 0, 0, 0, 0, 0, 0, 0, 0, 0, 0, 0, 192, 255, 15],
      [0, 0, 0, 0, 0, 0, 0, 0, 0, 0, 0, 0, 0, 0, 0, 0, 0, 0, 0, 0, 0, 0, 255, 63],
      [0, 0, 0, 0, 0, 0, 0, 0, 0, 0, 0, 0, 0, 0, 0, 0, 0, 0, 0, 0, 0, 0, 0, 0, 0, 192, 255, 3],
      [0, 0, 0, 0, 0, 0, 0, 0, 0, 0, 0, 0, 0, 0, 0, 0, 0, 0, 0, 0, 0, 0, 0, 0, 0, 192, 63],
      [0, 0, 0, 0, 0, 0, 0, 0, 0, 0, 0, 0, 0, 0, 0, 0, 0, 0, 0, 0, 0, 0, 255],
      [0, 0, 0, 0, 0, 0, 0, 0, 0, 0, 0, 0, 0, 0, 0, 0, 0, 0, 0, 0, 0, 0, 85, 85],
      [0, 0, 0, 0, 0, 0, 0, 0, 0, 0, 0, 0, 0, 0, 0, 0, 0, 0, 0, 0, 0, 0, 170, 170],
      [0, 0, 0, 0, 0, 0, 0, 0, 0, 0, 0, 0, 0, 0, 0, 0, 0, 0, 0, 0, 0, 0, 170, 42],
      [0, 0, 0, 0, 0, 0, 0, 0, 0, 0, 0, 0, 0, 0, 0, 0, 0, 0, 0, 0, 0, 0, 127],
      [0, 0, 0, 0, 0, 0, 0, 0, 0, 0, 0, 0, 0, 0, 0, 0, 0, 0, 0, 0, 0, 0, 85, 21],
      [0, 0, 0, 0, 0, 0, 0, 0, 0, 0, 0, 0, 0, 0, 0, 0, 0, 0, 0, 0, 0, 0, 0, 0, 0, 192, 15],
      [0, 0, 0, 0, 0, 0, 0, 0, 0, 0, 0, 0, 0, 0, 0, 0, 0, 0, 0, 0, 0, 0, 63],
      [0, 0, 0, 0, 0, 0, 0, 0, 0, 0, 0, 0, 0, 0, 0, 0, 0, 0, 0, 0, 0, 0, 0, 0, 0, 192, 3],
      [0, 0, 0, 0, 0, 0, 0, 0, 0, 0, 0, 0, 0, 0, 0, 0, 0, 0, 0, 0, 0, 0, 170],
      [0, 0, 0, 0, 0, 0, 0, 0, 0, 0, 0, 0, 0, 0, 0, 0, 0, 0, 0, 0, 0, 0, 85],
      [0, 0, 0, 0, 0, 0, 0, 0, 0, 0, 0, 0, 0, 0, 0, 0, 0, 0, 0, 0, 0, 0, 42],
      [0, 0, 0, 0, 0, 0, 0, 0, 0, 0, 0, 0, 0, 0, 0, 0, 0, 0, 0, 0, 0, 0, 21],
      [0, 0, 0, 0, 0, 0, 0, 0, 0, 0, 0, 0, 0, 0, 0, 0, 0, 0, 0, 0, 0, 0, 0, 0, 0, 192, 255, 255, 255, 3],
      [0, 0, 0, 0, 0, 0, 0, 0, 0, 0, 0, 0, 0, 0, 0, 0, 0, 0, 0, 0, 0, 0, 0, 0, 0, 192, 255, 63],
      [0, 0, 0, 0, 0, 0, 0, 0, 0, 0, 0, 0, 0, 0, 0, 0, 0, 0, 0, 0, 0, 0, 0, 0, 0, 192, 255, 15],
      [0, 0, 0, 0, 0, 0, 0, 0, 0, 0, 0, 0, 0, 0, 0, 0, 0, 0, 0, 0, 0, 0, 0, 0, 0, 192, 255, 3],
      [0, 0, 0, 0, 0, 0, 0, 0, 0, 0, 0, 0, 0, 0, 0, 0, 0, 0, 0, 0, 0, 0, 0, 0, 0, 192, 63],
      [0, 0, 0, 0, 0, 0, 0, 0, 0, 0, 0, 0, 0, 0, 0, 0, 0, 0, 0, 0, 0, 0, 0, 0, 0, 192, 15],
      [0, 0, 0, 0, 0, 0, 0, 0, 0, 0, 0, 0, 0, 0, 0, 0, 0, 0, 0, 0, 0, 0, 0, 0, 0, 192, 3],
      [0, 0, 0, 0, 0, 0, 0, 0, 0, 0, 0, 0, 0, 0, 0, 0, 0, 224, 255, 15, 0, 0, 0, 0, 0, 0, 0, 0, 0, 0, 0, 0, 0, 0, 248, 255, 1],
      [0, 0, 0, 0, 0, 0, 0, 0, 0, 0, 0, 0, 0, 0, 0, 0, 0, 224, 31, 0, 0, 0, 0, 0, 0, 0, 0, 0, 0, 0, 0, 0, 0, 0, 248, 7],
      [0, 0, 0, 0, 0, 0, 0, 0, 0, 0, 0, 0, 0, 0, 0, 0, 0, 224, 31, 0, 0, 0, 0, 0, 0, 0, 0, 0, 0, 0, 0, 0, 0, 0, 248, 3],
      [0, 0, 0, 0, 0, 0, 0, 0, 0, 0, 0, 0, 0, 0, 0, 0, 0, 224, 255, 15],
      [0, 0, 0, 0, 0, 0, 0, 0, 0, 0, 0, 0, 0, 0, 0, 0, 0, 0, 0, 0, 0, 0, 0, 0, 0, 0, 0, 0, 0, 0, 0, 0, 0, 0, 248, 255, 1],
      [0, 0, 0, 0, 0, 0, 0, 0, 0, 0, 0, 0, 0, 0, 0, 0, 0, 224, 15, 0, 0, 0, 0, 0, 0, 0, 0, 0, 0, 0, 0, 0, 0, 0, 248, 3],
      [0, 0, 0, 0, 0, 0, 0, 0, 0, 0, 0, 0, 0, 0, 0, 0, 0, 224, 15, 0, 0, 0, 0, 0, 0, 0, 0, 0, 0, 0, 0, 0, 0, 0, 248, 1],
      [0, 0, 0, 0, 0, 0, 0, 0, 0, 0, 0, 0, 0, 0, 0, 0, 0, 224, 1, 0, 0, 0, 0, 0, 0, 0, 0, 0, 0, 0, 0, 0, 0, 0, 120],
      [0, 0, 0, 0, 0, 0, 0, 0, 0, 0, 0, 0, 0, 0, 0, 0, 0, 224, 31],
      [0, 0, 0, 0, 0, 0, 0, 0, 0, 0, 0, 0, 0, 0, 0, 0, 0, 0, 0, 0, 0, 0, 0, 0, 0, 0, 0, 0, 0, 0, 0, 0, 0, 0, 248, 7],
      [0, 0, 0, 0, 0, 0, 0, 0, 0, 0, 0, 0, 0, 0, 0, 0, 0, 0, 0, 0, 0, 0, 0, 0, 0, 0, 0, 0, 0, 0, 0, 0, 0, 0, 248, 3],
      [0, 0, 0, 0, 0, 0, 0, 0, 0, 0, 0, 0, 0, 0, 0, 0, 0, 224, 1, 0, 0, 0, 0, 0, 0, 0, 0, 0, 0, 0, 0, 0, 0, 0, 56],
      [0, 0, 0, 0, 0, 0, 0, 0, 0, 0, 0, 0, 0, 0, 0, 0, 0, 224, 15],
      [0, 0, 0, 0, 0, 0, 0, 0, 0, 0, 0, 0, 0, 0, 0, 0, 0, 224, 0, 0, 0, 0, 0, 0, 0, 0, 0, 0, 0, 0, 0, 0, 0, 0, 56],
      [0, 0, 0, 0, 0, 0, 0, 0, 0, 0, 0, 0, 0, 0, 0, 0, 0, 0, 0, 0, 0, 0, 0, 0, 0, 0, 0, 0, 0, 0, 0, 0, 0, 0, 248, 1],
      [0, 0, 0, 0, 0, 0, 0, 0, 0, 0, 0, 0, 0, 0, 0, 0, 0, 224, 0, 0, 0, 0, 0, 0, 0, 0, 0, 0, 0, 0, 0, 0, 0, 0, 24],
      [0, 0, 0, 0, 0, 0, 0, 0, 0, 0, 0, 0, 0, 0, 0, 0, 0, 0, 0, 0, 0, 0, 0, 0, 0, 0, 0, 0, 0, 0, 0, 0, 0, 0, 120],
      [0, 0, 0, 0, 0, 0, 0, 0, 0, 0, 0, 0, 0, 0, 0, 0, 0, 224, 1],
      [0, 0, 0, 0, 0, 0, 0, 0, 0, 0, 0, 0, 0, 0, 0, 0, 0, 0, 0, 0, 0, 0, 0, 0, 0, 0, 0, 0, 0, 0, 0, 0, 0, 0, 56],
      [0, 0, 0, 0, 0, 0, 0, 0, 0, 0, 0, 0, 0, 0, 0, 0, 0, 224],
      [0, 0, 0, 0, 0, 0, 0, 0, 0, 0, 0, 0, 0, 0, 0, 0, 0, 0, 0, 0, 0, 0, 0, 0, 0, 0, 0, 0, 0, 0, 0, 0, 0, 0, 24],
      [0, 0, 0, 0, 0, 0, 0, 0, 0, 0, 0, 0, 0, 0, 0, 0, 0, 0, 0, 240, 255, 1],
      [0, 0, 0, 0, 0, 0, 0, 0, 0, 0, 0, 0, 0, 0, 0, 0, 0, 0, 0, 240, 15],
      [0, 0, 0, 0, 0, 0, 0, 0, 0, 0, 0, 0, 0, 0, 0, 0, 0, 0, 0, 240, 7],
      [0, 0, 0, 0, 0, 0, 0, 0, 0, 0, 0, 0, 0, 0, 0, 0, 0, 0, 0, 240, 3],
      [0, 0, 0, 0, 0, 0, 0, 0, 0, 0, 0, 0, 0, 0, 0, 0, 0, 0, 0, 240, 1],
      [0, 0, 0, 0, 0, 0, 0, 0, 0, 0, 0, 0, 0, 0, 0, 0, 0, 0, 0, 240],
      [0, 0, 0, 0, 0, 0, 0, 0, 0, 0, 0, 0, 0, 0, 0, 0, 0, 0, 0, 112],
      [0, 0, 0, 0, 0, 0, 0, 0, 0, 0, 0, 0, 0, 0, 0, 0, 0, 0, 0, 48],
      [0, 0, 0, 0, 0, 0, 0, 0, 0, 0, 0, 0, 0, 0, 0, 0, 0, 0, 0, 16]]"

record MCRegisterInfo =
  Desc :: "(nat \<times> nat \<times> nat) list"
  NumRegs :: nat
  Classes :: "u8 list list"
  DiffLists :: "u16 list"
  SubRegIndices :: "u16 list"

definition MCRegisterInfo_InitMCRegisterInfo ::
    "(nat \<times> nat \<times> nat) list \<Rightarrow> nat \<Rightarrow> u8 list list \<Rightarrow> u16 list \<Rightarrow> u16 list \<Rightarrow> MCRegisterInfo" where
  "MCRegisterInfo_InitMCRegisterInfo D NR C DL SubIndices =
     \<lparr>Desc = D, NumRegs = NR, Classes = C, DiffLists = DL, SubRegIndices = SubIndices\<rparr>"

definition ARM_init :: MCRegisterInfo where
  "ARM_init =
     MCRegisterInfo_InitMCRegisterInfo ARMRegDesc 289 ARMMCRegisterClasses ARMRegDiffLists ARMSubRegIdxLists"

definition ARM_dsub_0 :: u32 where "ARM_dsub_0 = 1"
definition ARM_dsub_1 :: u32 where "ARM_dsub_1 = 2"
definition ARM_dsub_2 :: u32 where "ARM_dsub_2 = 3"
definition ARM_gsub_0 :: u32 where "ARM_gsub_0 = 9"
definition ARM_gsub_1 :: u32 where "ARM_gsub_1 = 10"
definition ARM_GPRRegClassID :: nat where "ARM_GPRRegClassID = 1"
definition ARM_GPRPairRegClassID :: nat where "ARM_GPRPairRegClassID = 18"

subsection \<open>Lists of differences\<close>

text \<open>The pointer \<^verbatim>\<open>List\<close> is the rest of the table that it points to, \<open>None\<close> after the end of a list.\<close>

record DiffListIterator =
  it_val :: u16
  it_list :: "u16 list option"

definition DiffListIterator_init :: "u16 \<Rightarrow> u16 list \<Rightarrow> DiffListIterator" where
  "DiffListIterator_init InitVal DiffList = \<lparr>it_val = InitVal, it_list = Some DiffList\<rparr>"

definition DiffListIterator_getVal :: "DiffListIterator \<Rightarrow> u16" where
  "DiffListIterator_getVal d = it_val d"

definition DiffListIterator_next :: "DiffListIterator \<Rightarrow> (bool \<times> DiffListIterator) option" where
  "DiffListIterator_next d =
     (case it_list d of
        None \<Rightarrow> Some (False, d)
      | Some [] \<Rightarrow> None
      | Some (D # list) \<Rightarrow> Some (D \<noteq> 0, \<lparr>it_val = it_val d + D, it_list = (if D = 0 then None else Some list)\<rparr>))"

definition DiffListIterator_isValid :: "DiffListIterator \<Rightarrow> bool" where
  "DiffListIterator_isValid d \<longleftrightarrow> it_list d \<noteq> None"

text \<open>The loop over the sub-registers, with the indices that \<^verbatim>\<open>SRI\<close> points to.\<close>

fun sub_reg_loop :: "u16 list \<Rightarrow> DiffListIterator \<Rightarrow> u32 \<Rightarrow> u32 option" where
  "sub_reg_loop SRI d Idx =
     (if DiffListIterator_isValid d then
        (case SRI of
           [] \<Rightarrow> None
         | s # SRI \<Rightarrow>
             if ucast s = Idx then Some (ucast (DiffListIterator_getVal d))
             else (case DiffListIterator_next d of None \<Rightarrow> None | Some (_, d) \<Rightarrow> sub_reg_loop SRI d Idx))
      else Some 0)"

definition MCRegisterInfo_getSubReg :: "MCRegisterInfo \<Rightarrow> u32 \<Rightarrow> u32 \<Rightarrow> u32 option" where
  "MCRegisterInfo_getSubReg RI Reg Idx =
     (if unat Reg < length (Desc RI) then
        (case Desc RI ! unat Reg of
           (SubRegs, SuperRegs, Indices) \<Rightarrow>
             (case DiffListIterator_next (DiffListIterator_init (ucast Reg) (drop SubRegs (DiffLists RI))) of
                None \<Rightarrow> None
              | Some (_, iter) \<Rightarrow> sub_reg_loop (drop Indices (SubRegIndices RI)) iter Idx))
      else None)"

definition MCRegisterInfo_getRegClass :: "MCRegisterInfo \<Rightarrow> nat \<Rightarrow> u8 list option" where
  "MCRegisterInfo_getRegClass RI i = (if i \<ge> length (Classes RI) then None else Some (Classes RI ! i))"

definition MCRegisterClass_contains :: "u8 list \<Rightarrow> u32 \<Rightarrow> bool" where
  "MCRegisterClass_contains c Reg =
     (let InByte = unat (Reg mod 8);
          Byte = unat (Reg div 8)
      in if Byte \<ge> length c then False else (ucast (c ! Byte) :: u32) AND push_bit InByte 1 \<noteq> 0)"

text \<open>The loop over the super-registers; each step takes one difference.\<close>

function super_reg_loop :: "MCRegisterInfo \<Rightarrow> DiffListIterator \<Rightarrow> u32 \<Rightarrow> u32 \<Rightarrow> u8 list \<Rightarrow> u32 option" where
  "super_reg_loop RI iter Reg SubIdx RC =
     (if DiffListIterator_isValid iter then
        (let val = ucast (DiffListIterator_getVal iter);
             next = (case DiffListIterator_next iter of None \<Rightarrow> None | Some (_, iter) \<Rightarrow> super_reg_loop RI iter Reg SubIdx RC)
         in if MCRegisterClass_contains RC val then
              (case MCRegisterInfo_getSubReg RI val SubIdx of
                 None \<Rightarrow> None
               | Some sub \<Rightarrow> if Reg = sub then Some val else next)
            else next)
      else Some 0)"
  by pat_completeness auto

lemma DiffListIterator_next_shorter:
  "DiffListIterator_isValid d \<Longrightarrow> DiffListIterator_next d = Some (b, d') \<Longrightarrow>
   case_option 0 (Suc \<circ> length) (it_list d') < case_option 0 (Suc \<circ> length) (it_list d)"
  by (auto simp: DiffListIterator_next_def DiffListIterator_isValid_def split: option.splits list.splits if_splits)

termination super_reg_loop
  by (relation "measure (\<lambda>(RI, iter, _). case_option 0 (Suc \<circ> length) (it_list iter))")
    (simp, simp, metis DiffListIterator_next_shorter)

declare super_reg_loop.simps [simp del] sub_reg_loop.simps [simp del]

definition MCRegisterInfo_getMatchingSuperReg :: "MCRegisterInfo \<Rightarrow> u32 \<Rightarrow> u32 \<Rightarrow> u8 list \<Rightarrow> u32 option" where
  "MCRegisterInfo_getMatchingSuperReg RI Reg SubIdx RC =
     (if unat Reg \<ge> NumRegs RI then Some 0
      else
        (case Desc RI ! unat Reg of
           (SubRegs, SuperRegs, Indices) \<Rightarrow>
             (case DiffListIterator_next (DiffListIterator_init (ucast Reg) (drop SuperRegs (DiffLists RI))) of
                None \<Rightarrow> None
              | Some (_, iter) \<Rightarrow> super_reg_loop RI iter Reg SubIdx RC)))"

subsection \<open>What the tables hold\<close>

lemma RegisterNames_length: "length RegisterNames = 288" "length RegisterNames2 = 288"
  by code_simp+

text \<open>Names have at most 15 characters, none of them NUL or blank; those of general-purpose, single and double registers at most three.\<close>

definition name_ok :: "nat \<Rightarrow> string \<Rightarrow> bool" where
  "name_ok n s \<longleftrightarrow> length s \<le> n \<and> CHR 0x00 \<notin> set s"

lemma names_ok: "list_all (name_ok 15) RegisterNames" "list_all (name_ok 15) RegisterNames2"
  by code_simp+

definition bank_reg :: "nat \<Rightarrow> bool" where
  "bank_reg n \<longleftrightarrow> 10 \<le> n \<and> n \<le> 12 \<or> 14 \<le> n \<and> n \<le> 45 \<or> 50 \<le> n \<and> n \<le> 110"

lemma bank_names_ok:
  "list_all (\<lambda>n. bank_reg n \<longrightarrow> name_ok 3 (RegisterNames ! (n - 1)) \<and> name_ok 3 (RegisterNames2 ! (n - 1))) [0..<111]"
  by code_simp

text \<open>The halves of the pairs: the double registers of a quad register, of a pair of neighbours and of a spaced pair, and the two registers of a
  pair of general-purpose registers.\<close>

definition halves :: "nat \<Rightarrow> u32 \<Rightarrow> u32 \<Rightarrow> nat \<Rightarrow> nat \<Rightarrow> bool" where
  "halves Reg i0 i1 r0 r1 \<longleftrightarrow>
     MCRegisterInfo_getSubReg ARM_init (of_nat Reg) i0 = Some (of_nat r0) \<and>
     MCRegisterInfo_getSubReg ARM_init (of_nat Reg) i1 = Some (of_nat r1)"

lemma ARMRegDesc_lengths:
  "length ARMRegDesc_0 = 100" "length ARMRegDesc_1 = 100" "length ARMRegDesc_2 = 89"
  by (simp_all add: ARMRegDesc_0_def ARMRegDesc_1_def ARMRegDesc_2_def)

lemma ARMRegDiffLists_lengths:
  "length ARMRegDiffLists_0 = 100" "length ARMRegDiffLists_1 = 100" "length ARMRegDiffLists_2 = 100"
  "length ARMRegDiffLists_3 = 100" "length ARMRegDiffLists_4 = 100" "length ARMRegDiffLists_5 = 100"
  "length ARMRegDiffLists_6 = 100" "length ARMRegDiffLists_7 = 100" "length ARMRegDiffLists_8 = 100"
  "length ARMRegDiffLists_9 = 100" "length ARMRegDiffLists_10 = 100" "length ARMRegDiffLists_11 = 100"
  "length ARMRegDiffLists_12 = 100" "length ARMRegDiffLists_13 = 100" "length ARMRegDiffLists_14 = 100"
  "length ARMRegDiffLists_15 = 100" "length ARMRegDiffLists_16 = 100" "length ARMRegDiffLists_17 = 100"
  "length ARMRegDiffLists_18 = 100" "length ARMRegDiffLists_19 = 100" "length ARMRegDiffLists_20 = 100"
  "length ARMRegDiffLists_21 = 100" "length ARMRegDiffLists_22 = 100" "length ARMRegDiffLists_23 = 100"
  "length ARMRegDiffLists_24 = 100" "length ARMRegDiffLists_25 = 100" "length ARMRegDiffLists_26 = 100"
  "length ARMRegDiffLists_27 = 100" "length ARMRegDiffLists_28 = 100" "length ARMRegDiffLists_29 = 100"
  "length ARMRegDiffLists_30 = 100" "length ARMRegDiffLists_31 = 100" "length ARMRegDiffLists_32 = 100"
  "length ARMRegDiffLists_33 = 100" "length ARMRegDiffLists_34 = 100" "length ARMRegDiffLists_35 = 100"
  "length ARMRegDiffLists_36 = 100" "length ARMRegDiffLists_37 = 100" "length ARMRegDiffLists_38 = 100"
  "length ARMRegDiffLists_39 = 100" "length ARMRegDiffLists_40 = 100" "length ARMRegDiffLists_41 = 86"
  by (simp_all add: ARMRegDiffLists_0_def ARMRegDiffLists_1_def ARMRegDiffLists_2_def ARMRegDiffLists_3_def ARMRegDiffLists_4_def
    ARMRegDiffLists_5_def ARMRegDiffLists_6_def ARMRegDiffLists_7_def ARMRegDiffLists_8_def ARMRegDiffLists_9_def
    ARMRegDiffLists_10_def ARMRegDiffLists_11_def ARMRegDiffLists_12_def ARMRegDiffLists_13_def
    ARMRegDiffLists_14_def ARMRegDiffLists_15_def ARMRegDiffLists_16_def ARMRegDiffLists_17_def
    ARMRegDiffLists_18_def ARMRegDiffLists_19_def ARMRegDiffLists_20_def ARMRegDiffLists_21_def
    ARMRegDiffLists_22_def ARMRegDiffLists_23_def ARMRegDiffLists_24_def ARMRegDiffLists_25_def
    ARMRegDiffLists_26_def ARMRegDiffLists_27_def ARMRegDiffLists_28_def ARMRegDiffLists_29_def
    ARMRegDiffLists_30_def ARMRegDiffLists_31_def ARMRegDiffLists_32_def ARMRegDiffLists_33_def
    ARMRegDiffLists_34_def ARMRegDiffLists_35_def ARMRegDiffLists_36_def ARMRegDiffLists_37_def
    ARMRegDiffLists_38_def ARMRegDiffLists_39_def ARMRegDiffLists_40_def ARMRegDiffLists_41_def)

lemma ARMSubRegIdxLists_lengths:
  "length ARMSubRegIdxLists_0 = 100" "length ARMSubRegIdxLists_1 = 100" "length ARMSubRegIdxLists_2 = 100"
  "length ARMSubRegIdxLists_3 = 100" "length ARMSubRegIdxLists_4 = 100" "length ARMSubRegIdxLists_5 = 29"
  by (simp_all add: ARMSubRegIdxLists_0_def ARMSubRegIdxLists_1_def ARMSubRegIdxLists_2_def ARMSubRegIdxLists_3_def
    ARMSubRegIdxLists_4_def ARMSubRegIdxLists_5_def)

lemma sub_reg_step:
  "sub_reg_loop SRI \<lparr>it_val = v, it_list = None\<rparr> Idx = Some 0"
  "sub_reg_loop (s # SRI) \<lparr>it_val = v, it_list = Some (D # list)\<rparr> Idx =
     (if ucast s = Idx then Some (ucast v)
      else sub_reg_loop SRI \<lparr>it_val = v + D, it_list = (if D = 0 then None else Some list)\<rparr> Idx)"
  by (subst sub_reg_loop.simps, simp add: DiffListIterator_isValid_def DiffListIterator_getVal_def DiffListIterator_next_def)+

lemmas halves_simps = halves_def MCRegisterInfo_getSubReg_def ARM_init_def MCRegisterInfo_InitMCRegisterInfo_def DiffListIterator_init_def
  DiffListIterator_next_def sub_reg_step ARM_dsub_0_def ARM_dsub_1_def ARM_dsub_2_def ARM_gsub_0_def ARM_gsub_1_def

lemmas table_simps = ARMRegDesc_def nth_append ARMRegDesc_lengths ARMRegDiffLists_def ARMRegDiffLists_lengths
  ARMSubRegIdxLists_def ARMSubRegIdxLists_lengths ARMSubRegIdxLists_0_def

lemma quad_halves_0:
  "list_all (\<lambda>(r, r0, r1). halves r ARM_dsub_0 ARM_dsub_1 r0 r1)
     [(50, 14, 15), (51, 16, 17)]"
  by (simp add: halves_simps table_simps ARMRegDesc_0_def ARMRegDiffLists_3_def)

lemma quad_halves_1:
  "list_all (\<lambda>(r, r0, r1). halves r ARM_dsub_0 ARM_dsub_1 r0 r1)
     [(52, 18, 19), (53, 20, 21), (54, 22, 23), (55, 24, 25)]"
  by (simp add: halves_simps table_simps ARMRegDesc_0_def ARMRegDiffLists_4_def)

lemma quad_halves_2:
  "list_all (\<lambda>(r, r0, r1). halves r ARM_dsub_0 ARM_dsub_1 r0 r1)
     [(56, 26, 27), (57, 28, 29)]"
  by (simp add: halves_simps table_simps ARMRegDesc_0_def ARMRegDiffLists_5_def)

lemma quad_halves_3:
  "list_all (\<lambda>(r, r0, r1). halves r ARM_dsub_0 ARM_dsub_1 r0 r1)
     [(58, 30, 31), (59, 32, 33), (60, 34, 35), (61, 36, 37), (62, 38, 39), (63, 40, 41), (64, 42, 43), (65, 44, 45)]"
  by (simp add: halves_simps table_simps ARMRegDesc_0_def ARMRegDiffLists_8_def)

lemma quad_halves: "i < 16 \<Longrightarrow> halves (50 + i) ARM_dsub_0 ARM_dsub_1 (14 + 2 * i) (15 + 2 * i)"
proof -
  assume "i < 16"
  then have "i \<in> set [0..<16]" by simp
  then show ?thesis using quad_halves_0 quad_halves_1 quad_halves_2 quad_halves_3 by (auto simp: upt_conv_Cons)
qed

lemma pair_halves_0:
  "list_all (\<lambda>(r, r0, r1). halves r ARM_dsub_0 ARM_dsub_1 r0 r1)
     [(260, 15, 16), (261, 17, 18)]"
  by (simp add: halves_simps table_simps ARMRegDesc_2_def ARMRegDiffLists_3_def)

lemma pair_halves_1:
  "list_all (\<lambda>(r, r0, r1). halves r ARM_dsub_0 ARM_dsub_1 r0 r1)
     [(262, 19, 20), (263, 21, 22), (264, 23, 24)]"
  by (simp add: halves_simps table_simps ARMRegDesc_2_def ARMRegDiffLists_4_def)

lemma pair_halves_2:
  "list_all (\<lambda>(r, r0, r1). halves r ARM_dsub_0 ARM_dsub_1 r0 r1)
     [(265, 25, 26), (266, 27, 28), (268, 31, 32), (269, 33, 34), (270, 35, 36), (271, 37, 38), (272, 39, 40),
      (273, 41, 42), (274, 43, 44)]"
  by (simp add: halves_simps table_simps ARMRegDesc_2_def ARMRegDiffLists_5_def)

lemma pair_halves_3:
  "list_all (\<lambda>(r, r0, r1). halves r ARM_dsub_0 ARM_dsub_1 r0 r1)
     [(267, 29, 30)]"
  by (simp add: halves_simps table_simps ARMRegDesc_2_def ARMRegDiffLists_38_def)

lemma pair_halves: "i < 15 \<Longrightarrow> halves (260 + i) ARM_dsub_0 ARM_dsub_1 (15 + 2 * i) (16 + 2 * i)"
proof -
  assume "i < 15"
  then have "i \<in> set [0..<15]" by simp
  then show ?thesis using pair_halves_0 pair_halves_1 pair_halves_2 pair_halves_3 by (auto simp: upt_conv_Cons)
qed

lemma spaced_halves_0:
  "list_all (\<lambda>(r, r0, r1). halves r ARM_dsub_0 ARM_dsub_2 r0 r1)
     [(111, 14, 16), (112, 15, 17)]"
  by (simp add: halves_simps table_simps ARMRegDesc_1_def ARMRegDiffLists_3_def)

lemma spaced_halves_1:
  "list_all (\<lambda>(r, r0, r1). halves r ARM_dsub_0 ARM_dsub_2 r0 r1)
     [(113, 16, 18)]"
  by (simp add: halves_simps table_simps ARMRegDesc_1_def ARMRegDiffLists_3_def ARMRegDiffLists_4_def)

lemma spaced_halves_2:
  "list_all (\<lambda>(r, r0, r1). halves r ARM_dsub_0 ARM_dsub_2 r0 r1)
     [(114, 17, 19), (115, 18, 20), (116, 19, 21), (117, 20, 22), (118, 21, 23), (119, 22, 24), (120, 23, 25)]"
  by (simp add: halves_simps table_simps ARMRegDesc_1_def ARMRegDiffLists_4_def)

lemma spaced_halves_3:
  "list_all (\<lambda>(r, r0, r1). halves r ARM_dsub_0 ARM_dsub_2 r0 r1)
     [(121, 24, 26), (122, 25, 27), (123, 26, 28), (124, 27, 29)]"
  by (simp add: halves_simps table_simps ARMRegDesc_1_def ARMRegDiffLists_5_def)

lemma spaced_halves_4:
  "list_all (\<lambda>(r, r0, r1). halves r ARM_dsub_0 ARM_dsub_2 r0 r1)
     [(125, 28, 30)]"
  by (simp add: halves_simps table_simps ARMRegDesc_1_def ARMRegDiffLists_40_def)

lemma spaced_halves_5:
  "list_all (\<lambda>(r, r0, r1). halves r ARM_dsub_0 ARM_dsub_2 r0 r1)
     [(126, 29, 31)]"
  by (simp add: halves_simps table_simps ARMRegDesc_1_def ARMRegDiffLists_39_def)

lemma spaced_halves_6:
  "list_all (\<lambda>(r, r0, r1). halves r ARM_dsub_0 ARM_dsub_2 r0 r1)
     [(127, 30, 32), (128, 31, 33), (129, 32, 34), (130, 33, 35), (131, 34, 36), (132, 35, 37), (133, 36, 38),
      (134, 37, 39), (135, 38, 40), (136, 39, 41), (137, 40, 42), (138, 41, 43), (139, 42, 44), (140, 43, 45)]"
  by (simp add: halves_simps table_simps ARMRegDesc_1_def ARMRegDiffLists_10_def)

lemma spaced_halves: "i < 30 \<Longrightarrow> halves (111 + i) ARM_dsub_0 ARM_dsub_2 (14 + i) (16 + i)"
proof -
  assume "i < 30"
  then have "i \<in> set [0..<30]" by simp
  then show ?thesis using spaced_halves_0 spaced_halves_1 spaced_halves_2 spaced_halves_3 spaced_halves_4 spaced_halves_5 spaced_halves_6 by (auto simp: upt_conv_Cons)
qed

lemma gpr_halves_0:
  "list_all (\<lambda>(r, r0, r1). halves r ARM_gsub_0 ARM_gsub_1 r0 r1)
     [(169, 78, 12)]"
  by (simp add: halves_simps table_simps ARMRegDesc_1_def ARMRegDiffLists_41_def)

lemma gpr_halves_1:
  "list_all (\<lambda>(r, r0, r1). halves r ARM_gsub_0 ARM_gsub_1 r0 r1)
     [(170, 66, 67), (171, 68, 69), (172, 70, 71), (173, 72, 73), (174, 74, 75)]"
  by (simp add: halves_simps table_simps ARMRegDesc_1_def ARMRegDiffLists_7_def)

lemma gpr_halves_2:
  "list_all (\<lambda>(r, r0, r1). halves r ARM_gsub_0 ARM_gsub_1 r0 r1)
     [(175, 76, 77)]"
  by (simp add: halves_simps table_simps ARMRegDesc_1_def ARMRegDiffLists_7_def ARMRegDiffLists_8_def)

lemma gpr_halves: "i < 6 \<Longrightarrow> halves (170 + i) ARM_gsub_0 ARM_gsub_1 (66 + 2 * i) (67 + 2 * i)"
proof -
  assume "i < 6"
  then have "i \<in> set [0..<6]" by simp
  then show ?thesis using gpr_halves_0 gpr_halves_1 gpr_halves_2 by (auto simp: upt_conv_Cons)
qed


end
