(* ===== verification/ARM_Printer.thy ===== *)
theory ARM_Printer
  imports CS_Engine ARM_Insns ARM_Registers
begin

text \<open>The operand printers of \<^verbatim>\<open>capstone/arch/ARM/ARMInstPrinter.c\<close>, with the texts of \<^verbatim>\<open>ARMBaseInfo.h\<close>.  A printer appends to the text
  stream and, with details on, to the operands of the instruction.  It is a function on the record of what it can change; the
  instruction \<open>MI\<close>, whose operands it reads, is an argument.  \<open>None\<close> stands for an access outside an array or through a null pointer.\<close>

unbundle bit_operations_syntax

subsection \<open>What a printer works on\<close>

text \<open>The structure \<^verbatim>\<open>MI->csh\<close>, the public instruction \<^verbatim>\<open>MI->flat_insn\<close>, the stream, and the two fields of \<^verbatim>\<open>MI\<close> that printers write.\<close>

record pstate =
  ps_handle :: handle
  ps_insn :: cs_insn
  ps_stream :: SStream
  ps_writeback :: bool
  ps_pub :: nat

type_synonym printer = "pstate \<Rightarrow> pstate option"

text \<open>Statements one after the other.\<close>

fun run :: "printer list \<Rightarrow> printer" where
  "run [] p = Some p"
| "run (f # fs) p = (case f p of None \<Rightarrow> None | Some p \<Rightarrow> run fs p)"

definition cond :: "bool \<Rightarrow> printer list \<Rightarrow> printer" where
  "cond b fs p = (if b then run fs p else Some p)"

definition put0 :: "string \<Rightarrow> printer" where
  "put0 s p = map_option (\<lambda>ss. p\<lparr>ps_stream := ss\<rparr>) (SStream_concat0 (ps_stream p) s)"

definition put :: "string \<Rightarrow> printer" where
  "put s p = map_option (\<lambda>ss. p\<lparr>ps_stream := ss\<rparr>) (SStream_concat (ps_stream p) s)"

text \<open>The operands that are read, as numbers.\<close>

definition reg_at :: "MCInst \<Rightarrow> nat \<Rightarrow> u32" where
  "reg_at MI i = of_nat (reg_no (MCOperand_getReg (MCInst_getOperand MI i)))"

definition imm_at :: "MCInst \<Rightarrow> nat \<Rightarrow> u32" where
  "imm_at MI i = ucast (MCOperand_getImm (MCInst_getOperand MI i))"

subsection \<open>Details\<close>

definition ARM_OP_REG :: u32 where "ARM_OP_REG = 1"
definition ARM_OP_IMM :: u32 where "ARM_OP_IMM = 2"
definition ARM_OP_MEM :: u32 where "ARM_OP_MEM = 3"
definition ARM_OP_FP :: u32 where "ARM_OP_FP = 4"
definition ARM_OP_CIMM :: u32 where "ARM_OP_CIMM = 64"
definition ARM_OP_PIMM :: u32 where "ARM_OP_PIMM = 65"
definition ARM_OP_SETEND :: u32 where "ARM_OP_SETEND = 66"
definition ARM_OP_SYSREG :: u32 where "ARM_OP_SYSREG = 67"
definition ARM_SFT_ASR :: u32 where "ARM_SFT_ASR = 1"
definition ARM_SFT_LSL :: u32 where "ARM_SFT_LSL = 2"
definition ARM_SFT_ROR :: u32 where "ARM_SFT_ROR = 4"
definition ARM_SFT_ASR_REG :: u32 where "ARM_SFT_ASR_REG = 6"
definition ARM_SETEND_BE :: u32 where "ARM_SETEND_BE = 1"
definition ARM_SETEND_LE :: u32 where "ARM_SETEND_LE = 2"
definition ARM_CPSFLAG_NONE :: u32 where "ARM_CPSFLAG_NONE = 16"
definition ARM_REG_LR :: u32 where "ARM_REG_LR = 10"
definition ARM_REG_PC :: u32 where "ARM_REG_PC = 11"

text \<open>\<^verbatim>\<open>if (MI->csh->detail) ...\<close> with a change of \<^verbatim>\<open>MI->flat_insn->detail->arm\<close>.\<close>

definition with_detail :: "(cs_detail \<Rightarrow> cs_detail option) \<Rightarrow> printer" where
  "with_detail f p =
     (if detail (ps_handle p) \<noteq> 0 then
        (case idetail (ps_insn p) of
           None \<Rightarrow> None
         | Some d \<Rightarrow> map_option (\<lambda>d. p\<lparr>ps_insn := (ps_insn p)\<lparr>idetail := Some d\<rparr>\<rparr>) (f d))
      else Some p)"

text \<open>A change of the operand at \<^verbatim>\<open>op_count\<close> and of the one before it, and \<^verbatim>\<open>op_count++\<close>.\<close>

definition set_op :: "(cs_arm_op \<Rightarrow> cs_arm_op) \<Rightarrow> cs_detail \<Rightarrow> cs_detail option" where
  "set_op g d =
     (let i = unat (op_count d)
      in if i < length (operands d) then Some (d\<lparr>operands := (operands d)[i := g (operands d ! i)]\<rparr>) else None)"

definition set_last :: "(cs_arm_op \<Rightarrow> cs_arm_op) \<Rightarrow> cs_detail \<Rightarrow> cs_detail option" where
  "set_last g d =
     (let i = unat (op_count d)
      in if 0 < i \<and> i - 1 < length (operands d) then Some (d\<lparr>operands := (operands d)[i - 1 := g (operands d ! (i - 1))]\<rparr>) else None)"

definition next_op :: "cs_detail \<Rightarrow> cs_detail" where
  "next_op d = d\<lparr>op_count := op_count d + 1\<rparr>"

definition op_upd :: "(cs_arm_op \<Rightarrow> cs_arm_op) \<Rightarrow> printer" where
  "op_upd g = with_detail (set_op g)"

definition op_last :: "(cs_arm_op \<Rightarrow> cs_arm_op) \<Rightarrow> printer" where
  "op_last g = with_detail (set_last g)"

definition op_add :: "(cs_arm_op \<Rightarrow> cs_arm_op) \<Rightarrow> printer" where
  "op_add g = with_detail (\<lambda>d. map_option next_op (set_op g d))"

definition set_arm :: "(cs_detail \<Rightarrow> cs_detail) \<Rightarrow> printer" where
  "set_arm g = with_detail (\<lambda>d. Some (g d))"

definition add_reg :: "u32 \<Rightarrow> printer" where
  "add_reg r = op_add (\<lambda>opd. opd\<lparr>opnd_type := ARM_OP_REG, word0 := r\<rparr>)"

definition add_imm :: "u32 \<Rightarrow> printer" where
  "add_imm v = op_add (\<lambda>opd. opd\<lparr>opnd_type := ARM_OP_IMM, word0 := v\<rparr>)"

definition set_base :: "u32 \<Rightarrow> printer" where
  "set_base r = op_upd (\<lambda>opd. opd\<lparr>word0 := r\<rparr>)"

definition set_index :: "u32 \<Rightarrow> printer" where
  "set_index r = op_upd (\<lambda>opd. opd\<lparr>word1 := r\<rparr>)"

definition set_disp :: "u32 \<Rightarrow> printer" where
  "set_disp v = op_upd (\<lambda>opd. opd\<lparr>word3 := v\<rparr>)"

definition set_shift :: "u32 \<Rightarrow> u32 \<Rightarrow> cs_arm_op \<Rightarrow> cs_arm_op" where
  "set_shift t v opd = opd\<lparr>shift_type := t, shift_value := v\<rparr>"

text \<open>The reset of a memory operand.\<close>

definition start_mem :: "cs_arm_op \<Rightarrow> cs_arm_op" where
  "start_mem opd = opd\<lparr>opnd_type := ARM_OP_MEM, word0 := 0, word1 := 0, word2 := 1, word3 := 0\<rparr>"

definition set_mem_access :: "bool \<Rightarrow> printer" where
  "set_mem_access status p =
     (if detail (ps_handle p) \<noteq> CS_OPT_ON then Some p
      else
        (let p = p\<lparr>ps_handle := (ps_handle p)\<lparr>doing_mem := status\<rparr>\<rparr>
         in if status then op_upd start_mem p else set_arm next_op p))"

definition op_addImm :: "u32 \<Rightarrow> printer" where
  "op_addImm v = add_imm v"

definition ARM_addVectorDataType :: "u32 \<Rightarrow> printer" where
  "ARM_addVectorDataType vd = set_arm (\<lambda>d. d\<lparr>vector_data := vd\<rparr>)"

definition ARM_addVectorDataSize :: "u32 \<Rightarrow> printer" where
  "ARM_addVectorDataSize sz = set_arm (\<lambda>d. d\<lparr>vector_size := sz\<rparr>)"

definition ARM_addReg :: "u32 \<Rightarrow> printer" where
  "ARM_addReg reg = add_reg reg"

definition ARM_addUserMode :: printer where
  "ARM_addUserMode = set_arm (\<lambda>d. d\<lparr>usermode := True\<rparr>)"

definition ARM_addSysReg :: "u32 \<Rightarrow> printer" where
  "ARM_addSysReg reg = op_add (\<lambda>opd. opd\<lparr>opnd_type := ARM_OP_SYSREG, word0 := reg\<rparr>)"

text \<open>\<^verbatim>\<open>if (MI->csh->doing_mem) ... else ...\<close>\<close>

definition in_mem :: "printer \<Rightarrow> printer \<Rightarrow> printer" where
  "in_mem f g p = (if doing_mem (ps_handle p) then f p else g p)"

subsection \<open>Texts\<close>

text \<open>A number in decimal up to the threshold, in hexadecimal above.\<close>

definition num :: "'w::len word \<Rightarrow> string" where
  "num v = (if unat v > HEX_THRESHOLD then ''0x'' @ hex v else dec v)"

text \<open>A signed number: \<^verbatim>\<open>#0x%x\<close>, \<^verbatim>\<open>#%u\<close>, \<^verbatim>\<open>#-0x%x\<close>, \<^verbatim>\<open>#-%u\<close>.\<close>

definition snum :: "u32 \<Rightarrow> string" where
  "snum v =
     (if sint v \<ge> 0 then
        if sint v > int HEX_THRESHOLD then ''#0x'' @ hex v else ''#'' @ dec v
      else if sint v < - int HEX_THRESHOLD then ''#-0x'' @ hex (- v) else ''#-'' @ dec (- v))"

text \<open>The variant of some printers, which write every negative number in hexadecimal.\<close>

definition snum_hex :: "bool \<Rightarrow> u32 \<Rightarrow> string" where
  "snum_hex neg v = (if neg then ''#-0x'' @ hex (- v) else if sint v > int HEX_THRESHOLD then ''#0x'' @ hex v else ''#'' @ dec v)"

definition ARMCC_ARMCondCodeToString :: "u32 \<Rightarrow> string" where
  "ARMCC_ARMCondCodeToString CC =
     (case map_of (zip [0..<15]
         [''eq'', ''ne'', ''hs'', ''lo'', ''mi'', ''pl'', ''vs'', ''vc'', ''hi'', ''ls'', ''ge'', ''lt'', ''gt'', ''le'', ''al'']) (unat CC) of
        Some s \<Rightarrow> s
      | None \<Rightarrow> '''')"

definition ARM_PROC_IFlagsToString :: "u32 \<Rightarrow> string" where
  "ARM_PROC_IFlagsToString val = (if val = 1 then ''f'' else if val = 2 then ''i'' else if val = 4 then ''a'' else '''')"

definition ARM_PROC_IModToString :: "u32 \<Rightarrow> string" where
  "ARM_PROC_IModToString val = (if val = 2 then ''ie'' else if val = 3 then ''id'' else '''')"

text \<open>The options of barriers, from \<^verbatim>\<open>ARM_MB_RESERVED_0 = 1\<close> to \<^verbatim>\<open>ARM_MB_SY = 16\<close>.\<close>

definition ARM_MB_MemBOptToString :: "u32 \<Rightarrow> bool \<Rightarrow> string" where
  "ARM_MB_MemBOptToString val HasV8 =
     (if val = 0 \<or> val > 16 then ''BUGBUG''
      else
        [''#0x0'', if HasV8 then ''oshld'' else ''#0x1'', ''oshst'', ''osh'', ''#0x4'', if HasV8 then ''nshld'' else ''#0x5'',
         ''nshst'', ''nsh'', ''#0x8'', if HasV8 then ''ishld'' else ''#0x9'', ''ishst'', ''ish'', ''#0xc'',
         if HasV8 then ''ld'' else ''#0xd'', ''st'', ''sy''] ! (unat val - 1))"

definition ARM_ISB_InstSyncBOptToString :: "u32 \<Rightarrow> string" where
  "ARM_ISB_InstSyncBOptToString val = (if val = 15 then ''sy'' else if val < 15 then ''#0x'' @ hex val else ''#0x0'')"

text \<open>The values of the enumeration of shifts that the C functions return, and their texts.\<close>

definition SORegShOp :: "u32 \<Rightarrow> u32" where
  "SORegShOp Op = Op AND 7"

definition AM2ShiftOpc :: "u32 \<Rightarrow> u32" where
  "AM2ShiftOpc AM2Opc = drop_bit 13 AM2Opc AND 7"

definition shift_str :: "u32 \<Rightarrow> string" where
  "shift_str c = (case ShiftOpc_of c of None \<Rightarrow> '''' | Some ShOpc \<Rightarrow> ARM_AM_getShiftOpcStr ShOpc)"

definition ARM_AM_rrx_code :: u32 where "ARM_AM_rrx_code = 5"

lemma shift_codes: "ShiftOpc_of (SORegShOp v) = ARM_AM_getSORegShOp v" "ShiftOpc_of (AM2ShiftOpc v) = getAM2ShiftOpc v"
  by (simp_all add: SORegShOp_def AM2ShiftOpc_def ARM_AM_getSORegShOp_def getAM2ShiftOpc_def)

definition translateShiftImm :: "u32 \<Rightarrow> u32" where
  "translateShiftImm imm = (if imm = 0 then 32 else imm)"

text \<open>The pointer \<^verbatim>\<open>get_regname\<close> of the handle.\<close>

definition get_regname :: "handle \<Rightarrow> u32 \<Rightarrow> string option" where
  "get_regname h RegNo = (if noregname h then getRegisterName2 RegNo else getRegisterName RegNo)"

definition printRegName :: "u32 \<Rightarrow> printer" where
  "printRegName RegNo p = (case get_regname (ps_handle p) RegNo of None \<Rightarrow> None | Some s \<Rightarrow> put0 s p)"

text \<open>A register with its name and its operand, as most printers write it.\<close>

definition name_and_add :: "u32 \<Rightarrow> printer" where
  "name_and_add r = run [printRegName r, add_reg r]"

definition printRegImmShift :: "u32 \<Rightarrow> u32 \<Rightarrow> printer" where
  "printRegImmShift ShOpc ShImm =
     cond (\<not> (ShOpc = 0 \<or> ShOpc = ARM_SFT_LSL \<and> ShImm = 0))
       [put0 '', '',
        put0 (shift_str ShOpc),
        (let g = (\<lambda>opd. opd\<lparr>shift_type := ShOpc\<rparr>) in in_mem (op_upd g) (op_last g)),
        cond (ShOpc \<noteq> ARM_AM_rrx_code)
          [put0 '' '',
           put (''#'' @ dec (translateShiftImm ShImm)),
           (let g = (\<lambda>opd. opd\<lparr>shift_value := translateShiftImm ShImm\<rparr>) in in_mem (op_upd g) (op_last g))]]"

subsection \<open>Registers and immediates\<close>

definition ARM_INS_AND :: nat where "ARM_INS_AND = 8"
definition ARM_INS_BIC :: nat where "ARM_INS_BIC = 11"
definition ARM_INS_EOR :: nat where "ARM_INS_EOR = 34"
definition ARM_INS_MVN :: nat where "ARM_INS_MVN = 90"
definition ARM_INS_ORR :: nat where "ARM_INS_ORR = 91"

text \<open>The address that a relative branch is counted from; \<^verbatim>\<open>MI->address\<close> is the address that the public instruction has.\<close>

definition branch_base :: "handle \<Rightarrow> cs_insn \<Rightarrow> bool \<Rightarrow> u32" where
  "branch_base h insn blx =
     (if cs_mode (core h) AND CS_MODE_THUMB \<noteq> 0 then
        (let a = ucast (address insn) + 4 in if blx then a div 4 * 4 else a)
      else ucast (address insn) + 8)"

definition plain_text :: "nat \<Rightarrow> u32 \<Rightarrow> string" where
  "plain_text ident imm =
     (if ident \<in> set [ARM_INS_AND, ARM_INS_ORR, ARM_INS_EOR, ARM_INS_BIC, ARM_INS_MVN] then
        if 0 \<le> sint imm \<and> sint imm \<le> int HEX_THRESHOLD then ''#'' @ dec imm else ''#0x'' @ hex imm
      else snum imm)"

definition target_text :: "u32 \<Rightarrow> string" where
  "target_text imm = (if sint imm > int HEX_THRESHOLD then ''#0x'' @ hex imm else ''#'' @ dec imm)"

definition printOperand :: "MCInst \<Rightarrow> nat \<Rightarrow> printer" where
  "printOperand MI OpNo p =
     (let record_imm = (\<lambda>imm. in_mem (set_disp imm) (add_imm imm))
      in case MCInst_getOperand MI OpNo of
           kRegister r \<Rightarrow>
             (let Reg = reg_at MI OpNo
              in run [printRegName Reg,
                      in_mem (op_upd (\<lambda>opd. if word0 opd = 0 then opd\<lparr>word0 := Reg\<rparr> else opd\<lparr>word1 := Reg\<rparr>)) (add_reg Reg)] p)
         | kImmediate v \<Rightarrow>
             (let imm = imm_at MI OpNo;
                  opc = MCInst_getOpcode MI
              in case (ARM_rel_branch opc, ARM_blx_to_arm_mode opc) of
                   (Some rel, Some blx) \<Rightarrow>
                     if rel then
                       (let imm = imm + branch_base (ps_handle p) (ps_insn p) blx
                        in run [put (target_text imm), record_imm imm] p)
                     else run [put (plain_text (iid (ps_insn p)) imm), record_imm imm] p
                 | _ \<Rightarrow> None)
         | kInvalid \<Rightarrow> Some p)"

definition printThumbLdrLabelOperand :: "MCInst \<Rightarrow> nat \<Rightarrow> printer" where
  "printThumbLdrLabelOperand MI OpNum =
     (let v = imm_at MI OpNum;
          isSub = (sint v < 0);
          OffImm = (if v = INT32_MIN then 0 else v)
      in run
           [put0 ''[pc, '',
            put (snum_hex isSub OffImm),
            put0 '']'',
            op_add (\<lambda>opd. opd\<lparr>opnd_type := ARM_OP_MEM, word0 := ARM_REG_PC, word1 := 0, word2 := 1, word3 := OffImm\<rparr>)])"

definition printSORegRegOperand :: "MCInst \<Rightarrow> nat \<Rightarrow> printer" where
  "printSORegRegOperand MI OpNum =
     (let Reg = reg_at MI OpNum;
          v = imm_at MI (OpNum + 2);
          ShOpc = SORegShOp v
      in run
           [printRegName Reg,
            op_add (\<lambda>opd. opd\<lparr>opnd_type := ARM_OP_REG, word0 := Reg, shift_type := (v AND 7) + ARM_SFT_ASR_REG - 1\<rparr>),
            put0 '', '',
            put0 (shift_str ShOpc),
            cond (ShOpc \<noteq> ARM_AM_rrx_code)
              [put0 '' '',
               printRegName (reg_at MI (OpNum + 1)),
               op_last (\<lambda>opd. opd\<lparr>shift_value := reg_at MI (OpNum + 1)\<rparr>)]])"

definition printSORegImmOperand :: "MCInst \<Rightarrow> nat \<Rightarrow> printer" where
  "printSORegImmOperand MI OpNum =
     (let Reg = reg_at MI OpNum;
          v = imm_at MI (OpNum + 1)
      in run
           [printRegName Reg,
            op_add (\<lambda>opd. opd\<lparr>opnd_type := ARM_OP_REG, word0 := Reg, shift_type := v AND 7, shift_value := drop_bit 3 v\<rparr>),
            printRegImmShift (SORegShOp v) (getSORegOffset v)])"

subsection \<open>Addressing mode 2\<close>

definition addr_code :: "ARM_AM_AddrOpc \<Rightarrow> u32" where
  "addr_code a = (case a of ARM_AM_sub \<Rightarrow> 0 | ARM_AM_add \<Rightarrow> 1)"

definition mark_sub :: "ARM_AM_AddrOpc \<Rightarrow> cs_arm_op \<Rightarrow> cs_arm_op" where
  "mark_sub a opd = opd\<lparr>subtracted := (a = ARM_AM_sub)\<rparr>"

definition printAM2PreOrOffsetIndexOp :: "MCInst \<Rightarrow> nat \<Rightarrow> printer" where
  "printAM2PreOrOffsetIndexOp MI Op =
     (let v = imm_at MI (Op + 2);
          sign = getAM2Op v;
          index = reg_at MI (Op + 1);
          tmp = getAM2Offset v
      in run
           ([put0 ''['', set_mem_access True, printRegName (reg_at MI Op), set_base (reg_at MI Op)] @
            (if index = 0 then
               [cond (tmp \<noteq> 0)
                  [put0 '', '',
                   put (''#'' @ ARM_AM_getAddrOpcStr sign @ num tmp),
                   op_upd (\<lambda>opd. mark_sub sign (set_shift (addr_code sign) tmp opd))],
                put0 '']'',
                set_mem_access False]
             else
               [put0 '', '',
                put0 (ARM_AM_getAddrOpcStr sign),
                printRegName index,
                op_upd (\<lambda>opd. mark_sub sign (opd\<lparr>word1 := index\<rparr>)),
                printRegImmShift (AM2ShiftOpc v) tmp,
                put0 '']'',
                set_mem_access False])))"

definition printAddrModeTBB :: "MCInst \<Rightarrow> nat \<Rightarrow> printer" where
  "printAddrModeTBB MI Op =
     run [put0 ''['', set_mem_access True,
          printRegName (reg_at MI Op), set_base (reg_at MI Op),
          put0 '', '',
          printRegName (reg_at MI (Op + 1)), set_index (reg_at MI (Op + 1)),
          put0 '']'', set_mem_access False]"

definition printAddrModeTBH :: "MCInst \<Rightarrow> nat \<Rightarrow> printer" where
  "printAddrModeTBH MI Op =
     run [put0 ''['', set_mem_access True,
          printRegName (reg_at MI Op), set_base (reg_at MI Op),
          put0 '', '',
          printRegName (reg_at MI (Op + 1)), set_index (reg_at MI (Op + 1)),
          put0 '', lsl #1]'',
          op_upd (set_shift ARM_SFT_LSL 1),
          set_mem_access False]"

definition printAddrMode2Operand :: "MCInst \<Rightarrow> nat \<Rightarrow> printer" where
  "printAddrMode2Operand MI Op =
     (if \<not> MCOperand_isReg (MCInst_getOperand MI Op) then printOperand MI Op else printAM2PreOrOffsetIndexOp MI Op)"

definition printAddrMode2OffsetOperand :: "MCInst \<Rightarrow> nat \<Rightarrow> printer" where
  "printAddrMode2OffsetOperand MI OpNum =
     (let Reg = reg_at MI OpNum;
          v = imm_at MI (OpNum + 1);
          sign = getAM2Op v;
          ImmOffs = getAM2Offset v
      in if Reg = 0 then
           run [put (''#'' @ ARM_AM_getAddrOpcStr sign @ num ImmOffs),
                op_add (\<lambda>opd. mark_sub sign (opd\<lparr>opnd_type := ARM_OP_IMM, word0 := ImmOffs\<rparr>))]
         else
           run [put0 (ARM_AM_getAddrOpcStr sign),
                printRegName Reg,
                op_add (\<lambda>opd. mark_sub sign (opd\<lparr>opnd_type := ARM_OP_REG, word0 := Reg\<rparr>)),
                printRegImmShift (AM2ShiftOpc v) ImmOffs])"

subsection \<open>Addressing mode 3\<close>

definition printAM3PreOrOffsetIndexOp :: "MCInst \<Rightarrow> nat \<Rightarrow> bool \<Rightarrow> printer" where
  "printAM3PreOrOffsetIndexOp MI Op AlwaysPrintImm0 =
     (let v = imm_at MI (Op + 2);
          sign = getAM3Op v;
          index = reg_at MI (Op + 1);
          ImmOffs = ucast (getAM3Offset v) :: u32
      in run
           ([put0 ''['', set_mem_access True, printRegName (reg_at MI Op), set_base (reg_at MI Op)] @
            (if index \<noteq> 0 then
               [put0 '', '',
                put0 (ARM_AM_getAddrOpcStr sign),
                printRegName index,
                op_upd (\<lambda>opd. let opd = opd\<lparr>word1 := index\<rparr> in if sign = ARM_AM_sub then opd\<lparr>word2 := - 1, subtracted := True\<rparr> else opd),
                put0 '']'',
                set_mem_access False]
             else
               [cond (AlwaysPrintImm0 \<or> ImmOffs \<noteq> 0 \<or> sign = ARM_AM_sub) [put ('', #'' @ ARM_AM_getAddrOpcStr sign @ num ImmOffs)],
                op_upd (\<lambda>opd. if sign = ARM_AM_sub then opd\<lparr>word3 := - ImmOffs, subtracted := True\<rparr> else opd\<lparr>word3 := ImmOffs\<rparr>),
                put0 '']'',
                set_mem_access False])))"

definition printAddrMode3Operand :: "MCInst \<Rightarrow> nat \<Rightarrow> bool \<Rightarrow> printer" where
  "printAddrMode3Operand MI Op AlwaysPrintImm0 =
     (if \<not> MCOperand_isReg (MCInst_getOperand MI Op) then printOperand MI Op
      else printAM3PreOrOffsetIndexOp MI Op AlwaysPrintImm0)"

text \<open>The last assignment tests \<^verbatim>\<open>subtracted\<close>, which is 0 for a subtraction.\<close>

definition printAddrMode3OffsetOperand :: "MCInst \<Rightarrow> nat \<Rightarrow> printer" where
  "printAddrMode3OffsetOperand MI OpNum =
     (let Reg = reg_at MI OpNum;
          v = imm_at MI (OpNum + 1);
          sign = getAM3Op v;
          ImmOffs = ucast (getAM3Offset v) :: u32
      in if Reg \<noteq> 0 then
           run [put0 (ARM_AM_getAddrOpcStr sign),
                printRegName Reg,
                op_add (\<lambda>opd. mark_sub sign (opd\<lparr>opnd_type := ARM_OP_REG, word0 := Reg\<rparr>))]
         else
           run [put (''#'' @ ARM_AM_getAddrOpcStr sign @ num ImmOffs),
                op_add (\<lambda>opd.
                  let opd = opd\<lparr>opnd_type := ARM_OP_IMM\<rparr>
                  in if addr_code sign \<noteq> 0 then opd\<lparr>word0 := ImmOffs, subtracted := True\<rparr> else opd\<lparr>word0 := - ImmOffs\<rparr>)])"

subsection \<open>Offsets after the index\<close>

definition sign_256 :: "u32 \<Rightarrow> string" where
  "sign_256 Imm = (if Imm AND 256 \<noteq> 0 then '''' else ''-'')"

definition printPostIdxImm8Operand :: "MCInst \<Rightarrow> nat \<Rightarrow> printer" where
  "printPostIdxImm8Operand MI OpNum =
     (let Imm = imm_at MI OpNum
      in run [put (''#'' @ sign_256 Imm @ num (Imm AND 0xff)), add_imm (Imm AND 0xff)])"

definition printPostIdxRegOperand :: "MCInst \<Rightarrow> nat \<Rightarrow> printer" where
  "printPostIdxRegOperand MI OpNum =
     run [put0 (if MCOperand_getImm (MCInst_getOperand MI (OpNum + 1)) \<noteq> 0 then '''' else ''-''), name_and_add (reg_at MI OpNum)]"

definition printPostIdxImm8s4Operand :: "MCInst \<Rightarrow> nat \<Rightarrow> printer" where
  "printPostIdxImm8s4Operand MI OpNum =
     (let Imm = imm_at MI OpNum;
          off = push_bit 2 (Imm AND 0xff)
      in run [put (''#'' @ sign_256 Imm @ num off), add_imm (if Imm AND 256 \<noteq> 0 then off else - off)])"

subsection \<open>Addressing modes 5, 6 and 7\<close>

definition printAddrMode5Operand :: "MCInst \<Rightarrow> nat \<Rightarrow> bool \<Rightarrow> printer" where
  "printAddrMode5Operand MI OpNum AlwaysPrintImm0 =
     (let v = imm_at MI (OpNum + 1);
          sign = ARM_AM_getAM5Op v;
          ImmOffs = ucast (ARM_AM_getAM5Offset v) :: u32
      in if \<not> MCOperand_isReg (MCInst_getOperand MI OpNum) then printOperand MI OpNum
         else
           run
             [put0 ''['',
              printRegName (reg_at MI OpNum),
              op_upd (\<lambda>opd. (start_mem opd)\<lparr>word0 := reg_at MI OpNum\<rparr>),
              cond (AlwaysPrintImm0 \<or> ImmOffs \<noteq> 0 \<or> sign = ARM_AM_sub)
                [put ('', #'' @ ARM_AM_getAddrOpcStr sign @ num (ImmOffs * 4)),
                 set_disp (if addr_code sign \<noteq> 0 then ImmOffs * 4 else - ImmOffs * 4)],
              put0 '']'',
              set_arm next_op])"

definition printAddrMode6Operand :: "MCInst \<Rightarrow> nat \<Rightarrow> printer" where
  "printAddrMode6Operand MI OpNum =
     (let tmp = imm_at MI (OpNum + 1)
      in run
           [put0 ''['', set_mem_access True,
            printRegName (reg_at MI OpNum), set_base (reg_at MI OpNum),
            cond (tmp \<noteq> 0) [put ('':'' @ num (push_bit 3 tmp)), set_disp (push_bit 3 tmp)],
            put0 '']'', set_mem_access False])"

definition printAddrMode7Operand :: "MCInst \<Rightarrow> nat \<Rightarrow> printer" where
  "printAddrMode7Operand MI OpNum =
     run [put0 ''['', set_mem_access True,
          printRegName (reg_at MI OpNum), set_base (reg_at MI OpNum),
          put0 '']'', set_mem_access False]"

definition set_writeback :: printer where
  "set_writeback p = Some (p\<lparr>ps_writeback := True\<rparr>)"

definition printAddrMode6OffsetOperand :: "MCInst \<Rightarrow> nat \<Rightarrow> printer" where
  "printAddrMode6OffsetOperand MI OpNum =
     (let Reg = reg_at MI OpNum
      in if Reg = 0 then run [set_writeback, put0 ''!''] else run [put0 '', '', name_and_add Reg])"

subsection \<open>Bit fields, barriers and shifts\<close>

definition printBitfieldInvMaskImmOperand :: "MCInst \<Rightarrow> nat \<Rightarrow> printer" where
  "printBitfieldInvMaskImmOperand MI OpNum =
     (let v = NOT (imm_at MI OpNum);
          lsb = CountTrailingZeros_32 v;
          width = (32 - CountLeadingZeros_32 v) - lsb
      in run [put (target_text lsb), put ('', '' @ target_text width), add_imm lsb, add_imm width])"

definition HasV8 :: "handle \<Rightarrow> bool" where
  "HasV8 h \<longleftrightarrow> ARM_getFeatureBits (cs_mode (core h)) AND ARM_HasV8Ops \<noteq> 0"

definition printMemBOption :: "MCInst \<Rightarrow> nat \<Rightarrow> printer" where
  "printMemBOption MI OpNum p =
     (let val = imm_at MI OpNum
      in run [put0 (ARM_MB_MemBOptToString (val + 1) (HasV8 (ps_handle p))), set_arm (\<lambda>d. d\<lparr>mem_barrier := val + 1\<rparr>)] p)"

definition printInstSyncBOption :: "MCInst \<Rightarrow> nat \<Rightarrow> printer" where
  "printInstSyncBOption MI OpNum = put0 (ARM_ISB_InstSyncBOptToString (imm_at MI OpNum))"

definition printShiftImmOperand :: "MCInst \<Rightarrow> nat \<Rightarrow> printer" where
  "printShiftImmOperand MI OpNum =
     (let ShiftOp = imm_at MI OpNum;
          Amt = ShiftOp AND 0x1f
      in if ShiftOp AND push_bit 5 1 \<noteq> 0 then
           (let tmp = (if Amt = 0 then 32 else Amt)
            in run [put ('', asr #'' @ num tmp), op_last (set_shift ARM_SFT_ASR tmp)])
         else cond (Amt \<noteq> 0) [put ('', lsl #'' @ num Amt), op_last (set_shift ARM_SFT_LSL Amt)])"

definition printPKHLSLShiftImm :: "MCInst \<Rightarrow> nat \<Rightarrow> printer" where
  "printPKHLSLShiftImm MI OpNum =
     (let Imm = imm_at MI OpNum
      in cond (Imm \<noteq> 0) [put ('', lsl #'' @ num Imm), op_last (set_shift ARM_SFT_LSL Imm)])"

definition printPKHASRShiftImm :: "MCInst \<Rightarrow> nat \<Rightarrow> printer" where
  "printPKHASRShiftImm MI OpNum =
     (let Imm = (if imm_at MI OpNum = 0 then 32 else imm_at MI OpNum)
      in run [put ('', asr #'' @ num Imm), op_last (set_shift ARM_SFT_ASR Imm)])"

subsection \<open>Register lists\<close>

text \<open>The loop ends once the counter meets the number of operands; started behind it, it would leave the array.\<close>

definition printRegisterList :: "MCInst \<Rightarrow> nat \<Rightarrow> printer" where
  "printRegisterList MI OpNum =
     (if OpNum \<le> MCInst_getNumOperands MI then
        run (put0 ''{'' #
             map (\<lambda>i. run [cond (i \<noteq> OpNum) [put0 '', ''], name_and_add (reg_at MI i)]) [OpNum..<MCInst_getNumOperands MI] @
             [put0 ''}''])
      else (\<lambda>p. None))"

text \<open>A sub-register of the register tables.\<close>

definition with_subreg :: "u32 \<Rightarrow> u32 \<Rightarrow> (u32 \<Rightarrow> printer) \<Rightarrow> printer" where
  "with_subreg Reg Idx f p = (case MCRegisterInfo_getSubReg ARM_init Reg Idx of None \<Rightarrow> None | Some r \<Rightarrow> f r p)"

definition printGPRPairOperand :: "MCInst \<Rightarrow> nat \<Rightarrow> printer" where
  "printGPRPairOperand MI OpNum =
     (let Reg = reg_at MI OpNum
      in run [with_subreg Reg ARM_gsub_0 name_and_add, put0 '', '', with_subreg Reg ARM_gsub_1 name_and_add])"

subsection \<open>Modes and system registers\<close>

definition printSetendOperand :: "MCInst \<Rightarrow> nat \<Rightarrow> printer" where
  "printSetendOperand MI OpNum =
     (let add = (\<lambda>e. op_add (\<lambda>opd. opd\<lparr>opnd_type := ARM_OP_SETEND, word0 := e\<rparr>))
      in if MCOperand_getImm (MCInst_getOperand MI OpNum) \<noteq> 0 then run [put0 ''be'', add ARM_SETEND_BE]
         else run [put0 ''le'', add ARM_SETEND_LE])"

definition printCPSIMod :: "MCInst \<Rightarrow> nat \<Rightarrow> printer" where
  "printCPSIMod MI OpNum =
     (let mode = imm_at MI OpNum
      in run [put0 (ARM_PROC_IModToString mode), set_arm (\<lambda>d. d\<lparr>cps_mode := mode\<rparr>)])"

definition printCPSIFlag :: "MCInst \<Rightarrow> nat \<Rightarrow> printer" where
  "printCPSIFlag MI OpNum =
     (let IFlags = imm_at MI OpNum
      in run
           (map (\<lambda>i. cond (IFlags AND push_bit i 1 \<noteq> 0) [put0 (ARM_PROC_IFlagsToString (push_bit i 1))]) [2, 1, 0] @
            [cond (IFlags = 0) [put0 ''none''],
             set_arm (\<lambda>d. d\<lparr>cps_flag := (if IFlags = 0 then ARM_CPSFLAG_NONE else IFlags)\<rparr>)]))"

text \<open>The special registers of the M profile with their values of \<^verbatim>\<open>arm_sysreg\<close>; every other number stands for the first of them.\<close>

definition SYSm_table :: "(u32 \<times> string \<times> u32) list" where
  "SYSm_table =
     [(0x400, ''apsr_g'', 257), (0xc00, ''apsr_nzcvqg'', 259), (1, ''iapsr'', 260), (0x801, ''iapsr'', 260), (0x401, ''iapsr_g'', 261),
      (0xc01, ''iapsr_nzcvqg'', 262), (2, ''eapsr'', 263), (0x802, ''eapsr'', 263), (0x402, ''eapsr_g'', 264),
      (0xc02, ''eapsr_nzcvqg'', 265), (3, ''xpsr'', 266), (0x803, ''xpsr'', 266), (0x403, ''xpsr_g'', 267),
      (0xc03, ''xpsr_nzcvqg'', 268), (5, ''ipsr'', 269), (0x805, ''ipsr'', 269), (6, ''epsr'', 270), (0x806, ''epsr'', 270),
      (7, ''iepsr'', 271), (0x807, ''iepsr'', 271), (8, ''msp'', 272), (0x808, ''msp'', 272), (9, ''psp'', 273), (0x809, ''psp'', 273),
      (0x10, ''primask'', 274), (0x810, ''primask'', 274), (0x11, ''basepri'', 275), (0x811, ''basepri'', 275),
      (0x12, ''basepri_max'', 276), (0x812, ''basepri_max'', 276), (0x13, ''faultmask'', 277), (0x813, ''faultmask'', 277),
      (0x14, ''control'', 278), (0x814, ''control'', 278)]"

definition SYSm_entry :: "u32 \<Rightarrow> string \<times> u32" where
  "SYSm_entry SYSm = (case map_of SYSm_table SYSm of Some e \<Rightarrow> e | None \<Rightarrow> (''apsr'', 256))"

text \<open>The letters of a mask and the sum of the values of its bits, \<open>c\<close> being that of the lowest.\<close>

definition mask_letters :: "u32 \<Rightarrow> string" where
  "mask_letters Mask =
     (if Mask AND 8 \<noteq> 0 then ''f'' else '''') @ (if Mask AND 4 \<noteq> 0 then ''s'' else '''') @
     (if Mask AND 2 \<noteq> 0 then ''x'' else '''') @ (if Mask AND 1 \<noteq> 0 then ''c'' else '''')"

definition mask_value :: "u32 \<Rightarrow> u32 \<Rightarrow> u32" where
  "mask_value c Mask =
     (if Mask AND 8 \<noteq> 0 then 8 * c else 0) + (if Mask AND 4 \<noteq> 0 then 4 * c else 0) +
     (if Mask AND 2 \<noteq> 0 then 2 * c else 0) + (if Mask AND 1 \<noteq> 0 then c else 0)"

definition print_psr :: "string \<Rightarrow> u32 \<Rightarrow> u32 \<Rightarrow> printer" where
  "print_psr name c Mask =
     run [put0 name,
          cond (Mask \<noteq> 0) [put0 ''_'', put0 (mask_letters Mask), ARM_addSysReg (mask_value c Mask)]]"

definition printMSRMaskOperand :: "MCInst \<Rightarrow> nat \<Rightarrow> printer" where
  "printMSRMaskOperand MI OpNum p =
     (let v = imm_at MI OpNum;
          SpecRegRBit = drop_bit 4 v;
          Mask = v AND 0xf
      in if ARM_getFeatureBits (cs_mode (core (ps_handle p))) AND ARM_FeatureMClass \<noteq> 0 then
           (let SYSm = (if MCInst_getOpcode MI = ARM_t2MRS_M then v AND 0xff else v)
            in run [put0 (fst (SYSm_entry SYSm)), ARM_addSysReg (snd (SYSm_entry SYSm))] p)
         else if SpecRegRBit = 0 \<and> (Mask = 8 \<or> Mask = 4 \<or> Mask = 12) then
           run [put0 ''apsr_'',
                put0 (if Mask = 8 then ''nzcvq'' else if Mask = 12 then ''nzcvqg'' else ''g''),
                ARM_addSysReg (if Mask = 8 then 258 else if Mask = 12 then 259 else 257)] p
         else if SpecRegRBit \<noteq> 0 then print_psr ''spsr'' 1 Mask p
         else print_psr ''cpsr'' 16 Mask p)"

subsection \<open>Conditions and flags\<close>

definition printPredicateOperand :: "MCInst \<Rightarrow> nat \<Rightarrow> printer" where
  "printPredicateOperand MI OpNum =
     (let CC = imm_at MI OpNum
      in if CC = 15 then run [put0 ''<und>'', set_arm (\<lambda>d. d\<lparr>arm_cc := 0\<rparr>)]
         else run [cond (CC \<noteq> ARMCC_AL) [put0 (ARMCC_ARMCondCodeToString CC)], set_arm (\<lambda>d. d\<lparr>arm_cc := CC + 1\<rparr>)])"

definition printMandatoryPredicateOperand :: "MCInst \<Rightarrow> nat \<Rightarrow> printer" where
  "printMandatoryPredicateOperand MI OpNum =
     (let CC = imm_at MI OpNum
      in run [put0 (ARMCC_ARMCondCodeToString CC), set_arm (\<lambda>d. d\<lparr>arm_cc := CC + 1\<rparr>)])"

definition printSBitModifierOperand :: "MCInst \<Rightarrow> nat \<Rightarrow> printer" where
  "printSBitModifierOperand MI OpNum = cond (reg_at MI OpNum \<noteq> 0) [put0 ''s'', set_arm (\<lambda>d. d\<lparr>update_flags := True\<rparr>)]"

subsection \<open>Immediates\<close>

definition printNoHashImmediate :: "MCInst \<Rightarrow> nat \<Rightarrow> printer" where
  "printNoHashImmediate MI OpNum =
     (let tmp = imm_at MI OpNum in run [put (num tmp), in_mem (set_disp tmp) (add_imm tmp)])"

definition printPImmediate :: "MCInst \<Rightarrow> nat \<Rightarrow> printer" where
  "printPImmediate MI OpNum =
     (let imm = imm_at MI OpNum in run [put (''p'' @ dec imm), op_add (\<lambda>opd. opd\<lparr>opnd_type := ARM_OP_PIMM, word0 := imm\<rparr>)])"

definition printCImmediate :: "MCInst \<Rightarrow> nat \<Rightarrow> printer" where
  "printCImmediate MI OpNum =
     (let imm = imm_at MI OpNum in run [put (''c'' @ dec imm), op_add (\<lambda>opd. opd\<lparr>opnd_type := ARM_OP_CIMM, word0 := imm\<rparr>)])"

definition printCoprocOptionImm :: "MCInst \<Rightarrow> nat \<Rightarrow> printer" where
  "printCoprocOptionImm MI OpNum =
     (let tmp = imm_at MI OpNum in run [put (''{'' @ num tmp @ ''}''), add_imm tmp])"

definition printAdrLabelOperand :: "MCInst \<Rightarrow> nat \<Rightarrow> nat \<Rightarrow> printer" where
  "printAdrLabelOperand MI OpNum scale =
     (let OffImm = push_bit scale (imm_at MI OpNum)
      in if OffImm = INT32_MIN then run [put0 ''#-0'', add_imm 0]
         else run [put (snum_hex (sint OffImm < 0) OffImm), add_imm OffImm])"

text \<open>The text of an unsigned number after the hash sign, with its operand.\<close>

definition put_imm :: "u32 \<Rightarrow> printer" where
  "put_imm v = run [put (''#'' @ num v), add_imm v]"

definition printThumbS4ImmOperand :: "MCInst \<Rightarrow> nat \<Rightarrow> printer" where
  "printThumbS4ImmOperand MI OpNum = put_imm (imm_at MI OpNum * 4)"

definition printThumbSRImm :: "MCInst \<Rightarrow> nat \<Rightarrow> printer" where
  "printThumbSRImm MI OpNum = put_imm (if imm_at MI OpNum = 0 then 32 else imm_at MI OpNum)"

definition printImmPlusOneOperand :: "MCInst \<Rightarrow> nat \<Rightarrow> printer" where
  "printImmPlusOneOperand MI OpNum = put_imm (imm_at MI OpNum + 1)"

definition printFBits16 :: "MCInst \<Rightarrow> nat \<Rightarrow> printer" where
  "printFBits16 MI OpNum = put_imm (16 - imm_at MI OpNum)"

definition printFBits32 :: "MCInst \<Rightarrow> nat \<Rightarrow> printer" where
  "printFBits32 MI OpNum = put_imm (32 - imm_at MI OpNum)"

text \<open>The letters of an IT instruction after the first.\<close>

definition printThumbITMask :: "MCInst \<Rightarrow> nat \<Rightarrow> printer" where
  "printThumbITMask MI OpNum =
     (let Mask = imm_at MI OpNum;
          CondBit0 = imm_at MI (OpNum - 1) AND 1;
          NumTZ = unat (CountTrailingZeros_32 Mask)
      in run (map (\<lambda>Pos. put0 (if drop_bit Pos Mask AND 1 = CondBit0 then ''t'' else ''e'')) (rev [NumTZ + 1..<4])))"

subsection \<open>Addressing modes of Thumb\<close>

definition printThumbAddrModeRROperand :: "MCInst \<Rightarrow> nat \<Rightarrow> printer" where
  "printThumbAddrModeRROperand MI Op =
     (let RegNum = reg_at MI (Op + 1)
      in if \<not> MCOperand_isReg (MCInst_getOperand MI Op) then printOperand MI Op
         else
           run [put0 ''['', set_mem_access True,
                printRegName (reg_at MI Op), set_base (reg_at MI Op),
                cond (RegNum \<noteq> 0) [put0 '', '', printRegName RegNum, set_index RegNum],
                put0 '']'', set_mem_access False])"

definition printThumbAddrModeImm5SOperand :: "MCInst \<Rightarrow> nat \<Rightarrow> u32 \<Rightarrow> printer" where
  "printThumbAddrModeImm5SOperand MI Op Scale =
     (let ImmOffs = imm_at MI (Op + 1);
          tmp = ImmOffs * Scale
      in if \<not> MCOperand_isReg (MCInst_getOperand MI Op) then printOperand MI Op
         else
           run [put0 ''['', set_mem_access True,
                printRegName (reg_at MI Op), set_base (reg_at MI Op),
                cond (ImmOffs \<noteq> 0) [put0 '', '', put (''#'' @ num tmp), set_disp tmp],
                put0 '']'', set_mem_access False])"

definition printThumbAddrModeImm5S1Operand :: "MCInst \<Rightarrow> nat \<Rightarrow> printer" where
  "printThumbAddrModeImm5S1Operand MI Op = printThumbAddrModeImm5SOperand MI Op 1"

definition printThumbAddrModeImm5S2Operand :: "MCInst \<Rightarrow> nat \<Rightarrow> printer" where
  "printThumbAddrModeImm5S2Operand MI Op = printThumbAddrModeImm5SOperand MI Op 2"

definition printThumbAddrModeImm5S4Operand :: "MCInst \<Rightarrow> nat \<Rightarrow> printer" where
  "printThumbAddrModeImm5S4Operand MI Op = printThumbAddrModeImm5SOperand MI Op 4"

definition printThumbAddrModeSPOperand :: "MCInst \<Rightarrow> nat \<Rightarrow> printer" where
  "printThumbAddrModeSPOperand MI Op = printThumbAddrModeImm5SOperand MI Op 4"

definition printT2SOOperand :: "MCInst \<Rightarrow> nat \<Rightarrow> printer" where
  "printT2SOOperand MI OpNum =
     (let v = imm_at MI (OpNum + 1)
      in run [name_and_add (reg_at MI OpNum), printRegImmShift (SORegShOp v) (getSORegOffset v)])"

definition printAddrModeImm12Operand :: "MCInst \<Rightarrow> nat \<Rightarrow> bool \<Rightarrow> printer" where
  "printAddrModeImm12Operand MI OpNum AlwaysPrintImm0 =
     (let v = imm_at MI (OpNum + 1);
          isSub = (sint v < 0);
          OffImm = (if v = INT32_MIN then 0 else v)
      in if \<not> MCOperand_isReg (MCInst_getOperand MI OpNum) then printOperand MI OpNum
         else
           run [put0 ''['', set_mem_access True,
                printRegName (reg_at MI OpNum), set_base (reg_at MI OpNum),
                (if isSub then
                   put (if sint OffImm < - int HEX_THRESHOLD then '', #-0x'' @ hex (- OffImm) else '', #-'' @ dec (- OffImm))
                 else cond (AlwaysPrintImm0 \<or> sint OffImm > 0) [put ('', '' @ snum OffImm)]),
                set_disp OffImm,
                put0 '']'', set_mem_access False])"

text \<open>The part that the two printers for 8-bit offsets have in common.\<close>

definition print_imm8 :: "MCInst \<Rightarrow> nat \<Rightarrow> bool \<Rightarrow> printer" where
  "print_imm8 MI OpNum AlwaysPrintImm0 =
     (let v = imm_at MI (OpNum + 1);
          isSub = (sint v < 0);
          OffImm = (if v = INT32_MIN then 0 else v)
      in run [put0 ''['', set_mem_access True,
              printRegName (reg_at MI OpNum), set_base (reg_at MI OpNum),
              cond (isSub \<or> AlwaysPrintImm0 \<or> sint OffImm > 0) [put ('', '' @ snum_hex isSub OffImm)],
              set_disp OffImm,
              put0 '']'', set_mem_access False])"

definition printT2AddrModeImm8Operand :: "MCInst \<Rightarrow> nat \<Rightarrow> bool \<Rightarrow> printer" where
  "printT2AddrModeImm8Operand MI OpNum AlwaysPrintImm0 = print_imm8 MI OpNum AlwaysPrintImm0"

definition printT2AddrModeImm8s4Operand :: "MCInst \<Rightarrow> nat \<Rightarrow> bool \<Rightarrow> printer" where
  "printT2AddrModeImm8s4Operand MI OpNum AlwaysPrintImm0 =
     (if \<not> MCOperand_isReg (MCInst_getOperand MI OpNum) then printOperand MI OpNum
      else print_imm8 MI OpNum AlwaysPrintImm0)"

definition printT2AddrModeImm0_1020s4Operand :: "MCInst \<Rightarrow> nat \<Rightarrow> printer" where
  "printT2AddrModeImm0_1020s4Operand MI OpNum =
     (let tmp = imm_at MI (OpNum + 1) * 4
      in run [put0 ''['', set_mem_access True,
              printRegName (reg_at MI OpNum), set_base (reg_at MI OpNum),
              cond (MCOperand_getImm (MCInst_getOperand MI (OpNum + 1)) \<noteq> 0) [put0 '', '', put (''#'' @ num tmp), set_disp tmp],
              put0 '']'', set_mem_access False])"

definition print_imm8_offset :: "MCInst \<Rightarrow> nat \<Rightarrow> printer" where
  "print_imm8_offset MI OpNum =
     (let OffImm = imm_at MI OpNum
      in run (put0 '', '' #
              (if OffImm = INT32_MIN then [put0 ''#-0'', add_imm 0] else [put (snum OffImm), add_imm OffImm])))"

definition printT2AddrModeImm8OffsetOperand :: "MCInst \<Rightarrow> nat \<Rightarrow> printer" where
  "printT2AddrModeImm8OffsetOperand MI OpNum = print_imm8_offset MI OpNum"

definition printT2AddrModeImm8s4OffsetOperand :: "MCInst \<Rightarrow> nat \<Rightarrow> printer" where
  "printT2AddrModeImm8s4OffsetOperand MI OpNum = print_imm8_offset MI OpNum"

text \<open>The shift is stored in the operand before the memory operand, which is still open.\<close>

definition printT2AddrModeSoRegOperand :: "MCInst \<Rightarrow> nat \<Rightarrow> printer" where
  "printT2AddrModeSoRegOperand MI OpNum =
     (let ShAmt = imm_at MI (OpNum + 2)
      in run [put0 ''['', set_mem_access True,
              printRegName (reg_at MI OpNum), set_base (reg_at MI OpNum),
              put0 '', '',
              printRegName (reg_at MI (OpNum + 1)), set_index (reg_at MI (OpNum + 1)),
              cond (ShAmt \<noteq> 0)
                [put0 '', lsl '',
                 put (if sint ShAmt < 0 then ''#-'' @ dec (- ShAmt) else ''#'' @ dec ShAmt),
                 op_last (set_shift ARM_SFT_LSL ShAmt)],
              put0 '']'', set_mem_access False])"

subsection \<open>Floating-point and vector operands\<close>

text \<open>The conversion \<^verbatim>\<open>%e\<close> of a normal number in single precision, given by its bits: the first decimal exponent that fits, and the
  seven digits of the nearest decimal fraction.\<close>

definition float_num :: "u32 \<Rightarrow> nat \<times> nat" where
  "float_num b =
     (let e = unat (drop_bit 23 b AND 0xff);
          m = 2 ^ 23 + unat (b AND 0x7fffff)
      in if e \<ge> 150 then (m * 2 ^ (e - 150), 1) else (m, 2 ^ (150 - e)))"

definition round_div :: "nat \<Rightarrow> nat \<Rightarrow> nat" where
  "round_div a b =
     (let q = a div b; r = a mod b
      in if 2 * r > b \<or> 2 * r = b \<and> odd q then q + 1 else q)"

definition two_digits :: "nat \<Rightarrow> string" where
  "two_digits n = (if n < 10 then ''0'' else '''') @ radix 10 n"

definition printf_e :: "u32 \<Rightarrow> string" where
  "printf_e b =
     (let (n, d) = float_num b;
          pos = filter (\<lambda>x. d * 10 ^ x \<le> n \<and> n < d * 10 ^ (x + 1)) [0..<39];
          neg = filter (\<lambda>x. d \<le> n * 10 ^ x \<and> n * 10 ^ x < d * 10) [1..<39];
          (mant, sign, x) =
            (case pos of
               x # _ \<Rightarrow> (round_div (n * 10 ^ 6) (d * 10 ^ x), ''+'', x)
             | [] \<Rightarrow> (case neg of x # _ \<Rightarrow> (round_div (n * 10 ^ (6 + x)) d, ''-'', x) | [] \<Rightarrow> (0, ''+'', 0)));
          digits = radix 10 mant
      in (if drop_bit 31 b \<noteq> 0 then ''-'' else '''') @ take 1 digits @ ''.'' @ drop 1 digits @ ''e'' @ sign @ two_digits x)"

text \<open>The bits of the same number in double precision.\<close>

definition to_double :: "u32 \<Rightarrow> u64" where
  "to_double b =
     push_bit 63 (ucast (drop_bit 31 b)) OR push_bit 52 (ucast (drop_bit 23 b AND 0xff) + 896) OR push_bit 29 (ucast (b AND 0x7fffff))"

definition printFPImmOperand :: "MCInst \<Rightarrow> nat \<Rightarrow> printer" where
  "printFPImmOperand MI OpNum =
     (let f = getFPImmFloat (imm_at MI OpNum);
          v = to_double f
      in run [put (''#'' @ printf_e f), op_add (\<lambda>opd. opd\<lparr>opnd_type := ARM_OP_FP, word0 := ucast v, word1 := ucast (drop_bit 32 v)\<rparr>)])"

definition printNEONModImmOperand :: "MCInst \<Rightarrow> nat \<Rightarrow> printer" where
  "printNEONModImmOperand MI OpNum =
     (let Val = (case ARM_AM_decodeNEONModImm (imm_at MI OpNum) of None \<Rightarrow> 0 | Some (v, _) \<Rightarrow> v)
      in run [put (''#'' @ num Val), add_imm (ucast Val)])"

definition printRotImmOperand :: "MCInst \<Rightarrow> nat \<Rightarrow> printer" where
  "printRotImmOperand MI OpNum =
     (let Imm = imm_at MI OpNum
      in cond (Imm \<noteq> 0)
           [put0 '', ror #'', put0 (if Imm = 2 then ''16'' else if Imm = 3 then ''24'' else ''8''), op_last (set_shift ARM_SFT_ROR (Imm * 8))])"

definition printVectorIndex :: "MCInst \<Rightarrow> nat \<Rightarrow> printer" where
  "printVectorIndex MI OpNum =
     (let tmp = imm_at MI OpNum in run [put (''['' @ num tmp @ '']''), op_last (\<lambda>opd. opd\<lparr>vector_index := tmp\<rparr>)])"

text \<open>A list of vectors: the registers at given distances from the operand, with a separator and a closing text.\<close>

definition vector_list :: "u32 \<Rightarrow> u32 list \<Rightarrow> string \<Rightarrow> string \<Rightarrow> printer" where
  "vector_list Reg ds sep close =
     run (put0 ''{'' # concat (map (\<lambda>(i, d). (if i = 0 then [] else [put0 sep]) @ [name_and_add (Reg + d)]) (enumerate 0 ds)) @ [put0 close])"

definition vector_pair :: "u32 \<Rightarrow> u32 \<Rightarrow> u32 \<Rightarrow> string \<Rightarrow> string \<Rightarrow> printer" where
  "vector_pair Reg i0 i1 sep close =
     run [put0 ''{'', with_subreg Reg i0 name_and_add, put0 sep, with_subreg Reg i1 name_and_add, put0 close]"

definition printVectorListOne :: "MCInst \<Rightarrow> nat \<Rightarrow> printer" where
  "printVectorListOne MI OpNum = vector_list (reg_at MI OpNum) [0] '', '' ''}''"

definition printVectorListTwo :: "MCInst \<Rightarrow> nat \<Rightarrow> printer" where
  "printVectorListTwo MI OpNum = vector_pair (reg_at MI OpNum) ARM_dsub_0 ARM_dsub_1 '', '' ''}''"

definition printVectorListTwoSpaced :: "MCInst \<Rightarrow> nat \<Rightarrow> printer" where
  "printVectorListTwoSpaced MI OpNum = vector_pair (reg_at MI OpNum) ARM_dsub_0 ARM_dsub_2 '', '' ''}''"

definition printVectorListThree :: "MCInst \<Rightarrow> nat \<Rightarrow> printer" where
  "printVectorListThree MI OpNum = vector_list (reg_at MI OpNum) [0, 1, 2] '', '' ''}''"

definition printVectorListFour :: "MCInst \<Rightarrow> nat \<Rightarrow> printer" where
  "printVectorListFour MI OpNum = vector_list (reg_at MI OpNum) [0, 1, 2, 3] '', '' ''}''"

definition printVectorListOneAllLanes :: "MCInst \<Rightarrow> nat \<Rightarrow> printer" where
  "printVectorListOneAllLanes MI OpNum = vector_list (reg_at MI OpNum) [0] ''[], '' ''[]}''"

definition printVectorListTwoAllLanes :: "MCInst \<Rightarrow> nat \<Rightarrow> printer" where
  "printVectorListTwoAllLanes MI OpNum = vector_pair (reg_at MI OpNum) ARM_dsub_0 ARM_dsub_1 ''[], '' ''[]}''"

definition printVectorListThreeAllLanes :: "MCInst \<Rightarrow> nat \<Rightarrow> printer" where
  "printVectorListThreeAllLanes MI OpNum = vector_list (reg_at MI OpNum) [0, 1, 2] ''[], '' ''[]}''"

definition printVectorListFourAllLanes :: "MCInst \<Rightarrow> nat \<Rightarrow> printer" where
  "printVectorListFourAllLanes MI OpNum = vector_list (reg_at MI OpNum) [0, 1, 2, 3] ''[], '' ''[]}''"

definition printVectorListTwoSpacedAllLanes :: "MCInst \<Rightarrow> nat \<Rightarrow> printer" where
  "printVectorListTwoSpacedAllLanes MI OpNum = vector_pair (reg_at MI OpNum) ARM_dsub_0 ARM_dsub_2 ''[], '' ''[]}''"

definition printVectorListThreeSpacedAllLanes :: "MCInst \<Rightarrow> nat \<Rightarrow> printer" where
  "printVectorListThreeSpacedAllLanes MI OpNum = vector_list (reg_at MI OpNum) [0, 2, 4] ''[], '' ''[]}''"

definition printVectorListFourSpacedAllLanes :: "MCInst \<Rightarrow> nat \<Rightarrow> printer" where
  "printVectorListFourSpacedAllLanes MI OpNum = vector_list (reg_at MI OpNum) [0, 2, 4, 6] ''[], '' ''[]}''"

definition printVectorListThreeSpaced :: "MCInst \<Rightarrow> nat \<Rightarrow> printer" where
  "printVectorListThreeSpaced MI OpNum = vector_list (reg_at MI OpNum) [0, 2, 4] '', '' ''}''"

definition printVectorListFourSpaced :: "MCInst \<Rightarrow> nat \<Rightarrow> printer" where
  "printVectorListFourSpaced MI OpNum = vector_list (reg_at MI OpNum) [0, 2, 4, 6] '', '' ''}''"

end
