(* ===== verification/ARM_AsmWriter.thy ===== *)
theory ARM_AsmWriter
  imports ARM_Printer
begin

text \<open>The generated writer of ARM instructions, \<^verbatim>\<open>capstone/arch/ARM/ARMGenAsmWriter.inc\<close>, and \<^verbatim>\<open>ARM_printInst\<close> of
  \<^verbatim>\<open>ARMInstPrinter.c\<close>.  The body of \<^verbatim>\<open>printInstruction\<close> is a table: a 64-bit word for every instruction chooses the first word of its
  text and, in eleven fields, the statements that follow.  The statements are data here, so that they can be checked as well as run.\<close>

unbundle bit_operations_syntax

subsection \<open>Statements\<close>

definition ARM_INS_NOP :: nat where "ARM_INS_NOP = 427"
definition ARM_INS_YIELD :: nat where "ARM_INS_YIELD = 428"
definition ARM_INS_WFE :: nat where "ARM_INS_WFE = 429"
definition ARM_INS_WFI :: nat where "ARM_INS_WFI = 430"
definition ARM_INS_SEV :: nat where "ARM_INS_SEV = 431"
definition ARM_INS_SEVL :: nat where "ARM_INS_SEVL = 432"
definition ARM_INS_PUSH :: nat where "ARM_INS_PUSH = 426"
definition ARM_INS_POP :: nat where "ARM_INS_POP = 425"
definition ARM_INS_VPUSH :: nat where "ARM_INS_VPUSH = 433"
definition ARM_INS_VPOP :: nat where "ARM_INS_VPOP = 434"
definition ARM_INS_LDM :: nat where "ARM_INS_LDM = 57"
definition ARM_VECTORDATA_I8 :: u32 where "ARM_VECTORDATA_I8 = 1"
definition ARM_REG_APSR :: u32 where "ARM_REG_APSR = 1"
definition ARM_REG_APSR_NZCV :: u32 where "ARM_REG_APSR_NZCV = 2"
definition ARM_VECTORDATA_I16 :: u32 where "ARM_VECTORDATA_I16 = 2"
definition ARM_VECTORDATA_I32 :: u32 where "ARM_VECTORDATA_I32 = 3"
definition ARM_VECTORDATA_I64 :: u32 where "ARM_VECTORDATA_I64 = 4"
definition ARM_REG_FPEXC :: u32 where "ARM_REG_FPEXC = 4"
definition ARM_VECTORDATA_S8 :: u32 where "ARM_VECTORDATA_S8 = 5"
definition ARM_REG_FPINST :: u32 where "ARM_REG_FPINST = 5"
definition ARM_REG_FPSCR :: u32 where "ARM_REG_FPSCR = 6"
definition ARM_VECTORDATA_S16 :: u32 where "ARM_VECTORDATA_S16 = 6"
definition ARM_VECTORDATA_S32 :: u32 where "ARM_VECTORDATA_S32 = 7"
definition ARM_REG_FPSID :: u32 where "ARM_REG_FPSID = 8"
definition ARM_VECTORDATA_S64 :: u32 where "ARM_VECTORDATA_S64 = 8"
definition ARM_VECTORDATA_U8 :: u32 where "ARM_VECTORDATA_U8 = 9"
definition ARM_VECTORDATA_U16 :: u32 where "ARM_VECTORDATA_U16 = 10"
definition ARM_VECTORDATA_U32 :: u32 where "ARM_VECTORDATA_U32 = 11"
definition ARM_VECTORDATA_U64 :: u32 where "ARM_VECTORDATA_U64 = 12"
definition ARM_REG_SP :: u32 where "ARM_REG_SP = 12"
definition ARM_VECTORDATA_P8 :: u32 where "ARM_VECTORDATA_P8 = 13"
definition ARM_REG_SPSR :: u32 where "ARM_REG_SPSR = 13"
definition ARM_VECTORDATA_F32 :: u32 where "ARM_VECTORDATA_F32 = 14"
definition ARM_VECTORDATA_F64 :: u32 where "ARM_VECTORDATA_F64 = 15"
definition ARM_VECTORDATA_F16F64 :: u32 where "ARM_VECTORDATA_F16F64 = 16"
definition ARM_VECTORDATA_F64F16 :: u32 where "ARM_VECTORDATA_F64F16 = 17"
definition ARM_VECTORDATA_F32F16 :: u32 where "ARM_VECTORDATA_F32F16 = 18"
definition ARM_VECTORDATA_F16F32 :: u32 where "ARM_VECTORDATA_F16F32 = 19"
definition ARM_VECTORDATA_F64F32 :: u32 where "ARM_VECTORDATA_F64F32 = 20"
definition ARM_VECTORDATA_F32F64 :: u32 where "ARM_VECTORDATA_F32F64 = 21"
definition ARM_VECTORDATA_S32F32 :: u32 where "ARM_VECTORDATA_S32F32 = 22"
definition ARM_VECTORDATA_U32F32 :: u32 where "ARM_VECTORDATA_U32F32 = 23"
definition ARM_VECTORDATA_F32S32 :: u32 where "ARM_VECTORDATA_F32S32 = 24"
definition ARM_VECTORDATA_F32U32 :: u32 where "ARM_VECTORDATA_F32U32 = 25"
definition ARM_VECTORDATA_F64S16 :: u32 where "ARM_VECTORDATA_F64S16 = 26"
definition ARM_VECTORDATA_F32S16 :: u32 where "ARM_VECTORDATA_F32S16 = 27"
definition ARM_VECTORDATA_F64S32 :: u32 where "ARM_VECTORDATA_F64S32 = 28"
definition ARM_VECTORDATA_S16F64 :: u32 where "ARM_VECTORDATA_S16F64 = 29"
definition ARM_VECTORDATA_S16F32 :: u32 where "ARM_VECTORDATA_S16F32 = 30"
definition ARM_VECTORDATA_S32F64 :: u32 where "ARM_VECTORDATA_S32F64 = 31"
definition ARM_VECTORDATA_U16F64 :: u32 where "ARM_VECTORDATA_U16F64 = 32"
definition ARM_VECTORDATA_U16F32 :: u32 where "ARM_VECTORDATA_U16F32 = 33"
definition ARM_VECTORDATA_U32F64 :: u32 where "ARM_VECTORDATA_U32F64 = 34"
definition ARM_VECTORDATA_F64U16 :: u32 where "ARM_VECTORDATA_F64U16 = 35"
definition ARM_VECTORDATA_F32U16 :: u32 where "ARM_VECTORDATA_F32U16 = 36"
definition ARM_VECTORDATA_F64U32 :: u32 where "ARM_VECTORDATA_F64U32 = 37"
definition ARM_REG_FPINST2 :: u32 where "ARM_REG_FPINST2 = 46"
definition ARM_REG_MVFR0 :: u32 where "ARM_REG_MVFR0 = 47"
definition ARM_REG_MVFR1 :: u32 where "ARM_REG_MVFR1 = 48"
definition ARM_REG_MVFR2 :: u32 where "ARM_REG_MVFR2 = 49"

definition TAB :: char where "TAB = CHR 0x09"

text \<open>The operand printers that the generated code calls, with the arguments it gives them.\<close>

datatype vector_printer =
    call_printVectorListOneAllLanes | call_printVectorListTwoAllLanes | call_printVectorListOne | call_printVectorListFour
  | call_printVectorListThree | call_printVectorListTwo | call_printVectorListTwoSpacedAllLanes
  | call_printVectorListTwoSpaced | call_printVectorListThreeAllLanes | call_printVectorListThreeSpacedAllLanes
  | call_printVectorListThreeSpaced | call_printVectorListFourAllLanes | call_printVectorListFourSpacedAllLanes
  | call_printVectorListFourSpaced

primrec exec_vector_printer :: "vector_printer \<Rightarrow> MCInst \<Rightarrow> nat \<Rightarrow> printer" where
  "exec_vector_printer call_printVectorListOneAllLanes MI = printVectorListOneAllLanes MI"
| "exec_vector_printer call_printVectorListTwoAllLanes MI = printVectorListTwoAllLanes MI"
| "exec_vector_printer call_printVectorListOne MI = printVectorListOne MI"
| "exec_vector_printer call_printVectorListFour MI = printVectorListFour MI"
| "exec_vector_printer call_printVectorListThree MI = printVectorListThree MI"
| "exec_vector_printer call_printVectorListTwo MI = printVectorListTwo MI"
| "exec_vector_printer call_printVectorListTwoSpacedAllLanes MI = printVectorListTwoSpacedAllLanes MI"
| "exec_vector_printer call_printVectorListTwoSpaced MI = printVectorListTwoSpaced MI"
| "exec_vector_printer call_printVectorListThreeAllLanes MI = printVectorListThreeAllLanes MI"
| "exec_vector_printer call_printVectorListThreeSpacedAllLanes MI = printVectorListThreeSpacedAllLanes MI"
| "exec_vector_printer call_printVectorListThreeSpaced MI = printVectorListThreeSpaced MI"
| "exec_vector_printer call_printVectorListFourAllLanes MI = printVectorListFourAllLanes MI"
| "exec_vector_printer call_printVectorListFourSpacedAllLanes MI = printVectorListFourSpacedAllLanes MI"
| "exec_vector_printer call_printVectorListFourSpaced MI = printVectorListFourSpaced MI"

datatype memory_printer =
    call_printAddrModeImm12Operand bool | call_printAddrMode2Operand | call_printAddrMode7Operand
  | call_printAddrMode5Operand bool | call_printAddrMode6Operand | call_printT2AddrModeImm8Operand bool
  | call_printT2AddrModeSoRegOperand | call_printAddrModeTBB | call_printAddrModeTBH | call_printAddrMode3Operand bool
  | call_printT2AddrModeImm0_1020s4Operand | call_printThumbAddrModeImm5S1Operand | call_printThumbAddrModeRROperand
  | call_printThumbAddrModeImm5S2Operand | call_printThumbAddrModeImm5S4Operand | call_printThumbAddrModeSPOperand
  | call_printT2AddrModeImm8s4Operand bool

primrec exec_memory_printer :: "memory_printer \<Rightarrow> MCInst \<Rightarrow> nat \<Rightarrow> printer" where
  "exec_memory_printer (call_printAddrModeImm12Operand x) MI = (\<lambda>i. printAddrModeImm12Operand MI i x)"
| "exec_memory_printer call_printAddrMode2Operand MI = printAddrMode2Operand MI"
| "exec_memory_printer call_printAddrMode7Operand MI = printAddrMode7Operand MI"
| "exec_memory_printer (call_printAddrMode5Operand x) MI = (\<lambda>i. printAddrMode5Operand MI i x)"
| "exec_memory_printer call_printAddrMode6Operand MI = printAddrMode6Operand MI"
| "exec_memory_printer (call_printT2AddrModeImm8Operand x) MI = (\<lambda>i. printT2AddrModeImm8Operand MI i x)"
| "exec_memory_printer call_printT2AddrModeSoRegOperand MI = printT2AddrModeSoRegOperand MI"
| "exec_memory_printer call_printAddrModeTBB MI = printAddrModeTBB MI"
| "exec_memory_printer call_printAddrModeTBH MI = printAddrModeTBH MI"
| "exec_memory_printer (call_printAddrMode3Operand x) MI = (\<lambda>i. printAddrMode3Operand MI i x)"
| "exec_memory_printer call_printT2AddrModeImm0_1020s4Operand MI = printT2AddrModeImm0_1020s4Operand MI"
| "exec_memory_printer call_printThumbAddrModeImm5S1Operand MI = printThumbAddrModeImm5S1Operand MI"
| "exec_memory_printer call_printThumbAddrModeRROperand MI = printThumbAddrModeRROperand MI"
| "exec_memory_printer call_printThumbAddrModeImm5S2Operand MI = printThumbAddrModeImm5S2Operand MI"
| "exec_memory_printer call_printThumbAddrModeImm5S4Operand MI = printThumbAddrModeImm5S4Operand MI"
| "exec_memory_printer call_printThumbAddrModeSPOperand MI = printThumbAddrModeSPOperand MI"
| "exec_memory_printer (call_printT2AddrModeImm8s4Operand x) MI = (\<lambda>i. printT2AddrModeImm8s4Operand MI i x)"

datatype register_printer =
    call_printSBitModifierOperand | call_printOperand | call_printSORegRegOperand | call_printGPRPairOperand
  | call_printThumbLdrLabelOperand | call_printRegisterList | call_printPostIdxImm8s4Operand | call_printVectorIndex
  | call_printSORegImmOperand | call_printAddrMode6OffsetOperand | call_printT2SOOperand | call_printShiftImmOperand
  | call_printRotImmOperand | call_printT2AddrModeImm8OffsetOperand | call_printAddrMode2OffsetOperand
  | call_printPostIdxImm8Operand | call_printPostIdxRegOperand | call_printAddrMode3OffsetOperand | call_printPKHLSLShiftImm
  | call_printPKHASRShiftImm | call_printT2AddrModeImm8s4OffsetOperand

primrec exec_register_printer :: "register_printer \<Rightarrow> MCInst \<Rightarrow> nat \<Rightarrow> printer" where
  "exec_register_printer call_printSBitModifierOperand MI = printSBitModifierOperand MI"
| "exec_register_printer call_printOperand MI = printOperand MI"
| "exec_register_printer call_printSORegRegOperand MI = printSORegRegOperand MI"
| "exec_register_printer call_printGPRPairOperand MI = printGPRPairOperand MI"
| "exec_register_printer call_printThumbLdrLabelOperand MI = printThumbLdrLabelOperand MI"
| "exec_register_printer call_printRegisterList MI = printRegisterList MI"
| "exec_register_printer call_printPostIdxImm8s4Operand MI = printPostIdxImm8s4Operand MI"
| "exec_register_printer call_printVectorIndex MI = printVectorIndex MI"
| "exec_register_printer call_printSORegImmOperand MI = printSORegImmOperand MI"
| "exec_register_printer call_printAddrMode6OffsetOperand MI = printAddrMode6OffsetOperand MI"
| "exec_register_printer call_printT2SOOperand MI = printT2SOOperand MI"
| "exec_register_printer call_printShiftImmOperand MI = printShiftImmOperand MI"
| "exec_register_printer call_printRotImmOperand MI = printRotImmOperand MI"
| "exec_register_printer call_printT2AddrModeImm8OffsetOperand MI = printT2AddrModeImm8OffsetOperand MI"
| "exec_register_printer call_printAddrMode2OffsetOperand MI = printAddrMode2OffsetOperand MI"
| "exec_register_printer call_printPostIdxImm8Operand MI = printPostIdxImm8Operand MI"
| "exec_register_printer call_printPostIdxRegOperand MI = printPostIdxRegOperand MI"
| "exec_register_printer call_printAddrMode3OffsetOperand MI = printAddrMode3OffsetOperand MI"
| "exec_register_printer call_printPKHLSLShiftImm MI = printPKHLSLShiftImm MI"
| "exec_register_printer call_printPKHASRShiftImm MI = printPKHASRShiftImm MI"
| "exec_register_printer call_printT2AddrModeImm8s4OffsetOperand MI = printT2AddrModeImm8s4OffsetOperand MI"

datatype number_printer =
    call_printPredicateOperand | call_printPImmediate | call_printCPSIMod | call_printMemBOption | call_printInstSyncBOption
  | call_printThumbITMask | call_printCImmediate | call_printSetendOperand | call_printFBits16 | call_printCPSIFlag
  | call_printMandatoryPredicateOperand | call_printMSRMaskOperand | call_printNEONModImmOperand | call_printFPImmOperand
  | call_printCoprocOptionImm | call_printFBits32 | call_printAdrLabelOperand nat | call_printBitfieldInvMaskImmOperand
  | call_printImmPlusOneOperand | call_printNoHashImmediate | call_printThumbS4ImmOperand | call_printThumbSRImm

primrec exec_number_printer :: "number_printer \<Rightarrow> MCInst \<Rightarrow> nat \<Rightarrow> printer" where
  "exec_number_printer call_printPredicateOperand MI = printPredicateOperand MI"
| "exec_number_printer call_printPImmediate MI = printPImmediate MI"
| "exec_number_printer call_printCPSIMod MI = printCPSIMod MI"
| "exec_number_printer call_printMemBOption MI = printMemBOption MI"
| "exec_number_printer call_printInstSyncBOption MI = printInstSyncBOption MI"
| "exec_number_printer call_printThumbITMask MI = printThumbITMask MI"
| "exec_number_printer call_printCImmediate MI = printCImmediate MI"
| "exec_number_printer call_printSetendOperand MI = printSetendOperand MI"
| "exec_number_printer call_printFBits16 MI = printFBits16 MI"
| "exec_number_printer call_printCPSIFlag MI = printCPSIFlag MI"
| "exec_number_printer call_printMandatoryPredicateOperand MI = printMandatoryPredicateOperand MI"
| "exec_number_printer call_printMSRMaskOperand MI = printMSRMaskOperand MI"
| "exec_number_printer call_printNEONModImmOperand MI = printNEONModImmOperand MI"
| "exec_number_printer call_printFPImmOperand MI = printFPImmOperand MI"
| "exec_number_printer call_printCoprocOptionImm MI = printCoprocOptionImm MI"
| "exec_number_printer call_printFBits32 MI = printFBits32 MI"
| "exec_number_printer (call_printAdrLabelOperand x) MI = (\<lambda>i. printAdrLabelOperand MI i x)"
| "exec_number_printer call_printBitfieldInvMaskImmOperand MI = printBitfieldInvMaskImmOperand MI"
| "exec_number_printer call_printImmPlusOneOperand MI = printImmPlusOneOperand MI"
| "exec_number_printer call_printNoHashImmediate MI = printNoHashImmediate MI"
| "exec_number_printer call_printThumbS4ImmOperand MI = printThumbS4ImmOperand MI"
| "exec_number_printer call_printThumbSRImm MI = printThumbSRImm MI"

text \<open>The statements of the generated code and of \<^verbatim>\<open>ARM_printInst\<close>: \<open>NameReg i\<close> writes the register operand \<open>i\<close> and adds it to the
  details, \<open>ShiftText i\<close> writes the name of the shift in operand \<open>i\<close>, and \<open>ShiftLast i\<close> its amount.\<close>

datatype cmd =
    Text string | SetMem bool | AddReg u32 | AddImm u32 | VecType u32 | VecSize u32 | UserMode
  | Vectors vector_printer nat | Memory memory_printer nat | Registers register_printer nat | Number number_printer nat
  | SetPub nat | SetWriteback | NameReg nat | ShiftText nat | ShiftLast nat

definition set_pub :: "nat \<Rightarrow> printer" where
  "set_pub n p = Some (p\<lparr>ps_pub := n\<rparr>)"

definition print_shift_amount :: "u32 \<Rightarrow> printer" where
  "print_shift_amount v =
     (let tmp = translateShiftImm (getSORegOffset v)
      in run [put0 '', '', put (''#'' @ num tmp), op_last (set_shift (SORegShOp v) tmp)])"

primrec exec :: "MCInst \<Rightarrow> cmd \<Rightarrow> printer" where
  "exec MI (Text s) = put0 s"
| "exec MI (SetMem b) = set_mem_access b"
| "exec MI (AddReg r) = ARM_addReg r"
| "exec MI (AddImm v) = op_addImm v"
| "exec MI (VecType t) = ARM_addVectorDataType t"
| "exec MI (VecSize n) = ARM_addVectorDataSize n"
| "exec MI UserMode = ARM_addUserMode"
| "exec MI (Vectors f i) = exec_vector_printer f MI i"
| "exec MI (Memory f i) = exec_memory_printer f MI i"
| "exec MI (Registers f i) = exec_register_printer f MI i"
| "exec MI (Number f i) = exec_number_printer f MI i"
| "exec MI (SetPub n) = set_pub n"
| "exec MI SetWriteback = set_writeback"
| "exec MI (NameReg i) = name_and_add (reg_at MI i)"
| "exec MI (ShiftText i) = put0 (shift_str (SORegShOp (imm_at MI i)))"
| "exec MI (ShiftLast i) = print_shift_amount (imm_at MI i)"

definition exec_all :: "MCInst \<Rightarrow> cmd list \<Rightarrow> printer" where
  "exec_all MI cs = run (map (exec MI) cs)"

subsection \<open>The table\<close>

text \<open>The strings of \<^verbatim>\<open>AsmStrs\<close>, which are written there one after the other, each with its NUL; the offsets in the table may point
  into the middle of one.\<close>

definition AsmStrings_0 :: "string list" where
  "AsmStrings_0 =
     [''sha1su0.32'' @ [TAB], ''sha256su0.32'' @ [TAB], ''sha1su1.32'' @ [TAB], ''sha256su1.32'' @ [TAB],
      ''sha256h2.32'' @ [TAB], ''sha1c.32'' @ [TAB], ''sha1h.32'' @ [TAB], ''sha256h.32'' @ [TAB], ''sha1m.32'' @ [TAB],
      ''sha1p.32'' @ [TAB], ''vcvta.s32.f32'' @ [TAB], ''vcvtm.s32.f32'' @ [TAB], ''vcvtn.s32.f32'' @ [TAB],
      ''vcvtp.s32.f32'' @ [TAB], ''vcvta.u32.f32'' @ [TAB], ''vcvtm.u32.f32'' @ [TAB], ''vcvtn.u32.f32'' @ [TAB],
      ''vcvtp.u32.f32'' @ [TAB], ''vrinta.f32'' @ [TAB], ''vselge.f32'' @ [TAB], ''vminnm.f32'' @ [TAB], ''vmaxnm.f32'' @ [TAB],
      ''vrintm.f32'' @ [TAB], ''vrintn.f32'' @ [TAB], ''vrintp.f32'' @ [TAB], ''vseleq.f32'' @ [TAB], ''vselvs.f32'' @ [TAB],
      ''vselgt.f32'' @ [TAB], ''vrintx.f32'' @ [TAB], ''vrintz.f32'' @ [TAB], ''ldc2'' @ [TAB], ''mrc2'' @ [TAB],
      ''mrrc2'' @ [TAB], ''stc2'' @ [TAB], ''cdp2'' @ [TAB], ''mcr2'' @ [TAB], ''mcrr2'' @ [TAB], ''vcvta.s32.f64'' @ [TAB],
      ''vcvtm.s32.f64'' @ [TAB], ''vcvtn.s32.f64'' @ [TAB], ''vcvtp.s32.f64'' @ [TAB], ''vcvta.u32.f64'' @ [TAB],
      ''vcvtm.u32.f64'' @ [TAB], ''vcvtn.u32.f64'' @ [TAB], ''vcvtp.u32.f64'' @ [TAB], ''vrinta.f64'' @ [TAB],
      ''vselge.f64'' @ [TAB], ''vminnm.f64'' @ [TAB], ''vmaxnm.f64'' @ [TAB], ''vrintm.f64'' @ [TAB], ''vrintn.f64'' @ [TAB],
      ''vrintp.f64'' @ [TAB], ''vseleq.f64'' @ [TAB], ''vselvs.f64'' @ [TAB], ''vselgt.f64'' @ [TAB], ''vmull.p64'' @ [TAB],
      ''aesimc.8'' @ [TAB], ''aesmc.8'' @ [TAB], ''aesd.8'' @ [TAB], ''aese.8'' @ [TAB], ''rfeda'' @ [TAB], ''rfeia'' @ [TAB],
      ''crc32b'' @ [TAB], ''crc32cb'' @ [TAB], ''rfedb'' @ [TAB], ''rfeib'' @ [TAB], ''dmb'' @ [TAB], ''dsb'' @ [TAB],
      ''isb'' @ [TAB], ''pld'' @ [TAB], ''setend'' @ [TAB], ''udf'' @ [TAB], ''crc32h'' @ [TAB], ''crc32ch'' @ [TAB],
      ''pli'' @ [TAB], ''ldc2l'' @ [TAB], ''stc2l'' @ [TAB], ''bl'' @ [TAB], ''cps'' @ [TAB], ''movs'' @ [TAB], ''hlt'' @ [TAB],
      ''bkpt'' @ [TAB], ''udf.w'' @ [TAB], ''crc32w'' @ [TAB], ''crc32cw'' @ [TAB], ''pldw'' @ [TAB], ''bx'' @ [TAB],
      ''blx'' @ [TAB], ''cbz'' @ [TAB], ''cbnz'' @ [TAB], ''srsda'' @ [TAB] @ ''sp!, '', ''srsia'' @ [TAB] @ ''sp!, '',
      ''srsdb'' @ [TAB] @ ''sp!, '', ''srsib'' @ [TAB] @ ''sp!, '', ''srsda'' @ [TAB] @ ''sp, '', ''srsia'' @ [TAB] @ ''sp, '',
      ''srsdb'' @ [TAB] @ ''sp, '', ''srsib'' @ [TAB] @ ''sp, '', ''vld1'', ''dcps1'']"

definition AsmStrings_1 :: "string list" where
  "AsmStrings_1 =
     [''vst1'', ''vrev32'', ''ldc2'', ''mrc2'', ''mrrc2'', ''stc2'', ''vld2'', ''cdp2'', ''mcr2'', ''mcrr2'', ''dcps2'',
      ''vst2'', ''vld3'', ''dcps3'', ''vst3'', ''vrev64'', ''vld4'', ''vst4'', ''sxtab16'', ''uxtab16'', ''sxtb16'', ''uxtb16'',
      ''shsub16'', ''uhsub16'', ''uqsub16'', ''ssub16'', ''usub16'', ''shadd16'', ''uhadd16'', ''uqadd16'', ''sadd16'',
      ''uadd16'', ''ssat16'', ''usat16'', ''vrev16'', ''usada8'', ''shsub8'', ''uhsub8'', ''uqsub8'', ''ssub8'', ''usub8'',
      ''usad8'', ''shadd8'', ''uhadd8'', ''uqadd8'', ''sadd8'', ''uadd8'', ''LIFETIME_END'', ''BUNDLE'', ''DBG_VALUE'',
      ''LIFETIME_START'', ''vaba'', ''lda'', ''ldmda'', ''stmda'', ''rfeia'', ''vldmia'', ''vstmia'', ''srsia'', ''smmla'',
      ''vnmla'', ''vmla'', ''vfma'', ''vfnma'', ''vrsra'', ''vsra'', ''ldab'', ''sxtab'', ''uxtab'', ''smlabb'', ''smlalbb'',
      ''smulbb'', ''tbb'', ''rfedb'', ''vldmdb'', ''vstmdb'', ''srsdb'', ''ldmib'', ''stmib'', ''stlb'', ''dmb'', ''swpb'',
      ''ldrb'', ''strb'', ''dsb'', ''isb'', ''ldrsb'', ''smlatb'', ''pkhtb'', ''smlaltb'', ''smultb'', ''vcvtb'', ''sxtb'',
      ''uxtb'', ''qdsub'', ''vhsub'', ''vqsub'', ''vsub'', ''smlawb'', ''smulwb'']"

definition AsmStrings_2 :: "string list" where
  "AsmStrings_2 =
     [''ldaexb'', ''stlexb'', ''ldrexb'', ''strexb'', ''sbc'', ''adc'', ''ldc'', ''bfc'', ''vbic'', ''smc'', ''mrc'', ''mrrc'',
      ''rsc'', ''stc'', ''svc'', ''smlad'', ''smuad'', ''vabd'', ''qdadd'', ''vrhadd'', ''vhadd'', ''vpadd'', ''vqadd'',
      ''vadd'', ''smlald'', ''pld'', ''smlsld'', ''vand'', ''ldrd'', ''strd'', ''smlsd'', ''smusd'', ''ldaexd'', ''stlexd'',
      ''ldrexd'', ''strexd'', ''vacge'', ''vcge'', ''vcle'', ''vrecpe'', ''vcmpe'', ''vrsqrte'', ''vbif'', ''dbg'', ''vqneg'',
      ''vneg'', ''ldah'', ''sxtah'', ''uxtah'', ''tbh'', ''stlh'', ''vqdmulh'', ''vqrdmulh'', ''ldrh'', ''strh'', ''ldrsh'',
      ''push'', ''revsh'', ''sxth'', ''uxth'', ''ldaexh'', ''stlexh'', ''ldrexh'', ''strexh'', ''bfi'', ''pli'', ''vsli'',
      ''vsri'', ''bxj'', ''ldc2l'', ''stc2l'', ''umaal'', ''vabal'', ''vpadal'', ''vqdmlal'', ''smlal'', ''umlal'', ''vmlal'',
      ''vtbl'', ''vsubl'', ''ldcl'', ''stcl'', ''vabdl'', ''vpaddl'', ''vaddl'', ''sel'', ''vqshl'', ''vqrshl'', ''vrshl'',
      ''vshl'', ''vshll'', ''vqdmull'', ''smull'', ''umull'', ''vmull'', ''vbsl'', ''vqdmlsl'', ''vmlsl'', ''stl'', ''smmul'']"

definition AsmStrings_3 :: "string list" where
  "AsmStrings_3 =
     [''vnmul'', ''vmul'', ''vmovl'', ''ldm'', ''stm'', ''vrsubhn'', ''vsubhn'', ''vraddhn'', ''vaddhn'', ''vpmin'', ''vmin'',
      ''cmn'', ''vqshrn'', ''vqrshrn'', ''vrshrn'', ''vshrn'', ''vorn'', ''vtrn'', ''vqshrun'', ''vqrshrun'', ''vqmovun'',
      ''vmvn'', ''vqmovn'', ''vmovn'', ''trap'', ''cdp'', ''vzip'', ''vcmp'', ''pop'', ''vdup'', ''vswp'', ''vuzp'', ''vceq'',
      ''teq'', ''smmlar'', ''mcr'', ''adr'', ''vldr'', ''vrshr'', ''vshr'', ''smmulr'', ''veor'', ''ror'', ''mcrr'', ''vorr'',
      ''asr'', ''smmlsr'', ''vmsr'', ''vrintr'', ''vstr'', ''vcvtr'', ''vqabs'', ''vabs'', ''subs'', ''vcls'', ''smmls'',
      ''vnmls'', ''vmls'', ''vfms'', ''vfnms'', ''vrecps'', ''vmrs'', ''asrs'', ''lsrs'', ''vrsqrts'', ''movs'', ''ssat'',
      ''usat'', ''smlabt'', ''pkhbt'', ''smlalbt'', ''smulbt'', ''ldrbt'', ''strbt'', ''ldrsbt'', ''vacgt'', ''vcgt'',
      ''ldrht'', ''strht'', ''ldrsht'', ''rbit'', ''vbit'', ''vclt'', ''vcnt'', ''hint'', ''ldrt'', ''vsqrt'', ''strt'',
      ''vtst'', ''smlatt'', ''smlaltt'', ''smultt'', ''vcvtt'', ''vcvt'', ''movt'', ''smlawt'', ''smulwt'', ''vext'',
      ''vqshlu'', ''rev'']"

definition AsmStrings_4 :: "string list" where
  "AsmStrings_4 =
     [''sdiv'', ''udiv'', ''vdiv'', ''vmov'', ''vsubw'', ''vaddw'', ''pldw'', ''movw'', ''fldmiax'', ''fstmiax'', ''vpmax'',
      ''vmax'', ''shsax'', ''uhsax'', ''uqsax'', ''ssax'', ''usax'', ''fldmdbx'', ''fstmdbx'', ''vtbx'', ''smladx'', ''smuadx'',
      ''smlaldx'', ''smlsldx'', ''smlsdx'', ''smusdx'', ''ldaex'', ''stlex'', ''ldrex'', ''clrex'', ''strex'', ''sbfx'',
      ''ubfx'', ''blx'', ''rrx'', ''shasx'', ''uhasx'', ''uqasx'', ''sasx'', ''uasx'', ''vrintx'', ''vclz'', ''vrintz'']"

definition AsmStrings :: "string list" where
  "AsmStrings =
     concat [AsmStrings_0, AsmStrings_1, AsmStrings_2, AsmStrings_3, AsmStrings_4]"

definition AsmStrs :: string where
  "AsmStrs = concat (map (\<lambda>s. s @ [NUL]) AsmStrings)"

definition asm_text :: "nat \<Rightarrow> string" where
  "asm_text off = takeWhile (\<lambda>c. c \<noteq> NUL) (drop off AsmStrs)"

definition OpInfo_0 :: "u32 list" where
  "OpInfo_0 =
     [0, 0, 0, 0, 0, 0, 0, 0, 0, 0, 0, 1329, 0, 0, 1322, 1339, 1309, 0, 0, 0, 0, 5768, 5768, 9864, 13960, 0, 0, 0, 0, 5829,
      5829, 9925, 14021, 0, 0, 18806, 1090671288, 1090671296, 1107448485, 1107448495, 5882, 5882, 9978, 14074, 268708, 268708,
      0, 0, 0, 26256, 30677, 5781, 5781, 9877, 13973, 414542, 414522, 414582, 1073777581, 414582, 1073776678, 0, 0, 0, 0, 0,
      414578, 1073776615, 0, 564041, 1073777481, 1073776035, 2197858625, 67809687, 2967, 19417, 18663, 18663, 26855, 30951,
      18763, 18763, 26955, 31051, 0, 0, 414526, 1157679610, 83937786, 33706710, 33706718, 33706782, 33706851, 33706774,
      33706843, 1073776474, 54005, 54010, 6546, 6546]"

definition OpInfo_1 :: "u32 list" where
  "OpInfo_1 =
     [10642, 14738, 3322694386, 3322825458, 33573700, 35597, 33573645, 1087998, 33573708, 35605, 33573653, 1073777285, 414537,
      58111, 117766771, 0, 0, 0, 0, 17743, 17824, 19333, 18024, 134235924, 18361, 18281, 152220460, 1242739500, 2316481324,
      185774892, 152220030, 1242739070, 2316480894, 185774462, 3271587887, 3271587887, 3271587887, 3271587887, 3271587468,
      3271587468, 3271587468, 3271587468, 34131, 33572179, 34258, 33572306, 34998, 0, 33573046, 34277, 33572325, 281152, 68160,
      68160, 67071, 67071, 30207, 67071, 26111, 30207, 67326, 42750, 42750, 19345, 18038, 134235938, 18375, 30612, 31326, 68190,
      67476, 67476, 0, 0, 0, 30225, 31308, 68172, 67089, 67089, 30622, 31338, 68202, 67486, 67486, 281226, 68234, 68234, 67963,
      67963, 31099, 67963, 27003, 27003, 31099, 0, 0, 268433, 268433, 268715]"

definition OpInfo_2 :: "u32 list" where
  "OpInfo_2 =
     [268715, 2197858674, 17478045, 2197883290, 17478051, 9595, 0, 31197, 0, 0, 0, 0, 0, 0, 1350387, 0, 27328, 0, 0, 0, 72435,
      19208, 0, 0, 72435, 72435, 6899, 10995, 0, 0, 201369245, 74116, 2197882529, 17478026, 35327, 1073777151, 218122672,
      218122672, 6305, 0, 0, 71979, 71979, 6443, 10539, 6560, 6560, 10656, 14752, 0, 0, 0, 0, 0, 0, 0, 0, 0, 31275, 30238,
      78700, 82796, 78596, 82692, 78631, 82727, 26333, 25764, 25867, 27586, 26307, 26179, 27445, 26192, 25726, 25828, 19057,
      19167, 17608, 18345, 414408, 1462984, 414439, 1463015, 414415, 1462991, 414446, 1463022, 268694, 268694, 0, 334769, 0, 0,
      0, 5651, 5651, 9747, 13843, 5798]"

definition OpInfo_3 :: "u32 list" where
  "OpInfo_3 =
     [5798, 9894, 13990, 25771, 25873, 27591, 5764, 5764, 9860, 13956, 31651, 27363, 26700, 86793, 16928834, 1107447884,
      16928866, 16928876, 16928769, 1090670619, 16928854, 16928821, 1090670605, 16928807, 25747, 25852, 27573, 27432, 25709,
      25813, 1073776281, 30129, 31268, 30386, 31577, 92178, 30136, 31281, 30439, 31591, 30244, 31398, 0, 30231, 31391, 30298,
      31429, 30472, 31607, 30450, 31599, 30073, 31083, 31195, 31144, 26783, 27018, 26296, 27488, 26048, 27193, 10358, 0, 26156,
      27310, 26209, 27340, 26382, 27518, 414646, 414598, 414668, 414622, 414657, 414610, 414679, 414634, 31258, 25785, 27450,
      25733, 25834, 152220467, 1242739507, 2316481331, 185774899, 152220049, 1242739089, 2316480913, 185774481, 3271587892,
      3271587892, 3271587892, 3271587892, 3271587498, 3271587498, 3271587498, 3271587498, 18587, 17905]"

definition OpInfo_4 :: "u32 list" where
  "OpInfo_4 =
     [27531, 26223, 26395, 26560, 18302, 34137, 33572185, 34265, 33572313, 35002, 33573050, 34283, 33572331, 281158, 33622598,
      33622598, 33621508, 33621508, 33584644, 33621508, 26116, 0, 0, 30212, 67331, 33597187, 33597187, 27549, 26237, 26409,
      26574, 30617, 33585764, 33622628, 33621913, 33621913, 0, 281237, 33622677, 33622677, 33622460, 33622460, 33585596,
      33622460, 27068, 0, 0, 31164, 0, 0, 0, 0, 0, 5701, 5701, 9797, 13893, 1073776302, 26969, 26106, 30117, 29775, 30574,
      26169, 25695, 26543, 0, 0, 0, 0, 18791, 18791, 26983, 31079, 0, 2364, 2364, 19099, 19099, 27291, 31387, 25778, 25879,
      27596, 31656, 414481, 27368, 25755, 25859, 27579, 27438, 25717, 25820, 30711, 92184, 0, 10364, 0, 25763, 25866]"

definition OpInfo_5 :: "u32 list" where
  "OpInfo_5 =
     [27585, 27444, 25725, 25827, 25846, 29902, 31263, 25792, 27455, 25740, 25840, 30123, 29783, 30580, 26174, 25702, 26548,
      18380797, 18511869, 18642941, 18774013, 18905085, 19036157, 18642250, 18380106, 18511178, 18380106, 18511178, 18642250,
      19035466, 18773322, 18904394, 18773322, 18904394, 19035466, 35153977, 35285049, 35416121, 35547193, 35678265, 35809337,
      2249090750, 2249090750, 35415742, 35153598, 35284670, 35153598, 35284670, 35415742, 35808958, 35546814, 35677886,
      35546814, 35677886, 35808958, 2248952268, 2249083340, 2249083340, 2249083340, 1109150156, 1108888012, 1109019084,
      1108888012, 1109019084, 1109150156, 2249090864, 2249090864, 2249091667, 2249091667, 2248959714, 35940565, 36071637,
      36202709, 35153990, 35285062, 35416134, 35547206, 35678278, 35809350, 2249090786, 35154685, 35285757, 35416829, 35547901,
      35678973, 35810045, 2249090786, 2249090786, 36333282, 35940066, 36071138, 35940066, 36202210, 36071138, 36202210,
      36333282, 26361, 26361, 26260, 237397652]"

definition OpInfo_6 :: "u32 list" where
  "OpInfo_6 =
     [237528724, 237397652, 237528724, 26260, 30549, 30549, 31350, 31350, 30856, 30856, 2249091426, 2249091426, 36333922,
      36071778, 36202850, 36071778, 36202850, 36333922, 2183809378, 2249083234, 2183547234, 2249083234, 2183678306, 2183547234,
      2183678306, 2183809378, 2249090870, 2249090870, 35415862, 35153718, 35284790, 35153718, 35284790, 35415862, 35809078,
      35546934, 35678006, 35546934, 35678006, 35809078, 2182891318, 2249082678, 2182629174, 2249082678, 2182760246, 2182629174,
      2182760246, 2182891318, 2249091673, 2249091673, 35416665, 35154521, 35285593, 35154521, 35285593, 35416665, 35809881,
      35547737, 35678809, 35547737, 35678809, 35809881, 2182892121, 2249083481, 2182629977, 2249083481, 2182761049, 2182629977,
      2182761049, 2182892121, 2182891323, 2249082683, 2182629179, 2249082683, 2182760251, 2182629179, 2182760251, 2182891323,
      1109150166, 1108888022, 1109019094, 1108888022, 1109019094, 1109150166, 2182892155, 2249083515, 2182630011, 2249083515,
      2182761083, 2182630011, 2182761083, 2182892155, 1110068184, 1109806040, 1109937112, 1109806040, 1109937112, 1110068184,
      2248952138, 2248951623]"

definition OpInfo_7 :: "u32 list" where
  "OpInfo_7 =
     [2249082695, 252479303, 252610375, 2249083210, 252479818, 252610890, 2902656, 2902656, 1107447926, 1107447926, 1107447986,
      1107447986, 1107448234, 1107447926, 1107448294, 1107447986, 3032627, 3163699, 3294771, 3425843, 3558075, 1107447941,
      1107447941, 1107448001, 1107448001, 1107448249, 1107447941, 1107448309, 1107448001, 1107447956, 1107447956, 1107448016,
      1107448016, 1107448264, 1107447956, 1107448324, 1107448016, 1107447971, 1107447971, 1107448031, 1107448031, 1107448279,
      1107447971, 1107448339, 1107448031, 3689147, 3033781, 3164853, 3295925, 3426997, 3427003, 272255675, 272255675, 272386747,
      272386747, 3325717179, 3325717179, 3325848251, 3325848251, 3295931, 272517819, 272517819, 272648891, 272648891,
      3325979323, 3325979323, 3326110395, 3326110395, 2248960749, 2249091821, 4344147, 4344147, 4475219, 4475219, 2902355,
      2902355, 4352339, 4352339, 4483411, 4483411, 2910547, 2910547, 27025, 27025, 4356819, 4487891, 2915027, 4356819, 4487891,
      4618963, 2915027, 3322705290, 3322836362, 3322836362, 3322836362, 3322706412, 3322837484, 3322837484, 3322837484,
      3322705295]"

definition OpInfo_8 :: "u32 list" where
  "OpInfo_8 =
     [3322836367, 3322706417, 3322837489, 4483826, 35285746, 35416818, 35678962, 35810034, 35415760, 35153616, 35284688,
      35153616, 35284688, 35415760, 35808976, 35546832, 35677904, 35546832, 35677904, 35808976, 35415625, 35153481, 35284553,
      35153481, 35284553, 35415625, 35808841, 35546697, 35677769, 35546697, 35677769, 35808841, 1363305442, 2437051362,
      2437088226, 1363436514, 2437182434, 2437219298, 1361863650, 2435609570, 2435646434, 1380082658, 2453828578, 2453865442,
      1380213730, 2453959650, 2453996514, 1378640866, 2452386786, 2452423650, 3226010594, 3226039266, 3226141666, 3226170338,
      3226272738, 3226301410, 4355042, 4486114, 2913250, 4355042, 4486114, 2913250, 4391906, 4522978, 2950114, 0, 0, 0, 0, 0, 0,
      1396859874, 1413637090, 2487383010, 2487419874, 1430414306, 2504160226, 2504197090, 2470605794, 2470642658, 1396990946,
      1413768162, 2487514082, 2487550946, 1430545378, 2504291298, 2504328162, 2470736866, 2470773730, 1397122018, 1413899234, 0,
      0, 0, 2487645154, 2487682018, 1430676450, 0, 0, 0]"

definition OpInfo_9 :: "u32 list" where
  "OpInfo_9 =
     [2504422370, 2504459234, 2470867938, 2470904802, 1395418082, 1412195298, 2485941218, 2485978082, 1428972514, 2502718434,
      2502755298, 2469164002, 2469200866, 1447191522, 2520937442, 2520974306, 1447322594, 2521068514, 2521105378, 1447453666,
      2521199586, 2521236450, 1445749730, 2519495650, 2519532514, 1380082702, 2453828622, 2453865486, 1463968782, 2537714702,
      2537751566, 1380213774, 2453959694, 2453996558, 1464099854, 2537845774, 2537882638, 1378640910, 2452386830, 2452423694,
      1462526990, 2536272910, 2536309774, 3226039310, 0, 0, 3226043406, 3226170382, 0, 0, 3226174478, 3226301454, 0, 0,
      3226305550, 4355086, 4486158, 2913294, 4355086, 4486158, 2913294, 4391950, 4523022, 2950158, 3226039310, 0, 0, 3226043406,
      3226170382, 0, 0, 3226174478, 4355086, 4486158, 4355086, 4486158, 4391950, 4523022, 1480745998, 2554491918, 2554528782,
      1480877070, 2554622990, 2554659854, 1479304206, 2553050126, 2553086990, 1447191566, 2520937486, 2520974350, 1447322638,
      2521068558, 2521105422, 1445749774, 2519495694, 2519532558, 1413637134, 0, 0, 0]"

definition OpInfo_10 :: "u32 list" where
  "OpInfo_10 =
     [2487383054, 2487419918, 1413768206, 0, 0, 0, 2487514126, 2487550990, 1412195342, 0, 0, 0, 2485941262, 2485978126, 4785198,
      0, 0, 4813870, 4916270, 0, 0, 4944942, 5047342, 0, 0, 5076014, 1497523246, 1497654318, 1496081454, 1497523246, 1497654318,
      1496081454, 423785518, 423916590, 422343726, 4785198, 4813870, 4916270, 4944942, 5047342, 5076014, 1514300462, 1514431534,
      1512858670, 1514300462, 1514431534, 1512858670, 440562734, 440693806, 439120942, 3226043438, 0, 0, 3226047534, 3226174510,
      0, 0, 3226178606, 3226305582, 0, 0, 3226309678, 4355118, 4486190, 2913326, 4355118, 4486190, 2913326, 4391982, 4523054,
      2950190, 3226043438, 0, 0, 3226047534, 3226174510, 0, 0, 3226178606, 4355118, 4486190, 4355118, 4486190, 4391982, 4523054,
      4785198, 0, 0, 4813870, 4916270, 0, 0, 4944942, 5047342, 0, 0, 5076014, 1430414382, 1430545454, 1428972590]"

definition OpInfo_11 :: "u32 list" where
  "OpInfo_11 =
     [1430414382, 1430545454, 1428972590, 1430418478, 1430549550, 1428976686, 4785198, 0, 4813870, 0, 0, 4916270, 0, 4944942, 0,
      0, 5047342, 0, 5076014, 0, 0, 1531077678, 1531208750, 1529635886, 1531077678, 1531208750, 1529635886, 457339950,
      457471022, 455898158, 4760645, 0, 0, 4826181, 4891717, 0, 0, 4957253, 5022789, 0, 0, 5088325, 1547854917, 1547985989,
      1546413125, 1547854917, 1547985989, 1546413125, 474117189, 474248261, 472675397, 4760645, 4826181, 4891717, 4957253,
      5022789, 5088325, 1564632133, 1564763205, 1563190341, 1564632133, 1564763205, 1563190341, 490894405, 491025477, 489452613,
      3226047557, 0, 0, 3226055749, 3226178629, 0, 0, 3226186821, 3226309701, 0, 0, 3226317893, 4355141, 4486213, 2913349,
      4355141, 4486213, 2913349, 4392005, 4523077, 2950213, 3226047557, 0, 0, 3226055749, 3226178629, 0, 0, 3226186821, 4355141,
      4486213, 4355141, 4486213, 4392005]"

definition OpInfo_12 :: "u32 list" where
  "OpInfo_12 =
     [4523077, 4760645, 0, 0, 4826181, 4891717, 0, 0, 4957253, 5022789, 0, 0, 5088325, 1413637189, 1413768261, 1412195397,
      1413637189, 1413768261, 1412195397, 1413641285, 1413772357, 1412199493, 4760645, 0, 4826181, 0, 0, 4891717, 0, 4957253, 0,
      0, 5022789, 0, 5088325, 0, 0, 1581409349, 1581540421, 1579967557, 1581409349, 1581540421, 1579967557, 507671621,
      507802693, 506229829, 33572305, 34149, 33572197, 0, 33572305, 34149, 33572197, 27002, 27002, 33706566, 33706258, 33706258,
      33706258, 2249091875, 2249091875, 35416867, 35154723, 35285795, 35154723, 35285795, 35416867, 35810083, 35547939,
      35679011, 35547939, 35679011, 35810083, 33706554, 33706246, 33706246, 33706246, 2249091298, 2249091298, 35416290,
      35154146, 35285218, 35154146, 35285218, 35416290, 35809506, 35547362, 35678434, 35547362, 35678434, 35809506, 3322705285,
      18417694, 18548766, 18810910, 18941982, 18380830, 18511902, 18642974, 18774046]"

definition OpInfo_13 :: "u32 list" where
  "OpInfo_13 =
     [18905118, 19036190, 3322836357, 3322836357, 3322836357, 3322873221, 3322873221, 19334533, 19465605, 19334533, 19465605,
      19559813, 19297669, 19428741, 19297669, 19428741, 19559813, 3322706407, 18417813, 18548885, 18811029, 18942101, 18380949,
      18512021, 18643093, 18774165, 18905237, 19036309, 3322837479, 3322837479, 3322837479, 3322874343, 3322874343, 19335655,
      19466727, 19335655, 19466727, 19560935, 19298791, 19429863, 19298791, 19429863, 19560935, 2248952562, 0, 27378, 0,
      1108887728, 1109018800, 1109149872, 1109280944, 1109412016, 1109543088, 1109674294, 1109805366, 1109936438, 0, 27378,
      31474, 19186, 2249083634, 19186, 31474, 0, 237652722, 237259506, 3322825458, 237390578, 237259506, 3322825458, 237521650,
      237390578, 237521650, 237652722, 2147518974, 3221260798, 35326, 1073777150, 2147518974, 3221260798, 35326, 1073777150,
      5147055, 5278127, 5409199, 5540271, 5671343, 2248960171, 33706650, 5793922, 35158146, 35289218, 35551362, 35682434,
      35154050, 35285122, 35416194, 35547266, 35678338, 35809410]"

definition OpInfo_14 :: "u32 list" where
  "OpInfo_14 =
     [2249091243, 2249091243, 2249091243, 5793963, 5793963, 2249095339, 2249095339, 36075691, 36206763, 36075691, 36206763,
      36333739, 36071595, 36202667, 36071595, 36202667, 36333739, 18730, 18730, 237390122, 237521194, 237390122, 237521194,
      2248951652, 2249082724, 2249082724, 2249082724, 1109018468, 1109018468, 1108887396, 1108887396, 1109149540, 1109149540,
      3322705279, 3322836351, 3322706401, 3322837473, 2248960165, 2249091237, 26887, 26887, 27039, 237398431, 237529503,
      237398431, 237529503, 27039, 1092380675, 1092118531, 1092249603, 1092118531, 1092249603, 1092380675, 1092773891,
      1092511747, 1092642819, 1092511747, 1092642819, 1092773891, 1109149759, 1108887615, 1109018687, 1108887615, 1109018687,
      1109149759, 1109542975, 1109280831, 1109411903, 1109280831, 1109411903, 1109542975, 2249090774, 36202198, 36071126,
      36333270, 2249091869, 35285789, 35154717, 35416861, 35679005, 35547933, 35810077, 2249091292, 35285212, 35154140,
      35416284, 35678428, 35547356, 35809500, 1109150150, 1108888006, 1109019078, 1108888006, 1109019078, 1109150150, 35415772,
      39479004, 35153628, 39479004, 35284700]"

definition OpInfo_15 :: "u32 list" where
  "OpInfo_15 =
     [35153628, 35284700, 35415772, 35808988, 39610076, 35546844, 39610076, 35677916, 35546844, 35677916, 35808988, 18417674,
      18548746, 18380810, 18511882, 18417805, 18548877, 18380941, 18512013, 35157891, 35288963, 35157891, 35288963, 35153795,
      35284867, 35153795, 35284867, 35158126, 35289198, 35154030, 35285102, 1113213218, 1108887842, 1109018914, 1113213231,
      1108887855, 1109018927, 1113344303, 1109281071, 1109412143, 1109149534, 1108887390, 1109018462, 1108887390, 1109018462,
      1109149534, 35157899, 35288971, 35157899, 35288971, 35153803, 35284875, 35153803, 35284875, 35416150, 39479382, 35154006,
      39479382, 35285078, 35154006, 35285078, 35416150, 35809366, 39610454, 35547222, 39610454, 35678294, 35547222, 35678294,
      35809366, 39479538, 35154162, 35285234, 39610610, 35547378, 35678450, 39479577, 35154201, 35285273, 35416144, 39479376,
      35154000, 39479376, 35285072, 35154000, 35285072, 35416144, 35416792, 39480024, 35154648, 39480024, 35285720, 35154648,
      35285720, 35416792, 35416144, 39479376, 35154000, 39479376, 35285072]"

definition OpInfo_16 :: "u32 list" where
  "OpInfo_16 =
     [35154000, 35285072, 35416144, 35809360, 39610448, 35547216, 39610448, 35678288, 35547216, 35678288, 35809360, 35809360,
      39610448, 35547216, 39610448, 35678288, 35547216, 35678288, 35809360, 39479531, 35154155, 35285227, 39610603, 35547371,
      35678443, 39479569, 35154193, 35285265, 35415631, 39478863, 35153487, 39478863, 35284559, 35153487, 35284559, 35415631,
      35808847, 39609935, 35546703, 39609935, 35677775, 35546703, 35677775, 35808847, 35940557, 36071629, 36202701, 1109280576,
      2249082688, 2249082688, 1109280576, 2249091575, 2249091575, 2901191, 2901191, 4342770, 2900978, 4342770, 2900978, 4342846,
      4473918, 2901054, 4342846, 4473918, 2901054, 35415753, 35153609, 35284681, 35153609, 35284681, 35415753, 35808969,
      35546825, 35677897, 35546825, 35677897, 35808969, 1107448354, 1107448046, 1107448046, 1107448046, 1107448402, 1107448094,
      1107448094, 1107448094, 1107448414, 1107448106, 1107448106, 1107448106, 1107448426, 1107448118, 1107448118, 1107448118,
      2248952244, 2249083316, 2248952785, 1107448166, 1107448166, 2249083857, 2248952797]"

definition OpInfo_17 :: "u32 list" where
  "OpInfo_17 =
     [1107448178, 1107448178, 2249083869, 35416157, 39479389, 35154013, 39479389, 35285085, 35154013, 35285085, 35416157,
      35809373, 39610461, 35547229, 39610461, 35678301, 35547229, 35678301, 35809373, 35940602, 36071674, 36202746, 35416447,
      39479679, 35154303, 39479679, 35285375, 35154303, 35285375, 35416447, 35809663, 39610751, 35547519, 39610751, 35678591,
      35547519, 35678591, 35809663, 1109280589, 2249082701, 2249082701, 1109280589, 2249091597, 2249091597, 18642325, 22705557,
      18380181, 22705557, 18511253, 18380181, 18511253, 18642325, 19035541, 22836629, 18773397, 22836629, 18904469, 18773397,
      18904469, 19035541, 35940542, 36071614, 36202686, 33706614, 33706306, 33706542, 33706234, 33706638, 33706330, 33706626,
      33706318, 2151840498, 2151971570, 2150398706, 36202600, 36071528, 36333672, 35154024, 35285096, 35416168, 35547240,
      35678312, 35809384, 36333667, 35940451, 36071523, 35940451, 36202595, 36071523, 36202595, 36333667, 35416163, 39479395,
      35154019, 39479395, 35285091, 35154019, 35285091, 35416163, 35809379]"

definition OpInfo_18 :: "u32 list" where
  "OpInfo_18 =
     [39610467, 35547235, 39610467, 35678307, 35547235, 35678307, 35809379, 35940609, 36071681, 36202753, 35416453, 39479685,
      35154309, 39479685, 35285381, 35154309, 35285381, 35416453, 35809669, 39610757, 35547525, 39610757, 35678597, 35547525,
      35678597, 35809669, 6187707, 6318779, 274877115, 272517819, 2914269, 4618205, 4487133, 4618205, 4356061, 4487133, 4356061,
      2914269, 3328338619, 3325979323, 2248952463, 2249083535, 18642331, 22705563, 18380187, 22705563, 18511259, 18380187,
      18511259, 18642331, 19035547, 22836635, 18773403, 22836635, 18904475, 18773403, 18904475, 19035547, 2914274, 4618210,
      4487138, 4618210, 4356066, 4487138, 4356066, 2914274, 3242750957, 3746079725, 3242882029, 3746210797, 3243013101,
      3746341869, 4355053, 4486125, 2913261, 4355053, 4486125, 2913261, 4391917, 4522989, 2950125, 0, 0, 0, 0, 0, 0, 541221869,
      557999085, 574780397, 591594477, 608330733, 625112045, 641926125, 658666477, 675480557, 541352941, 558130157, 574911469,
      591725549]"

definition OpInfo_19 :: "u32 list" where
  "OpInfo_19 =
     [608461805, 625243117, 642057197, 658797549, 675611629, 541484013, 558261229, 0, 0, 0, 575042541, 591856621, 608592877, 0,
      0, 0, 625374189, 642188269, 658928621, 675742701, 539780077, 556557293, 573338605, 590152685, 606888941, 623670253,
      640484333, 657224685, 674038765, 692216813, 708998125, 725812205, 692347885, 709129197, 725943277, 692478957, 709260269,
      726074349, 690775021, 707556333, 724370413, 3242787881, 0, 0, 3746133033, 3242918953, 0, 0, 3746264105, 3243050025, 0, 0,
      3746395177, 4355113, 4486185, 2913321, 4355113, 4486185, 2913321, 4391977, 4523049, 2950185, 3242787881, 0, 0, 3746133033,
      3242918953, 0, 0, 3746264105, 4355113, 4486185, 4355113, 4486185, 4391977, 4523049, 742548521, 759329833, 776143913,
      742679593, 759460905, 776274985, 741106729, 757888041, 774702121, 692216873, 708998185, 725812265, 692347945, 709129257,
      725943337, 690775081, 707556393, 724370473, 557999145, 0, 0, 0, 574780457, 591594537]"

definition OpInfo_20 :: "u32 list" where
  "OpInfo_20 =
     [558130217, 0, 0, 0, 574911529, 591725609, 556557353, 0, 0, 0, 573338665, 590152745, 3242763321, 0, 0, 3746145337,
      3242894393, 0, 0, 3746276409, 3243025465, 0, 0, 3746407481, 4355129, 4486201, 2913337, 4355129, 4486201, 2913337, 4391993,
      4523065, 2950201, 3242763321, 0, 0, 3746145337, 3242894393, 0, 0, 3746276409, 4355129, 4486201, 4355129, 4486201, 4391993,
      4523065, 21562425, 0, 0, 524907577, 21693497, 0, 0, 525038649, 21824569, 0, 0, 525169721, 1430414393, 1430545465,
      1428972601, 1430414393, 1430545465, 1428972601, 1430418489, 1430549561, 1428976697, 21562425, 0, 524907577, 0, 0,
      21693497, 0, 525038649, 0, 0, 21824569, 0, 525169721, 0, 0, 1531077689, 1531208761, 1529635897, 1531077689, 1531208761,
      1529635897, 457339961, 457471033, 455898169, 3242816586, 0, 0, 3746137162, 3242947658, 0, 0, 3746268234]"

definition OpInfo_21 :: "u32 list" where
  "OpInfo_21 =
     [3243078730, 0, 0, 3746399306, 4355146, 4486218, 2913354, 4355146, 4486218, 2913354, 4392010, 4523082, 2950218, 3242816586,
      0, 0, 3746137162, 3242947658, 0, 0, 3746268234, 4355146, 4486218, 4355146, 4486218, 4392010, 4523082, 21537866, 0, 0,
      524919882, 21668938, 0, 0, 525050954, 21800010, 0, 0, 525182026, 1413637194, 1413768266, 1412195402, 1413637194,
      1413768266, 1412195402, 1413641290, 1413772362, 1412199498, 21537866, 0, 524919882, 0, 0, 21668938, 0, 525050954, 0, 0,
      21800010, 0, 525182026, 0, 0, 1581409354, 1581540426, 1579967562, 1581409354, 1581540426, 1579967562, 507671626,
      507802698, 506229834, 33572312, 34156, 33572204, 0, 33572312, 34156, 33572204, 27067, 27067, 2248959573, 35940550,
      36071622, 36202694, 35153961, 35285033, 35416105, 35547177, 35678249, 35809321, 2249090645, 35154679, 35285751, 35416823,
      35547895, 35678967, 35810039, 2249090645, 2249090645]"

definition OpInfo_22 :: "u32 list" where
  "OpInfo_22 =
     [36333141, 35939925, 36070997, 35939925, 36202069, 36070997, 36202069, 36333141, 31064, 31064, 2910244, 2910244, 2910244,
      0, 2910244, 0, 2915156, 2915156, 2915156, 0, 2915156, 0, 6580923, 6711995, 275270080, 272255424, 275270331, 272255675,
      3328731835, 3325717179, 6974139, 7105211, 275663296, 272386496, 275663547, 272386747, 3329125051, 3325848251, 4356364,
      4487436, 2914572, 4356364, 4487436, 2914572, 2910874, 4483738, 4352666, 4483738, 4352666, 2910874, 7367355, 7498427,
      276056763, 272648891, 3329518267, 3326110395, 4356445, 2914653, 4356445, 4487517, 2914653, 4356421, 2914629, 4356421,
      4487493, 2914629, 0, 34131, 33572179, 34258, 33572306, 34998, 33573046, 34277, 33572325, 34137, 33572185, 34265, 33572313,
      35002, 33573050, 34283, 33572331, 0, 5768, 7739016, 7743112, 0, 0, 0, 7739077, 27390, 7739077, 7743173, 7752054, 5882,
      7739130, 7743226, 7739812, 7739812]"

definition OpInfo_23 :: "u32 list" where
  "OpInfo_23 =
     [1081509283, 26256, 30677, 5781, 7739029, 7743125, 0, 1073776615, 1081509283, 2197858625, 2197857299, 433047, 19417,
      7751911, 7751911, 7760103, 7752011, 7752011, 7760203, 414526, 1165412858, 83937786, 33706710, 33706718, 33706782,
      33706851, 33706774, 33706843, 1073776474, 431079, 431139, 431155, 788563446, 788563465, 6546, 7739794, 7743890,
      1081510533, 805340685, 117504627, 0, 0, 17743, 17824, 19333, 18024, 26388, 18361, 18281, 3271587819, 3271587819,
      3271587819, 3271587819, 3271586809, 3271586809, 3271586809, 3271586809, 3271587887, 3271587887, 3271587887, 3271587887,
      3271587468, 3271587468, 3271587468, 3271587468, 34258, 33572306, 7768246, 0, 41306294, 27200, 30207, 30207, 7759359,
      26111, 7751167, 280063, 7763455, 67326, 67326, 30462, 27537, 18038, 26402, 18375, 27230, 30612, 30612, 7759764, 26516,
      7751572, 280468, 7763860, 27212, 30225, 30225, 7759377, 26129, 7751185, 280081]"

definition OpInfo_24 :: "u32 list" where
  "OpInfo_24 =
     [7763473, 27242, 30622, 30622, 7759774, 26526, 7751582, 280478, 7763870, 27274, 31099, 31099, 7760251, 27003, 7752059, 0,
      280955, 7764347, 0, 0, 7739537, 7739537, 7739819, 7739819, 2197858674, 2197857304, 2197883290, 2197881885, 30075, 31197,
      0, 0, 0, 0, 0, 0, 0, 0, 289301, 293397, 27328, 0, 0, 7805683, 19208, 0, 0, 7805683, 289523, 293619, 7752195, 7752200,
      201369245, 201368574, 2197882529, 2197881859, 35327, 18943, 1073777151, 218122672, 218122672, 26785, 0, 71979, 7805227,
      7739691, 6408, 6408, 10504, 6560, 7739808, 7743904, 31275, 30238, 822102787, 838880003, 855665411, 822101742, 838878958,
      872449774, 855664366, 822101977, 838879193, 872450009, 855664601, 26333, 25764, 25867, 27586, 26307, 26179, 27445, 26192,
      25726, 25828, 19057, 7752415, 7750856, 7751593, 1073776075]"

definition OpInfo_25 :: "u32 list" where
  "OpInfo_25 =
     [1073776075, 1073775967, 1073775967, 7739798, 7739798, 72625, 0, 0, 7738899, 5651, 9747, 25771, 25873, 27591, 5764,
      7739012, 7743108, 31651, 27363, 26700, 25747, 25852, 27573, 27432, 25709, 25813, 1073776281, 30129, 31268, 30386, 31577,
      43026, 30136, 31281, 30439, 31591, 30244, 31398, 30231, 31391, 30298, 31429, 30472, 31607, 30450, 31599, 30073, 31083,
      31195, 31144, 26783, 27018, 26296, 27488, 26048, 27193, 30838, 26156, 27310, 26209, 27340, 26382, 27518, 7898591, 8029663,
      7898483, 8029555, 31258, 25785, 27450, 25733, 25834, 3271587825, 3271587825, 3271587825, 3271587825, 3271586825,
      3271586825, 3271586825, 3271586825, 3271587892, 3271587892, 3271587892, 3271587892, 3271587498, 3271587498, 3271587498,
      3271587498, 18587, 17905, 27531, 26223, 30491, 26560, 18302, 34265, 33572313, 7768250, 41306298, 27206]"

definition OpInfo_26 :: "u32 list" where
  "OpInfo_26 =
     [33584644, 33584644, 0, 7759364, 26116, 7763460, 33621763, 33621763, 30467, 31645, 26237, 30505, 26574, 27236, 33585049,
      33585049, 0, 7759769, 26521, 7763865, 27285, 33585596, 33585596, 0, 7760316, 27068, 7764412, 8161745, 0, 0, 0, 7738949,
      27384, 7738949, 7743045, 30117, 29775, 30574, 7759417, 25695, 7759791, 889210311, 0, 905987962, 0, 7752039, 7752039,
      7760231, 7752347, 7752347, 7760539, 25778, 25879, 27596, 31656, 414548, 27368, 25755, 25859, 27579, 27438, 25717, 25820,
      30711, 43032, 30844, 25763, 25866, 27585, 27444, 25725, 25827, 25846, 29902, 31263, 25792, 27455, 25740, 25840, 30123,
      29783, 30580, 7759422, 25702, 7759796, 931120776, 26309, 25151173, 931120837, 26309, 26309, 25151173, 26309, 26309, 0, 0,
      18806, 931120890, 25151908, 931121572]"

definition OpInfo_27 :: "u32 list" where
  "OpInfo_27 =
     [1073776035, 931120789, 414542, 1090557990, 1090558893, 1090558893, 0, 0, 1073777481, 0, 0, 0, 1073776035, 0, 1107448704,
      1107448699, 18663, 18763, 18763, 18763, 1157941754, 931121554, 1073777285, 414537, 0, 0, 34998, 0, 26111, 26111, 26516,
      26516, 0, 0, 26129, 26526, 27003, 18811, 0, 27003, 27003, 0, 0, 25151633, 931121297, 25151915, 931121579, 0, 1107448643,
      276941555, 19187, 25151649, 276941099, 931121568, 0, 939563343, 0, 939562916, 19167, 17608, 18345, 931121558, 260163091,
      931120772, 86793, 33573050, 26116, 26116, 26521, 26521, 27068, 27068, 27068, 25151045, 931120709, 25151045, 26181,
      1073776302, 17977, 18351, 0, 0, 0, 0, 2364, 19099, 414481, 17982, 18356, 0]"

definition OpInfo :: "u32 list" where
  "OpInfo =
     concat [OpInfo_0, OpInfo_1, OpInfo_2, OpInfo_3, OpInfo_4, OpInfo_5, OpInfo_6, OpInfo_7, OpInfo_8, OpInfo_9, OpInfo_10, OpInfo_11,
      OpInfo_12, OpInfo_13, OpInfo_14, OpInfo_15, OpInfo_16, OpInfo_17, OpInfo_18, OpInfo_19, OpInfo_20, OpInfo_21, OpInfo_22,
      OpInfo_23, OpInfo_24, OpInfo_25, OpInfo_26, OpInfo_27]"

definition OpInfo2_0 :: "u32 list" where
  "OpInfo2_0 =
     [0, 0, 0, 0, 0, 0, 0, 0, 0, 0, 0, 0, 0, 0, 0, 0, 0, 0, 0, 0, 0, 0, 0, 16384, 0, 0, 0, 0, 0, 0, 0, 16384, 0, 0, 0, 8, 0, 0,
      0, 0, 0, 0, 16384, 0, 0, 0, 0, 0, 0, 16, 32792, 0, 0, 16384, 0, 0, 0, 0, 0, 0, 0, 0, 0, 0, 0, 0, 0, 0, 0, 0, 0, 0, 544, 0,
      0, 1024, 1024, 1024, 40, 48, 1024, 1024, 40, 48, 0, 0, 0, 0, 1048, 1048, 1048, 1048, 1048, 1048, 1048, 0, 0, 0, 0, 0]"

definition OpInfo2_1 :: "u32 list" where
  "OpInfo2_1 =
     [16384, 0, 0, 0, 57, 1088, 57, 0, 57, 1088, 57, 0, 0, 0, 0, 0, 0, 0, 0, 72, 72, 72, 72, 0, 72, 72, 0, 1, 1, 0, 0, 1, 1, 0,
      81, 49241, 65625, 97, 81, 49241, 65625, 97, 1088, 57, 1088, 57, 1088, 0, 57, 1088, 57, 72, 82008, 82008, 82008, 82008,
      104, 112, 120, 128, 98304, 1163264, 131072, 72, 72, 0, 72, 136, 147544, 163928, 180312, 144, 0, 0, 0, 136, 147544, 163928,
      180312, 144, 136, 147544, 163928, 180312, 144, 72, 82008, 82008, 82008, 82008, 104, 112, 120, 120, 128, 0, 0, 0, 0, 0]"

definition OpInfo2_2 :: "u32 list" where
  "OpInfo2_2 =
     [0, 2295328, 152, 3343904, 213152, 17825792, 0, 17825792, 0, 0, 0, 0, 0, 0, 0, 0, 1048, 0, 0, 0, 1024, 1024, 0, 0, 1024,
      1024, 40, 48, 0, 0, 0, 0, 3343904, 213152, 2, 2, 0, 0, 0, 0, 0, 1024, 1024, 40, 48, 0, 0, 16384, 0, 0, 0, 0, 0, 0, 0, 0,
      0, 0, 4194304, 5242880, 0, 0, 0, 0, 0, 0, 0, 0, 0, 0, 0, 0, 0, 0, 0, 0, 1024, 1024, 1024, 1024, 0, 0, 0, 0, 0, 0, 0, 0, 0,
      0, 0, 1024, 0, 0, 0, 0, 0, 16384, 0, 0]"

definition OpInfo2_3 :: "u32 list" where
  "OpInfo2_3 =
     [0, 16384, 0, 0, 0, 0, 0, 0, 16384, 0, 34603008, 0, 0, 0, 1184, 0, 1184, 1184, 1184, 0, 1184, 1184, 0, 1184, 0, 0, 0, 0, 0,
      0, 0, 17825792, 17825792, 17825792, 17825792, 0, 17825792, 17825792, 17825792, 17825792, 17825792, 17825792, 0, 17825792,
      17825792, 17825792, 17825792, 17825792, 17825792, 17825792, 17825792, 17825792, 17825792, 17825792, 17825792, 0, 0, 0, 0,
      0, 0, 17825792, 0, 0, 0, 0, 0, 0, 0, 0, 0, 0, 0, 0, 0, 0, 0, 2216, 1192, 0, 0, 0, 0, 1, 1, 0, 0, 1, 1, 0, 81, 49241,
      65625, 97, 81, 49241, 65625, 97, 72, 72]"

definition OpInfo2_4 :: "u32 list" where
  "OpInfo2_4 =
     [229376, 229376, 176, 229376, 72, 1088, 57, 1088, 57, 1088, 57, 1088, 57, 72, 82008, 82008, 82008, 82008, 104, 112, 120, 0,
      0, 128, 98304, 1163288, 131096, 229376, 229376, 176, 229376, 136, 147544, 163928, 180312, 144, 0, 72, 82008, 82008, 82008,
      82008, 104, 112, 120, 0, 0, 128, 0, 0, 0, 0, 0, 0, 0, 16384, 0, 0, 229376, 229376, 6291456, 6291456, 6291456, 2560, 2560,
      2560, 0, 0, 0, 0, 1024, 1024, 40, 48, 0, 0, 0, 1024, 1024, 40, 48, 0, 0, 0, 34603008, 0, 0, 0, 0, 0, 0, 0, 0, 17825792, 0,
      0, 17825792, 0, 0, 0]"

definition OpInfo2_5 :: "u32 list" where
  "OpInfo2_5 =
     [0, 0, 0, 0, 0, 17825792, 7340032, 0, 0, 0, 0, 6291456, 6291456, 6291456, 2560, 2560, 2560, 1184, 1184, 1184, 1184, 1184,
      1184, 1184, 1184, 1184, 1184, 1184, 1184, 1184, 1184, 1184, 1184, 1184, 1184, 1048, 1048, 1048, 1048, 1048, 1048, 247328,
      247328, 1048, 1048, 1048, 1048, 1048, 1048, 1048, 1048, 1048, 1048, 1048, 1048, 56, 56, 56, 56, 0, 0, 0, 0, 0, 0, 247328,
      247328, 247328, 247328, 247328, 1048, 1048, 1048, 1048, 1048, 1048, 1048, 1048, 1048, 247328, 1048, 1048, 1048, 1048,
      1048, 1048, 247328, 247328, 1048, 1048, 1048, 1048, 1048, 1048, 1048, 1048, 0, 0, 0, 0]"

definition OpInfo2_6 :: "u32 list" where
  "OpInfo2_6 =
     [0, 0, 0, 0, 262168, 262168, 262168, 262168, 262168, 262168, 247328, 247328, 1048, 1048, 1048, 1048, 1048, 1048, 2, 184, 2,
      184, 2, 2, 2, 2, 247328, 247328, 1048, 1048, 1048, 1048, 1048, 1048, 1048, 1048, 1048, 1048, 1048, 1048, 2, 184, 2, 184,
      2, 2, 2, 2, 247328, 247328, 1048, 1048, 1048, 1048, 1048, 1048, 1048, 1048, 1048, 1048, 1048, 1048, 2, 184, 2, 184, 2, 2,
      2, 2, 2, 184, 2, 184, 2, 2, 2, 2, 0, 0, 0, 0, 0, 0, 2, 184, 2, 184, 2, 2, 2, 2, 0, 0, 0, 0, 0, 0, 56, 56]"

definition OpInfo2_7 :: "u32 list" where
  "OpInfo2_7 =
     [56, 0, 0, 56, 0, 0, 1024, 1024, 0, 0, 0, 0, 0, 0, 0, 0, 0, 0, 0, 0, 0, 0, 0, 0, 0, 0, 0, 0, 0, 0, 0, 0, 0, 0, 0, 0, 0, 0,
      0, 0, 0, 0, 0, 0, 0, 0, 0, 0, 0, 0, 0, 0, 0, 0, 0, 58, 58, 58, 58, 0, 0, 0, 0, 0, 58, 58, 58, 58, 247328, 247328, 1024,
      1024, 1024, 1024, 1024, 1024, 3072, 3072, 3072, 3072, 3072, 3072, 0, 0, 17825792, 17825792, 17825792, 17825792, 17825792,
      17825792, 17825792, 249378, 249378, 249378, 249378, 249378, 249378, 249378, 249378, 249378]"

definition OpInfo2_8 :: "u32 list" where
  "OpInfo2_8 =
     [249378, 249378, 249378, 3072, 3, 3, 3, 3, 1048, 1048, 1048, 1048, 1048, 1048, 1048, 1048, 1048, 1048, 1048, 1048, 1048,
      1048, 1048, 1048, 1048, 1048, 1048, 1048, 1048, 1048, 1048, 1048, 59, 195, 4131, 59, 195, 4131, 59, 195, 4131, 59, 195,
      4131, 59, 195, 4131, 59, 195, 4131, 283339, 299731, 283339, 299731, 283339, 299731, 1240, 1240, 1240, 5336, 5336, 5336,
      311512, 311512, 311512, 0, 0, 0, 0, 0, 0, 59, 59, 195, 4131, 59, 195, 4131, 195, 4131, 59, 59, 195, 4131, 59, 195, 4131,
      195, 4131, 59, 59, 0, 0, 0, 195, 4131, 59, 0, 0, 0]"

definition OpInfo2_9 :: "u32 list" where
  "OpInfo2_9 =
     [195, 4131, 195, 4131, 59, 59, 195, 4131, 59, 195, 4131, 195, 4131, 59, 195, 4131, 59, 195, 4131, 59, 195, 4131, 59, 195,
      4131, 59, 195, 4131, 59, 195, 4131, 59, 195, 4131, 59, 195, 4131, 59, 195, 4131, 59, 195, 4131, 333523, 0, 0, 350435,
      333523, 0, 0, 350435, 333523, 0, 0, 350435, 1240, 1240, 1240, 5336, 5336, 5336, 311512, 311512, 311512, 333523, 0, 0,
      350435, 333523, 0, 0, 350435, 1240, 1240, 5336, 5336, 311512, 311512, 59, 195, 4131, 59, 195, 4131, 59, 195, 4131, 59,
      195, 4131, 59, 195, 4131, 59, 195, 4131, 59, 0, 0, 0]"

definition OpInfo2_10 :: "u32 list" where
  "OpInfo2_10 =
     [195, 4131, 59, 0, 0, 0, 195, 4131, 59, 0, 0, 0, 195, 4131, 6892, 0, 0, 367852, 6892, 0, 0, 367852, 6892, 0, 0, 367852, 0,
      0, 0, 4, 4, 4, 1184, 1184, 1184, 6892, 367852, 6892, 367852, 6892, 367852, 0, 0, 0, 4, 4, 4, 1184, 1184, 1184, 383203, 0,
      0, 398067, 383203, 0, 0, 398067, 383203, 0, 0, 398067, 1240, 1240, 1240, 5336, 5336, 5336, 311512, 311512, 311512, 383203,
      0, 0, 398067, 383203, 0, 0, 398067, 1240, 1240, 5336, 5336, 311512, 311512, 58720256, 0, 0, 75497472, 58720256, 0, 0,
      75497472, 58720256, 0, 0, 75497472, 59, 59, 59]"

definition OpInfo2_11 :: "u32 list" where
  "OpInfo2_11 =
     [195, 195, 195, 249379, 249379, 249379, 58720256, 0, 75497472, 0, 0, 58720256, 0, 75497472, 0, 0, 58720256, 0, 75497472, 0,
      0, 0, 0, 0, 4, 4, 4, 1184, 1184, 1184, 253180, 0, 0, 7932, 253180, 0, 0, 7932, 253180, 0, 0, 7932, 0, 0, 0, 4, 4, 4, 1184,
      1184, 1184, 253180, 7932, 253180, 7932, 253180, 7932, 0, 0, 0, 4, 4, 4, 1184, 1184, 1184, 93591283, 0, 0, 259, 93591283,
      0, 0, 259, 93591283, 0, 0, 259, 1240, 1240, 1240, 5336, 5336, 5336, 311512, 311512, 311512, 93591283, 0, 0, 259, 93591283,
      0, 0, 259, 1240, 1240, 5336, 5336, 311512]"

definition OpInfo2_12 :: "u32 list" where
  "OpInfo2_12 =
     [311512, 286261248, 0, 0, 823132160, 286261248, 0, 0, 823132160, 286261248, 0, 0, 823132160, 59, 59, 59, 195, 195, 195,
      249379, 249379, 249379, 286261248, 0, 823132160, 0, 0, 286261248, 0, 823132160, 0, 0, 286261248, 0, 823132160, 0, 0, 0, 0,
      0, 4, 4, 4, 1184, 1184, 1184, 57, 1088, 57, 0, 57, 1088, 57, 264, 264, 1048, 1048, 1048, 1048, 247328, 247328, 1048, 1048,
      1048, 1048, 1048, 1048, 1048, 1048, 1048, 1048, 1048, 1048, 1048, 1048, 1048, 1048, 247328, 247328, 1048, 1048, 1048,
      1048, 1048, 1048, 1048, 1048, 1048, 1048, 1048, 1048, 249378, 8352, 8352, 8352, 8352, 1184, 1184, 1184, 1184]"

definition OpInfo2_13 :: "u32 list" where
  "OpInfo2_13 =
     [1184, 1184, 249378, 249378, 249378, 413218, 413218, 8352, 8352, 8352, 8352, 1184, 1184, 1184, 1184, 1184, 1184, 249378,
      8352, 8352, 8352, 8352, 1184, 1184, 1184, 1184, 1184, 1184, 249378, 249378, 249378, 413218, 413218, 8352, 8352, 8352,
      8352, 1184, 1184, 1184, 1184, 1184, 1184, 56, 0, 0, 0, 0, 0, 0, 0, 0, 0, 0, 0, 0, 0, 0, 17825792, 1024, 56, 1024,
      17825792, 0, 0, 0, 0, 0, 0, 0, 0, 0, 0, 0, 4, 4, 5, 5, 5, 5, 6, 6, 0, 0, 0, 0, 0, 247328, 1048, 0, 8728, 8728, 8728, 8728,
      1048, 1048, 1048, 1048, 1048, 1048]"

definition OpInfo2_14 :: "u32 list" where
  "OpInfo2_14 =
     [247328, 247328, 247328, 0, 0, 427552, 427552, 8728, 8728, 8728, 8728, 1048, 1048, 1048, 1048, 1048, 1048, 1024, 1024, 0,
      0, 0, 0, 56, 56, 56, 56, 0, 0, 0, 0, 0, 0, 249378, 249378, 249378, 249378, 247328, 247328, 0, 0, 0, 0, 0, 0, 0, 0, 0, 0,
      0, 0, 0, 0, 0, 0, 0, 0, 0, 0, 0, 0, 0, 0, 0, 0, 0, 0, 0, 0, 0, 0, 247328, 1048, 1048, 1048, 247328, 1048, 1048, 1048,
      1048, 1048, 1048, 247328, 1048, 1048, 1048, 1048, 1048, 1048, 0, 0, 0, 0, 0, 0, 1048, 1048, 1048, 1048, 1048]"

definition OpInfo2_15 :: "u32 list" where
  "OpInfo2_15 =
     [1048, 1048, 1048, 1048, 1048, 1048, 1048, 1048, 1048, 1048, 1048, 8352, 8352, 1184, 1184, 8352, 8352, 1184, 1184, 8728,
      8728, 8728, 8728, 1048, 1048, 1048, 1048, 8728, 8728, 1048, 1048, 0, 0, 0, 0, 0, 0, 0, 0, 0, 0, 0, 0, 0, 0, 0, 8728, 8728,
      8728, 8728, 1048, 1048, 1048, 1048, 1048, 1048, 1048, 1048, 1048, 1048, 1048, 1048, 1048, 1048, 1048, 1048, 1048, 1048,
      1048, 1048, 1048, 1048, 1048, 1048, 1048, 1048, 1048, 1048, 1048, 1048, 1048, 1048, 1048, 1048, 1048, 1048, 1048, 1048,
      1048, 1048, 1048, 1048, 1048, 1048, 1048, 1048, 1048, 1048, 1048, 1048]"

definition OpInfo2_16 :: "u32 list" where
  "OpInfo2_16 =
     [1048, 1048, 1048, 1048, 1048, 1048, 1048, 1048, 1048, 1048, 1048, 1048, 1048, 1048, 1048, 1048, 1048, 1048, 1048, 1048,
      1048, 1048, 1048, 1048, 1048, 1048, 1048, 1048, 1048, 1048, 1048, 1048, 1048, 1048, 1048, 1048, 1048, 1048, 1048, 1048,
      1048, 1048, 1048, 1048, 1048, 1048, 1048, 0, 56, 56, 0, 247328, 247328, 1024, 1024, 1024, 1024, 1024, 1024, 1024, 1024,
      1024, 1024, 1024, 1024, 1048, 1048, 1048, 1048, 1048, 1048, 1048, 1048, 1048, 1048, 1048, 1048, 0, 0, 0, 0, 0, 0, 0, 0, 0,
      0, 0, 0, 0, 0, 0, 0, 56, 56, 56, 0, 0, 56, 56]"

definition OpInfo2_17 :: "u32 list" where
  "OpInfo2_17 =
     [0, 0, 56, 1048, 1048, 1048, 1048, 1048, 1048, 1048, 1048, 1048, 1048, 1048, 1048, 1048, 1048, 1048, 1048, 1048, 1048,
      1048, 1048, 1048, 1048, 1048, 1048, 1048, 1048, 1048, 1048, 1048, 1048, 1048, 1048, 1048, 1048, 1048, 0, 56, 56, 0,
      247328, 247328, 1184, 1184, 1184, 1184, 1184, 1184, 1184, 1184, 1184, 1184, 1184, 1184, 1184, 1184, 1184, 1184, 1048,
      1048, 1048, 1048, 1048, 1048, 1048, 1048, 1048, 1048, 1048, 6, 6, 6, 1048, 1048, 1048, 1048, 1048, 1048, 1048, 1048, 1048,
      1048, 1048, 1048, 1048, 1048, 1048, 1048, 1048, 1048, 1048, 1048, 1048, 1048, 1048, 1048, 1048, 1048]"

definition OpInfo2_18 :: "u32 list" where
  "OpInfo2_18 =
     [1048, 1048, 1048, 1048, 1048, 1048, 1048, 1048, 1048, 1048, 1048, 1048, 1048, 1048, 1048, 1048, 1048, 1048, 1048, 1048,
      1048, 1048, 1048, 1048, 1048, 1048, 0, 0, 0, 0, 262168, 262168, 262168, 262168, 262168, 262168, 262168, 262168, 6, 6, 56,
      56, 1184, 1184, 1184, 1184, 1184, 1184, 1184, 1184, 1184, 1184, 1184, 1184, 1184, 1184, 1184, 1184, 262168, 262168,
      262168, 262168, 262168, 262168, 262168, 262168, 275, 10769179, 275, 10769179, 275, 10769179, 1240, 1240, 1240, 5336, 5336,
      5336, 311512, 311512, 311512, 0, 0, 0, 0, 0, 0, 0, 0, 0, 0, 0, 0, 0, 0, 0, 0, 0, 0, 0]"

definition OpInfo2_19 :: "u32 list" where
  "OpInfo2_19 =
     [0, 0, 0, 0, 0, 0, 0, 0, 0, 0, 0, 0, 0, 0, 0, 0, 0, 0, 0, 0, 0, 0, 0, 0, 0, 0, 0, 0, 0, 0, 0, 0, 0, 0, 0, 0, 0, 0, 0, 0, 0,
      110368459, 0, 0, 448211, 110368459, 0, 0, 448211, 110368459, 0, 0, 448211, 1240, 1240, 1240, 5336, 5336, 5336, 311512,
      311512, 311512, 110368459, 0, 0, 448211, 110368459, 0, 0, 448211, 1240, 1240, 5336, 5336, 311512, 311512, 0, 0, 0, 0, 0,
      0, 0, 0, 0, 0, 0, 0, 0, 0, 0, 0, 0, 0, 0, 0, 0, 0, 0, 0]"

definition OpInfo2_20 :: "u32 list" where
  "OpInfo2_20 =
     [0, 0, 0, 0, 0, 0, 0, 0, 0, 0, 0, 0, 127145755, 0, 0, 291, 127145755, 0, 0, 291, 127145755, 0, 0, 291, 1240, 1240, 1240,
      5336, 5336, 5336, 311512, 311512, 311512, 127145755, 0, 0, 291, 127145755, 0, 0, 291, 1240, 1240, 5336, 5336, 311512,
      311512, 142917792, 0, 0, 9512, 142917792, 0, 0, 9512, 142917792, 0, 0, 9512, 59, 59, 59, 195, 195, 195, 249379, 249379,
      249379, 142917792, 0, 9512, 0, 0, 142917792, 0, 9512, 0, 0, 142917792, 0, 9512, 0, 0, 0, 0, 0, 4, 4, 4, 1184, 1184, 1184,
      160700115, 0, 0, 9955, 160700115, 0, 0, 9955]"

definition OpInfo2_21 :: "u32 list" where
  "OpInfo2_21 =
     [160700115, 0, 0, 9955, 1240, 1240, 1240, 5336, 5336, 5336, 311512, 311512, 311512, 160700115, 0, 0, 9955, 160700115, 0, 0,
      9955, 1240, 1240, 5336, 5336, 311512, 311512, 169132192, 0, 0, 459048, 169132192, 0, 0, 459048, 169132192, 0, 0, 459048,
      59, 59, 59, 195, 195, 195, 249379, 249379, 249379, 169132192, 0, 459048, 0, 0, 169132192, 0, 459048, 0, 0, 169132192, 0,
      459048, 0, 0, 0, 0, 0, 4, 4, 4, 1184, 1184, 1184, 57, 1088, 57, 0, 57, 1088, 57, 264, 264, 247328, 1048, 1048, 1048, 1048,
      1048, 1048, 1048, 1048, 1048, 247328, 1048, 1048, 1048, 1048, 1048, 1048, 247328, 247328]"

definition OpInfo2_22 :: "u32 list" where
  "OpInfo2_22 =
     [1048, 1048, 1048, 1048, 1048, 1048, 1048, 1048, 1024, 1024, 304, 312, 320, 0, 328, 0, 336, 344, 352, 0, 360, 0, 0, 0, 0,
      0, 0, 0, 6, 6, 0, 0, 0, 0, 0, 0, 6, 6, 1024, 1024, 1024, 1024, 1024, 1024, 0, 0, 0, 0, 0, 0, 0, 0, 0, 0, 6, 6, 1024, 1024,
      1024, 1024, 1024, 1024, 1024, 1024, 1024, 1024, 0, 10304, 369, 10304, 369, 10304, 369, 10304, 369, 10304, 369, 10304, 369,
      10304, 369, 10304, 369, 0, 0, 0, 475136, 0, 0, 0, 0, 0, 0, 475136, 8, 0, 0, 475136, 491520, 0]"

definition OpInfo2_23 :: "u32 list" where
  "OpInfo2_23 =
     [0, 16, 32792, 0, 0, 475136, 0, 0, 0, 544, 544, 0, 1024, 1024, 1024, 376, 1024, 1024, 376, 0, 0, 1048, 1048, 1048, 1048,
      1048, 1048, 1048, 0, 0, 0, 0, 0, 0, 0, 0, 475136, 0, 0, 0, 0, 0, 72, 72, 72, 72, 229376, 72, 72, 81, 49241, 65625, 97, 81,
      49241, 65625, 97, 81, 49241, 65625, 97, 81, 49241, 65625, 97, 1088, 57, 1088, 0, 57, 384, 10840, 392, 120, 384, 400, 1024,
      408, 11649024, 507904, 524288, 416, 72, 229376, 72, 384, 10840, 392, 120, 384, 400, 1024, 408, 384, 10840, 392, 120, 384,
      400, 1024]"

definition OpInfo2_24 :: "u32 list" where
  "OpInfo2_24 =
     [408, 384, 10840, 392, 120, 384, 400, 1024, 408, 384, 10840, 392, 120, 384, 400, 0, 1024, 408, 0, 0, 0, 0, 491520, 0,
      2295328, 2295328, 3343904, 3343904, 17825792, 17825792, 0, 0, 0, 0, 0, 0, 0, 0, 376, 48, 1048, 0, 0, 1024, 1024, 0, 0,
      1024, 376, 48, 11264, 11264, 0, 0, 3343904, 3343904, 2, 424, 2, 0, 0, 0, 0, 1024, 1024, 376, 0, 0, 475136, 0, 0, 475136,
      4194304, 5242880, 0, 0, 0, 0, 0, 0, 0, 0, 0, 0, 0, 0, 0, 0, 0, 0, 0, 0, 0, 0, 0, 1024, 1024, 1024, 1024, 0]"

definition OpInfo2_25 :: "u32 list" where
  "OpInfo2_25 =
     [4, 0, 4, 0, 0, 1024, 0, 0, 0, 0, 475136, 0, 0, 0, 0, 0, 475136, 34603008, 0, 0, 0, 0, 0, 0, 0, 0, 0, 17825792, 17825792,
      17825792, 17825792, 17825792, 17825792, 17825792, 17825792, 17825792, 17825792, 17825792, 17825792, 17825792, 17825792,
      17825792, 17825792, 17825792, 17825792, 185860096, 17825792, 17825792, 17825792, 17825792, 0, 0, 0, 0, 0, 0, 17825792, 0,
      0, 0, 0, 0, 0, 0, 0, 0, 0, 2216, 1192, 0, 0, 0, 81, 49241, 65625, 97, 81, 49241, 65625, 97, 81, 49241, 65625, 97, 81,
      49241, 65625, 97, 72, 72, 229376, 229376, 202375168, 229376, 72, 1088, 57, 1088, 57, 384]"

definition OpInfo2_26 :: "u32 list" where
  "OpInfo2_26 =
     [10840, 392, 0, 120, 384, 408, 11649048, 507928, 524288, 540672, 229376, 202375168, 229376, 384, 10840, 392, 0, 120, 384,
      408, 384, 10840, 392, 0, 120, 384, 408, 0, 0, 0, 0, 0, 0, 0, 475136, 6291456, 6291456, 6291456, 2560, 2560, 2560, 0, 0, 0,
      0, 1024, 1024, 376, 1024, 1024, 376, 0, 0, 0, 34603008, 0, 0, 0, 0, 0, 0, 0, 0, 17825792, 17825792, 17825792, 0, 0, 0, 0,
      0, 0, 0, 17825792, 7340032, 0, 0, 0, 0, 6291456, 6291456, 6291456, 2560, 2560, 2560, 0, 1048, 1184, 0, 0, 557056, 1184,
      432, 1048, 0, 0, 440, 0, 448, 0]"

definition OpInfo2_27 :: "u32 list" where
  "OpInfo2_27 =
     [0, 0, 0, 0, 0, 0, 0, 0, 0, 0, 0, 0, 0, 0, 0, 0, 1024, 1024, 1024, 1024, 0, 0, 0, 0, 0, 0, 1088, 0, 456, 464, 472, 464, 0,
      0, 464, 464, 480, 400, 0, 464, 488, 0, 0, 1184, 0, 448, 0, 0, 0, 0, 1024, 1184, 0, 0, 0, 0, 0, 0, 1024, 1024, 1024, 0, 0,
      0, 0, 57, 456, 464, 472, 464, 480, 464, 488, 1184, 0, 1184, 432, 0, 1024, 1024, 0, 0, 0, 0, 0, 1024, 0, 1024, 1024, 0]"

definition OpInfo2 :: "u32 list" where
  "OpInfo2 =
     concat [OpInfo2_0, OpInfo2_1, OpInfo2_2, OpInfo2_3, OpInfo2_4, OpInfo2_5, OpInfo2_6, OpInfo2_7, OpInfo2_8, OpInfo2_9, OpInfo2_10,
      OpInfo2_11, OpInfo2_12, OpInfo2_13, OpInfo2_14, OpInfo2_15, OpInfo2_16, OpInfo2_17, OpInfo2_18, OpInfo2_19, OpInfo2_20,
      OpInfo2_21, OpInfo2_22, OpInfo2_23, OpInfo2_24, OpInfo2_25, OpInfo2_26, OpInfo2_27]"

definition entry_bits :: "u32 \<Rightarrow> u32 \<Rightarrow> u64" where
  "entry_bits Bits1 Bits2 = push_bit 32 (ucast Bits2) OR ucast Bits1"

text \<open>The fragments: for every value of the field its statements, and whether they end with \<^verbatim>\<open>return\<close>.\<close>

definition fragment_0 :: "(cmd list \<times> bool) list" where
  "fragment_0 =
     [([], True),
      ([Registers call_printSBitModifierOperand 5, Number call_printPredicateOperand 3], False),
      ([Registers call_printSBitModifierOperand 6, Number call_printPredicateOperand 4], False),
      ([Registers call_printSBitModifierOperand 7, Number call_printPredicateOperand 5, Text [TAB],
         Registers call_printOperand 0, Text '', '', Registers call_printOperand 1, Text '', '',
         Registers call_printSORegRegOperand 2], True),
      ([Number call_printPredicateOperand 2], False),
      ([Registers call_printOperand 0], False),
      ([Number call_printPredicateOperand 3], False),
      ([Number call_printPredicateOperand 4], False),
      ([Number call_printPredicateOperand 1], False),
      ([Number call_printPredicateOperand 0], False),
      ([Number call_printPredicateOperand 6], False),
      ([Number call_printPImmediate 0, Text '', ''], False),
      ([Number call_printCPSIMod 0], False),
      ([Number call_printMemBOption 0], True),
      ([Number call_printInstSyncBOption 0], True),
      ([Number call_printThumbITMask 1], False),
      ([Number call_printPredicateOperand 5], False),
      ([Registers call_printSBitModifierOperand 4, Number call_printPredicateOperand 2], False),
      ([Number call_printPImmediate 1, Text '', '', Registers call_printOperand 2, Text '', '',
         Registers call_printOperand 0, Text '', '', Number call_printCImmediate 3, Text '', '',
         Number call_printCImmediate 4, Text '', '', Registers call_printOperand 5], True),
      ([Memory (call_printAddrModeImm12Operand False) 0], True),
      ([Memory call_printAddrMode2Operand 0], True),
      ([Number call_printSetendOperand 0], True),
      ([Registers call_printSBitModifierOperand 8, Number call_printPredicateOperand 6, Text [TAB],
         Registers call_printOperand 0, Text '', '', Registers call_printOperand 1, Text '', '',
         Registers call_printOperand 2, Text '', '', Registers call_printOperand 3], True),
      ([Number call_printPredicateOperand 7], False),
      ([Number call_printPredicateOperand 9], False),
      ([Number call_printPredicateOperand 11], False),
      ([Number call_printPredicateOperand 8], False),
      ([Number call_printPredicateOperand 13], False),
      ([Registers call_printSBitModifierOperand 1], False)]"

definition fragment_1 :: "(cmd list \<times> bool) list" where
  "fragment_1 =
     [([Text [TAB]], False),
      ([Text '', ''], False),
      ([Text '' ''], False),
      ([], True),
      ([Text ([TAB] @ ''lr''), AddReg ARM_REG_LR], True),
      ([Registers call_printOperand 1, Text '', ''], False),
      ([Text (''.f64'' @ [TAB]), VecType ARM_VECTORDATA_F64, Registers call_printOperand 0], False),
      ([Text (''.f32'' @ [TAB]), VecType ARM_VECTORDATA_F32, Registers call_printOperand 0], False),
      ([Text ([TAB] @ ''apsr_nzcv, fpscr''), AddReg ARM_REG_APSR_NZCV, AddReg ARM_REG_FPSCR], True),
      ([Number call_printCImmediate 1, Text '', ''], False),
      ([Text ([TAB] @ ''pc, lr''), AddReg ARM_REG_PC, AddReg ARM_REG_LR], True),
      ([Text ''!''], True),
      ([Text (''.s32'' @ [TAB]), VecType ARM_VECTORDATA_S32, Registers call_printOperand 0, Text '', ''], False),
      ([Text (''.s16'' @ [TAB]), VecType ARM_VECTORDATA_S16, Registers call_printOperand 0, Text '', ''], False),
      ([Text (''.s8'' @ [TAB]), VecType ARM_VECTORDATA_S8, Registers call_printOperand 0, Text '', ''], False),
      ([Text (''.u32'' @ [TAB]), VecType ARM_VECTORDATA_U32, Registers call_printOperand 0, Text '', ''], False),
      ([Text (''.u16'' @ [TAB]), VecType ARM_VECTORDATA_U16, Registers call_printOperand 0, Text '', ''], False),
      ([Text (''.u8'' @ [TAB]), VecType ARM_VECTORDATA_U8, Registers call_printOperand 0, Text '', ''], False),
      ([Text (''.i64'' @ [TAB]), VecType ARM_VECTORDATA_I64, Registers call_printOperand 0, Text '', ''], False),
      ([Text (''.i32'' @ [TAB]), VecType ARM_VECTORDATA_I32, Registers call_printOperand 0, Text '', ''], False),
      ([Text (''.i16'' @ [TAB]), VecType ARM_VECTORDATA_I16, Registers call_printOperand 0, Text '', ''], False),
      ([Text (''.i8'' @ [TAB]), VecType ARM_VECTORDATA_I8, Registers call_printOperand 0, Text '', ''], False),
      ([Text (''.8'' @ [TAB]), VecSize 8], False),
      ([Text (''.f16.f64'' @ [TAB]), VecType ARM_VECTORDATA_F16F64, Registers call_printOperand 0, Text '', '',
         Registers call_printOperand 1], True),
      ([Text (''.f64.f16'' @ [TAB]), VecType ARM_VECTORDATA_F64F16, Registers call_printOperand 0, Text '', '',
         Registers call_printOperand 1], True),
      ([Text (''.f32.f16'' @ [TAB]), VecType ARM_VECTORDATA_F32F16, Registers call_printOperand 0, Text '', '',
         Registers call_printOperand 1], True),
      ([Text (''.f16.f32'' @ [TAB]), VecType ARM_VECTORDATA_F16F32, Registers call_printOperand 0, Text '', '',
         Registers call_printOperand 1], True),
      ([Text (''.f64.f32'' @ [TAB]), VecType ARM_VECTORDATA_F64F32, Registers call_printOperand 0, Text '', '',
         Registers call_printOperand 1], True),
      ([Text (''.f32.f64'' @ [TAB]), VecType ARM_VECTORDATA_F32F64, Registers call_printOperand 0, Text '', '',
         Registers call_printOperand 1], True),
      ([Text (''.s32.f32'' @ [TAB]), VecType ARM_VECTORDATA_S32F32, Registers call_printOperand 0, Text '', '',
         Registers call_printOperand 1], False),
      ([Text (''.u32.f32'' @ [TAB]), VecType ARM_VECTORDATA_U32F32, Registers call_printOperand 0, Text '', '',
         Registers call_printOperand 1], False),
      ([Text (''.f32.s32'' @ [TAB]), VecType ARM_VECTORDATA_F32S32, Registers call_printOperand 0, Text '', '',
         Registers call_printOperand 1], False),
      ([Text (''.f32.u32'' @ [TAB]), VecType ARM_VECTORDATA_F32U32, Registers call_printOperand 0, Text '', '',
         Registers call_printOperand 1], False),
      ([Text (''.16'' @ [TAB]), VecSize 16], False),
      ([Text (''.32'' @ [TAB]), VecSize 32], False),
      ([Text (''.64'' @ [TAB]), VecSize 64], False),
      ([Text (''.16'' @ [TAB] @ ''{''), VecSize 16], False),
      ([Text (''.32'' @ [TAB] @ ''{''), VecSize 32], False),
      ([Text (''.8'' @ [TAB] @ ''{''), VecSize 8], False),
      ([Text ([TAB] @ ''fpscr, ''), AddReg ARM_REG_FPSCR, Registers call_printOperand 0], True),
      ([Text ([TAB] @ ''fpexc, ''), AddReg ARM_REG_FPEXC, Registers call_printOperand 0], True),
      ([Text ([TAB] @ ''fpinst, ''), AddReg ARM_REG_FPINST, Registers call_printOperand 0], True),
      ([Text ([TAB] @ ''fpinst2, ''), AddReg ARM_REG_FPINST2, Registers call_printOperand 0], True),
      ([Text ([TAB] @ ''fpsid, ''), AddReg ARM_REG_FPSID, Registers call_printOperand 0], True),
      ([Text (''.p8'' @ [TAB]), VecType ARM_VECTORDATA_P8, Registers call_printOperand 0, Text '', '',
         Registers call_printOperand 1, Text '', '', Registers call_printOperand 2], True),
      ([Text (''.s64'' @ [TAB]), VecType ARM_VECTORDATA_S64, Registers call_printOperand 0, Text '', ''], False),
      ([Text (''.u64'' @ [TAB]), VecType ARM_VECTORDATA_U64, Registers call_printOperand 0, Text '', ''], False),
      ([Text (''.f64.s16'' @ [TAB]), VecType ARM_VECTORDATA_F64S16, Registers call_printOperand 0, Text '', '',
         Registers call_printOperand 1, Text '', '', Number call_printFBits16 2], True),
      ([Text (''.f32.s16'' @ [TAB]), VecType ARM_VECTORDATA_F32S16, Registers call_printOperand 0, Text '', '',
         Registers call_printOperand 1, Text '', '', Number call_printFBits16 2], True),
      ([Text (''.f64.s32'' @ [TAB]), VecType ARM_VECTORDATA_F64S32, Registers call_printOperand 0, Text '', '',
         Registers call_printOperand 1], False),
      ([Text (''.s16.f64'' @ [TAB]), VecType ARM_VECTORDATA_S16F64, Registers call_printOperand 0, Text '', '',
         Registers call_printOperand 1, Text '', '', Number call_printFBits16 2], True),
      ([Text (''.s16.f32'' @ [TAB]), VecType ARM_VECTORDATA_S16F32, Registers call_printOperand 0, Text '', '',
         Registers call_printOperand 1, Text '', '', Number call_printFBits16 2], True),
      ([Text (''.s32.f64'' @ [TAB]), VecType ARM_VECTORDATA_S32F64, Registers call_printOperand 0, Text '', '',
         Registers call_printOperand 1], False),
      ([Text (''.u16.f64'' @ [TAB]), VecType ARM_VECTORDATA_U16F64, Registers call_printOperand 0, Text '', '',
         Registers call_printOperand 1, Text '', '', Number call_printFBits16 2], True),
      ([Text (''.u16.f32'' @ [TAB]), VecType ARM_VECTORDATA_U16F32, Registers call_printOperand 0, Text '', '',
         Registers call_printOperand 1, Text '', '', Number call_printFBits16 2], True),
      ([Text (''.u32.f64'' @ [TAB]), VecType ARM_VECTORDATA_U32F64, Registers call_printOperand 0, Text '', '',
         Registers call_printOperand 1], False),
      ([Text (''.f64.u16'' @ [TAB]), VecType ARM_VECTORDATA_F64U16, Registers call_printOperand 0, Text '', '',
         Registers call_printOperand 1, Text '', '', Number call_printFBits16 2], True),
      ([Text (''.f32.u16'' @ [TAB]), VecType ARM_VECTORDATA_F32U16, Registers call_printOperand 0, Text '', '',
         Registers call_printOperand 1, Text '', '', Number call_printFBits16 2], True),
      ([Text (''.f64.u32'' @ [TAB]), VecType ARM_VECTORDATA_F64U32, Registers call_printOperand 0, Text '', '',
         Registers call_printOperand 1], False),
      ([Text (''.w'' @ [TAB])], False),
      ([Text ([TAB] @ ''sp, ''), AddReg ARM_REG_SP, Registers call_printOperand 0], True),
      ([Text ([TAB] @ ''sp!, ''), AddReg ARM_REG_SP, Registers call_printOperand 0], True),
      ([Text ([TAB] @ ''pc, lr, ''), AddReg ARM_REG_PC, AddReg ARM_REG_LR, Registers call_printOperand 0], True),
      ([Number call_printPredicateOperand 4, Text [TAB], Registers call_printOperand 0, Text '', ''], False),
      ([Number call_printPredicateOperand 3, Text [TAB], Registers call_printOperand 0, Text '', '',
         Registers call_printOperand 2], False)]"

definition fragment_2 :: "(cmd list \<times> bool) list" where
  "fragment_2 =
     [([Registers call_printOperand 0], False),
      ([Registers call_printOperand 2], False),
      ([Registers call_printOperand 1], False),
      ([Number call_printPImmediate 0, Text '', ''], False),
      ([Number call_printCImmediate 2, Text '', '', Number call_printCImmediate 3, Text '', '',
         Number call_printCImmediate 4, Text '', '', Registers call_printOperand 5], True),
      ([Number call_printCPSIFlag 1], False),
      ([Text '', ''], False),
      ([Number call_printMandatoryPredicateOperand 0], True),
      ([Registers call_printGPRPairOperand 0, Text '', '', Memory call_printAddrMode7Operand 1], True),
      ([Memory (call_printAddrMode5Operand False) 2], True),
      ([Memory call_printAddrMode7Operand 2, Text '', ''], False),
      ([Memory (call_printAddrMode5Operand True) 2, Text ''!''], True),
      ([Number call_printPImmediate 1, Text '', '', Registers call_printOperand 2, Text '', '',
         Registers call_printOperand 0, Text '', '', Number call_printCImmediate 3, Text '', '',
         Number call_printCImmediate 4, Text '', '', Registers call_printOperand 5], True),
      ([Number call_printMSRMaskOperand 0, Text '', '', Registers call_printOperand 1], True),
      ([Number call_printNEONModImmOperand 1], True),
      ([Text '', #0'', AddImm 0], True),
      ([], True),
      ([Vectors call_printVectorListOneAllLanes 0, Text '', ''], False),
      ([Vectors call_printVectorListTwoAllLanes 0, Text '', ''], False),
      ([Vectors call_printVectorListOne 0, Text '', ''], False),
      ([Vectors call_printVectorListFour 0, Text '', ''], False),
      ([Vectors call_printVectorListThree 0, Text '', ''], False),
      ([Vectors call_printVectorListTwo 0, Text '', ''], False),
      ([Vectors call_printVectorListTwoSpacedAllLanes 0, Text '', ''], False),
      ([Vectors call_printVectorListTwoSpaced 0, Text '', ''], False),
      ([Vectors call_printVectorListThreeAllLanes 0, Text '', '', Memory call_printAddrMode6Operand 1], False),
      ([Vectors call_printVectorListThreeSpacedAllLanes 0, Text '', '', Memory call_printAddrMode6Operand 1], False),
      ([Vectors call_printVectorListThreeSpaced 0, Text '', '', Memory call_printAddrMode6Operand 1], False),
      ([Vectors call_printVectorListFourAllLanes 0, Text '', '', Memory call_printAddrMode6Operand 1], False),
      ([Vectors call_printVectorListFourSpacedAllLanes 0, Text '', '', Memory call_printAddrMode6Operand 1], False),
      ([Vectors call_printVectorListFourSpaced 0, Text '', '', Memory call_printAddrMode6Operand 1], False),
      ([Registers call_printOperand 4], False),
      ([Vectors call_printVectorListOne 2, Text '', '', Memory call_printAddrMode6Operand 0], True),
      ([Vectors call_printVectorListFour 2, Text '', '', Memory call_printAddrMode6Operand 0], True),
      ([Vectors call_printVectorListFour 3, Text '', '', Memory call_printAddrMode6Operand 1, Text ''!''], True),
      ([Vectors call_printVectorListFour 4, Text '', '', Memory call_printAddrMode6Operand 1, Text '', '',
         Registers call_printOperand 3], True),
      ([Vectors call_printVectorListThree 2, Text '', '', Memory call_printAddrMode6Operand 0], True),
      ([Vectors call_printVectorListThree 3, Text '', '', Memory call_printAddrMode6Operand 1, Text ''!''], True),
      ([Vectors call_printVectorListThree 4, Text '', '', Memory call_printAddrMode6Operand 1, Text '', '',
         Registers call_printOperand 3], True),
      ([Vectors call_printVectorListOne 3, Text '', '', Memory call_printAddrMode6Operand 1, Text ''!''], True),
      ([Vectors call_printVectorListOne 4, Text '', '', Memory call_printAddrMode6Operand 1, Text '', '',
         Registers call_printOperand 3], True),
      ([Vectors call_printVectorListTwo 2, Text '', '', Memory call_printAddrMode6Operand 0], True),
      ([Vectors call_printVectorListTwo 3, Text '', '', Memory call_printAddrMode6Operand 1, Text ''!''], True),
      ([Vectors call_printVectorListTwo 4, Text '', '', Memory call_printAddrMode6Operand 1, Text '', '',
         Registers call_printOperand 3], True),
      ([Vectors call_printVectorListTwoSpaced 2, Text '', '', Memory call_printAddrMode6Operand 0], True),
      ([Vectors call_printVectorListTwoSpaced 3, Text '', '', Memory call_printAddrMode6Operand 1, Text ''!''], True),
      ([Vectors call_printVectorListTwoSpaced 4, Text '', '', Memory call_printAddrMode6Operand 1, Text '', '',
         Registers call_printOperand 3], True),
      ([Number call_printMemBOption 0], True),
      ([Number call_printInstSyncBOption 0], True),
      ([Memory (call_printAddrModeImm12Operand False) 0], True),
      ([Memory (call_printT2AddrModeImm8Operand False) 0], True),
      ([Memory call_printT2AddrModeSoRegOperand 0], True),
      ([Registers call_printThumbLdrLabelOperand 0], True),
      ([Memory call_printAddrModeTBB 0], True),
      ([Memory call_printAddrModeTBH 0], True),
      ([Registers call_printOperand 3], True),
      ([Registers call_printRegisterList 2], True)]"

definition fragment_3 :: "(cmd list \<times> bool) list" where
  "fragment_3 =
     [([Text '', ''], False),
      ([], True),
      ([Registers call_printOperand 1], False),
      ([Number call_printFPImmOperand 1], True),
      ([Text ''!, '', Registers call_printRegisterList 4], False),
      ([Number call_printCoprocOptionImm 3], True),
      ([Registers call_printPostIdxImm8s4Operand 3], True),
      ([Number call_printCImmediate 1, Text '', ''], False),
      ([Text '', apsr'', AddReg ARM_REG_APSR], True),
      ([Text '', spsr'', AddReg ARM_REG_SPSR], True),
      ([Text '', #0'', AddImm 0], True),
      ([Registers call_printOperand 2], False),
      ([Registers call_printVectorIndex 2], True),
      ([Memory call_printAddrMode6Operand 1], False),
      ([Memory call_printAddrMode6Operand 2], False),
      ([Text ''['', SetMem True], False),
      ([Text ''[], '', Registers call_printOperand 1, Text ''[], '', Registers call_printOperand 2], False),
      ([Text ''!''], True),
      ([Text '', fpscr'', AddReg ARM_REG_FPSCR], True),
      ([Text '', fpexc'', AddReg ARM_REG_FPEXC], True),
      ([Text '', fpinst'', AddReg ARM_REG_FPINST], True),
      ([Text '', fpinst2'', AddReg ARM_REG_FPINST2], True),
      ([Text '', fpsid'', AddReg ARM_REG_FPSID], True),
      ([Text '', mvfr0'', AddReg ARM_REG_MVFR0], True),
      ([Text '', mvfr1'', AddReg ARM_REG_MVFR1], True),
      ([Text '', mvfr2'', AddReg ARM_REG_MVFR2], True),
      ([Registers call_printVectorIndex 3, Text '', '', Registers call_printOperand 2], True),
      ([Number call_printFBits32 2], True)]"

definition fragment_4 :: "(cmd list \<times> bool) list" where
  "fragment_4 =
     [([Registers call_printOperand 1], False),
      ([Number (call_printAdrLabelOperand 0) 1], True),
      ([Number call_printBitfieldInvMaskImmOperand 2], True),
      ([Registers call_printOperand 2], False),
      ([Text '', ''], False),
      ([Registers call_printSORegImmOperand 1], True),
      ([Registers call_printSORegRegOperand 1], True),
      ([], True),
      ([Registers call_printRegisterList 3], False),
      ([Memory call_printAddrMode7Operand 1], True),
      ([Memory (call_printAddrMode5Operand False) 2], True),
      ([Memory call_printAddrMode7Operand 2], False),
      ([Memory (call_printAddrMode5Operand True) 2, Text ''!''], True),
      ([Memory (call_printAddrModeImm12Operand True) 2, Text ''!''], True),
      ([Memory call_printAddrMode2Operand 2, Text ''!''], True),
      ([Memory (call_printAddrModeImm12Operand False) 1], True),
      ([Memory call_printAddrMode2Operand 1], True),
      ([Memory (call_printAddrMode3Operand False) 1], True),
      ([Memory (call_printAddrMode3Operand True) 2, Text ''!''], True),
      ([Number call_printCImmediate 3, Text '', '', Number call_printCImmediate 4, Text '', '',
         Registers call_printOperand 5], True),
      ([Registers call_printOperand 3], False),
      ([Number call_printImmPlusOneOperand 1, Text '', '', Registers call_printOperand 2], False),
      ([Registers call_printGPRPairOperand 1, Text '', '', Memory call_printAddrMode7Operand 2], True),
      ([Text '', #0'', AddImm 0], True),
      ([Text ''!''], True),
      ([Number call_printNoHashImmediate 4], False),
      ([Number call_printNoHashImmediate 6], False),
      ([Memory call_printAddrMode6Operand 2], False),
      ([Number call_printNoHashImmediate 8, Text ''], '', SetMem False], False),
      ([Text ''[]}, ''], False),
      ([Number call_printNoHashImmediate 10, Text ''], '', SetMem False, Registers call_printOperand 1, Text ''['',
         SetMem True, Number call_printNoHashImmediate 10, Text ''], '', SetMem False, Registers call_printOperand 2,
         Text ''['', SetMem True, Number call_printNoHashImmediate 10], False),
      ([Text ''[], '', Registers call_printOperand 3, Text ''[]}, ''], False),
      ([Number call_printNoHashImmediate 12, Text ''], '', SetMem False, Registers call_printOperand 1, Text ''['',
         SetMem True, Number call_printNoHashImmediate 12, Text ''], '', SetMem False, Registers call_printOperand 2,
         Text ''['', SetMem True, Number call_printNoHashImmediate 12, Text ''], '', SetMem False,
         Registers call_printOperand 3, Text ''['', SetMem True, Number call_printNoHashImmediate 12, Text '']}, '',
         SetMem False, Memory call_printAddrMode6Operand 5, Registers call_printAddrMode6OffsetOperand 7], True),
      ([Memory (call_printAddrMode5Operand False) 1], True),
      ([Number call_printNoHashImmediate 3, Text '']}, '', SetMem False, Memory call_printAddrMode6Operand 0], True),
      ([Number call_printNoHashImmediate 5], False),
      ([Number call_printNoHashImmediate 7, Text ''], '', SetMem False, Registers call_printOperand 5, Text ''['',
         SetMem True, Number call_printNoHashImmediate 7, Text ''], '', SetMem False, Registers call_printOperand 6,
         Text ''['', SetMem True, Number call_printNoHashImmediate 7, Text '']}, '', SetMem False,
         Memory call_printAddrMode6Operand 1, Registers call_printAddrMode6OffsetOperand 3], True),
      ([Registers call_printOperand 5, Text '', '', Registers call_printOperand 6], False),
      ([Vectors call_printVectorListOne 1, Text '', '', Registers call_printOperand 2], True),
      ([Vectors call_printVectorListTwo 1, Text '', '', Registers call_printOperand 2], True),
      ([Vectors call_printVectorListThree 1, Text '', '', Registers call_printOperand 2], True),
      ([Vectors call_printVectorListFour 1, Text '', '', Registers call_printOperand 2], True),
      ([Vectors call_printVectorListOne 2, Text '', '', Registers call_printOperand 3], True),
      ([Vectors call_printVectorListTwo 2, Text '', '', Registers call_printOperand 3], True),
      ([Vectors call_printVectorListThree 2, Text '', '', Registers call_printOperand 3], True),
      ([Vectors call_printVectorListFour 2, Text '', '', Registers call_printOperand 3], True),
      ([Text '' ^'', UserMode], True),
      ([Registers call_printT2SOOperand 1], True),
      ([Memory (call_printT2AddrModeImm8Operand False) 1], True),
      ([Memory (call_printT2AddrModeImm8Operand True) 2, Text ''!''], True),
      ([Registers call_printThumbLdrLabelOperand 1], True),
      ([Memory call_printT2AddrModeSoRegOperand 1], True),
      ([Memory call_printT2AddrModeImm0_1020s4Operand 1], True),
      ([Number call_printMSRMaskOperand 1], True),
      ([Number call_printThumbS4ImmOperand 2], True),
      ([Number (call_printAdrLabelOperand 2) 1], True),
      ([Number call_printThumbSRImm 3], True),
      ([Memory call_printThumbAddrModeImm5S1Operand 1], True),
      ([Memory call_printThumbAddrModeRROperand 1], True),
      ([Memory call_printThumbAddrModeImm5S2Operand 1], True),
      ([Memory call_printThumbAddrModeImm5S4Operand 1], True),
      ([Memory call_printThumbAddrModeSPOperand 1], True)]"

definition fragment_5 :: "(cmd list \<times> bool) list" where
  "fragment_5 =
     [([Text '', ''], False),
      ([Number call_printCImmediate 2, Text '', '', Number call_printCImmediate 3, Text '', '',
         Number call_printCImmediate 4, Text '', '', Registers call_printOperand 5], True),
      ([], True),
      ([Registers call_printOperand 2], False),
      ([Registers call_printShiftImmOperand 3], True),
      ([Registers call_printRotImmOperand 2], True),
      ([Registers call_printVectorIndex 2], True),
      ([Registers call_printOperand 3], False),
      ([Registers call_printOperand 4], True),
      ([Text '']}, '', SetMem False], False),
      ([Text ''!''], True),
      ([Text ''], '', SetMem False], False),
      ([Registers call_printOperand 1, Text ''['', SetMem True, Number call_printNoHashImmediate 8], False),
      ([Memory call_printAddrMode6Operand 3], True),
      ([Memory call_printAddrMode6Operand 4], False),
      ([Memory call_printAddrMode6Operand 5, Registers call_printAddrMode6OffsetOperand 7], True),
      ([Registers call_printVectorIndex 4], True),
      ([Registers call_printVectorIndex 3], True),
      ([Text ''}, '', Memory call_printAddrMode6Operand 1, Registers call_printAddrMode6OffsetOperand 3], True),
      ([Registers call_printOperand 5, Text ''['', SetMem True, Number call_printNoHashImmediate 8, Text ''], '',
         SetMem False, Registers call_printOperand 6, Text ''['', SetMem True, Number call_printNoHashImmediate 8,
         Text ''], '', SetMem False, Registers call_printOperand 7, Text ''['', SetMem True,
         Number call_printNoHashImmediate 8, Text '']}, '', SetMem False, Memory call_printAddrMode6Operand 1,
         Registers call_printAddrMode6OffsetOperand 3], True),
      ([Text '' ^'', UserMode], True),
      ([Registers call_printT2AddrModeImm8OffsetOperand 3], True),
      ([Text '', #1'', AddImm 1], True)]"

definition fragment_6 :: "(cmd list \<times> bool) list" where
  "fragment_6 =
     [([Registers call_printOperand 2], False),
      ([Registers call_printSORegImmOperand 2], True),
      ([Number call_printBitfieldInvMaskImmOperand 3], True),
      ([Number call_printCoprocOptionImm 3], True),
      ([Registers call_printPostIdxImm8s4Operand 3], True),
      ([Registers call_printAddrMode2OffsetOperand 3], True),
      ([Memory (call_printAddrMode3Operand False) 2], True),
      ([Memory call_printAddrMode7Operand 3], False),
      ([Memory (call_printAddrMode3Operand True) 3, Text ''!''], True),
      ([Registers call_printPostIdxImm8Operand 3], True),
      ([Registers call_printPostIdxRegOperand 3], True),
      ([Registers call_printAddrMode3OffsetOperand 3], True),
      ([Text '', ''], False),
      ([Number call_printCImmediate 4], True),
      ([Memory call_printAddrMode7Operand 2], True),
      ([], True),
      ([Registers call_printOperand 3], False),
      ([Memory call_printAddrMode6Operand 1], False),
      ([Memory call_printAddrMode6Operand 2, Registers call_printAddrMode6OffsetOperand 4], True),
      ([Registers call_printOperand 4], False),
      ([Registers call_printOperand 1, Text ''['', SetMem True, Number call_printNoHashImmediate 6, Text '']}, '',
         SetMem False, Memory call_printAddrMode6Operand 2], True),
      ([Text '']}, '', SetMem False, Memory call_printAddrMode6Operand 3, Registers call_printAddrMode6OffsetOperand 5], True),
      ([Registers call_printAddrMode6OffsetOperand 6], True),
      ([Text ''], '', SetMem False, Registers call_printOperand 2, Text ''['', SetMem True,
         Number call_printNoHashImmediate 8, Text '']}, '', SetMem False, Memory call_printAddrMode6Operand 3], True),
      ([Memory call_printAddrMode6Operand 4, Registers call_printAddrMode6OffsetOperand 6], True),
      ([Registers call_printVectorIndex 4], True),
      ([Registers call_printVectorIndex 3], True),
      ([Registers call_printOperand 5, Text ''['', SetMem True, Number call_printNoHashImmediate 6, Text '']}, '',
         SetMem False, Memory call_printAddrMode6Operand 1, Registers call_printAddrMode6OffsetOperand 3], True),
      ([Registers call_printOperand 7, Text ''}, '', Memory call_printAddrMode6Operand 1,
         Registers call_printAddrMode6OffsetOperand 3], True),
      ([Registers call_printT2SOOperand 2], True),
      ([Number call_printThumbSRImm 2], True),
      ([Memory (call_printT2AddrModeImm8s4Operand True) 3, Text ''!''], True),
      ([Memory (call_printT2AddrModeImm8s4Operand False) 2], True),
      ([Memory call_printT2AddrModeImm0_1020s4Operand 2], True),
      ([Number call_printThumbS4ImmOperand 2], True)]"

definition fragment_7 :: "(cmd list \<times> bool) list" where
  "fragment_7 =
     [([], True),
      ([Text '', ''], False),
      ([Number call_printCImmediate 3, Text '', '', Number call_printCImmediate 4, Text '', '',
         Registers call_printOperand 5], True),
      ([Registers call_printOperand 3, Text '', '', Number call_printCImmediate 4], True),
      ([Registers call_printPKHLSLShiftImm 3], True),
      ([Registers call_printPKHASRShiftImm 3], True),
      ([Registers call_printRotImmOperand 3], True),
      ([Registers call_printShiftImmOperand 3], True),
      ([Text ''}, ''], False),
      ([Text ''['', SetMem True], False),
      ([Registers call_printAddrMode6OffsetOperand 3], True),
      ([Registers call_printT2AddrModeImm8s4OffsetOperand 4], True)]"

definition fragment_8 :: "(cmd list \<times> bool) list" where
  "fragment_8 =
     [([Registers call_printAddrMode3OffsetOperand 4], True),
      ([Registers call_printOperand 3], False),
      ([Number call_printImmPlusOneOperand 3], True),
      ([Memory call_printAddrMode6Operand 3], True),
      ([Memory call_printAddrMode6Operand 4, Registers call_printAddrMode6OffsetOperand 6], True),
      ([Number call_printNoHashImmediate 10, Text '']}, '', SetMem False, Memory call_printAddrMode6Operand 4], True),
      ([Number call_printNoHashImmediate 4, Text '']}, '', SetMem False, Memory call_printAddrMode6Operand 0], True),
      ([Number call_printNoHashImmediate 5, Text ''], '', SetMem False, Registers call_printOperand 4, Text ''['',
         SetMem True, Number call_printNoHashImmediate 5, Text '']}, '', SetMem False, Memory call_printAddrMode6Operand 0], True),
      ([Memory call_printAddrMode6Operand 0], True),
      ([Number call_printNoHashImmediate 6, Text ''], '', SetMem False, Registers call_printOperand 4, Text ''['',
         SetMem True, Number call_printNoHashImmediate 6, Text ''], '', SetMem False, Registers call_printOperand 5,
         Text ''['', SetMem True, Number call_printNoHashImmediate 6, Text '']}, '', SetMem False,
         Memory call_printAddrMode6Operand 0], True),
      ([Registers call_printOperand 5, Text ''}, '', Memory call_printAddrMode6Operand 0], True),
      ([Registers call_printOperand 2], True),
      ([Memory call_printAddrMode7Operand 3], True)]"

definition fragment_9 :: "(cmd list \<times> bool) list" where
  "fragment_9 =
     [([], True),
      ([Text ''}, ''], False)]"

definition fragment_10 :: "(cmd list \<times> bool) list" where
  "fragment_10 =
     [([Memory call_printAddrMode6Operand 4], True),
      ([Memory call_printAddrMode6Operand 5, Registers call_printAddrMode6OffsetOperand 7], True)]"

definition fragments :: "(nat \<times> u64 \<times> (cmd list \<times> bool) list) list" where
  "fragments =
     [(12, 31, fragment_0),
      (17, 127, fragment_1),
      (24, 63, fragment_2),
      (30, 31, fragment_3),
      (35, 63, fragment_4),
      (41, 31, fragment_5),
      (46, 63, fragment_6),
      (52, 15, fragment_7),
      (56, 15, fragment_8),
      (60, 1, fragment_9),
      (61, 1, fragment_10)]"

text \<open>The statements that an entry chooses; a value without a case falls into the first.\<close>

fun chosen :: "(nat \<times> u64 \<times> (cmd list \<times> bool) list) list \<Rightarrow> u64 \<Rightarrow> cmd list" where
  "chosen [] Bits = []"
| "chosen ((shift, field, cases) # fs) Bits =
     (let v = unat (drop_bit shift Bits AND field);
          (cs, return) = cases ! (if v < length cases then v else 0)
      in if return then cs else cs @ chosen fs Bits)"

definition bits_of :: "nat \<Rightarrow> u64 option" where
  "bits_of opc =
     (if opc < length OpInfo \<and> opc < length OpInfo2 then Some (entry_bits (OpInfo ! opc) (OpInfo2 ! opc)) else None)"

text \<open>The statements for an instruction; without a text the pointer would be before the array.\<close>

definition program :: "nat \<Rightarrow> cmd list option" where
  "program opc =
     (case bits_of opc of
        None \<Rightarrow> None
      | Some Bits \<Rightarrow>
          if Bits AND 4095 = 0 then None
          else Some (Text (asm_text (unat (Bits AND 4095) - 1)) # chosen fragments Bits))"

definition printInstruction :: "MCInst \<Rightarrow> printer" where
  "printInstruction MI p = (case program (MCInst_getOpcode MI) of None \<Rightarrow> None | Some cs \<Rightarrow> exec_all MI cs p)"

subsection \<open>Canonical forms\<close>

definition hint_name :: "bool \<Rightarrow> u64 \<Rightarrow> (string \<times> nat) option" where
  "hint_name v8 v =
     (if v = 0 then Some (''nop'', ARM_INS_NOP)
      else if v = 1 then Some (''yield'', ARM_INS_YIELD)
      else if v = 2 then Some (''wfe'', ARM_INS_WFE)
      else if v = 3 then Some (''wfi'', ARM_INS_WFI)
      else if v = 4 then Some (''sev'', ARM_INS_SEV)
      else if v = 5 \<and> v8 then Some (''sevl'', ARM_INS_SEVL)
      else None)"

definition wide :: "bool \<Rightarrow> cmd list" where
  "wide b = (if b then [Text ''.w''] else [])"

definition reg_of :: "MCInst \<Rightarrow> nat \<Rightarrow> ARM_Reg" where
  "reg_of MI i = MCOperand_getReg (MCInst_getOperand MI i)"

definition imm64_of :: "MCInst \<Rightarrow> nat \<Rightarrow> u64" where
  "imm64_of MI i = MCOperand_getImm (MCInst_getOperand MI i)"

definition pop_four :: "u64 \<Rightarrow> bool" where
  "pop_four v \<longleftrightarrow> getAM2Op (ucast v) = ARM_AM_add \<and> getAM2Offset (ucast v) = 4 \<or> v = 4"

text \<open>\<open>push\<close>, \<open>pop\<close>, \<open>vpush\<close> and \<open>vpop\<close> with a list of registers, and with one register.\<close>

definition stack_list :: "string \<Rightarrow> nat \<Rightarrow> bool \<Rightarrow> cmd list" where
  "stack_list s pub w =
     [Text s, SetPub pub, Number call_printPredicateOperand 2] @ wide w @ [Text [TAB], Registers call_printRegisterList 4]"

definition stack_one :: "string \<Rightarrow> nat \<Rightarrow> nat \<Rightarrow> nat \<Rightarrow> cmd list" where
  "stack_one s pub pr r =
     [Text s, SetPub pub, Number call_printPredicateOperand pr, Text ([TAB] @ ''{''), NameReg r, Text ''}'']"

text \<open>The cases of the \<^verbatim>\<open>switch\<close> that print a canonical form and return, \<open>v8\<close> being the test of the feature bit; \<open>None\<close> where the
  generated writer is called.\<close>

definition canonical :: "bool \<Rightarrow> MCInst \<Rightarrow> cmd list option" where
  "canonical v8 MI =
     (let opc = MCInst_getOpcode MI
      in if opc = ARM_HINT \<or> opc = ARM_tHINT \<or> opc = ARM_t2HINT then
           map_option (\<lambda>(s, pub). [Text s, Number call_printPredicateOperand 1] @ wide (opc = ARM_t2HINT) @ [SetPub pub])
             (hint_name v8 (imm64_of MI 0))
         else if opc = ARM_MOVsr then
           Some [ShiftText 3, Registers call_printSBitModifierOperand 6, Number call_printPredicateOperand 4, Text [TAB], NameReg 0,
                 Text '', '', NameReg 1, Text '', '', NameReg 2]
         else if opc = ARM_MOVsi then
           Some ([ShiftText 2, Registers call_printSBitModifierOperand 5, Number call_printPredicateOperand 3, Text [TAB], NameReg 0,
                  Text '', '', NameReg 1] @
                 (if SORegShOp (imm_at MI 2) = ARM_AM_rrx_code then [] else [ShiftLast 2]))
         else if opc = ARM_STMDB_UPD \<or> opc = ARM_t2STMDB_UPD then
           (if reg_of MI 0 = ARM_SP \<and> MCInst_getNumOperands MI > 5
            then Some (stack_list ''push'' ARM_INS_PUSH (opc = ARM_t2STMDB_UPD)) else None)
         else if opc = ARM_STR_PRE_IMM then
           (if reg_of MI 2 = ARM_SP \<and> imm64_of MI 3 = - 4 then Some (stack_one ''push'' ARM_INS_PUSH 4 1) else None)
         else if opc = ARM_LDMIA_UPD \<or> opc = ARM_t2LDMIA_UPD then
           (if reg_of MI 0 = ARM_SP \<and> MCInst_getNumOperands MI > 5
            then Some (stack_list ''pop'' ARM_INS_POP (opc = ARM_t2LDMIA_UPD)) else None)
         else if opc = ARM_LDR_POST_IMM then
           (if reg_of MI 2 = ARM_SP \<and> pop_four (imm64_of MI 4) then Some (stack_one ''pop'' ARM_INS_POP 5 0) else None)
         else if opc = ARM_VSTMSDB_UPD \<or> opc = ARM_VSTMDDB_UPD then
           (if reg_of MI 0 = ARM_SP then Some (stack_list ''vpush'' ARM_INS_VPUSH False) else None)
         else if opc = ARM_VLDMSIA_UPD \<or> opc = ARM_VLDMDIA_UPD then
           (if reg_of MI 0 = ARM_SP then Some (stack_list ''vpop'' ARM_INS_VPOP False) else None)
         else if opc = ARM_tLDMIA then
           Some ([Text ''ldm'', SetPub ARM_INS_LDM, Number call_printPredicateOperand 1, Text [TAB], NameReg 0] @
                 (if list_all (\<lambda>i. reg_of MI i \<noteq> reg_of MI 0) [3..<MCInst_getNumOperands MI] then [SetWriteback, Text ''!''] else []) @
                 [Text '', '', Registers call_printRegisterList 3])
         else None)"

text \<open>The case of the exclusive loads and stores of two registers: where a single register is found instead of a pair, the code builds a
  new instruction, but leaves the pointer to the handle in it without a value; the writer would go through that pointer.\<close>

definition unpaired :: "MCInst \<Rightarrow> bool" where
  "unpaired MI \<longleftrightarrow>
     (let opc = MCInst_getOpcode MI;
          isStore = (opc = ARM_STREXD \<or> opc = ARM_STLEXD)
      in (isStore \<or> opc = ARM_LDREXD \<or> opc = ARM_LDAEXD) \<and>
         (case MCRegisterInfo_getRegClass ARM_init ARM_GPRRegClassID of
            None \<Rightarrow> False
          | Some c \<Rightarrow> MCRegisterClass_contains c (reg_at MI (if isStore then 1 else 0))))"

definition ARM_printInst :: "MCInst \<Rightarrow> printer" where
  "ARM_printInst MI p =
     (if unpaired MI then None
      else
        (case canonical (HasV8 (ps_handle p)) MI of
           Some cs \<Rightarrow> exec_all MI cs p
         | None \<Rightarrow> printInstruction MI p))"

end
