(* ===== verification/ARM_Module.thy ===== *)
theory ARM_Module
  imports ARM_AsmWriter
begin

text \<open>The ARM module of Capstone: the functions that \<^verbatim>\<open>capstone/arch/ARM/ARMModule.c\<close> puts into the handle, \<^verbatim>\<open>ARM_get_insn_id\<close> of
  \<^verbatim>\<open>ARMMapping.c\<close> and \<^verbatim>\<open>ARM_post_printer\<close> of \<^verbatim>\<open>ARMInstPrinter.c\<close>.  The generated decoder tables and the memory for the cache are
  parameters, the fields of the record \<open>arm_params\<close>.\<close>

unbundle bit_operations_syntax

subsection \<open>Numbers and details of an instruction\<close>

definition ARM_get_insn_id :: "nat list \<Rightarrow> handle \<Rightarrow> cs_insn \<Rightarrow> nat \<Rightarrow> (handle \<times> cs_insn) option" where
  "ARM_get_insn_id fresh h insn opc =
     (let (i, cache) = insn_find insns opc fresh (insn_cache h);
          h = h\<lparr>insn_cache := cache\<rparr>
      in if i = 0 then Some (h, insn)
         else if i < length insns then
           (let insn = insn\<lparr>iid := mapid (insns ! i)\<rparr>
            in if detail h \<noteq> 0 then
                 (case idetail insn of
                    None \<Rightarrow> None
                  | Some d \<Rightarrow> map_option (\<lambda>d. (h, insn\<lparr>idetail := Some d\<rparr>)) (fill_detail (insns ! i) (iid insn) d))
               else Some (h, insn))
         else None)"

definition writeback_thumb_ops :: "nat list" where
  "writeback_thumb_ops =
     [ARM_t2LDC2L_PRE, ARM_t2LDC2_PRE, ARM_t2LDCL_PRE, ARM_t2LDC_PRE, ARM_t2LDRB_PRE, ARM_t2LDRD_PRE, ARM_t2LDRH_PRE,
      ARM_t2LDRSB_PRE, ARM_t2LDRSH_PRE, ARM_t2LDR_PRE, ARM_t2STC2L_PRE, ARM_t2STC2_PRE, ARM_t2STCL_PRE, ARM_t2STC_PRE,
      ARM_t2STRB_PRE, ARM_t2STRD_PRE, ARM_t2STRH_PRE, ARM_t2STR_PRE, ARM_t2LDC2L_POST, ARM_t2LDC2_POST, ARM_t2LDCL_POST,
      ARM_t2LDC_POST, ARM_t2LDRB_POST, ARM_t2LDRD_POST, ARM_t2LDRH_POST, ARM_t2LDRSB_POST, ARM_t2LDRSH_POST,
      ARM_t2LDR_POST, ARM_t2STC2L_POST, ARM_t2STC2_POST, ARM_t2STCL_POST, ARM_t2STC_POST, ARM_t2STRB_POST,
      ARM_t2STRD_POST, ARM_t2STRH_POST, ARM_t2STR_POST]"

definition writeback_arm_ops :: "nat list" where
  "writeback_arm_ops =
     [ARM_LDC2L_PRE, ARM_LDC2_PRE, ARM_LDCL_PRE, ARM_LDC_PRE, ARM_LDRD_PRE, ARM_LDRH_PRE, ARM_LDRSB_PRE, ARM_LDRSH_PRE,
      ARM_STC2L_PRE, ARM_STC2_PRE, ARM_STCL_PRE, ARM_STC_PRE, ARM_STRD_PRE, ARM_STRH_PRE, ARM_LDC2L_POST, ARM_LDC2_POST,
      ARM_LDCL_POST, ARM_LDC_POST, ARM_LDRBT_POST, ARM_LDRD_POST, ARM_LDRH_POST, ARM_LDRSB_POST, ARM_LDRSH_POST,
      ARM_STC2L_POST, ARM_STC2_POST, ARM_STCL_POST, ARM_STC_POST, ARM_STRBT_POST, ARM_STRD_POST, ARM_STRH_POST,
      ARM_LDRB_POST_IMM, ARM_LDR_POST_IMM, ARM_LDR_POST_REG, ARM_STRB_POST_IMM, ARM_STR_POST_IMM]"

text \<open>The public numbers and the beginnings of the texts of the instructions that set the flags.\<close>

definition insn_update_flgs :: "(nat \<times> string) list" where
  "insn_update_flgs =
     [(22, ''cmn''), (23, ''cmp''), (223, ''teq''), (225, ''tst''), (1, ''adcs''), (2, ''adds''), (8, ''ands''), (406,
      ''asrs''), (11, ''bics''), (34, ''eors''), (411, ''lsls''), (412, ''lsrs''), (78, ''mlas''), (80, ''movs''), (89,
      ''muls''), (90, ''mvns''), (415, ''orns''), (91, ''orrs''), (416, ''rors''), (417, ''rrxs''), (115, ''rsbs''),
      (116, ''rscs''), (120, ''sbcs''), (146, ''smlals''), (171, ''smulls''), (213, ''subs''), (239, ''umlals''), (240,
      ''umulls'')]"

definition ARM_CC_AL :: u32 where "ARM_CC_AL = 15"

definition mark_writeback :: "handle \<Rightarrow> string \<Rightarrow> MCInst \<Rightarrow> cs_detail \<Rightarrow> cs_detail" where
  "mark_writeback h insn_asm mci d =
     (if writeback mci \<or> CHR ''!'' \<in> set (takeWhile (\<lambda>ch. ch \<noteq> NUL) insn_asm) then d\<lparr>wback := True\<rparr>
      else if cs_mode (core h) AND CS_MODE_THUMB \<noteq> 0 then
        if MCInst_getOpcode mci \<in> set writeback_thumb_ops then d\<lparr>wback := True\<rparr> else d
      else if MCInst_getOpcode mci \<in> set writeback_arm_ops then d\<lparr>wback := True\<rparr> else d)"

text \<open>The register is stored in the first free element of the array; the number of registers stays as it is.\<close>

fun store_free :: "u8 list \<Rightarrow> u8 \<Rightarrow> u8 list" where
  "store_free [] r = []"
| "store_free (x # xs) r = (if x = 0 then r # xs else x # store_free xs r)"

definition mark_update_flags :: "cs_insn \<Rightarrow> string \<Rightarrow> cs_detail \<Rightarrow> cs_detail" where
  "mark_update_flags insn insn_asm d =
     (if \<not> update_flags d \<and> list_ex (\<lambda>(n, name). iid insn = n \<and> take (length name) insn_asm = name) insn_update_flgs
      then d\<lparr>update_flags := True, regs_write := store_free (regs_write d) (ucast ARM_REG_CPSR)\<rparr>
      else d)"

definition fix_MOVPCLR :: "cs_detail \<Rightarrow> cs_detail" where
  "fix_MOVPCLR d =
     d\<lparr>operands := (operands d)[0 := (operands d ! 0)\<lparr>opnd_type := ARM_OP_REG, word0 := ARM_REG_PC\<rparr>,
                                 1 := (operands d ! 1)\<lparr>opnd_type := ARM_OP_REG, word0 := ARM_REG_LR\<rparr>],
       op_count := 2\<rparr>"

definition ARM_post_printer :: "handle \<Rightarrow> cs_insn \<Rightarrow> string \<Rightarrow> MCInst \<Rightarrow> (cs_insn \<times> string) option" where
  "ARM_post_printer h insn insn_asm mci =
     (if detail h \<noteq> CS_OPT_ON then Some (insn, insn_asm)
      else
        (case idetail insn of
           None \<Rightarrow> None
         | Some d \<Rightarrow>
             (let d = mark_writeback h insn_asm mci d;
                  d = mark_update_flags insn insn_asm d;
                  d = (if arm_cc d = 0 then d\<lparr>arm_cc := ARM_CC_AL\<rparr> else d);
                  d = (if MCInst_getOpcode mci = ARM_MOVPCLR then fix_MOVPCLR d else d)
              in Some (insn\<lparr>idetail := Some d\<rparr>, insn_asm))))"

subsection \<open>Disassemblers\<close>

text \<open>The \<^verbatim>\<open>memset\<close> of the ARM part of the details that both disassemblers start with.\<close>

definition cleared_op :: cs_arm_op where
  "cleared_op =
     \<lparr>vector_index = - 1, shift_type = 0, shift_value = 0, opnd_type = 0, word0 = 0, word1 = 0, word2 = 0, word3 = 0, subtracted = False\<rparr>"

definition clear_arm :: "cs_insn \<Rightarrow> cs_insn" where
  "clear_arm insn = insn\<lparr>idetail := map_option (\<lambda>d.
     d\<lparr>usermode := False, vector_size := 0, vector_data := 0, cps_mode := 0, cps_flag := 0, arm_cc := 0, update_flags := False,
       wback := False, mem_barrier := 0, op_count := 0, operands := replicate ARM_OPERANDS cleared_op\<rparr>) (idetail insn)\<rparr>"

text \<open>The call through the pointer \<^verbatim>\<open>disasm\<close>, which is null before \<^verbatim>\<open>init\<close>.\<close>

definition arm_disasm ::
    "generated \<Rightarrow> handle \<Rightarrow> u8 list \<Rightarrow> MCInst \<Rightarrow> cs_insn \<Rightarrow> nat \<Rightarrow> (bool \<times> handle \<times> MCInst \<times> cs_insn \<times> nat) option" where
  "arm_disasm G h code mci insn size0 =
     (case disasm h of
        No_disasm \<Rightarrow> None
      | Use_ARM \<Rightarrow>
          map_option (\<lambda>(ok, mci, n). (ok, h, mci, if length code < 4 then insn else clear_arm insn, n))
            (ARM_getInstruction G (core h) mci code size0)
      | Use_Thumb \<Rightarrow>
          map_option (\<lambda>(ok, ud, mci, n). (ok, h\<lparr>core := ud\<rparr>, mci, if length code < 2 then insn else clear_arm insn, n))
            (Thumb_getInstruction G (core h) mci code size0))"

subsection \<open>The printer\<close>

text \<open>The call through the pointer \<^verbatim>\<open>printer\<close>: \<^verbatim>\<open>MI\<close> holds pointers to the handle and to the public instruction.\<close>

definition printer_start :: "handle \<Rightarrow> MCInst \<Rightarrow> cs_insn \<Rightarrow> SStream \<Rightarrow> pstate" where
  "printer_start h mci insn ss = \<lparr>ps_handle = h, ps_insn = insn, ps_stream = ss, ps_writeback = writeback mci, ps_pub = OpcodePub mci\<rparr>"

definition arm_printer :: "handle \<Rightarrow> MCInst \<Rightarrow> cs_insn \<Rightarrow> SStream \<Rightarrow> (handle \<times> MCInst \<times> cs_insn \<times> SStream) option" where
  "arm_printer h mci insn ss =
     map_option (\<lambda>p. (ps_handle p, mci\<lparr>writeback := ps_writeback p, OpcodePub := ps_pub p\<rparr>, ps_insn p, ps_stream p))
       (ARM_printInst mci (printer_start h mci insn ss))"

subsection \<open>The module\<close>

definition CS_OPT_SYNTAX_NOREGNAME :: u32 where "CS_OPT_SYNTAX_NOREGNAME = 3"

definition ARM_getRegName :: "handle \<Rightarrow> u32 \<Rightarrow> handle" where
  "ARM_getRegName h v = h\<lparr>noregname := (v = CS_OPT_SYNTAX_NOREGNAME)\<rparr>"

definition pick_disasm :: "u32 \<Rightarrow> disassembler" where
  "pick_disasm mode = (if mode AND CS_MODE_THUMB \<noteq> 0 then Use_Thumb else Use_ARM)"

definition ARM_module_init :: "handle \<Rightarrow> cs_err \<times> handle" where
  "ARM_module_init ud =
     (if cs_mode (core ud) AND NOT (CS_MODE_V8 OR CS_MODE_MCLASS OR CS_MODE_THUMB OR CS_MODE_BIG_ENDIAN) \<noteq> 0
      then (CS_ERR_MODE, ud)
      else
        (let ud = ARM_getRegName ud 0;
             ud = ud\<lparr>noregname := False\<rparr>
         in (CS_ERR_OK, ud\<lparr>disasm := pick_disasm (cs_mode (core ud))\<rparr>)))"

definition ARM_module_option :: "handle \<Rightarrow> cs_opt \<Rightarrow> cs_err \<times> handle" where
  "ARM_module_option h opt =
     (case opt of
        CS_OPT_MODE v \<Rightarrow>
          (CS_ERR_OK,
           h\<lparr>disasm := pick_disasm (ucast v),
             core := (core h)\<lparr>cs_mode := ucast v, big_endian := ((ucast v :: u32) AND CS_MODE_BIG_ENDIAN \<noteq> 0)\<rparr>\<rparr>)
      | CS_OPT_SYNTAX v \<Rightarrow> (CS_ERR_OK, (ARM_getRegName h (ucast v))\<lparr>asm_syntax := ucast v\<rparr>)
      | _ \<Rightarrow> (CS_ERR_OK, h))"

text \<open>Names through the pointers of a handle for ARM, which \<^verbatim>\<open>init\<close> has set.\<close>

definition cs_reg_name :: "handle option \<Rightarrow> nat \<Rightarrow> string option" where
  "cs_reg_name ud reg =
     (case ud of None \<Rightarrow> None | Some h \<Rightarrow> if noregname h then ARM_reg_name2 reg else ARM_reg_name reg)"

definition cs_insn_name :: "handle option \<Rightarrow> nat \<Rightarrow> string option" where
  "cs_insn_name ud insn = (case ud of None \<Rightarrow> None | Some h \<Rightarrow> ARM_insn_name insn)"

definition cs_group_name :: "handle option \<Rightarrow> nat \<Rightarrow> string option" where
  "cs_group_name ud gid = (case ud of None \<Rightarrow> None | Some h \<Rightarrow> ARM_group_name gid)"

text \<open>The tables of the modules with the entries of ARM; the other architectures are parameters.\<close>

definition ARM_enable :: "arch_module \<Rightarrow> arch_module" where
  "ARM_enable A = A\<lparr>arch_init := (arch_init A)(CS_ARCH_ARM := Some ARM_module_init), arch_option := (arch_option A)(CS_ARCH_ARM := ARM_module_option)\<rparr>"

record arm_params =
  p_generated :: generated
  p_cache :: "nat list"

definition arm_engine :: "arm_params \<Rightarrow> engine" where
  "arm_engine P =
     \<lparr>e_disasm = arm_disasm (p_generated P), e_insn_id = ARM_get_insn_id (p_cache P), e_printer = arm_printer,
      e_post_printer = Some ARM_post_printer\<rparr>"

end
