(* ===== verification/ARM_Insns_Correct.thy ===== *)
theory ARM_Insns_Correct
  imports ARM_Insns
begin

text \<open>The tables of the ARM instructions keep what the look-ups rely on: the numbers increase, every array ends with a zero, the
  names stand at their numbers; and the list of relative branches compared with the flags of the instructions.\<close>

subsection \<open>Entries\<close>

text \<open>What the code that copies an entry relies on.\<close>

definition entry_ok :: "insn_map \<Rightarrow> bool" where
  "entry_ok m \<longleftrightarrow>
     length (regs_use m) = 12 \<and> length (regs_mod m) = 20 \<and> length (map_groups m) = 8 \<and>
     (map_id m = 0 \<or> mapid m \<noteq> 0) \<and> count_positive (regs_use m) \<noteq> None \<and> count_positive (regs_mod m) \<noteq> None \<and> count_positive (map_groups m) \<noteq> None"

lemma insn_entry_fields [simp]:
  "map_id (insn_entry i m u w g b ib) = i" "mapid (insn_entry i m u w g b ib) = m"
  "branch (insn_entry i m u w g b ib) = b" "indirect_branch (insn_entry i m u w g b ib) = ib"
  by (simp_all add: insn_entry_def)

lemma count_positive_zeros: "count_positive (xs @ replicate (Suc n) 0) \<noteq> None"
  by (induction xs) simp_all

lemma entry_ok_insn_entry [simp]:
  assumes "length u < 12" "length w < 20" "length g < 8" "i = 0 \<or> m \<noteq> 0"
  shows "entry_ok (insn_entry i m u w g b ib)"
proof -
  have "\<exists>k. 12 - length u = Suc k" "\<exists>k. 20 - length w = Suc k" "\<exists>k. 8 - length g = Suc k"
    using assms by (metis Suc_diff_Suc)+
  then show ?thesis using assms count_positive_zeros unfolding entry_ok_def insn_entry_def by auto
qed

subsection \<open>The instruction table\<close>

fun ascending :: "nat list \<Rightarrow> bool" where
  "ascending (x # y # zs) \<longleftrightarrow> x < y \<and> ascending (y # zs)"
| "ascending _ \<longleftrightarrow> True"

lemma ascending_sorted: "ascending xs \<longleftrightarrow> sorted_wrt (<) xs"
  by (induction xs rule: ascending.induct) (auto intro: order.strict_trans)

text \<open>The test of \<^verbatim>\<open>ARM_rel_branch\<close> agrees with the flags, but for \<^verbatim>\<open>ARM_BLX_pred\<close>.\<close>

definition BLX_pred :: nat where
  "BLX_pred = 58"

definition rel_ok :: "insn_map \<Rightarrow> bool" where
  "rel_ok m \<longleftrightarrow> ((ARM_rel_branch (map_id m) = Some (branch m \<and> \<not> indirect_branch m)) \<longleftrightarrow> map_id m \<noteq> BLX_pred)"

definition part_ok :: "nat \<Rightarrow> nat \<Rightarrow> insn_map list \<Rightarrow> bool" where
  "part_ok lo hi ms \<longleftrightarrow>
     ms \<noteq> [] \<and> map_id (hd ms) = lo \<and> map_id (last ms) = hi \<and> ascending (map map_id ms) \<and> list_all entry_ok ms \<and> list_all rel_ok ms"

lemma insn_rel_set: "ARM_rel_branch i = Some (i \<noteq> 0 \<and> i \<in> set insn_rel)"
  by (auto simp: ARM_rel_branch_def insn_rel_def)

text \<open>Consecutive parts.\<close>

lemma part_ok_append: "part_ok lo hi ms \<Longrightarrow> part_ok lo' hi' ms' \<Longrightarrow> hi < lo' \<Longrightarrow> part_ok lo hi' (ms @ ms')"
proof -
  assume a: "part_ok lo hi ms" "part_ok lo' hi' ms'" "hi < lo'"
  have "map_id x < map_id y" if "x \<in> set ms" "y \<in> set ms'" for x y
  proof -
    have "map_id x \<le> hi"
      using a(1) that(1) unfolding part_ok_def ascending_sorted sorted_wrt_map
      by (metis in_set_conv_decomp_last last_ConsR last_appendR last_in_set less_imp_le order_refl sorted_wrt.simps(2) sorted_wrt_append list.distinct(1) last_ConsL)
    moreover have "lo' \<le> map_id y"
      using a(2) that(2) unfolding part_ok_def ascending_sorted sorted_wrt_map by (cases ms') (auto intro: less_imp_le)
    ultimately show ?thesis using a(3) by simp
  qed
  then show ?thesis using a unfolding part_ok_def ascending_sorted by (auto simp: sorted_wrt_append)
qed

fun parts_ok :: "(nat \<times> nat) list \<Rightarrow> insn_map list list \<Rightarrow> bool" where
  "parts_ok ((lo, hi) # b # bs) (ms # mss) \<longleftrightarrow> part_ok lo hi ms \<and> hi < fst b \<and> parts_ok (b # bs) mss"
| "parts_ok [(lo, hi)] [ms] \<longleftrightarrow> part_ok lo hi ms"
| "parts_ok _ _ \<longleftrightarrow> False"

lemma parts_ok_concat: "parts_ok bs mss \<Longrightarrow> part_ok (fst (hd bs)) (snd (last bs)) (concat mss)"
proof (induction bs mss rule: parts_ok.induct)
  case (1 lo hi b bs ms mss)
  then have "part_ok lo hi ms" "part_ok (fst b) (snd (last (b # bs))) (concat mss)" "hi < fst b" by simp_all
  from part_ok_append [OF this] show ?case by simp
qed simp_all

lemmas insns_parts =
  insns_0_def insns_1_def insns_2_def insns_3_def insns_4_def insns_5_def insns_6_def insns_7_def 
  insns_8_def insns_9_def insns_10_def insns_11_def insns_12_def insns_13_def insns_14_def insns_15_def 
  insns_16_def insns_17_def insns_18_def insns_19_def insns_20_def insns_21_def insns_22_def insns_23_def 
  insns_24_def insns_25_def insns_26_def insns_27_def insns_28_def insns_29_def insns_30_def insns_31_def 
  insns_32_def insns_33_def insns_34_def insns_35_def insns_36_def insns_37_def insns_38_def insns_39_def 
  insns_40_def insns_41_def insns_42_def insns_43_def insns_44_def insns_45_def insns_46_def insns_47_def 
  insns_48_def insns_49_def insns_50_def insns_51_def insns_52_def insns_53_def insns_54_def insns_55_def 
  insns_56_def insns_57_def insns_58_def insns_59_def insns_60_def insns_61_def insns_62_def insns_63_def 
  insns_64_def insns_65_def insns_66_def insns_67_def insns_68_def insns_69_def insns_70_def insns_71_def 
  insns_72_def insns_73_def insns_74_def insns_75_def insns_76_def insns_77_def insns_78_def insns_79_def 
  insns_80_def insns_81_def insns_82_def insns_83_def insns_84_def insns_85_def insns_86_def insns_87_def 
  insns_88_def

lemma insns_parts_ok:
  "part_ok 0 55 insns_0" "part_ok 56 88 insns_1" "part_ok 89 113 insns_2" "part_ok 119 143 insns_3" 
  "part_ok 144 170 insns_4" "part_ok 171 205 insns_5" "part_ok 207 247 insns_6" "part_ok 248 281 insns_7" 
  "part_ok 282 313 insns_8" "part_ok 314 338 insns_9" "part_ok 339 365 insns_10" "part_ok 366 390 insns_11" 
  "part_ok 391 416 insns_12" "part_ok 417 447 insns_13" "part_ok 453 482 insns_14" "part_ok 483 509 insns_15" 
  "part_ok 510 534 insns_16" "part_ok 535 559 insns_17" "part_ok 560 584 insns_18" "part_ok 585 609 insns_19" 
  "part_ok 610 634 insns_20" "part_ok 635 659 insns_21" "part_ok 660 684 insns_22" "part_ok 685 709 insns_23" 
  "part_ok 710 734 insns_24" "part_ok 735 759 insns_25" "part_ok 760 784 insns_26" "part_ok 785 809 insns_27" 
  "part_ok 810 834 insns_28" "part_ok 835 874 insns_29" "part_ok 875 905 insns_30" "part_ok 906 930 insns_31" 
  "part_ok 931 980 insns_32" "part_ok 981 1014 insns_33" "part_ok 1017 1092 insns_34" "part_ok 1093 1174 insns_35" 
  "part_ok 1177 1254 insns_36" "part_ok 1255 1279 insns_37" "part_ok 1280 1304 insns_38" "part_ok 1305 1329 insns_39" 
  "part_ok 1330 1357 insns_40" "part_ok 1358 1383 insns_41" "part_ok 1384 1408 insns_42" "part_ok 1409 1433 insns_43" 
  "part_ok 1434 1458 insns_44" "part_ok 1459 1483 insns_45" "part_ok 1484 1508 insns_46" "part_ok 1509 1533 insns_47" 
  "part_ok 1534 1558 insns_48" "part_ok 1559 1583 insns_49" "part_ok 1584 1608 insns_50" "part_ok 1609 1633 insns_51" 
  "part_ok 1634 1658 insns_52" "part_ok 1659 1683 insns_53" "part_ok 1684 1708 insns_54" "part_ok 1709 1733 insns_55" 
  "part_ok 1734 1758 insns_56" "part_ok 1759 1783 insns_57" "part_ok 1784 1808 insns_58" "part_ok 1809 1833 insns_59" 
  "part_ok 1834 1858 insns_60" "part_ok 1859 1898 insns_61" "part_ok 1899 1929 insns_62" "part_ok 1930 1979 insns_63" 
  "part_ok 1980 2015 insns_64" "part_ok 2016 2100 insns_65" "part_ok 2103 2180 insns_66" "part_ok 2181 2205 insns_67" 
  "part_ok 2206 2234 insns_68" "part_ok 2235 2259 insns_69" "part_ok 2260 2286 insns_70" "part_ok 2290 2315 insns_71" 
  "part_ok 2316 2342 insns_72" "part_ok 2343 2367 insns_73" "part_ok 2369 2395 insns_74" "part_ok 2396 2426 insns_75" 
  "part_ok 2427 2468 insns_76" "part_ok 2469 2493 insns_77" "part_ok 2494 2520 insns_78" "part_ok 2521 2545 insns_79" 
  "part_ok 2546 2570 insns_80" "part_ok 2571 2595 insns_81" "part_ok 2596 2622 insns_82" "part_ok 2624 2653 insns_83" 
  "part_ok 2654 2678 insns_84" "part_ok 2679 2705 insns_85" "part_ok 2708 2744 insns_86" "part_ok 2745 2772 insns_87" 
  "part_ok 2773 2788 insns_88"
  by (simp_all add: insns_parts part_ok_def rel_ok_def insn_rel_set insn_rel_def BLX_pred_def)

lemma insns_ok: "part_ok 0 2788 insns"
  using parts_ok_concat [of
      "[(0, 55), (56, 88), (89, 113), (119, 143), (144, 170), (171, 205), (207, 247), (248, 281), (282, 313), 
       (314, 338), (339, 365), (366, 390), (391, 416), (417, 447), (453, 482), (483, 509), (510, 534), (535, 559), 
       (560, 584), (585, 609), (610, 634), (635, 659), (660, 684), (685, 709), (710, 734), (735, 759), (760, 784), 
       (785, 809), (810, 834), (835, 874), (875, 905), (906, 930), (931, 980), (981, 1014), (1017, 1092), (1093, 1174), 
       (1177, 1254), (1255, 1279), (1280, 1304), (1305, 1329), (1330, 1357), (1358, 1383), (1384, 1408), (1409, 1433), (1434, 1458), 
       (1459, 1483), (1484, 1508), (1509, 1533), (1534, 1558), (1559, 1583), (1584, 1608), (1609, 1633), (1634, 1658), (1659, 1683), 
       (1684, 1708), (1709, 1733), (1734, 1758), (1759, 1783), (1784, 1808), (1809, 1833), (1834, 1858), (1859, 1898), (1899, 1929), 
       (1930, 1979), (1980, 2015), (2016, 2100), (2103, 2180), (2181, 2205), (2206, 2234), (2235, 2259), (2260, 2286), (2290, 2315), 
       (2316, 2342), (2343, 2367), (2369, 2395), (2396, 2426), (2427, 2468), (2469, 2493), (2494, 2520), (2521, 2545), (2546, 2570), 
       (2571, 2595), (2596, 2622), (2624, 2653), (2654, 2678), (2679, 2705), (2708, 2744), (2745, 2772), (2773, 2788)]"
      "[insns_0, insns_1, insns_2, insns_3, insns_4, insns_5, insns_6, insns_7, insns_8, 
       insns_9, insns_10, insns_11, insns_12, insns_13, insns_14, insns_15, insns_16, insns_17, 
       insns_18, insns_19, insns_20, insns_21, insns_22, insns_23, insns_24, insns_25, insns_26, 
       insns_27, insns_28, insns_29, insns_30, insns_31, insns_32, insns_33, insns_34, insns_35, 
       insns_36, insns_37, insns_38, insns_39, insns_40, insns_41, insns_42, insns_43, insns_44, 
       insns_45, insns_46, insns_47, insns_48, insns_49, insns_50, insns_51, insns_52, insns_53, 
       insns_54, insns_55, insns_56, insns_57, insns_58, insns_59, insns_60, insns_61, insns_62, 
       insns_63, insns_64, insns_65, insns_66, insns_67, insns_68, insns_69, insns_70, insns_71, 
       insns_72, insns_73, insns_74, insns_75, insns_76, insns_77, insns_78, insns_79, insns_80, 
       insns_81, insns_82, insns_83, insns_84, insns_85, insns_86, insns_87, insns_88]"]
  by (simp add: insns_def insns_parts_ok)

lemma sorted_length: "sorted_wrt (<) (xs :: nat list) \<Longrightarrow> xs \<noteq> [] \<Longrightarrow> length xs \<le> Suc (last xs)"
proof -
  assume s: "sorted_wrt (<) xs" "xs \<noteq> []"
  then have "x \<le> last xs" if "x \<in> set xs" for x
    using that by (induction xs) (auto simp: less_imp_le split: if_splits)
  then have "set xs \<subseteq> {..last xs}" by auto
  then have "card (set xs) \<le> Suc (last xs)" using card_mono [of "{..last xs}"] by fastforce
  moreover have "distinct xs" using s(1) strict_sorted_iff by blast
  ultimately show ?thesis by (simp add: distinct_card)
qed

lemma insns_increasing: "increasing insns" "map_id (insns ! (length insns - 1)) = 2788"
proof -
  have "length (map map_id insns) \<le> Suc (last (map map_id insns))"
    using insns_ok by (intro sorted_length) (simp_all add: part_ok_def ascending_sorted)
  then show "increasing insns"
    using insns_ok by (simp add: part_ok_def increasing_def ascending_sorted last_map)
  show "map_id (insns ! (length insns - 1)) = 2788"
    using insns_ok last_conv_nth [of insns] by (simp add: part_ok_def)
qed

subsection \<open>Names\<close>

lemma name_entry_fields [simp]: "name_id (name_entry i s) = i" "name_of (name_entry i s) = s"
  by (simp_all add: name_entry_def)

text \<open>The numbers of a table are consecutive, and only the first name may be missing.\<close>

fun numbered :: "nat \<Rightarrow> name_map list \<Rightarrow> bool" where
  "numbered k [] \<longleftrightarrow> True"
| "numbered k (m # ms) \<longleftrightarrow> name_id m = k \<and> (k \<noteq> 0 \<longrightarrow> name_of m \<noteq> None) \<and> numbered (Suc k) ms"

lemma numbered_append: "numbered k (ms @ ms') \<longleftrightarrow> numbered k ms \<and> numbered (k + length ms) ms'"
  by (induction ms arbitrary: k) auto

lemma numbered_nth: "numbered k ms \<Longrightarrow> i < length ms \<Longrightarrow> name_id (ms ! i) = k + i \<and> (k + i \<noteq> 0 \<longrightarrow> name_of (ms ! i) \<noteq> None)"
  by (induction k ms arbitrary: i rule: numbered.induct) (auto simp: nth_Cons split: nat.splits)

lemma numbered_entry: "numbered k ms \<Longrightarrow> i < length ms \<Longrightarrow> \<lparr>name_id = k + i, name_of = name_of (ms ! i)\<rparr> \<in> set ms"
proof -
  assume a: "numbered k ms" "i < length ms"
  have "\<lparr>name_id = k + i, name_of = name_of (ms ! i)\<rparr> = ms ! i" using numbered_nth [OF a] by (cases "ms ! i") simp
  then show ?thesis using a(2) by simp
qed

lemma insn_names_numbered:
  "numbered 0 insn_name_maps_0" "length insn_name_maps_0 = 150" "numbered 150 insn_name_maps_1" "length insn_name_maps_1 = 150"
  "numbered 300 insn_name_maps_2" "length insn_name_maps_2 = 135"
  by (simp_all add: insn_name_maps_0_def insn_name_maps_1_def insn_name_maps_2_def)

lemma insn_name_maps_numbered: "numbered 0 insn_name_maps" "length insn_name_maps = ARM_INS_ENDING"
  by (simp_all add: insn_name_maps_def numbered_append insn_names_numbered ARM_INS_ENDING_def)

lemma reg_name_maps_numbered:
  "numbered 0 reg_name_maps" "length reg_name_maps = ARM_REG_ENDING" "numbered 0 reg_name_maps2" "length reg_name_maps2 = ARM_REG_ENDING"
  by (simp_all add: reg_name_maps_def reg_name_maps2_def ARM_REG_ENDING_def)

lemma group_name_maps_numbered:
  "numbered 0 (take 2 group_name_maps)" "numbered ARM_GRP_CRYPTO (drop 2 group_name_maps)" "length group_name_maps = ARM_GRP_ENDING - 126"
  by (simp_all add: group_name_maps_def ARM_GRP_CRYPTO_def ARM_GRP_ENDING_def)

subsection \<open>Look-ups by position\<close>

lemma first_names: "name_of (insn_name_maps ! 0) = None" "name_of (reg_name_maps ! 0) = None" "name_of (reg_name_maps2 ! 0) = None"
  by (simp_all add: insn_name_maps_def insn_name_maps_0_def reg_name_maps_def reg_name_maps2_def)

locale name_table =
  fixes ms :: "name_map list" and n :: nat
  assumes numbers: "numbered 0 ms" and size: "length ms = n" and first: "name_of (ms ! 0) = None"
begin

lemma named: "i < n \<Longrightarrow> name_of (ms ! i) \<noteq> None \<longleftrightarrow> 0 < i"
  using numbered_nth [OF numbers, of i] size first by (cases "i = 0") auto

lemma entry: "i < n \<Longrightarrow> \<lparr>name_id = i, name_of = name_of (ms ! i)\<rparr> \<in> set ms"
  using numbered_entry [OF numbers, of i] size by simp

end

interpretation insn_names: name_table insn_name_maps ARM_INS_ENDING
  by unfold_locales (rule insn_name_maps_numbered first_names)+

interpretation reg_names: name_table reg_name_maps ARM_REG_ENDING
  by unfold_locales (rule reg_name_maps_numbered first_names)+

interpretation reg_names2: name_table reg_name_maps2 ARM_REG_ENDING
  by unfold_locales (rule reg_name_maps_numbered first_names)+

lemma group_names_numbered:
  "(ARM_group_name i \<noteq> None \<longleftrightarrow> i = unat ARM_GRP_JUMP \<or> ARM_GRP_CRYPTO \<le> i \<and> i < ARM_GRP_ENDING) \<and>
   (ARM_group_name i \<noteq> None \<longrightarrow> \<lparr>name_id = i, name_of = ARM_group_name i\<rparr> \<in> set group_name_maps)"
proof (cases "128 \<le> i \<and> i < 159")
  case True
  note g = group_name_maps_numbered(2,3) [unfolded ARM_GRP_CRYPTO_def ARM_GRP_ENDING_def]
  have i: "i - 128 < length (drop 2 group_name_maps)" using True g(2) by auto
  have e: "ARM_group_name i = name_of (drop 2 group_name_maps ! (i - 128))"
    using True g(2) by (simp add: ARM_group_name_def ARM_GRP_ENDING_def ARM_GRP_CRYPTO_def add.commute)
  have "\<lparr>name_id = i, name_of = ARM_group_name i\<rparr> \<in> set (drop 2 group_name_maps)"
    using numbered_entry [OF g(1) i] True e by simp
  then show ?thesis
    using numbered_nth [OF g(1) i] True e set_drop_subset [of 2 group_name_maps]
    by (auto simp: ARM_GRP_ENDING_def ARM_GRP_CRYPTO_def)
next
  case False
  then consider "i = 0" | "i = 1" | "i > 1" "i < 128 \<or> 159 \<le> i" by linarith
  then show ?thesis
  proof cases
    case 3
    then have "ARM_group_name i = None" by (auto simp: ARM_group_name_def ARM_GRP_ENDING_def ARM_GRP_CRYPTO_def ARM_GRP_JUMP_def)
    then show ?thesis using 3 by (auto simp: ARM_GRP_ENDING_def ARM_GRP_CRYPTO_def ARM_GRP_JUMP_def)
  qed (simp_all add: ARM_group_name_def ARM_GRP_ENDING_def ARM_GRP_CRYPTO_def ARM_GRP_JUMP_def group_name_maps_def name_entry_def)
qed

subsection \<open>Properties of the tables\<close>

text \<open>C38: the test for relative branches, on which the printer relies for branch targets, agrees with the flags of the instruction
  table for every instruction except \<^verbatim>\<open>ARM_BLX_pred\<close>, which the list of relative branches names although it branches to a
  register, against the comment at the list.\<close>

theorem relative_branches:
  assumes "m \<in> set insns"
  shows "(ARM_rel_branch (map_id m) = Some (branch m \<and> \<not> indirect_branch m)) \<longleftrightarrow> map_id m \<noteq> BLX_pred"
proof -
  have "list_all rel_ok insns" using insns_ok by (simp add: part_ok_def)
  then have "rel_ok m" using assms by (simp add: list_all_iff)
  then show ?thesis by (simp add: rel_ok_def)
qed

lemma BLX_pred_entry: "insn_entry 58 14 [11] [10] [147, 138] False True \<in> set insns"
  by (simp add: insns_def insns_1_def)

theorem relative_branches_witness:
  "\<exists>m \<in> set insns. map_id m = BLX_pred \<and> indirect_branch m \<and> ARM_rel_branch BLX_pred = Some True"
  using relative_branches [OF BLX_pred_entry] BLX_pred_entry
  by (intro bexI [OF _ BLX_pred_entry]) (simp add: BLX_pred_def insn_rel_set insn_rel_def)

text \<open>C39: the names of public instructions, registers and groups stand at their numbers, so that the look-ups by position return the
  entry with the number asked for; every valid number has a name, and no other.\<close>

theorem names_at_numbers:
  "(ARM_insn_name i \<noteq> None \<longleftrightarrow> 0 < i \<and> i < ARM_INS_ENDING) \<and> (ARM_reg_name i \<noteq> None \<longleftrightarrow> 0 < i \<and> i < ARM_REG_ENDING) \<and>
   (ARM_group_name i \<noteq> None \<longleftrightarrow> i = unat ARM_GRP_JUMP \<or> ARM_GRP_CRYPTO \<le> i \<and> i < ARM_GRP_ENDING) \<and>
   (ARM_insn_name i \<noteq> None \<longrightarrow> \<lparr>name_id = i, name_of = ARM_insn_name i\<rparr> \<in> set insn_name_maps) \<and>
   (ARM_reg_name i \<noteq> None \<longrightarrow> \<lparr>name_id = i, name_of = ARM_reg_name i\<rparr> \<in> set reg_name_maps) \<and>
   (ARM_group_name i \<noteq> None \<longrightarrow> \<lparr>name_id = i, name_of = ARM_group_name i\<rparr> \<in> set group_name_maps)"
proof -
  note d = ARM_insn_name_def ARM_reg_name_def
  have n: "(ARM_insn_name i \<noteq> None \<longleftrightarrow> 0 < i \<and> i < ARM_INS_ENDING) \<and> (ARM_reg_name i \<noteq> None \<longleftrightarrow> 0 < i \<and> i < ARM_REG_ENDING)"
    "ARM_insn_name i \<noteq> None \<longrightarrow> \<lparr>name_id = i, name_of = ARM_insn_name i\<rparr> \<in> set insn_name_maps"
    "ARM_reg_name i \<noteq> None \<longrightarrow> \<lparr>name_id = i, name_of = ARM_reg_name i\<rparr> \<in> set reg_name_maps"
    using insn_names.named [of i] reg_names.named [of i] insn_names.entry [of i] reg_names.entry [of i] by (auto simp: d)
  show ?thesis using n group_names_numbered by blast
qed

theorem names_at_numbers_witness:
  "ARM_insn_name 0 = None \<and> ARM_insn_name 1 \<noteq> None \<and> \<lparr>name_id = 1, name_of = ARM_insn_name 1\<rparr> \<in> set insn_name_maps"
  using names_at_numbers [of 0] names_at_numbers [of 1] by (simp add: ARM_INS_ENDING_def)

end
