(* ===== verification/ARM_Printer_Safe.thy ===== *)
theory ARM_Printer_Safe
  imports ARM_AsmWriter ARM_Insns_Correct
begin

text \<open>The printer stays inside its arrays.  A judgement \<open>safe\<close> says of a printer that it returns, how many operands it adds to the details
  and how much it writes at most; every operand printer has its rule.  A checker runs over the statements of an instruction by these rules,
  and over the whole table of \<^verbatim>\<open>printInstruction\<close>.\<close>

unbundle bit_operations_syntax

subsection \<open>Texts of bounded length\<close>

lemma unat_less: "unat v < 2 ^ LENGTH('w)" for v :: "'w::len word"
  by (rule unsigned_less)

definition fine :: "nat \<Rightarrow> string \<Rightarrow> bool" where
  "fine n s \<longleftrightarrow> length s \<le> n \<and> NUL \<notin> set s"

named_theorems fine_rules

lemma fine_append [fine_rules]: "fine n s \<Longrightarrow> fine m t \<Longrightarrow> fine (n + m) (s @ t)"
  by (simp add: fine_def)

lemma fine_if [fine_rules]: "fine n s \<Longrightarrow> fine m t \<Longrightarrow> fine (max n m) (if b then s else t)"
  by (simp add: fine_def max_def)

lemma fine_le: "fine n s \<Longrightarrow> n \<le> m \<Longrightarrow> fine m s"
  by (simp add: fine_def)

lemma fine_lit: "NUL \<notin> set s \<Longrightarrow> fine (length s) s"
  by (simp add: fine_def)

lemma fine_radix: "2 \<le> b \<Longrightarrow> b \<le> 16 \<Longrightarrow> n < b ^ k \<Longrightarrow> 0 < k \<Longrightarrow> fine k (radix b n)"
  using length_radix [of b n k] take_digits(4) [of b n] by (simp add: fine_def)

lemma fine_hex [fine_rules]: "fine 8 (hex v)" for v :: u32
  unfolding hex_def using unat_less [of v] by (intro fine_radix) simp_all

lemma fine_hex64: "fine 16 (hex v)" for v :: u64
  unfolding hex_def using unat_less [of v] by (intro fine_radix) simp_all

lemma fine_dec [fine_rules]: "fine 10 (dec v)" for v :: u32
  unfolding dec_def using unat_less [of v] by (intro fine_radix) simp_all

lemma fine_num [fine_rules]: "fine 10 (num v)" for v :: u32
  unfolding num_def by (rule fine_le, (rule fine_rules fine_lit | (simp add: NUL_def; fail))+)

lemma fine_num64 [fine_rules]: "fine 18 (num v)" for v :: u64
proof -
  have "unat v < 10 ^ 1" if "\<not> HEX_THRESHOLD < unat v" using that by (simp add: HEX_THRESHOLD_def)
  then have "fine 1 (dec v)" if "\<not> HEX_THRESHOLD < unat v"
    unfolding dec_def using that by (intro fine_radix) simp_all
  then show ?thesis using fine_hex64 [of v] by (auto simp: num_def fine_def NUL_def)
qed

lemma fine_snum [fine_rules]: "fine 12 (snum v)"
  unfolding snum_def by (rule fine_le, (rule fine_rules fine_lit | (simp add: NUL_def; fail))+)

lemma fine_snum_hex [fine_rules]: "fine 12 (snum_hex b v)"
  unfolding snum_hex_def by (rule fine_le, (rule fine_rules fine_lit | (simp add: NUL_def; fail))+)

lemma fine_target [fine_rules]: "fine 11 (target_text v)"
  unfolding target_text_def by (rule fine_le, (rule fine_rules fine_lit | (simp add: NUL_def; fail))+)

lemma fine_plain [fine_rules]: "fine 12 (plain_text n v)"
  unfolding plain_text_def by (rule fine_le, (rule fine_rules fine_lit | (simp add: NUL_def; fail))+)

lemma fine_cc [fine_rules]: "fine 2 (ARMCC_ARMCondCodeToString v)"
proof -
  let ?t = "zip [0..<15] [''eq'', ''ne'', ''hs'', ''lo'', ''mi'', ''pl'', ''vs'', ''vc'', ''hi'', ''ls'', ''ge'', ''lt'', ''gt'', ''le'', ''al'']"
  have "list_all (\<lambda>e. fine 2 (snd e)) ?t" by code_simp
  then show ?thesis by (auto simp: ARMCC_ARMCondCodeToString_def list_all_iff fine_def split: option.split dest: map_of_SomeD)
qed

lemma fine_imod [fine_rules]: "fine 2 (ARM_PROC_IModToString v)" "fine 1 (ARM_PROC_IFlagsToString v)"
  by (simp_all add: ARM_PROC_IModToString_def ARM_PROC_IFlagsToString_def fine_def NUL_def)

lemma fine_nth: "list_all (fine n) xs \<Longrightarrow> i < length xs \<Longrightarrow> fine n (xs ! i)"
  by (simp add: list_all_length)

lemma fine_memb [fine_rules]: "fine 6 (ARM_MB_MemBOptToString v b)"
proof (cases "v = 0 \<or> v > 16")
  case False
  then have "0 < unat v" "unat v \<le> 16" by (simp_all add: word_le_nat_alt word_less_nat_alt unat_gt_0)
  then show ?thesis using False
    by (cases b; simp only: ARM_MB_MemBOptToString_def if_False if_True; intro fine_nth) (simp_all add: fine_def NUL_def)
qed (simp add: ARM_MB_MemBOptToString_def fine_def NUL_def)

lemma fine_isb [fine_rules]: "fine 11 (ARM_ISB_InstSyncBOptToString v)"
  unfolding ARM_ISB_InstSyncBOptToString_def by (rule fine_le, (rule fine_rules fine_lit | (simp add: NUL_def; fail))+)

lemma fine_shift [fine_rules]: "fine 3 (shift_str v)"
proof -
  have "fine 3 (ARM_AM_getShiftOpcStr s)" for s by (cases s) (simp_all add: fine_def NUL_def)
  then show ?thesis by (auto simp: shift_str_def fine_def split: option.split)
qed

lemma fine_addr [fine_rules]: "fine 1 (ARM_AM_getAddrOpcStr v)"
  by (cases v) (simp_all add: fine_def NUL_def)

lemma fine_sign [fine_rules]: "fine 1 (sign_256 v)"
  by (simp add: sign_256_def fine_def NUL_def)

lemma fine_sysm [fine_rules]: "fine 12 (fst (SYSm_entry v))"
proof -
  have "list_all (\<lambda>e. fine 12 (fst (snd e))) SYSm_table" by code_simp
  then have "map_of SYSm_table v = Some e \<Longrightarrow> fine 12 (fst e)" for e by (force simp: list_all_iff dest: map_of_SomeD)
  then show ?thesis by (auto simp: SYSm_entry_def fine_def NUL_def split: option.split)
qed

lemma fine_letters [fine_rules]: "fine 4 (mask_letters v)"
  unfolding mask_letters_def by (rule fine_le, (rule fine_rules fine_lit | (simp add: NUL_def; fail))+)

subsection \<open>The judgement\<close>

text \<open>What is known between two statements: whether a memory operand is open, and bounds for the number of operands.  Without details nothing
  is counted.\<close>

type_synonym progress = "bool \<times> nat \<times> nat"

definition details_ok :: "nat \<Rightarrow> nat \<Rightarrow> cs_detail \<Rightarrow> bool" where
  "details_ok lo hi d \<longleftrightarrow> length (operands d) = ARM_OPERANDS \<and> lo \<le> unat (op_count d) \<and> unat (op_count d) \<le> hi"

fun live :: "handle \<Rightarrow> cs_insn \<Rightarrow> progress \<Rightarrow> pstate \<Rightarrow> bool" where
  "live h insn (mem, lo, hi) p \<longleftrightarrow>
     (detail h = 0 \<or> detail h = CS_OPT_ON) \<and> stream_ok (ps_stream p) \<and>
     ps_handle p = h\<lparr>doing_mem := (mem \<and> detail h \<noteq> 0)\<rparr> \<and>
     (if detail h = 0 then ps_insn p = insn
      else (\<exists>d. ps_insn p = insn\<lparr>idetail := Some d\<rparr> \<and> details_ok lo hi d))"

abbreviation ptext :: "pstate \<Rightarrow> string" where
  "ptext p \<equiv> stream_text (ps_stream p)"

definition safe :: "progress \<Rightarrow> nat \<Rightarrow> printer \<Rightarrow> progress \<Rightarrow> bool" where
  "safe a n f b \<longleftrightarrow>
     (\<forall>h insn p. live h insn a p \<and> length (ptext p) + n \<le> 500 \<longrightarrow>
        (\<exists>p' s. f p = Some p' \<and> live h insn b p' \<and> ptext p' = ptext p @ s \<and> length s \<le> n))"

named_theorems safe_rules

lemma safeI:
  assumes "\<And>h insn p. live h insn a p \<Longrightarrow> length (ptext p) + n \<le> 500 \<Longrightarrow>
    \<exists>p' s. f p = Some p' \<and> live h insn b p' \<and> ptext p' = ptext p @ s \<and> length s \<le> n"
  shows "safe a n f b"
  using assms by (simp add: safe_def)

lemma safeD:
  assumes "safe a n f b" "live h insn a p" "length (ptext p) + n \<le> 500"
  obtains p' s where "f p = Some p'" "live h insn b p'" "ptext p' = ptext p @ s" "length s \<le> n"
  using assms unfolding safe_def by blast

lemma safe_le: "safe a n f b \<Longrightarrow> n \<le> m \<Longrightarrow> b = c \<Longrightarrow> safe a m f c"
  unfolding safe_def by (meson add_le_mono le_refl le_trans)

lemma safe_wider:
  assumes "safe a n f (m, lo, hi)" "lo' \<le> lo" "hi \<le> hi'"
  shows "safe a n f (m, lo', hi')"
proof (rule safeI)
  fix h insn p
  assume "live h insn a p" "length (ptext p) + n \<le> 500"
  then obtain p' s where "f p = Some p'" "live h insn (m, lo, hi) p'" "ptext p' = ptext p @ s" "length s \<le> n"
    using safeD [OF assms(1)] by metis
  moreover from this(2) have "live h insn (m, lo', hi') p'"
    using assms(2,3) by (auto simp: details_ok_def split: if_splits)
  ultimately show "\<exists>p' s. f p = Some p' \<and> live h insn (m, lo', hi') p' \<and> ptext p' = ptext p @ s \<and> length s \<le> n" by blast
qed

subsection \<open>Statements\<close>

lemma safe_run_Nil [safe_rules]: "safe a 0 (run []) a"
  by (rule safeI) simp

lemma safe_run_Cons [safe_rules]:
  assumes "safe a n f b" "safe b m (run fs) c"
  shows "safe a (n + m) (run (f # fs)) c"
proof (rule safeI)
  fix h insn p
  assume p: "live h insn a p" "length (ptext p) + (n + m) \<le> 500"
  then have "length (ptext p) + n \<le> 500" by simp
  from safeD [OF assms(1) p(1) this] obtain p1 s1 where 1: "f p = Some p1" "live h insn b p1" "ptext p1 = ptext p @ s1" "length s1 \<le> n" .
  then have "length (ptext p1) + m \<le> 500" using p(2) by simp
  from safeD [OF assms(2) 1(2) this] obtain p2 s2 where "run fs p1 = Some p2" "live h insn c p2" "ptext p2 = ptext p1 @ s2" "length s2 \<le> m" .
  with 1 show "\<exists>p' s. run (f # fs) p = Some p' \<and> live h insn c p' \<and> ptext p' = ptext p @ s \<and> length s \<le> n + m" by simp
qed

lemma safe_cond [safe_rules]: "(b \<Longrightarrow> safe a n (run fs) a) \<Longrightarrow> safe a n (cond b fs) a"
  by (auto simp: safe_def cond_def)

lemma safe_if [safe_rules]: "(b \<Longrightarrow> safe a n f c) \<Longrightarrow> (\<not> b \<Longrightarrow> safe a m g c) \<Longrightarrow> safe a (max n m) (if b then f else g) c"
  by (auto intro: safe_le)

lemma safe_put0 [safe_rules]:
  assumes "fine n s"
  shows "safe a n (put0 s) a"
proof (rule safeI)
  fix h insn p
  assume p: "live h insn a p" "length (ptext p) + n \<le> 500"
  obtain m lo hi where a: "a = (m, lo, hi)" by (cases a) auto
  have s: "stream_ok (ps_stream p)" using p(1) by (simp add: a)
  then have "sindex (ps_stream p) = length (ptext p)" by (simp add: stream_text_index stream_ok_def)
  then have "sindex (ps_stream p) + length s < SSTREAM_SIZE" using p(2) assms by (simp add: fine_def SSTREAM_SIZE_def)
  from SStream_concat0_text [OF s this] assms obtain ss where
    "SStream_concat0 (ps_stream p) s = Some ss" "stream_ok ss" "stream_text ss = ptext p @ s" by (auto simp: fine_def)
  then show "\<exists>p' t. put0 s p = Some p' \<and> live h insn a p' \<and> ptext p' = ptext p @ t \<and> length t \<le> n"
    using p(1) assms by (simp add: put0_def a fine_def)
qed

lemma safe_put [safe_rules]:
  assumes "fine n s"
  shows "safe a n (put s) a"
proof (rule safeI)
  fix h insn p
  assume p: "live h insn a p" "length (ptext p) + n \<le> 500"
  obtain m lo hi where a: "a = (m, lo, hi)" by (cases a) auto
  have s: "stream_ok (ps_stream p)" using p(1) by (simp add: a)
  then have "sindex (ps_stream p) = length (ptext p)" by (simp add: stream_text_index stream_ok_def)
  then have "sindex (ps_stream p) + length s + 2 \<le> SSTREAM_SIZE" using p(2) assms by (simp add: fine_def SSTREAM_SIZE_def)
  from SStream_concat_text [OF s this] assms obtain ss where
    "SStream_concat (ps_stream p) s = Some ss" "stream_ok ss" "stream_text ss = ptext p @ s" by (auto simp: fine_def)
  then show "\<exists>p' t. put s p = Some p' \<and> live h insn a p' \<and> ptext p' = ptext p @ t \<and> length t \<le> n"
    using p(1) assms by (simp add: put_def a fine_def)
qed

text \<open>Changes of the details.\<close>

lemma safe_with_detail:
  assumes "\<And>d. details_ok lo hi d \<Longrightarrow> \<exists>d'. f d = Some d' \<and> details_ok lo' hi' d'"
  shows "safe (m, lo, hi) 0 (with_detail f) (m, lo', hi')"
proof (rule safeI)
  fix h insn p
  assume p: "live h insn (m, lo, hi) p"
  show "\<exists>p' s. with_detail f p = Some p' \<and> live h insn (m, lo', hi') p' \<and> ptext p' = ptext p @ s \<and> length s \<le> 0"
  proof (cases "detail h = 0")
    case False
    then obtain d where d: "ps_insn p = insn\<lparr>idetail := Some d\<rparr>" "details_ok lo hi d" using p by auto
    then obtain d' where "f d = Some d'" "details_ok lo' hi' d'" using assms by blast
    then show ?thesis using p False d by (auto simp: with_detail_def)
  qed (use p in \<open>auto simp: with_detail_def\<close>)
qed

lemma safe_op_upd [safe_rules]: "hi < ARM_OPERANDS \<Longrightarrow> safe (m, lo, hi) 0 (op_upd g) (m, lo, hi)"
  unfolding op_upd_def by (rule safe_with_detail) (auto simp: set_op_def details_ok_def Let_def)

lemma safe_op_last [safe_rules]: "0 < lo \<Longrightarrow> hi \<le> ARM_OPERANDS \<Longrightarrow> safe (m, lo, hi) 0 (op_last g) (m, lo, hi)"
  unfolding op_last_def by (rule safe_with_detail) (auto simp: set_last_def details_ok_def Let_def)

lemma next_count: "unat c < 36 \<Longrightarrow> unat (c + 1 :: u8) = unat c + 1"
  by (simp add: unat_word_ariths)

lemma safe_op_add [safe_rules]: "hi < ARM_OPERANDS \<Longrightarrow> safe (m, lo, hi) 0 (op_add g) (m, lo + 1, hi + 1)"
  unfolding op_add_def by (rule safe_with_detail) (auto simp: set_op_def next_op_def details_ok_def Let_def ARM_OPERANDS_def next_count)

lemma safe_set_arm [safe_rules]:
  "(\<And>d. op_count (g d) = op_count d \<and> operands (g d) = operands d) \<Longrightarrow> safe a 0 (set_arm g) a"
  unfolding set_arm_def by (cases a) (auto simp: details_ok_def intro!: safe_with_detail)

lemma safe_next_op [safe_rules]: "hi < ARM_OPERANDS \<Longrightarrow> safe (m, lo, hi) 0 (set_arm next_op) (m, lo + 1, hi + 1)"
  unfolding set_arm_def by (rule safe_with_detail) (auto simp: next_op_def details_ok_def ARM_OPERANDS_def next_count)

lemma safe_adds [safe_rules]:
  "hi < ARM_OPERANDS \<Longrightarrow> safe (m, lo, hi) 0 (add_reg r) (m, lo + 1, hi + 1)"
  "hi < ARM_OPERANDS \<Longrightarrow> safe (m, lo, hi) 0 (add_imm v) (m, lo + 1, hi + 1)"
  "hi < ARM_OPERANDS \<Longrightarrow> safe (m, lo, hi) 0 (ARM_addSysReg r) (m, lo + 1, hi + 1)"
  unfolding add_reg_def add_imm_def ARM_addSysReg_def by (rule safe_op_add; assumption)+

lemma safe_sets [safe_rules]:
  "hi < ARM_OPERANDS \<Longrightarrow> safe (m, lo, hi) 0 (set_base r) (m, lo, hi)" "hi < ARM_OPERANDS \<Longrightarrow> safe (m, lo, hi) 0 (set_index r) (m, lo, hi)"
  "hi < ARM_OPERANDS \<Longrightarrow> safe (m, lo, hi) 0 (set_disp v) (m, lo, hi)"
  unfolding set_base_def set_index_def set_disp_def by (rule safe_op_upd; assumption)+

lemma safe_same: "(\<And>p. f p = Some p) \<Longrightarrow> safe a 0 f a"
  by (rule safeI) simp

text \<open>A memory operand is opened and closed; without details the flag stays off.\<close>

lemma safe_mem_access [safe_rules]:
  assumes "hi < ARM_OPERANDS"
  shows "safe (False, lo, hi) 0 (set_mem_access True) (True, lo, hi)" "safe (True, lo, hi) 0 (set_mem_access False) (False, lo + 1, hi + 1)"
proof -
  have live_on: "live h insn (b, lo, hi) (p\<lparr>ps_handle := (ps_handle p)\<lparr>doing_mem := b\<rparr>\<rparr>)"
    if "live h insn (c, lo, hi) p" "detail h \<noteq> 0" for h insn b c p
    using that by auto
  show "safe (False, lo, hi) 0 (set_mem_access True) (True, lo, hi)"
  proof (rule safeI)
    fix h insn p assume p: "live h insn (False, lo, hi) p" "length (ptext p) + 0 \<le> 500"
    show "\<exists>p' s. set_mem_access True p = Some p' \<and> live h insn (True, lo, hi) p' \<and> ptext p' = ptext p @ s \<and> length s \<le> 0"
    proof (cases "detail h = 0")
      case False
      then have "set_mem_access True p = op_upd start_mem (p\<lparr>ps_handle := (ps_handle p)\<lparr>doing_mem := True\<rparr>\<rparr>)"
        using p(1) by (auto simp: set_mem_access_def)
      moreover from safeD [OF safe_op_upd [OF assms] live_on [OF p(1) False, of True], of start_mem] p(2)
      obtain p' s where "op_upd start_mem (p\<lparr>ps_handle := (ps_handle p)\<lparr>doing_mem := True\<rparr>\<rparr>) = Some p'" "live h insn (True, lo, hi) p'"
        "ptext p' = ptext p @ s" "length s \<le> 0" by auto
      ultimately show ?thesis by auto
    qed (use p in \<open>auto simp: set_mem_access_def CS_OPT_ON_def\<close>)
  qed
  show "safe (True, lo, hi) 0 (set_mem_access False) (False, lo + 1, hi + 1)"
  proof (rule safeI)
    fix h insn p assume p: "live h insn (True, lo, hi) p" "length (ptext p) + 0 \<le> 500"
    show "\<exists>p' s. set_mem_access False p = Some p' \<and> live h insn (False, lo + 1, hi + 1) p' \<and> ptext p' = ptext p @ s \<and> length s \<le> 0"
    proof (cases "detail h = 0")
      case False
      then have "set_mem_access False p = set_arm next_op (p\<lparr>ps_handle := (ps_handle p)\<lparr>doing_mem := False\<rparr>\<rparr>)"
        using p(1) by (auto simp: set_mem_access_def)
      moreover from safeD [OF safe_next_op [OF assms] live_on [OF p(1) False, of False]] p(2)
      obtain p' s where "set_arm next_op (p\<lparr>ps_handle := (ps_handle p)\<lparr>doing_mem := False\<rparr>\<rparr>) = Some p'"
        "live h insn (False, lo + 1, hi + 1) p'" "ptext p' = ptext p @ s" "length s \<le> 0" by auto
      ultimately show ?thesis by auto
    qed (use p in \<open>auto simp: set_mem_access_def CS_OPT_ON_def\<close>)
  qed
qed

text \<open>Where a memory operand is open its fields are set, and an operand is added elsewhere.\<close>

lemma safe_in_mem:
  assumes "m \<Longrightarrow> safe (m, lo, hi) 0 f b" "\<not> m \<Longrightarrow> safe (m, lo, hi) 0 g b"
    "\<And>p. detail (ps_handle p) = 0 \<Longrightarrow> f p = Some p \<and> g p = Some p"
  shows "safe (m, lo, hi) 0 (in_mem f g) b"
proof (rule safeI)
  fix h insn p
  assume p: "live h insn (m, lo, hi) p" "length (ptext p) + 0 \<le> 500"
  show "\<exists>p' s. in_mem f g p = Some p' \<and> live h insn b p' \<and> ptext p' = ptext p @ s \<and> length s \<le> 0"
  proof (cases "detail h = 0")
    case True
    then have "detail (ps_handle p) = 0" using p(1) by simp
    then have "in_mem f g p = Some p" using assms(3) by (simp add: in_mem_def)
    then show ?thesis using True p(1) by (cases b) auto
  next
    case False
    then have d: "doing_mem (ps_handle p) = m" using p(1) by auto
    have "safe (m, lo, hi) 0 (if m then f else g) b" using assms(1,2) by simp
    from safeD [OF this p] obtain p' s where "(if m then f else g) p = Some p'" "live h insn b p'" "ptext p' = ptext p @ s" "length s \<le> 0" .
    then show ?thesis using d by (auto simp: in_mem_def)
  qed
qed

lemma with_detail_off: "detail (ps_handle p) = 0 \<Longrightarrow> with_detail f p = Some p"
  by (simp add: with_detail_def)

definition add_or_set :: "progress \<Rightarrow> progress" where
  "add_or_set = (\<lambda>(m, lo, hi). if m then (m, lo, hi) else (m, lo + 1, hi + 1))"

lemma safe_in_mem_add [safe_rules]:
  "hi < ARM_OPERANDS \<Longrightarrow> safe (m, lo, hi) 0 (in_mem (op_upd f) (add_reg r)) (add_or_set (m, lo, hi))"
  "hi < ARM_OPERANDS \<Longrightarrow> safe (m, lo, hi) 0 (in_mem (set_disp d) (add_imm v)) (add_or_set (m, lo, hi))"
  unfolding add_or_set_def add_reg_def add_imm_def set_disp_def
  by (rule safe_in_mem;
      (simp add: safe_op_upd safe_op_add [simplified]; fail | simp add: op_upd_def op_add_def with_detail_off))+

lemma safe_in_mem_last [safe_rules]:
  "hi < ARM_OPERANDS \<Longrightarrow> m \<or> 0 < lo \<Longrightarrow> safe (m, lo, hi) 0 (in_mem (op_upd f) (op_last g)) (m, lo, hi)"
  by (rule safe_in_mem;
      (simp add: safe_op_upd safe_op_last; fail | simp add: op_upd_def op_last_def with_detail_off))

subsection \<open>Registers\<close>

definition valid :: "u32 \<Rightarrow> bool" where
  "valid r \<longleftrightarrow> 0 < r \<and> unat r < ARM_NUM_TARGET_REGS"

definition short_name :: "u32 \<Rightarrow> bool" where
  "short_name r \<longleftrightarrow> bank_reg (unat r)"

lemma get_regname_fine:
  shows "valid r \<Longrightarrow> \<exists>s. get_regname h r = Some s \<and> fine 15 s"
    and "short_name r \<Longrightarrow> \<exists>s. get_regname h r = Some s \<and> fine 3 s"
proof -
  have n: "fine n s = name_ok n s" for n s by (simp add: fine_def name_ok_def NUL_def)
  show "valid r \<Longrightarrow> \<exists>s. get_regname h r = Some s \<and> fine 15 s"
    using names_ok
    by (auto simp: valid_def ARM_NUM_TARGET_REGS_def get_regname_def getRegisterName_def getRegisterName2_def name_at_def n list_all_length
        RegisterNames_length word_greater_zero_iff unat_gt_0)
  assume r: "short_name r"
  then have "unat r < 111" "0 < unat r" by (auto simp: short_name_def bank_reg_def)
  moreover from this have "0 < r" by (simp add: unat_gt_0 word_neq_0_conv)
  moreover have "name_ok 3 (RegisterNames ! (unat r - 1)) \<and> name_ok 3 (RegisterNames2 ! (unat r - 1))"
    using bank_names_ok \<open>unat r < 111\<close> r by (simp add: list_all_iff short_name_def)
  ultimately show "\<exists>s. get_regname h r = Some s \<and> fine 3 s"
    by (auto simp: get_regname_def getRegisterName_def getRegisterName2_def name_at_def n RegisterNames_length)
qed

lemma safe_named:
  assumes "\<And>h. \<exists>s. get_regname h r = Some s \<and> fine n s"
  shows "safe a n (printRegName r) a"
proof (rule safeI)
  fix h insn p
  assume p: "live h insn a p" "length (ptext p) + n \<le> 500"
  obtain s where s: "get_regname (ps_handle p) r = Some s" "fine n s" using assms by blast
  from safeD [OF safe_put0 [OF s(2)] p] obtain p' t where "put0 s p = Some p'" "live h insn a p'" "ptext p' = ptext p @ t" "length t \<le> n" .
  then show "\<exists>p' t. printRegName r p = Some p' \<and> live h insn a p' \<and> ptext p' = ptext p @ t \<and> length t \<le> n"
    using s(1) by (auto simp: printRegName_def)
qed

lemma safe_printRegName [safe_rules]: "valid r \<Longrightarrow> safe a 15 (printRegName r) a"
  by (rule safe_named [OF get_regname_fine(1)])

lemma safe_short_name: "short_name r \<Longrightarrow> safe a 3 (printRegName r) a"
  by (rule safe_named [OF get_regname_fine(2)])

lemma safe_name_and_add [safe_rules]:
  "hi < ARM_OPERANDS \<Longrightarrow> valid r \<Longrightarrow> safe (m, lo, hi) 15 (name_and_add r) (m, lo + 1, hi + 1)"
  unfolding name_and_add_def by (rule safe_le, (rule safe_rules | assumption)+) simp_all

lemma safe_with_subreg [safe_rules]:
  "MCRegisterInfo_getSubReg ARM_init Reg Idx = Some r \<Longrightarrow> safe a n (f r) b \<Longrightarrow> safe a n (with_subreg Reg Idx f) b"
  by (simp add: safe_def with_subreg_def)

subsection \<open>Operands of the right kind\<close>

definition reg_in :: "nat \<Rightarrow> nat \<Rightarrow> MCInst \<Rightarrow> nat \<Rightarrow> bool" where
  "reg_in a b MI i = (case MCInst_getOperand MI i of kRegister r \<Rightarrow> a \<le> reg_no r \<and> reg_no r \<le> b | _ \<Rightarrow> False)"

definition is_reg :: "MCInst \<Rightarrow> nat \<Rightarrow> bool" where
  "is_reg = reg_in 1 288"

text \<open>A register that may be missing.\<close>

definition is_reg0 :: "MCInst \<Rightarrow> nat \<Rightarrow> bool" where
  "is_reg0 = reg_in 0 288"

definition is_imm :: "MCInst \<Rightarrow> nat \<Rightarrow> bool" where
  "is_imm MI i = MCOperand_isImm (MCInst_getOperand MI i)"

lemma reg_in_at: "reg_in a b MI i \<Longrightarrow> b \<le> 288 \<Longrightarrow> a \<le> unat (reg_at MI i) \<and> unat (reg_at MI i) \<le> b \<and> MCOperand_isReg (MCInst_getOperand MI i)"
  by (auto simp: reg_in_def reg_at_def unat_of_nat split: MCOperand.splits)

lemma is_reg_valid [simp]: "is_reg MI i \<Longrightarrow> valid (reg_at MI i)"
  using reg_in_at [of 1 288 MI i] by (auto simp: is_reg_def valid_def ARM_NUM_TARGET_REGS_def word_less_nat_alt)

lemma is_reg0_valid [simp]: "is_reg0 MI i \<Longrightarrow> reg_at MI i \<noteq> 0 \<Longrightarrow> valid (reg_at MI i)"
  using reg_in_at [of 0 288 MI i] by (auto simp: is_reg0_def valid_def ARM_NUM_TARGET_REGS_def word_neq_0_conv)

lemma is_reg_isReg [simp]: "is_reg MI i \<Longrightarrow> MCOperand_isReg (MCInst_getOperand MI i)" "is_imm MI i \<Longrightarrow> \<not> MCOperand_isReg (MCInst_getOperand MI i)"
  using reg_in_at [of 1 288 MI i] by (auto simp: is_reg_def is_imm_def elim: MCOperand_isImm.elims)

lemma is_reg_not_imm [simp]: "is_reg MI i \<Longrightarrow> \<not> is_imm MI i"
  using is_reg_isReg by blast

lemma safe_run_append [safe_rules]: "safe a n (run xs) b \<Longrightarrow> safe b m (run ys) c \<Longrightarrow> safe a (n + m) (run (xs @ ys)) c"
proof -
  have "run (xs @ ys) = run [run xs, run ys]" by (rule ext, induction xs) (auto split: option.split)
  moreover assume "safe a n (run xs) b" "safe b m (run ys) c"
  then have "safe a (n + (m + 0)) (run [run xs, run ys]) c" by (rule safe_run_Cons [OF _ safe_run_Cons [OF _ safe_run_Nil]])
  ultimately show ?thesis by simp
qed

declare run.simps [simp del]

lemma safe_run_if [safe_rules]:
  "(b \<Longrightarrow> safe a n (run xs) c) \<Longrightarrow> (\<not> b \<Longrightarrow> safe a m (run ys) c) \<Longrightarrow> safe a (max n m) (run (if b then xs else ys)) c"
  by (auto intro: safe_le)

subsection \<open>Registers and immediates\<close>

lemma safe_printRegImmShift [safe_rules]:
  "hi < ARM_OPERANDS \<Longrightarrow> m \<or> 0 < lo \<Longrightarrow> safe (m, lo, hi) 17 (printRegImmShift c v) (m, lo, hi)"
  unfolding printRegImmShift_def Let_def
  by (rule safe_le, (rule safe_rules fine_rules fine_lit | (simp add: NUL_def; fail))+)

lemma safe_printOperand:
  assumes "is_reg MI i \<or> is_imm MI i" "hi < ARM_OPERANDS"
  shows "safe (m, lo, hi) 15 (printOperand MI i) (add_or_set (m, lo, hi))"
proof (cases "is_reg MI i")
  case True
  then obtain r where r: "MCInst_getOperand MI i = kRegister r" by (auto simp: is_reg_def reg_in_def split: MCOperand.splits)
  have "safe (m, lo, hi) 15 (\<lambda>p. printOperand MI i p) (add_or_set (m, lo, hi))"
    unfolding printOperand_def r Let_def MCOperand.case
    by (rule safe_le, (rule safe_rules | (simp add: assms(2) True; fail))+)
  then show ?thesis by simp
next
  case False
  then obtain v where v: "MCInst_getOperand MI i = kImmediate v" using assms(1) by (auto simp: is_imm_def elim: MCOperand_isImm.elims)
  let ?c = "MCInst_getOpcode MI"
  obtain rel where rel: "ARM_rel_branch ?c = Some rel" using insn_rel_set by blast
  have blx: "ARM_blx_to_arm_mode ?c = Some (?c = 2704)"
    by (simp add: ARM_blx_to_arm_mode_def insn_blx_rel_to_arm_def)
  have s: "safe (m, lo, hi) 15 (run [put t, in_mem (set_disp w) (add_imm w)]) (add_or_set (m, lo, hi))" if "fine 12 t" for t w
    using that by (rule safe_le [OF safe_run_Cons [OF safe_put safe_run_Cons [OF safe_in_mem_add(2) [OF assms(2)] safe_run_Nil]]]) simp_all
  have p: "\<exists>t w. fine 12 t \<and> printOperand MI i p = run [put t, in_mem (set_disp w) (add_imm w)] p" for p
  proof -
    have "fine 12 (target_text w)" for w using fine_le [OF fine_target] by simp
    then show ?thesis using fine_plain unfolding printOperand_def v Let_def MCOperand.case rel blx option.case prod.case
      by (cases rel; simp only: if_True if_False; blast)
  qed
  show ?thesis
  proof (rule safeI)
    fix h insn q
    assume q: "live h insn (m, lo, hi) q" "length (ptext q) + 15 \<le> 500"
    obtain t w where tw: "fine 12 t" "printOperand MI i q = run [put t, in_mem (set_disp w) (add_imm w)] q" using p by blast
    from safeD [OF s [OF tw(1)] q, of w] obtain p' s where "run [put t, in_mem (set_disp w) (add_imm w)] q = Some p'"
      "live h insn (add_or_set (m, lo, hi)) p'" "ptext p' = ptext q @ s" "length s \<le> 15" .
    then show "\<exists>p' s. printOperand MI i q = Some p' \<and> live h insn (add_or_set (m, lo, hi)) p' \<and> ptext p' = ptext q @ s \<and> length s \<le> 15"
      unfolding tw(2) by blast
  qed
qed

text \<open>The printers for one immediate or one register.\<close>

lemma safe_put_imm [safe_rules]: "hi < ARM_OPERANDS \<Longrightarrow> safe (m, lo, hi) 11 (put_imm v) (m, lo + 1, hi + 1)"
  unfolding put_imm_def by (rule safe_le, (rule safe_rules fine_rules fine_lit | (simp add: NUL_def; fail))+)

lemma safe_printThumbLdrLabelOperand [safe_rules]:
  "hi < ARM_OPERANDS \<Longrightarrow> safe (m, lo, hi) 18 (printThumbLdrLabelOperand MI i) (m, lo + 1, hi + 1)"
  unfolding printThumbLdrLabelOperand_def Let_def
  by (rule safe_le, (rule safe_rules fine_rules fine_lit | (simp add: NUL_def; fail))+)

lemma safe_printSORegRegOperand [safe_rules]:
  "hi < ARM_OPERANDS \<Longrightarrow> is_reg MI i \<Longrightarrow> is_reg MI (i + 1) \<Longrightarrow> safe (m, lo, hi) 40 (printSORegRegOperand MI i) (m, lo + 1, hi + 1)"
  unfolding printSORegRegOperand_def Let_def
  by (rule safe_le, (rule safe_rules fine_rules fine_lit | (simp add: NUL_def; fail))+)

lemma safe_printSORegImmOperand [safe_rules]:
  "hi + 1 < ARM_OPERANDS \<Longrightarrow> is_reg MI i \<Longrightarrow> safe (m, lo, hi) 40 (printSORegImmOperand MI i) (m, lo + 1, hi + 1)"
  unfolding printSORegImmOperand_def Let_def
  by (rule safe_le, (rule safe_rules fine_rules fine_lit | (simp add: NUL_def; fail))+)

lemma safe_printT2SOOperand [safe_rules]:
  "hi + 1 < ARM_OPERANDS \<Longrightarrow> is_reg MI i \<Longrightarrow> safe (m, lo, hi) 40 (printT2SOOperand MI i) (m, lo + 1, hi + 1)"
  unfolding printT2SOOperand_def Let_def
  by (rule safe_le, (rule safe_rules fine_rules fine_lit | (simp add: NUL_def; fail))+)

lemma safe_printAddrMode2OffsetOperand [safe_rules]:
  "hi + 1 < ARM_OPERANDS \<Longrightarrow> is_reg0 MI i \<Longrightarrow> safe (m, lo, hi) 40 (printAddrMode2OffsetOperand MI i) (m, lo + 1, hi + 1)"
  unfolding printAddrMode2OffsetOperand_def Let_def
  by (rule safe_le, (rule safe_rules fine_rules fine_lit | (simp add: NUL_def; fail))+)

lemma safe_printAddrMode3OffsetOperand [safe_rules]:
  "hi < ARM_OPERANDS \<Longrightarrow> is_reg0 MI i \<Longrightarrow> safe (m, lo, hi) 40 (printAddrMode3OffsetOperand MI i) (m, lo + 1, hi + 1)"
  unfolding printAddrMode3OffsetOperand_def Let_def
  by (rule safe_le, (rule safe_rules fine_rules fine_lit | (simp add: NUL_def; fail))+)

lemma safe_post_index [safe_rules]:
  "hi < ARM_OPERANDS \<Longrightarrow> safe (m, lo, hi) 40 (printPostIdxImm8Operand MI i) (m, lo + 1, hi + 1)"
  "hi < ARM_OPERANDS \<Longrightarrow> is_reg MI i \<Longrightarrow> safe (m, lo, hi) 40 (printPostIdxRegOperand MI i) (m, lo + 1, hi + 1)"
  "hi < ARM_OPERANDS \<Longrightarrow> safe (m, lo, hi) 40 (printPostIdxImm8s4Operand MI i) (m, lo + 1, hi + 1)"
  unfolding printPostIdxImm8Operand_def printPostIdxRegOperand_def printPostIdxImm8s4Operand_def Let_def
  by (rule safe_le, (rule safe_rules fine_rules fine_lit | (simp add: NUL_def; fail))+)+

lemma safe_set_writeback [safe_rules]: "safe a 0 set_writeback a"
  by (rule safeI, cases a) (auto simp: set_writeback_def)

lemma safe_printAddrMode6OffsetOperand [safe_rules]:
  assumes "hi < ARM_OPERANDS" "is_reg0 MI i"
  shows "safe (m, lo, hi) 40 (printAddrMode6OffsetOperand MI i) (m, lo, hi + 1)"
proof (cases "reg_at MI i = 0")
  case True
  have "safe (m, lo, hi) 40 (run [set_writeback, put0 ''!'']) (m, lo, hi)"
    by (rule safe_le, (rule safe_rules fine_rules fine_lit | (simp add: NUL_def; fail))+)
  then show ?thesis using True safe_wider by (simp add: printAddrMode6OffsetOperand_def)
next
  case False
  have "safe (m, lo, hi) 40 (run [put0 '', '', name_and_add (reg_at MI i)]) (m, lo + 1, hi + 1)"
    by (rule safe_le, (rule safe_rules fine_rules fine_lit | (simp add: NUL_def assms False; fail))+)
  then show ?thesis using False safe_wider by (simp add: printAddrMode6OffsetOperand_def)
qed

text \<open>Shifts of the operand before.\<close>

lemma safe_shifts [safe_rules]:
  assumes "hi \<le> ARM_OPERANDS" "0 < lo"
  shows "safe (m, lo, hi) 40 (printShiftImmOperand MI i) (m, lo, hi)" "safe (m, lo, hi) 40 (printPKHLSLShiftImm MI i) (m, lo, hi)"
    "safe (m, lo, hi) 40 (printPKHASRShiftImm MI i) (m, lo, hi)" "safe (m, lo, hi) 40 (printRotImmOperand MI i) (m, lo, hi)"
    "safe (m, lo, hi) 40 (printVectorIndex MI i) (m, lo, hi)"
  unfolding printShiftImmOperand_def printPKHLSLShiftImm_def printPKHASRShiftImm_def printRotImmOperand_def printVectorIndex_def Let_def
  by (rule safe_le, (rule safe_rules fine_rules fine_lit | (simp add: NUL_def assms; fail))+)+

lemma safe_printSBitModifierOperand [safe_rules]: "safe a 1 (printSBitModifierOperand MI i) a"
  unfolding printSBitModifierOperand_def
  by (rule safe_le, (rule safe_rules fine_rules fine_lit | (simp add: NUL_def; fail))+)

lemma safe_imm8_offset [safe_rules]:
  "hi < ARM_OPERANDS \<Longrightarrow> safe (m, lo, hi) 40 (printT2AddrModeImm8OffsetOperand MI i) (m, lo + 1, hi + 1)"
  "hi < ARM_OPERANDS \<Longrightarrow> safe (m, lo, hi) 40 (printT2AddrModeImm8s4OffsetOperand MI i) (m, lo + 1, hi + 1)"
  unfolding printT2AddrModeImm8OffsetOperand_def printT2AddrModeImm8s4OffsetOperand_def print_imm8_offset_def Let_def
  by (rule safe_le, (rule safe_rules fine_rules fine_lit | (simp add: NUL_def; fail))+)+

text \<open>Lists of registers.\<close>

definition register_list :: "MCInst \<Rightarrow> nat \<Rightarrow> bool" where
  "register_list MI i \<longleftrightarrow> i \<le> MCInst_getNumOperands MI \<and> MCInst_getNumOperands MI \<le> i + 32 \<and>
     list_all (\<lambda>j. reg_in 1 288 MI j \<and> short_name (reg_at MI j)) [i..<MCInst_getNumOperands MI]"

lemma safe_register_loop:
  assumes "list_all (\<lambda>j. short_name (reg_at MI j)) js" "hi + length js \<le> ARM_OPERANDS"
  shows "safe (m, lo, hi) (5 * length js) (run (map (\<lambda>j. run [cond (j \<noteq> i) [put0 '', ''], name_and_add (reg_at MI j)]) js))
    (m, lo + length js, hi + length js)"
  using assms
proof (induction js arbitrary: lo hi)
  case Nil
  then show ?case using safe_run_Nil [of "(m, lo, hi)"] by simp
next
  case (Cons j js)
  have "safe (m, lo, hi) 5 (run [cond (j \<noteq> i) [put0 '', ''], name_and_add (reg_at MI j)]) (m, lo + 1, hi + 1)"
    unfolding name_and_add_def using Cons.prems
    by - (rule safe_le, (rule safe_short_name safe_rules fine_rules fine_lit | (simp add: NUL_def; fail))+)
  moreover have "safe (m, lo + 1, hi + 1) (5 * length js)
      (run (map (\<lambda>j. run [cond (j \<noteq> i) [put0 '', ''], name_and_add (reg_at MI j)]) js)) (m, lo + 1 + length js, hi + 1 + length js)"
    using Cons.prems by (intro Cons.IH) simp_all
  ultimately show ?case using safe_run_Cons by fastforce
qed

lemma safe_printRegisterList [safe_rules]:
  assumes "register_list MI i" "hi + 32 \<le> ARM_OPERANDS"
  shows "safe (m, lo, hi) 162 (printRegisterList MI i) (m, lo, hi + 32)"
proof -
  let ?js = "[i..<MCInst_getNumOperands MI]"
  have l: "list_all (\<lambda>j. short_name (reg_at MI j)) ?js" "length ?js \<le> 32" "i \<le> MCInst_getNumOperands MI"
    using assms(1) by (auto simp: register_list_def list_all_iff)
  let ?loop = "map (\<lambda>j. run [cond (j \<noteq> i) [put0 '', ''], name_and_add (reg_at MI j)]) ?js"
  have c: "fine 1 ''{''" "fine 1 ''}''" by (simp_all add: fine_def NUL_def)
  have "safe (m, lo, hi) (5 * length ?js) (run ?loop) (m, lo + length ?js, hi + length ?js)"
    using l(1,2) assms(2) by (intro safe_register_loop) simp_all
  from safe_run_Cons [OF safe_put0 [OF c(1)] safe_run_append [OF this safe_run_Cons [OF safe_put0 [OF c(2)] safe_run_Nil]]]
  have "safe (m, lo, hi) (1 + (5 * length ?js + (1 + 0))) (run (put0 ''{'' # ?loop @ [put0 ''}''])) (m, lo + length ?js, hi + length ?js)" .
  then have "safe (m, lo, hi) 162 (printRegisterList MI i) (m, lo + length ?js, hi + length ?js)"
    using l by (auto simp: printRegisterList_def intro: safe_le)
  then show ?thesis using l(2) by (auto intro: safe_wider)
qed

lemma safe_halves:
  assumes "halves (unat Reg) i0 i1 r0 r1" "0 < r0" "r0 < 289" "0 < r1" "r1 < 289" "hi + 1 < ARM_OPERANDS" "fine n sep"
  shows "safe (m, lo, hi) (n + 30) (run [with_subreg Reg i0 name_and_add, put0 sep, with_subreg Reg i1 name_and_add]) (m, lo + 2, hi + 2)"
proof -
  have s: "MCRegisterInfo_getSubReg ARM_init Reg i0 = Some (of_nat r0)" "MCRegisterInfo_getSubReg ARM_init Reg i1 = Some (of_nat r1)"
    using assms(1) by (simp_all add: halves_def)
  have v: "valid (of_nat r0)" "valid (of_nat r1)"
    using assms(2-5) by (simp_all add: valid_def ARM_NUM_TARGET_REGS_def unat_of_nat word_less_nat_alt)
  show ?thesis using v assms(6,7)
    by - (rule safe_le, (rule safe_rules s fine_rules | (simp; fail))+)
qed

definition has_halves :: "u32 \<Rightarrow> u32 \<Rightarrow> u32 \<Rightarrow> bool" where
  "has_halves Reg i0 i1 \<longleftrightarrow> (\<exists>r0 r1. halves (unat Reg) i0 i1 r0 r1 \<and> 0 < r0 \<and> r0 < 289 \<and> 0 < r1 \<and> r1 < 289)"

lemma has_halvesI:
  "halves (a + i) i0 i1 r0 r1 \<Longrightarrow> unat Reg = a + i \<Longrightarrow> 0 < r0 \<Longrightarrow> r0 < 289 \<Longrightarrow> 0 < r1 \<Longrightarrow> r1 < 289 \<Longrightarrow> has_halves Reg i0 i1"
  unfolding has_halves_def by (intro exI) auto

lemma reg_in_halves:
  "reg_in 50 65 MI i \<Longrightarrow> has_halves (reg_at MI i) ARM_dsub_0 ARM_dsub_1" (is "?q \<Longrightarrow> _")
  "reg_in 260 274 MI i \<Longrightarrow> has_halves (reg_at MI i) ARM_dsub_0 ARM_dsub_1" (is "?p \<Longrightarrow> _")
  "reg_in 111 140 MI i \<Longrightarrow> has_halves (reg_at MI i) ARM_dsub_0 ARM_dsub_2" (is "?s \<Longrightarrow> _")
  "reg_in 169 175 MI i \<Longrightarrow> has_halves (reg_at MI i) ARM_gsub_0 ARM_gsub_1" (is "?g \<Longrightarrow> _")
proof -
  let ?r = "unat (reg_at MI i)"
  have r: "a \<le> ?r \<and> ?r \<le> b" if "reg_in a b MI i" "b \<le> 288" for a b using reg_in_at [OF that] by simp
  show "has_halves (reg_at MI i) ARM_dsub_0 ARM_dsub_1" if ?q
    by (rule has_halvesI [OF quad_halves [of "?r - 50"]]) (use r [OF that] in auto)
  show "has_halves (reg_at MI i) ARM_dsub_0 ARM_dsub_1" if ?p
    by (rule has_halvesI [OF pair_halves [of "?r - 260"]]) (use r [OF that] in auto)
  show "has_halves (reg_at MI i) ARM_dsub_0 ARM_dsub_2" if ?s
    by (rule has_halvesI [OF spaced_halves [of "?r - 111"]]) (use r [OF that] in auto)
  show "has_halves (reg_at MI i) ARM_gsub_0 ARM_gsub_1" if ?g
  proof (cases "?r = 169")
    case True
    then show ?thesis using gpr_halves_0 by (intro has_halvesI [of 169 0 _ _ 78 12]) simp_all
  next
    case False
    show ?thesis by (rule has_halvesI [OF gpr_halves [of "?r - 170"]]) (use r [OF that] False in auto)
  qed
qed

lemma safe_pair:
  assumes "has_halves Reg i0 i1" "hi + 1 < ARM_OPERANDS" "fine n sep"
  shows "safe (m, lo, hi) (n + 30) (run [with_subreg Reg i0 name_and_add, put0 sep, with_subreg Reg i1 name_and_add]) (m, lo + 2, hi + 2)"
  using assms safe_halves unfolding has_halves_def by blast

lemma safe_printGPRPairOperand [safe_rules]:
  assumes "reg_in 169 175 MI i" "hi + 1 < ARM_OPERANDS"
  shows "safe (m, lo, hi) 40 (printGPRPairOperand MI i) (m, lo + 2, hi + 2)"
  unfolding printGPRPairOperand_def Let_def
  by (rule safe_le [OF safe_pair [OF reg_in_halves(4) [OF assms(1)] assms(2) fine_lit]]) (simp_all add: NUL_def)

subsection \<open>Lists of vectors\<close>

lemma vector_list_unfold:
  "vector_list Reg [0] sep close = run [put0 ''{'', name_and_add Reg, put0 close]"
  "vector_list Reg [0, b, c] sep close =
     run [put0 ''{'', name_and_add Reg, put0 sep, name_and_add (Reg + b), put0 sep, name_and_add (Reg + c), put0 close]"
  "vector_list Reg [0, b, c, d] sep close =
     run [put0 ''{'', name_and_add Reg, put0 sep, name_and_add (Reg + b), put0 sep, name_and_add (Reg + c), put0 sep, name_and_add (Reg + d), put0 close]"
  by (simp_all add: vector_list_def)

lemma valid_above:
  assumes "reg_in 1 282 MI i" "d \<le> 6"
  shows "valid (reg_at MI i + d)"
proof -
  have "1 \<le> unat (reg_at MI i)" "unat (reg_at MI i) \<le> 282" using reg_in_at [OF assms(1)] by simp_all
  moreover have "unat d \<le> 6" using assms(2) by (simp add: word_le_nat_alt)
  ultimately have "unat (reg_at MI i + d) = unat (reg_at MI i) + unat d" by (simp add: unat_word_ariths)
  then show ?thesis using \<open>1 \<le> unat (reg_at MI i)\<close> \<open>unat (reg_at MI i) \<le> 282\<close> \<open>unat d \<le> 6\<close>
    by (simp add: valid_def ARM_NUM_TARGET_REGS_def word_less_nat_alt)
qed

lemma safe_vector_list:
  assumes "reg_in 1 282 MI i" "fine 4 sep" "fine 3 close"
  shows "hi < ARM_OPERANDS \<Longrightarrow> safe (m, lo, hi) 80 (vector_list (reg_at MI i) [0] sep close) (m, lo + 1, hi + 1)"
    and "hi + 2 < ARM_OPERANDS \<Longrightarrow> b \<le> 6 \<Longrightarrow> c \<le> 6 \<Longrightarrow>
      safe (m, lo, hi) 80 (vector_list (reg_at MI i) [0, b, c] sep close) (m, lo + 3, hi + 3)"
    and "hi + 3 < ARM_OPERANDS \<Longrightarrow> b \<le> 6 \<Longrightarrow> c \<le> 6 \<Longrightarrow> d \<le> 6 \<Longrightarrow>
      safe (m, lo, hi) 80 (vector_list (reg_at MI i) [0, b, c, d] sep close) (m, lo + 4, hi + 4)"
proof -
  have v: "d \<le> 6 \<Longrightarrow> valid (reg_at MI i + d)" "valid (reg_at MI i)" for d
    using valid_above [OF assms(1)] valid_above [OF assms(1), of 0] by simp_all
  have b: "fine 1 ''{''" by (simp add: fine_def NUL_def)
  note rules = safe_rules b assms(2,3) v
  show "hi < ARM_OPERANDS \<Longrightarrow> safe (m, lo, hi) 80 (vector_list (reg_at MI i) [0] sep close) (m, lo + 1, hi + 1)"
    unfolding vector_list_unfold by (rule safe_le, (rule rules | (simp; fail))+)
  show "hi + 2 < ARM_OPERANDS \<Longrightarrow> b \<le> 6 \<Longrightarrow> c \<le> 6 \<Longrightarrow>
      safe (m, lo, hi) 80 (vector_list (reg_at MI i) [0, b, c] sep close) (m, lo + 3, hi + 3)"
    unfolding vector_list_unfold by (rule safe_le, (rule rules | (simp; fail))+)
  show "hi + 3 < ARM_OPERANDS \<Longrightarrow> b \<le> 6 \<Longrightarrow> c \<le> 6 \<Longrightarrow> d \<le> 6 \<Longrightarrow>
      safe (m, lo, hi) 80 (vector_list (reg_at MI i) [0, b, c, d] sep close) (m, lo + 4, hi + 4)"
    unfolding vector_list_unfold by (rule safe_le, (rule rules | (simp; fail))+)
qed

lemma safe_vector_pair:
  assumes "has_halves (reg_at MI i) i0 i1" "fine 4 sep" "fine 3 close" "hi + 1 < ARM_OPERANDS"
  shows "safe (m, lo, hi) 80 (vector_pair (reg_at MI i) i0 i1 sep close) (m, lo + 2, hi + 2)"
proof -
  have b: "fine 1 ''{''" by (simp add: fine_def NUL_def)
  note p = safe_run_Cons [OF safe_put0 [OF b] safe_run_append [OF safe_pair [OF assms(1,4,2)] safe_run_Cons [OF safe_put0 [OF assms(3)] safe_run_Nil]]]
  show ?thesis unfolding vector_pair_def by (rule safe_le [OF p [simplified append.simps]]) simp_all
qed

subsection \<open>Memory operands\<close>

text \<open>Such an operand is opened and closed, so that none may be open before.\<close>

lemma add_or_set_closed: "add_or_set (False, lo, hi) = (False, lo + 1, hi + 1)"
  by (simp add: add_or_set_def)

lemma safe_printOperand_closed:
  "is_reg MI i \<or> is_imm MI i \<Longrightarrow> hi < ARM_OPERANDS \<Longrightarrow> safe (False, lo, hi) 60 (printOperand MI i) (False, lo + 1, hi + 1)"
  using safe_le [OF safe_printOperand] by (simp add: add_or_set_closed)

lemma safe_table_branch:
  assumes "hi < ARM_OPERANDS" "is_reg MI i" "is_reg MI (i + 1)"
  shows "safe (False, lo, hi) 60 (printAddrModeTBB MI i) (False, lo + 1, hi + 1)" "safe (False, lo, hi) 60 (printAddrModeTBH MI i) (False, lo + 1, hi + 1)"
  unfolding printAddrModeTBB_def printAddrModeTBH_def
  by (rule safe_le, (rule safe_rules fine_rules fine_lit | (simp add: NUL_def assms assms(3) [simplified]; fail))+)+

lemma safe_printAddrMode2Operand:
  assumes "hi < ARM_OPERANDS" "is_imm MI i \<or> is_reg MI i \<and> is_reg0 MI (i + 1)"
  shows "safe (False, lo, hi) 60 (printAddrMode2Operand MI i) (False, lo + 1, hi + 1)"
proof (cases "is_imm MI i")
  case True
  then show ?thesis using safe_printOperand_closed assms(1) by (simp add: printAddrMode2Operand_def)
next
  case False
  then have r: "is_reg MI i" "is_reg0 MI (i + 1)" using assms(2) by simp_all
  have "safe (False, lo, hi) 60 (printAM2PreOrOffsetIndexOp MI i) (False, lo + 1, hi + 1)"
    unfolding printAM2PreOrOffsetIndexOp_def Let_def using r assms(1)
    by - (rule safe_le, (rule safe_rules fine_rules fine_lit | (simp add: NUL_def; fail))+)
  then show ?thesis using r by (simp add: printAddrMode2Operand_def)
qed

lemma safe_printAddrMode3Operand:
  assumes "hi < ARM_OPERANDS" "is_imm MI i \<or> is_reg MI i \<and> is_reg0 MI (i + 1)"
  shows "safe (False, lo, hi) 60 (printAddrMode3Operand MI i b) (False, lo + 1, hi + 1)"
proof (cases "is_imm MI i")
  case True
  then show ?thesis using safe_printOperand_closed assms(1) by (simp add: printAddrMode3Operand_def)
next
  case False
  then have r: "is_reg MI i" "is_reg0 MI (i + 1)" using assms(2) by simp_all
  have "safe (False, lo, hi) 60 (printAM3PreOrOffsetIndexOp MI i b) (False, lo + 1, hi + 1)"
    unfolding printAM3PreOrOffsetIndexOp_def Let_def using r assms(1)
    by - (rule safe_le, (rule safe_rules fine_rules fine_lit | (simp add: NUL_def; fail))+)
  then show ?thesis using r by (simp add: printAddrMode3Operand_def)
qed

text \<open>The printers that fall back to \<^verbatim>\<open>printOperand\<close> for an immediate.\<close>

lemma safe_or_operand:
  assumes "hi < ARM_OPERANDS" "is_imm MI i \<or> is_reg MI i" "is_reg MI i \<Longrightarrow> safe (False, lo, hi) 60 f (False, lo + 1, hi + 1)"
  shows "safe (False, lo, hi) 60 (if \<not> MCOperand_isReg (MCInst_getOperand MI i) then printOperand MI i else f) (False, lo + 1, hi + 1)"
  using assms safe_printOperand_closed by (cases "is_imm MI i") auto

lemma safe_printAddrMode5Operand:
  "hi < ARM_OPERANDS \<Longrightarrow> is_imm MI i \<or> is_reg MI i \<Longrightarrow> safe (False, lo, hi) 60 (printAddrMode5Operand MI i b) (False, lo + 1, hi + 1)"
  unfolding printAddrMode5Operand_def Let_def
  by (rule safe_or_operand, assumption+, rule safe_le, (rule safe_rules fine_rules fine_lit | (simp add: NUL_def; fail))+)

lemma safe_printAddrMode6Operand:
  "hi < ARM_OPERANDS \<Longrightarrow> is_reg MI i \<Longrightarrow> safe (False, lo, hi) 60 (printAddrMode6Operand MI i) (False, lo + 1, hi + 1)"
  unfolding printAddrMode6Operand_def Let_def
  by (rule safe_le, (rule safe_rules fine_rules fine_lit | (simp add: NUL_def; fail))+)

lemma safe_printAddrMode7Operand:
  "hi < ARM_OPERANDS \<Longrightarrow> is_reg MI i \<Longrightarrow> safe (False, lo, hi) 60 (printAddrMode7Operand MI i) (False, lo + 1, hi + 1)"
  unfolding printAddrMode7Operand_def Let_def
  by (rule safe_le, (rule safe_rules fine_rules fine_lit | (simp add: NUL_def; fail))+)

lemma safe_printThumbAddrModeRROperand:
  "hi < ARM_OPERANDS \<Longrightarrow> is_imm MI i \<or> is_reg MI i \<and> is_reg0 MI (i + 1) \<Longrightarrow>
   safe (False, lo, hi) 60 (printThumbAddrModeRROperand MI i) (False, lo + 1, hi + 1)"
  unfolding printThumbAddrModeRROperand_def Let_def
  by (rule safe_or_operand, assumption, blast, rule safe_le, (rule safe_rules fine_rules fine_lit | (simp add: NUL_def; fail))+)

lemma safe_printThumbAddrModeImm5SOperand:
  "hi < ARM_OPERANDS \<Longrightarrow> is_imm MI i \<or> is_reg MI i \<Longrightarrow> safe (False, lo, hi) 60 (printThumbAddrModeImm5SOperand MI i k) (False, lo + 1, hi + 1)"
  unfolding printThumbAddrModeImm5SOperand_def Let_def
  by (rule safe_or_operand, assumption+, rule safe_le, (rule safe_rules fine_rules fine_lit | (simp add: NUL_def; fail))+)

lemma safe_printAddrModeImm12Operand:
  "hi < ARM_OPERANDS \<Longrightarrow> is_imm MI i \<or> is_reg MI i \<Longrightarrow> safe (False, lo, hi) 60 (printAddrModeImm12Operand MI i b) (False, lo + 1, hi + 1)"
  unfolding printAddrModeImm12Operand_def Let_def
  by (rule safe_or_operand, assumption+, rule safe_le, (rule safe_rules fine_rules fine_lit | (simp add: NUL_def; fail))+)

lemma safe_print_imm8:
  "hi < ARM_OPERANDS \<Longrightarrow> is_reg MI i \<Longrightarrow> safe (False, lo, hi) 60 (print_imm8 MI i b) (False, lo + 1, hi + 1)"
  unfolding print_imm8_def Let_def
  by (rule safe_le, (rule safe_rules fine_rules fine_lit | (simp add: NUL_def; fail))+)

lemma safe_printT2AddrModeImm8s4Operand:
  "hi < ARM_OPERANDS \<Longrightarrow> is_imm MI i \<or> is_reg MI i \<Longrightarrow> safe (False, lo, hi) 60 (printT2AddrModeImm8s4Operand MI i b) (False, lo + 1, hi + 1)"
  unfolding printT2AddrModeImm8s4Operand_def by (rule safe_or_operand) (simp_all add: safe_print_imm8 [simplified])

lemma safe_printT2AddrModeImm0_1020s4Operand:
  "hi < ARM_OPERANDS \<Longrightarrow> is_reg MI i \<Longrightarrow> safe (False, lo, hi) 60 (printT2AddrModeImm0_1020s4Operand MI i) (False, lo + 1, hi + 1)"
  unfolding printT2AddrModeImm0_1020s4Operand_def Let_def
  by (rule safe_le, (rule safe_rules fine_rules fine_lit | (simp add: NUL_def; fail))+)

text \<open>This one writes to the operand before the one it has opened.\<close>

lemma safe_printT2AddrModeSoRegOperand:
  "hi < ARM_OPERANDS \<Longrightarrow> 0 < lo \<Longrightarrow> is_reg MI i \<Longrightarrow> is_reg MI (i + 1) \<Longrightarrow>
   safe (False, lo, hi) 60 (printT2AddrModeSoRegOperand MI i) (False, lo + 1, hi + 1)"
  unfolding printT2AddrModeSoRegOperand_def Let_def
  by (rule safe_le, (rule safe_rules fine_rules fine_lit | (simp add: NUL_def; fail))+)

subsection \<open>Numbers, conditions and system registers\<close>

lemma round_div_le: "a < b * c \<Longrightarrow> round_div a b \<le> c" for a b c :: nat
proof -
  assume a: "a < b * c"
  then have "a div b < c" by (simp add: less_mult_imp_div_less mult.commute)
  then show ?thesis by (simp add: round_div_def Let_def)
qed

lemma fine_two_digits: "x < 100 \<Longrightarrow> fine 3 (two_digits x)"
  using fine_radix [of 10 x 2] by (auto simp: two_digits_def fine_def NUL_def)

lemma fine_take_drop: "fine n s \<Longrightarrow> fine n (take k s)" "fine n s \<Longrightarrow> fine n (drop k s)"
  by (auto simp: fine_def dest: in_set_takeD in_set_dropD)

lemma fine_digits: "m \<le> 10 ^ 7 \<Longrightarrow> fine 8 (radix 10 m)"
  by (rule fine_radix) simp_all

lemma fine_printf_e: "fine 24 (printf_e b)"
proof -
  obtain n d where nd: "float_num b = (n, d)" by fastforce
  let ?pos = "filter (\<lambda>x. d * 10 ^ x \<le> n \<and> n < d * 10 ^ (x + 1)) [0..<39]"
  let ?neg = "filter (\<lambda>x. d \<le> n * 10 ^ x \<and> n * 10 ^ x < d * 10) [1..<39]"
  let ?r = "case ?pos of
               x # _ \<Rightarrow> (round_div (n * 10 ^ 6) (d * 10 ^ x), ''+'', x)
             | [] \<Rightarrow> (case ?neg of x # _ \<Rightarrow> (round_div (n * 10 ^ (6 + x)) d, ''-'', x) | [] \<Rightarrow> (0, ''+'', 0))"
  have r: "\<exists>m c x. ?r = (m, c, x) \<and> m \<le> 10 ^ 7 \<and> fine 1 c \<and> x < 100"
  proof (cases ?pos)
    case (Cons x xs)
    then have "x \<in> set ?pos" by (metis list.set_intros(1))
    then have x: "n < d * 10 ^ (x + 1)" "x < 39" by simp_all
    then have "n * 10 ^ 6 < (d * 10 ^ x) * 10 ^ 7" by simp
    then have "round_div (n * 10 ^ 6) (d * 10 ^ x) \<le> 10 ^ 7" by (rule round_div_le)
    then show ?thesis using x(2) unfolding Cons by (simp add: fine_def NUL_def)
  next
    case Nil
    show ?thesis
    proof (cases ?neg)
      case (Cons x xs)
      then have "x \<in> set ?neg" by (metis list.set_intros(1))
      then have x: "n * 10 ^ x < d * 10" "x < 39" by simp_all
      then have "n * 10 ^ (6 + x) < d * 10 ^ 7" by (simp add: power_add)
      then have "round_div (n * 10 ^ (6 + x)) d \<le> 10 ^ 7" by (rule round_div_le)
      then show ?thesis using x(2) unfolding Nil Cons by (simp add: fine_def NUL_def)
    qed (simp only: Nil list.case, simp add: fine_def NUL_def)
  qed
  then obtain m c x where mcx: "?r = (m, c, x)" "m \<le> 10 ^ 7" "fine 1 c" "x < 100" by blast
  have e: "printf_e b = (if drop_bit 31 b \<noteq> 0 then ''-'' else '''') @ take 1 (radix 10 m) @ ''.'' @ drop 1 (radix 10 m) @ ''e'' @ c @ two_digits x"
    unfolding printf_e_def nd Let_def prod.case mcx(1) ..
  note p = fine_digits [OF mcx(2)]
  show ?thesis unfolding e
    by (rule fine_le, (rule fine_rules fine_take_drop [OF p] mcx(3) fine_two_digits [OF mcx(4)] fine_lit | (simp add: NUL_def; fail))+)
qed

lemma safe_simple_numbers [safe_rules]:
  assumes "hi < ARM_OPERANDS"
  shows "safe (m, lo, hi) 11 (printPImmediate MI i) (m, lo + 1, hi + 1)" "safe (m, lo, hi) 11 (printCImmediate MI i) (m, lo + 1, hi + 1)"
    "safe (m, lo, hi) 25 (printCoprocOptionImm MI i) (m, lo + 1, hi + 1)" "safe (m, lo, hi) 25 (printImmPlusOneOperand MI i) (m, lo + 1, hi + 1)"
    "safe (m, lo, hi) 25 (printFBits16 MI i) (m, lo + 1, hi + 1)" "safe (m, lo, hi) 25 (printFBits32 MI i) (m, lo + 1, hi + 1)"
    "safe (m, lo, hi) 25 (printThumbS4ImmOperand MI i) (m, lo + 1, hi + 1)" "safe (m, lo, hi) 25 (printThumbSRImm MI i) (m, lo + 1, hi + 1)"
    "safe (m, lo, hi) 25 (printAdrLabelOperand MI i k) (m, lo + 1, hi + 1)" "safe (m, lo, hi) 2 (printSetendOperand MI i) (m, lo + 1, hi + 1)"
    "safe (m, lo, hi) 25 (printNEONModImmOperand MI i) (m, lo + 1, hi + 1)"
  unfolding printPImmediate_def printCImmediate_def printCoprocOptionImm_def printImmPlusOneOperand_def printFBits16_def printFBits32_def
    printThumbS4ImmOperand_def printThumbSRImm_def printAdrLabelOperand_def printSetendOperand_def printNEONModImmOperand_def Let_def
  by (rule safe_le, (rule safe_rules fine_rules fine_lit | (simp add: NUL_def assms; fail))+)+

lemma safe_printFPImmOperand [safe_rules]:
  "hi < ARM_OPERANDS \<Longrightarrow> safe (m, lo, hi) 25 (printFPImmOperand MI i) (m, lo + 1, hi + 1)"
  unfolding printFPImmOperand_def Let_def
  by (rule safe_le, (rule safe_rules fine_printf_e fine_rules fine_lit | (simp add: NUL_def; fail))+)

lemma safe_printNoHashImmediate:
  "hi < ARM_OPERANDS \<Longrightarrow> safe (m, lo, hi) 10 (printNoHashImmediate MI i) (add_or_set (m, lo, hi))"
  unfolding printNoHashImmediate_def Let_def
  by (rule safe_le, (rule safe_rules fine_rules fine_lit | (simp add: NUL_def; fail))+)

lemma safe_printBitfieldInvMaskImmOperand:
  "hi + 1 < ARM_OPERANDS \<Longrightarrow> safe (m, lo, hi) 25 (printBitfieldInvMaskImmOperand MI i) (m, lo + 2, hi + 2)"
  unfolding printBitfieldInvMaskImmOperand_def Let_def
  by (rule safe_le, (rule safe_rules fine_rules fine_lit | (simp add: NUL_def; fail))+)

text \<open>Printers that look at the mode of the handle.\<close>

lemma safe_reading: "(\<And>x. safe a n (f x) b) \<Longrightarrow> safe a n (\<lambda>p. f (g p) p) b"
  by (simp add: safe_def)

lemma safe_barriers [safe_rules]: "safe a 11 (printMemBOption MI i) a" "safe a 11 (printInstSyncBOption MI i) a"
proof -
  have "safe a 11 (run [put0 (ARM_MB_MemBOptToString w b), set_arm (\<lambda>d. d\<lparr>mem_barrier := w\<rparr>)]) a" for b w
    by (rule safe_le, (rule safe_rules fine_rules | (simp; fail))+)
  then have "safe a 11 (\<lambda>p. run [put0 (ARM_MB_MemBOptToString (imm_at MI i + 1) (HasV8 (ps_handle p))),
      set_arm (\<lambda>d. d\<lparr>mem_barrier := imm_at MI i + 1\<rparr>)] p) a"
    by (rule safe_reading [where g = "\<lambda>p. HasV8 (ps_handle p)"])
  then show "safe a 11 (printMemBOption MI i) a"
    by (simp add: safe_def printMemBOption_def Let_def)
  show "safe a 11 (printInstSyncBOption MI i) a"
    unfolding printInstSyncBOption_def by (rule safe_put0 [OF fine_isb])
qed

lemma safe_printCPSIFlag [safe_rules]: "safe a 7 (printCPSIFlag MI i) a"
  unfolding printCPSIFlag_def Let_def list.map
  by (rule safe_le, (rule safe_rules fine_rules fine_lit | (simp add: NUL_def; fail))+)

lemma safe_conditions [safe_rules]:
  "safe a 5 (printPredicateOperand MI i) a" "safe a 2 (printMandatoryPredicateOperand MI i) a" "safe a 2 (printCPSIMod MI i) a"
  unfolding printPredicateOperand_def printMandatoryPredicateOperand_def printCPSIMod_def Let_def
  by (rule safe_le, (rule safe_rules fine_rules fine_lit | (simp add: NUL_def; fail))+)+

lemma safe_letters:
  "(\<And>x. fine 1 (f x)) \<Longrightarrow> safe a (length xs) (run (map (\<lambda>x. put0 (f x)) xs)) a"
proof (induction xs)
  case (Cons x xs)
  then show ?case using safe_run_Cons [OF safe_put0 [of 1 "f x" a]] by fastforce
qed (simp add: safe_run_Nil)

lemma safe_printThumbITMask [safe_rules]: "safe a 3 (printThumbITMask MI i) a"
  unfolding printThumbITMask_def Let_def
  by (rule safe_le [OF safe_letters]) (auto simp: fine_def NUL_def)

lemma safe_print_psr:
  assumes "hi < ARM_OPERANDS" "fine 4 name"
  shows "safe (m, lo, hi) 20 (print_psr name c v) (m, lo, hi + 1)"
proof -
  have u: "fine 1 ''_''" by (simp add: fine_def NUL_def)
  show ?thesis
  proof (cases "v = 0")
    case True
    have "safe (m, lo, hi) 0 (cond False fs) (m, lo, hi)" for fs by (simp add: safe_def cond_def)
    then have "safe (m, lo, hi) 20 (run [put0 name, cond False fs]) (m, lo, hi)" for fs
      by (rule safe_le [OF safe_run_Cons [OF safe_put0 [OF assms(2)] safe_run_Cons [OF _ safe_run_Nil]]]) simp_all
    then show ?thesis using True by (auto simp: print_psr_def intro: safe_wider [of _ _ _ _ lo hi])
  next
    case False
    have "safe (m, lo, hi) 20 (run [put0 name, run [put0 ''_'', put0 (mask_letters v), ARM_addSysReg (mask_value c v)]]) (m, lo + 1, hi + 1)"
      by (rule safe_le, (rule safe_rules assms fine_rules u | (simp; fail))+)
    moreover have "cond (v \<noteq> 0) fs = run fs" for fs using False by (simp add: cond_def fun_eq_iff)
    ultimately show ?thesis using safe_wider by (simp add: print_psr_def)
  qed
qed

lemma safe_printMSRMaskOperand:
  assumes "hi < ARM_OPERANDS"
  shows "safe (m, lo, hi) 20 (printMSRMaskOperand MI i) (m, lo, hi + 1)"
proof -
  have n: "fine 4 ''spsr''" "fine 4 ''cpsr''" by (simp_all add: fine_def NUL_def)
  have one: "safe (m, lo, hi) 20 (run [put0 (fst (SYSm_entry v)), ARM_addSysReg r]) (m, lo, hi + 1)" for v r
    using assms by - (rule safe_wider [of _ _ _ _ "lo + 1" "hi + 1"], rule safe_le, (rule safe_rules fine_rules | (simp; fail))+)
  have two: "safe (m, lo, hi) 20 (run [put0 ''apsr_'', put0 u, ARM_addSysReg r]) (m, lo, hi + 1)" if "fine 6 u" for u r
    using that assms by - (rule safe_wider [of _ _ _ _ "lo + 1" "hi + 1"], rule safe_le, (rule safe_rules that fine_lit | (simp add: NUL_def; fail))+)
  let ?v = "imm_at MI i"
  let ?F = "\<lambda>mclass. if mclass then
      (let SYSm = (if MCInst_getOpcode MI = ARM_t2MRS_M then ?v AND 0xff else ?v)
       in run [put0 (fst (SYSm_entry SYSm)), ARM_addSysReg (snd (SYSm_entry SYSm))])
    else if drop_bit 4 ?v = 0 \<and> (?v AND 0xf = 8 \<or> ?v AND 0xf = 4 \<or> ?v AND 0xf = 12) then
      run [put0 ''apsr_'', put0 (if ?v AND 0xf = 8 then ''nzcvq'' else if ?v AND 0xf = 12 then ''nzcvqg'' else ''g''),
           ARM_addSysReg (if ?v AND 0xf = 8 then 258 else if ?v AND 0xf = 12 then 259 else 257)]
    else if drop_bit 4 ?v \<noteq> 0 then print_psr ''spsr'' 1 (?v AND 0xf) else print_psr ''cpsr'' 16 (?v AND 0xf)"
  have "safe (m, lo, hi) 20 (?F b) (m, lo, hi + 1)" for b
    using one two safe_print_psr [OF assms n(1)] safe_print_psr [OF assms n(2)] by (simp add: Let_def fine_def NUL_def)
  then have "safe (m, lo, hi) 20 (\<lambda>p. ?F (ARM_getFeatureBits (cs_mode (core (ps_handle p))) AND ARM_FeatureMClass \<noteq> 0) p) (m, lo, hi + 1)"
    by (rule safe_reading)
  moreover have "printMSRMaskOperand MI i p = ?F (ARM_getFeatureBits (cs_mode (core (ps_handle p))) AND ARM_FeatureMClass \<noteq> 0) p" for p
    by (simp add: printMSRMaskOperand_def Let_def)
  ultimately show ?thesis by (simp add: safe_def)
qed

end
