(* ===== verification/ARM_Printer_Check.thy ===== *)
theory ARM_Printer_Check
  imports ARM_Printer_Safe
begin

text \<open>The checker for statements of the writer, its soundness, and the result for the whole table of \<^verbatim>\<open>printInstruction\<close> and the canonical
  forms of \<^verbatim>\<open>ARM_printInst\<close>.\<close>

unbundle bit_operations_syntax

subsection \<open>What a statement reads\<close>

definition fits_vector :: "vector_printer \<Rightarrow> MCInst \<Rightarrow> nat \<Rightarrow> bool" where
  "fits_vector f MI i =
     (if f = call_printVectorListTwo \<or> f = call_printVectorListTwoAllLanes then reg_in 50 65 MI i \<or> reg_in 260 274 MI i
      else if f = call_printVectorListTwoSpaced \<or> f = call_printVectorListTwoSpacedAllLanes then reg_in 111 140 MI i
      else reg_in 1 282 MI i)"

definition fits_memory :: "memory_printer \<Rightarrow> MCInst \<Rightarrow> nat \<Rightarrow> bool" where
  "fits_memory f MI i =
     (case f of
        call_printAddrModeTBB \<Rightarrow> is_reg MI i \<and> is_reg MI (i + 1)
      | call_printAddrModeTBH \<Rightarrow> is_reg MI i \<and> is_reg MI (i + 1)
      | call_printAddrMode2Operand \<Rightarrow> is_imm MI i \<or> is_reg MI i \<and> is_reg0 MI (i + 1) \<and> is_imm MI (i + 2)
      | call_printAddrMode3Operand b \<Rightarrow> is_imm MI i \<or> is_reg MI i \<and> is_reg0 MI (i + 1) \<and> is_imm MI (i + 2)
      | call_printAddrMode6Operand \<Rightarrow> is_reg MI i \<and> is_imm MI (i + 1)
      | call_printAddrMode7Operand \<Rightarrow> is_reg MI i
      | call_printThumbAddrModeRROperand \<Rightarrow> is_imm MI i \<or> is_reg MI i \<and> is_reg0 MI (i + 1)
      | call_printT2AddrModeImm8Operand b \<Rightarrow> is_reg MI i \<and> is_imm MI (i + 1)
      | call_printT2AddrModeImm0_1020s4Operand \<Rightarrow> is_reg MI i \<and> is_imm MI (i + 1)
      | call_printT2AddrModeSoRegOperand \<Rightarrow> is_reg MI i \<and> is_reg MI (i + 1) \<and> is_imm MI (i + 2)
      | _ \<Rightarrow> is_imm MI i \<or> is_reg MI i \<and> is_imm MI (i + 1))"

definition fits_register :: "register_printer \<Rightarrow> MCInst \<Rightarrow> nat \<Rightarrow> bool" where
  "fits_register f MI i =
     (case f of
        call_printOperand \<Rightarrow> is_reg MI i \<or> is_imm MI i
      | call_printSORegRegOperand \<Rightarrow> is_reg MI i \<and> is_reg MI (i + 1) \<and> is_imm MI (i + 2)
      | call_printSORegImmOperand \<Rightarrow> is_reg MI i \<and> is_imm MI (i + 1)
      | call_printT2SOOperand \<Rightarrow> is_reg MI i \<and> is_imm MI (i + 1)
      | call_printAddrMode2OffsetOperand \<Rightarrow> is_reg0 MI i \<and> is_imm MI (i + 1)
      | call_printAddrMode3OffsetOperand \<Rightarrow> is_reg0 MI i \<and> is_imm MI (i + 1)
      | call_printPostIdxRegOperand \<Rightarrow> is_reg MI i \<and> is_imm MI (i + 1)
      | call_printAddrMode6OffsetOperand \<Rightarrow> is_reg0 MI i
      | call_printSBitModifierOperand \<Rightarrow> is_reg0 MI i
      | call_printRegisterList \<Rightarrow> register_list MI i
      | call_printGPRPairOperand \<Rightarrow> reg_in 169 175 MI i
      | _ \<Rightarrow> is_imm MI i)"

fun fits :: "MCInst \<Rightarrow> cmd \<Rightarrow> bool" where
  "fits MI (Vectors f i) = fits_vector f MI i"
| "fits MI (Memory f i) = fits_memory f MI i"
| "fits MI (Registers f i) = fits_register f MI i"
| "fits MI (Number f i) = (is_imm MI i \<and> (f = call_printThumbITMask \<longrightarrow> 0 < i \<and> is_imm MI (i - 1)))"
| "fits MI (NameReg i) = is_reg MI i"
| "fits MI (ShiftText i) = is_imm MI i"
| "fits MI (ShiftLast i) = is_imm MI i"
| "fits MI _ = True"

subsection \<open>What a statement does\<close>

text \<open>With a memory operand open or not, the shape of a statement says whether one is open after it, how many operands it adds at least and
  at most, how many there must be before, and for how many there must be room.\<close>

type_synonym shape = "bool \<times> nat \<times> nat \<times> nat \<times> nat"

fun fit :: "shape option \<Rightarrow> nat \<Rightarrow> nat \<Rightarrow> progress option" where
  "fit None lo hi = None"
| "fit (Some (m, al, ah, nl, nh)) lo hi = (if nl \<le> lo \<and> hi + nh \<le> ARM_OPERANDS then Some (m, lo + al, hi + ah) else None)"

definition grow :: "nat \<Rightarrow> nat \<Rightarrow> bool \<Rightarrow> shape option" where
  "grow k l m = Some (m, k, l, 0, l)"

definition grow_shifted :: "bool \<Rightarrow> shape option" where
  "grow_shifted m = Some (m, 1, 1, 0, 2)"

definition touch :: "bool \<Rightarrow> shape option" where
  "touch m = (if m then Some (m, 0, 0, 0, 1) else Some (m, 1, 1, 0, 1))"

definition after_operand :: "bool \<Rightarrow> shape option" where
  "after_operand m = Some (m, 0, 0, 1, 0)"

definition vector_count :: "vector_printer \<Rightarrow> nat" where
  "vector_count f =
     (case f of
        call_printVectorListOne \<Rightarrow> 1 | call_printVectorListOneAllLanes \<Rightarrow> 1
      | call_printVectorListTwo \<Rightarrow> 2 | call_printVectorListTwoAllLanes \<Rightarrow> 2
      | call_printVectorListTwoSpaced \<Rightarrow> 2 | call_printVectorListTwoSpacedAllLanes \<Rightarrow> 2
      | call_printVectorListThree \<Rightarrow> 3 | call_printVectorListThreeAllLanes \<Rightarrow> 3
      | call_printVectorListThreeSpaced \<Rightarrow> 3 | call_printVectorListThreeSpacedAllLanes \<Rightarrow> 3
      | _ \<Rightarrow> 4)"

definition memory_effect :: "memory_printer \<Rightarrow> bool \<Rightarrow> shape option" where
  "memory_effect f m = (if m then None else Some (m, 1, 1, if f = call_printT2AddrModeSoRegOperand then 1 else 0, 1))"

definition register_effect :: "register_printer \<Rightarrow> bool \<Rightarrow> shape option" where
  "register_effect f =
     (case f of
        call_printOperand \<Rightarrow> touch
      | call_printSORegImmOperand \<Rightarrow> grow_shifted
      | call_printT2SOOperand \<Rightarrow> grow_shifted
      | call_printAddrMode2OffsetOperand \<Rightarrow> grow_shifted
      | call_printAddrMode6OffsetOperand \<Rightarrow> grow 0 1
      | call_printShiftImmOperand \<Rightarrow> after_operand
      | call_printPKHLSLShiftImm \<Rightarrow> after_operand
      | call_printPKHASRShiftImm \<Rightarrow> after_operand
      | call_printRotImmOperand \<Rightarrow> after_operand
      | call_printVectorIndex \<Rightarrow> after_operand
      | call_printSBitModifierOperand \<Rightarrow> grow 0 0
      | call_printRegisterList \<Rightarrow> grow 0 32
      | call_printGPRPairOperand \<Rightarrow> grow 2 2
      | _ \<Rightarrow> grow 1 1)"

definition number_effect :: "number_printer \<Rightarrow> bool \<Rightarrow> shape option" where
  "number_effect f =
     (case f of
        call_printNoHashImmediate \<Rightarrow> touch
      | call_printBitfieldInvMaskImmOperand \<Rightarrow> grow 2 2
      | call_printMemBOption \<Rightarrow> grow 0 0
      | call_printInstSyncBOption \<Rightarrow> grow 0 0
      | call_printCPSIMod \<Rightarrow> grow 0 0
      | call_printCPSIFlag \<Rightarrow> grow 0 0
      | call_printMSRMaskOperand \<Rightarrow> grow 0 1
      | call_printPredicateOperand \<Rightarrow> grow 0 0
      | call_printMandatoryPredicateOperand \<Rightarrow> grow 0 0
      | call_printThumbITMask \<Rightarrow> grow 0 0
      | _ \<Rightarrow> grow 1 1)"

fun effect :: "cmd \<Rightarrow> bool \<Rightarrow> shape option" where
  "effect (Vectors f i) m = grow (vector_count f) (vector_count f) m"
| "effect (Memory f i) m = memory_effect f m"
| "effect (Registers f i) m = register_effect f m"
| "effect (Number f i) m = number_effect f m"
| "effect (SetMem b) m = (if m = b then None else if b then Some (True, 0, 0, 0, 1) else Some (False, 1, 1, 0, 1))"
| "effect (AddReg r) m = grow 1 1 m"
| "effect (AddImm v) m = grow 1 1 m"
| "effect (NameReg i) m = grow 1 1 m"
| "effect (ShiftLast i) m = after_operand m"
| "effect _ m = grow 0 0 m"

definition register_width :: "register_printer \<Rightarrow> nat" where
  "register_width f = (if f = call_printOperand then 15 else if f = call_printSBitModifierOperand then 1
     else if f = call_printRegisterList then 162 else 40)"

definition number_width :: "number_printer \<Rightarrow> nat" where
  "number_width f =
     (case f of
        call_printPredicateOperand \<Rightarrow> 5
      | call_printMandatoryPredicateOperand \<Rightarrow> 2
      | call_printCPSIMod \<Rightarrow> 2
      | call_printCPSIFlag \<Rightarrow> 7
      | call_printThumbITMask \<Rightarrow> 3
      | call_printMemBOption \<Rightarrow> 11
      | call_printInstSyncBOption \<Rightarrow> 11
      | call_printPImmediate \<Rightarrow> 11
      | call_printCImmediate \<Rightarrow> 11
      | call_printSetendOperand \<Rightarrow> 2
      | _ \<Rightarrow> 25)"

fun width :: "cmd \<Rightarrow> nat" where
  "width (Text s) = length s"
| "width (Vectors f i) = 80"
| "width (Memory f i) = 60"
| "width (Registers f i) = register_width f"
| "width (Number f i) = number_width f"
| "width (NameReg i) = 15"
| "width (ShiftText i) = 3"
| "width (ShiftLast i) = 13"
| "width _ = 0"

subsection \<open>Soundness\<close>

lemma vector_sound:
  assumes "fits_vector f MI i" "fit (grow (vector_count f) (vector_count f) m) lo hi = Some b"
  shows "safe (m, lo, hi) 80 (exec_vector_printer f MI i) b"
proof -
  have t: "fine 4 '', ''" "fine 3 ''}''" "fine 4 ''[], ''" "fine 3 ''[]}''" by (simp_all add: fine_def NUL_def)
  note defs = printVectorListOne_def printVectorListTwo_def printVectorListThree_def printVectorListFour_def printVectorListTwoSpaced_def
    printVectorListOneAllLanes_def printVectorListTwoAllLanes_def printVectorListThreeAllLanes_def printVectorListFourAllLanes_def
    printVectorListTwoSpacedAllLanes_def printVectorListThreeSpaced_def printVectorListFourSpaced_def
    printVectorListThreeSpacedAllLanes_def printVectorListFourSpacedAllLanes_def
  show ?thesis
    using assms
    by (cases f)
      (auto simp: fits_vector_def vector_count_def grow_def defs t safe_vector_list [simplified] safe_vector_pair [simplified] reg_in_halves
        split: if_splits)
qed

lemma memory_sound:
  assumes "fits_memory f MI i" "fit (memory_effect f m) lo hi = Some b"
  shows "safe (m, lo, hi) 60 (exec_memory_printer f MI i) b"
proof -
  have b: "\<not> m" "hi < ARM_OPERANDS" "b = (False, lo + 1, hi + 1)" "f = call_printT2AddrModeSoRegOperand \<Longrightarrow> 0 < lo"
    using assms(2) by (auto simp: memory_effect_def split: if_splits)
  note rules = safe_table_branch safe_printAddrMode2Operand safe_printAddrMode3Operand safe_printAddrMode5Operand safe_printAddrMode6Operand
    safe_printAddrMode7Operand safe_printThumbAddrModeRROperand safe_printThumbAddrModeImm5SOperand safe_printAddrModeImm12Operand
    safe_print_imm8 safe_printT2AddrModeImm8s4Operand safe_printT2AddrModeImm0_1020s4Operand safe_printT2AddrModeSoRegOperand
  show ?thesis
    using assms(1) b(2,4) unfolding b(3)
    by (cases f; insert b(1); simp add: fits_memory_def)
      (auto simp: printThumbAddrModeImm5S1Operand_def printThumbAddrModeImm5S2Operand_def printThumbAddrModeImm5S4Operand_def
        printThumbAddrModeSPOperand_def printT2AddrModeImm8Operand_def rules [simplified])
qed

lemmas safe_printOperand_split =
  safe_printOperand [where m = True, unfolded add_or_set_def, simplified] safe_printOperand [where m = False, unfolded add_or_set_def, simplified]

lemmas safe_printNoHashImmediate_split =
  safe_printNoHashImmediate [where m = True, unfolded add_or_set_def, simplified] safe_printNoHashImmediate [where m = False, unfolded add_or_set_def, simplified]

lemma register_sound:
  assumes "fits_register f MI i" "fit (register_effect f m) lo hi = Some b"
  shows "safe (m, lo, hi) (register_width f) (exec_register_printer f MI i) b"
proof -
  note effects = register_effect_def fits_register_def register_width_def grow_def grow_shifted_def touch_def after_operand_def
  note rules = safe_printOperand_split safe_printSORegRegOperand safe_printSORegImmOperand safe_printT2SOOperand safe_printAddrMode2OffsetOperand
    safe_printAddrMode3OffsetOperand safe_post_index safe_printAddrMode6OffsetOperand safe_shifts safe_printSBitModifierOperand
    safe_imm8_offset safe_printRegisterList safe_printGPRPairOperand safe_le [OF safe_printThumbLdrLabelOperand]
  show ?thesis
    using assms by (cases f) (auto simp: effects rules [simplified] split: if_splits)
qed

lemma number_sound:
  assumes "fit (number_effect f m) lo hi = Some b"
  shows "safe (m, lo, hi) (number_width f) (exec_number_printer f MI i) b"
proof -
  note effects = number_effect_def number_width_def grow_def touch_def
  note rules = safe_simple_numbers safe_printFPImmOperand safe_printNoHashImmediate_split [THEN safe_le] safe_printBitfieldInvMaskImmOperand safe_barriers
    safe_printCPSIFlag safe_conditions safe_printThumbITMask safe_le [OF safe_printMSRMaskOperand]
  show ?thesis
    using assms by (cases f) (auto simp: effects rules [simplified] split: if_splits)
qed

lemma safe_set_pub: "safe a 0 (set_pub n) a"
  by (rule safeI, cases a) (auto simp: set_pub_def)

lemma safe_print_shift_amount: "0 < lo \<Longrightarrow> hi \<le> ARM_OPERANDS \<Longrightarrow> safe (m, lo, hi) 13 (print_shift_amount v) (m, lo, hi)"
  unfolding print_shift_amount_def Let_def
  by (rule safe_le, (rule safe_rules fine_rules fine_lit | (simp add: NUL_def; fail))+)

text \<open>The text of a statement must not hold a NUL.\<close>

fun nul_free :: "cmd \<Rightarrow> bool" where
  "nul_free (Text s) = (NUL \<notin> set s)"
| "nul_free _ = True"

lemma exec_sound:
  assumes "fits MI c" "fit (effect c m) lo hi = Some b" "nul_free c"
  shows "safe (m, lo, hi) (width c) (exec MI c) b"
proof -
  have g: "hi < ARM_OPERANDS \<and> b = (m, lo + 1, hi + 1)" if "fit (grow 1 1 m) lo hi = Some b"
    using that by (auto simp: grow_def split: if_splits)
  have n: "b = (m, lo, hi)" if "fit (grow 0 0 m) lo hi = Some b"
    using that by (auto simp: grow_def split: if_splits)
  show ?thesis
  proof (cases c)
    case (Text s)
    then show ?thesis using assms n safe_put0 [OF fine_lit] by simp
  next
    case (SetMem x)
    then show ?thesis using assms(2) safe_mem_access [simplified] by (cases x) (auto split: if_splits)
  next
    case (AddReg r)
    then show ?thesis using assms(2) g safe_adds(1) by (simp add: ARM_addReg_def)
  next
    case (AddImm r)
    then show ?thesis using assms(2) g safe_adds(2) by (simp add: op_addImm_def)
  next
    case (NameReg r)
    then show ?thesis using assms(1,2) g safe_name_and_add by simp
  next
    case (ShiftLast r)
    then show ?thesis using assms(1,2) safe_print_shift_amount by (auto simp: after_operand_def split: if_splits)
  qed (use assms n in \<open>simp_all add: vector_sound memory_sound register_sound number_sound safe_set_pub safe_set_writeback safe_put0 [OF fine_shift]
      safe_set_arm ARM_addVectorDataType_def ARM_addVectorDataSize_def ARM_addUserMode_def\<close>)
qed

subsection \<open>Sequences of statements\<close>

fun join :: "shape \<Rightarrow> shape option \<Rightarrow> shape option" where
  "join a None = None"
| "join (m1, al1, ah1, nl1, nh1) (Some (m2, al2, ah2, nl2, nh2)) = Some (m2, al1 + al2, ah1 + ah2, max nl1 (nl2 - al1), max nh1 (ah1 + nh2))"

fun flow :: "cmd list \<Rightarrow> bool \<Rightarrow> shape option" where
  "flow [] m = Some (m, 0, 0, 0, 0)"
| "flow (c # cs) m = (case effect c m of None \<Rightarrow> None | Some a \<Rightarrow> join a (flow cs (fst a)))"

definition total_width :: "cmd list \<Rightarrow> nat" where
  "total_width cs = sum_list (map width cs)"

lemma fit_join:
  assumes "fit (join a f) lo hi = Some b"
  obtains lo' hi' where "fit (Some a) lo hi = Some (fst a, lo', hi')" "fit f lo' hi' = Some b"
proof -
  obtain m al ah nl nh where a: "a = (m, al, ah, nl, nh)" by (cases a) auto
  obtain m' al' ah' nl' nh' where f: "f = Some (m', al', ah', nl', nh')" using assms by (cases f) auto
  show thesis using assms that [of "lo + al" "hi + ah"] by (auto simp: a f max_def split: if_splits)
qed

lemma fit_flow_Cons:
  assumes "fit (flow (c # cs) m) lo hi = Some b"
  obtains m' lo' hi' where "fit (effect c m) lo hi = Some (m', lo', hi')" "fit (flow cs m') lo' hi' = Some b"
proof -
  obtain a where a: "effect c m = Some a" using assms by (cases "effect c m") auto
  then have "fit (join a (flow cs (fst a))) lo hi = Some b" using assms by simp
  then show thesis using fit_join that a by metis
qed

lemma join_join: "join a (case x of None \<Rightarrow> None | Some b \<Rightarrow> join b y) = (case join a x of None \<Rightarrow> None | Some c \<Rightarrow> join c y)"
  by (cases a; cases x; cases y) auto

lemma flow_append: "flow (xs @ ys) m = (case flow xs m of None \<Rightarrow> None | Some a \<Rightarrow> join a (flow ys (fst a)))"
proof (induction xs arbitrary: m)
  case Nil
  show ?case by (cases "flow ys m") auto
next
  case (Cons c xs)
  show ?case
  proof (cases "effect c m")
    case (Some a)
    show ?thesis
    proof (cases "flow xs (fst a)")
      case None
      then show ?thesis using Cons [of "fst a"] Some by simp
    next
      case flow: (Some d)
      obtain e where e: "join a (Some d) = Some e" "fst e = fst d" by (cases a; cases d) auto
      show ?thesis using Cons [of "fst a"] Some flow e join_join [where a = a and x = "Some d" and y = "flow ys (fst d)"] by simp
    qed
  qed simp
qed

lemma total_width_simps [simp]: "total_width [] = 0" "total_width (c # cs) = width c + total_width cs"
  "total_width (xs @ ys) = total_width xs + total_width ys"
  by (simp_all add: total_width_def)

lemma flow_sound:
  "list_all (fits MI) cs \<Longrightarrow> list_all nul_free cs \<Longrightarrow> fit (flow cs m) lo hi = Some b \<Longrightarrow> safe (m, lo, hi) (total_width cs) (exec_all MI cs) b"
proof (induction cs arbitrary: m lo hi)
  case Nil
  then show ?case by (auto simp: exec_all_def safe_run_Nil split: if_splits)
next
  case (Cons c cs)
  from fit_flow_Cons [OF Cons.prems(3)] obtain m' lo' hi' where x: "fit (effect c m) lo hi = Some (m', lo', hi')" "fit (flow cs m') lo' hi' = Some b" .
  have "safe (m, lo, hi) (width c + total_width cs) (run (exec MI c # map (exec MI) cs)) b"
    using Cons.prems Cons.IH [OF _ _ x(2)] by (intro safe_run_Cons [OF exec_sound [OF _ x(1)]]) (simp_all add: exec_all_def)
  then show ?case by (simp add: exec_all_def)
qed

text \<open>The first word of the text ends with the first blank of a constant text, or with the text.\<close>

definition blank :: "char \<Rightarrow> bool" where
  "blank ch \<longleftrightarrow> ch = CHR '' '' \<or> ch = TAB"

fun blank_in :: "cmd \<Rightarrow> nat option" where
  "blank_in (Text s) = (if list_ex blank s then Some (length (takeWhile (\<lambda>ch. \<not> blank ch) s)) else None)"
| "blank_in _ = None"

fun word_end :: "cmd list \<Rightarrow> nat option" where
  "word_end [] = None"
| "word_end (c # cs) = (case blank_in c of Some k \<Rightarrow> Some k | None \<Rightarrow> map_option ((+) (width c)) (word_end cs))"

definition first_word :: "cmd list \<Rightarrow> nat" where
  "first_word cs = (case word_end cs of Some k \<Rightarrow> k | None \<Rightarrow> total_width cs)"

lemma word_end_append:
  "word_end (xs @ ys) = (case word_end xs of Some k \<Rightarrow> Some k | None \<Rightarrow> map_option ((+) (total_width xs)) (word_end ys))"
proof (induction xs)
  case Nil
  show ?case by (cases "word_end ys") simp_all
qed (auto split: option.split simp: option.map_comp comp_def add.assoc)

lemma takeWhile_first: "list_ex (\<lambda>x. \<not> P x) ys \<Longrightarrow> length (takeWhile P (xs @ ys @ zs)) \<le> length xs + length (takeWhile P ys)"
proof -
  assume "list_ex (\<lambda>x. \<not> P x) ys"
  then obtain y where "y \<in> set ys" "\<not> P y" by (auto simp: list_ex_iff)
  then have "takeWhile P (ys @ zs) = takeWhile P ys" by (rule takeWhile_append1)
  moreover have "length (takeWhile P (xs @ us)) \<le> length xs + length (takeWhile P us)" for us
    by (induction xs) auto
  ultimately show ?thesis by metis
qed

lemma exec_all_Cons:
  assumes "list_all (fits MI) (c # cs)" "list_all nul_free (c # cs)" "fit (flow (c # cs) m) lo hi = Some b" "live h insn (m, lo, hi) p"
    "length (ptext p) + total_width (c # cs) \<le> 500" "exec_all MI (c # cs) p = Some p'"
  obtains p1 m' lo' hi' s t where "exec MI c p = Some p1" "fit (flow cs m') lo' hi' = Some b" "live h insn (m', lo', hi') p1"
    "ptext p1 = ptext p @ s" "length s \<le> width c" "exec_all MI cs p1 = Some p'" "ptext p' = ptext p1 @ t"
proof -
  from fit_flow_Cons [OF assms(3)] obtain m' lo' hi' where x: "fit (effect c m) lo hi = Some (m', lo', hi')" "fit (flow cs m') lo' hi' = Some b" .
  have f: "fits MI c" "nul_free c" "list_all (fits MI) cs" "list_all nul_free cs" using assms(1,2) by simp_all
  have w: "length (ptext p) + width c \<le> 500" using assms(5) by simp
  from safeD [OF exec_sound [OF f(1) x(1) f(2)] assms(4) w] obtain p1 s
    where 1: "exec MI c p = Some p1" "live h insn (m', lo', hi') p1" "ptext p1 = ptext p @ s" "length s \<le> width c" .
  have e: "exec_all MI cs p1 = Some p'" using assms(6) 1(1) by (simp add: exec_all_def run.simps)
  have "length (ptext p1) + total_width cs \<le> 500" using 1 assms(5) by simp
  from safeD [OF flow_sound [OF f(3,4) x(2)] 1(2) this] e obtain t where "ptext p' = ptext p1 @ t" by auto
  then show thesis using that 1 x e by blast
qed

lemma put0_text:
  assumes "live h insn a p" "length (ptext p) + length s \<le> 500" "NUL \<notin> set s" "put0 s p = Some p'"
  shows "ptext p' = ptext p @ s"
proof -
  have o: "stream_ok (ps_stream p)" using assms(1) by (cases a) simp
  then have "sindex (ps_stream p) = length (ptext p)" by (simp add: stream_text_index stream_ok_def)
  then have "sindex (ps_stream p) + length s < SSTREAM_SIZE" using assms(2) by (simp add: SSTREAM_SIZE_def)
  from SStream_concat0_text [OF o this assms(3)] show ?thesis using assms(4) by (auto simp: put0_def)
qed

lemma first_word_sound:
  assumes "list_all (fits MI) cs" "list_all nul_free cs" "fit (flow cs m) lo hi = Some b" "live h insn (m, lo, hi) p"
    "length (ptext p) + total_width cs \<le> 500" "exec_all MI cs p = Some p'"
  shows "length (takeWhile (\<lambda>ch. \<not> blank ch) (ptext p')) \<le> length (ptext p) + first_word cs"
  using assms
proof (induction cs arbitrary: m lo hi p)
  case Nil
  then have "p' = p" by (simp add: exec_all_def run.simps)
  then show ?case using length_takeWhile_le [of "\<lambda>ch. \<not> blank ch" "ptext p"] by simp
next
  case (Cons c cs)
  from exec_all_Cons [OF Cons.prems] obtain p1 m' lo' hi' s t where e: "exec MI c p = Some p1" "fit (flow cs m') lo' hi' = Some b"
    "live h insn (m', lo', hi') p1" "ptext p1 = ptext p @ s" "length s \<le> width c" "exec_all MI cs p1 = Some p'" "ptext p' = ptext p1 @ t" .
  show ?case
  proof (cases "blank_in c")
    case (Some k)
    then obtain u where u: "c = Text u" "list_ex blank u" "k = length (takeWhile (\<lambda>ch. \<not> blank ch) u)"
      by (cases c) (auto split: if_splits)
    have "length (ptext p) + length u \<le> 500" using Cons.prems(5) u by simp
    then have "ptext p1 = ptext p @ u" using put0_text [OF Cons.prems(4)] Cons.prems(2) e(1) u(1) by simp
    then show ?thesis
      using takeWhile_first [of "\<lambda>ch. \<not> blank ch" u "ptext p" t] u e(7) by (simp add: first_word_def)
  next
    case None
    have "length (ptext p1) + total_width cs \<le> 500" using Cons.prems(5) e(4,5) by simp
    from Cons.IH [OF _ _ e(2,3) this e(6)] have "length (takeWhile (\<lambda>ch. \<not> blank ch) (ptext p')) \<le> length (ptext p1) + first_word cs"
      using Cons.prems(1,2) by simp
    then show ?thesis using None e(4,5) by (auto simp: first_word_def split: option.splits)
  qed
qed

end
