(* ===== verification/ARM_Printer_Table.thy ===== *)
theory ARM_Printer_Table
  imports ARM_Printer_Check
begin

text \<open>The checker on the whole table of \<^verbatim>\<open>printInstruction\<close>.  The statements of every case of a fragment are summed up once, and the entries of
  the table are checked with the summaries.\<close>

unbundle bit_operations_syntax

subsection \<open>Summaries\<close>

text \<open>The shape without and with an open memory operand, the width, and the end of the first word if it lies here.\<close>

type_synonym summary = "shape option \<times> shape option \<times> nat \<times> nat option"

definition summarize :: "cmd list \<Rightarrow> summary" where
  "summarize cs = (flow cs False, flow cs True, total_width cs, word_end cs)"

definition summary_of :: "cmd list \<times> bool \<Rightarrow> summary \<times> bool" where
  "summary_of = (\<lambda>(cs, r). (summarize cs, r))"

fun sequel :: "shape option \<Rightarrow> summary \<Rightarrow> shape option" where
  "sequel None s = None"
| "sequel (Some a) (f, t, w, e) = join a (if fst a then t else f)"

fun combine :: "summary \<Rightarrow> summary \<Rightarrow> summary" where
  "combine (f, t, w, e) s = (sequel f s, sequel t s, w + fst (snd (snd s)), case e of Some k \<Rightarrow> Some k | None \<Rightarrow> map_option ((+) w) (snd (snd (snd s))))"

lemma summarize_append: "summarize (xs @ ys) = combine (summarize xs) (summarize ys)"
proof -
  have "flow (xs @ ys) m = sequel (flow xs m) (summarize ys)" for m
    by (cases "flow xs m") (auto simp: flow_append summarize_def split: option.split)
  then show ?thesis by (simp add: summarize_def word_end_append split: option.split)
qed

text \<open>The case of a fragment that a value chooses.\<close>

definition look :: "(cmd list \<times> bool) list \<Rightarrow> nat \<Rightarrow> summary \<times> bool" where
  "look cases v = summary_of (cases ! (if v < length cases then v else 0))"

definition fragment_ok :: "(cmd list \<times> bool) list \<Rightarrow> bool" where
  "fragment_ok cases \<longleftrightarrow> cases \<noteq> [] \<and> list_all (\<lambda>(cs, r). list_all nul_free cs) cases"

lemmas summary_simps = summary_of_def summarize_def grow_def grow_shifted_def touch_def after_operand_def vector_count_def memory_effect_def
  register_effect_def number_effect_def register_width_def number_width_def blank_def TAB_def NUL_def

lemma look_0:
  "look fragment_0 0 = ((Some (False, 0, 0, 0, 0), Some (True, 0, 0, 0, 0), 0, None), True)"
  "look fragment_0 (Suc 0) = ((Some (False, 0, 0, 0, 0), Some (True, 0, 0, 0, 0), 6, None), False)"
  "look fragment_0 2 = ((Some (False, 0, 0, 0, 0), Some (True, 0, 0, 0, 0), 6, None), False)"
  "look fragment_0 3 = ((Some (False, 3, 3, 0, 3), Some (True, 1, 1, 0, 1), 81, Some 6), True)"
  "look fragment_0 4 = ((Some (False, 0, 0, 0, 0), Some (True, 0, 0, 0, 0), 5, None), False)"
  "look fragment_0 5 = ((Some (False, 1, 1, 0, 1), Some (True, 0, 0, 0, 1), 15, None), False)"
  "look fragment_0 6 = ((Some (False, 0, 0, 0, 0), Some (True, 0, 0, 0, 0), 5, None), False)"
  "look fragment_0 7 = ((Some (False, 0, 0, 0, 0), Some (True, 0, 0, 0, 0), 5, None), False)"
  "look fragment_0 8 = ((Some (False, 0, 0, 0, 0), Some (True, 0, 0, 0, 0), 5, None), False)"
  "look fragment_0 9 = ((Some (False, 0, 0, 0, 0), Some (True, 0, 0, 0, 0), 5, None), False)"
  "look fragment_0 10 = ((Some (False, 0, 0, 0, 0), Some (True, 0, 0, 0, 0), 5, None), False)"
  "look fragment_0 11 = ((Some (False, 1, 1, 0, 1), Some (True, 1, 1, 0, 1), 13, Some 12), False)"
  "look fragment_0 12 = ((Some (False, 0, 0, 0, 0), Some (True, 0, 0, 0, 0), 2, None), False)"
  "look fragment_0 13 = ((Some (False, 0, 0, 0, 0), Some (True, 0, 0, 0, 0), 11, None), True)"
  "look fragment_0 14 = ((Some (False, 0, 0, 0, 0), Some (True, 0, 0, 0, 0), 11, None), True)"
  "look fragment_0 15 = ((Some (False, 0, 0, 0, 0), Some (True, 0, 0, 0, 0), 3, None), False)"
  "look fragment_0 16 = ((Some (False, 0, 0, 0, 0), Some (True, 0, 0, 0, 0), 5, None), False)"
  "look fragment_0 17 = ((Some (False, 0, 0, 0, 0), Some (True, 0, 0, 0, 0), 6, None), False)"
  "look fragment_0 18 = ((Some (False, 6, 6, 0, 6), Some (True, 3, 3, 0, 4), 88, Some 12), True)"
  "look fragment_0 19 = ((Some (False, 1, 1, 0, 1), None, 60, None), True)"
  "look fragment_0 20 = ((Some (False, 1, 1, 0, 1), None, 60, None), True)"
  "look fragment_0 21 = ((Some (False, 1, 1, 0, 1), Some (True, 1, 1, 0, 1), 2, None), True)"
  "look fragment_0 22 = ((Some (False, 4, 4, 0, 4), Some (True, 0, 0, 0, 1), 73, Some 6), True)"
  "look fragment_0 23 = ((Some (False, 0, 0, 0, 0), Some (True, 0, 0, 0, 0), 5, None), False)"
  "look fragment_0 24 = ((Some (False, 0, 0, 0, 0), Some (True, 0, 0, 0, 0), 5, None), False)"
  "look fragment_0 25 = ((Some (False, 0, 0, 0, 0), Some (True, 0, 0, 0, 0), 5, None), False)"
  "look fragment_0 26 = ((Some (False, 0, 0, 0, 0), Some (True, 0, 0, 0, 0), 5, None), False)"
  "look fragment_0 27 = ((Some (False, 0, 0, 0, 0), Some (True, 0, 0, 0, 0), 5, None), False)"
  "look fragment_0 28 = ((Some (False, 0, 0, 0, 0), Some (True, 0, 0, 0, 0), 1, None), False)"
  by (simp_all add: look_def fragment_0_def summary_simps)

lemma fragment_0_ok: "fragment_ok fragment_0"
  by (simp add: fragment_ok_def fragment_0_def NUL_def TAB_def)

lemma look_1:
  "look fragment_1 0 = ((Some (False, 0, 0, 0, 0), Some (True, 0, 0, 0, 0), 1, Some 0), False)"
  "look fragment_1 (Suc 0) = ((Some (False, 0, 0, 0, 0), Some (True, 0, 0, 0, 0), 2, Some 1), False)"
  "look fragment_1 2 = ((Some (False, 0, 0, 0, 0), Some (True, 0, 0, 0, 0), 1, Some 0), False)"
  "look fragment_1 3 = ((Some (False, 0, 0, 0, 0), Some (True, 0, 0, 0, 0), 0, None), True)"
  "look fragment_1 4 = ((Some (False, 1, 1, 0, 1), Some (True, 1, 1, 0, 1), 3, Some 0), True)"
  "look fragment_1 5 = ((Some (False, 1, 1, 0, 1), Some (True, 0, 0, 0, 1), 17, Some 16), False)"
  "look fragment_1 6 = ((Some (False, 1, 1, 0, 1), Some (True, 0, 0, 0, 1), 20, Some 4), False)"
  "look fragment_1 7 = ((Some (False, 1, 1, 0, 1), Some (True, 0, 0, 0, 1), 20, Some 4), False)"
  "look fragment_1 8 = ((Some (False, 2, 2, 0, 2), Some (True, 2, 2, 0, 2), 17, Some 0), True)"
  "look fragment_1 9 = ((Some (False, 1, 1, 0, 1), Some (True, 1, 1, 0, 1), 13, Some 12), False)"
  "look fragment_1 10 = ((Some (False, 2, 2, 0, 2), Some (True, 2, 2, 0, 2), 7, Some 0), True)"
  "look fragment_1 11 = ((Some (False, 0, 0, 0, 0), Some (True, 0, 0, 0, 0), 1, None), True)"
  "look fragment_1 12 = ((Some (False, 1, 1, 0, 1), Some (True, 0, 0, 0, 1), 22, Some 4), False)"
  "look fragment_1 13 = ((Some (False, 1, 1, 0, 1), Some (True, 0, 0, 0, 1), 22, Some 4), False)"
  "look fragment_1 14 = ((Some (False, 1, 1, 0, 1), Some (True, 0, 0, 0, 1), 21, Some 3), False)"
  "look fragment_1 15 = ((Some (False, 1, 1, 0, 1), Some (True, 0, 0, 0, 1), 22, Some 4), False)"
  "look fragment_1 16 = ((Some (False, 1, 1, 0, 1), Some (True, 0, 0, 0, 1), 22, Some 4), False)"
  "look fragment_1 17 = ((Some (False, 1, 1, 0, 1), Some (True, 0, 0, 0, 1), 21, Some 3), False)"
  "look fragment_1 18 = ((Some (False, 1, 1, 0, 1), Some (True, 0, 0, 0, 1), 22, Some 4), False)"
  "look fragment_1 19 = ((Some (False, 1, 1, 0, 1), Some (True, 0, 0, 0, 1), 22, Some 4), False)"
  "look fragment_1 20 = ((Some (False, 1, 1, 0, 1), Some (True, 0, 0, 0, 1), 22, Some 4), False)"
  "look fragment_1 21 = ((Some (False, 1, 1, 0, 1), Some (True, 0, 0, 0, 1), 21, Some 3), False)"
  "look fragment_1 22 = ((Some (False, 0, 0, 0, 0), Some (True, 0, 0, 0, 0), 3, Some 2), False)"
  "look fragment_1 23 = ((Some (False, 2, 2, 0, 2), Some (True, 0, 0, 0, 1), 41, Some 8), True)"
  "look fragment_1 24 = ((Some (False, 2, 2, 0, 2), Some (True, 0, 0, 0, 1), 41, Some 8), True)"
  "look fragment_1 25 = ((Some (False, 2, 2, 0, 2), Some (True, 0, 0, 0, 1), 41, Some 8), True)"
  "look fragment_1 26 = ((Some (False, 2, 2, 0, 2), Some (True, 0, 0, 0, 1), 41, Some 8), True)"
  "look fragment_1 27 = ((Some (False, 2, 2, 0, 2), Some (True, 0, 0, 0, 1), 41, Some 8), True)"
  "look fragment_1 28 = ((Some (False, 2, 2, 0, 2), Some (True, 0, 0, 0, 1), 41, Some 8), True)"
  "look fragment_1 29 = ((Some (False, 2, 2, 0, 2), Some (True, 0, 0, 0, 1), 41, Some 8), False)"
  "look fragment_1 30 = ((Some (False, 2, 2, 0, 2), Some (True, 0, 0, 0, 1), 41, Some 8), False)"
  "look fragment_1 31 = ((Some (False, 2, 2, 0, 2), Some (True, 0, 0, 0, 1), 41, Some 8), False)"
  "look fragment_1 32 = ((Some (False, 2, 2, 0, 2), Some (True, 0, 0, 0, 1), 41, Some 8), False)"
  "look fragment_1 33 = ((Some (False, 0, 0, 0, 0), Some (True, 0, 0, 0, 0), 4, Some 3), False)"
  "look fragment_1 34 = ((Some (False, 0, 0, 0, 0), Some (True, 0, 0, 0, 0), 4, Some 3), False)"
  "look fragment_1 35 = ((Some (False, 0, 0, 0, 0), Some (True, 0, 0, 0, 0), 4, Some 3), False)"
  "look fragment_1 36 = ((Some (False, 0, 0, 0, 0), Some (True, 0, 0, 0, 0), 5, Some 3), False)"
  "look fragment_1 37 = ((Some (False, 0, 0, 0, 0), Some (True, 0, 0, 0, 0), 5, Some 3), False)"
  "look fragment_1 38 = ((Some (False, 0, 0, 0, 0), Some (True, 0, 0, 0, 0), 4, Some 2), False)"
  "look fragment_1 39 = ((Some (False, 2, 2, 0, 2), Some (True, 1, 1, 0, 2), 23, Some 0), True)"
  "look fragment_1 40 = ((Some (False, 2, 2, 0, 2), Some (True, 1, 1, 0, 2), 23, Some 0), True)"
  "look fragment_1 41 = ((Some (False, 2, 2, 0, 2), Some (True, 1, 1, 0, 2), 24, Some 0), True)"
  "look fragment_1 42 = ((Some (False, 2, 2, 0, 2), Some (True, 1, 1, 0, 2), 25, Some 0), True)"
  "look fragment_1 43 = ((Some (False, 2, 2, 0, 2), Some (True, 1, 1, 0, 2), 23, Some 0), True)"
  "look fragment_1 44 = ((Some (False, 3, 3, 0, 3), Some (True, 0, 0, 0, 1), 53, Some 3), True)"
  "look fragment_1 45 = ((Some (False, 1, 1, 0, 1), Some (True, 0, 0, 0, 1), 22, Some 4), False)"
  "look fragment_1 46 = ((Some (False, 1, 1, 0, 1), Some (True, 0, 0, 0, 1), 22, Some 4), False)"
  "look fragment_1 47 = ((Some (False, 3, 3, 0, 3), Some (True, 1, 1, 0, 1), 68, Some 8), True)"
  "look fragment_1 48 = ((Some (False, 3, 3, 0, 3), Some (True, 1, 1, 0, 1), 68, Some 8), True)"
  "look fragment_1 49 = ((Some (False, 2, 2, 0, 2), Some (True, 0, 0, 0, 1), 41, Some 8), False)"
  "look fragment_1 50 = ((Some (False, 3, 3, 0, 3), Some (True, 1, 1, 0, 1), 68, Some 8), True)"
  "look fragment_1 51 = ((Some (False, 3, 3, 0, 3), Some (True, 1, 1, 0, 1), 68, Some 8), True)"
  "look fragment_1 52 = ((Some (False, 2, 2, 0, 2), Some (True, 0, 0, 0, 1), 41, Some 8), False)"
  "look fragment_1 53 = ((Some (False, 3, 3, 0, 3), Some (True, 1, 1, 0, 1), 68, Some 8), True)"
  "look fragment_1 54 = ((Some (False, 3, 3, 0, 3), Some (True, 1, 1, 0, 1), 68, Some 8), True)"
  "look fragment_1 55 = ((Some (False, 2, 2, 0, 2), Some (True, 0, 0, 0, 1), 41, Some 8), False)"
  "look fragment_1 56 = ((Some (False, 3, 3, 0, 3), Some (True, 1, 1, 0, 1), 68, Some 8), True)"
  "look fragment_1 57 = ((Some (False, 3, 3, 0, 3), Some (True, 1, 1, 0, 1), 68, Some 8), True)"
  "look fragment_1 58 = ((Some (False, 2, 2, 0, 2), Some (True, 0, 0, 0, 1), 41, Some 8), False)"
  "look fragment_1 59 = ((Some (False, 0, 0, 0, 0), Some (True, 0, 0, 0, 0), 3, Some 2), False)"
  "look fragment_1 60 = ((Some (False, 2, 2, 0, 2), Some (True, 1, 1, 0, 2), 20, Some 0), True)"
  "look fragment_1 61 = ((Some (False, 2, 2, 0, 2), Some (True, 1, 1, 0, 2), 21, Some 0), True)"
  "look fragment_1 62 = ((Some (False, 3, 3, 0, 3), Some (True, 2, 2, 0, 3), 24, Some 0), True)"
  "look fragment_1 63 = ((Some (False, 1, 1, 0, 1), Some (True, 0, 0, 0, 1), 23, Some 5), False)"
  "look fragment_1 64 = ((Some (False, 2, 2, 0, 2), Some (True, 0, 0, 0, 1), 38, Some 5), False)"
  by (simp_all add: look_def fragment_1_def summary_simps)

lemma fragment_1_ok: "fragment_ok fragment_1"
  by (simp add: fragment_ok_def fragment_1_def NUL_def TAB_def)

lemma look_2:
  "look fragment_2 0 = ((Some (False, 1, 1, 0, 1), Some (True, 0, 0, 0, 1), 15, None), False)"
  "look fragment_2 (Suc 0) = ((Some (False, 1, 1, 0, 1), Some (True, 0, 0, 0, 1), 15, None), False)"
  "look fragment_2 2 = ((Some (False, 1, 1, 0, 1), Some (True, 0, 0, 0, 1), 15, None), False)"
  "look fragment_2 3 = ((Some (False, 1, 1, 0, 1), Some (True, 1, 1, 0, 1), 13, Some 12), False)"
  "look fragment_2 4 = ((Some (False, 4, 4, 0, 4), Some (True, 3, 3, 0, 4), 54, Some 12), True)"
  "look fragment_2 5 = ((Some (False, 0, 0, 0, 0), Some (True, 0, 0, 0, 0), 7, None), False)"
  "look fragment_2 6 = ((Some (False, 0, 0, 0, 0), Some (True, 0, 0, 0, 0), 2, Some 1), False)"
  "look fragment_2 7 = ((Some (False, 0, 0, 0, 0), Some (True, 0, 0, 0, 0), 2, None), True)"
  "look fragment_2 8 = ((Some (False, 3, 3, 0, 3), None, 102, Some 41), True)"
  "look fragment_2 9 = ((Some (False, 1, 1, 0, 1), None, 60, None), True)"
  "look fragment_2 10 = ((Some (False, 1, 1, 0, 1), None, 62, Some 61), False)"
  "look fragment_2 11 = ((Some (False, 1, 1, 0, 1), None, 61, None), True)"
  "look fragment_2 12 = ((Some (False, 6, 6, 0, 6), Some (True, 3, 3, 0, 4), 88, Some 12), True)"
  "look fragment_2 13 = ((Some (False, 1, 2, 0, 2), Some (True, 0, 1, 0, 2), 42, Some 26), True)"
  "look fragment_2 14 = ((Some (False, 1, 1, 0, 1), Some (True, 1, 1, 0, 1), 25, None), True)"
  "look fragment_2 15 = ((Some (False, 1, 1, 0, 1), Some (True, 1, 1, 0, 1), 4, Some 1), True)"
  "look fragment_2 16 = ((Some (False, 0, 0, 0, 0), Some (True, 0, 0, 0, 0), 0, None), True)"
  "look fragment_2 17 = ((Some (False, 1, 1, 0, 1), Some (True, 1, 1, 0, 1), 82, Some 81), False)"
  "look fragment_2 18 = ((Some (False, 2, 2, 0, 2), Some (True, 2, 2, 0, 2), 82, Some 81), False)"
  "look fragment_2 19 = ((Some (False, 1, 1, 0, 1), Some (True, 1, 1, 0, 1), 82, Some 81), False)"
  "look fragment_2 20 = ((Some (False, 4, 4, 0, 4), Some (True, 4, 4, 0, 4), 82, Some 81), False)"
  "look fragment_2 21 = ((Some (False, 3, 3, 0, 3), Some (True, 3, 3, 0, 3), 82, Some 81), False)"
  "look fragment_2 22 = ((Some (False, 2, 2, 0, 2), Some (True, 2, 2, 0, 2), 82, Some 81), False)"
  "look fragment_2 23 = ((Some (False, 2, 2, 0, 2), Some (True, 2, 2, 0, 2), 82, Some 81), False)"
  "look fragment_2 24 = ((Some (False, 2, 2, 0, 2), Some (True, 2, 2, 0, 2), 82, Some 81), False)"
  "look fragment_2 25 = ((Some (False, 4, 4, 0, 4), None, 142, Some 81), False)"
  "look fragment_2 26 = ((Some (False, 4, 4, 0, 4), None, 142, Some 81), False)"
  "look fragment_2 27 = ((Some (False, 4, 4, 0, 4), None, 142, Some 81), False)"
  "look fragment_2 28 = ((Some (False, 5, 5, 0, 5), None, 142, Some 81), False)"
  "look fragment_2 29 = ((Some (False, 5, 5, 0, 5), None, 142, Some 81), False)"
  "look fragment_2 30 = ((Some (False, 5, 5, 0, 5), None, 142, Some 81), False)"
  "look fragment_2 31 = ((Some (False, 1, 1, 0, 1), Some (True, 0, 0, 0, 1), 15, None), False)"
  "look fragment_2 32 = ((Some (False, 2, 2, 0, 2), None, 142, Some 81), True)"
  "look fragment_2 33 = ((Some (False, 5, 5, 0, 5), None, 142, Some 81), True)"
  "look fragment_2 34 = ((Some (False, 5, 5, 0, 5), None, 143, Some 81), True)"
  "look fragment_2 35 = ((Some (False, 6, 6, 0, 6), None, 159, Some 81), True)"
  "look fragment_2 36 = ((Some (False, 4, 4, 0, 4), None, 142, Some 81), True)"
  "look fragment_2 37 = ((Some (False, 4, 4, 0, 4), None, 143, Some 81), True)"
  "look fragment_2 38 = ((Some (False, 5, 5, 0, 5), None, 159, Some 81), True)"
  "look fragment_2 39 = ((Some (False, 2, 2, 0, 2), None, 143, Some 81), True)"
  "look fragment_2 40 = ((Some (False, 3, 3, 0, 3), None, 159, Some 81), True)"
  "look fragment_2 41 = ((Some (False, 3, 3, 0, 3), None, 142, Some 81), True)"
  "look fragment_2 42 = ((Some (False, 3, 3, 0, 3), None, 143, Some 81), True)"
  "look fragment_2 43 = ((Some (False, 4, 4, 0, 4), None, 159, Some 81), True)"
  "look fragment_2 44 = ((Some (False, 3, 3, 0, 3), None, 142, Some 81), True)"
  "look fragment_2 45 = ((Some (False, 3, 3, 0, 3), None, 143, Some 81), True)"
  "look fragment_2 46 = ((Some (False, 4, 4, 0, 4), None, 159, Some 81), True)"
  "look fragment_2 47 = ((Some (False, 0, 0, 0, 0), Some (True, 0, 0, 0, 0), 11, None), True)"
  "look fragment_2 48 = ((Some (False, 0, 0, 0, 0), Some (True, 0, 0, 0, 0), 11, None), True)"
  "look fragment_2 49 = ((Some (False, 1, 1, 0, 1), None, 60, None), True)"
  "look fragment_2 50 = ((Some (False, 1, 1, 0, 1), None, 60, None), True)"
  "look fragment_2 51 = ((Some (False, 1, 1, 1, 1), None, 60, None), True)"
  "look fragment_2 52 = ((Some (False, 1, 1, 0, 1), Some (True, 1, 1, 0, 1), 40, None), True)"
  "look fragment_2 53 = ((Some (False, 1, 1, 0, 1), None, 60, None), True)"
  "look fragment_2 54 = ((Some (False, 1, 1, 0, 1), None, 60, None), True)"
  "look fragment_2 55 = ((Some (False, 1, 1, 0, 1), Some (True, 0, 0, 0, 1), 15, None), True)"
  "look fragment_2 56 = ((Some (False, 0, 32, 0, 32), Some (True, 0, 32, 0, 32), 162, None), True)"
  by (simp_all add: look_def fragment_2_def summary_simps)

lemma fragment_2_ok: "fragment_ok fragment_2"
  by (simp add: fragment_ok_def fragment_2_def NUL_def TAB_def)

lemma look_3:
  "look fragment_3 0 = ((Some (False, 0, 0, 0, 0), Some (True, 0, 0, 0, 0), 2, Some 1), False)"
  "look fragment_3 (Suc 0) = ((Some (False, 0, 0, 0, 0), Some (True, 0, 0, 0, 0), 0, None), True)"
  "look fragment_3 2 = ((Some (False, 1, 1, 0, 1), Some (True, 0, 0, 0, 1), 15, None), False)"
  "look fragment_3 3 = ((Some (False, 1, 1, 0, 1), Some (True, 1, 1, 0, 1), 25, None), True)"
  "look fragment_3 4 = ((Some (False, 0, 32, 0, 32), Some (True, 0, 32, 0, 32), 165, Some 2), False)"
  "look fragment_3 5 = ((Some (False, 1, 1, 0, 1), Some (True, 1, 1, 0, 1), 25, None), True)"
  "look fragment_3 6 = ((Some (False, 1, 1, 0, 1), Some (True, 1, 1, 0, 1), 40, None), True)"
  "look fragment_3 7 = ((Some (False, 1, 1, 0, 1), Some (True, 1, 1, 0, 1), 13, Some 12), False)"
  "look fragment_3 8 = ((Some (False, 1, 1, 0, 1), Some (True, 1, 1, 0, 1), 6, Some 1), True)"
  "look fragment_3 9 = ((Some (False, 1, 1, 0, 1), Some (True, 1, 1, 0, 1), 6, Some 1), True)"
  "look fragment_3 10 = ((Some (False, 1, 1, 0, 1), Some (True, 1, 1, 0, 1), 4, Some 1), True)"
  "look fragment_3 11 = ((Some (False, 1, 1, 0, 1), Some (True, 0, 0, 0, 1), 15, None), False)"
  "look fragment_3 12 = ((Some (False, 0, 0, 1, 0), Some (True, 0, 0, 1, 0), 40, None), True)"
  "look fragment_3 13 = ((Some (False, 1, 1, 0, 1), None, 60, None), False)"
  "look fragment_3 14 = ((Some (False, 1, 1, 0, 1), None, 60, None), False)"
  "look fragment_3 15 = ((Some (True, 0, 0, 0, 1), None, 1, None), False)"
  "look fragment_3 16 = ((Some (False, 2, 2, 0, 2), Some (True, 0, 0, 0, 1), 38, Some 3), False)"
  "look fragment_3 17 = ((Some (False, 0, 0, 0, 0), Some (True, 0, 0, 0, 0), 1, None), True)"
  "look fragment_3 18 = ((Some (False, 1, 1, 0, 1), Some (True, 1, 1, 0, 1), 7, Some 1), True)"
  "look fragment_3 19 = ((Some (False, 1, 1, 0, 1), Some (True, 1, 1, 0, 1), 7, Some 1), True)"
  "look fragment_3 20 = ((Some (False, 1, 1, 0, 1), Some (True, 1, 1, 0, 1), 8, Some 1), True)"
  "look fragment_3 21 = ((Some (False, 1, 1, 0, 1), Some (True, 1, 1, 0, 1), 9, Some 1), True)"
  "look fragment_3 22 = ((Some (False, 1, 1, 0, 1), Some (True, 1, 1, 0, 1), 7, Some 1), True)"
  "look fragment_3 23 = ((Some (False, 1, 1, 0, 1), Some (True, 1, 1, 0, 1), 7, Some 1), True)"
  "look fragment_3 24 = ((Some (False, 1, 1, 0, 1), Some (True, 1, 1, 0, 1), 7, Some 1), True)"
  "look fragment_3 25 = ((Some (False, 1, 1, 0, 1), Some (True, 1, 1, 0, 1), 7, Some 1), True)"
  "look fragment_3 26 = ((Some (False, 1, 1, 1, 1), Some (True, 0, 0, 1, 1), 57, Some 41), True)"
  "look fragment_3 27 = ((Some (False, 1, 1, 0, 1), Some (True, 1, 1, 0, 1), 25, None), True)"
  by (simp_all add: look_def fragment_3_def summary_simps)

lemma fragment_3_ok: "fragment_ok fragment_3"
  by (simp add: fragment_ok_def fragment_3_def NUL_def TAB_def)

lemma look_4:
  "look fragment_4 0 = ((Some (False, 1, 1, 0, 1), Some (True, 0, 0, 0, 1), 15, None), False)"
  "look fragment_4 (Suc 0) = ((Some (False, 1, 1, 0, 1), Some (True, 1, 1, 0, 1), 25, None), True)"
  "look fragment_4 2 = ((Some (False, 2, 2, 0, 2), Some (True, 2, 2, 0, 2), 25, None), True)"
  "look fragment_4 3 = ((Some (False, 1, 1, 0, 1), Some (True, 0, 0, 0, 1), 15, None), False)"
  "look fragment_4 4 = ((Some (False, 0, 0, 0, 0), Some (True, 0, 0, 0, 0), 2, Some 1), False)"
  "look fragment_4 5 = ((Some (False, 1, 1, 0, 2), Some (True, 1, 1, 0, 2), 40, None), True)"
  "look fragment_4 6 = ((Some (False, 1, 1, 0, 1), Some (True, 1, 1, 0, 1), 40, None), True)"
  "look fragment_4 7 = ((Some (False, 0, 0, 0, 0), Some (True, 0, 0, 0, 0), 0, None), True)"
  "look fragment_4 8 = ((Some (False, 0, 32, 0, 32), Some (True, 0, 32, 0, 32), 162, None), False)"
  "look fragment_4 9 = ((Some (False, 1, 1, 0, 1), None, 60, None), True)"
  "look fragment_4 10 = ((Some (False, 1, 1, 0, 1), None, 60, None), True)"
  "look fragment_4 11 = ((Some (False, 1, 1, 0, 1), None, 60, None), False)"
  "look fragment_4 12 = ((Some (False, 1, 1, 0, 1), None, 61, None), True)"
  "look fragment_4 13 = ((Some (False, 1, 1, 0, 1), None, 61, None), True)"
  "look fragment_4 14 = ((Some (False, 1, 1, 0, 1), None, 61, None), True)"
  "look fragment_4 15 = ((Some (False, 1, 1, 0, 1), None, 60, None), True)"
  "look fragment_4 16 = ((Some (False, 1, 1, 0, 1), None, 60, None), True)"
  "look fragment_4 17 = ((Some (False, 1, 1, 0, 1), None, 60, None), True)"
  "look fragment_4 18 = ((Some (False, 1, 1, 0, 1), None, 61, None), True)"
  "look fragment_4 19 = ((Some (False, 3, 3, 0, 3), Some (True, 2, 2, 0, 3), 41, Some 12), True)"
  "look fragment_4 20 = ((Some (False, 1, 1, 0, 1), Some (True, 0, 0, 0, 1), 15, None), False)"
  "look fragment_4 21 = ((Some (False, 2, 2, 0, 2), Some (True, 1, 1, 0, 2), 42, Some 26), False)"
  "look fragment_4 22 = ((Some (False, 3, 3, 0, 3), None, 102, Some 41), True)"
  "look fragment_4 23 = ((Some (False, 1, 1, 0, 1), Some (True, 1, 1, 0, 1), 4, Some 1), True)"
  "look fragment_4 24 = ((Some (False, 0, 0, 0, 0), Some (True, 0, 0, 0, 0), 1, None), True)"
  "look fragment_4 25 = ((Some (False, 1, 1, 0, 1), Some (True, 0, 0, 0, 1), 25, None), False)"
  "look fragment_4 26 = ((Some (False, 1, 1, 0, 1), Some (True, 0, 0, 0, 1), 25, None), False)"
  "look fragment_4 27 = ((Some (False, 1, 1, 0, 1), None, 60, None), False)"
  "look fragment_4 28 = ((None, Some (False, 1, 1, 0, 1), 28, Some 27), False)"
  "look fragment_4 29 = ((Some (False, 0, 0, 0, 0), Some (True, 0, 0, 0, 0), 5, Some 4), False)"
  "look fragment_4 30 = ((None, Some (True, 4, 4, 0, 5), 113, Some 27), False)"
  "look fragment_4 31 = ((Some (False, 1, 1, 0, 1), Some (True, 0, 0, 0, 1), 24, Some 3), False)"
  "look fragment_4 32 = ((None, Some (False, 8, 9, 0, 9), 261, Some 27), True)"
  "look fragment_4 33 = ((Some (False, 1, 1, 0, 1), None, 60, None), True)"
  "look fragment_4 34 = ((None, Some (False, 2, 2, 0, 2), 89, Some 28), True)"
  "look fragment_4 35 = ((Some (False, 1, 1, 0, 1), Some (True, 0, 0, 0, 1), 25, None), False)"
  "look fragment_4 36 = ((None, Some (False, 6, 7, 0, 7), 217, Some 27), True)"
  "look fragment_4 37 = ((Some (False, 2, 2, 0, 2), Some (True, 0, 0, 0, 1), 32, Some 16), False)"
  "look fragment_4 38 = ((Some (False, 2, 2, 0, 2), Some (True, 1, 1, 0, 2), 97, Some 81), True)"
  "look fragment_4 39 = ((Some (False, 3, 3, 0, 3), Some (True, 2, 2, 0, 3), 97, Some 81), True)"
  "look fragment_4 40 = ((Some (False, 4, 4, 0, 4), Some (True, 3, 3, 0, 4), 97, Some 81), True)"
  "look fragment_4 41 = ((Some (False, 5, 5, 0, 5), Some (True, 4, 4, 0, 5), 97, Some 81), True)"
  "look fragment_4 42 = ((Some (False, 2, 2, 0, 2), Some (True, 1, 1, 0, 2), 97, Some 81), True)"
  "look fragment_4 43 = ((Some (False, 3, 3, 0, 3), Some (True, 2, 2, 0, 3), 97, Some 81), True)"
  "look fragment_4 44 = ((Some (False, 4, 4, 0, 4), Some (True, 3, 3, 0, 4), 97, Some 81), True)"
  "look fragment_4 45 = ((Some (False, 5, 5, 0, 5), Some (True, 4, 4, 0, 5), 97, Some 81), True)"
  "look fragment_4 46 = ((Some (False, 0, 0, 0, 0), Some (True, 0, 0, 0, 0), 2, Some 0), True)"
  "look fragment_4 47 = ((Some (False, 1, 1, 0, 2), Some (True, 1, 1, 0, 2), 40, None), True)"
  "look fragment_4 48 = ((Some (False, 1, 1, 0, 1), None, 60, None), True)"
  "look fragment_4 49 = ((Some (False, 1, 1, 0, 1), None, 61, None), True)"
  "look fragment_4 50 = ((Some (False, 1, 1, 0, 1), Some (True, 1, 1, 0, 1), 40, None), True)"
  "look fragment_4 51 = ((Some (False, 1, 1, 1, 1), None, 60, None), True)"
  "look fragment_4 52 = ((Some (False, 1, 1, 0, 1), None, 60, None), True)"
  "look fragment_4 53 = ((Some (False, 0, 1, 0, 1), Some (True, 0, 1, 0, 1), 25, None), True)"
  "look fragment_4 54 = ((Some (False, 1, 1, 0, 1), Some (True, 1, 1, 0, 1), 25, None), True)"
  "look fragment_4 55 = ((Some (False, 1, 1, 0, 1), Some (True, 1, 1, 0, 1), 25, None), True)"
  "look fragment_4 56 = ((Some (False, 1, 1, 0, 1), Some (True, 1, 1, 0, 1), 25, None), True)"
  "look fragment_4 57 = ((Some (False, 1, 1, 0, 1), None, 60, None), True)"
  "look fragment_4 58 = ((Some (False, 1, 1, 0, 1), None, 60, None), True)"
  "look fragment_4 59 = ((Some (False, 1, 1, 0, 1), None, 60, None), True)"
  "look fragment_4 60 = ((Some (False, 1, 1, 0, 1), None, 60, None), True)"
  "look fragment_4 61 = ((Some (False, 1, 1, 0, 1), None, 60, None), True)"
  by (simp_all add: look_def fragment_4_def summary_simps)

lemma fragment_4_ok: "fragment_ok fragment_4"
  by (simp add: fragment_ok_def fragment_4_def NUL_def TAB_def)

lemma look_5:
  "look fragment_5 0 = ((Some (False, 0, 0, 0, 0), Some (True, 0, 0, 0, 0), 2, Some 1), False)"
  "look fragment_5 (Suc 0) = ((Some (False, 4, 4, 0, 4), Some (True, 3, 3, 0, 4), 54, Some 12), True)"
  "look fragment_5 2 = ((Some (False, 0, 0, 0, 0), Some (True, 0, 0, 0, 0), 0, None), True)"
  "look fragment_5 3 = ((Some (False, 1, 1, 0, 1), Some (True, 0, 0, 0, 1), 15, None), False)"
  "look fragment_5 4 = ((Some (False, 0, 0, 1, 0), Some (True, 0, 0, 1, 0), 40, None), True)"
  "look fragment_5 5 = ((Some (False, 0, 0, 1, 0), Some (True, 0, 0, 1, 0), 40, None), True)"
  "look fragment_5 6 = ((Some (False, 0, 0, 1, 0), Some (True, 0, 0, 1, 0), 40, None), True)"
  "look fragment_5 7 = ((Some (False, 1, 1, 0, 1), Some (True, 0, 0, 0, 1), 15, None), False)"
  "look fragment_5 8 = ((Some (False, 1, 1, 0, 1), Some (True, 0, 0, 0, 1), 15, None), True)"
  "look fragment_5 9 = ((None, Some (False, 1, 1, 0, 1), 4, Some 3), False)"
  "look fragment_5 10 = ((Some (False, 0, 0, 0, 0), Some (True, 0, 0, 0, 0), 1, None), True)"
  "look fragment_5 11 = ((None, Some (False, 1, 1, 0, 1), 3, Some 2), False)"
  "look fragment_5 12 = ((Some (True, 1, 1, 0, 2), None, 41, None), False)"
  "look fragment_5 13 = ((Some (False, 1, 1, 0, 1), None, 60, None), True)"
  "look fragment_5 14 = ((Some (False, 1, 1, 0, 1), None, 60, None), False)"
  "look fragment_5 15 = ((Some (False, 1, 2, 0, 2), None, 100, None), True)"
  "look fragment_5 16 = ((Some (False, 0, 0, 1, 0), Some (True, 0, 0, 1, 0), 40, None), True)"
  "look fragment_5 17 = ((Some (False, 0, 0, 1, 0), Some (True, 0, 0, 1, 0), 40, None), True)"
  "look fragment_5 18 = ((Some (False, 1, 2, 0, 2), None, 103, Some 2), True)"
  "look fragment_5 19 = ((Some (False, 7, 8, 0, 8), None, 233, Some 43), True)"
  "look fragment_5 20 = ((Some (False, 0, 0, 0, 0), Some (True, 0, 0, 0, 0), 2, Some 0), True)"
  "look fragment_5 21 = ((Some (False, 1, 1, 0, 1), Some (True, 1, 1, 0, 1), 40, None), True)"
  "look fragment_5 22 = ((Some (False, 1, 1, 0, 1), Some (True, 1, 1, 0, 1), 4, Some 1), True)"
  by (simp_all add: look_def fragment_5_def summary_simps)

lemma fragment_5_ok: "fragment_ok fragment_5"
  by (simp add: fragment_ok_def fragment_5_def NUL_def TAB_def)

lemma look_6:
  "look fragment_6 0 = ((Some (False, 1, 1, 0, 1), Some (True, 0, 0, 0, 1), 15, None), False)"
  "look fragment_6 (Suc 0) = ((Some (False, 1, 1, 0, 2), Some (True, 1, 1, 0, 2), 40, None), True)"
  "look fragment_6 2 = ((Some (False, 2, 2, 0, 2), Some (True, 2, 2, 0, 2), 25, None), True)"
  "look fragment_6 3 = ((Some (False, 1, 1, 0, 1), Some (True, 1, 1, 0, 1), 25, None), True)"
  "look fragment_6 4 = ((Some (False, 1, 1, 0, 1), Some (True, 1, 1, 0, 1), 40, None), True)"
  "look fragment_6 5 = ((Some (False, 1, 1, 0, 2), Some (True, 1, 1, 0, 2), 40, None), True)"
  "look fragment_6 6 = ((Some (False, 1, 1, 0, 1), None, 60, None), True)"
  "look fragment_6 7 = ((Some (False, 1, 1, 0, 1), None, 60, None), False)"
  "look fragment_6 8 = ((Some (False, 1, 1, 0, 1), None, 61, None), True)"
  "look fragment_6 9 = ((Some (False, 1, 1, 0, 1), Some (True, 1, 1, 0, 1), 40, None), True)"
  "look fragment_6 10 = ((Some (False, 1, 1, 0, 1), Some (True, 1, 1, 0, 1), 40, None), True)"
  "look fragment_6 11 = ((Some (False, 1, 1, 0, 1), Some (True, 1, 1, 0, 1), 40, None), True)"
  "look fragment_6 12 = ((Some (False, 0, 0, 0, 0), Some (True, 0, 0, 0, 0), 2, Some 1), False)"
  "look fragment_6 13 = ((Some (False, 1, 1, 0, 1), Some (True, 1, 1, 0, 1), 11, None), True)"
  "look fragment_6 14 = ((Some (False, 1, 1, 0, 1), None, 60, None), True)"
  "look fragment_6 15 = ((Some (False, 0, 0, 0, 0), Some (True, 0, 0, 0, 0), 0, None), True)"
  "look fragment_6 16 = ((Some (False, 1, 1, 0, 1), Some (True, 0, 0, 0, 1), 15, None), False)"
  "look fragment_6 17 = ((Some (False, 1, 1, 0, 1), None, 60, None), False)"
  "look fragment_6 18 = ((Some (False, 1, 2, 0, 2), None, 100, None), True)"
  "look fragment_6 19 = ((Some (False, 1, 1, 0, 1), Some (True, 0, 0, 0, 1), 15, None), False)"
  "look fragment_6 20 = ((Some (False, 3, 3, 0, 3), None, 105, Some 44), True)"
  "look fragment_6 21 = ((None, Some (False, 2, 3, 0, 3), 104, Some 3), True)"
  "look fragment_6 22 = ((Some (False, 0, 1, 0, 1), Some (True, 0, 1, 0, 1), 40, None), True)"
  "look fragment_6 23 = ((None, Some (False, 4, 4, 0, 4), 108, Some 2), True)"
  "look fragment_6 24 = ((Some (False, 1, 2, 0, 2), None, 100, None), True)"
  "look fragment_6 25 = ((Some (False, 0, 0, 1, 0), Some (True, 0, 0, 1, 0), 40, None), True)"
  "look fragment_6 26 = ((Some (False, 0, 0, 1, 0), Some (True, 0, 0, 1, 0), 40, None), True)"
  "look fragment_6 27 = ((Some (False, 3, 4, 0, 4), None, 145, Some 44), True)"
  "look fragment_6 28 = ((Some (False, 2, 3, 0, 3), None, 118, Some 17), True)"
  "look fragment_6 29 = ((Some (False, 1, 1, 0, 2), Some (True, 1, 1, 0, 2), 40, None), True)"
  "look fragment_6 30 = ((Some (False, 1, 1, 0, 1), Some (True, 1, 1, 0, 1), 25, None), True)"
  "look fragment_6 31 = ((Some (False, 1, 1, 0, 1), None, 61, None), True)"
  "look fragment_6 32 = ((Some (False, 1, 1, 0, 1), None, 60, None), True)"
  "look fragment_6 33 = ((Some (False, 1, 1, 0, 1), None, 60, None), True)"
  "look fragment_6 34 = ((Some (False, 1, 1, 0, 1), Some (True, 1, 1, 0, 1), 25, None), True)"
  by (simp_all add: look_def fragment_6_def summary_simps)

lemma fragment_6_ok: "fragment_ok fragment_6"
  by (simp add: fragment_ok_def fragment_6_def NUL_def TAB_def)

lemma look_7:
  "look fragment_7 0 = ((Some (False, 0, 0, 0, 0), Some (True, 0, 0, 0, 0), 0, None), True)"
  "look fragment_7 (Suc 0) = ((Some (False, 0, 0, 0, 0), Some (True, 0, 0, 0, 0), 2, Some 1), False)"
  "look fragment_7 2 = ((Some (False, 3, 3, 0, 3), Some (True, 2, 2, 0, 3), 41, Some 12), True)"
  "look fragment_7 3 = ((Some (False, 2, 2, 0, 2), Some (True, 1, 1, 0, 1), 28, Some 16), True)"
  "look fragment_7 4 = ((Some (False, 0, 0, 1, 0), Some (True, 0, 0, 1, 0), 40, None), True)"
  "look fragment_7 5 = ((Some (False, 0, 0, 1, 0), Some (True, 0, 0, 1, 0), 40, None), True)"
  "look fragment_7 6 = ((Some (False, 0, 0, 1, 0), Some (True, 0, 0, 1, 0), 40, None), True)"
  "look fragment_7 7 = ((Some (False, 0, 0, 1, 0), Some (True, 0, 0, 1, 0), 40, None), True)"
  "look fragment_7 8 = ((Some (False, 0, 0, 0, 0), Some (True, 0, 0, 0, 0), 3, Some 2), False)"
  "look fragment_7 9 = ((Some (True, 0, 0, 0, 1), None, 1, None), False)"
  "look fragment_7 10 = ((Some (False, 0, 1, 0, 1), Some (True, 0, 1, 0, 1), 40, None), True)"
  "look fragment_7 11 = ((Some (False, 1, 1, 0, 1), Some (True, 1, 1, 0, 1), 40, None), True)"
  by (simp_all add: look_def fragment_7_def summary_simps)

lemma fragment_7_ok: "fragment_ok fragment_7"
  by (simp add: fragment_ok_def fragment_7_def NUL_def TAB_def)

lemma look_8:
  "look fragment_8 0 = ((Some (False, 1, 1, 0, 1), Some (True, 1, 1, 0, 1), 40, None), True)"
  "look fragment_8 (Suc 0) = ((Some (False, 1, 1, 0, 1), Some (True, 0, 0, 0, 1), 15, None), False)"
  "look fragment_8 2 = ((Some (False, 1, 1, 0, 1), Some (True, 1, 1, 0, 1), 25, None), True)"
  "look fragment_8 3 = ((Some (False, 1, 1, 0, 1), None, 60, None), True)"
  "look fragment_8 4 = ((Some (False, 1, 2, 0, 2), None, 100, None), True)"
  "look fragment_8 5 = ((None, Some (False, 2, 2, 0, 2), 89, Some 28), True)"
  "look fragment_8 6 = ((None, Some (False, 2, 2, 0, 2), 89, Some 28), True)"
  "look fragment_8 7 = ((None, Some (False, 4, 4, 0, 4), 133, Some 27), True)"
  "look fragment_8 8 = ((Some (False, 1, 1, 0, 1), None, 60, None), True)"
  "look fragment_8 9 = ((None, Some (False, 6, 6, 0, 6), 177, Some 27), True)"
  "look fragment_8 10 = ((Some (False, 2, 2, 0, 2), None, 78, Some 17), True)"
  "look fragment_8 11 = ((Some (False, 1, 1, 0, 1), Some (True, 0, 0, 0, 1), 15, None), True)"
  "look fragment_8 12 = ((Some (False, 1, 1, 0, 1), None, 60, None), True)"
  by (simp_all add: look_def fragment_8_def summary_simps)

lemma fragment_8_ok: "fragment_ok fragment_8"
  by (simp add: fragment_ok_def fragment_8_def NUL_def TAB_def)

lemma look_9:
  "look fragment_9 0 = ((Some (False, 0, 0, 0, 0), Some (True, 0, 0, 0, 0), 0, None), True)"
  "look fragment_9 (Suc 0) = ((Some (False, 0, 0, 0, 0), Some (True, 0, 0, 0, 0), 3, Some 2), False)"
  by (simp_all add: look_def fragment_9_def summary_simps)

lemma fragment_9_ok: "fragment_ok fragment_9"
  by (simp add: fragment_ok_def fragment_9_def NUL_def TAB_def)

lemma look_10:
  "look fragment_10 0 = ((Some (False, 1, 1, 0, 1), None, 60, None), True)"
  "look fragment_10 (Suc 0) = ((Some (False, 1, 2, 0, 2), None, 100, None), True)"
  by (simp_all add: look_def fragment_10_def summary_simps)

lemma fragment_10_ok: "fragment_ok fragment_10"
  by (simp add: fragment_ok_def fragment_10_def NUL_def TAB_def)

subsection \<open>The entries\<close>

text \<open>The fields of an entry, one after the other from bit 12 on: their lengths and their cases.\<close>

definition fields :: "(nat \<times> (cmd list \<times> bool) list) list" where
  "fields =
     [(5, fragment_0),
      (7, fragment_1),
      (6, fragment_2),
      (5, fragment_3),
      (6, fragment_4),
      (5, fragment_5),
      (6, fragment_6),
      (4, fragment_7),
      (4, fragment_8),
      (1, fragment_9),
      (1, fragment_10)]"

fun pick :: "(nat \<times> (cmd list \<times> bool) list) list \<Rightarrow> nat \<Rightarrow> summary" where
  "pick [] n = (Some (False, 0, 0, 0, 0), Some (True, 0, 0, 0, 0), 0, None)"
| "pick ((k, cases) # fs) n =
     (case look cases (take_bit k n) of (a, r) \<Rightarrow> if r then a else combine a (pick fs (drop_bit k n)))"

fun from_bit :: "nat \<Rightarrow> (nat \<times> (cmd list \<times> bool) list) list \<Rightarrow> (nat \<times> u64 \<times> (cmd list \<times> bool) list) list" where
  "from_bit s [] = []"
| "from_bit s ((k, cases) # fs) = (s, of_nat (2 ^ k - 1), cases) # from_bit (s + k) fs"

lemma fragments_fields: "fragments = from_bit 12 fields"
  by (simp add: fragments_def fields_def)

lemma field_value:
  fixes B :: u64
  shows "unat (drop_bit s B AND of_nat (2 ^ k - 1)) = take_bit k (drop_bit s (unat B))"
proof -
  have "(of_nat (2 ^ k - 1) :: u64) = mask k" by (simp add: mask_eq_exp_minus_1 of_nat_diff)
  then have "drop_bit s B AND of_nat (2 ^ k - 1) = take_bit k (drop_bit s B)" by (simp add: take_bit_eq_mask)
  then have "unat (drop_bit s B AND of_nat (2 ^ k - 1)) = take_bit k (unat (drop_bit s B))" by (simp only: unsigned_take_bit_eq)
  moreover have "unat (drop_bit s B) = drop_bit s (unat B)"
    using unat_less [of B] by (simp only: unsigned_drop_bit_eq) (simp add: take_bit_nat_eq_self)
  ultimately show ?thesis by simp
qed

lemma pick_chosen:
  "list_all (\<lambda>(k, cases). fragment_ok cases) fs \<Longrightarrow> summarize (chosen (from_bit s fs) B) = pick fs (drop_bit s (unat B))"
proof (induction fs arbitrary: s)
  case Nil
  show ?case by (simp add: summarize_def)
next
  case (Cons f fs)
  obtain k cases where f: "f = (k, cases)" by (cases f) auto
  let ?v = "take_bit k (drop_bit s (unat B))"
  obtain cs r where c: "cases ! (if ?v < length cases then ?v else 0) = (cs, r)" by fastforce
  have v: "unat (drop_bit s B AND of_nat (2 ^ k - 1)) = ?v" by (rule field_value)
  have "look cases ?v = (summarize cs, r)" by (simp only: look_def c summary_of_def prod.case)
  moreover have "chosen (from_bit s (f # fs)) B = (if r then cs else cs @ chosen (from_bit (s + k) fs) B)"
    unfolding f from_bit.simps chosen.simps v Let_def c prod.case ..
  moreover have "list_all (\<lambda>(k, cases). fragment_ok cases) fs" using Cons.prems by simp
  ultimately show ?case using Cons.IH [of "s + k"] by (simp add: f summarize_append drop_bit_drop_bit add.commute)
qed

text \<open>The preloads whose printer writes before the operands, and those whose text has its only blank in the first word of the table.\<close>

definition shifted_preload :: "nat \<Rightarrow> bool" where
  "shifted_preload opc \<longleftrightarrow> opc = ARM_t2PLDWs \<or> opc = ARM_t2PLDs \<or> opc = ARM_t2PLIs"

definition plain_preload :: "nat \<Rightarrow> bool" where
  "plain_preload opc \<longleftrightarrow> ARM_PLDWi12 \<le> opc \<and> opc \<le> ARM_PLIrs"

fun good :: "nat \<Rightarrow> summary \<Rightarrow> bool" where
  "good opc (f, t, w, e) \<longleftrightarrow>
     (case f of
        None \<Rightarrow> False
      | Some (m, al, ah, nl, nh) \<Rightarrow> \<not> m \<and> (nl = 0 \<or> nl = 1 \<and> shifted_preload opc) \<and> nh < ARM_OPERANDS) \<and>
     w \<le> 480 \<and> (plain_preload opc \<or> (case e of Some k \<Rightarrow> k | None \<Rightarrow> w) < 18)"

definition checked :: "nat \<Rightarrow> nat \<Rightarrow> nat \<Rightarrow> bool" where
  "checked opc a b \<longleftrightarrow> take_bit 12 a = 0 \<or> good opc (pick fields (drop_bit 12 (b * 4294967296 + a)))"

fun checked_chunk :: "nat \<Rightarrow> u32 list \<Rightarrow> u32 list \<Rightarrow> bool" where
  "checked_chunk opc [] [] = True"
| "checked_chunk opc (a # as) (b # bs) = (checked opc (unat a) (unat b) \<and> checked_chunk (opc + 1) as bs)"
| "checked_chunk opc _ _ = False"

lemmas checked_simps = checked_def fields_def look_0 look_1 look_2 look_3 look_4 look_5 look_6 look_7 look_8 look_9 look_10 shifted_preload_def plain_preload_def ARM_OPERANDS_def

lemma chunk_0: "checked_chunk 0 OpInfo_0 OpInfo2_0"
  by (simp add: checked_simps OpInfo_0_def OpInfo2_0_def)

lemma chunk_1: "checked_chunk 100 OpInfo_1 OpInfo2_1"
  by (simp add: checked_simps OpInfo_1_def OpInfo2_1_def)

lemma chunk_2: "checked_chunk 200 OpInfo_2 OpInfo2_2"
  by (simp add: checked_simps OpInfo_2_def OpInfo2_2_def)

lemma chunk_3: "checked_chunk 300 OpInfo_3 OpInfo2_3"
  by (simp add: checked_simps OpInfo_3_def OpInfo2_3_def)

lemma chunk_4: "checked_chunk 400 OpInfo_4 OpInfo2_4"
  by (simp add: checked_simps OpInfo_4_def OpInfo2_4_def)

lemma chunk_5: "checked_chunk 500 OpInfo_5 OpInfo2_5"
  by (simp add: checked_simps OpInfo_5_def OpInfo2_5_def)

lemma chunk_6: "checked_chunk 600 OpInfo_6 OpInfo2_6"
  by (simp add: checked_simps OpInfo_6_def OpInfo2_6_def)

lemma chunk_7: "checked_chunk 700 OpInfo_7 OpInfo2_7"
  by (simp add: checked_simps OpInfo_7_def OpInfo2_7_def)

lemma chunk_8: "checked_chunk 800 OpInfo_8 OpInfo2_8"
  by (simp add: checked_simps OpInfo_8_def OpInfo2_8_def)

lemma chunk_9: "checked_chunk 900 OpInfo_9 OpInfo2_9"
  by (simp add: checked_simps OpInfo_9_def OpInfo2_9_def)

lemma chunk_10: "checked_chunk 1000 OpInfo_10 OpInfo2_10"
  by (simp add: checked_simps OpInfo_10_def OpInfo2_10_def)

lemma chunk_11: "checked_chunk 1100 OpInfo_11 OpInfo2_11"
  by (simp add: checked_simps OpInfo_11_def OpInfo2_11_def)

lemma chunk_12: "checked_chunk 1200 OpInfo_12 OpInfo2_12"
  by (simp add: checked_simps OpInfo_12_def OpInfo2_12_def)

lemma chunk_13: "checked_chunk 1300 OpInfo_13 OpInfo2_13"
  by (simp add: checked_simps OpInfo_13_def OpInfo2_13_def)

lemma chunk_14: "checked_chunk 1400 OpInfo_14 OpInfo2_14"
  by (simp add: checked_simps OpInfo_14_def OpInfo2_14_def)

lemma chunk_15: "checked_chunk 1500 OpInfo_15 OpInfo2_15"
  by (simp add: checked_simps OpInfo_15_def OpInfo2_15_def)

lemma chunk_16: "checked_chunk 1600 OpInfo_16 OpInfo2_16"
  by (simp add: checked_simps OpInfo_16_def OpInfo2_16_def)

lemma chunk_17: "checked_chunk 1700 OpInfo_17 OpInfo2_17"
  by (simp add: checked_simps OpInfo_17_def OpInfo2_17_def)

lemma chunk_18: "checked_chunk 1800 OpInfo_18 OpInfo2_18"
  by (simp add: checked_simps OpInfo_18_def OpInfo2_18_def)

lemma chunk_19: "checked_chunk 1900 OpInfo_19 OpInfo2_19"
  by (simp add: checked_simps OpInfo_19_def OpInfo2_19_def)

lemma chunk_20: "checked_chunk 2000 OpInfo_20 OpInfo2_20"
  by (simp add: checked_simps OpInfo_20_def OpInfo2_20_def)

lemma chunk_21: "checked_chunk 2100 OpInfo_21 OpInfo2_21"
  by (simp add: checked_simps OpInfo_21_def OpInfo2_21_def)

lemma chunk_22: "checked_chunk 2200 OpInfo_22 OpInfo2_22"
  by (simp add: checked_simps OpInfo_22_def OpInfo2_22_def)

lemma chunk_23: "checked_chunk 2300 OpInfo_23 OpInfo2_23"
  by (simp add: checked_simps OpInfo_23_def OpInfo2_23_def)

lemma chunk_24: "checked_chunk 2400 OpInfo_24 OpInfo2_24"
  by (simp add: checked_simps OpInfo_24_def OpInfo2_24_def)

lemma chunk_25: "checked_chunk 2500 OpInfo_25 OpInfo2_25"
  by (simp add: checked_simps OpInfo_25_def OpInfo2_25_def)

lemma chunk_26: "checked_chunk 2600 OpInfo_26 OpInfo2_26"
  by (simp add: checked_simps OpInfo_26_def OpInfo2_26_def)

lemma chunk_27: "checked_chunk 2700 OpInfo_27 OpInfo2_27"
  by (simp add: checked_simps OpInfo_27_def OpInfo2_27_def)

lemma checked_append:
  "checked_chunk k xs ys \<Longrightarrow> checked_chunk (k + length xs) xs' ys' \<Longrightarrow> checked_chunk k (xs @ xs') (ys @ ys')"
  by (induction k xs ys rule: checked_chunk.induct) simp_all

lemma checked_length: "checked_chunk k xs ys \<Longrightarrow> length xs = length ys"
  by (induction k xs ys rule: checked_chunk.induct) simp_all

lemma checked_nth: "checked_chunk k xs ys \<Longrightarrow> i < length xs \<Longrightarrow> checked (k + i) (unat (xs ! i)) (unat (ys ! i))"
proof (induction k xs ys arbitrary: i rule: checked_chunk.induct)
  case (2 opc a as b bs)
  then show ?case by (cases i) auto
qed simp_all

lemma chunk_lengths: "length OpInfo_0 = 100"
  "length OpInfo_1 = 100"
  "length OpInfo_2 = 100"
  "length OpInfo_3 = 100"
  "length OpInfo_4 = 100"
  "length OpInfo_5 = 100"
  "length OpInfo_6 = 100"
  "length OpInfo_7 = 100"
  "length OpInfo_8 = 100"
  "length OpInfo_9 = 100"
  "length OpInfo_10 = 100"
  "length OpInfo_11 = 100"
  "length OpInfo_12 = 100"
  "length OpInfo_13 = 100"
  "length OpInfo_14 = 100"
  "length OpInfo_15 = 100"
  "length OpInfo_16 = 100"
  "length OpInfo_17 = 100"
  "length OpInfo_18 = 100"
  "length OpInfo_19 = 100"
  "length OpInfo_20 = 100"
  "length OpInfo_21 = 100"
  "length OpInfo_22 = 100"
  "length OpInfo_23 = 100"
  "length OpInfo_24 = 100"
  "length OpInfo_25 = 100"
  "length OpInfo_26 = 100"
  "length OpInfo_27 = 90"
  by (simp_all add: OpInfo_0_def OpInfo_1_def OpInfo_2_def OpInfo_3_def OpInfo_4_def OpInfo_5_def OpInfo_6_def OpInfo_7_def
    OpInfo_8_def OpInfo_9_def OpInfo_10_def OpInfo_11_def OpInfo_12_def OpInfo_13_def OpInfo_14_def OpInfo_15_def
    OpInfo_16_def OpInfo_17_def OpInfo_18_def OpInfo_19_def OpInfo_20_def OpInfo_21_def OpInfo_22_def OpInfo_23_def
    OpInfo_24_def OpInfo_25_def OpInfo_26_def OpInfo_27_def)

lemma checked_table: "checked_chunk 0 OpInfo OpInfo2"
  unfolding OpInfo_def OpInfo2_def concat.simps append_Nil2
  by (intro checked_append chunk_0 chunk_1 chunk_2 chunk_3 chunk_4 chunk_5 chunk_6 chunk_7 chunk_8 chunk_9 chunk_10 chunk_11 chunk_12
    chunk_13 chunk_14 chunk_15 chunk_16 chunk_17 chunk_18 chunk_19 chunk_20 chunk_21 chunk_22 chunk_23 chunk_24
    chunk_25 chunk_26 chunk_27) (simp_all add: chunk_lengths chunk_0 chunk_1 chunk_2 chunk_3 chunk_4 chunk_5 chunk_6 chunk_7 chunk_8 chunk_9 chunk_10 chunk_11 chunk_12
    chunk_13 chunk_14 chunk_15 chunk_16 chunk_17 chunk_18 chunk_19 chunk_20 chunk_21 chunk_22 chunk_23 chunk_24
    chunk_25 chunk_26 chunk_27)

subsection \<open>The strings of the table\<close>

lemma AsmStrings_short: "list_all (\<lambda>s. length s \<le> 14) AsmStrings"
  by (simp add: AsmStrings_def AsmStrings_0_def AsmStrings_1_def AsmStrings_2_def AsmStrings_3_def AsmStrings_4_def)

text \<open>The string that an offset points into, from there on.\<close>

fun string_at :: "string list \<Rightarrow> nat \<Rightarrow> string" where
  "string_at [] off = []"
| "string_at (s # ss) off = (if off \<le> length s then drop off s else string_at ss (off - Suc (length s)))"

lemma asm_text_at: "asm_text off = takeWhile (\<lambda>c. c \<noteq> NUL) (string_at AsmStrings off)"
proof -
  have t: "takeWhile (\<lambda>c. c \<noteq> NUL) (xs @ NUL # us) = takeWhile (\<lambda>c. c \<noteq> NUL) xs" for xs us by (induction xs) simp_all
  have "takeWhile (\<lambda>c. c \<noteq> NUL) (drop off (concat (map (\<lambda>s. s @ [NUL]) ss))) = takeWhile (\<lambda>c. c \<noteq> NUL) (string_at ss off)" for ss
  proof (induction ss arbitrary: off)
    case (Cons s ss)
    then show ?case using t by (cases "off \<le> length s") (simp_all add: drop_Cons' not_le Suc_diff_le [symmetric])
  qed simp
  then show ?thesis by (simp add: asm_text_def AsmStrs_def)
qed

lemma asm_text_fine: "fine 14 (asm_text off)"
proof -
  have "length (string_at ss off) \<le> n" if "list_all (\<lambda>s. length s \<le> n) ss" for ss n
    using that by (induction ss off rule: string_at.induct) auto
  from this [OF AsmStrings_short] have "length (asm_text off) \<le> 14"
    using length_takeWhile_le le_trans unfolding asm_text_at by blast
  then show ?thesis by (auto simp: fine_def asm_text_at dest: set_takeWhileD)
qed

lemma preload_texts: "asm_text 875 = ''pldw'' @ [TAB]" "asm_text 771 = ''pld'' @ [TAB]" "asm_text 806 = ''pli'' @ [TAB]"
  by (simp_all add: asm_text_at AsmStrings_def AsmStrings_0_def TAB_def NUL_def)

text \<open>Looking one entry up without unfolding the whole table.\<close>

lemmas chunks_checked = chunk_0 chunk_1 chunk_2 chunk_3 chunk_4 chunk_5 chunk_6 chunk_7 chunk_8 chunk_9 chunk_10 chunk_11 chunk_12
  chunk_13 chunk_14 chunk_15 chunk_16 chunk_17 chunk_18 chunk_19 chunk_20 chunk_21 chunk_22 chunk_23 chunk_24 chunk_25 chunk_26 chunk_27

lemmas chunk_lengths2 = chunks_checked [THEN checked_length, symmetric, unfolded chunk_lengths]

lemma table_length: "length OpInfo = 2790" "length OpInfo2 = 2790"
  by (simp_all add: OpInfo_def OpInfo2_def chunk_lengths chunk_lengths2)

lemmas table_nth = OpInfo_def OpInfo2_def nth_append chunk_lengths chunk_lengths2

definition string_bytes :: "string list \<Rightarrow> nat" where
  "string_bytes ss = sum_list (map (\<lambda>s. Suc (length s)) ss)"

lemma string_at_append: "string_at (xs @ ys) off = (if off < string_bytes xs then string_at xs off else string_at ys (off - string_bytes xs))"
  by (induction xs off rule: string_at.induct) (auto simp: string_bytes_def)

lemma string_bytes:
  "string_bytes AsmStrings_0 = 1004" "string_bytes AsmStrings_1 = 635" "string_bytes AsmStrings_2 = 573" "string_bytes AsmStrings_3 = 574"
  "string_bytes AsmStrings_4 = 257"
  by (simp_all add: string_bytes_def AsmStrings_0_def AsmStrings_1_def AsmStrings_2_def AsmStrings_3_def AsmStrings_4_def)

lemmas asm_text_chunk = asm_text_at AsmStrings_def string_at_append string_bytes

end
