(* ===== verification/CS_Engine_Correct.thy ===== *)
theory CS_Engine_Correct
  imports CS_Engine
begin

text \<open>What the core of Capstone promises for every architecture module that keeps the contract \<open>disassembly\<close>: the loop of
  \<^verbatim>\<open>cs_disasm\<close> ends, never leaves the block of instructions while this grows, and fills it with instructions that cover the
  buffer without a gap; and it returns what single steps by \<^verbatim>\<open>cs_disasm_iter\<close> return.\<close>

unbundle bit_operations_syntax

subsection \<open>The contract of an architecture module\<close>

definition insn_ok :: "cs_insn \<Rightarrow> bool" where
  "insn_ok insn \<longleftrightarrow> length (bytes insn) = BYTES_SIZE \<and> length (mnemonic insn) = MNEMONIC_SIZE \<and> length (op_str insn) = OP_STR_SIZE"

definition slot_ok :: "handle \<Rightarrow> cs_insn \<Rightarrow> bool" where
  "slot_ok h insn \<longleftrightarrow> insn_ok insn \<and> (detail h \<noteq> 0 \<longrightarrow> idetail insn \<noteq> None)"

text \<open>The fields that only the functions of \<^verbatim>\<open>cs.c\<close> write.\<close>

definition same_setup :: "handle \<Rightarrow> handle \<Rightarrow> bool" where
  "same_setup h h' \<longleftrightarrow> detail h' = detail h \<and> skipdata h' = skipdata h \<and> skipdata_size h' = skipdata_size h
     \<and> skipdata_setup h' = skipdata_setup h \<and> arch h' = arch h \<and> errnum h' = errnum h"

text \<open>A text whose first word fits the array for it.\<close>

definition text_ok :: "string \<Rightarrow> bool" where
  "text_ok buffer \<longleftrightarrow> (case split_asm buffer of None \<Rightarrow> False | Some (mnem, sp) \<Rightarrow> length mnem < MNEMONIC_SIZE)"

text \<open>An instruction can be printed where the printer does not leave its arrays; \<open>fresh\<close> is what the disassembler leaves
  in the details for the printer.\<close>

locale disassembly =
  fixes E :: engine and inv :: "handle \<Rightarrow> bool" and printable :: "handle \<Rightarrow> MCInst \<Rightarrow> bool" and fresh :: "cs_insn \<Rightarrow> bool"
  assumes inv_errnum: "inv h \<Longrightarrow> inv (h\<lparr>errnum := e\<rparr>)"
    and inv_reset: "inv h \<Longrightarrow> inv (h\<lparr>core := (core h)\<lparr>ITBlock := (ITBlock (core h))\<lparr>IT_size := 0\<rparr>\<rparr>\<rparr>)"
    and disasm_law: "inv h \<Longrightarrow> slot_ok h insn \<Longrightarrow> Operands mci = [] \<Longrightarrow>
      \<exists>ok h' mci' insn' n. e_disasm E h code mci insn k = Some (ok, h', mci', insn', n) \<and> inv h' \<and> same_setup h h' \<and>
        slot_ok h insn' \<and> address insn' = address insn \<and> (idetail insn' = None \<longleftrightarrow> idetail insn = None) \<and>
        (ok \<longrightarrow> fresh insn' \<and> length (Operands mci') \<le> MCINST_OPERANDS \<and> 0 < n \<and> n \<le> BYTES_SIZE \<and> n \<le> length code)"
    and insn_id_law: "inv h \<Longrightarrow> slot_ok h insn \<Longrightarrow>
      \<exists>h' insn'. e_insn_id E h insn opc = Some (h', insn') \<and> inv h' \<and> same_setup h h' \<and> slot_ok h insn' \<and>
        address insn' = address insn \<and> isize insn' = isize insn \<and> (fresh insn \<longrightarrow> fresh insn')"
    and fresh_isize: "fresh insn \<Longrightarrow> fresh (insn\<lparr>isize := n\<rparr>)"
    and printable_setup: "same_setup h h' \<Longrightarrow> printable h mci \<Longrightarrow> printable h' mci"
    and printer_law: "inv h \<Longrightarrow> slot_ok h insn \<Longrightarrow> stream_ok ss \<Longrightarrow> sindex ss = 0 \<Longrightarrow> printable h mci \<Longrightarrow> fresh insn \<Longrightarrow>
      \<exists>h' mci' insn' ss'. e_printer E h mci insn ss = Some (h', mci', insn', ss') \<and> inv h' \<and> same_setup h h' \<and> slot_ok h insn' \<and>
        address insn' = address insn \<and> isize insn' = isize insn \<and> text_ok (sbuffer ss')"
    and post_law: "inv h \<Longrightarrow> slot_ok h insn \<Longrightarrow> text_ok buf \<Longrightarrow> e_post_printer E = Some post \<Longrightarrow>
      \<exists>insn' buf'. post h insn buf mci = Some (insn', buf') \<and> slot_ok h insn' \<and> address insn' = address insn \<and>
        isize insn' = isize insn \<and> bytes insn' = bytes insn \<and> text_ok buf'"

text \<open>What \<^verbatim>\<open>cs_disasm\<close> needs of the options for data and of the memory.\<close>

definition skip_ok :: "handle \<Rightarrow> bool" where
  "skip_ok h \<longleftrightarrow> (skipdata h \<longrightarrow> 0 < skipdata_size h \<and> unat (skipdata_size h) \<le> BYTES_SIZE \<and> sk_mnemonic (skipdata_setup h) \<noteq> None \<and>
     (case sk_callback (skipdata_setup h) of None \<Rightarrow> True | Some callback \<Rightarrow> \<forall>buf k. callback buf k \<le> BYTES_SIZE))"

definition memory_ok :: "memory \<Rightarrow> bool" where
  "memory_ok M \<longleftrightarrow> (\<forall>k. insn_ok (fresh_insn M k)) \<and> length (sbuffer (fresh_stream M)) = SSTREAM_SIZE"

text \<open>Whatever is decoded in a buffer, with details as asked for, can be printed.\<close>

definition all_printable :: "engine \<Rightarrow> (handle \<Rightarrow> bool) \<Rightarrow> (handle \<Rightarrow> MCInst \<Rightarrow> bool) \<Rightarrow> u32 \<Rightarrow> u8 list \<Rightarrow> bool" where
  "all_printable E I pr dt buf \<longleftrightarrow>
     (\<forall>h k mci insn n h' mci' insn' n'. I h \<and> detail h = dt \<and> Operands mci = [] \<and>
        e_disasm E h (drop k buf) mci insn n = Some (True, h', mci', insn', n') \<longrightarrow> pr h' mci')"

lemma all_printableD:
  "all_printable E I pr (detail h) buf \<Longrightarrow> I h \<Longrightarrow> Operands mci = [] \<Longrightarrow>
   e_disasm E h buf mci insn n = Some (True, h', mci', insn', n') \<Longrightarrow> pr h' mci'"
  unfolding all_printable_def using drop_0 [of buf] by metis

lemma all_printable_drop: "all_printable E I pr dt buf \<Longrightarrow> all_printable E I pr dt (drop n buf)"
  unfolding all_printable_def drop_drop by blast

text \<open>An instruction describes the bytes at an address, and instructions cover the bytes from one address to another.\<close>

definition describes :: "cs_insn \<Rightarrow> u64 \<Rightarrow> u8 list \<Rightarrow> nat \<Rightarrow> bool" where
  "describes insn off buf n \<longleftrightarrow> insn_ok insn \<and> address insn = off \<and> unat (isize insn) = n \<and> 0 < n \<and> n \<le> BYTES_SIZE \<and> n \<le> length buf \<and>
     take n (bytes insn) = take n buf"

fun tiled :: "u64 \<Rightarrow> u8 list \<Rightarrow> cs_insn list \<Rightarrow> u64 \<Rightarrow> u8 list \<Rightarrow> bool" where
  "tiled off buf [] off' buf' \<longleftrightarrow> off' = off \<and> buf' = buf"
| "tiled off buf (i # is) off' buf' \<longleftrightarrow>
     (let n = unat (isize i) in describes i off buf n \<and> tiled (off + of_nat n) (drop n buf) is off' buf')"

lemma describes_update_detail: "describes (insn\<lparr>idetail := d\<rparr>) off buf n = describes insn off buf n"
  by (simp add: describes_def insn_ok_def)

lemma tiled_snoc:
  "tiled off buf is off' buf' \<Longrightarrow> describes i off' buf' n \<Longrightarrow> tiled off buf (is @ [i]) (off' + of_nat n) (drop n buf')"
  by (induction "is" arbitrary: off buf) (auto simp: Let_def describes_def)

lemma tiled_length: "tiled off buf is off' buf' \<Longrightarrow> length is + length buf' \<le> length buf"
proof (induction "is" arbitrary: off buf)
  case (Cons i "is")
  let ?n = "unat (isize i)"
  have d: "describes i off buf ?n" "tiled (off + of_nat ?n) (drop ?n buf) is off' buf'"
    using Cons.prems by (simp_all add: Let_def)
  show ?case using Cons.IH [OF d(2)] d(1) unfolding describes_def by simp linarith
qed simp

subsection \<open>Text of an instruction\<close>

lemma length_strncpy [simp]: "length (strncpy n s) = n"
  by (simp add: strncpy_def)

lemma length_fill_operands: "length old = OP_STR_SIZE \<Longrightarrow> length (fill_operands old sp) = OP_STR_SIZE"
  by (simp add: fill_operands_def OP_STR_SIZE_def length_write_at)

lemma length_vsnprintf: "length (vsnprintf n text) \<le> n"
  by (cases n) (simp_all add: vsnprintf_def)

lemma length_skipdata_loop: "p + available \<le> length opstr \<Longrightarrow> length (skipdata_loop opstr p available buf) = length opstr"
proof (induction buf arbitrary: opstr p available)
  case (Cons b buf)
  have "length (write_at opstr p (vsnprintf available ('', '' @ hex02 b))) = length opstr"
    using Cons.prems length_vsnprintf [of available] by (intro length_write_at) (meson add_left_mono le_trans)
  then show ?case using Cons by (simp add: Let_def)
qed simp

lemma hex02_length: "length (hex02 b) \<le> 159"
proof -
  have "length (hex b) \<le> 2"
    unfolding hex_def using unsigned_less [of b, where 'a = nat] by (intro length_radix) simp_all
  then show ?thesis by (simp add: hex02_def)
qed

lemma length_skipdata_opstr: "length opstr = OP_STR_SIZE \<Longrightarrow> length (skipdata_opstr opstr buf) = OP_STR_SIZE"
proof (cases buf)
  case (Cons b bs)
  assume "length opstr = OP_STR_SIZE"
  then have "length (write_at opstr 0 (vsnprintf OP_STR_SIZE (hex02 b))) = OP_STR_SIZE"
    using length_vsnprintf [of OP_STR_SIZE "hex02 b"] by (simp add: length_write_at)
  then show ?thesis using hex02_length [of b] Cons
    by (simp add: skipdata_opstr_def Let_def OP_STR_SIZE_def length_skipdata_loop)
qed (simp add: skipdata_opstr_def length_write_at OP_STR_SIZE_def)

lemma fill_text_ok:
  assumes "text_ok buf" "insn_ok insn"
  obtains insn' where "fill_text insn buf = Some insn'" "insn_ok insn'" "address insn' = address insn" "isize insn' = isize insn"
    "bytes insn' = bytes insn"
  using assms length_fill_operands
  by (fastforce simp: text_ok_def fill_text_def insn_ok_def length_write_at split: option.splits prod.splits)

text \<open>The faults of the code for data: more bytes than the array has, as a user's function may ask for, and no mnemonic.\<close>

lemma data_insn_faults: "data_insn h insn off buf n = None \<longleftrightarrow> n > BYTES_SIZE \<or> sk_mnemonic (skipdata_setup h) = None"
  by (auto simp: data_insn_def)

lemma data_insn_ok:
  assumes "insn_ok insn" "sk_mnemonic (skipdata_setup h) \<noteq> None" "n \<le> BYTES_SIZE" "0 < n" "n \<le> length buf"
  obtains insn' where "data_insn h insn off buf n = Some insn'" "describes insn' off buf n" "idetail insn' = idetail insn"
proof -
  have "unat (of_nat n :: u16) = n" using assms(3) by (simp add: unat_of_nat BYTES_SIZE_def)
  then show ?thesis
    using assms length_skipdata_opstr that
    by (auto simp: data_insn_def describes_def insn_ok_def BYTES_SIZE_def MNEMONIC_SIZE_def)
qed

lemma SStream_Init_fresh:
  "memory_ok M \<Longrightarrow> stream_ok (SStream_Init (fresh_stream M))" "sindex (SStream_Init ss) = 0"
  by (simp add: memory_ok_def SStream_Init_ok, simp add: SStream_Init_def)

subsection \<open>One round of the loop\<close>

lemma same_setup_refl: "same_setup h h"
  by (simp add: same_setup_def)

lemma same_setup_trans: "same_setup a b \<Longrightarrow> same_setup b c \<Longrightarrow> same_setup a c"
  by (simp add: same_setup_def)

lemma slot_ok_setup: "same_setup h h' \<Longrightarrow> slot_ok h' insn = slot_ok h insn"
  by (simp add: same_setup_def slot_ok_def)

lemma skip_ok_setup: "same_setup h h' \<Longrightarrow> skip_ok h' = skip_ok h"
  by (simp add: same_setup_def skip_ok_def)

lemma slot_ok_updates [simp]:
  "slot_ok h (insn\<lparr>isize := n\<rparr>) = slot_ok h insn" "slot_ok h (insn\<lparr>address := a\<rparr>) = slot_ok h insn" "slot_ok h (insn\<lparr>iid := k\<rparr>) = slot_ok h insn"
  by (simp_all add: slot_ok_def insn_ok_def)

text \<open>The counters of the loop: as many slots lie behind the current one as the current part of the block has left, and they
  hold what fresh memory holds.  A part smaller than the first default is the one for the number of instructions asked for.\<close>

definition counters_ok :: "memory \<Rightarrow> nat \<Rightarrow> dstate \<Rightarrow> bool" where
  "counters_ok M count st \<longleftrightarrow>
     st_total_size st = SIZEOF_CS_INSN * length (st_total st) \<and>
     drop (st_c st) (st_total st) = map (fresh_insn M) [st_c st..<length (st_total st)] \<and>
     st_pos st = st_c st \<and> st_c st + st_cache_size st = length (st_total st) + st_f st \<and>
     st_f st < st_cache_size st \<and> st_cache_size st \<le> length (st_total st) \<and>
     (INSN_CACHE_SIZE \<le> st_cache_size st \<or> st_cache_size st = count \<and> length (st_total st) = count) \<and>
     (0 < count \<longrightarrow> st_c st < count)"

text \<open>The same where the loop is left.\<close>

definition finished :: "nat \<Rightarrow> dstate \<Rightarrow> bool" where
  "finished count st \<longleftrightarrow>
     st_total_size st = SIZEOF_CS_INSN * length (st_total st) \<and> st_c st + st_cache_size st = length (st_total st) + st_f st \<and>
     st_f st \<le> st_cache_size st \<and> (0 < count \<longrightarrow> st_c st \<le> count)"

definition covered :: "u64 \<Rightarrow> u8 list \<Rightarrow> dstate \<Rightarrow> u64 \<Rightarrow> u8 list \<Rightarrow> bool" where
  "covered oo org st off buf \<longleftrightarrow> tiled oo org (take (st_c st) (st_total st)) off buf"

definition good_round :: "memory \<Rightarrow> u64 \<Rightarrow> u8 list \<Rightarrow> nat \<Rightarrow> dstate \<Rightarrow> cs_insn \<Rightarrow> nat option \<Rightarrow> outcome \<Rightarrow> bool" where
  "good_round M oo org count st insn nxt r \<longleftrightarrow>
     (case r of
        Continue st' \<Rightarrow> counters_ok M count st' \<and> covered oo org st' (st_offset st') (st_buffer st') \<and> st_handle st' = st_handle st \<and>
          st_c st' = Suc (st_c st) \<and> take (Suc (st_c st)) (st_total st') = take (st_c st) (st_total st) @ [insn] \<and>
          (\<exists>n. nxt = Some n \<and> 0 < n \<and> n \<le> length (st_buffer st) \<and> st_buffer st' = drop n (st_buffer st) \<and>
             st_offset st' = st_offset st + of_nat n)
      | Break st' \<Rightarrow> finished count st' \<and> (\<exists>off buf. covered oo org st' off buf) \<and> st_handle st' = st_handle st \<and>
          (count = 0 \<longrightarrow> nxt = None \<and> st_c st' = st_c st \<and> take (st_c st) (st_total st') = take (st_c st) (st_total st))
      | Return h \<Rightarrow> h = (st_handle st)\<lparr>errnum := CS_ERR_MEM\<rparr> \<and> \<not> (\<forall>k. alloc M k))"

text \<open>The slot of a round as the disassembler gets it.\<close>

definition slot_of :: "memory \<Rightarrow> dstate \<Rightarrow> cs_insn" where
  "slot_of M st = (st_total st ! st_pos st)\<lparr>idetail :=
     (if detail (st_handle st) \<noteq> 0 \<and> alloc M (st_mallocs st) then Some (fresh_detail M (st_mallocs st)) else None)\<rparr>"

text \<open>How the loop ends, with the handle at its end.\<close>

definition loop_result :: "memory \<Rightarrow> u64 \<Rightarrow> u8 list \<Rightarrow> nat \<Rightarrow> handle \<Rightarrow> outcome \<Rightarrow> bool" where
  "loop_result M oo org count h r \<longleftrightarrow>
     (case r of
        Continue st \<Rightarrow> False
      | Break st \<Rightarrow> finished count st \<and> (\<exists>off buf. covered oo org st off buf) \<and> st_handle st = h
      | Return h' \<Rightarrow> h' = h\<lparr>errnum := CS_ERR_MEM\<rparr> \<and> \<not> (\<forall>k. alloc M k))"

text \<open>The handle and the variables before the loop.\<close>

definition reset_handle :: "handle \<Rightarrow> handle" where
  "reset_handle h =
     (let h = h\<lparr>errnum := CS_ERR_OK\<rparr>
      in if arch h = CS_ARCH_ARM then h\<lparr>core := (core h)\<lparr>ITBlock := (ITBlock (core h))\<lparr>IT_size := 0\<rparr>\<rparr>\<rparr> else h)"

definition first_cache_size :: "nat \<Rightarrow> nat" where
  "first_cache_size count = (if 0 < count \<and> count \<le> INSN_CACHE_SIZE then count else INSN_CACHE_SIZE)"

definition start_state :: "memory \<Rightarrow> handle \<Rightarrow> u8 list \<Rightarrow> u64 \<Rightarrow> nat \<Rightarrow> dstate" where
  "start_state M h buf off count =
     (let cs = first_cache_size count
      in \<lparr>st_handle = reset_handle h, st_total = resize M [] (SIZEOF_CS_INSN * cs), st_total_size = SIZEOF_CS_INSN * cs, st_pos = 0,
          st_f = 0, st_c = 0, st_cache_size = cs, st_buffer = buf, st_offset = off, st_mallocs = 1\<rparr>)"

lemma cs_disasm_unfold:
  "cs_disasm E M h buf off count out =
     (if \<not> alloc M 0 then Some ((reset_handle h)\<lparr>errnum := CS_ERR_MEM\<rparr>, 0, out)
      else (case disasm_loop E M buf off count (start_state M h buf off count) of
              None \<Rightarrow> None
            | Some (Return h) \<Rightarrow> Some (h, 0, None)
            | Some (Break st) \<Rightarrow> Some (disasm_finish M st)
            | Some (Continue st) \<Rightarrow> None))"
  unfolding cs_disasm_def start_state_def reset_handle_def first_cache_size_def Let_def ..

text \<open>What \<^verbatim>\<open>cs_disasm\<close> returns: as many instructions as it says, which cover the buffer from its start, or nothing; and why.\<close>

definition disasm_result ::
    "memory \<Rightarrow> u64 \<Rightarrow> u8 list \<Rightarrow> nat \<Rightarrow> handle \<Rightarrow> nat \<Rightarrow> cs_insn list option \<Rightarrow> cs_insn list option \<Rightarrow> bool" where
  "disasm_result M off buf count h n out out' \<longleftrightarrow>
     (if errnum h = CS_ERR_OK then
        (case out' of
           None \<Rightarrow> n = 0
         | Some insns \<Rightarrow> length insns = n \<and> 0 < n \<and> (0 < count \<longrightarrow> n \<le> count) \<and> (\<exists>off' buf'. tiled off buf insns off' buf'))
      else errnum h = CS_ERR_MEM \<and> n = 0 \<and> (out' = None \<or> out' = out) \<and> \<not> (\<forall>k. alloc M k))"

text \<open>Single steps over a list of slots, until one fails.\<close>

fun iterate :: "engine \<Rightarrow> memory \<Rightarrow> handle \<Rightarrow> u8 list \<Rightarrow> u64 \<Rightarrow> cs_insn list \<Rightarrow> cs_insn list option" where
  "iterate E M h code addr [] = Some []"
| "iterate E M h code addr (slot # slots) =
     (case cs_disasm_iter E M h code addr slot of
        None \<Rightarrow> None
      | Some (r, h, code, addr, insn) \<Rightarrow> if r then map_option ((#) insn) (iterate E M h code addr slots) else Some [])"

definition blank_slot :: "memory \<Rightarrow> nat \<Rightarrow> cs_insn" where
  "blank_slot M k = (fresh_insn M k)\<lparr>idetail := None\<rparr>"

lemma counters_ok_room: "counters_ok M count st \<Longrightarrow> st_c st < length (st_total st)"
  by (simp add: counters_ok_def)

lemma counters_ok_slot: "counters_ok M count st \<Longrightarrow> st_total st ! st_c st = fresh_insn M (st_c st)"
  using counters_ok_room [of M count st] nth_via_drop [of "st_c st" "st_total st"]
  by (simp add: counters_ok_def upt_conv_Cons)

lemma resize_grow:
  "n = SIZEOF_CS_INSN * k \<Longrightarrow> length block \<le> k \<Longrightarrow> resize M block n = block @ map (fresh_insn M) [length block..<k]"
  by (simp add: resize_def SIZEOF_CS_INSN_def)

lemma resize_shrink: "n = SIZEOF_CS_INSN * k \<Longrightarrow> k \<le> length block \<Longrightarrow> resize M block n = take k block"
  by (simp add: resize_def SIZEOF_CS_INSN_def)

lemma disasm_finish_result:
  assumes "finished count st" "\<exists>off' buf'. covered off buf st off' buf'" "errnum (st_handle st) = CS_ERR_OK"
  obtains h n out' where "disasm_finish M st = (h, n, out')" "disasm_result M off buf count h n out out'"
    "h = st_handle st \<or> h = (st_handle st)\<lparr>errnum := CS_ERR_MEM\<rparr>"
    "alloc M (st_mallocs st) \<Longrightarrow> out' = (if st_c st = 0 then None else Some (take (st_c st) (st_total st)))"
proof -
  have k: "st_total_size st - (st_cache_size st - st_f st) * SIZEOF_CS_INSN = SIZEOF_CS_INSN * st_c st" "st_c st \<le> length (st_total st)"
    using assms(1) by (auto simp: finished_def SIZEOF_CS_INSN_def)
  have t: "st_f st = st_cache_size st \<Longrightarrow> st_total st = take (st_c st) (st_total st)" using assms(1) by (simp add: finished_def)
  have e: "disasm_finish M st =
     (if st_c st = 0 then (st_handle st, 0, None)
      else if st_f st = st_cache_size st \<or> alloc M (st_mallocs st) then (st_handle st, st_c st, Some (take (st_c st) (st_total st)))
      else ((st_handle st)\<lparr>errnum := CS_ERR_MEM\<rparr>, 0, None))"
    unfolding disasm_finish_def k(1) using resize_shrink [OF refl k(2), of M] t by auto
  consider "st_c st = 0" | "st_c st \<noteq> 0" "st_f st = st_cache_size st \<or> alloc M (st_mallocs st)"
    | "st_c st \<noteq> 0" "st_f st \<noteq> st_cache_size st" "\<not> alloc M (st_mallocs st)" by blast
  then show thesis
  proof cases
    case 1
    then show ?thesis using that [of "st_handle st" 0 None] e assms(3) by (simp add: disasm_result_def)
  next
    case 2
    then have "disasm_result M off buf count (st_handle st) (st_c st) out (Some (take (st_c st) (st_total st)))"
      using assms k(2) by (auto simp: disasm_result_def finished_def covered_def)
    then show ?thesis using that 2 e by simp
  next
    case 3
    then show ?thesis using that [of "(st_handle st)\<lparr>errnum := CS_ERR_MEM\<rparr>" 0 None] e by (auto simp: disasm_result_def)
  qed
qed

lemma start_state_ok:
  "counters_ok M count (start_state M h buf off count)"
  "covered off buf (start_state M h buf off count) off buf"
  "st_handle (start_state M h buf off count) = reset_handle h" "st_offset (start_state M h buf off count) = off"
  "st_buffer (start_state M h buf off count) = buf" "st_c (start_state M h buf off count) = 0"
  using resize_grow [OF refl, of "[]" "first_cache_size count" M]
  by (auto simp: counters_ok_def covered_def start_state_def first_cache_size_def INSN_CACHE_SIZE_def Let_def)

lemma covered_snoc:
  assumes "tiled oo org (take n xs) off buf" "n < length xs" "describes (xs ! n) off buf k"
  shows "tiled oo org (take (Suc n) xs) (off + of_nat k) (drop k buf)"
  using tiled_snoc [OF assms(1,3)] assms(2) by (simp add: take_Suc_conv_app_nth)

lemma disasm_advance_law:
  assumes c: "counters_ok M count st" and i: "describes insn (st_offset st) (st_buffer st) n"
    and t: "covered oo org st (st_offset st) (st_buffer st)" and l: "length org < 2 ^ 28"
    and st': "st' = st\<lparr>st_total := (st_total st)[st_pos st := insn]\<rparr>"
  obtains r where "disasm_advance M count n st' = Some r" "good_round M oo org count st insn (Some n) r"
proof -
  let ?c = "st_c st" and ?T = "(st_total st)[st_c st := insn]"
  have n: "0 < n" "n \<le> length (st_buffer st)" using i by (auto simp: describes_def)
  have cl: "?c + length (st_buffer st) \<le> length org" "?c < length (st_total st)"
    using tiled_length [OF t [unfolded covered_def]] counters_ok_room [OF c] by simp_all
  have cov: "tiled oo org (take (Suc ?c) ?T) (st_offset st + of_nat n) (drop n (st_buffer st))"
    using covered_snoc [of oo org ?c ?T "st_offset st" "st_buffer st" n] t cl i by (simp add: covered_def)
  have f: "(st_c st' + 1) mod 2 ^ 64 = Suc ?c" "(st_f st' + 1) mod 2 ^ 32 = Suc (st_f st)"
    using c cl l n by (auto simp: counters_ok_def st')
  have pos: "st_pos st = ?c" and ts: "st_total_size st = SIZEOF_CS_INSN * length (st_total st)"
    using c by (simp_all add: counters_ok_def)
  have T: "take (Suc ?c) ?T = take ?c (st_total st) @ [insn]" using cl(2) by (simp add: take_Suc_conv_app_nth)
  define sa where "sa = st'\<lparr>st_f := Suc (st_f st), st_c := Suc ?c\<rparr>"
  define k where "k = st_cache_size st * 8 mod 2 ^ 32 div 5"
  define z where "z = (SIZEOF_CS_INSN * length (st_total st) + SIZEOF_CS_INSN * k) mod 2 ^ 64"
  define move where "move = (\<lambda>s. s\<lparr>st_buffer := drop n (st_buffer st), st_offset := st_offset st + of_nat n\<rparr> :: dstate)"
  have adv: "disasm_advance M count n st' =
      (if 0 < count \<and> Suc ?c = count then Some (Break sa)
       else if Suc (st_f st) = st_cache_size st then
         if \<not> alloc M (st_mallocs st) then Some (Return ((st_handle st)\<lparr>errnum := CS_ERR_MEM\<rparr>))
         else Some (Continue (move (sa\<lparr>st_cache_size := k, st_total_size := z, st_total := resize M ?T z, st_pos := Suc ?c, st_f := 0,
                st_mallocs := st_mallocs st + 1\<rparr>)))
       else Some (Continue (move (sa\<lparr>st_pos := Suc ?c\<rparr>))))"
    unfolding disasm_advance_def Let_def f sa_def k_def z_def move_def using n by (simp add: st' pos ts not_less)
  consider "0 < count \<and> Suc ?c = count" | "\<not> (0 < count \<and> Suc ?c = count)" "Suc (st_f st) = st_cache_size st"
    | "\<not> (0 < count \<and> Suc ?c = count)" "Suc (st_f st) \<noteq> st_cache_size st" by blast
  then show thesis
  proof cases
    case 1
    have "covered oo org sa (st_offset st + of_nat n) (drop n (st_buffer st))"
      using cov by (simp add: covered_def sa_def st' pos)
    moreover have "finished count sa" using 1 c by (auto simp: sa_def st' finished_def counters_ok_def)
    ultimately have "good_round M oo org count st insn (Some n) (Break sa)" using 1 by (auto simp: good_round_def sa_def st')
    then show ?thesis using that adv 1 by simp
  next
    case 2
    have cs: "INSN_CACHE_SIZE \<le> st_cache_size st" "length (st_total st) = Suc ?c" "st_cache_size st \<le> 2 ^ 28"
      using c 2 cl l n by (auto simp: counters_ok_def)
    then have k: "INSN_CACHE_SIZE \<le> k" "k \<le> 2 ^ 29" by (auto simp: INSN_CACHE_SIZE_def k_def)
    have z: "z = SIZEOF_CS_INSN * (Suc ?c + k)" using cs(2) k(2) cl l by (simp add: SIZEOF_CS_INSN_def z_def)
    have g: "resize M ?T z = ?T @ map (fresh_insn M) [Suc ?c..<Suc ?c + k]"
      using resize_grow [OF z, of ?T M] cs(2) by (simp del: upt_Suc)
    have "0 < count \<Longrightarrow> Suc ?c < count" using c 2 by (auto simp: counters_ok_def)
    then have "good_round M oo org count st insn (Some n) (Continue (move (sa\<lparr>st_cache_size := k, st_total_size := z, st_total := resize M ?T z,
        st_pos := Suc ?c, st_f := 0, st_mallocs := st_mallocs st + 1\<rparr>)))"
      using cov cs(2) k(1) n z T unfolding g
      by (simp add: good_round_def counters_ok_def covered_def INSN_CACHE_SIZE_def sa_def move_def st' del: upt_Suc)
    moreover have "\<not> alloc M (st_mallocs st) \<Longrightarrow> good_round M oo org count st insn (Some n) (Return ((st_handle st)\<lparr>errnum := CS_ERR_MEM\<rparr>))"
      by (auto simp: good_round_def)
    ultimately show ?thesis using that adv 2 by (cases "alloc M (st_mallocs st)") simp_all
  next
    case 3
    have "drop (Suc ?c) ?T = drop (Suc ?c) (st_total st)" by simp
    then have "drop (Suc ?c) ?T = tl (drop ?c (st_total st))" by (simp only: drop_Suc tl_drop)
    then have "drop (Suc ?c) ?T = map (fresh_insn M) [Suc ?c..<length (st_total st)]"
      using c cl(2) by (simp add: counters_ok_def upt_conv_Cons)
    then have "good_round M oo org count st insn (Some n) (Continue (move (sa\<lparr>st_pos := Suc ?c\<rparr>)))"
      using c cov 3 n cl(2) T by (auto simp: good_round_def counters_ok_def covered_def st' sa_def move_def)
    then show ?thesis using that adv 3 by simp
  qed
qed

context disassembly
begin

lemma fill_insn_law:
  assumes "inv h" "slot_ok h insn" "text_ok buf" "unat (isize insn) = n" "0 < n" "n \<le> BYTES_SIZE" "n \<le> length code"
  obtains insn' where "fill_insn E h insn buf mci code = Some insn'" "describes insn' (address insn) code n"
proof -
  define i1 where "i1 = insn\<lparr>bytes := take n code @ drop n (bytes insn), isize := of_nat n\<rparr>"
  define i2 where "i2 = (if MCInst_getOpcodePub mci \<noteq> 0 then i1\<lparr>iid := MCInst_getOpcodePub mci\<rparr> else i1)"
  have u: "unat (of_nat n :: u16) = n" using assms(6) by (simp add: unat_of_nat BYTES_SIZE_def)
  have s: "slot_ok h i2" "address i2 = address insn" "isize i2 = of_nat n" "bytes i2 = take n code @ drop n (bytes insn)"
    using assms(2,6,7) by (auto simp: i2_def i1_def slot_ok_def insn_ok_def BYTES_SIZE_def)
  have d: "describes i (address insn) code n" if "insn_ok i" "address i = address i2" "isize i = isize i2" "bytes i = bytes i2" for i
    using that s u assms(5-7) by (simp add: describes_def)
  have e: "fill_insn E h insn buf mci code =
     (case e_post_printer E of None \<Rightarrow> fill_text i2 buf
      | Some post \<Rightarrow> (case post h i2 buf mci of None \<Rightarrow> None | Some (insn', buffer) \<Rightarrow> fill_text insn' buffer))"
    using assms(7) unfolding fill_insn_def Let_def assms(4) min_absorb2 [OF assms(6)] diff_self_eq_0 drop_0 i2_def i1_def by simp
  show thesis
  proof (cases "e_post_printer E")
    case None
    have "insn_ok i2" using s(1) by (simp add: slot_ok_def)
    from fill_text_ok [OF assms(3) this] obtain i4 where "fill_text i2 buf = Some i4" "insn_ok i4" "address i4 = address i2"
      "isize i4 = isize i2" "bytes i4 = bytes i2" by blast
    then show ?thesis using that [of i4] d [of i4] e None by simp
  next
    case (Some post)
    obtain i3 buf' where p: "post h i2 buf mci = Some (i3, buf')" "slot_ok h i3" "address i3 = address i2"
      "isize i3 = isize i2" "bytes i3 = bytes i2" "text_ok buf'"
      using post_law [OF assms(1) s(1) assms(3) Some] by blast
    have "insn_ok i3" using p(2) by (simp add: slot_ok_def)
    from fill_text_ok [OF p(6) this] obtain i4 where "fill_text i3 buf' = Some i4" "insn_ok i4" "address i4 = address i3"
      "isize i4 = isize i3" "bytes i4 = bytes i3" by blast
    then show ?thesis using that [of i4] d [of i4] e Some p by simp
  qed
qed

text \<open>The success of the disassembler in either function.\<close>

lemma decoded_law:
  assumes "inv h" "slot_ok h insn" "printable h mci" "fresh insn" "0 < n" "n \<le> BYTES_SIZE" "n \<le> length code" "stream_ok ss" "sindex ss = 0"
  obtains h1 i1 h' mci' i2 ss' insn' where
    "e_insn_id E h (insn\<lparr>isize := of_nat n\<rparr>) (MCInst_getOpcode mci) = Some (h1, i1)"
    "e_printer E h1 mci i1 ss = Some (h', mci', i2, ss')" "inv h'" "same_setup h h'"
    "fill_insn E h' i2 (sbuffer ss') mci' code = Some insn'" "describes insn' (address insn) code n"
proof -
  have u: "unat (of_nat n :: u16) = n" using assms(6) by (simp add: unat_of_nat BYTES_SIZE_def)
  have s: "slot_ok h (insn\<lparr>isize := of_nat n\<rparr>)" using assms(2) by simp
  from insn_id_law [OF assms(1) s] obtain h1 i1 where
    i: "e_insn_id E h (insn\<lparr>isize := of_nat n\<rparr>) (MCInst_getOpcode mci) = Some (h1, i1)" "inv h1" "same_setup h h1"
    "slot_ok h1 i1" "address i1 = address insn" "isize i1 = of_nat n" "fresh i1"
    using slot_ok_setup fresh_isize [OF assms(4)] by fastforce
  from printer_law [OF i(2,4) assms(8,9) printable_setup [OF i(3) assms(3)] i(7)] obtain h' mci' i2 ss' where
    p: "e_printer E h1 mci i1 ss = Some (h', mci', i2, ss')" "inv h'" "same_setup h1 h'" "slot_ok h' i2" "address i2 = address i1"
    "isize i2 = isize i1" "text_ok (sbuffer ss')" using slot_ok_setup by blast
  have "unat (isize i2) = n" using p(6) i(6) u by simp
  from fill_insn_law [OF p(2,4,7) this assms(5-7)] obtain insn' where
    "fill_insn E h' i2 (sbuffer ss') mci' code = Some insn'" "describes insn' (address i2) code n" .
  then show ?thesis using that [OF i(1) p(1,2) same_setup_trans [OF i(3) p(3)]] p(5) i(5) by simp
qed

lemma disasm_one_law:
  assumes "inv h" "slot_ok h insn" "skip_ok h" "memory_ok M" "all_printable E inv printable (detail h) buf"
  obtains h' insn' nxt where "disasm_one E M org oo h buf off insn = Some (h', insn', nxt)" "inv h'" "same_setup h h'" "insn_ok insn'"
    "\<forall>n. nxt = Some n \<longrightarrow> describes insn' off buf n"
proof -
  have m: "Operands (MCInst_Init (fresh_inst M)) = []" by (simp add: MCInst_Init_def)
  obtain ok h1 mci i1 n where d: "e_disasm E h buf (MCInst_Init (fresh_inst M)) (insn\<lparr>address := off\<rparr>) 0 = Some (ok, h1, mci, i1, n)"
    "inv h1" "same_setup h h1" "slot_ok h1 i1" "address i1 = off"
    "ok \<Longrightarrow> fresh i1 \<and> 0 < n \<and> n \<le> BYTES_SIZE \<and> n \<le> length buf"
    using disasm_law [OF assms(1) _ m, of "insn\<lparr>address := off\<rparr>" buf 0] assms(2) slot_ok_setup by fastforce
  show ?thesis
  proof (cases ok)
    case True
    note k = d(6) [OF True]
    have pr: "printable h1 mci" using all_printableD [OF assms(5,1) m d(1) [unfolded eqTrueI [OF True]]] .
    from decoded_law [OF d(2,4) pr _ _ _ _ SStream_Init_fresh(1) [OF assms(4)] SStream_Init_fresh(2), of n buf]
    obtain h2 i2 h' mci' i3 ss' insn' where r:
      "e_insn_id E h1 (i1\<lparr>isize := of_nat n\<rparr>) (MCInst_getOpcode mci) = Some (h2, i2)"
      "e_printer E h2 mci i2 (SStream_Init (fresh_stream M)) = Some (h', mci', i3, ss')" "inv h'" "same_setup h1 h'"
      "fill_insn E h' i3 (sbuffer ss') mci' buf = Some insn'" "describes insn' (address i1) buf n" using k by metis
    show ?thesis
      by (rule that [of h' insn' "Some n"])
        (use d(1,5) r True same_setup_trans [OF d(3) r(4)] in \<open>auto simp: disasm_one_def describes_def\<close>)
  next
    case False
    have sk: "skip_ok h1" using skip_ok_setup [OF d(3)] assms(3) by simp
    have i: "insn_ok i1" using d(4) by (simp add: slot_ok_def)
    have r: "disasm_one E M org oo h buf off insn =
      (if \<not> skipdata h1 \<or> unat (skipdata_size h1) > length buf then Some (h1, i1, None)
       else case sk_callback (skipdata_setup h1) of
         Some callback \<Rightarrow> (let n = callback org (unat (off - oo)) in
           if n > length buf \<or> n = 0 then Some (h1, i1, None)
           else map_option (\<lambda>insn. (h1, insn\<lparr>idetail := None\<rparr>, Some n)) (data_insn h1 i1 off buf n))
       | None \<Rightarrow> map_option (\<lambda>insn. (h1, insn\<lparr>idetail := None\<rparr>, Some (unat (skipdata_size h1)))) (data_insn h1 i1 off buf (unat (skipdata_size h1))))"
      unfolding disasm_one_def d(1) using False by (auto simp: Let_def split: option.splits)
    show ?thesis
    proof (cases "disasm_one E M org oo h buf off insn = Some (h1, i1, None)")
      case True
      then show ?thesis using that d(2,3) i by blast
    next
      case go: False
      then have on: "skipdata h1" "unat (skipdata_size h1) \<le> length buf" using r by (auto split: if_splits)
      then have sz: "sk_mnemonic (skipdata_setup h1) \<noteq> None" "unat (skipdata_size h1) \<le> BYTES_SIZE" "0 < unat (skipdata_size h1)"
        using sk by (auto simp: skip_ok_def unat_gt_0 word_neq_0_conv)
      obtain n where n: "n \<le> BYTES_SIZE" "0 < n" "n \<le> length buf"
        "disasm_one E M org oo h buf off insn =
           map_option (\<lambda>insn. (h1, insn\<lparr>idetail := None\<rparr>, Some n)) (data_insn h1 i1 off buf n)"
      proof (cases "sk_callback (skipdata_setup h1)")
        case None
        then show ?thesis using r on sz(2,3) that by simp
      next
        case (Some cb)
        then have "cb org (unat (off - oo)) \<le> BYTES_SIZE" using sk on(1) by (simp add: skip_ok_def)
        then show ?thesis using r on go Some that [of "cb org (unat (off - oo))"] by (simp add: Let_def split: if_splits)
      qed
      from data_insn_ok [OF i sz(1) n(1-3)] obtain i2 where "data_insn h1 i1 off buf n = Some i2" "describes i2 off buf n" .
      then show ?thesis using that [of h1 "i2\<lparr>idetail := None\<rparr>" "Some n"] n(4) d(2,3) by (simp add: describes_def insn_ok_def)
    qed
  qed
qed

text \<open>One round from a state that keeps the invariants, with the handle as it is after the round.\<close>

lemma disasm_step_law:
  assumes "inv (st_handle st)" "skip_ok (st_handle st)" "memory_ok M" "detail (st_handle st) \<noteq> 0 \<Longrightarrow> \<forall>k. alloc M k"
    and p: "all_printable E inv printable (detail (st_handle st)) (st_buffer st)"
    and c: "counters_ok M count st" and t: "covered oo org st (st_offset st) (st_buffer st)" and l: "length org < 2 ^ 28"
  obtains h' insn nxt r where "disasm_step E M org oo count st = Some r" "inv h'" "same_setup (st_handle st) h'"
    "disasm_one E M org oo (st_handle st) (st_buffer st) (st_offset st) (slot_of M st) = Some (h', insn, nxt)"
    "good_round M oo org count (st\<lparr>st_handle := h'\<rparr>) insn nxt r"
proof -
  let ?h = "st_handle st"
  define sm where "sm = (if detail ?h \<noteq> 0 then st\<lparr>st_mallocs := st_mallocs st + 1\<rparr> else st)"
  let ?slot = "slot_of M st"
  have pos: "st_pos st = st_c st" "st_c st < length (st_total st)" using c counters_ok_room [OF c] by (simp_all add: counters_ok_def)
  have sm: "st_buffer sm = st_buffer st" "st_offset sm = st_offset st" "st_pos sm = st_pos st" "st_total sm = st_total st"
    "st_c sm = st_c st" "st_f sm = st_f st" "st_cache_size sm = st_cache_size st" "st_total_size sm = st_total_size st"
    by (simp_all add: sm_def)
  have "slot_ok ?h ?slot"
    using counters_ok_slot [OF c] pos assms(3,4) by (auto simp: slot_of_def slot_ok_def memory_ok_def insn_ok_def)
  from disasm_one_law [OF assms(1) this assms(2,3) p, where org = org and oo = oo and off = "st_offset st"]
  obtain h' insn nxt where d: "disasm_one E M org oo ?h (st_buffer st) (st_offset st) ?slot = Some (h', insn, nxt)"
    "inv h'" "same_setup ?h h'" "insn_ok insn" "\<forall>n. nxt = Some n \<longrightarrow> describes insn (st_offset st) (st_buffer st) n" .
  let ?s0 = "sm\<lparr>st_handle := h'\<rparr>"
  let ?s1 = "?s0\<lparr>st_total := (st_total ?s0)[st_pos ?s0 := insn]\<rparr>"
  have e: "disasm_step E M org oo count st = (case nxt of None \<Rightarrow> Some (Break ?s1) | Some n \<Rightarrow> disasm_advance M count n ?s1)"
    unfolding disasm_step_def Let_def slot_of_def [symmetric] sm_def [symmetric] sm d(1) using pos by (simp add: sm split: option.split)
  have c0: "counters_ok M count ?s0" and t0: "covered oo org ?s0 (st_offset ?s0) (st_buffer ?s0)"
    using c t by (simp_all add: counters_ok_def covered_def sm)
  have g: "good_round M oo org count ?s0 insn nxt r \<Longrightarrow> good_round M oo org count (st\<lparr>st_handle := h'\<rparr>) insn nxt r" for r
    by (cases r) (simp_all add: good_round_def sm)
  show thesis
  proof (cases nxt)
    case None
    have "covered oo org ?s1 (st_offset st) (st_buffer st)" using t pos by (simp add: covered_def sm)
    moreover have "finished count ?s1" using c by (simp add: finished_def counters_ok_def sm less_imp_le)
    ultimately have "good_round M oo org count ?s0 insn nxt (Break ?s1)" using None pos by (auto simp: good_round_def sm)
    then show ?thesis using that e None d(1-3) g by simp
  next
    case (Some n)
    have "describes insn (st_offset ?s0) (st_buffer ?s0) n" using d(5) Some by (simp add: sm)
    from disasm_advance_law [OF c0 this t0 l refl] obtain r where
      "disasm_advance M count n ?s1 = Some r" "good_round M oo org count ?s0 insn (Some n) r" .
    then show ?thesis using that e Some d(1-3) g by simp
  qed
qed

lemma disasm_loop_law:
  assumes "memory_ok M" "length org < 2 ^ 28"
  shows "inv (st_handle st) \<Longrightarrow> skip_ok (st_handle st) \<Longrightarrow> (detail (st_handle st) \<noteq> 0 \<longrightarrow> (\<forall>k. alloc M k)) \<Longrightarrow>
    all_printable E inv printable (detail (st_handle st)) (st_buffer st) \<Longrightarrow> counters_ok M count st \<Longrightarrow> covered oo org st (st_offset st) (st_buffer st) \<Longrightarrow>
    \<exists>r h'. disasm_loop E M org oo count st = Some r \<and> inv h' \<and> same_setup (st_handle st) h' \<and> loop_result M oo org count h' r"
proof (induction "length (st_buffer st)" arbitrary: st rule: less_induct)
  case less
  show ?case
  proof (cases "st_buffer st = []")
    case True
    have "finished count st" using less.prems(5) by (simp add: finished_def counters_ok_def less_imp_le)
    then have "loop_result M oo org count (st_handle st) (Break st)" using less.prems(6) by (auto simp: loop_result_def)
    moreover have "disasm_loop E M org oo count st = Some (Break st)" using True by (subst disasm_loop.simps) simp
    ultimately show ?thesis using less.prems(1) same_setup_refl by blast
  next
    case False
    from disasm_step_law [OF less.prems(1,2) assms(1) mp [OF less.prems(3)] less.prems(4-6) assms(2)]
    obtain h' insn nxt r where d: "disasm_step E M org oo count st = Some r" "inv h'" "same_setup (st_handle st) h'"
      "disasm_one E M org oo (st_handle st) (st_buffer st) (st_offset st) (slot_of M st) = Some (h', insn, nxt)"
      "good_round M oo org count (st\<lparr>st_handle := h'\<rparr>) insn nxt r" .
    have u: "disasm_loop E M org oo count st =
      (case r of Continue st \<Rightarrow> disasm_loop E M org oo count st | _ \<Rightarrow> Some r)"
      using False d(1) by (subst disasm_loop.simps) (simp split: outcome.split)
    show ?thesis
    proof (cases r)
      case (Continue st')
      have s: "st_handle st' = h'" "counters_ok M count st'" "covered oo org st' (st_offset st') (st_buffer st')"
        "length (st_buffer st') < length (st_buffer st)" "\<exists>n. st_buffer st' = drop n (st_buffer st)"
        using d(5) Continue by (auto simp: good_round_def)
      have p: "inv (st_handle st')" "skip_ok (st_handle st')" "detail (st_handle st') \<noteq> 0 \<longrightarrow> (\<forall>k. alloc M k)"
        "all_printable E inv printable (detail (st_handle st')) (st_buffer st')"
        using d(2,3) s(1,5) less.prems(2-4) skip_ok_setup [OF d(3)] all_printable_drop by (auto simp: same_setup_def)
      from less.hyps [OF s(4) p s(2,3)] obtain r h'' where
        "disasm_loop E M org oo count st' = Some r" "inv h''" "same_setup h' h''" "loop_result M oo org count h'' r"
        unfolding s(1) by blast
      then show ?thesis using u Continue same_setup_trans [OF d(3)] by auto
    next
      case (Break st')
      then have "loop_result M oo org count h' r" using d(5) by (simp add: good_round_def loop_result_def)
      then show ?thesis using u Break d(2,3) by auto
    next
      case (Return h)
      then have "loop_result M oo org count h' r" using d(5) by (simp add: good_round_def loop_result_def)
      then show ?thesis using u Return d(2,3) by auto
    qed
  qed
qed

subsection \<open>The whole buffer\<close>

lemma reset_handle_ok:
  assumes "inv h" "skip_ok h"
  shows "inv (reset_handle h)" "skip_ok (reset_handle h)" "detail (reset_handle h) = detail h" "errnum (reset_handle h) = CS_ERR_OK"
    "skipdata_setup (reset_handle h) = skipdata_setup h"
proof -
  show "inv (reset_handle h)"
    using inv_errnum [OF assms(1)] inv_reset [OF inv_errnum [OF assms(1)]] by (simp add: reset_handle_def Let_def)
qed (use assms(2) in \<open>simp_all add: reset_handle_def skip_ok_def Let_def\<close>)

lemma cs_disasm_law:
  assumes "inv h" "skip_ok h" "memory_ok M" "detail h \<noteq> 0 \<Longrightarrow> \<forall>k. alloc M k" "length buf < 2 ^ 28"
    "all_printable E inv printable (detail h) buf"
  obtains h' n out' where "cs_disasm E M h buf off count out = Some (h', n, out')" "inv h'" "disasm_result M off buf count h' n out out'"
proof -
  let ?st = "start_state M h buf off count"
  note h2 = reset_handle_ok [OF assms(1,2)]
  have "\<exists>r h'. disasm_loop E M buf off count ?st = Some r \<and> inv h' \<and> same_setup (st_handle ?st) h' \<and> loop_result M off buf count h' r"
    by (rule disasm_loop_law [OF assms(3,5)]) (use h2 assms(4,6) in \<open>simp_all add: start_state_ok\<close>)
  then obtain r h' where l: "disasm_loop E M buf off count ?st = Some r" "inv h'" "errnum h' = CS_ERR_OK" "loop_result M off buf count h' r"
    using h2(4) by (auto simp: start_state_ok same_setup_def)
  note e = cs_disasm_unfold [of E M h buf off count out]
  consider "\<not> alloc M 0" | h3 where "alloc M 0" "r = Return h3" | st' where "alloc M 0" "r = Break st'"
    using l(4) by (cases r) (auto simp: loop_result_def)
  then show thesis
  proof cases
    case 1
    then show ?thesis using that e h2(1) inv_errnum by (auto simp: disasm_result_def)
  next
    case 2
    then show ?thesis using that e l inv_errnum by (auto simp: disasm_result_def loop_result_def)
  next
    case 3
    have f: "finished count st'" "\<exists>off' buf'. covered off buf st' off' buf'" "st_handle st' = h'" using l(4) 3 by (simp_all add: loop_result_def)
    have "errnum (st_handle st') = CS_ERR_OK" using f(3) l(3) by simp
    from disasm_finish_result [OF f(1,2) this, of M out] obtain h4 n out' where
      d: "disasm_finish M st' = (h4, n, out')" "disasm_result M off buf count h4 n out out'"
      "h4 = h' \<or> h4 = h'\<lparr>errnum := CS_ERR_MEM\<rparr>" unfolding f(3) by metis
    then have "inv h4" using l(2) inv_errnum by auto
    then show ?thesis using that [of h4 n out'] e l(1) 3 d by simp
  qed
qed

subsection \<open>Single steps\<close>

lemma iter_of_one_detail:
  assumes "inv h" "slot_ok h slot" "errnum h = CS_ERR_OK" "sk_callback (skipdata_setup h) = None \<or> org = buf \<and> oo = off"
    and "disasm_one E M org oo h buf off slot = Some (h', insn, nxt)"
  obtains insn' where "cs_disasm_iter E M h buf off slot =
      (case nxt of None \<Rightarrow> Some (False, h', buf, off, insn') | Some n \<Rightarrow> Some (True, h', drop n buf, off + of_nat n, insn'))"
    "insn = insn'\<lparr>idetail := idetail insn\<rparr>" "idetail slot = None \<longrightarrow> insn' = insn"
proof -
  have h: "h\<lparr>errnum := CS_ERR_OK\<rparr> = h" using assms(3) by simp
  have m: "Operands (MCInst_Init (fresh_inst M)) = []" by (simp add: MCInst_Init_def)
  obtain ok h1 mci i1 k where d: "e_disasm E h buf (MCInst_Init (fresh_inst M)) (slot\<lparr>address := off\<rparr>) 0 = Some (ok, h1, mci, i1, k)"
    "skipdata_setup h1 = skipdata_setup h" "idetail slot = None \<Longrightarrow> idetail i1 = None" "ok \<Longrightarrow> k \<le> length buf"
    using disasm_law [OF assms(1) _ m, of "slot\<lparr>address := off\<rparr>" buf 0] assms(2) by (auto simp: same_setup_def)
  show thesis
  proof (cases ok)
    case True
    then show ?thesis using assms(5) d(1,4) that [of insn] unfolding cs_disasm_iter_def disasm_one_def h
      by (auto split: option.splits prod.splits)
  next
    case False
    define i where "i = (\<lambda>n. data_insn h1 i1 off buf n)"
    have i: "i n = Some x \<Longrightarrow> idetail x = idetail i1" for x n
      by (auto simp: i_def data_insn_def split: if_splits)
    have cb: "sk_callback (skipdata_setup h1) = Some f \<Longrightarrow> f org (unat (off - oo)) = f buf 0" for f
      using assms(4) d(2) by auto
    consider "nxt = None" "insn = i1" "cs_disasm_iter E M h buf off slot = Some (False, h', buf, off, i1)"
      | n x where "nxt = Some n" "i n = Some x" "insn = x\<lparr>idetail := None\<rparr>"
          "cs_disasm_iter E M h buf off slot = Some (True, h', drop n buf, off + of_nat n, x)"
      using assms(5) d(1) False cb unfolding cs_disasm_iter_def disasm_one_def h i_def
      by (auto simp: Let_def split: if_splits option.splits)
    then show ?thesis
    proof cases
      case 1
      then show ?thesis using that [of i1] by simp
    next
      case 2
      then show ?thesis using that [of x] d(3) i [OF 2(2)] by simp
    qed
  qed
qed

lemma iter_of_one:
  assumes "inv h" "slot_ok h slot" "errnum h = CS_ERR_OK" "sk_callback (skipdata_setup h) = None" "idetail slot = None"
    and "disasm_one E M org oo h buf off slot = Some (h', insn, nxt)"
  shows "cs_disasm_iter E M h buf off slot =
    (case nxt of None \<Rightarrow> Some (False, h', buf, off, insn) | Some n \<Rightarrow> Some (True, h', drop n buf, off + of_nat n, insn))"
proof -
  from iter_of_one_detail [OF assms(1-3) disjI1 [OF assms(4)] assms(6)] obtain insn' where
    "cs_disasm_iter E M h buf off slot =
      (case nxt of None \<Rightarrow> Some (False, h', buf, off, insn') | Some n \<Rightarrow> Some (True, h', drop n buf, off + of_nat n, insn'))"
    "insn = insn'\<lparr>idetail := idetail insn\<rparr>" "idetail slot = None \<longrightarrow> insn' = insn" .
  moreover from this(3) have "insn' = insn" using assms(5) by blast
  ultimately show ?thesis by (simp only:)
qed

text \<open>One step on its own; the user's function for data gets the rest of the code.\<close>

lemma cs_disasm_iter_law:
  assumes "inv h" "slot_ok h slot" "skip_ok h" "memory_ok M" "all_printable E inv printable (detail h) code"
  obtains r h' code' addr' insn where "cs_disasm_iter E M h code addr slot = Some (r, h', code', addr', insn)" "inv h'"
    "r \<longrightarrow> tiled addr code [insn] addr' code'" "\<not> r \<longrightarrow> code' = code \<and> addr' = addr"
proof -
  let ?h = "h\<lparr>errnum := CS_ERR_OK\<rparr>"
  have h: "inv ?h" "slot_ok ?h slot" "skip_ok ?h" "errnum ?h = CS_ERR_OK"
    using inv_errnum [OF assms(1)] assms(2,3) by (simp_all add: slot_ok_def skip_ok_def)
  have e: "cs_disasm_iter E M ?h code addr slot = cs_disasm_iter E M h code addr slot"
  proof -
    have "?h\<lparr>errnum := CS_ERR_OK\<rparr> = ?h" by simp
    then show ?thesis unfolding cs_disasm_iter_def by (simp only:)
  qed
  have "all_printable E inv printable (detail ?h) code" using assms(5) by simp
  from disasm_one_law [OF h(1-3) assms(4) this, where org = code and oo = addr and off = addr]
  obtain h' insn nxt where o: "disasm_one E M code addr ?h code addr slot = Some (h', insn, nxt)" "inv h'"
    "same_setup ?h h'" "insn_ok insn" "\<forall>n. nxt = Some n \<longrightarrow> describes insn addr code n" .
  have "sk_callback (skipdata_setup ?h) = None \<or> code = code \<and> addr = addr" by simp
  from iter_of_one_detail [OF h(1,2,4) this o(1)] obtain insn' where
    i: "cs_disasm_iter E M h code addr slot =
      (case nxt of None \<Rightarrow> Some (False, h', code, addr, insn') | Some n \<Rightarrow> Some (True, h', drop n code, addr + of_nat n, insn'))"
    "insn = insn'\<lparr>idetail := idetail insn\<rparr>" "idetail slot = None \<longrightarrow> insn' = insn" unfolding e .
  show thesis
  proof (cases nxt)
    case None
    show ?thesis by (rule that [of False h' code addr insn']) (use None i(1) o(2) in simp_all)
  next
    case (Some n)
    have "describes insn addr code n" using o(5) Some by simp
    then have d: "describes insn' addr code n" by (subst (asm) i(2)) (simp add: describes_update_detail)
    then have u: "unat (isize insn') = n" by (simp add: describes_def)
    show ?thesis
      by (rule that [of True h' "drop n code" "addr + of_nat n" insn']) (use i(1) o(2) Some d u in \<open>simp_all add: Let_def\<close>)
  qed
qed

lemma iterate_loop:
  assumes "memory_ok M" "length org < 2 ^ 28" "\<forall>k. alloc M k"
  shows "inv (st_handle st) \<Longrightarrow> skip_ok (st_handle st) \<Longrightarrow> detail (st_handle st) = 0 \<Longrightarrow> errnum (st_handle st) = CS_ERR_OK \<Longrightarrow>
    sk_callback (skipdata_setup (st_handle st)) = None \<Longrightarrow> all_printable E inv printable 0 (st_buffer st) \<Longrightarrow>
    counters_ok M 0 st \<Longrightarrow> covered oo org st (st_offset st) (st_buffer st) \<Longrightarrow> st_c st + length (st_buffer st) < N \<Longrightarrow>
    \<exists>st' is. disasm_loop E M org oo 0 st = Some (Break st') \<and>
      iterate E M (st_handle st) (st_buffer st) (st_offset st) (map (blank_slot M) [st_c st..<N]) = Some is \<and>
      take (st_c st') (st_total st') = take (st_c st) (st_total st) @ is \<and> st_c st' = st_c st + length is"
proof (induction "length (st_buffer st)" arbitrary: st rule: less_induct)
  case less
  let ?h = "st_handle st" and ?c = "st_c st"
  have slots: "map (blank_slot M) [?c..<N] = blank_slot M ?c # map (blank_slot M) [Suc ?c..<N]"
    using less.prems(9) by (simp add: upt_conv_Cons)
  have so: "slot_of M st = blank_slot M ?c"
    using counters_ok_slot [OF less.prems(7)] less.prems(3,7) by (simp add: slot_of_def blank_slot_def counters_ok_def)
  have ok: "slot_ok ?h (blank_slot M ?c)" "idetail (blank_slot M ?c) = None"
    using assms(1) less.prems(3) by (simp_all add: slot_ok_def blank_slot_def memory_ok_def insn_ok_def)
  show ?case
  proof (cases "st_buffer st = []")
    case True
    have "all_printable E inv printable (detail ?h) []" using less.prems(3,6) True by simp
    from disasm_one_law [OF less.prems(1) ok(1) less.prems(2) assms(1) this, where org = org and oo = oo and off = "st_offset st"]
    obtain h' insn nxt where o: "disasm_one E M org oo ?h [] (st_offset st) (blank_slot M ?c) = Some (h', insn, nxt)"
      "inv h'" "same_setup ?h h'" "insn_ok insn" "\<forall>n. nxt = Some n \<longrightarrow> describes insn (st_offset st) [] n" .
    then have "nxt = None" by (cases nxt) (auto simp: describes_def)
    then have "iterate E M ?h (st_buffer st) (st_offset st) (map (blank_slot M) [?c..<N]) = Some []"
      using iter_of_one [OF less.prems(1) ok(1) less.prems(4,5) ok(2) o(1)] True slots by simp
    moreover have "disasm_loop E M org oo 0 st = Some (Break st)" using True by (subst disasm_loop.simps) simp
    ultimately show ?thesis by (intro exI [of _ st] exI [of _ "[]"]) simp
  next
    case False
    have "detail ?h \<noteq> 0 \<Longrightarrow> \<forall>k. alloc M k" using assms(3) by simp
    from disasm_step_law [OF less.prems(1,2) assms(1) this less.prems(6) [folded less.prems(3)] less.prems(7,8) assms(2)]
    obtain h' insn nxt r where d: "disasm_step E M org oo 0 st = Some r" "inv h'" "same_setup ?h h'"
      "disasm_one E M org oo ?h (st_buffer st) (st_offset st) (slot_of M st) = Some (h', insn, nxt)"
      "good_round M oo org 0 (st\<lparr>st_handle := h'\<rparr>) insn nxt r" .
    note it = iter_of_one [OF less.prems(1) ok(1) less.prems(4,5) ok(2) d(4) [unfolded so]]
    have u: "disasm_loop E M org oo 0 st = (case r of Continue st \<Rightarrow> disasm_loop E M org oo 0 st | _ \<Rightarrow> Some r)"
      using False d(1) by (subst disasm_loop.simps) (simp split: outcome.split)
    show ?thesis
    proof (cases r)
      case (Continue st')
      then obtain n where s: "st_handle st' = h'" "counters_ok M 0 st'" "covered oo org st' (st_offset st') (st_buffer st')"
        "st_c st' = Suc ?c" "take (Suc ?c) (st_total st') = take ?c (st_total st) @ [insn]" "nxt = Some n" "0 < n"
        "n \<le> length (st_buffer st)" "st_buffer st' = drop n (st_buffer st)" "st_offset st' = st_offset st + of_nat n"
        using d(5) by (auto simp: good_round_def)
      have l: "length (st_buffer st') < length (st_buffer st)" using s(7-9) by simp
      have p: "inv (st_handle st')" "skip_ok (st_handle st')" "detail (st_handle st') = 0" "errnum (st_handle st') = CS_ERR_OK"
        "sk_callback (skipdata_setup (st_handle st')) = None" "all_printable E inv printable 0 (st_buffer st')"
        "st_c st' + length (st_buffer st') < N"
        using d(2,3) s l less.prems(2-6,9) skip_ok_setup [OF d(3)] all_printable_drop by (simp_all add: same_setup_def)
      from less.hyps [OF l p(1-6) s(2,3) p(7)] obtain st2 "is" where
        "disasm_loop E M org oo 0 st' = Some (Break st2)"
        "iterate E M h' (st_buffer st') (st_offset st') (map (blank_slot M) [Suc ?c..<N]) = Some is"
        "take (st_c st2) (st_total st2) = take (st_c st') (st_total st') @ is" "st_c st2 = st_c st' + length is"
        unfolding s(1,4) by blast
      then show ?thesis using u Continue it s slots by (intro exI [of _ st2] exI [of _ "insn # is"]) simp
    next
      case (Break st')
      then have "nxt = None" "st_c st' = ?c" "take ?c (st_total st') = take ?c (st_total st)" using d(5) by (simp_all add: good_round_def)
      then show ?thesis using u Break it slots by (intro exI [of _ st'] exI [of _ "[]"]) simp
    qed (use d(5) assms(3) in \<open>simp add: good_round_def\<close>)
  qed
qed

lemma cs_disasm_iterate:
  assumes "inv h" "skip_ok h" "memory_ok M" "\<forall>k. alloc M k" "length buf < 2 ^ 28" "detail h = 0"
    "sk_callback (skipdata_setup h) = None" "all_printable E inv printable 0 buf" "length buf < N"
  obtains h' "is" where "cs_disasm E M h buf off 0 out = Some (h', length is, if is = [] then None else Some is)"
    "iterate E M (reset_handle h) buf off (map (blank_slot M) [0..<N]) = Some is"
proof -
  let ?st = "start_state M h buf off 0"
  note h2 = reset_handle_ok [OF assms(1,2)]
  have "\<exists>st' is. disasm_loop E M buf off 0 ?st = Some (Break st') \<and>
      iterate E M (st_handle ?st) (st_buffer ?st) (st_offset ?st) (map (blank_slot M) [st_c ?st..<N]) = Some is \<and>
      take (st_c st') (st_total st') = take (st_c ?st) (st_total ?st) @ is \<and> st_c st' = st_c ?st + length is"
    by (rule iterate_loop [OF assms(3,5,4)]) (use h2 assms in \<open>simp_all add: start_state_ok\<close>)
  then obtain st' "is" where i: "disasm_loop E M buf off 0 ?st = Some (Break st')"
      "iterate E M (reset_handle h) buf off (map (blank_slot M) [0..<N]) = Some is"
      "take (st_c st') (st_total st') = is" "st_c st' = length is"
    unfolding start_state_ok take_0 append_Nil add_0 by blast
  have "\<exists>r h'. disasm_loop E M buf off 0 ?st = Some r \<and> inv h' \<and> same_setup (st_handle ?st) h' \<and> loop_result M off buf 0 h' r"
    by (rule disasm_loop_law [OF assms(3,5)]) (use h2 assms(6,8) in \<open>simp_all add: start_state_ok\<close>)
  then have f: "finished 0 st'" "\<exists>off' buf'. covered off buf st' off' buf'" "errnum (st_handle st') = CS_ERR_OK"
    using i(1) h2(4) by (auto simp: loop_result_def start_state_ok same_setup_def)
  from disasm_finish_result [OF f, of M out] obtain h' n out' where
    "disasm_finish M st' = (h', n, out')" "disasm_result M off buf 0 h' n out out'"
    "out' = (if st_c st' = 0 then None else Some (take (st_c st') (st_total st')))" using assms(4) by metis
  moreover from this have "n = length is"
    using assms(4) i(3,4) by (auto simp: disasm_result_def split: if_splits)
  ultimately show ?thesis using that [OF _ i(2), of h'] cs_disasm_unfold [of E M h buf off 0 out] assms(4) i by auto
qed

end

end
