(* ===== verification/ARM_Print_Correct.thy ===== *)
theory ARM_Print_Correct
  imports ARM_Printer_Table CS_Engine_Correct
begin

text \<open>\<^verbatim>\<open>ARM_printInst\<close> prints every instruction whose operands are of the kinds that its statements read, and stays inside its arrays; what is printed
  and what is recorded.\<close>

unbundle bit_operations_syntax

subsection \<open>Every program of the table\<close>

definition sound_program :: "nat \<Rightarrow> cmd list \<Rightarrow> bool" where
  "sound_program nl0 cs \<longleftrightarrow>
     (\<exists>al ah nl nh. flow cs False = Some (False, al, ah, nl, nh) \<and> nl \<le> nl0 \<and> nl0 + nh \<le> ARM_OPERANDS) \<and> total_width cs \<le> 494 \<and>
     list_all nul_free cs"

lemma chosen_nul_free: "list_all (\<lambda>(s, m, cases). fragment_ok cases) fs \<Longrightarrow> list_all nul_free (chosen fs B)"
proof (induction fs B rule: chosen.induct)
  case (2 shift field cases fs Bits)
  let ?v = "unat (drop_bit shift Bits AND field)"
  obtain cs r where c: "cases ! (if ?v < length cases then ?v else 0) = (cs, r)" by fastforce
  have "(cs, r) \<in> set cases"
    using 2(2) nth_mem [of "if ?v < length cases then ?v else 0" cases] unfolding c by (auto simp: fragment_ok_def split: if_splits)
  then have "list_all nul_free cs" using 2(2) by (auto simp: fragment_ok_def list_all_iff)
  then show ?case using 2 c by (auto simp: Let_def)
qed simp

lemma fields_ok: "list_all (\<lambda>(k, cases). fragment_ok cases) fields" "list_all (\<lambda>(s, m, cases). fragment_ok cases) fragments"
  by (simp_all add: fields_def fragments_def fragment_0_ok fragment_1_ok fragment_2_ok fragment_3_ok fragment_4_ok fragment_5_ok fragment_6_ok
      fragment_7_ok fragment_8_ok fragment_9_ok fragment_10_ok)

lemma unat_entry_bits: "unat (entry_bits a b) = unat b * 4294967296 + unat a"
proof -
  have "entry_bits a b = push_bit 32 (ucast b) + ucast a"
    unfolding entry_bits_def by (rule disjunctive_add [symmetric]) (auto simp: bit_simps dest: bit_imp_le_length)
  moreover have "unat a < 2 ^ 32" "unat b < 2 ^ 32" using unat_less [of a] unat_less [of b] by simp_all
  moreover from this have "unat (ucast a :: u64) = unat a" "unat (ucast b :: u64) = unat b"
    by (simp_all add: unsigned_ucast_eq take_bit_nat_eq_self)
  ultimately show ?thesis
    by (simp add: push_bit_eq_mult unat_word_ariths)
qed

lemma preload_offset:
  assumes "plain_preload opc"
  shows "take_bit 12 (unat (OpInfo ! opc)) - 1 \<in> {771, 806, 875}"
proof -
  have opc: "opc \<in> {260, 261, 262, 263, 264, 265}" using assms by (auto simp: plain_preload_def)
  have "take_bit 12 (unat (OpInfo_2 ! (k - 200))) - 1 \<in> {771, 806, 875}" if "k \<in> {260, 261, 262, 263, 264, 265}" for k
    using that by (auto simp: OpInfo_2_def)
  moreover have "OpInfo ! (200 + j) = OpInfo_2 ! j" if "j < 100" for j
    using that by (simp add: OpInfo_def nth_append chunk_lengths)
  from this [of "opc - 200"] have "OpInfo ! opc = OpInfo_2 ! (opc - 200)" using opc by auto
  ultimately show ?thesis using opc by simp
qed

text \<open>What the check of the table says of the statements of an instruction.\<close>

lemma program_cases:
  assumes "program opc = Some cs"
  obtains t B where "cs = Text t # chosen fragments B" "fine 14 t" "good opc (summarize (chosen fragments B))" "plain_preload opc \<Longrightarrow> list_ex blank t"
proof -
  obtain B where B: "bits_of opc = Some B" "B AND 4095 \<noteq> 0" "cs = Text (asm_text (unat (B AND 4095) - 1)) # chosen fragments B"
    using assms by (auto simp: program_def split: option.splits if_splits)
  let ?a = "OpInfo ! opc" and ?b = "OpInfo2 ! opc"
  have l: "opc < length OpInfo" "B = entry_bits ?a ?b" using B(1) by (auto simp: bits_of_def split: if_splits)
  have n: "unat B = unat ?b * 4294967296 + unat ?a" using l(2) unat_entry_bits by simp
  have "unat (B AND 4095) = take_bit 12 (unat B)"
    using field_value [of 0 B 12] by simp
  also have "\<dots> = take_bit 12 (unat ?a)" unfolding n by (simp add: take_bit_eq_mod mod_add_left_eq [symmetric] mod_mult_right_eq [symmetric])
  finally have o: "unat (B AND 4095) = take_bit 12 (unat ?a)" .
  have "take_bit 12 (unat ?a) \<noteq> 0" using B(2) unfolding o [symmetric] by (simp add: unat_eq_0)
  then have "good opc (summarize (chosen fragments B))"
    using checked_nth [OF checked_table l(1)] pick_chosen [OF fields_ok(1), of 12 B] by (simp add: checked_def n fragments_fields)
  moreover have "list_ex blank (asm_text (unat (B AND 4095) - 1))" if "plain_preload opc"
    using preload_offset [OF that] preload_texts unfolding o by (auto simp: blank_def)
  ultimately show thesis using that [OF B(3) asm_text_fine] by blast
qed

lemma program_sound:
  assumes "program opc = Some cs"
  shows "sound_program (if shifted_preload opc then 1 else 0) cs \<and> first_word cs < MNEMONIC_SIZE"
proof -
  obtain t B where c: "cs = Text t # chosen fragments B" "fine 14 t" "good opc (summarize (chosen fragments B))" "plain_preload opc \<Longrightarrow> list_ex blank t"
    using program_cases [OF assms] by blast
  let ?cs = "chosen fragments B"
  obtain al ah nl nh where f: "flow ?cs False = Some (False, al, ah, nl, nh)" "nl = 0 \<or> nl = 1 \<and> shifted_preload opc" "nh < ARM_OPERANDS"
    using c(3) by (auto simp: summarize_def split: option.splits)
  have w: "total_width ?cs \<le> 480" "plain_preload opc \<or> first_word ?cs < 18"
    using c(3) by (auto simp: summarize_def first_word_def split: option.splits)
  have "sound_program (if shifted_preload opc then 1 else 0) cs"
    using f w(1) c(2) chosen_nul_free [OF fields_ok(2)] by (auto simp: sound_program_def c(1) grow_def fine_def)
  moreover have "first_word cs < MNEMONIC_SIZE"
  proof (cases "list_ex blank t")
    case True
    then show ?thesis using c(2) length_takeWhile_le [of "\<lambda>ch. \<not> blank ch" t] by (simp add: c(1) first_word_def fine_def MNEMONIC_SIZE_def)
  next
    case False
    then have "first_word cs = length t + first_word ?cs" by (simp add: c(1) first_word_def split: option.split)
    then show ?thesis using False w(2) c(2,4) by (auto simp: fine_def MNEMONIC_SIZE_def)
  qed
  ultimately show ?thesis ..
qed

subsection \<open>The canonical forms\<close>

lemma canonical_sound:
  assumes "canonical v8 MI = Some cs"
  shows "sound_program 0 cs \<and> first_word cs < MNEMONIC_SIZE"
proof -
  note shapes = sound_program_def first_word_def grow_def after_operand_def register_effect_def number_effect_def register_width_def number_width_def
    blank_def TAB_def NUL_def ARM_OPERANDS_def MNEMONIC_SIZE_def stack_list_def stack_one_def wide_def hint_name_def
  show ?thesis
    using assms unfolding canonical_def Let_def
    by (auto simp: shapes split: if_splits)
qed

subsection \<open>Printing stays inside the arrays\<close>

definition statements :: "bool \<Rightarrow> MCInst \<Rightarrow> cmd list option" where
  "statements v8 MI = (case canonical v8 MI of Some cs \<Rightarrow> Some cs | None \<Rightarrow> program (MCInst_getOpcode MI))"

text \<open>An instruction can be printed when its statements find operands of the kinds they read, and when with details it is no preload with a
  shifted index.\<close>

definition operands_fit :: "MCInst \<Rightarrow> bool" where
  "operands_fit MI \<longleftrightarrow> \<not> unpaired MI \<and>
     list_all (\<lambda>v8. case statements v8 MI of None \<Rightarrow> False | Some cs \<Rightarrow> list_all (fits MI) cs) [True, False]"

definition printable :: "handle \<Rightarrow> MCInst \<Rightarrow> bool" where
  "printable h MI \<longleftrightarrow> (detail h = 0 \<or> detail h = CS_OPT_ON \<and> \<not> shifted_preload (MCInst_getOpcode MI)) \<and> operands_fit MI"

definition fresh_arm :: "cs_insn \<Rightarrow> bool" where
  "fresh_arm insn \<longleftrightarrow> (case idetail insn of None \<Rightarrow> True | Some d \<Rightarrow> op_count d = 0 \<and> length (operands d) = ARM_OPERANDS)"

text \<open>An IT instruction is printed from two immediates.\<close>

lemma program_IT: "program ARM_t2IT = Some [Text ''it'', Number call_printThumbITMask 1, Text [TAB], Number call_printMandatoryPredicateOperand 0]"
proof -
  have "bits_of ARM_t2IT = Some 117504627"
    by (simp add: bits_of_def table_length table_nth OpInfo_23_def OpInfo2_23_def entry_bits_def)
  moreover have "asm_text 2674 = ''it''" by (simp add: asm_text_chunk AsmStrings_3_def NUL_def)
  moreover have "chosen fragments 117504627 = [Number call_printThumbITMask 1, Text [TAB], Number call_printMandatoryPredicateOperand 0]"
    by (simp add: fragments_def fragment_0_def fragment_1_def fragment_2_def)
  ultimately show ?thesis by (simp add: program_def)
qed

lemma operands_fit_IT: "Opcode MI = ARM_t2IT \<Longrightarrow> operands_fit MI \<longleftrightarrow> is_imm MI 0 \<and> is_imm MI 1"
proof -
  assume o: "Opcode MI = ARM_t2IT"
  have "statements v8 MI = program ARM_t2IT" for v8
    using o by (simp add: statements_def canonical_def Let_def MCInst_getOpcode_def)
  then show ?thesis using o unfolding program_IT by (auto simp: operands_fit_def unpaired_def Let_def MCInst_getOpcode_def)
qed

lemma printInst_statements:
  "\<not> unpaired MI \<Longrightarrow> statements (HasV8 (ps_handle p)) MI = Some cs \<Longrightarrow> ARM_printInst MI p = exec_all MI cs p"
  by (auto simp: ARM_printInst_def statements_def printInstruction_def split: option.splits)

lemma canonical_shifted: "shifted_preload (MCInst_getOpcode MI) \<Longrightarrow> canonical v8 MI = None"
  unfolding shifted_preload_def by (elim disjE) (simp_all add: canonical_def Let_def)

lemma statements_sound:
  assumes "statements v8 MI = Some cs"
  shows "sound_program (if shifted_preload (MCInst_getOpcode MI) then 1 else 0) cs \<and> first_word cs < MNEMONIC_SIZE"
proof (cases "canonical v8 MI")
  case None
  then show ?thesis using assms program_sound by (simp add: statements_def)
next
  case (Some ds)
  then have "cs = ds" "\<not> shifted_preload (MCInst_getOpcode MI)" using assms canonical_shifted by (auto simp: statements_def)
  then show ?thesis using canonical_sound [OF Some] by simp
qed

lemma effect_room: "effect c m = Some (m', al, ah, nl, nh) \<Longrightarrow> ah \<le> nh"
proof (cases c)
  case (Registers f i)
  then show "effect c m = Some (m', al, ah, nl, nh) \<Longrightarrow> ah \<le> nh"
    by (cases f) (auto simp: register_effect_def touch_def grow_shifted_def after_operand_def grow_def split: if_splits)
next
  case (Number f i)
  then show "effect c m = Some (m', al, ah, nl, nh) \<Longrightarrow> ah \<le> nh"
    by (cases f) (auto simp: number_effect_def touch_def grow_def split: if_splits)
qed (auto simp: memory_effect_def after_operand_def grow_def split: if_splits)

lemma flow_room: "flow cs m = Some (m', al, ah, nl, nh) \<Longrightarrow> ah \<le> nh"
proof (induction cs arbitrary: m m' al ah nl nh)
  case (Cons c cs)
  obtain m1 al1 ah1 nl1 nh1 where c: "effect c m = Some (m1, al1, ah1, nl1, nh1)" using Cons.prems by (cases "effect c m") auto
  obtain m2 al2 ah2 nl2 nh2 where f: "flow cs m1 = Some (m2, al2, ah2, nl2, nh2)" using Cons.prems c by (cases "flow cs m1") auto
  show ?case using Cons.prems Cons.IH [OF f] c f by auto
qed simp

lemma print_safe:
  assumes "printable h MI" "\<not> doing_mem h" "slot_ok h insn" "fresh_arm insn" "ps_handle p = h" "ps_insn p = insn" "stream_ok (ps_stream p)" "ptext p = []"
  obtains p' lo hi where "ARM_printInst MI p = Some p'" "live h insn (False, lo, hi) p'" "hi \<le> ARM_OPERANDS"
    "length (takeWhile (\<lambda>ch. \<not> blank ch) (ptext p')) < MNEMONIC_SIZE"
proof -
  let ?n = "if shifted_preload (MCInst_getOpcode MI) then 1 else 0 :: nat"
  let ?v = "HasV8 (ps_handle p)"
  have u: "\<not> unpaired MI" and d: "detail h = 0 \<or> detail h = CS_OPT_ON \<and> ?n = 0" using assms(1) by (auto simp: printable_def operands_fit_def)
  obtain cs where cs: "statements ?v MI = Some cs" "list_all (fits MI) cs"
    using assms(1) by (cases ?v) (auto simp: printable_def operands_fit_def split: option.splits)
  note s = statements_sound [OF cs(1)]
  obtain al ah nl nh where f: "flow cs False = Some (False, al, ah, nl, nh)" "nl \<le> ?n" "?n + nh \<le> ARM_OPERANDS"
    and w: "total_width cs \<le> 494" "list_all nul_free cs" using s unfolding sound_program_def by blast
  have fit: "fit (flow cs False) ?n ?n = Some (False, ?n + al, ?n + ah)" using f by simp
  have h: "h\<lparr>doing_mem := False\<rparr> = h" using assms(2) by (cases h) simp
  have "live h insn (False, ?n, ?n) p"
  proof (cases "detail h = 0")
    case True
    then show ?thesis using assms(5-7) h by simp
  next
    case False
    then obtain x where "idetail insn = Some x" using assms(3) by (auto simp: slot_ok_def)
    moreover from this have "insn\<lparr>idetail := Some x\<rparr> = insn" by (cases insn) simp
    moreover have "?n = 0" using d False by auto
    ultimately show ?thesis using d False assms(4-7) h by (auto simp: fresh_arm_def details_ok_def intro: exI [of _ x])
  qed
  note l = this
  have t: "length (ptext p) + total_width cs \<le> 500" using w(1) assms(8) by simp
  from safeD [OF flow_sound [OF cs(2) w(2) fit] l t] obtain p' x
    where p': "exec_all MI cs p = Some p'" "live h insn (False, ?n + al, ?n + ah) p'" by metis
  have "length (takeWhile (\<lambda>ch. \<not> blank ch) (ptext p')) < MNEMONIC_SIZE"
    using first_word_sound [OF cs(2) w(2) fit l t p'(1)] s assms(8) by simp
  moreover have "?n + ah \<le> ARM_OPERANDS" using flow_room [OF f(1)] f(3) by simp
  ultimately show thesis using that [of p' "?n + al" "?n + ah"] printInst_statements [OF u cs(1)] p' by simp
qed

lemma split_asm_text: "NUL \<notin> set s \<Longrightarrow> \<exists>m sp. split_asm (s @ NUL # r) = Some (m, sp) \<and> length m = length (takeWhile (\<lambda>ch. \<not> blank ch) s)"
  by (induction s) (auto simp: blank_def TAB_def)

lemma stream_text_ok:
  assumes "stream_ok ss" "length (takeWhile (\<lambda>ch. \<not> blank ch) (stream_text ss)) < MNEMONIC_SIZE"
  shows "text_ok (sbuffer ss)"
proof -
  have "sbuffer ss = take (sindex ss) (sbuffer ss) @ NUL # drop (Suc (sindex ss)) (sbuffer ss)"
    using assms(1) id_take_nth_drop [of "sindex ss" "sbuffer ss"] by (simp add: stream_ok_def)
  moreover have "NUL \<notin> set (take (sindex ss) (sbuffer ss))" using assms(1) by (simp add: stream_ok_def)
  ultimately show ?thesis
    using split_asm_text [of "take (sindex ss) (sbuffer ss)" "drop (Suc (sindex ss)) (sbuffer ss)"] assms(2)
    by (auto simp: stream_text_index [OF assms(1)] text_ok_def)
qed

end
