(* ===== verification/ARM_Disassembler_Correct.thy ===== *)
theory ARM_Disassembler_Correct
  imports ARM_Disassembler
begin

text \<open>Correctness of the ARM and Thumb disassemblers: well-formed decoder tables are read safely, both
  disassemblers return, keep the invariant of the handle and the bounds of the operand array, report
  sizes that the input has, treat both byte orders alike and give Thumb instructions the predicate of
  the architecture.\<close>

unbundle bit_operations_syntax

subsection \<open>Tables that the interpreter reads safely\<close>

text \<open>The instruction at the head of a table: the rest after it, and the rests where the interpreter may go
  on; \<open>None\<close> if the instruction is cut off by the end of the table.\<close>

definition after_skip :: "u8 list \<Rightarrow> (u8 list \<times> u8 list list) option" where
  "after_skip p = (case read_skip p of None \<Rightarrow> None | Some (n, p) \<Rightarrow> Some (p, [p, drop n p]))"

definition after_uleb :: "u8 list \<Rightarrow> (u8 list \<Rightarrow> 'r option) \<Rightarrow> 'r option" where
  "after_uleb p k = (case decodeULEB128 p of None \<Rightarrow> None | Some (v, p) \<Rightarrow> k p)"

definition table_op :: "u8 list \<Rightarrow> (u8 list \<times> u8 list list) option" where
  "table_op Ptr =
     (case Ptr of
        [] \<Rightarrow> None
      | opc # p \<Rightarrow>
          if opc = MCD_OPC_ExtractField then (case p of _ # _ # p \<Rightarrow> Some (p, [p]) | _ \<Rightarrow> None)
          else if opc = MCD_OPC_FilterValue then after_uleb p after_skip
          else if opc = MCD_OPC_CheckField then (case p of _ # _ # p \<Rightarrow> after_uleb p after_skip | _ \<Rightarrow> None)
          else if opc = MCD_OPC_CheckPredicate then after_uleb p after_skip
          else if opc = MCD_OPC_Decode then after_uleb p (\<lambda>p. after_uleb p (\<lambda>p. Some (p, [])))
          else if opc = MCD_OPC_SoftFail then after_uleb p (\<lambda>p. after_uleb p (\<lambda>p. Some (p, [p])))
          else Some (p, []))"

text \<open>The rests at which an instruction starts, read from the front to the end.\<close>

function table_sweep :: "u8 list \<Rightarrow> u8 list list" where
  "table_sweep p = (case table_op p of None \<Rightarrow> [] | Some (q, _) \<Rightarrow> p # (if length q < length p then table_sweep q else []))"
  by pat_completeness auto

termination table_sweep
  by (relation "measure length") auto

declare table_sweep.simps [simp del]

text \<open>A table is well-formed if every jump goes to the start of an instruction that is complete.\<close>

definition table_ok :: "u8 list \<Rightarrow> bool" where
  "table_ok T \<longleftrightarrow>
     (let B = table_sweep T
      in T \<in> set B \<and>
         list_all (\<lambda>p. case table_op p of None \<Rightarrow> False | Some (_, next) \<Rightarrow> list_all (\<lambda>q. q \<in> set B) next) B)"

lemmas MCD_OPC_defs = MCD_OPC_ExtractField_def MCD_OPC_FilterValue_def MCD_OPC_CheckField_def
  MCD_OPC_CheckPredicate_def MCD_OPC_Decode_def MCD_OPC_SoftFail_def

lemma after_uleb_Some:
  "after_uleb p k = Some x \<longleftrightarrow> (\<exists>v q. decodeULEB128 p = Some (v, q) \<and> k q = Some x)"
  by (simp add: after_uleb_def split: option.split)

lemma after_skip_Some:
  "after_skip p = Some (r, next) \<longleftrightarrow> (\<exists>n. read_skip p = Some (n, r) \<and> next = [r, drop n r])"
  by (auto simp: after_skip_def split: option.split)

lemma read_args_Some:
  "(case p of a # b # q \<Rightarrow> f a b q | _ \<Rightarrow> None) = Some x \<longleftrightarrow> (\<exists>a b q. p = a # b # q \<and> f a b q = Some x)"
  by (auto split: list.split)

lemma decode_loop_total:
  assumes "p \<in> B" "\<And>q. q \<in> B \<Longrightarrow> \<exists>r next. table_op q = Some (r, next) \<and> set next \<subseteq> B"
  shows "decode_loop field decoder check Bits insn MI p cur S \<noteq> None"
  using assms(1)
proof (induction "length p" arbitrary: p cur S rule: less_induct)
  case less
  obtain r "next" where n: "table_op p = Some (r, next)" "set next \<subseteq> B" using assms(2) [OF less.prems] by blast
  obtain opc q where p: "p = opc # q" using n by (cases p) (auto simp: table_op_def)
  note op = n(1) [unfolded p table_op_def list.case]
  note IH = less.hyps [unfolded p]
  consider "opc = 1" | "opc = 2" | "opc = 3" | "opc = 4" | "opc = 5" | "opc = 6" | "opc \<notin> {1, 2, 3, 4, 5, 6}" by blast
  then show ?case
  proof cases
    case 1
    then show ?thesis using op n(2) IH unfolding p
      by (subst decode_loop.simps) (auto simp: MCD_OPC_defs read_args_Some)
  next
    case 2
    then obtain v q' k where "decodeULEB128 q = Some (v, q')" "read_skip q' = Some (k, r)" "next = [r, drop k r]"
      using op by (auto simp: MCD_OPC_defs after_uleb_Some after_skip_Some)
    moreover from this have "length r < length p" using decodeULEB128_shorter [of q] read_skip_shorter [of q'] p by force
    ultimately show ?thesis using 2 n(2) less.hyps unfolding p
      by (subst decode_loop.simps) (simp add: MCD_OPC_defs Let_def)
  next
    case 3
    then obtain a b q0 v q' k where "q = a # b # q0" "decodeULEB128 q0 = Some (v, q')" "read_skip q' = Some (k, r)" "next = [r, drop k r]"
      using op by (auto simp: MCD_OPC_defs after_uleb_Some after_skip_Some read_args_Some)
    moreover from this have "length r < length p" using decodeULEB128_shorter [of q0] read_skip_shorter [of q'] p by force
    ultimately show ?thesis using 3 n(2) less.hyps unfolding p
      by (subst decode_loop.simps) (simp add: MCD_OPC_defs Let_def)
  next
    case 4
    then obtain v q' k where "decodeULEB128 q = Some (v, q')" "read_skip q' = Some (k, r)" "next = [r, drop k r]"
      using op by (auto simp: MCD_OPC_defs after_uleb_Some after_skip_Some)
    moreover from this have "length r < length p" using decodeULEB128_shorter [of q] read_skip_shorter [of q'] p by force
    ultimately show ?thesis using 4 n(2) less.hyps unfolding p
      by (subst decode_loop.simps) (simp add: MCD_OPC_defs Let_def)
  next
    case 5
    then show ?thesis using op unfolding p
      by (subst decode_loop.simps) (auto simp: MCD_OPC_defs after_uleb_Some Let_def)
  next
    case 6
    then obtain v q' w where "decodeULEB128 q = Some (v, q')" "decodeULEB128 q' = Some (w, r)" "next = [r]"
      using op by (auto simp: MCD_OPC_defs after_uleb_Some)
    moreover from this have "length r < length p" using decodeULEB128_shorter [of q] decodeULEB128_shorter [of q'] p by force
    ultimately show ?thesis using 6 n(2) less.hyps unfolding p
      by (subst decode_loop.simps) (simp add: MCD_OPC_defs Let_def)
  next
    case 7
    then show ?thesis unfolding p by (subst decode_loop.simps) (simp add: MCD_OPC_defs)
  qed
qed

lemma table_ok_total:
  "table_ok T \<Longrightarrow> decode_loop field decoder check Bits insn MI T cur S \<noteq> None"
  by (rule decode_loop_total [of T "set (table_sweep T)"])
    (simp add: table_ok_def Let_def, fastforce simp: table_ok_def Let_def list_all_iff subset_iff split: option.splits)

subsection \<open>Attempts\<close>

lemma try_table_cases:
  assumes "try_table d ok next = Some r"
    "\<And>S MI. d = Some (S, MI) \<Longrightarrow> S \<noteq> MCDisassembler_Fail \<Longrightarrow> ok S MI = Some r \<Longrightarrow> Q"
    "\<And>MI. d = Some (MCDisassembler_Fail, MI) \<Longrightarrow> next MI = Some r \<Longrightarrow> Q"
  shows Q
  using assms by (auto simp: try_table_def split: option.splits if_splits)

lemma try_if_cases:
  assumes "try_if c d ok next MI0 = Some r"
    "\<And>S MI. c \<Longrightarrow> d = Some (S, MI) \<Longrightarrow> S \<noteq> MCDisassembler_Fail \<Longrightarrow> ok S MI = Some r \<Longrightarrow> Q"
    "\<And>MI. next MI = Some r \<Longrightarrow> Q"
  shows Q
  using assms by (auto simp: try_if_def elim: try_table_cases split: if_splits)

subsection \<open>Post-passes\<close>

lemma AddThumbPredicate_IT_ok:
  "AddThumbPredicate G ud MI = (S, ud', MI') \<Longrightarrow> IT_ok (ITBlock ud) \<Longrightarrow> IT_ok (ITBlock ud')"
  using getITCC_hd(3) [of "ITBlock ud"] by (auto simp: AddThumbPredicate_def Let_def split: if_splits)

lemma AddThumbPredicate_mode:
  "AddThumbPredicate G ud MI = (S, ud', MI') \<Longrightarrow> cs_mode ud' = cs_mode ud \<and> big_endian ud' = big_endian ud"
  by (auto simp: AddThumbPredicate_def Let_def split: if_splits)

lemma AddThumbPredicate_outside:
  "AddThumbPredicate G ud MI = (S, ud', MI') \<Longrightarrow> \<not> ITStatus_instrInITBlock (ITBlock ud) \<Longrightarrow> ud' = ud"
  by (auto simp: AddThumbPredicate_def Let_def split: if_splits)

lemma insert_predicate_fields [simp]:
  "Opcode (insert_predicate MI i CC) = Opcode MI"
  "length (Operands (insert_predicate MI i CC)) = length (Operands MI) + 2"
  by (simp_all add: insert_predicate_def MCInst_insert0_def)

lemma AddThumbPredicate_opcode:
  "AddThumbPredicate G ud MI = (S, ud', MI') \<Longrightarrow>
   Opcode MI' = Opcode MI \<and> length (Operands MI') \<le> length (Operands MI) + 2 \<and> S \<noteq> MCDisassembler_Fail"
  by (auto simp: AddThumbPredicate_def Let_def split: if_splits)

lemma Check_not_Fail: "a \<noteq> MCDisassembler_Fail \<Longrightarrow> b \<noteq> MCDisassembler_Fail \<Longrightarrow> fst (Check a b) \<noteq> MCDisassembler_Fail"
  by (cases b) simp_all

text \<open>What the code after a successful attempt keeps: the invariant of the IT block, a status that is
  not \<^verbatim>\<open>Fail\<close>, the size it reports, at most three operands more, and the mode.\<close>

definition thumb_post :: "cs_struct \<Rightarrow> MCInst \<Rightarrow> nat \<Rightarrow> thumb_result \<Rightarrow> bool" where
  "thumb_post ud MI n = (\<lambda>(S, ud', MI', n'). IT_ok (ITBlock ud') \<and> S \<noteq> MCDisassembler_Fail \<and> n' = n \<and>
     length (Operands MI') \<le> length (Operands MI) + 3 \<and> cs_mode ud' = cs_mode ud \<and> big_endian ud' = big_endian ud)"

lemma AddThumb1SBit_length [simp]: "length (Operands (AddThumb1SBit G MI b)) = length (Operands MI) + 1"
  by (simp add: AddThumb1SBit_def MCInst_insert0_def Let_def)

lemma thumb_done_post:
  assumes "IT_ok (ITBlock ud)" "S \<noteq> MCDisassembler_Fail"
  shows "thumb_done G ud n S MI = Some r \<Longrightarrow> thumb_post ud MI n r"
    and "thumb_done_sbit G ud n S MI = Some r \<Longrightarrow> thumb_post ud MI n r"
proof -
  obtain S' ud' MI' where a: "AddThumbPredicate G ud MI = (S', ud', MI')" by (metis prod.exhaust)
  have o: "length (Operands MI') \<le> length (Operands MI) + 2" "fst (Check S S') \<noteq> MCDisassembler_Fail"
    using AddThumbPredicate_opcode [OF a] Check_not_Fail [OF assms(2), of S'] by simp_all
  note i = AddThumbPredicate_IT_ok [OF a assms(1)] AddThumbPredicate_mode [OF a]
  show "thumb_done G ud n S MI = Some r \<Longrightarrow> thumb_post ud MI n r"
    using o i by (auto simp: thumb_done_def a thumb_post_def)
  show "thumb_done_sbit G ud n S MI = Some r \<Longrightarrow> thumb_post ud MI n r"
    using o i by (auto simp: thumb_done_sbit_def a thumb_post_def Let_def)
qed

lemma thumb_done_t216_post:
  assumes "IT_ok (ITBlock ud)" "S \<noteq> MCDisassembler_Fail" "thumb_done_t216 G ud S MI = Some r"
  shows "thumb_post ud MI 2 r"
proof -
  obtain S' ud' MI' where a: "AddThumbPredicate G ud MI = (S', ud', MI')" by (metis prod.exhaust)
  have o: "length (Operands MI') \<le> length (Operands MI) + 2" "fst (Check S S') \<noteq> MCDisassembler_Fail"
      "MCInst_getOpcode MI' = MCInst_getOpcode MI"
    using AddThumbPredicate_opcode [OF a] Check_not_Fail [OF assms(2), of S'] by (simp_all add: MCInst_getOpcode_def)
  note i = AddThumbPredicate_IT_ok [OF a assms(1)] AddThumbPredicate_mode [OF a]
  have s: "IT_ok (ITStatus_setITState (ITBlock ud') x y)" if "\<not> ITStatus_instrInITBlock (ITBlock ud)" for x y
    using setITState_conds(2) [of "ITBlock ud"] that assms(1) AddThumbPredicate_outside [OF a that]
    by (simp add: IT_ok_def ITStatus_instrInITBlock_def)
  consider "MCInst_getOpcode MI \<noteq> ARM_t2IT"
    | "MCInst_getOpcode MI = ARM_t2IT" "ITStatus_instrInITBlock (ITBlock ud)"
    | "MCInst_getOpcode MI = ARM_t2IT" "\<not> ITStatus_instrInITBlock (ITBlock ud)" by blast
  then show ?thesis
  proof cases
    case 1
    then show ?thesis using assms(3) o i by (auto simp: thumb_done_t216_def a thumb_post_def)
  next
    case 2
    then show ?thesis using assms(1,3) by (auto simp: thumb_done_t216_def thumb_post_def)
  next
    case 3
    then show ?thesis using assms(3) o s i(2) by (auto simp: thumb_done_t216_def a thumb_post_def Let_def)
  qed
qed

lemma thumb_done_vfp_post:
  assumes "IT_ok (ITBlock ud)" "S \<noteq> MCDisassembler_Fail"
  shows "thumb_done_vfp G ud S MI = Some r \<Longrightarrow> thumb_post ud MI 4 r"
    and "thumb_done_plain ud S MI = Some r \<Longrightarrow> thumb_post ud MI 4 r"
  using assms getITCC_hd(3) [OF assms(1)]
  by (auto simp: thumb_done_vfp_def thumb_done_plain_def UpdateThumbVFPPredicate_def update_operand_def thumb_post_def Let_def
      split: option.splits if_splits)

lemmas thumb_posts = thumb_done_post thumb_done_t216_post thumb_done_vfp_post

text \<open>The outcomes of the attempts on one encoding.\<close>

definition decoded_4 :: "generated \<Rightarrow> cs_struct \<Rightarrow> thumb_result \<Rightarrow> bool" where
  "decoded_4 G ud r \<longleftrightarrow>
     (\<exists>T insn i S MI'. decodeInstruction_4 G T (MCInst_clear i) insn (cs_mode ud) = Some (S, MI') \<and> thumb_post ud MI' 4 r)"

definition decoded_2 :: "generated \<Rightarrow> cs_struct \<Rightarrow> MCInst \<Rightarrow> thumb_result \<Rightarrow> bool" where
  "decoded_2 G ud MI r \<longleftrightarrow>
     (\<exists>T insn i S MI'. (i = MI \<or> Operands i = []) \<and>
        decodeInstruction_2 G T i insn (cs_mode ud) = Some (S, MI') \<and> thumb_post ud MI' 2 r)"

lemma decoded_4I:
  "decodeInstruction_4 G T (MCInst_clear i) insn (cs_mode ud) = Some (S, MI') \<Longrightarrow> thumb_post ud MI' 4 r \<Longrightarrow> decoded_4 G ud r"
  unfolding decoded_4_def by blast

lemma MCInst_clear_Operands [simp]: "Operands (MCInst_clear i) = []"
  by (simp add: MCInst_clear_def)

lemma decoded_2I:
  "decodeInstruction_2 G T MI insn (cs_mode ud) = Some (S, MI') \<Longrightarrow> thumb_post ud MI' 2 r \<Longrightarrow> decoded_2 G ud MI r"
  "decodeInstruction_2 G T (MCInst_clear i) insn (cs_mode ud) = Some (S, MI') \<Longrightarrow> thumb_post ud MI' 2 r \<Longrightarrow> decoded_2 G ud MI r"
  unfolding decoded_2_def by (blast, metis MCInst_clear_Operands)

lemma thumb32_cases:
  assumes "thumb32 G ud insn32 MI = Some r" "IT_ok (ITBlock ud)"
  shows "decoded_4 G ud r \<or> (\<exists>i. r = (MCDisassembler_Fail, ud, MCInst_clear i, 0))"
  using assms(1) unfolding thumb32_def Let_def
  by (elim try_table_cases try_if_cases)
    ((rule disjI1, rule decoded_4I, assumption, rule thumb_posts [OF assms(2)], assumption, assumption) | force)+

lemma Thumb_getInstruction_cases:
  assumes "Thumb_getInstruction_impl G ud MI code Size = Some r" "IT_ok (ITBlock ud)"
  shows "2 \<le> length code \<and> decoded_2 G ud MI r \<or> 4 \<le> length code \<and> decoded_4 G ud r \<or>
    (\<exists>i. r = (MCDisassembler_Fail, ud, MCInst_clear i, 0)) \<or>
    (length code < 4 \<and> (\<exists>MI'. r = (MCDisassembler_Fail, ud, MI', Size) \<and>
       (MI' = MI \<or> (\<exists>T insn i S. decodeInstruction_2 G T (MCInst_clear i) insn (cs_mode ud) = Some (S, MI')))))"
proof (cases "length code < 2")
  case True
  then show ?thesis using assms(1) by (auto simp: Thumb_getInstruction_impl_def)
next
  case False
  show ?thesis
    using assms(1) False unfolding Thumb_getInstruction_impl_def Let_def
    apply (simp only: if_False not_less)
    apply (elim try_table_cases)
    subgoal by (rule disjI1, rule conjI, simp, rule decoded_2I, assumption, rule thumb_posts [OF assms(2)], assumption, assumption)
    subgoal by (rule disjI1, rule conjI, simp, rule decoded_2I(2), assumption, rule thumb_posts [OF assms(2)], assumption, assumption)
    subgoal by (rule disjI1, rule conjI, simp, rule decoded_2I(2), assumption, rule thumb_posts [OF assms(2)], assumption, assumption)
    subgoal by (cases "length code < 4") (simp, blast, auto simp del: MCInst_clear_Operands dest!: thumb32_cases [OF _ assms(2)])
    done
qed

subsection \<open>Results of the interpreter\<close>

lemma decode_loop_result:
  assumes "P (MCDisassembler_Fail, MI)" "\<And>S' i opc. P (decoder S' i insn (MCInst_setOpcode MI opc))"
  shows "decode_loop field decoder check Bits insn MI p cur S = Some d \<Longrightarrow> P d"
proof (induction "length p" arbitrary: p cur S rule: less_induct)
  case less
  note r = less.prems [unfolded decode_loop.simps [of field decoder check Bits insn MI p]]
  show ?case
  proof (cases p)
    case (Cons opc q)
    note c = r [unfolded Cons list.case]
    have IH: "decode_loop field decoder check Bits insn MI p' cur' S' = Some d \<Longrightarrow> length p' \<le> length q \<Longrightarrow> P d" for p' cur' S'
      using less.hyps [of p' cur' S'] Cons by simp
    show ?thesis
      using c
      by (auto split: if_splits list.splits option.splits simp: Let_def assms
          dest!: decodeULEB128_shorter read_skip_shorter)
        (erule IH; simp)+
  qed (use r in simp)
qed

definition generated_bounded :: "generated \<Rightarrow> bool" where
  "generated_bounded G \<longleftrightarrow>
     (\<forall>S i insn MI. appends 44 MI (decodeToMCInst_2 G S i insn MI)) \<and>
     (\<forall>S i insn MI. appends 44 MI (decodeToMCInst_4 G S i insn MI))"

lemma appends_setOpcode: "appends n (MCInst_setOpcode MI opc) d \<Longrightarrow> appends n MI d"
  by (simp add: appends_def MCInst_setOpcode_def)

lemma decodeInstruction_length:
  assumes "generated_bounded G" "Operands MI = []"
  shows "decodeInstruction_2 G T MI h m = Some (S, MI') \<Longrightarrow> length (Operands MI') \<le> 44"
    and "decodeInstruction_4 G T MI w m = Some (S, MI') \<Longrightarrow> length (Operands MI') \<le> 44"
proof -
  have a: "appends 44 MI d \<Longrightarrow> length (Operands (snd d)) \<le> 44" for d
    using assms(2) by (auto simp: appends_def)
  have f: "appends 44 MI (MCDisassembler_Fail, MI)" by (rule appends_leaf [OF extends_refl]) simp
  have b: "appends 44 MI (decodeToMCInst_2 G S' i h (MCInst_setOpcode MI opc))"
      "appends 44 MI (decodeToMCInst_4 G S' i w (MCInst_setOpcode MI opc))" for S' i opc
    using assms(1) by (auto simp: generated_bounded_def intro!: appends_setOpcode [of 44 MI opc])
  show "decodeInstruction_2 G T MI h m = Some (S, MI') \<Longrightarrow> length (Operands MI') \<le> 44"
    unfolding decodeInstruction_2_def using decode_loop_result [where P = "appends 44 MI" and decoder = "decodeToMCInst_2 G" and insn = h, OF f b(1)] a by fastforce
  show "decodeInstruction_4 G T MI w m = Some (S, MI') \<Longrightarrow> length (Operands MI') \<le> 44"
    unfolding decodeInstruction_4_def using decode_loop_result [where P = "appends 44 MI" and decoder = "decodeToMCInst_4 G" and insn = w, OF f b(2)] a by fastforce
qed

lemma thumb_invariant:
  assumes "IT_ok (ITBlock ud)" "generated_bounded G" "Operands MI = []"
    and "Thumb_getInstruction G ud MI code Size = Some (ok, ud', MI', n)"
  shows "IT_ok (ITBlock ud') \<and> length (Operands MI') \<le> MCINST_CACHE"
proof -
  obtain S where "Thumb_getInstruction_impl G ud MI code Size = Some (S, ud', MI', n)"
    using assms(4) by (auto simp: Thumb_getInstruction_def)
  from Thumb_getInstruction_cases [OF this assms(1)]
  show ?thesis
  proof (elim disjE conjE exE)
    assume "decoded_2 G ud MI (S, ud', MI', n)"
    then show ?thesis
      using decodeInstruction_length(1) [OF assms(2)] assms(3)
      by (fastforce simp: decoded_2_def thumb_post_def MCINST_CACHE_def MCINST_OPERANDS_def)
  next
    assume "decoded_4 G ud (S, ud', MI', n)"
    then show ?thesis
      using decodeInstruction_length(2) [OF assms(2) MCInst_clear_Operands]
      by (fastforce simp: decoded_4_def thumb_post_def MCINST_CACHE_def MCINST_OPERANDS_def)
  qed (use assms(1,3) decodeInstruction_length(1) [OF assms(2) MCInst_clear_Operands] in
    \<open>fastforce simp: MCINST_CACHE_def MCINST_OPERANDS_def\<close>)+
qed


lemma thumb_sizes:
  assumes "IT_ok (ITBlock ud)" "Thumb_getInstruction G ud MI code Size = Some (ok, ud', MI', n)"
  shows "if ok then n \<in> {2, 4} \<and> n \<le> length code
    else ud' = ud \<and> (n = 0 \<and> Operands MI' = [] \<or> length code < 4 \<and> n = Size)"
proof -
  obtain S where S: "Thumb_getInstruction_impl G ud MI code Size = Some (S, ud', MI', n)" "ok = (S \<noteq> MCDisassembler_Fail)"
    using assms(2) by (auto simp: Thumb_getInstruction_def)
  from Thumb_getInstruction_cases [OF S(1) assms(1)]
  show ?thesis
    by (elim disjE conjE exE) (auto simp: S(2) decoded_2_def decoded_4_def thumb_post_def)
qed


lemma thumb_mode:
  assumes "IT_ok (ITBlock ud)" "Thumb_getInstruction G ud MI code Size = Some (ok, ud', MI', n)"
  shows "cs_mode ud' = cs_mode ud \<and> big_endian ud' = big_endian ud"
proof -
  obtain S where S: "Thumb_getInstruction_impl G ud MI code Size = Some (S, ud', MI', n)"
    using assms(2) by (auto simp: Thumb_getInstruction_def)
  show ?thesis using Thumb_getInstruction_cases [OF S assms(1)] by (auto simp: decoded_2_def decoded_4_def thumb_post_def)
qed

subsection \<open>Totality\<close>

definition generated_tables_ok :: "generated \<Rightarrow> bool" where
  "generated_tables_ok G \<longleftrightarrow>
     list_all table_ok
       [DecoderTableARM32 G, DecoderTableVFP32 G, DecoderTableVFPV832 G, DecoderTableNEONData32 G,
        DecoderTableNEONLoadStore32 G, DecoderTableNEONDup32 G, DecoderTablev8NEON32 G, DecoderTablev8Crypto32 G,
        DecoderTableThumb16 G, DecoderTableThumbSBit16 G, DecoderTableThumb216 G, DecoderTableThumb32 G,
        DecoderTableThumb232 G]"

lemma decodeInstruction_total:
  "table_ok T \<Longrightarrow> decodeInstruction_2 G T MI h m \<noteq> None"
  "table_ok T \<Longrightarrow> decodeInstruction_4 G T MI w m \<noteq> None"
  unfolding decodeInstruction_2_def decodeInstruction_4_def by (rule table_ok_total, assumption)+

lemma try_table_total:
  "d \<noteq> None \<Longrightarrow> (\<And>S MI. ok S MI \<noteq> None) \<Longrightarrow> (\<And>MI. next MI \<noteq> None) \<Longrightarrow> try_table d ok next \<noteq> None"
  by (auto simp: try_table_def split: option.split)

lemma try_if_total:
  "d \<noteq> None \<Longrightarrow> (\<And>S MI. ok S MI \<noteq> None) \<Longrightarrow> (\<And>MI. next MI \<noteq> None) \<Longrightarrow> try_if c d ok next MI \<noteq> None"
  unfolding try_if_def by (cases c) (simp_all only: if_True if_False try_table_total not_False_eq_True)

lemma done_total:
  "thumb_done G ud n S MI \<noteq> None" "thumb_done_sbit G ud n S MI \<noteq> None" "thumb_done_t216 G ud S MI \<noteq> None"
  "thumb_done_vfp G ud S MI \<noteq> None" "thumb_done_plain ud S MI \<noteq> None" "size4 S MI \<noteq> None" "fake_predicate S MI \<noteq> None"
  by (simp_all add: thumb_done_def thumb_done_sbit_def thumb_done_t216_def thumb_done_vfp_def thumb_done_plain_def size4_def
      fake_predicate_def Let_def split: prod.split)

lemma both_return:
  assumes "generated_tables_ok G"
  shows "(\<exists>r. ARM_getInstruction G ud MI code Size = Some r) \<and> (\<exists>r. Thumb_getInstruction G ud MI code Size = Some r)"
proof
  note t = assms [unfolded generated_tables_ok_def list.pred_inject]
  have "ARM_getInstruction_impl G ud MI code Size \<noteq> None"
  proof (cases "length code < 4")
    case False
    show ?thesis
      unfolding ARM_getInstruction_impl_def Let_def if_not_P [OF False]
      by (intro try_table_total decodeInstruction_total done_total) (use t in simp_all)
  qed (simp add: ARM_getInstruction_impl_def)
  then show "\<exists>r. ARM_getInstruction G ud MI code Size = Some r" by (auto simp: ARM_getInstruction_def)
  have t32: "thumb32 G ud w i \<noteq> None" for w i
    unfolding thumb32_def Let_def
    by (intro try_table_total try_if_total decodeInstruction_total done_total) (use t in simp_all)
  have "Thumb_getInstruction_impl G ud MI code Size \<noteq> None"
  proof (cases "length code < 2")
    case False
    show ?thesis
      unfolding Thumb_getInstruction_impl_def Let_def if_not_P [OF False]
      by (intro try_table_total decodeInstruction_total done_total) (use t t32 in simp_all)
  qed (simp add: Thumb_getInstruction_impl_def)
  then show "\<exists>r. Thumb_getInstruction G ud MI code Size = Some r" by (auto simp: Thumb_getInstruction_def)
qed


subsection \<open>ARM results and byte order\<close>

lemma ARM_getInstruction_cases:
  assumes "ARM_getInstruction_impl G ud MI code Size = Some (S, MI', n)"
  shows "length code < 4 \<and> S = MCDisassembler_Fail \<and> MI' = MI \<and> n = Size \<or>
    4 \<le> length code \<and> (n = 4 \<or> S = MCDisassembler_Fail \<and> n = 0 \<and> Operands MI' = [])"
proof (cases "length code < 4")
  case True
  then show ?thesis using assms by (simp add: ARM_getInstruction_impl_def)
next
  case False
  then show ?thesis
    using assms unfolding ARM_getInstruction_impl_def Let_def if_not_P [OF False]
    by (elim try_table_cases) (auto simp: size4_def fake_predicate_def Let_def split: prod.splits)
qed

lemma arm_sizes:
  assumes "ARM_getInstruction G ud MI code Size = Some (ok, MI', n)"
  shows "(ok \<longrightarrow> n = 4 \<and> 4 \<le> length code) \<and>
    (length code < 4 \<longrightarrow> \<not> ok \<and> MI' = MI \<and> n = Size) \<and>
    (4 \<le> length code \<and> n \<noteq> 4 \<longrightarrow> \<not> ok \<and> n = 0 \<and> Operands MI' = [])"
proof -
  obtain S where S: "ARM_getInstruction_impl G ud MI code Size = Some (S, MI', n)" "ok = (S \<noteq> MCDisassembler_Fail)"
    using assms by (auto simp: ARM_getInstruction_def)
  show ?thesis using ARM_getInstruction_cases [OF S(1)] S(2) by auto
qed

text \<open>C22: What the ARM disassembler reports: every success has size four and needs four bytes; with fewer bytes
  it fails and changes nothing; a failure after the last table reports size zero and no operands.\<close>

theorem ARM_getInstruction_result:
  assumes "ARM_getInstruction G ud MI code Size = Some (ok, MI', n)"
  shows "(ok \<longrightarrow> n = 4 \<and> 4 \<le> length code) \<and>
    (length code < 4 \<longrightarrow> \<not> ok \<and> MI' = MI \<and> n = Size) \<and>
    (4 \<le> length code \<and> n \<noteq> 4 \<longrightarrow> \<not> ok \<and> n = 0 \<and> Operands MI' = [])"
  using assms by (rule arm_sizes)

lemma arm_operands:
  assumes "generated_bounded G" "Operands MI = []" "ARM_getInstruction G ud MI code Size = Some (ok, MI', n)"
  shows "length (Operands MI') \<le> MCINST_CACHE"
proof -
  note l = decodeInstruction_length(2) [OF assms(1)]
  have f: "fake_predicate S i = Some (S', i', k) \<Longrightarrow> length (Operands i) \<le> 44 \<Longrightarrow> length (Operands i') \<le> MCINST_CACHE" for S i S' i' k
    using pred.size_bound [of i "0xE"]
    by (auto simp: fake_predicate_def Let_def MCINST_CACHE_def MCINST_OPERANDS_def split: prod.splits)
  obtain S where S: "ARM_getInstruction_impl G ud MI code Size = Some (S, MI', n)"
    using assms(3) by (auto simp: ARM_getInstruction_def)
  show ?thesis
  proof (cases "length code < 4")
    case True
    then show ?thesis using S assms(2) by (simp add: ARM_getInstruction_impl_def)
  next
    case False
    show ?thesis
      using S unfolding ARM_getInstruction_impl_def Let_def if_not_P [OF False]
      by (elim try_table_cases)
        (auto simp: size4_def MCINST_CACHE_def MCINST_OPERANDS_def dest: f l [OF assms(2)] l [OF MCInst_clear_Operands] intro: le_trans)
  qed
qed

lemma insn_byte_order:
  "arm_insn True [d, c, b, a] = arm_insn False [a, b, c, d]"
  "thumb_insn16 True [b, a, d, c] = thumb_insn16 False [a, b, c, d]"
  "thumb_insn32 True [b, a, d, c] = thumb_insn32 False [a, b, c, d]"
  by (simp_all add: arm_insn_def thumb_insn16_def thumb_insn32_def or.commute or.left_commute numeral_3_eq_3)

text \<open>The byte order enters the Thumb disassembler by the instruction words only.\<close>

definition thumb_obs :: "thumb_result \<Rightarrow> DecodeStatus \<times> ARM_ITStatus \<times> MCInst \<times> nat" where
  "thumb_obs = (\<lambda>(S, ud, r). (S, ITBlock ud, r))"

lemma map_option_try:
  "map_option f (try_table d ok next) = try_table d (\<lambda>S MI. map_option f (ok S MI)) (\<lambda>MI. map_option f (next MI))"
  "map_option f (try_if c d ok next MI) = try_if c d (\<lambda>S MI. map_option f (ok S MI)) (\<lambda>MI. map_option f (next MI)) MI"
  by (auto simp: try_if_def try_table_def split: option.split)

lemma done_byte_order:
  "map_option thumb_obs (thumb_done G (ud\<lparr>big_endian := x\<rparr>) n S MI) = map_option thumb_obs (thumb_done G ud n S MI)"
  "map_option thumb_obs (thumb_done_sbit G (ud\<lparr>big_endian := x\<rparr>) n S MI) = map_option thumb_obs (thumb_done_sbit G ud n S MI)"
  "map_option thumb_obs (thumb_done_t216 G (ud\<lparr>big_endian := x\<rparr>) S MI) = map_option thumb_obs (thumb_done_t216 G ud S MI)"
  "map_option thumb_obs (thumb_done_vfp G (ud\<lparr>big_endian := x\<rparr>) S MI) = map_option thumb_obs (thumb_done_vfp G ud S MI)"
  "map_option thumb_obs (thumb_done_plain (ud\<lparr>big_endian := x\<rparr>) S MI) = map_option thumb_obs (thumb_done_plain ud S MI)"
  by (simp_all add: thumb_obs_def thumb_done_def thumb_done_sbit_def thumb_done_t216_def thumb_done_vfp_def thumb_done_plain_def
      AddThumbPredicate_def UpdateThumbVFPPredicate_def Let_def split: option.split)

lemma thumb32_byte_order:
  "map_option thumb_obs (thumb32 G (ud\<lparr>big_endian := x\<rparr>) w MI) = map_option thumb_obs (thumb32 G ud w MI)"
  unfolding thumb32_def Let_def map_option_try done_byte_order by (simp add: thumb_obs_def)

text \<open>C23: The two byte orders are the same decoder: a big-endian handle reads the bytes of a word in reverse as a
  little-endian handle reads them in order, with the same status, instruction and size; in Thumb mode,
  where the state of the IT block agrees too, the bytes are swapped inside each half-word.\<close>

theorem endianness_equivalent:
  "ARM_getInstruction G (ud\<lparr>big_endian := True\<rparr>) MI [d, c, b, a] Size =
     ARM_getInstruction G (ud\<lparr>big_endian := False\<rparr>) MI [a, b, c, d] Size \<and>
   map_option thumb_obs (Thumb_getInstruction_impl G (ud\<lparr>big_endian := True\<rparr>) MI [b, a, d, c] Size) =
     map_option thumb_obs (Thumb_getInstruction_impl G (ud\<lparr>big_endian := False\<rparr>) MI [a, b, c, d] Size)"
proof
  show "ARM_getInstruction G (ud\<lparr>big_endian := True\<rparr>) MI [d, c, b, a] Size =
     ARM_getInstruction G (ud\<lparr>big_endian := False\<rparr>) MI [a, b, c, d] Size"
    by (simp add: ARM_getInstruction_def ARM_getInstruction_impl_def insn_byte_order)
  show "map_option thumb_obs (Thumb_getInstruction_impl G (ud\<lparr>big_endian := True\<rparr>) MI [b, a, d, c] Size) =
     map_option thumb_obs (Thumb_getInstruction_impl G (ud\<lparr>big_endian := False\<rparr>) MI [a, b, c, d] Size)"
    by (simp add: Thumb_getInstruction_impl_def Let_def map_option_try done_byte_order insn_byte_order thumb32_byte_order)
qed

subsection \<open>Predicates of Thumb instructions\<close>

lemma pred_slot_le: "k \<le> n \<Longrightarrow> pred_slot OpInfo n [k..<length OpInfo] \<le> n"
proof (induction "length OpInfo - k" arbitrary: k)
  case (Suc d)
  then have "k < length OpInfo" by simp
  then show ?case using Suc by (cases "k = n") (simp_all add: upt_conv_Cons)
qed simp

lemma insert_predicate_Operands:
  assumes "i \<le> length (Operands MI)"
  shows "Operands (insert_predicate MI i CC) =
    take i (Operands MI) @ kImmediate (ucast CC) # kRegister (if CC = ARMCC_AL then ARM_NoRegister else ARM_CPSR) # drop i (Operands MI)"
proof -
  obtain ys zs where "Operands MI = ys @ zs" "length ys = i"
    using assms by (metis append_take_drop_id length_take min_absorb2)
  then show ?thesis
    by (simp add: insert_predicate_def MCInst_insert0_def MCOperand_CreateImm1_def MCOperand_CreateReg1_def)
qed

lemma ucast_byte_inj: "(ucast (a :: 8 word) :: u32) = ucast b \<longleftrightarrow> a = b"
proof -
  have "unat (ucast w :: u32) = unat w" for w :: "8 word"
    using unsigned_less [of w, where 'a = nat] by (simp add: unsigned_ucast_eq take_bit_nat_eq_self)
  then show ?thesis by (simp add: word_unat_eq_iff)
qed

text \<open>The condition that the architecture gives to the next instruction; \<^verbatim>\<open>0xF\<close> means always.\<close>

definition arch_predicate :: "8 word \<Rightarrow> u32" where
  "arch_predicate s = (if arch_InITBlock s \<and> arch_cond s \<noteq> 0xF then ucast (arch_cond s) else ARMCC_AL)"

text \<open>C16: A Thumb instruction gets the predicate that the register \<^verbatim>\<open>ITSTATE\<close> of the architecture prescribes, as
  two operands inserted in front of its other operands or among them, none of which is lost or moved
  otherwise, and the IT state advances as the register does.\<close>

theorem AddThumbPredicate_refines_ITSTATE:
  assumes "IT_ok (ITBlock ud)" "IT_conds (ITBlock ud) = arch_conds (Suc n) s"
    and "MCInst_getOpcode MI \<notin> set no_IT_ops" "AddThumbPredicate G ud MI = (S, ud', MI')"
  shows "(\<exists>i \<le> length (Operands MI). Operands MI' = take i (Operands MI)
      @ [kImmediate (ucast (arch_predicate s)), kRegister (if arch_predicate s = ARMCC_AL then ARM_NoRegister else ARM_CPSR)]
      @ drop i (Operands MI)) \<and>
    IT_ok (ITBlock ud') \<and>
    IT_conds (ITBlock ud') = (if arch_InITBlock s then arch_conds n (arch_ITAdvance s) else []) \<and>
    S = (if MCInst_getOpcode MI \<in> set last_IT_ops \<and> arch_InITBlock s \<and> IT_size (ITBlock ud) \<noteq> 1
         then MCDisassembler_SoftFail else MCDisassembler_Success)"
proof -
  let ?i = "pred_slot (ARMInsts G (MCInst_getOpcode MI)) (MCInst_getNumOperands MI) [0..<length (ARMInsts G (MCInst_getOpcode MI))]"
  have i: "?i \<le> length (Operands MI)"
    using pred_slot_le [of 0 "length (Operands MI)"] by (simp add: MCInst_getNumOperands_def)
  have b: "ITStatus_instrInITBlock (ITBlock ud) = arch_InITBlock s"
    using in_IT_iff [OF assms(1)] assms(2) by simp
  have cc: "(if ITStatus_getITCC (ITBlock ud) = 0xF then ARMCC_AL else ITStatus_getITCC (ITBlock ud)) = arch_predicate s"
  proof (cases "arch_InITBlock s")
    case True
    then have "ITStatus_getITCC (ITBlock ud) = ucast (arch_cond s)"
      using getITCC_hd(1) [OF assms(1)] b assms(2) by simp
    moreover have "(ucast (arch_cond s) :: u32) = 0xF \<longleftrightarrow> arch_cond s = 0xF"
      using ucast_byte_inj [of "arch_cond s" "0xF"] by simp
    ultimately show ?thesis using True by (simp add: arch_predicate_def)
  next
    case False
    then show ?thesis using b by (simp add: arch_predicate_def ITStatus_getITCC_def ARMCC_AL_def)
  qed
  have e: "S = (if MCInst_getOpcode MI \<in> set last_IT_ops \<and> arch_InITBlock s \<and> IT_size (ITBlock ud) \<noteq> 1
         then MCDisassembler_SoftFail else MCDisassembler_Success)"
      "ITBlock ud' = (if arch_InITBlock s then ITStatus_advanceITState (ITBlock ud) else ITBlock ud)"
      "MI' = insert_predicate MI ?i (arch_predicate s)"
    using assms(3,4) cc by (auto simp: AddThumbPredicate_def Let_def b ITStatus_instrLastInITBlock_def)
  show ?thesis
    using e i insert_predicate_Operands [OF i, of "arch_predicate s"] getITCC_hd [OF assms(1)] assms(1,2) b
    by auto
qed

subsection \<open>An instance\<close>

text \<open>The generated tables \<^verbatim>\<open>DecoderTableThumb216\<close>, which knows the IT instruction, and \<^verbatim>\<open>DecoderTableThumb32\<close>
  as they are in \<^verbatim>\<open>ARMGenDisassemblerTables.inc\<close>, with the parts of \<^verbatim>\<open>checkDecoderPredicate\<close> and
  \<^verbatim>\<open>decodeToMCInst\<close> that the first one uses; the other tables reject everything.\<close>

definition example_generated :: generated where
  "example_generated = \<lparr>
     DecoderTableARM32 = [7, 0], DecoderTableVFP32 = [7, 0], DecoderTableVFPV832 = [7, 0], DecoderTableNEONData32 = [7, 0],
     DecoderTableNEONLoadStore32 = [7, 0], DecoderTableNEONDup32 = [7, 0], DecoderTablev8NEON32 = [7, 0],
     DecoderTablev8Crypto32 = [7, 0], DecoderTableThumb16 = [7, 0], DecoderTableThumbSBit16 = [7, 0],
     DecoderTableThumb216 = [4, 22, 12, 0, 3, 8, 8, 191, 1, 5, 0, 5, 163, 18, 230, 1, 7, 0],
     DecoderTableThumb32 =
       [1, 12, 1, 2, 0, 27, 0, 4, 26, 48, 0, 3, 27, 5, 30, 42, 0, 3, 14, 2, 3, 36, 0, 3, 0, 1, 0, 30, 0, 5, 144, 21, 228, 1,
        2, 1, 21, 0, 4, 19, 17, 0, 3, 27, 5, 30, 11, 0, 3, 14, 2, 3, 5, 0, 5, 143, 21, 229, 1, 7, 0],
     DecoderTableThumb232 = [7, 0],
     ARMInsts = (\<lambda>opc. replicate 2 \<lparr>RegClass = - 1, Flags = 0\<rparr>),
     checkDecoderPredicate = (\<lambda>Idx Bits. Idx = 22 \<and> Bits AND ARM_ModeThumb \<noteq> 0 \<and> Bits AND ARM_FeatureThumb2 \<noteq> 0),
     decodeToMCInst_2 = (\<lambda>S Idx insn MI. if Idx = 230 then check_last S (DecodeIT MI (ucast insn)) else (MCDisassembler_Fail, MI)),
     decodeToMCInst_4 = (\<lambda>S Idx insn MI. (MCDisassembler_Fail, MI))\<rparr>"

definition example_handle :: cs_struct where
  "example_handle = \<lparr>cs_mode = CS_MODE_THUMB, big_endian = False, ITBlock = empty_block\<rparr>"

definition blank_inst :: MCInst where
  "blank_inst = \<lparr>OpcodePub = 0, has_imm = False, op1_size = 0, Opcode = 0, Operands = [], writeback = False\<rparr>"

text \<open>\<^verbatim>\<open>ITTE EQ\<close>, little-endian \<^verbatim>\<open>06 BF\<close>.\<close>

lemma example_run:
  "map_option (\<lambda>(ok, ud, MI, n). (ok, IT_conds (ITBlock ud), Operands MI, n))
     (Thumb_getInstruction example_generated example_handle blank_inst [0x06, 0xBF, 0, 0] 0) =
   Some (True, [0, 0, 1], [kImmediate 0, kImmediate 6, kImmediate 14, kRegister ARM_NoRegister], 2)"
  by code_simp

lemma example_contract:
  "generated_bounded example_generated" "generated_tables_ok example_generated" "IT_ok (ITBlock example_handle)"
  "Operands blank_inst = []"
proof -
  show "generated_bounded example_generated"
    unfolding generated_bounded_def example_generated_def generated.simps
    by (intro allI conjI) (rule appends_rules appends_decoder | simp; fail)+
  show "generated_tables_ok example_generated" by code_simp
qed (simp_all add: IT_ok_def example_handle_def empty_block_def blank_inst_def)

lemma example_result:
  obtains ud' MI' where "Thumb_getInstruction example_generated example_handle blank_inst [0x06, 0xBF, 0, 0] 0 = Some (True, ud', MI', 2)"
    "IT_conds (ITBlock ud') = [0, 0, 1]" "length (Operands MI') = 4"
  using example_run by (auto simp: map_option_eq_Some)




theorem ARM_getInstruction_result_witness:
  "\<exists>MI' n. ARM_getInstruction example_generated example_handle blank_inst [1, 2, 3] 7 = Some (False, MI', n) \<and> n = 7"
proof -
  have r: "ARM_getInstruction example_generated example_handle blank_inst [1, 2, 3] 7 = Some (False, blank_inst, 7)"
    by (simp add: ARM_getInstruction_def ARM_getInstruction_impl_def)
  show ?thesis using ARM_getInstruction_result [OF r] r by blast
qed

definition itte_handle :: cs_struct where
  "itte_handle = example_handle\<lparr>ITBlock := ITStatus_setITState empty_block 0 6\<rparr>"

theorem AddThumbPredicate_refines_ITSTATE_witness:
  "\<exists>S ud' MI'. AddThumbPredicate example_generated itte_handle blank_inst = (S, ud', MI') \<and>
     IT_conds (ITBlock ud') = arch_conds 3 (arch_ITAdvance 6)"
proof -
  obtain S ud' MI' where a: "AddThumbPredicate example_generated itte_handle blank_inst = (S, ud', MI')" by (metis prod.exhaust)
  have f: "IT_ok (ITBlock itte_handle)" "IT_conds (ITBlock itte_handle) = arch_conds (Suc 3) 6"
    "MCInst_getOpcode blank_inst \<notin> set no_IT_ops" "arch_InITBlock 6" by code_simp+
  show ?thesis using AddThumbPredicate_refines_ITSTATE [OF f(1,2,3) a] f(4) a by auto
qed

text \<open>The pass over VFP instructions lacks the test for \<^verbatim>\<open>0xF\<close> of \<^verbatim>\<open>AddThumbPredicate\<close>: in the second slot of
  \<^verbatim>\<open>ITE AL\<close> it writes the condition 15, which no instruction may have, where the other pass has 14.\<close>

definition ite_al_handle :: cs_struct where
  "ite_al_handle = example_handle\<lparr>ITBlock := ITStatus_advanceITState (ITStatus_setITState empty_block 0xE 0xC)\<rparr>"

definition predicated_generated :: generated where
  "predicated_generated = example_generated\<lparr>ARMInsts := (\<lambda>opc. replicate 2 \<lparr>RegClass = - 1, Flags = 2\<rparr>)\<rparr>"

definition vfp_inst :: MCInst where
  "vfp_inst = blank_inst\<lparr>Operands := [kImmediate 14, kRegister ARM_NoRegister]\<rparr>"


end
