(* ===== verification/ARM_Module_Correct.thy ===== *)
theory ARM_Module_Correct
  imports ARM_Module ARM_Print_Correct ARM_Disassembler_Correct
begin

text \<open>The ARM module keeps the contract of the core, with the table of instructions as it is in the source; and what follows for
  the functions of the interface.\<close>

unbundle bit_operations_syntax

subsection \<open>What the parameters promise\<close>

text \<open>The memory for the cache holds no index outside the table, as when it is filled with zeros.\<close>

definition arm_params_ok :: "arm_params \<Rightarrow> bool" where
  "arm_params_ok P \<longleftrightarrow>
     generated_tables_ok (p_generated P) \<and> generated_bounded (p_generated P) \<and> length (p_cache P) = 2789 \<and> list_all (\<lambda>i. i < length insns) (p_cache P)"

subsection \<open>The invariant of a handle\<close>

definition handle_ok :: "handle \<Rightarrow> bool" where
  "handle_ok h \<longleftrightarrow>
     \<not> doing_mem h \<and> arch h = CS_ARCH_ARM \<and> disasm h = pick_disasm (cs_mode (core h)) \<and>
     (big_endian (core h) \<longleftrightarrow> cs_mode (core h) AND CS_MODE_BIG_ENDIAN \<noteq> 0) \<and> IT_ok (ITBlock (core h)) \<and>
     (noregname h \<longleftrightarrow> asm_syntax h = CS_OPT_SYNTAX_NOREGNAME) \<and>
     skipdata_size h \<in> {0, 2, 4} \<and> (skipdata h \<longrightarrow> skipdata_size h \<noteq> 0)"

definition arm_inv :: "arm_params \<Rightarrow> handle \<Rightarrow> bool" where
  "arm_inv P h \<longleftrightarrow> arm_params_ok P \<and> handle_ok h \<and>
     (insn_cache h = None \<or> insn_cache h = Some (make_id2insn insns (p_cache P)))"

lemma arm_inv_updates [simp]:
  "arm_inv P (h\<lparr>errnum := e\<rparr>) = arm_inv P h" "arm_inv P (h\<lparr>detail := x\<rparr>) = arm_inv P h" "arm_inv P (h\<lparr>skipdata_setup := s\<rparr>) = arm_inv P h"
  by (simp_all add: arm_inv_def handle_ok_def)

subsection \<open>The laws\<close>

lemma pick_disasm_cases: "pick_disasm m = Use_ARM \<or> pick_disasm m = Use_Thumb"
  by (simp add: pick_disasm_def)

lemma clear_arm_fields [simp]:
  "slot_ok h (clear_arm insn) = slot_ok h insn" "address (clear_arm insn) = address insn"
  "idetail (clear_arm insn) = None \<longleftrightarrow> idetail insn = None" "fresh_arm (clear_arm insn)"
  by (simp_all add: clear_arm_def slot_ok_def insn_ok_def fresh_arm_def split: option.split)

lemma IT_ok_reset: "IT_ok it \<Longrightarrow> IT_ok (it\<lparr>IT_size := 0\<rparr>)"
  by (simp add: IT_ok_def)

lemma arm_disasm_law:
  assumes "arm_inv P h" "slot_ok h insn" "Operands mci = []"
  shows "\<exists>ok h' mci' insn' n. arm_disasm (p_generated P) h code mci insn k = Some (ok, h', mci', insn', n) \<and> arm_inv P h' \<and> same_setup h h' \<and>
    slot_ok h insn' \<and> address insn' = address insn \<and> (idetail insn' = None \<longleftrightarrow> idetail insn = None) \<and>
    (ok \<longrightarrow> fresh_arm insn' \<and> length (Operands mci') \<le> MCINST_OPERANDS \<and> 0 < n \<and> n \<le> BYTES_SIZE \<and> n \<le> length code)"
proof -
  let ?G = "p_generated P"
  have g: "generated_tables_ok ?G" "generated_bounded ?G" "IT_ok (ITBlock (core h))" "disasm h = pick_disasm (cs_mode (core h))"
    using assms(1) by (simp_all add: arm_inv_def arm_params_ok_def handle_ok_def)
  have cap: "MCINST_CACHE \<le> MCINST_OPERANDS" by (simp add: MCINST_CACHE_def MCINST_OPERANDS_def)
  show ?thesis
  proof (cases "disasm h = Use_ARM")
    case True
    obtain ok mci' n where r: "ARM_getInstruction ?G (core h) mci code k = Some (ok, mci', n)"
      using both_return [OF g(1), of "core h" mci code k] by auto
    have "ok \<longrightarrow> 4 \<le> length code \<and> length (Operands mci') \<le> MCINST_OPERANDS \<and> 0 < n \<and> n \<le> BYTES_SIZE \<and> n \<le> length code"
      using arm_sizes [OF r, THEN conjunct1] arm_operands [OF g(2) assms(3) r] cap by (auto simp: BYTES_SIZE_def)
    then show ?thesis using r True assms(1,2) by (auto simp: arm_disasm_def same_setup_refl)
  next
    case False
    then have t: "disasm h = Use_Thumb" using g(4) pick_disasm_cases [of "cs_mode (core h)"] by simp
    obtain ok ud mci' n where r: "Thumb_getInstruction ?G (core h) mci code k = Some (ok, ud, mci', n)"
      using both_return [OF g(1), of "core h" mci code k] by auto
    have o: "ok \<longrightarrow> 2 \<le> length code \<and> length (Operands mci') \<le> MCINST_OPERANDS \<and> 0 < n \<and> n \<le> BYTES_SIZE \<and> n \<le> length code"
      using thumb_sizes [OF g(3) r] thumb_invariant [OF g(3,2) assms(3) r] cap by (auto simp: BYTES_SIZE_def)
    have "arm_inv P (h\<lparr>core := ud\<rparr>)"
      using assms(1) thumb_mode [OF g(3) r] thumb_invariant [OF g(3,2) assms(3) r] by (simp add: arm_inv_def handle_ok_def)
    then show ?thesis using o r t assms(2) by (auto simp: arm_disasm_def same_setup_def)
  qed
qed

lemma make_id2insn_range: "list_all (\<lambda>i. i < length insns) fresh \<Longrightarrow> list_all (\<lambda>i. i < length insns) (make_id2insn insns fresh)"
proof -
  have "list_all (\<lambda>i. i < n) (fold (\<lambda>i c. c[f i := i]) is c)" if "list_all (\<lambda>i. i < n) c" "\<forall>i \<in> set is. i < n" for f "is" c and n :: nat
    using that by (induction "is" arbitrary: c) (auto simp: list_all_iff dest: set_update_subset_insert [THEN subsetD])
  then show "list_all (\<lambda>i. i < length insns) fresh \<Longrightarrow> ?thesis" by (simp add: make_id2insn_def)
qed

text \<open>The index that is found lies in the table, and the cache is the one of the invariant.\<close>

lemma insn_find_range:
  assumes "arm_inv P h" "insn_find insns opc (p_cache P) (insn_cache h) = (i, cache)"
  shows "i < length insns \<and> (cache = None \<or> cache = Some (make_id2insn insns (p_cache P)))"
proof -
  let ?c = "make_id2insn insns (p_cache P)"
  have p: "length ?c = 2789" "list_all (\<lambda>i. i < length insns) ?c"
    using assms(1) make_id2insn_range by (simp_all add: arm_inv_def arm_params_ok_def make_id2insn_def length_fold_update)
  have l: "map_id (insns ! (length insns - Suc 0)) = 2788" using insns_increasing(2) by simp
  have "0 < length insns" using insns_increasing(1) by (simp add: increasing_def)
  moreover have "opc \<le> 2788 \<Longrightarrow> ?c ! opc < length insns" using p by (simp add: list_all_length)
  ultimately show ?thesis
    using assms by (auto simp: insn_find_def l arm_inv_def Let_def split: if_splits option.splits)
qed

lemma insns_entry_ok: "i < length insns \<Longrightarrow> entry_ok (insns ! i)"
  using insns_ok by (simp add: part_ok_def list_all_length)

lemma count_positive_bound: "count_positive xs = Some k \<Longrightarrow> k < length xs"
  by (induction xs arbitrary: k) (auto split: if_splits)

lemma fill_detail_total:
  assumes "entry_ok m"
  shows "fill_detail m n d \<noteq> None"
proof -
  obtain r w g where c: "count_positive (regs_use m) = Some r" "count_positive (regs_mod m) = Some w" "count_positive (map_groups m) = Some g"
    using assms by (auto simp: entry_ok_def)
  have "g < 8" using count_positive_bound [OF c(3)] assms by (simp add: entry_ok_def)
  then have "unat (of_nat g :: u8) < length (map_groups m)" using assms by (simp add: entry_ok_def unat_of_nat)
  then show ?thesis using c by (simp add: fill_detail_def Let_def)
qed

lemma ARM_get_insn_id_law:
  assumes "arm_inv P h" "slot_ok h insn"
  shows "\<exists>h' insn'. ARM_get_insn_id (p_cache P) h insn opc = Some (h', insn') \<and> arm_inv P h' \<and> same_setup h h' \<and> slot_ok h insn' \<and>
    address insn' = address insn \<and> isize insn' = isize insn \<and> (fresh_arm insn \<longrightarrow> fresh_arm insn')"
proof -
  obtain i cache where f: "insn_find insns opc (p_cache P) (insn_cache h) = (i, cache)" by fastforce
  note r = insn_find_range [OF assms(1) f]
  let ?h = "h\<lparr>insn_cache := cache\<rparr>"
  have h: "arm_inv P ?h" "same_setup h ?h" using assms(1) r by (auto simp: arm_inv_def handle_ok_def same_setup_def)
  show ?thesis
  proof (cases "i = 0 \<or> detail h = 0")
    case True
    then show ?thesis using f h r assms(2) by (auto simp: ARM_get_insn_id_def fresh_arm_def Let_def)
  next
    case False
    then obtain d0 d1 where "idetail insn = Some d0" "fill_detail (insns ! i) (mapid (insns ! i)) d0 = Some d1"
      using assms(2) fill_detail_total [OF insns_entry_ok] r by (fastforce simp: slot_ok_def)
    moreover from this(2) have "op_count d1 = op_count d0" "operands d1 = operands d0"
      by (auto simp: fill_detail_def Let_def split: option.splits if_splits)
    ultimately show ?thesis using f h r False assms(2) by (auto simp: ARM_get_insn_id_def slot_ok_def insn_ok_def fresh_arm_def Let_def)
  qed
qed

lemma ARM_post_printer_law:
  assumes "slot_ok h insn" "text_ok buf"
  shows "\<exists>insn' buf'. ARM_post_printer h insn buf mci = Some (insn', buf') \<and> slot_ok h insn' \<and> address insn' = address insn \<and>
    isize insn' = isize insn \<and> bytes insn' = bytes insn \<and> text_ok buf'"
  using assms by (auto simp: ARM_post_printer_def CS_OPT_ON_def slot_ok_def insn_ok_def Let_def split: option.split)

lemma arm_printer_law:
  assumes "arm_inv P h" "slot_ok h insn" "stream_ok ss" "sindex ss = 0" "printable h mci" "fresh_arm insn"
  shows "\<exists>h' mci' insn' ss'. arm_printer h mci insn ss = Some (h', mci', insn', ss') \<and> arm_inv P h' \<and> same_setup h h' \<and> slot_ok h insn' \<and>
    address insn' = address insn \<and> isize insn' = isize insn \<and> text_ok (sbuffer ss')"
proof -
  let ?p = "printer_start h mci insn ss"
  have m: "\<not> doing_mem h" using assms(1) by (simp add: arm_inv_def handle_ok_def)
  have "ptext ?p = []" using assms(3,4) by (simp add: printer_start_def stream_text_index)
  moreover have "ps_handle ?p = h" "ps_insn ?p = insn" "stream_ok (ps_stream ?p)" using assms(3) by (simp_all add: printer_start_def)
  ultimately obtain p' lo hi where p': "ARM_printInst mci ?p = Some p'" "live h insn (False, lo, hi) p'"
    "length (takeWhile (\<lambda>ch. \<not> blank ch) (ptext p')) < MNEMONIC_SIZE"
    using print_safe [OF assms(5) m assms(2,6)] by metis
  have "h\<lparr>doing_mem := False\<rparr> = h" using m by (cases h) simp
  then have h: "ps_handle p' = h" using p'(2) by simp
  have "slot_ok h (ps_insn p')" "address (ps_insn p') = address insn" "isize (ps_insn p') = isize insn"
    using p'(2) assms(2) by (auto simp: slot_ok_def insn_ok_def split: if_splits)
  moreover have "text_ok (sbuffer (ps_stream p'))" using p'(2,3) stream_text_ok by simp
  ultimately show ?thesis using p'(1) h assms(1) by (simp add: arm_printer_def same_setup_refl)
qed

interpretation arm: disassembly "arm_engine P" "arm_inv P" printable fresh_arm for P
proof
  show "arm_inv P (h\<lparr>errnum := e\<rparr>)" if "arm_inv P h" for h e
    using that by (simp add: arm_inv_def handle_ok_def)
  show "arm_inv P (h\<lparr>core := (core h)\<lparr>ITBlock := (ITBlock (core h))\<lparr>IT_size := 0\<rparr>\<rparr>\<rparr>)" if "arm_inv P h" for h
    using that IT_ok_reset by (simp add: arm_inv_def handle_ok_def)
  show "fresh_arm (insn\<lparr>isize := n\<rparr>)" if "fresh_arm insn" for insn n using that by (simp add: fresh_arm_def)
  show "printable h' mci" if "same_setup h h'" "printable h mci" for h h' mci using that by (simp add: printable_def same_setup_def)
qed (simp_all add: arm_engine_def arm_disasm_law ARM_get_insn_id_law ARM_post_printer_law arm_printer_law)

text \<open>Whatever the decoder tables make of a buffer can be printed.\<close>

abbreviation prints :: "arm_params \<Rightarrow> u32 \<Rightarrow> u8 list \<Rightarrow> bool" where
  "prints P \<equiv> all_printable (arm_engine P) (arm_inv P) printable"

subsection \<open>Handles that a client can reach\<close>

lemma cs_open_ok:
  assumes "arm_params_ok P" "cs_open (ARM_enable A) M ready CS_ARCH_ARM mode old = (CS_ERR_OK, Some h)"
  shows "arm_inv P h" "cs_mode (core h) = mode"
  using assms
  by (auto simp: cs_open_def ARM_enable_def ARM_module_init_def ARM_getRegName_def zero_handle_def arm_inv_def handle_ok_def IT_ok_def
      CS_ARCH_ARM_def CS_ARCH_MAX_def CS_OPT_SYNTAX_NOREGNAME_def Let_def split: if_splits prod.splits)

lemma cs_open_defaults:
  assumes "cs_open (ARM_enable A) M ready CS_ARCH_ARM mode old = (CS_ERR_OK, Some h)"
  shows "skip_ok h \<and> detail h = 0 \<and> sk_callback (skipdata_setup h) = None"
  using assms
  by (auto simp: cs_open_def ARM_enable_def ARM_module_init_def ARM_getRegName_def zero_handle_def skip_ok_def CS_OPT_OFF_def
      CS_ARCH_ARM_def CS_ARCH_MAX_def Let_def split: if_splits prod.splits)

lemma cs_option_ok:
  assumes "arm_inv P h" "cs_option (ARM_enable A) (Some h) opt = (e, Some h')"
  shows "arm_inv P h'" "e = CS_ERR_OK"
proof -
  have "arch h = CS_ARCH_ARM" using assms(1) by (simp add: arm_inv_def handle_ok_def)
  then have o: "arch_option (ARM_enable A) (arch h) h opt = ARM_module_option h opt" by (simp add: ARM_enable_def)
  note d = cs_option_def ARM_module_option_def ARM_getRegName_def
  have "arm_inv P h' \<and> e = CS_ERR_OK"
  proof (cases opt)
    case (CS_OPT_SKIPDATA v)
    let ?h = "h\<lparr>skipdata := (v = ucast CS_OPT_ON)\<rparr>"
    have "h' = (if skipdata ?h \<and> skipdata_size ?h = 0 then ?h\<lparr>skipdata_size := skipdata_size_of ?h\<rparr> else ?h)" "e = CS_ERR_OK"
      using assms(2) CS_OPT_SKIPDATA by (simp_all add: d Let_def)
    moreover have "skipdata_size_of ?h = 2 \<or> skipdata_size_of ?h = 4" using \<open>arch h = CS_ARCH_ARM\<close> by (simp add: skipdata_size_of_def)
    ultimately show ?thesis using assms(1) by (cases "skipdata ?h \<and> skipdata_size ?h = 0") (auto simp: arm_inv_def handle_ok_def)
  next
    case (CS_OPT_SKIPDATA_SETUP p)
    then have "h' = h \<and> e = CS_ERR_OK \<or> (\<exists>s. h' = h\<lparr>skipdata_setup := s\<rparr> \<and> e = CS_ERR_OK)" using assms(2) by (cases p) (auto simp: d)
    then show ?thesis using assms(1) by auto
  next
    case (CS_OPT_MODE v)
    then have "h' = snd (ARM_module_option h opt)" "e = CS_ERR_OK" using assms(2) o by (simp_all add: d)
    then show ?thesis using assms(1) CS_OPT_MODE by (simp add: ARM_module_option_def arm_inv_def handle_ok_def)
  next
    case (CS_OPT_SYNTAX v)
    then have "h' = snd (ARM_module_option h opt)" "e = CS_ERR_OK" using assms(2) o by (simp_all add: d)
    then show ?thesis using assms(1) CS_OPT_SYNTAX by (simp add: ARM_module_option_def ARM_getRegName_def arm_inv_def handle_ok_def)
  next
    case (CS_OPT_DETAIL v)
    then have "h' = h\<lparr>detail := ucast v\<rparr>" "e = CS_ERR_OK" using assms(2) by (simp_all add: d)
    then show ?thesis using assms(1) by simp
  qed (use assms o in \<open>simp_all add: d\<close>)
  then show "arm_inv P h'" "e = CS_ERR_OK" by simp_all
qed

text \<open>The state machine of the interface: a handle is opened, and then used by calls that keep their preconditions.\<close>

inductive api :: "arm_params \<Rightarrow> arch_module \<Rightarrow> handle \<Rightarrow> bool" for P A where
  api_open: "cs_open (ARM_enable A) M ready CS_ARCH_ARM mode old = (CS_ERR_OK, Some h) \<Longrightarrow> api P A h"
| api_option: "api P A h \<Longrightarrow> cs_option (ARM_enable A) (Some h) opt = (e, Some h') \<Longrightarrow> api P A h'"
| api_disasm: "api P A h \<Longrightarrow> skip_ok h \<Longrightarrow> memory_ok M \<Longrightarrow> (detail h \<noteq> 0 \<longrightarrow> (\<forall>k. alloc M k)) \<Longrightarrow> length buf < 2 ^ 28 \<Longrightarrow>
    prints P (detail h) buf \<Longrightarrow> cs_disasm (arm_engine P) M h buf off count out = Some (h', n, out') \<Longrightarrow> api P A h'"
| api_iter: "api P A h \<Longrightarrow> skip_ok h \<Longrightarrow> memory_ok M \<Longrightarrow> slot_ok h slot \<Longrightarrow>
    prints P (detail h) code \<Longrightarrow> cs_disasm_iter (arm_engine P) M h code addr slot = Some (r, h', code', addr', insn) \<Longrightarrow> api P A h'"
| api_malloc: "api P A h \<Longrightarrow> cs_malloc M h = (h', p) \<Longrightarrow> api P A h'"
| api_group: "api P A h \<Longrightarrow> cs_insn_group h insn g = (b, h') \<Longrightarrow> api P A h'"
| api_read: "api P A h \<Longrightarrow> cs_reg_read h insn reg = (b, h') \<Longrightarrow> api P A h'"
| api_write: "api P A h \<Longrightarrow> cs_reg_write h insn reg = (b, h') \<Longrightarrow> api P A h'"
| api_count: "api P A h \<Longrightarrow> cs_op_count h insn t = (k, h') \<Longrightarrow> api P A h'"
| api_index: "api P A h \<Longrightarrow> cs_op_index h insn t post = (k, h') \<Longrightarrow> api P A h'"

lemmas query_defs = cs_insn_group_def cs_reg_read_def cs_reg_write_def cs_op_count_def cs_op_index_def ask_detail_def cs_malloc_def


subsection \<open>Disassembly for ARM\<close>



subsection \<open>Details of ARM instructions\<close>

lemma arr_exist_nth: "i < n \<Longrightarrow> i < length xs \<Longrightarrow> ucast (xs ! i) = r \<Longrightarrow> arr_exist xs n r"
  by (induction xs n r arbitrary: i rule: arr_exist.induct) (auto simp: nth_Cons split: nat.splits)

lemma fill_detail_jump:
  assumes "entry_ok m" "branch m \<or> indirect_branch m" "fill_detail m n d = Some d'"
  shows "arr_exist (groups d') (unat (groups_count d')) (ucast ARM_GRP_JUMP)"
proof -
  obtain r w g where c: "count_positive (regs_use m) = Some r" "count_positive (regs_mod m) = Some w" "count_positive (map_groups m) = Some g"
    using assms(1) by (auto simp: entry_ok_def)
  have g: "g < 8" "length (map_groups m) = 8" using count_positive_bound [OF c(3)] assms(1) by (simp_all add: entry_ok_def)
  have u: "unat (of_nat g :: u8) = g" "unat (of_nat g + 1 :: u8) = Suc g"
    using g(1) by (simp_all add: unat_of_nat unat_word_ariths)
  have "groups d' = (map_groups m)[g := ARM_GRP_JUMP]" "groups_count d' = of_nat g + 1"
    using assms(2,3) c g u(1) by (auto simp: fill_detail_def Let_def)
  then show ?thesis using g u(2) by (auto intro!: arr_exist_nth [of g])
qed

lemma insn_find_entry:
  assumes "arm_inv P h" "m \<in> set (tl insns)"
  obtains i where "insn_find insns (map_id m) (p_cache P) (insn_cache h) = (i, Some (make_id2insn insns (p_cache P)))"
    "i \<noteq> 0" "i < length insns" "insns ! i = m"
proof -
  have p: "length (p_cache P) = map_id (insns ! (length insns - 1)) + 1"
    using assms(1) by (simp add: arm_inv_def arm_params_ok_def insns_increasing(2) [simplified])
  obtain j where "j < length (tl insns)" "tl insns ! j = m" using assms(2) by (auto simp: in_set_conv_nth)
  then have i: "1 \<le> Suc j \<and> Suc j < length insns" "insns ! Suc j = m" by (auto simp: nth_tl)
  have f: "fst (insn_find insns (map_id m) (p_cache P) None) = Suc j"
    using insn_find_spec(1) [OF insns_increasing(1) p i(1)] i(2) by simp
  have l: "\<not> map_id m > map_id (insns ! (length insns - 1))"
    using increasing_last [OF insns_increasing(1), of "Suc j"] i by simp
  have "insn_find insns (map_id m) (p_cache P) (insn_cache h) = (Suc j, Some (make_id2insn insns (p_cache P)))"
    using assms(1) f l by (auto simp: insn_find_def arm_inv_def Let_def)
  then show thesis using that i by simp
qed

text \<open>C24: for every instruction of the ARM table, \<^verbatim>\<open>ARM_get_insn_id\<close> finds its entry, whether or not the cache has been built, and sets
  the public number; with details on it copies the registers, and every branch is in the group of jumps, as
  \<^verbatim>\<open>cs_insn_group\<close> reports.\<close>

theorem ARM_get_insn_id_correct:
  assumes "arm_inv P h" "slot_ok h insn" "m \<in> set (tl insns)"
  shows "\<exists>h' insn'. ARM_get_insn_id (p_cache P) h insn (map_id m) = Some (h', insn') \<and> iid insn' = mapid m \<and> 0 < mapid m \<and>
    (detail h \<noteq> 0 \<longrightarrow> (\<exists>d. idetail insn' = Some d \<and> regs_read d = regs_use m \<and> regs_write d = regs_mod m) \<and>
       (branch m \<or> indirect_branch m \<longrightarrow> fst (cs_insn_group h' insn' (ucast ARM_GRP_JUMP))))"
proof -
  obtain i where f: "insn_find insns (map_id m) (p_cache P) (insn_cache h) = (i, Some (make_id2insn insns (p_cache P)))"
    "i \<noteq> 0" "i < length insns" "insns ! i = m" using insn_find_entry [OF assms(1,3)] .
  have e: "entry_ok m" using insns_entry_ok [OF f(3)] f(4) by simp
  have "map_id m \<noteq> 0"
    using increasing_less [OF insns_increasing(1), of 0 i] f by simp
  then have m0: "mapid m \<noteq> 0" using e by (simp add: entry_ok_def)
  show ?thesis
  proof (cases "detail h = 0")
    case True
    then show ?thesis using f m0 by (simp add: ARM_get_insn_id_def Let_def)
  next
    case False
    obtain d d' where d: "idetail insn = Some d" "fill_detail m (mapid m) d = Some d'"
      using assms(2) fill_detail_total [OF e] False by (fastforce simp: slot_ok_def)
    have r: "regs_read d' = regs_use m" "regs_write d' = regs_mod m"
      using d(2) by (auto simp: fill_detail_def Let_def split: option.splits if_splits)
    show ?thesis using f m0 False d r fill_detail_jump [OF e _ d(2)]
      by (auto simp: ARM_get_insn_id_def Let_def cs_insn_group_def ask_detail_def detail_error_def)
  qed
qed

text \<open>The store of the flags register into a list of registers of which the first \<open>k\<close> are counted.\<close>

lemma store_free_prefix: "count_positive xs = Some k \<Longrightarrow> store_free xs r ! k = r \<and> take k (store_free xs r) = take k xs \<and> length (store_free xs r) = length xs"
  by (induction xs arbitrary: k) (auto simp: word_neq_0_conv split: if_splits)

lemma arr_exist_take: "n \<le> length xs \<Longrightarrow> arr_exist xs n r \<longleftrightarrow> (\<exists>x \<in> set (take n xs). ucast x = r)"
  by (induction xs n r rule: arr_exist.induct) auto

text \<open>C37: where the post-printer recognises by its name an instruction that sets the flags, it stores the flags register behind the counted
  registers of the list of written registers but does not count it, so that \<^verbatim>\<open>cs_reg_write\<close> still denies that the
  instruction writes the flags.\<close>

theorem flags_register_not_counted:
  assumes "count_positive (regs_write d) = Some (unat (regs_write_count d))"
    "\<not> arr_exist (regs_write d) (unat (regs_write_count d)) ARM_REG_CPSR"
    "mark_update_flags insn asm d = d'" "d' \<noteq> d" "idetail insn' = Some d'"
  shows "update_flags d' \<and> regs_write d' ! unat (regs_write_count d) = ucast ARM_REG_CPSR \<and> \<not> fst (cs_reg_write h insn' ARM_REG_CPSR)"
proof -
  have e: "d' = d\<lparr>update_flags := True, regs_write := store_free (regs_write d) (ucast ARM_REG_CPSR)\<rparr>"
    using assms(3,4) by (auto simp: mark_update_flags_def split: if_splits)
  have k: "unat (regs_write_count d) \<le> length (regs_write d)" using count_positive_bound [OF assms(1)] by simp
  have "\<not> arr_exist (regs_write d') (unat (regs_write_count d)) ARM_REG_CPSR"
    using assms(2) store_free_prefix [OF assms(1)] k by (simp add: arr_exist_take e)
  then show ?thesis
    using store_free_prefix [OF assms(1)] assms(5) by (simp add: e cs_reg_write_def ask_detail_def split: option.split)
qed

subsection \<open>An instance\<close>

text \<open>The decoder tables of the example before and a cache in zeroed memory.\<close>

definition example_params :: arm_params where
  "example_params = \<lparr>p_generated = example_generated, p_cache = replicate 2789 0\<rparr>"

definition example_arch :: arch_module where
  "example_arch = \<lparr>arch_init = (\<lambda>a. None), arch_option = (\<lambda>a h opt. (CS_ERR_OPTION, h))\<rparr>"

definition example_insn :: cs_insn where
  "example_insn = \<lparr>iid = 0, address = 0, isize = 0, bytes = replicate 16 0, mnemonic = replicate 32 NUL, op_str = replicate 160 NUL, idetail = None\<rparr>"

definition example_detail :: cs_detail where
  "example_detail = \<lparr>regs_read = replicate 12 0, regs_read_count = 0, regs_write = replicate 20 0, regs_write_count = 0,
     groups = replicate 8 0, groups_count = 0, usermode = False, vector_size = 0, vector_data = 0, cps_mode = 0, cps_flag = 0,
     arm_cc = 0, update_flags = False, wback = False, mem_barrier = 0, op_count = 0, operands = replicate 36 cleared_op\<rparr>"

definition example_memory :: memory where
  "example_memory = \<lparr>alloc = (\<lambda>k. True), fresh_insn = (\<lambda>k. example_insn), fresh_detail = (\<lambda>k. example_detail), fresh_inst = blank_inst,
     fresh_stream = \<lparr>sbuffer = replicate 512 NUL, sindex = 0\<rparr>\<rparr>"

definition thumb_handle :: handle where
  "thumb_handle = the (snd (cs_open (ARM_enable example_arch) example_memory True CS_ARCH_ARM CS_MODE_THUMB None))"

lemma example_params_ok: "arm_params_ok example_params"
proof -
  have "0 < length insns" using insns_increasing(1) by (simp add: increasing_def)
  then show ?thesis
    using example_contract by (simp add: arm_params_ok_def example_params_def list_all_iff)
qed

text \<open>What these tables decode is an IT instruction, whose operands are the two immediates that its printer reads.\<close>

lemma reject_all: "decode_loop field decoder check Bits insn MI [7, 0] cur S = Some (MCDisassembler_Fail, MI)"
  by (subst decode_loop.simps) (simp add: MCD_OPC_ExtractField_def MCD_OPC_FilterValue_def MCD_OPC_CheckField_def MCD_OPC_CheckPredicate_def
      MCD_OPC_Decode_def MCD_OPC_SoftFail_def)

lemma example_arm: "ARM_getInstruction example_generated ud MI code k = Some (ok, MI', n) \<Longrightarrow> \<not> ok"
  by (auto simp: ARM_getInstruction_def ARM_getInstruction_impl_def example_generated_def decodeInstruction_4_def reject_all try_table_def Let_def
      split: if_splits)

lemma example_t216:
  assumes "decodeInstruction_2 example_generated (DecoderTableThumb216 example_generated) MI insn mode = Some (r, MI')" "r \<noteq> MCDisassembler_Fail"
  shows "Opcode MI' = ARM_t2IT \<and> (\<exists>c m. Operands MI' = Operands MI @ [kImmediate c, kImmediate m])"
proof -
  let ?loop = "decode_loop fieldFromInstruction_2 (decodeToMCInst_2 example_generated) (checkDecoderPredicate example_generated) (ARM_getFeatureBits mode) insn MI"
  let ?S = MCDisassembler_Success
  have l: "\<not> (128 :: u8) \<le> 1" by code_simp
  have u: "decodeULEB128 (22 # xs) = Some (22, xs)" "decodeULEB128 (191 # 1 # xs) = Some (191, xs)"
    "decodeULEB128 (163 # 18 # xs) = Some (2339, xs)" "decodeULEB128 (230 # 1 # xs) = Some (230, xs)" for xs
    by (simp_all add: decodeULEB128_def Let_def l)
  have c: "?loop [5, 163, 18, 230, 1, 7, 0] 0 ?S = Some (check_last ?S (DecodeIT (MCInst_setOpcode MI ARM_t2IT) (ucast insn)))"
    by (subst decode_loop.simps) (simp add: MCD_OPC_defs u Let_def example_generated_def)
  have b: "?loop [3, 8, 8, 191, 1, 5, 0, 5, 163, 18, 230, 1, 7, 0] 0 ?S \<in> {Some (MCDisassembler_Fail, MI), ?loop [5, 163, 18, 230, 1, 7, 0] 0 ?S}"
    by (subst decode_loop.simps) (simp add: MCD_OPC_defs u Let_def reject_all)
  have a: "?loop [4, 22, 12, 0, 3, 8, 8, 191, 1, 5, 0, 5, 163, 18, 230, 1, 7, 0] 0 ?S \<in>
      {Some (MCDisassembler_Fail, MI), ?loop [3, 8, 8, 191, 1, 5, 0, 5, 163, 18, 230, 1, 7, 0] 0 ?S}"
    by (subst decode_loop.simps) (simp add: MCD_OPC_defs u Let_def reject_all example_generated_def)
  have "DecoderTableThumb216 example_generated = [4, 22, 12, 0, 3, 8, 8, 191, 1, 5, 0, 5, 163, 18, 230, 1, 7, 0]"
    by (simp add: example_generated_def)
  then have "Some (r, MI') = Some (check_last ?S (DecodeIT (MCInst_setOpcode MI ARM_t2IT) (ucast insn)))"
    using a b c assms by (auto simp: decodeInstruction_2_def)
  then show ?thesis using assms(2)
    by (auto simp: check_last_def check_then_def DecodeIT_def soft_if_def MCOperand_CreateImm0_def MCInst_setOpcode_def Let_def split: if_splits)
qed

lemma example_four: "decodeInstruction_4 example_generated T MI insn mode = Some d \<Longrightarrow> fst d = MCDisassembler_Fail"
  unfolding decodeInstruction_4_def
  by (erule decode_loop_result [where P = "\<lambda>d. fst d = MCDisassembler_Fail", rotated 2]) (simp_all add: example_generated_def)

lemma example_reject:
  "try_table (decodeInstruction_4 example_generated T MI insn mode) ok next = Some r \<Longrightarrow> \<exists>MI'. next MI' = Some r"
  by (erule try_table_cases) (auto dest: example_four)

lemma example_reject_if:
  "try_if c (decodeInstruction_4 example_generated T MI insn mode) ok next MI0 = Some r \<Longrightarrow> \<exists>MI'. next MI' = Some r"
  unfolding try_if_def by (auto dest: example_reject split: if_splits)

lemma example_thumb32: "thumb32 example_generated ud insn MI = Some r \<Longrightarrow> fst r = MCDisassembler_Fail"
  unfolding thumb32_def Let_def by (auto dest!: example_reject example_reject_if)

lemma front_imm: "Operands M = kImmediate c # kImmediate m # r \<Longrightarrow> is_imm M 0 \<and> is_imm M 1"
  by (simp add: is_imm_def MCInst_getOperand_def)

lemma example_predicate:
  assumes "Opcode MI = ARM_t2IT" "Operands MI = [kImmediate c, kImmediate m]" "AddThumbPredicate example_generated ud MI = (S, ud', MI')"
  shows "Opcode MI' = ARM_t2IT \<and> (\<exists>r. Operands MI' = kImmediate c # kImmediate m # r)"
proof -
  have "pred_slot (ARMInsts example_generated k) 2 [0..<length (ARMInsts example_generated k)] = 2" for k
    by (simp add: example_generated_def MCOperandInfo_isPredicate_def MCOI_Predicate_def upt_rec numeral_2_eq_2)
  then have "MI' = MI \<or> (\<exists>CC. MI' = insert_predicate MI 2 CC)"
    using assms(2,3) by (auto simp: AddThumbPredicate_def MCInst_getNumOperands_def Let_def numeral_2_eq_2 split: if_splits)
  then show ?thesis using assms(1,2) by (auto simp: insert_predicate_def MCInst_insert0_def)
qed

lemma example_done:
  assumes "Opcode MI = ARM_t2IT" "Operands MI = [kImmediate c, kImmediate m]"
    and "thumb_done_t216 example_generated ud result MI = Some (S, ud', MI', n)"
  shows "Opcode MI' = ARM_t2IT \<and> is_imm MI' 0 \<and> is_imm MI' 1"
proof -
  obtain S1 ud1 MI1 where p: "AddThumbPredicate example_generated ud MI = (S1, ud1, MI1)" by (metis prod_cases3)
  have "MI' = MI \<or> MI' = MI1" using assms(3) by (auto simp: thumb_done_t216_def p Let_def split: if_splits)
  then show ?thesis using example_predicate [OF assms(1,2) p] assms(1,2) front_imm [of MI'] by auto
qed

lemma example_thumb:
  assumes "Thumb_getInstruction example_generated ud MI code k = Some (True, ud', MI', n)" "Operands MI = []"
  shows "Opcode MI' = ARM_t2IT \<and> is_imm MI' 0 \<and> is_imm MI' 1"
proof -
  obtain S where "Thumb_getInstruction_impl example_generated ud MI code k = Some (S, ud', MI', n)" "S \<noteq> MCDisassembler_Fail"
    using assms(1) by (auto simp: Thumb_getInstruction_def)
  moreover have "DecoderTableThumb16 example_generated = [7, 0]" "DecoderTableThumbSBit16 example_generated = [7, 0]"
    by (simp_all add: example_generated_def)
  then have "decodeInstruction_2 example_generated (DecoderTableThumb16 example_generated) i insn mode = Some (MCDisassembler_Fail, i)"
    "decodeInstruction_2 example_generated (DecoderTableThumbSBit16 example_generated) i insn mode = Some (MCDisassembler_Fail, i)" for i insn mode
    by (simp_all add: decodeInstruction_2_def reject_all)
  ultimately obtain insn ok MI1 where
    "decodeInstruction_2 example_generated (DecoderTableThumb216 example_generated) (MCInst_clear (MCInst_clear MI)) insn (cs_mode ud) = Some (ok, MI1)"
    "ok \<noteq> MCDisassembler_Fail" "thumb_done_t216 example_generated ud ok MI1 = Some (S, ud', MI', n)"
    by (auto simp: Thumb_getInstruction_impl_def try_table_def Let_def dest!: example_thumb32 split: if_splits option.splits)
  then show ?thesis using example_t216 example_done by (metis MCInst_clear_Operands append_Nil)
qed

lemma example_prints: "prints example_params 0 buf"
proof -
  have "operands_fit mci'"
    if "arm_disasm example_generated h code mci insn n = Some (True, h', mci', insn', n')" "Operands mci = []" for h code mci insn n h' mci' insn' n'
    using that by (auto simp: arm_disasm_def operands_fit_IT dest!: example_thumb dest: example_arm split: disassembler.splits)
  moreover have "detail h' = detail h"
    if "arm_disasm example_generated h code mci insn n = Some (True, h', mci', insn', n')" for h code mci insn n h' mci' insn' n'
    using that by (auto simp: arm_disasm_def split: disassembler.splits)
  ultimately show ?thesis
    by (auto simp: all_printable_def printable_def arm_engine_def example_params_def)
qed

lemma thumb_handle_open: "cs_open (ARM_enable example_arch) example_memory True CS_ARCH_ARM CS_MODE_THUMB None = (CS_ERR_OK, Some thumb_handle)"
proof -
  have "CS_MODE_THUMB AND NOT (CS_MODE_V8 OR CS_MODE_MCLASS OR CS_MODE_THUMB OR CS_MODE_BIG_ENDIAN) = 0" by code_simp
  then show ?thesis
    by (simp add: thumb_handle_def cs_open_def ARM_enable_def ARM_module_init_def zero_handle_def example_memory_def CS_ARCH_ARM_def
        CS_ARCH_MAX_def ARM_getRegName_def Let_def)
qed

lemma thumb_handle_ok:
  "arm_inv example_params thumb_handle" "skip_ok thumb_handle" "memory_ok example_memory" "detail thumb_handle = 0"
  "sk_callback (skipdata_setup thumb_handle) = None" "\<forall>k. alloc example_memory k"
proof -
  show "arm_inv example_params thumb_handle" by (rule cs_open_ok(1) [OF example_params_ok thumb_handle_open])
  show "memory_ok example_memory"
    by (simp add: memory_ok_def example_memory_def example_insn_def insn_ok_def BYTES_SIZE_def MNEMONIC_SIZE_def OP_STR_SIZE_def SSTREAM_SIZE_def)
  show "skip_ok thumb_handle" "detail thumb_handle = 0" "sk_callback (skipdata_setup thumb_handle) = None"
    using cs_open_defaults [OF thumb_handle_open] by simp_all
qed (simp add: example_memory_def)




theorem ARM_get_insn_id_correct_witness:
  "\<exists>h' insn'. ARM_get_insn_id (replicate 2789 0) thumb_handle example_insn 58 = Some (h', insn') \<and> iid insn' = 14"
proof -
  have i: "insn_entry 58 14 [11] [10] [147, 138] False True \<in> set (tl insns)"
    by (simp add: insns_def insns_0_def insns_1_def)
  have s: "slot_ok thumb_handle example_insn"
    using thumb_handle_ok(4) by (simp add: slot_ok_def insn_ok_def example_insn_def BYTES_SIZE_def MNEMONIC_SIZE_def OP_STR_SIZE_def)
  show ?thesis using ARM_get_insn_id_correct [OF thumb_handle_ok(1) s i] by (auto simp: example_params_def)
qed

theorem flags_register_not_counted_witness:
  "let insn = example_insn\<lparr>iid := 2\<rparr>; d = mark_update_flags insn ''adds'' example_detail
   in update_flags d \<and> \<not> fst (cs_reg_write thumb_handle (insn\<lparr>idetail := Some d\<rparr>) ARM_REG_CPSR)"
proof -
  let ?insn = "example_insn\<lparr>iid := 2\<rparr>"
  have d: "mark_update_flags ?insn ''adds'' example_detail \<noteq> example_detail" by code_simp
  have c: "count_positive (regs_write example_detail) = Some (unat (regs_write_count example_detail))"
    "\<not> arr_exist (regs_write example_detail) (unat (regs_write_count example_detail)) ARM_REG_CPSR" by code_simp+
  show ?thesis using flags_register_not_counted [OF c refl d, of "?insn\<lparr>idetail := Some (mark_update_flags ?insn ''adds'' example_detail)\<rparr>"]
    by (simp add: Let_def)
qed

end
