(* ===== verification/Spec2Isabelle.thy ===== *)
theory Spec2Isabelle
  imports Bit_Blaster_Props ARM_Decode_Correct ARM_Module_Correct
begin

text \<open>
  Verification of the two native libraries on which Corana, a symbolic execution tool for ARM binaries, rests: the disassembler
  Capstone (\<^verbatim>\<open>libs/capstone\<close>), which turns the bytes of a program into instructions, and the simplifier and bit-blaster of
  the solver Z3 (\<^verbatim>\<open>libs/z3\<close>), which turn the path constraints of the program into propositional logic.

  \<^bold>\<open>How the program works.\<close>  Corana opens a handle of Capstone for ARM or Thumb and disassembles the sections of a binary;
  it executes the instructions symbolically and asks Z3 whether the condition of a path over 32-bit registers can hold.
  Inside Capstone the core (\<^verbatim>\<open>cs.c\<close>) calls the ARM module through the function pointers of the handle: the disassembler interprets
  generated decoder tables and calls the operand decoders, the instruction map adds the public number and the details, and the
  printer makes the text.  Inside Z3 the bit-blaster replaces each operation on bit-vectors by a circuit, whose gates are built by
  the Boolean rewriter.

  \<^bold>\<open>Z3: terms and Boolean rewriter.\<close>  \<open>Z3_Prelude\<close> holds the shared lemmas.  \<open>Z3_Expr\<close> is the term language of
  \<^verbatim>\<open>ast/ast.h\<close> with sorts and evaluation.  \<open>Bool_Rewriter\<close> has one definition per method of \<^verbatim>\<open>ast/rewriter/bool_rewriter.cpp\<close>;
  the options and the cost counter are a record that the methods thread, and the loop of
  \<^verbatim>\<open>local_ctx_simp\<close>, whose end depends on the cost limit, is a \<open>partial_function (option)\<close> that is proved to return.
  \<open>Bool_Rewriter_Ctx\<close> and \<open>Bool_Rewriter_Correct\<close> show total correctness: every method returns a well-sorted term with the
  value of the application it was asked to build, for every setting of the options.

  \<^bold>\<open>Z3: bit-blaster.\<close>  \<open>Bit_Blaster\<close> has the gates of \<^verbatim>\<open>bit_blaster.cpp\<close> and the circuits of \<^verbatim>\<open>bit_blaster_tpl_def.h\<close> over lists
  of bits.  The contract of the gates is the locale \<open>bb_gates\<close> (\<open>Bit_Blaster_Arith\<close>), in which
  \<open>Bit_Blaster_Arith\<close>, \<open>Bit_Blaster_Shift\<close> and \<open>Bit_Blaster_Mult\<close> compute what the adders, dividers, comparators, shifters and multipliers
  stand for; \<open>Bit_Blaster_Correct\<close> interprets it with the gates made by the rewriter, and \<open>Bit_Blaster_Props\<close> relates the
  circuits to machine words, \<open>Bit_Value\<close> being the number that bits stand for.  Division by zero, the most negative
  quotient, shifts beyond the width and overflow of products are covered.

  \<^bold>\<open>Capstone: arithmetic and operands.\<close>  \<open>Math_Extras\<close> is \<^verbatim>\<open>MathExtras.h\<close>, \<open>ARM_Addressing\<close> is \<^verbatim>\<open>ARMAddressingModes.h\<close>, on words of
  the width of the code; \<open>MC_Inst\<close> is \<^verbatim>\<open>MCInst.c\<close> with the status of a decoder and the locales \<open>operand_decoder\<close> and
  \<open>decoder_sequence\<close> for what a decoder may do to the operand array.

  \<^bold>\<open>Capstone: decoders and disassemblers.\<close>  \<open>ARM_Opcodes\<close> names instruction numbers.  \<open>ARM_Decode\<close>, \<open>ARM_Decode_Insn\<close>,
  \<open>ARM_Decode_Thumb\<close>, \<open>ARM_Decode_Misc\<close> and \<open>ARM_Decode_Neon\<close> have one definition per decoder of \<^verbatim>\<open>ARMDisassembler.c\<close>;
  \<open>ARM_Decode_Bounds\<close> shows that none of them can overflow the operand array, \<open>ARM_Decode_Correct\<close> that immediates, register lists, bit
  fields and branch offsets are those of the architecture.  \<open>ARM_ITBlock\<close> is the state of an IT block and its refinement of the register
  \<^verbatim>\<open>ITSTATE\<close>.  \<open>ARM_Disassembler\<close> is the interpreter of the decoder tables, a recursion on the rest of the table, and the
  two entry points; \<open>ARM_Disassembler_Correct\<close> shows that they return on every input, report sizes that the input has, and keep the
  invariant of the handle.

  \<^bold>\<open>Capstone: text, instruction map, core and module.\<close>  \<open>CS_Stream\<close> is the text buffer (\<^verbatim>\<open>SStream.c\<close>); printed numbers read back.
  \<open>CS_Mapping\<close> is the look-up of \<^verbatim>\<open>utils.c\<close> and the record of details, \<open>ARM_Insns\<close> the tables of \<^verbatim>\<open>ARMMapping.c\<close> with all 2211
  instructions, and \<open>ARM_Insns_Correct\<close> what the look-ups rely on.  \<open>CS_Engine\<close> is the core, \<^verbatim>\<open>cs.c\<close>: a handle is the record
  \<open>handle\<close>, the function pointers are the record \<open>engine\<close>, the loop of \<^verbatim>\<open>cs_disasm\<close> is a \<open>partial_function (option)\<close> over the record of
  its variables, and \<open>None\<close> is an access outside an array or through a null pointer, or a loop that does not
  end.  The contract of an architecture is the locale \<open>disassembly\<close> of \<open>CS_Engine_Correct\<close>, in which \<^verbatim>\<open>cs_disasm\<close> is proved to return,
  to stay inside its growing block and to agree with repeated \<^verbatim>\<open>cs_disasm_iter\<close>.  \<open>ARM_Module\<close> is \<^verbatim>\<open>ARMModule.c\<close> with
  \<^verbatim>\<open>ARM_get_insn_id\<close> and \<^verbatim>\<open>ARM_post_printer\<close>; \<open>ARM_Module_Correct\<close> interprets the contract with it, on the
  disassemblers and the instruction table of the source, and states the properties of the interface, among them the invariant of every
  handle that a sequence of calls can reach (the inductive predicate \<open>api\<close>).

  \<^bold>\<open>Bounds.\<close>  The block of \<^verbatim>\<open>cs_disasm\<close> grows by a factor of 1.6 in 32-bit arithmetic; for buffers below \<open>2 ^ 28\<close> bytes the
  product by 8 does not wrap around, which is why the theorems have that bound.  The operand array has 48 entries, and 47 are the
  most that any instruction gets.  No fuel is used: the two loops without an evident measure are proved to return.

  \<^bold>\<open>Parameters.\<close>  What TableGen generates for the disassembler (the decoder tables, the switch over the decoders, the operand
  descriptions) is the record \<open>generated\<close>, with the conditions \<open>generated_tables_ok\<close> and \<open>generated_bounded\<close>; the example of
  \<open>ARM_Disassembler_Correct\<close> has two of the tables as they are in the source.  The printer of ARM instructions is a parameter with the
  contract \<open>printer_ok\<close>.  The allocator, the content of fresh memory and the user's function for data are arguments.

  \<^bold>\<open>Not modelled.\<close>  The printer \<^verbatim>\<open>ARMInstPrinter.c\<close> except its post-pass, and the register tables it reads; the other
  architectures of Capstone; floating-point operands; the parsers, the word-level rewriters, the SAT and SMT
  engines and the number libraries of Z3, and the driver that applies the bit-blaster to whole terms; interruption by
  memory or time limits; and the Java code of Corana itself.

  \<^bold>\<open>What comes next.\<close>  The operand printers of \<^verbatim>\<open>ARMInstPrinter.c\<close>, which would replace the contract of the printer by its
  definition, and the bit-vector rewriter of Z3.
\<close>

end
